(* ===== verification/OC_Base.thy ===== *)
theory OC_Base
  imports Main "HOL-Library.AList" "HOL-Library.Sublist" "HOL-Library.Multiset"
begin

text \<open>
  The prelude of the development: Go's errors as a datatype, the result of a Go call
  (a value, an error, a panic), state passing with early return, the string functions of
  Go's standard library the operator uses, and Go's unordered iteration over a map.
  The generic lemmas are collected in \<open>go_simps\<close> (evaluation of the state passing
  combinators), \<open>str_simps\<close> (strings) and \<open>keeps_intros\<close> (invariants of
  programs), so that the component theories prove by \<open>simp add: go_simps\<close> and by
  \<open>intro keeps_intros\<close>.
\<close>

named_theorems go_simps \<open>evaluation of the state passing combinators\<close>
named_theorems str_simps \<open>the string functions\<close>
named_theorems keeps_intros \<open>invariants of programs\<close>
named_theorems emits_intros \<open>the calls programs make\<close>

section \<open>Errors and results\<close>

text \<open>
  The errors of the Kubernetes API that the operator tells apart (\<open>apierrors.IsNotFound\<close>,
  \<open>IsAlreadyExists\<close>, \<open>IsConflict\<close>), and any other one.
\<close>

datatype api_err = NotFound | AlreadyExists | ApiConflict | ApiOther string

text \<open>
  A Go \<open>error\<close>: an API error, an error made from text (\<open>fmt.Errorf\<close>,
  \<open>errors.Errorf\<close>), a wrapped error that keeps its cause (\<open>errors.Wrap\<close>), the
  aggregate of several errors, the error values and types of the operator itself, and the error of the
  cloud's own API with its code and details (\<open>httputils.JSONClientError\<close>).
\<close>

datatype goerr =
    ApiErr api_err
  | Errorf string
  | Wrapped string goerr
  | Aggregate "goerr list"
  | RequeueError string
  | ErrLostQuorum
  | FatalError string
  | ErrMemberNotFound
  | JSONClientError int string

primrec err_cause :: "goerr \<Rightarrow> goerr" where
  "err_cause (ApiErr e) = ApiErr e"
| "err_cause (Errorf m) = Errorf m"
| "err_cause (Wrapped m e) = err_cause e"
| "err_cause (Aggregate es) = Aggregate es"
| "err_cause (RequeueError m) = RequeueError m"
| "err_cause ErrLostQuorum = ErrLostQuorum"
| "err_cause (FatalError m) = FatalError m"
| "err_cause ErrMemberNotFound = ErrMemberNotFound"
| "err_cause (JSONClientError code details) = JSONClientError code details"

definition is_not_found :: "goerr \<Rightarrow> bool" where
  "is_not_found e \<longleftrightarrow> e = ApiErr NotFound"

definition is_already_exists :: "goerr \<Rightarrow> bool" where
  "is_already_exists e \<longleftrightarrow> e = ApiErr AlreadyExists"

definition is_conflict :: "goerr \<Rightarrow> bool" where
  "is_conflict e \<longleftrightarrow> e = ApiErr ApiConflict"

lemma api_err_tests [simp]:
  "is_not_found (ApiErr a) \<longleftrightarrow> a = NotFound"
  "is_already_exists (ApiErr a) \<longleftrightarrow> a = AlreadyExists"
  "is_conflict (ApiErr a) \<longleftrightarrow> a = ApiConflict"
  "\<not> is_not_found (Errorf m)" "\<not> is_not_found (Wrapped m e)"
  "\<not> is_conflict (Errorf m)" "\<not> is_already_exists (Errorf m)"
  by (simp_all add: is_not_found_def is_already_exists_def is_conflict_def)

text \<open>\<open>NewAggregate\<close>: no error for an empty list.\<close>

definition new_aggregate :: "goerr list \<Rightarrow> goerr option" where
  "new_aggregate es = (if es = [] then None else Some (Aggregate es))"

lemma new_aggregate_None [simp]: "new_aggregate es = None \<longleftrightarrow> es = []"
  by (simp add: new_aggregate_def)

text \<open>What a call ends with: its value, an error, or a panic.\<close>

datatype 'a res = Ret 'a | Fail goerr | Panic string

section \<open>State passing with early return\<close>

type_synonym ('s, 'a) go = "'s \<Rightarrow> 'a res \<times> 's"

definition ret :: "'a \<Rightarrow> ('s, 'a) go" where
  "ret x = (\<lambda>s. (Ret x, s))"

definition fail :: "goerr \<Rightarrow> ('s, 'a) go" where
  "fail e = (\<lambda>s. (Fail e, s))"

definition go_panic :: "string \<Rightarrow> ('s, 'a) go" where
  "go_panic m = (\<lambda>s. (Panic m, s))"

text \<open>Sequencing: an error or a panic of the first call is returned at once.\<close>

definition andthen :: "('s, 'a) go \<Rightarrow> ('a \<Rightarrow> ('s, 'b) go) \<Rightarrow> ('s, 'b) go" where
  "andthen m f = (\<lambda>s. case m s of
      (Ret x, s') \<Rightarrow> f x s'
    | (Fail e, s') \<Rightarrow> (Fail e, s')
    | (Panic p, s') \<Rightarrow> (Panic p, s'))"

definition seq :: "('s, unit) go \<Rightarrow> ('s, 'b) go \<Rightarrow> ('s, 'b) go" where
  "seq m n = andthen m (\<lambda>_. n)"

text \<open>Looking at an error instead of returning it (\<open>if err != nil\<close>); panics still escape.\<close>

definition attempt :: "('s, 'a) go \<Rightarrow> ('s, goerr + 'a) go" where
  "attempt m = (\<lambda>s. case m s of
      (Ret x, s') \<Rightarrow> (Ret (Inr x), s')
    | (Fail e, s') \<Rightarrow> (Ret (Inl e), s')
    | (Panic p, s') \<Rightarrow> (Panic p, s'))"

text \<open>\<open>defer\<close>: the state change happens however the body ends.\<close>

definition deferring :: "('s, 'a) go \<Rightarrow> ('s \<Rightarrow> 's) \<Rightarrow> ('s, 'a) go" where
  "deferring m g = (\<lambda>s. case m s of (r, s') \<Rightarrow> (r, g s'))"

text \<open>Wrapping or replacing the error a call returns.\<close>

definition map_err :: "(goerr \<Rightarrow> goerr) \<Rightarrow> ('s, 'a) go \<Rightarrow> ('s, 'a) go" where
  "map_err g m = (\<lambda>s. case m s of
      (Ret x, s') \<Rightarrow> (Ret x, s')
    | (Fail e, s') \<Rightarrow> (Fail (g e), s')
    | (Panic p, s') \<Rightarrow> (Panic p, s'))"

definition modify :: "('s \<Rightarrow> 's) \<Rightarrow> ('s, unit) go" where
  "modify g = (\<lambda>s. (Ret (), g s))"

definition gets :: "('s \<Rightarrow> 'a) \<Rightarrow> ('s, 'a) go" where
  "gets g = (\<lambda>s. (Ret (g s), s))"

definition guarded :: "bool \<Rightarrow> ('s, unit) go \<Rightarrow> ('s, unit) go" where
  "guarded b m = (if b then m else ret ())"

definition lift_err :: "goerr option \<Rightarrow> ('s, unit) go" where
  "lift_err r = (case r of None \<Rightarrow> ret () | Some e \<Rightarrow> fail e)"

text \<open>Using a value that may be missing: a nil dereference, an empty list, a failed lookup panics.\<close>

definition from_option :: "string \<Rightarrow> 'a option \<Rightarrow> ('s, 'a) go" where
  "from_option why x = (case x of None \<Rightarrow> go_panic why | Some y \<Rightarrow> ret y)"

fun for_each :: "'x list \<Rightarrow> ('x \<Rightarrow> ('s, unit) go) \<Rightarrow> ('s, unit) go" where
  "for_each [] f = ret ()"
| "for_each (x # xs) f = seq (f x) (for_each xs f)"

lemma go_eval [go_simps]:
  "ret x s = (Ret x, s)"
  "fail e s = (Fail e, s)"
  "go_panic p s = (Panic p, s)"
  "modify g s = (Ret (), g s)"
  "gets h s = (Ret (h s), s)"
  by (simp_all add: ret_def fail_def go_panic_def modify_def gets_def)

lemma andthen_eval [go_simps]:
  "m s = (Ret x, s') \<Longrightarrow> andthen m f s = f x s'"
  "m s = (Fail e, s') \<Longrightarrow> andthen m f s = (Fail e, s')"
  "m s = (Panic p, s') \<Longrightarrow> andthen m f s = (Panic p, s')"
  by (simp_all add: andthen_def)

lemma seq_eval [go_simps]:
  "m s = (Ret x, s') \<Longrightarrow> seq m n s = n s'"
  "m s = (Fail e, s') \<Longrightarrow> seq m n s = (Fail e, s')"
  "m s = (Panic p, s') \<Longrightarrow> seq m n s = (Panic p, s')"
  by (simp_all add: seq_def andthen_def)

lemma attempt_eval [go_simps]:
  "m s = (Ret x, s') \<Longrightarrow> attempt m s = (Ret (Inr x), s')"
  "m s = (Fail e, s') \<Longrightarrow> attempt m s = (Ret (Inl e), s')"
  "m s = (Panic p, s') \<Longrightarrow> attempt m s = (Panic p, s')"
  by (simp_all add: attempt_def)

lemma map_err_eval [go_simps]:
  "m s = (Ret x, s') \<Longrightarrow> map_err g m s = (Ret x, s')"
  "m s = (Fail e, s') \<Longrightarrow> map_err g m s = (Fail (g e), s')"
  "m s = (Panic p, s') \<Longrightarrow> map_err g m s = (Panic p, s')"
  by (simp_all add: map_err_def)

lemma deferring_eval [go_simps]: "deferring m g s = (fst (m s), g (snd (m s)))"
  by (simp add: deferring_def split: prod.splits)

lemma guarded_eval [go_simps]:
  "guarded True m = m" "guarded False m = ret ()"
  by (simp_all add: guarded_def)

lemma lift_err_eval [go_simps]:
  "lift_err None = ret ()" "lift_err (Some e) = fail e"
  by (simp_all add: lift_err_def)

text \<open>The three ends of a call, for case analysis.\<close>

lemma go_cases:
  obtains (Ret) x s' where "m s = (Ret x, s')"
    | (Fail) e s' where "m s = (Fail e, s')"
    | (Panic) p s' where "m s = (Panic p, s')"
  by (metis res.exhaust surj_pair)

lemma andthen_Ret_iff:
  "andthen m f s = (Ret y, s') \<longleftrightarrow> (\<exists>x t. m s = (Ret x, t) \<and> f x t = (Ret y, s'))"
  by (cases m s rule: go_cases) (auto simp: go_simps)

lemma andthen_attempt_Ret:
  "andthen (attempt m) f s = (Ret y, s') \<longleftrightarrow>
     (\<exists>x t. m s = (Ret x, t) \<and> f (Inr x) t = (Ret y, s')) \<or> (\<exists>e t. m s = (Fail e, t) \<and> f (Inl e) t = (Ret y, s'))"
  by (cases m s rule: go_cases) (auto simp: go_simps)

lemma seq_Ret_iff: "seq m n s = (Ret y, s') \<longleftrightarrow> (\<exists>t. m s = (Ret (), t) \<and> n t = (Ret y, s'))"
  by (auto simp: seq_def andthen_Ret_iff)

lemma map_err_Ret_iff: "map_err g m s = (Ret x, t) \<longleftrightarrow> m s = (Ret x, t)"
  by (cases m s rule: go_cases) (auto simp: go_simps)

lemma lift_err_Ret_iff: "lift_err e s = (Ret x, t) \<longleftrightarrow> e = None \<and> t = s"
  by (cases e) (auto simp: go_simps)

lemma andthen_snd:
  "snd (andthen m f s) = (case m s of (Ret x, t) \<Rightarrow> snd (f x t) | (_, t) \<Rightarrow> t)"
  by (cases m s rule: go_cases) (auto simp: go_simps)

subsection \<open>Invariants of programs\<close>

text \<open>\<open>keeps I m\<close>: however \<open>m\<close> ends, it ends in \<open>I\<close> when started in \<open>I\<close>.\<close>

definition keeps :: "('s \<Rightarrow> bool) \<Rightarrow> ('s, 'a) go \<Rightarrow> bool" where
  "keeps I m \<longleftrightarrow> (\<forall>s. I s \<longrightarrow> I (snd (m s)))"

lemma keepsD: "keeps I m \<Longrightarrow> I s \<Longrightarrow> I (snd (m s))"
  by (simp add: keeps_def)

lemma keepsD_eq: "keeps I m \<Longrightarrow> m s = (r, t) \<Longrightarrow> I s \<Longrightarrow> I t"
  by (metis keepsD snd_conv)

lemma keeps_pure [keeps_intros]:
  "keeps I (ret x)" "keeps I (fail e)" "keeps I (go_panic p)" "keeps I (gets h)"
  "keeps I (lift_err r)"
  by (auto simp: keeps_def go_simps lift_err_def split: option.splits)

lemma keeps_modify [keeps_intros]: "(\<And>s. I s \<Longrightarrow> I (g s)) \<Longrightarrow> keeps I (modify g)"
  by (simp add: keeps_def go_simps)

lemma keeps_andthen [keeps_intros]:
  assumes "keeps I m" and "\<And>x. keeps I (f x)"
  shows "keeps I (andthen m f)"
proof (unfold keeps_def, intro allI impI)
  fix s assume "I s"
  with assms(1) have t: "I (snd (m s))" by (rule keepsD)
  show "I (snd (andthen m f s))"
  proof (cases m s rule: go_cases)
    case (Ret x s')
    with t assms(2) show ?thesis by (auto simp: go_simps dest: keepsD)
  qed (use t in \<open>simp_all add: go_simps\<close>)
qed

lemma keeps_seq [keeps_intros]: "keeps I m \<Longrightarrow> keeps I n \<Longrightarrow> keeps I (seq m n)"
  unfolding seq_def by (rule keeps_andthen)

lemma keeps_attempt [keeps_intros]: "keeps I m \<Longrightarrow> keeps I (attempt m)"
  by (auto simp: keeps_def attempt_def split: prod.splits res.splits)

lemma keeps_map_err [keeps_intros]: "keeps I m \<Longrightarrow> keeps I (map_err g m)"
  by (auto simp: keeps_def map_err_def split: prod.splits res.splits)

lemma keeps_deferring [keeps_intros]:
  "keeps I m \<Longrightarrow> (\<And>s. I s \<Longrightarrow> I (g s)) \<Longrightarrow> keeps I (deferring m g)"
  by (auto simp: keeps_def deferring_def split: prod.splits)

lemma keeps_guarded [keeps_intros]: "keeps I m \<Longrightarrow> keeps I (guarded b m)"
  by (auto simp: guarded_def intro: keeps_intros)

lemma keeps_for_each [keeps_intros]: "(\<And>x. keeps I (f x)) \<Longrightarrow> keeps I (for_each xs f)"
  by (induction xs) (auto intro: keeps_intros)

subsection \<open>The calls of a program\<close>

text \<open>
  \<open>emits_on log P m s\<close>: \<open>m\<close> only adds calls that satisfy \<open>P\<close> to the log when it starts in \<open>s\<close>.
\<close>

definition emits_on :: "('s \<Rightarrow> 'c list) \<Rightarrow> ('c \<Rightarrow> bool) \<Rightarrow> ('s, 'a) go \<Rightarrow> 's \<Rightarrow> bool" where
  "emits_on log P m s \<longleftrightarrow> (\<exists>new. log (snd (m s)) = log s @ new \<and> list_all P new)"

lemma emits_quiet:
  assumes "log (snd (m s)) = log s"
  shows "emits_on log P m s"
  using assms unfolding emits_on_def by (intro exI [of _ "[]"]) simp

lemma emits_pure [emits_intros]:
  "emits_on log P (ret x) s" "emits_on log P (fail e) s" "emits_on log P (go_panic p) s" "emits_on log P (gets h) s"
  "emits_on log P (from_option w y) s" "emits_on log P (lift_err r) s"
  by (rule emits_quiet, simp add: go_simps from_option_def lift_err_def split: option.splits)+

lemma emits_modify [emits_intros]: "log (g s) = log s \<Longrightarrow> emits_on log P (modify g) s"
  by (rule emits_quiet) (simp add: go_simps)

lemma emits_andthen [emits_intros]:
  assumes "emits_on log P m s" "\<And>x t. m s = (Ret x, t) \<Longrightarrow> emits_on log P (f x) t"
  shows "emits_on log P (andthen m f) s"
proof (cases m s rule: go_cases)
  case (Ret x t)
  then obtain n1 where n1: "log t = log s @ n1" "list_all P n1"
    using assms(1) by (auto simp: emits_on_def)
  obtain n2 where "log (snd (f x t)) = log t @ n2" "list_all P n2"
    using assms(2) [OF Ret] by (auto simp: emits_on_def)
  with n1 Ret show ?thesis by (auto simp: emits_on_def go_simps intro!: exI [of _ "n1 @ n2"])
qed (use assms(1) in \<open>auto simp: emits_on_def go_simps\<close>)

lemma emits_seq [emits_intros]:
  "emits_on log P m s \<Longrightarrow> (\<And>t. m s = (Ret (), t) \<Longrightarrow> emits_on log P n t) \<Longrightarrow> emits_on log P (seq m n) s"
  unfolding seq_def by (rule emits_andthen) auto

lemma emits_attempt [emits_intros]: "emits_on log P m s \<Longrightarrow> emits_on log P (attempt m) s"
  by (cases m s rule: go_cases) (auto simp: emits_on_def go_simps)

lemma emits_map_err [emits_intros]: "emits_on log P m s \<Longrightarrow> emits_on log P (map_err g m) s"
  by (cases m s rule: go_cases) (auto simp: emits_on_def go_simps)

lemma emits_on_deferring [emits_intros]:
  "emits_on log P m s \<Longrightarrow> (\<And>t. log (g t) = log t) \<Longrightarrow> emits_on log P (deferring m g) s"
  by (auto simp: emits_on_def go_simps)

lemma emits_guarded [emits_intros]: "(b \<Longrightarrow> emits_on log P m s) \<Longrightarrow> emits_on log P (guarded b m) s"
  by (auto simp: guarded_def intro: emits_intros)

lemma emits_for_each:
  "(\<And>x t. x \<in> set xs \<Longrightarrow> emits_on log P (f x) t) \<Longrightarrow> emits_on log P (for_each xs f) s"
  by (induction xs arbitrary: s) (auto intro!: emits_intros)

lemma emits_mono: "emits_on log P m s \<Longrightarrow> (\<And>c. P c \<Longrightarrow> Q c) \<Longrightarrow> emits_on log Q m s"
  unfolding emits_on_def by (auto simp: list_all_iff)

lemma emitsD: "emits_on log P m s \<Longrightarrow> m s = (r, t) \<Longrightarrow> log t = log s @ new \<Longrightarrow> c \<in> set new \<Longrightarrow> P c"
  by (auto simp: emits_on_def list_all_iff)

section \<open>Strings\<close>

text \<open>\<open>strings.Split\<close> with a separator of one character: there is always one part.\<close>

fun split_on :: "char \<Rightarrow> string \<Rightarrow> string list" where
  "split_on c [] = [[]]"
| "split_on c (x # xs) =
     (if x = c then [] # split_on c xs
      else (case split_on c xs of [] \<Rightarrow> [[x]] | p # ps \<Rightarrow> (x # p) # ps))"

text \<open>\<open>strings.Join\<close>.\<close>

fun join_with :: "string \<Rightarrow> string list \<Rightarrow> string" where
  "join_with sep [] = []"
| "join_with sep [p] = p"
| "join_with sep (p # q # ps) = p @ sep @ join_with sep (q # ps)"

text \<open>\<open>strings.LastIndex\<close> of one character: the text before its last occurrence, if any.\<close>

fun before_last :: "char \<Rightarrow> string \<Rightarrow> string option" where
  "before_last c [] = None"
| "before_last c (x # xs) =
     (case before_last c xs of
        Some p \<Rightarrow> Some (x # p)
      | None \<Rightarrow> (if x = c then Some [] else None))"

text \<open>\<open>strings.TrimPrefix\<close>.\<close>

definition trim_prefix :: "string \<Rightarrow> string \<Rightarrow> string" where
  "trim_prefix p xs = (if prefix p xs then drop (length p) xs else xs)"

text \<open>\<open>strings.Contains\<close>.\<close>

fun contains_str :: "string \<Rightarrow> string \<Rightarrow> bool" where
  "contains_str [] sub \<longleftrightarrow> sub = []"
| "contains_str (c # cs) sub \<longleftrightarrow> take (length sub) (c # cs) = sub \<or> contains_str cs sub"

text \<open>\<open>utils.IsInStringArray\<close>.\<close>

definition in_strings :: "string \<Rightarrow> string list \<Rightarrow> bool" where
  "in_strings x xs = List.member xs x"

lemma in_strings_iff [simp]: "in_strings x xs \<longleftrightarrow> x \<in> set xs"
  by (simp add: in_strings_def)

text \<open>\<open>fmt.Sprintf("%d", n)\<close> of a number that is not negative, and of any integer.\<close>

definition digit_char :: "nat \<Rightarrow> char" where
  "digit_char d = ''0123456789'' ! d"

fun show_nat :: "nat \<Rightarrow> string" where
  "show_nat n = (if n < 10 then [digit_char n] else show_nat (n div 10) @ [digit_char (n mod 10)])"

declare show_nat.simps [simp del]

definition show_int :: "int \<Rightarrow> string" where
  "show_int i = (if i < 0 then CHR ''-'' # show_nat (nat (- i)) else show_nat (nat i))"

lemma split_on_nonempty [simp]: "split_on c xs \<noteq> []"
  by (induction xs) (auto split: list.splits)

lemma split_on_absent [str_simps]: "c \<notin> set xs \<Longrightarrow> split_on c xs = [xs]"
  by (induction xs) auto

lemma split_on_append [str_simps]:
  "c \<notin> set xs \<Longrightarrow> split_on c (xs @ c # ys) = xs # split_on c ys"
  by (induction xs) auto

lemma split_on_parts: "p \<in> set (split_on c xs) \<Longrightarrow> c \<notin> set p"
proof (induction xs arbitrary: p)
  case Nil
  then show ?case by simp
next
  case (Cons x xs)
  obtain q qs where "split_on c xs = q # qs"
    by (cases "split_on c xs") auto
  with Cons show ?case by (auto split: if_splits)
qed

lemma join_split: "join_with [c] (split_on c xs) = xs"
proof (induction xs)
  case Nil
  then show ?case by simp
next
  case (Cons x xs)
  obtain q qs where "split_on c xs = q # qs"
    by (cases "split_on c xs") auto
  with Cons show ?case by (cases qs) auto
qed

lemma before_last_None [str_simps]: "before_last c xs = None \<longleftrightarrow> c \<notin> set xs"
  by (induction xs) (auto split: option.splits)

lemma before_last_append [str_simps]:
  "c \<notin> set ys \<Longrightarrow> before_last c (xs @ c # ys) = Some xs"
  using before_last_None [of c ys] by (induction xs) auto

lemma before_last_Some:
  "before_last c xs = Some p \<Longrightarrow> \<exists>s. c \<notin> set s \<and> xs = p @ c # s"
proof (induction xs arbitrary: p)
  case Nil
  then show ?case by simp
next
  case (Cons x xs)
  show ?case
  proof (cases "before_last c xs")
    case None
    with Cons.prems show ?thesis
      by (auto simp: str_simps split: if_splits)
  next
    case (Some q)
    with Cons show ?thesis by auto
  qed
qed

lemma join_with_append [str_simps]:
  "ps \<noteq> [] \<Longrightarrow> join_with sep (ps @ [q]) = join_with sep ps @ sep @ q"
  by (induction sep ps rule: join_with.induct) auto

lemma digit_char_range: "d < 10 \<Longrightarrow> digit_char d \<in> set ''0123456789''"
  unfolding digit_char_def by (rule nth_mem) simp

lemma show_nat_digits: "c \<in> set (show_nat n) \<Longrightarrow> c \<in> set ''0123456789''"
proof (induction n rule: show_nat.induct)
  case (1 n)
  show ?case
  proof (cases "n < 10")
    case True
    with "1.prems" have "c = digit_char n" by (simp add: show_nat.simps [of n])
    with True show ?thesis by (simp only: digit_char_range)
  next
    case False
    then have "set (show_nat n) = set (show_nat (n div 10)) \<union> {digit_char (n mod 10)}"
      by (simp add: show_nat.simps [of n])
    moreover have "digit_char (n mod 10) \<in> set ''0123456789''"
      by (rule digit_char_range) simp
    ultimately show ?thesis
      using "1.IH" "1.prems" False by blast
  qed
qed

lemma show_nat_nonempty [simp]: "show_nat n \<noteq> []"
  by (subst show_nat.simps) simp

section \<open>Iteration over a Go map\<close>

text \<open>
  A Go map is an association list with distinct keys, and \<open>range\<close> over it visits every
  entry once in an order the language does not fix. The order of one iteration is given by
  a priority of its keys: sorting by an arbitrary priority yields every order.
\<close>

type_synonym range_order = "string \<Rightarrow> nat"

definition range_map :: "range_order \<Rightarrow> (string \<times> 'v) list \<Rightarrow> (string \<times> 'v) list" where
  "range_map ord m = sort_key (\<lambda>kv. ord (fst kv)) m"

lemma range_map_set [simp]: "set (range_map ord m) = set m"
  by (simp add: range_map_def)

lemma range_map_length [simp]: "length (range_map ord m) = length m"
  by (simp add: range_map_def)

lemma range_map_Nil [simp]: "range_map ord m = [] \<longleftrightarrow> m = []"
  by (metis length_0_conv range_map_length)

lemma mset_range_map [simp]: "mset (range_map ord m) = mset m"
  by (simp add: range_map_def)

lemma distinct_range_map [simp]: "distinct (map fst (range_map ord m)) = distinct (map fst m)"
proof -
  have "mset (map fst (range_map ord m)) = mset (map fst m)"
    by (metis mset_map mset_range_map)
  then show ?thesis by (metis mset_eq_imp_distinct_iff)
qed

text \<open>
  A loop whose steps commute for different keys gives the same result in every order.
\<close>

fun steps_commute :: "(string \<times> 'e \<Rightarrow> 's \<Rightarrow> 's) \<Rightarrow> (string \<times> 'e) list \<Rightarrow> bool" where
  "steps_commute step [] = True"
| "steps_commute step (x # xs) =
     ((\<forall>y\<in>set xs. \<forall>s. step x (step y s) = step y (step x s)) \<and> steps_commute step xs)"

lemma steps_commuteD:
  assumes "steps_commute step xs" "x \<in> set xs" "y \<in> set xs"
  shows "step x \<circ> step y = step y \<circ> step x"
  using assms
proof (induction xs)
  case (Cons z xs)
  then show ?case by (auto simp: fun_eq_iff)
qed simp

lemma fold_range_map:
  assumes "steps_commute step xs"
  shows "fold step (range_map ord xs) = fold step xs"
  by (rule fold_multiset_equiv) (use assms in \<open>auto intro: steps_commuteD\<close>)

fun setters_commute :: "(('d \<Rightarrow> 'd) \<Rightarrow> 's \<Rightarrow> 's) list \<Rightarrow> bool" where
  "setters_commute [] = True"
| "setters_commute (u # us) =
     ((\<forall>v\<in>set us. \<forall>f g s. u f (v g s) = v g (u f s)) \<and> setters_commute us)"

lemma setters_steps_commute:
  assumes "setters_commute (map set_of xs)" "\<And>x. step x = set_of x (F x)"
  shows "steps_commute step xs"
  using assms by (induction xs) auto

section \<open>Numbers and names\<close>

text \<open>The conversion of an \<open>int\<close> to an \<open>int32\<close>.\<close>

definition int32 :: "int \<Rightarrow> int" where
  "int32 n = (n + 2147483648) mod 4294967296 - 2147483648"

lemma int32_id: "- 2147483648 \<le> n \<Longrightarrow> n < 2147483648 \<Longrightarrow> int32 n = n"
  by (simp add: int32_def)

text \<open>\<open>IsDNS1123Subdomain\<close>: labels of lower case letters, digits and inner dashes, at most 253 characters.\<close>

definition is_dns_char :: "char \<Rightarrow> bool" where
  "is_dns_char c \<longleftrightarrow> c \<in> set ''abcdefghijklmnopqrstuvwxyz0123456789''"

definition is_dns_label :: "string \<Rightarrow> bool" where
  "is_dns_label l \<longleftrightarrow> l \<noteq> [] \<and> is_dns_char (hd l) \<and> is_dns_char (last l)
     \<and> list_all (\<lambda>c. is_dns_char c \<or> c = CHR ''-'') l"

definition IsDNS1123Subdomain :: "string \<Rightarrow> bool" where
  "IsDNS1123Subdomain s \<longleftrightarrow> length s \<le> 253 \<and> list_all is_dns_label (split_on (CHR ''.'') s)"

end
