(* ===== verification/K8s_Types.thy ===== *)
theory K8s_Types
  imports OC_Base
begin

text \<open>
  The Kubernetes API objects the operator builds and reads, each with the fields the
  operator touches. A value the operator only passes through, without reading it, is its
  serialised form (\<open>raw\<close>). A Go map that may be \<open>nil\<close> is an optional association list
  and a pointer is an option.
\<close>

type_synonym raw = string
type_synonym strmap = "(string \<times> string) list"
type_synonym gomap = "strmap option"

text \<open>Reading a key of a map that may be nil: the zero value \<open>""\<close> where it is absent.\<close>

definition gomap_get :: "gomap \<Rightarrow> string \<Rightarrow> string option" where
  "gomap_get m k = (case m of None \<Rightarrow> None | Some kvs \<Rightarrow> map_of kvs k)"

definition gomap_str :: "gomap \<Rightarrow> string \<Rightarrow> string" where
  "gomap_str m k = (case gomap_get m k of None \<Rightarrow> [] | Some v \<Rightarrow> v)"

text \<open>Writing a key, with the map made first where it is nil.\<close>

definition gomap_set :: "string \<Rightarrow> string \<Rightarrow> gomap \<Rightarrow> gomap" where
  "gomap_set k v m = Some (AList.update k v (case m of None \<Rightarrow> [] | Some kvs \<Rightarrow> kvs))"

lemma gomap_get_set [simp]:
  "gomap_get (gomap_set k v m) k' = (if k' = k then Some v else gomap_get m k')"
  by (auto simp: gomap_get_def gomap_set_def update_conv' split: option.splits)

record OwnerReference =
  or_APIVersion :: string
  or_Kind :: string
  or_Name :: string
  or_UID :: string
  or_Controller :: "bool option"
  or_BlockOwnerDeletion :: "bool option"

record ObjectMeta =
  om_Name :: string
  om_Namespace :: string
  om_UID :: string
  om_ResourceVersion :: string
  om_Generation :: int
  om_DeletionTimestamp :: "string option"
  om_Labels :: gomap
  om_Annotations :: gomap
  om_OwnerReferences :: "OwnerReference list"

record Toleration =
  tol_Key :: string
  tol_Operator :: string
  tol_Value :: string
  tol_Effect :: string

record PodDNSConfig =
  dns_Nameservers :: "string list"
  dns_Searches :: "string list"
  dns_Options :: "(string \<times> string option) list"

record NodeSelectorRequirement =
  nsr_Key :: string
  nsr_Operator :: string
  nsr_Values :: "string list"

text \<open>
  Node affinity: the required terms (each a list of match expressions) and the preferred
  part; pod anti-affinity: the required and the preferred terms the operator writes.
\<close>

record NodeAffinity =
  na_Required :: "NodeSelectorRequirement list list option"
  na_Preferred :: raw

record PodAffinityTerm =
  pat_MatchLabels :: strmap
  pat_TopologyKey :: string

record PodAntiAffinity =
  paa_Required :: "PodAffinityTerm list"
  paa_Preferred :: "(int \<times> PodAffinityTerm) list"

record PodAffinity =
  pa_Required :: "PodAffinityTerm list"
  pa_Preferred :: raw

record Affinity =
  aff_NodeAffinity :: "NodeAffinity option"
  aff_PodAffinity :: "PodAffinity option"
  aff_PodAntiAffinity :: "PodAntiAffinity option"

definition empty_Affinity :: Affinity where
  "empty_Affinity = \<lparr>aff_NodeAffinity = None, aff_PodAffinity = None, aff_PodAntiAffinity = None\<rparr>"

datatype VolumeSource =
    VolNone
  | VolSecret string "(string \<times> string) list"
  | VolConfigMap string "(string \<times> string) list"
  | VolHostPath string string
  | VolPVC string bool
  | VolEmptyDir string

record Volume =
  vol_Name :: string
  vol_Source :: VolumeSource

record VolumeMount =
  vm_Name :: string
  vm_ReadOnly :: bool
  vm_MountPath :: string
  vm_MountPropagation :: "string option"

record ContainerPort =
  cp_Name :: string
  cp_ContainerPort :: int
  cp_Protocol :: string

datatype ProbeHandler =
    ProbeExec "string list"
  | ProbeHTTPGet string int string
  | ProbeHTTPGetHost string string int string

record Probe =
  pr_Handler :: ProbeHandler
  pr_InitialDelaySeconds :: int
  pr_TimeoutSeconds :: int
  pr_PeriodSeconds :: int
  pr_SuccessThreshold :: int
  pr_FailureThreshold :: int

record ResourceRequirements =
  rr_Limits :: gomap
  rr_Requests :: gomap

text \<open>The security context of a container: whether it is privileged and the capabilities added.\<close>

record SecurityContext =
  sc_Privileged :: "bool option"
  sc_AddCapabilities :: "string list"

text \<open>A variable of the environment: a value, or the path of a field of the pod (\<open>ValueFrom.FieldRef\<close>).\<close>

datatype EnvVar =
    EnvValue string string
  | EnvFieldRef string string

record Container =
  ct_Name :: string
  ct_Image :: string
  ct_Command :: "string list"
  ct_Args :: "string list"
  ct_WorkingDir :: string
  ct_Ports :: "ContainerPort list"
  ct_Env :: "EnvVar list"
  ct_Resources :: ResourceRequirements
  ct_VolumeMounts :: "VolumeMount list"
  ct_LivenessProbe :: "Probe option"
  ct_ReadinessProbe :: "Probe option"
  ct_StartupProbe :: "Probe option"
  ct_SecurityContext :: "SecurityContext option"
  ct_ImagePullPolicy :: string

definition no_resources :: ResourceRequirements where
  "no_resources = \<lparr>rr_Limits = None, rr_Requests = None\<rparr>"

definition zero_Container :: Container where
  "zero_Container = \<lparr>ct_Name = [], ct_Image = [], ct_Command = [], ct_Args = [], ct_WorkingDir = [], ct_Ports = [], ct_Env = [],
     ct_Resources = no_resources, ct_VolumeMounts = [], ct_LivenessProbe = None,
     ct_ReadinessProbe = None, ct_StartupProbe = None, ct_SecurityContext = None, ct_ImagePullPolicy = []\<rparr>"

record PodSpec =
  ps_Affinity :: "Affinity option"
  ps_NodeSelector :: gomap
  ps_InitContainers :: "Container list"
  ps_Containers :: "Container list"
  ps_RestartPolicy :: string
  ps_Tolerations :: "Toleration list"
  ps_Volumes :: "Volume list"
  ps_HostNetwork :: bool
  ps_HostPID :: bool
  ps_HostIPC :: bool
  ps_DNSPolicy :: string
  ps_DNSConfig :: "PodDNSConfig option"
  ps_ImagePullSecrets :: "string list"
  ps_PriorityClassName :: string
  ps_Hostname :: string
  ps_Subdomain :: string
  ps_ShareProcessNamespace :: "bool option"
  ps_AutomountServiceAccountToken :: "bool option"
  ps_SecurityContext :: "raw option"
  ps_ServiceAccountName :: string
  ps_TerminationGracePeriodSeconds :: "int option"

definition zero_PodSpec :: PodSpec where
  "zero_PodSpec = \<lparr>ps_Affinity = None, ps_NodeSelector = None, ps_InitContainers = [],
     ps_Containers = [], ps_RestartPolicy = [], ps_Tolerations = [], ps_Volumes = [],
     ps_HostNetwork = False, ps_HostPID = False, ps_HostIPC = False, ps_DNSPolicy = [],
     ps_DNSConfig = None, ps_ImagePullSecrets = [], ps_PriorityClassName = [],
     ps_Hostname = [], ps_Subdomain = [], ps_ShareProcessNamespace = None,
     ps_AutomountServiceAccountToken = None, ps_SecurityContext = None, ps_ServiceAccountName = [],
     ps_TerminationGracePeriodSeconds = None\<rparr>"

record PodTemplateSpec =
  pt_Labels :: gomap
  pt_Annotations :: gomap
  pt_Spec :: PodSpec

record DeploymentCondition =
  dc_Type :: string
  dc_Status :: string
  dc_Reason :: string

record AppsDeploymentStatus =
  ads_ObservedGeneration :: int
  ads_Replicas :: int
  ads_UpdatedReplicas :: int
  ads_AvailableReplicas :: int
  ads_Conditions :: "DeploymentCondition list"

text \<open>A label selector: its \<open>MatchLabels\<close>.\<close>

type_synonym LabelSelector = gomap

record AppsDeploymentSpec =
  dsp_Replicas :: "int option"
  dsp_Selector :: "LabelSelector option"
  dsp_Template :: PodTemplateSpec
  dsp_Strategy :: string

record Deployment =
  dep_meta :: ObjectMeta
  dep_Spec :: AppsDeploymentSpec
  dep_Status :: AppsDeploymentStatus

record DaemonSetUpdateStrategy =
  dus_Type :: string
  dus_MaxUnavailable :: "int option"

record AppsDaemonSetSpec =
  dss_Selector :: "LabelSelector option"
  dss_Template :: PodTemplateSpec
  dss_UpdateStrategy :: DaemonSetUpdateStrategy

record AppsDaemonSetStatus =
  dnst_ObservedGeneration :: int
  dnst_DesiredNumberScheduled :: int
  dnst_UpdatedNumberScheduled :: int
  dnst_NumberReady :: int
  dnst_NumberAvailable :: int

record DaemonSet =
  dmn_meta :: ObjectMeta
  dmn_Spec :: AppsDaemonSetSpec
  dmn_Status :: AppsDaemonSetStatus

record BatchCronJobSpec =
  cjs_Schedule :: string
  cjs_StartingDeadlineSeconds :: "int option"
  cjs_ConcurrencyPolicy :: string
  cjs_Suspend :: "bool option"
  cjs_SuccessfulJobsHistoryLimit :: "int option"
  cjs_FailedJobsHistoryLimit :: "int option"
  cjs_JobLabels :: gomap
  cjs_JobAnnotations :: gomap
  cjs_BackoffLimit :: "int option"
  cjs_Template :: PodTemplateSpec

record CronJob =
  cj_meta :: ObjectMeta
  cj_Spec :: BatchCronJobSpec

record ServicePort =
  sp_Name :: string
  sp_Protocol :: string
  sp_Port :: int
  sp_TargetPort :: int
  sp_NodePort :: int

record CoreServiceSpec =
  css_Type :: string
  css_Selector :: gomap
  css_Ports :: "ServicePort list"
  css_ClusterIP :: string
  css_PublishNotReadyAddresses :: bool

record CoreService =
  svc_meta :: ObjectMeta
  svc_Spec :: CoreServiceSpec

record ConfigMap =
  cm_meta :: ObjectMeta
  cm_Data :: gomap

record PersistentVolumeClaim =
  pvc_meta :: ObjectMeta
  pvc_StorageClassName :: "string option"
  pvc_AccessModes :: "string list"
  pvc_Storage :: raw

record PodCondition =
  pc_Type :: string
  pc_Status :: string

record Pod =
  pod_meta :: ObjectMeta
  pod_Spec :: PodSpec
  pod_Phase :: string
  pod_Conditions :: "PodCondition list"

record Node =
  nd_meta :: ObjectMeta
  nd_Conditions :: "PodCondition list"
  nd_CPU :: "int option"
  nd_Memory :: "int option"

definition new_meta :: "string \<Rightarrow> string \<Rightarrow> gomap \<Rightarrow> gomap \<Rightarrow> OwnerReference list \<Rightarrow> ObjectMeta" where
  "new_meta n ns ls as os = \<lparr>om_Name = n, om_Namespace = ns, om_UID = [], om_ResourceVersion = [],
     om_Generation = 0, om_DeletionTimestamp = None, om_Labels = ls, om_Annotations = as,
     om_OwnerReferences = os\<rparr>"

lemma new_meta_sel [simp]:
  "om_Name (new_meta n ns ls as os) = n"
  "om_Namespace (new_meta n ns ls as os) = ns"
  "om_Labels (new_meta n ns ls as os) = ls"
  "om_Annotations (new_meta n ns ls as os) = as"
  "om_OwnerReferences (new_meta n ns ls as os) = os"
  "om_DeletionTimestamp (new_meta n ns ls as os) = None"
  by (simp_all add: new_meta_def)

end
