(* ===== verification/OC_Types.thy ===== *)
theory OC_Types
  imports K8s_Types "HOL-Library.Word"
begin

text \<open>
  The API types of the operator (\<^verbatim>\<open>pkg/apis/onecloud/v1alpha1/types.go\<close>): every struct as a
  record with the fields of the source in the source's order, a prefix standing for the
  struct (\<open>ds_Replicas\<close> is \<open>DeploymentSpec.Replicas\<close>), an embedded struct as a field of its
  own name, and \<open>zero_X\<close> the zero value of the struct. Integers that the operator only
  compares and stores are \<open>int\<close>; the etcd quota, on which it computes, is a 64-bit word.
  Then the methods of these types and of \<^verbatim>\<open>onecloudcluster.go\<close>.
\<close>

named_theorems ctypes \<open>the names of the component types and the other string constants of the API\<close>
named_theorems zero_defs \<open>the zero values of the structs\<close>

section \<open>Named constants\<close>

definition EtcdClusterPhaseNone :: string where [ctypes]:
  "EtcdClusterPhaseNone = []"

definition EtcdClusterPhaseCreating :: string where [ctypes]:
  "EtcdClusterPhaseCreating = ''Creating''"

definition EtcdClusterPhaseRunning :: string where [ctypes]:
  "EtcdClusterPhaseRunning = ''Running''"

definition EtcdClusterPhaseFailed :: string where [ctypes]:
  "EtcdClusterPhaseFailed = ''Failed''"

definition KeystoneComponentType :: string where [ctypes]:
  "KeystoneComponentType = ''keystone''"

definition RegionComponentType :: string where [ctypes]:
  "RegionComponentType = ''region''"

definition ClimcComponentType :: string where [ctypes]:
  "ClimcComponentType = ''climc''"

definition GlanceComponentType :: string where [ctypes]:
  "GlanceComponentType = ''glance''"

definition WebconsoleComponentType :: string where [ctypes]:
  "WebconsoleComponentType = ''webconsole''"

definition GuacdComponentType :: string where [ctypes]:
  "GuacdComponentType = ''guacd''"

definition SchedulerComponentType :: string where [ctypes]:
  "SchedulerComponentType = ''scheduler''"

definition LoggerComponentType :: string where [ctypes]:
  "LoggerComponentType = ''logger''"

definition InfluxdbComponentType :: string where [ctypes]:
  "InfluxdbComponentType = ''influxdb''"

definition VictoriaMetricsComponentType :: string where [ctypes]:
  "VictoriaMetricsComponentType = ''victoria-metrics''"

definition MonitorComponentType :: string where [ctypes]:
  "MonitorComponentType = ''monitor''"

definition APIGatewayComponentType :: string where [ctypes]:
  "APIGatewayComponentType = ''apigateway''"

definition APIGatewayComponentTypeEE :: string where [ctypes]:
  "APIGatewayComponentTypeEE = ''apigateway-ee''"

definition WebComponentType :: string where [ctypes]:
  "WebComponentType = ''web''"

definition YunionagentComponentType :: string where [ctypes]:
  "YunionagentComponentType = ''yunionagent''"

definition YunionconfComponentType :: string where [ctypes]:
  "YunionconfComponentType = ''yunionconf''"

definition KubeServerComponentType :: string where [ctypes]:
  "KubeServerComponentType = ''kubeserver''"

definition AnsibleServerComponentType :: string where [ctypes]:
  "AnsibleServerComponentType = ''ansibleserver''"

definition CloudnetComponentType :: string where [ctypes]:
  "CloudnetComponentType = ''cloudnet''"

definition CloudproxyComponentType :: string where [ctypes]:
  "CloudproxyComponentType = ''cloudproxy''"

definition CloudeventComponentType :: string where [ctypes]:
  "CloudeventComponentType = ''cloudevent''"

definition NotifyComponentType :: string where [ctypes]:
  "NotifyComponentType = ''notify''"

definition HostComponentType :: string where [ctypes]:
  "HostComponentType = ''host''"

definition HostDeployerComponentType :: string where [ctypes]:
  "HostDeployerComponentType = ''host-deployer''"

definition HostImageComponentType :: string where [ctypes]:
  "HostImageComponentType = ''host-image''"

definition BaremetalAgentComponentType :: string where [ctypes]:
  "BaremetalAgentComponentType = ''baremetal-agent''"

definition S3gatewayComponentType :: string where [ctypes]:
  "S3gatewayComponentType = ''s3gateway''"

definition DevtoolComponentType :: string where [ctypes]:
  "DevtoolComponentType = ''devtool''"

definition MeterComponentType :: string where [ctypes]:
  "MeterComponentType = ''meter''"

definition BillingComponentType :: string where [ctypes]:
  "BillingComponentType = ''billing''"

definition AutoUpdateComponentType :: string where [ctypes]:
  "AutoUpdateComponentType = ''autoupdate''"

definition CloudmonPingComponentType :: string where [ctypes]:
  "CloudmonPingComponentType = ''cloudmon-ping''"

definition CloudmonReportUsageComponentType :: string where [ctypes]:
  "CloudmonReportUsageComponentType = ''cloudmon-report-usage''"

definition CloudmonReportServerComponentType :: string where [ctypes]:
  "CloudmonReportServerComponentType = ''cloudmon-report-server''"

definition CloudmonReportHostComponentType :: string where [ctypes]:
  "CloudmonReportHostComponentType = ''cloudmon-report-host''"

definition CloudmonComponentType :: string where [ctypes]:
  "CloudmonComponentType = ''cloudmon''"

definition EsxiAgentComponentType :: string where [ctypes]:
  "EsxiAgentComponentType = ''esxi-agent''"

definition ServiceOperatorComponentType :: string where [ctypes]:
  "ServiceOperatorComponentType = ''onecloud-service-operator''"

definition OvnNorthComponentType :: string where [ctypes]:
  "OvnNorthComponentType = ''ovn-north''"

definition OvnHostComponentType :: string where [ctypes]:
  "OvnHostComponentType = ''ovn-host''"

definition VpcAgentComponentType :: string where [ctypes]:
  "VpcAgentComponentType = ''vpcagent''"

definition RegionDNSComponentType :: string where [ctypes]:
  "RegionDNSComponentType = ''region-dns''"

definition EtcdComponentType :: string where [ctypes]:
  "EtcdComponentType = ''etcd''"

definition EtcdClientComponentType :: string where [ctypes]:
  "EtcdClientComponentType = ''etcd-client''"

definition ItsmComponentType :: string where [ctypes]:
  "ItsmComponentType = ''itsm''"

definition TelegrafComponentType :: string where [ctypes]:
  "TelegrafComponentType = ''telegraf''"

definition CloudIdComponentType :: string where [ctypes]:
  "CloudIdComponentType = ''cloudid''"

definition SuggestionComponentType :: string where [ctypes]:
  "SuggestionComponentType = ''suggestion''"

definition ScheduledtaskComponentType :: string where [ctypes]:
  "ScheduledtaskComponentType = ''scheduledtask''"

definition ApiMapComponentType :: string where [ctypes]:
  "ApiMapComponentType = ''apimap''"

definition MonitorStackComponentType :: string where [ctypes]:
  "MonitorStackComponentType = ''monitor-stack''"

definition ReportComponentType :: string where [ctypes]:
  "ReportComponentType = ''report''"

definition LbagentComponentType :: string where [ctypes]:
  "LbagentComponentType = ''lbagent''"

definition EChartsSSRComponentType :: string where [ctypes]:
  "EChartsSSRComponentType = ''echarts-ssr''"

definition HostHealthComponentType :: string where [ctypes]:
  "HostHealthComponentType = ''host-health''"

definition HostSdnagentComponentType :: string where [ctypes]:
  "HostSdnagentComponentType = ''host-sdnagent''"

definition HostOvnControllerComponentType :: string where [ctypes]:
  "HostOvnControllerComponentType = ''host-ovn-controller''"

definition HostOvsdbServerComponentType :: string where [ctypes]:
  "HostOvsdbServerComponentType = ''host-ovsdb-server''"

definition HostOvsVswitchdComponentType :: string where [ctypes]:
  "HostOvsVswitchdComponentType = ''host-ovs-vswitchd''"

definition BastionHostComponentType :: string where [ctypes]:
  "BastionHostComponentType = ''bastionhost''"

definition CloudmuxComponentType :: string where [ctypes]:
  "CloudmuxComponentType = ''cloudmux''"

definition ExtdbComponentType :: string where [ctypes]:
  "ExtdbComponentType = ''extdb''"

definition LLMComponentType :: string where [ctypes]:
  "LLMComponentType = ''llm''"

definition McpServerComponentType :: string where [ctypes]:
  "McpServerComponentType = ''mcp-server''"

definition AiProxyComponentType :: string where [ctypes]:
  "AiProxyComponentType = ''aiproxy''"

definition NormalPhase :: string where [ctypes]:
  "NormalPhase = ''Normal''"

definition UpgradePhase :: string where [ctypes]:
  "UpgradePhase = ''Upgrade''"

definition ProductVersionFullStack :: string where [ctypes]:
  "ProductVersionFullStack = ''FullStack''"

definition ProductVersionCMP :: string where [ctypes]:
  "ProductVersionCMP = ''CMP''"

definition ProductVersionEdge :: string where [ctypes]:
  "ProductVersionEdge = ''Edge''"

definition ProductVersionLightEdge :: string where [ctypes]:
  "ProductVersionLightEdge = ''LightEdge''"

definition ProductVersionBaremetal :: string where [ctypes]:
  "ProductVersionBaremetal = ''Baremetal''"

definition ProductVersionAI :: string where [ctypes]:
  "ProductVersionAI = ''AI''"

definition DBEngineMySQL :: string where [ctypes]:
  "DBEngineMySQL = ''mysql''"

definition DBEngineClickhouse :: string where [ctypes]:
  "DBEngineClickhouse = ''clickhouse''"

definition DBEngineDameng :: string where [ctypes]:
  "DBEngineDameng = ''dameng''"

section \<open>The structs\<close>

record PodPolicy =
  pp_Labels :: gomap
  pp_NodeSelector :: gomap
  pp_Affinity :: "Affinity option"
  pp_AntiAffinity :: bool
  pp_Resources :: ResourceRequirements
  pp_Tolerations :: "Toleration list"
  pp_EtcdEnv :: "(string \<times> string) list"
  pp_PersistentVolumeClaimSpec :: "raw option"
  pp_Annotations :: gomap
  pp_BusyboxImage :: string
  pp_SecurityContext :: "raw option"
  pp_DNSTimeoutInSecond :: int

definition zero_PodPolicy :: PodPolicy where [zero_defs]:
  "zero_PodPolicy = \<lparr>pp_Labels = None, pp_NodeSelector = None, pp_Affinity = None, pp_AntiAffinity = False,
     pp_Resources = no_resources, pp_Tolerations = [], pp_EtcdEnv = [],
     pp_PersistentVolumeClaimSpec = None, pp_Annotations = None, pp_BusyboxImage = [],
     pp_SecurityContext = None, pp_DNSTimeoutInSecond = 0\<rparr>"

record MemberSecret =
  msec_PeerSecret :: string
  msec_ServerSecret :: string

definition zero_MemberSecret :: MemberSecret where [zero_defs]:
  "zero_MemberSecret = \<lparr>msec_PeerSecret = [], msec_ServerSecret = []\<rparr>"

record StaticTLS =
  stls_Member :: "MemberSecret option"
  stls_OperatorSecret :: string

definition zero_StaticTLS :: StaticTLS where [zero_defs]:
  "zero_StaticTLS = \<lparr>stls_Member = None, stls_OperatorSecret = []\<rparr>"

record TLSPolicy =
  tp_Static :: "StaticTLS option"

definition zero_TLSPolicy :: TLSPolicy where [zero_defs]:
  "zero_TLSPolicy = \<lparr>tp_Static = None\<rparr>"

record EtcdClusterSpec =
  ecs_Size :: int
  ecs_Repository :: string
  ecs_Version :: string
  ecs_Paused :: bool
  ecs_Pod :: "PodPolicy option"
  ecs_TLS :: "TLSPolicy option"
  ecs_CreatedSecrets :: "bool option"

definition zero_EtcdClusterSpec :: EtcdClusterSpec where [zero_defs]:
  "zero_EtcdClusterSpec = \<lparr>ecs_Size = 0, ecs_Repository = [], ecs_Version = [], ecs_Paused = False, ecs_Pod = None,
     ecs_TLS = None, ecs_CreatedSecrets = None\<rparr>"

record Etcd =
  etcd_EtcdClusterSpec :: EtcdClusterSpec
  etcd_Disable :: bool
  etcd_EnableTls :: "bool option"
  etcd_ClientNodePort :: int
  etcd_EtcdBackendQuotaSize :: "64 word option"

definition zero_Etcd :: Etcd where [zero_defs]:
  "zero_Etcd = \<lparr>etcd_EtcdClusterSpec = zero_EtcdClusterSpec, etcd_Disable = False,
     etcd_EnableTls = None, etcd_ClientNodePort = 0, etcd_EtcdBackendQuotaSize = None\<rparr>"

record Mysql =
  my_Host :: string
  my_Port :: int
  my_Username :: string
  my_Password :: string

type_synonym Clickhouse = Mysql

type_synonym Dameng = Mysql

definition zero_Mysql :: Mysql where [zero_defs]:
  "zero_Mysql = \<lparr>my_Host = [], my_Port = 0, my_Username = [], my_Password = []\<rparr>"

record Service =
  sv_Name :: string
  sv_Type :: string

definition zero_Service :: Service where [zero_defs]:
  "zero_Service = \<lparr>sv_Name = [], sv_Type = []\<rparr>"

record Minio =
  minio_Enable :: bool
  minio_Mode :: string

definition zero_Minio :: Minio where [zero_defs]:
  "zero_Minio = \<lparr>minio_Enable = False, minio_Mode = []\<rparr>"

record ResourceRequirement =
  rq_CPU :: "raw option"
  rq_Memory :: "raw option"
  rq_Storage :: string

definition zero_ResourceRequirement :: ResourceRequirement where [zero_defs]:
  "zero_ResourceRequirement = \<lparr>rq_CPU = None, rq_Memory = None, rq_Storage = []\<rparr>"

record ContainerSpec =
  cs_Image :: string
  cs_Repository :: string
  cs_ImageName :: string
  cs_Tag :: string
  cs_ImagePullPolicy :: string
  cs_Requests :: "ResourceRequirement option"
  cs_Limits :: "ResourceRequirement option"

definition zero_ContainerSpec :: ContainerSpec where [zero_defs]:
  "zero_ContainerSpec = \<lparr>cs_Image = [], cs_Repository = [], cs_ImageName = [], cs_Tag = [],
     cs_ImagePullPolicy = [], cs_Requests = None, cs_Limits = None\<rparr>"

record DeploymentSpec =
  ds_ContainerSpec :: ContainerSpec
  ds_DNSConfig :: "PodDNSConfig option"
  ds_Disable :: bool
  ds_Replicas :: int
  ds_Affinity :: "Affinity option"
  ds_NodeSelector :: gomap
  ds_Tolerations :: "Toleration list"
  ds_Annotations :: gomap
  ds_ImagePullSecrets :: "string list"
  ds_SlaveReplicas :: int

definition zero_DeploymentSpec :: DeploymentSpec where [zero_defs]:
  "zero_DeploymentSpec = \<lparr>ds_ContainerSpec = zero_ContainerSpec, ds_DNSConfig = None, ds_Disable = False,
     ds_Replicas = 0, ds_Affinity = None, ds_NodeSelector = None, ds_Tolerations = [],
     ds_Annotations = None, ds_ImagePullSecrets = [], ds_SlaveReplicas = 0\<rparr>"

record DeploymentServiceSpec =
  dvs_DeploymentSpec :: DeploymentSpec
  dvs_DisableTLS :: bool

definition zero_DeploymentServiceSpec :: DeploymentServiceSpec where [zero_defs]:
  "zero_DeploymentServiceSpec = \<lparr>dvs_DeploymentSpec = zero_DeploymentSpec, dvs_DisableTLS = False\<rparr>"

record ServicePortSpec =
  sps_InternalOnly :: bool
  sps_NodePort :: int

definition zero_ServicePortSpec :: ServicePortSpec where [zero_defs]:
  "zero_ServicePortSpec = \<lparr>sps_InternalOnly = False, sps_NodePort = 0\<rparr>"

record ServiceSpec =
  ss_ServicePortSpec :: ServicePortSpec

definition zero_ServiceSpec :: ServiceSpec where [zero_defs]:
  "zero_ServiceSpec = \<lparr>ss_ServicePortSpec = zero_ServicePortSpec\<rparr>"

record KeystoneSpec =
  ks_DeploymentServiceSpec :: DeploymentServiceSpec
  ks_PublicService :: ServiceSpec
  ks_AdminService :: ServiceSpec
  ks_BootstrapPassword :: string
  ks_DbEngine :: string

definition zero_KeystoneSpec :: KeystoneSpec where [zero_defs]:
  "zero_KeystoneSpec = \<lparr>ks_DeploymentServiceSpec = zero_DeploymentServiceSpec,
     ks_PublicService = zero_ServiceSpec, ks_AdminService = zero_ServiceSpec,
     ks_BootstrapPassword = [], ks_DbEngine = []\<rparr>"

record DeploymentServicePortSpec =
  dps_DeploymentSpec :: DeploymentSpec
  dps_Service :: ServiceSpec
  dps_DbEngine :: string

definition zero_DeploymentServicePortSpec :: DeploymentServicePortSpec where [zero_defs]:
  "zero_DeploymentServicePortSpec = \<lparr>dps_DeploymentSpec = zero_DeploymentSpec, dps_Service = zero_ServiceSpec,
     dps_DbEngine = []\<rparr>"

record RegionSpec =
  rs_DeploymentServicePortSpec :: DeploymentServicePortSpec
  rs_DNSServer :: string
  rs_DNSDomain :: string

definition zero_RegionSpec :: RegionSpec where [zero_defs]:
  "zero_RegionSpec = \<lparr>rs_DeploymentServicePortSpec = zero_DeploymentServicePortSpec, rs_DNSServer = [],
     rs_DNSDomain = []\<rparr>"

record DaemonSetSpec =
  dms_ContainerSpec :: ContainerSpec
  dms_Disable :: bool
  dms_Affinity :: "Affinity option"
  dms_NodeSelector :: gomap
  dms_Tolerations :: "Toleration list"
  dms_Annotations :: gomap
  dms_ImagePullSecrets :: "string list"
  dms_UpdateStrategy :: string
  dms_MaxUnavailable :: "int option"

definition zero_DaemonSetSpec :: DaemonSetSpec where [zero_defs]:
  "zero_DaemonSetSpec = \<lparr>dms_ContainerSpec = zero_ContainerSpec, dms_Disable = False, dms_Affinity = None,
     dms_NodeSelector = None, dms_Tolerations = [], dms_Annotations = None,
     dms_ImagePullSecrets = [], dms_UpdateStrategy = [], dms_MaxUnavailable = None\<rparr>"

record RegionDNSProxy =
  rdp_From :: string
  rdp_To :: "string list"

definition zero_RegionDNSProxy :: RegionDNSProxy where [zero_defs]:
  "zero_RegionDNSProxy = \<lparr>rdp_From = [], rdp_To = []\<rparr>"

record RegionDNSSpec =
  rds_DaemonSetSpec :: DaemonSetSpec
  rds_CacheTtl :: int
  rds_Proxies :: "RegionDNSProxy list"
  rds_InCloudOnly :: bool

definition zero_RegionDNSSpec :: RegionDNSSpec where [zero_defs]:
  "zero_RegionDNSSpec = \<lparr>rds_DaemonSetSpec = zero_DaemonSetSpec, rds_CacheTtl = 0, rds_Proxies = [],
     rds_InCloudOnly = False\<rparr>"

record StatefulDeploymentSpec =
  sds_DeploymentSpec :: DeploymentSpec
  sds_StorageClassName :: string

definition zero_StatefulDeploymentSpec :: StatefulDeploymentSpec where [zero_defs]:
  "zero_StatefulDeploymentSpec = \<lparr>sds_DeploymentSpec = zero_DeploymentSpec, sds_StorageClassName = []\<rparr>"

record GlanceSpec =
  gs_StatefulDeploymentSpec :: StatefulDeploymentSpec
  gs_Service :: ServiceSpec
  gs_SwitchToS3 :: bool
  gs_DbEngine :: string

definition zero_GlanceSpec :: GlanceSpec where [zero_defs]:
  "zero_GlanceSpec = \<lparr>gs_StatefulDeploymentSpec = zero_StatefulDeploymentSpec, gs_Service = zero_ServiceSpec,
     gs_SwitchToS3 = False, gs_DbEngine = []\<rparr>"

record WebconsoleSpec =
  wcs_DeploymentServicePortSpec :: DeploymentServicePortSpec
  wcs_Guacd :: ContainerSpec

definition zero_WebconsoleSpec :: WebconsoleSpec where [zero_defs]:
  "zero_WebconsoleSpec = \<lparr>wcs_DeploymentServicePortSpec = zero_DeploymentServicePortSpec,
     wcs_Guacd = zero_ContainerSpec\<rparr>"

record YunionagentSpec =
  yas_DaemonSetSpec :: DaemonSetSpec
  yas_Service :: ServiceSpec
  yas_DbEngine :: string

definition zero_YunionagentSpec :: YunionagentSpec where [zero_defs]:
  "zero_YunionagentSpec = \<lparr>yas_DaemonSetSpec = zero_DaemonSetSpec, yas_Service = zero_ServiceSpec,
     yas_DbEngine = []\<rparr>"

record InfluxdbSpec =
  ixs_StatefulDeploymentSpec :: StatefulDeploymentSpec
  ixs_Service :: ServiceSpec

definition zero_InfluxdbSpec :: InfluxdbSpec where [zero_defs]:
  "zero_InfluxdbSpec = \<lparr>ixs_StatefulDeploymentSpec = zero_StatefulDeploymentSpec,
     ixs_Service = zero_ServiceSpec\<rparr>"

record VictoriaMetricsSpec =
  vms_StatefulDeploymentSpec :: StatefulDeploymentSpec
  vms_Service :: ServiceSpec
  vms_RententionPeriodDays :: int

definition zero_VictoriaMetricsSpec :: VictoriaMetricsSpec where [zero_defs]:
  "zero_VictoriaMetricsSpec = \<lparr>vms_StatefulDeploymentSpec = zero_StatefulDeploymentSpec,
     vms_Service = zero_ServiceSpec, vms_RententionPeriodDays = 0\<rparr>"

record TelegrafSpec =
  tgs_DaemonSetSpec :: DaemonSetSpec
  tgs_InitContainerImage :: string
  tgs_EnableRaidPlugin :: bool
  tgs_TelegrafConfigDir :: string
  tgs_TelegrafRaid :: ContainerSpec

definition zero_TelegrafSpec :: TelegrafSpec where [zero_defs]:
  "zero_TelegrafSpec = \<lparr>tgs_DaemonSetSpec = zero_DaemonSetSpec, tgs_InitContainerImage = [],
     tgs_EnableRaidPlugin = False, tgs_TelegrafConfigDir = [],
     tgs_TelegrafRaid = zero_ContainerSpec\<rparr>"

record APIGatewaySpec =
  ags_DeploymentSpec :: DeploymentSpec
  ags_APIService :: ServiceSpec
  ags_WSService :: ServiceSpec
  ags_CorsHosts :: "string list"

definition zero_APIGatewaySpec :: APIGatewaySpec where [zero_defs]:
  "zero_APIGatewaySpec = \<lparr>ags_DeploymentSpec = zero_DeploymentSpec, ags_APIService = zero_ServiceSpec,
     ags_WSService = zero_ServiceSpec, ags_CorsHosts = []\<rparr>"

record WebSpec =
  ws_DeploymentSpec :: DeploymentSpec
  ws_UseHTTP :: bool
  ws_Overview :: ContainerSpec
  ws_Docs :: ContainerSpec

definition zero_WebSpec :: WebSpec where [zero_defs]:
  "zero_WebSpec = \<lparr>ws_DeploymentSpec = zero_DeploymentSpec, ws_UseHTTP = False,
     ws_Overview = zero_ContainerSpec, ws_Docs = zero_ContainerSpec\<rparr>"

record NotifySpec =
  ns_StatefulDeploymentSpec :: StatefulDeploymentSpec
  ns_Service :: ServiceSpec
  ns_Plugins :: ContainerSpec
  ns_DbEngine :: string

definition zero_NotifySpec :: NotifySpec where [zero_defs]:
  "zero_NotifySpec = \<lparr>ns_StatefulDeploymentSpec = zero_StatefulDeploymentSpec, ns_Service = zero_ServiceSpec,
     ns_Plugins = zero_ContainerSpec, ns_DbEngine = []\<rparr>"

record LbagentSpec =
  lbs_DaemonSetSpec :: DaemonSetSpec
  lbs_OvnController :: ContainerSpec
  lbs_MaxUnavailableCount :: int

definition zero_LbagentSpec :: LbagentSpec where [zero_defs]:
  "zero_LbagentSpec = \<lparr>lbs_DaemonSetSpec = zero_DaemonSetSpec, lbs_OvnController = zero_ContainerSpec,
     lbs_MaxUnavailableCount = 0\<rparr>"

record HostAgentSpec =
  has_DaemonSetSpec :: DaemonSetSpec
  has_SdnAgent :: ContainerSpec
  has_OvnController :: ContainerSpec
  has_HostHealth :: ContainerSpec
  has_OvnEncapIpDetectionMethod :: string
  has_DisableSecurityGroup :: bool
  has_ManageNtpConfiguration :: bool
  has_HostCpuPassthrough :: "bool option"
  has_DefaultQemuVersion :: string
  has_MaxUnavailableCount :: int

definition zero_HostAgentSpec :: HostAgentSpec where [zero_defs]:
  "zero_HostAgentSpec = \<lparr>has_DaemonSetSpec = zero_DaemonSetSpec, has_SdnAgent = zero_ContainerSpec,
     has_OvnController = zero_ContainerSpec, has_HostHealth = zero_ContainerSpec,
     has_OvnEncapIpDetectionMethod = [], has_DisableSecurityGroup = False,
     has_ManageNtpConfiguration = False, has_HostCpuPassthrough = None,
     has_DefaultQemuVersion = [], has_MaxUnavailableCount = 0\<rparr>"

record ZoneStatefulDeploymentSpec =
  zds_StatefulDeploymentSpec :: StatefulDeploymentSpec
  zds_Zones :: "string list"

definition zero_ZoneStatefulDeploymentSpec :: ZoneStatefulDeploymentSpec where [zero_defs]:
  "zero_ZoneStatefulDeploymentSpec = \<lparr>zds_StatefulDeploymentSpec = zero_StatefulDeploymentSpec, zds_Zones = []\<rparr>"

record MeterSpec =
  mts_StatefulDeploymentSpec :: StatefulDeploymentSpec
  mts_Service :: ServiceSpec
  mts_DbEngine :: string

definition zero_MeterSpec :: MeterSpec where [zero_defs]:
  "zero_MeterSpec = \<lparr>mts_StatefulDeploymentSpec = zero_StatefulDeploymentSpec,
     mts_Service = zero_ServiceSpec, mts_DbEngine = []\<rparr>"

record CloudmonSpec =
  cms_DeploymentSpec :: DeploymentSpec
  cms_Service :: ServiceSpec
  cms_CloudmonPingDuration :: int

definition zero_CloudmonSpec :: CloudmonSpec where [zero_defs]:
  "zero_CloudmonSpec = \<lparr>cms_DeploymentSpec = zero_DeploymentSpec, cms_Service = zero_ServiceSpec,
     cms_CloudmonPingDuration = 0\<rparr>"

record MonitorStackMinioSpec =
  msm_Mode :: string
  msm_AccessKey :: string
  msm_SecretKey :: string

definition zero_MonitorStackMinioSpec :: MonitorStackMinioSpec where [zero_defs]:
  "zero_MonitorStackMinioSpec = \<lparr>msm_Mode = [], msm_AccessKey = [], msm_SecretKey = []\<rparr>"

record MonitorStackGrafanaSpecOAuth =
  oa_Enabled :: bool
  oa_ClientId :: string
  oa_ClientSecret :: string
  oa_Scopes :: string
  oa_AuthURL :: string
  oa_TokenURL :: string
  oa_APIURL :: string
  oa_AllowedDomains :: string
  oa_AllowSignUp :: bool
  oa_RoleAttributePath :: string

definition zero_MonitorStackGrafanaSpecOAuth :: MonitorStackGrafanaSpecOAuth where [zero_defs]:
  "zero_MonitorStackGrafanaSpecOAuth = \<lparr>oa_Enabled = False, oa_ClientId = [], oa_ClientSecret = [], oa_Scopes = [],
     oa_AuthURL = [], oa_TokenURL = [], oa_APIURL = [], oa_AllowedDomains = [],
     oa_AllowSignUp = False, oa_RoleAttributePath = []\<rparr>"

record MonitorStackGrafanaSpec =
  mgs_Disable :: bool
  mgs_AdminUser :: string
  mgs_AdminPassword :: string
  mgs_Host :: string
  mgs_EnforceDomain :: bool
  mgs_DisableSubpath :: bool
  mgs_Subpath :: string
  mgs_OAuth :: MonitorStackGrafanaSpecOAuth
  mgs_DbEngine :: string

definition zero_MonitorStackGrafanaSpec :: MonitorStackGrafanaSpec where [zero_defs]:
  "zero_MonitorStackGrafanaSpec = \<lparr>mgs_Disable = False, mgs_AdminUser = [], mgs_AdminPassword = [], mgs_Host = [],
     mgs_EnforceDomain = False, mgs_DisableSubpath = False, mgs_Subpath = [],
     mgs_OAuth = zero_MonitorStackGrafanaSpecOAuth, mgs_DbEngine = []\<rparr>"

record ObjectStoreConfig =
  osc_Bucket :: string
  osc_Endpoint :: string
  osc_AccessKey :: string
  osc_SecretKey :: string
  osc_Secure :: bool

definition zero_ObjectStoreConfig :: ObjectStoreConfig where [zero_defs]:
  "zero_ObjectStoreConfig = \<lparr>osc_Bucket = [], osc_Endpoint = [], osc_AccessKey = [], osc_SecretKey = [],
     osc_Secure = False\<rparr>"

record MonitorStackLokiSpec =
  mls_Disable :: bool
  mls_ObjectStoreConfig :: ObjectStoreConfig
  mls_RetentionDays :: int

definition zero_MonitorStackLokiSpec :: MonitorStackLokiSpec where [zero_defs]:
  "zero_MonitorStackLokiSpec = \<lparr>mls_Disable = False, mls_ObjectStoreConfig = zero_ObjectStoreConfig,
     mls_RetentionDays = 0\<rparr>"

record ThanosSidecarSpec =
  tss_ObjectStoreConfig :: ObjectStoreConfig

definition zero_ThanosSidecarSpec :: ThanosSidecarSpec where [zero_defs]:
  "zero_ThanosSidecarSpec = \<lparr>tss_ObjectStoreConfig = zero_ObjectStoreConfig\<rparr>"

record MonitorStackPrometheusSpec =
  mps_Disable :: "bool option"
  mps_ThanosSidecarSpec :: ThanosSidecarSpec

definition zero_MonitorStackPrometheusSpec :: MonitorStackPrometheusSpec where [zero_defs]:
  "zero_MonitorStackPrometheusSpec = \<lparr>mps_Disable = None, mps_ThanosSidecarSpec = zero_ThanosSidecarSpec\<rparr>"

record MonitorStackThanosSpec =
  mths_ObjectStoreConfig :: ObjectStoreConfig

definition zero_MonitorStackThanosSpec :: MonitorStackThanosSpec where [zero_defs]:
  "zero_MonitorStackThanosSpec = \<lparr>mths_ObjectStoreConfig = zero_ObjectStoreConfig\<rparr>"

record MonitorStackSpec =
  mss_Disable :: bool
  mss_Minio :: MonitorStackMinioSpec
  mss_Grafana :: MonitorStackGrafanaSpec
  mss_Loki :: MonitorStackLokiSpec
  mss_Prometheus :: MonitorStackPrometheusSpec
  mss_Thanos :: MonitorStackThanosSpec

definition zero_MonitorStackSpec :: MonitorStackSpec where [zero_defs]:
  "zero_MonitorStackSpec = \<lparr>mss_Disable = False, mss_Minio = zero_MonitorStackMinioSpec,
     mss_Grafana = zero_MonitorStackGrafanaSpec, mss_Loki = zero_MonitorStackLokiSpec,
     mss_Prometheus = zero_MonitorStackPrometheusSpec,
     mss_Thanos = zero_MonitorStackThanosSpec\<rparr>"

record EChartsSSRSpec =
  ecs_ssr_ContainerSpec :: ContainerSpec
  ecs_ssr_Disable :: "bool option"
  ecs_ssr_Replicas :: int
  ecs_ssr_Affinity :: "Affinity option"
  ecs_ssr_NodeSelector :: gomap
  ecs_ssr_Tolerations :: "Toleration list"
  ecs_ssr_Annotations :: gomap
  ecs_ssr_ImagePullSecrets :: "string list"

definition zero_EChartsSSRSpec :: EChartsSSRSpec where [zero_defs]:
  "zero_EChartsSSRSpec = \<lparr>ecs_ssr_ContainerSpec = zero_ContainerSpec, ecs_ssr_Disable = None,
     ecs_ssr_Replicas = 0, ecs_ssr_Affinity = None, ecs_ssr_NodeSelector = None,
     ecs_ssr_Tolerations = [], ecs_ssr_Annotations = None, ecs_ssr_ImagePullSecrets = []\<rparr>"

record CloudmuxSpec =
  cmx_ContainerSpec :: ContainerSpec
  cmx_Disable :: "bool option"
  cmx_Replicas :: int
  cmx_Affinity :: "Affinity option"
  cmx_NodeSelector :: gomap
  cmx_Tolerations :: "Toleration list"
  cmx_Annotations :: gomap
  cmx_ImagePullSecrets :: "string list"

definition zero_CloudmuxSpec :: CloudmuxSpec where [zero_defs]:
  "zero_CloudmuxSpec = \<lparr>cmx_ContainerSpec = zero_ContainerSpec, cmx_Disable = None, cmx_Replicas = 0,
     cmx_Affinity = None, cmx_NodeSelector = None, cmx_Tolerations = [],
     cmx_Annotations = None, cmx_ImagePullSecrets = []\<rparr>"

record OnecloudClusterSpec =
  spec_DisableResourceManagement :: bool
  spec_DisableLocalVpc :: bool
  spec_EnableCloudNet :: bool
  spec_EnableS3Gateway :: bool
  spec_IPv6Cluster :: bool
  spec_ProductVersion :: string
  spec_UseHyperImage :: bool
  spec_Etcd :: Etcd
  spec_Mysql :: Mysql
  spec_Clickhouse :: Clickhouse
  spec_Dameng :: Dameng
  spec_DbEngine :: string
  spec_Version :: string
  spec_CertSANs :: "string list"
  spec_Services :: "Service list"
  spec_Minio :: Minio
  spec_ImageRepository :: string
  spec_Region :: string
  spec_Zone :: string
  spec_CustomZones :: "string list"
  spec_Keystone :: KeystoneSpec
  spec_RegionServer :: RegionSpec
  spec_RegionDNS :: RegionDNSSpec
  spec_Scheduler :: DeploymentServicePortSpec
  spec_Glance :: GlanceSpec
  spec_Climc :: DeploymentSpec
  spec_Webconsole :: WebconsoleSpec
  spec_Logger :: DeploymentServicePortSpec
  spec_Yunionconf :: DeploymentServicePortSpec
  spec_Yunionagent :: YunionagentSpec
  spec_Influxdb :: InfluxdbSpec
  spec_VictoriaMetrics :: VictoriaMetricsSpec
  spec_Telegraf :: TelegrafSpec
  spec_Monitor :: DeploymentServicePortSpec
  spec_LoadBalancerEndpoint :: string
  spec_APIGateway :: APIGatewaySpec
  spec_Web :: WebSpec
  spec_KubeServer :: DeploymentServicePortSpec
  spec_AnsibleServer :: DeploymentServicePortSpec
  spec_Cloudnet :: DeploymentServicePortSpec
  spec_Cloudproxy :: DeploymentServicePortSpec
  spec_Cloudevent :: DeploymentServicePortSpec
  spec_Notify :: NotifySpec
  spec_Lbagent :: LbagentSpec
  spec_HostAgent :: HostAgentSpec
  spec_HostDeployer :: DaemonSetSpec
  spec_HostImage :: DaemonSetSpec
  spec_BaremetalAgent :: ZoneStatefulDeploymentSpec
  spec_S3gateway :: DeploymentServicePortSpec
  spec_Devtool :: DeploymentServicePortSpec
  spec_Meter :: MeterSpec
  spec_Billing :: DeploymentServicePortSpec
  spec_AutoUpdate :: DeploymentServicePortSpec
  spec_Cloudmon :: CloudmonSpec
  spec_EsxiAgent :: ZoneStatefulDeploymentSpec
  spec_Itsm :: DeploymentServicePortSpec
  spec_ServiceOperator :: DeploymentServicePortSpec
  spec_OvnNorth :: DeploymentSpec
  spec_VpcAgent :: DeploymentServicePortSpec
  spec_CloudId :: DeploymentServicePortSpec
  spec_Suggestion :: DeploymentServicePortSpec
  spec_MonitorStack :: MonitorStackSpec
  spec_Scheduledtask :: DeploymentServicePortSpec
  spec_ApiMap :: DeploymentServicePortSpec
  spec_Report :: DeploymentServicePortSpec
  spec_EChartsSSR :: EChartsSSRSpec
  spec_BastionHost :: DeploymentServicePortSpec
  spec_Cloudmux :: CloudmuxSpec
  spec_Extdb :: DeploymentServicePortSpec
  spec_LLM :: DeploymentServicePortSpec
  spec_McpServer :: DeploymentServicePortSpec
  spec_AiProxy :: DeploymentServicePortSpec

definition zero_OnecloudClusterSpec :: OnecloudClusterSpec where [zero_defs]:
  "zero_OnecloudClusterSpec = \<lparr>spec_DisableResourceManagement = False, spec_DisableLocalVpc = False,
     spec_EnableCloudNet = False, spec_EnableS3Gateway = False, spec_IPv6Cluster = False,
     spec_ProductVersion = [], spec_UseHyperImage = False, spec_Etcd = zero_Etcd,
     spec_Mysql = zero_Mysql, spec_Clickhouse = zero_Mysql, spec_Dameng = zero_Mysql,
     spec_DbEngine = [], spec_Version = [], spec_CertSANs = [], spec_Services = [],
     spec_Minio = zero_Minio, spec_ImageRepository = [], spec_Region = [], spec_Zone = [],
     spec_CustomZones = [], spec_Keystone = zero_KeystoneSpec,
     spec_RegionServer = zero_RegionSpec, spec_RegionDNS = zero_RegionDNSSpec,
     spec_Scheduler = zero_DeploymentServicePortSpec, spec_Glance = zero_GlanceSpec,
     spec_Climc = zero_DeploymentSpec, spec_Webconsole = zero_WebconsoleSpec,
     spec_Logger = zero_DeploymentServicePortSpec,
     spec_Yunionconf = zero_DeploymentServicePortSpec,
     spec_Yunionagent = zero_YunionagentSpec, spec_Influxdb = zero_InfluxdbSpec,
     spec_VictoriaMetrics = zero_VictoriaMetricsSpec, spec_Telegraf = zero_TelegrafSpec,
     spec_Monitor = zero_DeploymentServicePortSpec, spec_LoadBalancerEndpoint = [],
     spec_APIGateway = zero_APIGatewaySpec, spec_Web = zero_WebSpec,
     spec_KubeServer = zero_DeploymentServicePortSpec,
     spec_AnsibleServer = zero_DeploymentServicePortSpec,
     spec_Cloudnet = zero_DeploymentServicePortSpec,
     spec_Cloudproxy = zero_DeploymentServicePortSpec,
     spec_Cloudevent = zero_DeploymentServicePortSpec, spec_Notify = zero_NotifySpec,
     spec_Lbagent = zero_LbagentSpec, spec_HostAgent = zero_HostAgentSpec,
     spec_HostDeployer = zero_DaemonSetSpec, spec_HostImage = zero_DaemonSetSpec,
     spec_BaremetalAgent = zero_ZoneStatefulDeploymentSpec,
     spec_S3gateway = zero_DeploymentServicePortSpec,
     spec_Devtool = zero_DeploymentServicePortSpec, spec_Meter = zero_MeterSpec,
     spec_Billing = zero_DeploymentServicePortSpec,
     spec_AutoUpdate = zero_DeploymentServicePortSpec, spec_Cloudmon = zero_CloudmonSpec,
     spec_EsxiAgent = zero_ZoneStatefulDeploymentSpec,
     spec_Itsm = zero_DeploymentServicePortSpec,
     spec_ServiceOperator = zero_DeploymentServicePortSpec,
     spec_OvnNorth = zero_DeploymentSpec, spec_VpcAgent = zero_DeploymentServicePortSpec,
     spec_CloudId = zero_DeploymentServicePortSpec,
     spec_Suggestion = zero_DeploymentServicePortSpec,
     spec_MonitorStack = zero_MonitorStackSpec,
     spec_Scheduledtask = zero_DeploymentServicePortSpec,
     spec_ApiMap = zero_DeploymentServicePortSpec,
     spec_Report = zero_DeploymentServicePortSpec, spec_EChartsSSR = zero_EChartsSSRSpec,
     spec_BastionHost = zero_DeploymentServicePortSpec, spec_Cloudmux = zero_CloudmuxSpec,
     spec_Extdb = zero_DeploymentServicePortSpec, spec_LLM = zero_DeploymentServicePortSpec,
     spec_McpServer = zero_DeploymentServicePortSpec,
     spec_AiProxy = zero_DeploymentServicePortSpec\<rparr>"

record ImageStatus =
  imgs_Image :: string
  imgs_Repository :: string
  imgs_ImageName :: string
  imgs_Tag :: string
  imgs_ImagePullPolicy :: string

definition zero_ImageStatus :: ImageStatus where [zero_defs]:
  "zero_ImageStatus = \<lparr>imgs_Image = [], imgs_Repository = [], imgs_ImageName = [], imgs_Tag = [],
     imgs_ImagePullPolicy = []\<rparr>"

record DeploymentStatus =
  dst_Phase :: string
  dst_Deployment :: "AppsDeploymentStatus option"
  dst_ImageStatus :: "ImageStatus option"
  dst_SlavePhase :: string
  dst_SlaveDeployment :: "AppsDeploymentStatus option"

definition zero_DeploymentStatus :: DeploymentStatus where [zero_defs]:
  "zero_DeploymentStatus = \<lparr>dst_Phase = [], dst_Deployment = None, dst_ImageStatus = None, dst_SlavePhase = [],
     dst_SlaveDeployment = None\<rparr>"

record KeystoneStatus =
  kst_DeploymentStatus :: DeploymentStatus

definition zero_KeystoneStatus :: KeystoneStatus where [zero_defs]:
  "zero_KeystoneStatus = \<lparr>kst_DeploymentStatus = zero_DeploymentStatus\<rparr>"

record RegionStatus =
  rst_DeploymentStatus :: DeploymentStatus
  rst_RegionId :: string
  rst_RegionZoneId :: string
  rst_ZoneId :: string
  rst_WireId :: string
  rst_CustomZones :: gomap

definition zero_RegionStatus :: RegionStatus where [zero_defs]:
  "zero_RegionStatus = \<lparr>rst_DeploymentStatus = zero_DeploymentStatus, rst_RegionId = [], rst_RegionZoneId = [],
     rst_ZoneId = [], rst_WireId = [], rst_CustomZones = None\<rparr>"

record GlanceStatus =
  gst_DeploymentStatus :: DeploymentStatus

definition zero_GlanceStatus :: GlanceStatus where [zero_defs]:
  "zero_GlanceStatus = \<lparr>gst_DeploymentStatus = zero_DeploymentStatus\<rparr>"

record BaremetalAgentStatus =
  bas_DeploymentStatus :: DeploymentStatus
  bas_ZoneBaremetalAgent :: "(string \<times> DeploymentStatus) list"

definition zero_BaremetalAgentStatus :: BaremetalAgentStatus where [zero_defs]:
  "zero_BaremetalAgentStatus = \<lparr>bas_DeploymentStatus = zero_DeploymentStatus, bas_ZoneBaremetalAgent = []\<rparr>"

record MeterStatus =
  mtst_DeploymentStatus :: DeploymentStatus

definition zero_MeterStatus :: MeterStatus where [zero_defs]:
  "zero_MeterStatus = \<lparr>mtst_DeploymentStatus = zero_DeploymentStatus\<rparr>"

record EsxiAgentStatus =
  eas_DeploymentStatus :: DeploymentStatus
  eas_ZoneEsxiAgent :: "(string \<times> DeploymentStatus) list"

definition zero_EsxiAgentStatus :: EsxiAgentStatus where [zero_defs]:
  "zero_EsxiAgentStatus = \<lparr>eas_DeploymentStatus = zero_DeploymentStatus, eas_ZoneEsxiAgent = []\<rparr>"

record EtcdClusterCondition =
  ecc_Type :: string
  ecc_Status :: string
  ecc_LastUpdateTime :: string
  ecc_LastTransitionTime :: string
  ecc_Reason :: string
  ecc_Message :: string

definition zero_EtcdClusterCondition :: EtcdClusterCondition where [zero_defs]:
  "zero_EtcdClusterCondition = \<lparr>ecc_Type = [], ecc_Status = [], ecc_LastUpdateTime = [], ecc_LastTransitionTime = [],
     ecc_Reason = [], ecc_Message = []\<rparr>"

record EtcdMembersStatus =
  ems_Ready :: "string list"
  ems_Unready :: "string list"

definition zero_EtcdMembersStatus :: EtcdMembersStatus where [zero_defs]:
  "zero_EtcdMembersStatus = \<lparr>ems_Ready = [], ems_Unready = []\<rparr>"

record EctdStatus =
  es_Phase :: string
  es_Reason :: string
  es_Conditions :: "EtcdClusterCondition list"
  es_Size :: int
  es_ServiceName :: string
  es_ClientPort :: int
  es_ClientNodePort :: int
  es_Members :: EtcdMembersStatus
  es_CurrentVersion :: string
  es_TargetVersion :: string

definition zero_EctdStatus :: EctdStatus where [zero_defs]:
  "zero_EctdStatus = \<lparr>es_Phase = [], es_Reason = [], es_Conditions = [], es_Size = 0, es_ServiceName = [],
     es_ClientPort = 0, es_ClientNodePort = 0, es_Members = zero_EtcdMembersStatus,
     es_CurrentVersion = [], es_TargetVersion = []\<rparr>"

record MonitorStackComponentStatus =
  mcs_ImageStatus :: "ImageStatus option"

definition zero_MonitorStackComponentStatus :: MonitorStackComponentStatus where [zero_defs]:
  "zero_MonitorStackComponentStatus = \<lparr>mcs_ImageStatus = None\<rparr>"

record MonitorStackMinioStatus =
  mms_MonitorStackComponentStatus :: MonitorStackComponentStatus
  mms_Replicas :: int
  mms_DrivesPerNode :: int

definition zero_MonitorStackMinioStatus :: MonitorStackMinioStatus where [zero_defs]:
  "zero_MonitorStackMinioStatus = \<lparr>mms_MonitorStackComponentStatus = zero_MonitorStackComponentStatus, mms_Replicas = 0,
     mms_DrivesPerNode = 0\<rparr>"

record MonitorStackGrafanaStatus =
  mgst_MonitorStackComponentStatus :: MonitorStackComponentStatus

definition zero_MonitorStackGrafanaStatus :: MonitorStackGrafanaStatus where [zero_defs]:
  "zero_MonitorStackGrafanaStatus = \<lparr>mgst_MonitorStackComponentStatus = zero_MonitorStackComponentStatus\<rparr>"

record MonitorStackLokiStatus =
  mlst_MonitorStackComponentStatus :: MonitorStackComponentStatus

definition zero_MonitorStackLokiStatus :: MonitorStackLokiStatus where [zero_defs]:
  "zero_MonitorStackLokiStatus = \<lparr>mlst_MonitorStackComponentStatus = zero_MonitorStackComponentStatus\<rparr>"

record MonitorStackPrometheusStatus =
  mpst_MonitorStackComponentStatus :: MonitorStackComponentStatus

definition zero_MonitorStackPrometheusStatus :: MonitorStackPrometheusStatus where [zero_defs]:
  "zero_MonitorStackPrometheusStatus = \<lparr>mpst_MonitorStackComponentStatus = zero_MonitorStackComponentStatus\<rparr>"

record MonitorStackThanosStatus =
  mthst_MonitorStackComponentStatus :: MonitorStackComponentStatus

definition zero_MonitorStackThanosStatus :: MonitorStackThanosStatus where [zero_defs]:
  "zero_MonitorStackThanosStatus = \<lparr>mthst_MonitorStackComponentStatus = zero_MonitorStackComponentStatus\<rparr>"

record MonitorStackStatus =
  msst_MinioStatus :: MonitorStackMinioStatus
  msst_GrafanaStatus :: MonitorStackGrafanaStatus
  msst_LokiStatus :: MonitorStackLokiStatus
  msst_PrometheusStatus :: MonitorStackPrometheusStatus
  msst_ThanosStatus :: MonitorStackThanosStatus

definition zero_MonitorStackStatus :: MonitorStackStatus where [zero_defs]:
  "zero_MonitorStackStatus = \<lparr>msst_MinioStatus = zero_MonitorStackMinioStatus,
     msst_GrafanaStatus = zero_MonitorStackGrafanaStatus,
     msst_LokiStatus = zero_MonitorStackLokiStatus,
     msst_PrometheusStatus = zero_MonitorStackPrometheusStatus,
     msst_ThanosStatus = zero_MonitorStackThanosStatus\<rparr>"

record OnecloudClusterStatus =
  st_ClusterID :: string
  st_SpecChecksum :: string
  st_Keystone :: KeystoneStatus
  st_RegionServer :: RegionStatus
  st_Glance :: GlanceStatus
  st_Scheduler :: DeploymentStatus
  st_Webconsole :: DeploymentStatus
  st_Influxdb :: DeploymentStatus
  st_VictoriaMetrics :: DeploymentStatus
  st_Monitor :: DeploymentStatus
  st_Logger :: DeploymentStatus
  st_APIGateway :: DeploymentStatus
  st_Web :: DeploymentStatus
  st_Yunionconf :: DeploymentStatus
  st_KubeServer :: DeploymentStatus
  st_AnsibleServer :: DeploymentStatus
  st_Cloudnet :: DeploymentStatus
  st_Cloudproxy :: DeploymentStatus
  st_Cloudevent :: DeploymentStatus
  st_Notify :: DeploymentStatus
  st_BaremetalAgent :: BaremetalAgentStatus
  st_S3gateway :: DeploymentStatus
  st_Devtool :: DeploymentStatus
  st_Meter :: MeterStatus
  st_BillingStatus :: DeploymentStatus
  st_AutoUpdate :: DeploymentStatus
  st_EsxiAgent :: EsxiAgentStatus
  st_OvnNorth :: DeploymentStatus
  st_VpcAgent :: DeploymentStatus
  st_Etcd :: EctdStatus
  st_Itsm :: DeploymentStatus
  st_CloudId :: DeploymentStatus
  st_Cloudmon :: DeploymentStatus
  st_MonitorStack :: MonitorStackStatus
  st_Scheduledtask :: DeploymentStatus
  st_APIMap :: DeploymentStatus
  st_Report :: DeploymentStatus
  st_ECharts :: DeploymentStatus
  st_BastionHost :: DeploymentStatus
  st_Extdb :: DeploymentStatus
  st_LLM :: DeploymentStatus
  st_McpServer :: DeploymentStatus
  st_AiProxy :: DeploymentStatus

definition zero_OnecloudClusterStatus :: OnecloudClusterStatus where [zero_defs]:
  "zero_OnecloudClusterStatus = \<lparr>st_ClusterID = [], st_SpecChecksum = [], st_Keystone = zero_KeystoneStatus,
     st_RegionServer = zero_RegionStatus, st_Glance = zero_GlanceStatus,
     st_Scheduler = zero_DeploymentStatus, st_Webconsole = zero_DeploymentStatus,
     st_Influxdb = zero_DeploymentStatus, st_VictoriaMetrics = zero_DeploymentStatus,
     st_Monitor = zero_DeploymentStatus, st_Logger = zero_DeploymentStatus,
     st_APIGateway = zero_DeploymentStatus, st_Web = zero_DeploymentStatus,
     st_Yunionconf = zero_DeploymentStatus, st_KubeServer = zero_DeploymentStatus,
     st_AnsibleServer = zero_DeploymentStatus, st_Cloudnet = zero_DeploymentStatus,
     st_Cloudproxy = zero_DeploymentStatus, st_Cloudevent = zero_DeploymentStatus,
     st_Notify = zero_DeploymentStatus, st_BaremetalAgent = zero_BaremetalAgentStatus,
     st_S3gateway = zero_DeploymentStatus, st_Devtool = zero_DeploymentStatus,
     st_Meter = zero_MeterStatus, st_BillingStatus = zero_DeploymentStatus,
     st_AutoUpdate = zero_DeploymentStatus, st_EsxiAgent = zero_EsxiAgentStatus,
     st_OvnNorth = zero_DeploymentStatus, st_VpcAgent = zero_DeploymentStatus,
     st_Etcd = zero_EctdStatus, st_Itsm = zero_DeploymentStatus,
     st_CloudId = zero_DeploymentStatus, st_Cloudmon = zero_DeploymentStatus,
     st_MonitorStack = zero_MonitorStackStatus, st_Scheduledtask = zero_DeploymentStatus,
     st_APIMap = zero_DeploymentStatus, st_Report = zero_DeploymentStatus,
     st_ECharts = zero_DeploymentStatus, st_BastionHost = zero_DeploymentStatus,
     st_Extdb = zero_DeploymentStatus, st_LLM = zero_DeploymentStatus,
     st_McpServer = zero_DeploymentStatus, st_AiProxy = zero_DeploymentStatus\<rparr>"

record OnecloudCluster =
  oc_ObjectMeta :: ObjectMeta
  oc_Spec :: OnecloudClusterSpec
  oc_Status :: OnecloudClusterStatus

definition zero_OnecloudCluster :: OnecloudCluster where [zero_defs]:
  "zero_OnecloudCluster = \<lparr>oc_ObjectMeta = (new_meta [] [] None None []), oc_Spec = zero_OnecloudClusterSpec,
     oc_Status = zero_OnecloudClusterStatus\<rparr>"

record CronJobSpec =
  crs_ContainerSpec :: ContainerSpec
  crs_Disable :: bool
  crs_Schedule :: string
  crs_Affinity :: "Affinity option"
  crs_NodeSelector :: gomap
  crs_Tolerations :: "Toleration list"
  crs_Annotations :: gomap
  crs_ImagePullSecrets :: "string list"

definition zero_CronJobSpec :: CronJobSpec where [zero_defs]:
  "zero_CronJobSpec = \<lparr>crs_ContainerSpec = zero_ContainerSpec, crs_Disable = False, crs_Schedule = [],
     crs_Affinity = None, crs_NodeSelector = None, crs_Tolerations = [],
     crs_Annotations = None, crs_ImagePullSecrets = []\<rparr>"

record DBConfig =
  dbc_Database :: string
  dbc_Username :: string
  dbc_Password :: string

definition zero_DBConfig :: DBConfig where [zero_defs]:
  "zero_DBConfig = \<lparr>dbc_Database = [], dbc_Username = [], dbc_Password = []\<rparr>"

record CloudUser =
  cu_Username :: string
  cu_Password :: string

definition zero_CloudUser :: CloudUser where [zero_defs]:
  "zero_CloudUser = \<lparr>cu_Username = [], cu_Password = []\<rparr>"

record ServiceBaseConfig =
  sbc_Port :: int

definition zero_ServiceBaseConfig :: ServiceBaseConfig where [zero_defs]:
  "zero_ServiceBaseConfig = \<lparr>sbc_Port = 0\<rparr>"

record ServiceCommonOptions =
  sco_ServiceBaseConfig :: ServiceBaseConfig
  sco_CloudUser :: CloudUser

definition zero_ServiceCommonOptions :: ServiceCommonOptions where [zero_defs]:
  "zero_ServiceCommonOptions = \<lparr>sco_ServiceBaseConfig = zero_ServiceBaseConfig, sco_CloudUser = zero_CloudUser\<rparr>"

record KeystoneConfig =
  kc_ServiceBaseConfig :: ServiceBaseConfig
  kc_DB :: DBConfig
  kc_ClickhouseConf :: DBConfig

definition zero_KeystoneConfig :: KeystoneConfig where [zero_defs]:
  "zero_KeystoneConfig = \<lparr>kc_ServiceBaseConfig = zero_ServiceBaseConfig, kc_DB = zero_DBConfig,
     kc_ClickhouseConf = zero_DBConfig\<rparr>"

record ServiceDBCommonOptions =
  sdo_ServiceCommonOptions :: ServiceCommonOptions
  sdo_DB :: DBConfig
  sdo_ClickhouseConf :: DBConfig

definition zero_ServiceDBCommonOptions :: ServiceDBCommonOptions where [zero_defs]:
  "zero_ServiceDBCommonOptions = \<lparr>sdo_ServiceCommonOptions = zero_ServiceCommonOptions, sdo_DB = zero_DBConfig,
     sdo_ClickhouseConf = zero_DBConfig\<rparr>"

record RegionConfig =
  rc_ServiceDBCommonOptions :: ServiceDBCommonOptions

definition zero_RegionConfig :: RegionConfig where [zero_defs]:
  "zero_RegionConfig = \<lparr>rc_ServiceDBCommonOptions = zero_ServiceDBCommonOptions\<rparr>"

record GlanceConfig =
  gc_ServiceDBCommonOptions :: ServiceDBCommonOptions

definition zero_GlanceConfig :: GlanceConfig where [zero_defs]:
  "zero_GlanceConfig = \<lparr>gc_ServiceDBCommonOptions = zero_ServiceDBCommonOptions\<rparr>"

record MeterConfig =
  mc_ServiceDBCommonOptions :: ServiceDBCommonOptions

definition zero_MeterConfig :: MeterConfig where [zero_defs]:
  "zero_MeterConfig = \<lparr>mc_ServiceDBCommonOptions = zero_ServiceDBCommonOptions\<rparr>"

record HostConfig =
  hc_ServiceCommonOptions :: ServiceCommonOptions

definition zero_HostConfig :: HostConfig where [zero_defs]:
  "zero_HostConfig = \<lparr>hc_ServiceCommonOptions = zero_ServiceCommonOptions\<rparr>"

record LbagentConfig =
  lc_ServiceCommonOptions :: ServiceCommonOptions

definition zero_LbagentConfig :: LbagentConfig where [zero_defs]:
  "zero_LbagentConfig = \<lparr>lc_ServiceCommonOptions = zero_ServiceCommonOptions\<rparr>"

record BaremetalConfig =
  bc_ServiceCommonOptions :: ServiceCommonOptions

definition zero_BaremetalConfig :: BaremetalConfig where [zero_defs]:
  "zero_BaremetalConfig = \<lparr>bc_ServiceCommonOptions = zero_ServiceCommonOptions\<rparr>"

record EsxiAgentConfig =
  ec_ServiceCommonOptions :: ServiceCommonOptions

definition zero_EsxiAgentConfig :: EsxiAgentConfig where [zero_defs]:
  "zero_EsxiAgentConfig = \<lparr>ec_ServiceCommonOptions = zero_ServiceCommonOptions\<rparr>"

record VpcAgentConfig =
  vc_ServiceCommonOptions :: ServiceCommonOptions

definition zero_VpcAgentConfig :: VpcAgentConfig where [zero_defs]:
  "zero_VpcAgentConfig = \<lparr>vc_ServiceCommonOptions = zero_ServiceCommonOptions\<rparr>"

record APIMapConfig =
  amc_ServiceCommonOptions :: ServiceCommonOptions

definition zero_APIMapConfig :: APIMapConfig where [zero_defs]:
  "zero_APIMapConfig = \<lparr>amc_ServiceCommonOptions = zero_ServiceCommonOptions\<rparr>"

record ItsmConfig =
  ic_ServiceDBCommonOptions :: ServiceDBCommonOptions
  ic_SecondDatabase :: string
  ic_EncryptionKey :: string

definition zero_ItsmConfig :: ItsmConfig where [zero_defs]:
  "zero_ItsmConfig = \<lparr>ic_ServiceDBCommonOptions = zero_ServiceDBCommonOptions, ic_SecondDatabase = [],
     ic_EncryptionKey = []\<rparr>"

record GrafanaConfig =
  gfc_DB :: DBConfig

definition zero_GrafanaConfig :: GrafanaConfig where [zero_defs]:
  "zero_GrafanaConfig = \<lparr>gfc_DB = zero_DBConfig\<rparr>"

record GlobalServiceCommonConfig =
  gsc_CronJobWorkerCount :: int
  gsc_LocalTaskWorkerCount :: int
  gsc_RequestWorkerCount :: int
  gsc_TaskWorkerCount :: int

definition zero_GlobalServiceCommonConfig :: GlobalServiceCommonConfig where [zero_defs]:
  "zero_GlobalServiceCommonConfig = \<lparr>gsc_CronJobWorkerCount = 0, gsc_LocalTaskWorkerCount = 0, gsc_RequestWorkerCount = 0,
     gsc_TaskWorkerCount = 0\<rparr>"

record OnecloudClusterConfig =
  cfg_CommonConfig :: GlobalServiceCommonConfig
  cfg_Keystone :: KeystoneConfig
  cfg_RegionServer :: RegionConfig
  cfg_Glance :: GlanceConfig
  cfg_Webconsole :: ServiceDBCommonOptions
  cfg_Logger :: ServiceDBCommonOptions
  cfg_Yunionconf :: ServiceDBCommonOptions
  cfg_Yunionagent :: ServiceDBCommonOptions
  cfg_KubeServer :: ServiceDBCommonOptions
  cfg_AnsibleServer :: ServiceDBCommonOptions
  cfg_Monitor :: ServiceDBCommonOptions
  cfg_Suggestion :: ServiceDBCommonOptions
  cfg_Cloudnet :: ServiceDBCommonOptions
  cfg_Cloudproxy :: ServiceDBCommonOptions
  cfg_Cloudevent :: ServiceDBCommonOptions
  cfg_APIGateway :: ServiceCommonOptions
  cfg_Cloudmon :: ServiceCommonOptions
  cfg_Notify :: ServiceDBCommonOptions
  cfg_HostAgent :: HostConfig
  cfg_Lbagent :: LbagentConfig
  cfg_BaremetalAgent :: BaremetalConfig
  cfg_S3gateway :: ServiceCommonOptions
  cfg_Devtool :: ServiceDBCommonOptions
  cfg_Meter :: MeterConfig
  cfg_Billing :: ServiceDBCommonOptions
  cfg_AutoUpdate :: ServiceDBCommonOptions
  cfg_EsxiAgent :: EsxiAgentConfig
  cfg_VpcAgent :: VpcAgentConfig
  cfg_ServiceOperator :: ServiceCommonOptions
  cfg_Itsm :: ItsmConfig
  cfg_CloudId :: ServiceDBCommonOptions
  cfg_Report :: ServiceDBCommonOptions
  cfg_Grafana :: GrafanaConfig
  cfg_BastionHost :: ServiceDBCommonOptions
  cfg_Extdb :: ServiceDBCommonOptions
  cfg_LLM :: ServiceDBCommonOptions
  cfg_McpServer :: ServiceDBCommonOptions
  cfg_AiProxy :: ServiceDBCommonOptions
  cfg_ApiMap :: APIMapConfig

definition zero_OnecloudClusterConfig :: OnecloudClusterConfig where [zero_defs]:
  "zero_OnecloudClusterConfig = \<lparr>cfg_CommonConfig = zero_GlobalServiceCommonConfig, cfg_Keystone = zero_KeystoneConfig,
     cfg_RegionServer = zero_RegionConfig, cfg_Glance = zero_GlanceConfig,
     cfg_Webconsole = zero_ServiceDBCommonOptions, cfg_Logger = zero_ServiceDBCommonOptions,
     cfg_Yunionconf = zero_ServiceDBCommonOptions,
     cfg_Yunionagent = zero_ServiceDBCommonOptions,
     cfg_KubeServer = zero_ServiceDBCommonOptions,
     cfg_AnsibleServer = zero_ServiceDBCommonOptions,
     cfg_Monitor = zero_ServiceDBCommonOptions, cfg_Suggestion = zero_ServiceDBCommonOptions,
     cfg_Cloudnet = zero_ServiceDBCommonOptions,
     cfg_Cloudproxy = zero_ServiceDBCommonOptions,
     cfg_Cloudevent = zero_ServiceDBCommonOptions,
     cfg_APIGateway = zero_ServiceCommonOptions, cfg_Cloudmon = zero_ServiceCommonOptions,
     cfg_Notify = zero_ServiceDBCommonOptions, cfg_HostAgent = zero_HostConfig,
     cfg_Lbagent = zero_LbagentConfig, cfg_BaremetalAgent = zero_BaremetalConfig,
     cfg_S3gateway = zero_ServiceCommonOptions, cfg_Devtool = zero_ServiceDBCommonOptions,
     cfg_Meter = zero_MeterConfig, cfg_Billing = zero_ServiceDBCommonOptions,
     cfg_AutoUpdate = zero_ServiceDBCommonOptions, cfg_EsxiAgent = zero_EsxiAgentConfig,
     cfg_VpcAgent = zero_VpcAgentConfig, cfg_ServiceOperator = zero_ServiceCommonOptions,
     cfg_Itsm = zero_ItsmConfig, cfg_CloudId = zero_ServiceDBCommonOptions,
     cfg_Report = zero_ServiceDBCommonOptions, cfg_Grafana = zero_GrafanaConfig,
     cfg_BastionHost = zero_ServiceDBCommonOptions, cfg_Extdb = zero_ServiceDBCommonOptions,
     cfg_LLM = zero_ServiceDBCommonOptions, cfg_McpServer = zero_ServiceDBCommonOptions,
     cfg_AiProxy = zero_ServiceDBCommonOptions, cfg_ApiMap = zero_APIMapConfig\<rparr>"

section \<open>Methods\<close>

definition GetDbEngine :: "OnecloudClusterSpec \<Rightarrow> string \<Rightarrow> string" where
  "GetDbEngine s srvSpec =
     (if length srvSpec > 0 then srvSpec
      else if length (spec_DbEngine s) > 0 then spec_DbEngine s
      else DBEngineMySQL)"

text \<open>
  \<open>Validate\<close> reads \<open>st.Member.ServerSecret\<close> without looking whether \<open>Member\<close> is nil where
  the operator secret is set: a nil pointer there is a panic.
\<close>

definition TLSPolicy_Validate :: "TLSPolicy \<Rightarrow> ('s, unit) go" where
  "TLSPolicy_Validate tp =
     (case tp_Static tp of
        None \<Rightarrow> ret ()
      | Some st \<Rightarrow>
          (if length (stls_OperatorSecret st) \<noteq> 0 then
             (case stls_Member st of
                None \<Rightarrow> go_panic ''nil pointer dereference''
              | Some mb \<Rightarrow>
                  (if length (msec_ServerSecret mb) = 0
                   then fail (Errorf ''operator secret set but member serverSecret not set'')
                   else ret ()))
           else
             (case stls_Member st of
                None \<Rightarrow> ret ()
              | Some mb \<Rightarrow>
                  (if length (msec_ServerSecret mb) \<noteq> 0
                   then fail (Errorf ''member serverSecret set but operator secret not set'')
                   else ret ()))))"

definition IsSecureClient :: "TLSPolicy option \<Rightarrow> bool" where
  "IsSecureClient tp =
     (case tp of None \<Rightarrow> False
      | Some p \<Rightarrow> (case tp_Static p of None \<Rightarrow> False
                   | Some st \<Rightarrow> length (stls_OperatorSecret st) \<noteq> 0))"

definition IsSecurePeer :: "TLSPolicy option \<Rightarrow> bool" where
  "IsSecurePeer tp =
     (case tp of None \<Rightarrow> False
      | Some p \<Rightarrow> (case tp_Static p of None \<Rightarrow> False
                   | Some st \<Rightarrow> (case stls_Member st of None \<Rightarrow> False
                                 | Some mb \<Rightarrow> length (msec_PeerSecret mb) \<noteq> 0)))"

text \<open>
  \<open>ToDeploymentSpec\<close> dereferences the pointer \<open>Disable\<close>: \<open>None\<close> is the panic where it
  is nil.
\<close>

definition EChartsSSR_ToDeploymentSpec :: "EChartsSSRSpec \<Rightarrow> DeploymentSpec option" where
  "EChartsSSR_ToDeploymentSpec es = map_option (\<lambda>disable. zero_DeploymentSpec
     \<lparr>ds_ContainerSpec := ecs_ssr_ContainerSpec es,
      ds_Disable := disable,
      ds_Replicas := ecs_ssr_Replicas es,
      ds_Affinity := ecs_ssr_Affinity es,
      ds_NodeSelector := ecs_ssr_NodeSelector es,
      ds_Tolerations := ecs_ssr_Tolerations es,
      ds_Annotations := ecs_ssr_Annotations es,
      ds_ImagePullSecrets := ecs_ssr_ImagePullSecrets es\<rparr>) (ecs_ssr_Disable es)"

definition EChartsSSR_FillBySpec :: "DeploymentSpec \<Rightarrow> EChartsSSRSpec \<Rightarrow> EChartsSSRSpec" where
  "EChartsSSR_FillBySpec d es = es
     \<lparr>ecs_ssr_ContainerSpec := ds_ContainerSpec d,
      ecs_ssr_Disable := Some (ds_Disable d),
      ecs_ssr_Replicas := ds_Replicas d,
      ecs_ssr_Affinity := ds_Affinity d,
      ecs_ssr_NodeSelector := ds_NodeSelector d,
      ecs_ssr_Tolerations := ds_Tolerations d,
      ecs_ssr_Annotations := ds_Annotations d,
      ecs_ssr_ImagePullSecrets := ds_ImagePullSecrets d\<rparr>"

definition Cloudmux_ToDeploymentSpec :: "CloudmuxSpec \<Rightarrow> DeploymentSpec option" where
  "Cloudmux_ToDeploymentSpec es = map_option (\<lambda>disable. zero_DeploymentSpec
     \<lparr>ds_ContainerSpec := cmx_ContainerSpec es,
      ds_Disable := disable,
      ds_Replicas := cmx_Replicas es,
      ds_Affinity := cmx_Affinity es,
      ds_NodeSelector := cmx_NodeSelector es,
      ds_Tolerations := cmx_Tolerations es,
      ds_Annotations := cmx_Annotations es,
      ds_ImagePullSecrets := cmx_ImagePullSecrets es\<rparr>) (cmx_Disable es)"

definition Cloudmux_FillBySpec :: "DeploymentSpec \<Rightarrow> CloudmuxSpec \<Rightarrow> CloudmuxSpec" where
  "Cloudmux_FillBySpec d es = es
     \<lparr>cmx_ContainerSpec := ds_ContainerSpec d,
      cmx_Disable := Some (ds_Disable d),
      cmx_Replicas := ds_Replicas d,
      cmx_Affinity := ds_Affinity d,
      cmx_NodeSelector := ds_NodeSelector d,
      cmx_Tolerations := ds_Tolerations d,
      cmx_Annotations := ds_Annotations d,
      cmx_ImagePullSecrets := ds_ImagePullSecrets d\<rparr>"

definition GetRegion :: "OnecloudCluster \<Rightarrow> string" where
  "GetRegion oc =
     (if length (rst_RegionId (st_RegionServer (oc_Status oc))) = 0
      then spec_Region (oc_Spec oc)
      else rst_RegionId (st_RegionServer (oc_Status oc)))"

definition GetZone :: "OnecloudCluster \<Rightarrow> string \<Rightarrow> string" where
  "GetZone oc zoneName =
     (if length zoneName = 0 then
        (if length (rst_ZoneId (st_RegionServer (oc_Status oc))) = 0
         then spec_Zone (oc_Spec oc)
         else rst_ZoneId (st_RegionServer (oc_Status oc)))
      else
        (case gomap_get (rst_CustomZones (st_RegionServer (oc_Status oc))) zoneName of
           Some zoneId \<Rightarrow> zoneId
         | None \<Rightarrow> zoneName))"

definition GetZones :: "OnecloudCluster \<Rightarrow> string list" where
  "GetZones oc = spec_CustomZones (oc_Spec oc) @ [spec_Zone (oc_Spec oc)]"

section \<open>Facts about the methods\<close>

text \<open>Copying a component's fields to a deployment and back loses nothing.\<close>

lemma Cloudmux_Fill_To [simp]:
  "Cloudmux_ToDeploymentSpec es = Some d \<Longrightarrow> Cloudmux_FillBySpec d es = es"
  by (cases es) (auto simp: Cloudmux_FillBySpec_def Cloudmux_ToDeploymentSpec_def zero_defs)

lemma EChartsSSR_Fill_To [simp]:
  "EChartsSSR_ToDeploymentSpec es = Some d \<Longrightarrow> EChartsSSR_FillBySpec d es = es"
  by (cases es) (auto simp: EChartsSSR_FillBySpec_def EChartsSSR_ToDeploymentSpec_def zero_defs)

lemma GetDbEngine_nonempty: "GetDbEngine s e \<noteq> []"
  by (auto simp: GetDbEngine_def ctypes)


end
