(* ===== verification/OC_Constants.thy ===== *)
theory OC_Constants
  imports OC_Types
begin

text \<open>
  The constants of \<^verbatim>\<open>pkg/apis/constants/constants.go\<close> and the default values of
  \<^verbatim>\<open>pkg/apis/onecloud/v1alpha1/defaults.go\<close> that the models use, one definition each; the
  collection \<open>oc_consts\<close> unfolds them.
\<close>

named_theorems oc_consts \<open>the constants\<close>

definition ManagedByLabelKey :: string where [oc_consts]:
  "ManagedByLabelKey = ''app.kubernetes.io/managed-by''"

definition ComponentLabelKey :: string where [oc_consts]:
  "ComponentLabelKey = ''app.kubernetes.io/component''"

definition NameLabelKey :: string where [oc_consts]:
  "NameLabelKey = ''app.kubernetes.io/name''"

definition InstanceLabelKey :: string where [oc_consts]:
  "InstanceLabelKey = ''app.kubernetes.io/instance''"

definition AppLabelKey :: string where [oc_consts]:
  "AppLabelKey = ''app''"

definition ZoneLabelKey :: string where [oc_consts]:
  "ZoneLabelKey = ''zone''"

definition LabelNodeRoleMaster :: string where [oc_consts]:
  "LabelNodeRoleMaster = ''node-role.kubernetes.io/master''"

definition ServiceAccountOnecloudOperator :: string where [oc_consts]:
  "ServiceAccountOnecloudOperator = ''onecloud-operator''"

definition OnecloudEditionAnnotationKey :: string where [oc_consts]:
  "OnecloudEditionAnnotationKey = ''onecloud.yunion.io/edition''"

definition OnecloudEnableHostLabelKey :: string where [oc_consts]:
  "OnecloudEnableHostLabelKey = ''onecloud.yunion.io/host''"

definition OnecloudEanbleBaremetalLabelKey :: string where [oc_consts]:
  "OnecloudEanbleBaremetalLabelKey = ''onecloud.yunion.io/baremetal''"

definition OnecloudControllerLabelKey :: string where [oc_consts]:
  "OnecloudControllerLabelKey = ''onecloud.yunion.io/controller''"

definition OnecloudHostDeployerLabelKey :: string where [oc_consts]:
  "OnecloudHostDeployerLabelKey = ''onecloud.yunion.io/host-deployer''"

definition OnecloudEnableLbagentLabelKey :: string where [oc_consts]:
  "OnecloudEnableLbagentLabelKey = ''onecloud.yunion.io/lbagent''"

definition OnecloudCommunityEdition :: string where [oc_consts]:
  "OnecloudCommunityEdition = ''ce''"

definition OnecloudEnterpriseSupportEdition :: string where [oc_consts]:
  "OnecloudEnterpriseSupportEdition = ''ce/support''"

definition OnecloudEnterpriseEdition :: string where [oc_consts]:
  "OnecloudEnterpriseEdition = ''ee''"

definition WebCEImageName :: string where [oc_consts]:
  "WebCEImageName = ''web''"

definition APIGatewayCEImageName :: string where [oc_consts]:
  "APIGatewayCEImageName = ''apigateway''"

definition WebEEImageName :: string where [oc_consts]:
  "WebEEImageName = ''web-ee''"

definition APIGatewayEEImageName :: string where [oc_consts]:
  "APIGatewayEEImageName = ''apigateway-ee''"

definition RegionCEImageName :: string where [oc_consts]:
  "RegionCEImageName = ''region''"

definition RegionEEImageName :: string where [oc_consts]:
  "RegionEEImageName = ''region-ee''"

definition McpServerCEImageName :: string where [oc_consts]:
  "McpServerCEImageName = ''mcp-server''"

definition McpServerEEImageName :: string where [oc_consts]:
  "McpServerEEImageName = ''mcp-server-ee''"

definition OnecloudClusterKind :: string where [oc_consts]:
  "OnecloudClusterKind = ''OnecloudCluster''"

definition OnecloudClusterConfigKind :: string where [oc_consts]:
  "OnecloudClusterConfigKind = ''OnecloudClusterConfig''"

definition OnecloudClusterConfigConfigMapKey :: string where [oc_consts]:
  "OnecloudClusterConfigConfigMapKey = OnecloudClusterConfigKind"

definition OnecloudMinioNamespace :: string where [oc_consts]:
  "OnecloudMinioNamespace = ''onecloud-minio''"

definition OnecloudMinioSecret :: string where [oc_consts]:
  "OnecloudMinioSecret = ''minio''"

definition OnecloudMinioSvc :: string where [oc_consts]:
  "OnecloudMinioSvc = ''minio''"

definition MonitorStackNamespace :: string where [oc_consts]:
  "MonitorStackNamespace = ''onecloud-monitoring''"

definition MonitorMinioName :: string where [oc_consts]:
  "MonitorMinioName = ''monitor-minio''"

definition MonitorThanosQuery :: string where [oc_consts]:
  "MonitorThanosQuery = ''thanos-query''"

definition MonitorGrafana :: string where [oc_consts]:
  "MonitorGrafana = ''monitor-grafana''"

definition MonitorStackGrafanaDB :: string where [oc_consts]:
  "MonitorStackGrafanaDB = ''grafana''"

definition MonitorStackGrafanaDBUer :: string where [oc_consts]:
  "MonitorStackGrafanaDBUer = ''grafana''"

definition MonitorLoki :: string where [oc_consts]:
  "MonitorLoki = ''monitor-loki''"

definition MonitorPrometheus :: string where [oc_consts]:
  "MonitorPrometheus = ''prometheus-monitor-monitor-stack-prometheus''"

definition MonitorBucketThanos :: string where [oc_consts]:
  "MonitorBucketThanos = ''thanos''"

definition MonitorBucketLoki :: string where [oc_consts]:
  "MonitorBucketLoki = ''loki''"

definition MonitorBucketAiProxy :: string where [oc_consts]:
  "MonitorBucketAiProxy = ''aiproxy-log''"

definition MonitorBucketAiProxyRetentionDays :: int where [oc_consts]:
  "MonitorBucketAiProxyRetentionDays = 90"

definition SysAdminUsername :: string where [oc_consts]:
  "SysAdminUsername = ''sysadmin''"

definition SysAdminProject :: string where [oc_consts]:
  "SysAdminProject = ''system''"

definition DefaultDomain :: string where [oc_consts]:
  "DefaultDomain = ''Default''"

definition KeystoneDB :: string where [oc_consts]:
  "KeystoneDB = ''keystone''"

definition KeystoneDBUser :: string where [oc_consts]:
  "KeystoneDBUser = ''keystone''"

definition KeystonePublicPort :: int where [oc_consts]:
  "KeystonePublicPort = 30500"

definition KeystoneAdminPort :: int where [oc_consts]:
  "KeystoneAdminPort = 30357"

definition GlanceDB :: string where [oc_consts]:
  "GlanceDB = ''glance''"

definition GlanceDBUser :: string where [oc_consts]:
  "GlanceDBUser = ''glance''"

definition GlanceAdminUser :: string where [oc_consts]:
  "GlanceAdminUser = ''glance''"

definition GlanceAdminProject :: string where [oc_consts]:
  "GlanceAdminProject = SysAdminProject"

definition GlanceAPIPort :: int where [oc_consts]:
  "GlanceAPIPort = 30292"

definition ServiceNameGlance :: string where [oc_consts]:
  "ServiceNameGlance = ''glance''"

definition ServiceTypeGlance :: string where [oc_consts]:
  "ServiceTypeGlance = ''image''"

definition GlanceDataStore :: string where [oc_consts]:
  "GlanceDataStore = ''/opt/cloud/workspace/data/glance''"

definition QemuPath :: string where [oc_consts]:
  "QemuPath = ''/usr/local/qemu-2.12.1''"

definition KernelPath :: string where [oc_consts]:
  "KernelPath = ''/lib/modules''"

definition BaremetalsPath :: string where [oc_consts]:
  "BaremetalsPath = ''/opt/cloud/workspace/baremetals''"

definition BaremetalTFTPRoot :: string where [oc_consts]:
  "BaremetalTFTPRoot = ''/opt/cloud/yunion/baremetal''"

definition RegionAdminUser :: string where [oc_consts]:
  "RegionAdminUser = ''regionadmin''"

definition RegionAdminProject :: string where [oc_consts]:
  "RegionAdminProject = SysAdminProject"

definition RegionPort :: int where [oc_consts]:
  "RegionPort = 30888"

definition SchedulerPort :: int where [oc_consts]:
  "SchedulerPort = 30887"

definition RegionDB :: string where [oc_consts]:
  "RegionDB = ''yunioncloud''"

definition RegionDBUser :: string where [oc_consts]:
  "RegionDBUser = ''yunioncloud''"

definition ServiceNameHost :: string where [oc_consts]:
  "ServiceNameHost = ''host''"

definition ServiceTypeHost :: string where [oc_consts]:
  "ServiceTypeHost = ''host''"

definition HostAdminUser :: string where [oc_consts]:
  "HostAdminUser = ''hostadmin''"

definition HostAdminProject :: string where [oc_consts]:
  "HostAdminProject = SysAdminProject"

definition HostPort :: int where [oc_consts]:
  "HostPort = 8885"

definition ServiceNameBaremetal :: string where [oc_consts]:
  "ServiceNameBaremetal = ''baremetal''"

definition ServiceTypeBaremetal :: string where [oc_consts]:
  "ServiceTypeBaremetal = ''baremetal''"

definition BaremetalAdminUser :: string where [oc_consts]:
  "BaremetalAdminUser = ''baremetal''"

definition BaremetalAdminProject :: string where [oc_consts]:
  "BaremetalAdminProject = SysAdminProject"

definition BaremetalPort :: int where [oc_consts]:
  "BaremetalPort = 8879"

definition KubeServerAdminUser :: string where [oc_consts]:
  "KubeServerAdminUser = ''kubeserver''"

definition KubeServerPort :: int where [oc_consts]:
  "KubeServerPort = 30442"

definition KubeServerDB :: string where [oc_consts]:
  "KubeServerDB = ''kubeserver''"

definition KubeServerDBUser :: string where [oc_consts]:
  "KubeServerDBUser = ''kubeserver''"

definition WebconsoleAdminUser :: string where [oc_consts]:
  "WebconsoleAdminUser = ''webconsole''"

definition WebconsoleAdminProject :: string where [oc_consts]:
  "WebconsoleAdminProject = SysAdminProject"

definition WebconsolePort :: int where [oc_consts]:
  "WebconsolePort = 30899"

definition WebconsoleDB :: string where [oc_consts]:
  "WebconsoleDB = ''webconsole''"

definition WebconsoleDBUser :: string where [oc_consts]:
  "WebconsoleDBUser = ''webconsole''"

definition LoggerAdminUser :: string where [oc_consts]:
  "LoggerAdminUser = ''loggeradmin''"

definition LoggerPort :: int where [oc_consts]:
  "LoggerPort = 30999"

definition LoggerDB :: string where [oc_consts]:
  "LoggerDB = ''yunionlogger''"

definition LoggerDBUser :: string where [oc_consts]:
  "LoggerDBUser = ''yunionlogger''"

definition ServiceNameAPIGateway :: string where [oc_consts]:
  "ServiceNameAPIGateway = ''yunionapi''"

definition ServiceTypeAPIGateway :: string where [oc_consts]:
  "ServiceTypeAPIGateway = ''yunionapi''"

definition ServiceNameWebsocket :: string where [oc_consts]:
  "ServiceNameWebsocket = ''websocket''"

definition ServiceTypeWebsocket :: string where [oc_consts]:
  "ServiceTypeWebsocket = ''websocket''"

definition APIGatewayAdminUser :: string where [oc_consts]:
  "APIGatewayAdminUser = ''yunionapi''"

definition APIGatewayPort :: int where [oc_consts]:
  "APIGatewayPort = 30300"

definition APIWebsocketPort :: int where [oc_consts]:
  "APIWebsocketPort = 30443"

definition YunionAgentAdminUser :: string where [oc_consts]:
  "YunionAgentAdminUser = ''yunionagent''"

definition YunionAgentPort :: int where [oc_consts]:
  "YunionAgentPort = 30898"

definition YunionAgentDB :: string where [oc_consts]:
  "YunionAgentDB = ''yunionagent''"

definition YunionAgentDBUser :: string where [oc_consts]:
  "YunionAgentDBUser = ''yunionagent''"

definition YunionConfAdminUser :: string where [oc_consts]:
  "YunionConfAdminUser = ''yunionconf''"

definition YunionConfPort :: int where [oc_consts]:
  "YunionConfPort = 30889"

definition YunionConfDB :: string where [oc_consts]:
  "YunionConfDB = ''yunionconf''"

definition YunionConfDBUser :: string where [oc_consts]:
  "YunionConfDBUser = ''yunionconf''"

definition NotifyAdminUser :: string where [oc_consts]:
  "NotifyAdminUser = ''notify''"

definition NotifyPort :: int where [oc_consts]:
  "NotifyPort = 30777"

definition NotifyDB :: string where [oc_consts]:
  "NotifyDB = ''notify''"

definition NotifyDBUser :: string where [oc_consts]:
  "NotifyDBUser = ''notify''"

definition InfluxdbPort :: int where [oc_consts]:
  "InfluxdbPort = 30086"

definition InfluxdbDataStore :: string where [oc_consts]:
  "InfluxdbDataStore = ''/var/lib/influxdb''"

definition VictoriaMetricsPort :: int where [oc_consts]:
  "VictoriaMetricsPort = 30428"

definition VictoriaMetricsDefaultRententionPeriod :: int where [oc_consts]:
  "VictoriaMetricsDefaultRententionPeriod = 93"

definition VictoriaMetricsDataStore :: string where [oc_consts]:
  "VictoriaMetricsDataStore = ''/storage''"

definition OvnNorthDbPort :: int where [oc_consts]:
  "OvnNorthDbPort = 32241"

definition OvnSouthDbPort :: int where [oc_consts]:
  "OvnSouthDbPort = 32242"

definition MonitorAdminUser :: string where [oc_consts]:
  "MonitorAdminUser = ''monitoradmin''"

definition MonitorAdminProject :: string where [oc_consts]:
  "MonitorAdminProject = SysAdminProject"

definition MonitorPort :: int where [oc_consts]:
  "MonitorPort = 30093"

definition MonitorDB :: string where [oc_consts]:
  "MonitorDB = ''monitor''"

definition MonitorDBUser :: string where [oc_consts]:
  "MonitorDBUser = ''yunionmonitor''"

definition AnsibleServerAdminUser :: string where [oc_consts]:
  "AnsibleServerAdminUser = ''ansibleadmin''"

definition AnsibleServerAdminProject :: string where [oc_consts]:
  "AnsibleServerAdminProject = SysAdminProject"

definition AnsibleServerPort :: int where [oc_consts]:
  "AnsibleServerPort = 30890"

definition AnsibleServerDB :: string where [oc_consts]:
  "AnsibleServerDB = ''yunionansible''"

definition AnsibleServerDBUser :: string where [oc_consts]:
  "AnsibleServerDBUser = ''yunionansible''"

definition CloudnetAdminUser :: string where [oc_consts]:
  "CloudnetAdminUser = ''cloudnetadmin''"

definition CloudnetAdminProject :: string where [oc_consts]:
  "CloudnetAdminProject = SysAdminProject"

definition CloudnetPort :: int where [oc_consts]:
  "CloudnetPort = 30891"

definition CloudnetDB :: string where [oc_consts]:
  "CloudnetDB = ''yunioncloudnet''"

definition CloudnetDBUser :: string where [oc_consts]:
  "CloudnetDBUser = ''yunioncloudnet''"

definition CloudproxyAdminUser :: string where [oc_consts]:
  "CloudproxyAdminUser = ''cloudproxyadmin''"

definition CloudproxyAdminProject :: string where [oc_consts]:
  "CloudproxyAdminProject = SysAdminProject"

definition CloudproxyPort :: int where [oc_consts]:
  "CloudproxyPort = 30882"

definition CloudproxyDB :: string where [oc_consts]:
  "CloudproxyDB = ''yunioncloudproxy''"

definition CloudproxyDBUser :: string where [oc_consts]:
  "CloudproxyDBUser = ''yunioncloudproxy''"

definition CloudeventAdminUser :: string where [oc_consts]:
  "CloudeventAdminUser = ''cloudeventadmin''"

definition CloudeventAdminProject :: string where [oc_consts]:
  "CloudeventAdminProject = SysAdminProject"

definition CloudeventPort :: int where [oc_consts]:
  "CloudeventPort = 30892"

definition CloudeventDB :: string where [oc_consts]:
  "CloudeventDB = ''yunioncloudevent''"

definition CloudeventDBUser :: string where [oc_consts]:
  "CloudeventDBUser = ''yunioncloudevent''"

definition CloudIdAdminUser :: string where [oc_consts]:
  "CloudIdAdminUser = ''cloudidadmin''"

definition CloudIdAdminProject :: string where [oc_consts]:
  "CloudIdAdminProject = SysAdminProject"

definition CloudIdPort :: int where [oc_consts]:
  "CloudIdPort = 30893"

definition CloudIdDB :: string where [oc_consts]:
  "CloudIdDB = ''yunioncloudid''"

definition CloudIdDBUser :: string where [oc_consts]:
  "CloudIdDBUser = ''yunioncloudid''"

definition EndpointTypeInternal :: string where [oc_consts]:
  "EndpointTypeInternal = ''internal''"

definition EndpointTypePublic :: string where [oc_consts]:
  "EndpointTypePublic = ''public''"

definition EndpointTypeAdmin :: string where [oc_consts]:
  "EndpointTypeAdmin = ''admin''"

definition EndpointTypeConsole :: string where [oc_consts]:
  "EndpointTypeConsole = ''console''"

definition EndpointTypeSlave :: string where [oc_consts]:
  "EndpointTypeSlave = ''slave''"

definition ServiceNameKeystone :: string where [oc_consts]:
  "ServiceNameKeystone = ''keystone''"

definition ServiceTypeIdentity :: string where [oc_consts]:
  "ServiceTypeIdentity = ''identity''"

definition ServiceNameRegion :: string where [oc_consts]:
  "ServiceNameRegion = ''region''"

definition ServiceNameRegionV2 :: string where [oc_consts]:
  "ServiceNameRegionV2 = ''region2''"

definition ServiceTypeCompute :: string where [oc_consts]:
  "ServiceTypeCompute = ''compute''"

definition ServiceTypeComputeV2 :: string where [oc_consts]:
  "ServiceTypeComputeV2 = ''compute_v2''"

definition ServiceNameScheduler :: string where [oc_consts]:
  "ServiceNameScheduler = ''scheduler''"

definition ServiceTypeScheduler :: string where [oc_consts]:
  "ServiceTypeScheduler = ''scheduler''"

definition ServiceNameWebconsole :: string where [oc_consts]:
  "ServiceNameWebconsole = ''webconsole''"

definition ServiceTypeWebconsole :: string where [oc_consts]:
  "ServiceTypeWebconsole = ''webconsole''"

definition ServiceNameLogger :: string where [oc_consts]:
  "ServiceNameLogger = ''log''"

definition ServiceTypeLogger :: string where [oc_consts]:
  "ServiceTypeLogger = ''log''"

definition ServiceNameYunionConf :: string where [oc_consts]:
  "ServiceNameYunionConf = ''yunionconf''"

definition ServiceTypeYunionConf :: string where [oc_consts]:
  "ServiceTypeYunionConf = ''yunionconf''"

definition ServiceNameYunionAgent :: string where [oc_consts]:
  "ServiceNameYunionAgent = ''yunionagent''"

definition ServiceTypeYunionAgent :: string where [oc_consts]:
  "ServiceTypeYunionAgent = ''yunionagent''"

definition ServiceNameInfluxdb :: string where [oc_consts]:
  "ServiceNameInfluxdb = ''influxdb''"

definition ServiceTypeInfluxdb :: string where [oc_consts]:
  "ServiceTypeInfluxdb = ''influxdb''"

definition ServiceNameVictoriaMetrics :: string where [oc_consts]:
  "ServiceNameVictoriaMetrics = ''victoria-metrics''"

definition ServiceTypeVictoriaMetrics :: string where [oc_consts]:
  "ServiceTypeVictoriaMetrics = ''victoria-metrics''"

definition ServiceNameMonitor :: string where [oc_consts]:
  "ServiceNameMonitor = ''monitor''"

definition ServiceTypeMonitor :: string where [oc_consts]:
  "ServiceTypeMonitor = ''monitor''"

definition ServiceNameOvnNorthDb :: string where [oc_consts]:
  "ServiceNameOvnNorthDb = ''ovn-north-db''"

definition ServiceTypeOvnNorthDb :: string where [oc_consts]:
  "ServiceTypeOvnNorthDb = ''ovn-north-db''"

definition ServiceNameOvnSouthDb :: string where [oc_consts]:
  "ServiceNameOvnSouthDb = ''ovn-south-db''"

definition ServiceTypeOvnSouthDb :: string where [oc_consts]:
  "ServiceTypeOvnSouthDb = ''ovn-south-db''"

definition ServiceNameKubeServer :: string where [oc_consts]:
  "ServiceNameKubeServer = ''k8s''"

definition ServiceTypeKubeServer :: string where [oc_consts]:
  "ServiceTypeKubeServer = ''k8s''"

definition ServiceNameAnsibleServer :: string where [oc_consts]:
  "ServiceNameAnsibleServer = ''ansible''"

definition ServiceTypeAnsibleServer :: string where [oc_consts]:
  "ServiceTypeAnsibleServer = ''ansible''"

definition ServiceNameCloudnet :: string where [oc_consts]:
  "ServiceNameCloudnet = ''cloudnet''"

definition ServiceTypeCloudnet :: string where [oc_consts]:
  "ServiceTypeCloudnet = ''cloudnet''"

definition ServiceNameCloudproxy :: string where [oc_consts]:
  "ServiceNameCloudproxy = ''cloudproxy''"

definition ServiceTypeCloudproxy :: string where [oc_consts]:
  "ServiceTypeCloudproxy = ''cloudproxy''"

definition ServiceNameCloudevent :: string where [oc_consts]:
  "ServiceNameCloudevent = ''cloudevent''"

definition ServiceTypeCloudevent :: string where [oc_consts]:
  "ServiceTypeCloudevent = ''cloudevent''"

definition ServiceNameCloudId :: string where [oc_consts]:
  "ServiceNameCloudId = ''cloudid''"

definition ServiceTypeCloudId :: string where [oc_consts]:
  "ServiceTypeCloudId = ''cloudid''"

definition ServiceNameCloudmon :: string where [oc_consts]:
  "ServiceNameCloudmon = ''cloudmon''"

definition ServiceTypeCloudmon :: string where [oc_consts]:
  "ServiceTypeCloudmon = ''cloudmon''"

definition CloudmonPort :: int where [oc_consts]:
  "CloudmonPort = 30931"

definition CloudmonAdminUser :: string where [oc_consts]:
  "CloudmonAdminUser = ''cloudmon''"

definition CloudmonAdminProject :: string where [oc_consts]:
  "CloudmonAdminProject = SysAdminProject"

definition ServiceNameNotify :: string where [oc_consts]:
  "ServiceNameNotify = ''notify''"

definition ServiceTypeNotify :: string where [oc_consts]:
  "ServiceTypeNotify = ''notify''"

definition ServiceNameVpcagent :: string where [oc_consts]:
  "ServiceNameVpcagent = ''vpcagent''"

definition ServiceTypeVpcagent :: string where [oc_consts]:
  "ServiceTypeVpcagent = ''vpcagent''"

definition VpcAgentAdminUser :: string where [oc_consts]:
  "VpcAgentAdminUser = ''vpcagentadmin''"

definition VpcAgentAdminProject :: string where [oc_consts]:
  "VpcAgentAdminProject = SysAdminProject"

definition VpcAgentPort :: int where [oc_consts]:
  "VpcAgentPort = 30932"

definition BaremetalDataStore :: string where [oc_consts]:
  "BaremetalDataStore = ''/opt/cloud/workspace''"

definition ServiceURLCloudmeta :: string where [oc_consts]:
  "ServiceURLCloudmeta = ''https://meta.yunion.cn''"

definition ServiceNameCloudmeta :: string where [oc_consts]:
  "ServiceNameCloudmeta = ''cloudmeta''"

definition ServiceTypeCloudmeta :: string where [oc_consts]:
  "ServiceTypeCloudmeta = ''cloudmeta''"

definition ServiceURLTorrentTracker :: string where [oc_consts]:
  "ServiceURLTorrentTracker = ''https://tracker.yunion.cn''"

definition ServiceNameTorrentTracker :: string where [oc_consts]:
  "ServiceNameTorrentTracker = ''torrent-tracker''"

definition ServiceTypeTorrentTracker :: string where [oc_consts]:
  "ServiceTypeTorrentTracker = ''torrent-tracker''"

definition ServiceNameAutoUpdate :: string where [oc_consts]:
  "ServiceNameAutoUpdate = ''autoupdate''"

definition ServiceTypeAutoUpdate :: string where [oc_consts]:
  "ServiceTypeAutoUpdate = ''autoupdate''"

definition AutoUpdateAdminUser :: string where [oc_consts]:
  "AutoUpdateAdminUser = ''autoupdate''"

definition AutoUpdateAdminProject :: string where [oc_consts]:
  "AutoUpdateAdminProject = SysAdminProject"

definition AutoUpdatePort :: int where [oc_consts]:
  "AutoUpdatePort = 30981"

definition AutoUpdateDB :: string where [oc_consts]:
  "AutoUpdateDB = ''autoupdate''"

definition AutoUpdateDBUser :: string where [oc_consts]:
  "AutoUpdateDBUser = ''autoupdate''"

definition NetworkTypeBaremetal :: string where [oc_consts]:
  "NetworkTypeBaremetal = ''baremetal''"

definition NetworkTypeServer :: string where [oc_consts]:
  "NetworkTypeServer = ''server''"

definition ServiceNameExternal :: string where [oc_consts]:
  "ServiceNameExternal = ''external-service''"

definition ServiceTypeExternal :: string where [oc_consts]:
  "ServiceTypeExternal = ServiceNameExternal"

definition ServiceNameCommon :: string where [oc_consts]:
  "ServiceNameCommon = ''common''"

definition ServiceTypeCommon :: string where [oc_consts]:
  "ServiceTypeCommon = ServiceNameCommon"

definition ServiceNameOfflineCloudmeta :: string where [oc_consts]:
  "ServiceNameOfflineCloudmeta = ''offlinecloudmeta''"

definition ServiceTypeOfflineCloudmeta :: string where [oc_consts]:
  "ServiceTypeOfflineCloudmeta = ''offlinecloudmeta''"

definition ServiceURLOfflineCloudmeta :: string where [oc_consts]:
  "ServiceURLOfflineCloudmeta = ''https://yunionmeta.oss-cn-beijing.aliyuncs.com''"

definition ServiceNameS3gateway :: string where [oc_consts]:
  "ServiceNameS3gateway = ''s3gateway''"

definition ServiceTypeS3gateway :: string where [oc_consts]:
  "ServiceTypeS3gateway = ''s3gateway''"

definition S3gatewayPort :: int where [oc_consts]:
  "S3gatewayPort = 30884"

definition S3gatewayAdminUser :: string where [oc_consts]:
  "S3gatewayAdminUser = ''s3gatewayadm''"

definition S3gatewayAdminProject :: string where [oc_consts]:
  "S3gatewayAdminProject = SysAdminProject"

definition ServiceNameDevtool :: string where [oc_consts]:
  "ServiceNameDevtool = ''devtool''"

definition ServiceTypeDevtool :: string where [oc_consts]:
  "ServiceTypeDevtool = ''devtool''"

definition DevtoolPort :: int where [oc_consts]:
  "DevtoolPort = 30997"

definition DevtoolAdminUser :: string where [oc_consts]:
  "DevtoolAdminUser = ''devtooladmin''"

definition DevtoolAdminProject :: string where [oc_consts]:
  "DevtoolAdminProject = SysAdminProject"

definition DevtoolDB :: string where [oc_consts]:
  "DevtoolDB = ''devtool''"

definition DevtoolDBUser :: string where [oc_consts]:
  "DevtoolDBUser = ''devtool''"

definition ServiceNameMeter :: string where [oc_consts]:
  "ServiceNameMeter = ''meter''"

definition ServiceTypeMeter :: string where [oc_consts]:
  "ServiceTypeMeter = ''meter''"

definition MeterPort :: int where [oc_consts]:
  "MeterPort = 30909"

definition MeterAdminUser :: string where [oc_consts]:
  "MeterAdminUser = ''meterdocker''"

definition MeterAdminProject :: string where [oc_consts]:
  "MeterAdminProject = SysAdminProject"

definition MeterDB :: string where [oc_consts]:
  "MeterDB = ''yunionmeter''"

definition MeterDBUser :: string where [oc_consts]:
  "MeterDBUser = ''yunionmeter''"

definition MeterDataStore :: string where [oc_consts]:
  "MeterDataStore = ''/opt/yunion/meter''"

definition MeterBillingDataDir :: string where [oc_consts]:
  "MeterBillingDataDir = ''billing''"

definition MeterRatesDataDir :: string where [oc_consts]:
  "MeterRatesDataDir = ''rates''"

definition MeterInfluxDB :: string where [oc_consts]:
  "MeterInfluxDB = ''meter_db''"

definition MeterAwsRiPlanIdHandle :: string where [oc_consts]:
  "MeterAwsRiPlanIdHandle = ''true''"

definition ServiceNameBilling :: string where [oc_consts]:
  "ServiceNameBilling = ''billing''"

definition ServiceTypeBilling :: string where [oc_consts]:
  "ServiceTypeBilling = ''billing''"

definition BillingPort :: int where [oc_consts]:
  "BillingPort = 30404"

definition BillingAdminUser :: string where [oc_consts]:
  "BillingAdminUser = ''billingadmin''"

definition BillingAdminProject :: string where [oc_consts]:
  "BillingAdminProject = SysAdminProject"

definition BillingDB :: string where [oc_consts]:
  "BillingDB = ''yunionbilling''"

definition BillingDBUser :: string where [oc_consts]:
  "BillingDBUser = ''yunionbilling''"

definition EsxiAgentAdminUser :: string where [oc_consts]:
  "EsxiAgentAdminUser = ''esxiagent''"

definition EsxiAgentPort :: int where [oc_consts]:
  "EsxiAgentPort = 30883"

definition EsxiAgentDataStore :: string where [oc_consts]:
  "EsxiAgentDataStore = ''/opt/cloud/workspace''"

definition ServiceOperatorAdminUser :: string where [oc_consts]:
  "ServiceOperatorAdminUser = ''osOperator''"

definition ServiceOperatorPort :: int where [oc_consts]:
  "ServiceOperatorPort = 30885"

definition EtcdClientPort :: int where [oc_consts]:
  "EtcdClientPort = 2379"

definition EtcdClientNodePort :: int where [oc_consts]:
  "EtcdClientNodePort = 30379"

definition EtcdPeerPort :: int where [oc_consts]:
  "EtcdPeerPort = 2380"

definition EtcdImageName :: string where [oc_consts]:
  "EtcdImageName = ''etcd''"

definition EtcdDefaultClusterSize :: int where [oc_consts]:
  "EtcdDefaultClusterSize = 3"

definition EtcdImageVersion :: string where [oc_consts]:
  "EtcdImageVersion = ''3.5.12''"

definition BusyboxImageName :: string where [oc_consts]:
  "BusyboxImageName = ''busybox''"

definition BusyboxImageVersion :: string where [oc_consts]:
  "BusyboxImageVersion = ''1.37.0-glibc''"

definition ServiceNameEtcd :: string where [oc_consts]:
  "ServiceNameEtcd = ''etcd''"

definition ServiceTypeEtcd :: string where [oc_consts]:
  "ServiceTypeEtcd = ServiceNameEtcd"

definition ServiceCertEtcdName :: string where [oc_consts]:
  "ServiceCertEtcdName = ServiceNameEtcd"

definition ItsmAdminUser :: string where [oc_consts]:
  "ItsmAdminUser = ''itsm''"

definition ItsmPort :: int where [oc_consts]:
  "ItsmPort = 30595"

definition ItsmDB :: string where [oc_consts]:
  "ItsmDB = ''itsm''"

definition ItsmDBUser :: string where [oc_consts]:
  "ItsmDBUser = ''itsm''"

definition ServiceNameItsm :: string where [oc_consts]:
  "ServiceNameItsm = ''itsm''"

definition ServiceTypeItsm :: string where [oc_consts]:
  "ServiceTypeItsm = ''itsm''"

definition ServiceNameSuggestion :: string where [oc_consts]:
  "ServiceNameSuggestion = ''suggestion''"

definition ServiceTypeSuggestion :: string where [oc_consts]:
  "ServiceTypeSuggestion = ''suggestion''"

definition SuggestionAdminUser :: string where [oc_consts]:
  "SuggestionAdminUser = ''suggestion''"

definition SuggestionPort :: int where [oc_consts]:
  "SuggestionPort = 30987"

definition SuggestionDB :: string where [oc_consts]:
  "SuggestionDB = ''suggestion''"

definition SuggestionDBUser :: string where [oc_consts]:
  "SuggestionDBUser = ''suggestion''"

definition ServiceNameScheduledtask :: string where [oc_consts]:
  "ServiceNameScheduledtask = ''scheduledtask''"

definition ServiceTypeScheduledtask :: string where [oc_consts]:
  "ServiceTypeScheduledtask = ''scheduledtask''"

definition ScheduledtaskPort :: int where [oc_consts]:
  "ScheduledtaskPort = 30978"

definition ServiceNameApiMap :: string where [oc_consts]:
  "ServiceNameApiMap = ''apimap''"

definition ServiceTypeApiMap :: string where [oc_consts]:
  "ServiceTypeApiMap = ''apimap''"

definition ApiMapAdminUser :: string where [oc_consts]:
  "ApiMapAdminUser = ''apimapadmin''"

definition ApiMapAdminProject :: string where [oc_consts]:
  "ApiMapAdminProject = SysAdminProject"

definition ApiMapPort :: int where [oc_consts]:
  "ApiMapPort = 31999"

definition ServiceNameReport :: string where [oc_consts]:
  "ServiceNameReport = ''report''"

definition ServiceTypeReport :: string where [oc_consts]:
  "ServiceTypeReport = ''report''"

definition ReportAdminUser :: string where [oc_consts]:
  "ReportAdminUser = ''report''"

definition ReportAdminProject :: string where [oc_consts]:
  "ReportAdminProject = SysAdminProject"

definition ReportPort :: int where [oc_consts]:
  "ReportPort = 30967"

definition ReportDB :: string where [oc_consts]:
  "ReportDB = ''report''"

definition ReportDBUser :: string where [oc_consts]:
  "ReportDBUser = ''report''"

definition ServiceNameLbagent :: string where [oc_consts]:
  "ServiceNameLbagent = ''lbagent''"

definition ServiceTypeLbagent :: string where [oc_consts]:
  "ServiceTypeLbagent = ''lbagent''"

definition LbagentAdminUser :: string where [oc_consts]:
  "LbagentAdminUser = ''lbagentadm''"

definition LbagentAdminProject :: string where [oc_consts]:
  "LbagentAdminProject = SysAdminProject"

definition LbagentPort :: int where [oc_consts]:
  "LbagentPort = 8895"

definition ServiceNameEChartsSSR :: string where [oc_consts]:
  "ServiceNameEChartsSSR = ''echarts-ssr''"

definition ServiceTypeEChartsSSR :: string where [oc_consts]:
  "ServiceTypeEChartsSSR = ''echarts-ssr''"

definition EChartsSSRPort :: int where [oc_consts]:
  "EChartsSSRPort = 8081"

definition ServiceNameBastionHost :: string where [oc_consts]:
  "ServiceNameBastionHost = ''bastionhost''"

definition ServiceTypeBastionHost :: string where [oc_consts]:
  "ServiceTypeBastionHost = ''bastionhost''"

definition BastionHostAdminUser :: string where [oc_consts]:
  "BastionHostAdminUser = ''bastionhost''"

definition BastionHostAdminProject :: string where [oc_consts]:
  "BastionHostAdminProject = SysAdminProject"

definition BastionHostPort :: int where [oc_consts]:
  "BastionHostPort = 30983"

definition BastionHostDB :: string where [oc_consts]:
  "BastionHostDB = ''bastionhost''"

definition BastionHostDBUser :: string where [oc_consts]:
  "BastionHostDBUser = ''bastionhost''"

definition ServiceNameExtdb :: string where [oc_consts]:
  "ServiceNameExtdb = ''extdb''"

definition ServiceTypeExtdb :: string where [oc_consts]:
  "ServiceTypeExtdb = ''extdb''"

definition ExtdbAdminUser :: string where [oc_consts]:
  "ExtdbAdminUser = ''extdb''"

definition ExtdbAdminProject :: string where [oc_consts]:
  "ExtdbAdminProject = SysAdminProject"

definition ExtdbPort :: int where [oc_consts]:
  "ExtdbPort = 30991"

definition ExtdbDB :: string where [oc_consts]:
  "ExtdbDB = ''extdb''"

definition ExtdbDBUser :: string where [oc_consts]:
  "ExtdbDBUser = ''extdb''"

definition ServiceNameLLM :: string where [oc_consts]:
  "ServiceNameLLM = ''llm''"

definition ServiceTypeLLM :: string where [oc_consts]:
  "ServiceTypeLLM = ''llm''"

definition LLMPort :: int where [oc_consts]:
  "LLMPort = 31512"

definition LLMAdminUser :: string where [oc_consts]:
  "LLMAdminUser = ''llmadmin''"

definition LLMAdminProject :: string where [oc_consts]:
  "LLMAdminProject = SysAdminProject"

definition LLMDB :: string where [oc_consts]:
  "LLMDB = ''llm''"

definition LLMDBUser :: string where [oc_consts]:
  "LLMDBUser = ''llm''"

definition ServiceNameMcpServer :: string where [oc_consts]:
  "ServiceNameMcpServer = ''mcp-server''"

definition ServiceTypeMcpServer :: string where [oc_consts]:
  "ServiceTypeMcpServer = ''mcp-server''"

definition McpServerAdminUser :: string where [oc_consts]:
  "McpServerAdminUser = ''mcp-server-admin''"

definition McpServerAdminProject :: string where [oc_consts]:
  "McpServerAdminProject = SysAdminProject"

definition McpServerPort :: int where [oc_consts]:
  "McpServerPort = 30876"

definition ServiceNameAiProxy :: string where [oc_consts]:
  "ServiceNameAiProxy = ''aiproxy''"

definition ServiceTypeAiProxy :: string where [oc_consts]:
  "ServiceTypeAiProxy = ''aiproxy''"

definition AiProxyAdminUser :: string where [oc_consts]:
  "AiProxyAdminUser = ''aiproxy-admin''"

definition AiProxyAdminProject :: string where [oc_consts]:
  "AiProxyAdminProject = SysAdminProject"

definition AiProxyPort :: int where [oc_consts]:
  "AiProxyPort = 31513"

definition AiProxyDB :: string where [oc_consts]:
  "AiProxyDB = ''aiproxy''"

definition AiProxyDBUser :: string where [oc_consts]:
  "AiProxyDBUser = ''aiproxy''"

definition SpecifiedPresistentVolumePath :: string where [oc_consts]:
  "SpecifiedPresistentVolumePath = ''pvc.onecloud.yunion.io/pv-path''"

definition CACertAndKeyBaseName :: string where [oc_consts]:
  "CACertAndKeyBaseName = ''ca''"

definition CACertName :: string where [oc_consts]:
  "CACertName = ''ca.crt''"

definition CAKeyName :: string where [oc_consts]:
  "CAKeyName = ''ca.key''"

definition CertDir :: string where [oc_consts]:
  "CertDir = ''/etc/yunion/pki''"

definition ServiceCertAndKeyBaseName :: string where [oc_consts]:
  "ServiceCertAndKeyBaseName = ''service''"

definition ServiceCertName :: string where [oc_consts]:
  "ServiceCertName = ''service.crt''"

definition ServiceKeyName :: string where [oc_consts]:
  "ServiceKeyName = ''service.key''"

definition ConfigDir :: string where [oc_consts]:
  "ConfigDir = ''/etc/yunion''"

definition VolumeConfigName :: string where [oc_consts]:
  "VolumeConfigName = ''config''"

definition VolumeCertsName :: string where [oc_consts]:
  "VolumeCertsName = ''certs''"

definition Localhost :: string where [oc_consts]:
  "Localhost = ''localhost''"

definition EtcdServerSecret :: string where [oc_consts]:
  "EtcdServerSecret = ''etcd-server''"

definition EtcdClientSecret :: string where [oc_consts]:
  "EtcdClientSecret = ''etcd-client''"

definition EtcdPeerSecret :: string where [oc_consts]:
  "EtcdPeerSecret = ''etcd-peer''"

definition EtcdClientTLSDir :: string where [oc_consts]:
  "EtcdClientTLSDir = ''/etc/etcdtls/operator/etcd-tls''"

definition EtcdServerName :: string where [oc_consts]:
  "EtcdServerName = ''server''"

definition EtcdServerCACertName :: string where [oc_consts]:
  "EtcdServerCACertName = ''server-ca''"

definition EtcdServerCertName :: string where [oc_consts]:
  "EtcdServerCertName = ''server.crt''"

definition EtcdServerKeyName :: string where [oc_consts]:
  "EtcdServerKeyName = ''server.key''"

definition EtcdClientName :: string where [oc_consts]:
  "EtcdClientName = ''etcd-client''"

definition EtcdClientCACertName :: string where [oc_consts]:
  "EtcdClientCACertName = ''etcd-client-ca''"

definition EtcdClientCertName :: string where [oc_consts]:
  "EtcdClientCertName = ''etcd-client.crt''"

definition EtcdClientKeyName :: string where [oc_consts]:
  "EtcdClientKeyName = ''etcd-client.key''"

definition EtcdPeerName :: string where [oc_consts]:
  "EtcdPeerName = ''peer''"

definition EtcdPeerCACertName :: string where [oc_consts]:
  "EtcdPeerCACertName = ''peer-ca''"

definition EtcdPeerCertName :: string where [oc_consts]:
  "EtcdPeerCertName = ''peer.crt''"

definition EtcdPeerKeyName :: string where [oc_consts]:
  "EtcdPeerKeyName = ''peer.key''"

definition DefaultBackupPodHTTPPort :: int where [oc_consts]:
  "DefaultBackupPodHTTPPort = 19999"

definition OperatorRoot :: string where [oc_consts]:
  "OperatorRoot = ''/var/tmp/etcd-operator''"

definition BackupMountDir :: string where [oc_consts]:
  "BackupMountDir = ''/var/etcd-backup''"

definition EnvOperatorPodName :: string where [oc_consts]:
  "EnvOperatorPodName = ''MY_POD_NAME''"

definition EnvOperatorPodNamespace :: string where [oc_consts]:
  "EnvOperatorPodNamespace = ''MY_POD_NAMESPACE''"

definition RoleAdmin :: string where [oc_consts]:
  "RoleAdmin = ''admin''"

definition RoleFA :: string where [oc_consts]:
  "RoleFA = ''fa''"

definition RoleSA :: string where [oc_consts]:
  "RoleSA = ''sa''"

definition RoleProjectOwner :: string where [oc_consts]:
  "RoleProjectOwner = ''project_owner''"

definition RoleMember :: string where [oc_consts]:
  "RoleMember = ''member''"

definition RoleDomainAdmin :: string where [oc_consts]:
  "RoleDomainAdmin = ''domainadmin''"

definition RoleProjectEditor :: string where [oc_consts]:
  "RoleProjectEditor = ''project_editor''"

definition DockerComposeClusterName :: string where [oc_consts]:
  "DockerComposeClusterName = ''docker-compose-cluster''"

definition DefaultVersion :: string where [oc_consts]:
  "DefaultVersion = ''latest''"

definition DefaultOnecloudRegion :: string where [oc_consts]:
  "DefaultOnecloudRegion = ''region0''"

definition DefaultOnecloudRegionDNSDomain :: string where [oc_consts]:
  "DefaultOnecloudRegionDNSDomain = []"

definition DefaultOnecloudZone :: string where [oc_consts]:
  "DefaultOnecloudZone = ''zone0''"

definition DefaultOnecloudWire :: string where [oc_consts]:
  "DefaultOnecloudWire = ''bcast0''"

definition DefaultImageRepository :: string where [oc_consts]:
  "DefaultImageRepository = ''registry.hub.docker.com/yunion''"

definition DefaultVPCId :: string where [oc_consts]:
  "DefaultVPCId = ''default''"

definition DefaultGlanceStorageSize :: string where [oc_consts]:
  "DefaultGlanceStorageSize = ''100G''"

definition DefaultMeterStorageSize :: string where [oc_consts]:
  "DefaultMeterStorageSize = ''100G''"

definition DefaultInfluxdbStorageSize :: string where [oc_consts]:
  "DefaultInfluxdbStorageSize = ''20G''"

definition DefaultVictoriaMetricsStorageSize :: string where [oc_consts]:
  "DefaultVictoriaMetricsStorageSize = ''20G''"

definition DefaultNotifyStorageSize :: string where [oc_consts]:
  "DefaultNotifyStorageSize = ''1G''"

definition DefaultBaremetalStorageSize :: string where [oc_consts]:
  "DefaultBaremetalStorageSize = ''100G''"

definition DefaultEsxiAgentStorageSize :: string where [oc_consts]:
  "DefaultEsxiAgentStorageSize = ''30G''"

definition DefaultStorageClass :: string where [oc_consts]:
  "DefaultStorageClass = ''local-path''"

definition DefaultOvnVersion :: string where [oc_consts]:
  "DefaultOvnVersion = ''2.12.4''"

definition DefaultOvnImageName :: string where [oc_consts]:
  "DefaultOvnImageName = ''openvswitch''"

definition DefaultOvnImageTag :: string where [oc_consts]:
  "DefaultOvnImageTag = DefaultOvnVersion @ ''-20260415''"

definition DefaultSdnAgentImageName :: string where [oc_consts]:
  "DefaultSdnAgentImageName = ''sdnagent''"

definition DefaultWebOverviewImageName :: string where [oc_consts]:
  "DefaultWebOverviewImageName = ''dashboard-overview''"

definition DefaultWebDocsImageName :: string where [oc_consts]:
  "DefaultWebDocsImageName = ''docs-ee''"

definition DefaultNotifyPluginsImageName :: string where [oc_consts]:
  "DefaultNotifyPluginsImageName = ''notify-plugins''"

definition DefaultHostImageName :: string where [oc_consts]:
  "DefaultHostImageName = ''host-image''"

definition DefaultHostImageTag :: string where [oc_consts]:
  "DefaultHostImageTag = ''v1.0.10''"

definition DefaultHostHealthName :: string where [oc_consts]:
  "DefaultHostHealthName = ''host-health''"

definition DefaultHostHealthTag :: string where [oc_consts]:
  "DefaultHostHealthTag = ''v0.0.5''"

definition DefaultInfluxdbImageVersion :: string where [oc_consts]:
  "DefaultInfluxdbImageVersion = ''1.7.7''"

definition DefaultVictoriaMetricsImageVersion :: string where [oc_consts]:
  "DefaultVictoriaMetricsImageVersion = ''v1.129.1-1''"

definition DefaultTelegrafImageName :: string where [oc_consts]:
  "DefaultTelegrafImageName = ''telegraf''"

definition DefaultTelegrafImageTag :: string where [oc_consts]:
  "DefaultTelegrafImageTag = ''release-1.36.4-13''"

definition DefaultTelegrafInitImageName :: string where [oc_consts]:
  "DefaultTelegrafInitImageName = ''telegraf-init''"

definition DefaultTelegrafInitImageTag :: string where [oc_consts]:
  "DefaultTelegrafInitImageTag = ''release-1.36-1''"

definition DefaultTelegrafRaidImageName :: string where [oc_consts]:
  "DefaultTelegrafRaidImageName = ''telegraf-raid-plugin''"

definition DefaultTelegrafRaidImageTag :: string where [oc_consts]:
  "DefaultTelegrafRaidImageTag = ''v4.0-20260115.0''"

definition DefaultHostQemuVersion :: string where [oc_consts]:
  "DefaultHostQemuVersion = ''10.0.7''"

definition DefaultEChartSSRVersion :: string where [oc_consts]:
  "DefaultEChartSSRVersion = ''v0.0.6''"

definition DefaultGuacdVersion :: string where [oc_consts]:
  "DefaultGuacdVersion = ''1.6.0''"

end
