(* ===== verification/OC_Defaults.thy ===== *)
theory OC_Defaults
  imports OC_Constants
begin

text \<open>
  The defaulting of a cluster's specification (\<^verbatim>\<open>pkg/apis/onecloud/v1alpha1/defaults.go\<close>).
  The functions that fill a struct through a pointer are functions on the record, in the
  order of the source's assignments. \<open>clear\<close> is the global flag \<open>ClearComponent\<close>, and
  \<open>gen\<close> stands for \<open>passwd.GeneratePassword\<close>, the random password drawn at a call site
  (the site is named by the field it fills); \<open>ord\<close> is the order in which Go ranges over the
  maps of the source. \<open>SetDefaults_OnecloudClusterSpec\<close> is split into
  the paragraphs of the source, one definition each, composed in the source's order.
\<close>

section \<open>Edition\<close>

definition GetEdition :: "OnecloudCluster \<Rightarrow> string" where
  "GetEdition oc =
     (case om_Annotations (oc_ObjectMeta oc) of
        None \<Rightarrow> OnecloudCommunityEdition
      | Some _ \<Rightarrow>
          (let curEdition = gomap_str (om_Annotations (oc_ObjectMeta oc)) OnecloudEditionAnnotationKey
           in if curEdition = [] then OnecloudCommunityEdition else curEdition))"

definition IsEnterpriseEdition :: "OnecloudCluster \<Rightarrow> bool" where
  "IsEnterpriseEdition oc \<longleftrightarrow> GetEdition oc = OnecloudEnterpriseEdition"

definition IsEEOrESEEdition :: "OnecloudCluster \<Rightarrow> bool" where
  "IsEEOrESEEdition oc =
     (if IsEnterpriseEdition oc then True
      else if GetEdition oc = OnecloudEnterpriseSupportEdition then True else False)"

section \<open>Images\<close>

definition clearContainerSpec :: "bool \<Rightarrow> ContainerSpec \<Rightarrow> ContainerSpec" where
  "clearContainerSpec clear spec =
     (if clear then spec\<lparr>cs_Tag := [], cs_ImageName := [], cs_Repository := []\<rparr> else spec)"

definition getHyperImageName :: "bool \<Rightarrow> string" where
  "getHyperImageName isEE = (if isEE then ''cloudpods-ee'' else ''cloudpods'')"

definition getImage ::
  "string \<Rightarrow> string \<Rightarrow> string \<Rightarrow> string \<Rightarrow> string \<Rightarrow> string \<Rightarrow> bool \<Rightarrow> bool \<Rightarrow> string" where
  "getImage globalRepo specRepo componentType componentName globalVersion tag useHyperImage isEE =
     (let repo = (if specRepo = [] then globalRepo else specRepo);
          version = (if tag = [] then globalVersion else tag);
          name = (if componentName = []
                  then (if useHyperImage then getHyperImageName isEE else componentType)
                  else componentName)
      in repo @ ''/'' @ name @ '':'' @ version)"

definition getEditionImage ::
  "string \<Rightarrow> string \<Rightarrow> string \<Rightarrow> string \<Rightarrow> string \<Rightarrow> string \<Rightarrow> bool \<Rightarrow> bool \<Rightarrow> string" where
  "getEditionImage globalRepo specRepo componentType componentName globalVersion tag useHyperImage isEE =
     (let name = (if componentName = []
                  then (if useHyperImage then getHyperImageName isEE
                        else if isEE then componentType @ ''-ee'' else componentType)
                  else componentName)
      in getImage globalRepo specRepo componentType name globalVersion tag useHyperImage isEE)"

section \<open>The workload specifications\<close>

definition PullIfNotPresent :: string where
  "PullIfNotPresent = ''IfNotPresent''"

definition no_schedule :: "string \<Rightarrow> Toleration" where
  "no_schedule key = \<lparr>tol_Key = key, tol_Operator = [], tol_Value = [], tol_Effect = ''NoSchedule''\<rparr>"

definition default_tolerations :: "Toleration list" where
  "default_tolerations =
     [no_schedule ''node-role.kubernetes.io/master'',
      no_schedule ''node-role.kubernetes.io/controlplane'']"

definition default_pull_policy :: "ContainerSpec \<Rightarrow> ContainerSpec" where
  "default_pull_policy c =
     (if cs_ImagePullPolicy c = [] then c\<lparr>cs_ImagePullPolicy := PullIfNotPresent\<rparr> else c)"

definition SetDefaults_DeploymentSpec :: "bool \<Rightarrow> string \<Rightarrow> DeploymentSpec \<Rightarrow> DeploymentSpec" where
  "SetDefaults_DeploymentSpec clear img obj =
     (let o1 = (if ds_Replicas obj \<le> 0 then obj\<lparr>ds_Replicas := 1\<rparr> else obj);
          o2 = (if ds_Disable o1 then o1\<lparr>ds_Replicas := 0\<rparr> else o1);
          o3 = ds_ContainerSpec_update (\<lambda>c. default_pull_policy (c\<lparr>cs_Image := img\<rparr>)) o2;
          o4 = (if ds_Tolerations o3 = [] then o3\<lparr>ds_Tolerations := default_tolerations\<rparr> else o3)
      in ds_ContainerSpec_update (clearContainerSpec clear) o4)"

definition SetDefaults_DaemonSetSpec :: "bool \<Rightarrow> string \<Rightarrow> DaemonSetSpec \<Rightarrow> DaemonSetSpec" where
  "SetDefaults_DaemonSetSpec clear img obj =
     (let o1 = dms_ContainerSpec_update (\<lambda>c. default_pull_policy (c\<lparr>cs_Image := img\<rparr>)) obj;
          o2 = (if dms_Tolerations o1 = [] then o1\<lparr>dms_Tolerations := default_tolerations\<rparr> else o1)
      in dms_ContainerSpec_update (clearContainerSpec clear) o2)"

definition SetDefaults_CronJobSpec :: "bool \<Rightarrow> string \<Rightarrow> CronJobSpec \<Rightarrow> CronJobSpec" where
  "SetDefaults_CronJobSpec clear img obj =
     (let o1 = crs_ContainerSpec_update (\<lambda>c. default_pull_policy (c\<lparr>cs_Image := img\<rparr>)) obj;
          o2 = (if crs_Tolerations o1 = [] then o1\<lparr>crs_Tolerations := default_tolerations\<rparr> else o1)
      in crs_ContainerSpec_update (clearContainerSpec clear) o2)"

definition setPVCStoreage :: "string \<Rightarrow> ContainerSpec \<Rightarrow> ContainerSpec" where
  "setPVCStoreage sz obj =
     (let req = (case cs_Requests obj of None \<Rightarrow> zero_ResourceRequirement | Some r \<Rightarrow> r);
          req' = (if rq_Storage req = [] then req\<lparr>rq_Storage := sz\<rparr> else req)
      in obj\<lparr>cs_Requests := Some req'\<rparr>)"

text \<open>The image of a deployment, read from its own fields and the cluster's.\<close>

definition deployment_image :: "string \<Rightarrow> string \<Rightarrow> string \<Rightarrow> bool \<Rightarrow> bool \<Rightarrow> DeploymentSpec \<Rightarrow> string" where
  "deployment_image repo version cType useHyperImage isEE d =
     getImage repo (cs_Repository (ds_ContainerSpec d)) cType (cs_ImageName (ds_ContainerSpec d))
       version (cs_Tag (ds_ContainerSpec d)) useHyperImage isEE"

definition deployment_edition_image :: "string \<Rightarrow> string \<Rightarrow> string \<Rightarrow> bool \<Rightarrow> bool \<Rightarrow> DeploymentSpec \<Rightarrow> string" where
  "deployment_edition_image repo version cType useHyperImage isEE d =
     getEditionImage repo (cs_Repository (ds_ContainerSpec d)) cType (cs_ImageName (ds_ContainerSpec d))
       version (cs_Tag (ds_ContainerSpec d)) useHyperImage isEE"

definition container_image :: "string \<Rightarrow> string \<Rightarrow> string \<Rightarrow> bool \<Rightarrow> bool \<Rightarrow> ContainerSpec \<Rightarrow> string" where
  "container_image repo version cType useHyperImage isEE c =
     getImage repo (cs_Repository c) cType (cs_ImageName c) version (cs_Tag c) useHyperImage isEE"

text \<open>Defaulting a workload with the image \<open>getImg\<close> computes from its own fields.\<close>

definition set_deployment :: "bool \<Rightarrow> (DeploymentSpec \<Rightarrow> string) \<Rightarrow> DeploymentSpec \<Rightarrow> DeploymentSpec" where
  "set_deployment clear getImg d = SetDefaults_DeploymentSpec clear (getImg d) d"

definition set_daemonset :: "bool \<Rightarrow> (ContainerSpec \<Rightarrow> string) \<Rightarrow> DaemonSetSpec \<Rightarrow> DaemonSetSpec" where
  "set_daemonset clear getImg d = SetDefaults_DaemonSetSpec clear (getImg (dms_ContainerSpec d)) d"

text \<open>Setting the image, the pull policy and the clearing of a container of its own.\<close>

definition set_container :: "bool \<Rightarrow> string \<Rightarrow> string \<Rightarrow> string \<Rightarrow> bool \<Rightarrow> bool \<Rightarrow> ContainerSpec \<Rightarrow> ContainerSpec" where
  "set_container clear repo version cType useHyperImage isEE c =
     clearContainerSpec clear
       (c\<lparr>cs_Image := container_image repo version cType useHyperImage isEE c,
          cs_ImagePullPolicy := PullIfNotPresent\<rparr>)"

definition SetDefaults_StatefulDeploymentSpec ::
  "bool \<Rightarrow> string \<Rightarrow> string \<Rightarrow> string \<Rightarrow> string \<Rightarrow> bool \<Rightarrow> bool \<Rightarrow> StatefulDeploymentSpec \<Rightarrow> StatefulDeploymentSpec" where
  "SetDefaults_StatefulDeploymentSpec clear ctype defaultSize imageRepo version useHyperImage isEE obj =
     (let o1 = sds_DeploymentSpec_update
                 (set_deployment clear (deployment_image imageRepo version ctype useHyperImage isEE)) obj;
          o2 = (if sds_StorageClassName o1 = [] then o1\<lparr>sds_StorageClassName := DefaultStorageClass\<rparr> else o1)
      in sds_DeploymentSpec_update (ds_ContainerSpec_update (setPVCStoreage defaultSize)) o2)"

definition SetDefaults_ServiceSpec :: "int \<Rightarrow> ServiceSpec \<Rightarrow> ServiceSpec" where
  "SetDefaults_ServiceSpec port obj =
     (if sps_NodePort (ss_ServicePortSpec obj) \<noteq> 0 then obj
      else ss_ServicePortSpec_update (\<lambda>p. p\<lparr>sps_NodePort := port\<rparr>) obj)"

section \<open>The components with a function of their own\<close>

definition SetDefaults_KeystoneSpec ::
  "bool \<Rightarrow> (string \<Rightarrow> string) \<Rightarrow> string \<Rightarrow> string \<Rightarrow> bool \<Rightarrow> bool \<Rightarrow> KeystoneSpec \<Rightarrow> KeystoneSpec" where
  "SetDefaults_KeystoneSpec clear gen imageRepo version useHyperImage isEE obj =
     (let o1 = ks_DeploymentServiceSpec_update (dvs_DeploymentSpec_update
                 (set_deployment clear (deployment_image imageRepo version KeystoneComponentType useHyperImage isEE))) obj
      in if ks_BootstrapPassword o1 = []
         then o1\<lparr>ks_BootstrapPassword := gen ''keystone.bootstrapPassword''\<rparr> else o1)"

definition default_DNSConfig :: "DeploymentSpec \<Rightarrow> DeploymentSpec" where
  "default_DNSConfig d =
     (if ds_DNSConfig d = None
      then d\<lparr>ds_DNSConfig := Some \<lparr>dns_Nameservers = [], dns_Searches = [],
                                    dns_Options = [(''ndots'', Some ''2'')]\<rparr>\<rparr>
      else d)"

definition SetDefaults_RegionSpec ::
  "bool \<Rightarrow> string \<Rightarrow> string \<Rightarrow> bool \<Rightarrow> bool \<Rightarrow> RegionSpec \<Rightarrow> RegionSpec" where
  "SetDefaults_RegionSpec clear imageRepo version useHyperImage isEE obj =
     (let o1 = rs_DeploymentServicePortSpec_update (dps_DeploymentSpec_update
                 (set_deployment clear (deployment_edition_image imageRepo version RegionComponentType useHyperImage isEE))) obj;
          o2 = (if rs_DNSDomain o1 = [] then o1\<lparr>rs_DNSDomain := DefaultOnecloudRegionDNSDomain\<rparr> else o1)
      in rs_DeploymentServicePortSpec_update (dps_DeploymentSpec_update default_DNSConfig) o2)"

definition SetDefaults_RegionDNSSpec :: "bool \<Rightarrow> string \<Rightarrow> string \<Rightarrow> RegionDNSSpec \<Rightarrow> RegionDNSSpec" where
  "SetDefaults_RegionDNSSpec clear imageRepo version obj =
     rds_DaemonSetSpec_update
       (set_daemonset clear (container_image imageRepo version RegionDNSComponentType False False)) obj"

definition SetDefaults_MonitorSpec ::
  "bool \<Rightarrow> string \<Rightarrow> string \<Rightarrow> bool \<Rightarrow> bool \<Rightarrow> DeploymentServicePortSpec \<Rightarrow> DeploymentServicePortSpec" where
  "SetDefaults_MonitorSpec clear imageRepo version useHyperImage isEE obj =
     dps_DeploymentSpec_update
       (set_deployment clear (deployment_edition_image imageRepo version MonitorComponentType useHyperImage isEE)) obj"

definition setDefaults_Mysql :: "Mysql \<Rightarrow> Mysql" where
  "setDefaults_Mysql obj =
     (let o1 = (if my_Username obj = [] then obj\<lparr>my_Username := ''root''\<rparr> else obj)
      in if my_Port o1 = 0 then o1\<lparr>my_Port := 3306\<rparr> else o1)"

definition setDefaults_Clickhouse :: "Clickhouse \<Rightarrow> Clickhouse" where
  "setDefaults_Clickhouse obj =
     (let o1 = (if my_Username obj = [] then obj\<lparr>my_Username := ''default''\<rparr> else obj)
      in if my_Port o1 = 0 then o1\<lparr>my_Port := 9000\<rparr> else o1)"

definition setDefaults_Dameng :: "Dameng \<Rightarrow> Dameng" where
  "setDefaults_Dameng obj =
     (let o1 = (if my_Username obj = [] then obj\<lparr>my_Username := ''sysdba''\<rparr> else obj)
      in if my_Port o1 = 0 then o1\<lparr>my_Port := 5236\<rparr> else o1)"

text \<open>
  \<open>setDefaults_Cloudmux\<close> and \<open>setDefaults_EChartsSpec\<close> work on a deployment built from the
  component's fields and copy it back; of the cluster's specification, which the source passes,
  they read the image repository and, for Cloudmux, the version. \<open>Disable\<close> is set before, so the \<open>None\<close> of
  \<open>ToDeploymentSpec\<close> does not occur.
\<close>

definition setDefaults_Cloudmux :: "bool \<Rightarrow> string \<Rightarrow> string \<Rightarrow> CloudmuxSpec \<Rightarrow> CloudmuxSpec" where
  "setDefaults_Cloudmux clear imageRepo version obj =
     (let o1 = (if cmx_Disable obj = None then obj\<lparr>cmx_Disable := Some True\<rparr> else obj)
      in case Cloudmux_ToDeploymentSpec o1 of
           None \<Rightarrow> o1
         | Some d \<Rightarrow> Cloudmux_FillBySpec
             (set_deployment clear (deployment_image imageRepo version CloudmuxComponentType False False) d) o1)"

definition setDefaults_EChartsSpec :: "bool \<Rightarrow> string \<Rightarrow> EChartsSSRSpec \<Rightarrow> EChartsSSRSpec" where
  "setDefaults_EChartsSpec clear imageRepo obj =
     (let o1 = (if ecs_ssr_Disable obj = None then obj\<lparr>ecs_ssr_Disable := Some True\<rparr> else obj)
      in case EChartsSSR_ToDeploymentSpec o1 of
           None \<Rightarrow> o1
         | Some d \<Rightarrow> EChartsSSR_FillBySpec
             (set_deployment clear (deployment_image imageRepo DefaultEChartSSRVersion EChartsSSRComponentType False False) d) o1)"

definition default_str :: "string \<Rightarrow> string \<Rightarrow> string" where
  "default_str d x = (if x = [] then d else x)"

definition default_int :: "int \<Rightarrow> int \<Rightarrow> int" where
  "default_int d n = (if n = 0 then d else n)"

definition setDefaults_MonitorStackSpec :: "(string \<Rightarrow> string) \<Rightarrow> MonitorStackSpec \<Rightarrow> MonitorStackSpec" where
  "setDefaults_MonitorStackSpec gen obj = obj
     \<lparr>mss_Minio := (mss_Minio obj)
        \<lparr>msm_AccessKey := default_str ''monitor-admin'' (msm_AccessKey (mss_Minio obj)),
         msm_SecretKey := default_str (gen ''monitorStack.minio.secretKey'') (msm_SecretKey (mss_Minio obj))\<rparr>,
      mss_Grafana := (mss_Grafana obj)
        \<lparr>mgs_AdminUser := default_str ''admin'' (mgs_AdminUser (mss_Grafana obj)),
         mgs_AdminPassword := default_str (gen ''monitorStack.grafana.adminPassword'') (mgs_AdminPassword (mss_Grafana obj)),
         mgs_Subpath := default_str ''grafana'' (mgs_Subpath (mss_Grafana obj)),
         mgs_OAuth := (mgs_OAuth (mss_Grafana obj))
           \<lparr>oa_Scopes := default_str ''user'' (oa_Scopes (mgs_OAuth (mss_Grafana obj))),
            oa_RoleAttributePath := default_str
              (''projectName == '' @ [CHR 0x27] @ ''system'' @ [CHR 0x27] @ '' && contains(roles, '' @ [CHR 0x27]
               @ ''admin'' @ [CHR 0x27] @ '') && '' @ [CHR 0x27] @ ''Admin'' @ [CHR 0x27] @ '' || '' @ [CHR 0x27]
               @ ''Editor'' @ [CHR 0x27])
              (oa_RoleAttributePath (mgs_OAuth (mss_Grafana obj)))\<rparr>\<rparr>,
      mss_Loki := mls_ObjectStoreConfig_update (osc_Bucket_update (default_str ''loki'')) (mss_Loki obj),
      mss_Prometheus := (mps_ThanosSidecarSpec_update
           (tss_ObjectStoreConfig_update (osc_Bucket_update (default_str ''thanos''))) (mss_Prometheus obj))
        \<lparr>mps_Disable := (case mps_Disable (mss_Prometheus obj) of None \<Rightarrow> Some True | Some b \<Rightarrow> Some b)\<rparr>,
      mss_Thanos := mths_ObjectStoreConfig_update (osc_Bucket_update (default_str ''thanos'')) (mss_Thanos obj)\<rparr>"

section \<open>Pointers into the specification\<close>

text \<open>
  The tables of the source hold pointers to the fields of the specification
  (\<open>&obj.Logger.DeploymentSpec\<close>): a pointer is the pair of reading and changing the field.
  A pointer to a fresh struct, as \<open>ToDeploymentSpec\<close> returns, changes nothing of the
  specification.
\<close>

record 'd ptr =
  deref :: "OnecloudClusterSpec \<Rightarrow> 'd"
  change :: "('d \<Rightarrow> 'd) \<Rightarrow> OnecloudClusterSpec \<Rightarrow> OnecloudClusterSpec"

type_synonym 'a getter = "OnecloudClusterSpec \<Rightarrow> 'a"
type_synonym 'a setter = "('a \<Rightarrow> 'a) \<Rightarrow> OnecloudClusterSpec \<Rightarrow> OnecloudClusterSpec"

definition ptr_to :: "'d getter \<Rightarrow> 'd setter \<Rightarrow> 'd ptr" where
  "ptr_to g u = \<lparr>deref = g, change = u\<rparr>"

definition ptr_dps :: "DeploymentServicePortSpec getter \<Rightarrow> DeploymentServicePortSpec setter \<Rightarrow> DeploymentSpec ptr" where
  "ptr_dps g u = \<lparr>deref = (\<lambda>s. dps_DeploymentSpec (g s)), change = (\<lambda>f. u (dps_DeploymentSpec_update f))\<rparr>"

definition ptr_fresh :: "'d getter \<Rightarrow> 'd ptr" where
  "ptr_fresh g = \<lparr>deref = g, change = (\<lambda>f s. s)\<rparr>"

section \<open>The specification of a cluster\<close>

definition SetDefaults_globals :: "OnecloudClusterSpec \<Rightarrow> OnecloudClusterSpec" where
  "SetDefaults_globals obj =
     (let o1 = obj\<lparr>spec_Mysql := setDefaults_Mysql (spec_Mysql obj),
                   spec_Clickhouse := setDefaults_Clickhouse (spec_Clickhouse obj),
                   spec_Dameng := setDefaults_Dameng (spec_Dameng obj)\<rparr>;
          o2 = spec_ProductVersion_update (default_str ProductVersionFullStack) o1;
          o3 = o2\<lparr>spec_DisableLocalVpc :=
                    (if spec_ProductVersion o2 = ProductVersionLightEdge then True else spec_DisableLocalVpc o2)\<rparr>;
          o4 = spec_Region_update (default_str DefaultOnecloudRegion) o3;
          o5 = spec_Zone_update (default_str DefaultOnecloudZone) o4;
          o6 = spec_Version_update (default_str DefaultVersion) o5
      in spec_ImageRepository_update (default_str DefaultImageRepository) o6)"

text \<open>
  The rest of the function reads the image repository, the version and the choice of the hyper
  image, which it does not assign, at many places: they are the arguments \<open>repo\<close>, \<open>ver\<close>
  and \<open>useHyperImage\<close> of its paragraphs.
\<close>

definition SetDefaults_head ::
  "bool \<Rightarrow> (string \<Rightarrow> string) \<Rightarrow> bool \<Rightarrow> string \<Rightarrow> string \<Rightarrow> bool \<Rightarrow> OnecloudClusterSpec \<Rightarrow> OnecloudClusterSpec" where
  "SetDefaults_head clear gen isEE repo ver useHyperImage obj =
     (let o1 = spec_Keystone_update (SetDefaults_KeystoneSpec clear gen repo ver useHyperImage isEE) obj;
          o2 = spec_RegionServer_update (SetDefaults_RegionSpec clear repo ver useHyperImage isEE) o1;
          o3 = spec_RegionDNS_update (SetDefaults_RegionDNSSpec clear repo ver) o2;
          o4 = spec_Monitor_update (SetDefaults_MonitorSpec clear repo ver useHyperImage isEE) o3
      in spec_Cloudmux_update (setDefaults_Cloudmux clear repo ver) o4)"

type_synonym hyperImagePair = "string \<times> DeploymentSpec ptr \<times> bool"

definition hyper_table :: "bool \<Rightarrow> hyperImagePair list" where
  "hyper_table useHyperImage =
      [(WebconsoleComponentType, ptr_to (\<lambda>s. dps_DeploymentSpec (wcs_DeploymentServicePortSpec (spec_Webconsole s)))
         (\<lambda>f. spec_Webconsole_update (wcs_DeploymentServicePortSpec_update (dps_DeploymentSpec_update f))), useHyperImage),
       (SchedulerComponentType, ptr_dps spec_Scheduler spec_Scheduler_update, useHyperImage),
       (LoggerComponentType, ptr_dps spec_Logger spec_Logger_update, useHyperImage),
       (YunionconfComponentType, ptr_dps spec_Yunionconf spec_Yunionconf_update, useHyperImage),
       (KubeServerComponentType, ptr_dps spec_KubeServer spec_KubeServer_update, False),
       (AnsibleServerComponentType, ptr_dps spec_AnsibleServer spec_AnsibleServer_update, useHyperImage),
       (CloudnetComponentType, ptr_dps spec_Cloudnet spec_Cloudnet_update, False),
       (CloudproxyComponentType, ptr_dps spec_Cloudproxy spec_Cloudproxy_update, False),
       (CloudeventComponentType, ptr_dps spec_Cloudevent spec_Cloudevent_update, useHyperImage),
       (S3gatewayComponentType, ptr_dps spec_S3gateway spec_S3gateway_update, False),
       (DevtoolComponentType, ptr_dps spec_Devtool spec_Devtool_update, useHyperImage),
       (AutoUpdateComponentType, ptr_dps spec_AutoUpdate spec_AutoUpdate_update, useHyperImage),
       (OvnNorthComponentType, ptr_to spec_OvnNorth spec_OvnNorth_update, False),
       (VpcAgentComponentType, ptr_dps spec_VpcAgent spec_VpcAgent_update, useHyperImage),
       (ServiceOperatorComponentType, ptr_dps spec_ServiceOperator spec_ServiceOperator_update, False),
       (ItsmComponentType, ptr_dps spec_Itsm spec_Itsm_update, False),
       (CloudIdComponentType, ptr_dps spec_CloudId spec_CloudId_update, useHyperImage),
       (SuggestionComponentType, ptr_dps spec_Suggestion spec_Suggestion_update, useHyperImage),
       (ScheduledtaskComponentType, ptr_dps spec_Scheduledtask spec_Scheduledtask_update, useHyperImage),
       (ReportComponentType, ptr_dps spec_Report spec_Report_update, useHyperImage),
       (ApiMapComponentType, ptr_dps spec_ApiMap spec_ApiMap_update, useHyperImage),
       (BastionHostComponentType, ptr_dps spec_BastionHost spec_BastionHost_update, useHyperImage),
       (ExtdbComponentType, ptr_dps spec_Extdb spec_Extdb_update, useHyperImage),
       (BillingComponentType, ptr_dps spec_Billing spec_Billing_update, useHyperImage),
       (LLMComponentType, ptr_dps spec_LLM spec_LLM_update, useHyperImage),
       (AiProxyComponentType, ptr_dps spec_AiProxy spec_AiProxy_update, useHyperImage)]"

definition edition_table :: "bool \<Rightarrow> hyperImagePair list" where
  "edition_table useHyperImage =
      [(CloudmuxComponentType, ptr_fresh (\<lambda>s. the (Cloudmux_ToDeploymentSpec (spec_Cloudmux s))), False),
       (CloudmonComponentType,
         ptr_to (\<lambda>s. cms_DeploymentSpec (spec_Cloudmon s)) (\<lambda>f. spec_Cloudmon_update (cms_DeploymentSpec_update f)),
         useHyperImage),
       (McpServerComponentType, ptr_dps spec_McpServer spec_McpServer_update, useHyperImage)]"

definition support_table :: "bool \<Rightarrow> hyperImagePair list" where
  "support_table useHyperImage =
      [(APIGatewayComponentType,
         ptr_to (\<lambda>s. ags_DeploymentSpec (spec_APIGateway s)) (\<lambda>f. spec_APIGateway_update (ags_DeploymentSpec_update f)),
         useHyperImage),
       (ClimcComponentType, ptr_to spec_Climc spec_Climc_update, False),
       (WebComponentType,
         ptr_to (\<lambda>s. ws_DeploymentSpec (spec_Web s)) (\<lambda>f. spec_Web_update (ws_DeploymentSpec_update f)), False)]"

text \<open>One iteration of the loop over such a table, with the image function the loop uses.\<close>

definition default_deployment ::
  "bool \<Rightarrow> (string \<Rightarrow> string \<Rightarrow> string \<Rightarrow> bool \<Rightarrow> bool \<Rightarrow> DeploymentSpec \<Rightarrow> string) \<Rightarrow> bool \<Rightarrow> string \<Rightarrow> string
   \<Rightarrow> hyperImagePair \<Rightarrow> OnecloudClusterSpec \<Rightarrow> OnecloudClusterSpec" where
  "default_deployment clear getImg isEE repo ver e =
     (case e of (cType, p, supported) \<Rightarrow>
        change p (set_deployment clear (getImg repo ver cType supported isEE)))"

definition SetDefaults_deployments ::
  "range_order \<Rightarrow> bool \<Rightarrow> bool \<Rightarrow> bool \<Rightarrow> string \<Rightarrow> string \<Rightarrow> bool \<Rightarrow> OnecloudClusterSpec \<Rightarrow> OnecloudClusterSpec" where
  "SetDefaults_deployments ord clear isEE isEEOrESE repo ver h obj =
     (let o1 = fold (default_deployment clear deployment_image isEE repo ver) (range_map ord (hyper_table h)) obj;
          o2 = fold (default_deployment clear deployment_edition_image isEE repo ver) (range_map ord (edition_table h)) o1
      in fold (default_deployment clear deployment_edition_image isEEOrESE repo ver) (range_map ord (support_table h)) o2)"

definition SetDefaults_web :: "bool \<Rightarrow> bool \<Rightarrow> string \<Rightarrow> string \<Rightarrow> OnecloudClusterSpec \<Rightarrow> OnecloudClusterSpec" where
  "SetDefaults_web clear isEE repo ver obj =
     (let o1 = spec_Web_update (ws_Overview_update
                 (set_container clear repo ver DefaultWebOverviewImageName False isEE)) obj
      in spec_Web_update (ws_Docs_update
           (set_container clear repo ver DefaultWebDocsImageName False isEE)) o1)"

definition SetDefaults_host :: "OnecloudClusterSpec \<Rightarrow> OnecloudClusterSpec" where
  "SetDefaults_host obj =
     (let o1 = spec_HostAgent_update (has_DefaultQemuVersion_update (default_str DefaultHostQemuVersion)) obj;
          o2 = spec_HostAgent_update (has_MaxUnavailableCount_update (default_int 3)) o1
      in spec_Lbagent_update (lbs_MaxUnavailableCount_update (default_int 3)) o2)"

definition daemonset_table :: "(string \<times> DaemonSetSpec ptr) list" where
  "daemonset_table =
     [(HostComponentType, ptr_to (\<lambda>s. has_DaemonSetSpec (spec_HostAgent s))
         (\<lambda>f. spec_HostAgent_update (has_DaemonSetSpec_update f))),
      (HostDeployerComponentType, ptr_to spec_HostDeployer spec_HostDeployer_update),
      (YunionagentComponentType, ptr_to (\<lambda>s. yas_DaemonSetSpec (spec_Yunionagent s))
         (\<lambda>f. spec_Yunionagent_update (yas_DaemonSetSpec_update f))),
      (HostImageComponentType, ptr_to spec_HostImage spec_HostImage_update),
      (LbagentComponentType, ptr_to (\<lambda>s. lbs_DaemonSetSpec (spec_Lbagent s))
         (\<lambda>f. spec_Lbagent_update (lbs_DaemonSetSpec_update f)))]"

definition default_daemonset ::
  "bool \<Rightarrow> bool \<Rightarrow> string \<Rightarrow> string \<Rightarrow> bool \<Rightarrow> string \<times> DaemonSetSpec ptr \<Rightarrow> OnecloudClusterSpec \<Rightarrow> OnecloudClusterSpec" where
  "default_daemonset clear isEE repo ver useHyperImage e =
     (case e of (cType, p) \<Rightarrow>
        (let useHI = (if in_strings cType [YunionagentComponentType, HostComponentType, LbagentComponentType]
                      then useHyperImage else False)
         in change p (set_daemonset clear (container_image repo ver cType useHI isEE))))"

definition SetDefaults_daemonsets ::
  "range_order \<Rightarrow> bool \<Rightarrow> bool \<Rightarrow> string \<Rightarrow> string \<Rightarrow> bool \<Rightarrow> OnecloudClusterSpec \<Rightarrow> OnecloudClusterSpec" where
  "SetDefaults_daemonsets ord clear isEE repo ver h obj =
     fold (default_daemonset clear isEE repo ver h) (range_map ord daemonset_table) obj"

definition SetDefaults_guacd_sdn :: "bool \<Rightarrow> bool \<Rightarrow> string \<Rightarrow> string \<Rightarrow> bool \<Rightarrow> OnecloudClusterSpec \<Rightarrow> OnecloudClusterSpec" where
  "SetDefaults_guacd_sdn clear isEE repo ver h obj =
     (let o1 = spec_Webconsole_update (wcs_Guacd_update
                 (set_container clear repo DefaultGuacdVersion GuacdComponentType False False)) obj
      in spec_HostAgent_update (has_SdnAgent_update
           (set_container clear repo ver DefaultSdnAgentImageName h isEE)) o1)"

definition SetDefaults_ovn :: "bool \<Rightarrow> bool \<Rightarrow> string \<Rightarrow> OnecloudClusterSpec \<Rightarrow> OnecloudClusterSpec" where
  "SetDefaults_ovn clear isEE repo obj =
     (let o1 = spec_HostAgent_update (has_OvnController_update
                 (set_container clear repo DefaultOvnImageTag DefaultOvnImageName False isEE)) obj;
          o2 = spec_OvnNorth_update (ds_ContainerSpec_update
                 (set_container clear repo DefaultOvnImageTag DefaultOvnImageName False isEE)) o1;
          o3 = spec_HostImage_update (dms_ContainerSpec_update
                 (set_container clear repo DefaultHostImageTag DefaultHostImageName False isEE)) o2;
          o4 = spec_HostAgent_update (has_HostHealth_update
                 (set_container clear repo DefaultHostHealthTag DefaultHostHealthName False isEE)) o3
      in spec_Lbagent_update (lbs_OvnController_update
           (set_container clear repo DefaultOvnImageTag DefaultOvnImageName False isEE)) o4)"

definition set_telegraf_init :: "string \<Rightarrow> bool \<Rightarrow> TelegrafSpec \<Rightarrow> TelegrafSpec" where
  "set_telegraf_init repo isEE t = t\<lparr>tgs_InitContainerImage :=
     getImage repo (cs_Repository (dms_ContainerSpec (tgs_DaemonSetSpec t)))
       DefaultTelegrafInitImageName [] DefaultTelegrafInitImageTag [] False isEE\<rparr>"

definition SetDefaults_telegraf :: "bool \<Rightarrow> bool \<Rightarrow> string \<Rightarrow> OnecloudClusterSpec \<Rightarrow> OnecloudClusterSpec" where
  "SetDefaults_telegraf clear isEE repo obj =
     (let o1 = spec_Telegraf_update (set_telegraf_init repo isEE) obj;
          o2 = spec_Telegraf_update (tgs_TelegrafRaid_update
                 (set_container clear repo DefaultTelegrafRaidImageTag DefaultTelegrafRaidImageName False isEE)) o1
      in spec_Telegraf_update (tgs_DaemonSetSpec_update
           (set_daemonset clear (container_image repo DefaultTelegrafImageTag DefaultTelegrafImageName False isEE))) o2)"

type_synonym stateDeploy = "string \<times> StatefulDeploymentSpec ptr \<times> string \<times> string \<times> bool"

definition stateful_table :: "string \<Rightarrow> bool \<Rightarrow> stateDeploy list" where
  "stateful_table ver h =
     [(GlanceComponentType, ptr_to (\<lambda>s. gs_StatefulDeploymentSpec (spec_Glance s))
         (\<lambda>f. spec_Glance_update (gs_StatefulDeploymentSpec_update f)), DefaultGlanceStorageSize, ver, h),
      (InfluxdbComponentType, ptr_to (\<lambda>s. ixs_StatefulDeploymentSpec (spec_Influxdb s))
         (\<lambda>f. spec_Influxdb_update (ixs_StatefulDeploymentSpec_update f)),
         DefaultInfluxdbStorageSize, DefaultInfluxdbImageVersion, False),
      (VictoriaMetricsComponentType, ptr_to (\<lambda>s. vms_StatefulDeploymentSpec (spec_VictoriaMetrics s))
         (\<lambda>f. spec_VictoriaMetrics_update (vms_StatefulDeploymentSpec_update f)),
         DefaultVictoriaMetricsStorageSize, DefaultVictoriaMetricsImageVersion, False),
      (NotifyComponentType, ptr_to (\<lambda>s. ns_StatefulDeploymentSpec (spec_Notify s))
         (\<lambda>f. spec_Notify_update (ns_StatefulDeploymentSpec_update f)), DefaultNotifyStorageSize, ver, h),
      (BaremetalAgentComponentType, ptr_to (\<lambda>s. zds_StatefulDeploymentSpec (spec_BaremetalAgent s))
         (\<lambda>f. spec_BaremetalAgent_update (zds_StatefulDeploymentSpec_update f)), DefaultBaremetalStorageSize, ver, False),
      (MeterComponentType, ptr_to (\<lambda>s. mts_StatefulDeploymentSpec (spec_Meter s))
         (\<lambda>f. spec_Meter_update (mts_StatefulDeploymentSpec_update f)), DefaultMeterStorageSize, ver, h),
      (EsxiAgentComponentType, ptr_to (\<lambda>s. zds_StatefulDeploymentSpec (spec_EsxiAgent s))
         (\<lambda>f. spec_EsxiAgent_update (zds_StatefulDeploymentSpec_update f)), DefaultEsxiAgentStorageSize, ver, h)]"

definition default_stateful :: "bool \<Rightarrow> bool \<Rightarrow> string \<Rightarrow> stateDeploy \<Rightarrow> OnecloudClusterSpec \<Rightarrow> OnecloudClusterSpec" where
  "default_stateful clear isEE repo e =
     (case e of (cType, p, sz, version, useHyperImage) \<Rightarrow>
        change p (SetDefaults_StatefulDeploymentSpec clear cType sz repo version useHyperImage isEE))"

definition SetDefaults_stateful ::
  "range_order \<Rightarrow> bool \<Rightarrow> bool \<Rightarrow> string \<Rightarrow> string \<Rightarrow> bool \<Rightarrow> OnecloudClusterSpec \<Rightarrow> OnecloudClusterSpec" where
  "SetDefaults_stateful ord clear isEE repo ver h obj =
     fold (default_stateful clear isEE repo) (range_map ord (stateful_table ver h)) obj"

text \<open>The container of the notify plugins is not cleared.\<close>

definition SetDefaults_tail :: "bool \<Rightarrow> string \<Rightarrow> string \<Rightarrow> OnecloudClusterSpec \<Rightarrow> OnecloudClusterSpec" where
  "SetDefaults_tail isEE repo ver obj =
     (let o1 = spec_VictoriaMetrics_update (vms_RententionPeriodDays_update
                 (default_int VictoriaMetricsDefaultRententionPeriod)) obj
      in spec_Notify_update (ns_Plugins_update
           (set_container False repo ver DefaultNotifyPluginsImageName False isEE)) o1)"

section \<open>Node ports\<close>

definition ptr_svc :: "DeploymentServicePortSpec getter \<Rightarrow> DeploymentServicePortSpec setter \<Rightarrow> ServiceSpec ptr" where
  "ptr_svc g u = \<lparr>deref = (\<lambda>s. dps_Service (g s)), change = (\<lambda>f. u (dps_Service_update f))\<rparr>"

definition service_table :: "(ServiceSpec ptr \<times> int) list" where
  "service_table =
      [(ptr_to (\<lambda>s. ks_AdminService (spec_Keystone s))
         (\<lambda>f. spec_Keystone_update (ks_AdminService_update f)), KeystoneAdminPort),
       (ptr_to (\<lambda>s. ks_PublicService (spec_Keystone s))
         (\<lambda>f. spec_Keystone_update (ks_PublicService_update f)), KeystonePublicPort),
       (ptr_to (\<lambda>s. dps_Service (rs_DeploymentServicePortSpec (spec_RegionServer s)))
         (\<lambda>f. spec_RegionServer_update (rs_DeploymentServicePortSpec_update (dps_Service_update f))), RegionPort),
       (ptr_svc spec_Scheduler spec_Scheduler_update, SchedulerPort),
       (ptr_to (\<lambda>s. gs_Service (spec_Glance s))
         (\<lambda>f. spec_Glance_update (gs_Service_update f)), GlanceAPIPort),
       (ptr_to (\<lambda>s. dps_Service (wcs_DeploymentServicePortSpec (spec_Webconsole s)))
         (\<lambda>f. spec_Webconsole_update (wcs_DeploymentServicePortSpec_update (dps_Service_update f))), WebconsolePort),
       (ptr_svc spec_Logger spec_Logger_update, LoggerPort),
       (ptr_svc spec_Yunionconf spec_Yunionconf_update, YunionConfPort),
       (ptr_svc spec_KubeServer spec_KubeServer_update, KubeServerPort),
       (ptr_svc spec_AnsibleServer spec_AnsibleServer_update, AnsibleServerPort),
       (ptr_svc spec_Cloudnet spec_Cloudnet_update, CloudnetPort),
       (ptr_svc spec_Cloudproxy spec_Cloudproxy_update, CloudproxyPort),
       (ptr_svc spec_Cloudevent spec_Cloudevent_update, CloudeventPort),
       (ptr_svc spec_CloudId spec_CloudId_update, CloudIdPort),
       (ptr_to (\<lambda>s. cms_Service (spec_Cloudmon s))
         (\<lambda>f. spec_Cloudmon_update (cms_Service_update f)), CloudmonPort),
       (ptr_svc spec_AutoUpdate spec_AutoUpdate_update, AutoUpdatePort),
       (ptr_svc spec_S3gateway spec_S3gateway_update, S3gatewayPort),
       (ptr_svc spec_Devtool spec_Devtool_update, DevtoolPort),
       (ptr_to (\<lambda>s. mts_Service (spec_Meter s))
         (\<lambda>f. spec_Meter_update (mts_Service_update f)), MeterPort),
       (ptr_svc spec_Billing spec_Billing_update, BillingPort),
       (ptr_svc spec_Itsm spec_Itsm_update, ItsmPort),
       (ptr_svc spec_Suggestion spec_Suggestion_update, SuggestionPort),
       (ptr_to (\<lambda>s. ns_Service (spec_Notify s))
         (\<lambda>f. spec_Notify_update (ns_Service_update f)), NotifyPort),
       (ptr_to (\<lambda>s. ixs_Service (spec_Influxdb s))
         (\<lambda>f. spec_Influxdb_update (ixs_Service_update f)), InfluxdbPort),
       (ptr_to (\<lambda>s. vms_Service (spec_VictoriaMetrics s))
         (\<lambda>f. spec_VictoriaMetrics_update (vms_Service_update f)), VictoriaMetricsPort),
       (ptr_svc spec_Monitor spec_Monitor_update, MonitorPort),
       (ptr_svc spec_Scheduledtask spec_Scheduledtask_update, ScheduledtaskPort),
       (ptr_svc spec_ApiMap spec_ApiMap_update, ApiMapPort),
       (ptr_svc spec_Report spec_Report_update, ReportPort),
       (ptr_to (\<lambda>s. ags_APIService (spec_APIGateway s))
         (\<lambda>f. spec_APIGateway_update (ags_APIService_update f)), APIGatewayPort),
       (ptr_to (\<lambda>s. ags_WSService (spec_APIGateway s))
         (\<lambda>f. spec_APIGateway_update (ags_WSService_update f)), APIWebsocketPort),
       (ptr_svc spec_ServiceOperator spec_ServiceOperator_update, ServiceOperatorPort),
       (ptr_to (\<lambda>s. yas_Service (spec_Yunionagent s))
         (\<lambda>f. spec_Yunionagent_update (yas_Service_update f)), YunionAgentPort),
       (ptr_svc spec_VpcAgent spec_VpcAgent_update, VpcAgentPort),
       (ptr_svc spec_BastionHost spec_BastionHost_update, BastionHostPort),
       (ptr_svc spec_Extdb spec_Extdb_update, ExtdbPort),
       (ptr_svc spec_LLM spec_LLM_update, LLMPort),
       (ptr_svc spec_McpServer spec_McpServer_update, McpServerPort),
       (ptr_svc spec_AiProxy spec_AiProxy_update, AiProxyPort)]"

definition setDefaults_Components_ServicePort :: "OnecloudClusterSpec \<Rightarrow> OnecloudClusterSpec" where
  "setDefaults_Components_ServicePort obj =
     fold (\<lambda>(p, port). change p (SetDefaults_ServiceSpec port)) service_table obj"

definition SetDefaults_components ::
  "range_order \<Rightarrow> bool \<Rightarrow> (string \<Rightarrow> string) \<Rightarrow> bool \<Rightarrow> bool \<Rightarrow> string \<Rightarrow> string \<Rightarrow> bool
   \<Rightarrow> OnecloudClusterSpec \<Rightarrow> OnecloudClusterSpec" where
  "SetDefaults_components ord clear gen isEE isEEOrESE repo ver h o1 =
     (let o2 = SetDefaults_head clear gen isEE repo ver h o1;
          o3 = SetDefaults_deployments ord clear isEE isEEOrESE repo ver h o2;
          o4 = SetDefaults_web clear isEE repo ver o3;
          o5 = SetDefaults_host o4;
          o6 = SetDefaults_daemonsets ord clear isEE repo ver h o5;
          o7 = SetDefaults_guacd_sdn clear isEE repo ver h o6;
          o8 = SetDefaults_ovn clear isEE repo o7;
          o9 = SetDefaults_telegraf clear isEE repo o8;
          o10 = SetDefaults_stateful ord clear isEE repo ver h o9;
          o11 = SetDefaults_tail isEE repo ver o10;
          o12 = spec_MonitorStack_update (setDefaults_MonitorStackSpec gen) o11;
          o13 = setDefaults_Components_ServicePort o12
      in spec_EChartsSSR_update (setDefaults_EChartsSpec clear repo) o13)"

definition SetDefaults_OnecloudClusterSpec ::
  "range_order \<Rightarrow> bool \<Rightarrow> (string \<Rightarrow> string) \<Rightarrow> bool \<Rightarrow> bool \<Rightarrow> OnecloudClusterSpec \<Rightarrow> OnecloudClusterSpec" where
  "SetDefaults_OnecloudClusterSpec ord clear gen isEE isEEOrESE obj =
     (let o1 = SetDefaults_globals obj
      in SetDefaults_components ord clear gen isEE isEEOrESE
           (spec_ImageRepository o1) (spec_Version o1) (spec_UseHyperImage o1) o1)"

definition default_labels :: "OnecloudCluster \<Rightarrow> OnecloudCluster" where
  "default_labels obj =
     (case gomap_get (om_Labels (oc_ObjectMeta obj)) InstanceLabelKey of
        Some _ \<Rightarrow> obj
      | None \<Rightarrow> oc_ObjectMeta_update (om_Labels_update
           (gomap_set InstanceLabelKey (''onecloud-cluster-'' @ om_Name (oc_ObjectMeta obj)))) obj)"

definition SetDefaults_OnecloudCluster :: "range_order \<Rightarrow> bool \<Rightarrow> (string \<Rightarrow> string) \<Rightarrow> OnecloudCluster \<Rightarrow> OnecloudCluster" where
  "SetDefaults_OnecloudCluster ord clear gen obj =
     (let o1 = default_labels obj
      in o1\<lparr>oc_Spec := SetDefaults_OnecloudClusterSpec ord clear gen (IsEnterpriseEdition o1) (IsEEOrESEEdition o1) (oc_Spec o1)\<rparr>)"

section \<open>Reference form\<close>

text \<open>
  What the paragraphs above amount to: one function for each field of the specification,
  applied independently of the others. \<open>OC_Defaults_Laws\<close> shows that the composition of the
  paragraphs is this function.
\<close>

named_theorems component_fns

definition default_service ::
  "bool \<Rightarrow> (DeploymentSpec \<Rightarrow> string) \<Rightarrow> int \<Rightarrow> DeploymentServicePortSpec \<Rightarrow> DeploymentServicePortSpec" where [component_fns]:
  "default_service clear getImg port x =
     dps_Service_update (SetDefaults_ServiceSpec port) (dps_DeploymentSpec_update (set_deployment clear getImg) x)"

definition default_Keystone :: "bool \<Rightarrow> (string \<Rightarrow> string) \<Rightarrow> bool \<Rightarrow> string \<Rightarrow> string \<Rightarrow> bool \<Rightarrow> KeystoneSpec \<Rightarrow> KeystoneSpec" where [component_fns]:
  "default_Keystone clear gen isEE r v h x =
     ks_PublicService_update (SetDefaults_ServiceSpec KeystonePublicPort)
       (ks_AdminService_update (SetDefaults_ServiceSpec KeystoneAdminPort)
       (SetDefaults_KeystoneSpec clear gen r v h isEE x))"

definition default_RegionServer :: "bool \<Rightarrow> bool \<Rightarrow> string \<Rightarrow> string \<Rightarrow> bool \<Rightarrow> RegionSpec \<Rightarrow> RegionSpec" where [component_fns]:
  "default_RegionServer clear isEE r v h x =
     rs_DeploymentServicePortSpec_update (dps_Service_update (SetDefaults_ServiceSpec RegionPort))
       (SetDefaults_RegionSpec clear r v h isEE x)"

definition default_Glance :: "bool \<Rightarrow> bool \<Rightarrow> string \<Rightarrow> string \<Rightarrow> bool \<Rightarrow> GlanceSpec \<Rightarrow> GlanceSpec" where [component_fns]:
  "default_Glance clear isEE r v h x =
     gs_Service_update (SetDefaults_ServiceSpec GlanceAPIPort)
       (gs_StatefulDeploymentSpec_update (SetDefaults_StatefulDeploymentSpec clear GlanceComponentType DefaultGlanceStorageSize r v h isEE) x)"

definition default_Webconsole :: "bool \<Rightarrow> bool \<Rightarrow> string \<Rightarrow> string \<Rightarrow> bool \<Rightarrow> WebconsoleSpec \<Rightarrow> WebconsoleSpec" where [component_fns]:
  "default_Webconsole clear isEE r v h x =
     wcs_DeploymentServicePortSpec_update (dps_Service_update (SetDefaults_ServiceSpec WebconsolePort))
       (wcs_Guacd_update (set_container clear r DefaultGuacdVersion GuacdComponentType False False)
       (wcs_DeploymentServicePortSpec_update (dps_DeploymentSpec_update (set_deployment clear (deployment_image r v WebconsoleComponentType h isEE))) x))"

definition default_Yunionagent :: "bool \<Rightarrow> bool \<Rightarrow> string \<Rightarrow> string \<Rightarrow> bool \<Rightarrow> YunionagentSpec \<Rightarrow> YunionagentSpec" where [component_fns]:
  "default_Yunionagent clear isEE r v h x =
     yas_Service_update (SetDefaults_ServiceSpec YunionAgentPort)
       (yas_DaemonSetSpec_update (set_daemonset clear (container_image r v YunionagentComponentType h isEE)) x)"

definition default_Influxdb :: "bool \<Rightarrow> bool \<Rightarrow> string \<Rightarrow> InfluxdbSpec \<Rightarrow> InfluxdbSpec" where [component_fns]:
  "default_Influxdb clear isEE r x =
     ixs_Service_update (SetDefaults_ServiceSpec InfluxdbPort)
       (ixs_StatefulDeploymentSpec_update (SetDefaults_StatefulDeploymentSpec clear InfluxdbComponentType DefaultInfluxdbStorageSize r DefaultInfluxdbImageVersion False isEE) x)"

definition default_VictoriaMetrics :: "bool \<Rightarrow> bool \<Rightarrow> string \<Rightarrow> VictoriaMetricsSpec \<Rightarrow> VictoriaMetricsSpec" where [component_fns]:
  "default_VictoriaMetrics clear isEE r x =
     vms_Service_update (SetDefaults_ServiceSpec VictoriaMetricsPort)
       (vms_RententionPeriodDays_update (default_int VictoriaMetricsDefaultRententionPeriod)
       (vms_StatefulDeploymentSpec_update (SetDefaults_StatefulDeploymentSpec clear VictoriaMetricsComponentType DefaultVictoriaMetricsStorageSize r DefaultVictoriaMetricsImageVersion False isEE) x))"

definition default_Telegraf :: "bool \<Rightarrow> bool \<Rightarrow> string \<Rightarrow> TelegrafSpec \<Rightarrow> TelegrafSpec" where [component_fns]:
  "default_Telegraf clear isEE r x =
     tgs_DaemonSetSpec_update (set_daemonset clear (container_image r DefaultTelegrafImageTag DefaultTelegrafImageName False isEE))
       (tgs_TelegrafRaid_update (set_container clear r DefaultTelegrafRaidImageTag DefaultTelegrafRaidImageName False isEE)
       (set_telegraf_init r isEE x))"

definition default_Monitor :: "bool \<Rightarrow> bool \<Rightarrow> string \<Rightarrow> string \<Rightarrow> bool \<Rightarrow> DeploymentServicePortSpec \<Rightarrow> DeploymentServicePortSpec" where [component_fns]:
  "default_Monitor clear isEE r v h x =
     dps_Service_update (SetDefaults_ServiceSpec MonitorPort)
       (SetDefaults_MonitorSpec clear r v h isEE x)"

definition default_APIGateway :: "bool \<Rightarrow> bool \<Rightarrow> string \<Rightarrow> string \<Rightarrow> bool \<Rightarrow> APIGatewaySpec \<Rightarrow> APIGatewaySpec" where [component_fns]:
  "default_APIGateway clear isES r v h x =
     ags_WSService_update (SetDefaults_ServiceSpec APIWebsocketPort)
       (ags_APIService_update (SetDefaults_ServiceSpec APIGatewayPort)
       (ags_DeploymentSpec_update (set_deployment clear (deployment_edition_image r v APIGatewayComponentType h isES)) x))"

definition default_Web :: "bool \<Rightarrow> bool \<Rightarrow> bool \<Rightarrow> string \<Rightarrow> string \<Rightarrow> WebSpec \<Rightarrow> WebSpec" where [component_fns]:
  "default_Web clear isEE isES r v x =
     ws_Docs_update (set_container clear r v DefaultWebDocsImageName False isEE)
       (ws_Overview_update (set_container clear r v DefaultWebOverviewImageName False isEE)
       (ws_DeploymentSpec_update (set_deployment clear (deployment_edition_image r v WebComponentType False isES)) x))"

definition default_Notify :: "bool \<Rightarrow> bool \<Rightarrow> string \<Rightarrow> string \<Rightarrow> bool \<Rightarrow> NotifySpec \<Rightarrow> NotifySpec" where [component_fns]:
  "default_Notify clear isEE r v h x =
     ns_Service_update (SetDefaults_ServiceSpec NotifyPort)
       (ns_Plugins_update (set_container False r v DefaultNotifyPluginsImageName False isEE)
       (ns_StatefulDeploymentSpec_update (SetDefaults_StatefulDeploymentSpec clear NotifyComponentType DefaultNotifyStorageSize r v h isEE) x))"

definition default_Lbagent :: "bool \<Rightarrow> bool \<Rightarrow> string \<Rightarrow> string \<Rightarrow> bool \<Rightarrow> LbagentSpec \<Rightarrow> LbagentSpec" where [component_fns]:
  "default_Lbagent clear isEE r v h x =
     lbs_OvnController_update (set_container clear r DefaultOvnImageTag DefaultOvnImageName False isEE)
       (lbs_DaemonSetSpec_update (set_daemonset clear (container_image r v LbagentComponentType h isEE))
       (lbs_MaxUnavailableCount_update (default_int 3) x))"

definition default_HostAgent :: "bool \<Rightarrow> bool \<Rightarrow> string \<Rightarrow> string \<Rightarrow> bool \<Rightarrow> HostAgentSpec \<Rightarrow> HostAgentSpec" where [component_fns]:
  "default_HostAgent clear isEE r v h x =
     has_HostHealth_update (set_container clear r DefaultHostHealthTag DefaultHostHealthName False isEE)
       (has_OvnController_update (set_container clear r DefaultOvnImageTag DefaultOvnImageName False isEE)
       (has_SdnAgent_update (set_container clear r v DefaultSdnAgentImageName h isEE)
       (has_DaemonSetSpec_update (set_daemonset clear (container_image r v HostComponentType h isEE))
       (has_MaxUnavailableCount_update (default_int 3)
       (has_DefaultQemuVersion_update (default_str DefaultHostQemuVersion) x)))))"

definition default_HostImage :: "bool \<Rightarrow> bool \<Rightarrow> string \<Rightarrow> string \<Rightarrow> DaemonSetSpec \<Rightarrow> DaemonSetSpec" where [component_fns]:
  "default_HostImage clear isEE r v x =
     dms_ContainerSpec_update (set_container clear r DefaultHostImageTag DefaultHostImageName False isEE)
       (set_daemonset clear (container_image r v HostImageComponentType False isEE) x)"

definition default_BaremetalAgent :: "bool \<Rightarrow> bool \<Rightarrow> string \<Rightarrow> string \<Rightarrow> ZoneStatefulDeploymentSpec \<Rightarrow> ZoneStatefulDeploymentSpec" where [component_fns]:
  "default_BaremetalAgent clear isEE r v x =
     zds_StatefulDeploymentSpec_update (SetDefaults_StatefulDeploymentSpec clear BaremetalAgentComponentType DefaultBaremetalStorageSize r v False isEE) x"

definition default_Meter :: "bool \<Rightarrow> bool \<Rightarrow> string \<Rightarrow> string \<Rightarrow> bool \<Rightarrow> MeterSpec \<Rightarrow> MeterSpec" where [component_fns]:
  "default_Meter clear isEE r v h x =
     mts_Service_update (SetDefaults_ServiceSpec MeterPort)
       (mts_StatefulDeploymentSpec_update (SetDefaults_StatefulDeploymentSpec clear MeterComponentType DefaultMeterStorageSize r v h isEE) x)"

definition default_Cloudmon :: "bool \<Rightarrow> bool \<Rightarrow> string \<Rightarrow> string \<Rightarrow> bool \<Rightarrow> CloudmonSpec \<Rightarrow> CloudmonSpec" where [component_fns]:
  "default_Cloudmon clear isEE r v h x =
     cms_Service_update (SetDefaults_ServiceSpec CloudmonPort)
       (cms_DeploymentSpec_update (set_deployment clear (deployment_edition_image r v CloudmonComponentType h isEE)) x)"

definition default_EsxiAgent :: "bool \<Rightarrow> bool \<Rightarrow> string \<Rightarrow> string \<Rightarrow> bool \<Rightarrow> ZoneStatefulDeploymentSpec \<Rightarrow> ZoneStatefulDeploymentSpec" where [component_fns]:
  "default_EsxiAgent clear isEE r v h x =
     zds_StatefulDeploymentSpec_update (SetDefaults_StatefulDeploymentSpec clear EsxiAgentComponentType DefaultEsxiAgentStorageSize r v h isEE) x"

definition default_OvnNorth :: "bool \<Rightarrow> bool \<Rightarrow> string \<Rightarrow> string \<Rightarrow> DeploymentSpec \<Rightarrow> DeploymentSpec" where [component_fns]:
  "default_OvnNorth clear isEE r v x =
     ds_ContainerSpec_update (set_container clear r DefaultOvnImageTag DefaultOvnImageName False isEE)
       (set_deployment clear (deployment_image r v OvnNorthComponentType False isEE) x)"

definition component_defaults ::
  "bool \<Rightarrow> (string \<Rightarrow> string) \<Rightarrow> bool \<Rightarrow> bool \<Rightarrow> string \<Rightarrow> string \<Rightarrow> bool \<Rightarrow> OnecloudClusterSpec \<Rightarrow> OnecloudClusterSpec" where
  "component_defaults clear gen isEE isES r v h =
       spec_Keystone_update (default_Keystone clear gen isEE r v h) \<circ>
       spec_RegionServer_update (default_RegionServer clear isEE r v h) \<circ>
       spec_RegionDNS_update (SetDefaults_RegionDNSSpec clear r v) \<circ>
       spec_Scheduler_update (default_service clear (deployment_image r v SchedulerComponentType h isEE) SchedulerPort) \<circ>
       spec_Glance_update (default_Glance clear isEE r v h) \<circ>
       spec_Climc_update (set_deployment clear (deployment_edition_image r v ClimcComponentType False isES)) \<circ>
       spec_Webconsole_update (default_Webconsole clear isEE r v h) \<circ>
       spec_Logger_update (default_service clear (deployment_image r v LoggerComponentType h isEE) LoggerPort) \<circ>
       spec_Yunionconf_update (default_service clear (deployment_image r v YunionconfComponentType h isEE) YunionConfPort) \<circ>
       spec_Yunionagent_update (default_Yunionagent clear isEE r v h) \<circ>
       spec_Influxdb_update (default_Influxdb clear isEE r) \<circ>
       spec_VictoriaMetrics_update (default_VictoriaMetrics clear isEE r) \<circ>
       spec_Telegraf_update (default_Telegraf clear isEE r) \<circ>
       spec_Monitor_update (default_Monitor clear isEE r v h) \<circ>
       spec_APIGateway_update (default_APIGateway clear isES r v h) \<circ>
       spec_Web_update (default_Web clear isEE isES r v) \<circ>
       spec_KubeServer_update (default_service clear (deployment_image r v KubeServerComponentType False isEE) KubeServerPort) \<circ>
       spec_AnsibleServer_update (default_service clear (deployment_image r v AnsibleServerComponentType h isEE) AnsibleServerPort) \<circ>
       spec_Cloudnet_update (default_service clear (deployment_image r v CloudnetComponentType False isEE) CloudnetPort) \<circ>
       spec_Cloudproxy_update (default_service clear (deployment_image r v CloudproxyComponentType False isEE) CloudproxyPort) \<circ>
       spec_Cloudevent_update (default_service clear (deployment_image r v CloudeventComponentType h isEE) CloudeventPort) \<circ>
       spec_Notify_update (default_Notify clear isEE r v h) \<circ>
       spec_Lbagent_update (default_Lbagent clear isEE r v h) \<circ>
       spec_HostAgent_update (default_HostAgent clear isEE r v h) \<circ>
       spec_HostDeployer_update (set_daemonset clear (container_image r v HostDeployerComponentType False isEE)) \<circ>
       spec_HostImage_update (default_HostImage clear isEE r v) \<circ>
       spec_BaremetalAgent_update (default_BaremetalAgent clear isEE r v) \<circ>
       spec_S3gateway_update (default_service clear (deployment_image r v S3gatewayComponentType False isEE) S3gatewayPort) \<circ>
       spec_Devtool_update (default_service clear (deployment_image r v DevtoolComponentType h isEE) DevtoolPort) \<circ>
       spec_Meter_update (default_Meter clear isEE r v h) \<circ>
       spec_Billing_update (default_service clear (deployment_image r v BillingComponentType h isEE) BillingPort) \<circ>
       spec_AutoUpdate_update (default_service clear (deployment_image r v AutoUpdateComponentType h isEE) AutoUpdatePort) \<circ>
       spec_Cloudmon_update (default_Cloudmon clear isEE r v h) \<circ>
       spec_EsxiAgent_update (default_EsxiAgent clear isEE r v h) \<circ>
       spec_Itsm_update (default_service clear (deployment_image r v ItsmComponentType False isEE) ItsmPort) \<circ>
       spec_ServiceOperator_update (default_service clear (deployment_image r v ServiceOperatorComponentType False isEE) ServiceOperatorPort) \<circ>
       spec_OvnNorth_update (default_OvnNorth clear isEE r v) \<circ>
       spec_VpcAgent_update (default_service clear (deployment_image r v VpcAgentComponentType h isEE) VpcAgentPort) \<circ>
       spec_CloudId_update (default_service clear (deployment_image r v CloudIdComponentType h isEE) CloudIdPort) \<circ>
       spec_Suggestion_update (default_service clear (deployment_image r v SuggestionComponentType h isEE) SuggestionPort) \<circ>
       spec_MonitorStack_update (setDefaults_MonitorStackSpec gen) \<circ>
       spec_Scheduledtask_update (default_service clear (deployment_image r v ScheduledtaskComponentType h isEE) ScheduledtaskPort) \<circ>
       spec_ApiMap_update (default_service clear (deployment_image r v ApiMapComponentType h isEE) ApiMapPort) \<circ>
       spec_Report_update (default_service clear (deployment_image r v ReportComponentType h isEE) ReportPort) \<circ>
       spec_EChartsSSR_update (setDefaults_EChartsSpec clear r) \<circ>
       spec_BastionHost_update (default_service clear (deployment_image r v BastionHostComponentType h isEE) BastionHostPort) \<circ>
       spec_Cloudmux_update (setDefaults_Cloudmux clear r v) \<circ>
       spec_Extdb_update (default_service clear (deployment_image r v ExtdbComponentType h isEE) ExtdbPort) \<circ>
       spec_LLM_update (default_service clear (deployment_image r v LLMComponentType h isEE) LLMPort) \<circ>
       spec_McpServer_update (default_service clear (deployment_edition_image r v McpServerComponentType h isEE) McpServerPort) \<circ>
       spec_AiProxy_update (default_service clear (deployment_image r v AiProxyComponentType h isEE) AiProxyPort)"

text \<open>The entries of a table write to different fields.\<close>

fun pairwise_commuting :: "('e \<Rightarrow> 'd ptr) \<Rightarrow> (string \<times> 'e) list \<Rightarrow> bool" where
  "pairwise_commuting ptr_of [] = True"
| "pairwise_commuting ptr_of (e # es) =
     ((\<forall>e'\<in>set es. \<forall>f g s. change (ptr_of (snd e)) f (change (ptr_of (snd e')) g s)
                           = change (ptr_of (snd e')) g (change (ptr_of (snd e)) f s))
      \<and> pairwise_commuting ptr_of es)"

text \<open>A password source and a cluster to evaluate the defaulting on.\<close>

definition pw_fixed :: "string \<Rightarrow> string" where
  "pw_fixed site = ''secret''"

definition sample_cluster :: OnecloudCluster where
  "sample_cluster = zero_OnecloudCluster\<lparr>oc_ObjectMeta := new_meta ''default'' ''onecloud'' None None []\<rparr>"

end
