(* ===== verification/OC_Defaults_Laws.thy ===== *)
theory OC_Defaults_Laws
  imports OC_Defaults
begin

text \<open>
  Properties of the defaulting: the loops do not depend on the order Go ranges over a map in,
  the composition of the paragraphs is the field-wise reference form, and defaulting twice is
  defaulting once.
\<close>

section \<open>Tables of pointers\<close>

lemma pairwise_commutingD:
  assumes "pairwise_commuting ptr_of tab" "(k, e) \<in> set tab" "(k', e') \<in> set tab" "k \<noteq> k'"
  shows "change (ptr_of e) f (change (ptr_of e') g s) = change (ptr_of e') g (change (ptr_of e) f s)"
  using assms
proof (induction tab)
  case (Cons x tab)
  then show ?case by (cases x) (force simp: eq_commute)
qed simp

locale ptr_table =
  fixes ptr_of :: "'e \<Rightarrow> 'd ptr" and tab :: "(string \<times> 'e) list"
  assumes keys: "distinct (map fst tab)"
    and commute: "pairwise_commuting ptr_of tab"
begin

lemma range_order_irrelevant:
  assumes step: "\<And>k e. step (k, e) = change (ptr_of e) (F k e)"
  shows "fold step (range_map ord tab) = fold step tab"
proof (rule fold_multiset_equiv)
  fix x y assume that: "x \<in> set (range_map ord tab)" "y \<in> set (range_map ord tab)"
  show "step x \<circ> step y = step y \<circ> step x"
  proof (cases "fst x = fst y")
    case True
    then have "x = y" using that keys by (metis eq_key_imp_eq_value prod.collapse range_map_set)
    then show ?thesis by simp
  next
    case False
    obtain k e k' e' where xy: "x = (k, e)" "y = (k', e')" by (metis prod.exhaust)
    have mem: "(k, e) \<in> set tab" "(k', e') \<in> set tab" using that xy by auto
    show ?thesis
      using False pairwise_commutingD [OF commute mem] by (simp add: xy fun_eq_iff step)
  qed
qed simp

end

lemmas ptr_defs = ptr_to_def ptr_dps_def ptr_fresh_def ptr_svc_def

interpretation hyper: ptr_table fst "hyper_table h" for h
  by unfold_locales (auto simp: hyper_table_def ptr_defs ctypes)

interpretation edition: ptr_table fst "edition_table h" for h
  by unfold_locales (auto simp: edition_table_def ptr_defs ctypes)

interpretation support: ptr_table fst "support_table h" for h
  by unfold_locales (auto simp: support_table_def ptr_defs ctypes)

interpretation daemonset: ptr_table id daemonset_table
  by unfold_locales (auto simp: daemonset_table_def ptr_defs ctypes)

interpretation stateful: ptr_table fst "stateful_table ver h" for ver h
  by unfold_locales (auto simp: stateful_table_def ptr_defs ctypes Let_def)

lemma default_deployment_range:
  "fold (default_deployment clear im isEE r v) (range_map ord (hyper_table h)) = fold (default_deployment clear im isEE r v) (hyper_table h)"
  "fold (default_deployment clear im isEE r v) (range_map ord (edition_table h)) = fold (default_deployment clear im isEE r v) (edition_table h)"
  "fold (default_deployment clear im isEE r v) (range_map ord (support_table h)) = fold (default_deployment clear im isEE r v) (support_table h)"
  by (rule hyper.range_order_irrelevant edition.range_order_irrelevant support.range_order_irrelevant,
      simp add: default_deployment_def case_prod_unfold)+

lemma default_daemonset_range:
  "fold (default_daemonset clear isEE r v h) (range_map ord daemonset_table) = fold (default_daemonset clear isEE r v h) daemonset_table"
  by (rule daemonset.range_order_irrelevant) (simp add: default_daemonset_def Let_def)

lemma default_stateful_range:
  "fold (default_stateful clear isEE r) (range_map ord (stateful_table v h)) = fold (default_stateful clear isEE r) (stateful_table v h)"
  by (rule stateful.range_order_irrelevant) (simp add: default_stateful_def case_prod_unfold)

lemmas loop_simps = default_deployment_range default_daemonset_range default_stateful_range

section \<open>Defaulting twice\<close>

named_theorems dflt_simps

lemmas image_defs = deployment_image_def deployment_edition_image_def container_image_def

lemma SetDefaults_DeploymentSpec_fields:
  "SetDefaults_DeploymentSpec clear img d = d
     \<lparr>ds_Replicas := (if ds_Disable d then 0 else if ds_Replicas d \<le> 0 then 1 else ds_Replicas d),
      ds_ContainerSpec := clearContainerSpec clear (default_pull_policy ((ds_ContainerSpec d)\<lparr>cs_Image := img\<rparr>)),
      ds_Tolerations := (if ds_Tolerations d = [] then default_tolerations else ds_Tolerations d)\<rparr>"
  by (cases "ds_Disable d"; cases "ds_Replicas d \<le> 0"; cases "ds_Tolerations d = []")
     (simp_all add: SetDefaults_DeploymentSpec_def Let_def comp_def)

lemma container_default_twice:
  "clearContainerSpec False (default_pull_policy (clearContainerSpec False (default_pull_policy (c\<lparr>cs_Image := j\<rparr>))\<lparr>cs_Image := i\<rparr>))
   = clearContainerSpec False (default_pull_policy (c\<lparr>cs_Image := i\<rparr>))"
  by (simp add: clearContainerSpec_def default_pull_policy_def PullIfNotPresent_def)

lemma SetDefaults_DeploymentSpec_twice [dflt_simps]:
  "SetDefaults_DeploymentSpec False i (SetDefaults_DeploymentSpec False j d) = SetDefaults_DeploymentSpec False i d"
  "deployment_image r v t h e (SetDefaults_DeploymentSpec False i d) = deployment_image r v t h e d"
  "deployment_edition_image r v t h e (SetDefaults_DeploymentSpec False i d) = deployment_edition_image r v t h e d"
  by (simp_all add: SetDefaults_DeploymentSpec_fields container_default_twice default_tolerations_def)
     (simp_all add: clearContainerSpec_def default_pull_policy_def image_defs)

lemma set_deployment_twice [dflt_simps]:
  "set_deployment False (deployment_image r v t h e) (set_deployment False (deployment_image r v t h e) d)
   = set_deployment False (deployment_image r v t h e) d"
  "set_deployment False (deployment_edition_image r v t h e) (set_deployment False (deployment_edition_image r v t h e) d)
   = set_deployment False (deployment_edition_image r v t h e) d"
  by (simp_all add: set_deployment_def SetDefaults_DeploymentSpec_twice)

lemma SetDefaults_DaemonSetSpec_twice [dflt_simps]:
  "SetDefaults_DaemonSetSpec False i (SetDefaults_DaemonSetSpec False j d) = SetDefaults_DaemonSetSpec False i d"
  "container_image r v t h e (dms_ContainerSpec (SetDefaults_DaemonSetSpec False i d)) = container_image r v t h e (dms_ContainerSpec d)"
  "cs_Repository (dms_ContainerSpec (SetDefaults_DaemonSetSpec False i d)) = cs_Repository (dms_ContainerSpec d)"
  by (simp_all add: SetDefaults_DaemonSetSpec_def clearContainerSpec_def default_pull_policy_def Let_def image_defs
        default_tolerations_def PullIfNotPresent_def comp_def)

lemma set_daemonset_twice [dflt_simps]:
  "set_daemonset False (container_image r v t h e) (set_daemonset False (container_image r v t h e) d)
   = set_daemonset False (container_image r v t h e) d"
  by (simp add: set_daemonset_def SetDefaults_DaemonSetSpec_twice)

lemma set_container_twice [dflt_simps]:
  "set_container False r v t h e (set_container False r' v' t' h' e' c) = set_container False r v t h e c"
  by (simp add: set_container_def clearContainerSpec_def image_defs)

lemma setPVCStoreage_simps [dflt_simps]:
  "setPVCStoreage sz (setPVCStoreage sz c) = setPVCStoreage sz c"
  "clearContainerSpec cl (setPVCStoreage sz c) = setPVCStoreage sz (clearContainerSpec cl c)"
  "default_pull_policy (setPVCStoreage sz c\<lparr>cs_Image := i\<rparr>) = setPVCStoreage sz (default_pull_policy (c\<lparr>cs_Image := i\<rparr>))"
  "container_image r v t h e (setPVCStoreage sz c) = container_image r v t h e c"
  by (auto simp: setPVCStoreage_def clearContainerSpec_def default_pull_policy_def container_image_def Let_def
        split: option.splits)

lemma SetDefaults_DeploymentSpec_setPVCStoreage [dflt_simps]:
  "SetDefaults_DeploymentSpec cl i (ds_ContainerSpec_update (setPVCStoreage sz) d)
   = ds_ContainerSpec_update (setPVCStoreage sz) (SetDefaults_DeploymentSpec cl i d)"
  by (simp add: SetDefaults_DeploymentSpec_def Let_def comp_def setPVCStoreage_simps)

lemma deployment_image_container: "deployment_image r v t h e d = container_image r v t h e (ds_ContainerSpec d)"
  by (simp add: image_defs)

lemma SetDefaults_StatefulDeploymentSpec_twice [dflt_simps]:
  "SetDefaults_StatefulDeploymentSpec False c sz r v h e (SetDefaults_StatefulDeploymentSpec False c sz r v h e d)
   = SetDefaults_StatefulDeploymentSpec False c sz r v h e d"
proof -
  have [simp]: "container_image r v c h e (ds_ContainerSpec (SetDefaults_DeploymentSpec False i x)) =
      container_image r v c h e (ds_ContainerSpec x)" for i x
    using SetDefaults_DeploymentSpec_twice(2) by (simp add: deployment_image_container)
  show ?thesis
    by (simp add: SetDefaults_StatefulDeploymentSpec_def DefaultStorageClass_def Let_def
          deployment_image_container comp_def dflt_simps set_deployment_def)
qed

lemma SetDefaults_ServiceSpec_twice [dflt_simps]:
  "SetDefaults_ServiceSpec port (SetDefaults_ServiceSpec port s) = SetDefaults_ServiceSpec port s"
  by (simp add: SetDefaults_ServiceSpec_def)

lemma setDefaults_databases_twice [dflt_simps]:
  "setDefaults_Mysql (setDefaults_Mysql m) = setDefaults_Mysql m"
  "setDefaults_Clickhouse (setDefaults_Clickhouse m) = setDefaults_Clickhouse m"
  "setDefaults_Dameng (setDefaults_Dameng m) = setDefaults_Dameng m"
  by (simp_all add: setDefaults_Mysql_def setDefaults_Clickhouse_def setDefaults_Dameng_def)

lemma default_twice [dflt_simps]:
  "default_str d (default_str d x) = default_str d x"
  "d \<noteq> [] \<Longrightarrow> default_str d' (default_str d x) = default_str d x"
  "default_int n (default_int n i) = default_int n i"
  by (simp_all add: default_str_def default_int_def)

lemma setDefaults_MonitorStackSpec_twice [dflt_simps]:
  assumes "\<And>site. gen site \<noteq> []"
  shows "setDefaults_MonitorStackSpec gen' (setDefaults_MonitorStackSpec gen m) = setDefaults_MonitorStackSpec gen m"
  using assms by (simp add: setDefaults_MonitorStackSpec_def dflt_simps comp_def split: option.splits)

lemma default_DNSConfig_simps [dflt_simps]:
  "default_DNSConfig (default_DNSConfig d) = default_DNSConfig d"
  "SetDefaults_DeploymentSpec c i (default_DNSConfig d) = default_DNSConfig (SetDefaults_DeploymentSpec c i d)"
  "deployment_edition_image r v t h e (default_DNSConfig d) = deployment_edition_image r v t h e d"
  by (simp_all add: default_DNSConfig_def SetDefaults_DeploymentSpec_fields image_defs)

lemma component_twice [dflt_simps]:
  "(\<And>site. gen site \<noteq> []) \<Longrightarrow>
   SetDefaults_KeystoneSpec False gen' r v h e (SetDefaults_KeystoneSpec False gen r v h e k) = SetDefaults_KeystoneSpec False gen r v h e k"
  "SetDefaults_RegionSpec False r v h e (SetDefaults_RegionSpec False r v h e x) = SetDefaults_RegionSpec False r v h e x"
  "SetDefaults_RegionDNSSpec False r v (SetDefaults_RegionDNSSpec False r v y) = SetDefaults_RegionDNSSpec False r v y"
  "SetDefaults_MonitorSpec False r v h e (SetDefaults_MonitorSpec False r v h e z) = SetDefaults_MonitorSpec False r v h e z"
  subgoal by (simp add: SetDefaults_KeystoneSpec_def Let_def comp_def dflt_simps)
  subgoal
    by (cases "rs_DNSDomain x = []")
       (simp_all add: set_deployment_def SetDefaults_RegionSpec_def Let_def comp_def dflt_simps DefaultOnecloudRegionDNSDomain_def)
  subgoal by (simp add: SetDefaults_RegionDNSSpec_def comp_def dflt_simps)
  subgoal by (simp add: SetDefaults_MonitorSpec_def comp_def dflt_simps)
  done

lemma setDefaults_Cloudmux_twice [dflt_simps]:
  "setDefaults_Cloudmux False r v (setDefaults_Cloudmux False r v c) = setDefaults_Cloudmux False r v c"
  by (cases "cmx_Disable c")
     (simp_all add: set_deployment_def setDefaults_Cloudmux_def Cloudmux_ToDeploymentSpec_def Cloudmux_FillBySpec_def Let_def
        SetDefaults_DeploymentSpec_fields clearContainerSpec_def default_pull_policy_def image_defs PullIfNotPresent_def
        default_tolerations_def)

lemma setDefaults_EChartsSpec_twice [dflt_simps]:
  "setDefaults_EChartsSpec False r (setDefaults_EChartsSpec False r c) = setDefaults_EChartsSpec False r c"
  by (cases "ecs_ssr_Disable c")
     (simp_all add: set_deployment_def setDefaults_EChartsSpec_def EChartsSSR_ToDeploymentSpec_def EChartsSSR_FillBySpec_def Let_def
        SetDefaults_DeploymentSpec_fields clearContainerSpec_def default_pull_policy_def image_defs PullIfNotPresent_def
        default_tolerations_def)

lemma component_commute [dflt_simps]:
  "SetDefaults_KeystoneSpec clear gen r v h e (ks_AdminService_update f k) = ks_AdminService_update f (SetDefaults_KeystoneSpec clear gen r v h e k)"
  "SetDefaults_KeystoneSpec clear gen r v h e (ks_PublicService_update f k) = ks_PublicService_update f (SetDefaults_KeystoneSpec clear gen r v h e k)"
  "SetDefaults_RegionSpec clear r v h e (rs_DeploymentServicePortSpec_update (dps_Service_update f) x)
   = rs_DeploymentServicePortSpec_update (dps_Service_update f) (SetDefaults_RegionSpec clear r v h e x)"
  "SetDefaults_MonitorSpec clear r v h e (dps_Service_update f y) = dps_Service_update f (SetDefaults_MonitorSpec clear r v h e y)"
  by (simp_all add: SetDefaults_KeystoneSpec_def SetDefaults_RegionSpec_def SetDefaults_MonitorSpec_def Let_def comp_def)

lemma OvnNorth_twice [dflt_simps]:
  "default_OvnNorth False isEE r v (default_OvnNorth False isEE r v d) = default_OvnNorth False isEE r v d"
  by (simp add: default_OvnNorth_def set_deployment_def SetDefaults_DeploymentSpec_fields set_container_def image_defs
        clearContainerSpec_def default_pull_policy_def default_tolerations_def PullIfNotPresent_def)

lemma HostImage_twice [dflt_simps]:
  "default_HostImage False isEE r v (default_HostImage False isEE r v d) = default_HostImage False isEE r v d"
  by (simp add: default_HostImage_def set_daemonset_def SetDefaults_DaemonSetSpec_def Let_def comp_def set_container_def
        image_defs clearContainerSpec_def default_pull_policy_def default_tolerations_def PullIfNotPresent_def)

lemma Telegraf_twice [dflt_simps]:
  "default_Telegraf False isEE r (default_Telegraf False isEE r t) = default_Telegraf False isEE r t"
  by (simp add: default_Telegraf_def set_telegraf_init_def set_daemonset_def comp_def dflt_simps)

lemma Keystone_twice [dflt_simps]:
  "(\<And>site. gen site \<noteq> []) \<Longrightarrow>
   default_Keystone False gen' isEE r v h (default_Keystone False gen isEE r v h k) = default_Keystone False gen isEE r v h k"
  by (simp add: default_Keystone_def comp_def dflt_simps)

lemma component_fn_twice [dflt_simps]:
  "default_service False (deployment_image r v t h e) port (default_service False (deployment_image r v t h e) port x1)
   = default_service False (deployment_image r v t h e) port x1"
  "default_service False (deployment_edition_image r v t h e) port (default_service False (deployment_edition_image r v t h e) port x1)
   = default_service False (deployment_edition_image r v t h e) port x1"
  "default_RegionServer False e r v h (default_RegionServer False e r v h x2) = default_RegionServer False e r v h x2"
  "default_Glance False e r v h (default_Glance False e r v h x3) = default_Glance False e r v h x3"
  "default_Webconsole False e r v h (default_Webconsole False e r v h x4) = default_Webconsole False e r v h x4"
  "default_Yunionagent False e r v h (default_Yunionagent False e r v h x5) = default_Yunionagent False e r v h x5"
  "default_Influxdb False e r (default_Influxdb False e r x6) = default_Influxdb False e r x6"
  "default_VictoriaMetrics False e r (default_VictoriaMetrics False e r x7) = default_VictoriaMetrics False e r x7"
  "default_Monitor False e r v h (default_Monitor False e r v h x8) = default_Monitor False e r v h x8"
  "default_APIGateway False e r v h (default_APIGateway False e r v h x9) = default_APIGateway False e r v h x9"
  "default_Web False e e' r v (default_Web False e e' r v x10) = default_Web False e e' r v x10"
  "default_Notify False e r v h (default_Notify False e r v h x11) = default_Notify False e r v h x11"
  "default_Lbagent False e r v h (default_Lbagent False e r v h x12) = default_Lbagent False e r v h x12"
  "default_HostAgent False e r v h (default_HostAgent False e r v h x13) = default_HostAgent False e r v h x13"
  "default_BaremetalAgent False e r v (default_BaremetalAgent False e r v x14) = default_BaremetalAgent False e r v x14"
  "default_Meter False e r v h (default_Meter False e r v h x15) = default_Meter False e r v h x15"
  "default_Cloudmon False e r v h (default_Cloudmon False e r v h x16) = default_Cloudmon False e r v h x16"
  "default_EsxiAgent False e r v h (default_EsxiAgent False e r v h x17) = default_EsxiAgent False e r v h x17"
  by (simp_all add: component_fns comp_def dflt_simps)

lemma default_str_nonempty [simp]: "d \<noteq> [] \<Longrightarrow> default_str d x \<noteq> []"
  by (simp add: default_str_def)

lemmas stage_defs = SetDefaults_globals_def SetDefaults_head_def SetDefaults_deployments_def SetDefaults_web_def
  SetDefaults_host_def SetDefaults_daemonsets_def SetDefaults_guacd_sdn_def SetDefaults_ovn_def SetDefaults_telegraf_def
  SetDefaults_stateful_def SetDefaults_tail_def setDefaults_Components_ServicePort_def

lemmas table_defs = hyper_table_def edition_table_def support_table_def daemonset_table_def stateful_table_def service_table_def
  default_deployment_def default_daemonset_def default_stateful_def

lemma component_defaults_sel:
  "spec_DisableResourceManagement (component_defaults clear gen isEE isES r v h s) = spec_DisableResourceManagement s"
  "spec_DisableLocalVpc (component_defaults clear gen isEE isES r v h s) = spec_DisableLocalVpc s"
  "spec_EnableCloudNet (component_defaults clear gen isEE isES r v h s) = spec_EnableCloudNet s"
  "spec_EnableS3Gateway (component_defaults clear gen isEE isES r v h s) = spec_EnableS3Gateway s"
  "spec_IPv6Cluster (component_defaults clear gen isEE isES r v h s) = spec_IPv6Cluster s"
  "spec_ProductVersion (component_defaults clear gen isEE isES r v h s) = spec_ProductVersion s"
  "spec_UseHyperImage (component_defaults clear gen isEE isES r v h s) = spec_UseHyperImage s"
  "spec_Etcd (component_defaults clear gen isEE isES r v h s) = spec_Etcd s"
  "spec_Mysql (component_defaults clear gen isEE isES r v h s) = spec_Mysql s"
  "spec_Clickhouse (component_defaults clear gen isEE isES r v h s) = spec_Clickhouse s"
  "spec_Dameng (component_defaults clear gen isEE isES r v h s) = spec_Dameng s"
  "spec_DbEngine (component_defaults clear gen isEE isES r v h s) = spec_DbEngine s"
  "spec_Version (component_defaults clear gen isEE isES r v h s) = spec_Version s"
  "spec_CertSANs (component_defaults clear gen isEE isES r v h s) = spec_CertSANs s"
  "spec_Services (component_defaults clear gen isEE isES r v h s) = spec_Services s"
  "spec_Minio (component_defaults clear gen isEE isES r v h s) = spec_Minio s"
  "spec_ImageRepository (component_defaults clear gen isEE isES r v h s) = spec_ImageRepository s"
  "spec_Region (component_defaults clear gen isEE isES r v h s) = spec_Region s"
  "spec_Zone (component_defaults clear gen isEE isES r v h s) = spec_Zone s"
  "spec_CustomZones (component_defaults clear gen isEE isES r v h s) = spec_CustomZones s"
  "spec_Keystone (component_defaults clear gen isEE isES r v h s) = default_Keystone clear gen isEE r v h (spec_Keystone s)"
  "spec_RegionServer (component_defaults clear gen isEE isES r v h s) = default_RegionServer clear isEE r v h (spec_RegionServer s)"
  "spec_RegionDNS (component_defaults clear gen isEE isES r v h s) = SetDefaults_RegionDNSSpec clear r v (spec_RegionDNS s)"
  "spec_Scheduler (component_defaults clear gen isEE isES r v h s) = default_service clear (deployment_image r v SchedulerComponentType h isEE) SchedulerPort (spec_Scheduler s)"
  "spec_Glance (component_defaults clear gen isEE isES r v h s) = default_Glance clear isEE r v h (spec_Glance s)"
  "spec_Climc (component_defaults clear gen isEE isES r v h s) = set_deployment clear (deployment_edition_image r v ClimcComponentType False isES) (spec_Climc s)"
  "spec_Webconsole (component_defaults clear gen isEE isES r v h s) = default_Webconsole clear isEE r v h (spec_Webconsole s)"
  "spec_Logger (component_defaults clear gen isEE isES r v h s) = default_service clear (deployment_image r v LoggerComponentType h isEE) LoggerPort (spec_Logger s)"
  "spec_Yunionconf (component_defaults clear gen isEE isES r v h s) = default_service clear (deployment_image r v YunionconfComponentType h isEE) YunionConfPort (spec_Yunionconf s)"
  "spec_Yunionagent (component_defaults clear gen isEE isES r v h s) = default_Yunionagent clear isEE r v h (spec_Yunionagent s)"
  "spec_Influxdb (component_defaults clear gen isEE isES r v h s) = default_Influxdb clear isEE r (spec_Influxdb s)"
  "spec_VictoriaMetrics (component_defaults clear gen isEE isES r v h s) = default_VictoriaMetrics clear isEE r (spec_VictoriaMetrics s)"
  "spec_Telegraf (component_defaults clear gen isEE isES r v h s) = default_Telegraf clear isEE r (spec_Telegraf s)"
  "spec_Monitor (component_defaults clear gen isEE isES r v h s) = default_Monitor clear isEE r v h (spec_Monitor s)"
  "spec_LoadBalancerEndpoint (component_defaults clear gen isEE isES r v h s) = spec_LoadBalancerEndpoint s"
  "spec_APIGateway (component_defaults clear gen isEE isES r v h s) = default_APIGateway clear isES r v h (spec_APIGateway s)"
  "spec_Web (component_defaults clear gen isEE isES r v h s) = default_Web clear isEE isES r v (spec_Web s)"
  "spec_KubeServer (component_defaults clear gen isEE isES r v h s) = default_service clear (deployment_image r v KubeServerComponentType False isEE) KubeServerPort (spec_KubeServer s)"
  "spec_AnsibleServer (component_defaults clear gen isEE isES r v h s) = default_service clear (deployment_image r v AnsibleServerComponentType h isEE) AnsibleServerPort (spec_AnsibleServer s)"
  "spec_Cloudnet (component_defaults clear gen isEE isES r v h s) = default_service clear (deployment_image r v CloudnetComponentType False isEE) CloudnetPort (spec_Cloudnet s)"
  "spec_Cloudproxy (component_defaults clear gen isEE isES r v h s) = default_service clear (deployment_image r v CloudproxyComponentType False isEE) CloudproxyPort (spec_Cloudproxy s)"
  "spec_Cloudevent (component_defaults clear gen isEE isES r v h s) = default_service clear (deployment_image r v CloudeventComponentType h isEE) CloudeventPort (spec_Cloudevent s)"
  "spec_Notify (component_defaults clear gen isEE isES r v h s) = default_Notify clear isEE r v h (spec_Notify s)"
  "spec_Lbagent (component_defaults clear gen isEE isES r v h s) = default_Lbagent clear isEE r v h (spec_Lbagent s)"
  "spec_HostAgent (component_defaults clear gen isEE isES r v h s) = default_HostAgent clear isEE r v h (spec_HostAgent s)"
  "spec_HostDeployer (component_defaults clear gen isEE isES r v h s) = set_daemonset clear (container_image r v HostDeployerComponentType False isEE) (spec_HostDeployer s)"
  "spec_HostImage (component_defaults clear gen isEE isES r v h s) = default_HostImage clear isEE r v (spec_HostImage s)"
  "spec_BaremetalAgent (component_defaults clear gen isEE isES r v h s) = default_BaremetalAgent clear isEE r v (spec_BaremetalAgent s)"
  "spec_S3gateway (component_defaults clear gen isEE isES r v h s) = default_service clear (deployment_image r v S3gatewayComponentType False isEE) S3gatewayPort (spec_S3gateway s)"
  "spec_Devtool (component_defaults clear gen isEE isES r v h s) = default_service clear (deployment_image r v DevtoolComponentType h isEE) DevtoolPort (spec_Devtool s)"
  "spec_Meter (component_defaults clear gen isEE isES r v h s) = default_Meter clear isEE r v h (spec_Meter s)"
  "spec_Billing (component_defaults clear gen isEE isES r v h s) = default_service clear (deployment_image r v BillingComponentType h isEE) BillingPort (spec_Billing s)"
  "spec_AutoUpdate (component_defaults clear gen isEE isES r v h s) = default_service clear (deployment_image r v AutoUpdateComponentType h isEE) AutoUpdatePort (spec_AutoUpdate s)"
  "spec_Cloudmon (component_defaults clear gen isEE isES r v h s) = default_Cloudmon clear isEE r v h (spec_Cloudmon s)"
  "spec_EsxiAgent (component_defaults clear gen isEE isES r v h s) = default_EsxiAgent clear isEE r v h (spec_EsxiAgent s)"
  "spec_Itsm (component_defaults clear gen isEE isES r v h s) = default_service clear (deployment_image r v ItsmComponentType False isEE) ItsmPort (spec_Itsm s)"
  "spec_ServiceOperator (component_defaults clear gen isEE isES r v h s) = default_service clear (deployment_image r v ServiceOperatorComponentType False isEE) ServiceOperatorPort (spec_ServiceOperator s)"
  "spec_OvnNorth (component_defaults clear gen isEE isES r v h s) = default_OvnNorth clear isEE r v (spec_OvnNorth s)"
  "spec_VpcAgent (component_defaults clear gen isEE isES r v h s) = default_service clear (deployment_image r v VpcAgentComponentType h isEE) VpcAgentPort (spec_VpcAgent s)"
  "spec_CloudId (component_defaults clear gen isEE isES r v h s) = default_service clear (deployment_image r v CloudIdComponentType h isEE) CloudIdPort (spec_CloudId s)"
  "spec_Suggestion (component_defaults clear gen isEE isES r v h s) = default_service clear (deployment_image r v SuggestionComponentType h isEE) SuggestionPort (spec_Suggestion s)"
  "spec_MonitorStack (component_defaults clear gen isEE isES r v h s) = setDefaults_MonitorStackSpec gen (spec_MonitorStack s)"
  "spec_Scheduledtask (component_defaults clear gen isEE isES r v h s) = default_service clear (deployment_image r v ScheduledtaskComponentType h isEE) ScheduledtaskPort (spec_Scheduledtask s)"
  "spec_ApiMap (component_defaults clear gen isEE isES r v h s) = default_service clear (deployment_image r v ApiMapComponentType h isEE) ApiMapPort (spec_ApiMap s)"
  "spec_Report (component_defaults clear gen isEE isES r v h s) = default_service clear (deployment_image r v ReportComponentType h isEE) ReportPort (spec_Report s)"
  "spec_EChartsSSR (component_defaults clear gen isEE isES r v h s) = setDefaults_EChartsSpec clear r (spec_EChartsSSR s)"
  "spec_BastionHost (component_defaults clear gen isEE isES r v h s) = default_service clear (deployment_image r v BastionHostComponentType h isEE) BastionHostPort (spec_BastionHost s)"
  "spec_Cloudmux (component_defaults clear gen isEE isES r v h s) = setDefaults_Cloudmux clear r v (spec_Cloudmux s)"
  "spec_Extdb (component_defaults clear gen isEE isES r v h s) = default_service clear (deployment_image r v ExtdbComponentType h isEE) ExtdbPort (spec_Extdb s)"
  "spec_LLM (component_defaults clear gen isEE isES r v h s) = default_service clear (deployment_image r v LLMComponentType h isEE) LLMPort (spec_LLM s)"
  "spec_McpServer (component_defaults clear gen isEE isES r v h s) = default_service clear (deployment_edition_image r v McpServerComponentType h isEE) McpServerPort (spec_McpServer s)"
  "spec_AiProxy (component_defaults clear gen isEE isES r v h s) = default_service clear (deployment_image r v AiProxyComponentType h isEE) AiProxyPort (spec_AiProxy s)"
  unfolding component_defaults_def comp_apply by simp_all

lemma useHI_simps:
  "in_strings YunionagentComponentType [YunionagentComponentType, HostComponentType, LbagentComponentType] = True"
  "in_strings HostComponentType [YunionagentComponentType, HostComponentType, LbagentComponentType] = True"
  "in_strings LbagentComponentType [YunionagentComponentType, HostComponentType, LbagentComponentType] = True"
  "in_strings HostDeployerComponentType [YunionagentComponentType, HostComponentType, LbagentComponentType] = False"
  "in_strings HostImageComponentType [YunionagentComponentType, HostComponentType, LbagentComponentType] = False"
  by (simp_all add: ctypes)

lemma SetDefaults_components_flat:
  "SetDefaults_components ord clear gen isEE isES r v h s = component_defaults clear gen isEE isES r v h s"
  unfolding SetDefaults_components_def Let_def stage_defs component_defaults_def comp_apply
  unfolding loop_simps
  unfolding table_defs Let_def ptr_defs fold_simps prod.case ptr.select_convs
  unfolding useHI_simps if_True if_False
  by (rule OnecloudClusterSpec.equality) (simp_all add: component_fns)

lemma component_defaults_twice:
  assumes "\<And>site. gen site \<noteq> []"
  shows "component_defaults False gen' isEE isES r v h (component_defaults False gen isEE isES r v h s)
     = component_defaults False gen isEE isES r v h s"
  by (rule OnecloudClusterSpec.equality) (simp_all add: component_defaults_sel dflt_simps assms)

lemma SetDefaults_globals_component_defaults:
  "SetDefaults_globals (component_defaults clear gen isEE isES r v h s)
   = component_defaults clear gen isEE isES r v h (SetDefaults_globals s)"
  unfolding SetDefaults_globals_def Let_def
  by (rule OnecloudClusterSpec.equality) (simp_all add: component_defaults_sel)

lemma SetDefaults_globals_twice: "SetDefaults_globals (SetDefaults_globals s) = SetDefaults_globals s"
  unfolding SetDefaults_globals_def Let_def
  by (rule OnecloudClusterSpec.equality) (simp_all add: dflt_simps)

lemma SetDefaults_OnecloudClusterSpec_flat:
  "SetDefaults_OnecloudClusterSpec ord clear gen isEE isES s =
     component_defaults clear gen isEE isES (default_str DefaultImageRepository (spec_ImageRepository s))
       (default_str DefaultVersion (spec_Version s)) (spec_UseHyperImage s) (SetDefaults_globals s)"
  by (simp add: SetDefaults_OnecloudClusterSpec_def SetDefaults_components_flat Let_def SetDefaults_globals_def)

lemma SetDefaults_OnecloudClusterSpec_twice:
  assumes "\<And>site. gen site \<noteq> []"
  shows "SetDefaults_OnecloudClusterSpec ord' False gen' isEE isES (SetDefaults_OnecloudClusterSpec ord False gen isEE isES s)
     = SetDefaults_OnecloudClusterSpec ord False gen isEE isES s"
proof -
  have "spec_ImageRepository (SetDefaults_globals s) = default_str DefaultImageRepository (spec_ImageRepository s)"
    "spec_Version (SetDefaults_globals s) = default_str DefaultVersion (spec_Version s)"
    "spec_UseHyperImage (SetDefaults_globals s) = spec_UseHyperImage s"
    by (simp_all add: SetDefaults_globals_def Let_def)
  then show ?thesis
    by (simp add: SetDefaults_OnecloudClusterSpec_flat SetDefaults_globals_component_defaults SetDefaults_globals_twice
          component_defaults_twice component_defaults_sel assms dflt_simps)
qed

lemma hyper_table_defaults:
  assumes "(cType, p, supported) \<in> set (hyper_table h)" "cType \<noteq> OvnNorthComponentType"
  shows "deref p (component_defaults clear gen isEE isES r v h s)
     = set_deployment clear (deployment_image r v cType supported isEE) (deref p s)"
  using assms unfolding hyper_table_def
  by (auto simp: ptr_defs component_defaults_sel component_fns)

lemma component_services [simp]:
  "ks_AdminService (SetDefaults_KeystoneSpec clear gen r v h e k) = ks_AdminService k"
  "ks_PublicService (SetDefaults_KeystoneSpec clear gen r v h e k) = ks_PublicService k"
  "dps_Service (rs_DeploymentServicePortSpec (SetDefaults_RegionSpec clear r v h e x)) = dps_Service (rs_DeploymentServicePortSpec x)"
  "dps_Service (SetDefaults_MonitorSpec clear r v h e y) = dps_Service y"
  by (simp_all add: SetDefaults_KeystoneSpec_def SetDefaults_RegionSpec_def SetDefaults_MonitorSpec_def Let_def)

lemma service_table_defaults:
  assumes "(p, port) \<in> set service_table"
  shows "deref p (component_defaults clear gen isEE isES r v h s) = SetDefaults_ServiceSpec port (deref p s)"
  using assms unfolding service_table_def
  by (auto simp: ptr_defs component_defaults_sel component_fns)

lemma table_globals:
  "(cType, p, supported) \<in> set (hyper_table h) \<Longrightarrow> deref p (SetDefaults_globals s) = deref p s"
  "(q, port) \<in> set service_table \<Longrightarrow> deref q (SetDefaults_globals s) = deref q s"
  unfolding hyper_table_def service_table_def SetDefaults_globals_def Let_def
  by (auto simp: ptr_defs)

lemma defaulted_image [simp]:
  "cs_Image (clearContainerSpec clear (default_pull_policy (c\<lparr>cs_Image := i\<rparr>))) = i"
  by (simp add: clearContainerSpec_def default_pull_policy_def)

lemma deployment_image_formula:
  "deployment_image r v cType h isEE d =
     default_str r (cs_Repository (ds_ContainerSpec d)) @ ''/''
     @ default_str (if h then getHyperImageName isEE else cType) (cs_ImageName (ds_ContainerSpec d))
     @ '':'' @ default_str v (cs_Tag (ds_ContainerSpec d))"
  by (simp add: deployment_image_def getImage_def default_str_def Let_def)

lemma edition_keeps:
  "IsEnterpriseEdition (oc_Spec_update f x) = IsEnterpriseEdition x"
  "IsEEOrESEEdition (oc_Spec_update f x) = IsEEOrESEEdition x"
  by (simp_all add: IsEnterpriseEdition_def IsEEOrESEEdition_def GetEdition_def Let_def cong: option.case_cong)

lemma default_labels_twice:
  "default_labels ((default_labels x)\<lparr>oc_Spec := t\<rparr>) = (default_labels x)\<lparr>oc_Spec := t\<rparr>"
proof -
  have "gomap_get (om_Labels (oc_ObjectMeta (default_labels x))) InstanceLabelKey \<noteq> None"
    unfolding default_labels_def by (auto split: option.split)
  then have "gomap_get (om_Labels (oc_ObjectMeta ((default_labels x)\<lparr>oc_Spec := t\<rparr>))) InstanceLabelKey \<noteq> None"
    by simp
  then show ?thesis
    unfolding default_labels_def [of "(default_labels x)\<lparr>oc_Spec := t\<rparr>"] by (simp only: option.case_eq_if if_False)
qed

section \<open>Properties\<close>

text \<open>
  C4: defaulting a cluster that is defaulted already changes nothing, whatever passwords the
  second run would draw and in whatever order the maps are ranged over, when
  \<open>ClearComponent\<close> is off and the password generator never returns the empty string.
\<close>

theorem SetDefaults_idempotent:
  assumes "\<And>site. gen site \<noteq> []"
  shows "SetDefaults_OnecloudCluster ord' False gen' (SetDefaults_OnecloudCluster ord False gen oc)
       = SetDefaults_OnecloudCluster ord False gen oc"
proof -
  define x where "x = default_labels oc"
  have x: "default_labels (x\<lparr>oc_Spec := t\<rparr>) = x\<lparr>oc_Spec := t\<rparr>" for t
    by (simp add: x_def default_labels_twice)
  show ?thesis
    unfolding SetDefaults_OnecloudCluster_def Let_def x_def [symmetric]
    by (simp add: x edition_keeps SetDefaults_OnecloudClusterSpec_twice assms)
qed

theorem SetDefaults_idempotent_witness:
  "pw_fixed ''x'' = ''secret'' \<and>
   SetDefaults_OnecloudCluster (\<lambda>_. 0) False (\<lambda>_. []) (SetDefaults_OnecloudCluster length False pw_fixed sample_cluster)
   = SetDefaults_OnecloudCluster length False pw_fixed sample_cluster"
  using SetDefaults_idempotent [of pw_fixed "\<lambda>_. 0" "\<lambda>_. []" length sample_cluster] by (simp add: pw_fixed_def)

text \<open>
  the three loops over maps of pointers give the same specification in every order in
  which Go may range over the maps.
\<close>

theorem SetDefaults_range_order:
  "SetDefaults_OnecloudCluster ord clear gen oc = SetDefaults_OnecloudCluster ord' clear gen oc"
  unfolding SetDefaults_OnecloudCluster_def SetDefaults_OnecloudClusterSpec_flat ..

text \<open>
  Every deployment of the first table ends up with the image
  \<open>repository/name:version\<close>, its own fields first and the cluster's otherwise, with no
  replica exactly when it is disabled, and with the count it asked for when that is positive.
\<close>

theorem SetDefaults_deployment_table:
  fixes ord clear gen isEE isES
  assumes "(cType, p, supported) \<in> set (hyper_table (spec_UseHyperImage s))" "cType \<noteq> OvnNorthComponentType"
  defines "d \<equiv> deref p s" and "d' \<equiv> deref p (SetDefaults_OnecloudClusterSpec ord clear gen isEE isES s)"
  shows "cs_Image (ds_ContainerSpec d') =
           default_str (default_str DefaultImageRepository (spec_ImageRepository s)) (cs_Repository (ds_ContainerSpec d))
           @ ''/'' @ default_str (if supported then getHyperImageName isEE else cType) (cs_ImageName (ds_ContainerSpec d))
           @ '':'' @ default_str (default_str DefaultVersion (spec_Version s)) (cs_Tag (ds_ContainerSpec d))
         \<and> (ds_Replicas d' = 0 \<longleftrightarrow> ds_Disable d)
         \<and> (\<not> ds_Disable d \<longrightarrow> ds_Replicas d' = max 1 (ds_Replicas d))
         \<and> ds_Tolerations d' \<noteq> []"
proof -
  have "d' = SetDefaults_DeploymentSpec clear
      (deployment_image (default_str DefaultImageRepository (spec_ImageRepository s))
         (default_str DefaultVersion (spec_Version s)) cType supported isEE d) d"
    using hyper_table_defaults [OF assms(1,2)] table_globals(1) [OF assms(1)]
    by (simp add: d_def d'_def SetDefaults_OnecloudClusterSpec_flat set_deployment_def)
  then show ?thesis
    by (simp add: SetDefaults_DeploymentSpec_fields deployment_image_formula default_tolerations_def)
qed

theorem SetDefaults_deployment_table_witness:
  "let s = zero_OnecloudClusterSpec; p = ptr_dps spec_Logger spec_Logger_update;
       d' = deref p (SetDefaults_OnecloudClusterSpec length False pw_fixed False False s)
   in cs_Image (ds_ContainerSpec d') = DefaultImageRepository @ ''/logger:'' @ DefaultVersion \<and> ds_Replicas d' = 1"
proof -
  have "(LoggerComponentType, ptr_dps spec_Logger spec_Logger_update, spec_UseHyperImage zero_OnecloudClusterSpec)
      \<in> set (hyper_table (spec_UseHyperImage zero_OnecloudClusterSpec))"
    by (simp add: hyper_table_def)
  moreover have "LoggerComponentType \<noteq> OvnNorthComponentType" by (simp add: ctypes)
  ultimately show ?thesis
    using SetDefaults_deployment_table [of LoggerComponentType "ptr_dps spec_Logger spec_Logger_update"
        "spec_UseHyperImage zero_OnecloudClusterSpec" zero_OnecloudClusterSpec length False pw_fixed False False]
    by (simp add: ptr_dps_def zero_defs default_str_def LoggerComponentType_def)
qed

text \<open>
  The default node ports are pairwise distinct and in the range Kubernetes allows for node
  ports; a service whose port is unset gets its own, and a port that is set is kept.
\<close>

theorem SetDefaults_node_ports:
  "distinct (map snd service_table)
   \<and> (\<forall>(p, port)\<in>set service_table. 30000 \<le> port \<and> port \<le> 32767
      \<and> (let port_of = (\<lambda>s. sps_NodePort (ss_ServicePortSpec (deref p s)))
         in port_of (SetDefaults_OnecloudClusterSpec ord clear gen isEE isES s) = default_int port (port_of s)))"
proof -
  have "distinct (map snd service_table)"
    by (simp add: service_table_def oc_consts)
  moreover have "\<forall>(p, port)\<in>set service_table. 30000 \<le> port \<and> port \<le> 32767"
    by (simp add: service_table_def oc_consts)
  moreover have "sps_NodePort (ss_ServicePortSpec (deref p (SetDefaults_OnecloudClusterSpec ord clear gen isEE isES s)))
      = default_int port (sps_NodePort (ss_ServicePortSpec (deref p s)))" if "(p, port) \<in> set service_table" for p port
    using service_table_defaults [OF that] table_globals(2) [OF that]
    by (simp add: SetDefaults_OnecloudClusterSpec_flat SetDefaults_ServiceSpec_def default_int_def)
  ultimately show ?thesis by (auto simp: Let_def)
qed

theorem SetDefaults_node_ports_witness:
  "sps_NodePort (ss_ServicePortSpec (dps_Service (spec_Logger
     (SetDefaults_OnecloudClusterSpec length False pw_fixed False False zero_OnecloudClusterSpec)))) = LoggerPort"
proof -
  have "(ptr_svc spec_Logger spec_Logger_update, LoggerPort) \<in> set service_table"
    by (simp add: service_table_def)
  then show ?thesis
    using SetDefaults_node_ports [of length False pw_fixed False False zero_OnecloudClusterSpec]
    by (fastforce simp: ptr_svc_def zero_defs default_int_def Let_def)
qed

text \<open>
  The table of the components with an image per edition does not change Cloudmux, whose
  entry is a copy: in the enterprise edition its image is still the one without the suffix
  \<open>-ee\<close> that the table would give.
\<close>

theorem Cloudmux_edition_image_dropped:
  assumes "cs_ImageName (cmx_ContainerSpec (spec_Cloudmux s)) = []" "cs_Repository (cmx_ContainerSpec (spec_Cloudmux s)) = []"
    and "cs_Tag (cmx_ContainerSpec (spec_Cloudmux s)) = []" "spec_ImageRepository s = repo" "spec_Version s = ver"
    and "repo \<noteq> []" "ver \<noteq> []"
  shows "cs_Image (cmx_ContainerSpec (spec_Cloudmux (SetDefaults_OnecloudClusterSpec ord clear gen True isES s)))
           = repo @ ''/'' @ CloudmuxComponentType @ '':'' @ ver
         \<and> getEditionImage repo [] CloudmuxComponentType [] ver [] False True
           = repo @ ''/'' @ CloudmuxComponentType @ ''-ee:'' @ ver"
proof
  have "spec_Cloudmux (SetDefaults_OnecloudClusterSpec ord clear gen True isES s)
      = setDefaults_Cloudmux clear repo ver (spec_Cloudmux s)"
    by (simp add: SetDefaults_OnecloudClusterSpec_flat component_defaults_sel SetDefaults_globals_def Let_def assms default_str_def)
  then show "cs_Image (cmx_ContainerSpec (spec_Cloudmux (SetDefaults_OnecloudClusterSpec ord clear gen True isES s)))
      = repo @ ''/'' @ CloudmuxComponentType @ '':'' @ ver"
    using assms(1-3)
    by (cases "cmx_Disable (spec_Cloudmux s)")
       (simp_all add: set_deployment_def setDefaults_Cloudmux_def Cloudmux_ToDeploymentSpec_def Cloudmux_FillBySpec_def Let_def
          SetDefaults_DeploymentSpec_fields clearContainerSpec_def default_pull_policy_def image_defs getImage_def)
qed (simp add: getEditionImage_def getImage_def Let_def CloudmuxComponentType_def)

theorem Cloudmux_edition_image_dropped_witness:
  "cs_Image (cmx_ContainerSpec (spec_Cloudmux (SetDefaults_OnecloudClusterSpec length False pw_fixed True True
     (zero_OnecloudClusterSpec\<lparr>spec_ImageRepository := ''reg'', spec_Version := ''v3''\<rparr>)))) = ''reg/cloudmux:v3''"
  using Cloudmux_edition_image_dropped [of "zero_OnecloudClusterSpec\<lparr>spec_ImageRepository := ''reg'', spec_Version := ''v3''\<rparr>"
      "''reg''" "''v3''" length False pw_fixed True]
  by (simp add: zero_defs CloudmuxComponentType_def)

end
