(* ===== verification/OC_Names.thy ===== *)
theory OC_Names
  imports OC_Constants
begin

text \<open>
  Names and labels: the label sets that select the workloads of a component
  (\<^verbatim>\<open>pkg/label/label.go\<close>), the names of the objects of a cluster and the owner
  reference they carry (\<^verbatim>\<open>pkg/controller/utils.go\<close>), and the parts of an image
  reference (\<^verbatim>\<open>pkg/util/image/reference.go\<close>). A label set is an association list
  with distinct keys; the parser of image references is a parameter.
\<close>

section \<open>Labels\<close>

type_synonym Label = strmap

definition label_New :: Label where
  "label_New = [(NameLabelKey, ''onecloud-cluster''), (ManagedByLabelKey, ''onecloud-operator'')]"

definition label_Instance :: "string \<Rightarrow> Label \<Rightarrow> Label" where
  "label_Instance name l = AList.update InstanceLabelKey name l"

definition label_Zone :: "string \<Rightarrow> Label \<Rightarrow> Label" where
  "label_Zone zone l = AList.update ZoneLabelKey zone l"

definition label_Component :: "string \<Rightarrow> bool \<Rightarrow> Label \<Rightarrow> Label" where
  "label_Component name readOnly l =
     (let name = (if readOnly then name @ ''-slave'' else name);
          l1 = AList.update ComponentLabelKey name l;
          l2 = AList.update AppLabelKey name l1
      in if readOnly then AList.update ''read-only'' ''true'' l2 else l2)"

definition label_ComponentType :: "Label \<Rightarrow> string" where
  "label_ComponentType l = gomap_str (Some l) ComponentLabelKey"

definition label_String :: "range_order \<Rightarrow> Label \<Rightarrow> string" where
  "label_String ord l = join_with '','' (map (\<lambda>(k, v). k @ ''='' @ v) (range_map ord l))"

text \<open>Matching a selector of labels (\<open>MatchLabels\<close>) against an object's labels.\<close>

definition selects :: "Label \<Rightarrow> Label \<Rightarrow> bool" where
  "selects sel l \<longleftrightarrow> list_all (\<lambda>(k, v). map_of l k = Some v) sel"

section \<open>Names of the objects of a cluster\<close>

definition IsRequeueError :: "goerr \<Rightarrow> bool" where
  "IsRequeueError e = (case e of RequeueError _ \<Rightarrow> True | _ \<Rightarrow> False)"

definition GetOwnerRef :: "OnecloudCluster \<Rightarrow> OwnerReference" where
  "GetOwnerRef oc = \<lparr>or_APIVersion = ''onecloud.yunion.io/v1alpha1'', or_Kind = OnecloudClusterKind,
     or_Name = om_Name (oc_ObjectMeta oc), or_UID = om_UID (oc_ObjectMeta oc),
     or_Controller = Some True, or_BlockOwnerDeletion = Some True\<rparr>"

fun GetServiceType :: "Service list \<Rightarrow> string \<Rightarrow> string" where
  "GetServiceType [] serviceName = ''ClusterIP''"
| "GetServiceType (svc # services) serviceName =
     (if sv_Name svc = serviceName
      then (if sv_Type svc = ''NodePort'' then ''NodePort''
            else if sv_Type svc = ''LoadBalancer'' then ''LoadBalancer'' else ''ClusterIP'')
      else GetServiceType services serviceName)"

definition IsDockerComposeClusterName :: "string \<Rightarrow> bool" where
  "IsDockerComposeClusterName name \<longleftrightarrow> name = DockerComposeClusterName"

definition NewClusterComponentName :: "string \<Rightarrow> string \<Rightarrow> string" where
  "NewClusterComponentName clusterName componentName =
     (if IsDockerComposeClusterName clusterName then componentName
      else clusterName @ ''-'' @ componentName)"

definition KeystoneComponentName :: "string \<Rightarrow> string" where
  "KeystoneComponentName clusterName = NewClusterComponentName clusterName KeystoneComponentType"

definition AnnProm :: "int \<Rightarrow> strmap" where
  "AnnProm port = [(''prometheus.io/scrape'', ''true''), (''prometheus.io/path'', ''/metrics''),
     (''prometheus.io/port'', show_int port)]"

definition getConfigMapSuffix :: "OnecloudCluster \<Rightarrow> string \<Rightarrow> string \<Rightarrow> string" where
  "getConfigMapSuffix oc component name =
     (case om_Annotations (oc_ObjectMeta oc) of
        None \<Rightarrow> []
      | Some _ \<Rightarrow>
          (let sha = gomap_str (om_Annotations (oc_ObjectMeta oc))
                       (''onecloud.yunion.io/'' @ component @ ''.'' @ name @ ''.sha'')
           in if sha = [] then [] else ''-'' @ sha))"

definition ComponentConfigMapName :: "OnecloudCluster \<Rightarrow> string \<Rightarrow> string" where
  "ComponentConfigMapName oc component =
     (let nameKey = om_Name (oc_ObjectMeta oc) @ ''-'' @ component
      in nameKey @ getConfigMapSuffix oc component nameKey)"

definition ClusterConfigMapName :: "OnecloudCluster \<Rightarrow> string" where
  "ClusterConfigMapName oc = om_Name (oc_ObjectMeta oc) @ ''-cluster-config''"

definition ClustercertSecretName :: "OnecloudCluster \<Rightarrow> string" where
  "ClustercertSecretName oc = om_Name (oc_ObjectMeta oc) @ ''-certs''"

section \<open>Image references\<close>

record ImageReference =
  ir_Domain :: string
  ir_Repository :: string
  ir_Image :: string
  ir_Tag :: string
  ir_Digest :: string

text \<open>
  What the library's parser gives for a reference: its name with the domain
  (\<open>reference.Named\<close>), its tag and its digest, where it has them.
\<close>

record ParsedReference =
  pref_Named :: "(string \<times> string) option"
  pref_Tag :: "string option"
  pref_Digest :: "string option"

definition ParseImageReference ::
  "(string \<Rightarrow> goerr + ParsedReference) \<Rightarrow> string \<Rightarrow> goerr + ImageReference" where
  "ParseImageReference parse img =
     (case parse img of
        Inl e \<Rightarrow> Inl e
      | Inr ref \<Rightarrow>
          (let r0 = \<lparr>ir_Domain = [], ir_Repository = [], ir_Image = [], ir_Tag = [], ir_Digest = []\<rparr>;
               named = (case pref_Named ref of
                   None \<Rightarrow> Inr r0
                 | Some (repo, domain) \<Rightarrow>
                     (let parts = split_on (CHR ''/'') repo
                      in if length parts < 2 then Inl (Errorf (''invalid named: '' @ repo))
                         else Inr (r0\<lparr>ir_Domain := domain,
                                      ir_Repository := join_with ''/'' (butlast parts),
                                      ir_Image := last parts\<rparr>)))
           in case named of
                Inl e \<Rightarrow> Inl e
              | Inr r1 \<Rightarrow>
                  (let r2 = (case pref_Tag ref of None \<Rightarrow> r1 | Some t \<Rightarrow> r1\<lparr>ir_Tag := t\<rparr>);
                       r3 = (case pref_Digest ref of None \<Rightarrow> r2 | Some d \<Rightarrow> r2\<lparr>ir_Digest := d\<rparr>)
                   in Inr (if ir_Tag r3 = [] \<and> ir_Digest r3 = [] then r3\<lparr>ir_Tag := ''latest''\<rparr> else r3))))"

section \<open>Laws\<close>

lemma map_of_update [simp]:
  "map_of (AList.update k v l) k' = (if k' = k then Some v else map_of l k')"
  by (simp add: update_conv')

lemma selects_refl: "distinct (map fst l) \<Longrightarrow> selects l l"
  by (auto simp: selects_def list_all_iff)

lemma label_Component_distinct:
  "distinct (map fst l) \<Longrightarrow> distinct (map fst (label_Component n ro l))"
  by (simp add: label_Component_def Let_def distinct_update)

lemma NewClusterComponentName_inj:
  "NewClusterComponentName c a = NewClusterComponentName c b \<longleftrightarrow> a = b"
  by (simp add: NewClusterComponentName_def)

lemma join_butlast_last:
  assumes "2 \<le> length ps"
  shows "join_with sep (butlast ps) @ sep @ last ps = join_with sep ps"
proof -
  have "ps = butlast ps @ [last ps]" "butlast ps \<noteq> []"
    using assms by (auto simp: neq_Nil_conv Suc_le_length_iff numeral_2_eq_2)
  then show ?thesis by (metis join_with_append)
qed

definition component_selector :: "string \<Rightarrow> string \<Rightarrow> bool \<Rightarrow> Label" where
  "component_selector inst name readOnly = label_Component name readOnly (label_Instance inst label_New)"

definition effective_name :: "string \<Rightarrow> bool \<Rightarrow> string" where
  "effective_name name readOnly = (if readOnly then name @ ''-slave'' else name)"

lemma component_selector_lookup:
  "map_of (component_selector i n ro) k =
     (if ro \<and> k = ''read-only'' then Some ''true''
      else if k = AppLabelKey \<or> k = ComponentLabelKey then Some (effective_name n ro)
      else if k = InstanceLabelKey then Some i
      else map_of label_New k)"
  by (auto simp: component_selector_def label_Component_def label_Instance_def effective_name_def Let_def)

lemma component_selector_keys:
  "distinct (map fst (component_selector i n ro))"
  by (simp add: component_selector_def label_Component_distinct label_Instance_def distinct_update label_New_def oc_consts)

lemma selects_iff:
  assumes "distinct (map fst sel)"
  shows "selects sel l \<longleftrightarrow> (\<forall>k v. map_of sel k = Some v \<longrightarrow> map_of l k = Some v)"
  using assms by (fastforce simp: selects_def list_all_iff)

section \<open>Properties\<close>

text \<open>
  a parsed image reference loses nothing of the name: repository and image joined again are
  the name the parser gave, the image has no slash, and there is a tag or a digest.
\<close>

theorem ParseImageReference_roundtrip:
  assumes "ParseImageReference parse img = Inr r" "parse img = Inr ref" "pref_Named ref = Some (repo, domain)"
  shows "ir_Repository r @ ''/'' @ ir_Image r = repo \<and> CHR ''/'' \<notin> set (ir_Image r)
         \<and> (ir_Tag r \<noteq> [] \<or> ir_Digest r \<noteq> []) \<and> ir_Domain r = domain"
proof -
  let ?ps = "split_on (CHR ''/'') repo"
  have two: "2 \<le> length ?ps"
    using assms by (auto simp: ParseImageReference_def Let_def split: if_splits)
  have "ir_Repository r = join_with ''/'' (butlast ?ps)" "ir_Image r = last ?ps" "ir_Domain r = domain"
    "ir_Tag r \<noteq> [] \<or> ir_Digest r \<noteq> []"
    using assms two by (auto simp: ParseImageReference_def Let_def split: option.splits if_splits)
  then show ?thesis
    using join_butlast_last [OF two, of "''/''"] join_split [of "CHR ''/''" repo]
      split_on_parts [of "last ?ps" "CHR ''/''" repo]
    by simp
qed

definition parse_plain :: "string \<Rightarrow> goerr + ParsedReference" where
  "parse_plain img = Inr \<lparr>pref_Named = Some (img, takeWhile (\<lambda>c. c \<noteq> CHR ''/'') img), pref_Tag = None, pref_Digest = None\<rparr>"

theorem ParseImageReference_roundtrip_witness:
  "case ParseImageReference parse_plain ''quay.io/coreos/etcd'' of
     Inl _ \<Rightarrow> False
   | Inr r \<Rightarrow> ir_Repository r = ''quay.io/coreos'' \<and> ir_Image r = ''etcd'' \<and> ir_Tag r = ''latest''
       \<and> ir_Repository r @ ''/'' @ ir_Image r = ''quay.io/coreos/etcd''"
proof -
  have e: "ParseImageReference parse_plain ''quay.io/coreos/etcd'' =
    Inr \<lparr>ir_Domain = ''quay.io'', ir_Repository = ''quay.io/coreos'', ir_Image = ''etcd'', ir_Tag = ''latest'', ir_Digest = []\<rparr>"
    by (simp add: ParseImageReference_def parse_plain_def Let_def)
  show ?thesis
    using ParseImageReference_roundtrip [OF e, of _ "''quay.io/coreos/etcd''" "''quay.io''"] e
    by (simp add: parse_plain_def)
qed

end
