(* ===== verification/Etcd_Member.thy ===== *)
theory Etcd_Member
  imports OC_Constants "HOL-Library.Word"
begin

text \<open>
  The members of an etcd cluster and the set of them (\<^verbatim>\<open>pkg/util/etcdutil/member.go\<close>).
  A member set is the association list of Go's map; the functions that iterate over it take the
  order of the iteration. \<open>Addr\<close> panics on a name without a dash, which is the \<open>None\<close> of the
  functions below. The set operations are also given by an interface, the locale
  \<open>member_sets\<close>, whose laws speak of the names in a set only.
\<close>

section \<open>Members\<close>

record Member =
  mb_Name :: string
  mb_Namespace :: string
  mb_ID :: "64 word"
  mb_SecurePeer :: bool
  mb_SecureClient :: bool
  mb_IPv6Cluster :: bool

definition clusterNameFromMemberName :: "string \<Rightarrow> string option" where
  "clusterNameFromMemberName mn = before_last (CHR ''-'') mn"

definition Member_Addr :: "Member \<Rightarrow> string option" where
  "Member_Addr m = map_option (\<lambda>c. mb_Name m @ ''.'' @ c @ ''.'' @ mb_Namespace m @ ''.svc'')
     (clusterNameFromMemberName (mb_Name m))"

definition clientScheme :: "Member \<Rightarrow> string" where
  "clientScheme m = (if mb_SecureClient m then ''https'' else ''http'')"

definition peerScheme :: "Member \<Rightarrow> string" where
  "peerScheme m = (if mb_SecurePeer m then ''https'' else ''http'')"

definition ClientURL :: "Member \<Rightarrow> string option" where
  "ClientURL m = map_option (\<lambda>a. clientScheme m @ ''://'' @ a @ '':2379'') (Member_Addr m)"

definition PeerURL :: "Member \<Rightarrow> string option" where
  "PeerURL m = map_option (\<lambda>a. peerScheme m @ ''://'' @ a @ '':2380'') (Member_Addr m)"

definition ListenClientURL :: "Member \<Rightarrow> string" where
  "ListenClientURL m =
     (if mb_IPv6Cluster m then clientScheme m @ ''://[::]:2379'' else clientScheme m @ ''://0.0.0.0:2379'')"

definition ListenPeerURL :: "Member \<Rightarrow> string" where
  "ListenPeerURL m =
     (if mb_IPv6Cluster m then peerScheme m @ ''://[::]:2380'' else peerScheme m @ ''://0.0.0.0:2380'')"

section \<open>Sets of members\<close>

type_synonym MemberSet = "(string \<times> Member) list"

definition NewMemberSet :: "Member list \<Rightarrow> MemberSet" where
  "NewMemberSet ms = fold (\<lambda>m s. AList.update (mb_Name m) m s) ms []"

definition ms_has :: "MemberSet \<Rightarrow> string \<Rightarrow> bool" where
  "ms_has ms n \<longleftrightarrow> n \<in> set (map fst ms)"

definition ms_Diff :: "MemberSet \<Rightarrow> MemberSet \<Rightarrow> MemberSet" where
  "ms_Diff ms other = filter (\<lambda>nm. \<not> ms_has other (fst nm)) ms"

definition ms_Size :: "MemberSet \<Rightarrow> nat" where
  "ms_Size ms = length ms"

definition ms_IsEqual :: "MemberSet \<Rightarrow> MemberSet \<Rightarrow> bool" where
  "ms_IsEqual ms other \<longleftrightarrow>
     (if ms_Size ms \<noteq> ms_Size other then False else list_all (\<lambda>nm. ms_has other (fst nm)) ms)"

definition ms_PickOne :: "range_order \<Rightarrow> MemberSet \<Rightarrow> Member option" where
  "ms_PickOne ord ms = (case range_map ord ms of [] \<Rightarrow> None | nm # _ \<Rightarrow> Some (snd nm))"

definition ms_Add :: "Member \<Rightarrow> MemberSet \<Rightarrow> MemberSet" where
  "ms_Add m ms = AList.update (mb_Name m) m ms"

definition ms_Remove :: "string \<Rightarrow> MemberSet \<Rightarrow> MemberSet" where
  "ms_Remove name ms = AList.delete name ms"

fun all_some :: "'a option list \<Rightarrow> 'a list option" where
  "all_some [] = Some []"
| "all_some (x # xs) = (case x of None \<Rightarrow> None | Some y \<Rightarrow> map_option ((#) y) (all_some xs))"

definition ms_ClientURLs :: "range_order \<Rightarrow> MemberSet \<Rightarrow> string list option" where
  "ms_ClientURLs ord ms = all_some (map (\<lambda>nm. ClientURL (snd nm)) (range_map ord ms))"

definition ms_PeerURLPairs :: "range_order \<Rightarrow> MemberSet \<Rightarrow> string list option" where
  "ms_PeerURLPairs ord ms =
     all_some (map (\<lambda>nm. map_option (\<lambda>u. mb_Name (snd nm) @ ''='' @ u) (PeerURL (snd nm))) (range_map ord ms))"

definition ms_String :: "range_order \<Rightarrow> MemberSet \<Rightarrow> string" where
  "ms_String ord ms = join_with '','' (map fst (range_map ord ms))"

section \<open>Names from peer URLs\<close>

definition is_digit_char :: "char \<Rightarrow> bool" where
  "is_digit_char c \<longleftrightarrow> c \<in> set ''0123456789''"

definition is_letter_char :: "char \<Rightarrow> bool" where
  "is_letter_char c \<longleftrightarrow> c \<in> set ''abcdefghijklmnopqrstuvwxyzABCDEFGHIJKLMNOPQRSTUVWXYZ''"

definition is_word_char :: "char \<Rightarrow> bool" where
  "is_word_char c \<longleftrightarrow> is_digit_char c \<or> is_letter_char c \<or> c = CHR ''_''"

definition is_host_char :: "char \<Rightarrow> bool" where
  "is_host_char c \<longleftrightarrow> is_word_char c \<or> c = CHR ''.'' \<or> c = CHR ''-''"

text \<open>
  The regular expression \<^verbatim>\<open>^\w+:\/\/[\w\.\-]+(:\d+)?$\<close>: the scheme and the host, or \<open>None\<close>
  where it does not match. No character class holds a colon, so the match is the greedy one.
\<close>

definition match_peer_url :: "string \<Rightarrow> (string \<times> string) option" where
  "match_peer_url pu =
     (let scheme = takeWhile is_word_char pu; rest = dropWhile is_word_char pu
      in if scheme = [] \<or> take 3 rest \<noteq> ''://'' then None
         else (let auth = drop 3 rest; host = takeWhile is_host_char auth; port = dropWhile is_host_char auth
               in if host = [] then None
                  else (case port of
                          [] \<Rightarrow> Some (scheme, auth)
                        | c # ds \<Rightarrow> (if c = CHR '':'' \<and> ds \<noteq> [] \<and> list_all is_digit_char ds
                                     then Some (scheme, auth) else None))))"

text \<open>
  \<open>url.Parse\<close> of such a string: the scheme must start with a letter and have no underscore,
  otherwise the text before the colon is read as a path segment, which is an error; the host of
  the result is the authority with its port.
\<close>

definition MemberNameFromPeerURL :: "string \<Rightarrow> goerr + string" where
  "MemberNameFromPeerURL pu =
     (case match_peer_url pu of
        None \<Rightarrow> Inl (Errorf ''invalid PeerURL format'')
      | Some (scheme, host) \<Rightarrow>
          (if is_letter_char (hd scheme) \<and> CHR ''_'' \<notin> set scheme
           then Inr (hd (split_on (CHR ''.'') (hd (split_on (CHR '':'') host))))
           else Inl (Errorf ''first path segment in URL cannot contain colon'')))"

section \<open>Laws of the set operations\<close>

definition ms_names :: "MemberSet \<Rightarrow> string set" where
  "ms_names ms = fst ` set ms"

definition wf_MemberSet :: "MemberSet \<Rightarrow> bool" where
  "wf_MemberSet ms \<longleftrightarrow> distinct (map fst ms) \<and> list_all (\<lambda>(n, m). mb_Name m = n) ms"

text \<open>
  The interface the etcd manager uses: sets of members with their names, a difference, a size,
  and a pick. What follows from it for the quorum is proved once, in the locale.
\<close>

locale member_sets =
  fixes wf :: "'s \<Rightarrow> bool" and names :: "'s \<Rightarrow> string set" and diff :: "'s \<Rightarrow> 's \<Rightarrow> 's"
    and size_of :: "'s \<Rightarrow> nat" and same :: "'s \<Rightarrow> 's \<Rightarrow> bool" and pick :: "'s \<Rightarrow> 'm option" and name_of :: "'m \<Rightarrow> string"
  assumes names_finite: "finite (names s)"
    and wf_diff: "wf s \<Longrightarrow> wf (diff s t)"
    and names_diff: "names (diff s t) = names s - names t"
    and size_names: "wf s \<Longrightarrow> size_of s = card (names s)"
    and same_iff: "wf s \<Longrightarrow> wf t \<Longrightarrow> same s t \<longleftrightarrow> names s = names t"
    and pick_None: "pick s = None \<longleftrightarrow> names s = {}"
    and pick_in: "wf s \<Longrightarrow> pick s = Some m \<Longrightarrow> name_of m \<in> names s"
begin

text \<open>The running members: what is left when the unknown ones are taken away.\<close>

lemma names_running: "names (diff run (diff run mem)) = names run \<inter> names mem"
  by (auto simp: names_diff)

lemma size_running_le:
  assumes "wf run" "wf mem"
  shows "size_of (diff run (diff run mem)) \<le> size_of mem"
  using assms by (simp add: size_names wf_diff names_running card_mono names_finite)

lemma size_running_eq:
  assumes "wf run" "wf mem"
  shows "size_of (diff run (diff run mem)) = size_of mem \<longleftrightarrow> names mem \<subseteq> names run"
proof -
  have "size_of (diff run (diff run mem)) = card (names run \<inter> names mem)" "size_of mem = card (names mem)"
    using assms by (simp_all add: size_names wf_diff names_running)
  moreover have "card (names run \<inter> names mem) = card (names mem) \<longleftrightarrow> names run \<inter> names mem = names mem"
    using names_finite by (metis card_subset_eq inf_le2)
  ultimately show ?thesis by auto
qed

text \<open>Picking a dead member succeeds whenever not all members are running.\<close>

lemma pick_dead:
  assumes "wf run" "wf mem" "size_of (diff run (diff run mem)) \<noteq> size_of mem"
  obtains m where "pick (diff mem (diff run (diff run mem))) = Some m" "name_of m \<in> names mem" "name_of m \<notin> names run"
proof -
  let ?d = "diff mem (diff run (diff run mem))"
  have d: "names ?d = names mem - names run"
    by (auto simp: names_diff)
  moreover have "\<not> names mem \<subseteq> names run"
    using assms size_running_eq by simp
  ultimately obtain m where m: "pick ?d = Some m"
    using pick_None [of ?d] by (cases "pick ?d") auto
  have "wf ?d" using assms wf_diff by simp
  from pick_in [OF this m] d have "name_of m \<in> names mem" "name_of m \<notin> names run" by auto
  with m that show thesis by blast
qed

end

lemma ms_has_names [simp]: "ms_has ms n \<longleftrightarrow> n \<in> ms_names ms"
  by (simp add: ms_has_def ms_names_def)

lemma update_keys: "fst ` set (AList.update k v al) = insert k (fst ` set al)"
  by (induction al) auto

lemma ms_names_simps [simp]:
  "ms_names [] = {}"
  "ms_names (ms_Add m ms) = insert (mb_Name m) (ms_names ms)"
  "ms_names (ms_Remove n ms) = ms_names ms - {n}"
  "ms_names (ms_Diff ms other) = ms_names ms - ms_names other"
  by (auto simp: ms_names_def ms_Add_def ms_Remove_def ms_Diff_def update_keys AList.delete_eq ms_has_def)

lemma list_all_update:
  "list_all P al \<Longrightarrow> P (k, v) \<Longrightarrow> list_all P (AList.update k v al)"
  by (induction al) auto

lemma wf_MemberSet_simps [simp]:
  "wf_MemberSet []"
  "wf_MemberSet ms \<Longrightarrow> wf_MemberSet (ms_Add m ms)"
  "wf_MemberSet ms \<Longrightarrow> wf_MemberSet (ms_Remove n ms)"
  "wf_MemberSet ms \<Longrightarrow> wf_MemberSet (ms_Diff ms other)"
  subgoal by (simp add: wf_MemberSet_def)
  subgoal by (simp add: wf_MemberSet_def ms_Add_def distinct_update list_all_update)
  subgoal by (auto simp: wf_MemberSet_def ms_Remove_def list_all_iff AList.delete_eq distinct_map_filter)
  subgoal by (auto simp: wf_MemberSet_def ms_Diff_def list_all_iff distinct_map_filter)
  done

lemma ms_Size_names: "wf_MemberSet ms \<Longrightarrow> ms_Size ms = card (ms_names ms)"
  unfolding wf_MemberSet_def ms_Size_def ms_names_def by (metis distinct_card length_map list.set_map)

lemma ms_IsEqual_iff:
  assumes "wf_MemberSet s" "wf_MemberSet t"
  shows "ms_IsEqual s t \<longleftrightarrow> ms_names s = ms_names t"
proof -
  have fin: "finite (ms_names s)" "finite (ms_names t)" by (simp_all add: ms_names_def)
  have "list_all (\<lambda>nm. ms_has t (fst nm)) s \<longleftrightarrow> ms_names s \<subseteq> ms_names t"
    by (auto simp: list_all_iff ms_names_def ms_has_def)
  then show ?thesis
    using fin card_subset_eq [OF fin(2), of "ms_names s"]
    by (auto simp: ms_IsEqual_def ms_Size_names assms simp del: ms_has_names)
qed

lemma ms_PickOne_None: "ms_PickOne ord ms = None \<longleftrightarrow> ms = []"
  by (simp add: ms_PickOne_def split: list.splits) (metis list.distinct(1) range_map_Nil)

lemma ms_PickOne_in:
  assumes "wf_MemberSet ms" "ms_PickOne ord ms = Some m"
  shows "(mb_Name m, m) \<in> set ms"
proof -
  obtain n ns where "range_map ord ms = (n, m) # ns"
    using assms(2) by (auto simp: ms_PickOne_def split: list.splits)
  then have "(n, m) \<in> set ms" by (metis list.set_intros(1) range_map_set)
  with assms(1) show ?thesis by (auto simp: wf_MemberSet_def list_all_iff)
qed

interpretation mset_impl: member_sets wf_MemberSet ms_names ms_Diff ms_Size ms_IsEqual "ms_PickOne ord" mb_Name for ord
proof unfold_locales
  show "(ms_PickOne ord s = None) = (ms_names s = {})" for ord s
    by (simp add: ms_PickOne_None ms_names_def)
  show "mb_Name m \<in> ms_names s" if "wf_MemberSet s" "ms_PickOne ord s = Some m" for ord s m
    using ms_PickOne_in [OF that] by (force simp: ms_names_def)
  show "finite (ms_names s)" for s by (simp add: ms_names_def)
qed (simp_all add: ms_Size_names ms_IsEqual_iff)

lemma NewMemberSet_single [simp]: "NewMemberSet [m] = [(mb_Name m, m)]"
  by (simp add: NewMemberSet_def)

lemma wf_NewMemberSet [simp]: "wf_MemberSet (NewMemberSet ms)"
proof -
  have "wf_MemberSet s \<Longrightarrow> wf_MemberSet (fold (\<lambda>m s. AList.update (mb_Name m) m s) ms s)" for s
    by (induction ms arbitrary: s) (simp_all flip: ms_Add_def)
  then show ?thesis by (simp add: NewMemberSet_def)
qed

lemma all_some_Some: "(\<forall>x\<in>set xs. x \<noteq> None) \<Longrightarrow> \<exists>ys. all_some xs = Some ys \<and> length ys = length xs"
  by (induction xs) (auto split: option.splits)

lemma all_some_None: "all_some xs = None \<longleftrightarrow> None \<in> set xs"
  by (induction xs) (auto split: option.splits)

text \<open>A member has its URLs when its name has a dash.\<close>

lemma URL_defined:
  "ClientURL m = None \<longleftrightarrow> CHR ''-'' \<notin> set (mb_Name m)"
  "PeerURL m = None \<longleftrightarrow> CHR ''-'' \<notin> set (mb_Name m)"
  by (simp_all add: ClientURL_def PeerURL_def Member_Addr_def clusterNameFromMemberName_def before_last_None)

section \<open>The round trip of a name through its peer URL\<close>

lemma takeWhile_append_stop: "list_all P xs \<Longrightarrow> \<not> P c \<Longrightarrow> takeWhile P (xs @ c # ys) = xs"
  by (induction xs) auto

lemma dropWhile_append_stop: "list_all P xs \<Longrightarrow> \<not> P c \<Longrightarrow> dropWhile P (xs @ c # ys) = c # ys"
  by (induction xs) auto

lemma separators [simp]:
  "\<not> is_word_char CHR '':''" "\<not> is_host_char CHR '':''" "\<not> is_word_char CHR ''.''"
  "is_host_char CHR ''.''" "list_all is_host_char ''svc''" "list_all is_digit_char ''2380''"
  by (simp_all add: is_word_char_def is_host_char_def is_digit_char_def is_letter_char_def)

lemma match_peer_url_host:
  assumes "list_all is_word_char scheme" "scheme \<noteq> []" "list_all is_host_char host" "host \<noteq> []"
    and "list_all is_digit_char port" "port \<noteq> []"
  shows "match_peer_url (scheme @ ''://'' @ host @ '':'' @ port) = Some (scheme, host @ '':'' @ port)"
  using takeWhile_append_stop [OF assms(1) separators(1), of "''//'' @ host @ '':'' @ port"]
    dropWhile_append_stop [OF assms(1) separators(1), of "''//'' @ host @ '':'' @ port"]
    takeWhile_append_stop [OF assms(3) separators(2), of port]
    dropWhile_append_stop [OF assms(3) separators(2), of port] assms
  by (simp add: match_peer_url_def Let_def)

lemma peerScheme_cases: "peerScheme m = ''http'' \<or> peerScheme m = ''https''"
  by (simp add: peerScheme_def)

text \<open>
  C33: the name of a member is recovered from its own peer URL, which is how the operator learns
  the membership from etcd again, when the name is a DNS label with a dash and the namespace one
  of host characters.
\<close>

theorem MemberName_PeerURL_roundtrip:
  assumes "list_all (\<lambda>c. is_word_char c \<or> c = CHR ''-'') (mb_Name m)" "list_all is_host_char (mb_Namespace m)"
    and "CHR ''-'' \<in> set (mb_Name m)"
  shows "\<exists>url. PeerURL m = Some url \<and> MemberNameFromPeerURL url = Inr (mb_Name m)"
proof -
  obtain c where c: "clusterNameFromMemberName (mb_Name m) = Some c"
    using assms(3) before_last_None [of "CHR ''-''" "mb_Name m"] by (auto simp: clusterNameFromMemberName_def)
  then obtain sfx where nm: "mb_Name m = c @ CHR ''-'' # sfx"
    using before_last_Some [of "CHR ''-''" "mb_Name m" c] by (auto simp: clusterNameFromMemberName_def)
  let ?host = "mb_Name m @ ''.'' @ c @ ''.'' @ mb_Namespace m @ ''.svc''"
  have url: "PeerURL m = Some (peerScheme m @ ''://'' @ ?host @ '':'' @ ''2380'')"
    using c by (simp add: PeerURL_def Member_Addr_def)
  have "list_all is_host_char (mb_Name m)" "list_all is_host_char c"
    using assms(1) by (auto simp: list_all_iff is_host_char_def nm)
  then have host: "list_all is_host_char ?host" "?host \<noteq> []"
    using assms(2) separators(5) by simp_all
  have scheme: "list_all is_word_char (peerScheme m)" "peerScheme m \<noteq> []" "is_letter_char (hd (peerScheme m))"
    "CHR ''_'' \<notin> set (peerScheme m)"
    using peerScheme_cases [of m] by (auto simp: is_word_char_def is_letter_char_def)
  have colon: "CHR '':'' \<notin> set ?host"
    using host(1) separators(2) unfolding list_all_iff by metis
  have dot: "CHR ''.'' \<notin> set (mb_Name m)"
    using assms(1) separators(3) by (auto simp: list_all_iff)
  have "split_on (CHR '':'') (?host @ '':'' @ ''2380'') = [?host, ''2380'']"
    using split_on_append [OF colon, of "''2380''"] by simp
  moreover have "hd (split_on (CHR ''.'') ?host) = mb_Name m"
    using split_on_append [OF dot, of "c @ ''.'' @ mb_Namespace m @ ''.svc''"] by simp
  ultimately have "MemberNameFromPeerURL (peerScheme m @ ''://'' @ ?host @ '':'' @ ''2380'') = Inr (mb_Name m)"
    using match_peer_url_host [OF scheme(1,2) host separators(6)] scheme(3,4)
    by (simp add: MemberNameFromPeerURL_def del: append_assoc)
  with url show ?thesis by blast
qed

definition sample_member :: Member where
  "sample_member = \<lparr>mb_Name = ''default-etcd-x4z'', mb_Namespace = ''onecloud'', mb_ID = 7,
     mb_SecurePeer = True, mb_SecureClient = True, mb_IPv6Cluster = False\<rparr>"

theorem MemberName_PeerURL_roundtrip_witness:
  "PeerURL sample_member = Some ''https://default-etcd-x4z.default-etcd.onecloud.svc:2380''
   \<and> MemberNameFromPeerURL ''https://default-etcd-x4z.default-etcd.onecloud.svc:2380'' = Inr ''default-etcd-x4z''"
proof -
  have u: "PeerURL sample_member = Some ''https://default-etcd-x4z.default-etcd.onecloud.svc:2380''"
    by (simp add: PeerURL_def Member_Addr_def clusterNameFromMemberName_def sample_member_def peerScheme_def)
  moreover have "\<exists>url. PeerURL sample_member = Some url \<and> MemberNameFromPeerURL url = Inr (mb_Name sample_member)"
    by (rule MemberName_PeerURL_roundtrip)
       (simp_all add: sample_member_def is_word_char_def is_host_char_def is_digit_char_def is_letter_char_def)
  ultimately show ?thesis by (simp add: sample_member_def)
qed

end
