(* ===== verification/Etcd_Pod.thy ===== *)
theory Etcd_Pod
  imports Etcd_Member OC_Names
begin

text \<open>
  The pod of an etcd member: \<^verbatim>\<open>pkg/util/k8sutil/k8sutil.go\<close> and \<open>pod_util.go\<close>. A
  function that dereferences a nil pointer or asks for the address of a member whose name has no
  dash panics, which is \<open>None\<close>. The random suffix of a member name is an argument.
\<close>

section \<open>Paths\<close>

text \<open>\<open>path.Clean\<close> and \<open>path.Join\<close> of Go's standard library.\<close>

fun clean_parts :: "bool \<Rightarrow> string list \<Rightarrow> string list \<Rightarrow> string list" where
  "clean_parts rooted acc [] = rev acc"
| "clean_parts rooted acc (p # ps) =
     (if p = [] \<or> p = ''.'' then clean_parts rooted acc ps
      else if p = ''..''
      then (case acc of
              [] \<Rightarrow> clean_parts rooted (if rooted then [] else [p]) ps
            | a # as \<Rightarrow> clean_parts rooted (if a = ''..'' then p # acc else as) ps)
      else clean_parts rooted (p # acc) ps)"

definition path_Clean :: "string \<Rightarrow> string" where
  "path_Clean p =
     (let rooted = (take 1 p = ''/''); out = join_with ''/'' (clean_parts rooted [] (split_on (CHR ''/'') p))
      in if rooted then ''/'' @ out else if out = [] then ''.'' else out)"

definition path_Join :: "string list \<Rightarrow> string" where
  "path_Join ps =
     (let ne = filter (\<lambda>p. p \<noteq> []) ps in if ne = [] then [] else path_Clean (join_with ''/'' ne))"

section \<open>Names\<close>

definition etcdVolumeMountDir :: string where
  "etcdVolumeMountDir = ''/var/etcd''"

definition dataDir :: string where
  "dataDir = etcdVolumeMountDir @ ''/data''"

definition etcdVersionAnnotationKey :: string where
  "etcdVersionAnnotationKey = ''etcd.version''"

definition peerTLSDir :: string where
  "peerTLSDir = ''/etc/etcdtls/member/peer-tls''"

definition peerTLSVolume :: string where
  "peerTLSVolume = ''member-peer-tls''"

definition serverTLSDir :: string where
  "serverTLSDir = ''/etc/etcdtls/member/server-tls''"

definition serverTLSVolume :: string where
  "serverTLSVolume = ''member-server-tls''"

definition operatorEtcdTLSDir :: string where
  "operatorEtcdTLSDir = ''/etc/etcdtls/operator/etcd-tls''"

definition operatorEtcdTLSVolume :: string where
  "operatorEtcdTLSVolume = ''etcd-client-tls''"

definition etcdVolumeName :: string where
  "etcdVolumeName = ''etcd-data''"

definition randomSuffixLength :: nat where
  "randomSuffixLength = 10"

definition MaxNameLength :: nat where
  "MaxNameLength = 63 - randomSuffixLength - 1"

definition defaultBusyboxImage :: string where
  "defaultBusyboxImage = ''busybox:1.28.0-glibc''"

definition UniqueMemberName :: "string \<Rightarrow> string \<Rightarrow> string" where
  "UniqueMemberName sfx clusterName =
     (let c = (if length clusterName > MaxNameLength then take MaxNameLength clusterName else clusterName)
      in c @ ''-'' @ sfx)"

definition GetEtcdVersion :: "Pod \<Rightarrow> string" where
  "GetEtcdVersion pod = gomap_str (om_Annotations (pod_meta pod)) etcdVersionAnnotationKey"

definition ImageName :: "string \<Rightarrow> string \<Rightarrow> string" where
  "ImageName repo version = repo @ '':v'' @ version"

text \<open>Writing to the annotations of a pod that has none panics.\<close>

definition SetEtcdVersion :: "string \<Rightarrow> Pod \<Rightarrow> Pod option" where
  "SetEtcdVersion version pod =
     (case om_Annotations (pod_meta pod) of
        None \<Rightarrow> None
      | Some as \<Rightarrow> Some (pod_meta_update (\<lambda>m. m\<lparr>om_Annotations :=
          Some (AList.update etcdVersionAnnotationKey version as)\<rparr>) pod))"

definition GetPodNames :: "Pod list \<Rightarrow> string list" where
  "GetPodNames pods = map (\<lambda>p. om_Name (pod_meta p)) pods"

definition LabelsForCluster :: "string \<Rightarrow> strmap" where
  "LabelsForCluster clusterName = [(''etcd_cluster'', clusterName), (''app'', ''etcd'')]"

definition PVCNameFromMember :: "string \<Rightarrow> string" where
  "PVCNameFromMember memberName = memberName"

definition getPodReadyCondition :: "Pod \<Rightarrow> PodCondition option" where
  "getPodReadyCondition pod = find (\<lambda>c. pc_Type c = ''Ready'') (pod_Conditions pod)"

definition IsPodReady :: "Pod \<Rightarrow> bool" where
  "IsPodReady pod = (case getPodReadyCondition pod of None \<Rightarrow> False | Some c \<Rightarrow> pc_Status c = ''True'')"

section \<open>Containers\<close>

definition mount :: "string \<Rightarrow> string \<Rightarrow> VolumeMount" where
  "mount name p = \<lparr>vm_Name = name, vm_ReadOnly = False, vm_MountPath = p, vm_MountPropagation = None\<rparr>"

definition etcdVolumeMounts :: "VolumeMount list" where
  "etcdVolumeMounts = [mount etcdVolumeName etcdVolumeMountDir]"

definition etcdContainer :: "string list \<Rightarrow> string \<Rightarrow> string \<Rightarrow> Container" where
  "etcdContainer cmd repo version = zero_Container
     \<lparr>ct_Command := cmd, ct_Name := ''etcd'', ct_Image := ImageName repo version,
      ct_Ports := [\<lparr>cp_Name = ''server'', cp_ContainerPort = 2380, cp_Protocol = ''TCP''\<rparr>,
                   \<lparr>cp_Name = ''client'', cp_ContainerPort = EtcdClientPort, cp_Protocol = ''TCP''\<rparr>],
      ct_VolumeMounts := etcdVolumeMounts\<rparr>"

definition containerWithProbes :: "Container \<Rightarrow> Probe option \<Rightarrow> Probe option \<Rightarrow> Container" where
  "containerWithProbes c lp rp = c\<lparr>ct_LivenessProbe := lp, ct_ReadinessProbe := rp\<rparr>"

definition containerWithRequirements :: "Container \<Rightarrow> ResourceRequirements \<Rightarrow> Container" where
  "containerWithRequirements c r = c\<lparr>ct_Resources := r\<rparr>"

definition tlsFlags :: string where
  "tlsFlags = ''--cert='' @ operatorEtcdTLSDir @ ''/etcd-client.crt --key='' @ operatorEtcdTLSDir
     @ ''/etcd-client.key --cacert='' @ operatorEtcdTLSDir @ ''/etcd-client-ca.crt''"

definition probe_command :: "bool \<Rightarrow> string list" where
  "probe_command isSecure =
     [''/bin/sh'', ''-ec'',
      (if isSecure
       then ''ETCDCTL_API=3 etcdctl --endpoints=https://localhost:'' @ show_int EtcdClientPort @ '' '' @ tlsFlags @ '' endpoint status''
       else ''ETCDCTL_API=3 etcdctl endpoint status'')]"

definition newEtcdProbe :: "bool \<Rightarrow> Probe" where
  "newEtcdProbe isSecure = \<lparr>pr_Handler = ProbeExec (probe_command isSecure), pr_InitialDelaySeconds = 10,
     pr_TimeoutSeconds = 10, pr_PeriodSeconds = 60, pr_SuccessThreshold = 0, pr_FailureThreshold = 3\<rparr>"

definition imageNameBusybox :: "PodPolicy option \<Rightarrow> string" where
  "imageNameBusybox policy =
     (case policy of
        None \<Rightarrow> defaultBusyboxImage
      | Some p \<Rightarrow> (if pp_BusyboxImage p \<noteq> [] then pp_BusyboxImage p else defaultBusyboxImage))"

definition podSecurityContext :: "PodPolicy option \<Rightarrow> raw option" where
  "podSecurityContext policy = (case policy of None \<Rightarrow> None | Some p \<Rightarrow> pp_SecurityContext p)"

text \<open>The mounts and the volumes of the certificates; a nil part of the TLS policy panics.\<close>

definition tls_member :: "EtcdClusterSpec \<Rightarrow> (StaticTLS \<times> MemberSecret) option" where
  "tls_member cs =
     (case ecs_TLS cs of None \<Rightarrow> None
      | Some tp \<Rightarrow> (case tp_Static tp of None \<Rightarrow> None
                   | Some st \<Rightarrow> map_option (Pair st) (stls_Member st)))"

definition secret_volume :: "string \<Rightarrow> string \<Rightarrow> Volume" where
  "secret_volume name secret = \<lparr>vol_Name = name, vol_Source = VolSecret secret []\<rparr>"

definition tls_peer :: "Member \<Rightarrow> EtcdClusterSpec \<Rightarrow> (VolumeMount list \<times> Volume list) option" where
  "tls_peer m cs =
     (if mb_SecurePeer m
      then map_option (\<lambda>(st, ms). ([mount peerTLSVolume peerTLSDir], [secret_volume peerTLSVolume (msec_PeerSecret ms)]))
             (tls_member cs)
      else Some ([], []))"

definition tls_client :: "Member \<Rightarrow> EtcdClusterSpec \<Rightarrow> (VolumeMount list \<times> Volume list) option" where
  "tls_client m cs =
     (if mb_SecureClient m
      then map_option (\<lambda>(st, ms).
             ([mount serverTLSVolume serverTLSDir, mount operatorEtcdTLSVolume operatorEtcdTLSDir],
              [secret_volume serverTLSVolume (msec_ServerSecret ms),
               secret_volume operatorEtcdTLSVolume (stls_OperatorSecret st)]))
             (tls_member cs)
      else Some ([], []))"

definition check_dns_script :: "int \<Rightarrow> string \<Rightarrow> string" where
  "check_dns_script DNSTimeout addr =
     join_with [CHR 0x0A]
       [[], ''TIMEOUT_READY='' @ show_int DNSTimeout,
        ''while ( ! ping -c 1 '' @ addr @ '' )'',
        ''do'',
        [CHR 0x09] @ ''# If TIMEOUT_READY is 0 we should never time out and exit'',
        [CHR 0x09] @ ''TIMEOUT_READY=$(( TIMEOUT_READY-1 ))'',
        [CHR 0x09] @ ''if [ $TIMEOUT_READY -eq 0 ];'',
        [CHR 0x09] @ ''then'',
        [CHR 0x09, CHR 0x09] @ ''echo '' @ [CHR 0x22] @ ''Timed out waiting for DNS entry'' @ [CHR 0x22],
        [CHR 0x09, CHR 0x09] @ ''exit 1'',
        [CHR 0x09] @ ''fi'',
        [CHR 0x09] @ ''sleep 1'',
        [CHR 0x09] @ ''done'']"

definition peer_tls_args :: string where
  "peer_tls_args = '' --peer-client-cert-auth=true --peer-trusted-ca-file='' @ peerTLSDir @ ''/peer-ca.crt --peer-cert-file=''
     @ peerTLSDir @ ''/peer.crt --peer-key-file='' @ peerTLSDir @ ''/peer.key''"

definition server_tls_args :: string where
  "server_tls_args = '' --client-cert-auth=true --trusted-ca-file='' @ serverTLSDir @ ''/server-ca.crt --cert-file=''
     @ serverTLSDir @ ''/server.crt --key-file='' @ serverTLSDir @ ''/server.key''"

definition etcd_base_command :: "Member \<Rightarrow> string list \<Rightarrow> string \<Rightarrow> string option" where
  "etcd_base_command m initialCluster state =
     (case (PeerURL m, ClientURL m) of
        (Some peerURL, Some clientURL) \<Rightarrow> Some
          (''/usr/local/bin/etcd --data-dir='' @ dataDir @ '' --name='' @ mb_Name m
           @ '' --initial-advertise-peer-urls='' @ peerURL
           @ '' --listen-peer-urls='' @ ListenPeerURL m @ '' --listen-client-urls='' @ ListenClientURL m
           @ '' --advertise-client-urls='' @ clientURL
           @ '' --initial-cluster='' @ join_with '','' initialCluster @ '' --initial-cluster-state='' @ state)
      | _ \<Rightarrow> None)"

definition etcd_token_arg :: "string \<Rightarrow> string \<Rightarrow> string" where
  "etcd_token_arg state token = (if state = ''new'' then '' --initial-cluster-token='' @ token else [])"

definition newEtcdPod ::
  "Member \<Rightarrow> string list \<Rightarrow> string \<Rightarrow> string \<Rightarrow> string \<Rightarrow> EtcdClusterSpec \<Rightarrow> Pod option" where
  "newEtcdPod m initialCluster clusterName state token cs =
     (case (etcd_base_command m initialCluster state, Member_Addr m, tls_peer m cs, tls_client m cs) of
        (Some base, Some addr, Some (pm, pv), Some (cm, cv)) \<Rightarrow>
          (let commands = base @ (if mb_SecurePeer m then peer_tls_args else [])
                 @ (if mb_SecureClient m then server_tls_args else []) @ etcd_token_arg state token;
               livenessProbe = newEtcdProbe (IsSecureClient (ecs_TLS cs));
               readinessProbe = (newEtcdProbe (IsSecureClient (ecs_TLS cs)))
                 \<lparr>pr_InitialDelaySeconds := 1, pr_TimeoutSeconds := 5, pr_PeriodSeconds := 5, pr_FailureThreshold := 3\<rparr>;
               container = ct_VolumeMounts_update (\<lambda>vms. vms @ pm @ cm)
                 (containerWithProbes
                    (etcdContainer (split_on (CHR '' '') commands) (ecs_Repository cs) (ecs_Version cs))
                    (Some livenessProbe) (Some readinessProbe));
               DNSTimeout = (case ecs_Pod cs of None \<Rightarrow> 0 | Some p \<Rightarrow> pp_DNSTimeoutInSecond p);
               init = zero_Container\<lparr>ct_Image := imageNameBusybox (ecs_Pod cs), ct_Name := ''check-dns'',
                        ct_Command := [''/bin/sh'', ''-c'', check_dns_script DNSTimeout addr]\<rparr>;
               pod = \<lparr>pod_meta = new_meta (mb_Name m) []
                                   (Some [(''app'', ''etcd''), (''etcd_node'', mb_Name m), (''etcd_cluster'', clusterName)])
                                   (Some []) [],
                      pod_Spec = zero_PodSpec
                        \<lparr>ps_InitContainers := [init], ps_Containers := [container], ps_RestartPolicy := ''Never'',
                         ps_Volumes := pv @ cv, ps_Hostname := mb_Name m, ps_Subdomain := clusterName,
                         ps_AutomountServiceAccountToken := Some False,
                         ps_SecurityContext := podSecurityContext (ecs_Pod cs)\<rparr>,
                      pod_Phase = [], pod_Conditions = []\<rparr>
           in SetEtcdVersion (ecs_Version cs) pod)
      | _ \<Rightarrow> None)"

text \<open>\<open>mergeLabels\<close> adds the labels that are not there yet; \<open>range\<close> order does not matter.\<close>

definition mergeLabels :: "strmap \<Rightarrow> strmap \<Rightarrow> strmap" where
  "mergeLabels l1 l2 = fold (\<lambda>(k, v) l. if map_of l k = None then AList.update k v l else l) l2 l1"

definition entries :: "gomap \<Rightarrow> strmap" where
  "entries m = (case m of None \<Rightarrow> [] | Some kvs \<Rightarrow> kvs)"

definition policy_container :: "PodPolicy \<Rightarrow> Container \<Rightarrow> Container" where
  "policy_container policy c =
     (let c1 = containerWithRequirements c (pp_Resources policy)
      in if ct_Name c1 = ''etcd'' then ct_Env_update (\<lambda>env. env @ map (\<lambda>(k, v). EnvValue k v) (pp_EtcdEnv policy)) c1 else c1)"

definition applyPodPolicy :: "PodPolicy option \<Rightarrow> Pod \<Rightarrow> Pod" where
  "applyPodPolicy policy pod =
     (case policy of
        None \<Rightarrow> pod
      | Some p \<Rightarrow>
          (let p1 = (if pp_Affinity p \<noteq> None then pod_Spec_update (ps_Affinity_update (\<lambda>_. pp_Affinity p)) pod else pod);
               p2 = (if entries (pp_NodeSelector p) \<noteq> []
                     then pod_Spec_update (ps_NodeSelector_update (\<lambda>_. pp_NodeSelector p)) p1 else p1);
               p3 = (if pp_Tolerations p \<noteq> []
                     then pod_Spec_update (ps_Tolerations_update (\<lambda>_. pp_Tolerations p)) p2 else p2);
               p4 = pod_meta_update (om_Labels_update (map_option (\<lambda>l. mergeLabels l (entries (pp_Labels p))))) p3;
               p5 = pod_Spec_update (ps_Containers_update (map (policy_container p))) p4;
               p6 = pod_Spec_update (ps_InitContainers_update (map (\<lambda>c. containerWithRequirements c (pp_Resources p)))) p5
           in pod_meta_update (om_Annotations_update
                (map_option (\<lambda>as. fold (\<lambda>(k, v). AList.update k v) (entries (pp_Annotations p)) as))) p6))"

definition addOwnerRefToObject :: "OwnerReference \<Rightarrow> ObjectMeta \<Rightarrow> ObjectMeta" where
  "addOwnerRefToObject r o' = om_OwnerReferences_update (\<lambda>rs. rs @ [r]) o'"

definition NewEtcdPod ::
  "Member \<Rightarrow> string list \<Rightarrow> string \<Rightarrow> string \<Rightarrow> string \<Rightarrow> EtcdClusterSpec \<Rightarrow> OwnerReference \<Rightarrow> Pod option" where
  "NewEtcdPod m initialCluster clusterName state token cs owner =
     map_option (\<lambda>pod. pod_meta_update (addOwnerRefToObject owner) (applyPodPolicy (ecs_Pod cs) pod))
       (newEtcdPod m initialCluster clusterName state token cs)"

record EtcdPVC =
  epvc_meta :: ObjectMeta
  epvc_Spec :: raw

definition NewEtcdPodPVC :: "Member \<Rightarrow> raw \<Rightarrow> string \<Rightarrow> string \<Rightarrow> OwnerReference \<Rightarrow> EtcdPVC" where
  "NewEtcdPodPVC m pvcSpec clusterName namespace owner =
     \<lparr>epvc_meta = addOwnerRefToObject owner
        (new_meta (PVCNameFromMember (mb_Name m)) namespace (Some (LabelsForCluster clusterName)) None []),
      epvc_Spec = pvcSpec\<rparr>"

definition addEtcdVolumeToPod :: "EtcdPVC option \<Rightarrow> Pod \<Rightarrow> Pod" where
  "addEtcdVolumeToPod pvc pod =
     (let vol = \<lparr>vol_Name = etcdVolumeName,
                 vol_Source = (case pvc of Some c \<Rightarrow> VolPVC (om_Name (epvc_meta c)) False | None \<Rightarrow> VolEmptyDir ''Memory'')\<rparr>
      in pod_Spec_update (ps_Volumes_update (\<lambda>vs. vs @ [vol])) pod)"

section \<open>Laws\<close>

definition pod_mounts :: "Pod \<Rightarrow> string list" where
  "pod_mounts pod = concat (map (\<lambda>c. map vm_Name (ct_VolumeMounts c)) (ps_Containers (pod_Spec pod) @ ps_InitContainers (pod_Spec pod)))"

definition pod_volumes :: "Pod \<Rightarrow> string list" where
  "pod_volumes pod = map vol_Name (ps_Volumes (pod_Spec pod))"

lemma policy_container_mounts [simp]:
  "ct_VolumeMounts (policy_container p c) = ct_VolumeMounts c"
  "ct_VolumeMounts (containerWithRequirements c r) = ct_VolumeMounts c"
  by (simp_all add: policy_container_def containerWithRequirements_def Let_def)

lemma applyPodPolicy_mounts [simp]:
  "pod_mounts (applyPodPolicy policy pod) = pod_mounts pod"
  "pod_volumes (applyPodPolicy policy pod) = pod_volumes pod"
  by (cases policy; simp add: applyPodPolicy_def pod_mounts_def pod_volumes_def Let_def comp_def)+

lemma meta_update_mounts [simp]:
  "pod_mounts (pod_meta_update f pod) = pod_mounts pod"
  "pod_volumes (pod_meta_update f pod) = pod_volumes pod"
  by (simp_all add: pod_mounts_def pod_volumes_def)

lemma SetEtcdVersion_mounts:
  assumes "SetEtcdVersion v pod = Some pod'"
  shows "pod_mounts pod' = pod_mounts pod \<and> pod_volumes pod' = pod_volumes pod"
  using assms by (auto simp: SetEtcdVersion_def split: option.splits)

lemma addEtcdVolumeToPod_mounts [simp]:
  "pod_mounts (addEtcdVolumeToPod pvc pod) = pod_mounts pod"
  "pod_volumes (addEtcdVolumeToPod pvc pod) = pod_volumes pod @ [etcdVolumeName]"
  by (simp_all add: addEtcdVolumeToPod_def pod_mounts_def pod_volumes_def Let_def)

lemma tls_parts:
  assumes "tls_peer m cs = Some (pm, pv)" "tls_client m cs = Some (cm, cv)"
  shows "map vm_Name (pm @ cm) = map vol_Name (pv @ cv)"
  using assms by (auto simp: tls_peer_def tls_client_def mount_def secret_volume_def split: if_splits)

lemma SetEtcdVersion_defined:
  "SetEtcdVersion v pod = None \<longleftrightarrow> om_Annotations (pod_meta pod) = None"
  "(\<exists>p. SetEtcdVersion v pod = Some p) \<longleftrightarrow> om_Annotations (pod_meta pod) \<noteq> None"
  by (simp_all add: SetEtcdVersion_def split: option.split)

lemma newEtcdPod_mounts:
  assumes "newEtcdPod m ic cn state token cs = Some pod"
  shows "pod_mounts pod = etcdVolumeName # pod_volumes pod"
proof -
  obtain base addr pm pv cm cv where parts: "etcd_base_command m ic state = Some base" "Member_Addr m = Some addr"
      "tls_peer m cs = Some (pm, pv)" "tls_client m cs = Some (cm, cv)"
    using assms unfolding newEtcdPod_def by (auto split: option.splits prod.splits)
  then show ?thesis
    using assms SetEtcdVersion_mounts tls_parts [OF parts(3,4)]
    by (fastforce simp: newEtcdPod_def Let_def pod_mounts_def pod_volumes_def containerWithProbes_def etcdContainer_def
          etcdVolumeMounts_def zero_Container_def zero_PodSpec_def mount_def)
qed

lemma newEtcdPod_defined:
  "newEtcdPod m ic cn state token cs \<noteq> None \<longleftrightarrow>
     CHR ''-'' \<in> set (mb_Name m) \<and> (mb_SecurePeer m \<or> mb_SecureClient m \<longrightarrow> tls_member cs \<noteq> None)"
proof -
  have "etcd_base_command m ic state = None \<longleftrightarrow> CHR ''-'' \<notin> set (mb_Name m)"
    using URL_defined [of m] by (auto simp: etcd_base_command_def split: option.splits)
  moreover have "Member_Addr m = None \<longleftrightarrow> CHR ''-'' \<notin> set (mb_Name m)"
    by (simp add: Member_Addr_def clusterNameFromMemberName_def before_last_None)
  moreover have "tls_peer m cs = None \<longleftrightarrow> mb_SecurePeer m \<and> tls_member cs = None"
    "tls_client m cs = None \<longleftrightarrow> mb_SecureClient m \<and> tls_member cs = None"
    by (simp_all add: tls_peer_def tls_client_def)
  moreover have "newEtcdPod m ic cn state token cs = None \<longleftrightarrow> etcd_base_command m ic state = None
      \<or> Member_Addr m = None \<or> tls_peer m cs = None \<or> tls_client m cs = None"
    by (cases "etcd_base_command m ic state"; cases "Member_Addr m"; cases "tls_peer m cs"; cases "tls_client m cs")
       (simp_all add: newEtcdPod_def Let_def SetEtcdVersion_defined split: prod.split)
  ultimately show ?thesis by argo
qed

section \<open>Properties\<close>

text \<open>The alphabet of \<open>utilrand.String\<close>: no vowels, and no digits that look like one.\<close>

definition rand_alphanums :: string where
  "rand_alphanums = ''bcdfghjklmnpqrstvwxz2456789''"

lemma rand_alphanums_dns: "c \<in> set rand_alphanums \<Longrightarrow> is_dns_char c \<and> c \<noteq> CHR ''-''"
  by (auto simp: rand_alphanums_def is_dns_char_def)

lemma is_dns_label_dashed:
  assumes "sfx \<noteq> []" "list_all is_dns_char sfx" "0 < n"
  shows "is_dns_label (take n c @ CHR ''-'' # sfx) \<longleftrightarrow>
    c \<noteq> [] \<and> is_dns_char (hd c) \<and> list_all (\<lambda>x. is_dns_char x \<or> x = CHR ''-'') (take n c)"
proof (cases c)
  case Nil
  then show ?thesis by (simp add: is_dns_label_def is_dns_char_def)
next
  case (Cons x cs)
  with assms show ?thesis
    by (cases n) (auto simp: is_dns_label_def list_all_iff)
qed

text \<open>
  C34: the name of a new member is at most 63 characters long, and it is a legal DNS label, as a pod and
  its host name need it, exactly when the part of the cluster name that is kept (the first \<open>MaxNameLength\<close>
  characters) begins with a lower case letter or a digit and has only those and dashes; every cluster name
  that is a label itself gives one, however long, and none with a dot in the kept part. The cluster name
  read back from the member name is the one it was generated from, cut to \<open>MaxNameLength\<close>: the address of a
  member contains the name of the cluster's service exactly when that name is not longer. The suffix is what
  \<open>utilrand.String\<close> draws: \<open>randomSuffixLength\<close> characters of its alphabet.
\<close>

theorem UniqueMemberName_bounds:
  assumes "length sfx = randomSuffixLength" "set sfx \<subseteq> set rand_alphanums"
  shows "length (UniqueMemberName sfx c) \<le> 63
    \<and> (is_dns_label (UniqueMemberName sfx c) \<longleftrightarrow>
         c \<noteq> [] \<and> is_dns_char (hd c) \<and> list_all (\<lambda>x. is_dns_char x \<or> x = CHR ''-'') (take MaxNameLength c))
    \<and> (is_dns_label c \<longrightarrow> is_dns_label (UniqueMemberName sfx c))
    \<and> clusterNameFromMemberName (UniqueMemberName sfx c) = Some (take MaxNameLength c)
    \<and> (clusterNameFromMemberName (UniqueMemberName sfx c) = Some c \<longleftrightarrow> length c \<le> MaxNameLength)"
proof (intro conjI)
  let ?name = "UniqueMemberName sfx c"
  have eq: "?name = take MaxNameLength c @ CHR ''-'' # sfx"
    by (simp add: UniqueMemberName_def Let_def)
  have sfx: "sfx \<noteq> []" "CHR ''-'' \<notin> set sfx" "list_all is_dns_char sfx"
    using assms rand_alphanums_dns by (auto simp: randomSuffixLength_def list_all_iff)
  show label: "is_dns_label ?name \<longleftrightarrow>
      c \<noteq> [] \<and> is_dns_char (hd c) \<and> list_all (\<lambda>x. is_dns_char x \<or> x = CHR ''-'') (take MaxNameLength c)"
    unfolding eq by (rule is_dns_label_dashed [OF sfx(1,3)]) (simp add: MaxNameLength_def randomSuffixLength_def)
  show "is_dns_label c \<longrightarrow> is_dns_label ?name"
    unfolding label by (auto simp: is_dns_label_def list_all_iff dest: in_set_takeD)
  show cut: "clusterNameFromMemberName ?name = Some (take MaxNameLength c)"
    using before_last_append [OF sfx(2), of "take MaxNameLength c"] by (simp add: eq clusterNameFromMemberName_def)
  have "take MaxNameLength c = c \<longleftrightarrow> length c \<le> MaxNameLength"
    by (metis length_take min.absorb_iff2 min.commute take_all)
  with cut show "clusterNameFromMemberName ?name = Some c \<longleftrightarrow> length c \<le> MaxNameLength" by simp
  show "length ?name \<le> 63"
    using assms(1) by (simp add: eq MaxNameLength_def randomSuffixLength_def)
qed

theorem UniqueMemberName_bounds_witness:
  "is_dns_label (UniqueMemberName ''bcdf245678'' ''default-etcd'')
   \<and> clusterNameFromMemberName (UniqueMemberName ''bcdf245678'' ''default-etcd'') = Some ''default-etcd''
   \<and> length (UniqueMemberName ''bcdf245678'' ''default-etcd'') \<le> 63"
  using UniqueMemberName_bounds [of "''bcdf245678''" "''default-etcd''"]
  by (simp add: randomSuffixLength_def MaxNameLength_def rand_alphanums_def is_dns_char_def)

text \<open>
  C35: the pod of a member is built, without a nil dereference, exactly when the member's name
  has a dash and a member with TLS finds the static policy with its member secrets; then every
  volume a container mounts is a volume of the pod, whether the data lives on a claim or in memory.
\<close>

theorem etcd_pod_well_formed:
  "(NewEtcdPod m ic cn state token cs owner \<noteq> None \<longleftrightarrow>
      CHR ''-'' \<in> set (mb_Name m) \<and> (mb_SecurePeer m \<or> mb_SecureClient m \<longrightarrow> tls_member cs \<noteq> None))
   \<and> (\<forall>pod. NewEtcdPod m ic cn state token cs owner = Some pod \<longrightarrow>
        set (pod_mounts (addEtcdVolumeToPod pvc pod)) = set (pod_volumes (addEtcdVolumeToPod pvc pod)))"
  using newEtcdPod_defined [of m ic cn state token cs] newEtcdPod_mounts
  by (fastforce simp: NewEtcdPod_def)

definition sample_etcd_spec :: EtcdClusterSpec where
  "sample_etcd_spec = zero_EtcdClusterSpec\<lparr>ecs_TLS := Some \<lparr>tp_Static = Some
     \<lparr>stls_Member = Some \<lparr>msec_PeerSecret = ''p'', msec_ServerSecret = ''s''\<rparr>, stls_OperatorSecret = ''o''\<rparr>\<rparr>\<rparr>"

theorem etcd_pod_well_formed_witness:
  "\<exists>pod. NewEtcdPod sample_member [] ''default-etcd'' ''new'' ''t'' sample_etcd_spec (GetOwnerRef zero_OnecloudCluster) = Some pod
     \<and> set (pod_mounts (addEtcdVolumeToPod None pod)) = set (pod_volumes (addEtcdVolumeToPod None pod))"
proof -
  have "CHR ''-'' \<in> set (mb_Name sample_member)" "tls_member sample_etcd_spec \<noteq> None"
    by (simp_all add: sample_member_def tls_member_def sample_etcd_spec_def zero_EtcdClusterSpec_def)
  then show ?thesis
    using etcd_pod_well_formed [of sample_member "[]" "''default-etcd''" "''new''" "''t''" sample_etcd_spec
        "GetOwnerRef zero_OnecloudCluster" None] by blast
qed

end
