(* ===== verification/Etcd_Manager.thy ===== *)
theory Etcd_Manager
  imports Etcd_Pod
begin

text \<open>
  The manager of the etcd cluster (\<^verbatim>\<open>pkg/manager/component/etcd.go\<close>): its state, its
  operations in the order of the source, one iteration of its reconciliation loop, and the state
  machine of its life cycle.

  The Kubernetes API, the etcd client, the random suffixes and the order of map iterations are an
  environment: functions that see the calls made so far, so that every sequence of answers is
  covered. The state keeps the calls made, in order, and the background runs of
  \<open>sync\<close> that \<open>go m.sync(oc)\<close> starts. \<open>fmt.Errorf\<close> with the text of another error
  gives a new error that has lost its cause; the inner text is left out.
\<close>

section \<open>State and environment\<close>

text \<open>The pair and the authority the operator's own client of etcd uses, with the keys they have in the secret.\<close>

record TLSData =
  td_CertData :: string
  td_KeyData :: string
  td_CAData :: string

definition CliCertFile :: string where
  "CliCertFile = ''etcd-client.crt''"

definition CliKeyFile :: string where
  "CliKeyFile = ''etcd-client.key''"

definition CliCAFile :: string where
  "CliCAFile = ''etcd-client-ca.crt''"

datatype etcd_call =
    CCreatePod Pod | CDeletePod string | CListPods | CGetPod string | CPatchPod string Pod
  | CCreatePVC EtcdPVC | CDeletePVC string
  | CGetService string | CCreateService CoreService | CUpdateService CoreService
  | CGetSecret string | CNewTLSConfig TLSData
  | CNewClient "string list" | CMemberAdd "string list" string | CMemberRemove "string list" "64 word"
  | CMemberList "string list"
  | CStatus string | CCompact | CDefragment string
  | CGetCluster | CUpdateCluster OnecloudCluster string | CListNodes

record etcdManager =
  em_oc :: OnecloudCluster
  em_status :: EctdStatus
  em_members :: "MemberSet option"
  em_tlsConfig :: "raw option"
  em_syncing :: bool
  em_calls :: "etcd_call list"
  em_spawned :: "OnecloudCluster list"

record etcd_env =
  ee_createPod :: "etcd_call list \<Rightarrow> Pod \<Rightarrow> goerr option"
  ee_deletePod :: "etcd_call list \<Rightarrow> string \<Rightarrow> goerr option"
  ee_listPods :: "etcd_call list \<Rightarrow> goerr + Pod list"
  ee_getPod :: "etcd_call list \<Rightarrow> string \<Rightarrow> goerr + Pod"
  ee_createPatch :: "Pod \<Rightarrow> Pod \<Rightarrow> goerr option"
  ee_patchPod :: "etcd_call list \<Rightarrow> string \<Rightarrow> Pod \<Rightarrow> goerr option"
  ee_createPVC :: "etcd_call list \<Rightarrow> EtcdPVC \<Rightarrow> goerr option"
  ee_deletePVC :: "etcd_call list \<Rightarrow> string \<Rightarrow> goerr option"
  ee_getService :: "etcd_call list \<Rightarrow> string \<Rightarrow> goerr + CoreService"
  ee_createService :: "etcd_call list \<Rightarrow> CoreService \<Rightarrow> goerr option"
  ee_updateService :: "etcd_call list \<Rightarrow> CoreService \<Rightarrow> goerr option"
  ee_marshalPort :: "ServicePort \<Rightarrow> string"
  ee_getSecret :: "etcd_call list \<Rightarrow> string \<Rightarrow> goerr + strmap"
  ee_newTLSConfig :: "etcd_call list \<Rightarrow> TLSData \<Rightarrow> goerr + raw"
  ee_newClient :: "etcd_call list \<Rightarrow> string list \<Rightarrow> goerr option"
  ee_memberAdd :: "etcd_call list \<Rightarrow> string \<Rightarrow> goerr + 64 word"
  ee_memberRemove :: "etcd_call list \<Rightarrow> 64 word \<Rightarrow> goerr option"
  ee_memberList :: "etcd_call list \<Rightarrow> goerr + (64 word \<times> string list) list"
  ee_status :: "etcd_call list \<Rightarrow> string \<Rightarrow> goerr + int"
  ee_compact :: "etcd_call list \<Rightarrow> goerr option"
  ee_defragment :: "etcd_call list \<Rightarrow> string \<Rightarrow> goerr option"
  ee_getCluster :: "etcd_call list \<Rightarrow> goerr + OnecloudCluster"
  ee_updateCluster :: "etcd_call list \<Rightarrow> OnecloudCluster \<Rightarrow> string \<Rightarrow> goerr + OnecloudCluster"
  ee_listMasters :: "etcd_call list \<Rightarrow> goerr + Node list"
  ee_suffix :: "etcd_call list \<Rightarrow> string"
  ee_uuid :: "etcd_call list \<Rightarrow> string"
  ee_order :: "etcd_call list \<Rightarrow> range_order"
  ee_errText :: "goerr \<Rightarrow> string"
  ee_EtcdKeepFailedPods :: bool
  ee_DisableNodeSelector :: bool

type_synonym 'a em = "(etcdManager, 'a) go"

text \<open>A call to the outside: it is logged, and answered by the environment.\<close>

definition ecall :: "etcd_call \<Rightarrow> (etcd_call list \<Rightarrow> goerr + 'a) \<Rightarrow> 'a em" where
  "ecall c f = (\<lambda>s. let s' = s\<lparr>em_calls := em_calls s @ [c]\<rparr>
                     in case f (em_calls s) of Inl e \<Rightarrow> (Fail e, s') | Inr x \<Rightarrow> (Ret x, s'))"

definition ecallE :: "etcd_call \<Rightarrow> (etcd_call list \<Rightarrow> goerr option) \<Rightarrow> unit em" where
  "ecallE c f = ecall c (\<lambda>h. case f h of Some e \<Rightarrow> Inl e | None \<Rightarrow> Inr ())"

definition em_set :: "etcdManager \<Rightarrow> MemberSet" where
  "em_set m = (case em_members m of None \<Rightarrow> [] | Some ms \<Rightarrow> ms)"

abbreviation em_spec :: "etcdManager \<Rightarrow> Etcd" where
  "em_spec m \<equiv> spec_Etcd (oc_Spec (em_oc m))"

abbreviation em_ns :: "etcdManager \<Rightarrow> string" where
  "em_ns m \<equiv> om_Namespace (oc_ObjectMeta (em_oc m))"

section \<open>Settings\<close>

definition etcdBackendQuotaSize :: "64 word" where
  "etcdBackendQuotaSize = 128 * 1024 * 1024"

definition etcdAutoCompactionRetention :: int where
  "etcdAutoCompactionRetention = 1"

definition etcdMaxWALFileCount :: int where
  "etcdMaxWALFileCount = 1"

definition etcd_getProductVersions :: "string list" where
  "etcd_getProductVersions = [ProductVersionFullStack, ProductVersionCMP, ProductVersionEdge,
     ProductVersionLightEdge, ProductVersionBaremetal, ProductVersionAI]"

text \<open>An \<open>int64\<close> product, compared as signed numbers.\<close>

definition getEtcdBackendQuotaSize :: "Etcd \<Rightarrow> 64 word" where
  "getEtcdBackendQuotaSize sp =
     (case etcd_EtcdBackendQuotaSize sp of
        Some q \<Rightarrow> (if sint (q * 1024 * 1024) > sint etcdBackendQuotaSize then q * 1024 * 1024 else etcdBackendQuotaSize)
      | None \<Rightarrow> etcdBackendQuotaSize)"

definition isSecure :: "OnecloudCluster \<Rightarrow> bool" where
  "isSecure oc = (case etcd_EnableTls (spec_Etcd (oc_Spec oc)) of None \<Rightarrow> True | Some b \<Rightarrow> b)"

definition isPodPVEnabled :: "OnecloudCluster \<Rightarrow> bool" where
  "isPodPVEnabled oc =
     (case ecs_Pod (etcd_EtcdClusterSpec (spec_Etcd (oc_Spec oc))) of
        None \<Rightarrow> False | Some p \<Rightarrow> pp_PersistentVolumeClaimSpec p \<noteq> None)"

definition getEtcdClusterPrefix :: "OnecloudCluster \<Rightarrow> string" where
  "getEtcdClusterPrefix oc = om_Name (oc_ObjectMeta oc) @ ''-etcd''"

definition fixEtcdSize :: "nat \<Rightarrow> OnecloudCluster \<Rightarrow> bool \<times> OnecloudCluster" where
  "fixEtcdSize masterCount oc =
     (let oldSize = ecs_Size (etcd_EtcdClusterSpec (spec_Etcd (oc_Spec oc)));
          newSize = (if masterCount < 3 then 1
                     else if oldSize < EtcdDefaultClusterSize then EtcdDefaultClusterSize else oldSize)
      in (newSize \<noteq> oldSize,
          oc_Spec_update (spec_Etcd_update (etcd_EtcdClusterSpec_update (ecs_Size_update (\<lambda>_. newSize)))) oc))"

definition customEtcdSpec :: "OnecloudCluster \<Rightarrow> EtcdClusterSpec" where
  "customEtcdSpec oc =
     (let s0 = etcd_EtcdClusterSpec (spec_Etcd (oc_Spec oc));
          s1 = (if ecs_Repository s0 = [] then s0\<lparr>ecs_Repository := path_Join [''quay.io/coreos/etcd'']\<rparr> else s0);
          s2 = (if ecs_Version s1 = [] then s1\<lparr>ecs_Version := EtcdImageVersion\<rparr> else s1);
          s3 = (if ecs_Size s2 = 0 then s2\<lparr>ecs_Size := EtcdDefaultClusterSize\<rparr> else s2)
      in if isSecure oc
         then s3\<lparr>ecs_TLS := Some \<lparr>tp_Static = Some
                \<lparr>stls_Member = Some \<lparr>msec_PeerSecret = EtcdPeerSecret, msec_ServerSecret = EtcdServerSecret\<rparr>,
                 stls_OperatorSecret = EtcdClientSecret\<rparr>\<rparr>\<rparr>
         else s3)"

section \<open>Pods of the members\<close>

definition newLivenessProbe :: "bool \<Rightarrow> Probe" where
  "newLivenessProbe secure = \<lparr>pr_Handler = ProbeExec (probe_command secure), pr_InitialDelaySeconds = 10,
     pr_TimeoutSeconds = 10, pr_PeriodSeconds = 60, pr_SuccessThreshold = 0, pr_FailureThreshold = 3\<rparr>"

definition newReadinessProbe :: "bool \<Rightarrow> Probe" where
  "newReadinessProbe secure = \<lparr>pr_Handler = ProbeExec (probe_command secure), pr_InitialDelaySeconds = 1,
     pr_TimeoutSeconds = 5, pr_PeriodSeconds = 5, pr_SuccessThreshold = 0, pr_FailureThreshold = 3\<rparr>"

definition cipher_suites :: string where
  "cipher_suites = ''TLS_ECDHE_ECDSA_WITH_AES_128_GCM_SHA256,TLS_ECDHE_ECDSA_WITH_AES_256_GCM_SHA384,''
     @ ''TLS_ECDHE_ECDSA_WITH_CHACHA20_POLY1305,TLS_ECDHE_RSA_WITH_AES_128_GCM_SHA256,''
     @ ''TLS_ECDHE_RSA_WITH_AES_256_GCM_SHA384,TLS_ECDHE_RSA_WITH_CHACHA20_POLY1305''"

definition newEtcdCommand :: "Etcd \<Rightarrow> Member \<Rightarrow> string \<Rightarrow> string \<Rightarrow> string list \<Rightarrow> string list option" where
  "newEtcdCommand sp mb state token initialCluster =
     map_option (\<lambda>base. split_on (CHR '' '')
       (base @ '' --quota-backend-bytes '' @ show_int (sint (getEtcdBackendQuotaSize sp))
        @ '' --auto-compaction-retention '' @ show_int etcdAutoCompactionRetention
        @ '' --max-wals '' @ show_int etcdMaxWALFileCount
        @ (if mb_SecurePeer mb then peer_tls_args else [])
        @ (if mb_SecureClient mb then server_tls_args @ '' --cipher-suites='' @ cipher_suites else [])
        @ etcd_token_arg state token))
       (etcd_base_command mb initialCluster state)"

definition master_tolerations :: "Toleration list" where
  "master_tolerations =
     [\<lparr>tol_Key = ''node-role.kubernetes.io/master'', tol_Operator = [], tol_Value = [], tol_Effect = ''NoSchedule''\<rparr>,
      \<lparr>tol_Key = ''node-role.kubernetes.io/controlplane'', tol_Operator = [], tol_Value = [], tol_Effect = ''NoSchedule''\<rparr>]"

definition etcd_anti_affinity :: PodAntiAffinity where
  "etcd_anti_affinity = \<lparr>paa_Required = [\<lparr>pat_MatchLabels = [(''app'', ''etcd'')],
     pat_TopologyKey = ''kubernetes.io/hostname''\<rparr>], paa_Preferred = []\<rparr>"

text \<open>The first container and the first init container of a pod; an empty list panics.\<close>

definition update_first :: "('a \<Rightarrow> 'a) \<Rightarrow> 'a list \<Rightarrow> 'a list option" where
  "update_first f xs = (case xs of [] \<Rightarrow> None | x # r \<Rightarrow> Some (f x # r))"

definition customPodSpec :: "bool \<Rightarrow> OnecloudCluster \<Rightarrow> Member \<Rightarrow> string \<Rightarrow> string \<Rightarrow> string list \<Rightarrow> Pod \<Rightarrow> Pod option" where
  "customPodSpec disableSelector oc mb state token initialCluster pod =
     (let sp = spec_Etcd (oc_Spec oc); cs = etcd_EtcdClusterSpec sp;
          imageRepository = (if ecs_Repository cs \<noteq> [] then ecs_Repository cs else spec_ImageRepository (oc_Spec oc));
          version = (if ecs_Version cs \<noteq> [] then ecs_Version cs else EtcdImageVersion);
          ps = pod_Spec pod
      in case newEtcdCommand sp mb state token initialCluster of
           None \<Rightarrow> None
         | Some command \<Rightarrow>
             (case (update_first (\<lambda>c. c\<lparr>ct_Image := path_Join [imageRepository, EtcdImageName] @ '':'' @ version,
                                       ct_Command := command,
                                       ct_LivenessProbe := Some (newLivenessProbe (isSecure oc)),
                                       ct_ReadinessProbe := Some (newReadinessProbe (isSecure oc))\<rparr>) (ps_Containers ps),
                    update_first (\<lambda>c. c\<lparr>ct_Image := path_Join [imageRepository, BusyboxImageName] @ '':'' @ BusyboxImageVersion\<rparr>)
                      (ps_InitContainers ps)) of
                (Some cts, Some ics) \<Rightarrow>
                  (let sel = entries (ps_NodeSelector ps);
                       sel' = (if disableSelector then sel else AList.update OnecloudControllerLabelKey ''enable'' sel);
                       aff = (case ps_Affinity ps of None \<Rightarrow> empty_Affinity | Some a \<Rightarrow> a)
                   in Some (pod\<lparr>pod_Spec := ps\<lparr>ps_Containers := cts, ps_ShareProcessNamespace := Some True,
                        ps_InitContainers := ics, ps_DNSPolicy := ''ClusterFirst'',
                        ps_Tolerations := ps_Tolerations ps @ master_tolerations,
                        ps_NodeSelector := Some sel',
                        ps_Affinity := Some (aff\<lparr>aff_PodAntiAffinity := Some etcd_anti_affinity\<rparr>)\<rparr>\<rparr>))
              | _ \<Rightarrow> None))"

text \<open>The manifest of a member's pod: \<open>NewEtcdPod\<close> and \<open>customPodSpec\<close>.\<close>

definition member_pod :: "bool \<Rightarrow> OnecloudCluster \<Rightarrow> Member \<Rightarrow> string \<Rightarrow> string \<Rightarrow> string list \<Rightarrow> Pod option" where
  "member_pod disableSelector oc mb state token initCluster =
     (case NewEtcdPod mb initCluster (getEtcdClusterPrefix oc) state token (customEtcdSpec oc) (GetOwnerRef oc) of
        None \<Rightarrow> None
      | Some pod \<Rightarrow> customPodSpec disableSelector oc mb state token initCluster pod)"

definition createPod :: "etcd_env \<Rightarrow> MemberSet \<Rightarrow> Member \<Rightarrow> string \<Rightarrow> unit em" where
  "createPod env members mb state =
     andthen (gets (\<lambda>m. (em_oc m, ee_uuid env (em_calls m), ee_order env (em_calls m)))) (\<lambda>(oc, token, ord).
     andthen (from_option ''unexpected member name'' (ms_PeerURLPairs ord members)) (\<lambda>initCluster.
     andthen (from_option ''nil dereference'' (member_pod (ee_DisableNodeSelector env) oc mb state token initCluster)) (\<lambda>pod.
       if isPodPVEnabled oc
       then (let pvcSpec = the (pp_PersistentVolumeClaimSpec (the (ecs_Pod (etcd_EtcdClusterSpec (spec_Etcd (oc_Spec oc))))));
                 pvc = NewEtcdPodPVC mb pvcSpec (om_Name (oc_ObjectMeta oc)) (om_Namespace (oc_ObjectMeta oc)) (GetOwnerRef oc);
                 pod' = addEtcdVolumeToPod (Some pvc) pod
             in seq (map_err (\<lambda>_. Errorf (''failed to create PVC for member ('' @ mb_Name mb @ '')''))
                       (ecallE (CCreatePVC pvc) (\<lambda>h. ee_createPVC env h pvc)))
                  (ecallE (CCreatePod pod') (\<lambda>h. ee_createPod env h pod')))
       else (let pod' = addEtcdVolumeToPod None pod
             in ecallE (CCreatePod pod') (\<lambda>h. ee_createPod env h pod')))))"

text \<open>Deleting an object that is gone already is no error.\<close>

definition ignore_not_found :: "unit em \<Rightarrow> unit em" where
  "ignore_not_found m = andthen (attempt m) (\<lambda>r. case r of
      Inr _ \<Rightarrow> ret ()
    | Inl e \<Rightarrow> (if is_not_found e then ret () else fail e))"

definition removePod :: "etcd_env \<Rightarrow> string \<Rightarrow> unit em" where
  "removePod env name = ignore_not_found (ecallE (CDeletePod name) (\<lambda>h. ee_deletePod env h name))"

definition removePVC :: "etcd_env \<Rightarrow> string \<Rightarrow> unit em" where
  "removePVC env pvcName =
     map_err (\<lambda>_. Errorf (''remove pvc ('' @ pvcName @ '') failed''))
       (ignore_not_found (ecallE (CDeletePVC pvcName) (\<lambda>h. ee_deletePVC env h pvcName)))"

text \<open>The pods of the cluster, by phase; pods being deleted and pods of others are left out.\<close>

definition own_live_pod :: "OnecloudCluster \<Rightarrow> Pod \<Rightarrow> bool" where
  "own_live_pod oc pod =
     (if om_DeletionTimestamp (pod_meta pod) \<noteq> None then False
      else (case om_OwnerReferences (pod_meta pod) of
              [] \<Rightarrow> False
            | r # _ \<Rightarrow> or_UID r = om_UID (oc_ObjectMeta oc)))"

definition classify_pods :: "OnecloudCluster \<Rightarrow> Pod list \<Rightarrow> Pod list \<times> Pod list \<times> Pod list" where
  "classify_pods oc pods =
     (let own = filter (own_live_pod oc) pods
      in (filter (\<lambda>p. pod_Phase p = ''Running'') own,
          filter (\<lambda>p. pod_Phase p = ''Pending'') own,
          filter (\<lambda>p. pod_Phase p = ''Failed'' \<or> pod_Phase p = ''Unknown'') own))"

definition pollPods :: "etcd_env \<Rightarrow> (Pod list \<times> Pod list \<times> Pod list) em" where
  "pollPods env =
     andthen (map_err (\<lambda>_. Errorf ''failed to list running pods'') (ecall CListPods (ee_listPods env))) (\<lambda>pods.
     gets (\<lambda>m. classify_pods (em_oc m) pods))"

section \<open>Status\<close>

definition updateEtcdStatus :: "etcd_env \<Rightarrow> unit em" where
  "updateEtcdStatus env =
     andthen (ecall CGetCluster (ee_getCluster env)) (\<lambda>oc.
     andthen (gets em_status) (\<lambda>st.
       let oc' = oc_Status_update (st_Etcd_update (\<lambda>_. st)) oc
       in andthen (ecall (CUpdateCluster oc' ''etcd-update-status'') (\<lambda>h. ee_updateCluster env h oc' ''etcd-update-status'')) (\<lambda>newoc.
          modify (em_oc_update (\<lambda>_. newoc)))))"

definition fetchCluster :: "etcd_env \<Rightarrow> unit em" where
  "fetchCluster env = andthen (ecall CGetCluster (ee_getCluster env)) (\<lambda>oc. modify (em_oc_update (\<lambda>_. oc)))"

definition set_status :: "(EctdStatus \<Rightarrow> EctdStatus) \<Rightarrow> unit em" where
  "set_status f = modify (em_status_update f)"

definition updateMemberStatus :: "Pod list \<Rightarrow> unit em" where
  "updateMemberStatus running =
     set_status (es_Members_update (\<lambda>_.
       \<lparr>ems_Ready = GetPodNames (filter IsPodReady running), ems_Unready = GetPodNames (filter (\<lambda>p. \<not> IsPodReady p) running)\<rparr>))"

section \<open>Services\<close>

definition ClientServiceName :: "string \<Rightarrow> string" where
  "ClientServiceName clusterName = clusterName @ ''-client''"

definition TolerateUnreadyEndpointsAnnotation :: string where
  "TolerateUnreadyEndpointsAnnotation = ''service.alpha.kubernetes.io/tolerate-unready-endpoints''"

definition newEtcdServiceManifest ::
  "(ServicePort \<Rightarrow> string) \<Rightarrow> string \<Rightarrow> string \<Rightarrow> string \<Rightarrow> ServicePort list \<Rightarrow> bool \<Rightarrow> bool \<Rightarrow> CoreService" where
  "newEtcdServiceManifest marshal svcName clusterName clusterIP ports tolerateUnreadyEndpoints useNodePort =
     (let labels = LabelsForCluster clusterName;
          a0 = (if tolerateUnreadyEndpoints then [(TolerateUnreadyEndpointsAnnotation, ''true'')] else []);
          annotations = fold (\<lambda>(i, p). AList.update (''onecloud.etcd.io/port'' @ show_nat i) (marshal p))
                          (enumerate 0 ports) a0
      in \<lparr>svc_meta = new_meta svcName [] (Some labels) (Some annotations) [],
          svc_Spec = \<lparr>css_Type = (if useNodePort then ''NodePort'' else ''ClusterIP''), css_Selector = Some labels,
                      css_Ports = ports, css_ClusterIP = clusterIP, css_PublishNotReadyAddresses = True\<rparr>\<rparr>)"

text \<open>Equality of annotation maps (\<open>reflect.DeepEqual\<close>): the same keys with the same values, and a nil map only equals a nil map.\<close>

definition same_map :: "gomap \<Rightarrow> gomap \<Rightarrow> bool" where
  "same_map m n = (case (m, n) of
      (None, None) \<Rightarrow> True
    | (Some a, Some b) \<Rightarrow> list_all (\<lambda>k. map_of a k = map_of b k) (map fst a @ map fst b)
    | _ \<Rightarrow> False)"

definition createService ::
  "etcd_env \<Rightarrow> string \<Rightarrow> string \<Rightarrow> string \<Rightarrow> ServicePort list \<Rightarrow> OwnerReference \<Rightarrow> bool \<Rightarrow> bool \<Rightarrow> unit em" where
  "createService env svcName clusterName clusterIP ports owner tolerateUnreadyEndpoints useNodePort =
     (let svc0 = newEtcdServiceManifest (ee_marshalPort env) svcName clusterName clusterIP ports tolerateUnreadyEndpoints useNodePort;
          svc = svc_meta_update (addOwnerRefToObject owner) svc0
      in andthen (attempt (ecall (CGetService svcName) (\<lambda>h. ee_getService env h svcName))) (\<lambda>r.
         case r of
           Inr oldSvc \<Rightarrow>
             (if \<not> same_map (om_Annotations (svc_meta oldSvc)) (om_Annotations (svc_meta svc))
              then (let upd = oldSvc\<lparr>svc_meta := (svc_meta oldSvc)\<lparr>om_Annotations := om_Annotations (svc_meta svc)\<rparr>,
                                    svc_Spec := (svc_Spec oldSvc)\<lparr>css_Ports := css_Ports (svc_Spec svc),
                                                                   css_Type := css_Type (svc_Spec svc)\<rparr>\<rparr>
                    in ecallE (CUpdateService upd) (\<lambda>h. ee_updateService env h upd))
              else ret ())
         | Inl e \<Rightarrow>
             (if is_not_found e
              then andthen (attempt (ecallE (CCreateService svc) (\<lambda>h. ee_createService env h svc))) (\<lambda>c.
                   case c of
                     Inr _ \<Rightarrow> ret ()
                   | Inl e' \<Rightarrow> (if is_already_exists e' then ret ()
                                else fail (Wrapped (''create service '' @ svcName) e')))
              else fail (Wrapped (''Get service '' @ svcName) e))))"

definition client_port :: "int \<Rightarrow> ServicePort" where
  "client_port nodePort = \<lparr>sp_Name = ''client'', sp_Protocol = ''TCP'', sp_Port = EtcdClientPort,
     sp_TargetPort = EtcdClientPort, sp_NodePort = nodePort\<rparr>"

definition CreateClientService :: "etcd_env \<Rightarrow> string \<Rightarrow> OwnerReference \<Rightarrow> int \<Rightarrow> unit em" where
  "CreateClientService env clusterName owner nodePort =
     createService env (ClientServiceName clusterName) clusterName [] [client_port (int32 nodePort)] owner False True"

definition CreatePeerService :: "etcd_env \<Rightarrow> string \<Rightarrow> OwnerReference \<Rightarrow> unit em" where
  "CreatePeerService env clusterName owner =
     createService env clusterName clusterName ''None''
       [client_port 0, \<lparr>sp_Name = ''peer'', sp_Protocol = ''TCP'', sp_Port = 2380, sp_TargetPort = 2380, sp_NodePort = 0\<rparr>]
       owner True False"

definition error_of :: "string \<Rightarrow> goerr + unit \<Rightarrow> goerr list" where
  "error_of why r = (case r of Inl e \<Rightarrow> [Wrapped why e] | Inr _ \<Rightarrow> [])"

definition setupServices :: "etcd_env \<Rightarrow> unit em" where
  "setupServices env =
     andthen (gets em_oc) (\<lambda>oc.
     andthen (attempt (CreateClientService env (getEtcdClusterPrefix oc) (GetOwnerRef oc)
                         (etcd_ClientNodePort (spec_Etcd (oc_Spec oc))))) (\<lambda>c.
     andthen (attempt (CreatePeerService env (getEtcdClusterPrefix oc) (GetOwnerRef oc))) (\<lambda>p.
       lift_err (new_aggregate (error_of ''create etcd client service'' c @ error_of ''create etcd peer service'' p)))))"

section \<open>Membership\<close>

definition newMember :: "etcd_env \<Rightarrow> Member em" where
  "newMember env = gets (\<lambda>m.
     \<lparr>mb_Name = UniqueMemberName (ee_suffix env (em_calls m)) (getEtcdClusterPrefix (em_oc m)),
      mb_Namespace = em_ns m, mb_ID = 0, mb_SecurePeer = isSecure (em_oc m), mb_SecureClient = isSecure (em_oc m),
      mb_IPv6Cluster = spec_IPv6Cluster (oc_Spec (em_oc m))\<rparr>)"

definition startSeedMember :: "etcd_env \<Rightarrow> unit em" where
  "startSeedMember env =
     andthen (newMember env) (\<lambda>mb.
     let ms = NewMemberSet [mb]
     in seq (map_err (\<lambda>_. Errorf (''failed to create seed member ('' @ mb_Name mb @ '')'')) (createPod env ms mb ''new''))
          (modify (em_members_update (\<lambda>_. Some ms))))"

definition prepareSeedMember :: "etcd_env \<Rightarrow> unit em" where
  "prepareSeedMember env = seq (startSeedMember env) (set_status (es_Size_update (\<lambda>_. 1)))"

definition etcd_create :: "etcd_env \<Rightarrow> unit em" where
  "etcd_create env =
     seq (set_status (es_Phase_update (\<lambda>_. EtcdClusterPhaseCreating)))
    (seq (map_err (\<lambda>_. Errorf ''etcd cluster create: failed to update cluster phase'') (updateEtcdStatus env))
         (prepareSeedMember env))"

definition podsToMemberSet :: "OnecloudCluster \<Rightarrow> Pod list \<Rightarrow> MemberSet" where
  "podsToMemberSet oc pods = fold (\<lambda>pod ms. ms_Add
     \<lparr>mb_Name = om_Name (pod_meta pod), mb_Namespace = om_Namespace (pod_meta pod), mb_ID = 0, mb_SecurePeer = False,
      mb_SecureClient = isSecure oc, mb_IPv6Cluster = spec_IPv6Cluster (oc_Spec oc)\<rparr> ms) pods []"

definition RemoveMember :: "etcd_env \<Rightarrow> string list \<Rightarrow> 64 word \<Rightarrow> unit em" where
  "RemoveMember env clientURLs i =
     seq (ecallE (CNewClient clientURLs) (\<lambda>h. ee_newClient env h clientURLs))
         (ecallE (CMemberRemove clientURLs i) (\<lambda>h. ee_memberRemove env h i))"

definition ListMembers :: "etcd_env \<Rightarrow> string list \<Rightarrow> (64 word \<times> string list) list em" where
  "ListMembers env clientURLs =
     seq (map_err (\<lambda>_. Errorf ''list members failed: creating etcd client failed'')
            (ecallE (CNewClient clientURLs) (\<lambda>h. ee_newClient env h clientURLs)))
         (ecall (CMemberList clientURLs) (ee_memberList env))"

definition client_urls :: "etcd_env \<Rightarrow> MemberSet \<Rightarrow> string list em" where
  "client_urls env ms =
     andthen (gets (\<lambda>m. ee_order env (em_calls m))) (\<lambda>ord.
     from_option ''unexpected member name'' (ms_ClientURLs ord ms))"

definition addOneMember :: "etcd_env \<Rightarrow> unit em" where
  "addOneMember env =
     andthen (gets em_set) (\<lambda>members.
     andthen (client_urls env members) (\<lambda>urls.
     seq (map_err (\<lambda>_. Errorf ''add one member failed: creating etcd client failed'')
            (ecallE (CNewClient urls) (\<lambda>h. ee_newClient env h urls)))
    (andthen (newMember env) (\<lambda>mb.
     andthen (from_option ''unexpected member name'' (PeerURL mb)) (\<lambda>url.
     andthen (map_err (\<lambda>_. Errorf (''fail to add new member ('' @ mb_Name mb @ '')''))
                (ecall (CMemberAdd urls url) (\<lambda>h. ee_memberAdd env h url))) (\<lambda>i.
     let mb' = mb\<lparr>mb_ID := i\<rparr>
     in andthen (gets em_members) (\<lambda>cur.
        andthen (from_option ''assignment to entry in nil map'' cur) (\<lambda>ms.
        let ms' = ms_Add mb' ms
        in seq (modify (em_members_update (\<lambda>_. Some ms')))
               (map_err (\<lambda>_. Errorf (''fail to create member s pod ('' @ mb_Name mb' @ '')''))
                  (createPod env ms' mb' ''existing''))))))))))"

text \<open>A member that etcd does not know any more has been removed.\<close>

definition removeFromEtcd :: "etcd_env \<Rightarrow> string list \<Rightarrow> 64 word \<Rightarrow> unit em" where
  "removeFromEtcd env urls i =
     andthen (attempt (RemoveMember env urls i)) (\<lambda>r. case r of
       Inr _ \<Rightarrow> ret ()
     | Inl e \<Rightarrow> (if e = ErrMemberNotFound then ret () else fail e))"

definition removeMember :: "etcd_env \<Rightarrow> Member \<Rightarrow> unit em" where
  "removeMember env toRemove =
     map_err (\<lambda>_. Errorf (''remove member ('' @ mb_Name toRemove @ '') failed''))
       (andthen (gets em_set) (\<lambda>members.
        andthen (client_urls env members) (\<lambda>urls.
        seq (removeFromEtcd env urls (mb_ID toRemove))
       (seq (modify (em_members_update (map_option (ms_Remove (mb_Name toRemove)))))
       (seq (removePod env (mb_Name toRemove))
            (andthen (gets em_oc) (\<lambda>oc.
               guarded (isPodPVEnabled oc) (removePVC env (PVCNameFromMember (mb_Name toRemove))))))))))"

definition pick_one :: "etcd_env \<Rightarrow> MemberSet \<Rightarrow> Member em" where
  "pick_one env ms =
     andthen (gets (\<lambda>m. ee_order env (em_calls m))) (\<lambda>ord. from_option ''empty'' (ms_PickOne ord ms))"

definition removeOneMember :: "etcd_env \<Rightarrow> unit em" where
  "removeOneMember env = andthen (gets em_set) (\<lambda>ms. andthen (pick_one env ms) (removeMember env))"

definition removeDeadMember :: "etcd_env \<Rightarrow> Member \<Rightarrow> unit em" where
  "removeDeadMember env toRemove = removeMember env toRemove"

definition resize :: "etcd_env \<Rightarrow> unit em" where
  "resize env =
     andthen (gets (\<lambda>m. (int (ms_Size (em_set m)), ecs_Size (etcd_EtcdClusterSpec (em_spec m))))) (\<lambda>(have, want).
       if have = want then ret ()
       else if have < want then addOneMember env
       else removeOneMember env)"

definition reconcileMembers :: "etcd_env \<Rightarrow> MemberSet \<Rightarrow> unit em" where
  "reconcileMembers env running =
     andthen (gets (\<lambda>m. (em_set m, ee_order env (em_calls m)))) (\<lambda>(members, ord).
     let unknownMembers = ms_Diff running members
     in seq (guarded (ms_Size unknownMembers > 0)
               (for_each (range_map ord unknownMembers) (\<lambda>nm. removePod env (mb_Name (snd nm)))))
        (let L = ms_Diff running unknownMembers
         in if ms_Size L = ms_Size members then resize env
            else if ms_Size L < ms_Size members div 2 + 1 then fail ErrLostQuorum
            else andthen (pick_one env (ms_Diff members L)) (removeDeadMember env)))"

fun pickOneOldMember :: "Pod list \<Rightarrow> string \<Rightarrow> Pod option" where
  "pickOneOldMember [] newVersion = None"
| "pickOneOldMember (pod # pods) newVersion =
     (if GetEtcdVersion pod = newVersion then pickOneOldMember pods newVersion else Some pod)"

definition needUpgrade :: "Pod list \<Rightarrow> EtcdClusterSpec \<Rightarrow> bool" where
  "needUpgrade pods cs \<longleftrightarrow> int (length pods) = ecs_Size cs \<and> pickOneOldMember pods (ecs_Version cs) \<noteq> None"

definition upgraded_pod :: "EtcdClusterSpec \<Rightarrow> Pod \<Rightarrow> Pod option" where
  "upgraded_pod cs pod =
     (case update_first (\<lambda>c. c\<lparr>ct_Image := ImageName (ecs_Repository cs) (ecs_Version cs)\<rparr>) (ps_Containers (pod_Spec pod)) of
        None \<Rightarrow> None
      | Some cts \<Rightarrow> SetEtcdVersion (ecs_Version cs) (pod_Spec_update (ps_Containers_update (\<lambda>_. cts)) pod))"

definition upgradeOneMember :: "etcd_env \<Rightarrow> string \<Rightarrow> unit em" where
  "upgradeOneMember env memberName =
     andthen (map_err (\<lambda>_. Errorf (''fail to get pod ('' @ memberName @ '')''))
                (ecall (CGetPod memberName) (\<lambda>h. ee_getPod env h memberName))) (\<lambda>pod.
     andthen (gets (\<lambda>m. etcd_EtcdClusterSpec (em_spec m))) (\<lambda>cs.
     andthen (from_option ''index out of range or nil map'' (upgraded_pod cs pod)) (\<lambda>pod'.
     case ee_createPatch env pod pod' of
       Some _ \<Rightarrow> fail (Errorf ''error creating patch'')
     | None \<Rightarrow> map_err (\<lambda>_. Errorf (''fail to update the etcd member ('' @ memberName @ '')''))
                (ecallE (CPatchPod (om_Name (pod_meta pod')) pod') (\<lambda>h. ee_patchPod env h (om_Name (pod_meta pod')) pod')))))"

definition reconcile :: "etcd_env \<Rightarrow> Pod list \<Rightarrow> unit em" where
  "reconcile env pods =
     deferring
       (andthen (gets (\<lambda>m. m)) (\<lambda>m.
        let sp = em_spec m; running = podsToMemberSet (em_oc m) pods
        in if \<not> ms_IsEqual running (em_set m) \<or> int (ms_Size (em_set m)) \<noteq> ecs_Size (etcd_EtcdClusterSpec sp)
           then reconcileMembers env running
           else if needUpgrade pods (etcd_EtcdClusterSpec sp)
           then seq (set_status (es_TargetVersion_update (\<lambda>_. ecs_Version (etcd_EtcdClusterSpec sp))))
                  (case pickOneOldMember pods (ecs_Version (etcd_EtcdClusterSpec sp)) of
                     None \<Rightarrow> go_panic ''nil dereference''
                   | Some pod \<Rightarrow> upgradeOneMember env (om_Name (pod_meta pod)))
           else set_status (\<lambda>st. st\<lparr>es_TargetVersion := [], es_CurrentVersion := ecs_Version (etcd_EtcdClusterSpec sp)\<rparr>)))
       (\<lambda>m. em_status_update (es_Size_update (\<lambda>_. int (ms_Size (em_set m)))) m)"

definition cleanAllMembers :: "etcd_env \<Rightarrow> unit em" where
  "cleanAllMembers env =
     andthen (gets (\<lambda>m. (em_set m, ee_order env (em_calls m), em_oc m))) (\<lambda>(members, ord, oc).
     seq (for_each (range_map ord members) (\<lambda>nm.
            let member = snd nm
            in seq (removePod env (mb_Name member))
              (seq (modify (em_members_update (map_option (ms_Remove (mb_Name member)))))
                   (guarded (isPodPVEnabled oc) (removePVC env (PVCNameFromMember (mb_Name member)))))))
    (seq (set_status (\<lambda>st. st\<lparr>es_Phase := EtcdClusterPhaseFailed, es_Size := 0, es_Members := zero_EtcdMembersStatus\<rparr>))
         (updateEtcdStatus env)))"

definition getMemberName :: "string list \<Rightarrow> string em" where
  "getMemberName peerURLs =
     (case peerURLs of
        [] \<Rightarrow> go_panic ''index out of range''
      | u # _ \<Rightarrow> (case MemberNameFromPeerURL u of
                    Inl _ \<Rightarrow> fail (FatalError (''invalid member peerURL ('' @ u @ '')''))
                  | Inr name \<Rightarrow> ret name))"

fun members_of :: "OnecloudCluster \<Rightarrow> (64 word \<times> string list) list \<Rightarrow> MemberSet \<Rightarrow> MemberSet em" where
  "members_of oc [] acc = ret acc"
| "members_of oc (mb # mbs) acc =
     andthen (map_err (Wrapped ''get member name failed'') (getMemberName (snd mb))) (\<lambda>name.
     members_of oc mbs (AList.update name
       \<lparr>mb_Name = name, mb_Namespace = om_Namespace (oc_ObjectMeta oc), mb_ID = fst mb, mb_SecurePeer = isSecure oc,
        mb_SecureClient = isSecure oc, mb_IPv6Cluster = spec_IPv6Cluster (oc_Spec oc)\<rparr> acc))"

definition updateMembers :: "etcd_env \<Rightarrow> MemberSet \<Rightarrow> unit em" where
  "updateMembers env known =
     andthen (client_urls env known) (\<lambda>urls.
     andthen (ListMembers env urls) (\<lambda>resp.
     andthen (gets em_oc) (\<lambda>oc.
     andthen (members_of oc resp []) (\<lambda>ms.
     modify (em_members_update (\<lambda>_. Some ms))))))"

definition isFatalError :: "goerr option \<Rightarrow> bool" where
  "isFatalError e = (case e of None \<Rightarrow> False
     | Some x \<Rightarrow> (case err_cause x of FatalError _ \<Rightarrow> True | _ \<Rightarrow> False))"

section \<open>The life cycle\<close>

text \<open>A key the secret does not have reads as no bytes.\<close>

definition tls_data :: "strmap \<Rightarrow> TLSData" where
  "tls_data data = \<lparr>td_CertData = gomap_str (Some data) CliCertFile, td_KeyData = gomap_str (Some data) CliKeyFile,
     td_CAData = gomap_str (Some data) CliCAFile\<rparr>"

definition GetTLSDataFromSecret :: "etcd_env \<Rightarrow> string \<Rightarrow> TLSData em" where
  "GetTLSDataFromSecret env se =
     andthen (ecall (CGetSecret se) (\<lambda>h. ee_getSecret env h se)) (\<lambda>data. ret (tls_data data))"

definition etcd_setup :: "etcd_env \<Rightarrow> unit em" where
  "etcd_setup env =
     andthen (gets (\<lambda>m. (es_Phase (em_status m), em_oc m))) (\<lambda>(phase, oc).
     let prepare = guarded (isSecure oc)
           (andthen (GetTLSDataFromSecret env EtcdClientSecret) (\<lambda>d.
            andthen (ecall (CNewTLSConfig d) (\<lambda>h. ee_newTLSConfig env h d)) (\<lambda>cfg.
            modify (em_tlsConfig_update (\<lambda>_. Some cfg)))))
     in if phase = EtcdClusterPhaseNone \<or> phase = EtcdClusterPhaseFailed then seq prepare (etcd_create env)
        else if phase = EtcdClusterPhaseCreating then fail (Errorf ''etcd cluster failed to be created'')
        else if phase = EtcdClusterPhaseRunning then prepare
        else fail (Errorf (''unexpected cluster phase: '' @ phase)))"

text \<open>What one pass of the loop in \<open>run\<close> ends with: the next pass with the last error, or the end of the loop.\<close>

datatype loop_end = Again "goerr option" | Stop

text \<open>An error that is only logged.\<close>

definition logged :: "unit em \<Rightarrow> unit em" where
  "logged m = andthen (attempt m) (\<lambda>_. ret ())"

text \<open>
  One attempt of \<open>reportFailedStatus\<close> (\<open>True\<close> when it is done), and the attempts, at most
  \<open>n\<close> of them.
\<close>

definition report_attempt :: "etcd_env \<Rightarrow> bool em" where
  "report_attempt env =
     seq (set_status (es_Phase_update (\<lambda>_. EtcdClusterPhaseFailed)))
    (andthen (attempt (updateEtcdStatus env)) (\<lambda>r. case r of
       Inr _ \<Rightarrow> ret True
     | Inl e \<Rightarrow>
         (if is_not_found e then ret True
          else if \<not> is_conflict e then ret False
          else andthen (attempt (ecall CGetCluster (ee_getCluster env))) (\<lambda>g. case g of
                 Inl e' \<Rightarrow> ret (is_not_found e')
               | Inr oc \<Rightarrow> seq (modify (em_oc_update (\<lambda>_. oc))) (ret False)))))"

fun reportFailedStatus :: "nat \<Rightarrow> etcd_env \<Rightarrow> unit em" where
  "reportFailedStatus 0 env = ret ()"
| "reportFailedStatus (Suc n) env =
     andthen (report_attempt env) (\<lambda>d. if d then ret () else reportFailedStatus n env)"

definition max_reports :: nat where
  "max_reports = 2 ^ 63 - 1"

definition reconcile_tick :: "etcd_env \<Rightarrow> Pod list \<Rightarrow> loop_end em" where
  "reconcile_tick env running =
     andthen (attempt (reconcile env running)) (\<lambda>r. case r of
       Inl e \<Rightarrow>
         (if err_cause e = ErrLostQuorum
          then andthen (attempt (cleanAllMembers env)) (\<lambda>c. case c of
                 Inl _ \<Rightarrow> ret (Again (Some e))
               | Inr _ \<Rightarrow> seq (modify (\<lambda>m. m\<lparr>em_spawned := em_spawned m @ [em_oc m]\<rparr>)) (ret Stop))
          else ret (Again (Some e)))
     | Inr _ \<Rightarrow>
         seq (updateMemberStatus running)
        (seq (logged (updateEtcdStatus env))
        (let rerr = None :: goerr option
         in if isFatalError rerr
            then seq (set_status (es_Reason_update (\<lambda>_. ee_errText env (the rerr))))
                (seq (reportFailedStatus max_reports env) (ret Stop))
            else ret (Again rerr))))"

definition run_tick :: "etcd_env \<Rightarrow> goerr option \<Rightarrow> loop_end em" where
  "run_tick env rerr =
     andthen (attempt (fetchCluster env)) (\<lambda>f. case f of
       Inl _ \<Rightarrow> ret (Again rerr)
     | Inr _ \<Rightarrow>
     andthen (attempt (pollPods env)) (\<lambda>p. case p of
       Inl _ \<Rightarrow> ret (Again rerr)
     | Inr (running, pending, failed) \<Rightarrow>
         if pending \<noteq> [] then ret (Again rerr)
         else seq (guarded (failed \<noteq> [] \<and> \<not> ee_EtcdKeepFailedPods env)
                     (for_each failed (\<lambda>pod. logged (removePod env (om_Name (pod_meta pod))))))
             (if running = []
              then seq (updateMemberStatus [])
                  (seq (set_status (es_Phase_update (\<lambda>_. EtcdClusterPhaseFailed)))
                  (seq (logged (updateEtcdStatus env)) (ret Stop)))
              else andthen (gets (\<lambda>m. (em_oc m, em_members m))) (\<lambda>(oc, members).
                   if rerr \<noteq> None \<or> members = None
                   then andthen (attempt (updateMembers env (podsToMemberSet oc running))) (\<lambda>u. case u of
                          Inl e \<Rightarrow> ret (Again (Some e))
                        | Inr _ \<Rightarrow> reconcile_tick env running)
                   else reconcile_tick env running))))"

definition run_start :: "etcd_env \<Rightarrow> unit em" where
  "run_start env =
     seq (logged (setupServices env))
    (seq (modify (\<lambda>m. em_status_update (\<lambda>st. st
            \<lparr>es_ServiceName := NewClusterComponentName (om_Name (oc_ObjectMeta (em_oc m))) EtcdClientComponentType,
             es_ClientPort := EtcdClientPort,
             es_ClientNodePort := etcd_ClientNodePort (em_spec m),
             es_Phase := EtcdClusterPhaseRunning\<rparr>) m))
         (logged (updateEtcdStatus env)))"

text \<open>\<open>sync\<close> up to the loop: \<open>True\<close> when the loop is entered.\<close>

definition sync_start :: "etcd_env \<Rightarrow> OnecloudCluster \<Rightarrow> bool em" where
  "sync_start env oc =
     seq (modify (\<lambda>m. m\<lparr>em_syncing := True, em_oc := oc, em_status := st_Etcd (oc_Status oc)\<rparr>))
    (andthen (attempt (etcd_setup env)) (\<lambda>r. case r of
       Inr _ \<Rightarrow> seq (run_start env) (ret True)
     | Inl e \<Rightarrow>
         andthen (gets (\<lambda>m. es_Phase (em_status m))) (\<lambda>phase.
         seq (guarded (phase \<noteq> EtcdClusterPhaseFailed)
                (seq (set_status (\<lambda>st. st\<lparr>es_Phase := EtcdClusterPhaseFailed, es_Reason := ee_errText env e\<rparr>))
                     (logged (updateEtcdStatus env))))
             (ret False))))"

text \<open>
  The loop of \<open>run\<close>, for at most \<open>n\<close> passes (\<open>True\<close> when it has left the loop), and the whole
  background run: the mark that a run is under way is taken back when the loop is left.
\<close>

fun run_loop :: "nat \<Rightarrow> etcd_env \<Rightarrow> goerr option \<Rightarrow> bool em" where
  "run_loop 0 env rerr = ret False"
| "run_loop (Suc n) env rerr =
     andthen (run_tick env rerr) (\<lambda>l. case l of Stop \<Rightarrow> ret True | Again e \<Rightarrow> run_loop n env e)"

definition etcd_sync :: "nat \<Rightarrow> etcd_env \<Rightarrow> OnecloudCluster \<Rightarrow> bool em" where
  "etcd_sync n env oc =
     andthen (sync_start env oc) (\<lambda>entered.
     andthen (if entered then run_loop n env None else ret True) (\<lambda>ended.
     seq (guarded ended (modify (em_syncing_update (\<lambda>_. False)))) (ret ended)))"

section \<open>The entry from the operator\<close>

text \<open>
  \<open>Sync\<close>: \<open>component\<close> is the outcome of \<open>syncComponent\<close>. The background run is started
  unless one is running.
\<close>

definition etcd_defaults :: "nat \<Rightarrow> OnecloudCluster \<Rightarrow> bool \<times> OnecloudCluster" where
  "etcd_defaults masterCount oc =
     (let (changed, o1) = fixEtcdSize masterCount oc;
          v = (ecs_Version (etcd_EtcdClusterSpec (spec_Etcd (oc_Spec o1))) = []);
          o2 = (if v then oc_Spec_update (spec_Etcd_update (etcd_EtcdClusterSpec_update (ecs_Version_update (\<lambda>_. EtcdImageVersion)))) o1
                else o1);
          n = (etcd_ClientNodePort (spec_Etcd (oc_Spec o2)) = 0);
          o3 = (if n then oc_Spec_update (spec_Etcd_update (etcd_ClientNodePort_update (\<lambda>_. EtcdClientNodePort))) o2 else o2)
      in (changed \<or> v \<or> n, o3))"

definition etcd_Sync :: "etcd_env \<Rightarrow> goerr option \<Rightarrow> OnecloudCluster \<Rightarrow> unit em" where
  "etcd_Sync env component oc =
     seq (lift_err component)
    (if etcd_Disable (spec_Etcd (oc_Spec oc)) then ret ()
     else andthen (attempt (ecall CListNodes (ee_listMasters env))) (\<lambda>r. case r of
       Inl _ \<Rightarrow> ret ()
     | Inr nodes \<Rightarrow>
         (let (changed, oc1) = etcd_defaults (length nodes) oc;
              start = (\<lambda>oc2. andthen (gets em_syncing) (\<lambda>b.
                        guarded (\<not> b) (modify (\<lambda>m. m\<lparr>em_spawned := em_spawned m @ [oc2]\<rparr>))))
          in if changed
             then andthen (attempt (ecall (CUpdateCluster oc1 ''etcd-sync'') (\<lambda>h. ee_updateCluster env h oc1 ''etcd-sync''))) (\<lambda>u.
                    case u of Inl _ \<Rightarrow> ret () | Inr oc2 \<Rightarrow> start oc2)
             else start oc1)))"

text \<open>
  The periodic defragmentation: the status of one member decides, and all members are
  defragmented after a compaction. Errors end the round.
\<close>

definition membersDefrag :: "etcd_env \<Rightarrow> unit em" where
  "membersDefrag env =
     logged (andthen (gets (\<lambda>m. (em_set m, ee_order env (em_calls m), em_spec m))) (\<lambda>(members, ord, sp).
       andthen (client_urls env members) (\<lambda>urls.
       seq (ecallE (CNewClient urls) (\<lambda>h. ee_newClient env h urls))
      (case range_map ord members of
         [] \<Rightarrow> ret ()
       | nm # _ \<Rightarrow>
           andthen (from_option ''unexpected member name'' (ClientURL (snd nm))) (\<lambda>u.
           andthen (ecall (CStatus u) (\<lambda>h. ee_status env h u)) (\<lambda>dbSize.
           guarded (dbSize > sint (getEtcdBackendQuotaSize sp) div 2)
             (seq (ecallE CCompact (ee_compact env))
             (andthen (gets (\<lambda>m. ee_order env (em_calls m))) (\<lambda>ord'.
                for_each (range_map ord' members) (\<lambda>nm'.
                     andthen (from_option ''unexpected member name'' (ClientURL (snd nm'))) (\<lambda>u'.
                     logged (ecallE (CDefragment u') (\<lambda>h. ee_defragment env h u')))))))))))))"

end
