(* ===== verification/Etcd_Laws.thy ===== *)
theory Etcd_Laws
  imports Etcd_Manager
begin

text \<open>
  Properties of the etcd manager: the calls it makes and the members it touches, the safety of
  the quorum, progress towards the desired size, the absence of panics, and the phases of its
  life cycle.
\<close>

section \<open>The calls of a program\<close>

abbreviation emits :: "(etcd_call \<Rightarrow> bool) \<Rightarrow> 'a em \<Rightarrow> etcdManager \<Rightarrow> bool" where
  "emits \<equiv> emits_on em_calls"

lemma emits_set_status [emits_intros]: "emits P (set_status f) s"
  unfolding set_status_def by (rule emits_modify) simp

lemma emits_ecall [emits_intros]:
  "P c \<Longrightarrow> emits P (ecall c f) s" "P c \<Longrightarrow> emits P (ecallE c g) s"
  by (auto simp: emits_on_def ecall_def ecallE_def Let_def split: sum.splits)

lemma emits_removePod [emits_intros]: "P (CDeletePod n) \<Longrightarrow> emits P (removePod env n) s"
  unfolding removePod_def ignore_not_found_def
  by (auto intro!: emits_intros split: sum.split)

lemma emits_removePVC [emits_intros]: "P (CDeletePVC n) \<Longrightarrow> emits P (removePVC env n) s"
  unfolding removePVC_def ignore_not_found_def
  by (auto intro!: emits_intros split: sum.split)

lemma emits_client_urls [emits_intros]: "emits P (client_urls env ms) s"
  unfolding client_urls_def by (auto intro!: emits_intros)

lemma emits_newMember [emits_intros]: "emits P (newMember env) s"
  unfolding newMember_def by (rule emits_intros)

lemma emits_pick_one [emits_intros]: "emits P (pick_one env ms) s"
  unfolding pick_one_def by (auto intro!: emits_intros)

section \<open>What the operations leave alone\<close>

text \<open>
  A state predicate that does not look at the log of calls is kept by every operation that only
  calls the outside: the interface is the locale \<open>calls_free\<close>, interpreted for the components
  of the state.
\<close>

locale calls_free =
  fixes I :: "etcdManager \<Rightarrow> bool"
  assumes free: "I s \<Longrightarrow> I (s\<lparr>em_calls := cs\<rparr>)"
begin

lemma keeps_ecall: "keeps I (ecall c f)" "keeps I (ecallE c g)"
  by (auto simp: keeps_def ecall_def ecallE_def Let_def free split: sum.splits)

lemma keeps_from_option: "keeps I (from_option w y)"
  by (cases y) (auto simp: from_option_def intro: keeps_intros)

lemma keeps_ignore_not_found: "keeps I m \<Longrightarrow> keeps I (ignore_not_found m)"
  unfolding ignore_not_found_def by (auto intro!: keeps_intros split: sum.split)

lemma keeps_removePod: "keeps I (removePod env n)"
  unfolding removePod_def by (intro keeps_ignore_not_found keeps_ecall)

lemma keeps_removePVC: "keeps I (removePVC env n)"
  unfolding removePVC_def by (intro keeps_intros keeps_ignore_not_found keeps_ecall)

lemma keeps_reads:
  "keeps I (client_urls env ms)" "keeps I (newMember env)" "keeps I (pick_one env ms)"
  unfolding client_urls_def newMember_def pick_one_def
  by (intro keeps_intros keeps_from_option)+

lemma keeps_createPod: "keeps I (createPod env ms mb state)"
  unfolding createPod_def
  by (auto intro!: keeps_intros keeps_from_option keeps_ecall simp: Let_def split: prod.split)

lemma keeps_RemoveMember: "keeps I (RemoveMember env urls i)"
  unfolding RemoveMember_def by (intro keeps_intros keeps_ecall)

lemma keeps_removeFromEtcd: "keeps I (removeFromEtcd env urls i)"
  unfolding removeFromEtcd_def by (auto intro!: keeps_intros keeps_RemoveMember split: sum.split)

lemma keeps_ListMembers: "keeps I (ListMembers env urls)"
  unfolding ListMembers_def by (intro keeps_intros keeps_ecall)

lemma keeps_upgradeOneMember: "keeps I (upgradeOneMember env n)"
  unfolding upgradeOneMember_def
  by (auto intro!: keeps_intros keeps_from_option keeps_ecall split: option.split)

lemma keeps_pollPods: "keeps I (pollPods env)"
  unfolding pollPods_def by (intro keeps_intros keeps_ecall)

lemma keeps_createService: "keeps I (createService env a b c d e f g)"
  unfolding createService_def Let_def
  by (auto intro!: keeps_intros keeps_ecall split: sum.split)

lemma keeps_setupServices: "keeps I (setupServices env)"
  unfolding setupServices_def CreateClientService_def CreatePeerService_def
  by (intro keeps_intros keeps_createService)

lemmas calls_only = keeps_ecall keeps_from_option keeps_removePod keeps_removePVC keeps_reads keeps_createPod
  keeps_RemoveMember keeps_ListMembers keeps_upgradeOneMember keeps_pollPods keeps_createService keeps_setupServices

end

interpretation of_members: calls_free "\<lambda>s. em_members s = ms" for ms
  by unfold_locales simp

interpretation of_oc: calls_free "\<lambda>s. em_oc s = oc" for oc
  by unfold_locales simp

interpretation of_status: calls_free "\<lambda>s. em_status s = st" for st
  by unfold_locales simp

lemma keeps_sameD: "keeps (\<lambda>s. f s = f s0) m \<Longrightarrow> m s0 = (r, t) \<Longrightarrow> f t = f s0"
  by (auto dest: keepsD_eq)

lemma pick_one_Ret:
  "pick_one env ms s = (Ret x, t) \<longleftrightarrow> t = s \<and> ms_PickOne (ee_order env (em_calls s)) ms = Some x"
  by (auto simp: pick_one_def andthen_Ret_iff from_option_def go_simps split: option.splits)

lemma emits_removeMember [emits_intros]:
  assumes "\<And>urls. P (CNewClient urls)" "\<And>urls. P (CMemberRemove urls (mb_ID mb))"
    and "P (CDeletePod (mb_Name mb))" "P (CDeletePVC (PVCNameFromMember (mb_Name mb)))"
  shows "emits P (removeMember env mb) s"
  unfolding removeMember_def removeFromEtcd_def RemoveMember_def
  by (auto intro!: emits_intros assms split: sum.split)

section \<open>Safety of the quorum\<close>

lemma ms_entry_name: "(n, m) \<in> set s \<Longrightarrow> n \<in> ms_names s"
  by (force simp: ms_names_def)

lemma ms_Diff_entry: "x \<in> set (ms_Diff s t) \<Longrightarrow> x \<in> set s"
  by (simp add: ms_Diff_def)

definition quorum :: "nat \<Rightarrow> nat" where
  "quorum n = n div 2 + 1"

text \<open>
  C1: the operator asks etcd to remove a member because its pod is gone only while a quorum of the
  members has running pods, and the member it removes is one without a running pod.
\<close>

theorem reconcileMembers_quorum_safe:
  assumes "wf_MemberSet running" "em_members m = Some ms" "wf_MemberSet ms"
    and "reconcileMembers env running m = (r, m')" "em_calls m' = em_calls m @ new" "CMemberRemove urls i \<in> set new"
    and "\<not> ms_names ms \<subseteq> ms_names running"
  shows "quorum (card (ms_names ms)) \<le> card (ms_names running \<inter> ms_names ms)
    \<and> (\<exists>mb. (mb_Name mb, mb) \<in> set ms \<and> mb_ID mb = i \<and> mb_Name mb \<notin> ms_names running)"
proof -
  define ok where "ok = (\<lambda>j. quorum (card (ms_names ms)) \<le> card (ms_names running \<inter> ms_names ms)
    \<and> (\<exists>mb. (mb_Name mb, mb) \<in> set ms \<and> mb_ID mb = j \<and> mb_Name mb \<notin> ms_names running))"
  let ?P = "\<lambda>c. \<forall>urls j. c = CMemberRemove urls j \<longrightarrow> ok j"
  let ?L = "ms_Diff running (ms_Diff running ms)"
  have L: "ms_Size ?L = card (ms_names running \<inter> ms_names ms)" "ms_Size ms = card (ms_names ms)"
    using assms by (simp_all add: ms_Size_names mset_impl.names_running del: ms_names_simps)
  have ne: "ms_Size ?L \<noteq> ms_Size ms"
    using assms mset_impl.size_running_eq by simp
  have rm: "emits ?P (removeDeadMember env mb) t" if "ms_PickOne ord (ms_Diff ms ?L) = Some mb" "\<not> ms_Size ?L < ms_Size ms div 2 + 1"
    for mb t ord
  proof -
    have "(mb_Name mb, mb) \<in> set (ms_Diff ms ?L)"
      using that(1) assms by (intro ms_PickOne_in) simp_all
    then have "(mb_Name mb, mb) \<in> set ms" "mb_Name mb \<in> ms_names (ms_Diff ms ?L)"
      using ms_Diff_entry ms_entry_name by fast+
    then have "(mb_Name mb, mb) \<in> set ms" "mb_Name mb \<notin> ms_names running"
      by auto
    then have "ok (mb_ID mb)" using that(2) by (auto simp: ok_def quorum_def L)
    then show ?thesis unfolding removeDeadMember_def by (auto intro!: emits_intros)
  qed
  have "emits ?P (reconcileMembers env running) m"
    unfolding reconcileMembers_def Let_def
    using assms(2) ne
    by (auto intro!: emits_intros emits_for_each simp: go_simps em_set_def pick_one_Ret rm split: prod.split)
  from emitsD [OF this assms(4,5,6)] show ?thesis by (simp add: ok_def)
qed

text \<open>An outside that answers every call without an error, and a manager with members.\<close>

definition calm_env :: "OnecloudCluster \<Rightarrow> etcd_env" where
  "calm_env oc = \<lparr>ee_createPod = (\<lambda>h p. None), ee_deletePod = (\<lambda>h n. None), ee_listPods = (\<lambda>h. Inr []),
     ee_getPod = (\<lambda>h n. Inl (ApiErr NotFound)), ee_createPatch = (\<lambda>o' n. None), ee_patchPod = (\<lambda>h n p. None),
     ee_createPVC = (\<lambda>h p. None), ee_deletePVC = (\<lambda>h n. None), ee_getService = (\<lambda>h n. Inl (ApiErr NotFound)),
     ee_createService = (\<lambda>h x. None), ee_updateService = (\<lambda>h x. None), ee_marshalPort = sp_Name,
     ee_getSecret = (\<lambda>h n. Inr []), ee_newTLSConfig = (\<lambda>h d. Inr []), ee_newClient = (\<lambda>h u. None),
     ee_memberAdd = (\<lambda>h u. Inr 9), ee_memberRemove = (\<lambda>h i. None), ee_memberList = (\<lambda>h. Inr []),
     ee_status = (\<lambda>h u. Inr 0), ee_compact = (\<lambda>h. None), ee_defragment = (\<lambda>h u. None),
     ee_getCluster = (\<lambda>h. Inr oc), ee_updateCluster = (\<lambda>h o' r. Inr o'), ee_listMasters = (\<lambda>h. Inr []),
     ee_suffix = (\<lambda>h. ''0123456789''), ee_uuid = (\<lambda>h. ''uuid''), ee_order = (\<lambda>h. length), ee_errText = (\<lambda>e. []),
     ee_EtcdKeepFailedPods = False, ee_DisableNodeSelector = False\<rparr>"

definition mk_member :: "string \<Rightarrow> 64 word \<Rightarrow> Member" where
  "mk_member n i = \<lparr>mb_Name = n, mb_Namespace = ''onecloud'', mb_ID = i, mb_SecurePeer = True, mb_SecureClient = True,
     mb_IPv6Cluster = False\<rparr>"

definition mk_set :: "(string \<times> 64 word) list \<Rightarrow> MemberSet" where
  "mk_set nis = map (\<lambda>(n, i). (n, mk_member n i)) nis"

definition etcd_cluster :: "int \<Rightarrow> OnecloudCluster" where
  "etcd_cluster sz = zero_OnecloudCluster\<lparr>oc_ObjectMeta := new_meta ''default'' ''onecloud'' None None [],
     oc_Spec := zero_OnecloudClusterSpec\<lparr>spec_Etcd := zero_Etcd\<lparr>etcd_EtcdClusterSpec := zero_EtcdClusterSpec\<lparr>ecs_Size := sz\<rparr>\<rparr>\<rparr>\<rparr>"

definition mk_manager :: "int \<Rightarrow> MemberSet option \<Rightarrow> etcdManager" where
  "mk_manager sz ms = \<lparr>em_oc = etcd_cluster sz, em_status = zero_EctdStatus, em_members = ms, em_tlsConfig = None,
     em_syncing = True, em_calls = [], em_spawned = []\<rparr>"

lemmas sample_defs = calm_env_def mk_member_def mk_set_def etcd_cluster_def mk_manager_def

theorem reconcileMembers_quorum_safe_witness:
  "\<exists>r m' urls. reconcileMembers (calm_env (etcd_cluster 3)) (mk_set [(''e-a'', 0), (''e-b'', 0)])
       (mk_manager 3 (Some (mk_set [(''e-a'', 1), (''e-b'', 2), (''e-c'', 3)]))) = (r, m')
     \<and> CMemberRemove urls 3 \<in> set (em_calls m')
     \<and> quorum (card (ms_names (mk_set [(''e-a'', 1), (''e-b'', 2), (''e-c'', 3)])))
         \<le> card (ms_names (mk_set [(''e-a'', 0), (''e-b'', 0)]) \<inter> ms_names (mk_set [(''e-a'', 1), (''e-b'', 2), (''e-c'', 3)]))"
proof -
  let ?ms = "mk_set [(''e-a'', 1), (''e-b'', 2), (''e-c'', 3)]"
  let ?run = "mk_set [(''e-a'', 0), (''e-b'', 0)]"
  let ?m = "mk_manager 3 (Some ?ms)"
  obtain r m' where e: "reconcileMembers (calm_env (etcd_cluster 3)) ?run ?m = (r, m')" by fastforce
  have c: "em_calls (snd (reconcileMembers (calm_env (etcd_cluster 3)) ?run ?m)) =
     [CNewClient [''https://e-a.e.onecloud.svc:2379'', ''https://e-b.e.onecloud.svc:2379'', ''https://e-c.e.onecloud.svc:2379''],
      CMemberRemove [''https://e-a.e.onecloud.svc:2379'', ''https://e-b.e.onecloud.svc:2379'', ''https://e-c.e.onecloud.svc:2379''] 3,
      CDeletePod ''e-c'']"
    by code_simp
  have w: "wf_MemberSet ?run" "wf_MemberSet ?ms" "em_members ?m = Some ?ms" "\<not> ms_names ?ms \<subseteq> ms_names ?run" "em_calls ?m = []"
    by (simp_all add: sample_defs wf_MemberSet_def ms_names_def)
  show ?thesis
    using reconcileMembers_quorum_safe [OF w(1,3,2) e _ _ w(4), of "em_calls m'" _ 3] c e w(5) by fastforce
qed

section \<open>Absence of panics\<close>

definition safe :: "'a em \<Rightarrow> etcdManager \<Rightarrow> bool" where
  "safe m s \<longleftrightarrow> (\<forall>p. fst (m s) \<noteq> Panic p)"

named_theorems safe_intros

lemma safe_pure [safe_intros]:
  "safe (ret x) s" "safe (fail e) s" "safe (gets h) s" "safe (modify g) s" "safe (lift_err r) s" "safe (set_status f) s"
  by (simp_all add: safe_def go_simps lift_err_def set_status_def split: option.split)

lemma safe_andthen [safe_intros]:
  "safe m s \<Longrightarrow> (\<And>x t. m s = (Ret x, t) \<Longrightarrow> safe (f x) t) \<Longrightarrow> safe (andthen m f) s"
  by (cases m s rule: go_cases) (auto simp: safe_def go_simps)

lemma safe_seq [safe_intros]:
  "safe m s \<Longrightarrow> (\<And>t. m s = (Ret (), t) \<Longrightarrow> safe n t) \<Longrightarrow> safe (seq m n) s"
  unfolding seq_def by (rule safe_andthen) auto

lemma safe_attempt [safe_intros]: "safe m s \<Longrightarrow> safe (attempt m) s"
  by (cases m s rule: go_cases) (auto simp: safe_def go_simps)

lemma safe_map_err [safe_intros]: "safe m s \<Longrightarrow> safe (map_err g m) s"
  by (cases m s rule: go_cases) (auto simp: safe_def go_simps)

lemma safe_deferring [safe_intros]: "safe m s \<Longrightarrow> safe (deferring m g) s"
  by (simp add: safe_def go_simps)

lemma safe_guarded [safe_intros]: "(b \<Longrightarrow> safe m s) \<Longrightarrow> safe (guarded b m) s"
  by (auto simp: guarded_def intro: safe_intros)

lemma safe_for_each [safe_intros]: "(\<And>x t. x \<in> set xs \<Longrightarrow> safe (f x) t) \<Longrightarrow> safe (for_each xs f) s"
  by (induction xs arbitrary: s) (auto intro!: safe_intros)

lemma safe_ecall [safe_intros]: "safe (ecall c f) s" "safe (ecallE c g) s"
  by (auto simp: safe_def ecall_def ecallE_def Let_def split: sum.split)

lemma safe_from_option [safe_intros]: "\<exists>z. y = Some z \<Longrightarrow> safe (from_option w y) s"
  by (auto simp: from_option_def intro: safe_intros)

lemma safe_removePod [safe_intros]: "safe (removePod env n) s" "safe (removePVC env n) s"
  unfolding removePod_def removePVC_def ignore_not_found_def
  by (auto intro!: safe_intros split: sum.split)

lemma for_each_Ret:
  "(\<And>x s. \<exists>t. f x s = (Ret (), t)) \<Longrightarrow> \<exists>t. for_each xs f s = (Ret (), t)"
proof (induction xs arbitrary: s)
  case (Cons x xs)
  obtain t where "f x s = (Ret (), t)" using Cons.prems by blast
  with Cons show ?case by (simp add: go_simps)
qed (simp add: go_simps)

definition deletions_succeed :: "etcd_env \<Rightarrow> bool" where
  "deletions_succeed env \<longleftrightarrow> (\<forall>h n. ee_deletePod env h n \<in> {None, Some (ApiErr NotFound)})"

lemma removePod_Ret: "deletions_succeed env \<Longrightarrow> \<exists>t. removePod env n s = (Ret (), t)"
  unfolding deletions_succeed_def
  by (drule spec [of _ "em_calls s"], drule spec [of _ n])
     (auto simp: removePod_def ignore_not_found_def ecallE_def ecall_def attempt_def andthen_def ret_def Let_def)

text \<open>
  C30: when fewer members than a quorum have running pods, \<open>reconcileMembers\<close> leaves the
  membership alone: it deletes at most the pods that belong to no member, and then returns the
  lost quorum error, unless one of those deletions fails.
\<close>

theorem reconcileMembers_lost_quorum:
  assumes "wf_MemberSet running" "em_members m = Some ms" "wf_MemberSet ms"
    and "card (ms_names running \<inter> ms_names ms) < quorum (card (ms_names ms))" "ms_names ms \<noteq> {}"
    and "reconcileMembers env running m = (r, m')"
  shows "em_members m' = Some ms \<and> (\<exists>e. r = Fail e) \<and> (deletions_succeed env \<longrightarrow> r = Fail ErrLostQuorum)
    \<and> (\<exists>new. em_calls m' = em_calls m @ new \<and> set new \<subseteq> CDeletePod ` (ms_names running - ms_names ms))"
proof -
  let ?U = "ms_Diff running ms"
  let ?each = "for_each (range_map (ee_order env (em_calls m)) ?U) (\<lambda>nm. removePod env (mb_Name (snd nm)))"
  let ?del = "guarded (ms_Size ?U > 0) ?each"
  have sizes: "ms_Size (ms_Diff running ?U) = card (ms_names running \<inter> ms_names ms)" "ms_Size ms = card (ms_names ms)"
    using assms by (simp_all add: ms_Size_names mset_impl.names_running del: ms_names_simps)
  have "0 < card (ms_names ms)" using assms(5) by (simp add: ms_names_def card_gt_0_iff)
  then have "card (ms_names running \<inter> ms_names ms) \<noteq> card (ms_names ms)"
    "card (ms_names running \<inter> ms_names ms) < card (ms_names ms) div 2 + 1"
    using assms(4) by (auto simp: quorum_def)
  then have eq: "seq ?del (fail ErrLostQuorum) m = (r, m')"
    using assms(2,6) by (simp add: reconcileMembers_def go_simps em_set_def Let_def sizes)
  have keep: "em_members t = Some ms" if "?del m = (x, t)" for x t
    by (rule keepsD_eq [where m = ?del and s = m])
       (auto intro!: keeps_intros of_members.keeps_removePod simp: that assms(2))
  have emit: "emits (\<lambda>c. c \<in> CDeletePod ` (ms_names running - ms_names ms)) ?del m"
  proof (intro emits_guarded emits_for_each emits_removePod)
    fix x assume "x \<in> set (range_map (ee_order env (em_calls m)) ?U)"
    then have x: "x \<in> set ?U" by simp
    moreover have "wf_MemberSet ?U" using assms(1) by simp
    ultimately have "mb_Name (snd x) = fst x" "fst x \<in> ms_names ?U"
      by (auto simp: wf_MemberSet_def list_all_iff ms_names_def)
    then show "CDeletePod (mb_Name (snd x)) \<in> CDeletePod ` (ms_names running - ms_names ms)" by simp
  qed
  have calls: "\<exists>new. em_calls t = em_calls m @ new \<and> set new \<subseteq> CDeletePod ` (ms_names running - ms_names ms)"
    if "?del m = (x, t)" for x t
    using emit that by (auto simp: emits_on_def list_all_iff)
  have done_: "\<exists>t. ?del m = (Ret (), t)" if "deletions_succeed env"
    using for_each_Ret [OF removePod_Ret [OF that]] by (auto simp: guarded_def go_simps)
  have "safe ?del m" by (intro safe_intros)
  then show ?thesis
    using eq keep calls done_ by (cases ?del m rule: go_cases) (auto simp: go_simps safe_def)
qed

theorem reconcileMembers_lost_quorum_witness:
  "fst (reconcileMembers (calm_env (etcd_cluster 3)) (mk_set [(''e-a'', 0), (''e-x'', 0)])
     (mk_manager 3 (Some (mk_set [(''e-a'', 1), (''e-b'', 2), (''e-c'', 3)])))) = Fail ErrLostQuorum"
proof -
  let ?ms = "mk_set [(''e-a'', 1), (''e-b'', 2), (''e-c'', 3)]" and ?run = "mk_set [(''e-a'', 0), (''e-x'', 0)]"
  obtain r m' where e: "reconcileMembers (calm_env (etcd_cluster 3)) ?run (mk_manager 3 (Some ?ms)) = (r, m')" by fastforce
  have w: "wf_MemberSet ?run" "wf_MemberSet ?ms" "em_members (mk_manager 3 (Some ?ms)) = Some ?ms" "ms_names ?ms \<noteq> {}"
    "card (ms_names ?run \<inter> ms_names ?ms) < quorum (card (ms_names ?ms))" "deletions_succeed (calm_env (etcd_cluster 3))"
    by (simp_all add: sample_defs wf_MemberSet_def ms_names_def quorum_def deletions_succeed_def)
  show ?thesis
    using reconcileMembers_lost_quorum [OF w(1,3,2,5,4) e] w(6) e by simp
qed



section \<open>Reconciliation never panics\<close>

definition dashed :: "MemberSet \<Rightarrow> bool" where
  "dashed ms \<longleftrightarrow> list_all (\<lambda>nm. CHR ''-'' \<in> set (mb_Name (snd nm))) ms"

lemma dashed_URLs:
  assumes "dashed ms"
  shows "\<exists>us. ms_ClientURLs ord ms = Some us" "\<exists>us. ms_PeerURLPairs ord ms = Some us"
proof -
  have "ClientURL (snd nm) \<noteq> None \<and> PeerURL (snd nm) \<noteq> None" if "nm \<in> set ms" for nm
    using assms that unfolding dashed_def list_all_iff by (auto simp: URL_defined simp del: not_None_eq)
  then have "None \<notin> set (map (\<lambda>nm. ClientURL (snd nm)) (range_map ord ms))"
    "None \<notin> set (map (\<lambda>nm. map_option (\<lambda>u. mb_Name (snd nm) @ ''='' @ u) (PeerURL (snd nm))) (range_map ord ms))"
    by (simp_all del: not_None_eq add: image_iff) (metis option.map_disc_iff snd_conv)+
  then show "\<exists>us. ms_ClientURLs ord ms = Some us" "\<exists>us. ms_PeerURLPairs ord ms = Some us"
    unfolding ms_ClientURLs_def ms_PeerURLPairs_def not_None_eq [symmetric] all_some_None by simp_all
qed

lemma PeerURL_ex: "CHR ''-'' \<in> set (mb_Name mb) \<Longrightarrow> \<exists>u. PeerURL mb = Some u"
  using URL_defined(2) [of mb] by auto

lemma ms_PickOne_ex: "ms \<noteq> [] \<Longrightarrow> \<exists>mb. ms_PickOne ord ms = Some mb"
  using ms_PickOne_None [of ord ms] by auto

lemma from_option_Ret: "from_option w y s = (Ret x, t) \<longleftrightarrow> y = Some x \<and> t = s"
  by (auto simp: from_option_def go_simps split: option.split)

lemma gets_Ret: "gets h s = (Ret x, t) \<longleftrightarrow> x = h s \<and> t = s"
  by (auto simp: go_simps)

lemma modify_Ret: "modify g s = (r, t) \<longleftrightarrow> r = Ret () \<and> t = g s"
  by (auto simp: go_simps)

lemma dashed_simps [simp]:
  "dashed ms \<Longrightarrow> CHR ''-'' \<in> set (mb_Name mb) \<Longrightarrow> dashed (ms_Add mb ms)"
  "dashed ms \<Longrightarrow> dashed (ms_Remove n ms)"
  by (simp_all add: dashed_def ms_Add_def ms_Remove_def list_all_update) (auto simp: list_all_iff AList.delete_eq)

lemma newEtcdPod_containers:
  assumes "newEtcdPod m ic cn state token cs = Some pod"
  shows "ps_Containers (pod_Spec pod) \<noteq> [] \<and> ps_InitContainers (pod_Spec pod) \<noteq> []"
proof -
  obtain base addr pm pv cm cv where "etcd_base_command m ic state = Some base" "Member_Addr m = Some addr"
      "tls_peer m cs = Some (pm, pv)" "tls_client m cs = Some (cm, cv)"
    using assms unfolding newEtcdPod_def by (auto split: option.splits prod.splits)
  with assms show ?thesis
    by (auto simp: newEtcdPod_def SetEtcdVersion_def Let_def split: option.splits)
qed

lemma applyPodPolicy_containers:
  "ps_Containers (pod_Spec (applyPodPolicy p pod)) = [] \<longleftrightarrow> ps_Containers (pod_Spec pod) = []"
  "ps_InitContainers (pod_Spec (applyPodPolicy p pod)) = [] \<longleftrightarrow> ps_InitContainers (pod_Spec pod) = []"
  by (cases p; simp add: applyPodPolicy_def Let_def)+

lemma tls_member_custom: "isSecure oc \<Longrightarrow> tls_member (customEtcdSpec oc) \<noteq> None"
  by (simp add: customEtcdSpec_def Let_def tls_member_def)

lemma update_first_None [simp]: "update_first f xs = None \<longleftrightarrow> xs = []"
  by (simp add: update_first_def split: list.split)

lemma member_pod_defined:
  assumes "CHR ''-'' \<in> set (mb_Name mb)" "mb_SecurePeer mb \<or> mb_SecureClient mb \<Longrightarrow> isSecure oc"
  shows "\<exists>pod. member_pod d oc mb state token ic = Some pod"
proof -
  obtain pod0 where p0: "newEtcdPod mb ic (getEtcdClusterPrefix oc) state token (customEtcdSpec oc) = Some pod0"
    using newEtcdPod_defined [of mb ic "getEtcdClusterPrefix oc" state token "customEtcdSpec oc"] assms tls_member_custom [of oc]
    by auto
  define pod where "pod = pod_meta_update (addOwnerRefToObject (GetOwnerRef oc)) (applyPodPolicy (ecs_Pod (customEtcdSpec oc)) pod0)"
  have ne: "ps_Containers (pod_Spec pod) \<noteq> []" "ps_InitContainers (pod_Spec pod) \<noteq> []"
    using newEtcdPod_containers [OF p0] by (simp_all add: pod_def applyPodPolicy_containers)
  obtain cmd where cmd: "newEtcdCommand (spec_Etcd (oc_Spec oc)) mb state token ic = Some cmd"
    using URL_defined [of mb] assms(1) by (auto simp: newEtcdCommand_def etcd_base_command_def split: option.splits)
  have "member_pod d oc mb state token ic = customPodSpec d oc mb state token ic pod"
    using p0 by (simp add: member_pod_def NewEtcdPod_def pod_def)
  moreover have "\<exists>p. customPodSpec d oc mb state token ic pod = Some p"
    using ne by (auto simp: customPodSpec_def cmd Let_def update_first_def split: list.splits)
  ultimately show ?thesis by simp
qed

lemma safe_client_urls [safe_intros]: "dashed ms \<Longrightarrow> safe (client_urls env ms) s"
  unfolding client_urls_def by (intro safe_intros) (simp add: dashed_URLs)

lemma safe_createPod:
  assumes "dashed ms" "CHR ''-'' \<in> set (mb_Name mb)" "mb_SecurePeer mb \<or> mb_SecureClient mb \<Longrightarrow> isSecure (em_oc s)"
  shows "safe (createPod env ms mb state) s"
  unfolding createPod_def Let_def
  using member_pod_defined [OF assms(2,3)] dashed_URLs [OF assms(1)]
  by (auto intro!: safe_intros simp: gets_Ret from_option_Ret)

lemma UniqueMemberName_dash [simp]: "CHR ''-'' \<in> set (UniqueMemberName sfx c)"
  by (simp add: UniqueMemberName_def Let_def)

lemma client_urls_Ret: "client_urls env ms s = (Ret x, t) \<Longrightarrow> t = s"
  by (auto simp: client_urls_def andthen_Ret_iff go_simps from_option_def split: option.splits)

lemma ecall_frame:
  "ecall c f s = (r, t) \<Longrightarrow> em_oc t = em_oc s \<and> em_members t = em_members s \<and> em_status t = em_status s"
  "ecallE c g s = (r', t) \<Longrightarrow> em_oc t = em_oc s \<and> em_members t = em_members s \<and> em_status t = em_status s"
  by (auto simp: ecall_def ecallE_def Let_def split: sum.splits)

lemma safe_addOneMember:
  assumes "em_members s = Some ms" "dashed ms"
  shows "safe (addOneMember env) s"
  unfolding addOneMember_def
  by (auto intro!: safe_intros safe_createPod
        simp: gets_Ret em_set_def assms map_err_Ret_iff newMember_def PeerURL_ex from_option_Ret modify_Ret Let_def
        dest!: client_urls_Ret ecall_frame)

lemma safe_removeMember:
  assumes "dashed (em_set s)"
  shows "safe (removeMember env mb) s"
  unfolding removeMember_def removeFromEtcd_def RemoveMember_def
  by (auto intro!: safe_intros simp: go_simps assms split: sum.split)

lemma safe_pick_one: "ms \<noteq> [] \<Longrightarrow> safe (pick_one env ms) s"
  unfolding pick_one_def by (auto intro!: safe_intros simp: ms_PickOne_ex)

lemma safe_resize:
  assumes "em_members s = Some ms" "dashed ms" "0 \<le> ecs_Size (etcd_EtcdClusterSpec (em_spec s))"
  shows "safe (resize env) s"
proof -
  have "safe (removeOneMember env) s" if "ms \<noteq> []"
    unfolding removeOneMember_def
    using that assms by (auto intro!: safe_intros safe_pick_one safe_removeMember simp: gets_Ret em_set_def pick_one_Ret)
  then show ?thesis
    unfolding resize_def
    using assms safe_addOneMember [OF assms(1,2)]
    by (cases ms) (auto intro!: safe_intros simp: gets_Ret em_set_def ms_Size_def)
qed

lemma safe_reconcileMembers:
  assumes "em_members s = Some ms" "wf_MemberSet ms" "dashed ms" "0 \<le> ecs_Size (etcd_EtcdClusterSpec (em_spec s))" "wf_MemberSet running"
  shows "safe (reconcileMembers env running) s"
proof -
  let ?U = "ms_Diff running ms"
  let ?del = "guarded (ms_Size ?U > 0) (for_each (range_map (ee_order env (em_calls s)) ?U) (\<lambda>nm. removePod env (mb_Name (snd nm))))"
  have frame: "em_members t = Some ms \<and> em_oc t = em_oc s" if "?del s = (x, t)" for x t
  proof
    show "em_members t = Some ms"
      by (rule keepsD_eq [where m = ?del and s = s])
         (auto intro!: keeps_intros of_members.keeps_removePod simp: that assms(1))
    show "em_oc t = em_oc s"
      by (rule keepsD_eq [where m = ?del and s = s]) (auto intro!: keeps_intros of_oc.keeps_removePod simp: that)
  qed
  have dead: "ms_Diff ms (ms_Diff running ?U) \<noteq> []" if "ms_Size (ms_Diff running ?U) \<noteq> ms_Size ms"
    using mset_impl.pick_dead [OF assms(5,2) that] by (metis ms_PickOne_None option.distinct(1))
  have tail: "safe (let L = ms_Diff running ?U
         in if ms_Size L = ms_Size ms then resize env
            else if ms_Size L < ms_Size ms div 2 + 1 then fail ErrLostQuorum
            else andthen (pick_one env (ms_Diff ms L)) (removeDeadMember env)) t"
    if "em_members t = Some ms" "em_oc t = em_oc s" for t
    unfolding Let_def removeDeadMember_def
    using that assms dead by (auto intro!: safe_intros safe_resize safe_pick_one safe_removeMember simp: pick_one_Ret em_set_def)
  have "reconcileMembers env running s = seq ?del (let L = ms_Diff running ?U
         in if ms_Size L = ms_Size ms then resize env
            else if ms_Size L < ms_Size ms div 2 + 1 then fail ErrLostQuorum
            else andthen (pick_one env (ms_Diff ms L)) (removeDeadMember env)) s"
    by (simp add: reconcileMembers_def go_simps em_set_def assms Let_def)
  moreover have "safe (seq ?del (let L = ms_Diff running ?U
         in if ms_Size L = ms_Size ms then resize env
            else if ms_Size L < ms_Size ms div 2 + 1 then fail ErrLostQuorum
            else andthen (pick_one env (ms_Diff ms L)) (removeDeadMember env))) s"
    by (intro safe_intros tail) (auto dest: frame)
  ultimately show ?thesis by (simp add: safe_def)
qed

lemma wf_podsToMemberSet [simp]: "wf_MemberSet (podsToMemberSet oc pods)"
proof -
  have "wf_MemberSet ms \<Longrightarrow> wf_MemberSet (fold (\<lambda>pod ms. ms_Add (f pod) ms) pods ms)" for f ms
    by (induction pods arbitrary: ms) simp_all
  then show ?thesis by (simp add: podsToMemberSet_def)
qed

lemma names_podsToMemberSet: "ms_names (podsToMemberSet oc pods) = set (GetPodNames pods)"
proof -
  have "ms_names (fold (\<lambda>pod ms. ms_Add (f pod) ms) pods ms) = ms_names ms \<union> (\<lambda>p. mb_Name (f p)) ` set pods" for f ms
    by (induction pods arbitrary: ms) auto
  then show ?thesis by (auto simp: podsToMemberSet_def GetPodNames_def)
qed

text \<open>A pod that cannot be given another version: it has no container, or no annotations to write the version to.\<close>

definition bare_pod :: "Pod \<Rightarrow> bool" where
  "bare_pod pod \<longleftrightarrow> ps_Containers (pod_Spec pod) = [] \<or> om_Annotations (pod_meta pod) = None"

lemma upgraded_pod_None: "upgraded_pod cs pod = None \<longleftrightarrow> bare_pod pod"
  by (auto simp: bare_pod_def upgraded_pod_def update_first_def SetEtcdVersion_def split: list.splits option.splits)

lemma ecall_Ret: "ecall c f s = (Ret x, t) \<longleftrightarrow> f (em_calls s) = Inr x \<and> t = s\<lparr>em_calls := em_calls s @ [c]\<rparr>"
  by (auto simp: ecall_def Let_def split: sum.splits)

lemma upgradeOneMember_panics:
  "(\<exists>p. fst (upgradeOneMember env n s) = Panic p) \<longleftrightarrow> (\<exists>pod. ee_getPod env (em_calls s) n = Inr pod \<and> bare_pod pod)"
proof (cases "ee_getPod env (em_calls s) n")
  case (Inr pod)
  then show ?thesis
    using upgraded_pod_None [of "etcd_EtcdClusterSpec (em_spec s)" pod]
    by (cases "upgraded_pod (etcd_EtcdClusterSpec (em_spec s)) pod")
       (auto simp: upgradeOneMember_def ecall_def ecallE_def go_simps from_option_def map_err_def andthen_def
         attempt_def Let_def split: option.splits sum.splits prod.splits res.splits)
qed (simp add: upgradeOneMember_def ecall_def go_simps)

text \<open>
  C16: When a pass of \<open>reconcile\<close> panics. For members whose names have a dash and a desired size that is not negative, a pass panics in one
  situation only, whatever pods run and however the outside answers: members and size are as desired, a pod of another version is
  picked for an upgrade, and the API server answers the request for that pod with one that has no container or no annotations. In
  every other case there is no panic: no \<open>PickOne\<close> of an empty set, no address of a malformed name, no nil dereference.
\<close>

theorem reconcile_panics_iff:
  assumes "em_members m = Some ms" "wf_MemberSet ms" "dashed ms" "0 \<le> ecs_Size (etcd_EtcdClusterSpec (em_spec m))"
  shows "(\<exists>p. fst (reconcile env pods m) = Panic p) \<longleftrightarrow>
     ms_IsEqual (podsToMemberSet (em_oc m) pods) ms \<and> int (ms_Size ms) = ecs_Size (etcd_EtcdClusterSpec (em_spec m))
     \<and> needUpgrade pods (etcd_EtcdClusterSpec (em_spec m))
     \<and> (\<exists>old pod. pickOneOldMember pods (ecs_Version (etcd_EtcdClusterSpec (em_spec m))) = Some old
          \<and> ee_getPod env (em_calls m) (om_Name (pod_meta old)) = Inr pod \<and> bare_pod pod)"
proof -
  let ?cs = "etcd_EtcdClusterSpec (em_spec m)"
  have safe: "fst (reconcileMembers env (podsToMemberSet (em_oc m) pods) m) \<noteq> Panic p" for p
    using safe_reconcileMembers [OF assms(1-4), of "podsToMemberSet (em_oc m) pods" env] by (simp add: safe_def)
  have up: "(\<exists>p. fst (upgradeOneMember env n (em_status_update g m)) = Panic p) \<longleftrightarrow> (\<exists>pod. ee_getPod env (em_calls m) n = Inr pod \<and> bare_pod pod)" for n g
    by (simp add: upgradeOneMember_panics)
  show ?thesis
  proof (cases "needUpgrade pods ?cs")
    case True
    then obtain old where "pickOneOldMember pods (ecs_Version ?cs) = Some old" by (auto simp: needUpgrade_def)
    with True assms(1) safe up show ?thesis
      by (cases "ms_IsEqual (podsToMemberSet (em_oc m) pods) ms \<and> int (ms_Size ms) = ecs_Size ?cs")
         (auto simp: reconcile_def go_simps em_set_def set_status_def Let_def)
  next
    case False
    with assms(1) safe show ?thesis by (simp add: reconcile_def go_simps em_set_def set_status_def Let_def)
  qed
qed

definition versioned_pod :: "string \<Rightarrow> string \<Rightarrow> Container list \<Rightarrow> Pod" where
  "versioned_pod n v cts = \<lparr>pod_meta = new_meta n ''onecloud'' None (Some [(etcdVersionAnnotationKey, v)]) [],
     pod_Spec = zero_PodSpec\<lparr>ps_Containers := cts\<rparr>, pod_Phase = ''Running'', pod_Conditions = []\<rparr>"

theorem reconcile_panics_iff_witness:
  "let m = mk_manager 1 (Some (mk_set [(''e-a'', 1)])); pods = [versioned_pod ''e-a'' ''3.4'' []];
       env = (\<lambda>cts. (calm_env (etcd_cluster 1))\<lparr>ee_getPod := \<lambda>_ n. Inr (versioned_pod n ''3.4'' cts)\<rparr>)
   in (\<forall>p. fst (reconcile (env [zero_Container]) pods m) \<noteq> Panic p) \<and> (\<exists>p. fst (reconcile (env []) pods m) = Panic p)"
proof -
  let ?ms = "mk_set [(''e-a'', 1)]"
  let ?m = "mk_manager 1 (Some ?ms)" and ?pods = "[versioned_pod ''e-a'' ''3.4'' []]"
  let ?env = "\<lambda>cts. (calm_env (etcd_cluster 1))\<lparr>ee_getPod := \<lambda>_ n. Inr (versioned_pod n ''3.4'' cts)\<rparr>"
  have ms: "em_members ?m = Some ?ms" "wf_MemberSet ?ms" "dashed ?ms" "0 \<le> ecs_Size (etcd_EtcdClusterSpec (em_spec ?m))"
    by (simp_all add: sample_defs wf_MemberSet_def dashed_def)
  have bare: "bare_pod (versioned_pod n v cts) \<longleftrightarrow> cts = []" for n v cts by (simp add: bare_pod_def versioned_pod_def)
  note panics = reconcile_panics_iff [OF ms, of "?env cts" ?pods for cts]
  have "set (GetPodNames ?pods) = ms_names ?ms" by (simp add: GetPodNames_def versioned_pod_def mk_set_def ms_names_def)
  with ms(2) have "ms_IsEqual (podsToMemberSet (em_oc ?m) ?pods) ?ms" by (simp add: ms_IsEqual_iff names_podsToMemberSet)
  moreover have "int (ms_Size ?ms) = ecs_Size (etcd_EtcdClusterSpec (em_spec ?m))"
    "needUpgrade ?pods (etcd_EtcdClusterSpec (em_spec ?m))"
    "pickOneOldMember ?pods (ecs_Version (etcd_EtcdClusterSpec (em_spec ?m))) = Some (versioned_pod ''e-a'' ''3.4'' [])"
    by (simp_all add: sample_defs ms_Size_def versioned_pod_def needUpgrade_def GetEtcdVersion_def gomap_str_def gomap_get_def zero_EtcdClusterSpec_def)
  ultimately have "(\<exists>p. fst (reconcile (?env cts) ?pods ?m) = Panic p) \<longleftrightarrow> cts = []" for cts
    unfolding panics by (simp add: bare)
  then show ?thesis by (simp add: Let_def) (metis list.distinct(1))
qed

section \<open>Progress\<close>

lemma createPod_members: "createPod env ms mb state s = (r, t) \<Longrightarrow> em_members t = em_members s"
  by (rule keeps_sameD [OF of_members.keeps_createPod])

lemma addOneMember_Ret:
  assumes "addOneMember env s = (Ret (), t)" "em_members s = Some ms"
  shows "\<exists>mb h. em_members t = Some (ms_Add mb ms) \<and> mb_Name mb = UniqueMemberName (ee_suffix env h) (getEtcdClusterPrefix (em_oc s))"
  using assms
  by (auto simp: addOneMember_def andthen_Ret_iff seq_Ret_iff gets_Ret map_err_Ret_iff from_option_Ret modify_Ret newMember_def Let_def
        dest!: client_urls_Ret ecall_frame createPod_members) (metis Member.select_convs(1) Member.update_convs(3))

lemma removeMember_Ret:
  assumes "removeMember env mb s = (Ret (), t)"
  shows "em_members t = map_option (ms_Remove (mb_Name mb)) (em_members s)"
proof -
  obtain urls u v w where steps: "removeFromEtcd env urls (mb_ID mb) s = (Ret (), u)"
      "v = em_members_update (map_option (ms_Remove (mb_Name mb))) u"
      "removePod env (mb_Name mb) v = (Ret (), w)"
      "guarded (isPodPVEnabled (em_oc w)) (removePVC env (PVCNameFromMember (mb_Name mb))) w = (Ret (), t)"
    using assms
    by (auto simp: removeMember_def map_err_Ret_iff andthen_Ret_iff seq_Ret_iff gets_Ret modify_Ret dest!: client_urls_Ret)
  have "em_members u = em_members s" by (rule keeps_sameD [OF of_members.keeps_removeFromEtcd steps(1)])
  moreover have "em_members w = em_members v" by (rule keeps_sameD [OF of_members.keeps_removePod steps(3)])
  moreover have "em_members t = em_members w"
    by (rule keeps_sameD [where f = em_members, OF keeps_guarded [OF of_members.keeps_removePVC] steps(4)])
  ultimately show ?thesis using steps(2) by simp
qed

lemma ms_Size_Add_Remove:
  "wf_MemberSet ms \<Longrightarrow> mb_Name mb \<notin> ms_names ms \<Longrightarrow> ms_Size (ms_Add mb ms) = Suc (ms_Size ms)"
  "wf_MemberSet ms \<Longrightarrow> n \<in> ms_names ms \<Longrightarrow> Suc (ms_Size (ms_Remove n ms)) = ms_Size ms"
  by (simp_all add: ms_Size_names mset_impl.names_finite card_Suc_Diff1 del: card_Diff_insert card_Diff_singleton)

text \<open>
  C24: a successful \<open>resize\<close> brings the number of members exactly one closer to the desired size,
  or leaves it when it is the desired size already.
\<close>

theorem resize_progress:
  assumes "em_members m = Some ms" "wf_MemberSet ms" "resize env m = (Ret (), m')"
    and fresh: "\<And>h. UniqueMemberName (ee_suffix env h) (getEtcdClusterPrefix (em_oc m)) \<notin> ms_names ms"
  defines "want \<equiv> ecs_Size (etcd_EtcdClusterSpec (em_spec m))"
  shows "\<exists>ms'. em_members m' = Some ms' \<and> wf_MemberSet ms'
    \<and> \<bar>int (ms_Size ms') - want\<bar> = max 0 (\<bar>int (ms_Size ms) - want\<bar> - 1)"
proof -
  consider (same) "int (ms_Size ms) = want" | (grow) "int (ms_Size ms) < want" | (shrink) "int (ms_Size ms) > want" by linarith
  then show ?thesis
  proof cases
    case same
    then have "m' = m" using assms(1,3) by (simp add: resize_def go_simps em_set_def want_def)
    with same assms(1,2) show ?thesis by simp
  next
    case grow
    then have "addOneMember env m = (Ret (), m')" using assms(1,3) by (simp add: resize_def go_simps em_set_def want_def)
    from addOneMember_Ret [OF this assms(1)] fresh obtain mb where "em_members m' = Some (ms_Add mb ms)" "mb_Name mb \<notin> ms_names ms"
      by metis
    with grow assms(2) show ?thesis by (auto simp: ms_Size_Add_Remove)
  next
    case shrink
    then have "removeOneMember env m = (Ret (), m')" using assms(1,3) by (simp add: resize_def go_simps em_set_def want_def)
    then obtain mb where mb: "ms_PickOne (ee_order env (em_calls m)) ms = Some mb" "removeMember env mb m = (Ret (), m')"
      using assms(1) by (auto simp: removeOneMember_def andthen_Ret_iff gets_Ret pick_one_Ret em_set_def)
    then have "mb_Name mb \<in> ms_names ms" using assms(2) mset_impl.pick_in by blast
    then have "int (ms_Size (ms_Remove (mb_Name mb) ms)) = int (ms_Size ms) - 1"
      using ms_Size_Add_Remove(2) [OF assms(2)] by fastforce
    with shrink removeMember_Ret [OF mb(2)] assms(1,2) show ?thesis by simp
  qed
qed

theorem resize_progress_witness:
  "\<exists>ms'. em_members (snd (resize (calm_env (etcd_cluster 1)) (mk_manager 1 (Some (mk_set [(''e-a'', 1), (''e-b'', 2)]))))) = Some ms'
     \<and> \<bar>int (ms_Size ms') - 1\<bar> = 0"
proof -
  let ?ms = "mk_set [(''e-a'', 1), (''e-b'', 2)]"
  let ?m = "mk_manager 1 (Some ?ms)"
  have f: "fst (resize (calm_env (etcd_cluster 1)) ?m) = Ret ()" by code_simp
  then obtain m' where e: "resize (calm_env (etcd_cluster 1)) ?m = (Ret (), m')" by (metis prod.collapse)
  have w: "wf_MemberSet ?ms" "em_members ?m = Some ?ms" "ecs_Size (etcd_EtcdClusterSpec (em_spec ?m)) = 1" "ms_Size ?ms = 2"
    by (simp_all add: sample_defs wf_MemberSet_def ms_Size_def)
  have fresh: "UniqueMemberName (ee_suffix (calm_env (etcd_cluster 1)) h) (getEtcdClusterPrefix (em_oc ?m)) \<notin> ms_names ?ms" for h
    by (simp add: sample_defs UniqueMemberName_def getEtcdClusterPrefix_def ms_names_def Let_def MaxNameLength_def randomSuffixLength_def)
  show ?thesis
    using resize_progress [OF w(2,1) e fresh] e w(3,4) by auto
qed

text \<open>
  C32: when the running pods are the members, their number is the desired size and every pod has the
  desired version, \<open>reconcile\<close> makes no call at all and only records size and version.
\<close>

theorem reconcile_fixpoint:
  assumes "em_members m = Some ms" "wf_MemberSet ms" "set (GetPodNames pods) = ms_names ms"
    and "int (ms_Size ms) = ecs_Size (etcd_EtcdClusterSpec (em_spec m))"
    and "\<forall>p\<in>set pods. GetEtcdVersion p = ecs_Version (etcd_EtcdClusterSpec (em_spec m))"
  shows "reconcile env pods m = (Ret (), m\<lparr>em_status := (em_status m)\<lparr>es_TargetVersion := [],
           es_CurrentVersion := ecs_Version (etcd_EtcdClusterSpec (em_spec m)), es_Size := int (ms_Size ms)\<rparr>\<rparr>)"
proof -
  have eq: "ms_IsEqual (podsToMemberSet (em_oc m) pods) ms"
    using assms(2,3) by (simp add: ms_IsEqual_iff names_podsToMemberSet)
  have none: "pickOneOldMember pods v = None" if "\<forall>p\<in>set pods. GetEtcdVersion p = v" for v
    using that by (induction pods) auto
  show ?thesis
    unfolding reconcile_def Let_def
    using assms(1,4) eq none [OF assms(5)]
    by (simp add: go_simps em_set_def needUpgrade_def set_status_def)
qed

theorem reconcile_fixpoint_witness:
  "em_calls (snd (reconcile (calm_env (etcd_cluster 1)) [versioned_pod ''e-a'' [] []] (mk_manager 1 (Some (mk_set [(''e-a'', 1)]))))) = []"
proof -
  let ?m = "mk_manager 1 (Some (mk_set [(''e-a'', 1)]))"
  have "em_members ?m = Some (mk_set [(''e-a'', 1)])" "wf_MemberSet (mk_set [(''e-a'', 1)])"
    "set (GetPodNames [versioned_pod ''e-a'' [] []]) = ms_names (mk_set [(''e-a'', 1)])"
    "int (ms_Size (mk_set [(''e-a'', 1)])) = ecs_Size (etcd_EtcdClusterSpec (em_spec ?m))"
    "\<forall>p\<in>set [versioned_pod ''e-a'' [] []]. GetEtcdVersion p = ecs_Version (etcd_EtcdClusterSpec (em_spec ?m))"
    by (simp_all add: sample_defs wf_MemberSet_def ms_names_def ms_Size_def GetPodNames_def versioned_pod_def GetEtcdVersion_def
          gomap_str_def gomap_get_def zero_EtcdClusterSpec_def)
  from reconcile_fixpoint [OF this, of "calm_env (etcd_cluster 1)"] show ?thesis
    by (simp add: mk_manager_def)
qed

end
