(* ===== verification/Kube_Api.thy ===== *)
theory Kube_Api
  imports OC_Names
begin

text \<open>
  The objects the operator manages in the API server and the controls through which it does
  (\<open>pkg/controller/*_control.go\<close>): creation, deletion, and updates that are retried on conflicts.
  Every call is logged in the state; what the API server, the informer caches and the other
  outside parties answer is the argument \<open>kube_env\<close>, a function of all the calls before, so that
  an answer may change at any time.
\<close>

section \<open>Objects and calls\<close>

text \<open>An ingress is unstructured; \<open>un_Spec\<close> is what \<open>NestedMap\<close> reads under \<open>spec\<close>.\<close>

record Unstructured =
  un_meta :: ObjectMeta
  un_Spec :: "goerr + raw option"

datatype kobj =
    KDeployment Deployment
  | KDaemonSet DaemonSet
  | KCronJob CronJob
  | KService CoreService
  | KConfigMap ConfigMap
  | KPVC PersistentVolumeClaim
  | KIngress Unstructured

datatype kind = DeploymentKind | DaemonSetKind | CronJobKind | ServiceKind | ConfigMapKind | PVCKind | IngressKind

fun kobj_kind :: "kobj \<Rightarrow> kind" where
  "kobj_kind (KDeployment _) = DeploymentKind"
| "kobj_kind (KDaemonSet _) = DaemonSetKind"
| "kobj_kind (KCronJob _) = CronJobKind"
| "kobj_kind (KService _) = ServiceKind"
| "kobj_kind (KConfigMap _) = ConfigMapKind"
| "kobj_kind (KPVC _) = PVCKind"
| "kobj_kind (KIngress _) = IngressKind"

fun kobj_meta :: "kobj \<Rightarrow> ObjectMeta" where
  "kobj_meta (KDeployment d) = dep_meta d"
| "kobj_meta (KDaemonSet d) = dmn_meta d"
| "kobj_meta (KCronJob c) = cj_meta c"
| "kobj_meta (KService s) = svc_meta s"
| "kobj_meta (KConfigMap c) = cm_meta c"
| "kobj_meta (KPVC p) = pvc_meta p"
| "kobj_meta (KIngress i) = un_meta i"

abbreviation kobj_name :: "kobj \<Rightarrow> string" where
  "kobj_name x \<equiv> om_Name (kobj_meta x)"

definition kind_text :: "kind \<Rightarrow> string" where
  "kind_text k = (case k of DeploymentKind \<Rightarrow> ''Deployment'' | DaemonSetKind \<Rightarrow> ''DaemonSet''
     | CronJobKind \<Rightarrow> ''CronJob'' | ServiceKind \<Rightarrow> ''Service'' | ConfigMapKind \<Rightarrow> ''ConfigMap''
     | PVCKind \<Rightarrow> ''PersistentVolumeClaim'' | IngressKind \<Rightarrow> ''Ingress'')"

text \<open>
  Calls to the outside. \<open>KLister\<close> reads an informer cache, \<open>KGet\<close> asks the API server; the calls
  after \<open>KEvent\<close> concern the cluster object itself and the parties outside Kubernetes.
\<close>

datatype kcall =
    KCreate kobj
  | KUpdate kobj
  | KDelete kind string
  | KLister kind string
  | KGet kind string
  | KEvent bool string string
  | KUpdateOC OnecloudCluster
  | KListerOC string
  | KGetOC string
  | KListerSecret string
  | KCreateCert
  | KCreateEtcdCert
  | KEnsureDB string DBConfig
  | KEnsureAccount CloudUser
  | KPhaseSetup string
  | KPhaseInit string
  | KMcclientSync string
  | KNode
  | KMinio string
  | KGlanceS3
  | KMysql string
  | KNotify "strmap list"

text \<open>The calls that change objects of the cluster.\<close>

fun is_write :: "kcall \<Rightarrow> bool" where
  "is_write (KCreate _) = True"
| "is_write (KUpdate _) = True"
| "is_write (KDelete _ _) = True"
| "is_write _ = False"

record kube_env =
  ke_create :: "kcall list \<Rightarrow> kobj \<Rightarrow> goerr option"
  ke_update :: "kcall list \<Rightarrow> kobj \<Rightarrow> goerr option"
  ke_delete :: "kcall list \<Rightarrow> kind \<Rightarrow> string \<Rightarrow> goerr option"
  ke_listDeployment :: "kcall list \<Rightarrow> string \<Rightarrow> goerr + Deployment"
  ke_listDaemonSet :: "kcall list \<Rightarrow> string \<Rightarrow> goerr + DaemonSet"
  ke_listCronJob :: "kcall list \<Rightarrow> string \<Rightarrow> goerr + CronJob"
  ke_listService :: "kcall list \<Rightarrow> string \<Rightarrow> goerr + CoreService"
  ke_listConfigMap :: "kcall list \<Rightarrow> string \<Rightarrow> goerr + ConfigMap"
  ke_listPVC :: "kcall list \<Rightarrow> string \<Rightarrow> goerr + PersistentVolumeClaim"
  ke_listIngress :: "kcall list \<Rightarrow> string \<Rightarrow> goerr + Unstructured"
  ke_getIngress :: "kcall list \<Rightarrow> string \<Rightarrow> goerr + Unstructured"
  ke_getDeployment :: "kcall list \<Rightarrow> string \<Rightarrow> goerr + Deployment"
  ke_getConfigMap :: "kcall list \<Rightarrow> string \<Rightarrow> goerr + ConfigMap"
  ke_listNodes :: "kcall list \<Rightarrow> goerr + Node list"
  ke_listBaremetalNodes :: "kcall list \<Rightarrow> goerr + Node list"
  ke_minioSecret :: "kcall list \<Rightarrow> goerr + (string \<times> string) list"
  ke_minioService :: "kcall list \<Rightarrow> goerr + CoreService"
  ke_glanceS3 :: "kcall list \<Rightarrow> goerr option"
  ke_getCronJob :: "kcall list \<Rightarrow> string \<Rightarrow> goerr + CronJob"
  ke_updateOC :: "kcall list \<Rightarrow> OnecloudCluster \<Rightarrow> goerr + OnecloudCluster"
  ke_listOC :: "kcall list \<Rightarrow> string \<Rightarrow> goerr + OnecloudCluster"
  ke_getOC :: "kcall list \<Rightarrow> string \<Rightarrow> goerr + OnecloudCluster"
  ke_listSecret :: "kcall list \<Rightarrow> string \<Rightarrow> goerr option"
  ke_createCert :: "kcall list \<Rightarrow> goerr option"
  ke_createEtcdCert :: "kcall list \<Rightarrow> goerr option"
  ke_ensureDB :: "kcall list \<Rightarrow> string \<Rightarrow> DBConfig \<Rightarrow> goerr option"
  ke_ensureAccount :: "kcall list \<Rightarrow> CloudUser \<Rightarrow> goerr option"
  ke_phaseSetup :: "kcall list \<Rightarrow> string \<Rightarrow> goerr option"
  ke_phaseInit :: "kcall list \<Rightarrow> string \<Rightarrow> goerr option"
  ke_mcclientSync :: "kcall list \<Rightarrow> string \<Rightarrow> goerr option"
  ke_v120 :: bool
  ke_errText :: "goerr \<Rightarrow> string"

text \<open>The state: the calls made so far and the cluster object in memory.\<close>

record kworld =
  kw_calls :: "kcall list"
  kw_oc :: OnecloudCluster

type_synonym 'a km = "(kworld, 'a) go"

definition kcall :: "kcall \<Rightarrow> (kcall list \<Rightarrow> goerr + 'a) \<Rightarrow> 'a km" where
  "kcall c f = (\<lambda>w. let w' = w\<lparr>kw_calls := kw_calls w @ [c]\<rparr>
                     in case f (kw_calls w) of Inl e \<Rightarrow> (Fail e, w') | Inr x \<Rightarrow> (Ret x, w'))"

definition kcallE :: "kcall \<Rightarrow> (kcall list \<Rightarrow> goerr option) \<Rightarrow> unit km" where
  "kcallE c f = kcall c (\<lambda>h. case f h of Some e \<Rightarrow> Inl e | None \<Rightarrow> Inr ())"

section \<open>Events\<close>

text \<open>\<open>strings.Title\<close> on the verbs in use: the first letter in upper case.\<close>

definition title :: "string \<Rightarrow> string" where
  "title v = (case v of [] \<Rightarrow> [] | c # cs \<Rightarrow>
     (if 97 \<le> (of_char c :: nat) \<and> (of_char c :: nat) \<le> 122 then char_of (of_char c - (32 :: nat)) else c) # cs)"

text \<open>
  \<open>recordResourceEvent\<close>: an event on the cluster object, not recorded from Kubernetes 1.20 on; the
  first argument of \<open>KEvent\<close> says whether it is a warning.
\<close>

definition recordResourceEvent :: "kube_env \<Rightarrow> string \<Rightarrow> kind \<Rightarrow> string \<Rightarrow> goerr option \<Rightarrow> unit km" where
  "recordResourceEvent env verb k resourceName err =
     andthen (gets (\<lambda>w. om_Name (oc_ObjectMeta (kw_oc w)))) (\<lambda>ocName.
     let message = verb @ '' '' @ kind_text k @ '' '' @ resourceName @ '' in OnecloudCluster '' @ ocName
     in guarded (\<not> ke_v120 env)
         (case err of
            None \<Rightarrow> kcallE (KEvent False (''Successful'' @ title verb) (message @ '' successful'')) (\<lambda>_. None)
          | Some e \<Rightarrow> kcallE (KEvent True (''Failed'' @ title verb) (message @ '' failed error: '' @ ke_errText env e)) (\<lambda>_. None)))"

section \<open>Retry on conflict\<close>

text \<open>
  \<open>RetryOnConflict\<close> of client-go: the body runs at most \<open>n\<close> times, again only after a conflict. The
  body is a closure over a variable, which it returns with the error.
\<close>

fun RetryOnConflict :: "nat \<Rightarrow> ('x \<Rightarrow> ('s, goerr option \<times> 'x) go) \<Rightarrow> 'x \<Rightarrow> ('s, goerr option \<times> 'x) go" where
  "RetryOnConflict 0 f x = ret (None, x)"
| "RetryOnConflict (Suc n) f x =
     andthen (f x) (\<lambda>(err, x'). case err of
       None \<Rightarrow> ret (None, x')
     | Some e \<Rightarrow> (if is_conflict e \<and> n \<noteq> 0 then RetryOnConflict n f x' else ret (Some e, x')))"

definition DefaultBackoff_Steps :: nat where
  "DefaultBackoff_Steps = 4"

definition DefaultRetry_Steps :: nat where
  "DefaultRetry_Steps = 5"

text \<open>One attempt: send the object; when that fails, \<open>refresh\<close> decides what is sent next.\<close>

definition update_attempt :: "('x \<Rightarrow> ('s, unit) go) \<Rightarrow> ('x \<Rightarrow> ('s, 'x) go) \<Rightarrow> 'x \<Rightarrow> ('s, goerr option \<times> 'x) go" where
  "update_attempt send refresh x =
     andthen (attempt (send x)) (\<lambda>r. case r of
       Inr _ \<Rightarrow> ret (None, x)
     | Inl e \<Rightarrow> andthen (refresh x) (\<lambda>x'. ret (Some e, x')))"

definition update_object ::
  "kube_env \<Rightarrow> ('x \<Rightarrow> kobj) \<Rightarrow> ('x \<Rightarrow> 'x km) \<Rightarrow> 'x \<Rightarrow> unit km" where
  "update_object env K refresh x =
     andthen (RetryOnConflict DefaultBackoff_Steps
                (update_attempt (\<lambda>y. kcallE (KUpdate (K y)) (\<lambda>h. ke_update env h (K y))) refresh) x) (\<lambda>(err, y).
     seq (recordResourceEvent env ''update'' (kobj_kind (K y)) (kobj_name (K y)) err)
         (lift_err err))"

text \<open>The object read again from a cache, with the specification to be written; kept when the cache has none.\<close>

definition refreshed :: "kcall \<Rightarrow> (kcall list \<Rightarrow> goerr + 'x) \<Rightarrow> ('x \<Rightarrow> 'x) \<Rightarrow> 'x \<Rightarrow> 'x km" where
  "refreshed c look respec x =
     andthen (attempt (kcall c look)) (\<lambda>r. case r of Inr updated \<Rightarrow> ret (respec updated) | Inl _ \<Rightarrow> ret x)"

text \<open>
  The inverted test of the service and config map controls: a cached object is not used, and when the
  cache has none the nil object is dereferenced.
\<close>

definition not_refreshed :: "kcall \<Rightarrow> (kcall list \<Rightarrow> goerr + 'x) \<Rightarrow> 'x \<Rightarrow> 'x km" where
  "not_refreshed c look x =
     andthen (attempt (kcall c look)) (\<lambda>r. case r of Inr _ \<Rightarrow> ret x | Inl _ \<Rightarrow> go_panic ''nil dereference'')"

section \<open>The controls\<close>

text \<open>Creation and deletion are the same in all controls; "already exists" is returned without an event.\<close>

definition create_object :: "kube_env \<Rightarrow> kobj \<Rightarrow> unit km" where
  "create_object env x =
     andthen (attempt (kcallE (KCreate x) (\<lambda>h. ke_create env h x))) (\<lambda>r.
     let err = (case r of Inl e \<Rightarrow> Some e | Inr _ \<Rightarrow> None)
     in seq (guarded (\<not> (case err of Some e \<Rightarrow> is_already_exists e | None \<Rightarrow> False))
               (recordResourceEvent env ''create'' (kobj_kind x) (kobj_name x) err))
            (lift_err err))"

definition delete_object :: "kube_env \<Rightarrow> kind \<Rightarrow> string \<Rightarrow> unit km" where
  "delete_object env k name =
     andthen (attempt (kcallE (KDelete k name) (\<lambda>h. ke_delete env h k name))) (\<lambda>r.
     let err = (case r of Inl e \<Rightarrow> Some e | Inr _ \<Rightarrow> None)
     in seq (recordResourceEvent env ''delete'' k name err) (lift_err err))"

definition CreateDeployment :: "kube_env \<Rightarrow> Deployment \<Rightarrow> unit km" where
  "CreateDeployment env deploy = create_object env (KDeployment deploy)"

definition UpdateDeployment :: "kube_env \<Rightarrow> Deployment \<Rightarrow> unit km" where
  "UpdateDeployment env deploy =
     (let name = om_Name (dep_meta deploy)
      in update_object env KDeployment (refreshed (KLister DeploymentKind name) (\<lambda>h. ke_listDeployment env h name)
           (\<lambda>updated. updated\<lparr>dep_Spec := dep_Spec deploy\<rparr>)) deploy)"

definition DeleteDeployment :: "kube_env \<Rightarrow> string \<Rightarrow> unit km" where
  "DeleteDeployment env name = delete_object env DeploymentKind name"

definition CreateDaemonSet :: "kube_env \<Rightarrow> DaemonSet \<Rightarrow> unit km" where
  "CreateDaemonSet env ds = create_object env (KDaemonSet ds)"

definition UpdateDaemonSet :: "kube_env \<Rightarrow> DaemonSet \<Rightarrow> unit km" where
  "UpdateDaemonSet env ds =
     (let name = om_Name (dmn_meta ds)
      in update_object env KDaemonSet (refreshed (KLister DaemonSetKind name) (\<lambda>h. ke_listDaemonSet env h name)
           (\<lambda>updated. updated\<lparr>dmn_Spec := dmn_Spec ds\<rparr>)) ds)"

definition DeleteDaemonSet :: "kube_env \<Rightarrow> DaemonSet \<Rightarrow> unit km" where
  "DeleteDaemonSet env ds = delete_object env DaemonSetKind (om_Name (dmn_meta ds))"

definition CreateCronJob :: "kube_env \<Rightarrow> CronJob \<Rightarrow> unit km" where
  "CreateCronJob env cj = create_object env (KCronJob cj)"

definition UpdateCronJob :: "kube_env \<Rightarrow> CronJob \<Rightarrow> unit km" where
  "UpdateCronJob env cj =
     (let name = om_Name (cj_meta cj)
      in update_object env KCronJob (refreshed (KLister CronJobKind name) (\<lambda>h. ke_listCronJob env h name)
           (\<lambda>updated. updated\<lparr>cj_Spec := cj_Spec cj\<rparr>)) cj)"

definition DeleteCronJob :: "kube_env \<Rightarrow> string \<Rightarrow> unit km" where
  "DeleteCronJob env name = delete_object env CronJobKind name"

definition CreateService :: "kube_env \<Rightarrow> CoreService \<Rightarrow> unit km" where
  "CreateService env svc = create_object env (KService svc)"

definition UpdateService :: "kube_env \<Rightarrow> CoreService \<Rightarrow> unit km" where
  "UpdateService env svc =
     (let name = om_Name (svc_meta svc)
      in update_object env KService (not_refreshed (KLister ServiceKind name) (\<lambda>h. ke_listService env h name)) svc)"

definition DeleteService :: "kube_env \<Rightarrow> CoreService \<Rightarrow> unit km" where
  "DeleteService env svc = delete_object env ServiceKind (om_Name (svc_meta svc))"

definition CreateConfigMap :: "kube_env \<Rightarrow> ConfigMap \<Rightarrow> unit km" where
  "CreateConfigMap env cfg = create_object env (KConfigMap cfg)"

definition UpdateConfigMap :: "kube_env \<Rightarrow> ConfigMap \<Rightarrow> unit km" where
  "UpdateConfigMap env cfg =
     (let name = om_Name (cm_meta cfg)
      in update_object env KConfigMap (not_refreshed (KLister ConfigMapKind name) (\<lambda>h. ke_listConfigMap env h name)) cfg)"

definition DeleteConfigMap :: "kube_env \<Rightarrow> ConfigMap \<Rightarrow> unit km" where
  "DeleteConfigMap env cfg = delete_object env ConfigMapKind (om_Name (cm_meta cfg))"

definition CreateIngress :: "kube_env \<Rightarrow> Unstructured \<Rightarrow> unit km" where
  "CreateIngress env ing = create_object env (KIngress ing)"

text \<open>The ingress control asks the API server instead of the cache, and writes back the spec it read before.\<close>

definition UpdateIngress :: "kube_env \<Rightarrow> Unstructured \<Rightarrow> unit km" where
  "UpdateIngress env ing =
     (let name = om_Name (un_meta ing);
          ingSpec = (case un_Spec ing of Inr s \<Rightarrow> s | Inl _ \<Rightarrow> None)
      in update_object env KIngress (refreshed (KGet IngressKind name) (\<lambda>h. ke_getIngress env h name)
           (\<lambda>updated. updated\<lparr>un_Spec := Inr ingSpec\<rparr>)) ing)"

definition DeleteIngress :: "kube_env \<Rightarrow> Unstructured \<Rightarrow> unit km" where
  "DeleteIngress env ing = delete_object env IngressKind (om_Name (un_meta ing))"

definition CreatePVC :: "kube_env \<Rightarrow> PersistentVolumeClaim \<Rightarrow> unit km" where
  "CreatePVC env pvc = create_object env (KPVC pvc)"

definition DeletePVC :: "kube_env \<Rightarrow> PersistentVolumeClaim \<Rightarrow> unit km" where
  "DeletePVC env pvc = ret ()"

definition UpdatePVC :: "kube_env \<Rightarrow> PersistentVolumeClaim \<Rightarrow> unit km" where
  "UpdatePVC env pvc = ret ()"

text \<open>
  \<open>UpdateCluster\<close>: after a failed update the object in the cache is taken, with the status of the
  caller's object, so whatever the caller changed in the specification is not sent again. The closure
  has two variables, the object to send and the answer.
\<close>

definition recordClusterEvent :: "kube_env \<Rightarrow> string \<Rightarrow> string \<Rightarrow> goerr option \<Rightarrow> unit km" where
  "recordClusterEvent env verb ocName err =
     (let message = verb @ '' OnecloudCluster '' @ ocName
      in guarded (\<not> ke_v120 env)
         (case err of
            None \<Rightarrow> kcallE (KEvent False (''Successful'' @ title verb) (message @ '' sucessful'')) (\<lambda>_. None)
          | Some e \<Rightarrow> kcallE (KEvent True (''Failed'' @ title verb) (message @ '' failed error: '' @ ke_errText env e)) (\<lambda>_. None)))"

definition cluster_attempt ::
  "kube_env \<Rightarrow> string \<Rightarrow> OnecloudClusterStatus \<Rightarrow> OnecloudCluster \<times> OnecloudCluster option
     \<Rightarrow> (goerr option \<times> (OnecloudCluster \<times> OnecloudCluster option)) km" where
  "cluster_attempt env ocName status x =
     andthen (attempt (kcall (KUpdateOC (fst x)) (\<lambda>h. ke_updateOC env h (fst x)))) (\<lambda>r. case r of
       Inr upd \<Rightarrow> ret (None, (fst x, Some upd))
     | Inl e \<Rightarrow>
         andthen (attempt (kcall (KListerOC ocName) (\<lambda>h. ke_listOC env h ocName))) (\<lambda>u. case u of
           Inl _ \<Rightarrow> ret (Some e, x)
         | Inr updated \<Rightarrow> ret (Some e, (updated\<lparr>oc_Status := status\<rparr>, snd x))))"

definition UpdateCluster :: "kube_env \<Rightarrow> OnecloudCluster \<Rightarrow> bool \<Rightarrow> OnecloudCluster option km" where
  "UpdateCluster env oc sameStatus =
     (let ocName = om_Name (oc_ObjectMeta oc)
      in andthen (RetryOnConflict DefaultRetry_Steps (cluster_attempt env ocName (oc_Status oc)) (oc, None)) (\<lambda>(err, x).
         seq (guarded (\<not> sameStatus) (recordClusterEvent env ''update'' (om_Name (oc_ObjectMeta (fst x))) err))
        (seq (lift_err err) (ret (snd x)))))"

definition GetCluster :: "kube_env \<Rightarrow> string \<Rightarrow> OnecloudCluster km" where
  "GetCluster env name = kcall (KListerOC name) (\<lambda>h. ke_listOC env h name)"

end
