(* ===== verification/Last_Applied.thy ===== *)
theory Last_Applied
  imports Kube_Api
begin

text \<open>
  How the operator decides whether an object has to be updated (\<open>pkg/manager/component/utils.go\<close>):
  it writes the specification it applied into an annotation and compares the next specification
  with that annotation, not with the live object. \<open>json.Marshal\<close> and \<open>json.Unmarshal\<close> on the API
  types and \<open>apiequality.Semantic.DeepEqual\<close> are arguments of the model (\<open>json\<close>).
\<close>

section \<open>Encoding\<close>

record json =
  js_Service :: "CoreServiceSpec \<Rightarrow> goerr + string"
  js_unService :: "string \<Rightarrow> goerr + CoreServiceSpec"
  js_eqService :: "CoreServiceSpec \<Rightarrow> CoreServiceSpec \<Rightarrow> bool"
  js_Ingress :: "raw option \<Rightarrow> goerr + string"
  js_unIngress :: "string \<Rightarrow> goerr + raw option"
  js_eqIngress :: "raw option \<Rightarrow> raw option \<Rightarrow> bool"
  js_Data :: "gomap \<Rightarrow> goerr + string"
  js_unData :: "string \<Rightarrow> goerr + gomap"
  js_eqData :: "gomap \<Rightarrow> gomap \<Rightarrow> bool"
  js_Deployment :: "AppsDeploymentSpec \<Rightarrow> goerr + string"
  js_unDeployment :: "string \<Rightarrow> goerr + AppsDeploymentSpec"
  js_DaemonSet :: "AppsDaemonSetSpec \<Rightarrow> goerr + string"
  js_unDaemonSet :: "string \<Rightarrow> goerr + AppsDaemonSetSpec"
  js_CronJob :: "BatchCronJobSpec \<Rightarrow> goerr + string"
  js_unCronJob :: "string \<Rightarrow> goerr + BatchCronJobSpec"
  js_Job :: "int option \<times> PodTemplateSpec \<Rightarrow> goerr + string"
  js_Pod :: "PodSpec \<Rightarrow> goerr + string"
  js_unPod :: "string \<Rightarrow> goerr + PodSpec"
  js_eqPod :: "PodSpec \<Rightarrow> PodSpec \<Rightarrow> bool"
  js_eqTemplate :: "PodTemplateSpec \<Rightarrow> PodTemplateSpec \<Rightarrow> bool"

definition LastAppliedConfigAnnotation :: string where
  "LastAppliedConfigAnnotation = ''onecloud.yunion.io/last-applied-configuration''"

definition last_applied :: "gomap \<Rightarrow> string option" where
  "last_applied annotations = gomap_get annotations LastAppliedConfigAnnotation"

definition set_last_applied :: "string \<Rightarrow> gomap \<Rightarrow> gomap" where
  "set_last_applied text annotations = gomap_set LastAppliedConfigAnnotation text annotations"

lemma last_applied_set [simp]: "last_applied (set_last_applied t a) = Some t"
  by (simp add: last_applied_def set_last_applied_def)

lemma set_last_applied_Some [simp]: "\<exists>m. set_last_applied t a = Some m"
  by (simp add: set_last_applied_def gomap_set_def)

section \<open>Setting the annotation\<close>

text \<open>
  The functions change the object they are given, also when they return an error after the first of
  two annotations: they return the error and the object.
\<close>

definition SetServiceLastAppliedConfigAnnotation :: "json \<Rightarrow> CoreService \<Rightarrow> goerr option \<times> CoreService" where
  "SetServiceLastAppliedConfigAnnotation js svc =
     (case js_Service js (svc_Spec svc) of
        Inl e \<Rightarrow> (Some e, svc)
      | Inr t \<Rightarrow> (None, svc_meta_update (om_Annotations_update (set_last_applied t)) svc))"

definition SetIngressLastAppliedConfigAnnotation :: "json \<Rightarrow> Unstructured \<Rightarrow> goerr option \<times> Unstructured" where
  "SetIngressLastAppliedConfigAnnotation js ing =
     (case un_Spec ing of
        Inl e \<Rightarrow> (Some (Wrapped ''get ingress spec'' e), ing)
      | Inr spec \<Rightarrow>
          (case js_Ingress js spec of
             Inl e \<Rightarrow> (Some e, ing)
           | Inr t \<Rightarrow> (None, un_meta_update (om_Annotations_update (set_last_applied t)) ing)))"

definition SetConfigMapLastAppliedConfigAnnotation :: "json \<Rightarrow> ConfigMap \<Rightarrow> goerr option \<times> ConfigMap" where
  "SetConfigMapLastAppliedConfigAnnotation js cfg =
     (case js_Data js (cm_Data cfg) of
        Inl e \<Rightarrow> (Some e, cfg)
      | Inr t \<Rightarrow> (None, cm_meta_update (om_Annotations_update (set_last_applied t)) cfg))"

definition SetDeploymentLastAppliedConfigAnnotation :: "json \<Rightarrow> Deployment \<Rightarrow> goerr option \<times> Deployment" where
  "SetDeploymentLastAppliedConfigAnnotation js deploy =
     (case js_Deployment js (dep_Spec deploy) of
        Inl e \<Rightarrow> (Some e, deploy)
      | Inr t \<Rightarrow>
          (let d1 = dep_meta_update (om_Annotations_update (set_last_applied t)) deploy
           in case js_Pod js (pt_Spec (dsp_Template (dep_Spec deploy))) of
                Inl e \<Rightarrow> (Some e, d1)
              | Inr p \<Rightarrow> (None, dep_Spec_update (dsp_Template_update (pt_Annotations_update (set_last_applied p))) d1)))"

definition SetDaemonSetLastAppliedConfigAnnotation :: "json \<Rightarrow> DaemonSet \<Rightarrow> goerr option \<times> DaemonSet" where
  "SetDaemonSetLastAppliedConfigAnnotation js ds =
     (case js_DaemonSet js (dmn_Spec ds) of
        Inl e \<Rightarrow> (Some e, ds)
      | Inr t \<Rightarrow>
          (let d1 = dmn_meta_update (om_Annotations_update (set_last_applied t)) ds
           in case js_Pod js (pt_Spec (dss_Template (dmn_Spec ds))) of
                Inl e \<Rightarrow> (Some e, d1)
              | Inr p \<Rightarrow> (None, dmn_Spec_update (dss_Template_update (pt_Annotations_update (set_last_applied p))) d1)))"

text \<open>
  The annotations of the job template and of its pod template are one map in every cron job the
  operator builds (\<open>newCronJob\<close>), so writing the first also writes the second when it is not nil.
\<close>

definition SetCronJobLastAppliedConfigAnnotation :: "json \<Rightarrow> CronJob \<Rightarrow> goerr option \<times> CronJob" where
  "SetCronJobLastAppliedConfigAnnotation js cj =
     (case js_CronJob js (cj_Spec cj) of
        Inl e \<Rightarrow> (Some e, cj)
      | Inr t \<Rightarrow>
          (let c1 = cj_meta_update (om_Annotations_update (set_last_applied t)) cj
           in case js_Job js (cjs_BackoffLimit (cj_Spec cj), cjs_Template (cj_Spec cj)) of
                Inl e \<Rightarrow> (Some e, c1)
              | Inr p \<Rightarrow> (None, cj_Spec_update (\<lambda>sp. sp
                   \<lparr>cjs_JobAnnotations := set_last_applied p (cjs_JobAnnotations sp),
                    cjs_Template := (if cjs_JobAnnotations sp = None then cjs_Template sp
                                     else (cjs_Template sp)\<lparr>pt_Annotations := set_last_applied p (cjs_JobAnnotations sp)\<rparr>)\<rparr>) c1)))"

section \<open>Comparing with the annotation\<close>

definition serviceEqual :: "json \<Rightarrow> CoreService \<Rightarrow> CoreService \<Rightarrow> goerr + bool" where
  "serviceEqual js new old =
     (case last_applied (om_Annotations (svc_meta old)) of
        None \<Rightarrow> Inr False
      | Some t \<Rightarrow> (case js_unService js t of
                     Inl e \<Rightarrow> Inl e
                   | Inr oldSpec \<Rightarrow> Inr (js_eqService js oldSpec (svc_Spec new))))"

definition ingressEqual :: "json \<Rightarrow> Unstructured \<Rightarrow> Unstructured \<Rightarrow> goerr + bool" where
  "ingressEqual js new old =
     (case last_applied (om_Annotations (un_meta old)) of
        None \<Rightarrow> Inr False
      | Some t \<Rightarrow> (case js_unIngress js t of
                     Inl e \<Rightarrow> Inl e
                   | Inr oldSpec \<Rightarrow> (case un_Spec new of
                                      Inl e \<Rightarrow> Inl (Wrapped ''NestedMap of new ingress'' e)
                                    | Inr newSpec \<Rightarrow> Inr (js_eqIngress js oldSpec newSpec))))"

definition configMapEqual :: "json \<Rightarrow> ConfigMap \<Rightarrow> ConfigMap \<Rightarrow> goerr + bool" where
  "configMapEqual js new old =
     (case last_applied (om_Annotations (cm_meta old)) of
        None \<Rightarrow> Inr False
      | Some t \<Rightarrow> (case js_unData js t of
                     Inl e \<Rightarrow> Inl e
                   | Inr oldData \<Rightarrow> Inr (js_eqData js oldData (cm_Data new))))"

definition templateEqual :: "json \<Rightarrow> PodTemplateSpec \<Rightarrow> PodTemplateSpec \<Rightarrow> bool" where
  "templateEqual js new old =
     (case last_applied (pt_Annotations old) of
        None \<Rightarrow> False
      | Some t \<Rightarrow> (case js_unPod js t of Inl e \<Rightarrow> False | Inr oldConfig \<Rightarrow> js_eqPod js oldConfig (pt_Spec new)))"

definition deploymentEqual :: "json \<Rightarrow> Deployment \<Rightarrow> Deployment \<Rightarrow> bool" where
  "deploymentEqual js new old =
     (case last_applied (om_Annotations (dep_meta old)) of
        None \<Rightarrow> False
      | Some t \<Rightarrow> (case js_unDeployment js t of
                     Inl e \<Rightarrow> False
                   | Inr oldConfig \<Rightarrow> dsp_Replicas oldConfig = dsp_Replicas (dep_Spec new)
                       \<and> js_eqTemplate js (dsp_Template oldConfig) (dsp_Template (dep_Spec new))
                       \<and> dsp_Strategy oldConfig = dsp_Strategy (dep_Spec new)))"

definition daemonSetEqual :: "json \<Rightarrow> DaemonSet \<Rightarrow> DaemonSet \<Rightarrow> bool" where
  "daemonSetEqual js new old =
     (case last_applied (om_Annotations (dmn_meta old)) of
        None \<Rightarrow> False
      | Some t \<Rightarrow> (case js_unDaemonSet js t of
                     Inl e \<Rightarrow> False
                   | Inr oldConfig \<Rightarrow> js_eqTemplate js (dss_Template oldConfig) (dss_Template (dmn_Spec new))
                       \<and> dss_UpdateStrategy oldConfig = dss_UpdateStrategy (dmn_Spec new)))"

definition cronJobEqual :: "json \<Rightarrow> CronJob \<Rightarrow> CronJob \<Rightarrow> bool" where
  "cronJobEqual js new old =
     (case last_applied (om_Annotations (cj_meta old)) of
        None \<Rightarrow> False
      | Some t \<Rightarrow> (case js_unCronJob js t of
                     Inl e \<Rightarrow> False
                   | Inr oldConfig \<Rightarrow> cjs_Schedule oldConfig = cjs_Schedule (cj_Spec new)
                       \<and> js_eqTemplate js (cjs_Template oldConfig) (cjs_Template (cj_Spec new))))"

definition selectorMatchesLabels :: "LabelSelector option \<Rightarrow> gomap \<Rightarrow> bool" where
  "selectorMatchesLabels selector labels =
     (case selector of
        None \<Rightarrow> True
      | Some m \<Rightarrow> (case m of None \<Rightarrow> True | Some kvs \<Rightarrow> list_all (\<lambda>(k, v). gomap_get labels k = Some v) kvs))"

section \<open>Rollout of a deployment\<close>

definition GetDeploymentCondition :: "AppsDeploymentStatus \<Rightarrow> string \<Rightarrow> DeploymentCondition option" where
  "GetDeploymentCondition status condType = find (\<lambda>c. dc_Type c = condType) (ads_Conditions status)"

definition quoted :: "string \<Rightarrow> string" where
  "quoted s = ''\"'' @ s @ ''\"''"

definition deploymentIsRollout :: "Deployment \<Rightarrow> goerr + bool \<times> string" where
  "deploymentIsRollout deploy =
     (let st = dep_Status deploy; name = om_Name (dep_meta deploy);
          waiting = (\<lambda>why. Inr (False, ''Waiting for deployment '' @ quoted name @ '' rollout to finish: '' @ why))
      in if om_Generation (dep_meta deploy) \<le> ads_ObservedGeneration st
         then (if (case GetDeploymentCondition st ''Progressing'' of
                     None \<Rightarrow> False | Some c \<Rightarrow> dc_Reason c = ''ProgressDeadlineExceeded'')
               then Inl (Errorf (''deployment '' @ quoted name @ '' exceeded its progress deadline''))
               else (case dsp_Replicas (dep_Spec deploy) of
                       Some n \<Rightarrow>
                         (if ads_UpdatedReplicas st < n
                          then waiting (show_int (ads_UpdatedReplicas st) @ '' out of '' @ show_int n @ '' new replicas have been updated...'')
                          else if ads_Replicas st > ads_UpdatedReplicas st
                          then waiting (show_int (ads_Replicas st - ads_UpdatedReplicas st) @ '' old replicas are pending termination...'')
                          else if ads_AvailableReplicas st < ads_UpdatedReplicas st
                          then waiting (show_int (ads_AvailableReplicas st) @ '' of '' @ show_int (ads_UpdatedReplicas st) @ '' updated replicas are available...'')
                          else Inr (True, ''deployment '' @ quoted name @ '' successfully rolled out''))
                     | None \<Rightarrow>
                         (if ads_Replicas st > ads_UpdatedReplicas st
                          then waiting (show_int (ads_Replicas st - ads_UpdatedReplicas st) @ '' old replicas are pending termination...'')
                          else if ads_AvailableReplicas st < ads_UpdatedReplicas st
                          then waiting (show_int (ads_AvailableReplicas st) @ '' of '' @ show_int (ads_UpdatedReplicas st) @ '' updated replicas are available...'')
                          else Inr (True, ''deployment '' @ quoted name @ '' successfully rolled out''))))
         else Inr (False, ''Waiting for deployment spec update to be observed...''))"

definition deploymentIsUpgrading :: "Deployment \<Rightarrow> bool" where
  "deploymentIsUpgrading deploy =
     (case deploymentIsRollout deploy of Inl _ \<Rightarrow> True | Inr (rollout, reason) \<Rightarrow> \<not> rollout)"

definition CombineAnnotations :: "gomap \<Rightarrow> gomap \<Rightarrow> gomap" where
  "CombineAnnotations a b =
     fold (\<lambda>(k, v). gomap_set k v) (case b of None \<Rightarrow> [] | Some kvs \<Rightarrow> kvs)
       (case a of None \<Rightarrow> Some [] | Some kvs \<Rightarrow> Some kvs)"

end
