(* ===== verification/Config_Defaults.thy ===== *)
theory Config_Defaults
  imports OC_Defaults
begin

text \<open>
  The defaulting of the cluster configuration, the accounts, databases and ports of the services
  (\<open>SetDefaults_OnecloudClusterConfig\<close> in \<open>pkg/apis/onecloud/v1alpha1/defaults.go\<close>). \<open>gen\<close> is
  \<open>passwd.GeneratePassword\<close>: the password drawn at a site. The two loops over maps of pointers run
  in the order \<open>ord\<close>; a default port used twice ends the process (\<open>log.Fatalf\<close>), here \<open>None\<close>.
\<close>

section \<open>Parts of the configuration\<close>

definition setDefaults_DBConfig :: "(string \<Rightarrow> string) \<Rightarrow> string \<Rightarrow> string \<Rightarrow> string \<Rightarrow> DBConfig \<Rightarrow> DBConfig" where
  "setDefaults_DBConfig gen site database username obj = obj
     \<lparr>dbc_Database := default_str database (dbc_Database obj),
      dbc_Username := default_str username (dbc_Username obj),
      dbc_Password := default_str (gen site) (dbc_Password obj)\<rparr>"

definition setDefaults_CloudUser :: "(string \<Rightarrow> string) \<Rightarrow> string \<Rightarrow> string \<Rightarrow> CloudUser \<Rightarrow> CloudUser" where
  "setDefaults_CloudUser gen site username obj = obj
     \<lparr>cu_Username := default_str username (cu_Username obj),
      cu_Password := default_str (gen site) (cu_Password obj)\<rparr>"

definition SetDefaults_ServiceBaseConfig :: "int \<Rightarrow> ServiceBaseConfig \<Rightarrow> ServiceBaseConfig" where
  "SetDefaults_ServiceBaseConfig port obj = obj\<lparr>sbc_Port := default_int port (sbc_Port obj)\<rparr>"

definition SetDefaults_ServiceCommonOptions ::
  "(string \<Rightarrow> string) \<Rightarrow> string \<Rightarrow> string \<Rightarrow> int \<Rightarrow> ServiceCommonOptions \<Rightarrow> ServiceCommonOptions" where
  "SetDefaults_ServiceCommonOptions gen site user port obj = obj
     \<lparr>sco_ServiceBaseConfig := SetDefaults_ServiceBaseConfig port (sco_ServiceBaseConfig obj),
      sco_CloudUser := setDefaults_CloudUser gen (site @ ''.user'') user (sco_CloudUser obj)\<rparr>"

definition SetDefaults_ServiceDBCommonOptions ::
  "(string \<Rightarrow> string) \<Rightarrow> string \<Rightarrow> string \<Rightarrow> string \<Rightarrow> string \<Rightarrow> int \<Rightarrow> ServiceDBCommonOptions \<Rightarrow> ServiceDBCommonOptions" where
  "SetDefaults_ServiceDBCommonOptions gen site db dbUser svcUser port obj = obj
     \<lparr>sdo_DB := setDefaults_DBConfig gen (site @ ''.db'') db dbUser (sdo_DB obj),
      sdo_ClickhouseConf := setDefaults_DBConfig gen (site @ ''.clickhouse'') db dbUser (sdo_ClickhouseConf obj),
      sdo_ServiceCommonOptions := SetDefaults_ServiceCommonOptions gen site svcUser port (sdo_ServiceCommonOptions obj)\<rparr>"

definition setDefaults_KeystoneConfig :: "(string \<Rightarrow> string) \<Rightarrow> KeystoneConfig \<Rightarrow> KeystoneConfig" where
  "setDefaults_KeystoneConfig gen obj = obj
     \<lparr>kc_ServiceBaseConfig := SetDefaults_ServiceBaseConfig KeystonePublicPort (kc_ServiceBaseConfig obj),
      kc_DB := setDefaults_DBConfig gen ''Keystone.db'' KeystoneDB KeystoneDBUser (kc_DB obj),
      kc_ClickhouseConf := setDefaults_DBConfig gen ''Keystone.clickhouse'' KeystoneDB KeystoneDBUser (kc_ClickhouseConf obj)\<rparr>"

definition SetDefaults_GlobalServiceCommonConfig :: "GlobalServiceCommonConfig \<Rightarrow> GlobalServiceCommonConfig" where
  "SetDefaults_GlobalServiceCommonConfig g = g
     \<lparr>gsc_CronJobWorkerCount := default_int 4 (gsc_CronJobWorkerCount g),
      gsc_LocalTaskWorkerCount := default_int 4 (gsc_LocalTaskWorkerCount g),
      gsc_RequestWorkerCount := default_int 8 (gsc_RequestWorkerCount g),
      gsc_TaskWorkerCount := default_int 4 (gsc_TaskWorkerCount g)\<rparr>"

text \<open>The encryption key is drawn whether or not there is one.\<close>

definition setDefaults_ItsmConfig :: "(string \<Rightarrow> string) \<Rightarrow> ItsmConfig \<Rightarrow> ItsmConfig" where
  "setDefaults_ItsmConfig gen obj = obj
     \<lparr>ic_SecondDatabase := dbc_Database (sdo_DB (ic_ServiceDBCommonOptions obj)) @ ''_engine'',
      ic_EncryptionKey := gen ''Itsm.encryptionKey''\<rparr>"

section \<open>The tables\<close>

type_synonym 'd cfg_setter = "('d \<Rightarrow> 'd) \<Rightarrow> OnecloudClusterConfig \<Rightarrow> OnecloudClusterConfig"

definition userPort_table :: "(string \<times> ServiceCommonOptions cfg_setter \<times> string \<times> int) list" where
  "userPort_table =
      [(''APIGateway'', cfg_APIGateway_update, APIGatewayAdminUser, APIGatewayPort),
       (''HostAgent'', (\<lambda>f. cfg_HostAgent_update (hc_ServiceCommonOptions_update f)), HostAdminUser, HostPort),
       (''BaremetalAgent'', (\<lambda>f. cfg_BaremetalAgent_update (bc_ServiceCommonOptions_update f)), BaremetalAdminUser, BaremetalPort),
       (''S3gateway'', cfg_S3gateway_update, S3gatewayAdminUser, S3gatewayPort),
       (''EsxiAgent'', (\<lambda>f. cfg_EsxiAgent_update (ec_ServiceCommonOptions_update f)), EsxiAgentAdminUser, EsxiAgentPort),
       (''VpcAgent'', (\<lambda>f. cfg_VpcAgent_update (vc_ServiceCommonOptions_update f)), VpcAgentAdminUser, VpcAgentPort),
       (''ApiMap'', (\<lambda>f. cfg_ApiMap_update (amc_ServiceCommonOptions_update f)), ApiMapAdminUser, ApiMapPort),
       (''ServiceOperator'', cfg_ServiceOperator_update, ServiceOperatorAdminUser, ServiceOperatorPort),
       (''Lbagent'', (\<lambda>f. cfg_Lbagent_update (lc_ServiceCommonOptions_update f)), LbagentAdminUser, LbagentPort),
       (''McpServer'', (\<lambda>f. cfg_McpServer_update (sdo_ServiceCommonOptions_update f)), McpServerAdminUser, McpServerPort)]"

definition userDBPort_table :: "(string \<times> ServiceDBCommonOptions cfg_setter \<times> string \<times> int \<times> string \<times> string) list" where
  "userDBPort_table =
      [(''RegionServer'', (\<lambda>f. cfg_RegionServer_update (rc_ServiceDBCommonOptions_update f)), RegionAdminUser, RegionPort, RegionDB, RegionDBUser),
       (''Glance'', (\<lambda>f. cfg_Glance_update (gc_ServiceDBCommonOptions_update f)), GlanceAdminUser, GlanceAPIPort, GlanceDB, GlanceDBUser),
       (''Logger'', cfg_Logger_update, LoggerAdminUser, LoggerPort, LoggerDB, LoggerDBUser),
       (''Yunionagent'', cfg_Yunionagent_update, YunionAgentAdminUser, YunionAgentPort, YunionAgentDB, YunionAgentDBUser),
       (''Yunionconf'', cfg_Yunionconf_update, YunionConfAdminUser, YunionConfPort, YunionConfDB, YunionConfDBUser),
       (''KubeServer'', cfg_KubeServer_update, KubeServerAdminUser, KubeServerPort, KubeServerDB, KubeServerDBUser),
       (''AnsibleServer'', cfg_AnsibleServer_update, AnsibleServerAdminUser, AnsibleServerPort, AnsibleServerDB, AnsibleServerDBUser),
       (''Cloudnet'', cfg_Cloudnet_update, CloudnetAdminUser, CloudnetPort, CloudnetDB, CloudnetDBUser),
       (''Cloudproxy'', cfg_Cloudproxy_update, CloudproxyAdminUser, CloudproxyPort, CloudproxyDB, CloudproxyDBUser),
       (''Cloudevent'', cfg_Cloudevent_update, CloudeventAdminUser, CloudeventPort, CloudeventDB, CloudeventDBUser),
       (''Notify'', cfg_Notify_update, NotifyAdminUser, NotifyPort, NotifyDB, NotifyDBUser),
       (''Devtool'', cfg_Devtool_update, DevtoolAdminUser, DevtoolPort, DevtoolDB, DevtoolDBUser),
       (''Meter'', (\<lambda>f. cfg_Meter_update (mc_ServiceDBCommonOptions_update f)), MeterAdminUser, MeterPort, MeterDB, MeterDBUser),
       (''Billing'', cfg_Billing_update, BillingAdminUser, BillingPort, BillingDB, BillingDBUser),
       (''Monitor'', cfg_Monitor_update, MonitorAdminUser, MonitorPort, MonitorDB, MonitorDBUser),
       (''Suggestion'', cfg_Suggestion_update, SuggestionAdminUser, SuggestionPort, SuggestionDB, SuggestionDBUser),
       (''Itsm'', (\<lambda>f. cfg_Itsm_update (ic_ServiceDBCommonOptions_update f)), ItsmAdminUser, ItsmPort, ItsmDB, ItsmDBUser),
       (''CloudId'', cfg_CloudId_update, CloudIdAdminUser, CloudIdPort, CloudIdDB, CloudIdDBUser),
       (''Webconsole'', cfg_Webconsole_update, WebconsoleAdminUser, WebconsolePort, WebconsoleDB, WebconsoleDBUser),
       (''Report'', cfg_Report_update, ReportAdminUser, ReportPort, ReportDB, ReportDBUser),
       (''AutoUpdate'', cfg_AutoUpdate_update, AutoUpdateAdminUser, AutoUpdatePort, AutoUpdateDB, AutoUpdateDBUser),
       (''BastionHost'', cfg_BastionHost_update, BastionHostAdminUser, BastionHostPort, BastionHostDB, BastionHostDBUser),
       (''Extdb'', cfg_Extdb_update, ExtdbAdminUser, ExtdbPort, ExtdbDB, ExtdbDBUser),
       (''LLM'', cfg_LLM_update, LLMAdminUser, LLMPort, LLMDB, LLMDBUser),
       (''AiProxy'', cfg_AiProxy_update, AiProxyAdminUser, AiProxyPort, AiProxyDB, AiProxyDBUser)]"

definition default_userPort :: "(string \<Rightarrow> string) \<Rightarrow> string \<times> ServiceCommonOptions cfg_setter \<times> string \<times> int
    \<Rightarrow> OnecloudClusterConfig \<Rightarrow> OnecloudClusterConfig" where
  "default_userPort gen = (\<lambda>(site, opt, user, port). opt (SetDefaults_ServiceCommonOptions gen site user port))"

definition default_userDBPort :: "(string \<Rightarrow> string) \<Rightarrow> string \<times> ServiceDBCommonOptions cfg_setter \<times> string \<times> int \<times> string \<times> string
    \<Rightarrow> OnecloudClusterConfig \<Rightarrow> OnecloudClusterConfig" where
  "default_userDBPort gen = (\<lambda>(site, opt, user, port, db, dbUser).
     opt (SetDefaults_ServiceDBCommonOptions gen site db dbUser user port))"

text \<open>The second loop: every port is registered, and one registered before ends the process.\<close>

fun default_userDBPorts :: "(string \<Rightarrow> string) \<Rightarrow> (string \<times> ServiceDBCommonOptions cfg_setter \<times> string \<times> int \<times> string \<times> string) list
    \<Rightarrow> (int \<times> string) list \<Rightarrow> OnecloudClusterConfig \<Rightarrow> OnecloudClusterConfig option" where
  "default_userDBPorts gen [] registryPorts cfg = Some cfg"
| "default_userDBPorts gen ((site, opt, user, port, db, dbUser) # rest) registryPorts cfg =
     (case map_of registryPorts port of
        Some _ \<Rightarrow> None
      | None \<Rightarrow> default_userDBPorts gen rest ((port, user) # registryPorts)
                  (default_userDBPort gen (site, opt, user, port, db, dbUser) cfg))"

definition SetDefaults_OnecloudClusterConfig ::
  "range_order \<Rightarrow> (string \<Rightarrow> string) \<Rightarrow> OnecloudClusterConfig \<Rightarrow> OnecloudClusterConfig option" where
  "SetDefaults_OnecloudClusterConfig ord gen obj =
     (let o1 = cfg_CommonConfig_update SetDefaults_GlobalServiceCommonConfig obj;
          o2 = cfg_Keystone_update (setDefaults_KeystoneConfig gen) o1;
          o3 = fold (default_userPort gen) (range_map ord userPort_table) o2
      in case default_userDBPorts gen (range_map ord userDBPort_table) [] o3 of
           None \<Rightarrow> None
         | Some o4 \<Rightarrow>
             (let o5 = cfg_Cloudmon_update (SetDefaults_ServiceCommonOptions gen ''Cloudmon'' CloudmonAdminUser CloudmonPort) o4;
                  o6 = cfg_Itsm_update (setDefaults_ItsmConfig gen) o5
              in Some (cfg_Grafana_update (gfc_DB_update
                   (setDefaults_DBConfig gen ''Grafana.db'' MonitorStackGrafanaDB MonitorStackGrafanaDBUer)) o6)))"

text \<open>The generated defaulter of the type runs the defaults of its first field a second time.\<close>

definition SetObjectDefaults_OnecloudClusterConfig ::
  "range_order \<Rightarrow> (string \<Rightarrow> string) \<Rightarrow> OnecloudClusterConfig \<Rightarrow> OnecloudClusterConfig option" where
  "SetObjectDefaults_OnecloudClusterConfig ord gen obj =
     map_option (cfg_CommonConfig_update SetDefaults_GlobalServiceCommonConfig)
       (SetDefaults_OnecloudClusterConfig ord gen obj)"

end
