(* ===== verification/Sync_Objects.thy ===== *)
theory Sync_Objects
  imports Last_Applied Config_Defaults
begin

text \<open>
  The synchronisation of one component (\<open>pkg/manager/component/component.go\<close> and \<open>sync.go\<close>):
  config map, volume claim, deployment with its read-only replica, daemon set, cron job, services,
  ingress and the phase control, and the order in which \<open>syncComponent\<close> runs them. The
  configuration of the cluster is read as in \<open>pkg/manager/config\<close>.
\<close>

section \<open>Components and options\<close>

text \<open>
  A \<open>cloudComponentFactory\<close>: what a component manager provides. The builders of the objects that may
  change the cluster object in memory or ask the outside are programs. \<open>fc_DeploymentStatus\<close> is the
  pointer into the status, given as the update through it, and \<open>fc_share\<close> the update of the
  annotations in the specification, the map the template of a new workload shares. \<open>None\<close> for the
  volume claim is a nil dereference. The phase control is given by the object that the component returns
  for it (\<open>pkg/controller/onecloud_control.go\<close>): the registration of an endpoint (component, service name
  and type, port, path, TLS), of a service, or the control of one of the services with a set-up of its own.
  \<open>fc_McclientSync\<close> is what the function synchronising the service catalogue does when it is run.
\<close>

datatype phase =
    RegisterEndpoint string string string int string bool
  | RegisterService string string
  | TSDBEndpoint string string string int string
  | ItsmEndpoint string string string int string
  | KeystonePhase | KubeServerPhase | RegionPhase | GlancePhase | YunionAgentPhase | DevtoolPhase
  | MonitorPhase | CloudproxyPhase | EChartsSSRPhase | ApigatewayPhase | LLMPhase | YunionconfPhase

datatype service_sync = EnsureDisable string | EnsureEnable string bool

record factory =
  fc_ComponentType :: string
  fc_ProductVersions :: "string list"
  fc_IsDisabled :: "OnecloudCluster \<Rightarrow> bool"
  fc_DBEngine :: "OnecloudCluster \<Rightarrow> string"
  fc_DBConfig :: "OnecloudClusterConfig \<Rightarrow> DBConfig option"
  fc_ClickhouseConfig :: "OnecloudClusterConfig \<Rightarrow> DBConfig option"
  fc_CloudUser :: "OnecloudClusterConfig \<Rightarrow> CloudUser option"
  fc_PhaseControl :: "OnecloudCluster \<Rightarrow> string \<Rightarrow> phase option"
  fc_DeploymentStatus :: "string \<Rightarrow> ((DeploymentStatus \<Rightarrow> DeploymentStatus) \<Rightarrow> OnecloudCluster \<Rightarrow> OnecloudCluster) option"
  fc_Service :: "OnecloudCluster \<Rightarrow> OnecloudClusterConfig \<Rightarrow> string \<Rightarrow> CoreService list"
  fc_Ingress :: "OnecloudCluster \<Rightarrow> string \<Rightarrow> Unstructured option"
  fc_updateIngress :: "OnecloudCluster \<Rightarrow> Unstructured \<Rightarrow> Unstructured option"
  fc_ConfigMap :: "OnecloudClusterConfig \<Rightarrow> string \<Rightarrow> (ConfigMap option \<times> bool) km"
  fc_PVC :: "OnecloudCluster \<Rightarrow> string \<Rightarrow> (goerr + PersistentVolumeClaim option) option"
  fc_Deployment :: "OnecloudClusterConfig \<Rightarrow> string \<Rightarrow> Deployment option km"
  fc_supportsReadOnlyService :: bool
  fc_ReadonlyDeployment :: "OnecloudCluster \<Rightarrow> OnecloudClusterConfig \<Rightarrow> string \<Rightarrow> Deployment \<Rightarrow> Deployment option"
  fc_McclientSync :: "OnecloudCluster \<Rightarrow> service_sync option"
  fc_DaemonSet :: "OnecloudClusterConfig \<Rightarrow> string \<Rightarrow> DaemonSet option km"
  fc_CronJob :: "OnecloudClusterConfig \<Rightarrow> string \<Rightarrow> CronJob option km"
  fc_share :: "string \<Rightarrow> (gomap \<Rightarrow> gomap) \<Rightarrow> OnecloudCluster \<Rightarrow> OnecloudCluster"

text \<open>The methods every component manager inherits from \<open>ComponentManager\<close>: no object of any kind.\<close>

definition base_factory :: "string \<Rightarrow> string list \<Rightarrow> factory" where
  "base_factory cType versions =
     \<lparr>fc_ComponentType = cType, fc_ProductVersions = versions, fc_IsDisabled = \<lambda>_. False,
      fc_DBEngine = \<lambda>_. [], fc_DBConfig = \<lambda>_. None, fc_ClickhouseConfig = \<lambda>_. None, fc_CloudUser = \<lambda>_. None,
      fc_PhaseControl = \<lambda>_ _. None, fc_DeploymentStatus = \<lambda>_. None, fc_Service = \<lambda>_ _ _. [],
      fc_Ingress = \<lambda>_ _. None, fc_updateIngress = \<lambda>_ _. None, fc_ConfigMap = \<lambda>_ _. ret (None, False),
      fc_PVC = \<lambda>_ _. Some (Inr None), fc_Deployment = \<lambda>_ _. ret None, fc_supportsReadOnlyService = False,
      fc_ReadonlyDeployment = \<lambda>_ _ _ _. None, fc_McclientSync = \<lambda>_. None, fc_DaemonSet = \<lambda>_ _. ret None,
      fc_CronJob = \<lambda>_ _. ret None, fc_share = \<lambda>_ _ oc. oc\<rparr>"

text \<open>
  The options of a service, a struct of the service's own package, as the fields the operator assigns,
  in the order in which it assigns them.
\<close>

datatype optval = OStr string | OInt int | OBool bool | OStrs "string list"

type_synonym svc_options = "(string \<times> optval) list"

text \<open>
  The options of the operator and the functions it takes from elsewhere: JSON, the codec of the
  cluster configuration, the passwords drawn and the order of a loop over a map at a point of the
  execution, the parser of image references, the defaults of the options of a service
  (\<open>structarg\<close>) and their YAML text (the struct is a global of the process: what is not assigned
  may depend on the history), the text of a template named by its constant with the fields of the struct
  filled in, the parser and printer of YAML and a path of the defaults of the host service, and the
  parser of resource quantities.
\<close>

record options =
  op_StopServices :: bool
  op_DisableSyncIngress :: bool
  op_DisableNodeSelectorController :: bool
  op_parseQuantity :: "string \<Rightarrow> goerr + raw"
  op_optionsDefault :: "string \<Rightarrow> goerr option"
  op_yaml :: "kcall list \<Rightarrow> string \<Rightarrow> svc_options \<Rightarrow> string"
  op_template :: "string \<Rightarrow> svc_options \<Rightarrow> goerr + string"
  op_parseYAML :: "string \<Rightarrow> goerr + svc_options"
  op_YAMLString :: "svc_options \<Rightarrow> string"
  op_DeployServerSocketPath :: string
  op_json :: json
  op_decodeConfig :: "string \<Rightarrow> goerr + OnecloudClusterConfig"
  op_encodeConfig :: "OnecloudClusterConfig \<Rightarrow> goerr + string"
  op_draw :: "kcall list \<Rightarrow> string \<Rightarrow> string"
  op_order :: "kcall list \<Rightarrow> range_order"
  op_parseImage :: "string \<Rightarrow> goerr + ParsedReference"

definition isInProductVersion :: "factory \<Rightarrow> OnecloudCluster \<Rightarrow> bool" where
  "isInProductVersion f oc = in_strings (spec_ProductVersion (oc_Spec oc)) (fc_ProductVersions f)"

definition isValidProductVersion :: "OnecloudCluster \<Rightarrow> goerr option" where
  "isValidProductVersion oc =
     (if in_strings (spec_ProductVersion (oc_Spec oc))
           [ProductVersionFullStack, ProductVersionCMP, ProductVersionEdge, ProductVersionLightEdge, ProductVersionAI]
      then None else Some (Errorf (''Invalid productVersion '' @ quoted (spec_ProductVersion (oc_Spec oc)))))"

definition of_sum :: "goerr + 'a \<Rightarrow> ('s, 'a) go" where
  "of_sum r = (case r of Inl e \<Rightarrow> fail e | Inr x \<Rightarrow> ret x)"

text \<open>
  The configuration of the cluster, from its config map. The codec of the scheme runs the registered
  defaulter after decoding, so the configuration is defaulted here although the name says otherwise.
\<close>

definition default_config :: "options \<Rightarrow> string \<Rightarrow> OnecloudClusterConfig \<Rightarrow> OnecloudClusterConfig km" where
  "default_config op tag cfg =
     andthen (gets kw_calls) (\<lambda>h.
     from_option ''port has been registered''
       (SetObjectDefaults_OnecloudClusterConfig (op_order op h) (\<lambda>site. op_draw op h (tag @ site)) cfg))"

definition newClusterConfigFromConfigMapNoDefault :: "options \<Rightarrow> ConfigMap \<Rightarrow> OnecloudClusterConfig km" where
  "newClusterConfigFromConfigMapNoDefault op cm =
     (case gomap_get (cm_Data cm) OnecloudClusterConfigConfigMapKey of
        None \<Rightarrow> fail (Errorf (''unexpected error when reading '' @ om_Name (cm_meta cm) @ '' ConfigMap: ''
                     @ OnecloudClusterConfigConfigMapKey @ '' key value pair missing''))
      | Some text \<Rightarrow>
          andthen (map_err (Wrapped ''failed to decode onecloud cluster config data'') (of_sum (op_decodeConfig op text)))
                  (default_config op ''decode.''))"

definition GetClusterConfig :: "options \<Rightarrow> kube_env \<Rightarrow> OnecloudClusterConfig km" where
  "GetClusterConfig op env =
     andthen (gets (\<lambda>w. ClusterConfigMapName (kw_oc w))) (\<lambda>name.
     andthen (kcall (KLister ConfigMapKind name) (\<lambda>h. ke_listConfigMap env h name)) (\<lambda>cm.
     newClusterConfigFromConfigMapNoDefault op cm))"

definition CreateOrUpdateConfigMap :: "kube_env \<Rightarrow> ConfigMap \<Rightarrow> unit km" where
  "CreateOrUpdateConfigMap env cm =
     andthen (attempt (CreateConfigMap env cm)) (\<lambda>r. case r of
       Inr _ \<Rightarrow> ret ()
     | Inl e \<Rightarrow>
         (if is_already_exists e
          then map_err (Wrapped (''unable to update configmap '' @ om_Name (cm_meta cm))) (UpdateConfigMap env cm)
          else fail (Wrapped (''unable to create configmap '' @ om_Name (cm_meta cm)) e)))"

section \<open>Services\<close>

text \<open>
  One pass over the services of a component: the pass ends with the first service that is created,
  updated or deleted, or that is missing in a product version without the component.
\<close>

fun syncServices :: "options \<Rightarrow> kube_env \<Rightarrow> bool \<Rightarrow> CoreService list \<Rightarrow> unit km" where
  "syncServices op env inPV [] = ret ()"
| "syncServices op env inPV (newSvc # rest) =
     andthen (attempt (kcall (KLister ServiceKind (om_Name (svc_meta newSvc)))
                         (\<lambda>h. ke_listService env h (om_Name (svc_meta newSvc))))) (\<lambda>r. case r of
       Inl e \<Rightarrow>
         (if is_not_found e
          then (if \<not> inPV then ret ()
                else (case SetServiceLastAppliedConfigAnnotation (op_json op) newSvc of
                        (Some e', _) \<Rightarrow> fail e'
                      | (None, svc) \<Rightarrow> CreateService env svc))
          else fail e)
     | Inr oldSvc \<Rightarrow>
         (if \<not> inPV then DeleteService env oldSvc
          else (case serviceEqual (op_json op) newSvc oldSvc of
                  Inl e \<Rightarrow> fail e
                | Inr True \<Rightarrow> syncServices op env inPV rest
                | Inr False \<Rightarrow>
                    (let svc = oldSvc\<lparr>svc_Spec := (svc_Spec newSvc)\<lparr>css_ClusterIP := css_ClusterIP (svc_Spec oldSvc)\<rparr>\<rparr>
                     in case SetServiceLastAppliedConfigAnnotation (op_json op) svc of
                          (Some e, _) \<Rightarrow> fail e
                        | (None, svc') \<Rightarrow> UpdateService env svc'))))"

definition syncService :: "options \<Rightarrow> kube_env \<Rightarrow> factory \<Rightarrow> string \<Rightarrow> unit km" where
  "syncService op env f zone =
     andthen (map_err (Wrapped ''GetClusterConfig'') (GetClusterConfig op env)) (\<lambda>cfg.
     andthen (gets kw_oc) (\<lambda>oc.
     syncServices op env (isInProductVersion f oc) (fc_Service f oc cfg zone)))"

section \<open>Ingress\<close>

text \<open>An error of the cache other than "not found" leaves a nil object, whose type assertion panics.\<close>

definition syncIngress :: "options \<Rightarrow> kube_env \<Rightarrow> factory \<Rightarrow> string \<Rightarrow> unit km" where
  "syncIngress op env f zone =
     andthen (gets kw_oc) (\<lambda>oc. case fc_Ingress f oc zone of
       None \<Rightarrow> ret ()
     | Some newIng \<Rightarrow>
         (let inPV = isInProductVersion f oc; name = om_Name (un_meta newIng)
          in andthen (attempt (kcall (KLister IngressKind name) (\<lambda>h. ke_listIngress env h name))) (\<lambda>r. case r of
               Inl e \<Rightarrow>
                 (if is_not_found e
                  then (if \<not> inPV then ret ()
                        else (case SetIngressLastAppliedConfigAnnotation (op_json op) newIng of
                                (Some e', _) \<Rightarrow> fail e'
                              | (None, ing) \<Rightarrow> CreateIngress env ing))
                  else go_panic ''interface conversion: nil object'')
             | Inr oldIng \<Rightarrow>
                 (if \<not> inPV then DeleteIngress env oldIng
                  else (case ingressEqual (op_json op) newIng oldIng of
                          Inl e \<Rightarrow> fail e
                        | Inr True \<Rightarrow> ret ()
                        | Inr False \<Rightarrow>
                            (case fc_updateIngress f oc oldIng of
                               None \<Rightarrow> go_panic ''nil dereference''
                             | Some ing \<Rightarrow>
                                 (case SetIngressLastAppliedConfigAnnotation (op_json op) ing of
                                    (Some e, _) \<Rightarrow> fail e
                                  | (None, ing') \<Rightarrow> UpdateIngress env ing')))))))"

section \<open>Config map and volume claim\<close>

definition ensure_database :: "kube_env \<Rightarrow> factory \<Rightarrow> OnecloudCluster \<Rightarrow> OnecloudClusterConfig \<Rightarrow> unit km" where
  "ensure_database env f oc cfg =
     (case fc_DBConfig f cfg of
        None \<Rightarrow> ret ()
      | Some db \<Rightarrow>
          (if fc_DBEngine f oc = DBEngineDameng
           then map_err (Wrapped ''ensure cluster dameng db user'')
                  (kcallE (KEnsureDB DBEngineDameng db) (\<lambda>h. ke_ensureDB env h DBEngineDameng db))
           else map_err (Wrapped ''ensure cluster mysql db user'')
                  (kcallE (KEnsureDB DBEngineMySQL db) (\<lambda>h. ke_ensureDB env h DBEngineMySQL db))))"

definition ensure_clickhouse :: "kube_env \<Rightarrow> factory \<Rightarrow> OnecloudCluster \<Rightarrow> OnecloudClusterConfig \<Rightarrow> unit km" where
  "ensure_clickhouse env f oc cfg =
     (if my_Host (spec_Clickhouse (oc_Spec oc)) = [] then ret ()
      else (case fc_ClickhouseConfig f cfg of
              None \<Rightarrow> ret ()
            | Some db \<Rightarrow> guarded (IsEnterpriseEdition oc)
                (map_err (Wrapped ''ensure clickhouse cluster db user'')
                  (kcallE (KEnsureDB DBEngineClickhouse db) (\<lambda>h. ke_ensureDB env h DBEngineClickhouse db)))))"

text \<open>An existing config map is only overwritten when the component forces it.\<close>

definition sync_cm :: "options \<Rightarrow> kube_env \<Rightarrow> factory \<Rightarrow> OnecloudClusterConfig \<Rightarrow> string \<Rightarrow> unit km" where
  "sync_cm op env f cfg zone =
     andthen (map_err (Wrapped ''get config map'') (fc_ConfigMap f cfg zone)) (\<lambda>(cfgMap, forceUpdate). case cfgMap of
       None \<Rightarrow> ret ()
     | Some cm0 \<Rightarrow>
         (case SetConfigMapLastAppliedConfigAnnotation (op_json op) cm0 of
            (Some e, _) \<Rightarrow> fail e
          | (None, cm) \<Rightarrow>
              (if forceUpdate then CreateOrUpdateConfigMap env cm
               else andthen (attempt (kcall (KLister ConfigMapKind (om_Name (cm_meta cm)))
                                        (\<lambda>h. ke_listConfigMap env h (om_Name (cm_meta cm))))) (\<lambda>r. case r of
                      Inr _ \<Rightarrow> ret ()
                    | Inl e \<Rightarrow> (if is_not_found e then CreateOrUpdateConfigMap env cm else fail e)))))"

definition syncConfigMap :: "options \<Rightarrow> kube_env \<Rightarrow> factory \<Rightarrow> string \<Rightarrow> unit km" where
  "syncConfigMap op env f zone =
     andthen (gets kw_oc) (\<lambda>oc.
     if \<not> isInProductVersion f oc then ret ()
     else andthen (map_err (Wrapped ''get cluster config'') (GetClusterConfig op env)) (\<lambda>cfg.
          seq (ensure_database env f oc cfg)
         (seq (ensure_clickhouse env f oc cfg)
         (let run = map_err (Wrapped ''sync rw configmap'') (sync_cm op env f cfg zone)
          in case fc_CloudUser f cfg of
               None \<Rightarrow> run
             | Some account \<Rightarrow>
                 andthen (attempt (kcallE (KEnsureAccount account) (\<lambda>h. ke_ensureAccount env h account))) (\<lambda>r. case r of
                   Inr _ \<Rightarrow> run
                 | Inl e \<Rightarrow> (if op_StopServices op then ret ()
                              else fail (Wrapped ''RunWithSession'' e)))))))"

definition syncPVC :: "kube_env \<Rightarrow> factory \<Rightarrow> string \<Rightarrow> unit km" where
  "syncPVC env f zone =
     andthen (gets kw_oc) (\<lambda>oc.
     if \<not> isInProductVersion f oc then ret ()
     else andthen (andthen (from_option ''nil dereference'' (fc_PVC f oc zone)) of_sum) (\<lambda>p. case p of
            None \<Rightarrow> ret ()
          | Some newPvc \<Rightarrow>
              andthen (attempt (kcall (KLister PVCKind (om_Name (pvc_meta newPvc)))
                                  (\<lambda>h. ke_listPVC env h (om_Name (pvc_meta newPvc))))) (\<lambda>r. case r of
                Inr _ \<Rightarrow> ret ()
              | Inl e \<Rightarrow> (if is_not_found e then CreatePVC env newPvc else fail e))))"

section \<open>Daemon sets and cron jobs\<close>

text \<open>
  The annotations of the template that is written are the map of the specification when that is not
  nil: setting the annotation then changes the specification too (\<open>share\<close>).
\<close>

definition write_shared :: "((gomap \<Rightarrow> gomap) \<Rightarrow> OnecloudCluster \<Rightarrow> OnecloudCluster) \<Rightarrow> gomap \<Rightarrow> gomap \<Rightarrow> unit km" where
  "write_shared share before after =
     guarded (before \<noteq> None) (modify (kw_oc_update (share (\<lambda>_. after))))"

definition updateDaemonSet :: "options \<Rightarrow> kube_env \<Rightarrow> factory \<Rightarrow> string \<Rightarrow> DaemonSet \<Rightarrow> DaemonSet \<Rightarrow> unit km" where
  "updateDaemonSet op env f zone newDs oldDs =
     (if \<not> selectorMatchesLabels (dss_Selector (dmn_Spec oldDs)) (pt_Labels (dss_Template (dmn_Spec newDs)))
      then seq (DeleteDaemonSet env oldDs) (CreateDaemonSet env newDs)
      else if \<not> daemonSetEqual (op_json op) newDs oldDs
      then (let ds = oldDs\<lparr>dmn_Spec := (dmn_Spec oldDs)\<lparr>dss_Template := dss_Template (dmn_Spec newDs),
                                                         dss_UpdateStrategy := dss_UpdateStrategy (dmn_Spec newDs)\<rparr>\<rparr>
            in case SetDaemonSetLastAppliedConfigAnnotation (op_json op) ds of
                 (Some e, _) \<Rightarrow> fail e
               | (None, ds') \<Rightarrow>
                   seq (write_shared (fc_share f zone) (pt_Annotations (dss_Template (dmn_Spec newDs)))
                          (pt_Annotations (dss_Template (dmn_Spec ds'))))
                       (UpdateDaemonSet env ds'))
      else ret ())"

definition syncDaemonSet :: "options \<Rightarrow> kube_env \<Rightarrow> factory \<Rightarrow> string \<Rightarrow> unit km" where
  "syncDaemonSet op env f zone =
     andthen (GetClusterConfig op env) (\<lambda>cfg.
     andthen (fc_DaemonSet f cfg zone) (\<lambda>d. case d of
       None \<Rightarrow> ret ()
     | Some newDs \<Rightarrow>
         andthen (gets kw_oc) (\<lambda>oc.
         let stop = \<not> isInProductVersion f oc
                    \<or> (op_StopServices op \<and> \<not> in_strings (fc_ComponentType f) [HostComponentType])
                    \<or> fc_IsDisabled f oc;
             name = om_Name (dmn_meta newDs)
         in andthen (attempt (kcall (KLister DaemonSetKind name) (\<lambda>h. ke_listDaemonSet env h name))) (\<lambda>r. case r of
              Inl e \<Rightarrow> (if is_not_found e
                         then (if stop then ret () else CreateDaemonSet env newDs)
                         else fail e)
            | Inr oldDs \<Rightarrow> (if stop then DeleteDaemonSet env oldDs
                             else updateDaemonSet op env f zone newDs oldDs)))))"

definition updateCronJob :: "options \<Rightarrow> kube_env \<Rightarrow> factory \<Rightarrow> string \<Rightarrow> CronJob \<Rightarrow> CronJob \<Rightarrow> unit km" where
  "updateCronJob op env f zone newCronJob oldCronJob =
     (if \<not> cronJobEqual (op_json op) newCronJob oldCronJob
      then (let cj = oldCronJob\<lparr>cj_Spec := cj_Spec newCronJob\<rparr>
            in case SetCronJobLastAppliedConfigAnnotation (op_json op) cj of
                 (Some e, _) \<Rightarrow> fail e
               | (None, cj') \<Rightarrow>
                   seq (write_shared (fc_share f zone) (cjs_JobAnnotations (cj_Spec newCronJob))
                          (cjs_JobAnnotations (cj_Spec cj')))
                       (map_err (Wrapped ''update cron job'') (UpdateCronJob env cj')))
      else ret ())"

definition syncCronJob :: "options \<Rightarrow> kube_env \<Rightarrow> factory \<Rightarrow> string \<Rightarrow> unit km" where
  "syncCronJob op env f zone =
     andthen (GetClusterConfig op env) (\<lambda>cfg.
     andthen (fc_CronJob f cfg zone) (\<lambda>c. case c of
       None \<Rightarrow> ret ()
     | Some newCronJob \<Rightarrow>
         andthen (gets kw_oc) (\<lambda>oc.
         let inPV = isInProductVersion f oc; name = om_Name (cj_meta newCronJob)
         in andthen (attempt (kcall (KLister CronJobKind name) (\<lambda>h. ke_listCronJob env h name))) (\<lambda>r. case r of
              Inl e \<Rightarrow> (if is_not_found e
                         then (if \<not> inPV then ret () else CreateCronJob env newCronJob)
                         else fail (Wrapped ''sync cronjob on list'' e))
            | Inr old \<Rightarrow> (if \<not> inPV then DeleteCronJob env (om_Name (cj_meta old))
                           else updateCronJob op env f zone newCronJob old)))))"

section \<open>Deployments\<close>

definition updateDeployment ::
  "options \<Rightarrow> kube_env \<Rightarrow> (gomap \<Rightarrow> gomap \<Rightarrow> unit km) \<Rightarrow> Deployment \<Rightarrow> Deployment \<Rightarrow> (Deployment \<times> goerr option) km" where
  "updateDeployment op env share newDeploy oldDeploy =
     (if \<not> selectorMatchesLabels (dsp_Selector (dep_Spec oldDeploy)) (pt_Labels (dsp_Template (dep_Spec newDeploy)))
      then andthen (attempt (DeleteDeployment env (om_Name (dep_meta oldDeploy)))) (\<lambda>r. case r of
             Inl e \<Rightarrow> ret (newDeploy, Some e)
           | Inr _ \<Rightarrow>
               (case SetDeploymentLastAppliedConfigAnnotation (op_json op) newDeploy of
                  (Some e, d) \<Rightarrow> ret (d, Some e)
                | (None, d) \<Rightarrow>
                    seq (share (pt_Annotations (dsp_Template (dep_Spec newDeploy))) (pt_Annotations (dsp_Template (dep_Spec d))))
                   (andthen (attempt (CreateDeployment env d)) (\<lambda>c.
                    ret (d, case c of Inl e \<Rightarrow> Some e | Inr _ \<Rightarrow> None)))))
      else if \<not> deploymentEqual (op_json op) newDeploy oldDeploy
      then (case (dsp_Replicas (dep_Spec oldDeploy), dsp_Replicas (dep_Spec newDeploy)) of
              (Some _, Some n) \<Rightarrow>
                (let deploy = oldDeploy\<lparr>dep_Spec := (dep_Spec oldDeploy)\<lparr>dsp_Template := dsp_Template (dep_Spec newDeploy),
                                dsp_Replicas := Some n, dsp_Strategy := dsp_Strategy (dep_Spec newDeploy)\<rparr>\<rparr>
                 in case SetDeploymentLastAppliedConfigAnnotation (op_json op) deploy of
                      (Some e, _) \<Rightarrow> ret (newDeploy, Some e)
                    | (None, d) \<Rightarrow>
                        (let anns = pt_Annotations (dsp_Template (dep_Spec d));
                             newDeploy' = (if pt_Annotations (dsp_Template (dep_Spec newDeploy)) = None then newDeploy
                                           else dep_Spec_update (dsp_Template_update (pt_Annotations_update (\<lambda>_. anns))) newDeploy)
                         in seq (share (pt_Annotations (dsp_Template (dep_Spec newDeploy))) anns)
                           (andthen (attempt (UpdateDeployment env d)) (\<lambda>u.
                            ret (newDeploy', case u of Inl e \<Rightarrow> Some e | Inr _ \<Rightarrow> None)))))
            | _ \<Rightarrow> go_panic ''nil dereference'')
      else ret (newDeploy, None))"

text \<open>
  \<open>newPostSyncComponent\<close>: the status of the deployments is copied into the status of the cluster. A
  deployment that is not found is the zero object here.
\<close>

definition zero_Deployment :: Deployment where
  "zero_Deployment = \<lparr>dep_meta = new_meta [] [] None None [],
     dep_Spec = \<lparr>dsp_Replicas = None, dsp_Selector = None,
                 dsp_Template = \<lparr>pt_Labels = None, pt_Annotations = None, pt_Spec = zero_PodSpec\<rparr>, dsp_Strategy = []\<rparr>,
     dep_Status = \<lparr>ads_ObservedGeneration = 0, ads_Replicas = 0, ads_UpdatedReplicas = 0, ads_AvailableReplicas = 0, ads_Conditions = []\<rparr>\<rparr>"

definition getRepoImageName :: "options \<Rightarrow> string \<Rightarrow> string \<times> string \<times> string" where
  "getRepoImageName op img =
     (case ParseImageReference (op_parseImage op) img of
        Inl _ \<Rightarrow> ([], [], [])
      | Inr r \<Rightarrow> (ir_Repository r, ir_Image r, ir_Tag r))"

definition getImageStatusByContainer :: "options \<Rightarrow> Container \<Rightarrow> ImageStatus" where
  "getImageStatusByContainer op c =
     (let (repo, imgName, tag) = getRepoImageName op (ct_Image c)
      in \<lparr>imgs_Image = ct_Image c, imgs_Repository = repo, imgs_ImageName = imgName, imgs_Tag = tag,
          imgs_ImagePullPolicy = ct_ImagePullPolicy c\<rparr>)"

definition getImageStatus :: "options \<Rightarrow> Deployment \<Rightarrow> ImageStatus option" where
  "getImageStatus op deploy =
     (case ps_Containers (pt_Spec (dsp_Template (dep_Spec deploy))) of
        [] \<Rightarrow> None
      | c # _ \<Rightarrow> Some (getImageStatusByContainer op c))"

definition phase_of :: "Deployment \<Rightarrow> string" where
  "phase_of deploy = (if deploymentIsUpgrading deploy then UpgradePhase else NormalPhase)"

definition post_status :: "options \<Rightarrow> Deployment \<Rightarrow> Deployment option \<Rightarrow> DeploymentStatus \<Rightarrow> DeploymentStatus" where
  "post_status op deploy rodeploy st =
     (let s1 = st\<lparr>dst_Deployment := Some (dep_Status deploy), dst_Phase := phase_of deploy,
                  dst_ImageStatus := getImageStatus op deploy\<rparr>
      in case rodeploy of
           None \<Rightarrow> s1
         | Some ro \<Rightarrow> s1\<lparr>dst_SlaveDeployment := Some (dep_Status ro), dst_SlavePhase := phase_of ro\<rparr>)"

definition get_or_zero :: "kube_env \<Rightarrow> string \<Rightarrow> string \<Rightarrow> Deployment km" where
  "get_or_zero env why name =
     andthen (attempt (kcall (KGet DeploymentKind name) (\<lambda>h. ke_getDeployment env h name))) (\<lambda>r. case r of
       Inr d \<Rightarrow> ret d
     | Inl e \<Rightarrow> (if is_not_found e then ret zero_Deployment else fail (Wrapped why e)))"

definition postSync :: "options \<Rightarrow> kube_env \<Rightarrow> factory \<Rightarrow> string \<Rightarrow> string \<Rightarrow> unit km" where
  "postSync op env f zone deployName =
     andthen (get_or_zero env (''get deployment '' @ deployName) deployName) (\<lambda>deploy.
     andthen (if fc_supportsReadOnlyService f
              then andthen (get_or_zero env (''get readonly deployment '' @ deployName @ ''-slave'') (deployName @ ''-slave''))
                     (\<lambda>ro. ret (Some ro))
              else ret None) (\<lambda>rodeploy.
     case fc_DeploymentStatus f zone of
       None \<Rightarrow> ret ()
     | Some through \<Rightarrow> modify (kw_oc_update (through (post_status op deploy rodeploy)))))"

text \<open>
  \<open>syncFunc\<close>, for the deployment or its read-only replica: the object as it is left and the error. The
  replica is a deep copy, so that it shares nothing.
\<close>

definition sync_one ::
  "options \<Rightarrow> kube_env \<Rightarrow> unit km \<Rightarrow> (gomap \<Rightarrow> gomap \<Rightarrow> unit km) \<Rightarrow> Deployment \<Rightarrow> bool \<Rightarrow> (Deployment \<times> goerr option) km" where
  "sync_one op env post share deploy shouldDelete =
     (let name = om_Name (dep_meta deploy)
      in andthen (attempt (kcall (KLister DeploymentKind name) (\<lambda>h. ke_listDeployment env h name))) (\<lambda>r. case r of
           Inl e \<Rightarrow>
             (if is_not_found e
              then (if shouldDelete then ret (deploy, None)
                    else (case SetDeploymentLastAppliedConfigAnnotation (op_json op) deploy of
                            (Some e', d) \<Rightarrow> ret (d, Some e')
                          | (None, d) \<Rightarrow>
                              seq (share (pt_Annotations (dsp_Template (dep_Spec deploy))) (pt_Annotations (dsp_Template (dep_Spec d))))
                             (andthen (attempt (CreateDeployment env d)) (\<lambda>c. case c of
                                Inl e' \<Rightarrow> ret (d, Some e')
                              | Inr _ \<Rightarrow>
                                  andthen (attempt post) (\<lambda>p. case p of
                                    Inl e' \<Rightarrow> ret (d, Some (Wrapped (''post create deployment '' @ name) e'))
                                  | Inr _ \<Rightarrow>
                                      andthen (gets (\<lambda>w. oc_ObjectMeta (kw_oc w))) (\<lambda>om.
                                      ret (d, Some (RequeueError (''OnecloudCluster: ['' @ om_Namespace om @ ''/'' @ om_Name om
                                             @ ''], waiting for '' @ name @ '' deployment running''))))))))) 
              else ret (deploy, Some e))
         | Inr old \<Rightarrow>
             (if shouldDelete
              then andthen (attempt (DeleteDeployment env (om_Name (dep_meta old)))) (\<lambda>c.
                     ret (deploy, case c of Inl e \<Rightarrow> Some e | Inr _ \<Rightarrow> None))
              else andthen (updateDeployment op env share deploy old) (\<lambda>(d, err). case err of
                     Some e \<Rightarrow> ret (d, Some e)
                   | None \<Rightarrow>
                       andthen (attempt post) (\<lambda>p. case p of
                         Inl e \<Rightarrow> ret (d, Some (Wrapped (''post sync deployment '' @ name) e))
                       | Inr _ \<Rightarrow> ret (d, None))))))"

definition wrap_opt :: "string \<Rightarrow> goerr option \<Rightarrow> goerr list" where
  "wrap_opt why e = (case e of None \<Rightarrow> [] | Some x \<Rightarrow> [Wrapped why x])"

definition stop_deployment :: "options \<Rightarrow> factory \<Rightarrow> OnecloudCluster \<Rightarrow> bool" where
  "stop_deployment op f oc \<longleftrightarrow> \<not> isInProductVersion f oc
     \<or> (op_StopServices op \<and> \<not> in_strings (fc_ComponentType f) [OvnNorthComponentType, InfluxdbComponentType])
     \<or> fc_IsDisabled f oc"

text \<open>The deployment and then its read-only replica, made from the deployment as the first step leaves it.\<close>

definition sync_new :: "options \<Rightarrow> kube_env \<Rightarrow> factory \<Rightarrow> OnecloudClusterConfig \<Rightarrow> string \<Rightarrow> Deployment \<Rightarrow> unit km" where
  "sync_new op env f cfg zone newDeploy =
     andthen (gets (\<lambda>w. stop_deployment op f (kw_oc w))) (\<lambda>stop.
     let name = om_Name (dep_meta newDeploy); post = postSync op env f zone name
     in andthen (sync_one op env post (write_shared (fc_share f zone)) newDeploy stop) (\<lambda>(d, errMain).
        andthen (gets kw_oc) (\<lambda>oc.
        andthen (case (if fc_supportsReadOnlyService f then fc_ReadonlyDeployment f oc cfg zone d else None) of
                   None \<Rightarrow> ret []
                 | Some ro \<Rightarrow>
                     andthen (sync_one op env post (\<lambda>_ _. ret ()) ro
                                (stop \<or> dsp_Replicas (dep_Spec ro) = None \<or> dsp_Replicas (dep_Spec ro) = Some 0)) (\<lambda>(_, errRo).
                     ret (wrap_opt (''sync readonly deployment '' @ om_Name (dep_meta ro)) errRo))) (\<lambda>roErrs.
        lift_err (new_aggregate (wrap_opt (''sync deployment '' @ name) errMain @ roErrs))))))"

definition syncDeployment :: "options \<Rightarrow> kube_env \<Rightarrow> factory \<Rightarrow> string \<Rightarrow> unit km" where
  "syncDeployment op env f zone =
     andthen (map_err (Wrapped (''GetClusterConfig for component: '' @ fc_ComponentType f)) (GetClusterConfig op env)) (\<lambda>cfg.
     andthen (map_err (Wrapped (''deploymentFactory for component: '' @ fc_ComponentType f)) (fc_Deployment f cfg zone)) (\<lambda>nd.
       case nd of None \<Rightarrow> ret () | Some newDeploy \<Rightarrow> sync_new op env f cfg zone newDeploy))"

section \<open>Phase control and the whole component\<close>

definition syncPhase :: "options \<Rightarrow> kube_env \<Rightarrow> factory \<Rightarrow> string \<Rightarrow> unit km" where
  "syncPhase op env f zone =
     (if op_StopServices op then ret ()
      else andthen (gets kw_oc) (\<lambda>oc.
           if fc_PhaseControl f oc zone = None \<or> \<not> isInProductVersion f oc \<or> fc_IsDisabled f oc then ret ()
           else (let c = fc_ComponentType f
                 in seq (kcallE (KPhaseSetup c) (\<lambda>h. ke_phaseSetup env h c))
                   (seq (kcallE (KPhaseInit c) (\<lambda>h. ke_phaseInit env h c))
                   (guarded (fc_McclientSync f oc \<noteq> None)
                      (andthen (attempt (kcallE (KMcclientSync c) (\<lambda>h. ke_mcclientSync env h c))) (\<lambda>_. ret ())))))))"

definition syncComponent :: "options \<Rightarrow> kube_env \<Rightarrow> factory \<Rightarrow> string \<Rightarrow> unit km" where
  "syncComponent op env f zone =
     (let c = quoted (fc_ComponentType f)
      in andthen (gets kw_oc) (\<lambda>oc.
         seq (map_err (Wrapped (''check productVersion of '' @ c)) (lift_err (isValidProductVersion oc)))
        (seq (map_err (Wrapped (''sync configmap of '' @ c)) (syncConfigMap op env f zone))
        (seq (map_err (Wrapped (''sync pvc of '' @ c)) (syncPVC env f zone))
        (seq (map_err (Wrapped (''sync deployment '' @ c)) (syncDeployment op env f zone))
        (seq (map_err (Wrapped (''sync daemonset '' @ c)) (syncDaemonSet op env f zone))
        (seq (map_err (Wrapped (''sync cronjob '' @ c)) (syncCronJob op env f zone))
        (seq (map_err (Wrapped (''sync service of '' @ c)) (syncService op env f zone))
        (seq (guarded (\<not> op_DisableSyncIngress op) (map_err (Wrapped (''sync ingress of '' @ c)) (syncIngress op env f zone)))
             (map_err (Wrapped (''sync phase control '' @ c)) (syncPhase op env f zone)))))))))))"

definition wanted_zones :: "OnecloudCluster \<Rightarrow> string list \<Rightarrow> string list" where
  "wanted_zones oc wantedZones =
     (if wantedZones = [] then GetZones oc
      else filter (\<lambda>z. in_strings z (spec_CustomZones (oc_Spec oc))) wantedZones)"

definition multiZoneSync :: "options \<Rightarrow> kube_env \<Rightarrow> string list \<Rightarrow> factory \<Rightarrow> unit km" where
  "multiZoneSync op env wantedZones f =
     andthen (gets kw_oc) (\<lambda>oc.
     for_each (wanted_zones oc wantedZones) (\<lambda>zone.
       syncComponent op env f (if zone = spec_Zone (oc_Spec oc) then [] else zone)))"

end
