(* ===== verification/Kube_Laws.thy ===== *)
theory Kube_Laws
  imports Sync_Objects
begin

text \<open>
  Properties of the control layer and of the synchronisation of the objects of one component.
\<close>

section \<open>The calls of the controls\<close>

abbreviation kemits :: "(kcall \<Rightarrow> bool) \<Rightarrow> 'a km \<Rightarrow> kworld \<Rightarrow> bool" where
  "kemits \<equiv> emits_on kw_calls"

lemma kemits_kcall [emits_intros]:
  "P c \<Longrightarrow> kemits P (kcall c f) w" "P c \<Longrightarrow> kemits P (kcallE c g) w"
  by (auto simp: emits_on_def kcall_def kcallE_def Let_def split: sum.splits)

lemma emits_of_sum [emits_intros]: "emits_on log P (of_sum r) s"
  by (cases r) (auto simp: of_sum_def intro: emits_intros)

lemma kemits_event [emits_intros]:
  "(\<And>b r m. P (KEvent b r m)) \<Longrightarrow> kemits P (recordResourceEvent env v k n e) w"
  "(\<And>b r m. P (KEvent b r m)) \<Longrightarrow> kemits P (recordClusterEvent env v n e) w"
  unfolding recordResourceEvent_def recordClusterEvent_def Let_def
  by (cases e; auto intro!: emits_intros)+

lemma kemits_create [emits_intros]:
  assumes "P (KCreate x)" "\<And>b r m. P (KEvent b r m)"
  shows "kemits P (create_object env x) w"
  unfolding create_object_def Let_def by (auto intro!: emits_intros assms split: sum.split)

lemma kemits_delete [emits_intros]:
  assumes "P (KDelete k n)" "\<And>b r m. P (KEvent b r m)"
  shows "kemits P (delete_object env k n) w"
  unfolding delete_object_def Let_def by (auto intro!: emits_intros assms split: sum.split)

text \<open>A loop of retries with an invariant of its variable.\<close>

lemma emits_Retry:
  assumes "\<And>x s. I x \<Longrightarrow> emits_on log P (f x) s"
    and "\<And>x s e y t. I x \<Longrightarrow> f x s = (Ret (e, y), t) \<Longrightarrow> I y" and "I x"
  shows "emits_on log P (RetryOnConflict n f x) s"
  using assms(3)
proof (induction n arbitrary: x s)
  case (Suc n)
  then show ?case
    by (auto intro!: emits_andthen assms(1) emits_intros split: option.split dest: assms(2))
qed (auto intro: emits_intros)

lemma Retry_invariant:
  assumes "\<And>x s e y t. I x \<Longrightarrow> f x s = (Ret (e, y), t) \<Longrightarrow> I y"
    and "I x" "RetryOnConflict n f x s = (Ret (e, y), t)"
  shows "I y"
  using assms(2,3)
proof (induction n arbitrary: x s)
  case (Suc n)
  then obtain err x' s' where step: "f x s = (Ret (err, x'), s')"
    by (auto simp: andthen_Ret_iff)
  then have "I x'" using assms(1) Suc.prems(1) by blast
  with step Suc show ?case by (auto simp: go_simps split: option.splits if_splits)
qed (auto simp: go_simps)

lemma kemits_update_object:
  assumes "\<And>y. I y \<Longrightarrow> P (KUpdate (K y))" "\<And>b r m. P (KEvent b r m)"
    and "\<And>y v. I y \<Longrightarrow> kemits P (refresh y) v" "\<And>y v z t. I y \<Longrightarrow> refresh y v = (Ret z, t) \<Longrightarrow> I z" and "I x"
  shows "kemits P (update_object env K refresh x) w"
proof -
  let ?body = "update_attempt (\<lambda>y. kcallE (KUpdate (K y)) (\<lambda>h. ke_update env h (K y))) refresh"
  have "kemits P (?body y) v" if "I y" for y v
    unfolding update_attempt_def using that assms(1,3) by (auto intro!: emits_intros split: sum.split)
  moreover have "I z" if "I y" "?body y v = (Ret (e, z), t)" for y v e z t
    using that assms(4) unfolding update_attempt_def andthen_attempt_Ret by (auto simp: andthen_Ret_iff go_simps)
  ultimately have "kemits P (RetryOnConflict DefaultBackoff_Steps ?body x) w"
    using \<open>I x\<close> by (intro emits_Retry [where I = I])
  then show ?thesis
    unfolding update_object_def by (auto intro!: emits_andthen emits_intros assms(2))
qed

lemma kemits_refreshed:
  "P c \<Longrightarrow> kemits P (refreshed c look respec x) w" "P c \<Longrightarrow> kemits P (not_refreshed c look x) w"
  unfolding refreshed_def not_refreshed_def by (auto intro!: emits_intros split: sum.split)

lemma refreshed_Ret:
  "refreshed c look respec x w = (Ret y, t) \<Longrightarrow> y = x \<or> (\<exists>u. y = respec u)"
  "not_refreshed c look x w = (Ret y, t) \<Longrightarrow> y = x"
  by (auto simp: refreshed_def not_refreshed_def andthen_attempt_Ret go_simps)

section \<open>Retries\<close>

definition writes :: "kcall list \<Rightarrow> kcall list" where
  "writes cs = filter is_write cs"

lemma writes_simps [simp]:
  "writes [] = []" "writes (c # cs) = (if is_write c then c # writes cs else writes cs)"
  "writes (as @ bs) = writes as @ writes bs"
  by (simp_all add: writes_def)

lemma kcall_eval [go_simps]:
  "f (kw_calls w) = Inr x \<Longrightarrow> kcall c f w = (Ret x, w\<lparr>kw_calls := kw_calls w @ [c]\<rparr>)"
  "f (kw_calls w) = Inl e \<Longrightarrow> kcall c f w = (Fail e, w\<lparr>kw_calls := kw_calls w @ [c]\<rparr>)"
  by (simp_all add: kcall_def)

lemma kcallE_eval [go_simps]:
  "g (kw_calls w) = None \<Longrightarrow> kcallE c g w = (Ret (), w\<lparr>kw_calls := kw_calls w @ [c]\<rparr>)"
  "g (kw_calls w) = Some e \<Longrightarrow> kcallE c g w = (Fail e, w\<lparr>kw_calls := kw_calls w @ [c]\<rparr>)"
  by (simp_all add: kcallE_def kcall_def)

lemma recordResourceEvent_eval:
  "\<exists>evs. recordResourceEvent env v k n e w = (Ret (), w\<lparr>kw_calls := kw_calls w @ evs\<rparr>) \<and> writes evs = []"
proof (cases "ke_v120 env")
  case True
  then show ?thesis by (intro exI [of _ "[]"]) (simp add: recordResourceEvent_def go_simps)
next
  case False
  then show ?thesis by (cases e) (auto simp: recordResourceEvent_def go_simps)
qed

fun is_event :: "kcall \<Rightarrow> bool" where
  "is_event (KEvent _ _ _) = True"
| "is_event _ = False"

lemma recordClusterEvent_eval:
  "\<exists>evs. recordClusterEvent env v n e w = (Ret (), w\<lparr>kw_calls := kw_calls w @ evs\<rparr>)
     \<and> list_all is_event evs"
proof (cases "ke_v120 env")
  case True
  then show ?thesis by (intro exI [of _ "[]"]) (simp add: recordClusterEvent_def go_simps)
next
  case False
  then show ?thesis by (cases e) (auto simp: recordClusterEvent_def go_simps)
qed

lemma guarded_event:
  "\<exists>evs. guarded b (recordClusterEvent env v n e) w = (Ret (), w\<lparr>kw_calls := kw_calls w @ evs\<rparr>)"
proof (cases b)
  case False
  then show ?thesis by (intro exI [of _ "[]"]) (simp add: go_simps)
qed (use recordClusterEvent_eval [of env v n e w] in \<open>auto simp: go_simps\<close>)

text \<open>
  A server with optimistic concurrency: it takes an object of the kind \<open>k\<close> only with the resource
  version \<open>rv\<close>, and answers any other with a conflict.
\<close>

definition versioned :: "kube_env \<Rightarrow> kind \<Rightarrow> string \<Rightarrow> bool" where
  "versioned env k rv \<longleftrightarrow> (\<forall>h x. kobj_kind x = k \<longrightarrow>
     ke_update env h x = (if om_ResourceVersion (kobj_meta x) = rv then None else Some (ApiErr ApiConflict)))"

lemma update_attempt_ok:
  "ke_update env (kw_calls w) (K y) = None \<Longrightarrow>
   update_attempt (\<lambda>y. kcallE (KUpdate (K y)) (\<lambda>h. ke_update env h (K y))) refresh y w
     = (Ret (None, y), w\<lparr>kw_calls := kw_calls w @ [KUpdate (K y)]\<rparr>)"
  by (simp add: update_attempt_def go_simps)

lemma update_attempt_conflict:
  assumes "ke_update env (kw_calls w) (K y) = Some e"
    and "refresh y (w\<lparr>kw_calls := kw_calls w @ [KUpdate (K y)]\<rparr>) = (Ret z, w')"
  shows "update_attempt (\<lambda>y. kcallE (KUpdate (K y)) (\<lambda>h. ke_update env h (K y))) refresh y w = (Ret (Some e, z), w')"
  using assms by (simp add: update_attempt_def go_simps)

lemma update_object_eval:
  assumes "RetryOnConflict DefaultBackoff_Steps
      (update_attempt (\<lambda>y. kcallE (KUpdate (K y)) (\<lambda>h. ke_update env h (K y))) refresh) x w
      = (Ret (err, y), w\<lparr>kw_calls := kw_calls w @ cs\<rparr>)"
  shows "\<exists>evs. update_object env K refresh x w
      = ((case err of None \<Rightarrow> Ret () | Some e \<Rightarrow> Fail e), w\<lparr>kw_calls := kw_calls w @ cs @ evs\<rparr>) \<and> writes evs = []"
proof -
  obtain evs where "recordResourceEvent env ''update'' (kobj_kind (K y)) (kobj_name (K y)) err (w\<lparr>kw_calls := kw_calls w @ cs\<rparr>)
      = (Ret (), w\<lparr>kw_calls := kw_calls w @ cs @ evs\<rparr>)" "writes evs = []"
    using recordResourceEvent_eval [of env "''update''" "kobj_kind (K y)" "kobj_name (K y)" err "w\<lparr>kw_calls := kw_calls w @ cs\<rparr>"]
    by auto
  then show ?thesis
    by (intro exI [of _ evs]) (simp add: update_object_def assms go_simps split: option.split)
qed

text \<open>
  C27: a deployment that was read before somebody else changed it is updated all the same: the first
  attempt meets a conflict, and the second sends the cached object with the specification of the
  caller, which the server takes. Nothing else is written.
\<close>

theorem UpdateDeployment_recovers:
  assumes "versioned env DeploymentKind rv" "om_ResourceVersion (dep_meta d) \<noteq> rv"
    and "\<And>h. ke_listDeployment env h (om_Name (dep_meta d)) = Inr u" "om_ResourceVersion (dep_meta u) = rv"
  shows "\<exists>new. UpdateDeployment env d w = (Ret (), w\<lparr>kw_calls := kw_calls w @ new\<rparr>)
    \<and> writes new = [KUpdate (KDeployment d), KUpdate (KDeployment (u\<lparr>dep_Spec := dep_Spec d\<rparr>))]"
proof -
  let ?n = "om_Name (dep_meta d)" and ?u = "u\<lparr>dep_Spec := dep_Spec d\<rparr>"
  let ?R = "refreshed (KLister DeploymentKind ?n) (\<lambda>h. ke_listDeployment env h ?n) (\<lambda>v. v\<lparr>dep_Spec := dep_Spec d\<rparr>)"
  let ?B = "update_attempt (\<lambda>y. kcallE (KUpdate (KDeployment y)) (\<lambda>h. ke_update env h (KDeployment y))) ?R"
  have first: "?B d w = (Ret (Some (ApiErr ApiConflict), ?u), w\<lparr>kw_calls := kw_calls w @ [KUpdate (KDeployment d), KLister DeploymentKind ?n]\<rparr>)"
    using assms by (intro update_attempt_conflict) (auto simp: versioned_def refreshed_def go_simps)
  have second: "?B ?u v = (Ret (None, ?u), v\<lparr>kw_calls := kw_calls v @ [KUpdate (KDeployment ?u)]\<rparr>)" for v
    using assms by (intro update_attempt_ok) (auto simp: versioned_def)
  have "RetryOnConflict DefaultBackoff_Steps ?B d w = (Ret (None, ?u),
      w\<lparr>kw_calls := kw_calls w @ [KUpdate (KDeployment d), KLister DeploymentKind ?n, KUpdate (KDeployment ?u)]\<rparr>)"
    by (simp add: DefaultBackoff_Steps_def numeral_eq_Suc go_simps first second)
  then obtain evs where "writes evs = []" "update_object env KDeployment ?R d w = (Ret (), w\<lparr>kw_calls := kw_calls w
      @ [KUpdate (KDeployment d), KLister DeploymentKind ?n, KUpdate (KDeployment ?u)] @ evs\<rparr>)"
    by (auto dest!: update_object_eval)
  then show ?thesis
    unfolding UpdateDeployment_def Let_def
    by (intro exI [of _ "[KUpdate (KDeployment d), KLister DeploymentKind ?n, KUpdate (KDeployment ?u)] @ evs"]) simp
qed

definition meta_v :: "string \<Rightarrow> string \<Rightarrow> ObjectMeta" where
  "meta_v n rv = (new_meta n [] None None [])\<lparr>om_ResourceVersion := rv\<rparr>"

text \<open>An environment for examples: every call succeeds, every cache is empty, nothing is recorded.\<close>

definition quiet_env :: kube_env where
  "quiet_env = \<lparr>ke_create = \<lambda>_ _. None, ke_update = \<lambda>_ _. None, ke_delete = \<lambda>_ _ _. None,
     ke_listDeployment = \<lambda>_ _. Inl (ApiErr NotFound), ke_listDaemonSet = \<lambda>_ _. Inl (ApiErr NotFound),
     ke_listCronJob = \<lambda>_ _. Inl (ApiErr NotFound), ke_listService = \<lambda>_ _. Inl (ApiErr NotFound),
     ke_listConfigMap = \<lambda>_ _. Inl (ApiErr NotFound), ke_listPVC = \<lambda>_ _. Inl (ApiErr NotFound),
     ke_listIngress = \<lambda>_ _. Inl (ApiErr NotFound), ke_getIngress = \<lambda>_ _. Inl (ApiErr NotFound),
     ke_getDeployment = \<lambda>_ _. Inl (ApiErr NotFound), ke_getConfigMap = \<lambda>_ _. Inl (ApiErr NotFound),
     ke_listNodes = \<lambda>_. Inr [], ke_listBaremetalNodes = \<lambda>_. Inr [], ke_minioSecret = \<lambda>_. Inl (ApiErr NotFound),
     ke_minioService = \<lambda>_. Inl (ApiErr NotFound), ke_glanceS3 = \<lambda>_. None, ke_getCronJob = \<lambda>_ _. Inl (ApiErr NotFound), ke_updateOC = \<lambda>_ oc. Inr oc,
     ke_listOC = \<lambda>_ _. Inl (ApiErr NotFound), ke_getOC = \<lambda>_ _. Inl (ApiErr NotFound),
     ke_listSecret = \<lambda>_ _. None, ke_createCert = \<lambda>_. None, ke_createEtcdCert = \<lambda>_. None,
     ke_ensureDB = \<lambda>_ _ _. None, ke_ensureAccount = \<lambda>_ _. None, ke_phaseSetup = \<lambda>_ _. None,
     ke_phaseInit = \<lambda>_ _. None, ke_mcclientSync = \<lambda>_ _. None, ke_v120 = True, ke_errText = \<lambda>_. []\<rparr>"

definition versioned_env :: "string \<Rightarrow> kube_env" where
  "versioned_env rv = quiet_env\<lparr>ke_update := \<lambda>_ x. if om_ResourceVersion (kobj_meta x) = rv then None else Some (ApiErr ApiConflict)\<rparr>"

theorem UpdateDeployment_recovers_witness:
  "\<exists>new. UpdateDeployment ((versioned_env ''2'')\<lparr>ke_listDeployment := \<lambda>_ _. Inr (zero_Deployment\<lparr>dep_meta := meta_v ''d'' ''2''\<rparr>)\<rparr>)
       (zero_Deployment\<lparr>dep_meta := meta_v ''d'' ''1''\<rparr>) \<lparr>kw_calls = [], kw_oc = zero_OnecloudCluster\<rparr>
     = (Ret (), \<lparr>kw_calls = new, kw_oc = zero_OnecloudCluster\<rparr>) \<and> length (writes new) = 2"
  using UpdateDeployment_recovers [of "(versioned_env ''2'')\<lparr>ke_listDeployment := \<lambda>_ _. Inr (zero_Deployment\<lparr>dep_meta := meta_v ''d'' ''2''\<rparr>)\<rparr>" "''2''"
      "zero_Deployment\<lparr>dep_meta := meta_v ''d'' ''1''\<rparr>" "zero_Deployment\<lparr>dep_meta := meta_v ''d'' ''2''\<rparr>" "\<lparr>kw_calls = [], kw_oc = zero_OnecloudCluster\<rparr>"]
  by (fastforce simp: versioned_def versioned_env_def meta_v_def)

text \<open>
  C36: a service in the same situation is not updated: the control sends the stale object four times,
  whatever the cache holds, and returns the conflict; when the cache has lost the object it panics.
\<close>

theorem UpdateService_never_recovers:
  assumes "versioned env ServiceKind rv" "om_ResourceVersion (svc_meta s) \<noteq> rv"
  shows "((\<forall>h. \<exists>u. ke_listService env h (om_Name (svc_meta s)) = Inr u) \<longrightarrow>
      (\<exists>new. UpdateService env s w = (Fail (ApiErr ApiConflict), w\<lparr>kw_calls := kw_calls w @ new\<rparr>)
        \<and> writes new = replicate 4 (KUpdate (KService s))))
    \<and> ((\<forall>h. \<exists>e. ke_listService env h (om_Name (svc_meta s)) = Inl e) \<longrightarrow> (\<exists>p. fst (UpdateService env s w) = Panic p))"
proof (intro conjI impI)
  let ?n = "om_Name (svc_meta s)"
  let ?R = "not_refreshed (KLister ServiceKind ?n) (\<lambda>h. ke_listService env h ?n)"
  let ?B = "update_attempt (\<lambda>y. kcallE (KUpdate (KService y)) (\<lambda>h. ke_update env h (KService y))) ?R"
  let ?once = "[KUpdate (KService s), KLister ServiceKind ?n]"
  have send: "ke_update env h (KService s) = Some (ApiErr ApiConflict)" for h
    using assms by (simp add: versioned_def)
  {
    assume look: "\<forall>h. \<exists>u. ke_listService env h ?n = Inr u"
    have "?R s v = (Ret s, v\<lparr>kw_calls := kw_calls v @ [KLister ServiceKind ?n]\<rparr>)" for v
      using look [rule_format, of "kw_calls v"] by (auto simp: not_refreshed_def go_simps)
    then have again: "?B s v = (Ret (Some (ApiErr ApiConflict), s), v\<lparr>kw_calls := kw_calls v @ ?once\<rparr>)" for v
      using send by (intro update_attempt_conflict) auto
    have "RetryOnConflict DefaultBackoff_Steps ?B s w
        = (Ret (Some (ApiErr ApiConflict), s), w\<lparr>kw_calls := kw_calls w @ (?once @ ?once @ ?once @ ?once)\<rparr>)"
      by (simp add: DefaultBackoff_Steps_def numeral_eq_Suc go_simps again)
    from update_object_eval [OF this] obtain evs where "writes evs = []" "update_object env KService ?R s w
        = (Fail (ApiErr ApiConflict), w\<lparr>kw_calls := kw_calls w @ (?once @ ?once @ ?once @ ?once) @ evs\<rparr>)"
      by auto
    then show "\<exists>new. UpdateService env s w = (Fail (ApiErr ApiConflict), w\<lparr>kw_calls := kw_calls w @ new\<rparr>)
        \<and> writes new = replicate 4 (KUpdate (KService s))"
      unfolding UpdateService_def Let_def
      by (intro exI [of _ "(?once @ ?once @ ?once @ ?once) @ evs"]) (simp add: numeral_eq_Suc)
  next
    assume "\<forall>h. \<exists>e. ke_listService env h ?n = Inl e"
    then have "\<exists>e. ke_listService env (kw_calls w @ [KUpdate (KService s)]) ?n = Inl e" by blast
    then show "\<exists>p. fst (UpdateService env s w) = Panic p"
      using send unfolding UpdateService_def Let_def
      by (auto simp: update_object_def DefaultBackoff_Steps_def numeral_eq_Suc
          update_attempt_def not_refreshed_def go_simps)
  }
qed

definition service_v :: "string \<Rightarrow> string \<Rightarrow> CoreService" where
  "service_v n rv = \<lparr>svc_meta = meta_v n rv,
     svc_Spec = \<lparr>css_Type = [], css_Selector = None, css_Ports = [], css_ClusterIP = [], css_PublishNotReadyAddresses = False\<rparr>\<rparr>"

theorem UpdateService_never_recovers_witness:
  "\<exists>new. UpdateService ((versioned_env ''2'')\<lparr>ke_listService := \<lambda>_ _. Inr (service_v ''s'' ''2'')\<rparr>)
       (service_v ''s'' ''1'') \<lparr>kw_calls = [], kw_oc = zero_OnecloudCluster\<rparr>
     = (Fail (ApiErr ApiConflict), \<lparr>kw_calls = new, kw_oc = zero_OnecloudCluster\<rparr>) \<and> length (writes new) = 4"
  using UpdateService_never_recovers [of "(versioned_env ''2'')\<lparr>ke_listService := \<lambda>_ _. Inr (service_v ''s'' ''2'')\<rparr>" "''2''"
      "service_v ''s'' ''1''" "\<lparr>kw_calls = [], kw_oc = zero_OnecloudCluster\<rparr>"]
  by (auto simp: versioned_def versioned_env_def service_v_def meta_v_def)

text \<open>
  A cluster object that was read before somebody else changed it: the update succeeds on the second
  attempt, but what is then written is the specification in the cache. The changes the caller made to
  the specification are lost although the caller gets no error; only the status is carried over.
\<close>

theorem UpdateCluster_drops_specification:
  assumes "\<And>h x. ke_updateOC env h x = (if om_ResourceVersion (oc_ObjectMeta x) = rv then Inr x else Inl (ApiErr ApiConflict))"
    and "om_ResourceVersion (oc_ObjectMeta oc) \<noteq> rv"
    and "\<And>h. ke_listOC env h (om_Name (oc_ObjectMeta oc)) = Inr u" "om_ResourceVersion (oc_ObjectMeta u) = rv"
  shows "\<exists>oc' w'. UpdateCluster env oc sameStatus w = (Ret (Some oc'), w')
    \<and> oc_Spec oc' = oc_Spec u \<and> oc_Status oc' = oc_Status oc \<and> oc_ObjectMeta oc' = oc_ObjectMeta u"
proof -
  let ?n = "om_Name (oc_ObjectMeta oc)" and ?u = "u\<lparr>oc_Status := oc_Status oc\<rparr>"
  let ?B = "cluster_attempt env ?n (oc_Status oc)"
  have first: "?B (oc, None) w = (Ret (Some (ApiErr ApiConflict), (?u, None)), w\<lparr>kw_calls := kw_calls w @ [KUpdateOC oc, KListerOC ?n]\<rparr>)"
    using assms by (simp add: cluster_attempt_def go_simps)
  have second: "?B (?u, None) v = (Ret (None, (?u, Some ?u)), v\<lparr>kw_calls := kw_calls v @ [KUpdateOC ?u]\<rparr>)" for v
    using assms by (simp add: cluster_attempt_def go_simps)
  obtain evs where "(guarded (\<not> sameStatus) (recordClusterEvent env ''update'' (om_Name (oc_ObjectMeta ?u)) None))
      (w\<lparr>kw_calls := kw_calls w @ [KUpdateOC oc, KListerOC ?n, KUpdateOC ?u]\<rparr>) = (Ret (), w\<lparr>kw_calls := evs\<rparr>)"
    using guarded_event [of "\<not> sameStatus" env "''update''" "om_Name (oc_ObjectMeta ?u)" None
        "w\<lparr>kw_calls := kw_calls w @ [KUpdateOC oc, KListerOC ?n, KUpdateOC ?u]\<rparr>"] by auto
  then show ?thesis
    unfolding UpdateCluster_def Let_def
    by (simp add: DefaultRetry_Steps_def numeral_eq_Suc go_simps first second)
qed

theorem UpdateCluster_drops_specification_witness:
  "\<exists>oc' w'. UpdateCluster (quiet_env\<lparr>ke_updateOC := \<lambda>_ x. if om_ResourceVersion (oc_ObjectMeta x) = ''2'' then Inr x else Inl (ApiErr ApiConflict),
        ke_listOC := \<lambda>_ _. Inr (zero_OnecloudCluster\<lparr>oc_ObjectMeta := meta_v ''oc'' ''2''\<rparr>)\<rparr>)
      (zero_OnecloudCluster\<lparr>oc_ObjectMeta := meta_v ''oc'' ''1'', oc_Spec := zero_OnecloudClusterSpec\<lparr>spec_Zone := ''zone1''\<rparr>\<rparr>) True
      \<lparr>kw_calls = [], kw_oc = zero_OnecloudCluster\<rparr> = (Ret (Some oc'), w') \<and> spec_Zone (oc_Spec oc') = []"
  using UpdateCluster_drops_specification [of "quiet_env\<lparr>ke_updateOC := \<lambda>_ x. if om_ResourceVersion (oc_ObjectMeta x) = ''2'' then Inr x else Inl (ApiErr ApiConflict),
        ke_listOC := \<lambda>_ _. Inr (zero_OnecloudCluster\<lparr>oc_ObjectMeta := meta_v ''oc'' ''2''\<rparr>)\<rparr>" "''2''"
      "zero_OnecloudCluster\<lparr>oc_ObjectMeta := meta_v ''oc'' ''1'', oc_Spec := zero_OnecloudClusterSpec\<lparr>spec_Zone := ''zone1''\<rparr>\<rparr>"
      "zero_OnecloudCluster\<lparr>oc_ObjectMeta := meta_v ''oc'' ''2''\<rparr>" True "\<lparr>kw_calls = [], kw_oc = zero_OnecloudCluster\<rparr>"]
  by (auto simp: meta_v_def zero_OnecloudCluster_def zero_OnecloudClusterSpec_def)

end
