(* ===== verification/Sync_Laws.thy ===== *)
theory Sync_Laws
  imports Kube_Laws
begin

text \<open>
  Properties of the synchronisation of deployments, services, config maps and whole components: what
  may be written, in which order, and that a second pass over an unchanged cluster writes nothing.
\<close>

section \<open>Selectors of deployments\<close>

lemma kemits_UpdateDeployment [emits_intros]:
  assumes "\<And>y. dep_Spec y = dep_Spec d \<Longrightarrow> P (KUpdate (KDeployment y))" "\<And>b r m. P (KEvent b r m)" "\<And>k n. P (KLister k n)"
  shows "kemits P (UpdateDeployment env d) w"
  unfolding UpdateDeployment_def Let_def
  by (rule kemits_update_object [where I = "\<lambda>y. dep_Spec y = dep_Spec d"])
     (use assms in \<open>auto intro: kemits_refreshed dest: refreshed_Ret\<close>)

lemma kemits_deployment_controls [emits_intros]:
  "P (KCreate (KDeployment d)) \<Longrightarrow> (\<And>b r m. P (KEvent b r m)) \<Longrightarrow> kemits P (CreateDeployment env d) w"
  "P (KDelete DeploymentKind n) \<Longrightarrow> (\<And>b r m. P (KEvent b r m)) \<Longrightarrow> kemits P (DeleteDeployment env n) w"
  unfolding CreateDeployment_def DeleteDeployment_def by (auto intro!: emits_intros)

lemma kemits_write_shared [emits_intros]: "kemits P (write_shared sh a b) w"
  unfolding write_shared_def by (auto intro!: emits_intros)

lemma SetDeployment_keeps:
  assumes "SetDeploymentLastAppliedConfigAnnotation js d = (e, d')"
  shows "dsp_Selector (dep_Spec d') = dsp_Selector (dep_Spec d)" "dsp_Replicas (dep_Spec d') = dsp_Replicas (dep_Spec d)"
    "pt_Labels (dsp_Template (dep_Spec d')) = pt_Labels (dsp_Template (dep_Spec d))"
    "om_Name (dep_meta d') = om_Name (dep_meta d)"
  using assms by (auto simp: SetDeploymentLastAppliedConfigAnnotation_def Let_def split: sum.splits)

lemma kemits_updateDeployment:
  assumes "\<And>y. dsp_Selector (dep_Spec y) = dsp_Selector (dep_Spec old)
       \<Longrightarrow> pt_Labels (dsp_Template (dep_Spec y)) = pt_Labels (dsp_Template (dep_Spec new))
       \<Longrightarrow> selectorMatchesLabels (dsp_Selector (dep_Spec old)) (pt_Labels (dsp_Template (dep_Spec new)))
       \<Longrightarrow> P (KUpdate (KDeployment y))"
    and "\<And>y. om_Name (dep_meta y) = om_Name (dep_meta new) \<Longrightarrow> dsp_Selector (dep_Spec y) = dsp_Selector (dep_Spec new) \<Longrightarrow> P (KCreate (KDeployment y))"
    and "P (KDelete DeploymentKind (om_Name (dep_meta old)))" "\<And>b r m. P (KEvent b r m)" "\<And>k n. P (KLister k n)"
    and "\<And>a b v. kemits P (share a b) v"
  shows "kemits P (updateDeployment op env share new old) w"
  unfolding updateDeployment_def Let_def
  by (auto intro!: emits_intros assms split: sum.split prod.split option.split dest: SetDeployment_keeps)

text \<open>
  C5: an update of a deployment never changes its selector, which the API server would refuse, and the
  selector always selects the pods of the template that is sent; a deployment whose selector does not
  fit the new labels is deleted and created again instead.
\<close>

theorem updateDeployment_selector_safe:
  assumes "updateDeployment op env (write_shared sh) new old w = (r, w')" "kw_calls w' = kw_calls w @ calls"
    and "KUpdate x \<in> set calls"
  shows "\<exists>d. x = KDeployment d \<and> dsp_Selector (dep_Spec d) = dsp_Selector (dep_Spec old)
    \<and> selectorMatchesLabels (dsp_Selector (dep_Spec d)) (pt_Labels (dsp_Template (dep_Spec d)))"
proof -
  let ?ok = "\<lambda>x. \<exists>d. x = KDeployment d \<and> dsp_Selector (dep_Spec d) = dsp_Selector (dep_Spec old)
    \<and> selectorMatchesLabels (dsp_Selector (dep_Spec d)) (pt_Labels (dsp_Template (dep_Spec d)))"
  have "kemits (\<lambda>c. \<forall>x. c = KUpdate x \<longrightarrow> ?ok x) (updateDeployment op env (write_shared sh) new old) w"
    by (rule kemits_updateDeployment) (auto intro: emits_intros)
  from emitsD [OF this assms(1,2,3)] show ?thesis by blast
qed

section \<open>What a synchronisation leaves in the API server\<close>

text \<open>
  The API server as a store: the calls of the operator applied in turn. What it keeps of an object it
  is sent is the argument \<open>adm\<close> (admission and defaulting).
\<close>

type_synonym store = "kind \<times> string \<Rightarrow> kobj option"

abbreviation kobj_key :: "kobj \<Rightarrow> kind \<times> string" where
  "kobj_key x \<equiv> (kobj_kind x, kobj_name x)"

fun apply_call :: "(kobj \<Rightarrow> kobj) \<Rightarrow> kcall \<Rightarrow> store \<Rightarrow> store" where
  "apply_call adm (KCreate x) st = (if st (kobj_key x) = None then st(kobj_key x \<mapsto> adm x) else st)"
| "apply_call adm (KUpdate x) st = (if st (kobj_key x) = None then st else st(kobj_key x \<mapsto> adm x))"
| "apply_call adm (KDelete k n) st = st((k, n) := None)"
| "apply_call adm _ st = st"

definition store_after :: "(kobj \<Rightarrow> kobj) \<Rightarrow> store \<Rightarrow> kcall list \<Rightarrow> store" where
  "store_after adm st cs = fold (apply_call adm) cs st"

lemma apply_call_read: "\<not> is_write c \<Longrightarrow> apply_call adm c st = st"
  by (cases c) auto

lemma store_after_simps [simp]:
  "store_after adm st [] = st"
  "store_after adm st (cs @ [c]) = apply_call adm c (store_after adm st cs)"
  "store_after adm st (cs @ c # cs') = store_after adm (apply_call adm c (store_after adm st cs)) cs'"
  by (simp_all add: store_after_def)

lemma store_after_reads:
  assumes "writes cs' = []"
  shows "store_after adm st (cs @ cs') = store_after adm st cs" "store_after adm st cs' = st"
proof -
  have "fold (apply_call adm) cs' s = s" for s
    using assms by (induction cs' arbitrary: s) (auto simp: apply_call_read split: if_splits)
  then show "store_after adm st (cs @ cs') = store_after adm st cs" "store_after adm st cs' = st"
    by (simp_all add: store_after_def)
qed

text \<open>The server and a cache of deployments that is up to date, and what admission must not touch.\<close>

definition serves :: "kube_env \<Rightarrow> (kobj \<Rightarrow> kobj) \<Rightarrow> store \<Rightarrow> bool" where
  "serves env adm st0 \<longleftrightarrow> (\<forall>h.
     (\<forall>n. ke_listDeployment env h n = (case store_after adm st0 h (DeploymentKind, n) of
            Some (KDeployment d) \<Rightarrow> Inr d | _ \<Rightarrow> Inl (ApiErr NotFound)))
   \<and> (\<forall>x. ke_create env h x = (if store_after adm st0 h (kobj_key x) = None then None else Some (ApiErr AlreadyExists)))
   \<and> (\<forall>x. ke_update env h x = (if store_after adm st0 h (kobj_key x) = None then Some (ApiErr NotFound) else None))
   \<and> (\<forall>k n. ke_delete env h k n = (if store_after adm st0 h (k, n) = None then Some (ApiErr NotFound) else None)))"

definition deployments_at :: "store \<Rightarrow> bool" where
  "deployments_at st \<longleftrightarrow> (\<forall>n x. st (DeploymentKind, n) = Some x \<longrightarrow> (\<exists>d. x = KDeployment d \<and> om_Name (dep_meta d) = n \<and> dsp_Replicas (dep_Spec d) \<noteq> None))"

definition admits :: "(kobj \<Rightarrow> kobj) \<Rightarrow> bool" where
  "admits adm \<longleftrightarrow> (\<forall>d. \<exists>d'. adm (KDeployment d) = KDeployment d' \<and> om_Name (dep_meta d') = om_Name (dep_meta d)
     \<and> om_Annotations (dep_meta d') = om_Annotations (dep_meta d)
     \<and> dsp_Selector (dep_Spec d') = dsp_Selector (dep_Spec d) \<and> dsp_Replicas (dep_Spec d') = dsp_Replicas (dep_Spec d))"

definition encodes :: "json \<Rightarrow> bool" where
  "encodes js \<longleftrightarrow> (\<forall>sp. \<exists>t. js_Deployment js sp = Inr t) \<and> (\<forall>p. \<exists>t. js_Pod js p = Inr t)"

text \<open>The specification: the deployment wanted in the server, from the new one and the stored one.\<close>

definition annotated :: "json \<Rightarrow> Deployment \<Rightarrow> Deployment" where
  "annotated js d = snd (SetDeploymentLastAppliedConfigAnnotation js d)"

definition merged :: "Deployment \<Rightarrow> Deployment \<Rightarrow> Deployment" where
  "merged new old = old\<lparr>dep_Spec := (dep_Spec old)\<lparr>dsp_Template := dsp_Template (dep_Spec new),
     dsp_Replicas := dsp_Replicas (dep_Spec new), dsp_Strategy := dsp_Strategy (dep_Spec new)\<rparr>\<rparr>"

definition wanted :: "json \<Rightarrow> (kobj \<Rightarrow> kobj) \<Rightarrow> Deployment \<Rightarrow> bool \<Rightarrow> kobj option \<Rightarrow> kobj option" where
  "wanted js adm new stop stored =
     (if stop then None
      else case stored of
        Some (KDeployment old) \<Rightarrow>
          (if \<not> selectorMatchesLabels (dsp_Selector (dep_Spec old)) (pt_Labels (dsp_Template (dep_Spec new)))
           then Some (adm (KDeployment (annotated js new)))
           else if deploymentEqual js new old then stored
           else Some (adm (KDeployment (annotated js (merged new old)))))
      | _ \<Rightarrow> Some (adm (KDeployment (annotated js new))))"

lemma Set_encodes: "encodes js \<Longrightarrow> SetDeploymentLastAppliedConfigAnnotation js d = (None, annotated js d)"
proof -
  assume "encodes js"
  then obtain t p where "js_Deployment js (dep_Spec d) = Inr t" "js_Pod js (pt_Spec (dsp_Template (dep_Spec d))) = Inr p"
    by (meson encodes_def)
  then show ?thesis by (simp add: annotated_def SetDeploymentLastAppliedConfigAnnotation_def)
qed

lemma annotated_sel [simp]:
  "dsp_Selector (dep_Spec (annotated js d)) = dsp_Selector (dep_Spec d)"
  "dsp_Replicas (dep_Spec (annotated js d)) = dsp_Replicas (dep_Spec d)"
  "om_Name (dep_meta (annotated js d)) = om_Name (dep_meta d)"
  using SetDeployment_keeps [of js d "fst (SetDeploymentLastAppliedConfigAnnotation js d)" "annotated js d"]
  by (simp_all add: annotated_def)

lemma merged_sel [simp]:
  "dsp_Selector (dep_Spec (merged new old)) = dsp_Selector (dep_Spec old)"
  "dsp_Replicas (dep_Spec (merged new old)) = dsp_Replicas (dep_Spec new)"
  "dsp_Template (dep_Spec (merged new old)) = dsp_Template (dep_Spec new)"
  "dsp_Strategy (dep_Spec (merged new old)) = dsp_Strategy (dep_Spec new)"
  "om_Name (dep_meta (merged new old)) = om_Name (dep_meta old)"
  by (simp_all add: merged_def)

text \<open>The controls against such a server.\<close>

lemma create_ok:
  assumes "ke_create env (kw_calls w) x = None"
  shows "\<exists>evs. create_object env x w = (Ret (), w\<lparr>kw_calls := kw_calls w @ KCreate x # evs\<rparr>) \<and> writes evs = []"
  using recordResourceEvent_eval [of env "''create''" "kobj_kind x" "kobj_name x" None "w\<lparr>kw_calls := kw_calls w @ [KCreate x]\<rparr>"]
  by (auto simp: create_object_def assms go_simps)

lemma delete_ok:
  assumes "ke_delete env (kw_calls w) k n = None"
  shows "\<exists>evs. delete_object env k n w = (Ret (), w\<lparr>kw_calls := kw_calls w @ KDelete k n # evs\<rparr>) \<and> writes evs = []"
  using recordResourceEvent_eval [of env "''delete''" k n None "w\<lparr>kw_calls := kw_calls w @ [KDelete k n]\<rparr>"]
  by (auto simp: delete_object_def assms go_simps)

lemma update_ok:
  assumes "ke_update env (kw_calls w) (K x) = None"
  shows "\<exists>evs. update_object env K refresh x w = (Ret (), w\<lparr>kw_calls := kw_calls w @ KUpdate (K x) # evs\<rparr>) \<and> writes evs = []"
proof -
  have "RetryOnConflict DefaultBackoff_Steps
      (update_attempt (\<lambda>y. kcallE (KUpdate (K y)) (\<lambda>h. ke_update env h (K y))) refresh) x w
      = (Ret (None, x), w\<lparr>kw_calls := kw_calls w @ [KUpdate (K x)]\<rparr>)"
    using assms by (simp add: DefaultBackoff_Steps_def numeral_eq_Suc update_attempt_ok go_simps)
  from update_object_eval [OF this] show ?thesis by auto
qed

lemma write_shared_eval: "\<exists>oc'. write_shared sh a b w = (Ret (), w\<lparr>kw_oc := oc'\<rparr>)"
proof (cases "a = None")
  case True
  then show ?thesis by (intro exI [of _ "kw_oc w"]) (simp add: write_shared_def go_simps)
next
  case False
  then show ?thesis
    by (intro exI [of _ "sh (\<lambda>_. b) (kw_oc w)"]) (cases w, simp add: write_shared_def go_simps)
qed

abbreviation stored :: "(kobj \<Rightarrow> kobj) \<Rightarrow> store \<Rightarrow> kworld \<Rightarrow> store" where
  "stored adm st0 w \<equiv> store_after adm st0 (kw_calls w)"

lemma stored_quiet:
  assumes "kemits (\<lambda>c. \<not> is_write c) m w" "m w = (r, w')"
  shows "stored adm st0 w' = stored adm st0 w"
proof -
  obtain new where "kw_calls w' = kw_calls w @ new" "list_all (\<lambda>c. \<not> is_write c) new"
    using assms by (auto simp: emits_on_def)
  moreover from this have "writes new = []" by (simp add: writes_def filter_empty_conv list_all_iff)
  ultimately show ?thesis by (simp add: store_after_reads)
qed

lemma serves_calls:
  assumes "serves env adm st0"
  shows "stored adm st0 w (kobj_key x) = None \<Longrightarrow> ke_create env (kw_calls w) x = None"
    "stored adm st0 w (kobj_key x) \<noteq> None \<Longrightarrow> ke_update env (kw_calls w) x = None"
    "stored adm st0 w (k, n) \<noteq> None \<Longrightarrow> ke_delete env (kw_calls w) k n = None"
  using assms by (simp_all add: serves_def)

lemma CreateDeployment_stores:
  assumes "serves env adm st0" "stored adm st0 w (DeploymentKind, om_Name (dep_meta d)) = None"
  obtains w' where "CreateDeployment env d w = (Ret (), w')" "kw_oc w' = kw_oc w"
    "stored adm st0 w' = (stored adm st0 w)((DeploymentKind, om_Name (dep_meta d)) \<mapsto> adm (KDeployment d))"
  using create_ok [of env w "KDeployment d"] serves_calls(1) [OF assms(1), of w "KDeployment d"] assms(2)
  by (auto simp: CreateDeployment_def store_after_reads)

lemma DeleteDeployment_stores:
  assumes "serves env adm st0" "stored adm st0 w (DeploymentKind, n) = Some x"
  obtains w' where "DeleteDeployment env n w = (Ret (), w')" "kw_oc w' = kw_oc w"
    "stored adm st0 w' = (stored adm st0 w)((DeploymentKind, n) := None)"
  using delete_ok [of env w DeploymentKind n] serves_calls(3) [OF assms(1), of w DeploymentKind n] assms(2)
  by (auto simp: DeleteDeployment_def store_after_reads)

lemma UpdateDeployment_stores:
  assumes "serves env adm st0" "stored adm st0 w (DeploymentKind, om_Name (dep_meta d)) = Some x"
  obtains w' where "UpdateDeployment env d w = (Ret (), w')" "kw_oc w' = kw_oc w"
    "stored adm st0 w' = (stored adm st0 w)((DeploymentKind, om_Name (dep_meta d)) \<mapsto> adm (KDeployment d))"
  using update_ok [of env w KDeployment d] serves_calls(2) [OF assms(1), of w "KDeployment d"] assms(2)
  by (fastforce simp: UpdateDeployment_def store_after_reads Let_def)

lemma updateDeployment_stores:
  assumes srv: "serves env adm st0" and enc: "encodes (op_json op)"
    and old: "stored adm st0 w (DeploymentKind, om_Name (dep_meta new)) = Some (KDeployment old)"
    and nm: "om_Name (dep_meta old) = om_Name (dep_meta new)"
    and rep: "dsp_Replicas (dep_Spec old) \<noteq> None" "dsp_Replicas (dep_Spec new) \<noteq> None"
  obtains d w' where "updateDeployment op env (write_shared sh) new old w = (Ret (d, None), w')"
    "stored adm st0 w' = (stored adm st0 w)((DeploymentKind, om_Name (dep_meta new)) :=
       wanted (op_json op) adm new False (Some (KDeployment old)))"
proof -
  let ?js = "op_json op" and ?k = "(DeploymentKind, om_Name (dep_meta new))"
  consider (recreate) "\<not> selectorMatchesLabels (dsp_Selector (dep_Spec old)) (pt_Labels (dsp_Template (dep_Spec new)))"
    | (same) "selectorMatchesLabels (dsp_Selector (dep_Spec old)) (pt_Labels (dsp_Template (dep_Spec new)))" "deploymentEqual ?js new old"
    | (change) "selectorMatchesLabels (dsp_Selector (dep_Spec old)) (pt_Labels (dsp_Template (dep_Spec new)))" "\<not> deploymentEqual ?js new old"
    by blast
  then show ?thesis
  proof cases
    case recreate
    obtain w1 where w1: "DeleteDeployment env (om_Name (dep_meta new)) w = (Ret (), w1)"
      "stored adm st0 w1 = (stored adm st0 w)(?k := None)"
      using DeleteDeployment_stores [OF srv old] by blast
    obtain oc' where w2: "write_shared sh (pt_Annotations (dsp_Template (dep_Spec new)))
        (pt_Annotations (dsp_Template (dep_Spec (annotated ?js new)))) w1 = (Ret (), w1\<lparr>kw_oc := oc'\<rparr>)"
      using write_shared_eval by blast
    obtain w3 where w3: "CreateDeployment env (annotated ?js new) (w1\<lparr>kw_oc := oc'\<rparr>) = (Ret (), w3)"
      "stored adm st0 w3 = (stored adm st0 w1)(?k \<mapsto> adm (KDeployment (annotated ?js new)))"
      using CreateDeployment_stores [OF srv, of "w1\<lparr>kw_oc := oc'\<rparr>" "annotated ?js new"] w1(2) by auto
    show ?thesis
      by (rule that [of "annotated ?js new" w3])
         (use recreate nm in \<open>simp_all add: updateDeployment_def Set_encodes [OF enc] w1 w2 w3 go_simps wanted_def\<close>)
  next
    case same
    then show ?thesis
      by (intro that [of new w]) (simp_all add: updateDeployment_def go_simps wanted_def old fun_upd_idem)
  next
    case change
    obtain n m where reps: "dsp_Replicas (dep_Spec old) = Some m" "dsp_Replicas (dep_Spec new) = Some n" using rep by auto
    then have mrg: "old\<lparr>dep_Spec := (dep_Spec old)\<lparr>dsp_Template := dsp_Template (dep_Spec new), dsp_Replicas := Some n,
        dsp_Strategy := dsp_Strategy (dep_Spec new)\<rparr>\<rparr> = merged new old"
      by (simp add: merged_def)
    let ?d = "annotated ?js (merged new old)"
    obtain oc' where w1: "write_shared sh (pt_Annotations (dsp_Template (dep_Spec new)))
        (pt_Annotations (dsp_Template (dep_Spec ?d))) w = (Ret (), w\<lparr>kw_oc := oc'\<rparr>)"
      using write_shared_eval by blast
    obtain w2 where w2: "UpdateDeployment env ?d (w\<lparr>kw_oc := oc'\<rparr>) = (Ret (), w2)"
      "stored adm st0 w2 = (stored adm st0 w)(?k \<mapsto> adm (KDeployment ?d))"
      using UpdateDeployment_stores [OF srv, of "w\<lparr>kw_oc := oc'\<rparr>" ?d "KDeployment old"] old nm by auto
    show ?thesis
      by (rule that [of _ w2])
         (use change reps in \<open>simp_all add: updateDeployment_def mrg Set_encodes [OF enc] w1 w2 go_simps wanted_def Let_def\<close>)
  qed
qed

text \<open>
  C3: \<open>syncFunc\<close> implements the specification \<open>wanted\<close> against the API server: afterwards the server
  holds of the deployment exactly what is wanted (nothing when it has to stop, the annotated new object
  when there was none or its selector does not fit, the stored object when the annotation says that it
  is the new one, and the merge otherwise), and every other object is as it was.
\<close>

theorem sync_one_refines:
  assumes "serves env adm st0" "encodes (op_json op)" "deployments_at (stored adm st0 w)"
    and "dsp_Replicas (dep_Spec new) \<noteq> None" "\<And>v. kemits (\<lambda>c. \<not> is_write c) post v"
    and "sync_one op env post (write_shared sh) new stop w = (Ret (d, err), w')"
  shows "stored adm st0 w' = (stored adm st0 w)((DeploymentKind, om_Name (dep_meta new)) :=
      wanted (op_json op) adm new stop (stored adm st0 w (DeploymentKind, om_Name (dep_meta new))))"
proof -
  let ?n = "om_Name (dep_meta new)" and ?js = "op_json op"
  let ?k = "(DeploymentKind, ?n)" and ?w1 = "w\<lparr>kw_calls := kw_calls w @ [KLister DeploymentKind ?n]\<rparr>"
  note so = assms(6) [unfolded sync_one_def Let_def]
  have st1: "stored adm st0 ?w1 = stored adm st0 w" by simp
  have look: "ke_listDeployment env (kw_calls w) ?n = (case stored adm st0 w ?k of
      Some (KDeployment o') \<Rightarrow> Inr o' | _ \<Rightarrow> Inl (ApiErr NotFound))"
    using assms(1) by (simp add: serves_def)
  have post: "stored adm st0 t = stored adm st0 v" if "post v = (r, t)" for v r t
    using stored_quiet [OF assms(5) that] .
  consider (none) "stored adm st0 w ?k = None"
    | (some) old where "stored adm st0 w ?k = Some (KDeployment old)" "om_Name (dep_meta old) = ?n" "dsp_Replicas (dep_Spec old) \<noteq> None"
    using assms(3) by (cases "stored adm st0 w ?k") (fastforce simp: deployments_at_def)+
  then show ?thesis
  proof cases
    case none
    then have l: "kcall (KLister DeploymentKind ?n) (\<lambda>h. ke_listDeployment env h ?n) w = (Fail (ApiErr NotFound), ?w1)"
      using look by (simp add: go_simps)
    show ?thesis
    proof (cases stop)
      case True
      with so l none st1 show ?thesis
        by (auto simp: go_simps wanted_def fun_upd_idem)
    next
      case False
      obtain oc' where sh: "write_shared sh (pt_Annotations (dsp_Template (dep_Spec new)))
          (pt_Annotations (dsp_Template (dep_Spec (annotated ?js new)))) ?w1 = (Ret (), ?w1\<lparr>kw_oc := oc'\<rparr>)"
        using write_shared_eval by blast
      obtain w2 where w2: "CreateDeployment env (annotated ?js new) (?w1\<lparr>kw_oc := oc'\<rparr>) = (Ret (), w2)"
        "stored adm st0 w2 = (stored adm st0 w)(?k \<mapsto> adm (KDeployment (annotated ?js new)))"
        using CreateDeployment_stores [OF assms(1), of "?w1\<lparr>kw_oc := oc'\<rparr>" "annotated ?js new"] none by auto
      with so False l sh none show ?thesis
        by (cases post w2 rule: go_cases)
           (auto simp: Set_encodes [OF assms(2)] go_simps wanted_def dest: post)
    qed
  next
    case some
    then have l: "kcall (KLister DeploymentKind ?n) (\<lambda>h. ke_listDeployment env h ?n) w = (Ret old, ?w1)"
      using look by (simp add: go_simps)
    show ?thesis
    proof (cases stop)
      case True
      obtain w2 where "DeleteDeployment env ?n ?w1 = (Ret (), w2)" "stored adm st0 w2 = (stored adm st0 w)(?k := None)"
        using DeleteDeployment_stores [OF assms(1), of ?w1 ?n "KDeployment old"] some(1) by auto
      with so True l some(2) show ?thesis by (auto simp: go_simps wanted_def)
    next
      case False
      obtain e w2 where w2: "updateDeployment op env (write_shared sh) new old ?w1 = (Ret (e, None), w2)"
        "stored adm st0 w2 = (stored adm st0 w)(?k := wanted ?js adm new False (Some (KDeployment old)))"
        using updateDeployment_stores [OF assms(1,2), of ?w1 new old] some assms(4) by auto
      with so False l some show ?thesis
        by (cases post w2 rule: go_cases) (auto simp: go_simps dest: post)
    qed
  qed
qed

text \<open>The annotation restores what the comparison looks at (\<open>json.Unmarshal\<close> after \<open>json.Marshal\<close>).\<close>

definition restores :: "json \<Rightarrow> Deployment \<Rightarrow> bool" where
  "restores js new \<longleftrightarrow> (\<forall>sp t. dsp_Template sp = dsp_Template (dep_Spec new) \<and> dsp_Replicas sp = dsp_Replicas (dep_Spec new)
      \<and> dsp_Strategy sp = dsp_Strategy (dep_Spec new) \<and> js_Deployment js sp = Inr t \<longrightarrow>
     (\<exists>y. js_unDeployment js t = Inr y \<and> dsp_Replicas y = dsp_Replicas sp \<and> js_eqTemplate js (dsp_Template y) (dsp_Template sp)
        \<and> dsp_Strategy y = dsp_Strategy sp))"

lemma annotated_equal:
  assumes "encodes js" "restores js new"
    and "dsp_Template (dep_Spec d) = dsp_Template (dep_Spec new)" "dsp_Replicas (dep_Spec d) = dsp_Replicas (dep_Spec new)"
    and "dsp_Strategy (dep_Spec d) = dsp_Strategy (dep_Spec new)"
    and "om_Annotations (dep_meta o') = om_Annotations (dep_meta (annotated js d))"
  shows "deploymentEqual js new o'"
proof -
  obtain t p where t: "js_Deployment js (dep_Spec d) = Inr t" "js_Pod js (pt_Spec (dsp_Template (dep_Spec d))) = Inr p"
    using assms(1) by (meson encodes_def)
  then have "last_applied (om_Annotations (dep_meta o')) = Some t"
    using assms(6) by (simp add: annotated_def SetDeploymentLastAppliedConfigAnnotation_def)
  moreover obtain y where "js_unDeployment js t = Inr y" "dsp_Replicas y = dsp_Replicas (dep_Spec new)"
    "js_eqTemplate js (dsp_Template y) (dsp_Template (dep_Spec new))" "dsp_Strategy y = dsp_Strategy (dep_Spec new)"
    using assms(2-5) t(1) unfolding restores_def by metis
  ultimately show ?thesis by (simp add: deploymentEqual_def)
qed

lemma wanted_settled:
  assumes "admits adm" "encodes js" "restores js new" "wanted js adm new False x = y"
    and "selectorMatchesLabels (dsp_Selector (dep_Spec new)) (pt_Labels (dsp_Template (dep_Spec new)))"
    and "x = None \<or> (\<exists>d. x = Some (KDeployment d))"
  obtains o' where "y = Some (KDeployment o')" "deploymentEqual js new o'"
    "selectorMatchesLabels (dsp_Selector (dep_Spec o')) (pt_Labels (dsp_Template (dep_Spec new)))"
proof -
  have adm: "\<exists>o'. adm (KDeployment (annotated js d)) = KDeployment o' \<and> deploymentEqual js new o'
      \<and> dsp_Selector (dep_Spec o') = dsp_Selector (dep_Spec d)"
    if "dsp_Template (dep_Spec d) = dsp_Template (dep_Spec new)" "dsp_Replicas (dep_Spec d) = dsp_Replicas (dep_Spec new)"
      "dsp_Strategy (dep_Spec d) = dsp_Strategy (dep_Spec new)" for d
    using assms(1) annotated_equal [OF assms(2,3) that] unfolding admits_def by (metis annotated_sel(1))
  from assms(6) show ?thesis
  proof (elim disjE exE)
    assume "x = None"
    with assms(4,5) adm [of new] that show ?thesis by (auto simp: wanted_def)
  next
    fix d
    assume "x = Some (KDeployment d)"
    with assms(4,5) adm [of new] adm [of "merged new d"] that show ?thesis
      by (auto simp: wanted_def split: if_splits)
  qed
qed

text \<open>
  C14: the synchronisation of a deployment settles: a second pass with the same new object, with nobody
  else writing, makes no write at all, whatever the server added to the object by admission or
  defaulting, because it compares with the annotation. It needs that the server keeps the annotation and
  the selector, that JSON restores the compared fields, and that the new object selects its own pods.
\<close>

theorem sync_one_converges:
  assumes "serves env adm st0" "admits adm" "encodes (op_json op)" "restores (op_json op) new"
    and "deployments_at (stored adm st0 w)" "dsp_Replicas (dep_Spec new) \<noteq> None" "\<And>v. kemits (\<lambda>c. \<not> is_write c) post v"
    and "selectorMatchesLabels (dsp_Selector (dep_Spec new)) (pt_Labels (dsp_Template (dep_Spec new)))"
    and "sync_one op env post (write_shared sh) new stop w = (Ret r1, w1)"
    and "sync_one op env post (write_shared sh) new stop w1 = (Ret r2, w2)" "kw_calls w2 = kw_calls w1 @ calls"
  shows "writes calls = []"
proof -
  let ?n = "om_Name (dep_meta new)" and ?js = "op_json op"
  let ?k = "(DeploymentKind, ?n)" and ?v = "w1\<lparr>kw_calls := kw_calls w1 @ [KLister DeploymentKind ?n]\<rparr>"
  obtain d1 e1 where r1: "r1 = (d1, e1)" by fastforce
  have st: "stored adm st0 w1 ?k = wanted ?js adm new stop (stored adm st0 w ?k)"
    using sync_one_refines [OF assms(1,3,5,6,7) assms(9) [unfolded r1]] by simp
  have look: "ke_listDeployment env (kw_calls w1) ?n = (case stored adm st0 w1 ?k of
      Some (KDeployment o') \<Rightarrow> Inr o' | _ \<Rightarrow> Inl (ApiErr NotFound))"
    using assms(1) by (simp add: serves_def)
  note so = assms(10) [unfolded sync_one_def Let_def]
  show ?thesis
  proof (cases stop)
    case True
    with st look have "kcall (KLister DeploymentKind ?n) (\<lambda>h. ke_listDeployment env h ?n) w1 = (Fail (ApiErr NotFound), ?v)"
      by (simp add: wanted_def go_simps)
    with so True assms(11) show ?thesis by (auto simp: go_simps)
  next
    case False
    have cases: "stored adm st0 w ?k = None \<or> (\<exists>d. stored adm st0 w ?k = Some (KDeployment d))"
      using assms(5) by (cases "stored adm st0 w ?k") (fastforce simp: deployments_at_def)+
    obtain o' where o': "stored adm st0 w1 ?k = Some (KDeployment o')" "deploymentEqual ?js new o'"
      "selectorMatchesLabels (dsp_Selector (dep_Spec o')) (pt_Labels (dsp_Template (dep_Spec new)))"
      using wanted_settled [OF assms(2,3,4) _ assms(8) cases, of "stored adm st0 w1 ?k"] st False by auto
    then have l: "kcall (KLister DeploymentKind ?n) (\<lambda>h. ke_listDeployment env h ?n) w1 = (Ret o', ?v)"
      using look by (simp add: go_simps)
    have u: "updateDeployment op env (write_shared sh) new o' ?v = (Ret (new, None), ?v)"
      using o' by (simp add: updateDeployment_def go_simps)
    obtain r t where p: "post ?v = (r, t)" by fastforce
    then obtain new' where "kw_calls t = kw_calls ?v @ new'" "list_all (\<lambda>c. \<not> is_write c) new'"
      using assms(7) [of ?v] by (auto simp: emits_on_def)
    moreover from this have "writes new' = []" by (simp add: writes_def filter_empty_conv list_all_iff)
    moreover have "kw_calls w2 = kw_calls t"
      using so False l u p by (cases r) (auto simp: go_simps)
    ultimately show ?thesis using assms(11) by simp
  qed
qed

subsection \<open>A server for examples\<close>

definition server_env :: "(kobj \<Rightarrow> kobj) \<Rightarrow> store \<Rightarrow> kube_env" where
  "server_env adm st0 = quiet_env
     \<lparr>ke_listDeployment := \<lambda>h n. (case store_after adm st0 h (DeploymentKind, n) of
          Some (KDeployment d) \<Rightarrow> Inr d | _ \<Rightarrow> Inl (ApiErr NotFound)),
      ke_create := \<lambda>h x. (if store_after adm st0 h (kobj_key x) = None then None else Some (ApiErr AlreadyExists)),
      ke_update := \<lambda>h x. (if store_after adm st0 h (kobj_key x) = None then Some (ApiErr NotFound) else None),
      ke_delete := \<lambda>h k n. (if store_after adm st0 h (k, n) = None then Some (ApiErr NotFound) else None)\<rparr>"

lemma serves_server_env: "serves (server_env adm st0) adm st0"
  by (simp add: serves_def server_env_def)

text \<open>A server that fills in the DNS policy, as the real one does.\<close>

definition demo_adm :: "kobj \<Rightarrow> kobj" where
  "demo_adm x = (case x of
     KDeployment d \<Rightarrow> KDeployment (dep_Spec_update (dsp_Template_update (pt_Spec_update (ps_DNSPolicy_update (\<lambda>_. ''ClusterFirst'')))) d)
   | _ \<Rightarrow> x)"

lemma admits_demo_adm: "admits demo_adm"
  by (simp add: admits_def demo_adm_def)

definition demo_deploy :: Deployment where
  "demo_deploy = zero_Deployment
     \<lparr>dep_meta := new_meta ''demo-region'' ''onecloud'' None None [],
      dep_Spec := \<lparr>dsp_Replicas = Some 2, dsp_Selector = Some (Some [(''app'', ''region'')]),
        dsp_Template = \<lparr>pt_Labels = Some [(''app'', ''region'')], pt_Annotations = None, pt_Spec = zero_PodSpec\<rparr>,
        dsp_Strategy = ''RollingUpdate''\<rparr>\<rparr>"

definition demo_json :: "Deployment \<Rightarrow> json" where
  "demo_json d = \<lparr>js_Service = \<lambda>_. Inr [], js_unService = \<lambda>_. Inl (Errorf []), js_eqService = (=),
     js_Ingress = \<lambda>_. Inr [], js_unIngress = \<lambda>_. Inl (Errorf []), js_eqIngress = (=),
     js_Data = \<lambda>_. Inr [], js_unData = \<lambda>_. Inl (Errorf []), js_eqData = (=),
     js_Deployment = \<lambda>_. Inr ''deployment'', js_unDeployment = \<lambda>_. Inr (dep_Spec d),
     js_DaemonSet = \<lambda>_. Inr [], js_unDaemonSet = \<lambda>_. Inl (Errorf []),
     js_CronJob = \<lambda>_. Inr [], js_unCronJob = \<lambda>_. Inl (Errorf []), js_Job = \<lambda>_. Inr [],
     js_Pod = \<lambda>_. Inr ''pod'', js_unPod = \<lambda>_. Inl (Errorf []), js_eqPod = (=), js_eqTemplate = (=)\<rparr>"

definition demo_op :: options where
  "demo_op = \<lparr>op_StopServices = False, op_DisableSyncIngress = False, op_DisableNodeSelectorController = False, op_parseQuantity = Inr,
     op_optionsDefault = \<lambda>_. None, op_yaml = \<lambda>_ _ _. [], op_template = \<lambda>_ _. Inr [],
     op_parseYAML = \<lambda>_. Inr [], op_YAMLString = \<lambda>_. [], op_DeployServerSocketPath = [], op_json = demo_json demo_deploy,
     op_decodeConfig = \<lambda>_. Inl (Errorf []), op_encodeConfig = \<lambda>_. Inr [], op_draw = \<lambda>_ _. ''secret'', op_order = \<lambda>_ _. 0,
     op_parseImage = \<lambda>_. Inl (Errorf [])\<rparr>"

lemma demo_json_laws: "encodes (op_json demo_op)" "restores (op_json demo_op) demo_deploy"
  by (auto simp: encodes_def restores_def demo_op_def demo_json_def)

definition demo_world :: kworld where
  "demo_world = \<lparr>kw_calls = [], kw_oc = zero_OnecloudCluster\<rparr>"

definition demo_sync :: "bool \<Rightarrow> kworld \<Rightarrow> (Deployment \<times> goerr option) res \<times> kworld" where
  "demo_sync stop = sync_one demo_op (server_env demo_adm (\<lambda>_. None)) (ret ()) (write_shared (\<lambda>f oc. oc)) demo_deploy stop"

lemmas demo_hyps = serves_server_env admits_demo_adm demo_json_laws

theorem updateDeployment_selector_safe_witness:
  "\<exists>d. updateDeployment demo_op (server_env demo_adm [(DeploymentKind, ''demo-region'') \<mapsto> KDeployment demo_deploy])
        (write_shared (\<lambda>f oc. oc)) demo_deploy demo_deploy demo_world
      = (Ret (demo_deploy, None), demo_world\<lparr>kw_calls := [KUpdate (KDeployment d)]\<rparr>)
    \<and> dsp_Selector (dep_Spec d) = Some (Some [(''app'', ''region'')])"
proof -
  let ?r = "updateDeployment demo_op (server_env demo_adm [(DeploymentKind, ''demo-region'') \<mapsto> KDeployment demo_deploy])
        (write_shared (\<lambda>f oc. oc)) demo_deploy demo_deploy demo_world"
  let ?d = "annotated (op_json demo_op) demo_deploy"
  have eq: "?r = (Ret (demo_deploy, None), demo_world\<lparr>kw_calls := [KUpdate (KDeployment ?d)]\<rparr>)"
    by code_simp
  have "\<exists>d. KDeployment ?d = KDeployment d \<and> dsp_Selector (dep_Spec d) = dsp_Selector (dep_Spec demo_deploy)
    \<and> selectorMatchesLabels (dsp_Selector (dep_Spec d)) (pt_Labels (dsp_Template (dep_Spec d)))"
    by (rule updateDeployment_selector_safe [OF eq, of "[KUpdate (KDeployment ?d)]"]) (simp_all add: demo_world_def)
  with eq show ?thesis by (auto simp: demo_deploy_def)
qed

lemma demo_runs:
  defines "d \<equiv> annotated (op_json demo_op) demo_deploy"
  defines "c1 \<equiv> [KLister DeploymentKind ''demo-region'', KCreate (KDeployment d)]"
  shows "demo_sync False demo_world = (Ret (d, Some (RequeueError ''OnecloudCluster: [/], waiting for demo-region deployment running'')),
      demo_world\<lparr>kw_calls := c1\<rparr>)"
    "demo_sync False (demo_world\<lparr>kw_calls := c1\<rparr>) = (Ret (demo_deploy, None),
      demo_world\<lparr>kw_calls := c1 @ [KLister DeploymentKind ''demo-region'']\<rparr>)"
  unfolding d_def c1_def by code_simp+

theorem sync_one_refines_witness:
  "stored demo_adm (\<lambda>_. None) (snd (demo_sync False demo_world)) (DeploymentKind, ''demo-region'')
     = Some (demo_adm (KDeployment (annotated (op_json demo_op) demo_deploy)))"
proof -
  have "stored demo_adm (\<lambda>_. None) (snd (demo_sync False demo_world)) = (stored demo_adm (\<lambda>_. None) demo_world)((DeploymentKind, om_Name (dep_meta demo_deploy)) :=
      wanted (op_json demo_op) demo_adm demo_deploy False (stored demo_adm (\<lambda>_. None) demo_world (DeploymentKind, om_Name (dep_meta demo_deploy))))"
    by (rule sync_one_refines [where post = "ret ()" and sh = "\<lambda>f oc. oc", OF serves_server_env demo_json_laws(1)])
       (use demo_runs(1) in \<open>auto simp: demo_sync_def demo_world_def deployments_at_def demo_deploy_def intro: emits_intros\<close>)
  then show ?thesis by (simp add: wanted_def demo_world_def demo_deploy_def)
qed

theorem sync_one_converges_witness:
  "\<exists>r1 w1 r2 w2 calls. demo_sync False demo_world = (Ret r1, w1) \<and> demo_sync False w1 = (Ret r2, w2)
     \<and> kw_calls w2 = kw_calls w1 @ calls \<and> writes (kw_calls w1) \<noteq> [] \<and> writes calls = []"
proof -
  let ?c1 = "[KLister DeploymentKind ''demo-region'', KCreate (KDeployment (annotated (op_json demo_op) demo_deploy))]"
  let ?w1 = "demo_world\<lparr>kw_calls := ?c1\<rparr>" and ?c2 = "[KLister DeploymentKind ''demo-region'']"
  have "writes ?c2 = []"
    by (rule sync_one_converges [where w = demo_world and post = "ret ()" and sh = "\<lambda>f oc. oc" and stop = False and ?w1.0 = ?w1
            and ?w2.0 = "demo_world\<lparr>kw_calls := ?c1 @ ?c2\<rparr>" and ?st0.0 = "\<lambda>_. None", OF demo_hyps])
       (use demo_runs in \<open>auto simp: demo_sync_def demo_world_def deployments_at_def demo_deploy_def selectorMatchesLabels_def gomap_get_def
          intro: emits_intros\<close>)
  with demo_runs show ?thesis
    by (intro exI [of _ ?w1] exI [of _ "demo_world\<lparr>kw_calls := ?c1 @ ?c2\<rparr>"] exI [of _ ?c2] exI conjI) auto
qed

section \<open>Services\<close>

fun write_target :: "kcall \<Rightarrow> (kind \<times> string) option" where
  "write_target (KCreate x) = Some (kobj_key x)"
| "write_target (KUpdate x) = Some (kobj_key x)"
| "write_target (KDelete k n) = Some (k, n)"
| "write_target _ = None"

lemma kemits_service_controls [emits_intros]:
  assumes "\<And>b r m. P (KEvent b r m)"
  shows "P (KCreate (KService s)) \<Longrightarrow> kemits P (CreateService env s) w"
    "P (KDelete ServiceKind (om_Name (svc_meta s))) \<Longrightarrow> kemits P (DeleteService env s) w"
    "P (KUpdate (KService s)) \<Longrightarrow> (\<And>k n. P (KLister k n)) \<Longrightarrow> kemits P (UpdateService env s) w"
proof -
  show "P (KCreate (KService s)) \<Longrightarrow> kemits P (CreateService env s) w"
    and "P (KDelete ServiceKind (om_Name (svc_meta s))) \<Longrightarrow> kemits P (DeleteService env s) w"
    unfolding CreateService_def DeleteService_def by (auto intro!: emits_intros assms)
  show "P (KUpdate (KService s)) \<Longrightarrow> (\<And>k n. P (KLister k n)) \<Longrightarrow> kemits P (UpdateService env s) w"
    unfolding UpdateService_def Let_def
    by (rule kemits_update_object [where I = "\<lambda>y. y = s"]) (use assms in \<open>auto intro: kemits_refreshed dest: refreshed_Ret\<close>)
qed

lemma SetService_name:
  "SetServiceLastAppliedConfigAnnotation js s = (e, s') \<Longrightarrow> om_Name (svc_meta s') = om_Name (svc_meta s)"
  by (auto simp: SetServiceLastAppliedConfigAnnotation_def split: sum.splits)

lemma kemits_lookup:
  assumes "P c" "kemits P (g (look (kw_calls w))) (w\<lparr>kw_calls := kw_calls w @ [c]\<rparr>)"
  shows "kemits P (andthen (attempt (kcall c look)) g) w"
  by (cases "look (kw_calls w)") (use assms in \<open>auto intro!: emits_andthen emits_attempt emits_intros simp: go_simps\<close>)

text \<open>A pass over the services writes one of them, under the name in \<open>n\<close>.\<close>

lemma syncServices_target:
  "\<exists>n. kemits (\<lambda>c. write_target c \<in> {None, Some (ServiceKind, n)}) (syncServices op env inPV svcs) w"
proof (induction svcs arbitrary: w)
  case Nil
  then show ?case by (auto intro: emits_intros)
next
  case (Cons s rest)
  let ?n = "om_Name (svc_meta s)" and ?look = "\<lambda>h. ke_listService env h (om_Name (svc_meta s))"
  let ?w1 = "w\<lparr>kw_calls := kw_calls w @ [KLister ServiceKind ?n]\<rparr>"
  let ?P = "\<lambda>n c. write_target c \<in> {None, Some (ServiceKind, n)}"
  show ?case
  proof (cases "?look (kw_calls w)")
    case (Inl e)
    then have "kemits (?P ?n) (syncServices op env inPV (s # rest)) w"
      unfolding syncServices.simps
      by (intro kemits_lookup) (auto intro!: emits_intros split: prod.split option.split dest: SetService_name)
    then show ?thesis ..
  next
    case (Inr old)
    obtain n where IH: "kemits (?P n) (syncServices op env inPV rest) ?w1" using Cons by blast
    show ?thesis
    proof (cases "inPV \<and> serviceEqual (op_json op) s old = Inr True")
      case True
      with Inr IH have "kemits (?P n) (syncServices op env inPV (s # rest)) w"
        unfolding syncServices.simps by (intro kemits_lookup) auto
      then show ?thesis ..
    next
      case False
      with Inr have "kemits (?P (om_Name (svc_meta old))) (syncServices op env inPV (s # rest)) w"
        unfolding syncServices.simps
        by (intro kemits_lookup) (auto intro!: emits_intros simp: Let_def split: prod.split option.split sum.split bool.split dest: SetService_name)
      then show ?thesis ..
    qed
  qed
qed

text \<open>
  C37: a pass over the services of a component writes at most one of them: with a read-only service the
  second one waits for the next pass. In a product version without the component a missing service ends
  the pass, so once the first service is deleted no later pass deletes the second.
\<close>

theorem syncServices_one_per_pass:
  "(\<forall>calls. kw_calls (snd (syncServices op env inPV svcs w)) = kw_calls w @ calls \<longrightarrow>
      (\<exists>n. \<forall>c\<in>set calls. write_target c = None \<or> write_target c = Some (ServiceKind, n)))
   \<and> (ke_listService env (kw_calls w) (om_Name (svc_meta s)) = Inl (ApiErr NotFound) \<longrightarrow>
      syncServices op env False (s # slave # rest) w = (Ret (), w\<lparr>kw_calls := kw_calls w @ [KLister ServiceKind (om_Name (svc_meta s))]\<rparr>))"
proof (intro conjI allI impI)
  fix calls
  assume "kw_calls (snd (syncServices op env inPV svcs w)) = kw_calls w @ calls"
  with syncServices_target [of op env inPV svcs w]
  show "\<exists>n. \<forall>c\<in>set calls. write_target c = None \<or> write_target c = Some (ServiceKind, n)"
    by (fastforce simp: emits_on_def list_all_iff)
qed (simp add: go_simps)

theorem syncServices_one_per_pass_witness:
  "syncServices demo_op (quiet_env\<lparr>ke_listService := \<lambda>_ n. if n = ''demo-region-slave'' then Inr (service_v n ''1'') else Inl (ApiErr NotFound)\<rparr>)
     False [service_v ''demo-region'' [], service_v ''demo-region-slave'' []] demo_world
   = (Ret (), demo_world\<lparr>kw_calls := [KLister ServiceKind ''demo-region'']\<rparr>)"
  using syncServices_one_per_pass [of demo_op "quiet_env\<lparr>ke_listService := \<lambda>_ n. if n = ''demo-region-slave'' then Inr (service_v n ''1'') else Inl (ApiErr NotFound)\<rparr>"
      False "[]" demo_world "service_v ''demo-region'' []" "service_v ''demo-region-slave'' []" "[]"]
  by (simp add: service_v_def meta_v_def demo_world_def)

section \<open>Config maps\<close>

text \<open>
  An existing config map is not overwritten unless the component forces it: when the cache has it,
  the pass writes nothing; when the cache has not, it is created, and replaced only when the server
  answers that it exists already.
\<close>

theorem sync_cm_keeps_existing:
  assumes "fc_ConfigMap f cfg zone w = (Ret (Some cm, False), w)"
    and "SetConfigMapLastAppliedConfigAnnotation (op_json op) cm = (None, cm')"
  shows "(ke_listConfigMap env (kw_calls w) (om_Name (cm_meta cm)) = Inr old \<longrightarrow>
        sync_cm op env f cfg zone w = (Ret (), w\<lparr>kw_calls := kw_calls w @ [KLister ConfigMapKind (om_Name (cm_meta cm))]\<rparr>))
    \<and> (ke_listConfigMap env (kw_calls w) (om_Name (cm_meta cm)) = Inl (ApiErr NotFound) \<longrightarrow> ke_create env (kw_calls w @ [KLister ConfigMapKind (om_Name (cm_meta cm))]) (KConfigMap cm') = None \<longrightarrow>
        (\<exists>new. sync_cm op env f cfg zone w = (Ret (), w\<lparr>kw_calls := kw_calls w @ new\<rparr>) \<and> writes new = [KCreate (KConfigMap cm')]))"
proof -
  have nm: "om_Name (cm_meta cm') = om_Name (cm_meta cm)"
    using assms(2) by (auto simp: SetConfigMapLastAppliedConfigAnnotation_def split: sum.splits)
  let ?w1 = "w\<lparr>kw_calls := kw_calls w @ [KLister ConfigMapKind (om_Name (cm_meta cm))]\<rparr>"
  show ?thesis
  proof (intro conjI impI)
    assume "ke_listConfigMap env (kw_calls w) (om_Name (cm_meta cm)) = Inl (ApiErr NotFound)"
      and "ke_create env (kw_calls w @ [KLister ConfigMapKind (om_Name (cm_meta cm))]) (KConfigMap cm') = None"
    moreover from this(2) obtain evs where "create_object env (KConfigMap cm') ?w1
        = (Ret (), w\<lparr>kw_calls := kw_calls w @ [KLister ConfigMapKind (om_Name (cm_meta cm)), KCreate (KConfigMap cm')] @ evs\<rparr>)" "writes evs = []"
      using create_ok [of env ?w1 "KConfigMap cm'"] by auto
    ultimately show "\<exists>new. sync_cm op env f cfg zone w = (Ret (), w\<lparr>kw_calls := kw_calls w @ new\<rparr>) \<and> writes new = [KCreate (KConfigMap cm')]"
      using assms nm
      by (intro exI [of _ "[KLister ConfigMapKind (om_Name (cm_meta cm)), KCreate (KConfigMap cm')] @ evs"])
         (simp add: sync_cm_def CreateOrUpdateConfigMap_def CreateConfigMap_def go_simps)
  qed (use assms nm in \<open>simp add: sync_cm_def go_simps\<close>)
qed

definition demo_cm :: ConfigMap where
  "demo_cm = \<lparr>cm_meta = new_meta ''demo-region'' ''onecloud'' None None [], cm_Data = Some [(''config'', ''a: 1'')]\<rparr>"

theorem sync_cm_keeps_existing_witness:
  "sync_cm demo_op (quiet_env\<lparr>ke_listConfigMap := \<lambda>_ _. Inr demo_cm\<rparr>)
     ((base_factory ''region'' [])\<lparr>fc_ConfigMap := \<lambda>_ _. ret (Some demo_cm, False)\<rparr>) zero_OnecloudClusterConfig [] demo_world
   = (Ret (), demo_world\<lparr>kw_calls := [KLister ConfigMapKind ''demo-region'']\<rparr>)"
  using sync_cm_keeps_existing [of "(base_factory ''region'' [])\<lparr>fc_ConfigMap := \<lambda>_ _. ret (Some demo_cm, False)\<rparr>"
      zero_OnecloudClusterConfig "[]" demo_world demo_cm demo_op "snd (SetConfigMapLastAppliedConfigAnnotation (op_json demo_op) demo_cm)"
      "quiet_env\<lparr>ke_listConfigMap := \<lambda>_ _. Inr demo_cm\<rparr>" demo_cm]
  by (simp add: go_simps demo_cm_def demo_world_def demo_op_def demo_json_def SetConfigMapLastAppliedConfigAnnotation_def)

section \<open>The order of a component\<close>


text \<open>
  A product version that \<open>isValidProductVersion\<close> does not list stops every component before its first
  step; \<open>Baremetal\<close> is such a version although components name it among theirs.
\<close>

theorem syncComponent_checks_version:
  "(spec_ProductVersion (oc_Spec (kw_oc w)) \<notin> {ProductVersionFullStack, ProductVersionCMP, ProductVersionEdge, ProductVersionLightEdge, ProductVersionAI}
      \<longleftrightarrow> (\<exists>e. isValidProductVersion (kw_oc w) = Some e \<and> syncComponent op env f zone w
        = (Fail (Wrapped (''check productVersion of '' @ quoted (fc_ComponentType f)) e), w)))
   \<and> (spec_ProductVersion (oc_Spec (kw_oc w)) = ProductVersionBaremetal \<longrightarrow> (\<exists>e. syncComponent op env f zone w = (Fail e, w)))"
  unfolding syncComponent_def Let_def
  by (auto simp: isValidProductVersion_def in_strings_iff go_simps ctypes)

theorem syncComponent_checks_version_witness:
  "\<exists>e. syncComponent demo_op quiet_env (base_factory ''etcd'' [ProductVersionBaremetal]) []
     \<lparr>kw_calls = [], kw_oc = zero_OnecloudCluster\<lparr>oc_Spec := zero_OnecloudClusterSpec\<lparr>spec_ProductVersion := ProductVersionBaremetal\<rparr>\<rparr>\<rparr>
   = (Fail e, \<lparr>kw_calls = [], kw_oc = zero_OnecloudCluster\<lparr>oc_Spec := zero_OnecloudClusterSpec\<lparr>spec_ProductVersion := ProductVersionBaremetal\<rparr>\<rparr>\<rparr>)"
  using syncComponent_checks_version [of "\<lparr>kw_calls = [], kw_oc = zero_OnecloudCluster\<lparr>oc_Spec := zero_OnecloudClusterSpec\<lparr>spec_ProductVersion := ProductVersionBaremetal\<rparr>\<rparr>\<rparr>"
      demo_op quiet_env "base_factory ''etcd'' [ProductVersionBaremetal]" "[]"]
  by simp

text \<open>The calls of the steps after the deployment: the other workloads, services, ingress and phase control.\<close>

fun late :: "kcall \<Rightarrow> bool" where
  "late (KCreate x) = (kobj_kind x \<in> {DaemonSetKind, CronJobKind, ServiceKind, IngressKind})"
| "late (KUpdate x) = (kobj_kind x \<in> {DaemonSetKind, CronJobKind, ServiceKind, IngressKind})"
| "late (KDelete k n) = (k \<in> {DaemonSetKind, CronJobKind, ServiceKind, IngressKind})"
| "late (KPhaseSetup _) = True"
| "late (KPhaseInit _) = True"
| "late (KMcclientSync _) = True"
| "late _ = False"

lemma kemits_configmap_controls:
  assumes "\<And>b r m. P (KEvent b r m)" "P (KCreate (KConfigMap c))" "P (KUpdate (KConfigMap c))" "\<And>k n. P (KLister k n)"
  shows "kemits P (CreateOrUpdateConfigMap env c) w"
proof -
  have "kemits P (UpdateConfigMap env c) v" for v
    unfolding UpdateConfigMap_def Let_def
    by (rule kemits_update_object [where I = "\<lambda>y. y = c"]) (use assms in \<open>auto intro: kemits_refreshed dest: refreshed_Ret\<close>)
  with assms show ?thesis
    unfolding CreateOrUpdateConfigMap_def CreateConfigMap_def by (auto intro!: emits_intros split: sum.split)
qed

lemma kemits_GetClusterConfig [emits_intros]: "(\<And>k n. P (KLister k n)) \<Longrightarrow> kemits P (GetClusterConfig op env) w"
  unfolding GetClusterConfig_def newClusterConfigFromConfigMapNoDefault_def default_config_def
  by (auto intro!: emits_intros split: option.splits)

lemma early_ConfigMap:
  assumes "\<And>cfg v. kemits (\<lambda>c. \<not> late c) (fc_ConfigMap f cfg zone) v"
  shows "kemits (\<lambda>c. \<not> late c) (syncConfigMap op env f zone) w"
  unfolding syncConfigMap_def sync_cm_def ensure_database_def ensure_clickhouse_def Let_def
  by (auto intro!: emits_intros assms kemits_configmap_controls split: sum.split option.split prod.split)

lemma early_PVC: "kemits (\<lambda>c. \<not> late c) (syncPVC env f zone) w"
  unfolding syncPVC_def CreatePVC_def by (auto intro!: emits_intros split: sum.split option.split)

lemma kemits_postSync:
  "(\<And>k n. P (KGet k n)) \<Longrightarrow> kemits P (postSync op env f zone n) w"
  unfolding postSync_def get_or_zero_def by (auto intro!: emits_intros split: sum.split option.split)

lemma early_sync_one:
  assumes "\<And>v. kemits (\<lambda>c. \<not> late c) post v" "\<And>a b v. kemits (\<lambda>c. \<not> late c) (share a b) v"
  shows "kemits (\<lambda>c. \<not> late c) (sync_one op env post share d stop) w"
  unfolding sync_one_def Let_def
  by (auto intro!: emits_intros kemits_updateDeployment assms split: sum.split option.split prod.split)

lemma early_Deployment:
  assumes "\<And>cfg v. kemits (\<lambda>c. \<not> late c) (fc_Deployment f cfg zone) v"
  shows "kemits (\<lambda>c. \<not> late c) (syncDeployment op env f zone) w"
  unfolding syncDeployment_def sync_new_def Let_def
  by (auto intro!: emits_intros assms early_sync_one kemits_postSync split: option.split prod.split)

lemma sync_one_creates:
  assumes "\<And>h n. ke_listDeployment env h n = Inl (ApiErr NotFound)" "sync_one op env post share d False w = (Ret (d', err), w')"
  shows "err \<noteq> None"
  using assms
  by (auto simp: sync_one_def Let_def andthen_attempt_Ret seq_Ret_iff go_simps split: option.splits prod.splits)

text \<open>
  A property of the state that does not look at the log is kept by every control and by the steps
  before the deployment, when the component's own builder of the config map keeps it.
\<close>

locale log_free =
  fixes I :: "kworld \<Rightarrow> bool"
  assumes free: "I w \<Longrightarrow> I (w\<lparr>kw_calls := cs\<rparr>)"
begin

lemma keeps_kcall: "keeps I (kcall c f)" "keeps I (kcallE c g)"
  by (auto simp: keeps_def kcall_def kcallE_def Let_def free split: sum.splits)

lemma keeps_of_sum: "keeps I (of_sum r)"
  by (cases r) (auto simp: of_sum_def intro: keeps_intros)

lemma keeps_event: "keeps I (recordResourceEvent env v k n e)"
  unfolding recordResourceEvent_def Let_def by (cases e) (auto intro!: keeps_intros keeps_kcall)

lemma keeps_Retry: "(\<And>x. keeps I (f x)) \<Longrightarrow> keeps I (RetryOnConflict n f x)"
  by (induction n arbitrary: x) (auto intro!: keeps_intros split: option.split)

lemma keeps_create: "keeps I (create_object env x)"
  unfolding create_object_def Let_def by (intro keeps_intros keeps_kcall keeps_event)

lemma keeps_update: "(\<And>y. keeps I (refresh y)) \<Longrightarrow> keeps I (update_object env K refresh x)"
  unfolding update_object_def update_attempt_def
  by (auto intro!: keeps_intros keeps_Retry keeps_kcall keeps_event split: sum.split)

lemma keeps_CreateOrUpdateConfigMap: "keeps I (CreateOrUpdateConfigMap env cm)"
  unfolding CreateOrUpdateConfigMap_def CreateConfigMap_def UpdateConfigMap_def not_refreshed_def Let_def
  by (auto intro!: keeps_intros keeps_create keeps_update keeps_kcall split: sum.split)

lemma keeps_GetClusterConfig: "keeps I (GetClusterConfig op env)"
  unfolding GetClusterConfig_def newClusterConfigFromConfigMapNoDefault_def default_config_def from_option_def
  by (auto intro!: keeps_intros keeps_kcall keeps_of_sum split: option.splits)

lemma keeps_syncConfigMap:
  assumes "\<And>cfg. keeps I (fc_ConfigMap f cfg zone)"
  shows "keeps I (syncConfigMap op env f zone)"
  unfolding syncConfigMap_def sync_cm_def ensure_database_def ensure_clickhouse_def Let_def
  by (auto intro!: keeps_intros assms keeps_kcall keeps_GetClusterConfig keeps_CreateOrUpdateConfigMap
      split: sum.split option.split prod.split)

lemma keeps_syncPVC: "keeps I (syncPVC env f zone)"
  unfolding syncPVC_def CreatePVC_def from_option_def
  by (auto intro!: keeps_intros keeps_kcall keeps_of_sum keeps_create split: sum.split option.split)

end

interpretation of_cluster: log_free "\<lambda>w. kw_oc w = oc" for oc
  by unfold_locales simp

text \<open>
  The same for a whole pass of a component: it does not end well, and all it calls comes before the services.
\<close>

lemma syncComponent_waits:
  assumes "\<And>h n. ke_listDeployment env h n = Inl (ApiErr NotFound)"
    and "\<And>cfg v. kemits (\<lambda>c. \<not> late c) (fc_ConfigMap f cfg zone) v" "\<And>cfg v. kemits (\<lambda>c. \<not> late c) (fc_Deployment f cfg zone) v"
    and "\<And>cfg. keeps (\<lambda>v. kw_oc v = kw_oc w) (fc_ConfigMap f cfg zone)"
    and "\<And>cfg v x t. kw_oc v = kw_oc w \<Longrightarrow> fc_Deployment f cfg zone v = (Ret x, t) \<Longrightarrow> (\<exists>d. x = Some d) \<and> \<not> stop_deployment op f (kw_oc t)"
  shows "fst (syncComponent op env f zone w) \<noteq> Ret () \<and> kemits (\<lambda>c. \<not> late c) (syncComponent op env f zone) w"
proof -
  have never: "syncDeployment op env f zone v \<noteq> (Ret (), t)" if oc: "kw_oc v = kw_oc w" for v t
  proof
    assume "syncDeployment op env f zone v = (Ret (), t)"
    then obtain cfg x v1 v2 where v1: "GetClusterConfig op env v = (Ret cfg, v1)"
      and x: "fc_Deployment f cfg zone v1 = (Ret x, v2)" and rest:
      "(case x of None \<Rightarrow> ret () | Some newDeploy \<Rightarrow> sync_new op env f cfg zone newDeploy) v2 = (Ret (), t)"
      by (auto simp: syncDeployment_def andthen_Ret_iff map_err_Ret_iff)
    have "kw_oc v1 = kw_oc w" using keepsD_eq [OF of_cluster.keeps_GetClusterConfig v1 oc] .
    from assms(5) [OF this x] obtain d where d: "x = Some d" "\<not> stop_deployment op f (kw_oc v2)" by blast
    then obtain d' err v3 where "sync_one op env (postSync op env f zone (om_Name (dep_meta d))) (write_shared (fc_share f zone)) d False v2
        = (Ret (d', err), v3)" "wrap_opt (''sync deployment '' @ om_Name (dep_meta d)) err = []"
      using rest by (auto simp: sync_new_def Let_def andthen_Ret_iff go_simps lift_err_Ret_iff)
    with sync_one_creates [OF assms(1)] show False by (fastforce simp: wrap_opt_def)
  qed
  have kept: "kw_oc t = kw_oc w" if "kw_oc v = kw_oc w" "syncConfigMap op env f zone v = (x, u)" "syncPVC env f zone u = (y, t)" for v u t x y
    using keepsD_eq [OF of_cluster.keeps_syncPVC that(3)] keepsD_eq [OF of_cluster.keeps_syncConfigMap [OF assms(4)] that(2,1)] .
  have stop: False if "syncConfigMap op env f zone w = (Ret (), u)" "syncPVC env f zone u = (Ret (), v)" "syncDeployment op env f zone v = (Ret (), t)" for u v t
    using never [OF kept [OF refl that(1,2)]] that(3) by blast
  have quiet: "kemits (\<lambda>c. \<not> late c) (syncComponent op env f zone) w"
    unfolding syncComponent_def Let_def
    by (auto intro!: emits_intros early_ConfigMap early_PVC early_Deployment assms(2,3) simp: map_err_Ret_iff lift_err_Ret_iff go_simps dest: stop)
  have "syncComponent op env f zone w \<noteq> (Ret (), w')" for w'
    by (auto simp: syncComponent_def Let_def go_simps seq_Ret_iff map_err_Ret_iff lift_err_Ret_iff dest: stop)
  with quiet show ?thesis by (metis prod.collapse)
qed

text \<open>
  Services and the rest wait for the deployment: in a pass in which the deployment of the component
  does not exist yet, the pass ends with the creation (with the error that asks for another pass, or
  with the error of the creation), and no daemon set, cron job, service, ingress or phase is touched.
\<close>

theorem syncComponent_waits_for_deployment:
  assumes "\<And>h n. ke_listDeployment env h n = Inl (ApiErr NotFound)"
    and "\<And>cfg v. kemits (\<lambda>c. \<not> late c) (fc_ConfigMap f cfg zone) v" "\<And>cfg v. kemits (\<lambda>c. \<not> late c) (fc_Deployment f cfg zone) v"
    and "\<And>cfg. keeps (\<lambda>v. kw_oc v = kw_oc w) (fc_ConfigMap f cfg zone)"
    and "\<And>cfg v x t. kw_oc v = kw_oc w \<Longrightarrow> fc_Deployment f cfg zone v = (Ret x, t) \<Longrightarrow> (\<exists>d. x = Some d) \<and> \<not> stop_deployment op f (kw_oc t)"
    and "syncComponent op env f zone w = (r, w')" "kw_calls w' = kw_calls w @ calls"
  shows "r \<noteq> Ret () \<and> (\<forall>c\<in>set calls. \<not> late c)"
proof -
  have "fst (syncComponent op env f zone w) \<noteq> Ret () \<and> kemits (\<lambda>c. \<not> late c) (syncComponent op env f zone) w"
    by (rule syncComponent_waits) (fact assms(1-5))+
  with assms(6,7) show ?thesis by (auto dest: emitsD)
qed

definition demo_factory :: factory where
  "demo_factory = (base_factory ''region'' [ProductVersionFullStack])\<lparr>fc_Deployment := \<lambda>_ _. ret (Some demo_deploy)\<rparr>"

definition demo_cluster_world :: kworld where
  "demo_cluster_world = \<lparr>kw_calls = [], kw_oc = zero_OnecloudCluster\<lparr>oc_Spec := zero_OnecloudClusterSpec\<lparr>spec_ProductVersion := ProductVersionFullStack\<rparr>\<rparr>\<rparr>"

theorem syncComponent_waits_for_deployment_witness:
  "let r = syncComponent (demo_op\<lparr>op_decodeConfig := \<lambda>_. Inr zero_OnecloudClusterConfig\<rparr>)
         (quiet_env\<lparr>ke_listConfigMap := \<lambda>_ _. Inr (demo_cm\<lparr>cm_Data := Some [(OnecloudClusterConfigConfigMapKey, [])]\<rparr>)\<rparr>) demo_factory [] demo_cluster_world
   in fst r \<noteq> Ret () \<and> list_all (\<lambda>c. \<not> late c) (kw_calls (snd r)) \<and> writes (kw_calls (snd r)) \<noteq> []"
proof -
  let ?op = "demo_op\<lparr>op_decodeConfig := \<lambda>_. Inr zero_OnecloudClusterConfig\<rparr>"
  let ?env = "quiet_env\<lparr>ke_listConfigMap := \<lambda>_ _. Inr (demo_cm\<lparr>cm_Data := Some [(OnecloudClusterConfigConfigMapKey, [])]\<rparr>)\<rparr>"
  let ?r = "syncComponent ?op ?env demo_factory [] demo_cluster_world"
  have "fst ?r \<noteq> Ret () \<and> (\<forall>c\<in>set (kw_calls (snd ?r)). \<not> late c)"
    by (rule syncComponent_waits_for_deployment [where env = ?env and f = demo_factory and op = ?op and zone = "[]" and w = demo_cluster_world])
       (auto simp: quiet_env_def demo_factory_def base_factory_def demo_cluster_world_def go_simps stop_deployment_def isInProductVersion_def
          in_strings_iff demo_op_def intro: emits_intros keeps_intros)
  moreover have "writes (kw_calls (snd ?r)) \<noteq> []" by code_simp
  ultimately show ?thesis by (simp add: Let_def list_all_iff)
qed

end
