(* ===== verification/Certs.thy ===== *)
theory Certs
  imports Etcd_Manager
begin

text \<open>
  The certificates of the cluster and of etcd (\<open>pkg/controller/onecloud_cert.go\<close>,
  \<open>onecloud_etcd_cert.go\<close>, \<open>pkg/util/pkiutil/pki_helpers.go\<close>): what is issued, under which names,
  in which secrets. Key generation, signing and encoding are the argument \<open>crypto\<close>; a certificate is
  the template it was made from. The names are checked against the addresses the etcd members are
  reached under and the files against the command lines of the etcd pods.
\<close>

section \<open>Certificates and secrets\<close>

datatype ExtKeyUsage = ExtKeyUsageServerAuth | ExtKeyUsageClientAuth

text \<open>An IP is kept as text; \<open>None\<close> is the nil IP that \<open>net.ParseIP\<close> returns for what is none.\<close>

record AltNames =
  an_DNSNames :: "string list"
  an_IPs :: "string option list"

record certutil_Config =
  cc_CommonName :: string
  cc_Organization :: "string list"
  cc_AltNames :: AltNames
  cc_Usages :: "ExtKeyUsage list"

record Certificate =
  x_CommonName :: string
  x_Organization :: "string list"
  x_DNSNames :: "string list"
  x_IPAddresses :: "string option list"
  x_NotBefore :: int
  x_NotAfter :: int
  x_ExtKeyUsage :: "ExtKeyUsage list"
  x_IsCA :: bool
  x_PublicKey :: string
  x_SignedBy :: string

record Secret =
  sec_meta :: ObjectMeta
  sec_Data :: "(string \<times> string) list"

text \<open>
  What is taken from elsewhere: the n-th key that is drawn, the clock, a failure of the random serial
  number, PEM, \<open>net.ParseIP\<close>, and the API server.
\<close>

datatype scall = SDelete string | SCreate Secret

record crypto =
  cr_key :: "nat \<Rightarrow> goerr + string"
  cr_serial :: "nat \<Rightarrow> goerr option"
  cr_now :: "nat \<Rightarrow> int"
  cr_pemCert :: "Certificate \<Rightarrow> string"
  cr_pemKey :: "string \<Rightarrow> goerr + string"
  cr_parseIP :: "string \<Rightarrow> string option"
  cr_delete :: "scall list \<Rightarrow> string \<Rightarrow> goerr option"
  cr_create :: "scall list \<Rightarrow> Secret \<Rightarrow> goerr option"

record certs_world =
  sw_calls :: "scall list"
  sw_drawn :: nat

type_synonym 'a sm = "(certs_world, 'a) go"

section \<open>Issuing\<close>

definition oneday :: int where
  "oneday = 24 * 60 * 60"

definition duration365d :: int where
  "duration365d = oneday * 365"

definition NewPrivateKey :: "crypto \<Rightarrow> string sm" where
  "NewPrivateKey cr =
     andthen (gets sw_drawn) (\<lambda>n.
     seq (modify (sw_drawn_update Suc)) (case cr_key cr n of Inl e \<Rightarrow> fail e | Inr k \<Rightarrow> ret k))"

text \<open>\<open>x509.CreateCertificate\<close> and \<open>ParseCertificate\<close>: a nil IP is encoded with no bytes, which the parser refuses.\<close>

definition create_certificate :: "Certificate \<Rightarrow> goerr + Certificate" where
  "create_certificate tmpl =
     (if None \<in> set (x_IPAddresses tmpl) then Inl (Errorf ''x509: cannot parse IP address of length 0'') else Inr tmpl)"

definition NewSelfSignedCACert :: "crypto \<Rightarrow> certutil_Config \<Rightarrow> string \<Rightarrow> Certificate sm" where
  "NewSelfSignedCACert cr cfg key =
     andthen (gets (\<lambda>w. cr_now cr (sw_drawn w))) (\<lambda>now.
     case create_certificate
       \<lparr>x_CommonName = cc_CommonName cfg, x_Organization = cc_Organization cfg, x_DNSNames = [cc_CommonName cfg],
        x_IPAddresses = [], x_NotBefore = now, x_NotAfter = now + duration365d * 10, x_ExtKeyUsage = [],
        x_IsCA = True, x_PublicKey = key, x_SignedBy = key\<rparr>
     of Inl e \<Rightarrow> fail e | Inr c \<Rightarrow> ret c)"

definition NewCertificateAuthority :: "crypto \<Rightarrow> certutil_Config \<Rightarrow> (Certificate \<times> string) sm" where
  "NewCertificateAuthority cr config =
     andthen (map_err (Wrapped ''unable to create private key'') (NewPrivateKey cr)) (\<lambda>key.
     andthen (map_err (Wrapped ''unable to create self-signed certificate'') (NewSelfSignedCACert cr config key)) (\<lambda>cert.
     ret (cert, key)))"

definition NewSignedCert :: "crypto \<Rightarrow> certutil_Config \<Rightarrow> string \<Rightarrow> Certificate \<Rightarrow> string \<Rightarrow> Certificate sm" where
  "NewSignedCert cr cfg key caCert caKey =
     andthen (gets sw_drawn) (\<lambda>n.
     seq (lift_err (cr_serial cr n))
    (if cc_CommonName cfg = [] then fail (Errorf ''must specify a CommonName'')
     else if cc_Usages cfg = [] then fail (Errorf ''must specify at least one ExtKeyUsage'')
     else (case create_certificate
             \<lparr>x_CommonName = cc_CommonName cfg, x_Organization = cc_Organization cfg,
              x_DNSNames = an_DNSNames (cc_AltNames cfg), x_IPAddresses = an_IPs (cc_AltNames cfg),
              x_NotBefore = x_NotBefore caCert, x_NotAfter = cr_now cr n + oneday * 800,
              x_ExtKeyUsage = cc_Usages cfg, x_IsCA = False, x_PublicKey = key, x_SignedBy = caKey\<rparr>
           of Inl e \<Rightarrow> fail e | Inr c \<Rightarrow> ret c)))"

definition NewCertAndKey :: "crypto \<Rightarrow> Certificate \<Rightarrow> string \<Rightarrow> certutil_Config \<Rightarrow> (Certificate \<times> string) sm" where
  "NewCertAndKey cr caCert caKey config =
     andthen (map_err (Wrapped ''unable to create private key'') (NewPrivateKey cr)) (\<lambda>key.
     andthen (map_err (Wrapped ''unable to sign certificate'') (NewSignedCert cr config key caCert caKey)) (\<lambda>cert.
     ret (cert, key)))"

section \<open>Alternative names\<close>

definition appendSANsToAltNames :: "crypto \<Rightarrow> string list \<Rightarrow> AltNames \<Rightarrow> AltNames" where
  "appendSANsToAltNames cr = fold (\<lambda>altname an.
     case cr_parseIP cr altname of
       Some ip \<Rightarrow> an\<lparr>an_IPs := an_IPs an @ [Some ip]\<rparr>
     | None \<Rightarrow> (if IsDNS1123Subdomain altname then an\<lparr>an_DNSNames := an_DNSNames an @ [altname]\<rparr> else an))"

definition GetServiceAltNames :: "crypto \<Rightarrow> OnecloudCluster \<Rightarrow> string \<Rightarrow> string \<Rightarrow> AltNames" where
  "GetServiceAltNames cr oc serviceName certName =
     (let ns = om_Namespace (oc_ObjectMeta oc); lb = spec_LoadBalancerEndpoint (oc_Spec oc);
          an0 = \<lparr>an_DNSNames = [serviceName, serviceName @ ''.'' @ ns, serviceName @ ''.'' @ ns @ ''.svc'', Localhost], an_IPs = []\<rparr>;
          an1 = (if lb = [] then an0
                 else (case cr_parseIP cr lb of
                         Some ip \<Rightarrow> an0\<lparr>an_IPs := an_IPs an0 @ [Some ip]\<rparr>
                       | None \<Rightarrow> an0\<lparr>an_DNSNames := an_DNSNames an0 @ [lb]\<rparr>))
      in appendSANsToAltNames cr (spec_CertSANs (oc_Spec oc)) an1)"

definition getServerAltNames :: "crypto \<Rightarrow> OnecloudCluster \<Rightarrow> string \<Rightarrow> string \<Rightarrow> AltNames" where
  "getServerAltNames cr oc serviceName certName =
     (let ns = om_Namespace (oc_ObjectMeta oc); name = om_Name (oc_ObjectMeta oc); lb = spec_LoadBalancerEndpoint (oc_Spec oc);
          an = \<lparr>an_DNSNames = [''*.'' @ name @ ''-etcd.'' @ ns @ ''.svc'', name @ ''-etcd-client.'' @ ns @ ''.svc'', Localhost],
                an_IPs = [cr_parseIP cr ''127.0.0.1'', cr_parseIP cr ''::1'']\<rparr>
      in if lb \<noteq> [] then an\<lparr>an_IPs := an_IPs an @ [cr_parseIP cr lb]\<rparr> else an)"

definition getPeerAltNames :: "crypto \<Rightarrow> OnecloudCluster \<Rightarrow> string \<Rightarrow> string \<Rightarrow> AltNames" where
  "getPeerAltNames cr oc serviceName certName =
     (let ns = om_Namespace (oc_ObjectMeta oc); name = om_Name (oc_ObjectMeta oc)
      in \<lparr>an_DNSNames = [''*.'' @ name @ ''-etcd.'' @ ns @ ''.svc'', ''*.'' @ name @ ''-etcd.'' @ ns @ ''.svc.cluster.local'', Localhost],
          an_IPs = [cr_parseIP cr ''127.0.0.1'', cr_parseIP cr ''::1'']\<rparr>)"

definition getClientAltNames :: "crypto \<Rightarrow> OnecloudCluster \<Rightarrow> string \<Rightarrow> string \<Rightarrow> AltNames" where
  "getClientAltNames cr oc serviceName certName = \<lparr>an_DNSNames = [[]], an_IPs = []\<rparr>"

section \<open>The certificates of the operator\<close>

record OnecloudCert =
  oct_Name :: string
  oct_LongName :: string
  oct_BaseName :: string
  oct_CAName :: string
  oct_configMutators :: "(crypto \<Rightarrow> OnecloudCluster \<Rightarrow> AltNames) list"
  oct_config :: certutil_Config

definition no_AltNames :: AltNames where
  "no_AltNames = \<lparr>an_DNSNames = [], an_IPs = []\<rparr>"

text \<open>The mutators set the alternative names of the configuration, one after the other.\<close>

definition GetConfig :: "crypto \<Rightarrow> OnecloudCluster \<Rightarrow> OnecloudCert \<Rightarrow> certutil_Config" where
  "GetConfig cr oc k = fold (\<lambda>f cc. cc\<lparr>cc_AltNames := f cr oc\<rparr>) (oct_configMutators k) (oct_config k)"

definition CreateFromCA :: "crypto \<Rightarrow> OnecloudCluster \<Rightarrow> OnecloudCert \<Rightarrow> Certificate \<Rightarrow> string \<Rightarrow> (Certificate \<times> string) sm" where
  "CreateFromCA cr oc k caCert caKey = NewCertAndKey cr caCert caKey (GetConfig cr oc k)"

definition NewCACertAndKey :: "crypto \<Rightarrow> certutil_Config \<Rightarrow> (Certificate \<times> string) sm" where
  "NewCACertAndKey cr certSpec =
     map_err (Wrapped ''failure while generating CA certificate and key'') (NewCertificateAuthority cr certSpec)"

definition new_ca :: "string \<Rightarrow> string \<Rightarrow> OnecloudCert" where
  "new_ca longName baseName = \<lparr>oct_Name = ''ca'', oct_LongName = longName, oct_BaseName = baseName, oct_CAName = ''ca'',
     oct_configMutators = [], oct_config = \<lparr>cc_CommonName = ''onecloud'', cc_Organization = [], cc_AltNames = no_AltNames, cc_Usages = []\<rparr>\<rparr>"

definition NewClusterCACert :: OnecloudCert where
  "NewClusterCACert = new_ca ''self-signed onecloud cA to provision identities for other service components'' CACertAndKeyBaseName"

definition NewEtcdClusterCACert :: OnecloudCert where
  "NewEtcdClusterCACert = new_ca ''self-signed onecloud cA to provision identities for etcd components'' EtcdServerCACertName"

definition new_cert ::
  "(crypto \<Rightarrow> OnecloudCluster \<Rightarrow> string \<Rightarrow> string \<Rightarrow> AltNames) \<Rightarrow> ExtKeyUsage list \<Rightarrow> string \<Rightarrow> string \<Rightarrow> string \<Rightarrow> OnecloudCert" where
  "new_cert names usages caName serviceName certName =
     \<lparr>oct_Name = serviceName, oct_LongName = ''certificate for serving the '' @ serviceName @ '' service'',
      oct_BaseName = serviceName, oct_CAName = caName,
      oct_configMutators = [\<lambda>cr oc. names cr oc serviceName certName],
      oct_config = \<lparr>cc_CommonName = serviceName, cc_Organization = [], cc_AltNames = no_AltNames, cc_Usages = usages\<rparr>\<rparr>"

definition NewServiceCert :: "string \<Rightarrow> string \<Rightarrow> string \<Rightarrow> OnecloudCert" where
  "NewServiceCert = new_cert GetServiceAltNames [ExtKeyUsageServerAuth]"

definition NewEtcdServerCert :: "string \<Rightarrow> string \<Rightarrow> string \<Rightarrow> OnecloudCert" where
  "NewEtcdServerCert = new_cert getServerAltNames [ExtKeyUsageServerAuth]"

definition NewEtcdClientCert :: "string \<Rightarrow> string \<Rightarrow> string \<Rightarrow> OnecloudCert" where
  "NewEtcdClientCert = new_cert getClientAltNames [ExtKeyUsageClientAuth]"

definition NewEtcdPeerCert :: "string \<Rightarrow> string \<Rightarrow> string \<Rightarrow> OnecloudCert" where
  "NewEtcdPeerCert = new_cert getPeerAltNames [ExtKeyUsageServerAuth, ExtKeyUsageClientAuth]"

section \<open>Stores and secrets\<close>

type_synonym CertsStore = "(string \<times> string) list"

definition nameForKey :: "string \<Rightarrow> string" where
  "nameForKey name = name @ ''.key''"

definition nameForCert :: "string \<Rightarrow> string" where
  "nameForCert name = name @ ''.crt''"

definition WriteKey :: "crypto \<Rightarrow> string \<Rightarrow> string \<Rightarrow> CertsStore \<Rightarrow> CertsStore sm" where
  "WriteKey cr name key store =
     (case cr_pemKey cr key of
        Inl e \<Rightarrow> fail (Wrapped ''unable to marshal private key to PEM'' e)
      | Inr encoded \<Rightarrow> ret (AList.update (nameForKey name) encoded store))"

definition WriteCert :: "crypto \<Rightarrow> string \<Rightarrow> Certificate \<Rightarrow> CertsStore \<Rightarrow> CertsStore sm" where
  "WriteCert cr name cert store = ret (AList.update (nameForCert name) (cr_pemCert cr cert) store)"

definition WriteCertAndKey :: "crypto \<Rightarrow> string \<Rightarrow> Certificate \<Rightarrow> string \<Rightarrow> CertsStore \<Rightarrow> CertsStore sm" where
  "WriteCertAndKey cr name cert key store =
     andthen (map_err (Wrapped (''cloudn't write '' @ name @ '' key'')) (WriteKey cr name key store)) (WriteCert cr name cert)"

definition newEtcdSecretFromStore :: "OnecloudCluster \<Rightarrow> string \<Rightarrow> CertsStore \<Rightarrow> Secret" where
  "newEtcdSecretFromStore oc name store =
     \<lparr>sec_meta = new_meta name (om_Namespace (oc_ObjectMeta oc)) None None [GetOwnerRef oc], sec_Data = store\<rparr>"

definition newSecretFromStore :: "OnecloudCluster \<Rightarrow> CertsStore \<Rightarrow> Secret" where
  "newSecretFromStore oc store = newEtcdSecretFromStore oc (ClustercertSecretName oc) store"

definition create_secret :: "crypto \<Rightarrow> Secret \<Rightarrow> unit sm" where
  "create_secret cr s =
     andthen (gets sw_calls) (\<lambda>h.
     seq (modify (sw_calls_update (\<lambda>cs. cs @ [SCreate s]))) (lift_err (cr_create cr h s)))"

definition delete_secret :: "crypto \<Rightarrow> string \<Rightarrow> unit sm" where
  "delete_secret cr n =
     andthen (gets sw_calls) (\<lambda>h.
     seq (modify (sw_calls_update (\<lambda>cs. cs @ [SDelete n]))) (lift_err (cr_delete cr h n)))"

definition CreateCertPair :: "crypto \<Rightarrow> OnecloudCluster \<Rightarrow> CertsStore sm" where
  "CreateCertPair cr oc =
     andthen (NewCACertAndKey cr (GetConfig cr oc NewClusterCACert)) (\<lambda>(cert, key).
     andthen (WriteCertAndKey cr (oct_BaseName NewClusterCACert) cert key []) (\<lambda>store.
     let svcCerts = NewServiceCert (oct_BaseName NewClusterCACert) ServiceCertAndKeyBaseName ServiceCertName
     in andthen (CreateFromCA cr oc svcCerts cert key) (\<lambda>(svcCert, svcKey).
        andthen (WriteCertAndKey cr (oct_BaseName svcCerts) svcCert svcKey store) (\<lambda>store'.
        WriteCertAndKey cr ''tls'' svcCert svcKey store'))))"

definition CreateCert :: "crypto \<Rightarrow> OnecloudCluster \<Rightarrow> unit sm" where
  "CreateCert cr oc =
     andthen (CreateCertPair cr oc) (\<lambda>store. create_secret cr (newSecretFromStore oc store))"

text \<open>One of the three parts of \<open>CreateEtcdCert\<close>: the certificate of the authority, then the part's own pair.\<close>

definition create_etcd_part ::
  "crypto \<Rightarrow> OnecloudCluster \<Rightarrow> Certificate \<Rightarrow> string \<Rightarrow> string \<Rightarrow> OnecloudCert \<Rightarrow> string \<Rightarrow> unit sm" where
  "create_etcd_part cr oc cert key caName certs secretName =
     andthen (WriteCert cr caName cert []) (\<lambda>store.
     andthen (CreateFromCA cr oc certs cert key) (\<lambda>(c, k).
     andthen (WriteCertAndKey cr (oct_BaseName certs) c k store) (\<lambda>store'.
     create_secret cr (newEtcdSecretFromStore oc secretName store'))))"

definition CreateEtcdCert :: "crypto \<Rightarrow> OnecloudCluster \<Rightarrow> unit sm" where
  "CreateEtcdCert cr oc =
     seq (for_each [EtcdServerSecret, EtcdClientSecret, EtcdPeerSecret]
            (\<lambda>secretName. andthen (attempt (delete_secret cr secretName)) (\<lambda>_. ret ())))
    (andthen (NewCACertAndKey cr (GetConfig cr oc NewEtcdClusterCACert)) (\<lambda>(cert, key).
     let ca = oct_BaseName NewEtcdClusterCACert
     in seq (create_etcd_part cr oc cert key EtcdServerCACertName (NewEtcdServerCert ca EtcdServerName EtcdServerCertName) EtcdServerSecret)
       (seq (create_etcd_part cr oc cert key EtcdClientCACertName (NewEtcdClientCert ca EtcdClientName EtcdClientCertName) EtcdClientSecret)
            (create_etcd_part cr oc cert key EtcdPeerCACertName (NewEtcdPeerCert ca EtcdPeerName EtcdPeerCertName) EtcdPeerSecret))))"

section \<open>What is issued\<close>

lemma new_cert_config [simp]:
  "GetConfig cr oc (new_cert names usages caName serviceName certName) =
     \<lparr>cc_CommonName = serviceName, cc_Organization = [], cc_AltNames = names cr oc serviceName certName, cc_Usages = usages\<rparr>"
  "oct_BaseName (new_cert names usages caName serviceName certName) = serviceName"
  "oct_BaseName (new_ca l b) = b"
  by (simp_all add: GetConfig_def new_cert_def new_ca_def)

lemma NewPrivateKey_Ret:
  "NewPrivateKey cr w = (Ret k, w') \<Longrightarrow> cr_key cr (sw_drawn w) = Inr k \<and> w' = w\<lparr>sw_drawn := Suc (sw_drawn w)\<rparr>"
  by (auto simp: NewPrivateKey_def andthen_Ret_iff seq_Ret_iff go_simps split: sum.splits)

lemma NewCACertAndKey_Ret:
  assumes "NewCACertAndKey cr cfg w = (Ret (cert, key), w')"
  shows "w' = w\<lparr>sw_drawn := Suc (sw_drawn w)\<rparr> \<and> cr_key cr (sw_drawn w) = Inr key
    \<and> x_IsCA cert \<and> x_PublicKey cert = key \<and> x_SignedBy cert = key"
  using assms
  by (auto simp: NewCACertAndKey_def NewCertificateAuthority_def NewSelfSignedCACert_def create_certificate_def
      andthen_Ret_iff map_err_Ret_iff go_simps dest!: NewPrivateKey_Ret split: sum.splits if_splits)

lemma CreateFromCA_Ret:
  assumes "CreateFromCA cr oc (new_cert names usages caName serviceName certName) caCert caKey w = (Ret (c, k), w')"
  shows "w' = w\<lparr>sw_drawn := Suc (sw_drawn w)\<rparr> \<and> cr_key cr (sw_drawn w) = Inr k
     \<and> x_SignedBy c = caKey \<and> x_PublicKey c = k \<and> x_ExtKeyUsage c = usages
     \<and> x_DNSNames c = an_DNSNames (names cr oc serviceName certName)
     \<and> x_IPAddresses c = an_IPs (names cr oc serviceName certName) \<and> None \<notin> set (x_IPAddresses c)"
  using assms
  by (auto simp: CreateFromCA_def NewCertAndKey_def NewSignedCert_def create_certificate_def
      andthen_Ret_iff seq_Ret_iff map_err_Ret_iff lift_err_Ret_iff go_simps dest!: NewPrivateKey_Ret split: sum.splits if_splits)

lemma create_secret_Ret:
  "create_secret cr s w = (Ret (), w') \<Longrightarrow> w' = w\<lparr>sw_calls := sw_calls w @ [SCreate s]\<rparr>"
  by (auto simp: create_secret_def andthen_Ret_iff seq_Ret_iff lift_err_Ret_iff go_simps)

text \<open>A pair of certificate and key that belongs together, issued by the authority \<open>ca\<close>.\<close>

definition issued_by :: "Certificate \<Rightarrow> Certificate \<Rightarrow> string \<Rightarrow> bool" where
  "issued_by ca c k \<longleftrightarrow> x_SignedBy c = x_PublicKey ca \<and> x_PublicKey c = k"

definition tls_store :: "crypto \<Rightarrow> string \<Rightarrow> Certificate \<Rightarrow> string \<Rightarrow> Certificate \<Rightarrow> string \<Rightarrow> CertsStore" where
  "tls_store cr caName ca name c pemKey =
     [(nameForCert caName, cr_pemCert cr ca), (nameForKey name, pemKey), (nameForCert name, cr_pemCert cr c)]"

lemma WriteCertAndKey_Ret:
  "WriteCertAndKey cr name c k store w = (Ret store', w') \<longleftrightarrow>
     (\<exists>pem. cr_pemKey cr k = Inr pem \<and> w' = w
        \<and> store' = AList.update (nameForCert name) (cr_pemCert cr c) (AList.update (nameForKey name) pem store))"
  by (cases "cr_pemKey cr k") (auto simp: WriteCertAndKey_def WriteKey_def WriteCert_def go_simps)

lemma create_etcd_part_Ret:
  assumes "create_etcd_part cr oc ca key caName (new_cert names usages caN name certName) secretName w = (Ret (), w')"
    and "x_PublicKey ca = key" "caName \<noteq> name"
  shows "\<exists>c k pem. sw_calls w' = sw_calls w @ [SCreate (newEtcdSecretFromStore oc secretName (tls_store cr caName ca name c pem))]
     \<and> sw_drawn w' = Suc (sw_drawn w) \<and> cr_key cr (sw_drawn w) = Inr k
     \<and> cr_pemKey cr k = Inr pem \<and> issued_by ca c k \<and> x_ExtKeyUsage c = usages
     \<and> x_DNSNames c = an_DNSNames (names cr oc name certName) \<and> None \<notin> set (an_IPs (names cr oc name certName))"
proof -
  from assms(1) obtain c k w1 pem w2 where
    c: "CreateFromCA cr oc (new_cert names usages caN name certName) ca key w = (Ret (c, k), w1)" and pem: "cr_pemKey cr k = Inr pem"
    and s: "create_secret cr (newEtcdSecretFromStore oc secretName (AList.update (nameForCert name) (cr_pemCert cr c)
          (AList.update (nameForKey name) pem [(nameForCert caName, cr_pemCert cr ca)]))) w1 = (Ret (), w')"
    by (auto simp: create_etcd_part_def WriteCert_def WriteCertAndKey_Ret andthen_Ret_iff go_simps simp del: update.simps)
      (simp add: go_simps)
  have "AList.update (nameForCert name) (cr_pemCert cr c) (AList.update (nameForKey name) pem [(nameForCert caName, cr_pemCert cr ca)])
      = tls_store cr caName ca name c pem"
    using assms(3) by (auto simp: tls_store_def nameForKey_def nameForCert_def append_eq_append_conv2)
  with create_secret_Ret [OF s] CreateFromCA_Ret [OF c] pem assms(2) show ?thesis
    by (auto simp: issued_by_def intro!: exI)
qed

lemma delete_all_eval:
  "\<exists>v. for_each ns (\<lambda>n. andthen (attempt (delete_secret cr n)) (\<lambda>_. ret ())) w = (Ret (), v)
     \<and> sw_calls v = sw_calls w @ map SDelete ns \<and> sw_drawn v = sw_drawn w"
proof (induction ns arbitrary: w)
  case (Cons n ns)
  let ?v = "w\<lparr>sw_calls := sw_calls w @ [SDelete n]\<rparr>"
  have step: "andthen (attempt (delete_secret cr n)) (\<lambda>_. ret ()) w = (Ret (), ?v)"
    by (cases "cr_delete cr (sw_calls w) n") (simp_all add: delete_secret_def go_simps)
  show ?case
    using Cons.IH [of ?v] step by (simp only: for_each.simps seq_def andthen_eval) simp
qed (simp add: go_simps)

lemmas new_certs = NewEtcdServerCert_def NewEtcdClientCert_def NewEtcdPeerCert_def

lemma CreateEtcdCert_parts:
  assumes "CreateEtcdCert cr oc w = (Ret (), w')"
  obtains ca w1 w2 w3 where "x_IsCA ca" "x_SignedBy ca = x_PublicKey ca" "cr_key cr (sw_drawn w) = Inr (x_PublicKey ca)"
    "sw_drawn w1 = Suc (sw_drawn w)"
    "sw_calls w1 = sw_calls w @ map SDelete [EtcdServerSecret, EtcdClientSecret, EtcdPeerSecret]"
    "create_etcd_part cr oc ca (x_PublicKey ca) EtcdServerCACertName
       (NewEtcdServerCert EtcdServerCACertName EtcdServerName EtcdServerCertName) EtcdServerSecret w1 = (Ret (), w2)"
    "create_etcd_part cr oc ca (x_PublicKey ca) EtcdClientCACertName
       (NewEtcdClientCert EtcdServerCACertName EtcdClientName EtcdClientCertName) EtcdClientSecret w2 = (Ret (), w3)"
    "create_etcd_part cr oc ca (x_PublicKey ca) EtcdPeerCACertName
       (NewEtcdPeerCert EtcdServerCACertName EtcdPeerName EtcdPeerCertName) EtcdPeerSecret w3 = (Ret (), w')"
proof -
  obtain v where v: "for_each [EtcdServerSecret, EtcdClientSecret, EtcdPeerSecret]
        (\<lambda>n. andthen (attempt (delete_secret cr n)) (\<lambda>_. ret ())) w = (Ret (), v)"
      "sw_calls v = sw_calls w @ map SDelete [EtcdServerSecret, EtcdClientSecret, EtcdPeerSecret]" "sw_drawn v = sw_drawn w"
    using delete_all_eval by blast
  from assms v(1) obtain ca key w1 w2 w3 where
    made: "NewCACertAndKey cr (GetConfig cr oc NewEtcdClusterCACert) v = (Ret (ca, key), w1)" and parts:
    "create_etcd_part cr oc ca key EtcdServerCACertName
       (NewEtcdServerCert EtcdServerCACertName EtcdServerName EtcdServerCertName) EtcdServerSecret w1 = (Ret (), w2)"
    "create_etcd_part cr oc ca key EtcdClientCACertName
       (NewEtcdClientCert EtcdServerCACertName EtcdClientName EtcdClientCertName) EtcdClientSecret w2 = (Ret (), w3)"
    "create_etcd_part cr oc ca key EtcdPeerCACertName
       (NewEtcdPeerCert EtcdServerCACertName EtcdPeerName EtcdPeerCertName) EtcdPeerSecret w3 = (Ret (), w')"
    unfolding CreateEtcdCert_def Let_def NewEtcdClusterCACert_def new_cert_config
    by (auto simp: andthen_Ret_iff seq_Ret_iff simp del: for_each.simps)
  show thesis using NewCACertAndKey_Ret [OF made] v(2,3) parts by (intro that [of ca w1 w2 w3]) simp_all
qed

lemma CreateEtcdCert_created:
  assumes "CreateEtcdCert cr oc w = (Ret (), w')"
  obtains ca c1 k1 p1 c2 k2 p2 c3 k3 p3 where
    "sw_calls w' = sw_calls w @ map SDelete [EtcdServerSecret, EtcdClientSecret, EtcdPeerSecret] @
        [SCreate (newEtcdSecretFromStore oc EtcdServerSecret (tls_store cr EtcdServerCACertName ca EtcdServerName c1 p1)),
         SCreate (newEtcdSecretFromStore oc EtcdClientSecret (tls_store cr EtcdClientCACertName ca EtcdClientName c2 p2)),
         SCreate (newEtcdSecretFromStore oc EtcdPeerSecret (tls_store cr EtcdPeerCACertName ca EtcdPeerName c3 p3))]"
    "x_IsCA ca" "x_SignedBy ca = x_PublicKey ca"
    "map (cr_key cr) [sw_drawn w ..< sw_drawn w'] = map Inr [x_PublicKey ca, k1, k2, k3]"
    "issued_by ca c1 k1" "cr_pemKey cr k1 = Inr p1" "x_ExtKeyUsage c1 = [ExtKeyUsageServerAuth]"
    "issued_by ca c2 k2" "cr_pemKey cr k2 = Inr p2" "x_ExtKeyUsage c2 = [ExtKeyUsageClientAuth]"
    "issued_by ca c3 k3" "cr_pemKey cr k3 = Inr p3" "x_ExtKeyUsage c3 = [ExtKeyUsageServerAuth, ExtKeyUsageClientAuth]"
proof -
  from assms obtain ca w1 w2 w3 where ca: "x_IsCA ca" "x_SignedBy ca = x_PublicKey ca" "cr_key cr (sw_drawn w) = Inr (x_PublicKey ca)"
    and drawn: "sw_drawn w1 = Suc (sw_drawn w)"
    and del: "sw_calls w1 = sw_calls w @ map SDelete [EtcdServerSecret, EtcdClientSecret, EtcdPeerSecret]"
    and parts: "create_etcd_part cr oc ca (x_PublicKey ca) EtcdServerCACertName
       (NewEtcdServerCert EtcdServerCACertName EtcdServerName EtcdServerCertName) EtcdServerSecret w1 = (Ret (), w2)"
    "create_etcd_part cr oc ca (x_PublicKey ca) EtcdClientCACertName
       (NewEtcdClientCert EtcdServerCACertName EtcdClientName EtcdClientCertName) EtcdClientSecret w2 = (Ret (), w3)"
    "create_etcd_part cr oc ca (x_PublicKey ca) EtcdPeerCACertName
       (NewEtcdPeerCert EtcdServerCACertName EtcdPeerName EtcdPeerCertName) EtcdPeerSecret w3 = (Ret (), w')"
    by (rule CreateEtcdCert_parts)
  have ne: "EtcdServerCACertName \<noteq> EtcdServerName" "EtcdClientCACertName \<noteq> EtcdClientName" "EtcdPeerCACertName \<noteq> EtcdPeerName"
    by (simp_all add: oc_consts)
  note made = parts [unfolded new_certs, THEN create_etcd_part_Ret, OF refl]
  obtain c1 k1 p1 where 1: "sw_calls w2 = sw_calls w1 @ [SCreate (newEtcdSecretFromStore oc EtcdServerSecret (tls_store cr EtcdServerCACertName ca EtcdServerName c1 p1))]"
    "sw_drawn w2 = Suc (sw_drawn w1)" "cr_key cr (sw_drawn w1) = Inr k1"
    "cr_pemKey cr k1 = Inr p1" "issued_by ca c1 k1" "x_ExtKeyUsage c1 = [ExtKeyUsageServerAuth]"
    using made(1) [OF ne(1)] by blast
  obtain c2 k2 p2 where 2: "sw_calls w3 = sw_calls w2 @ [SCreate (newEtcdSecretFromStore oc EtcdClientSecret (tls_store cr EtcdClientCACertName ca EtcdClientName c2 p2))]"
    "sw_drawn w3 = Suc (sw_drawn w2)" "cr_key cr (sw_drawn w2) = Inr k2"
    "cr_pemKey cr k2 = Inr p2" "issued_by ca c2 k2" "x_ExtKeyUsage c2 = [ExtKeyUsageClientAuth]"
    using made(2) [OF ne(2)] by blast
  obtain c3 k3 p3 where 3: "sw_calls w' = sw_calls w3 @ [SCreate (newEtcdSecretFromStore oc EtcdPeerSecret (tls_store cr EtcdPeerCACertName ca EtcdPeerName c3 p3))]"
    "sw_drawn w' = Suc (sw_drawn w3)" "cr_key cr (sw_drawn w3) = Inr k3"
    "cr_pemKey cr k3 = Inr p3" "issued_by ca c3 k3" "x_ExtKeyUsage c3 = [ExtKeyUsageServerAuth, ExtKeyUsageClientAuth]"
    using made(3) [OF ne(3)] by blast
  have "[sw_drawn w ..< sw_drawn w'] = [sw_drawn w, sw_drawn w1, sw_drawn w2, sw_drawn w3]"
    using drawn 1(2) 2(2) 3(2) by (simp add: upt_rec)
  then have "map (cr_key cr) [sw_drawn w ..< sw_drawn w'] = map Inr [x_PublicKey ca, k1, k2, k3]"
    using ca(3) 1(3) 2(3) 3(3) by simp
  then show thesis using 1 2 3 ca del by (intro that [of ca c1 p1 c2 p2 c3 p3 k1 k2 k3]) simp_all
qed

lemma client_reads_secret:
  assumes "ee_getSecret env (em_calls m) s = Inr (tls_store cr EtcdClientCACertName ca EtcdClientName c p)"
  shows "fst (GetTLSDataFromSecret env s m) = Ret \<lparr>td_CertData = cr_pemCert cr c, td_KeyData = p, td_CAData = cr_pemCert cr ca\<rparr>"
  using assms
  by (simp add: GetTLSDataFromSecret_def ecall_def Let_def go_simps tls_data_def tls_store_def gomap_str_def gomap_get_def
      CliCertFile_def CliKeyFile_def CliCAFile_def nameForCert_def nameForKey_def oc_consts)

text \<open>
  C20: When the certificates of etcd are created, the three secrets are made in this order, after all
  three were deleted, from one authority: each holds the certificate of that authority and a pair that it
  issued and that belongs together, and nothing else. The key of the authority is the first of four keys
  that are drawn, and the keys stored are the three drawn after it: no secret stores the key of the
  authority. The files of each secret are those named in the command lines of the member pods and of their
  probes, and what the operator's own client of etcd reads back from the client secret is the client's
  pair and the certificate of the authority.
\<close>

theorem CreateEtcdCert_secrets:
  assumes "CreateEtcdCert cr oc w = (Ret (), w')"
  shows "(\<exists>ca c1 k1 p1 c2 k2 p2 c3 k3 p3.
      sw_calls w' = sw_calls w @ map SDelete [EtcdServerSecret, EtcdClientSecret, EtcdPeerSecret] @
        [SCreate (newEtcdSecretFromStore oc EtcdServerSecret (tls_store cr EtcdServerCACertName ca EtcdServerName c1 p1)),
         SCreate (newEtcdSecretFromStore oc EtcdClientSecret (tls_store cr EtcdClientCACertName ca EtcdClientName c2 p2)),
         SCreate (newEtcdSecretFromStore oc EtcdPeerSecret (tls_store cr EtcdPeerCACertName ca EtcdPeerName c3 p3))]
      \<and> x_IsCA ca \<and> x_SignedBy ca = x_PublicKey ca
      \<and> map (cr_key cr) [sw_drawn w ..< sw_drawn w'] = map Inr [x_PublicKey ca, k1, k2, k3]
      \<and> issued_by ca c1 k1 \<and> cr_pemKey cr k1 = Inr p1 \<and> x_ExtKeyUsage c1 = [ExtKeyUsageServerAuth]
      \<and> issued_by ca c2 k2 \<and> cr_pemKey cr k2 = Inr p2 \<and> x_ExtKeyUsage c2 = [ExtKeyUsageClientAuth]
      \<and> issued_by ca c3 k3 \<and> cr_pemKey cr k3 = Inr p3 \<and> x_ExtKeyUsage c3 = [ExtKeyUsageServerAuth, ExtKeyUsageClientAuth]
      \<and> (\<forall>env m. ee_getSecret env (em_calls m) EtcdClientSecret
             = Inr (sec_Data (newEtcdSecretFromStore oc EtcdClientSecret (tls_store cr EtcdClientCACertName ca EtcdClientName c2 p2)))
           \<longrightarrow> fst (GetTLSDataFromSecret env EtcdClientSecret m)
             = Ret \<lparr>td_CertData = cr_pemCert cr c2, td_KeyData = p2, td_CAData = cr_pemCert cr ca\<rparr>))
    \<and> server_tls_args = '' --client-cert-auth=true --trusted-ca-file='' @ serverTLSDir @ ''/'' @ nameForCert EtcdServerCACertName
        @ '' --cert-file='' @ serverTLSDir @ ''/'' @ nameForCert EtcdServerName @ '' --key-file='' @ serverTLSDir @ ''/'' @ nameForKey EtcdServerName
    \<and> peer_tls_args = '' --peer-client-cert-auth=true --peer-trusted-ca-file='' @ peerTLSDir @ ''/'' @ nameForCert EtcdPeerCACertName
        @ '' --peer-cert-file='' @ peerTLSDir @ ''/'' @ nameForCert EtcdPeerName @ '' --peer-key-file='' @ peerTLSDir @ ''/'' @ nameForKey EtcdPeerName
    \<and> tlsFlags = ''--cert='' @ operatorEtcdTLSDir @ ''/'' @ nameForCert EtcdClientName @ '' --key='' @ operatorEtcdTLSDir @ ''/''
        @ nameForKey EtcdClientName @ '' --cacert='' @ operatorEtcdTLSDir @ ''/'' @ nameForCert EtcdClientCACertName"
  using assms
  by (rule CreateEtcdCert_created)
    (intro conjI exI, assumption+,
     simp_all add: newEtcdSecretFromStore_def client_reads_secret
       server_tls_args_def peer_tls_args_def tlsFlags_def nameForCert_def nameForKey_def oc_consts)

lemma keeps_issue:
  "keeps (\<lambda>w. sw_calls w = cs) (NewCACertAndKey cr cfg)" "keeps (\<lambda>w. sw_calls w = cs) (CreateFromCA cr oc k ca key)"
  unfolding NewCACertAndKey_def NewCertificateAuthority_def NewSelfSignedCACert_def CreateFromCA_def NewCertAndKey_def
    NewSignedCert_def NewPrivateKey_def
  by (auto intro!: keeps_intros split: sum.split)

lemma server_part_fails:
  assumes "spec_LoadBalancerEndpoint (oc_Spec oc) \<noteq> []" "cr_parseIP cr (spec_LoadBalancerEndpoint (oc_Spec oc)) = None"
  obtains r t where "create_etcd_part cr oc ca key caName (NewEtcdServerCert a b c) secretName w = (r, t)" "r \<noteq> Ret ()"
    "sw_calls t = sw_calls w"
proof -
  let ?m = "CreateFromCA cr oc (NewEtcdServerCert a b c) ca key"
  have bad: "?m w \<noteq> (Ret x, t)" for x t
    using CreateFromCA_Ret [of cr oc getServerAltNames "[ExtKeyUsageServerAuth]" a b c ca key w "fst x" "snd x" t] assms
    by (auto simp: NewEtcdServerCert_def getServerAltNames_def Let_def)
  show thesis
  proof (cases ?m w rule: go_cases)
    case (Fail e t)
    with keepsD_eq [OF keeps_issue(2) Fail, of "sw_calls w"] that show thesis
      by (simp add: create_etcd_part_def WriteCert_def go_simps)
  next
    case (Panic p t)
    with keepsD_eq [OF keeps_issue(2) Panic, of "sw_calls w"] that show thesis
      by (simp add: create_etcd_part_def WriteCert_def go_simps)
  qed (use bad in blast)
qed

lemma appendSANs_keeps: "x \<in> set (an_DNSNames an) \<Longrightarrow> x \<in> set (an_DNSNames (appendSANsToAltNames cr names an))"
  unfolding appendSANsToAltNames_def by (induction names arbitrary: an) (auto split: option.splits)

text \<open>
  A load balancer endpoint that is a host name, which the certificate of the services allows for,
  makes the certificates of etcd fail every time, and each attempt first deletes the three secrets and
  creates none.
\<close>

theorem CreateEtcdCert_needs_ip_endpoint:
  assumes "spec_LoadBalancerEndpoint (oc_Spec oc) \<noteq> []" "cr_parseIP cr (spec_LoadBalancerEndpoint (oc_Spec oc)) = None"
  shows "(\<forall>w'. CreateEtcdCert cr oc w \<noteq> (Ret (), w'))
    \<and> sw_calls (snd (CreateEtcdCert cr oc w)) = sw_calls w @ map SDelete [EtcdServerSecret, EtcdClientSecret, EtcdPeerSecret]
    \<and> spec_LoadBalancerEndpoint (oc_Spec oc) \<in> set (an_DNSNames (GetServiceAltNames cr oc serviceName certName))"
proof (intro conjI)
  obtain v where v: "for_each [EtcdServerSecret, EtcdClientSecret, EtcdPeerSecret]
        (\<lambda>n. andthen (attempt (delete_secret cr n)) (\<lambda>_. ret ())) w = (Ret (), v)"
      "sw_calls v = sw_calls w @ map SDelete [EtcdServerSecret, EtcdClientSecret, EtcdPeerSecret]"
    using delete_all_eval by blast
  have "\<exists>r t. CreateEtcdCert cr oc w = (r, t) \<and> r \<noteq> Ret () \<and> sw_calls t = sw_calls v"
  proof (cases "NewCACertAndKey cr (GetConfig cr oc NewEtcdClusterCACert)" v rule: go_cases)
    case (Ret x u)
    obtain ca key where x: "x = (ca, key)" by fastforce
    have u: "sw_calls u = sw_calls v" using keepsD_eq [OF keeps_issue(1) Ret, of "sw_calls v"] by simp
    obtain r t where "create_etcd_part cr oc ca key EtcdServerCACertName
        (NewEtcdServerCert (oct_BaseName NewEtcdClusterCACert) EtcdServerName EtcdServerCertName) EtcdServerSecret u = (r, t)"
      "r \<noteq> Ret ()" "sw_calls t = sw_calls u"
      by (rule server_part_fails [OF assms])
    with u Ret x v(1) show ?thesis
      by (cases r) (simp_all add: CreateEtcdCert_def go_simps Let_def del: for_each.simps)
  next
    case (Fail e u)
    with keepsD_eq [OF keeps_issue(1) Fail, of "sw_calls v"] v(1) show ?thesis
      by (simp add: CreateEtcdCert_def go_simps del: for_each.simps)
  next
    case (Panic e u)
    with keepsD_eq [OF keeps_issue(1) Panic, of "sw_calls v"] v(1) show ?thesis
      by (simp add: CreateEtcdCert_def go_simps del: for_each.simps)
  qed
  with v(2) show "\<forall>w'. CreateEtcdCert cr oc w \<noteq> (Ret (), w')"
    "sw_calls (snd (CreateEtcdCert cr oc w)) = sw_calls w @ map SDelete [EtcdServerSecret, EtcdClientSecret, EtcdPeerSecret]"
    by auto
  show "spec_LoadBalancerEndpoint (oc_Spec oc) \<in> set (an_DNSNames (GetServiceAltNames cr oc serviceName certName))"
    using assms by (auto simp: GetServiceAltNames_def Let_def intro!: appendSANs_keeps)
qed

section \<open>Names and addresses\<close>

text \<open>How TLS compares a name of a certificate with a host: label by label, \<open>*\<close> for the whole first label.\<close>

definition host_matches :: "string \<Rightarrow> string \<Rightarrow> bool" where
  "host_matches pattern host =
     (case (split_on (CHR ''.'') pattern, split_on (CHR ''.'') host) of
        (p # ps, h # hs) \<Rightarrow> (p = ''*'' \<or> p = h) \<and> ps = hs
      | _ \<Rightarrow> False)"

lemma host_matches_wildcard:
  "CHR ''.'' \<notin> set l \<Longrightarrow> host_matches (''*.'' @ rest) (l @ ''.'' @ rest)"
  using split_on_append [of "CHR ''.''" "''*''" rest] split_on_append [of "CHR ''.''" l rest]
  by (simp add: host_matches_def)

lemma host_matches_refl: "host_matches h h"
  by (simp add: host_matches_def split: list.split)

text \<open>
  C22: A member that the operator names for a cluster is reached under an address that the certificate of
  the server and the certificate of the peers both carry, and so is the client service, as long as
  the name of the cluster has no dot and is not cut; a longer name gives an address in another domain.
\<close>

theorem etcd_addresses_certified:
  assumes name: "mb_Name mb = UniqueMemberName sfx (getEtcdClusterPrefix oc)" "CHR ''-'' \<notin> set sfx"
    and ns: "mb_Namespace mb = om_Namespace (oc_ObjectMeta oc)"
    and dots: "CHR ''.'' \<notin> set (om_Name (oc_ObjectMeta oc))" "CHR ''.'' \<notin> set sfx"
  shows "Member_Addr mb = Some (UniqueMemberName sfx (getEtcdClusterPrefix oc) @ ''.'' @ take MaxNameLength (getEtcdClusterPrefix oc) @ ''.'' @ mb_Namespace mb @ ''.svc'')
    \<and> (length (getEtcdClusterPrefix oc) \<le> MaxNameLength \<longrightarrow>
         (\<exists>addr. Member_Addr mb = Some addr
            \<and> (\<exists>n\<in>set (an_DNSNames (getServerAltNames cr oc EtcdServerName EtcdServerCertName)). host_matches n addr)
            \<and> (\<exists>n\<in>set (an_DNSNames (getPeerAltNames cr oc EtcdPeerName EtcdPeerCertName)). host_matches n addr)))
    \<and> (\<exists>n\<in>set (an_DNSNames (getServerAltNames cr oc EtcdServerName EtcdServerCertName)).
         host_matches n (ClientServiceName (getEtcdClusterPrefix oc) @ ''.'' @ om_Namespace (oc_ObjectMeta oc) @ ''.svc''))"
proof (intro conjI impI)
  let ?p = "getEtcdClusterPrefix oc"
  have u: "UniqueMemberName sfx ?p = take MaxNameLength ?p @ CHR ''-'' # sfx"
    by (simp add: UniqueMemberName_def Let_def)
  then show addr: "Member_Addr mb = Some (UniqueMemberName sfx ?p @ ''.'' @ take MaxNameLength ?p @ ''.'' @ mb_Namespace mb @ ''.svc'')"
    using name by (simp add: Member_Addr_def clusterNameFromMemberName_def before_last_append)
  have "set (take MaxNameLength ?p) \<subseteq> set ?p" by (rule set_take_subset)
  then have "CHR ''.'' \<notin> set (UniqueMemberName sfx ?p)"
    unfolding u using dots by (auto simp: getEtcdClusterPrefix_def)
  from host_matches_wildcard [OF this, of "?p @ ''.'' @ mb_Namespace mb @ ''.svc''"]
  have m: "host_matches (''*.'' @ ?p @ ''.'' @ mb_Namespace mb @ ''.svc'') (UniqueMemberName sfx ?p @ ''.'' @ ?p @ ''.'' @ mb_Namespace mb @ ''.svc'')"
    by simp
  assume "length ?p \<le> MaxNameLength"
  with addr m show "\<exists>addr. Member_Addr mb = Some addr
      \<and> (\<exists>n\<in>set (an_DNSNames (getServerAltNames cr oc EtcdServerName EtcdServerCertName)). host_matches n addr)
      \<and> (\<exists>n\<in>set (an_DNSNames (getPeerAltNames cr oc EtcdPeerName EtcdPeerCertName)). host_matches n addr)"
    by (auto simp: getServerAltNames_def getPeerAltNames_def Let_def getEtcdClusterPrefix_def ns)
next
  show "\<exists>n\<in>set (an_DNSNames (getServerAltNames cr oc EtcdServerName EtcdServerCertName)).
      host_matches n (ClientServiceName (getEtcdClusterPrefix oc) @ ''.'' @ om_Namespace (oc_ObjectMeta oc) @ ''.svc'')"
    using host_matches_refl
    by (auto simp: getServerAltNames_def Let_def getEtcdClusterPrefix_def ClientServiceName_def)
qed

section \<open>Samples\<close>

text \<open>A toy authority: keys are numbered, everything is accepted, and text with a colon or a leading digit is an IP.\<close>

definition sample_crypto :: crypto where
  "sample_crypto = \<lparr>cr_key = \<lambda>n. Inr (show_nat n), cr_serial = \<lambda>_. None, cr_now = \<lambda>_. 0, cr_pemCert = \<lambda>c. x_CommonName c,
     cr_pemKey = Inr, cr_parseIP = \<lambda>s. if CHR '':'' \<in> set s \<or> take 1 s = ''1'' then Some s else None,
     cr_delete = \<lambda>_ _. Some (ApiErr NotFound), cr_create = \<lambda>_ _. None\<rparr>"

definition sample_oc :: OnecloudCluster where
  "sample_oc = zero_OnecloudCluster\<lparr>oc_ObjectMeta := new_meta ''default'' ''onecloud'' None None []\<rparr>"

theorem CreateEtcdCert_secrets_witness:
  "\<exists>w'. CreateEtcdCert sample_crypto sample_oc \<lparr>sw_calls = [], sw_drawn = 0\<rparr> = (Ret (), w')
     \<and> (\<exists>ca c1 p1 rest. sw_calls w' = map SDelete [EtcdServerSecret, EtcdClientSecret, EtcdPeerSecret] @
          SCreate (newEtcdSecretFromStore sample_oc EtcdServerSecret (tls_store sample_crypto EtcdServerCACertName ca EtcdServerName c1 p1)) # rest)"
proof -
  let ?r = "CreateEtcdCert sample_crypto sample_oc \<lparr>sw_calls = [], sw_drawn = 0\<rparr>"
  have "fst ?r = Ret ()" by code_simp
  then obtain w' where r: "?r = (Ret (), w')" by (metis prod.collapse)
  with CreateEtcdCert_secrets [OF r] show ?thesis by auto
qed

theorem CreateEtcdCert_needs_ip_endpoint_witness:
  "let oc = sample_oc\<lparr>oc_Spec := (oc_Spec sample_oc)\<lparr>spec_LoadBalancerEndpoint := ''lb.example.com''\<rparr>\<rparr>;
       r = CreateEtcdCert sample_crypto oc \<lparr>sw_calls = [], sw_drawn = 0\<rparr>
   in fst r \<noteq> Ret () \<and> sw_calls (snd r) = map SDelete [EtcdServerSecret, EtcdClientSecret, EtcdPeerSecret]"
proof -
  let ?oc = "sample_oc\<lparr>oc_Spec := (oc_Spec sample_oc)\<lparr>spec_LoadBalancerEndpoint := ''lb.example.com''\<rparr>\<rparr>"
  have "spec_LoadBalancerEndpoint (oc_Spec ?oc) \<noteq> []" "cr_parseIP sample_crypto (spec_LoadBalancerEndpoint (oc_Spec ?oc)) = None"
    by (simp_all add: sample_crypto_def)
  from CreateEtcdCert_needs_ip_endpoint [OF this, of "\<lparr>sw_calls = [], sw_drawn = 0\<rparr>"] show ?thesis
    by (cases "CreateEtcdCert sample_crypto ?oc \<lparr>sw_calls = [], sw_drawn = 0\<rparr>") (simp add: Let_def)
qed

theorem etcd_addresses_certified_witness:
  "let mb = sample_member\<lparr>mb_Name := UniqueMemberName ''abc'' (getEtcdClusterPrefix sample_oc), mb_Namespace := ''onecloud''\<rparr>
   in Member_Addr mb = Some ''default-etcd-abc.default-etcd.onecloud.svc''
      \<and> (\<exists>n\<in>set (an_DNSNames (getServerAltNames sample_crypto sample_oc EtcdServerName EtcdServerCertName)).
           host_matches n ''default-etcd-abc.default-etcd.onecloud.svc'')"
proof -
  let ?mb = "sample_member\<lparr>mb_Name := UniqueMemberName ''abc'' (getEtcdClusterPrefix sample_oc), mb_Namespace := ''onecloud''\<rparr>"
  have a: "Member_Addr ?mb = Some ''default-etcd-abc.default-etcd.onecloud.svc''" "length (getEtcdClusterPrefix sample_oc) \<le> MaxNameLength"
    by code_simp+
  have n: "om_Namespace (oc_ObjectMeta sample_oc) = ''onecloud''" "CHR ''.'' \<notin> set (om_Name (oc_ObjectMeta sample_oc))"
    by (simp_all add: sample_oc_def)
  have "\<exists>n\<in>set (an_DNSNames (getServerAltNames sample_crypto sample_oc EtcdServerName EtcdServerCertName)).
      host_matches n ''default-etcd-abc.default-etcd.onecloud.svc''"
    using etcd_addresses_certified [of ?mb "''abc''" sample_oc sample_crypto] a n by auto
  with a(1) show ?thesis by (simp add: Let_def)
qed

end
