(* ===== verification/Config_Manager.thy ===== *)
theory Config_Manager
  imports Sync_Objects Kube_Laws
begin

text \<open>
  The managers that run before every component: the cluster configuration in its config map
  (\<open>pkg/manager/config/config.go\<close>) and the certificates in their secrets
  (\<open>pkg/manager/certs/manager.go\<close>), and the laws of the configuration: defaulting never ends the
  process and changes nothing that is set, except one key.
\<close>

section \<open>The config manager\<close>

definition clusterConfigToConfigMap :: "options \<Rightarrow> OnecloudCluster \<Rightarrow> OnecloudClusterConfig \<Rightarrow> goerr + ConfigMap" where
  "clusterConfigToConfigMap op oc config =
     (case op_encodeConfig op config of
        Inl e \<Rightarrow> Inl e
      | Inr data \<Rightarrow> Inr
          \<lparr>cm_meta = new_meta (ClusterConfigMapName oc) (om_Namespace (oc_ObjectMeta oc)) None None [GetOwnerRef oc],
           cm_Data = Some [(OnecloudClusterConfigConfigMapKey, data)]\<rparr>)"

definition fillClusterConfigDefault :: "options \<Rightarrow> OnecloudClusterConfig \<Rightarrow> OnecloudClusterConfig km" where
  "fillClusterConfigDefault op = default_config op ''fill.''"

definition NewClusterConfig :: "options \<Rightarrow> OnecloudClusterConfig km" where
  "NewClusterConfig op = fillClusterConfigDefault op zero_OnecloudClusterConfig"

definition newClusterConfigFromConfigMap :: "options \<Rightarrow> ConfigMap \<Rightarrow> OnecloudClusterConfig km" where
  "newClusterConfigFromConfigMap op cm =
     andthen (newClusterConfigFromConfigMapNoDefault op cm) (fillClusterConfigDefault op)"

definition config_CreateOrUpdate :: "options \<Rightarrow> kube_env \<Rightarrow> OnecloudClusterConfig km" where
  "config_CreateOrUpdate op env =
     andthen (gets kw_oc) (\<lambda>oc.
     let cfgMapName = ClusterConfigMapName oc
     in andthen (attempt (kcall (KLister ConfigMapKind cfgMapName) (\<lambda>h. ke_listConfigMap env h cfgMapName))) (\<lambda>r. case r of
          Inl e \<Rightarrow>
            (if \<not> is_not_found e then fail e
             else andthen (NewClusterConfig op) (\<lambda>cfg.
                  andthen (map_err (Wrapped ''new cluster configmap'') (of_sum (clusterConfigToConfigMap op oc cfg))) (\<lambda>newCfgMap.
                  seq (map_err (Wrapped ''create cluster config to configmap'') (CreateConfigMap env newCfgMap))
                      (ret cfg))))
        | Inr cfgObj \<Rightarrow>
            andthen (map_err (Wrapped (''new cluster config from configmap '' @ om_Name (cm_meta cfgObj)))
                       (newClusterConfigFromConfigMap op cfgObj)) (\<lambda>cfg.
            andthen (map_err (Wrapped ''renew configmap'') (of_sum (clusterConfigToConfigMap op oc cfg))) (\<lambda>newCfgMap.
            seq (map_err (Wrapped (''update cluster configmap '' @ om_Name (cm_meta newCfgMap))) (UpdateConfigMap env newCfgMap))
                (ret cfg)))))"

section \<open>The certs manager\<close>

text \<open>
  The certificates of the cluster, then those of etcd. A missing cluster certificate ends the pass
  after it is made, and so does the first missing secret of etcd, whose creation is announced in the
  specification in memory. Certificates that exist are never renewed.
\<close>

fun ensure_etcd_certs :: "kube_env \<Rightarrow> string list \<Rightarrow> unit km" where
  "ensure_etcd_certs env [] = ret ()"
| "ensure_etcd_certs env (secretName # rest) =
     andthen (attempt (kcallE (KListerSecret secretName) (\<lambda>h. ke_listSecret env h secretName))) (\<lambda>r. case r of
       Inl e \<Rightarrow>
         (if \<not> is_not_found e then fail e
          else seq (modify (kw_oc_update (oc_Spec_update (spec_Etcd_update (etcd_EtcdClusterSpec_update (ecs_CreatedSecrets_update (\<lambda>_. Some False)))))))
                   (map_err (Wrapped ''create cluster cert'') (kcallE KCreateEtcdCert (ke_createEtcdCert env))))
     | Inr _ \<Rightarrow> ensure_etcd_certs env rest)"

definition certs_CreateOrUpdate :: "kube_env \<Rightarrow> unit km" where
  "certs_CreateOrUpdate env =
     andthen (gets kw_oc) (\<lambda>oc.
     let certSecretName = ClustercertSecretName oc; etcd = spec_Etcd (oc_Spec oc)
     in andthen (attempt (kcallE (KListerSecret certSecretName) (\<lambda>h. ke_listSecret env h certSecretName))) (\<lambda>r. case r of
          Inl e \<Rightarrow>
            (if \<not> is_not_found e then fail e
             else map_err (Wrapped ''create cluster cert'') (kcallE KCreateCert (ke_createCert env)))
        | Inr _ \<Rightarrow>
            (if etcd_Disable etcd then ret ()
             else if etcd_EnableTls etcd = Some False then ret ()
             else ensure_etcd_certs env [EtcdServerSecret, EtcdClientSecret, EtcdPeerSecret])))"

section \<open>Defaulting the configuration\<close>

lemma userPort_setters: "setters_commute (map (\<lambda>(site, opt, e). opt) userPort_table)"
  by (simp add: userPort_table_def)

lemma userDBPort_setters: "setters_commute (map (\<lambda>(site, opt, e). opt) userDBPort_table)"
  by (simp add: userDBPort_table_def)

lemma userPort_commute: "steps_commute (default_userPort gen) userPort_table"
  by (rule setters_steps_commute [OF userPort_setters,
        where F = "\<lambda>(site, opt, user, port). SetDefaults_ServiceCommonOptions gen site user port"])
     (auto simp: default_userPort_def split: prod.splits)

lemma userDBPort_commute: "steps_commute (default_userDBPort gen) userDBPort_table"
  by (rule setters_steps_commute [OF userDBPort_setters,
        where F = "\<lambda>(site, opt, user, port, db, dbUser). SetDefaults_ServiceDBCommonOptions gen site db dbUser user port"])
     (auto simp: default_userDBPort_def split: prod.splits)

text \<open>The default ports of the services with a database differ, so the loop never ends the process.\<close>

abbreviation entry_port :: "string \<times> 'u \<times> string \<times> int \<times> 'v \<Rightarrow> int" where
  "entry_port e \<equiv> (case e of (_, _, _, port, _) \<Rightarrow> port)"

lemma default_userDBPorts_fold:
  assumes "distinct (map entry_port xs)" "\<forall>e\<in>set xs. map_of reg (entry_port e) = None"
  shows "default_userDBPorts gen xs reg cfg = Some (fold (default_userDBPort gen) xs cfg)"
  using assms
proof (induction gen xs reg cfg rule: default_userDBPorts.induct)
  case (2 gen site opt user port db dbUser rest reg cfg)
  then have "entry_port e \<noteq> port" if "e \<in> set rest" for e using that by force
  with 2 show ?case by simp
qed simp

lemma userDBPort_ports: "distinct (map entry_port userDBPort_table)"
  by (simp add: userDBPort_table_def oc_consts)

lemma distinct_range_map_by:
  assumes "distinct (map f xs)"
  shows "distinct (map f (range_map ord xs))"
proof -
  have "mset (map f (range_map ord xs)) = mset (map f xs)" by simp
  then show ?thesis using assms by (metis mset_eq_imp_distinct_iff)
qed

definition config_defaults :: "(string \<Rightarrow> string) \<Rightarrow> OnecloudClusterConfig \<Rightarrow> OnecloudClusterConfig" where
  "config_defaults gen =
     cfg_Grafana_update (gfc_DB_update (setDefaults_DBConfig gen ''Grafana.db'' MonitorStackGrafanaDB MonitorStackGrafanaDBUer))
   \<circ> cfg_Itsm_update (setDefaults_ItsmConfig gen)
   \<circ> cfg_Cloudmon_update (SetDefaults_ServiceCommonOptions gen ''Cloudmon'' CloudmonAdminUser CloudmonPort)
   \<circ> fold (default_userDBPort gen) userDBPort_table \<circ> fold (default_userPort gen) userPort_table
   \<circ> cfg_Keystone_update (setDefaults_KeystoneConfig gen) \<circ> cfg_CommonConfig_update SetDefaults_GlobalServiceCommonConfig"

lemma SetDefaults_OnecloudClusterConfig_flat:
  "SetDefaults_OnecloudClusterConfig ord gen obj = Some (config_defaults gen obj)"
  using distinct_range_map_by [OF userDBPort_ports, of ord]
  by (simp add: SetDefaults_OnecloudClusterConfig_def config_defaults_def Let_def default_userDBPorts_fold
      fold_range_map [OF userPort_commute] fold_range_map [OF userDBPort_commute])

named_theorems defaulted_twice \<open>defaulting what is defaulted already\<close>

lemma default_twice_base [defaulted_twice]:
  "default_str d (default_str d x) = default_str d x"
  "default_int k (default_int k n) = default_int k n"
  by (simp_all add: default_str_def default_int_def)

lemma default_drawn [defaulted_twice]:
  assumes "\<forall>site. gen site \<noteq> []"
  shows "default_str d (default_str (gen site) x) = default_str (gen site) x"
  using assms by (simp add: default_str_def)

lemma GlobalServiceCommonConfig_twice [defaulted_twice]:
  "SetDefaults_GlobalServiceCommonConfig (SetDefaults_GlobalServiceCommonConfig g) = SetDefaults_GlobalServiceCommonConfig g"
  by (simp add: SetDefaults_GlobalServiceCommonConfig_def defaulted_twice)

lemma parts_twice [defaulted_twice]:
  assumes gen: "\<forall>site. gen site \<noteq> []"
  shows "setDefaults_DBConfig g2 s2 d u (setDefaults_DBConfig gen s d u x) = setDefaults_DBConfig gen s d u x"
    "setDefaults_CloudUser g2 s2 u (setDefaults_CloudUser gen s u y) = setDefaults_CloudUser gen s u y"
  using gen by (simp_all add: setDefaults_DBConfig_def setDefaults_CloudUser_def defaulted_twice)

lemma options_twice [defaulted_twice]:
  assumes gen: "\<forall>site. gen site \<noteq> []"
  shows "SetDefaults_ServiceCommonOptions g2 s u p (SetDefaults_ServiceCommonOptions gen s u p x) = SetDefaults_ServiceCommonOptions gen s u p x"
    "SetDefaults_ServiceDBCommonOptions g2 s d du u p (SetDefaults_ServiceDBCommonOptions gen s d du u p y)
       = SetDefaults_ServiceDBCommonOptions gen s d du u p y"
    "setDefaults_KeystoneConfig g2 (setDefaults_KeystoneConfig gen k) = setDefaults_KeystoneConfig gen k"
  using gen by (simp_all add: SetDefaults_ServiceCommonOptions_def SetDefaults_ServiceDBCommonOptions_def
      setDefaults_KeystoneConfig_def SetDefaults_ServiceBaseConfig_def defaulted_twice)

lemma config_defaults_twice:
  assumes "\<forall>site. gen site \<noteq> []"
  shows "config_defaults g2 (config_defaults gen cfg) =
     (config_defaults gen cfg)\<lparr>cfg_Itsm := (cfg_Itsm (config_defaults gen cfg))\<lparr>ic_EncryptionKey := g2 ''Itsm.encryptionKey''\<rparr>\<rparr>"
  using assms
  by (cases cfg) (simp add: config_defaults_def userPort_table_def userDBPort_table_def default_userPort_def
      default_userDBPort_def setDefaults_ItsmConfig_def defaulted_twice)

text \<open>
  C19: Defaulting the configuration never ends the process, whatever the order of its loops, and does
  not depend on that order. Defaulting a defaulted configuration again, with any order and any other
  passwords, keeps every account, database, password and port; only the encryption key of Itsm is
  replaced by a new one each time.
\<close>

theorem config_defaults_stable:
  assumes "\<forall>site. gen site \<noteq> []"
  shows "\<exists>cfg'. (\<forall>ord. SetDefaults_OnecloudClusterConfig ord gen cfg = Some cfg')
    \<and> (\<forall>ord gen2. SetDefaults_OnecloudClusterConfig ord gen2 cfg' =
         Some (cfg'\<lparr>cfg_Itsm := (cfg_Itsm cfg')\<lparr>ic_EncryptionKey := gen2 ''Itsm.encryptionKey''\<rparr>\<rparr>))"
  using config_defaults_twice [OF assms] by (auto simp: SetDefaults_OnecloudClusterConfig_flat)

theorem config_defaults_stable_witness:
  "(\<forall>site. pw_fixed site \<noteq> [])
   \<and> (\<exists>cfg'. SetDefaults_OnecloudClusterConfig (\<lambda>_. 0) pw_fixed zero_OnecloudClusterConfig = Some cfg'
        \<and> SetDefaults_OnecloudClusterConfig (\<lambda>_. 0) (\<lambda>_. ''other'') cfg' =
           Some (cfg'\<lparr>cfg_Itsm := (cfg_Itsm cfg')\<lparr>ic_EncryptionKey := ''other''\<rparr>\<rparr>))"
proof -
  have "\<forall>site. pw_fixed site \<noteq> []" by (simp add: pw_fixed_def)
  with config_defaults_stable [OF this, of zero_OnecloudClusterConfig] show ?thesis by blast
qed

section \<open>What a pass does to the configuration\<close>

lemma kemits_UpdateConfigMap:
  assumes "\<And>b r m. P (KEvent b r m)" "P (KUpdate (KConfigMap c))" "\<And>k n. P (KLister k n)"
  shows "kemits P (UpdateConfigMap env c) w"
  unfolding UpdateConfigMap_def Let_def
  by (rule kemits_update_object [where I = "\<lambda>y. y = c"]) (use assms in \<open>auto intro: kemits_refreshed dest: refreshed_Ret\<close>)

lemma common_defaulted:
  "cfg_CommonConfig_update SetDefaults_GlobalServiceCommonConfig (config_defaults gen c) = config_defaults gen c"
  by (cases c) (simp add: config_defaults_def userPort_table_def userDBPort_table_def default_userPort_def
      default_userDBPort_def setDefaults_ItsmConfig_def GlobalServiceCommonConfig_twice)

lemma default_config_eval:
  "default_config op tag cfg w = (Ret (config_defaults (\<lambda>site. op_draw op (kw_calls w) (tag @ site)) cfg), w)"
  by (simp add: default_config_def SetObjectDefaults_OnecloudClusterConfig_def SetDefaults_OnecloudClusterConfig_flat
      common_defaulted go_simps from_option_def)

lemma rekeyed_defaults:
  assumes "\<forall>site. gen site \<noteq> []" "k \<noteq> []"
  shows "config_defaults g2 ((config_defaults gen c)\<lparr>cfg_Itsm := (cfg_Itsm (config_defaults gen c))\<lparr>ic_EncryptionKey := k\<rparr>\<rparr>)
     = (config_defaults gen c)\<lparr>cfg_Itsm := (cfg_Itsm (config_defaults gen c))\<lparr>ic_EncryptionKey := g2 ''Itsm.encryptionKey''\<rparr>\<rparr>"
proof -
  let ?gen = "\<lambda>site. if site = ''Itsm.encryptionKey'' then k else gen site"
  have "config_defaults ?gen (config_defaults gen c)
      = (config_defaults gen c)\<lparr>cfg_Itsm := (cfg_Itsm (config_defaults gen c))\<lparr>ic_EncryptionKey := k\<rparr>\<rparr>"
    by (simp add: config_defaults_twice [OF assms(1)])
  with assms config_defaults_twice [of ?gen g2 "config_defaults gen c"] show ?thesis by simp
qed

text \<open>
  Every pass over a cluster whose configuration is stored and complete writes it back unchanged
  but for the encryption key of Itsm, which is a new draw: the configuration returned and every config
  map the pass sends have the accounts, databases, passwords and ports of the stored one and the new key.
\<close>

theorem config_pass_rotates_key:
  assumes draws: "\<forall>site. gen site \<noteq> []" "\<forall>h site. op_draw op h site \<noteq> []"
    and found: "ke_listConfigMap env (kw_calls w) (ClusterConfigMapName (kw_oc w)) = Inr cm"
    and stored: "gomap_get (cm_Data cm) OnecloudClusterConfigConfigMapKey = Some text"
      "op_decodeConfig op text = Inr (config_defaults gen c)"
    and run: "config_CreateOrUpdate op env w = (r, w')" "kw_calls w' = kw_calls w @ new"
  shows "let h = kw_calls w @ [KLister ConfigMapKind (ClusterConfigMapName (kw_oc w))];
             cfg = (config_defaults gen c)\<lparr>cfg_Itsm := (cfg_Itsm (config_defaults gen c))\<lparr>ic_EncryptionKey := op_draw op h ''fill.Itsm.encryptionKey''\<rparr>\<rparr>
         in (\<forall>x. r = Ret x \<longrightarrow> x = cfg)
            \<and> (\<forall>m. KUpdate m \<in> set new \<longrightarrow> (\<exists>x. clusterConfigToConfigMap op (kw_oc w) cfg = Inr x \<and> m = KConfigMap x))
            \<and> (\<forall>m. KCreate m \<notin> set new)"
proof -
  define h where "h = kw_calls w @ [KLister ConfigMapKind (ClusterConfigMapName (kw_oc w))]"
  define cfg where "cfg = (config_defaults gen c)\<lparr>cfg_Itsm := (cfg_Itsm (config_defaults gen c))\<lparr>ic_EncryptionKey := op_draw op h ''fill.Itsm.encryptionKey''\<rparr>\<rparr>"
  define P where "P call \<longleftrightarrow> (\<forall>m. call \<noteq> KCreate m) \<and>
      (\<forall>m. call = KUpdate m \<longrightarrow> (\<exists>x. clusterConfigToConfigMap op (kw_oc w) cfg = Inr x \<and> m = KConfigMap x))" for call
  let ?w = "w\<lparr>kw_calls := h\<rparr>"
  have load: "newClusterConfigFromConfigMap op cm ?w = (Ret cfg, ?w)"
    by (simp add: newClusterConfigFromConfigMap_def newClusterConfigFromConfigMapNoDefault_def stored of_sum_def go_simps
        default_config_eval fillClusterConfigDefault_def config_defaults_twice [OF draws(1)] rekeyed_defaults [OF draws(1)] draws(2) cfg_def)
  have body: "config_CreateOrUpdate op env w =
      andthen (map_err (Wrapped ''renew configmap'') (of_sum (clusterConfigToConfigMap op (kw_oc w) cfg))) (\<lambda>x.
        seq (map_err (Wrapped (''update cluster configmap '' @ om_Name (cm_meta x))) (UpdateConfigMap env x)) (ret cfg)) ?w"
    using found load by (simp add: config_CreateOrUpdate_def Let_def go_simps h_def)
  have "kemits P (\<lambda>_. config_CreateOrUpdate op env w) ?w"
  proof (cases "clusterConfigToConfigMap op (kw_oc w) cfg")
    case (Inl e)
    then show ?thesis by (simp add: body of_sum_def go_simps emits_on_def)
  next
    case (Inr x)
    have "kemits P (UpdateConfigMap env x) v" for v
      by (rule kemits_UpdateConfigMap) (simp_all add: P_def Inr)
    then have "kemits P (seq (map_err g (UpdateConfigMap env x)) (ret cfg)) ?w" for g
      by (intro emits_intros)
    with Inr show ?thesis by (simp add: body of_sum_def go_simps emits_on_def)
  qed
  moreover have "\<forall>x. r = Ret x \<longrightarrow> x = cfg"
    using run(1) by (auto simp: body andthen_Ret_iff seq_Ret_iff go_simps)
  ultimately show ?thesis
    using run by (auto simp: emits_on_def h_def cfg_def P_def list_all_iff Let_def)
qed

lemma UpdateConfigMap_accepted:
  assumes "ke_update env (kw_calls w) (KConfigMap c) = None"
  shows "\<exists>v. UpdateConfigMap env c w = (Ret (), v)"
proof -
  let ?refresh = "not_refreshed (KLister ConfigMapKind (om_Name (cm_meta c))) (\<lambda>h. ke_listConfigMap env h (om_Name (cm_meta c)))"
  have "RetryOnConflict (Suc 3) (update_attempt (\<lambda>y. kcallE (KUpdate (KConfigMap y)) (\<lambda>h. ke_update env h (KConfigMap y))) ?refresh) c w
      = (Ret (None, c), w\<lparr>kw_calls := kw_calls w @ [KUpdate (KConfigMap c)]\<rparr>)"
    using update_attempt_ok [of env w KConfigMap c ?refresh] assms unfolding RetryOnConflict.simps by (simp add: go_simps)
  then have "\<exists>evs. UpdateConfigMap env c w = (Ret (), w\<lparr>kw_calls := kw_calls w @ [KUpdate (KConfigMap c)] @ evs\<rparr>)"
    using update_object_eval [of KConfigMap env ?refresh c w None c "[KUpdate (KConfigMap c)]"]
    by (auto simp: UpdateConfigMap_def DefaultBackoff_Steps_def Let_def eval_nat_numeral)
  then show ?thesis by blast
qed

definition config_op :: "json \<Rightarrow> options" where
  "config_op j = \<lparr>op_StopServices = False, op_DisableSyncIngress = False, op_DisableNodeSelectorController = False, op_parseQuantity = Inr,
     op_optionsDefault = \<lambda>_. None, op_yaml = \<lambda>_ _ _. [], op_template = \<lambda>_ _. Inr [],
     op_parseYAML = \<lambda>_. Inr [], op_YAMLString = \<lambda>_. [], op_DeployServerSocketPath = [], op_json = j,
     op_decodeConfig = \<lambda>_. Inr (config_defaults pw_fixed zero_OnecloudClusterConfig),
     op_encodeConfig = \<lambda>cfg. Inr (ic_EncryptionKey (cfg_Itsm cfg)),
     op_draw = \<lambda>_ site. CHR ''k'' # site, op_order = \<lambda>_ _. 0, op_parseImage = \<lambda>_. Inl (Errorf [])\<rparr>"

definition config_env :: kube_env where
  "config_env = quiet_env\<lparr>ke_listConfigMap := \<lambda>_ n. Inr
     \<lparr>cm_meta = new_meta n [] None None [], cm_Data = Some [(OnecloudClusterConfigConfigMapKey, ''stored'')]\<rparr>\<rparr>"

lemma config_op_sel [simp]:
  "op_decodeConfig (config_op j) t = Inr (config_defaults pw_fixed zero_OnecloudClusterConfig)"
  "op_encodeConfig (config_op j) cfg = Inr (ic_EncryptionKey (cfg_Itsm cfg))"
  "op_draw (config_op j) h = (\<lambda>site. CHR ''k'' # site)"
  by (simp_all add: config_op_def)

lemma config_run_ok: "\<exists>cfg w'. config_CreateOrUpdate (config_op j) config_env w = (Ret cfg, w')"
proof -
  let ?w = "w\<lparr>kw_calls := kw_calls w @ [KLister ConfigMapKind (ClusterConfigMapName (kw_oc w))]\<rparr>"
  obtain cm v where "clusterConfigToConfigMap (config_op j) (kw_oc w)
      (config_defaults (\<lambda>site. ''kfill.'' @ site) (config_defaults (\<lambda>site. ''kdecode.'' @ site) (config_defaults pw_fixed zero_OnecloudClusterConfig))) = Inr cm"
    "UpdateConfigMap config_env cm ?w = (Ret (), v)"
    using UpdateConfigMap_accepted [of config_env] by (fastforce simp: clusterConfigToConfigMap_def config_env_def quiet_env_def)
  then show ?thesis
    by (simp add: config_CreateOrUpdate_def go_simps Let_def config_env_def gomap_get_def newClusterConfigFromConfigMap_def
        newClusterConfigFromConfigMapNoDefault_def fillClusterConfigDefault_def default_config_eval of_sum_def)
qed

theorem config_pass_rotates_key_witness:
  "\<forall>j. \<exists>w'. config_CreateOrUpdate (config_op j) config_env \<lparr>kw_calls = [], kw_oc = zero_OnecloudCluster\<rparr>
       = (Ret ((config_defaults pw_fixed zero_OnecloudClusterConfig)
           \<lparr>cfg_Itsm := (cfg_Itsm (config_defaults pw_fixed zero_OnecloudClusterConfig))\<lparr>ic_EncryptionKey := ''kfill.Itsm.encryptionKey''\<rparr>\<rparr>), w')"
proof
  fix j
  let ?w = "\<lparr>kw_calls = [], kw_oc = zero_OnecloudCluster\<rparr>"
  obtain cfg w' where run: "config_CreateOrUpdate (config_op j) config_env ?w = (Ret cfg, w')" using config_run_ok by blast
  then show "\<exists>w'. config_CreateOrUpdate (config_op j) config_env ?w
       = (Ret ((config_defaults pw_fixed zero_OnecloudClusterConfig)
           \<lparr>cfg_Itsm := (cfg_Itsm (config_defaults pw_fixed zero_OnecloudClusterConfig))\<lparr>ic_EncryptionKey := ''kfill.Itsm.encryptionKey''\<rparr>\<rparr>), w')"
    using config_pass_rotates_key [OF _ _ _ _ _ run, of pw_fixed
        "\<lparr>cm_meta = new_meta (ClusterConfigMapName zero_OnecloudCluster) [] None None [], cm_Data = Some [(OnecloudClusterConfigConfigMapKey, ''stored'')]\<rparr>"
        "''stored''" zero_OnecloudClusterConfig "kw_calls w'"]
    by (auto simp: config_env_def pw_fixed_def Let_def gomap_get_def)
qed

section \<open>Certificates\<close>

fun is_cert_creation :: "kcall \<Rightarrow> bool" where
  "is_cert_creation KCreateCert = True"
| "is_cert_creation KCreateEtcdCert = True"
| "is_cert_creation _ = False"

abbreviation created_secrets :: "kworld \<Rightarrow> bool option" where
  "created_secrets w \<equiv> ecs_CreatedSecrets (etcd_EtcdClusterSpec (spec_Etcd (oc_Spec (kw_oc w))))"

text \<open>A pass over the secrets of etcd reads them in order, and stops at the first that is missing.\<close>

lemma ensure_etcd_certs_run:
  assumes "ensure_etcd_certs env ns w = (r, w')"
  shows "\<exists>new. kw_calls w' = kw_calls w @ new \<and> KCreateCert \<notin> set new
     \<and> (filter is_cert_creation new = []
        \<or> filter is_cert_creation new = [KCreateEtcdCert] \<and> created_secrets w' = Some False
          \<and> (\<exists>n\<in>set ns. \<exists>h. ke_listSecret env h n = Some (ApiErr NotFound)))"
  using assms
proof (induction ns arbitrary: w)
  case (Cons n ns)
  let ?v = "w\<lparr>kw_calls := kw_calls w @ [KListerSecret n]\<rparr>"
  show ?case
  proof (cases "ke_listSecret env (kw_calls w) n")
    case None
    with Cons.prems have "ensure_etcd_certs env ns ?v = (r, w')" by (simp add: go_simps)
    from Cons.IH [OF this] show ?thesis by force
  next
    case (Some e)
    then show ?thesis
      using Cons.prems
      by (cases "ke_createEtcdCert env (kw_calls w @ [KListerSecret n])")
         (auto simp: go_simps is_not_found_def split: if_splits)
  qed
qed (simp add: go_simps)

text \<open>
  A pass creates certificates at most once, and only what is missing: the certificates of the
  cluster when its secret is not found, those of etcd when etcd runs with TLS, the secret of the cluster
  exists and one of the three secrets of etcd is not found; that they are being created is then noted
  in the specification in memory.
\<close>

theorem certs_created_once:
  assumes "certs_CreateOrUpdate env w = (r, w')"
  shows "\<exists>new. kw_calls w' = kw_calls w @ new \<and> length (filter is_cert_creation new) \<le> 1
    \<and> (KCreateCert \<in> set new \<longrightarrow>
         ke_listSecret env (kw_calls w) (ClustercertSecretName (kw_oc w)) = Some (ApiErr NotFound))
    \<and> (KCreateEtcdCert \<in> set new \<longrightarrow>
         ke_listSecret env (kw_calls w) (ClustercertSecretName (kw_oc w)) = None
         \<and> \<not> etcd_Disable (spec_Etcd (oc_Spec (kw_oc w))) \<and> etcd_EnableTls (spec_Etcd (oc_Spec (kw_oc w))) \<noteq> Some False
         \<and> (\<exists>n\<in>{EtcdServerSecret, EtcdClientSecret, EtcdPeerSecret}. \<exists>h. ke_listSecret env h n = Some (ApiErr NotFound))
         \<and> created_secrets w' = Some False)"
proof (cases "ke_listSecret env (kw_calls w) (ClustercertSecretName (kw_oc w))")
  case None
  let ?e = "spec_Etcd (oc_Spec (kw_oc w))" and ?c = "KListerSecret (ClustercertSecretName (kw_oc w))"
  show ?thesis
  proof (cases "etcd_Disable ?e \<or> etcd_EnableTls ?e = Some False")
    case True
    with None assms show ?thesis by (intro exI [of _ "[?c]"]) (auto simp: certs_CreateOrUpdate_def Let_def go_simps split: if_splits)
  next
    case False
    with None assms have "ensure_etcd_certs env [EtcdServerSecret, EtcdClientSecret, EtcdPeerSecret]
        (w\<lparr>kw_calls := kw_calls w @ [?c]\<rparr>) = (r, w')"
      by (simp add: certs_CreateOrUpdate_def Let_def go_simps)
    from ensure_etcd_certs_run [OF this] obtain new where new: "kw_calls w' = kw_calls w @ ?c # new" "KCreateCert \<notin> set new"
      "filter is_cert_creation new = [] \<or> filter is_cert_creation new = [KCreateEtcdCert] \<and> created_secrets w' = Some False
         \<and> (\<exists>n\<in>set [EtcdServerSecret, EtcdClientSecret, EtcdPeerSecret]. \<exists>h. ke_listSecret env h n = Some (ApiErr NotFound))"
      by auto
    have "KCreateEtcdCert \<in> set new \<Longrightarrow> filter is_cert_creation new \<noteq> []" by (auto simp: filter_empty_conv intro: bexI [of _ KCreateEtcdCert])
    with new False None show ?thesis by (intro exI [of _ "?c # new"]) auto
  qed
next
  case (Some e)
  then show ?thesis
    using assms
    by (cases "ke_createCert env (kw_calls w @ [KListerSecret (ClustercertSecretName (kw_oc w))])")
       (auto simp: certs_CreateOrUpdate_def Let_def go_simps is_not_found_def split: if_splits)
qed

theorem certs_created_once_witness:
  "\<exists>new w'. certs_CreateOrUpdate (quiet_env\<lparr>ke_listSecret := \<lambda>_ n. if n = EtcdPeerSecret then Some (ApiErr NotFound) else None\<rparr>)
      \<lparr>kw_calls = [], kw_oc = zero_OnecloudCluster\<rparr> = (Ret (), w') \<and> kw_calls w' = new \<and> KCreateEtcdCert \<in> set new
      \<and> length (filter is_cert_creation new) \<le> 1"
proof -
  let ?env = "quiet_env\<lparr>ke_listSecret := \<lambda>_ n. if n = EtcdPeerSecret then Some (ApiErr NotFound) else None\<rparr>"
  let ?w = "\<lparr>kw_calls = [], kw_oc = zero_OnecloudCluster\<rparr>"
  have run: "fst (certs_CreateOrUpdate ?env ?w) = Ret () \<and> KCreateEtcdCert \<in> set (kw_calls (snd (certs_CreateOrUpdate ?env ?w)))"
    by code_simp
  moreover obtain w' where "certs_CreateOrUpdate ?env ?w = (Ret (), w')" using run by (cases "certs_CreateOrUpdate ?env ?w") auto
  ultimately show ?thesis using certs_created_once [of ?env ?w "Ret ()" w'] by auto
qed

end
