(* ===== verification/Work_Queue.thy ===== *)
theory Work_Queue
  imports OC_Base
begin

text \<open>
  The work queue of the cluster controller and its workers
  (\<open>pkg/controller/cluster/onecloud_cluster_controller.go\<close>). The queue is client-go's
  \<open>workqueue.Type\<close> behind the delaying and rate limiting layers; its operations run under its lock,
  so each is one step. The workers run \<open>processNextWorkItem\<close>, whose calls of the queue are separate
  steps that interleave with those of the other workers, of the informers and of the timer. The locale
  \<open>exclusive_queue\<close> is the contract the controller relies on; it is interpreted on the queue below.
\<close>

section \<open>The queue\<close>

record workqueue =
  wq_queue :: "string list"
  wq_dirty :: "string set"
  wq_processing :: "string set"
  wq_shuttingDown :: bool

definition new_queue :: workqueue where
  "new_queue = \<lparr>wq_queue = [], wq_dirty = {}, wq_processing = {}, wq_shuttingDown = False\<rparr>"

definition queue_Add :: "string \<Rightarrow> workqueue \<Rightarrow> workqueue" where
  "queue_Add item q =
     (if wq_shuttingDown q then q
      else if item \<in> wq_dirty q then q
      else let q' = q\<lparr>wq_dirty := insert item (wq_dirty q)\<rparr>
           in if item \<in> wq_processing q' then q'
              else q'\<lparr>wq_queue := wq_queue q' @ [item]\<rparr>)"

text \<open>
  \<open>Get\<close> waits while the queue is empty and not shutting down (\<open>Blocked\<close>: the caller stays where it
  is), and tells its caller to quit when it is empty and shutting down.
\<close>

datatype got = Blocked | Quit | Item string

definition queue_Get :: "workqueue \<Rightarrow> got \<times> workqueue" where
  "queue_Get q =
     (case wq_queue q of
        [] \<Rightarrow> (if wq_shuttingDown q then Quit else Blocked, q)
      | item # rest \<Rightarrow>
          (Item item, q\<lparr>wq_queue := rest, wq_processing := insert item (wq_processing q),
                        wq_dirty := wq_dirty q - {item}\<rparr>))"

definition queue_Done :: "string \<Rightarrow> workqueue \<Rightarrow> workqueue" where
  "queue_Done item q =
     (let q' = q\<lparr>wq_processing := wq_processing q - {item}\<rparr>
      in if item \<in> wq_dirty q' then q'\<lparr>wq_queue := wq_queue q' @ [item]\<rparr> else q')"

definition queue_ShutDown :: "workqueue \<Rightarrow> workqueue" where
  "queue_ShutDown q = q\<lparr>wq_shuttingDown := True\<rparr>"

text \<open>
  The comment on the fields of the queue, as an invariant: what is queued is dirty and not being
  processed; conversely what is dirty is queued unless it is being processed.
\<close>

definition queue_ok :: "workqueue \<Rightarrow> bool" where
  "queue_ok q \<longleftrightarrow> distinct (wq_queue q) \<and> set (wq_queue q) = wq_dirty q - wq_processing q"

text \<open>
  \<open>AddRateLimited\<close> (through \<open>AddAfter\<close>): nothing when shutting down, at once without a delay, and
  otherwise handed to the waiting loop. \<open>waiting\<close> holds what was handed over and not added yet.
\<close>

definition queue_AddRateLimited :: "bool \<Rightarrow> string \<Rightarrow> workqueue \<times> string multiset \<Rightarrow> workqueue \<times> string multiset" where
  "queue_AddRateLimited delayed item = (\<lambda>(q, waiting).
     if wq_shuttingDown q then (q, waiting)
     else if \<not> delayed then (queue_Add item q, waiting)
     else (q, add_mset item waiting))"

section \<open>Workers\<close>

datatype worker = Idle | Syncing string | Finishing string | Stopped

fun held :: "worker \<Rightarrow> string list" where
  "held Idle = []"
| "held (Syncing k) = [k]"
| "held (Finishing k) = [k]"
| "held Stopped = []"

record control_state =
  cs_queue :: workqueue
  cs_waiting :: "string multiset"
  cs_workers :: "worker list"

text \<open>
  The steps. \<open>enqueue\<close> is \<open>enqueueCluster\<close>, called by the informers at any time; \<open>fire\<close> and
  \<open>merge\<close> are the waiting loop, which adds an entry when its time has come and keeps one of two entries
  of the same item; \<open>shut_down\<close> is the end of \<open>Run\<close>. The other five are the calls of
  \<open>processNextWorkItem\<close> by worker \<open>i\<close>: \<open>Get\<close>, the outcome of \<open>sync\<close> (an error puts the key back, rate
  limited, before it is done), and the deferred \<open>Done\<close>.
\<close>

inductive control_step :: "control_state \<Rightarrow> control_state \<Rightarrow> bool" where
  enqueue: "control_step s (s\<lparr>cs_queue := queue_Add k (cs_queue s)\<rparr>)"
| fire: "k \<in># cs_waiting s \<Longrightarrow>
    control_step s (s\<lparr>cs_queue := queue_Add k (cs_queue s), cs_waiting := cs_waiting s - {#k#}\<rparr>)"
| merge: "1 < count (cs_waiting s) k \<Longrightarrow> control_step s (s\<lparr>cs_waiting := cs_waiting s - {#k#}\<rparr>)"
| shut_down: "control_step s (s\<lparr>cs_queue := queue_ShutDown (cs_queue s)\<rparr>)"
| take_item: "i < length (cs_workers s) \<Longrightarrow> cs_workers s ! i = Idle \<Longrightarrow> queue_Get (cs_queue s) = (Item k, q) \<Longrightarrow>
    control_step s (s\<lparr>cs_queue := q, cs_workers := (cs_workers s)[i := Syncing k]\<rparr>)"
| quit: "i < length (cs_workers s) \<Longrightarrow> cs_workers s ! i = Idle \<Longrightarrow> queue_Get (cs_queue s) = (Quit, q) \<Longrightarrow>
    control_step s (s\<lparr>cs_queue := q, cs_workers := (cs_workers s)[i := Stopped]\<rparr>)"
| sync_failed: "i < length (cs_workers s) \<Longrightarrow> cs_workers s ! i = Syncing k \<Longrightarrow>
    queue_AddRateLimited delayed k (cs_queue s, cs_waiting s) = (q, w) \<Longrightarrow>
    control_step s (s\<lparr>cs_queue := q, cs_waiting := w, cs_workers := (cs_workers s)[i := Finishing k]\<rparr>)"
| sync_ok: "i < length (cs_workers s) \<Longrightarrow> cs_workers s ! i = Syncing k \<Longrightarrow>
    control_step s (s\<lparr>cs_workers := (cs_workers s)[i := Finishing k]\<rparr>)"
| finish: "i < length (cs_workers s) \<Longrightarrow> cs_workers s ! i = Finishing k \<Longrightarrow>
    control_step s (s\<lparr>cs_queue := queue_Done k (cs_queue s), cs_workers := (cs_workers s)[i := Idle]\<rparr>)"

definition start_workers :: "nat \<Rightarrow> control_state" where
  "start_workers n = \<lparr>cs_queue = new_queue, cs_waiting = {#}, cs_workers = replicate n Idle\<rparr>"

inductive control_reachable :: "nat \<Rightarrow> control_state \<Rightarrow> bool" for n where
  start: "control_reachable n (start_workers n)"
| step: "control_reachable n s \<Longrightarrow> control_step s t \<Longrightarrow> control_reachable n t"

inductive_cases control_stepE: "control_step s t"

text \<open>The steps of the workers alone, when every \<open>sync\<close> succeeds: those that use up work.\<close>

inductive drain_step :: "control_state \<Rightarrow> control_state \<Rightarrow> bool" where
  drain_take: "i < length (cs_workers s) \<Longrightarrow> cs_workers s ! i = Idle \<Longrightarrow> queue_Get (cs_queue s) = (Item k, q) \<Longrightarrow>
    drain_step s (s\<lparr>cs_queue := q, cs_workers := (cs_workers s)[i := Syncing k]\<rparr>)"
| drain_ok: "i < length (cs_workers s) \<Longrightarrow> cs_workers s ! i = Syncing k \<Longrightarrow>
    drain_step s (s\<lparr>cs_workers := (cs_workers s)[i := Finishing k]\<rparr>)"
| drain_finish: "i < length (cs_workers s) \<Longrightarrow> cs_workers s ! i = Finishing k \<Longrightarrow>
    drain_step s (s\<lparr>cs_queue := queue_Done k (cs_queue s), cs_workers := (cs_workers s)[i := Idle]\<rparr>)"

section \<open>The contract of the queue\<close>

text \<open>What the workers hold, in the order of the workers.\<close>

abbreviation held_keys :: "worker list \<Rightarrow> string list" where
  "held_keys ws \<equiv> concat (map held ws)"

lemma held_keys_update:
  "i < length ws \<Longrightarrow>
     mset (held_keys (ws[i := w])) + mset (held (ws ! i)) = mset (held_keys ws) + mset (held w)"
  by (induction ws arbitrary: i) (auto split: nat.splits simp: ac_simps)

lemma held_keys_put:
  assumes "i < length ws" "held (ws ! i) = []"
  shows "mset (held_keys (ws[i := w])) = mset (held_keys ws) + mset (held w)"
  using held_keys_update [OF assms(1), of w] assms(2) by simp

lemma held_keys_drop:
  assumes "i < length ws" "held (ws ! i) = [k]" "held w = []"
  shows "mset (held_keys ws) = add_mset k (mset (held_keys (ws[i := w])))"
  using held_keys_update [OF assms(1), of w] assms(2,3) by simp

lemma held_keys_same:
  assumes "i < length ws" "held (ws ! i) = held w"
  shows "mset (held_keys (ws[i := w])) = mset (held_keys ws)"
  using held_keys_update [OF assms(1), of w] assms(2) by simp

text \<open>
  The contract: \<open>ok\<close> is kept by every operation; an item handed out was pending and not being
  processed; it stays so until it is done; a queue that hands out nothing has nothing pending but
  what is being processed; and nothing pending is forgotten except by handing it out.
\<close>

locale exclusive_queue =
  fixes ok :: "'q \<Rightarrow> bool" and pending :: "'q \<Rightarrow> string set" and processing :: "'q \<Rightarrow> string set"
    and closed :: "'q \<Rightarrow> bool" and add :: "string \<Rightarrow> 'q \<Rightarrow> 'q" and get :: "'q \<Rightarrow> got \<times> 'q"
    and fin :: "string \<Rightarrow> 'q \<Rightarrow> 'q" and close :: "'q \<Rightarrow> 'q"
  assumes ok_add: "ok q \<Longrightarrow> ok (add k q)"
    and ok_get: "ok q \<Longrightarrow> get q = (g, q') \<Longrightarrow> ok q'"
    and ok_fin: "ok q \<Longrightarrow> k \<in> processing q \<Longrightarrow> ok (fin k q)"
    and ok_close: "ok q \<Longrightarrow> ok (close q)"
    and processing_add: "processing (add k q) = processing q"
    and processing_get: "ok q \<Longrightarrow> get q = (Item k, q') \<Longrightarrow> k \<notin> processing q \<and> processing q' = insert k (processing q)"
    and get_nothing: "get q = (g, q') \<Longrightarrow> (\<forall>k. g \<noteq> Item k) \<Longrightarrow> q' = q"
    and processing_fin: "processing (fin k q) = processing q - {k}"
    and processing_close: "processing (close q) = processing q"
    and pending_add: "pending (add k q) = (if closed q then pending q else insert k (pending q))"
    and pending_get: "ok q \<Longrightarrow> get q = (Item k, q') \<Longrightarrow> k \<in> pending q \<and> pending q' = pending q - {k}"
    and pending_fin: "pending (fin k q) = pending q"
    and pending_close: "pending (close q) = pending q"
    and closed_close: "closed (close q)"
    and nothing_left: "ok q \<Longrightarrow> get q = (g, q') \<Longrightarrow> (\<forall>k. g \<noteq> Item k) \<Longrightarrow> pending q \<subseteq> processing q"
begin

text \<open>The workers hold exactly what is being processed, each item once.\<close>

definition owned :: "worker list \<Rightarrow> 'q \<Rightarrow> bool" where
  "owned ws q \<longleftrightarrow> ok q \<and> distinct (held_keys ws) \<and> set (held_keys ws) = processing q"

lemma owned_add: "owned ws q \<Longrightarrow> owned ws (add k q)"
  by (simp add: owned_def ok_add processing_add)

lemma owned_close: "owned ws q \<Longrightarrow> owned ws (close q)"
  by (simp add: owned_def ok_close processing_close)

lemma owned_move:
  assumes "owned ws q" "i < length ws" "held (ws ! i) = held w"
  shows "owned (ws[i := w]) q"
  using assms held_keys_same [OF assms(2,3)]
  unfolding owned_def by (metis mset_eq_imp_distinct_iff mset_eq_setD)

lemma owned_take:
  assumes o: "owned ws q" and i: "i < length ws" "ws ! i = Idle" and g: "get q = (Item k, q')"
  shows "owned (ws[i := Syncing k]) q'"
proof -
  have m: "mset (held_keys (ws[i := Syncing k])) = mset (k # held_keys ws)"
    using held_keys_put [OF i(1), of "Syncing k"] i(2) by simp
  have p: "k \<notin> processing q" "processing q' = insert k (processing q)"
    using o processing_get [OF _ g] by (simp_all add: owned_def)
  have "distinct (k # held_keys ws)" using o p(1) by (simp add: owned_def)
  with m have "distinct (held_keys (ws[i := Syncing k]))" by (metis mset_eq_imp_distinct_iff)
  moreover have "set (held_keys (ws[i := Syncing k])) = processing q'"
    using mset_eq_setD [OF m] o p(2) by (simp add: owned_def)
  ultimately show ?thesis using o ok_get [OF _ g] by (simp add: owned_def)
qed

lemma owned_finish:
  assumes o: "owned ws q" and i: "i < length ws" "ws ! i = Finishing k"
  shows "owned (ws[i := Idle]) (fin k q)"
proof -
  have m: "mset (held_keys ws) = mset (k # held_keys (ws[i := Idle]))"
    using held_keys_drop [OF i(1), of k Idle] i(2) by simp
  have d: "distinct (k # held_keys (ws[i := Idle]))"
    using o m by (metis mset_eq_imp_distinct_iff owned_def)
  have s: "processing q = insert k (set (held_keys (ws[i := Idle])))"
    using o mset_eq_setD [OF m] by (simp add: owned_def)
  have "ok (fin k q)" using o s by (auto simp: owned_def intro: ok_fin)
  moreover have "set (held_keys (ws[i := Idle])) = processing (fin k q)"
    using d s by (auto simp: processing_fin)
  ultimately show ?thesis using d by (simp add: owned_def)
qed

text \<open>When no worker holds anything and nothing is handed out, nothing is pending.\<close>

lemma owned_idle:
  assumes "owned ws q" "held_keys ws = []" "get q = (g, q')" "\<forall>k. g \<noteq> Item k"
  shows "pending q = {}"
  using assms nothing_left [OF _ assms(3,4)] by (auto simp: owned_def)

end

lemma queue_ops_sel:
  "wq_processing (queue_Add k q) = wq_processing q"
  "wq_shuttingDown (queue_Add k q) = wq_shuttingDown q"
  "wq_dirty (queue_Add k q) = (if wq_shuttingDown q then wq_dirty q else insert k (wq_dirty q))"
  "wq_processing (queue_Done k q) = wq_processing q - {k}"
  "wq_dirty (queue_Done k q) = wq_dirty q"
  "wq_shuttingDown (queue_Done k q) = wq_shuttingDown q"
  "queue_ShutDown q = q\<lparr>wq_shuttingDown := True\<rparr>"
  by (auto simp: queue_Add_def queue_Done_def queue_ShutDown_def Let_def)

lemma queue_Add_ok: "queue_ok q \<Longrightarrow> queue_ok (queue_Add k q)"
  by (auto simp: queue_ok_def queue_Add_def Let_def)

lemma queue_Done_ok: "queue_ok q \<Longrightarrow> k \<in> wq_processing q \<Longrightarrow> queue_ok (queue_Done k q)"
  by (auto simp: queue_ok_def queue_Done_def Let_def)

lemma queue_Get_ok: "queue_ok q \<Longrightarrow> queue_Get q = (g, q') \<Longrightarrow> queue_ok q'"
  by (auto simp: queue_ok_def queue_Get_def split: list.splits)

lemma queue_Get_Item:
  "queue_Get q = (Item k, q') \<longleftrightarrow>
     (\<exists>rest. wq_queue q = k # rest
        \<and> q' = q\<lparr>wq_queue := rest, wq_processing := insert k (wq_processing q), wq_dirty := wq_dirty q - {k}\<rparr>)"
  by (auto simp: queue_Get_def split: list.splits if_splits)

lemma queue_Get_nothing:
  assumes "queue_Get q = (g, q')" "\<forall>k. g \<noteq> Item k"
  shows "wq_queue q = []" "q' = q"
  using assms by (auto simp: queue_Get_def split: list.splits)

interpretation lq: exclusive_queue queue_ok wq_dirty wq_processing wq_shuttingDown queue_Add queue_Get queue_Done queue_ShutDown
proof (unfold_locales, goal_cases)
  case 4
  then show ?case by (simp add: queue_ops_sel queue_ok_def)
next
  case (6 q k q')
  then have "k \<in> set (wq_queue q)" by (auto simp: queue_Get_Item)
  with 6 have "k \<notin> wq_processing q" by (simp add: queue_ok_def)
  with 6(2) show ?case by (auto simp: queue_Get_Item)
next
  case (11 q k q')
  then have "k \<in> set (wq_queue q)" by (auto simp: queue_Get_Item)
  with 11 have "k \<in> wq_dirty q" by (simp add: queue_ok_def)
  with 11(2) show ?case by (auto simp: queue_Get_Item)
next
  case (15 q g q')
  then have "wq_queue q = []" by (blast dest: queue_Get_nothing(1))
  with 15(1) show ?case by (auto simp: queue_ok_def)
qed (simp_all add: queue_Add_ok queue_Get_ok queue_Done_ok queue_Get_nothing queue_ops_sel)

section \<open>One worker per key\<close>

lemma queue_AddRateLimited_cases:
  assumes "queue_AddRateLimited d k (q, w) = (q', w')"
  shows "(q' = q \<or> q' = queue_Add k q) \<and> w \<subseteq># w'"
    "\<not> wq_shuttingDown q \<Longrightarrow> k \<in> wq_dirty q' \<or> k \<in># w'"
  using assms by (auto simp: queue_AddRateLimited_def queue_ops_sel split: if_splits)

lemma control_step_owned:
  assumes "control_step s t" "lq.owned (cs_workers s) (cs_queue s)"
  shows "lq.owned (cs_workers t) (cs_queue t)"
  using assms
proof cases
  case (quit i q)
  then have "q = cs_queue s" using queue_Get_nothing(2) by blast
  with quit assms(2) show ?thesis by (simp add: lq.owned_move)
next
  case (sync_failed i k delayed q w)
  then have "q = cs_queue s \<or> q = queue_Add k (cs_queue s)"
    using queue_AddRateLimited_cases(1) by blast
  with sync_failed assms(2) show ?thesis by (auto simp: lq.owned_move lq.owned_add)
qed (use assms(2) in \<open>simp_all add: lq.owned_add lq.owned_close lq.owned_take lq.owned_finish lq.owned_move\<close>)

lemma held_keys_Idle [simp]: "held_keys (replicate n Idle) = []"
  by (induction n) auto

lemma control_reachable_owned:
  "control_reachable n s \<Longrightarrow> lq.owned (cs_workers s) (cs_queue s)"
proof (induction rule: control_reachable.induct)
  case start
  have "queue_ok new_queue" by (simp add: new_queue_def queue_ok_def)
  then show ?case by (simp add: start_workers_def lq.owned_def) (simp add: new_queue_def)
next
  case (step s t)
  then show ?case using control_step_owned by blast
qed

lemma held_in_keys: "i < length ws \<Longrightarrow> k \<in> set (held (ws ! i)) \<Longrightarrow> k \<in> set (held_keys ws)"
  by (auto intro: nth_mem)

lemma distinct_held:
  assumes "distinct (held_keys ws)" "i < length ws" "j < length ws"
    and "k \<in> set (held (ws ! i))" "k \<in> set (held (ws ! j))"
  shows "i = j"
proof (rule ccontr)
  assume "i \<noteq> j"
  have m: "mset (held_keys ws) = mset (held_keys (ws[i := Idle]) @ held (ws ! i))"
    using held_keys_update [OF assms(2), of Idle] by simp
  have "distinct (held_keys (ws[i := Idle]) @ held (ws ! i))"
    using mset_eq_imp_distinct_iff [OF m] assms(1) by simp
  moreover have "k \<in> set (held_keys (ws[i := Idle]))"
    using held_in_keys [of j "ws[i := Idle]" k] assms(3,5) \<open>i \<noteq> j\<close> by simp
  ultimately show False using assms(4) unfolding distinct_append by blast
qed

text \<open>
  C2: The claim in the comment on \<open>processNextWorkItem\<close>: in every state that any interleaving of the
  workers, the informers, the timer and the shutdown reaches, two workers never synchronise the same
  key; the queue is well formed (distinct, and exactly the dirty keys that are not being processed),
  and the keys being processed are exactly those that the workers hold.
\<close>

theorem workers_exclusive:
  assumes "control_reachable n s"
  shows "queue_ok (cs_queue s) \<and> wq_processing (cs_queue s) = set (held_keys (cs_workers s))
    \<and> (\<forall>i j k. i < length (cs_workers s) \<and> j < length (cs_workers s)
         \<and> cs_workers s ! i = Syncing k \<and> cs_workers s ! j = Syncing k \<longrightarrow> i = j)"
proof -
  have o: "lq.owned (cs_workers s) (cs_queue s)" using assms by (rule control_reachable_owned)
  then have "i = j" if "i < length (cs_workers s)" "j < length (cs_workers s)"
    "cs_workers s ! i = Syncing k" "cs_workers s ! j = Syncing k" for i j k
    using that distinct_held [of "cs_workers s" i j k] by (simp add: lq.owned_def)
  with o show ?thesis by (auto simp: lq.owned_def)
qed

text \<open>Two events for a key and one for another, with three workers, while the first is being synchronised.\<close>

definition busy_state :: control_state where
  "busy_state = \<lparr>cs_queue = \<lparr>wq_queue = [''b''], wq_dirty = {''a'', ''b''}, wq_processing = {''a''}, wq_shuttingDown = False\<rparr>,
     cs_waiting = {#}, cs_workers = [Syncing ''a'', Idle, Idle]\<rparr>"

lemma busy_state_reachable: "control_reachable 3 busy_state"
proof -
  let ?q = "\<lambda>qs d p. \<lparr>wq_queue = qs, wq_dirty = d, wq_processing = p, wq_shuttingDown = False\<rparr>"
  let ?s = "\<lambda>q ws. \<lparr>cs_queue = q, cs_waiting = {#}, cs_workers = ws\<rparr>"
  have "control_reachable 3 (start_workers 3)" by (rule control_reachable.start)
  then have "control_reachable 3 (?s (?q [''a''] {''a''} {}) [Idle, Idle, Idle])"
    by (rule control_reachable.step)
      (use control_step.enqueue [of "start_workers 3" "''a''"] in
        \<open>simp add: start_workers_def new_queue_def queue_Add_def numeral_3_eq_3\<close>)
  then have "control_reachable 3 (?s (?q [] {} {''a''}) [Syncing ''a'', Idle, Idle])"
    by (rule control_reachable.step)
      (use control_step.take_item [of 0 "?s (?q [''a''] {''a''} {}) [Idle, Idle, Idle]" "''a''" "?q [] {} {''a''}"] in
        \<open>simp add: queue_Get_def\<close>)
  then have "control_reachable 3 (?s (?q [] {''a''} {''a''}) [Syncing ''a'', Idle, Idle])"
    by (rule control_reachable.step)
      (use control_step.enqueue [of "?s (?q [] {} {''a''}) [Syncing ''a'', Idle, Idle]" "''a''"] in
        \<open>simp add: queue_Add_def\<close>)
  then show ?thesis unfolding busy_state_def
    by (rule control_reachable.step)
      (use control_step.enqueue [of "?s (?q [] {''a''} {''a''}) [Syncing ''a'', Idle, Idle]" "''b''"] in
        \<open>simp add: queue_Add_def insert_commute\<close>)
qed

theorem workers_exclusive_witness:
  "control_reachable 3 busy_state \<and> wq_processing (cs_queue busy_state) = {''a''}
   \<and> cs_workers busy_state = [Syncing ''a'', Idle, Idle]"
  using workers_exclusive [OF busy_state_reachable] busy_state_reachable by (simp add: busy_state_def)

section \<open>No event is lost\<close>

text \<open>A key that has to be synchronised again: it is dirty, or waits for its delay to pass.\<close>

definition due :: "control_state \<Rightarrow> string set" where
  "due s = wq_dirty (cs_queue s) \<union> set_mset (cs_waiting s)"

lemma due_kept:
  assumes "control_step s t" "\<not> wq_shuttingDown (cs_queue s)" "k \<in> due s"
  shows "k \<in> due t \<or> (\<exists>i < length (cs_workers t). cs_workers s ! i = Idle \<and> cs_workers t ! i = Syncing k)"
  using assms
proof cases
  case (fire k')
  then show ?thesis using assms(2,3) by (auto simp: due_def queue_ops_sel in_diff_count)
next
  case (merge k')
  then have "k' \<in># cs_waiting s - {#k'#}" by (simp add: in_diff_count)
  with merge assms(3) show ?thesis by (cases "k = k'") (auto simp: due_def in_diff_count)
next
  case (take_item i k' q)
  show ?thesis
  proof (cases "k = k'")
    case True
    with take_item show ?thesis by auto
  next
    case False
    have "wq_dirty q = wq_dirty (cs_queue s) - {k'}" using take_item(4) by (auto simp: queue_Get_Item)
    with False take_item assms(3) show ?thesis by (auto simp: due_def)
  qed
next
  case (sync_failed i k' delayed q w)
  then have "(q = cs_queue s \<or> q = queue_Add k' (cs_queue s)) \<and> cs_waiting s \<subseteq># w"
    using queue_AddRateLimited_cases(1) by blast
  with sync_failed assms(3) show ?thesis
    by (auto simp: due_def queue_ops_sel dest: mset_subset_eqD split: if_splits)
qed (use assms(3) in \<open>auto simp: due_def queue_ops_sel dest: queue_Get_nothing(2)\<close>)

text \<open>
  C15: While the queue is not shutting down, an event makes its key due (also while the key is being
  synchronised) and a failed synchronisation makes its key due again, with and without a delay; and a
  key that is due stays so under every step, until the step in which a worker starts to synchronise it.
\<close>

theorem due_until_taken:
  assumes "\<not> wq_shuttingDown (cs_queue s)"
  shows "k \<in> due (s\<lparr>cs_queue := queue_Add k (cs_queue s)\<rparr>)
    \<and> (\<forall>d q w. queue_AddRateLimited d k (cs_queue s, cs_waiting s) = (q, w) \<longrightarrow>
          k \<in> due (s\<lparr>cs_queue := q, cs_waiting := w\<rparr>))
    \<and> (\<forall>t. control_step s t \<and> k \<in> due s \<longrightarrow>
          k \<in> due t \<or> (\<exists>i < length (cs_workers t). cs_workers s ! i = Idle \<and> cs_workers t ! i = Syncing k))"
  using assms due_kept queue_AddRateLimited_cases(2) by (fastforce simp: due_def queue_ops_sel)

theorem due_until_taken_witness:
  "\<not> wq_shuttingDown (cs_queue busy_state)
   \<and> ''a'' \<in> due (busy_state\<lparr>cs_queue := queue_Add ''a'' (cs_queue busy_state)\<rparr>)"
proof -
  have "\<not> wq_shuttingDown (cs_queue busy_state)" by (simp add: busy_state_def)
  with due_until_taken [of busy_state "''a''"] show ?thesis by blast
qed

section \<open>The workers finish\<close>

fun weight :: "worker \<Rightarrow> nat" where
  "weight Idle = 0"
| "weight (Syncing k) = 2"
| "weight (Finishing k) = 1"
| "weight Stopped = 0"

definition work_left :: "control_state \<Rightarrow> nat" where
  "work_left s = 3 * card (wq_dirty (cs_queue s)) + sum_list (map weight (cs_workers s))"

lemma weight_update:
  "i < length ws \<Longrightarrow>
     sum_list (map weight (ws[i := w])) + weight (ws ! i) = sum_list (map weight ws) + weight w"
  by (induction ws arbitrary: i) (auto split: nat.splits)

lemma drain_is_step: "drain_step s t \<Longrightarrow> control_step s t"
  by (erule drain_step.cases) (simp_all only: control_step.take_item control_step.sync_ok control_step.finish)

lemma drain_work_left:
  assumes "drain_step s t" "lq.owned (cs_workers s) (cs_queue s)" "finite (wq_dirty (cs_queue s))"
  shows "work_left s = Suc (work_left t) \<and> finite (wq_dirty (cs_queue t))"
  using assms
proof cases
  case (drain_take i k q)
  have "k \<in> wq_dirty (cs_queue s)" "wq_dirty q = wq_dirty (cs_queue s) - {k}"
    using lq.pending_get [OF _ drain_take(4)] assms(2) by (simp_all add: lq.owned_def)
  then have "card (wq_dirty (cs_queue s)) = Suc (card (wq_dirty q))" "finite (wq_dirty q)"
    using assms(3) by (simp_all only: card.remove finite_Diff)
  with drain_take weight_update [of i "cs_workers s" "Syncing k"] show ?thesis by (simp add: work_left_def)
next
  case (drain_ok i k)
  with assms(3) weight_update [of i "cs_workers s" "Finishing k"] show ?thesis by (simp add: work_left_def)
next
  case (drain_finish i k)
  with assms(3) weight_update [of i "cs_workers s" Idle] show ?thesis by (simp add: work_left_def queue_ops_sel)
qed

lemma control_reachable_finite: "control_reachable n s \<Longrightarrow> finite (wq_dirty (cs_queue s))"
proof (induction rule: control_reachable.induct)
  case start
  then show ?case by (simp add: start_workers_def new_queue_def)
next
  case (step s t)
  from step.hyps(2) step.IH show ?case
  proof cases
    case (quit i q)
    with step.IH show ?thesis by (auto dest: queue_Get_nothing(2))
  next
    case (sync_failed i k delayed q w)
    then have "q = cs_queue s \<or> q = queue_Add k (cs_queue s)" using queue_AddRateLimited_cases(1) by blast
    with sync_failed step.IH show ?thesis by (auto simp: queue_ops_sel)
  qed (auto simp: queue_ops_sel queue_Get_Item)
qed

lemma drain_run:
  assumes "(drain_step ^^ m) s t" "control_reachable n s"
  shows "control_reachable n t \<and> work_left s = m + work_left t"
  using assms
proof (induction m arbitrary: t)
  case (Suc m)
  then obtain u where u: "(drain_step ^^ m) s u" "drain_step u t" by auto
  then have r: "control_reachable n u" "work_left s = m + work_left u" using Suc by auto
  have "work_left u = Suc (work_left t)"
    using drain_work_left [OF u(2)] control_reachable_owned [OF r(1)] control_reachable_finite [OF r(1)] by simp
  with r u(2) show ?case by (auto intro: control_reachable.step drain_is_step)
qed auto

lemma drain_stuck:
  assumes o: "lq.owned (cs_workers t) (cs_queue t)" and stuck: "\<nexists>u. drain_step t u"
    and idle: "Idle \<in> set (cs_workers t)"
  shows "held_keys (cs_workers t) = [] \<and> wq_dirty (cs_queue t) = {}"
proof -
  obtain i where i: "i < length (cs_workers t)" "cs_workers t ! i = Idle"
    using idle by (auto simp: in_set_conv_nth)
  have "held w = []" if w: "w \<in> set (cs_workers t)" for w
  proof -
    obtain j where "j < length (cs_workers t)" "cs_workers t ! j = w"
      using w by (auto simp: in_set_conv_nth)
    with stuck show ?thesis by (cases w) (auto intro: drain_step.intros)
  qed
  then have h: "held_keys (cs_workers t) = []" by simp
  obtain g q where g: "queue_Get (cs_queue t) = (g, q)" by fastforce
  with stuck i have "\<forall>k. g \<noteq> Item k" by (blast intro: drain_step.drain_take)
  with o h g show ?thesis using lq.owned_idle by blast
qed

text \<open>
  C29: When no more events come and every synchronisation succeeds, the workers end: from any
  reachable state every run of them has at most three steps for each dirty key and two for each
  busy worker, and where it cannot go on while a worker is left, no worker is busy and no key is
  dirty.
\<close>

theorem workers_terminate:
  assumes "control_reachable n s" "(drain_step ^^ m) s t"
  shows "m \<le> 3 * card (wq_dirty (cs_queue s)) + 2 * length (held_keys (cs_workers s))
    \<and> ((\<nexists>u. drain_step t u) \<and> Idle \<in> set (cs_workers t) \<longrightarrow>
         held_keys (cs_workers t) = [] \<and> wq_dirty (cs_queue t) = {})"
proof -
  have t: "control_reachable n t" "work_left s = m + work_left t" using drain_run [OF assms(2,1)] by auto
  have "sum_list (map weight ws) \<le> 2 * length (held_keys ws)" for ws
  proof (induction ws)
    case (Cons w ws)
    then show ?case by (cases w) auto
  qed simp
  then have "work_left s \<le> 3 * card (wq_dirty (cs_queue s)) + 2 * length (held_keys (cs_workers s))"
    by (simp add: work_left_def)
  with t drain_stuck [OF control_reachable_owned [OF t(1)]] show ?thesis by auto
qed

theorem workers_terminate_witness:
  "control_reachable 3 busy_state \<and> (drain_step ^^ 1) busy_state (busy_state\<lparr>cs_workers := [Finishing ''a'', Idle, Idle]\<rparr>)
   \<and> (1 :: nat) \<le> 3 * card (wq_dirty (cs_queue busy_state)) + 2 * length (held_keys (cs_workers busy_state))"
proof -
  have d: "(drain_step ^^ 1) busy_state (busy_state\<lparr>cs_workers := [Finishing ''a'', Idle, Idle]\<rparr>)"
    using drain_step.drain_ok [of 0 busy_state "''a''"] by (simp add: busy_state_def eq_OO)
  with workers_terminate [OF busy_state_reachable d] busy_state_reachable show ?thesis by blast
qed

end
