(* ===== verification/Cluster_Control.thy ===== *)
theory Cluster_Control
  imports Config_Manager Work_Queue
begin

text \<open>
  The control loop of the cluster (\<open>pkg/controller/cluster\<close>): the handlers that turn events into keys of
  the work queue, \<open>sync\<close> of a key, and \<open>UpdateOnecloudCluster\<close>, which runs the configuration, the
  certificates, etcd and all components in their order and writes the status back; and the check of
  the MySQL replication. The components are the argument \<open>sync\<close>: what \<open>Sync\<close> of the manager with a
  component type does.
\<close>

section \<open>Events\<close>

datatype event_obj =
    ClusterObj OnecloudCluster
  | DeploymentObj Deployment
  | DeletedFinalStateUnknown string event_obj
  | OtherObj

definition MetaNamespaceKey :: "ObjectMeta \<Rightarrow> string" where
  "MetaNamespaceKey m = (if om_Namespace m \<noteq> [] then om_Namespace m @ ''/'' @ om_Name m else om_Name m)"

fun DeletionHandlingMetaNamespaceKeyFunc :: "event_obj \<Rightarrow> goerr + string" where
  "DeletionHandlingMetaNamespaceKeyFunc (DeletedFinalStateUnknown key _) = Inr key"
| "DeletionHandlingMetaNamespaceKeyFunc (ClusterObj oc) = Inr (MetaNamespaceKey (oc_ObjectMeta oc))"
| "DeletionHandlingMetaNamespaceKeyFunc (DeploymentObj d) = Inr (MetaNamespaceKey (dep_meta d))"
| "DeletionHandlingMetaNamespaceKeyFunc OtherObj = Inl (Errorf ''object has no meta'')"

definition SplitMetaNamespaceKey :: "string \<Rightarrow> goerr + string \<times> string" where
  "SplitMetaNamespaceKey key =
     (case split_on (CHR ''/'') key of
        [name] \<Rightarrow> Inr ([], name)
      | [ns, name] \<Rightarrow> Inr (ns, name)
      | _ \<Rightarrow> Inl (Errorf (''unexpected key format: '' @ quoted key)))"

definition enqueueCluster :: "event_obj \<Rightarrow> workqueue \<Rightarrow> workqueue" where
  "enqueueCluster obj q =
     (case DeletionHandlingMetaNamespaceKeyFunc obj of Inl _ \<Rightarrow> q | Inr key \<Rightarrow> queue_Add key q)"

fun GetControllerOf :: "OwnerReference list \<Rightarrow> OwnerReference option" where
  "GetControllerOf [] = None"
| "GetControllerOf (r # rs) = (if or_Controller r = Some True then Some r else GetControllerOf rs)"

text \<open>\<open>list\<close> is the cache of the clusters in the namespace of the deployment.\<close>

definition resolveOnecloudClusterFromDeployment ::
  "(string \<Rightarrow> goerr + OnecloudCluster) \<Rightarrow> Deployment \<Rightarrow> OnecloudCluster option" where
  "resolveOnecloudClusterFromDeployment list deploy =
     (case GetControllerOf (om_OwnerReferences (dep_meta deploy)) of
        None \<Rightarrow> None
      | Some ref \<Rightarrow>
          (if or_Kind ref \<noteq> OnecloudClusterKind then None
           else (case list (or_Name ref) of
                   Inl _ \<Rightarrow> None
                 | Inr oc \<Rightarrow> (if om_UID (oc_ObjectMeta oc) \<noteq> or_UID ref then None else Some oc))))"

text \<open>
  The handlers of deployments. \<open>deleteDeployment\<close> asks the asserted deployment for its namespace before
  it looks whether the assertion held, so any other object is a nil dereference.
\<close>

definition enqueue_owner :: "(string \<Rightarrow> goerr + OnecloudCluster) \<Rightarrow> Deployment \<Rightarrow> workqueue \<Rightarrow> workqueue" where
  "enqueue_owner list deploy q =
     (case resolveOnecloudClusterFromDeployment list deploy of
        None \<Rightarrow> q | Some oc \<Rightarrow> enqueueCluster (ClusterObj oc) q)"

fun deleteDeployment :: "(string \<Rightarrow> goerr + OnecloudCluster) \<Rightarrow> event_obj \<Rightarrow> workqueue \<Rightarrow> workqueue res" where
  "deleteDeployment list (DeploymentObj deploy) q = Ret (enqueue_owner list deploy q)"
| "deleteDeployment list _ q = Panic ''nil dereference''"

fun addDeployment :: "(string \<Rightarrow> goerr + OnecloudCluster) \<Rightarrow> event_obj \<Rightarrow> workqueue \<Rightarrow> workqueue res" where
  "addDeployment list (DeploymentObj deploy) q =
     (if om_DeletionTimestamp (dep_meta deploy) \<noteq> None then deleteDeployment list (DeploymentObj deploy) q
      else Ret (enqueue_owner list deploy q))"
| "addDeployment list _ q = Panic ''interface conversion''"

fun event_updateDeployment ::
  "(string \<Rightarrow> goerr + OnecloudCluster) \<Rightarrow> event_obj \<Rightarrow> event_obj \<Rightarrow> workqueue \<Rightarrow> workqueue res" where
  "event_updateDeployment list (DeploymentObj old) (DeploymentObj cur) q =
     (if om_ResourceVersion (dep_meta cur) = om_ResourceVersion (dep_meta old) then Ret q
      else Ret (enqueue_owner list cur q))"
| "event_updateDeployment list _ _ q = Panic ''interface conversion''"

section \<open>The replication of MySQL\<close>

text \<open>What the control loop takes from elsewhere, with the clock and the parallel goroutines' order.\<close>

record control_env =
  co_ClearComponent :: bool
  co_statusEqual :: "OnecloudClusterStatus \<Rightarrow> OnecloudClusterStatus \<Rightarrow> bool"
  co_checksum :: "OnecloudClusterSpec \<Rightarrow> goerr + string"
  co_groupOrder :: "kcall list \<Rightarrow> range_order"
  co_now :: "kcall list \<Rightarrow> int"
  co_MysqlCheckInterval :: int
  co_connect :: "string \<Rightarrow> goerr option"
  co_slaveStatus :: "kcall list \<Rightarrow> string \<Rightarrow> goerr + gomap"
  co_notify :: "kcall list \<Rightarrow> strmap list \<Rightarrow> goerr option"

definition mysqlKeySlaveIORunning :: string where "mysqlKeySlaveIORunning = ''Slave_IO_Running''"
definition mysqlKeySlaveSQLRunning :: string where "mysqlKeySlaveSQLRunning = ''Slave_SQL_Running''"
definition mysqlKeyLastError :: string where "mysqlKeyLastError = ''Last_Error''"
definition mysqlKeyLastIOError :: string where "mysqlKeyLastIOError = ''Last_IO_Error''"
definition mysqlKeyMasterHost :: string where "mysqlKeyMasterHost = ''Master_Host''"
definition mysqlKeyIP :: string where "mysqlKeyIP = ''IP''"
definition mysqlKeyOperatorError :: string where "mysqlKeyOperatorError = ''Operator_Error''"

lemmas mysql_keys = mysqlKeySlaveIORunning_def mysqlKeySlaveSQLRunning_def mysqlKeyLastError_def
  mysqlKeyLastIOError_def mysqlKeyMasterHost_def mysqlKeyIP_def mysqlKeyOperatorError_def

text \<open>The status of one server. No row is a nil map, and writing to a nil map panics.\<close>

definition showSlaveStatus :: "control_env \<Rightarrow> string \<Rightarrow> (string \<times> gomap) km" where
  "showSlaveStatus co host =
     seq (lift_err (map_option (Wrapped (''mysql.NewConnection of '' @ host)) (co_connect co host)))
    (andthen (map_err (Wrapped (''ShowSlaveStatus of '' @ host))
                (kcall (KMysql host) (\<lambda>h. co_slaveStatus co h host))) (\<lambda>status.
     let peerHost = gomap_str status mysqlKeyMasterHost
     in if gomap_str status mysqlKeySlaveIORunning = ''Yes'' \<and> gomap_str status mysqlKeySlaveSQLRunning = ''Yes''
        then ret (peerHost, None)
        else if status = None then go_panic ''assignment to entry in nil map''
        else ret (peerHost, gomap_set mysqlKeyIP host status)))"

text \<open>\<open>injectErr\<close> writes into the map it is given, when there is one.\<close>

definition injectErr :: "string \<Rightarrow> string \<Rightarrow> gomap \<Rightarrow> gomap" where
  "injectErr ip errText status = gomap_set mysqlKeyIP ip (gomap_set mysqlKeyOperatorError errText status)"

definition report_of :: "strmap \<Rightarrow> strmap" where
  "report_of s = (let str = gomap_str (Some s) in
     if gomap_get (Some s) mysqlKeyOperatorError \<noteq> None
     then [(''ip'', str mysqlKeyIP), (''operator_error'', str mysqlKeyOperatorError)]
     else [(''ip'', str mysqlKeyIP), (''slave_io_running'', str mysqlKeySlaveIORunning),
           (''slave_sql_running'', str mysqlKeySlaveSQLRunning), (''last_error'', str mysqlKeyLastError),
           (''last_io_error'', str mysqlKeyLastIOError)])"

definition notifyMysqlError :: "control_env \<Rightarrow> gomap \<Rightarrow> gomap \<Rightarrow> unit km" where
  "notifyMysqlError co status1 status2 =
     (if status1 = None \<and> status2 = None then ret ()
      else (let reports = map report_of (List.map_filter id [status1, status2])
            in kcallE (KNotify reports) (\<lambda>h. co_notify co h reports)))"

definition checkMysqlSlaveStatus :: "kube_env \<Rightarrow> control_env \<Rightarrow> unit km" where
  "checkMysqlSlaveStatus env co =
     andthen (gets (\<lambda>w. spec_Mysql (oc_Spec (kw_oc w)))) (\<lambda>dbConf.
     if my_Host dbConf = [] \<or> my_Username dbConf = [] \<or> my_Password dbConf = [] then ret ()
     else seq (lift_err (map_option (Wrapped ''mysql.NewConnection'') (co_connect co (my_Host dbConf))))
         (andthen (map_err (Wrapped ''ShowSlaveStatus'')
                     (kcall (KMysql (my_Host dbConf)) (\<lambda>h. co_slaveStatus co h (my_Host dbConf)))) (\<lambda>status.
          if status = None \<or> status = Some [] then ret ()
          else let masterHost = gomap_str status mysqlKeyMasterHost
          in if masterHost = [] then ret ()
          else andthen (attempt (showSlaveStatus co masterHost)) (\<lambda>r1.
               let (peerHost, status1) =
                 (case r1 of Inr x \<Rightarrow> x | Inl e \<Rightarrow> ([], injectErr masterHost (ke_errText env e) None))
               in andthen (attempt (showSlaveStatus co peerHost)) (\<lambda>r2.
                  andthen (if peerHost = [] then attempt (showSlaveStatus co (my_Host dbConf)) else ret r2) (\<lambda>r2'.
                  let (status1', status2) =
                    (case r2' of
                       Inr x \<Rightarrow> (status1, snd x)
                     | Inl e \<Rightarrow> (let m = injectErr peerHost (ke_errText env e) status1
                                  in (if status1 = None then None else m, m)))
                  in notifyMysqlError co status1' status2))))))"

section \<open>The components in their order\<close>

definition core_components :: "string list" where
  "core_components = [KeystoneComponentType, VictoriaMetricsComponentType, TelegrafComponentType, RegionComponentType,
     SchedulerComponentType, KubeServerComponentType, WebconsoleComponentType, GlanceComponentType, RegionDNSComponentType,
     YunionagentComponentType, AnsibleServerComponentType, APIGatewayComponentType, MeterComponentType, BillingComponentType,
     EsxiAgentComponentType, OvnNorthComponentType, ApiMapComponentType, VpcAgentComponentType, HostDeployerComponentType,
     HostImageComponentType, HostComponentType, HostSdnagentComponentType, HostOvnControllerComponentType,
     HostOvsdbServerComponentType, HostOvsVswitchdComponentType, HostHealthComponentType, MonitorComponentType,
     CloudmonComponentType, WebComponentType]"

definition dependComponents :: "string list" where
  "dependComponents = [LoggerComponentType, ClimcComponentType, CloudmuxComponentType, AutoUpdateComponentType,
     CloudnetComponentType, CloudproxyComponentType, CloudeventComponentType, DevtoolComponentType, YunionconfComponentType,
     S3gatewayComponentType, NotifyComponentType, BaremetalAgentComponentType, ServiceOperatorComponentType, ItsmComponentType,
     CloudIdComponentType, SuggestionComponentType, ScheduledtaskComponentType, ReportComponentType, LbagentComponentType,
     EChartsSSRComponentType, BastionHostComponentType, ExtdbComponentType, LLMComponentType, McpServerComponentType,
     AiProxyComponentType]"

definition addonComponents :: "string list" where
  "addonComponents = [MonitorStackComponentType]"

definition reconcileComponent :: "(string \<Rightarrow> unit km) \<Rightarrow> string \<Rightarrow> unit km" where
  "reconcileComponent sync c = map_err (Wrapped (''sync '' @ c)) (sync c)"

text \<open>The first error ends the loop, unless the services are being stopped.\<close>

fun sync_core :: "bool \<Rightarrow> (string \<Rightarrow> unit km) \<Rightarrow> string list \<Rightarrow> unit km" where
  "sync_core stop sync [] = ret ()"
| "sync_core stop sync (c # cs) =
     andthen (attempt (reconcileComponent sync c)) (\<lambda>r. case r of
       Inl e \<Rightarrow> (if \<not> stop then fail (Wrapped (''sync component '' @ quoted c) e) else sync_core stop sync cs)
     | Inr _ \<Rightarrow> sync_core stop sync cs)"

text \<open>
  The goroutines of the error group: all of them run, and the first error in time is returned. They
  are run one after the other in an arbitrary order.
\<close>

fun sync_group :: "(string \<Rightarrow> unit km) \<Rightarrow> string list \<Rightarrow> goerr option \<Rightarrow> goerr option km" where
  "sync_group sync [] err = ret err"
| "sync_group sync (c # cs) err =
     andthen (attempt (reconcileComponent sync c)) (\<lambda>r.
     sync_group sync cs (case (err, r) of (None, Inl e) \<Rightarrow> Some e | _ \<Rightarrow> err))"

definition grp_Wait :: "control_env \<Rightarrow> (string \<Rightarrow> unit km) \<Rightarrow> string list \<Rightarrow> unit km" where
  "grp_Wait co sync cs =
     andthen (gets (\<lambda>w. co_groupOrder co (kw_calls w))) (\<lambda>ord.
     andthen (sync_group sync (sort_key ord cs) None) lift_err)"

definition sync_addons :: "(string \<Rightarrow> unit km) \<Rightarrow> string list \<Rightarrow> unit km" where
  "sync_addons sync cs = for_each cs (\<lambda>c. andthen (attempt (reconcileComponent sync c)) (\<lambda>_. ret ()))"

abbreviation set_checksum :: "string \<Rightarrow> kworld \<Rightarrow> kworld" where
  "set_checksum x \<equiv> kw_oc_update (oc_Status_update (st_SpecChecksum_update (\<lambda>_. x)))"

text \<open>
  One pass. The argument is \<open>lastCheckMysqlTime\<close>, and the result its new value; times are in
  nanoseconds.
\<close>

definition updateOnecloudCluster ::
  "options \<Rightarrow> kube_env \<Rightarrow> control_env \<Rightarrow> (string \<Rightarrow> unit km) \<Rightarrow> int \<Rightarrow> int km" where
  "updateOnecloudCluster op env co sync lastCheckMysqlTime =
     seq (map_err (Wrapped ''CreateOrUpdate configmap'') (andthen (config_CreateOrUpdate op env) (\<lambda>_. ret ())))
    (seq (map_err (Wrapped ''CreateOrUpdate certs'') (certs_CreateOrUpdate env))
    (seq (map_err (Wrapped ''Sync etcd'') (sync EtcdComponentType))
    (seq (sync_core (op_StopServices op) sync core_components)
    (seq (grp_Wait co sync dependComponents)
    (seq (sync_addons sync addonComponents)
    (andthen (gets (\<lambda>w. oc_Spec (kw_oc w))) (\<lambda>spec.
     andthen (map_err (Wrapped ''Marshal oc.Spec'') (of_sum (co_checksum co spec))) (\<lambda>sum.
     seq (modify (set_checksum sum))
    (andthen (gets (\<lambda>w. co_now co (kw_calls w))) (\<lambda>now.
     if now - lastCheckMysqlTime > co_MysqlCheckInterval co * 60 * 1000000000
     then andthen (attempt (checkMysqlSlaveStatus env co)) (\<lambda>_. gets (\<lambda>w. co_now co (kw_calls w)))
     else ret lastCheckMysqlTime))))))))))"

definition UpdateOnecloudCluster ::
  "options \<Rightarrow> kube_env \<Rightarrow> control_env \<Rightarrow> (string \<Rightarrow> unit km) \<Rightarrow> int \<Rightarrow> (goerr option \<times> int) km" where
  "UpdateOnecloudCluster op env co sync lastCheck =
     andthen (gets (\<lambda>w. oc_Status (kw_oc w))) (\<lambda>oldStatus.
     andthen (attempt (updateOnecloudCluster op env co sync lastCheck)) (\<lambda>r.
     let (errs, lastCheck') = (case r of Inl e \<Rightarrow> ([e], lastCheck) | Inr t \<Rightarrow> ([], t))
     in andthen (gets kw_oc) (\<lambda>oc.
        let same = co_statusEqual co (oc_Status oc) oldStatus
        in if same \<and> \<not> co_ClearComponent co then ret (new_aggregate errs, lastCheck')
           else andthen (attempt (UpdateCluster env oc same)) (\<lambda>u.
                ret (new_aggregate (case u of Inl e \<Rightarrow> errs @ [e] | Inr _ \<Rightarrow> errs), lastCheck')))))"

text \<open>
  \<open>sync\<close> of a key: the cluster is read from the API server, defaulted, written back, and the pass
  runs on the answer.
\<close>

definition controller_sync ::
  "options \<Rightarrow> kube_env \<Rightarrow> control_env \<Rightarrow> (string \<Rightarrow> unit km) \<Rightarrow> int \<Rightarrow> string \<Rightarrow> int km" where
  "controller_sync op env co sync lastCheck key =
     andthen (of_sum (SplitMetaNamespaceKey key)) (\<lambda>(ns, name).
     andthen (attempt (kcall (KGetOC name) (\<lambda>h. ke_getOC env h name))) (\<lambda>r. case r of
       Inl e \<Rightarrow> (if is_not_found e then ret lastCheck
                 else fail (Errorf (''failed to get OnecloudCluster '' @ name @ '': '' @ ke_errText env e)))
     | Inr oc \<Rightarrow>
         andthen (gets (\<lambda>w. (op_order op (kw_calls w), op_draw op (kw_calls w)))) (\<lambda>(ord, gen).
         let tmpOc = SetDefaults_OnecloudCluster ord (co_ClearComponent co) gen oc
         in andthen (map_err (\<lambda>e. Errorf (''failed to update OnecloudCluster '' @ om_Name (oc_ObjectMeta tmpOc) @ '': '' @ ke_errText env e))
                       (kcall (KUpdateOC tmpOc) (\<lambda>h. ke_updateOC env h tmpOc))) (\<lambda>updatedOc.
            seq (modify (\<lambda>w. w\<lparr>kw_oc := updatedOc\<rparr>))
           (andthen (UpdateOnecloudCluster op env co sync lastCheck) (\<lambda>(err, t).
            seq (lift_err err) (ret t)))))))"

end
