(* ===== verification/Cluster_Laws.thy ===== *)
theory Cluster_Laws
  imports Cluster_Control
begin

text \<open>
  Properties of the control loop of the cluster: from an event to the key in the queue, from the key to
  the cluster, what one pass does when components fail, what it records in the status, and the check
  of the MySQL replication.
\<close>

section \<open>From events to keys\<close>

lemma split_key:
  assumes "CHR ''/'' \<notin> set (om_Namespace m)" "CHR ''/'' \<notin> set (om_Name m)"
  shows "SplitMetaNamespaceKey (MetaNamespaceKey m) = Inr (om_Namespace m, om_Name m)"
  using assms by (simp add: SplitMetaNamespaceKey_def MetaNamespaceKey_def str_simps)

text \<open>
  A change of a deployment that the operator made for a cluster puts a key into the queue that
  \<open>sync\<close> splits into the namespace and the name of that cluster, whether the deployment appears, changes
  or disappears; a deployment without a controller of this kind, or of a cluster with another UID, puts
  nothing there.
\<close>

theorem deployment_events_reach_owner:
  assumes owner: "GetControllerOf (om_OwnerReferences (dep_meta d)) = Some (GetOwnerRef oc)"
    and cached: "list (om_Name (oc_ObjectMeta oc)) = Inr oc'"
    and names: "CHR ''/'' \<notin> set (om_Namespace (oc_ObjectMeta oc'))" "CHR ''/'' \<notin> set (om_Name (oc_ObjectMeta oc'))"
    and opened: "\<not> wq_shuttingDown q" and version: "om_ResourceVersion (dep_meta d) \<noteq> om_ResourceVersion (dep_meta old)"
  shows "if om_UID (oc_ObjectMeta oc') = om_UID (oc_ObjectMeta oc)
     then (\<exists>q' key. addDeployment list (DeploymentObj d) q = Ret q' \<and> event_updateDeployment list (DeploymentObj old) (DeploymentObj d) q = Ret q'
             \<and> deleteDeployment list (DeploymentObj d) q = Ret q' \<and> key \<in> wq_dirty q'
             \<and> SplitMetaNamespaceKey key = Inr (om_Namespace (oc_ObjectMeta oc'), om_Name (oc_ObjectMeta oc')))
     else addDeployment list (DeploymentObj d) q = Ret q \<and> event_updateDeployment list (DeploymentObj old) (DeploymentObj d) q = Ret q
             \<and> deleteDeployment list (DeploymentObj d) q = Ret q"
proof -
  have r: "resolveOnecloudClusterFromDeployment list d =
      (if om_UID (oc_ObjectMeta oc') = om_UID (oc_ObjectMeta oc) then Some oc' else None)"
    using owner cached by (simp add: resolveOnecloudClusterFromDeployment_def GetOwnerRef_def)
  show ?thesis
    using r version split_key [OF names] opened
    by (auto simp: enqueue_owner_def enqueueCluster_def queue_ops_sel)
qed

text \<open>
  The deletion of a deployment that the informer missed comes as a tombstone and panics: the branch of
  the handler for tombstones is never reached.
\<close>

lemma deleteDeployment_tombstone:
  "deleteDeployment list (DeletedFinalStateUnknown key obj) q = Panic ''nil dereference''"
  by simp

section \<open>The components\<close>

lemma reconcile_Ret [simp]: "reconcileComponent sync c w = (Ret u, v) \<longleftrightarrow> sync c w = (Ret u, v)"
  by (simp add: reconcileComponent_def map_err_Ret_iff)

lemma reconcile_cases:
  "sync c w = (Fail e, v) \<Longrightarrow> reconcileComponent sync c w = (Fail (Wrapped (''sync '' @ c) e), v)"
  "sync c w = (Panic p, v) \<Longrightarrow> reconcileComponent sync c w = (Panic p, v)"
  "sync c w = (Ret (), v) \<Longrightarrow> reconcileComponent sync c w = (Ret (), v)"
  by (simp_all add: reconcileComponent_def go_simps)

lemma sync_core_append:
  "sync_core stop sync pre w = (Ret (), u) \<Longrightarrow> sync_core stop sync (pre @ post) w = sync_core stop sync post u"
proof (induction pre arbitrary: w)
  case (Cons c pre)
  then show ?case
    by (cases "reconcileComponent sync c" w rule: go_cases) (auto simp: go_simps split: if_splits)
qed (simp add: go_simps)

text \<open>
  The core components are synchronised in their order. The first that fails ends the pass at once,
  with its error: nothing runs after it. While services are being stopped no failure ends it.
\<close>

theorem sync_core_order:
  assumes "sync_core False sync pre w = (Ret (), u)" "sync c u = (Fail e, v)"
  shows "sync_core False sync (pre @ c # post) w = (Fail (Wrapped (''sync component '' @ quoted c) (Wrapped (''sync '' @ c) e)), v)
    \<and> (\<forall>cs s e' t. sync_core True sync cs s \<noteq> (Fail e', t))"
proof
  show "sync_core False sync (pre @ c # post) w = (Fail (Wrapped (''sync component '' @ quoted c) (Wrapped (''sync '' @ c) e)), v)"
    using reconcile_cases(1) [of sync c u e v] assms by (simp add: sync_core_append go_simps)
  have "sync_core True sync cs s \<noteq> (Fail e', t)" for cs s e' t
  proof (induction cs arbitrary: s)
    case (Cons c cs)
    then show ?case by (cases "reconcileComponent sync c" s rule: go_cases) (simp_all add: go_simps)
  qed (simp add: go_simps)
  then show "\<forall>cs s e' t. sync_core True sync cs s \<noteq> (Fail e', t)" by blast
qed

text \<open>The goroutines of the group with what each ended with, in the order in which they ran.\<close>

fun group_run :: "(string \<Rightarrow> unit km) \<Rightarrow> string list \<Rightarrow> kworld \<Rightarrow> (string \<times> unit res) list" where
  "group_run sync [] w = []"
| "group_run sync (c # cs) w = (c, fst (sync c w)) # group_run sync cs (snd (sync c w))"

fun first_error :: "(string \<times> unit res) list \<Rightarrow> goerr option" where
  "first_error [] = None"
| "first_error ((c, Fail e) # rs) = Some (Wrapped (''sync '' @ c) e)"
| "first_error ((c, _) # rs) = first_error rs"

lemma sync_group_eval:
  assumes "\<forall>c s p t. sync c s \<noteq> (Panic p, t)"
  shows "\<exists>t. sync_group sync cs err w = (Ret (case err of None \<Rightarrow> first_error (group_run sync cs w) | Some e \<Rightarrow> Some e), t)"
proof (induction cs arbitrary: err w)
  case (Cons c cs)
  show ?case
  proof (cases "sync c" w rule: go_cases)
    case (Ret x s)
    with Cons.IH [of err s] show ?thesis by (cases err) (simp_all add: go_simps reconcile_cases)
  next
    case (Fail e s)
    with Cons.IH [of "case err of None \<Rightarrow> Some (Wrapped (''sync '' @ c) e) | _ \<Rightarrow> err" s] show ?thesis
      by (cases err) (simp_all add: go_simps reconcile_cases)
  qed (use assms in blast)
qed (simp add: go_simps split: option.split)

text \<open>
  The dependent components are all run, whatever the others do and in whatever order they come; the
  group succeeds if and only if all of them do, and otherwise returns the error of the one that failed
  first.
\<close>

theorem group_runs_all:
  assumes "\<forall>c s p t. sync c s \<noteq> (Panic p, t)"
  shows "\<exists>ord :: range_order. let run = group_run sync (sort_key ord cs) w
     in mset (map fst run) = mset cs
        \<and> fst (grp_Wait co sync cs w) = (case first_error run of None \<Rightarrow> Ret () | Some e \<Rightarrow> Fail e)
        \<and> (fst (grp_Wait co sync cs w) = Ret () \<longleftrightarrow> (\<forall>(c, r)\<in>set run. r = Ret ()))"
proof -
  let ?ord = "co_groupOrder co (kw_calls w)"
  let ?run = "group_run sync (sort_key ?ord cs) w"
  have names: "map fst (group_run sync xs s) = xs" for xs s by (induction xs arbitrary: s) auto
  have none: "first_error rs = None \<longleftrightarrow> (\<forall>(c, r)\<in>set rs. r = Ret ())" if "\<forall>(c, r)\<in>set rs. \<forall>p. r \<noteq> Panic p" for rs
    using that by (induction rs rule: first_error.induct) auto
  have np: "\<forall>(c, r)\<in>set (group_run sync xs s). \<forall>p. r \<noteq> Panic p" for xs s
  proof (induction xs arbitrary: s)
    case (Cons c xs)
    have "fst (sync c s) \<noteq> Panic p" for p using assms by (metis prod.collapse)
    with Cons show ?case by auto
  qed simp
  obtain t where t: "sync_group sync (sort_key ?ord cs) None w = (Ret (first_error ?run), t)"
    using sync_group_eval [OF assms, where cs = "sort_key ?ord cs" and err = None and w = w] by auto
  then have g: "fst (grp_Wait co sync cs w) = (case first_error ?run of None \<Rightarrow> Ret () | Some e \<Rightarrow> Fail e)"
    by (simp add: grp_Wait_def go_simps split: option.split)
  moreover have "mset (map fst ?run) = mset cs" by (simp add: names)
  moreover have "fst (grp_Wait co sync cs w) = Ret () \<longleftrightarrow> (\<forall>(c, r)\<in>set ?run. r = Ret ())"
    using g none [OF np [of "sort_key ?ord cs" w]] by (auto split: option.splits)
  ultimately show ?thesis by (intro exI [of _ ?ord]) (simp add: Let_def)
qed

section \<open>A pass\<close>

abbreviation checksum_of :: "kworld \<Rightarrow> string" where
  "checksum_of w \<equiv> st_SpecChecksum (oc_Status (kw_oc w))"

text \<open>What the managers before the components and the check of MySQL do to the cluster in memory.\<close>

lemma keeps_kcall_oc:
  assumes "\<And>w x. I (w\<lparr>kw_calls := x\<rparr>) = I w"
  shows "keeps I (kcall c f)" "keeps I (kcallE c g)"
  using assms by (auto simp: keeps_def kcall_def kcallE_def Let_def split: sum.splits)

lemma keeps_pure_of: "keeps I (of_sum r)" "keeps I (from_option p x)"
  by (auto simp: of_sum_def from_option_def intro: keeps_intros split: sum.split option.split)

lemma keeps_retry_loop:
  "(\<And>x. keeps I (f x)) \<Longrightarrow> keeps I (RetryOnConflict n f x)"
proof (induction n arbitrary: x)
  case (Suc n)
  then show ?case by (auto intro!: keeps_intros split: option.split)
qed (simp add: keeps_intros)

lemma keeps_config:
  assumes "\<And>w x. I (w\<lparr>kw_calls := x\<rparr>) = I w"
  shows "keeps I (config_CreateOrUpdate op env)"
  unfolding config_CreateOrUpdate_def NewClusterConfig_def newClusterConfigFromConfigMap_def newClusterConfigFromConfigMapNoDefault_def
    fillClusterConfigDefault_def default_config_def CreateConfigMap_def create_object_def UpdateConfigMap_def update_object_def
    update_attempt_def not_refreshed_def recordResourceEvent_def Let_def
  by (auto intro!: keeps_intros keeps_kcall_oc keeps_pure_of keeps_retry_loop assms split: sum.split option.split)

lemma keeps_mysql:
  assumes "\<And>w x. I (w\<lparr>kw_calls := x\<rparr>) = I w"
  shows "keeps I (checkMysqlSlaveStatus env co)"
  unfolding checkMysqlSlaveStatus_def showSlaveStatus_def notifyMysqlError_def Let_def
  by (auto intro!: keeps_intros keeps_kcall_oc assms split: sum.split prod.split)

lemma keeps_certs: "keeps (\<lambda>w. checksum_of w = x) (certs_CreateOrUpdate env)"
proof -
  have "keeps (\<lambda>w. checksum_of w = x) (ensure_etcd_certs env ns)" for ns
    by (induction ns) (auto intro!: keeps_intros keeps_kcall_oc split: sum.split)
  then show ?thesis
    unfolding certs_CreateOrUpdate_def Let_def by (auto intro!: keeps_intros keeps_kcall_oc split: sum.split)
qed

lemma keeps_components:
  assumes "\<And>c. keeps I (sync c)"
  shows "keeps I (sync_core stop sync cs)" "keeps I (grp_Wait co sync cs)" "keeps I (sync_addons sync cs)"
proof -
  have r: "keeps I (reconcileComponent sync c)" for c
    unfolding reconcileComponent_def by (intro keeps_intros assms)
  show "keeps I (sync_core stop sync cs)"
    by (induction cs) (auto intro!: keeps_intros r split: sum.split)
  have "keeps I (sync_group sync cs err)" for cs err
    by (induction cs arbitrary: err) (auto intro!: keeps_intros r)
  then show "keeps I (grp_Wait co sync cs)" unfolding grp_Wait_def by (intro keeps_intros)
  show "keeps I (sync_addons sync cs)" unfolding sync_addons_def by (intro keeps_intros r)
qed

lemma sync_group_sticky: "sync_group sync cs (Some e) w = (Ret x, v) \<Longrightarrow> x = Some e"
proof (induction cs arbitrary: w)
  case (Cons c cs)
  then show ?case by (auto simp: andthen_attempt_Ret)
qed (simp add: go_simps)

text \<open>\<open>fails_in I m s\<close>: when \<open>m\<close> fails from \<open>s\<close> it does so in \<open>I\<close>.\<close>

definition fails_in :: "('s \<Rightarrow> bool) \<Rightarrow> ('s, 'a) go \<Rightarrow> 's \<Rightarrow> bool" where
  "fails_in I m s \<longleftrightarrow> (\<forall>e t. m s = (Fail e, t) \<longrightarrow> I t)"

lemma fails_in_andthen:
  assumes "keeps I m" "I s" "\<And>x t. I t \<Longrightarrow> fails_in I (f x) t"
  shows "fails_in I (andthen m f) s"
proof (cases m s rule: go_cases)
  case (Ret x t)
  then have "fails_in I (f x) t" using keepsD_eq [OF assms(1) Ret assms(2)] assms(3) by blast
  with Ret show ?thesis by (simp add: fails_in_def go_simps)
qed (use keepsD_eq [OF assms(1) _ assms(2)] in \<open>auto simp: fails_in_def go_simps\<close>)

lemma fails_in_seq:
  "keeps I m \<Longrightarrow> I s \<Longrightarrow> (\<And>t. I t \<Longrightarrow> fails_in I n t) \<Longrightarrow> fails_in I (seq m n) s"
  unfolding seq_def by (rule fails_in_andthen)

lemma updateOnecloudCluster_fails:
  assumes "\<And>c. keeps (\<lambda>w. checksum_of w = x) (sync c)" "checksum_of w = x"
  shows "fails_in (\<lambda>w. checksum_of w = x) (updateOnecloudCluster op env co sync tm) w"
proof -
  let ?I = "\<lambda>w. checksum_of w = x"
  define fin where "fin sum = seq (modify (set_checksum sum)) (andthen (gets (\<lambda>w. co_now co (kw_calls w))) (\<lambda>now.
     if now - tm > co_MysqlCheckInterval co * 60 * 1000000000
     then andthen (attempt (checkMysqlSlaveStatus env co)) (\<lambda>_. gets (\<lambda>w. co_now co (kw_calls w)))
     else ret tm))" for sum
  have "fails_in ?I (fin sum) u" for sum u
    by (auto simp: fin_def fails_in_def go_simps andthen_def attempt_def split: if_splits prod.splits res.splits)
  then show ?thesis
    unfolding updateOnecloudCluster_def fin_def [symmetric]
    by (intro fails_in_seq fails_in_andthen keeps_intros keeps_config keeps_certs keeps_components keeps_pure_of assms) simp_all
qed

text \<open>
  The components of a list run one after the other, each from where the one before it ended: the state after the last of them, if
  none of them failed. When failures are tolerated the run goes on after one.
\<close>

fun run_components :: "bool \<Rightarrow> (string \<Rightarrow> unit km) \<Rightarrow> string list \<Rightarrow> kworld \<Rightarrow> kworld option" where
  "run_components tolerant sync [] w = Some w"
| "run_components tolerant sync (c # cs) w =
     (case sync c w of
        (Ret _, v) \<Rightarrow> run_components tolerant sync cs v
      | (Fail _, v) \<Rightarrow> (if tolerant then run_components tolerant sync cs v else None)
      | (Panic _, v) \<Rightarrow> None)"

lemma run_core: "sync_core stop sync cs w = (Ret (), v) \<Longrightarrow> run_components stop sync cs w = Some v"
proof (induction cs arbitrary: w)
  case (Cons c cs)
  then show ?case
    by (cases "sync c" w rule: go_cases) (auto simp: go_simps reconcile_cases split: if_splits)
qed (simp add: go_simps)

lemma run_group: "sync_group sync cs None w = (Ret None, v) \<Longrightarrow> run_components False sync cs w = Some v"
proof (induction cs arbitrary: w)
  case (Cons c cs)
  then show ?case
    by (cases "sync c" w rule: go_cases) (auto simp: go_simps reconcile_cases dest: sync_group_sticky)
qed (simp add: go_simps)

lemma run_addons: "sync_addons sync cs w = (Ret (), v) \<Longrightarrow> run_components True sync cs w = Some v"
  unfolding sync_addons_def
proof (induction cs arbitrary: w)
  case (Cons c cs)
  then show ?case
    by (cases "sync c" w rule: go_cases) (auto simp: go_simps reconcile_cases)
qed (simp add: go_simps)

lemma grp_Wait_run:
  assumes "grp_Wait co sync cs w = (Ret (), v)"
  obtains order where "mset order = mset cs" "run_components False sync order w = Some v"
proof -
  have "sync_group sync (sort_key (co_groupOrder co (kw_calls w)) cs) None w = (Ret None, v)"
    using assms by (auto simp: grp_Wait_def andthen_Ret_iff go_simps lift_err_Ret_iff)
  from that [OF _ run_group [OF this]] show thesis by simp
qed

text \<open>What a pass does before the components.\<close>

definition pass_start :: "options \<Rightarrow> kube_env \<Rightarrow> (string \<Rightarrow> unit km) \<Rightarrow> unit km" where
  "pass_start op env sync =
     seq (map_err (Wrapped ''CreateOrUpdate configmap'') (andthen (config_CreateOrUpdate op env) (\<lambda>_. ret ())))
    (seq (map_err (Wrapped ''CreateOrUpdate certs'') (certs_CreateOrUpdate env))
         (map_err (Wrapped ''Sync etcd'') (sync EtcdComponentType)))"

text \<open>The parts of a pass that returns.\<close>

lemma updateOnecloudCluster_Ret:
  assumes "updateOnecloudCluster op env co sync tm w = (Ret t, w')"
  obtains u2 u3 u4 u5 sum where "pass_start op env sync w = (Ret (), u2)"
    "sync_core (op_StopServices op) sync core_components u2 = (Ret (), u3)" "grp_Wait co sync dependComponents u3 = (Ret (), u4)"
    "sync_addons sync addonComponents u4 = (Ret (), u5)"
    "co_checksum co (oc_Spec (kw_oc u5)) = Inr sum" "kw_oc w' = kw_oc (set_checksum sum u5)"
proof -
  have m: "kw_oc v = kw_oc u" if "checkMysqlSlaveStatus env co u = (r, v)" for u r v
    using keepsD_eq [OF keeps_mysql [of "\<lambda>x. kw_oc x = kw_oc u"] that] by simp
  show thesis
    using assms that
    unfolding updateOnecloudCluster_def pass_start_def andthen_Ret_iff seq_Ret_iff map_err_Ret_iff
    by (fastforce simp: of_sum_def go_simps map_err_Ret_iff andthen_attempt_Ret dest: m split: sum.splits if_splits)
qed

text \<open>
  C6: The checksum in the status says what has been applied. A pass that returns has run, one after the other, the configuration,
  the certificates and etcd without error, then the core components, then the dependent components in some order without error, then
  the addons, whose errors are tolerated; and the checksum it leaves is that of the specification these have ended with. The core
  components have all succeeded, unless the operator runs with \<open>--stop-services\<close>: then their errors are tolerated as well, and the
  checksum only says that they were run. A pass that fails leaves the checksum as it was, as long as no component writes it.
\<close>

theorem checksum_after_success:
  assumes quiet: "\<And>c x. keeps (\<lambda>w. checksum_of w = x) (sync c)"
    and run: "updateOnecloudCluster op env co sync tm w = (r, w')"
  shows "(\<forall>t. r = Ret t \<longrightarrow> (\<exists>u0 u1 u2 u3 order.
            pass_start op env sync w = (Ret (), u0)
          \<and> run_components (op_StopServices op) sync core_components u0 = Some u1
          \<and> mset order = mset dependComponents \<and> run_components False sync order u1 = Some u2
          \<and> run_components True sync addonComponents u2 = Some u3
          \<and> kw_oc w' = kw_oc (set_checksum (checksum_of w') u3) \<and> co_checksum co (oc_Spec (kw_oc u3)) = Inr (checksum_of w')))
    \<and> (\<forall>e. r = Fail e \<longrightarrow> checksum_of w' = checksum_of w)"
proof (intro conjI allI impI)
  fix t assume "r = Ret t"
  with run have "updateOnecloudCluster op env co sync tm w = (Ret t, w')" by simp
  then obtain u0 u1 u2 u3 sum where parts: "pass_start op env sync w = (Ret (), u0)"
    "sync_core (op_StopServices op) sync core_components u0 = (Ret (), u1)" "grp_Wait co sync dependComponents u1 = (Ret (), u2)"
    "sync_addons sync addonComponents u2 = (Ret (), u3)"
    "co_checksum co (oc_Spec (kw_oc u3)) = Inr sum" "kw_oc w' = kw_oc (set_checksum sum u3)"
    by (rule updateOnecloudCluster_Ret)
  obtain order where "mset order = mset dependComponents" "run_components False sync order u1 = Some u2"
    using grp_Wait_run [OF parts(3)] .
  with parts(1,5,6) run_core [OF parts(2)] run_addons [OF parts(4)]
  show "\<exists>u0 u1 u2 u3 order. pass_start op env sync w = (Ret (), u0)
          \<and> run_components (op_StopServices op) sync core_components u0 = Some u1
          \<and> mset order = mset dependComponents \<and> run_components False sync order u1 = Some u2
          \<and> run_components True sync addonComponents u2 = Some u3
          \<and> kw_oc w' = kw_oc (set_checksum (checksum_of w') u3) \<and> co_checksum co (oc_Spec (kw_oc u3)) = Inr (checksum_of w')"
    by (intro exI conjI) (assumption | simp)+
next
  fix e assume "r = Fail e"
  then show "checksum_of w' = checksum_of w"
    using run updateOnecloudCluster_fails [of "checksum_of w" sync w op env co tm, OF quiet refl] by (simp add: fails_in_def)
qed

lemma cluster_attempt_eval:
  "\<exists>e y t rest. cluster_attempt env n st x w = (Ret (e, y), t) \<and> kw_calls t = kw_calls w @ KUpdateOC (fst x) # rest"
proof (cases "ke_updateOC env (kw_calls w) (fst x)")
  case (Inl e)
  then show ?thesis
    by (cases "ke_listOC env (kw_calls w @ [KUpdateOC (fst x)]) n") (simp_all add: cluster_attempt_def go_simps)
qed (simp add: cluster_attempt_def go_simps)

lemma cluster_Retry_eval:
  "\<exists>e y t rest. RetryOnConflict (Suc n) (cluster_attempt env nm st) x w = (Ret (e, y), t)
     \<and> kw_calls t = kw_calls w @ KUpdateOC (fst x) # rest"
proof (induction n arbitrary: x w)
  case 0
  obtain e y t rest where "cluster_attempt env nm st x w = (Ret (e, y), t)" "kw_calls t = kw_calls w @ KUpdateOC (fst x) # rest"
    using cluster_attempt_eval by blast
  then show ?case by (cases e) (simp_all add: go_simps)
next
  case (Suc n)
  obtain e y t rest where s: "cluster_attempt env nm st x w = (Ret (e, y), t)" "kw_calls t = kw_calls w @ KUpdateOC (fst x) # rest"
    using cluster_attempt_eval by blast
  obtain e' y' t' rest' where r: "RetryOnConflict (Suc n) (cluster_attempt env nm st) y t = (Ret (e', y'), t')"
      "kw_calls t' = kw_calls t @ KUpdateOC (fst y) # rest'"
    using Suc.IH by blast
  show ?case
  proof (cases "\<exists>d. e = Some d \<and> is_conflict d")
    case True
    with s r show ?thesis by (auto simp: go_simps simp del: RetryOnConflict.simps(2) simp: RetryOnConflict.simps(2) [of "Suc n"])
  next
    case False
    with s show ?thesis by (cases e) (auto simp: go_simps)
  qed
qed

lemma UpdateCluster_eval:
  "\<exists>e x t rest. UpdateCluster env oc same w = ((case e of None \<Rightarrow> Ret x | Some d \<Rightarrow> Fail d), t)
     \<and> kw_calls t = kw_calls w @ KUpdateOC oc # rest"
proof -
  obtain e y t rest where r: "RetryOnConflict (Suc 4) (cluster_attempt env (om_Name (oc_ObjectMeta oc)) (oc_Status oc)) (oc, None) w = (Ret (e, y), t)"
      "kw_calls t = kw_calls w @ KUpdateOC oc # rest"
    using cluster_Retry_eval [of 4 env "om_Name (oc_ObjectMeta oc)" "oc_Status oc" "(oc, None)" w] by auto
  moreover obtain evs where
    "guarded (\<not> same) (recordClusterEvent env ''update'' (om_Name (oc_ObjectMeta (fst y))) e) t = (Ret (), t\<lparr>kw_calls := kw_calls t @ evs\<rparr>)"
    using guarded_event by blast
  ultimately have "UpdateCluster env oc same w
      = ((case e of None \<Rightarrow> Ret (snd y) | Some d \<Rightarrow> Fail d), t\<lparr>kw_calls := kw_calls w @ KUpdateOC oc # rest @ evs\<rparr>)"
    by (cases e) (simp_all add: UpdateCluster_def DefaultRetry_Steps_def Let_def go_simps eval_nat_numeral
        del: RetryOnConflict.simps)
  then show ?thesis by fastforce
qed

text \<open>
  C38: The status that a pass leaves in memory, when it does not panic, is written to the API server, with the specification in memory, if and only if it
  differs from the status before the pass or the operator runs with \<open>--clear-component\<close>. The errors that are returned are those of the
  pass and of that write, and no others; when both succeed none is returned.
\<close>

theorem status_written_back:
  assumes run: "updateOnecloudCluster op env co sync tm w = (r, v)" "\<forall>p. r \<noteq> Panic p"
  defines "errs \<equiv> (case r of Fail e \<Rightarrow> [e] | _ \<Rightarrow> [])" and "checked \<equiv> (case r of Ret x \<Rightarrow> x | _ \<Rightarrow> tm)"
    and "same \<equiv> co_statusEqual co (oc_Status (kw_oc v)) (oc_Status (kw_oc w))"
  shows "if same \<and> \<not> co_ClearComponent co
    then UpdateOnecloudCluster op env co sync tm w = (Ret (new_aggregate errs, checked), v)
    else \<exists>u w' rest. UpdateCluster env (kw_oc v) same v = (u, w') \<and> (\<forall>p. u \<noteq> Panic p)
           \<and> kw_calls w' = kw_calls v @ KUpdateOC (kw_oc v) # rest
           \<and> UpdateOnecloudCluster op env co sync tm w = (Ret (new_aggregate (errs @ (case u of Fail e \<Rightarrow> [e] | _ \<Rightarrow> [])), checked), w')"
proof -
  obtain u where r: "attempt (updateOnecloudCluster op env co sync tm) w = (Ret u, v)"
      "(case u of Inl e \<Rightarrow> ([e], tm) | Inr t \<Rightarrow> ([], t)) = (errs, checked)"
    using run by (cases r) (auto simp: go_simps errs_def checked_def)
  obtain e x w' rest where c: "UpdateCluster env (kw_oc v) same v = ((case e of None \<Rightarrow> Ret x | Some d \<Rightarrow> Fail d), w')"
      "kw_calls w' = kw_calls v @ KUpdateOC (kw_oc v) # rest"
    using UpdateCluster_eval by blast
  show ?thesis
  proof (cases "same \<and> \<not> co_ClearComponent co")
    case True
    with r show ?thesis by (simp add: UpdateOnecloudCluster_def go_simps same_def)
  next
    case False
    have n: "(co_statusEqual co (oc_Status (kw_oc v)) (oc_Status (kw_oc w)) \<and> \<not> co_ClearComponent co) = False"
      using False unfolding same_def by blast
    from c r have "UpdateOnecloudCluster op env co sync tm w
        = (Ret (new_aggregate (errs @ (case (case e of None \<Rightarrow> Ret x | Some d \<Rightarrow> Fail d) of Fail e \<Rightarrow> [e] | _ \<Rightarrow> [])), checked), w')"
      unfolding UpdateOnecloudCluster_def Let_def
      by (cases e) (simp_all add: go_simps n same_def split: prod.split)
    with c show ?thesis unfolding if_not_P [OF False] by (intro exI conjI) (assumption | simp split: option.split)+
  qed
qed

section \<open>The replication of MySQL\<close>

text \<open>
  C39: When the database of the cluster replicates from a master that is not itself a replica, as in
  ordinary one-way replication, the check panics: the master has no row of slave status, and the check
  writes into the nil map it gets for that.
\<close>

theorem mysql_one_way_panics:
  assumes "my_Host db \<noteq> []" "my_Username db \<noteq> []" "my_Password db \<noteq> []" "spec_Mysql (oc_Spec (kw_oc w)) = db"
    and "co_connect co (my_Host db) = None" "co_connect co master = None" "master \<noteq> []"
    and "co_slaveStatus co (kw_calls w) (my_Host db) = Inr status" "gomap_str status mysqlKeyMasterHost = master"
    and "co_slaveStatus co (kw_calls w @ [KMysql (my_Host db)]) master = Inr None"
  shows "checkMysqlSlaveStatus env co w
    = (Panic ''assignment to entry in nil map'', w\<lparr>kw_calls := kw_calls w @ [KMysql (my_Host db), KMysql master]\<rparr>)"
proof -
  have "status \<noteq> None" "status \<noteq> Some []" using assms(7,9) by (auto simp: gomap_str_def gomap_get_def split: option.splits)
  moreover have "showSlaveStatus co master (w\<lparr>kw_calls := kw_calls w @ [KMysql (my_Host db)]\<rparr>)
      = (Panic ''assignment to entry in nil map'', w\<lparr>kw_calls := kw_calls w @ [KMysql (my_Host db), KMysql master]\<rparr>)"
    using assms(6,10) by (simp add: showSlaveStatus_def go_simps gomap_str_def gomap_get_def Let_def)
  ultimately show ?thesis
    using assms by (simp add: checkMysqlSlaveStatus_def go_simps Let_def)
qed

section \<open>Samples\<close>

definition sample_control :: control_env where
  "sample_control = \<lparr>co_ClearComponent = False, co_statusEqual = (\<lambda>a b. a = b), co_checksum = \<lambda>s. Inr (spec_Version s),
     co_groupOrder = \<lambda>_ _. 0, co_now = \<lambda>_. 0, co_MysqlCheckInterval = 5, co_connect = \<lambda>_. None,
     co_slaveStatus = \<lambda>_ host. if host = ''replica'' then Inr (Some [(mysqlKeyMasterHost, ''master'')]) else Inr None,
     co_notify = \<lambda>_ _. None\<rparr>"

definition sample_sync :: "string \<Rightarrow> unit km" where
  "sample_sync c = (if c = RegionComponentType then fail (Errorf ''no region'') else kcallE (KMcclientSync c) (\<lambda>_. None))"

definition sample_world :: kworld where
  "sample_world = \<lparr>kw_calls = [], kw_oc = zero_OnecloudCluster\<lparr>oc_Spec := zero_OnecloudClusterSpec
     \<lparr>spec_Version := ''v3'', spec_Mysql := \<lparr>my_Host = ''replica'', my_Port = 3306, my_Username = ''root'', my_Password = ''pw''\<rparr>\<rparr>\<rparr>\<rparr>"

theorem mysql_one_way_panics_witness:
  "checkMysqlSlaveStatus quiet_env sample_control sample_world
   = (Panic ''assignment to entry in nil map'', sample_world\<lparr>kw_calls := [KMysql ''replica'', KMysql ''master'']\<rparr>)"
  using mysql_one_way_panics [of "\<lparr>my_Host = ''replica'', my_Port = 3306, my_Username = ''root'', my_Password = ''pw''\<rparr>"
      sample_world sample_control "''master''" "Some [(mysqlKeyMasterHost, ''master'')]" quiet_env]
  by (simp add: sample_world_def sample_control_def gomap_str_def gomap_get_def)

theorem deployment_events_reach_owner_witness:
  "let oc = zero_OnecloudCluster\<lparr>oc_ObjectMeta := new_meta ''default'' ''onecloud'' None None []\<rparr>;
       d = zero_Deployment\<lparr>dep_meta := (new_meta ''default-region'' ''onecloud'' None None [GetOwnerRef oc])\<lparr>om_ResourceVersion := ''2''\<rparr>\<rparr>
   in \<exists>q' key. event_updateDeployment (\<lambda>_. Inr oc) (DeploymentObj zero_Deployment) (DeploymentObj d) new_queue = Ret q'
        \<and> key \<in> wq_dirty q' \<and> SplitMetaNamespaceKey key = Inr (''onecloud'', ''default'')"
proof -
  let ?oc = "zero_OnecloudCluster\<lparr>oc_ObjectMeta := new_meta ''default'' ''onecloud'' None None []\<rparr>"
  let ?d = "zero_Deployment\<lparr>dep_meta := (new_meta ''default-region'' ''onecloud'' None None [GetOwnerRef ?oc])\<lparr>om_ResourceVersion := ''2''\<rparr>\<rparr>"
  have "om_ResourceVersion (dep_meta ?d) \<noteq> om_ResourceVersion (dep_meta zero_Deployment)" by (simp add: zero_Deployment_def new_meta_def)
  with deployment_events_reach_owner [of ?d ?oc "\<lambda>_. Inr ?oc" ?oc new_queue zero_Deployment] show ?thesis
    by (auto simp: new_queue_def GetOwnerRef_def Let_def)
qed

theorem sync_core_order_witness:
  "sync_core False sample_sync ([KeystoneComponentType] @ RegionComponentType # [SchedulerComponentType]) sample_world
   = (Fail (Wrapped (''sync component '' @ quoted RegionComponentType) (Wrapped (''sync '' @ RegionComponentType) (Errorf ''no region''))),
      sample_world\<lparr>kw_calls := [KMcclientSync KeystoneComponentType]\<rparr>)"
proof -
  have "sync_core False sample_sync [KeystoneComponentType] sample_world = (Ret (), sample_world\<lparr>kw_calls := [KMcclientSync KeystoneComponentType]\<rparr>)"
    by (simp add: sample_sync_def sample_world_def go_simps reconcileComponent_def ctypes)
  moreover have "sample_sync RegionComponentType (sample_world\<lparr>kw_calls := [KMcclientSync KeystoneComponentType]\<rparr>)
      = (Fail (Errorf ''no region''), sample_world\<lparr>kw_calls := [KMcclientSync KeystoneComponentType]\<rparr>)"
    by (simp add: sample_sync_def go_simps)
  ultimately show ?thesis using sync_core_order by blast
qed

theorem group_runs_all_witness:
  "\<exists>ord :: range_order. mset (map fst (group_run sample_sync (sort_key ord dependComponents) sample_world)) = mset dependComponents
     \<and> fst (grp_Wait sample_control sample_sync dependComponents sample_world)
       = (case first_error (group_run sample_sync (sort_key ord dependComponents) sample_world) of None \<Rightarrow> Ret () | Some e \<Rightarrow> Fail e)"
proof -
  have "\<forall>c s p t. sample_sync c s \<noteq> (Panic p, t)" by (auto simp: sample_sync_def go_simps)
  from group_runs_all [OF this, of dependComponents sample_world sample_control] show ?thesis by (auto simp: Let_def)
qed

text \<open>A pass in which every component succeeds.\<close>

lemma components_idle:
  "sync_core stop (\<lambda>_. ret ()) cs w = (Ret (), w)" "sync_group (\<lambda>_. ret ()) cs None w = (Ret None, w)"
  by (induction cs) (simp_all add: go_simps reconcileComponent_def)

lemma certs_found: "\<exists>v. certs_CreateOrUpdate config_env w = (Ret (), v)"
  by (simp add: certs_CreateOrUpdate_def config_env_def quiet_env_def go_simps Let_def)

lemma idle_pass:
  "\<exists>w'. updateOnecloudCluster (config_op j) config_env (sample_control\<lparr>co_ClearComponent := b\<rparr>) (\<lambda>_. ret ()) 0 w = (Ret 0, w')"
proof -
  obtain cfg u where "config_CreateOrUpdate (config_op j) config_env w = (Ret cfg, u)" using config_run_ok by blast
  moreover obtain v where "certs_CreateOrUpdate config_env u = (Ret (), v)" using certs_found by blast
  ultimately show ?thesis
    by (simp add: updateOnecloudCluster_def go_simps components_idle grp_Wait_def sync_addons_def addonComponents_def
        reconcileComponent_def of_sum_def) (simp add: sample_control_def go_simps)
qed

theorem checksum_after_success_witness:
  "\<forall>j. \<exists>w' u0 u3. updateOnecloudCluster (config_op j) config_env sample_control (\<lambda>_. ret ()) 0 sample_world = (Ret 0, w')
      \<and> pass_start (config_op j) config_env (\<lambda>_. ret ()) sample_world = (Ret (), u0)
      \<and> run_components True (\<lambda>_. ret ()) addonComponents u0 = Some u3 \<and> co_checksum sample_control (oc_Spec (kw_oc u3)) = Inr (checksum_of w')"
proof
  fix j
  obtain w' where run: "updateOnecloudCluster (config_op j) config_env sample_control (\<lambda>_. ret ()) 0 sample_world = (Ret 0, w')"
    using idle_pass [of j False sample_world] by (auto simp: sample_control_def)
  have idle: "run_components b (\<lambda>_. ret ()) cs w = Some w" for b cs w by (induction cs) (simp_all add: go_simps)
  have "keeps (\<lambda>w. checksum_of w = x) (ret ())" for x by (rule keeps_intros)
  from checksum_after_success [OF this run] run idle
  show "\<exists>w' u0 u3. updateOnecloudCluster (config_op j) config_env sample_control (\<lambda>_. ret ()) 0 sample_world = (Ret 0, w')
      \<and> pass_start (config_op j) config_env (\<lambda>_. ret ()) sample_world = (Ret (), u0)
      \<and> run_components True (\<lambda>_. ret ()) addonComponents u0 = Some u3 \<and> co_checksum sample_control (oc_Spec (kw_oc u3)) = Inr (checksum_of w')"
    by auto
qed

theorem status_written_back_witness:
  "\<forall>j. \<exists>v w' rest. updateOnecloudCluster (config_op j) config_env (sample_control\<lparr>co_ClearComponent := True\<rparr>) (\<lambda>_. ret ()) 0 sample_world = (Ret 0, v)
      \<and> UpdateOnecloudCluster (config_op j) config_env (sample_control\<lparr>co_ClearComponent := True\<rparr>) (\<lambda>_. ret ()) 0 sample_world
        = (Ret (None, 0), w') \<and> kw_calls w' = kw_calls v @ KUpdateOC (kw_oc v) # rest"
proof
  fix j
  let ?co = "sample_control\<lparr>co_ClearComponent := True\<rparr>"
  obtain v where run: "updateOnecloudCluster (config_op j) config_env ?co (\<lambda>_. ret ()) 0 sample_world = (Ret 0, v)"
    using idle_pass by blast
  have saved: "\<exists>x. fst (UpdateCluster config_env oc b u) = Ret x" for oc b u
    by (simp add: UpdateCluster_def cluster_attempt_def config_env_def quiet_env_def recordClusterEvent_def DefaultRetry_Steps_def eval_nat_numeral Let_def go_simps guarded_def)
  from status_written_back [OF run] obtain u w' rest where
    u: "UpdateCluster config_env (kw_oc v) (co_statusEqual ?co (oc_Status (kw_oc v)) (oc_Status (kw_oc sample_world))) v = (u, w')"
      "kw_calls w' = kw_calls v @ KUpdateOC (kw_oc v) # rest"
      "UpdateOnecloudCluster (config_op j) config_env ?co (\<lambda>_. ret ()) 0 sample_world
        = (Ret (new_aggregate (case u of Fail e \<Rightarrow> [e] | _ \<Rightarrow> []), 0), w')" by auto
  obtain x where "u = Ret x" using saved [of "kw_oc v"] u(1) by (metis fst_conv)
  with run u(2,3) show "\<exists>v w' rest. updateOnecloudCluster (config_op j) config_env ?co (\<lambda>_. ret ()) 0 sample_world = (Ret 0, v)
      \<and> UpdateOnecloudCluster (config_op j) config_env ?co (\<lambda>_. ret ()) 0 sample_world
        = (Ret (None, 0), w') \<and> kw_calls w' = kw_calls v @ KUpdateOC (kw_oc v) # rest"
    by (auto simp: new_aggregate_def)
qed

end
