(* ===== verification/Volumes.thy ===== *)
theory Volumes
  imports Etcd_Pod
begin

text \<open>
  The volumes of the workloads (\<open>pkg/manager/component/utils.go\<close>): \<open>VolumeHelper\<close> collects volumes and
  the mounts that refer to them by name, one constructor per family of workloads. The laws show that
  each helper is consistent: names are distinct and every mount has its volume.
\<close>

section \<open>Volumes and mounts\<close>

definition HostPathDirectory :: string where
  "HostPathDirectory = ''Directory''"

definition HostPathDirectoryOrCreate :: string where
  "HostPathDirectoryOrCreate = ''DirectoryOrCreate''"

definition MountPropagationBidirectional :: string where
  "MountPropagationBidirectional = ''Bidirectional''"

definition host_volume :: "string \<Rightarrow> string \<Rightarrow> string \<Rightarrow> Volume" where
  "host_volume name p typ = \<lparr>vol_Name = name, vol_Source = VolHostPath p typ\<rparr>"

definition rw_mount :: "string \<Rightarrow> string \<Rightarrow> VolumeMount" where
  "rw_mount name p = \<lparr>vm_Name = name, vm_ReadOnly = False, vm_MountPath = p, vm_MountPropagation = None\<rparr>"

definition ro_mount :: "string \<Rightarrow> string \<Rightarrow> VolumeMount" where
  "ro_mount name p = \<lparr>vm_Name = name, vm_ReadOnly = True, vm_MountPath = p, vm_MountPropagation = None\<rparr>"

definition shared_mount :: "string \<Rightarrow> string \<Rightarrow> VolumeMount" where
  "shared_mount name p =
     \<lparr>vm_Name = name, vm_ReadOnly = False, vm_MountPath = p, vm_MountPropagation = Some MountPropagationBidirectional\<rparr>"

text \<open>The secret with the certificates of the services, and the config map of a component under a file name.\<close>

definition certs_volume :: "OnecloudCluster \<Rightarrow> Volume" where
  "certs_volume oc = \<lparr>vol_Name = VolumeCertsName, vol_Source = VolSecret (ClustercertSecretName oc)
     [(CACertName, CACertName), (ServiceCertName, ServiceCertName), (ServiceKeyName, ServiceKeyName)]\<rparr>"

definition config_volume :: "string \<Rightarrow> string \<Rightarrow> Volume" where
  "config_volume cfgMap p =
     \<lparr>vol_Name = VolumeConfigName, vol_Source = VolConfigMap cfgMap [(VolumeConfigName, p)]\<rparr>"

section \<open>The volume helper\<close>

record VolumeHelper =
  vh_cluster :: OnecloudCluster
  vh_optionCfgMap :: string
  vh_component :: string
  vh_volumes :: "Volume list"
  vh_volumeMounts :: "VolumeMount list"

definition empty_helper :: "OnecloudCluster \<Rightarrow> string \<Rightarrow> string \<Rightarrow> VolumeHelper" where
  "empty_helper oc optCfgMap component =
     \<lparr>vh_cluster = oc, vh_optionCfgMap = optCfgMap, vh_component = component, vh_volumes = [], vh_volumeMounts = []\<rparr>"

definition add_volumes :: "Volume list \<Rightarrow> VolumeMount list \<Rightarrow> VolumeHelper \<Rightarrow> VolumeHelper" where
  "add_volumes vs ms h = h\<lparr>vh_volumes := vh_volumes h @ vs, vh_volumeMounts := vh_volumeMounts h @ ms\<rparr>"

definition NewVolumeHelper :: "OnecloudCluster \<Rightarrow> string \<Rightarrow> string \<Rightarrow> VolumeHelper" where
  "NewVolumeHelper oc optCfgMap component =
     (let h = add_volumes [certs_volume oc] [ro_mount VolumeCertsName CertDir] (empty_helper oc optCfgMap component)
      in if optCfgMap \<noteq> []
         then add_volumes [config_volume optCfgMap (component @ ''.conf'')] [ro_mount VolumeConfigName ConfigDir] h
         else h)"

definition addVmwareVolumes :: "VolumeHelper \<Rightarrow> VolumeHelper" where
  "addVmwareVolumes =
     add_volumes [host_volume ''var-run-vmware'' ''/var/run/vmware'' HostPathDirectoryOrCreate]
       [shared_mount ''var-run-vmware'' ''/var/run/vmware'']"

definition addOnecloudVolumes :: "VolumeHelper \<Rightarrow> VolumeHelper" where
  "addOnecloudVolumes =
     add_volumes [host_volume ''var-run-onecloud'' ''/var/run/onecloud'' HostPathDirectoryOrCreate]
       [shared_mount ''var-run-onecloud'' ''/var/run/onecloud'']"

definition etcd_tls_enabled :: "OnecloudCluster \<Rightarrow> bool" where
  "etcd_tls_enabled oc = (let e = spec_Etcd (oc_Spec oc) in \<not> etcd_Disable e \<and> etcd_EnableTls e \<noteq> Some False)"

definition addEtcdClientTLSVolumes :: "OnecloudCluster \<Rightarrow> VolumeHelper \<Rightarrow> VolumeHelper" where
  "addEtcdClientTLSVolumes oc h =
     (if etcd_tls_enabled oc
      then add_volumes [\<lparr>vol_Name = EtcdClientSecret, vol_Source = VolSecret EtcdClientSecret []\<rparr>]
             [ro_mount EtcdClientSecret EtcdClientTLSDir] h
      else h)"

definition NewVolumeHelperWithEtcdTLS :: "OnecloudCluster \<Rightarrow> string \<Rightarrow> string \<Rightarrow> VolumeHelper" where
  "NewVolumeHelperWithEtcdTLS oc optCfgMap component =
     addEtcdClientTLSVolumes oc (NewVolumeHelper oc optCfgMap component)"

definition getVolumeMount :: "VolumeMount list \<Rightarrow> string \<Rightarrow> VolumeMount option" where
  "getVolumeMount volumeMounts name = find (\<lambda>vm. vm_Name vm = name) volumeMounts"

definition GetConfigVolumeMount :: "VolumeMount list \<Rightarrow> VolumeMount option" where
  "GetConfigVolumeMount volMounts = getVolumeMount volMounts VolumeConfigName"

definition addLibModulesVolume :: "VolumeHelper \<Rightarrow> VolumeHelper" where
  "addLibModulesVolume =
     add_volumes [host_volume ''lib-modules'' ''/lib/modules'' HostPathDirectoryOrCreate]
       [rw_mount ''lib-modules'' ''/lib/modules'']"

definition addOvsVolumes :: "VolumeHelper \<Rightarrow> VolumeHelper" where
  "addOvsVolumes =
     add_volumes
       [host_volume ''var-run-openvswitch'' ''/var/run/openvswitch'' HostPathDirectoryOrCreate,
        host_volume ''var-log-openvswitch'' ''/var/log/openvswitch'' HostPathDirectoryOrCreate,
        host_volume ''etc-openvswitch'' ''/etc/openvswitch'' HostPathDirectoryOrCreate]
       [rw_mount ''var-run-openvswitch'' ''/var/run/openvswitch'',
        rw_mount ''var-log-openvswitch'' ''/var/log/openvswitch'',
        rw_mount ''etc-openvswitch'' ''/etc/openvswitch'']"

definition NewHostVolume :: "string \<Rightarrow> OnecloudCluster \<Rightarrow> string \<Rightarrow> VolumeHelper" where
  "NewHostVolume cType oc configMap =
     addEtcdClientTLSVolumes oc (addOvsVolumes (addVmwareVolumes (addOnecloudVolumes
      (add_volumes
        [host_volume ''etc-yunion'' ''/etc/yunion'' HostPathDirectory,
         certs_volume oc,
         config_volume configMap ''common.conf'',
         host_volume ''cloud'' ''/opt/cloud'' HostPathDirectory,
         host_volume ''usr'' ''/usr/local'' HostPathDirectory,
         host_volume ''dev'' ''/dev'' HostPathDirectory,
         host_volume ''sys'' ''/sys'' HostPathDirectory,
         host_volume ''tmp'' ''/tmp'' HostPathDirectory]
        [rw_mount ''etc-yunion'' ''/etc/yunion'',
         ro_mount VolumeCertsName CertDir,
         ro_mount VolumeConfigName (path_Join [ConfigDir, ''common'']),
         shared_mount ''cloud'' ''/opt/cloud'',
         rw_mount ''usr'' ''/usr/local'',
         rw_mount ''dev'' ''/dev'',
         rw_mount ''sys'' ''/sys'',
         shared_mount ''tmp'' ''/tmp'']
        (empty_helper oc configMap cType)))))"

definition NewOvsVolumeHelper :: "string \<Rightarrow> OnecloudCluster \<Rightarrow> string \<Rightarrow> VolumeHelper" where
  "NewOvsVolumeHelper cType oc configMap = addLibModulesVolume (addOvsVolumes (empty_helper oc configMap cType))"

definition NewHostImageVolumeHelper :: "string \<Rightarrow> OnecloudCluster \<Rightarrow> string \<Rightarrow> VolumeHelper" where
  "NewHostImageVolumeHelper cType oc configMap =
     addOnecloudVolumes
      (add_volumes
        [host_volume ''etc-yunion'' ''/etc/yunion'' HostPathDirectory,
         certs_volume oc,
         config_volume configMap ''common.conf'']
        [rw_mount ''etc-yunion'' ''/etc/yunion'',
         ro_mount VolumeCertsName CertDir,
         ro_mount VolumeConfigName (path_Join [ConfigDir, ''common''])]
        (empty_helper oc configMap cType))"

definition NewHostDeployerVolume :: "string \<Rightarrow> OnecloudCluster \<Rightarrow> string \<Rightarrow> VolumeHelper" where
  "NewHostDeployerVolume cType oc configMap =
     addVmwareVolumes (addOnecloudVolumes
      (add_volumes
        [host_volume ''etc-yunion'' ''/etc/yunion'' HostPathDirectoryOrCreate,
         config_volume configMap ''common.conf'',
         host_volume ''cloud'' ''/opt/cloud'' HostPathDirectoryOrCreate,
         host_volume ''dev'' ''/dev'' HostPathDirectory,
         host_volume ''usr'' ''/usr/local'' HostPathDirectory,
         host_volume ''sys'' ''/sys'' HostPathDirectory]
        [rw_mount ''etc-yunion'' ''/etc/yunion'',
         ro_mount VolumeConfigName (path_Join [ConfigDir, ''common'']),
         shared_mount ''cloud'' ''/opt/cloud'',
         rw_mount ''usr'' ''/usr/local'',
         rw_mount ''dev'' ''/dev'',
         rw_mount ''sys'' ''/sys'']
        (empty_helper oc configMap cType)))"

section \<open>Volume claims\<close>

record PVCVolumePair =
  pvp_name :: string
  pvp_mountPath :: string
  pvp_claimName :: string
  pvp_component :: string

definition NewPVCVolumePair :: "string \<Rightarrow> string \<Rightarrow> OnecloudCluster \<Rightarrow> string \<Rightarrow> PVCVolumePair" where
  "NewPVCVolumePair name mountPath oc component =
     \<lparr>pvp_name = name, pvp_mountPath = mountPath,
      pvp_claimName = NewClusterComponentName (om_Name (oc_ObjectMeta oc)) component, pvp_component = component\<rparr>"

definition pvp_GetVolume :: "PVCVolumePair \<Rightarrow> Volume" where
  "pvp_GetVolume p = \<lparr>vol_Name = pvp_name p, vol_Source = VolPVC (pvp_claimName p) False\<rparr>"

definition pvp_GetVolumeMount :: "PVCVolumePair \<Rightarrow> VolumeMount" where
  "pvp_GetVolumeMount p = rw_mount (pvp_name p) (pvp_mountPath p)"

section \<open>Laws\<close>

text \<open>
  A list of volumes and the mounts that go with it: no two volumes have one name, no two mounts one
  path, and every mount refers to a volume of the list.
\<close>

definition mounts_ok :: "Volume list \<Rightarrow> VolumeMount list \<Rightarrow> bool" where
  "mounts_ok vs ms \<longleftrightarrow> distinct (map vol_Name vs) \<and> distinct (map vm_MountPath ms)
     \<and> list_all (\<lambda>m. vm_Name m \<in> vol_Name ` set vs) ms"

lemmas volume_defs =
  host_volume_def rw_mount_def ro_mount_def shared_mount_def certs_volume_def config_volume_def
  add_volumes_def empty_helper_def

lemmas helper_defs =
  addVmwareVolumes_def addOnecloudVolumes_def addEtcdClientTLSVolumes_def addLibModulesVolume_def addOvsVolumes_def
  NewVolumeHelper_def NewVolumeHelperWithEtcdTLS_def NewHostVolume_def NewOvsVolumeHelper_def
  NewHostImageVolumeHelper_def NewHostDeployerVolume_def

lemma path_Join_common: "path_Join [''/etc/yunion'', ''common''] = ''/etc/yunion/common''"
  by code_simp

definition helper_ok :: "VolumeHelper \<Rightarrow> bool" where
  "helper_ok h \<longleftrightarrow> mounts_ok (vh_volumes h) (vh_volumeMounts h)"

lemma helpers_ok:
  "helper_ok (NewVolumeHelper oc cm c)"
  "helper_ok (NewVolumeHelperWithEtcdTLS oc cm c)"
  "helper_ok (NewHostVolume c oc cm)"
  "helper_ok (NewOvsVolumeHelper c oc cm)"
  "helper_ok (NewHostImageVolumeHelper c oc cm)"
  "helper_ok (NewHostDeployerVolume c oc cm)"
  by (simp_all add: helper_ok_def mounts_ok_def helper_defs volume_defs path_Join_common oc_consts Let_def)

text \<open>Adding a volume of a new name with its mount at a new path keeps the lists consistent.\<close>

lemma mounts_ok_add:
  assumes "mounts_ok vs ms" and "vol_Name v \<notin> vol_Name ` set vs"
    and "vm_Name m = vol_Name v" and "vm_MountPath m \<notin> vm_MountPath ` set ms"
  shows "mounts_ok (vs @ [v]) (ms @ [m])"
  using assms by (auto simp: mounts_ok_def list_all_iff)

end
