(* ===== verification/Workloads.thy ===== *)
theory Workloads
  imports Volumes Sync_Objects
begin

text \<open>
  The builders of workloads (\<open>pkg/manager/component/component.go\<close>): services, config maps, deployments
  and their read-only replicas, daemon sets, cron jobs, volume claims, probes and resources. A pointer
  into the specification of the cluster object is a pair of its reader and its update; a builder that
  writes through such a pointer is a program on the state. The labels of an object, of its template and
  its selector are one Go map; the builders here do not write it after it is made.
\<close>

type_synonym 'a ref_oc = "(OnecloudCluster \<Rightarrow> 'a) \<times> (('a \<Rightarrow> 'a) \<Rightarrow> OnecloudCluster \<Rightarrow> OnecloudCluster)"

definition deref :: "'a ref_oc \<Rightarrow> 'a km" where
  "deref r = gets (\<lambda>w. fst r (kw_oc w))"

definition write_ref :: "'a ref_oc \<Rightarrow> ('a \<Rightarrow> 'a) \<Rightarrow> unit km" where
  "write_ref r f = modify (kw_oc_update (snd r f))"

type_synonym containers_factory = "VolumeMount list \<Rightarrow> Container list"

section \<open>Names, labels and config maps\<close>

definition getObjectMeta :: "OnecloudCluster \<Rightarrow> string \<Rightarrow> strmap \<Rightarrow> ObjectMeta" where
  "getObjectMeta oc name labels =
     new_meta name (om_Namespace (oc_ObjectMeta oc)) (Some labels) None [GetOwnerRef oc]"

definition getComponentLabel :: "OnecloudCluster \<Rightarrow> string \<Rightarrow> bool \<Rightarrow> Label" where
  "getComponentLabel oc componentType readOnly =
     label_Component componentType readOnly
       (label_Instance (gomap_str (om_Labels (oc_ObjectMeta oc)) InstanceLabelKey) label_New)"

definition getZoneComponent :: "string \<Rightarrow> string \<Rightarrow> string" where
  "getZoneComponent component zone = (if zone = [] then component else component @ ''-'' @ zone)"

definition newConfigMap :: "string \<Rightarrow> string \<Rightarrow> OnecloudCluster \<Rightarrow> string \<Rightarrow> ConfigMap" where
  "newConfigMap componentType zone oc config =
     \<lparr>cm_meta = getObjectMeta oc (ComponentConfigMapName oc (getZoneComponent componentType zone))
                  (label_Zone zone (getComponentLabel oc componentType False)),
      cm_Data = Some [(''config'', config)]\<rparr>"

definition newServiceConfigMap ::
  "options \<Rightarrow> string \<Rightarrow> string \<Rightarrow> string \<Rightarrow> svc_options \<Rightarrow> ConfigMap km" where
  "newServiceConfigMap op cType zone serviceType opt =
     gets (\<lambda>w. newConfigMap cType zone (kw_oc w) (op_yaml op (kw_calls w) serviceType opt))"

definition shouldSyncConfigmap ::
  "options \<Rightarrow> kube_env \<Rightarrow> string \<Rightarrow> string \<Rightarrow> svc_options \<Rightarrow> (string \<Rightarrow> bool) option \<Rightarrow> (ConfigMap \<times> bool) km" where
  "shouldSyncConfigmap op env ct serviceType opt cond =
     andthen (newServiceConfigMap op ct [] serviceType opt) (\<lambda>cfgMap.
     let name = om_Name (cm_meta cfgMap)
     in andthen (attempt (kcall (KGet ConfigMapKind name) (\<lambda>h. ke_getConfigMap env h name))) (\<lambda>r.
        ret (cfgMap, case r of
           Inl _ \<Rightarrow> False
         | Inr old \<Rightarrow> (case gomap_get (cm_Data old) ''config'' of
              None \<Rightarrow> False
            | Some optStr \<Rightarrow> (case cond of None \<Rightarrow> False | Some p \<Rightarrow> p optStr)))))"

section \<open>Services\<close>

definition NewServiceNodePort :: "string \<Rightarrow> bool \<Rightarrow> int \<Rightarrow> int \<Rightarrow> ServicePort" where
  "NewServiceNodePort name internalOnly nodePort targetPort =
     \<lparr>sp_Name = name, sp_Protocol = ''TCP'', sp_Port = nodePort, sp_TargetPort = targetPort,
      sp_NodePort = (if internalOnly then 0 else nodePort)\<rparr>"

definition newServiceWithClusterIp ::
  "string \<Rightarrow> OnecloudCluster \<Rightarrow> string \<Rightarrow> ServicePort list \<Rightarrow> string \<Rightarrow> bool \<Rightarrow> CoreService" where
  "newServiceWithClusterIp componentType oc serviceType ports clusterIp readOnly =
     (let svcName0 = NewClusterComponentName (om_Name (oc_ObjectMeta oc)) componentType;
          appLabel = getComponentLabel oc componentType readOnly;
          svcName = (if readOnly then svcName0 @ ''-slave'' else svcName0);
          typ = (if readOnly then ''ClusterIP'' else serviceType);
          ps = (if readOnly then map (\<lambda>p. p\<lparr>sp_NodePort := 0\<rparr>) ports else ports)
      in \<lparr>svc_meta = getObjectMeta oc svcName appLabel,
          svc_Spec = \<lparr>css_Type = typ, css_Selector = Some appLabel, css_Ports = ps, css_ClusterIP = clusterIp,
                      css_PublishNotReadyAddresses = False\<rparr>\<rparr>)"

definition newService :: "string \<Rightarrow> OnecloudCluster \<Rightarrow> string \<Rightarrow> ServicePort list \<Rightarrow> bool \<Rightarrow> CoreService" where
  "newService componentType oc serviceType ports readOnly =
     newServiceWithClusterIp componentType oc serviceType ports [] readOnly"

definition newNodePortService ::
  "string \<Rightarrow> OnecloudCluster \<Rightarrow> bool \<Rightarrow> ServicePort list \<Rightarrow> bool \<Rightarrow> CoreService list" where
  "newNodePortService cType oc internalOnly ports roService =
     (let svcType = (if internalOnly then ''ClusterIP'' else ''NodePort'')
      in newService cType oc svcType ports False # (if roService then [newService cType oc svcType ports True] else []))"

definition newSinglePortService ::
  "string \<Rightarrow> OnecloudCluster \<Rightarrow> bool \<Rightarrow> int \<Rightarrow> int \<Rightarrow> bool \<Rightarrow> CoreService list" where
  "newSinglePortService cType oc internalOnly nodePort targetPort roService =
     newNodePortService cType oc internalOnly [NewServiceNodePort ''api'' internalOnly nodePort targetPort] roService"

definition newSingleNodePortService :: "string \<Rightarrow> OnecloudCluster \<Rightarrow> int \<Rightarrow> int \<Rightarrow> bool \<Rightarrow> CoreService list" where
  "newSingleNodePortService cType oc nodePort targetPort roService =
     newSinglePortService cType oc False nodePort targetPort roService"

section \<open>Resources\<close>

definition IsNodeReady :: "Node \<Rightarrow> bool" where
  "IsNodeReady n = (case find (\<lambda>c. pc_Type c = ''Ready'') (nd_Conditions n) of
     None \<Rightarrow> False | Some c \<Rightarrow> pc_Status c = ''True'')"

text \<open>\<open>ke_listNodes\<close> answers for the nodes with the label of a master.\<close>

definition GetReadyMasterNodes :: "kube_env \<Rightarrow> Node list km" where
  "GetReadyMasterNodes env = andthen (kcall KNode (ke_listNodes env)) (\<lambda>nodes. ret (filter IsNodeReady nodes))"

definition getNodeCapacity :: "Node \<Rightarrow> goerr + int \<times> int" where
  "getNodeCapacity node =
     (case nd_CPU node of
        None \<Rightarrow> Inl (Errorf ''node cpu as int64'')
      | Some cpu \<Rightarrow> (case nd_Memory node of
            None \<Rightarrow> Inl (Errorf ''node memory as int64'')
          | Some mem \<Rightarrow> Inr (cpu, mem)))"

text \<open>
  \<open>fmt.Sprintf("%f", float64(n)/3.0)\<close> for a number of processors (not negative, and far below the
  \<open>10\<^sup>8\<close> from which the nearest float would show in the six digits).
\<close>

definition third_text :: "int \<Rightarrow> string" where
  "third_text n = show_int (n div 3) @
     (if n mod 3 = 0 then ''.000000'' else if n mod 3 = 1 then ''.333333'' else ''.666667'')"

definition default_memory_MB :: "int \<Rightarrow> int" where
  "default_memory_MB memBytes = (let mb = memBytes div 1000 div 1000 div 16 in if mb < 512 then 512 else mb)"

text \<open>
  The limits of a container that has none: a third of the processors and a sixteenth of the memory of a
  master node. Without a ready master node the error wrapped is nil, so there is neither a limit nor an
  error.
\<close>

definition getDefaultResourceLimits :: "options \<Rightarrow> kube_env \<Rightarrow> (raw option \<times> raw option) km" where
  "getDefaultResourceLimits op env =
     andthen (map_err (Wrapped ''get ready master nodes'') (GetReadyMasterNodes env)) (\<lambda>nodes. case nodes of
       [] \<Rightarrow> ret (None, None)
     | node # _ \<Rightarrow>
         andthen (map_err (Wrapped (''get node '' @ om_Name (nd_meta node) @ '' capacity'')) (of_sum (getNodeCapacity node))) (\<lambda>(cpu, mem).
         let defCPUStr = third_text cpu; defMemMBStr = show_int (default_memory_MB mem) @ ''Mi''
         in andthen (map_err (Wrapped (''parse cpu '' @ defCPUStr)) (of_sum (op_parseQuantity op defCPUStr))) (\<lambda>defCPU.
            andthen (map_err (Wrapped (''parse mem '' @ defMemMBStr)) (of_sum (op_parseQuantity op defMemMBStr))) (\<lambda>defMem.
            ret (Some defCPU, Some defMem)))))"

definition set_resource :: "string \<Rightarrow> raw \<Rightarrow> raw \<Rightarrow> Container \<Rightarrow> Container" where
  "set_resource key lim req c = c\<lparr>ct_Resources :=
     \<lparr>rr_Limits = gomap_set key lim (rr_Limits (ct_Resources c)), rr_Requests = gomap_set key req (rr_Requests (ct_Resources c))\<rparr>\<rparr>"

definition setPodSpecResources :: "string \<Rightarrow> raw option \<Rightarrow> raw option \<Rightarrow> PodSpec \<Rightarrow> PodSpec" where
  "setPodSpecResources key iLimit iReq spec =
     (case (iLimit, iReq) of
        (Some lim, Some req) \<Rightarrow> spec\<lparr>ps_Containers := map (set_resource key lim req) (ps_Containers spec)\<rparr>
      | _ \<Rightarrow> spec)"

definition clear_resources :: "ResourceRequirement \<Rightarrow> ResourceRequirement" where
  "clear_resources r = r\<lparr>rq_CPU := None, rq_Memory := None\<rparr>"

definition fill_resources :: "raw option \<Rightarrow> raw option \<Rightarrow> ResourceRequirement \<Rightarrow> ResourceRequirement" where
  "fill_resources cpu mem r =
     r\<lparr>rq_CPU := (if rq_CPU r = None then cpu else rq_CPU r), rq_Memory := (if rq_Memory r = None then mem else rq_Memory r)\<rparr>"

definition ptr_or_new :: "ResourceRequirement option \<Rightarrow> ResourceRequirement" where
  "ptr_or_new r = (case r of None \<Rightarrow> zero_ResourceRequirement | Some x \<Rightarrow> x)"

text \<open>A quantity that cannot be parsed is the zero quantity where the error is dropped.\<close>

definition quantity_or_zero :: "options \<Rightarrow> string \<Rightarrow> raw" where
  "quantity_or_zero op s = (case op_parseQuantity op s of Inr q \<Rightarrow> q | Inl _ \<Rightarrow> ''0'')"

text \<open>
  \<open>setContainerResources\<close> writes the container specification of the cluster object as well as the
  containers; the specification comes back first, also with an error.
\<close>

definition setContainerResources ::
  "options \<Rightarrow> kube_env \<Rightarrow> bool \<Rightarrow> ContainerSpec \<Rightarrow> PodSpec \<Rightarrow> (goerr option \<times> ContainerSpec \<times> PodSpec) km" where
  "setContainerResources op env disable spec templateSpec =
     (if disable
      then ret (None, spec\<lparr>cs_Limits := map_option clear_resources (cs_Limits spec),
                           cs_Requests := map_option clear_resources (cs_Requests spec)\<rparr>, templateSpec)
      else let limits = ptr_or_new (cs_Limits spec)
           in andthen (attempt (getDefaultResourceLimits op env)) (\<lambda>r. case r of
                Inl e \<Rightarrow> ret (Some (Wrapped ''get default cpu and memory limits'' e), spec\<lparr>cs_Limits := Some limits\<rparr>, templateSpec)
              | Inr (cpu, mem) \<Rightarrow>
                  let lim = fill_resources cpu mem limits;
                      req = fill_resources (Some (quantity_or_zero op ''0.01'')) (Some (quantity_or_zero op ''10Mi'')) (ptr_or_new (cs_Requests spec))
                  in ret (None, spec\<lparr>cs_Limits := Some lim, cs_Requests := Some req\<rparr>,
                          setPodSpecResources ''memory'' (rq_Memory lim) (rq_Memory req)
                            (setPodSpecResources ''cpu'' (rq_CPU lim) (rq_CPU req) templateSpec))))"

section \<open>Deployments\<close>

definition zero_DeploymentStatus_apps :: AppsDeploymentStatus where
  "zero_DeploymentStatus_apps =
     \<lparr>ads_ObservedGeneration = 0, ads_Replicas = 0, ads_UpdatedReplicas = 0, ads_AvailableReplicas = 0, ads_Conditions = []\<rparr>"

definition controller_selector :: "NodeSelectorRequirement list list" where
  "controller_selector = [[\<lparr>nsr_Key = OnecloudControllerLabelKey, nsr_Operator = ''In'', nsr_Values = [''enable'']\<rparr>]]"

definition empty_NodeAffinity :: NodeAffinity where
  "empty_NodeAffinity = \<lparr>na_Required = None, na_Preferred = []\<rparr>"

definition aff_or_new :: "Affinity option \<Rightarrow> Affinity" where
  "aff_or_new a = (case a of None \<Rightarrow> empty_Affinity | Some x \<Rightarrow> x)"

definition SetComponentAffinity :: "options \<Rightarrow> DeploymentSpec \<Rightarrow> DeploymentSpec" where
  "SetComponentAffinity op spec =
     (let a = aff_or_new (ds_Affinity spec);
          n = (case aff_NodeAffinity a of None \<Rightarrow> empty_NodeAffinity | Some x \<Rightarrow> x);
          n' = (if op_DisableNodeSelectorController op then n else n\<lparr>na_Required := Some controller_selector\<rparr>)
      in spec\<lparr>ds_Affinity := Some (a\<lparr>aff_NodeAffinity := Some n'\<rparr>)\<rparr>)"

definition cloud_affinity :: "options \<Rightarrow> DeploymentSpec \<Rightarrow> DeploymentSpec" where
  "cloud_affinity op spec =
     (let a = aff_or_new (ds_Affinity spec)
      in spec\<lparr>ds_Affinity := Some (if aff_NodeAffinity a = None \<and> \<not> op_DisableNodeSelectorController op
           then a\<lparr>aff_NodeAffinity := Some (empty_NodeAffinity\<lparr>na_Required := Some controller_selector\<rparr>)\<rparr> else a)\<rparr>)"

definition call_factory :: "containers_factory option \<Rightarrow> VolumeMount list \<Rightarrow> Container list" where
  "call_factory f volMounts = (case f of None \<Rightarrow> [] | Some g \<Rightarrow> g volMounts)"

definition deployment_pod ::
  "VolumeHelper \<Rightarrow> DeploymentSpec \<Rightarrow> containers_factory option \<Rightarrow> containers_factory option \<Rightarrow> bool \<Rightarrow> string \<Rightarrow> PodSpec" where
  "deployment_pod volHelper spec initContainersFactory containersFactory hostNetwork dnsPolicy =
     zero_PodSpec\<lparr>ps_Affinity := ds_Affinity spec, ps_NodeSelector := ds_NodeSelector spec, ps_RestartPolicy := ''Always'',
       ps_Tolerations := ds_Tolerations spec, ps_Volumes := vh_volumes volHelper, ps_HostNetwork := hostNetwork,
       ps_DNSPolicy := dnsPolicy, ps_DNSConfig := ds_DNSConfig spec, ps_ImagePullSecrets := ds_ImagePullSecrets spec,
       ps_InitContainers := call_factory initContainersFactory (vh_volumeMounts volHelper),
       ps_Containers := call_factory containersFactory (vh_volumeMounts volHelper)\<rparr>"

definition newDeployment ::
  "options \<Rightarrow> kube_env \<Rightarrow> string \<Rightarrow> string \<Rightarrow> VolumeHelper \<Rightarrow> DeploymentSpec ref_oc \<Rightarrow> containers_factory option
     \<Rightarrow> containers_factory option \<Rightarrow> bool \<Rightarrow> string \<Rightarrow> Deployment km" where
  "newDeployment op env componentType zoneComponentType volHelper ref initContainersFactory containersFactory hostNetwork dnsPolicy =
     andthen (gets kw_oc) (\<lambda>oc.
     andthen (deref ref) (\<lambda>spec.
     let zct = (if zoneComponentType = [] then componentType else zoneComponentType);
         appLabel = getComponentLabel oc componentType False;
         pod = deployment_pod volHelper spec initContainersFactory containersFactory hostNetwork dnsPolicy
     in andthen (setContainerResources op env (spec_DisableResourceManagement (oc_Spec oc)) (ds_ContainerSpec spec) pod) (\<lambda>(err, cs, pod').
        seq (write_ref ref (ds_ContainerSpec_update (\<lambda>_. cs)))
        (ret \<lparr>dep_meta = getObjectMeta oc (NewClusterComponentName (om_Name (oc_ObjectMeta oc)) zct) appLabel,
              dep_Spec = \<lparr>dsp_Replicas = Some (ds_Replicas spec), dsp_Selector = Some (Some appLabel),
                          dsp_Template = \<lparr>pt_Labels = Some appLabel, pt_Annotations = ds_Annotations spec, pt_Spec = pod'\<rparr>,
                          dsp_Strategy = (if hostNetwork then ''Recreate'' else ''RollingUpdate'')\<rparr>,
              dep_Status = zero_DeploymentStatus_apps\<rparr>))))"

definition removeDeploymentAffinity :: "Deployment \<Rightarrow> Deployment" where
  "removeDeploymentAffinity = dep_Spec_update (dsp_Template_update (pt_Spec_update (ps_Affinity_update (\<lambda>_. None))))"

definition newDefaultDeploymentWithCloudAffinity ::
  "options \<Rightarrow> kube_env \<Rightarrow> string \<Rightarrow> string \<Rightarrow> VolumeHelper \<Rightarrow> DeploymentSpec ref_oc \<Rightarrow> containers_factory option
     \<Rightarrow> containers_factory option \<Rightarrow> Deployment km" where
  "newDefaultDeploymentWithCloudAffinity op env componentType zoneComponentType volHelper ref initContainersFactory containersFactory =
     seq (write_ref ref (cloud_affinity op))
         (newDeployment op env componentType zoneComponentType volHelper ref initContainersFactory containersFactory False ''ClusterFirst'')"

definition newDefaultDeployment ::
  "options \<Rightarrow> kube_env \<Rightarrow> string \<Rightarrow> string \<Rightarrow> VolumeHelper \<Rightarrow> DeploymentSpec ref_oc \<Rightarrow> containers_factory option
     \<Rightarrow> containers_factory option \<Rightarrow> Deployment km" where
  "newDefaultDeployment = newDefaultDeploymentWithCloudAffinity"

definition newDefaultDeploymentNoInit ::
  "options \<Rightarrow> kube_env \<Rightarrow> string \<Rightarrow> string \<Rightarrow> VolumeHelper \<Rightarrow> DeploymentSpec ref_oc \<Rightarrow> containers_factory option \<Rightarrow> Deployment km" where
  "newDefaultDeploymentNoInit op env componentType zoneComponentType volHelper ref containersFactory =
     newDefaultDeploymentWithCloudAffinity op env componentType zoneComponentType volHelper ref None containersFactory"

definition newDefaultDeploymentNoInitWithoutCloudAffinity ::
  "options \<Rightarrow> kube_env \<Rightarrow> string \<Rightarrow> string \<Rightarrow> VolumeHelper \<Rightarrow> DeploymentSpec ref_oc \<Rightarrow> bool \<Rightarrow> containers_factory option \<Rightarrow> Deployment km" where
  "newDefaultDeploymentNoInitWithoutCloudAffinity op env componentType zoneComponentType volHelper ref hostNetwork containersFactory =
     newDeployment op env componentType zoneComponentType volHelper ref None containersFactory hostNetwork
       (if hostNetwork then ''ClusterFirstWithHostNet'' else ''ClusterFirst'')"

definition genReadonlyDeployment :: "string \<Rightarrow> OnecloudCluster \<Rightarrow> Deployment \<Rightarrow> DeploymentSpec \<Rightarrow> Deployment" where
  "genReadonlyDeployment componentType oc deploy spec =
     (let appLabel = getComponentLabel oc componentType True;
          tmpl = dsp_Template (dep_Spec deploy);
          slave = (\<lambda>cs. case cs of [] \<Rightarrow> [] | c # rest \<Rightarrow> c\<lparr>ct_Command := ct_Command c @ [''--is-slave-node'']\<rparr> # rest)
      in deploy\<lparr>dep_meta := (dep_meta deploy)\<lparr>om_Name := om_Name (dep_meta deploy) @ ''-slave'', om_Labels := Some appLabel\<rparr>,
                dep_Spec := (dep_Spec deploy)\<lparr>dsp_Replicas := Some (ds_SlaveReplicas spec), dsp_Selector := Some (Some appLabel),
                  dsp_Template := tmpl\<lparr>pt_Labels := Some appLabel,
                    pt_Spec := (pt_Spec tmpl)\<lparr>ps_InitContainers := [], ps_Containers := slave (ps_Containers (pt_Spec tmpl))\<rparr>\<rparr>\<rparr>\<rparr>)"

text \<open>
  \<open>setSelfAntiAffnity\<close>. The affinity of the template is the object the specification points to, so the
  anti-affinity is written into the specification as well, unless the template has lost its affinity.
\<close>

definition self_anti_affinity :: "string \<Rightarrow> PodAntiAffinity" where
  "self_anti_affinity component =
     \<lparr>paa_Required = [], paa_Preferred = [(100, \<lparr>pat_MatchLabels = [(AppLabelKey, component)], pat_TopologyKey = ''kubernetes.io/hostname''\<rparr>)]\<rparr>"

definition setSelfAntiAffnity :: "DeploymentSpec ref_oc \<Rightarrow> string \<Rightarrow> Deployment \<Rightarrow> Deployment km" where
  "setSelfAntiAffnity ref component deploy =
     (let pod = pt_Spec (dsp_Template (dep_Spec deploy));
          anti = aff_PodAntiAffinity_update (\<lambda>_. Some (self_anti_affinity component));
          a = anti (aff_or_new (ps_Affinity pod))
      in seq (if ps_Affinity pod = None then ret () else write_ref ref (ds_Affinity_update (map_option anti)))
         (ret (dep_Spec_update (dsp_Template_update (pt_Spec_update (ps_Affinity_update (\<lambda>_. Some a)))) deploy)))"

section \<open>Probes and the deployment of a cloud service\<close>

definition generateLivenessProbe :: "string \<Rightarrow> int \<Rightarrow> Probe" where
  "generateLivenessProbe p port = \<lparr>pr_Handler = ProbeHTTPGet p port ''HTTPS'', pr_InitialDelaySeconds = 60,
     pr_TimeoutSeconds = 5, pr_PeriodSeconds = 5, pr_SuccessThreshold = 1, pr_FailureThreshold = 3\<rparr>"

definition generateReadinessProbe :: "string \<Rightarrow> int \<Rightarrow> Probe" where
  "generateReadinessProbe p port = \<lparr>pr_Handler = ProbeHTTPGet p port ''HTTPS'', pr_InitialDelaySeconds = 15,
     pr_TimeoutSeconds = 3, pr_PeriodSeconds = 5, pr_SuccessThreshold = 3, pr_FailureThreshold = 2\<rparr>"

definition service_command :: "string \<Rightarrow> string list" where
  "service_command cType = [''/opt/yunion/bin/'' @ cType, ''--config'', ''/etc/yunion/'' @ cType @ ''.conf'']"

definition service_containers ::
  "string \<Rightarrow> ContainerSpec \<Rightarrow> ContainerPort list \<Rightarrow> Probe option \<Rightarrow> containers_factory" where
  "service_containers cType cs ports readyProbe = (\<lambda>volMounts.
     [zero_Container\<lparr>ct_Name := cType, ct_Image := cs_Image cs, ct_Command := service_command cType,
        ct_ImagePullPolicy := cs_ImagePullPolicy cs, ct_Ports := ports, ct_VolumeMounts := volMounts, ct_ReadinessProbe := readyProbe\<rparr>])"

definition service_init :: "string \<Rightarrow> ContainerSpec \<Rightarrow> containers_factory" where
  "service_init cType cs = (\<lambda>volMounts.
     [zero_Container\<lparr>ct_Name := ''init'', ct_Image := cs_Image cs, ct_ImagePullPolicy := cs_ImagePullPolicy cs,
        ct_Command := service_command cType @ [''--auto-sync-table'', ''--exit-after-db-init''], ct_VolumeMounts := volMounts\<rparr>])"

definition newCloudServiceDeployment ::
  "options \<Rightarrow> kube_env \<Rightarrow> string \<Rightarrow> string \<Rightarrow> DeploymentSpec ref_oc \<Rightarrow> containers_factory option \<Rightarrow> ContainerPort list
     \<Rightarrow> bool \<Rightarrow> bool \<Rightarrow> string \<Rightarrow> Deployment km" where
  "newCloudServiceDeployment op env cType zoneComponentType ref initContainersF ports mountEtcdTLS keepAffinity readinessProbePath =
     andthen (gets kw_oc) (\<lambda>oc.
     andthen (deref ref) (\<lambda>deployCfg.
     andthen (if readinessProbePath = [] then ret None
              else (case ports of [] \<Rightarrow> go_panic ''index out of range''
                    | p # _ \<Rightarrow> ret (Some (generateReadinessProbe readinessProbePath (cp_ContainerPort p))))) (\<lambda>readyProbe.
     let configMap = ComponentConfigMapName oc zoneComponentType;
         h = (if mountEtcdTLS then NewVolumeHelperWithEtcdTLS oc configMap cType else NewVolumeHelper oc configMap cType)
     in andthen (newDefaultDeployment op env cType zoneComponentType h ref initContainersF
                   (Some (service_containers cType (ds_ContainerSpec deployCfg) ports readyProbe))) (\<lambda>deploy.
        ret (if keepAffinity then deploy else removeDeploymentAffinity deploy)))))"

definition newCloudServiceDeploymentWithInit ::
  "options \<Rightarrow> kube_env \<Rightarrow> string \<Rightarrow> string \<Rightarrow> DeploymentSpec ref_oc \<Rightarrow> ContainerPort list \<Rightarrow> bool \<Rightarrow> string \<Rightarrow> Deployment km" where
  "newCloudServiceDeploymentWithInit op env cType zoneComponentType ref ports mountEtcdTLS readinessProbePath =
     andthen (deref ref) (\<lambda>deployCfg.
     newCloudServiceDeployment op env cType (if zoneComponentType = [] then cType else zoneComponentType) ref
       (Some (service_init cType (ds_ContainerSpec deployCfg))) ports mountEtcdTLS True readinessProbePath)"

definition newCloudServiceDeploymentNoInit ::
  "options \<Rightarrow> kube_env \<Rightarrow> string \<Rightarrow> string \<Rightarrow> DeploymentSpec ref_oc \<Rightarrow> ContainerPort list \<Rightarrow> bool \<Rightarrow> string \<Rightarrow> Deployment km" where
  "newCloudServiceDeploymentNoInit op env cType zoneComponentType ref ports mountEtcdTLS readinessProbePath =
     newCloudServiceDeployment op env cType (if zoneComponentType = [] then cType else zoneComponentType) ref
       None ports mountEtcdTLS True readinessProbePath"

definition newCloudServiceSinglePortDeploymentWithReadinessProbePath ::
  "options \<Rightarrow> kube_env \<Rightarrow> string \<Rightarrow> string \<Rightarrow> DeploymentSpec ref_oc \<Rightarrow> int \<Rightarrow> bool \<Rightarrow> bool \<Rightarrow> string \<Rightarrow> Deployment km" where
  "newCloudServiceSinglePortDeploymentWithReadinessProbePath op env cType zoneComponentType ref port doInit mountEtcdTLS readinessProbePath =
     (let ports = [\<lparr>cp_Name = ''api'', cp_ContainerPort = port, cp_Protocol = ''TCP''\<rparr>]
      in if doInit then newCloudServiceDeploymentWithInit op env cType zoneComponentType ref ports mountEtcdTLS readinessProbePath
         else newCloudServiceDeploymentNoInit op env cType zoneComponentType ref ports mountEtcdTLS readinessProbePath)"

definition newCloudServiceSinglePortDeployment ::
  "options \<Rightarrow> kube_env \<Rightarrow> string \<Rightarrow> string \<Rightarrow> DeploymentSpec ref_oc \<Rightarrow> int \<Rightarrow> bool \<Rightarrow> bool \<Rightarrow> Deployment km" where
  "newCloudServiceSinglePortDeployment op env cType zoneComponentType ref port doInit mountEtcdTLS =
     newCloudServiceSinglePortDeploymentWithReadinessProbePath op env cType zoneComponentType ref port doInit mountEtcdTLS []"

section \<open>Daemon sets, cron jobs and volume claims\<close>

definition daemonset_pod :: "VolumeHelper \<Rightarrow> DaemonSetSpec \<Rightarrow> Container list \<Rightarrow> containers_factory \<Rightarrow> PodSpec" where
  "daemonset_pod volHelper spec initContainers containersFactory =
     zero_PodSpec\<lparr>ps_Affinity := dms_Affinity spec, ps_NodeSelector := dms_NodeSelector spec,
       ps_Containers := containersFactory (vh_volumeMounts volHelper), ps_InitContainers := initContainers,
       ps_RestartPolicy := ''Always'', ps_Tolerations := dms_Tolerations spec, ps_Volumes := vh_volumes volHelper,
       ps_HostNetwork := True, ps_HostPID := True, ps_HostIPC := True, ps_DNSPolicy := ''ClusterFirstWithHostNet'',
       ps_ImagePullSecrets := dms_ImagePullSecrets spec\<rparr>"

definition daemonset_of :: "string \<Rightarrow> OnecloudCluster \<Rightarrow> DaemonSetSpec \<Rightarrow> string \<Rightarrow> PodSpec \<Rightarrow> DaemonSet" where
  "daemonset_of componentType oc spec updateStrategy pod =
     (let appLabel = getComponentLabel oc componentType False
      in \<lparr>dmn_meta = getObjectMeta oc (NewClusterComponentName (om_Name (oc_ObjectMeta oc)) componentType) appLabel,
          dmn_Spec = \<lparr>dss_Selector = Some (Some appLabel),
             dss_Template = \<lparr>pt_Labels = Some appLabel, pt_Annotations = dms_Annotations spec, pt_Spec = pod\<rparr>,
             dss_UpdateStrategy = \<lparr>dus_Type = (if updateStrategy = [] then ''RollingUpdate'' else updateStrategy), dus_MaxUnavailable = None\<rparr>\<rparr>,
          dmn_Status = \<lparr>dnst_ObservedGeneration = 0, dnst_DesiredNumberScheduled = 0, dnst_UpdatedNumberScheduled = 0,
             dnst_NumberReady = 0, dnst_NumberAvailable = 0\<rparr>\<rparr>)"

definition newDaemonSetWithLimits ::
  "options \<Rightarrow> kube_env \<Rightarrow> string \<Rightarrow> VolumeHelper \<Rightarrow> DaemonSetSpec ref_oc \<Rightarrow> string \<Rightarrow> Container list
     \<Rightarrow> containers_factory \<Rightarrow> bool \<Rightarrow> DaemonSet km" where
  "newDaemonSetWithLimits op env componentType volHelper ref updateStrategy initContainers containersFactory setLimits =
     andthen (gets kw_oc) (\<lambda>oc.
     andthen (deref ref) (\<lambda>spec.
     let pod = daemonset_pod volHelper spec initContainers containersFactory
     in if \<not> setLimits then ret (daemonset_of componentType oc spec updateStrategy pod)
        else andthen (setContainerResources op env (spec_DisableResourceManagement (oc_Spec oc)) (dms_ContainerSpec spec) pod) (\<lambda>(err, cs, pod').
             seq (write_ref ref (dms_ContainerSpec_update (\<lambda>_. cs)))
                 (ret (daemonset_of componentType oc spec updateStrategy pod')))))"

text \<open>\<open>newDaemonSet\<close> takes the specification by value and sets no limits: nothing is written.\<close>

definition newDaemonSet ::
  "options \<Rightarrow> kube_env \<Rightarrow> string \<Rightarrow> VolumeHelper \<Rightarrow> DaemonSetSpec \<Rightarrow> string \<Rightarrow> Container list \<Rightarrow> containers_factory \<Rightarrow> DaemonSet km" where
  "newDaemonSet op env componentType volHelper spec updateStrategy initContainers containersFactory =
     newDaemonSetWithLimits op env componentType volHelper (\<lambda>_. spec, \<lambda>_ oc. oc) updateStrategy initContainers containersFactory False"

definition applyHostComponentAntiEviction :: "kube_env \<Rightarrow> DaemonSet option \<Rightarrow> DaemonSet option" where
  "applyHostComponentAntiEviction env ds =
     (if \<not> ke_v120 env then ds
      else map_option (dmn_Spec_update (dss_Template_update (pt_Spec_update (ps_PriorityClassName_update (\<lambda>_. ''system-node-critical''))))) ds)"

definition cronjob_pod ::
  "VolumeHelper \<Rightarrow> CronJobSpec \<Rightarrow> containers_factory option \<Rightarrow> containers_factory \<Rightarrow> bool \<Rightarrow> string \<Rightarrow> PodSpec" where
  "cronjob_pod volHelper spec initContainersFactory containersFactory hostNetwork dnsPolicy =
     zero_PodSpec\<lparr>ps_Affinity := crs_Affinity spec, ps_NodeSelector := crs_NodeSelector spec,
       ps_Containers := containersFactory (vh_volumeMounts volHelper), ps_RestartPolicy := ''Never'',
       ps_Tolerations := crs_Tolerations spec, ps_Volumes := vh_volumes volHelper, ps_HostNetwork := hostNetwork,
       ps_DNSPolicy := dnsPolicy, ps_ImagePullSecrets := crs_ImagePullSecrets spec,
       ps_InitContainers := call_factory initContainersFactory (vh_volumeMounts volHelper)\<rparr>"

definition newCronJob ::
  "options \<Rightarrow> kube_env \<Rightarrow> string \<Rightarrow> VolumeHelper \<Rightarrow> CronJobSpec ref_oc \<Rightarrow> containers_factory option \<Rightarrow> containers_factory
     \<Rightarrow> bool \<Rightarrow> string \<Rightarrow> string \<Rightarrow> int option \<Rightarrow> bool option \<Rightarrow> int option \<Rightarrow> int option \<Rightarrow> CronJob km" where
  "newCronJob op env componentType volHelper ref initContainersFactory containersFactory hostNetwork dnsPolicy
       concurrencyPolicy startingDeadlineSeconds suspend successfulJobsHistoryLimit failedJobsHistoryLimit =
     andthen (gets kw_oc) (\<lambda>oc.
     andthen (deref ref) (\<lambda>spec.
     let appLabel = getComponentLabel oc componentType False;
         pod = cronjob_pod volHelper spec initContainersFactory containersFactory hostNetwork dnsPolicy
     in andthen (setContainerResources op env (spec_DisableResourceManagement (oc_Spec oc)) (crs_ContainerSpec spec) pod) (\<lambda>(err, cs, pod').
        seq (write_ref ref (crs_ContainerSpec_update (\<lambda>_. cs)))
        (ret \<lparr>cj_meta = getObjectMeta oc (NewClusterComponentName (om_Name (oc_ObjectMeta oc)) componentType) appLabel,
              cj_Spec = \<lparr>cjs_Schedule = crs_Schedule spec, cjs_StartingDeadlineSeconds = startingDeadlineSeconds,
                cjs_ConcurrencyPolicy = concurrencyPolicy, cjs_Suspend = suspend,
                cjs_SuccessfulJobsHistoryLimit = successfulJobsHistoryLimit, cjs_FailedJobsHistoryLimit = failedJobsHistoryLimit,
                cjs_JobLabels = Some appLabel, cjs_JobAnnotations = crs_Annotations spec, cjs_BackoffLimit = Some 1,
                cjs_Template = \<lparr>pt_Labels = Some appLabel, pt_Annotations = crs_Annotations spec, pt_Spec = pod'\<rparr>\<rparr>\<rparr>))))"

definition newDefaultCronJob ::
  "options \<Rightarrow> kube_env \<Rightarrow> string \<Rightarrow> VolumeHelper \<Rightarrow> CronJobSpec ref_oc \<Rightarrow> containers_factory option \<Rightarrow> containers_factory \<Rightarrow> CronJob km" where
  "newDefaultCronJob op env componentType volHelper ref initContainersFactory containersFactory =
     newCronJob op env componentType volHelper ref initContainersFactory containersFactory False ''ClusterFirst'' ''Replace''
       (Some 300) None None None"

definition newPvcName :: "string \<Rightarrow> string \<Rightarrow> string \<Rightarrow> string" where
  "newPvcName ocName storageClass cType =
     (if storageClass \<noteq> DefaultStorageClass then NewClusterComponentName ocName cType @ ''-'' @ storageClass
      else NewClusterComponentName ocName cType)"

definition newPVC :: "options \<Rightarrow> string \<Rightarrow> OnecloudCluster \<Rightarrow> StatefulDeploymentSpec \<Rightarrow> (goerr + PersistentVolumeClaim) option" where
  "newPVC op cType oc spec =
     (case cs_Requests (ds_ContainerSpec (sds_DeploymentSpec spec)) of
        None \<Rightarrow> None
      | Some req \<Rightarrow> Some (case op_parseQuantity op (rq_Storage req) of
            Inl e \<Rightarrow> Inl e
          | Inr sizeQ \<Rightarrow> Inr
              \<lparr>pvc_meta = new_meta (newPvcName (om_Name (oc_ObjectMeta oc)) (sds_StorageClassName spec) cType)
                            (om_Namespace (oc_ObjectMeta oc)) None None [],
               pvc_StorageClassName = (if sds_StorageClassName spec \<noteq> [] then Some (sds_StorageClassName spec) else None),
               pvc_AccessModes = [''ReadWriteOnce''], pvc_Storage = sizeQ\<rparr>))"

end
