(* ===== verification/Workload_Laws.thy ===== *)
theory Workload_Laws
  imports Workloads Kube_Laws
begin

text \<open>
  Properties of the workload builders: what they return always fits together. The pods of a built
  deployment mount volumes that exist, its selector selects its pods, the service made for the component
  reaches these pods and no others, and the resources written into the specification settle.
\<close>

section \<open>Selectors\<close>

lemma getComponentLabel_selector:
  "getComponentLabel oc c ro = component_selector (gomap_str (om_Labels (oc_ObjectMeta oc)) InstanceLabelKey) c ro"
  by (simp add: getComponentLabel_def component_selector_def)

lemma component_selectors_iff:
  "selects (component_selector i n ro) (component_selector i' n' ro')
     \<longleftrightarrow> i = i' \<and> effective_name n ro = effective_name n' ro' \<and> (\<not> ro \<or> ro')"
proof -
  have new: "map_of label_New AppLabelKey = None" "map_of label_New ComponentLabelKey = None"
    "map_of label_New InstanceLabelKey = None" "map_of label_New ''read-only'' = None"
    "AppLabelKey \<noteq> InstanceLabelKey" "ComponentLabelKey \<noteq> InstanceLabelKey" "AppLabelKey \<noteq> ComponentLabelKey"
    "AppLabelKey \<noteq> ''read-only''" "ComponentLabelKey \<noteq> ''read-only''" "InstanceLabelKey \<noteq> ''read-only''"
    by (simp_all add: label_New_def oc_consts)
  show ?thesis
  proof
    assume "selects (component_selector i n ro) (component_selector i' n' ro')"
    then have *: "map_of (component_selector i n ro) k = Some v \<Longrightarrow> map_of (component_selector i' n' ro') k = Some v" for k v
      by (simp add: selects_iff component_selector_keys)
    show "i = i' \<and> effective_name n ro = effective_name n' ro' \<and> (\<not> ro \<or> ro')"
      using * [of InstanceLabelKey i] * [of AppLabelKey "effective_name n ro"] * [of "''read-only''" "''true''"] new
      by (auto simp: component_selector_lookup split: if_splits)
  next
    assume "i = i' \<and> effective_name n ro = effective_name n' ro' \<and> (\<not> ro \<or> ro')"
    then show "selects (component_selector i n ro) (component_selector i' n' ro')"
      using new by (auto simp: selects_iff component_selector_keys component_selector_lookup split: if_splits)
  qed
qed

lemma selects_getComponentLabel [simp]:
  "selects (getComponentLabel oc c ro) (getComponentLabel oc c' ro')
     \<longleftrightarrow> effective_name c ro = effective_name c' ro' \<and> (\<not> ro \<or> ro')"
  by (simp add: getComponentLabel_selector component_selectors_iff)

lemma selectorMatches_iff_selects:
  "selectorMatchesLabels (Some (Some sel)) (Some l) \<longleftrightarrow> selects sel l"
  by (simp add: selectorMatchesLabels_def selects_def gomap_get_def)

section \<open>Pods\<close>

text \<open>
  A pod is well formed when its volumes have distinct names and every mount of every container, the
  initial ones too, names one of them and no container mounts a path twice.
\<close>

definition pod_ok :: "PodSpec \<Rightarrow> bool" where
  "pod_ok p \<longleftrightarrow> list_all (\<lambda>c. mounts_ok (ps_Volumes p) (ct_VolumeMounts c)) (ps_InitContainers p @ ps_Containers p)
     \<and> ps_Containers p \<noteq> [] \<and> distinct (map vol_Name (ps_Volumes p))"

definition mounts_given :: "containers_factory \<Rightarrow> bool" where
  "mounts_given f \<longleftrightarrow> (\<forall>ms. \<forall>c\<in>set (f ms). ct_VolumeMounts c = ms)"

lemma mounts_given_service [simp]: "mounts_given (service_containers c cs ps pr)" "mounts_given (service_init c cs)"
  by (simp_all add: mounts_given_def service_containers_def service_init_def)

text \<open>Two pods that differ at most in the resources of their containers.\<close>

definition same_but_resources :: "PodSpec \<Rightarrow> PodSpec \<Rightarrow> bool" where
  "same_but_resources p q \<longleftrightarrow> q\<lparr>ps_Containers := ps_Containers p\<rparr> = p
     \<and> map (ct_Resources_update (\<lambda>_. no_resources)) (ps_Containers q) = map (ct_Resources_update (\<lambda>_. no_resources)) (ps_Containers p)"

lemma same_but_resources_refl [simp]: "same_but_resources p p"
  by (simp add: same_but_resources_def)

lemma same_but_resources_set [simp]:
  assumes "same_but_resources p q"
  shows "same_but_resources p (setPodSpecResources k l r q)"
proof -
  have "(ct_Resources_update (\<lambda>_. no_resources) \<circ> set_resource k lim req) = ct_Resources_update (\<lambda>_. no_resources)" for lim req
    by (auto simp: set_resource_def)
  with assms show ?thesis
    by (auto simp: same_but_resources_def setPodSpecResources_def simp flip: map_map split: option.splits)
       (simp_all add: map_map)
qed

lemma same_but_resources_fields:
  assumes "same_but_resources p q"
  shows "ps_Volumes q = ps_Volumes p" "ps_InitContainers q = ps_InitContainers p" "ps_Affinity q = ps_Affinity p"
    "map ct_VolumeMounts (ps_Containers q) = map ct_VolumeMounts (ps_Containers p)"
    "map ct_Ports (ps_Containers q) = map ct_Ports (ps_Containers p)"
    "map ct_Command (ps_Containers q) = map ct_Command (ps_Containers p)"
    "map ct_Image (ps_Containers q) = map ct_Image (ps_Containers p)"
proof -
  let ?z = "ct_Resources_update (\<lambda>_. no_resources)"
  from assms have p: "p = q\<lparr>ps_Containers := ps_Containers p\<rparr>" and m: "map ?z (ps_Containers q) = map ?z (ps_Containers p)"
    by (simp_all add: same_but_resources_def)
  show "ps_Volumes q = ps_Volumes p" "ps_InitContainers q = ps_InitContainers p" "ps_Affinity q = ps_Affinity p"
    by (subst p, simp)+
  have "map g (ps_Containers q) = map g (ps_Containers p)" if "\<And>c. g (?z c) = g c" for g :: "Container \<Rightarrow> 'z"
    using arg_cong [OF m, of "map g"] that by (simp add: comp_def)
  from this [of ct_VolumeMounts] this [of ct_Ports] this [of ct_Command] this [of ct_Image] show "map ct_VolumeMounts (ps_Containers q) = map ct_VolumeMounts (ps_Containers p)"
    "map ct_Ports (ps_Containers q) = map ct_Ports (ps_Containers p)"
    "map ct_Command (ps_Containers q) = map ct_Command (ps_Containers p)"
    "map ct_Image (ps_Containers q) = map ct_Image (ps_Containers p)"
    by simp_all
qed

lemma pod_ok_mounts:
  "pod_ok p \<longleftrightarrow> list_all (mounts_ok (ps_Volumes p)) (map ct_VolumeMounts (ps_InitContainers p @ ps_Containers p))
     \<and> map ct_VolumeMounts (ps_Containers p) \<noteq> [] \<and> distinct (map vol_Name (ps_Volumes p))"
  by (auto simp: pod_ok_def list_all_iff)

lemma pod_ok_resources: "same_but_resources p q \<Longrightarrow> pod_ok q \<longleftrightarrow> pod_ok p"
  by (simp add: pod_ok_mounts same_but_resources_fields)

section \<open>Building\<close>

lemma GetReadyMasterNodes_eval:
  "GetReadyMasterNodes env w = (case ke_listNodes env (kw_calls w) of Inl e \<Rightarrow> Fail e | Inr ns \<Rightarrow> Ret (filter IsNodeReady ns),
     w\<lparr>kw_calls := kw_calls w @ [KNode]\<rparr>)"
  by (cases "ke_listNodes env (kw_calls w)") (simp_all add: GetReadyMasterNodes_def kcall_def go_simps)

text \<open>The default limits as a function of what the node lister answered.\<close>

definition default_limits :: "options \<Rightarrow> goerr + Node list \<Rightarrow> goerr + raw option \<times> raw option" where
  "default_limits op answer =
     (case answer of
        Inl e \<Rightarrow> Inl (Wrapped ''get ready master nodes'' e)
      | Inr ns \<Rightarrow> (case filter IsNodeReady ns of
            [] \<Rightarrow> Inr (None, None)
          | node # _ \<Rightarrow> (case getNodeCapacity node of
                Inl e \<Rightarrow> Inl (Wrapped (''get node '' @ om_Name (nd_meta node) @ '' capacity'') e)
              | Inr (cpu, mem) \<Rightarrow> (case op_parseQuantity op (third_text cpu) of
                    Inl e \<Rightarrow> Inl (Wrapped (''parse cpu '' @ third_text cpu) e)
                  | Inr c \<Rightarrow> (case op_parseQuantity op (show_int (default_memory_MB mem) @ ''Mi'') of
                        Inl e \<Rightarrow> Inl (Wrapped (''parse mem '' @ show_int (default_memory_MB mem) @ ''Mi'') e)
                      | Inr m \<Rightarrow> Inr (Some c, Some m))))))"

lemma of_sum_eval [go_simps]: "of_sum (Inl e) s = (Fail e, s)" "of_sum (Inr x) s = (Ret x, s)"
  by (simp_all add: of_sum_def go_simps)

lemma getDefaultResourceLimits_eval:
  "getDefaultResourceLimits op env w =
     (case default_limits op (ke_listNodes env (kw_calls w)) of Inl e \<Rightarrow> Fail e | Inr x \<Rightarrow> Ret x,
      w\<lparr>kw_calls := kw_calls w @ [KNode]\<rparr>)"
proof (cases "ke_listNodes env (kw_calls w)")
  case (Inl e)
  then show ?thesis by (simp add: getDefaultResourceLimits_def GetReadyMasterNodes_eval default_limits_def go_simps)
next
  case (Inr ns)
  show ?thesis
  proof (cases "filter IsNodeReady ns")
    case Nil
    with Inr show ?thesis by (simp add: getDefaultResourceLimits_def GetReadyMasterNodes_eval default_limits_def go_simps)
  next
    case (Cons node rest)
    note start = Inr Cons getDefaultResourceLimits_def GetReadyMasterNodes_eval default_limits_def Let_def
    show ?thesis
    proof (cases "getNodeCapacity node")
      case (Inl e)
      with start show ?thesis by (simp add: go_simps)
    next
      case (Inr c)
      then show ?thesis
        by (cases c; cases "op_parseQuantity op (third_text (fst c))";
            cases "op_parseQuantity op (show_int (default_memory_MB (snd c)) @ ''Mi'')") (simp_all add: start go_simps)
    qed
  qed
qed

text \<open>Whatever the node lister answers, setting the resources returns, and touches nothing but resources.\<close>

lemma setContainerResources_ends:
  obtains err cs' q w' where "setContainerResources op env dis cs p w = (Ret (err, cs', q), w')"
    "same_but_resources p q" "kw_oc w' = kw_oc w"
    "cs'\<lparr>cs_Limits := cs_Limits cs, cs_Requests := cs_Requests cs\<rparr> = cs"
proof (cases dis)
  case True
  with that show ?thesis by (fastforce simp: setContainerResources_def go_simps)
next
  case False
  with that show ?thesis
    by (cases "default_limits op (ke_listNodes env (kw_calls w))")
       (auto simp: setContainerResources_def getDefaultResourceLimits_eval go_simps Let_def)
qed

abbreviation pod_of :: "Deployment \<Rightarrow> PodSpec" where
  "pod_of d \<equiv> pt_Spec (dsp_Template (dep_Spec d))"

lemma newDeployment_ends:
  fixes ref :: "DeploymentSpec ref_oc"
  obtains d w' cs' pod where "newDeployment op env c zc h ref ini con hostNet dns w = (Ret d, w')"
    "same_but_resources (deployment_pod h (fst ref (kw_oc w)) ini con hostNet dns) pod"
    "kw_oc w' = snd ref (ds_ContainerSpec_update (\<lambda>_. cs')) (kw_oc w)"
    "cs'\<lparr>cs_Limits := cs_Limits (ds_ContainerSpec (fst ref (kw_oc w))), cs_Requests := cs_Requests (ds_ContainerSpec (fst ref (kw_oc w)))\<rparr>
       = ds_ContainerSpec (fst ref (kw_oc w))"
    "d = \<lparr>dep_meta = getObjectMeta (kw_oc w) (NewClusterComponentName (om_Name (oc_ObjectMeta (kw_oc w))) (if zc = [] then c else zc))
                      (getComponentLabel (kw_oc w) c False),
           dep_Spec = \<lparr>dsp_Replicas = Some (ds_Replicas (fst ref (kw_oc w))), dsp_Selector = Some (Some (getComponentLabel (kw_oc w) c False)),
              dsp_Template = \<lparr>pt_Labels = Some (getComponentLabel (kw_oc w) c False),
                 pt_Annotations = ds_Annotations (fst ref (kw_oc w)), pt_Spec = pod\<rparr>,
              dsp_Strategy = (if hostNet then ''Recreate'' else ''RollingUpdate'')\<rparr>,
           dep_Status = zero_DeploymentStatus_apps\<rparr>"
proof -
  let ?p = "deployment_pod h (fst ref (kw_oc w)) ini con hostNet dns"
  obtain err cs' q w1 where r: "setContainerResources op env (spec_DisableResourceManagement (oc_Spec (kw_oc w)))
      (ds_ContainerSpec (fst ref (kw_oc w))) ?p w = (Ret (err, cs', q), w1)"
    and rest: "same_but_resources ?p q" "kw_oc w1 = kw_oc w"
      "cs'\<lparr>cs_Limits := cs_Limits (ds_ContainerSpec (fst ref (kw_oc w))), cs_Requests := cs_Requests (ds_ContainerSpec (fst ref (kw_oc w)))\<rparr>
       = ds_ContainerSpec (fst ref (kw_oc w))"
    by (rule setContainerResources_ends)
  show thesis
    by (rule that [OF _ rest(1) _ rest(3) refl, where w' = "w1\<lparr>kw_oc := snd ref (ds_ContainerSpec_update (\<lambda>_. cs')) (kw_oc w1)\<rparr>"])
       (simp_all add: newDeployment_def deref_def write_ref_def go_simps Let_def r rest(2) split del: if_split)
qed

text \<open>A pointer into the specification leaves the metadata of the cluster object alone.\<close>

definition spec_ref :: "'a ref_oc \<Rightarrow> bool" where
  "spec_ref ref \<longleftrightarrow> (\<forall>f oc. oc_ObjectMeta (snd ref f oc) = oc_ObjectMeta oc)"

lemma getComponentLabel_meta: "oc_ObjectMeta oc = oc_ObjectMeta oc' \<Longrightarrow> getComponentLabel oc = getComponentLabel oc'"
  by (intro ext) (simp add: getComponentLabel_def)

lemma deployment_pod_ok:
  assumes "helper_ok h" "ini = None \<or> (\<exists>f. ini = Some f \<and> mounts_given f)" "mounts_given con" "con (vh_volumeMounts h) \<noteq> []"
  shows "pod_ok (deployment_pod h sp ini (Some con) hn dns)"
  using assms
  by (auto simp: pod_ok_def deployment_pod_def call_factory_def helper_ok_def list_all_iff mounts_given_def mounts_ok_def zero_PodSpec_def)

section \<open>Services and the pods they reach\<close>

definition service_selects :: "CoreService \<Rightarrow> Deployment \<Rightarrow> bool" where
  "service_selects s d = (case (css_Selector (svc_Spec s), pt_Labels (dsp_Template (dep_Spec d))) of
     (Some sel, Some l) \<Rightarrow> selects sel l | _ \<Rightarrow> False)"

definition ports_served :: "CoreService \<Rightarrow> Deployment \<Rightarrow> bool" where
  "ports_served s d = list_all (\<lambda>p. list_ex (\<lambda>c. sp_TargetPort p \<in> cp_ContainerPort ` set (ct_Ports c)) (ps_Containers (pod_of d)))
     (css_Ports (svc_Spec s))"

lemma cloud_service_deployment:
  assumes ref: "spec_ref ref"
    and run: "newCloudServiceSinglePortDeploymentWithReadinessProbePath op env c zc ref port doInit tls probe w = (r, w')"
  obtains d where "r = Ret d" "pod_ok (pod_of d)" "oc_ObjectMeta (kw_oc w') = oc_ObjectMeta (kw_oc w)"
    "dsp_Selector (dep_Spec d) = Some (Some (getComponentLabel (kw_oc w') c False))"
    "pt_Labels (dsp_Template (dep_Spec d)) = Some (getComponentLabel (kw_oc w') c False)"
    "om_Name (dep_meta d) = NewClusterComponentName (om_Name (oc_ObjectMeta (kw_oc w'))) (if zc = [] then c else zc)"
    "map ct_Ports (ps_Containers (pod_of d)) = [[\<lparr>cp_Name = ''api'', cp_ContainerPort = port, cp_Protocol = ''TCP''\<rparr>]]"
    "ps_Volumes (pod_of d) = vh_volumes ((if tls then NewVolumeHelperWithEtcdTLS else NewVolumeHelper) (kw_oc w)
        (ComponentConfigMapName (kw_oc w) (if zc = [] then c else zc)) c)"
proof -
  define w1 where "w1 = kw_oc_update (snd ref (cloud_affinity op)) w"
  define zc' where "zc' = (if zc = [] then c else zc)"
  define h where "h = (if tls then NewVolumeHelperWithEtcdTLS else NewVolumeHelper) (kw_oc w) (ComponentConfigMapName (kw_oc w) zc') c"
  define ports where "ports = [\<lparr>cp_Name = ''api'', cp_ContainerPort = port, cp_Protocol = ''TCP''\<rparr>]"
  define ini where "ini = (if doInit then Some (service_init c (ds_ContainerSpec (fst ref (kw_oc w)))) else None)"
  define con where "con = service_containers c (ds_ContainerSpec (fst ref (kw_oc w))) ports
     (if probe = [] then None else Some (generateReadinessProbe probe port))"
  obtain d w2 cs' pod where d: "newDeployment op env c zc' h ref ini (Some con) False ''ClusterFirst'' w1 = (Ret d, w2)"
    and pod: "same_but_resources (deployment_pod h (fst ref (kw_oc w1)) ini (Some con) False ''ClusterFirst'') pod"
    and oc: "kw_oc w2 = snd ref (ds_ContainerSpec_update (\<lambda>_. cs')) (kw_oc w1)"
    and eq: "d = \<lparr>dep_meta = getObjectMeta (kw_oc w1) (NewClusterComponentName (om_Name (oc_ObjectMeta (kw_oc w1))) (if zc' = [] then c else zc'))
                      (getComponentLabel (kw_oc w1) c False),
           dep_Spec = \<lparr>dsp_Replicas = Some (ds_Replicas (fst ref (kw_oc w1))), dsp_Selector = Some (Some (getComponentLabel (kw_oc w1) c False)),
              dsp_Template = \<lparr>pt_Labels = Some (getComponentLabel (kw_oc w1) c False),
                 pt_Annotations = ds_Annotations (fst ref (kw_oc w1)), pt_Spec = pod\<rparr>,
              dsp_Strategy = (if False then ''Recreate'' else ''RollingUpdate'')\<rparr>,
           dep_Status = zero_DeploymentStatus_apps\<rparr>"
    by (rule newDeployment_ends)
  have run': "r = Ret d" "w' = w2"
    using run d by (auto simp: newCloudServiceSinglePortDeploymentWithReadinessProbePath_def newCloudServiceDeploymentWithInit_def
        newCloudServiceDeploymentNoInit_def newCloudServiceDeployment_def newDefaultDeployment_def newDefaultDeploymentWithCloudAffinity_def
        deref_def write_ref_def go_simps Let_def w1_def zc'_def h_def ports_def ini_def con_def split: if_splits)
  have meta: "oc_ObjectMeta (kw_oc w1) = oc_ObjectMeta (kw_oc w)" "oc_ObjectMeta (kw_oc w2) = oc_ObjectMeta (kw_oc w)"
    using ref by (simp_all add: spec_ref_def oc w1_def)
  have "helper_ok h" by (simp add: h_def helpers_ok)
  then have "pod_ok (deployment_pod h (fst ref (kw_oc w1)) ini (Some con) False ''ClusterFirst'')"
    by (rule deployment_pod_ok) (auto simp: ini_def con_def, simp_all add: service_containers_def)
  with pod have "pod_ok pod" by (simp add: pod_ok_resources)
  moreover have "map ct_Ports (ps_Containers pod) = [ports]" "ps_Volumes pod = vh_volumes h"
    using same_but_resources_fields [OF pod] by (simp_all add: deployment_pod_def call_factory_def con_def service_containers_def)
  ultimately show thesis
    using meta run' getComponentLabel_meta [of "kw_oc w1" "kw_oc w2"]
    by (intro that [of d]) (auto simp: eq getObjectMeta_def zc'_def ports_def h_def)
qed

text \<open>
  C25: what the builders make for a cloud service fits together. The deployment is always built, whatever
  the node lister answers; in its pods and in those of the read-only replica every mount has its volume;
  the selector of the deployment selects its own pods. The service of the component reaches the pods of
  the deployment and not those of the replica, the service of the replica reaches these only, and the
  port they forward to is a port of the containers.
\<close>

theorem cloud_service_wired:
  assumes "spec_ref ref"
    and "newCloudServiceSinglePortDeploymentWithReadinessProbePath op env cType zoneType ref port doInit mountTLS probePath w = (r, w')"
  shows "\<exists>d. r = Ret d \<and> (let oc = kw_oc w'; slave = genReadonlyDeployment cType oc d (fst ref oc);
           services = newSinglePortService cType oc internalOnly nodePort port True
         in pod_ok (pod_of d) \<and> pod_ok (pod_of slave)
            \<and> selectorMatchesLabels (dsp_Selector (dep_Spec d)) (pt_Labels (dsp_Template (dep_Spec d)))
            \<and> selectorMatchesLabels (dsp_Selector (dep_Spec slave)) (pt_Labels (dsp_Template (dep_Spec slave)))
            \<and> map (\<lambda>s. (service_selects s d, service_selects s slave)) services = [(True, False), (False, True)]
            \<and> list_all2 ports_served services [d, slave]
            \<and> om_Name (dep_meta slave) \<noteq> om_Name (dep_meta d))"
proof -
  obtain d where d: "r = Ret d" "pod_ok (pod_of d)"
    "dsp_Selector (dep_Spec d) = Some (Some (getComponentLabel (kw_oc w') cType False))"
    "pt_Labels (dsp_Template (dep_Spec d)) = Some (getComponentLabel (kw_oc w') cType False)"
    "map ct_Ports (ps_Containers (pod_of d)) = [[\<lparr>cp_Name = ''api'', cp_ContainerPort = port, cp_Protocol = ''TCP''\<rparr>]]"
    by (rule cloud_service_deployment [OF assms])
  from d(5) obtain c where c: "ps_Containers (pod_of d) = [c]" "ct_Ports c = [\<lparr>cp_Name = ''api'', cp_ContainerPort = port, cp_Protocol = ''TCP''\<rparr>]"
    by (cases "ps_Containers (pod_of d)") auto
  have "pod_ok (pod_of (genReadonlyDeployment cType (kw_oc w') d (fst ref (kw_oc w'))))"
    using d(2) by (simp add: genReadonlyDeployment_def Let_def pod_ok_def c)
  with d c show ?thesis
    by (simp add: Let_def genReadonlyDeployment_def newSinglePortService_def newNodePortService_def newService_def newServiceWithClusterIp_def
        NewServiceNodePort_def service_selects_def ports_served_def selectorMatches_iff_selects effective_name_def)
qed

definition sample_ref :: "DeploymentSpec ref_oc" where
  "sample_ref = (\<lambda>oc. dps_DeploymentSpec (spec_Yunionconf (oc_Spec oc)),
     \<lambda>f. oc_Spec_update (spec_Yunionconf_update (dps_DeploymentSpec_update f)))"

definition sample_node :: Node where
  "sample_node = \<lparr>nd_meta = new_meta ''master'' [] None None [], nd_Conditions = [\<lparr>pc_Type = ''Ready'', pc_Status = ''True''\<rparr>],
     nd_CPU = Some 8, nd_Memory = Some 16000000000\<rparr>"

definition node_env :: kube_env where
  "node_env = quiet_env\<lparr>ke_listNodes := \<lambda>_. Inr [sample_node]\<rparr>"

definition plain_op :: "json \<Rightarrow> options" where
  "plain_op j = \<lparr>op_StopServices = False, op_DisableSyncIngress = False, op_DisableNodeSelectorController = False,
     op_parseQuantity = Inr, op_optionsDefault = \<lambda>_. None, op_yaml = \<lambda>_ _ _. [], op_template = \<lambda>_ _. Inr [],
     op_parseYAML = \<lambda>_. Inr [], op_YAMLString = \<lambda>_. [], op_DeployServerSocketPath = [], op_json = j,
     op_decodeConfig = \<lambda>_. Inr zero_OnecloudClusterConfig, op_encodeConfig = \<lambda>_. Inr [], op_draw = \<lambda>_ _. [],
     op_order = \<lambda>_ _. 0, op_parseImage = \<lambda>_. Inl (Errorf [])\<rparr>"

definition sample_world :: kworld where
  "sample_world = \<lparr>kw_calls = [], kw_oc = zero_OnecloudCluster\<lparr>oc_ObjectMeta := new_meta ''demo'' ''onecloud'' (Some [(InstanceLabelKey, ''demo-x'')]) None []\<rparr>\<rparr>"

theorem cloud_service_wired_witness:
  "\<forall>j. \<exists>d w'. newCloudServiceSinglePortDeploymentWithReadinessProbePath (plain_op j) node_env YunionconfComponentType [] sample_ref 30081 True True ''/ping'' sample_world = (Ret d, w')
     \<and> pod_ok (pod_of d) \<and> om_Name (dep_meta d) = ''demo-yunionconf''
     \<and> map (\<lambda>s. service_selects s d) (newSinglePortService YunionconfComponentType (kw_oc w') False 30081 30081 True) = [True, False]" (is "\<forall>j. ?P j")
proof
  fix j
  have ref: "spec_ref sample_ref" by (simp add: spec_ref_def sample_ref_def)
  obtain r w' where run: "newCloudServiceSinglePortDeploymentWithReadinessProbePath (plain_op j) node_env YunionconfComponentType [] sample_ref 30081 True True ''/ping'' sample_world = (r, w')"
    by force
  have "om_Name (dep_meta d) = ''demo-yunionconf''" if "r = Ret d" for d
    using cloud_service_deployment [OF ref run] that by (auto simp: NewClusterComponentName_def IsDockerComposeClusterName_def sample_world_def oc_consts ctypes)
  with cloud_service_wired [OF ref run, of False 30081] run show "?P j"
    by (auto simp: Let_def comp_def map_eq_Cons_conv)
qed

section \<open>Resources\<close>

text \<open>The amount of one resource a container may use (\<open>Limits\<close>) or is guaranteed (\<open>Requests\<close>).\<close>

definition has_resources :: "ContainerSpec \<Rightarrow> Container \<Rightarrow> bool" where
  "has_resources cs c = (case (cs_Limits cs, cs_Requests cs) of
     (Some lim, Some req) \<Rightarrow> gomap_get (rr_Limits (ct_Resources c)) ''cpu'' = rq_CPU lim \<and> gomap_get (rr_Limits (ct_Resources c)) ''memory'' = rq_Memory lim
        \<and> gomap_get (rr_Requests (ct_Resources c)) ''cpu'' = rq_CPU req \<and> gomap_get (rr_Requests (ct_Resources c)) ''memory'' = rq_Memory req
        \<and> rq_CPU lim \<noteq> None \<and> rq_Memory lim \<noteq> None \<and> rq_CPU req \<noteq> None \<and> rq_Memory req \<noteq> None
   | _ \<Rightarrow> False)"

lemma fill_resources_full:
  "rq_CPU r \<noteq> None \<Longrightarrow> rq_Memory r \<noteq> None \<Longrightarrow> fill_resources c m r = r"
  by (cases r) (auto simp: fill_resources_def)

lemma fill_resources_sel [simp]:
  "rq_CPU (fill_resources c m r) = (case rq_CPU r of None \<Rightarrow> c | Some x \<Rightarrow> Some x)"
  "rq_Memory (fill_resources c m r) = (case rq_Memory r of None \<Rightarrow> m | Some x \<Rightarrow> Some x)"
  by (simp_all add: fill_resources_def split: option.splits)

lemma setContainerResources_filled:
  assumes "default_limits op (ke_listNodes env (kw_calls w)) = Inr (c, m)"
  shows "setContainerResources op env False cs p w =
     (Ret (None, cs\<lparr>cs_Limits := Some (fill_resources c m (ptr_or_new (cs_Limits cs))),
              cs_Requests := Some (fill_resources (Some (quantity_or_zero op ''0.01'')) (Some (quantity_or_zero op ''10Mi'')) (ptr_or_new (cs_Requests cs)))\<rparr>,
           setPodSpecResources ''memory'' (rq_Memory (fill_resources c m (ptr_or_new (cs_Limits cs))))
             (rq_Memory (fill_resources (Some (quantity_or_zero op ''0.01'')) (Some (quantity_or_zero op ''10Mi'')) (ptr_or_new (cs_Requests cs))))
             (setPodSpecResources ''cpu'' (rq_CPU (fill_resources c m (ptr_or_new (cs_Limits cs))))
                (rq_CPU (fill_resources (Some (quantity_or_zero op ''0.01'')) (Some (quantity_or_zero op ''10Mi'')) (ptr_or_new (cs_Requests cs)))) p)),
      w\<lparr>kw_calls := kw_calls w @ [KNode]\<rparr>)"
  using assms by (simp add: setContainerResources_def getDefaultResourceLimits_eval go_simps Let_def)

text \<open>
  C28: unless the cluster disables the management of resources, with a ready master node every container of
  a pod, but no init container, gets limits and requests for processors and memory: those of the specification
  where it has them, and otherwise, as limits, a third of the processors and a sixteenth of the memory of
  that node, never less than 512 MB, and as requests 0.01 processors and 10 MB. What was chosen is written
  into the specification, so that building again from it gives the same containers, whatever master node is
  asked then. With the management disabled no node is asked, no container is touched, and the amounts the
  specification has are cleared, those the user gave as well.
\<close>

theorem container_resources_settle:
  assumes "ke_listNodes env (kw_calls w) = Inr ns" "filter IsNodeReady ns = node # rest"
    and "nd_CPU node = Some cpu" "nd_Memory node = Some mem"
    and "op_parseQuantity op (third_text cpu) = Inr c" "op_parseQuantity op (show_int (default_memory_MB mem) @ ''Mi'') = Inr m"
  shows "(\<exists>cs' q w'. setContainerResources op env False cs p w = (Ret (None, cs', q), w')
     \<and> list_all (has_resources cs') (ps_Containers q) \<and> 512 \<le> default_memory_MB mem
     \<and> map_option rq_CPU (cs_Limits cs') = Some (case rq_CPU (ptr_or_new (cs_Limits cs)) of None \<Rightarrow> Some c | Some x \<Rightarrow> Some x)
     \<and> map_option rq_Memory (cs_Limits cs') = Some (case rq_Memory (ptr_or_new (cs_Limits cs)) of None \<Rightarrow> Some m | Some x \<Rightarrow> Some x)
     \<and> map_option rq_CPU (cs_Requests cs') = Some (case rq_CPU (ptr_or_new (cs_Requests cs)) of None \<Rightarrow> Some (quantity_or_zero op ''0.01'') | Some x \<Rightarrow> Some x)
     \<and> map_option rq_Memory (cs_Requests cs') = Some (case rq_Memory (ptr_or_new (cs_Requests cs)) of None \<Rightarrow> Some (quantity_or_zero op ''10Mi'') | Some x \<Rightarrow> Some x)
     \<and> ps_InitContainers q = ps_InitContainers p \<and> map ct_Name (ps_Containers q) = map ct_Name (ps_Containers p)
     \<and> (\<forall>env2 w2 x w3. getDefaultResourceLimits op env2 w2 = (Ret x, w3) \<longrightarrow>
           setContainerResources op env2 False cs' p w2 = (Ret (None, cs', q), w3)))
   \<and> (\<exists>cs'. setContainerResources op env True cs p w = (Ret (None, cs', p), w)
     \<and> pred_option (\<lambda>r. rq_CPU r = None \<and> rq_Memory r = None) (cs_Limits cs')
     \<and> pred_option (\<lambda>r. rq_CPU r = None \<and> rq_Memory r = None) (cs_Requests cs'))"
proof (rule conjI)
  have lim: "default_limits op (ke_listNodes env (kw_calls w)) = Inr (Some c, Some m)"
    using assms by (simp add: default_limits_def getNodeCapacity_def)
  note run = setContainerResources_filled [OF lim, of cs p]
  let ?lim = "fill_resources (Some c) (Some m) (ptr_or_new (cs_Limits cs))"
  let ?req = "fill_resources (Some (quantity_or_zero op ''0.01'')) (Some (quantity_or_zero op ''10Mi'')) (ptr_or_new (cs_Requests cs))"
  let ?cs = "cs\<lparr>cs_Limits := Some ?lim, cs_Requests := Some ?req\<rparr>"
  have full: "rq_CPU ?lim \<noteq> None" "rq_Memory ?lim \<noteq> None" "rq_CPU ?req \<noteq> None" "rq_Memory ?req \<noteq> None"
    by (simp_all split: option.splits)
  let ?q = "setPodSpecResources ''memory'' (rq_Memory ?lim) (rq_Memory ?req) (setPodSpecResources ''cpu'' (rq_CPU ?lim) (rq_CPU ?req) p)"
  have again: "setContainerResources op env2 False ?cs p w2 = (Ret (None, ?cs, ?q), w3)"
    if "getDefaultResourceLimits op env2 w2 = (Ret x, w3)" for env2 w2 x w3
  proof -
    from that have "default_limits op (ke_listNodes env2 (kw_calls w2)) = Inr (fst x, snd x)"
      and w3: "w3 = w2\<lparr>kw_calls := kw_calls w2 @ [KNode]\<rparr>"
      by (simp_all add: getDefaultResourceLimits_eval split: sum.splits)
    from setContainerResources_filled [OF this(1), of ?cs p] show ?thesis
      using full by (simp add: w3 ptr_or_new_def fill_resources_full del: fill_resources_sel)
  qed
  have "list_all (has_resources ?cs) (ps_Containers ?q)"
    using full by (auto simp: setPodSpecResources_def list_all_iff has_resources_def set_resource_def simp del: fill_resources_sel)
  moreover have "512 \<le> default_memory_MB mem" by (simp add: default_memory_MB_def Let_def)
  moreover have "ps_InitContainers ?q = ps_InitContainers p" "map ct_Name (ps_Containers ?q) = map ct_Name (ps_Containers p)"
    using full by (auto simp: setPodSpecResources_def set_resource_def comp_def simp del: fill_resources_sel)
  ultimately show "\<exists>cs' q w'. setContainerResources op env False cs p w = (Ret (None, cs', q), w')
     \<and> list_all (has_resources cs') (ps_Containers q) \<and> 512 \<le> default_memory_MB mem
     \<and> map_option rq_CPU (cs_Limits cs') = Some (case rq_CPU (ptr_or_new (cs_Limits cs)) of None \<Rightarrow> Some c | Some x \<Rightarrow> Some x)
     \<and> map_option rq_Memory (cs_Limits cs') = Some (case rq_Memory (ptr_or_new (cs_Limits cs)) of None \<Rightarrow> Some m | Some x \<Rightarrow> Some x)
     \<and> map_option rq_CPU (cs_Requests cs') = Some (case rq_CPU (ptr_or_new (cs_Requests cs)) of None \<Rightarrow> Some (quantity_or_zero op ''0.01'') | Some x \<Rightarrow> Some x)
     \<and> map_option rq_Memory (cs_Requests cs') = Some (case rq_Memory (ptr_or_new (cs_Requests cs)) of None \<Rightarrow> Some (quantity_or_zero op ''10Mi'') | Some x \<Rightarrow> Some x)
     \<and> ps_InitContainers q = ps_InitContainers p \<and> map ct_Name (ps_Containers q) = map ct_Name (ps_Containers p)
     \<and> (\<forall>env2 w2 x w3. getDefaultResourceLimits op env2 w2 = (Ret x, w3) \<longrightarrow>
           setContainerResources op env2 False cs' p w2 = (Ret (None, cs', q), w3))"
    by (intro exI [of _ ?cs] exI [of _ ?q] exI conjI allI impI) (rule run, assumption+, simp, simp, simp, simp, assumption+, rule again)
  show "\<exists>cs'. setContainerResources op env True cs p w = (Ret (None, cs', p), w)
     \<and> pred_option (\<lambda>r. rq_CPU r = None \<and> rq_Memory r = None) (cs_Limits cs')
     \<and> pred_option (\<lambda>r. rq_CPU r = None \<and> rq_Memory r = None) (cs_Requests cs')"
    by (cases "cs_Limits cs"; cases "cs_Requests cs")
      (simp_all add: setContainerResources_def go_simps clear_resources_def)
qed

theorem container_resources_settle_witness:
  "\<forall>j. \<exists>cs q w. setContainerResources (plain_op j) node_env False zero_ContainerSpec (zero_PodSpec\<lparr>ps_Containers := [zero_Container]\<rparr>) sample_world = (Ret (None, cs, q), w)
     \<and> list_all (has_resources cs) (ps_Containers q) \<and> map_option rq_CPU (cs_Limits cs) = Some (Some ''2.666667'')
     \<and> map_option rq_Memory (cs_Limits cs) = Some (Some ''1000Mi'')" (is "\<forall>j. ?P j")
proof
  fix j
  have t: "third_text 8 = ''2.666667''" "show_int (default_memory_MB 16000000000) @ ''Mi'' = ''1000Mi''" by code_simp+
  obtain cs q w where "setContainerResources (plain_op j) node_env False zero_ContainerSpec (zero_PodSpec\<lparr>ps_Containers := [zero_Container]\<rparr>) sample_world = (Ret (None, cs, q), w)"
    "list_all (has_resources cs) (ps_Containers q)"
    "map_option rq_CPU (cs_Limits cs) = Some (Some ''2.666667'')" "map_option rq_Memory (cs_Limits cs) = Some (Some ''1000Mi'')"
    using container_resources_settle [of node_env sample_world "[sample_node]" sample_node "[]" 8 16000000000 "plain_op j" "''2.666667''" "''1000Mi''"
        zero_ContainerSpec "zero_PodSpec\<lparr>ps_Containers := [zero_Container]\<rparr>"]
    by (auto simp: node_env_def IsNodeReady_def sample_node_def plain_op_def t zero_defs ptr_or_new_def)
  then show "?P j" by blast
qed

end
