(* ===== verification/Net_IP.thy ===== *)
theory Net_IP
  imports OC_Base
begin

text \<open>
  IP addresses in text form: \<open>net.ParseIP\<close> and \<open>To4\<close> of Go's standard library, as far as the operator
  uses them, and \<open>FormatHost\<close> (\<open>pkg/util/dbutil\<close>), which puts the brackets of a URL around an IPv6
  address. An address is the list of its eight groups of sixteen bits; an IPv4 address is the mapped one.
\<close>

definition digit_value :: "char \<Rightarrow> nat option" where
  "digit_value c = (let n = of_char c :: nat in if 48 \<le> n \<and> n \<le> 57 then Some (n - 48) else None)"

definition hex_value :: "char \<Rightarrow> nat option" where
  "hex_value c = (let n = of_char c :: nat
     in if 48 \<le> n \<and> n \<le> 57 then Some (n - 48)
        else if 97 \<le> n \<and> n \<le> 102 then Some (n - 87)
        else if 65 \<le> n \<and> n \<le> 70 then Some (n - 55) else None)"

text \<open>One number of an IPv4 address: digits without a leading zero, at most 255.\<close>

definition ipv4_field :: "string \<Rightarrow> nat option" where
  "ipv4_field s =
     (if s = [] \<or> list_ex (\<lambda>c. digit_value c = None) s \<or> (1 < length s \<and> hd s = CHR ''0'') then None
      else let v = fold (\<lambda>c acc. 10 * acc + (case digit_value c of Some d \<Rightarrow> d | None \<Rightarrow> 0)) s 0
           in if v \<le> 255 then Some v else None)"

definition parseIPv4 :: "string \<Rightarrow> (nat \<times> nat) option" where
  "parseIPv4 s = (case map ipv4_field (split_on (CHR ''.'') s) of
     [Some a, Some b, Some c, Some d] \<Rightarrow> Some (256 * a + b, 256 * c + d) | _ \<Rightarrow> None)"

definition hex_prefix :: "string \<Rightarrow> string \<times> string" where
  "hex_prefix s = (takeWhile (\<lambda>c. hex_value c \<noteq> None) s, dropWhile (\<lambda>c. hex_value c \<noteq> None) s)"

definition hex_number :: "string \<Rightarrow> nat" where
  "hex_number s = fold (\<lambda>c acc. 16 * acc + (case hex_value c of Some d \<Rightarrow> d | None \<Rightarrow> 0)) s 0"

text \<open>
  The loop of \<open>parseIPv6\<close>: \<open>k\<close> groups are still free, \<open>gs\<close> are the groups read, \<open>el\<close> the position of the
  ellipsis. It ends with the groups, the ellipsis and the text left over.
\<close>

fun ipv6_loop :: "nat \<Rightarrow> nat option \<Rightarrow> nat list \<Rightarrow> string \<Rightarrow> (nat list \<times> nat option \<times> string) option" where
  "ipv6_loop 0 el gs s = Some (gs, el, s)"
| "ipv6_loop (Suc k) el gs s =
     (let (num, rest) = hex_prefix s
      in if num = [] \<or> 4 < length num then None
         else case rest of
           [] \<Rightarrow> Some (gs @ [hex_number num], el, [])
         | c # more \<Rightarrow>
             if c = CHR ''.''
             then (if (el = None \<and> length gs \<noteq> 6) \<or> k = 0 then None
                   else case parseIPv4 s of None \<Rightarrow> None | Some (a, b) \<Rightarrow> Some (gs @ [a, b], el, []))
             else if c \<noteq> CHR '':'' \<or> more = [] then None
             else if hd more = CHR '':''
             then (if el \<noteq> None then None
                   else if tl more = [] then Some (gs @ [hex_number num], Some (Suc (length gs)), [])
                   else ipv6_loop k (Some (Suc (length gs))) (gs @ [hex_number num]) (tl more))
             else ipv6_loop k el (gs @ [hex_number num]) more)"

definition parseIPv6 :: "string \<Rightarrow> nat list option" where
  "parseIPv6 s =
     (if CHR ''%'' \<in> set s then None
      else if s = ''::'' then Some (replicate 8 0)
      else case (if take 2 s = ''::'' then ipv6_loop 8 (Some 0) [] (drop 2 s) else ipv6_loop 8 None [] s) of
        None \<Rightarrow> None
      | Some (gs, el, rest) \<Rightarrow>
          if rest \<noteq> [] then None
          else if length gs < 8
          then (case el of None \<Rightarrow> None | Some e \<Rightarrow> Some (take e gs @ replicate (8 - length gs) 0 @ drop e gs))
          else if el \<noteq> None then None else Some gs)"

definition ParseIP :: "string \<Rightarrow> nat list option" where
  "ParseIP s = (case find (\<lambda>c. c = CHR ''.'' \<or> c = CHR '':'' \<or> c = CHR ''%'') s of
     Some c \<Rightarrow> if c = CHR ''.'' then map_option (\<lambda>(a, b). [0, 0, 0, 0, 0, 65535, a, b]) (parseIPv4 s)
               else if c = CHR '':'' then parseIPv6 s else None
   | None \<Rightarrow> None)"

definition is_To4 :: "nat list \<Rightarrow> bool" where
  "is_To4 ip \<longleftrightarrow> take 6 ip = [0, 0, 0, 0, 0, 65535]"

definition FormatHost :: "string \<Rightarrow> string" where
  "FormatHost host = (case ParseIP host of
     Some ip \<Rightarrow> if is_To4 ip then host else ''['' @ host @ '']''
   | None \<Rightarrow> host)"

lemma FormatHost_cases:
  "FormatHost host = host \<or> FormatHost host = ''['' @ host @ '']'' \<and> CHR '':'' \<in> set host"
proof (cases "find (\<lambda>c. c = CHR ''.'' \<or> c = CHR '':'' \<or> c = CHR ''%'') host")
  case None
  then show ?thesis by (simp add: FormatHost_def ParseIP_def)
next
  case (Some c)
  then have "c \<in> set host" by (metis find_Some_iff nth_mem)
  with Some show ?thesis
    by (cases "c = CHR ''.''") (auto simp: FormatHost_def ParseIP_def is_To4_def split: option.splits)
qed

lemma FormatHost_plain: "CHR '':'' \<notin> set host \<Longrightarrow> FormatHost host = host"
  using FormatHost_cases [of host] by auto

text \<open>A sample address.\<close>

lemma sample_ipv6: "FormatHost ''fd00::1'' = ''[fd00::1]''"
proof -
  have num: "hex_number ''fd00'' = 64768" "hex_number ''1'' = 1" by (simp_all add: hex_number_def hex_value_def)
  have pre: "hex_prefix ''fd00::1'' = (''fd00'', ''::1'')" "hex_prefix ''1'' = (''1'', [])" by (simp_all add: hex_prefix_def hex_value_def)
  have eight: "ipv6_loop 8 = ipv6_loop (Suc (Suc 6))" by simp
  have loop: "ipv6_loop 8 None [] ''fd00::1'' = Some ([64768, 1], Some 1, [])" unfolding eight by (simp add: pre num del: Suc_numeral)
  have "parseIPv6 ''fd00::1'' = Some ([64768] @ replicate 6 0 @ [1])"
    unfolding parseIPv6_def by (simp add: loop)
  then have "ParseIP ''fd00::1'' = Some ([64768] @ replicate 6 0 @ [1])" by (simp add: ParseIP_def)
  then show ?thesis by (simp add: FormatHost_def is_To4_def)
qed

end
