(* ===== verification/Service_Options.thy ===== *)
theory Service_Options
  imports Net_IP Workloads
begin

text \<open>
  The options the operator writes for a service (\<open>pkg/util/option/optionutil.go\<close>), in particular the URLs of
  its databases, and how the initialiser of a docker-compose installation reads the account back from
  such a URL (\<open>pkg/service-init/component/dbutil.go\<close>).
\<close>

section \<open>Database URLs\<close>

definition mysql_url :: "Mysql \<Rightarrow> DBConfig \<Rightarrow> string" where
  "mysql_url my db = ''mysql+pymysql://'' @ dbc_Username db @ '':'' @ dbc_Password db @ ''@'' @ FormatHost (my_Host my) @ '':''
     @ show_int (my_Port my) @ ''/'' @ dbc_Database db @ ''?charset=utf8&parseTime=true&interpolateParams=true''"

definition SetMysqlOptions :: "Mysql \<Rightarrow> DBConfig \<Rightarrow> svc_options" where
  "SetMysqlOptions my input = [(''SqlConnection'', OStr (mysql_url my input))]"

definition SetDamengOptions :: "Dameng \<Rightarrow> DBConfig \<Rightarrow> svc_options" where
  "SetDamengOptions dm input = [(''SqlConnection'', OStr (''dm://'' @ dbc_Username input @ '':'' @ dbc_Password input @ ''@''
     @ FormatHost (my_Host dm) @ '':'' @ show_int (my_Port dm) @ ''/'' @ dbc_Database input))]"

definition SetClickhouseOptions :: "Clickhouse \<Rightarrow> DBConfig \<Rightarrow> svc_options" where
  "SetClickhouseOptions ch input =
     (if my_Host ch \<noteq> [] \<and> dbc_Database input \<noteq> []
      then [(''Clickhouse'', OStr (''tcp://'' @ FormatHost (my_Host ch) @ '':'' @ show_int (my_Port ch) @ ''?database='' @ dbc_Database input
              @ ''&read_timeout=10&write_timeout=20&username='' @ dbc_Username input @ ''&password='' @ dbc_Password input)),
            (''OpsLogWithClickhouse'', OBool True)]
      else [])"

section \<open>Common options\<close>

text \<open>
  \<open>SetOptionsDefault\<close>: the argument parser fills the struct with its defaults, and the application is
  named after the service type where it has no name; what the struct holds then is part of its text.
\<close>

definition SetOptionsDefault :: "options \<Rightarrow> string \<Rightarrow> ('s, unit) go" where
  "SetOptionsDefault op serviceType = lift_err (op_optionsDefault op serviceType)"

definition SetOptionsServiceTLS :: "bool \<Rightarrow> svc_options" where
  "SetOptionsServiceTLS disableTLS =
     [(''EnableSsl'', OBool (\<not> disableTLS)), (''SslCaCerts'', OStr (path_Join [CertDir, CACertName])),
      (''SslCertfile'', OStr (path_Join [CertDir, ServiceCertName])), (''SslKeyfile'', OStr (path_Join [CertDir, ServiceKeyName]))]"

definition SetServiceBaseOptions :: "string \<Rightarrow> ServiceBaseConfig \<Rightarrow> GlobalServiceCommonConfig \<Rightarrow> svc_options" where
  "SetServiceBaseOptions region input common =
     [(''Region'', OStr region), (''Port'', OInt (sbc_Port input)), (''CronJobWorkerCount'', OInt (gsc_CronJobWorkerCount common)),
      (''LocalTaskWorkerCount'', OInt (gsc_LocalTaskWorkerCount common)), (''RequestWorkerCount'', OInt (gsc_RequestWorkerCount common)),
      (''TaskWorkerCount'', OInt (gsc_TaskWorkerCount common))]"

definition GetAuthURL :: "OnecloudCluster \<Rightarrow> string" where
  "GetAuthURL oc =
     (if dvs_DisableTLS (ks_DeploymentServiceSpec (spec_Keystone (oc_Spec oc))) then ''http'' else ''https'') @ ''://''
      @ KeystoneComponentName (om_Name (oc_ObjectMeta oc)) @ '':'' @ show_int KeystoneAdminPort @ ''/v3''"

definition SetServiceCommonOptions ::
  "OnecloudCluster \<Rightarrow> ServiceCommonOptions \<Rightarrow> GlobalServiceCommonConfig \<Rightarrow> svc_options" where
  "SetServiceCommonOptions oc input common =
     SetServiceBaseOptions (GetRegion oc) (sco_ServiceBaseConfig input) common @
     [(''AuthURL'', OStr (GetAuthURL oc)), (''AdminUser'', OStr (cu_Username (sco_CloudUser input))),
      (''AdminDomain'', OStr DefaultDomain), (''AdminPassword'', OStr (cu_Password (sco_CloudUser input))),
      (''AdminProject'', OStr SysAdminProject)]"

text \<open>The choice of the database engine, the same in every service.\<close>

definition db_options :: "OnecloudCluster \<Rightarrow> string \<Rightarrow> DBConfig \<Rightarrow> svc_options" where
  "db_options oc dbEngine db =
     (if GetDbEngine (oc_Spec oc) dbEngine = DBEngineDameng then SetDamengOptions (spec_Dameng (oc_Spec oc)) db
      else SetMysqlOptions (spec_Mysql (oc_Spec oc)) db)"

section \<open>Reading a URL back\<close>

text \<open>\<open>Split\<close> of the regular expression \<open>[/@:]+\<close>: at every longest run of separators.\<close>

function (sequential) split_runs :: "(char \<Rightarrow> bool) \<Rightarrow> string \<Rightarrow> string list" where
  "split_runs P [] = [[]]"
| "split_runs P (c # cs) =
     (if P c then [] # split_runs P (dropWhile P cs)
      else (case split_runs P cs of [] \<Rightarrow> [[c]] | p # ps \<Rightarrow> (c # p) # ps))"
  by pat_completeness auto
termination
  by (relation "measure (length \<circ> snd)") (auto simp: le_imp_less_Suc length_dropWhile_le)

definition url_sep :: "char \<Rightarrow> bool" where
  "url_sep c \<longleftrightarrow> c = CHR ''/'' \<or> c = CHR ''@'' \<or> c = CHR '':''"

text \<open>\<open>url.ParseQuery\<close> fails on a semicolon and on a percent sign without two hexadecimal digits after it.\<close>

fun escapes_ok :: "string \<Rightarrow> bool" where
  "escapes_ok [] = True"
| "escapes_ok (c # cs) =
     (if c = CHR ''%''
      then (case cs of a # b # rest \<Rightarrow> hex_value a \<noteq> None \<and> hex_value b \<noteq> None \<and> escapes_ok rest | _ \<Rightarrow> False)
      else escapes_ok cs)"

definition ParseQuery_ok :: "string \<Rightarrow> bool" where
  "ParseQuery_ok q = list_all (\<lambda>part. CHR '';'' \<notin> set part \<and>
     (let (k, v) = (takeWhile (\<lambda>c. c \<noteq> CHR ''='') part, tl (dropWhile (\<lambda>c. c \<noteq> CHR ''='') part)) in escapes_ok k \<and> escapes_ok v))
     (split_on (CHR ''&'') q)"

text \<open>
  A query mark with nothing after it leaves the map of the query nil, and setting a key of it panics.
\<close>

definition ParseSQLAchemyURL :: "string \<Rightarrow> ('s, DBConfig) go" where
  "ParseSQLAchemyURL pySQLSrc =
     (if pySQLSrc = [] then fail (Errorf ''Empty input'')
      else case split_runs url_sep pySQLSrc of
        [scheme, user, passwd, host, port, dburl] \<Rightarrow>
          (let db = takeWhile (\<lambda>c. c \<noteq> CHR ''?'') dburl; query = dropWhile (\<lambda>c. c \<noteq> CHR ''?'') dburl
           in if query \<noteq> [] \<and> db = [] then fail (Errorf ''Missing database name'')
              else if query = ''?'' then go_panic ''assignment to entry in nil map''
              else if query \<noteq> [] \<and> \<not> ParseQuery_ok (tl query) then fail (Errorf ''invalid query'')
              else ret \<lparr>dbc_Database = db, dbc_Username = user, dbc_Password = passwd\<rparr>)
      | _ \<Rightarrow> fail (Errorf (''Incorrect mysql connection url: '' @ pySQLSrc)))"

section \<open>Laws\<close>

lemma split_runs_nonempty [simp]: "split_runs P s \<noteq> []"
  by (induction P s rule: split_runs.induct) (auto split: list.splits)

lemma split_runs_absent: "list_all (\<lambda>c. \<not> P c) s \<Longrightarrow> split_runs P s = [s]"
  by (induction s) auto

text \<open>A text that ends outside a run is split by itself, before whatever follows the next run.\<close>

lemma split_runs_append:
  assumes "x \<noteq> []" "\<not> P (last x)" "P c"
  shows "split_runs P (x @ c # y) = split_runs P x @ split_runs P (dropWhile P y)"
  using assms
proof (induction P x rule: split_runs.induct)
  case (2 P a x)
  show ?case
  proof (cases "P a")
    case True
    with 2 have x: "x \<noteq> []" "\<not> P (last x)" by (auto split: if_splits)
    then have "dropWhile P x \<noteq> []" "last (dropWhile P x) = last x"
      by (auto simp: dropWhile_eq_Nil_conv intro!: dropWhile_last)
    with 2 True have "split_runs P (dropWhile P x @ c # y) = split_runs P (dropWhile P x) @ split_runs P (dropWhile P y)"
      by (auto split: if_splits)
    moreover have "dropWhile P (x @ c # y) = dropWhile P x @ c # y"
      using \<open>dropWhile P x \<noteq> []\<close> by (metis append_Nil2 dropWhile_append dropWhile_eq_Nil_conv)
    ultimately show ?thesis using True by simp
  next
    case False
    show ?thesis
    proof (cases "x = []")
      case True
      with False 2(5) show ?thesis by simp
    next
      case ne: False
      with 2 False have "split_runs P (x @ c # y) = split_runs P x @ split_runs P (dropWhile P y)"
        by (auto split: if_splits)
      with False show ?thesis by (auto split: list.splits simp: append_eq_Cons_conv)
    qed
  qed
qed simp

lemma split_runs_two: "list_ex P s \<Longrightarrow> 2 \<le> length (split_runs P s)"
proof (induction P s rule: split_runs.induct)
  case (2 P c cs)
  have one: "1 \<le> length (split_runs P s)" for s by (simp add: Suc_le_eq)
  show ?case
  proof (cases "P c")
    case True
    with one [of "dropWhile P cs"] show ?thesis by simp
  next
    case False
    with 2 have "2 \<le> length (split_runs P cs)" by simp
    with False show ?thesis by (auto split: list.splits)
  qed
qed simp

lemma show_int_plain: "list_all (\<lambda>c. \<not> url_sep c) (show_int i)" "show_int i \<noteq> []"
proof -
  have "\<not> url_sep c" if "c \<in> set (show_nat n)" for c n
    using show_nat_digits [OF that] by (auto simp: url_sep_def)
  then show "list_all (\<lambda>c. \<not> url_sep c) (show_int i)"
    by (simp add: show_int_def list_all_iff) (simp add: url_sep_def)
qed (simp add: show_int_def)

text \<open>What may stand in a part of a URL: text without separators.\<close>

definition plain :: "string \<Rightarrow> bool" where
  "plain s \<longleftrightarrow> s \<noteq> [] \<and> list_all (\<lambda>c. \<not> url_sep c) s"

lemma plain_last: "plain s \<Longrightarrow> \<not> url_sep (last s)" "plain s \<Longrightarrow> s \<noteq> []" "plain s \<Longrightarrow> \<not> url_sep (hd s)"
  by (auto simp: plain_def list_all_iff)

lemma url_sep_simps [simp]: "url_sep (CHR ''/'')" "url_sep (CHR ''@'')" "url_sep (CHR '':'')" "\<not> url_sep (CHR ''['')" "\<not> url_sep (CHR '']'')"
  by (simp_all add: url_sep_def)

lemma dropWhile_start: "x \<noteq> [] \<Longrightarrow> \<not> P (hd x) \<Longrightarrow> dropWhile P (x @ y) = x @ y"
  by (cases x) auto

lemma split_url_parts:
  assumes "plain scheme" "plain user" "plain pw" "h \<noteq> []" "\<not> url_sep (hd h)" "\<not> url_sep (last h)" "plain port"
    and "db \<noteq> []" "list_all (\<lambda>c. \<not> url_sep c) db"
  shows "split_runs url_sep (scheme @ ''://'' @ user @ '':'' @ pw @ ''@'' @ h @ '':'' @ port @ ''/'' @ db)
    = [scheme, user, pw] @ split_runs url_sep h @ [port, db]"
proof -
  note part = split_runs_append [where P = url_sep] dropWhile_start split_runs_absent plain_last
  have "split_runs url_sep (port @ ''/'' @ db) = [port, db]"
    using assms by (simp add: part plain_def dropWhile_start [where y = "[]", simplified] list_all_iff)
  then have "split_runs url_sep (h @ '':'' @ port @ ''/'' @ db) = split_runs url_sep h @ [port, db]"
    using assms(4-7) by (simp add: part)
  then have "split_runs url_sep (pw @ ''@'' @ h @ '':'' @ port @ ''/'' @ db) = pw # split_runs url_sep h @ [port, db]"
    using assms(3-5) by (simp add: part) (simp add: plain_def split_runs_absent)
  then have "split_runs url_sep (user @ '':'' @ pw @ ''@'' @ h @ '':'' @ port @ ''/'' @ db) = user # pw # split_runs url_sep h @ [port, db]"
    using assms(2,3) by (simp add: part) (simp add: plain_def split_runs_absent)
  then show ?thesis
    using assms(1,2) by (simp add: part) (simp add: plain_def split_runs_absent)
qed

text \<open>
  C31: the account of a database is read back from the URL that the operator writes, when user, password
  and host have no separators and the name of the database no question mark: this holds for a host
  name and for an IPv4 address. For a host that is an IPv6 address the brackets do not help: the URL
  the operator writes is refused.
\<close>

theorem mysql_url_roundtrip:
  assumes "plain (dbc_Username db)" "plain (dbc_Password db)" "plain (dbc_Database db)" "CHR ''?'' \<notin> set (dbc_Database db)"
  shows "(plain (my_Host my) \<longrightarrow> ParseSQLAchemyURL (mysql_url my db) s = (Ret db, s))
     \<and> (FormatHost (my_Host my) \<noteq> my_Host my \<longrightarrow> (\<exists>e. ParseSQLAchemyURL (mysql_url my db) s = (Fail e, s)))"
proof -
  let ?q = "''?charset=utf8&parseTime=true&interpolateParams=true''"
  let ?d = "dbc_Database db @ ?q"
  have d: "?d \<noteq> []" "list_all (\<lambda>c. \<not> url_sep c) ?d" using assms(3) by (simp_all add: plain_def url_sep_def)
  have scheme: "plain ''mysql+pymysql''" by (simp add: plain_def url_sep_def)
  have port: "plain (show_int (my_Port my))" by (simp add: plain_def show_int_plain)
  have url: "mysql_url my db = ''mysql+pymysql'' @ ''://'' @ dbc_Username db @ '':'' @ dbc_Password db @ ''@'' @ FormatHost (my_Host my)
      @ '':'' @ show_int (my_Port my) @ ''/'' @ ?d" by (simp add: mysql_url_def)
  have parts: "split_runs url_sep (mysql_url my db) = [''mysql+pymysql'', dbc_Username db, dbc_Password db]
        @ split_runs url_sep (FormatHost (my_Host my)) @ [show_int (my_Port my), ?d]"
    if "FormatHost (my_Host my) \<noteq> []" "\<not> url_sep (hd (FormatHost (my_Host my)))" "\<not> url_sep (last (FormatHost (my_Host my)))"
    unfolding url by (rule split_url_parts [OF scheme assms(1,2) that port d])
  have ne: "mysql_url my db \<noteq> []" by (simp add: mysql_url_def)
  show ?thesis
  proof (intro conjI impI)
    assume h: "plain (my_Host my)"
    then have "CHR '':'' \<notin> set (my_Host my)" by (auto simp: plain_def list_all_iff)
    then have "FormatHost (my_Host my) = my_Host my" by (rule FormatHost_plain)
    with h have split: "split_runs url_sep (mysql_url my db) =
        [''mysql+pymysql'', dbc_Username db, dbc_Password db, my_Host my, show_int (my_Port my), ?d]"
      using parts by (simp add: plain_last) (simp add: split_runs_absent plain_def)
    have tw: "takeWhile (\<lambda>c. c \<noteq> CHR ''?'') ?d = dbc_Database db" "dropWhile (\<lambda>c. c \<noteq> CHR ''?'') ?d = ?q"
      using assms(4) by (subst takeWhile_append2 dropWhile_append2; force)+
    have "ParseQuery_ok (tl ?q)" by code_simp
    with tw ne assms(3) show "ParseSQLAchemyURL (mysql_url my db) s = (Ret db, s)"
      by (simp add: ParseSQLAchemyURL_def split go_simps plain_def)
  next
    assume "FormatHost (my_Host my) \<noteq> my_Host my"
    then have h: "FormatHost (my_Host my) = ''['' @ my_Host my @ '']''" "CHR '':'' \<in> set (my_Host my)"
      using FormatHost_cases [of "my_Host my"] by auto
    then have "2 \<le> length (split_runs url_sep (FormatHost (my_Host my)))"
      by (intro split_runs_two) (auto simp: list_ex_iff intro!: bexI [of _ "CHR '':''"])
    moreover have "split_runs url_sep (mysql_url my db) = [''mysql+pymysql'', dbc_Username db, dbc_Password db]
        @ split_runs url_sep (FormatHost (my_Host my)) @ [show_int (my_Port my), ?d]"
      using parts h by simp
    ultimately have "length (split_runs url_sep (mysql_url my db)) > 6" by simp
    then show "\<exists>e. ParseSQLAchemyURL (mysql_url my db) s = (Fail e, s)"
      using ne by (auto simp: ParseSQLAchemyURL_def go_simps split: list.splits)
  qed
qed

theorem mysql_url_roundtrip_witness:
  "ParseSQLAchemyURL (mysql_url (zero_Mysql\<lparr>my_Host := ''10.0.0.1'', my_Port := 3306\<rparr>)
       \<lparr>dbc_Database = ''keystone'', dbc_Username = ''ks'', dbc_Password = ''Y35Z''\<rparr>) ()
     = (Ret \<lparr>dbc_Database = ''keystone'', dbc_Username = ''ks'', dbc_Password = ''Y35Z''\<rparr>, ())
   \<and> (\<exists>e. ParseSQLAchemyURL (mysql_url (zero_Mysql\<lparr>my_Host := ''fd00::1'', my_Port := 3306\<rparr>)
       \<lparr>dbc_Database = ''keystone'', dbc_Username = ''ks'', dbc_Password = ''Y35Z''\<rparr>) () = (Fail e, ()))"
proof -
  let ?db = "\<lparr>dbc_Database = ''keystone'', dbc_Username = ''ks'', dbc_Password = ''Y35Z''\<rparr>"
  let ?four = "zero_Mysql\<lparr>my_Host := ''10.0.0.1'', my_Port := 3306\<rparr>" and ?six = "zero_Mysql\<lparr>my_Host := ''fd00::1'', my_Port := 3306\<rparr>"
  have "plain (dbc_Username ?db)" "plain (dbc_Password ?db)" "plain (dbc_Database ?db)" "CHR ''?'' \<notin> set (dbc_Database ?db)"
    by code_simp+
  note rt = mysql_url_roundtrip [OF this]
  have "plain ''10.0.0.1''" "FormatHost ''fd00::1'' \<noteq> ''fd00::1''" by (simp_all add: plain_def url_sep_def sample_ipv6)
  then have four: "plain (my_Host ?four)" and six: "FormatHost (my_Host ?six) \<noteq> my_Host ?six"
    by (simp_all only: Mysql.select_convs Mysql.update_convs Mysql.surjective zero_Mysql_def simp_thms)
  from rt [of ?four "()", THEN conjunct1, rule_format, OF four] rt [of ?six "()", THEN conjunct2, rule_format, OF six]
  show ?thesis by (rule conjI)
qed

end
