(* ===== verification/Onecloud_Api.thy ===== *)
theory Onecloud_Api
  imports Service_Options
begin

text \<open>
  The client side of the cloud's own API (\<open>pkg/util/onecloud/onecloud.go\<close>): what the operator looks up,
  creates, updates and deletes in the identity, compute, monitor and devtool services through a session of
  \<open>mcclient\<close>. The services are an argument: an \<^emph>\<open>api\<close> that answers a request from the requests made before
  it. JSON objects are values of \<open>jv\<close> with the accessors of \<open>jsonutils\<close>.
\<close>

section \<open>JSON objects\<close>

datatype jv = JNull | JBool bool | JInt int | JFloat string | JStr string | JArr "jv list" | JDict "(string \<times> jv) list"

type_synonym jdict = "(string \<times> jv) list"

text \<open>\<open>JSONDict._get\<close>: the value at a path of keys.\<close>

fun json_Get :: "string list \<Rightarrow> jv \<Rightarrow> jv option" where
  "json_Get [] (JDict d) = Some (JDict d)"
| "json_Get [k] (JDict d) = map_of d k"
| "json_Get (k # k' # ks) (JDict d) = (case map_of d k of None \<Rightarrow> None | Some v \<Rightarrow> json_Get (k' # ks) v)"
| "json_Get ks v = None"

definition json_Contains :: "string list \<Rightarrow> jv \<Rightarrow> bool" where
  "json_Contains ks v \<longleftrightarrow> json_Get ks v \<noteq> None"

text \<open>The text of a value: a string as it is, any other value as it is printed.\<close>

fun json_text :: "(jv \<Rightarrow> string) \<Rightarrow> jv \<Rightarrow> string" where
  "json_text print (JStr s) = s"
| "json_text print (JInt n) = show_int n"
| "json_text print (JBool b) = (if b then ''true'' else ''false'')"
| "json_text print v = print v"

definition json_GetString :: "(jv \<Rightarrow> string) \<Rightarrow> string list \<Rightarrow> jv \<Rightarrow> string option" where
  "json_GetString print ks v = map_option (json_text print) (json_Get ks v)"

definition lower_char :: "char \<Rightarrow> char" where
  "lower_char c = (if of_char c \<ge> (65::nat) \<and> of_char c \<le> (90::nat) then char_of (of_char c + (32::nat)) else c)"

definition EqualFold :: "string \<Rightarrow> string \<Rightarrow> bool" where
  "EqualFold s t \<longleftrightarrow> map lower_char s = map lower_char t"

fun json_as_bool :: "jv \<Rightarrow> bool option" where
  "json_as_bool (JBool b) = Some b"
| "json_as_bool (JStr s) =
     (if EqualFold s ''true'' \<or> EqualFold s ''on'' \<or> EqualFold s ''yes'' \<or> s = ''1'' then Some True
      else if EqualFold s ''false'' \<or> EqualFold s ''off'' \<or> EqualFold s ''no'' \<or> s = ''0'' then Some False else None)"
| "json_as_bool v = None"

definition json_Bool :: "string list \<Rightarrow> jv \<Rightarrow> bool option" where
  "json_Bool ks v = Option.bind (json_Get ks v) json_as_bool"

text \<open>Results read without looking at the error: the zero value of the type.\<close>

definition str_at :: "(jv \<Rightarrow> string) \<Rightarrow> string \<Rightarrow> jv \<Rightarrow> string" where
  "str_at print k v = (case json_GetString print [k] v of None \<Rightarrow> [] | Some s \<Rightarrow> s)"

definition bool_at :: "string \<Rightarrow> jv \<Rightarrow> bool" where
  "bool_at k v = (json_Bool [k] v = Some True)"

text \<open>
  \<open>JSONDict.Add\<close>: dictionaries on the path are made when they are missing or null; a value of another kind
  there leaves the dictionary as it was (an error that no caller looks at).
\<close>

fun json_Add :: "jv \<Rightarrow> string list \<Rightarrow> jdict \<Rightarrow> jdict" where
  "json_Add v [] d = d"
| "json_Add v [k] d = AList.update k v d"
| "json_Add v (k # k' # ks) d =
     (case map_of d k of
        None \<Rightarrow> AList.update k (JDict (json_Add v (k' # ks) [])) d
      | Some JNull \<Rightarrow> AList.update k (JDict (json_Add v (k' # ks) [])) d
      | Some (JDict d') \<Rightarrow> AList.update k (JDict (json_Add v (k' # ks) d')) d
      | Some _ \<Rightarrow> d)"

text \<open>\<open>strconv.ParseInt\<close> in base ten and 64 bits.\<close>

fun parse_digits :: "int \<Rightarrow> string \<Rightarrow> int option" where
  "parse_digits n [] = Some n"
| "parse_digits n (c # cs) =
     (let d = of_char c - (48::int) in if 0 \<le> d \<and> d \<le> 9 then parse_digits (10 * n + d) cs else None)"

definition ParseInt :: "string \<Rightarrow> int option" where
  "ParseInt s =
     (let (neg, digits) = (case s of [] \<Rightarrow> (False, []) | c # cs \<Rightarrow> if c = CHR ''-'' then (True, cs) else if c = CHR ''+'' then (False, cs) else (False, s))
      in if digits = [] then None
         else Option.bind (parse_digits 0 digits) (\<lambda>n.
                let v = (if neg then - n else n) in if - (2 ^ 63) \<le> v \<and> v < 2 ^ 63 then Some v else None))"

text \<open>\<open>JSONValue.Int\<close>; a string counts when it is a decimal number.\<close>

fun json_as_int :: "jv \<Rightarrow> int option" where
  "json_as_int (JInt n) = Some n"
| "json_as_int (JStr s) = ParseInt s"
| "json_as_int v = None"

definition json_Int :: "string list \<Rightarrow> jv \<Rightarrow> int option" where
  "json_Int ks v = Option.bind (json_Get ks v) json_as_int"

text \<open>\<open>jsonutils.QueryBoolean\<close> with the default \<open>false\<close>.\<close>

definition is_space :: "char \<Rightarrow> bool" where
  "is_space c \<longleftrightarrow> of_char c \<in> {9, 10, 11, 12, 13, 32::nat}"

definition TrimSpace :: "string \<Rightarrow> string" where
  "TrimSpace s = rev (dropWhile is_space (rev (dropWhile is_space s)))"

definition QueryBoolean :: "(jv \<Rightarrow> string) \<Rightarrow> string \<Rightarrow> jv \<Rightarrow> bool" where
  "QueryBoolean print k v =
     (case json_GetString print [k] v of
        None \<Rightarrow> False
      | Some s \<Rightarrow> in_strings (map lower_char (TrimSpace s)) [''1'', ''true'', ''on'', ''yes''])"

section \<open>Requests and sessions\<close>

datatype cmod =
    MServices | MEndpoints | MServiceCertificates | MRegions | MRoles | MUsers | MProjects | MPolicies | MIdentityQuotas
  | MZones | MWires | MNetworks | MSchedtags | MDynamicschedtags
  | MDevToolTemplates | MDevToolScripts | MPlaybookReferences | MCommonAlerts | MLLMImages | MLLMSkus
  | MProxyAgents | MParameters | MKubeClusters

text \<open>
  The inputs of the monitor service that the operator fills in: a metric query with its selections, tags and
  grouping, the condition on it, and an alert with the fields that are set on creation or update.
\<close>

record MetricQueryTag =
  mqt_Key :: string
  mqt_Operator :: string
  mqt_Value :: string
  mqt_Condition :: string

record MetricQueryPart =
  mqp_Type :: string
  mqp_Params :: "string list"

record CommonAlertQuery =
  caq_Database :: string
  caq_Measurement :: string
  caq_Tags :: "MetricQueryTag list"
  caq_GroupBy :: "MetricQueryPart list"
  caq_Selects :: "MetricQueryPart list list"
  caq_From :: string
  caq_Reduce :: string
  caq_Comparator :: string
  caq_Threshold :: int
  caq_FieldOpt :: string
  caq_ConditionType :: string

record alert_input =
  ai_MetricQuery :: "CommonAlertQuery list"
  ai_Name :: string
  ai_Level :: string
  ai_NoDataState :: string
  ai_From :: string
  ai_Interval :: string
  ai_Description :: string
  ai_GetPointStr :: bool
  ai_MetaName :: string

record alert_condition =
  ac_From :: string
  ac_Selects :: "MetricQueryPart list list"

record alert_detail =
  ad_Comparator :: string
  ad_Filters :: "MetricQueryTag list"

text \<open>The components of the container platform (\<open>kubeserver.go\<close>).\<close>

record ComponentStatus =
  cst_Enabled :: bool
  cst_Status :: string

record ClusterComponentsStatus =
  ccs_Monitor :: "ComponentStatus option"
  ccs_Thanos :: "ComponentStatus option"
  ccs_Minio :: "ComponentStatus option"
  ccs_MonitorMinio :: "ComponentStatus option"

text \<open>The predefined policies and roles of the identity service.\<close>

record SPolicyData =
  spd_Name :: string
  spd_Scope :: string
  spd_Policy :: jv

record SRoleDefiniton =
  srd_Name :: string
  srd_Policies :: "string list"
  srd_Project :: string
  srd_IsPublic :: bool

text \<open>
  A request. \<open>RCreateInput\<close> carries the fields set in a structure of the client library, which the library
  marshals; \<open>RCreateAlert\<close> and \<open>RUpdateAlert\<close> carry the alert.
\<close>

datatype request =
    RGet cmod string
  | RGetByName cmod string
  | RGetSpecific cmod string string
  | RList cmod jdict
  | RCreate cmod jdict
  | RCreateIn cmod jdict cmod string
  | RCreateInput cmod jdict
  | RCreateAlert alert_input
  | RUpdateAlert string alert_input
  | RUpdate cmod string jdict
  | RPatch cmod string jdict
  | RDelete cmod string
  | RBatchDelete cmod "string list"
  | RPerform cmod string string jdict
  | RPutInProject string string string
  | RGetQuota jdict
  | RSetQuota jdict
  | RAuthenticate string string
  | RAuthInit string string
  | RLogin string string
  | RGetSecret string
  | RGetDeployment string
  | RDeleteDeployment string
  | RListNodes
  | RClusterConfig
  | REnsureMySQLUser DBConfig
  | RGetService string string
  | RStackDeployment string
  | RStackStatefulSet string
  | RBucketExists ObjectStoreConfig string
  | RMakeBucket ObjectStoreConfig string
  | RSetLifecycle ObjectStoreConfig string string string int

text \<open>
  The services: the answer to a request with one object, the answer to a list with its objects and its total,
  the printing of errors and values, the order in which maps are ranged over, the parsers of ansible lines,
  the decoding of an alert's settings and metric details, and the comparison of marshalled selections and tags. The requests made before it are an argument, so the answers may change
  from one request to the next in any way.
\<close>

record api =
  ap_object :: "request list \<Rightarrow> request \<Rightarrow> goerr + jv"
  ap_list :: "request list \<Rightarrow> request \<Rightarrow> goerr + (jv list \<times> int)"
  ap_secret :: "string \<Rightarrow> goerr + (string \<times> string) list"
  ap_ready :: "request list \<Rightarrow> string \<Rightarrow> goerr + int"
  ap_err :: "goerr \<Rightarrow> string"
  ap_print :: "jv \<Rightarrow> string"
  ap_order :: range_order
  ap_equals :: "jv \<Rightarrow> jv \<Rightarrow> bool"
  ap_policies :: "SPolicyData list"
  ap_roles :: "SRoleDefiniton list"
  ap_controller :: bool
  ap_telegrafConf :: string
  ap_authed :: "request list \<Rightarrow> bool"
  ap_hostLine :: "string \<Rightarrow> goerr + jv"
  ap_moduleLine :: "string \<Rightarrow> goerr + jv"
  ap_settings :: "jv \<Rightarrow> goerr + alert_condition list"
  ap_details :: "jv \<Rightarrow> goerr + alert_detail list"
  ap_sameSelects :: "MetricQueryPart list list \<Rightarrow> MetricQueryPart list list \<Rightarrow> bool"
  ap_components :: "jv \<Rightarrow> goerr + ClusterComponentsStatus"
  ap_nodes :: "request list \<Rightarrow> goerr + Node list"
  ap_config :: "request list \<Rightarrow> goerr + OnecloudClusterConfig"
  ap_service :: "request list \<Rightarrow> request \<Rightarrow> goerr + CoreService"
  ap_deployment :: "request list \<Rightarrow> request \<Rightarrow> goerr + Deployment"
  ap_containers :: "request list \<Rightarrow> request \<Rightarrow> goerr + Container list"
  ap_minio :: "ObjectStoreConfig \<Rightarrow> goerr option"
  ap_bucket :: "request list \<Rightarrow> request \<Rightarrow> goerr + bool"
  ap_sameTags :: "MetricQueryTag list \<Rightarrow> MetricQueryTag list \<Rightarrow> bool"

record session =
  se_calls :: "request list"
  se_oc :: OnecloudCluster

type_synonym 'a sm = "(session, 'a) go"

definition request_logged :: "request \<Rightarrow> session \<Rightarrow> session" where
  "request_logged q s = s\<lparr>se_calls := se_calls s @ [q]\<rparr>"

definition ask_as :: "(request list \<Rightarrow> request \<Rightarrow> goerr + 'a) \<Rightarrow> request \<Rightarrow> 'a sm" where
  "ask_as f q = (\<lambda>s. (case f (se_calls s) q of Inl e \<Rightarrow> Fail e | Inr v \<Rightarrow> Ret v, request_logged q s))"

definition ask :: "api \<Rightarrow> request \<Rightarrow> jv sm" where
  "ask a q = ask_as (ap_object a) q"

definition ask_list :: "api \<Rightarrow> request \<Rightarrow> (jv list \<times> int) sm" where
  "ask_list a q = ask_as (ap_list a) q"

definition ask_unit :: "api \<Rightarrow> request \<Rightarrow> unit sm" where
  "ask_unit a q = andthen (ask a q) (\<lambda>_. ret ())"

text \<open>
  \<open>RunWithSession\<close> (\<open>pkg/controller/onecloud_control.go\<close>), under a lock, so that sessions follow one another. The
  client library is signed in when it holds a token that has not expired; \<open>auth.Init\<close> signs in again and ends the
  process when it cannot (\<open>log.Fatalf\<close>). An error of the function leads to a second run with a fresh token.
\<close>

record OnecloudRCAdminConfig =
  rca_AuthURL :: string
  rca_Region :: string
  rca_Username :: string
  rca_Password :: string
  rca_DomainName :: string
  rca_ProjectName :: string
  rca_ProjectDomain :: string
  rca_Insecure :: bool
  rca_Timeout :: int

definition NewOnecloudRCAdminConfig :: "OnecloudCluster \<Rightarrow> OnecloudRCAdminConfig" where
  "NewOnecloudRCAdminConfig oc =
     \<lparr>rca_AuthURL = GetAuthURL oc, rca_Region = spec_Region (oc_Spec oc), rca_Username = SysAdminUsername,
      rca_Password = ks_BootstrapPassword (spec_Keystone (oc_Spec oc)), rca_DomainName = DefaultDomain,
      rca_ProjectName = SysAdminProject, rca_ProjectDomain = DefaultDomain, rca_Insecure = True, rca_Timeout = 600\<rparr>"

definition getSession :: "api \<Rightarrow> unit sm" where
  "getSession a = andthen (gets se_oc) (\<lambda>oc.
     let c = NewOnecloudRCAdminConfig oc in ask_unit a (RAuthenticate (rca_AuthURL c) (rca_Username c)))"

definition initAuth :: "api \<Rightarrow> unit sm" where
  "initAuth a = andthen (gets se_oc) (\<lambda>oc.
     let c = NewOnecloudRCAdminConfig oc
     in andthen (attempt (ask a (RAuthInit (rca_AuthURL c) (rca_Username c)))) (\<lambda>r.
        case r of Inl e \<Rightarrow> go_panic ''log.Fatalf: auth manager init'' | Inr _ \<Rightarrow> ret ()))"

definition getAuthBackgroudSession :: "api \<Rightarrow> bool \<Rightarrow> unit sm" where
  "getAuthBackgroudSession a refresh =
     andthen (gets (\<lambda>s. ap_authed a (se_calls s))) (\<lambda>authed. guarded (\<not> authed \<or> refresh) (initAuth a))"

definition RunWithSession :: "api \<Rightarrow> unit sm \<Rightarrow> unit sm" where
  "RunWithSession a f =
     andthen (gets (\<lambda>s. ap_authed a (se_calls s))) (\<lambda>authed.
     seq (if authed then getAuthBackgroudSession a False
          else seq (map_err (Wrapped ''get mcclient session'') (getSession a)) (initAuth a))
    (andthen (attempt f) (\<lambda>r.
     case r of
       Inr _ \<Rightarrow> ret ()
     | Inl e \<Rightarrow> seq (getAuthBackgroudSession a True) (map_err (Wrapped ''RunWithSession twice'') f))))"

section \<open>Resources\<close>

fun IsNotFoundError :: "api \<Rightarrow> goerr \<Rightarrow> bool" where
  "IsNotFoundError a (JSONClientError code details) =
     (code = 404 \<or> contains_str (ap_err a (JSONClientError code details)) ''NotFoundError'')"
| "IsNotFoundError a e = contains_str (ap_err a e) ''NotFoundError''"

definition ErrorCode :: "goerr \<Rightarrow> int" where
  "ErrorCode e = (case e of JSONClientError code _ \<Rightarrow> code | _ \<Rightarrow> - 1)"

definition IsResourceExists :: "api \<Rightarrow> cmod \<Rightarrow> string \<Rightarrow> jv option sm" where
  "IsResourceExists a man name =
     andthen (attempt (ask a (RGet man name))) (\<lambda>r.
     case r of
       Inr obj \<Rightarrow> ret (Some obj)
     | Inl e \<Rightarrow> if IsNotFoundError a e then ret None else fail e)"

definition EnsureResource :: "api \<Rightarrow> cmod \<Rightarrow> string \<Rightarrow> jv sm \<Rightarrow> jv sm" where
  "EnsureResource a man name createFunc =
     andthen (IsResourceExists a man name) (\<lambda>r. case r of Some obj \<Rightarrow> ret obj | None \<Rightarrow> createFunc)"

definition DeleteResource :: "api \<Rightarrow> cmod \<Rightarrow> string \<Rightarrow> unit sm" where
  "DeleteResource a man name =
     andthen (IsResourceExists a man name) (\<lambda>r.
     case r of
       None \<Rightarrow> ret ()
     | Some obj \<Rightarrow> ask_unit a (RDelete man (str_at (ap_print a) ''id'' obj)))"

definition CreateRole :: "api \<Rightarrow> string \<Rightarrow> string \<Rightarrow> jv sm" where
  "CreateRole a roleName description =
     ask a (RCreate MRoles ((''name'', JStr roleName) # (if description = [] then [] else [(''description'', JStr description)])))"

definition EnsureRole :: "api \<Rightarrow> string \<Rightarrow> string \<Rightarrow> jv sm" where
  "EnsureRole a roleName description = EnsureResource a MRoles roleName (CreateRole a roleName description)"

section \<open>Services and endpoints\<close>

definition IsServiceExists :: "api \<Rightarrow> string \<Rightarrow> jv option sm" where
  "IsServiceExists a svcName = IsResourceExists a MServices svcName"

definition cloud_CreateService :: "api \<Rightarrow> string \<Rightarrow> string \<Rightarrow> jv sm" where
  "cloud_CreateService a svcName svcType =
     ask a (RCreate MServices [(''type'', JStr svcType), (''name'', JStr svcName), (''enabled'', JBool True)])"

definition EnsureService :: "api \<Rightarrow> string \<Rightarrow> string \<Rightarrow> jv sm" where
  "EnsureService a svcName svcType =
     map_err (Wrapped ''EnsureResource'') (EnsureResource a MServices svcName (cloud_CreateService a svcName svcType))"

definition getEndpointsByService :: "api \<Rightarrow> string \<Rightarrow> string option \<Rightarrow> jv list sm" where
  "getEndpointsByService a serviceName mode =
     andthen (ask a (RGet MServices serviceName)) (\<lambda>obj.
     andthen (ask_list a (RList MEndpoints
        ([(''service_id'', JStr (str_at (ap_print a) ''id'' obj)), (''limit'', JInt 0)]
           @ (case mode of None \<Rightarrow> [] | Some m \<Rightarrow> [(''mode'', JStr m)])))) (\<lambda>(eps, total). ret eps))"

definition disableService :: "api \<Rightarrow> string \<Rightarrow> unit sm" where
  "disableService a ident = ask_unit a (RPatch MServices ident [(''enabled'', JBool False)])"

definition disableEndpoint :: "api \<Rightarrow> string \<Rightarrow> unit sm" where
  "disableEndpoint a ident = ask_unit a (RPatch MEndpoints ident [(''enabled'', JBool False)])"

definition enableEndpoint :: "api \<Rightarrow> string \<Rightarrow> unit sm" where
  "enableEndpoint a ident = ask_unit a (RPatch MEndpoints ident [(''enabled'', JBool True)])"

text \<open>What one endpoint needs when its service is enabled: the read-only one follows \<open>enableRO\<close>.\<close>

definition enable_endpoint_step :: "api \<Rightarrow> bool \<Rightarrow> jv \<Rightarrow> unit sm" where
  "enable_endpoint_step a enableRO ep =
     (let interfaceType = str_at (ap_print a) ''interface'' ep;
          enabled = bool_at ''enabled'' ep;
          ident = str_at (ap_print a) ''id'' ep;
          slave = (interfaceType = EndpointTypeSlave);
          toEnable = (if slave then enableRO \<and> \<not> enabled else \<not> enabled);
          toDisable = (slave \<and> \<not> enableRO \<and> enabled)
      in if toEnable then map_err (Wrapped ''EnableEndpoint'') (enableEndpoint a ident)
         else if toDisable then map_err (Wrapped ''DisableEndpoint'') (disableEndpoint a ident)
         else ret ())"

definition EnsureEnableService :: "api \<Rightarrow> string \<Rightarrow> bool \<Rightarrow> unit sm" where
  "EnsureEnableService a srvName enableRO =
     andthen (map_err (Wrapped ''IsServiceExists'') (IsServiceExists a srvName)) (\<lambda>r.
     case r of
       None \<Rightarrow> fail (Wrapped (''Service '' @ srvName @ '' not found'') (Errorf ''NotFoundError''))
     | Some srv \<Rightarrow>
         andthen (map_err (Wrapped ''GetEndpointsByService'') (getEndpointsByService a srvName None)) (\<lambda>endpoints.
         seq (for_each endpoints (enable_endpoint_step a enableRO))
             (if bool_at ''enabled'' srv then ret ()
              else map_err (Wrapped ''patch enable service'')
                     (ask_unit a (RPatch MServices (str_at (ap_print a) ''id'' srv) [(''enabled'', JBool True)])))))"

definition disable_endpoint_step :: "api \<Rightarrow> jv \<Rightarrow> unit sm" where
  "disable_endpoint_step a ep =
     (if bool_at ''enabled'' ep
      then map_err (Wrapped ''DisableEndpoint'') (disableEndpoint a (str_at (ap_print a) ''id'' ep)) else ret ())"

definition EnsureDisableService :: "api \<Rightarrow> string \<Rightarrow> unit sm" where
  "EnsureDisableService a srvName =
     andthen (map_err (Wrapped ''IsServiceExists'') (IsServiceExists a srvName)) (\<lambda>r.
     case r of
       None \<Rightarrow> ret ()
     | Some srv \<Rightarrow>
         andthen (map_err (Wrapped ''GetEndpointsByService'') (getEndpointsByService a srvName None)) (\<lambda>endpoints.
         seq (for_each endpoints (disable_endpoint_step a))
             (case json_Bool [''enabled''] srv of
                None \<Rightarrow> fail (Wrapped ''Get service enabled'' (Errorf ''no boolean''))
              | Some False \<Rightarrow> ret ()
              | Some True \<Rightarrow>
                  map_err (Wrapped ''patch disable service'')
                    (ask_unit a (RPatch MServices (str_at (ap_print a) ''id'' srv) [(''enabled'', JBool False)])))))"

definition DeleteServiceEndpoints :: "api \<Rightarrow> string \<Rightarrow> unit sm" where
  "DeleteServiceEndpoints a serviceName =
     andthen (attempt (getEndpointsByService a serviceName None)) (\<lambda>r.
     case r of
       Inl e \<Rightarrow> if IsNotFoundError a e then ret () else fail (Wrapped ''getEndpointsByService'' e)
     | Inr endpoints \<Rightarrow>
         seq (for_each endpoints (\<lambda>ep.
                let ident = str_at (ap_print a) ''id'' ep
                in seq (map_err (Wrapped ''disableEndpoint'') (disableEndpoint a ident))
                       (map_err (Wrapped ''DeleteEndpoint'') (ask_unit a (RDelete MEndpoints ident)))))
        (seq (map_err (Wrapped ''disableService'') (disableService a serviceName))
             (map_err (Wrapped ''DeleteService'') (DeleteResource a MServices serviceName))))"

definition CreateServiceCertificate :: "api \<Rightarrow> string \<Rightarrow> jdict option \<Rightarrow> jv sm" where
  "CreateServiceCertificate a certName certDetails =
     andthen (from_option ''nil certificate details'' certDetails) (\<lambda>d.
     ask a (RCreate MServiceCertificates (AList.update ''name'' (JStr certName) d)))"

definition same_certificate :: "api \<Rightarrow> jv \<Rightarrow> jdict \<Rightarrow> bool" where
  "same_certificate a obj d =
     list_all (\<lambda>k. TrimSpace (str_at (ap_print a) k obj) = TrimSpace (str_at (ap_print a) k (JDict d)))
       [''certificate'', ''private_key'', ''ca_certificate'']"

definition EnsureServiceCertificate :: "api \<Rightarrow> string \<Rightarrow> jdict option \<Rightarrow> jv sm" where
  "EnsureServiceCertificate a certName certDetails =
     andthen (IsResourceExists a MServiceCertificates certName) (\<lambda>r.
     case (r, certDetails) of
       (Some obj, Some d) \<Rightarrow>
         if same_certificate a obj d then ret obj
         else seq (DeleteServiceEndpoints a ServiceNameEtcd)
             (seq (DeleteResource a MServiceCertificates ServiceCertEtcdName)
                  (CreateServiceCertificate a certName certDetails))
     | _ \<Rightarrow> CreateServiceCertificate a certName certDetails)"

definition isEndpointExists :: "api \<Rightarrow> string \<Rightarrow> string \<Rightarrow> string \<Rightarrow> jv option sm" where
  "isEndpointExists a svcId regionId interfaceType =
     andthen (ask_list a (RList MEndpoints
        [(''service_id'', JStr svcId), (''region_id'', JStr regionId), (''interface'', JStr interfaceType)])) (\<lambda>(eps, total).
     ret (case eps of [] \<Rightarrow> None | ep # _ \<Rightarrow> Some ep))"

definition certificate_param :: "string \<Rightarrow> jdict" where
  "certificate_param serviceCert = (if serviceCert = [] then [] else [(''service_certificate'', JStr serviceCert)])"

definition ensureEndpoint :: "api \<Rightarrow> string \<Rightarrow> string \<Rightarrow> string \<Rightarrow> string \<Rightarrow> string \<Rightarrow> jv sm" where
  "ensureEndpoint a svcId regionId interfaceType url serviceCert =
     andthen (isEndpointExists a svcId regionId interfaceType) (\<lambda>r.
     case r of
       None \<Rightarrow>
         ask a (RCreate MEndpoints
           ([(''service_id'', JStr svcId), (''region_id'', JStr regionId), (''interface'', JStr interfaceType),
             (''enabled'', JBool (interfaceType \<noteq> EndpointTypeSlave)), (''url'', JStr url)] @ certificate_param serviceCert))
     | Some ep \<Rightarrow>
         (case json_GetString (ap_print a) [''id''] ep of
            None \<Rightarrow> fail (Errorf ''Get'')
          | Some epId \<Rightarrow>
              if str_at (ap_print a) ''url'' ep = url then ret ep
              else ask a (RUpdate MEndpoints epId ((''url'', JStr url) # certificate_param serviceCert))))"

text \<open>The map of interfaces is ranged over in an order the runtime chooses.\<close>

definition RegisterServiceEndpoints :: "api \<Rightarrow> string \<Rightarrow> string \<Rightarrow> string \<Rightarrow> string \<Rightarrow> (string \<times> string) list \<Rightarrow> unit sm" where
  "RegisterServiceEndpoints a regionId serviceName serviceType serviceCert interfaceUrls =
     andthen (EnsureService a serviceName serviceType) (\<lambda>svc.
     case json_GetString (ap_print a) [''id''] svc of
       None \<Rightarrow> fail (Errorf ''Get'')
     | Some svcId \<Rightarrow>
         for_each (range_map (ap_order a) interfaceUrls) (\<lambda>(inf, url).
           andthen (ensureEndpoint a svcId regionId inf url serviceCert) (\<lambda>_. ret ())))"

definition RegisterServiceEndpointByInterfaces ::
  "api \<Rightarrow> string \<Rightarrow> string \<Rightarrow> string \<Rightarrow> string \<Rightarrow> string \<Rightarrow> string list \<Rightarrow> unit sm" where
  "RegisterServiceEndpointByInterfaces a regionId serviceName serviceType endpointUrl serviceCert interfaces =
     RegisterServiceEndpoints a regionId serviceName serviceType serviceCert
       (fold (\<lambda>inf. AList.update inf endpointUrl) interfaces [])"

definition RegisterServicePublicInternalEndpoint :: "api \<Rightarrow> string \<Rightarrow> string \<Rightarrow> string \<Rightarrow> string \<Rightarrow> string \<Rightarrow> unit sm" where
  "RegisterServicePublicInternalEndpoint a regionId serviceName serviceType serviceCert endpointUrl =
     RegisterServiceEndpointByInterfaces a regionId serviceName serviceType endpointUrl serviceCert
       [EndpointTypeInternal, EndpointTypePublic]"

section \<open>Users, regions, zones, wires and networks\<close>

definition IsUserExists :: "api \<Rightarrow> string \<Rightarrow> jv option sm" where
  "IsUserExists a username = IsResourceExists a MUsers username"

definition CreateUser :: "api \<Rightarrow> string \<Rightarrow> string \<Rightarrow> jv sm" where
  "CreateUser a username password =
     ask a (RCreate MUsers [(''name'', JStr username), (''password'', JStr password),
       (''is_system_account'', JBool True), (''allow_web_console'', JBool False)])"

definition ChangeUserPassword :: "api \<Rightarrow> string \<Rightarrow> string \<Rightarrow> jv sm" where
  "ChangeUserPassword a username password = ask a (RUpdate MUsers username [(''password'', JStr password)])"

definition AllowUserWebLogin :: "api \<Rightarrow> string \<Rightarrow> jv sm" where
  "AllowUserWebLogin a username = ask a (RUpdate MUsers username [(''allow_web_console'', JBool True)])"

definition ProjectAddUser :: "api \<Rightarrow> string \<Rightarrow> string \<Rightarrow> string \<Rightarrow> unit sm" where
  "ProjectAddUser a projectId userId roleId = ask_unit a (RPutInProject roleId projectId userId)"

definition IsZoneExists :: "api \<Rightarrow> string \<Rightarrow> jv option sm" where
  "IsZoneExists a zone = IsResourceExists a MZones zone"

definition CreateZone :: "api \<Rightarrow> string \<Rightarrow> jv sm" where
  "CreateZone a zone = ask a (RCreate MZones [(''name'', JStr zone)])"

definition IsWireExists :: "api \<Rightarrow> string \<Rightarrow> jv option sm" where
  "IsWireExists a wire = IsResourceExists a MWires wire"

definition CreateWire :: "api \<Rightarrow> string \<Rightarrow> string \<Rightarrow> int \<Rightarrow> string \<Rightarrow> jv sm" where
  "CreateWire a zone wire bw vpc =
     ask a (RCreateIn MWires [(''name'', JStr wire), (''bandwidth'', JInt bw), (''vpc'', JStr vpc)] MZones zone)"

definition IsNetworkExists :: "api \<Rightarrow> string \<Rightarrow> jv option sm" where
  "IsNetworkExists a net = IsResourceExists a MNetworks net"

definition CreateNetwork :: "api \<Rightarrow> string \<Rightarrow> string \<Rightarrow> string \<Rightarrow> string \<Rightarrow> int \<Rightarrow> string \<Rightarrow> string \<Rightarrow> jv sm" where
  "CreateNetwork a name gateway serverType wireId maskLen startIp endIp =
     ask a (RCreateIn MNetworks
       ([(''name'', JStr name), (''guest_ip_start'', JStr startIp), (''guest_ip_end'', JStr endIp), (''guest_ip_mask'', JInt maskLen)]
          @ (if gateway = [] then [] else [(''guest_gateway'', JStr gateway)])
          @ (if serverType = [] then [] else [(''server_type'', JStr serverType)])) MWires wireId)"

definition NetworkPrivate :: "api \<Rightarrow> string \<Rightarrow> jv sm" where
  "NetworkPrivate a name = ask a (RPerform MNetworks ''private'' name [])"

text \<open>\<open>mcclient.RegionID\<close> and \<open>CreateRegion\<close>.\<close>

definition RegionID :: "string \<Rightarrow> string \<Rightarrow> string" where
  "RegionID region zone = (if region \<noteq> [] \<and> zone \<noteq> [] then region @ ''-'' @ zone else region)"

definition CreateRegion :: "api \<Rightarrow> string \<Rightarrow> string \<Rightarrow> jv sm" where
  "CreateRegion a region0 zone =
     (let region = (if zone = [] then region0 else RegionID region0 zone)
      in EnsureResource a MRegions region (ask a (RCreate MRegions [(''id'', JStr region)])))"

definition IsSchedtagExists :: "api \<Rightarrow> string \<Rightarrow> jv option sm" where
  "IsSchedtagExists a name = IsResourceExists a MSchedtags name"

definition CreateSchedtag :: "api \<Rightarrow> string \<Rightarrow> string \<Rightarrow> string \<Rightarrow> jv sm" where
  "CreateSchedtag a name strategy description =
     ask a (RCreate MSchedtags [(''name'', JStr name), (''default_strategy'', JStr strategy), (''description'', JStr description)])"

definition EnsureSchedtag :: "api \<Rightarrow> string \<Rightarrow> string \<Rightarrow> string \<Rightarrow> jv sm" where
  "EnsureSchedtag a name strategy description = EnsureResource a MSchedtags name (CreateSchedtag a name strategy description)"

definition IsDynamicSchedtagExists :: "api \<Rightarrow> string \<Rightarrow> jv option sm" where
  "IsDynamicSchedtagExists a name = IsResourceExists a MDynamicschedtags name"

definition CreateDynamicSchedtag :: "api \<Rightarrow> string \<Rightarrow> string \<Rightarrow> string \<Rightarrow> jv sm" where
  "CreateDynamicSchedtag a name schedtag condition =
     ask a (RCreate MDynamicschedtags [(''name'', JStr name), (''schedtag'', JStr schedtag),
       (''condition'', JStr condition), (''enabled'', JBool True)])"

definition EnsureDynamicSchedtag :: "api \<Rightarrow> string \<Rightarrow> string \<Rightarrow> string \<Rightarrow> jv sm" where
  "EnsureDynamicSchedtag a name schedtag condition =
     EnsureResource a MDynamicschedtags name (CreateDynamicSchedtag a name schedtag condition)"

section \<open>Configuration of a service\<close>

text \<open>
  \<open>SyncServiceConfig\<close>: the configuration of the service with the given values added under the keys that have
  none; the answer has to be a dictionary (a failed type assertion panics). The keys are ranged over in an
  order the runtime chooses.
\<close>

definition add_missing_config :: "(jv \<Rightarrow> string) \<Rightarrow> string \<times> string \<Rightarrow> jdict \<Rightarrow> jdict" where
  "add_missing_config print = (\<lambda>(k, v) conf.
     if json_GetString print [''config'', ''default'', k] (JDict conf) \<noteq> None then conf
     else json_Add (JStr v) [''config'', ''default'', k] conf)"

definition config_frame :: "jdict \<Rightarrow> jdict" where
  "config_frame conf =
     (let conf1 = (if json_Contains [''config''] (JDict conf) then conf else json_Add (JDict []) [''config''] conf)
      in if json_Contains [''config'', ''default''] (JDict conf1) then conf1
         else json_Add (JDict []) [''config'', ''default''] conf1)"

definition synced_config :: "api \<Rightarrow> (string \<times> string) list \<Rightarrow> jdict \<Rightarrow> jdict" where
  "synced_config a syncConf conf =
     fold (add_missing_config (ap_print a)) (range_map (ap_order a) syncConf) (config_frame conf)"

definition SyncServiceConfig :: "api \<Rightarrow> (string \<times> string) list \<Rightarrow> string \<Rightarrow> jv sm" where
  "SyncServiceConfig a syncConf serviceName =
     andthen (ask a (RGetSpecific MServices serviceName ''config'')) (\<lambda>iconf.
     case iconf of
       JDict conf \<Rightarrow> ask a (RPerform MServices serviceName ''config'' (synced_config a syncConf conf))
     | _ \<Rightarrow> go_panic ''interface conversion'')"

section \<open>Devtool templates and scripts\<close>

fun all_sums :: "('x \<Rightarrow> goerr + 'y) \<Rightarrow> 'x list \<Rightarrow> goerr + 'y list" where
  "all_sums f [] = Inr []"
| "all_sums f (x # xs) =
     (case f x of Inl e \<Rightarrow> Inl e | Inr y \<Rightarrow> (case all_sums f xs of Inl e \<Rightarrow> Inl e | Inr ys \<Rightarrow> Inr (y # ys)))"

definition sum_result :: "goerr + 'a \<Rightarrow> 'a sm" where
  "sum_result r = (case r of Inl e \<Rightarrow> fail e | Inr x \<Rightarrow> ret x)"

definition ToPlaybook :: "api \<Rightarrow> string list \<Rightarrow> string list \<Rightarrow> (string \<times> string) list \<Rightarrow> goerr + jdict" where
  "ToPlaybook a hostLines mods files =
     (if mods = [] then Inl (Errorf ''Requires at least one mod'')
      else if hostLines = [] then Inl (Errorf ''Requires as least one server/host to operator on'')
      else case all_sums (ap_hostLine a) hostLines of
          Inl e \<Rightarrow> Inl e
        | Inr hosts \<Rightarrow> (case all_sums (ap_moduleLine a) mods of
              Inl e \<Rightarrow> Inl e
            | Inr modules \<Rightarrow> Inr [(''inventory'', JArr hosts), (''modules'', JArr modules),
                 (''files'', JDict (map (\<lambda>(k, v). (k, JStr v)) files))]))"

definition DevtoolTemplateCreateParams ::
  "api \<Rightarrow> string \<Rightarrow> string list \<Rightarrow> string list \<Rightarrow> (string \<times> string) list \<Rightarrow> int \<Rightarrow> int \<Rightarrow> int \<Rightarrow> int \<Rightarrow> int \<Rightarrow> bool \<Rightarrow> bool \<Rightarrow> goerr + jdict" where
  "DevtoolTemplateCreateParams a name hostLines mods files day hour min1 sec interval start enabled =
     (case ToPlaybook a hostLines mods files of
        Inl e \<Rightarrow> Inl e
      | Inr pb \<Rightarrow> Inr [(''name'', JStr name), (''playbook'', JDict pb), (''day'', JInt day), (''hour'', JInt hour), (''min'', JInt min1),
           (''sec'', JInt sec), (''interval'', JInt interval), (''start'', JBool start), (''enabled'', JBool enabled)])"

definition CreateDevtoolTemplate ::
  "api \<Rightarrow> string \<Rightarrow> string list \<Rightarrow> string list \<Rightarrow> (string \<times> string) list \<Rightarrow> int \<Rightarrow> jv sm" where
  "CreateDevtoolTemplate a name hosts mods files interval =
     andthen (map_err (Wrapped (''get devtool template '' @ name @ '' create params''))
                (sum_result (DevtoolTemplateCreateParams a name hosts mods files 0 0 0 0 interval False True))) (\<lambda>params.
     ask a (RCreateInput MDevToolTemplates params))"

definition EnsureDevtoolTemplate ::
  "api \<Rightarrow> string \<Rightarrow> string list \<Rightarrow> string list \<Rightarrow> (string \<times> string) list \<Rightarrow> int \<Rightarrow> jv sm" where
  "EnsureDevtoolTemplate a name hosts mods files interval =
     EnsureResource a MDevToolTemplates name (CreateDevtoolTemplate a name hosts mods files interval)"

definition agentName :: string where
  "agentName = ''monitor agent''"

definition by_name_or_create :: "api \<Rightarrow> cmod \<Rightarrow> string \<Rightarrow> string \<Rightarrow> jdict \<Rightarrow> jv sm" where
  "by_name_or_create a man name what input =
     andthen (attempt (ask a (RGetByName man name))) (\<lambda>r.
     case r of
       Inr data1 \<Rightarrow> ret data1
     | Inl e \<Rightarrow> if ErrorCode e \<noteq> 404 then fail (Wrapped (''unable to get '' @ what) e)
         else map_err (Wrapped (''unable to create '' @ what)) (ask a (RCreateInput man input)))"

definition EnsureAgentAnsiblePlaybookRef :: "api \<Rightarrow> unit sm" where
  "EnsureAgentAnsiblePlaybookRef a =
     andthen (by_name_or_create a MPlaybookReferences agentName ''ansible playbook ref''
        [(''name'', JStr agentName), (''project'', JStr ''system''), (''is_public'', JBool True), (''public_scope'', JStr ''system''),
         (''playbook_path'', JStr ''/opt/yunion/playbook/monitor-agent/playbook.yaml''), (''method'', JStr ''offline''),
         (''playbook_params'', JDict [(''telegraf_agent_package_method'', JStr ''offline''),
            (''telegraf_agent_package_local_dir'', JStr ''/opt/yunion/ansible-install-pkg'')])]) (\<lambda>data1.
     andthen (by_name_or_create a MDevToolScripts agentName ''devtool script''
        [(''name'', JStr agentName), (''project'', JStr ''system''), (''is_public'', JBool True), (''public_scope'', JStr ''system''),
         (''playbook_reference'', JStr (str_at (ap_print a) ''id'' data1)), (''max_try_times'', JInt 3)]) (\<lambda>_. ret ()))"

section \<open>Alerts\<close>

record CommonAlertTem =
  cat_Database :: string
  cat_Measurement :: string
  cat_Field :: "string list"
  cat_FieldFunc :: string
  cat_Description :: string
  cat_Reduce :: string
  cat_Comparator :: string
  cat_Threshold :: int
  cat_Filters :: "MetricQueryTag list"
  cat_FieldOpt :: string
  cat_GetPointStr :: bool
  cat_Name :: string
  cat_ConditionType :: string
  cat_From :: string
  cat_Interval :: string
  cat_GroupBy :: string
  cat_Level :: string
  cat_NoDataState :: string

definition GetCommonAlertOfSys :: "api \<Rightarrow> jv list sm" where
  "GetCommonAlertOfSys a =
     andthen (ask_list a (RList MCommonAlerts [(''details'', JBool True), (''alert_type'', JStr ''system''), (''scope'', JStr ''system'')]))
       (\<lambda>(alerts, total). ret alerts)"

definition select_part :: "CommonAlertTem \<Rightarrow> string \<Rightarrow> MetricQueryPart list" where
  "select_part tem field =
     \<lparr>mqp_Type = ''field'', mqp_Params = [field]\<rparr> #
     (if cat_FieldFunc tem \<noteq> []
      then \<lparr>mqp_Type = cat_FieldFunc tem, mqp_Params = []\<rparr> #
           (if cat_GetPointStr tem then [\<lparr>mqp_Type = ''alias'', mqp_Params = [field]\<rparr>] else [])
      else [\<lparr>mqp_Type = ''mean'', mqp_Params = []\<rparr>])"

definition newCommonalertQuery :: "CommonAlertTem \<Rightarrow> CommonAlertQuery" where
  "newCommonalertQuery tem =
     \<lparr>caq_Database = cat_Database tem, caq_Measurement = cat_Measurement tem, caq_Tags = cat_Filters tem,
      caq_GroupBy = (if cat_GroupBy tem = [] then []
        else map (\<lambda>g. \<lparr>mqp_Type = ''field'', mqp_Params = [g]\<rparr>) (split_on CHR '','' (cat_GroupBy tem))),
      caq_Selects = map (select_part tem) (cat_Field tem),
      caq_From = (if cat_ConditionType tem = ''nodata_query'' then (if cat_From tem = [] then ''10m'' else cat_From tem) else ''60m''),
      caq_Reduce = cat_Reduce tem, caq_Comparator = cat_Comparator tem, caq_Threshold = cat_Threshold tem,
      caq_FieldOpt = (if cat_FieldOpt tem = [] then [] else ''/''),
      caq_ConditionType = cat_ConditionType tem\<rparr>"

text \<open>
  The alert of a template; the update of an existing one leaves the name out. Recipient, alert type and scope
  are the same constants for every alert.
\<close>

definition alert_level :: "CommonAlertTem \<Rightarrow> string" where
  "alert_level tem = (if cat_Level tem = [] then ''fatal'' else cat_Level tem)"

definition common_alert_input :: "CommonAlertTem \<Rightarrow> alert_input" where
  "common_alert_input tem =
     \<lparr>ai_MetricQuery = [newCommonalertQuery tem], ai_Name = cat_Name tem, ai_Level = alert_level tem,
      ai_NoDataState = cat_NoDataState tem, ai_From = cat_From tem, ai_Interval = cat_Interval tem,
      ai_Description = cat_Description tem, ai_GetPointStr = cat_GetPointStr tem, ai_MetaName = cat_Name tem\<rparr>"

definition CreateCommonAlert :: "api \<Rightarrow> CommonAlertTem \<Rightarrow> jv sm" where
  "CreateCommonAlert a tem = ask a (RCreateAlert (common_alert_input tem))"

text \<open>
  Comparing an alert with its template. The lists are compared by position; the test of their lengths lets
  through lists of different lengths when one of the two agrees with the stored conditions.
\<close>

fun conditions_differ ::
  "api \<Rightarrow> alert_condition list \<Rightarrow> alert_detail list \<Rightarrow> CommonAlertQuery list \<Rightarrow> bool sm" where
  "conditions_differ a [] details inputQuery = ret False"
| "conditions_differ a (condi # rest) [] inputQuery = go_panic ''index out of range''"
| "conditions_differ a (condi # rest) (d # ds) [] = go_panic ''index out of range''"
| "conditions_differ a (condi # rest) (d # ds) (q # qs) =
     (if ad_Comparator d \<noteq> caq_Comparator q then ret True
      else if ac_From condi \<noteq> caq_From q then ret True
      else if \<not> ap_sameSelects a (ac_Selects condi) (caq_Selects q) then ret True
      else if \<not> ap_sameTags a (ad_Filters d) (caq_Tags q) then ret True
      else conditions_differ a rest ds qs)"

definition containDiffsWithRtnAlert :: "api \<Rightarrow> alert_input \<Rightarrow> jv \<Rightarrow> bool sm" where
  "containDiffsWithRtnAlert a input rtnAlert =
     (if str_at (ap_print a) ''level'' rtnAlert \<noteq> ai_Level input then ret True
      else if ai_NoDataState input \<noteq> [] \<and> ai_NoDataState input \<noteq> str_at (ap_print a) ''no_data_state'' rtnAlert then ret True
      else case json_Get [''settings''] rtnAlert of
        None \<Rightarrow> fail (Wrapped ''get rtnAlert settings error'' (Errorf ''Get''))
      | Some setting \<Rightarrow>
          andthen (map_err (Wrapped ''rtnAlert Unmarshal setting error'') (sum_result (ap_settings a setting))) (\<lambda>conditions.
          case json_Get [''common_alert_metric_details''] rtnAlert of
            None \<Rightarrow> fail (Wrapped ''get common_alert_metric_details error'' (Errorf ''Get''))
          | Some dt \<Rightarrow>
              andthen (map_err (Wrapped ''rtnAlert Unmarshal common_alert_metric_details error'') (sum_result (ap_details a dt))) (\<lambda>details.
              if length conditions \<noteq> length (ai_MetricQuery input) \<and> length conditions \<noteq> length details then ret True
              else conditions_differ a conditions details (ai_MetricQuery input))))"

definition common_alert_update :: "CommonAlertTem \<Rightarrow> alert_input" where
  "common_alert_update tem = (common_alert_input tem)\<lparr>ai_Name := []\<rparr>"

definition UpdateCommonAlert :: "api \<Rightarrow> CommonAlertTem \<Rightarrow> string \<Rightarrow> jv \<Rightarrow> unit sm" where
  "UpdateCommonAlert a tem ident alert =
     andthen (map_err (Wrapped ''containDiffsWithRtnAlert error'') (containDiffsWithRtnAlert a (common_alert_update tem) alert)) (\<lambda>diff.
     guarded diff (ask_unit a (RUpdateAlert ident (common_alert_update tem))))"

definition DeleteCommonAlert :: "api \<Rightarrow> string list \<Rightarrow> unit sm" where
  "DeleteCommonAlert a ids = andthen (attempt (ask a (RBatchDelete MCommonAlerts ids))) (\<lambda>_. ret ())"

end
