(* ===== verification/Monitor_Stack.thy ===== *)
theory Monitor_Stack
  imports Onecloud_Api Workloads
begin

text \<open>
  The components that the operator switches on in the container platform (\<open>pkg/util/onecloud/kubeserver.go\<close>) and
  the manager of the monitor stack that is made of them (\<open>pkg/manager/component/monitor_stack.go\<close>).
\<close>

section \<open>Cluster components\<close>

definition K8SSystemClusterName :: string where
  "K8SSystemClusterName = ''system-default''"

definition GetSystemCluster :: "api \<Rightarrow> jv sm" where
  "GetSystemCluster a =
     map_err (Wrapped ''Get kubernetes system default cluster'') (ask a (RGet MKubeClusters K8SSystemClusterName))"

definition GetSystemClusterComponentsStatus :: "api \<Rightarrow> string \<Rightarrow> ClusterComponentsStatus sm" where
  "GetSystemClusterComponentsStatus a ident =
     andthen (map_err (Wrapped (''Get cluster '' @ ident @ '' components status''))
                (ask a (RGetSpecific MKubeClusters ident ''components-status''))) (\<lambda>r.
     sum_result (ap_components a r))"

definition SyncSystemCluster :: "api \<Rightarrow> string \<Rightarrow> unit sm" where
  "SyncSystemCluster a ident = ask_unit a (RPerform MKubeClusters ident ''sync'' [])"

definition disableClusterComponent :: "api \<Rightarrow> string \<Rightarrow> string \<Rightarrow> unit sm" where
  "disableClusterComponent a cType systemClusterId =
     map_err (Wrapped (''disable '' @ cType))
       (ask_unit a (RPerform MKubeClusters systemClusterId ''disable-component'' [(''type'', JStr cType)]))"

definition doEnableClusterComponent :: "api \<Rightarrow> string \<Rightarrow> string \<Rightarrow> jdict \<Rightarrow> unit sm" where
  "doEnableClusterComponent a cType sId params =
     map_err (Wrapped (''Enable '' @ cType @ '' cluster component of system-cluster '' @ sId))
       (ask_unit a (RPerform MKubeClusters sId ''enable-component'' params))"

definition doUpdateClusterComponent :: "api \<Rightarrow> string \<Rightarrow> string \<Rightarrow> jdict \<Rightarrow> unit sm" where
  "doUpdateClusterComponent a cType sId params =
     map_err (Wrapped (''Update '' @ cType @ '' cluster component of system-cluster '' @ sId))
       (ask_unit a (RPerform MKubeClusters sId ''update-component'' params))"

definition has_suffix :: "string \<Rightarrow> string \<Rightarrow> bool" where
  "has_suffix s suf \<longleftrightarrow> length suf \<le> length s \<and> drop (length s - length suf) s = suf"

text \<open>\<open>getStatus\<close> may dereference a status that the platform did not report: its result is then \<open>None\<close>.\<close>

type_synonym component_state = "ClusterComponentsStatus \<Rightarrow> (bool \<times> string) option"

definition isClusterComponentEnabled :: "api \<Rightarrow> string \<Rightarrow> string \<Rightarrow> component_state \<Rightarrow> unit sm \<Rightarrow> bool sm" where
  "isClusterComponentEnabled a name ident getStatus onStatusFail =
     andthen (map_err (Wrapped ''Get cluster components status'') (GetSystemClusterComponentsStatus a ident)) (\<lambda>statuses.
     andthen (from_option ''nil component status'' (getStatus statuses)) (\<lambda>(enabled, status).
     if has_suffix status ''_fail''
     then andthen (attempt onStatusFail) (\<lambda>_. fail (Errorf (name @ '' deploy status: '' @ status)))
     else ret enabled))"

definition syncClusterComponent ::
  "api \<Rightarrow> string \<Rightarrow> component_state \<Rightarrow> (string \<Rightarrow> unit sm) \<Rightarrow> (string \<Rightarrow> unit sm) \<Rightarrow> unit sm" where
  "syncClusterComponent a cType getStatus doEnable doUpdate =
     andthen (GetSystemCluster a) (\<lambda>r.
     case json_GetString (ap_print a) [''id''] r of
       None \<Rightarrow> fail (Wrapped ''Get kubernetes system default cluster id'' (Errorf ''Get''))
     | Some ident \<Rightarrow>
         andthen (map_err (Wrapped (''Check '' @ cType @ '' is enabled''))
                    (isClusterComponentEnabled a cType ident getStatus (disableClusterComponent a cType ident))) (\<lambda>isEnabled.
         if isEnabled
         then map_err (Wrapped (''Update system default cluster '' @ cType @ '' component'')) (doUpdate ident)
         else seq (map_err (Wrapped ''Init system default cluster'') (SyncSystemCluster a ident))
                  (map_err (Wrapped (''Enable system default cluster '' @ cType @ '' component'')) (doEnable ident))))"

subsection \<open>Parameters\<close>

text \<open>
  The settings carry the fields the operator sets, under the names of the client library; the fields that the
  library adds with their zero value are left out.
\<close>

definition injectComponentParamsBySpec :: "jdict \<Rightarrow> OnecloudClusterSpec \<Rightarrow> jdict" where
  "injectComponentParamsBySpec params spec =
     AList.update ''imageRepository'' (JDict [(''url'', JStr (spec_ImageRepository spec))])
       (AList.update ''disableResourceManagement'' (JBool (spec_DisableResourceManagement spec)) params)"

record EnableMinioParams =
  emp_Mode :: string
  emp_Replicas :: int
  emp_DrivesPerNode :: int
  emp_AccessKey :: string
  emp_SecretKey :: string

definition getSyncMinioParams :: "string \<Rightarrow> EnableMinioParams \<Rightarrow> OnecloudClusterSpec \<Rightarrow> jdict" where
  "getSyncMinioParams cType input spec =
     injectComponentParamsBySpec
       [(''type'', JStr cType),
        (cType, JDict [(''mode'', JStr (emp_Mode input)), (''replicas'', JInt (emp_Replicas input)),
           (''drivesPerNode'', JInt (emp_DrivesPerNode input)), (''accessKey'', JStr (emp_AccessKey input)),
           (''secretKey'', JStr (emp_SecretKey input)), (''mountPath'', JStr ''/export''),
           (''storage'', JDict [(''enabled'', JBool True), (''sizeMB'', JInt (1024 * 1024)), (''storageClassName'', JStr DefaultStorageClass)])])]
       spec"

definition enableMinio :: "api \<Rightarrow> string \<Rightarrow> string \<Rightarrow> EnableMinioParams \<Rightarrow> OnecloudClusterSpec \<Rightarrow> unit sm" where
  "enableMinio a cType ident input spec = doEnableClusterComponent a cType ident (getSyncMinioParams cType input spec)"

definition updateMinio :: "api \<Rightarrow> string \<Rightarrow> string \<Rightarrow> EnableMinioParams \<Rightarrow> OnecloudClusterSpec \<Rightarrow> unit sm" where
  "updateMinio a cType ident input spec = doUpdateClusterComponent a cType ident (getSyncMinioParams cType input spec)"

definition enableMinioWithParams :: "api \<Rightarrow> string \<Rightarrow> EnableMinioParams \<Rightarrow> OnecloudClusterSpec \<Rightarrow> component_state \<Rightarrow> unit sm" where
  "enableMinioWithParams a cType params spec getStatus =
     syncClusterComponent a cType getStatus (\<lambda>ident. enableMinio a cType ident params spec) (\<lambda>ident. updateMinio a cType ident params spec)"

definition component_state_of :: "ComponentStatus option \<Rightarrow> (bool \<times> string) option" where
  "component_state_of c = map_option (\<lambda>c. (cst_Enabled c, cst_Status c)) c"

definition MinioModeStandalone :: string where
  "MinioModeStandalone = ''standalone''"

definition MinioModeDistributed :: string where
  "MinioModeDistributed = ''distributed''"

definition SyncMinio :: "api \<Rightarrow> string \<Rightarrow> OnecloudClusterSpec \<Rightarrow> unit sm" where
  "SyncMinio a mode spec =
     (let distributed = (mode = MinioModeDistributed);
          params = \<lparr>emp_Mode = (if distributed then MinioModeDistributed else MinioModeStandalone),
             emp_Replicas = (if distributed then 4 else 1), emp_DrivesPerNode = 1,
             emp_AccessKey = ''minioadmin'', emp_SecretKey = ''yunionminio@admin''\<rparr>
      in enableMinioWithParams a ''minio'' params spec (\<lambda>s. component_state_of (ccs_Minio s)))"

text \<open>Only the monitor's own object store tests for a status that is not reported.\<close>

definition SyncMonitorMinio :: "api \<Rightarrow> EnableMinioParams \<Rightarrow> OnecloudClusterSpec \<Rightarrow> unit sm" where
  "SyncMonitorMinio a input spec =
     enableMinioWithParams a ''monitorMinio'' input spec
       (\<lambda>s. case ccs_MonitorMinio s of None \<Rightarrow> Some (False, []) | Some c \<Rightarrow> component_state_of (Some c))"

definition store_setting :: "ObjectStoreConfig \<Rightarrow> jv" where
  "store_setting c = JDict [(''bucket'', JStr (osc_Bucket c)), (''endpoint'', JStr (osc_Endpoint c)),
     (''access_key'', JStr (osc_AccessKey c)), (''secret_key'', JStr (osc_SecretKey c)), (''insecure'', JBool (\<not> osc_Secure c))]"

definition getSyncThanosParams :: "OnecloudClusterSpec \<Rightarrow> MonitorStackThanosSpec \<Rightarrow> jdict" where
  "getSyncThanosParams spec input =
     injectComponentParamsBySpec
       [(''type'', JStr ''thanos''), (''thanos'', JDict [(''objectStoreConfig'', store_setting (mths_ObjectStoreConfig input))])] spec"

definition SyncMonitorThanos :: "api \<Rightarrow> OnecloudClusterSpec \<Rightarrow> MonitorStackThanosSpec \<Rightarrow> unit sm" where
  "SyncMonitorThanos a spec input =
     syncClusterComponent a ''thanos'' (\<lambda>s. component_state_of (ccs_Thanos s))
       (\<lambda>ident. doEnableClusterComponent a ''thanos'' ident (getSyncThanosParams spec input))
       (\<lambda>ident. doUpdateClusterComponent a ''thanos'' ident (getSyncThanosParams spec input))"

definition prometheus_disabled :: "MonitorStackPrometheusSpec \<Rightarrow> bool" where
  "prometheus_disabled p = (case mps_Disable p of None \<Rightarrow> True | Some b \<Rightarrow> b)"

definition grafana_setting :: "OnecloudClusterSpec \<Rightarrow> jdict" where
  "grafana_setting spec =
     (let g = mss_Grafana (spec_MonitorStack spec); oa = mgs_OAuth g
      in [(''disable'', JBool (mgs_Disable g)), (''adminUser'', JStr (mgs_AdminUser g)), (''adminPassword'', JStr (mgs_AdminPassword g)),
          (''publicAddress'', JStr (if mgs_Host g \<noteq> [] then [] else spec_LoadBalancerEndpoint spec)),
          (''host'', JStr (mgs_Host g)), (''disableSubpath'', JBool (mgs_DisableSubpath g)), (''subpath'', JStr (mgs_Subpath g)),
          (''enforceDomain'', JBool (mgs_EnforceDomain g)), (''enableThanosQueryDataSource'', JBool True)]
         @ (if oa_Enabled oa
            then [(''oauth'', JDict [(''enabled'', JBool True), (''clientId'', JStr (oa_ClientId oa)), (''clientSecret'', JStr (oa_ClientSecret oa)),
               (''scopes'', JStr (oa_Scopes oa)), (''authURL'', JStr (oa_AuthURL oa)), (''tokenURL'', JStr (oa_TokenURL oa)),
               (''apiURL'', JStr (oa_APIURL oa)), (''allowedDomains'', JStr (oa_AllowedDomains oa)),
               (''allowSignUp'', JBool (oa_AllowSignUp oa)), (''roleAttributePath'', JStr (oa_RoleAttributePath oa))])]
            else []))"

definition getSyncMonitorParams :: "OnecloudClusterSpec \<Rightarrow> OnecloudClusterConfig \<Rightarrow> jdict" where
  "getSyncMonitorParams spec config =
     (let st = spec_MonitorStack spec; loki = mss_Loki st; prom = mss_Prometheus st; db = gfc_DB (cfg_Grafana config);
          params = [(''type'', JStr ''monitor''),
            (''monitor'', JDict [(''grafana'', JDict (grafana_setting spec)),
               (''loki'', JDict [(''disable'', JBool (mls_Disable loki)), (''objectStoreConfig'', store_setting (mls_ObjectStoreConfig loki))]),
               (''promtail'', JDict [(''disable'', JBool (mls_Disable loki))]),
               (''prometheus'', JDict [(''disable'', JBool (prometheus_disabled prom)),
                  (''thanosSidecar'', JDict [(''objectStoreConfig'', store_setting (tss_ObjectStoreConfig (mps_ThanosSidecarSpec prom)))])])])]
      in json_Add (JDict [(''host'', JStr (my_Host (spec_Mysql spec))), (''port'', JInt (my_Port (spec_Mysql spec))),
             (''database'', JStr (dbc_Database db)), (''username'', JStr (dbc_Username db)), (''password'', JStr (dbc_Password db))])
           [''monitor'', ''grafana'', ''db''] (injectComponentParamsBySpec params spec))"

definition SyncMonitorStack :: "api \<Rightarrow> OnecloudClusterSpec \<Rightarrow> OnecloudClusterConfig \<Rightarrow> unit sm" where
  "SyncMonitorStack a spec config =
     syncClusterComponent a ''monitor'' (\<lambda>s. component_state_of (ccs_Monitor s))
       (\<lambda>ident. doEnableClusterComponent a ''monitor'' ident (getSyncMonitorParams spec config))
       (\<lambda>ident. doUpdateClusterComponent a ''monitor'' ident (getSyncMonitorParams spec config))"

section \<open>The monitor stack\<close>

text \<open>The specification and the status that the manager holds pointers to.\<close>

definition stack_spec :: "OnecloudCluster \<Rightarrow> MonitorStackSpec" where
  "stack_spec oc = spec_MonitorStack (oc_Spec oc)"

definition set_stack :: "(MonitorStackSpec \<Rightarrow> MonitorStackSpec) \<Rightarrow> unit sm" where
  "set_stack f = modify (se_oc_update (oc_Spec_update (spec_MonitorStack_update f)))"

definition set_stack_status :: "(MonitorStackStatus \<Rightarrow> MonitorStackStatus) \<Rightarrow> unit sm" where
  "set_stack_status f = modify (se_oc_update (oc_Status_update (st_MonitorStack_update f)))"

definition monitorStack_IsDisabled :: "OnecloudCluster \<Rightarrow> bool" where
  "monitorStack_IsDisabled oc \<longleftrightarrow>
     mss_Disable (stack_spec oc) \<or>
     \<not> in_strings (spec_ProductVersion (oc_Spec oc)) [ProductVersionFullStack, ProductVersionCMP, ProductVersionEdge, ProductVersionAI]"

text \<open>The mode of the object store: three ready masters make it distributed, unless it is set.\<close>

definition minio_mode :: "nat \<Rightarrow> string \<Rightarrow> goerr + string" where
  "minio_mode masters mode =
     (if masters \<ge> 3 then Inr (if mode = [] then MinioModeDistributed else mode)
      else if mode = MinioModeDistributed
           then Inl (Errorf (''Master ready node count '' @ show_int (int masters) @ '', but mode is '' @ mode))
           else Inr (if mode = [] then MinioModeStandalone else mode))"

definition ready_masters :: "api \<Rightarrow> nat sm" where
  "ready_masters a =
     andthen (map_err (Wrapped ''List k8s ready master node'') (ask_as (\<lambda>h q. ap_nodes a h) RListNodes)) (\<lambda>nodes.
     ret (length (filter IsNodeReady nodes)))"

definition minio_params :: "string \<Rightarrow> int \<Rightarrow> MonitorStackMinioSpec \<Rightarrow> EnableMinioParams" where
  "minio_params mode replicas spec =
     \<lparr>emp_Mode = mode, emp_Replicas = replicas, emp_DrivesPerNode = 1, emp_AccessKey = msm_AccessKey spec, emp_SecretKey = msm_SecretKey spec\<rparr>"

definition set_minio_status :: "ImageStatus option \<Rightarrow> int \<Rightarrow> unit sm" where
  "set_minio_status img replicas =
     set_stack_status (msst_MinioStatus_update (\<lambda>st. st\<lparr>
        mms_MonitorStackComponentStatus := (mms_MonitorStackComponentStatus st)\<lparr>mcs_ImageStatus := img\<rparr>,
        mms_Replicas := replicas, mms_DrivesPerNode := 1\<rparr>))"

definition first_image :: "options \<Rightarrow> Container list \<Rightarrow> ImageStatus sm" where
  "first_image op cs = andthen (from_option ''index out of range'' (case cs of [] \<Rightarrow> None | c # _ \<Rightarrow> Some c)) (\<lambda>c.
     ret (getImageStatusByContainer op c))"

definition syncStandaloneMinio :: "options \<Rightarrow> api \<Rightarrow> unit sm" where
  "syncStandaloneMinio op a =
     andthen (gets se_oc) (\<lambda>oc.
     seq (map_err (Wrapped ''sync standalone minio'')
            (SyncMonitorMinio a (minio_params MinioModeStandalone 1 (mss_Minio (stack_spec oc))) (oc_Spec oc)))
    (andthen (map_err (Wrapped ''get monitor-minio deployment'') (ask_as (ap_deployment a) (RStackDeployment MonitorMinioName))) (\<lambda>deploy.
     set_minio_status (getImageStatus op deploy) 1)))"

definition syncDistributedMinio :: "options \<Rightarrow> api \<Rightarrow> unit sm" where
  "syncDistributedMinio op a =
     andthen (gets se_oc) (\<lambda>oc.
     seq (map_err (Wrapped ''sync distributed minio'')
            (SyncMonitorMinio a (minio_params MinioModeDistributed 4 (mss_Minio (stack_spec oc))) (oc_Spec oc)))
    (andthen (map_err (Wrapped ''get monitor-minio statefulset'') (ask_as (ap_containers a) (RStackStatefulSet MonitorMinioName))) (\<lambda>cs.
     andthen (first_image op cs) (\<lambda>img. set_minio_status (Some img) 4))))"

definition stack_syncMinio :: "options \<Rightarrow> api \<Rightarrow> unit sm" where
  "stack_syncMinio op a =
     andthen (ready_masters a) (\<lambda>masters.
     andthen (gets se_oc) (\<lambda>oc.
     case minio_mode masters (msm_Mode (mss_Minio (stack_spec oc))) of
       Inl e \<Rightarrow> fail e
     | Inr mode \<Rightarrow>
         seq (set_stack (mss_Minio_update (msm_Mode_update (\<lambda>_. mode))))
             (if mode = MinioModeStandalone then syncStandaloneMinio op a else syncDistributedMinio op a)))"

definition getMinioAuthConfig :: "MonitorStackMinioSpec \<Rightarrow> CoreService \<Rightarrow> string \<Rightarrow> ObjectStoreConfig option" where
  "getMinioAuthConfig spec svc bucket =
     (case css_Ports (svc_Spec svc) of
        [] \<Rightarrow> None
      | p # _ \<Rightarrow> Some \<lparr>osc_Bucket = bucket,
          osc_Endpoint = MonitorMinioName @ ''.'' @ MonitorStackNamespace @ '':'' @ show_int (sp_Port p),
          osc_AccessKey = msm_AccessKey spec, osc_SecretKey = msm_SecretKey spec, osc_Secure = False\<rparr>)"

text \<open>A store without its own keys is the stack's object store, with the bucket of the component unless one is set.\<close>

definition setDefaultObjectStoreConfig ::
  "MonitorStackMinioSpec \<Rightarrow> CoreService \<Rightarrow> ObjectStoreConfig \<Rightarrow> string \<Rightarrow> ObjectStoreConfig option" where
  "setDefaultObjectStoreConfig minioSpec minioSvc store defaultBucket =
     (if osc_AccessKey store = [] \<or> osc_SecretKey store = []
      then (let bucket = (if osc_Bucket store = [] then defaultBucket else osc_Bucket store)
            in map_option (\<lambda>conf. store\<lparr>osc_Bucket := bucket, osc_Endpoint := osc_Endpoint conf,
                  osc_AccessKey := osc_AccessKey conf, osc_SecretKey := osc_SecretKey conf\<rparr>)
                 (getMinioAuthConfig minioSpec minioSvc bucket))
      else Some store)"

definition default_store ::
  "(MonitorStackSpec \<Rightarrow> ObjectStoreConfig) \<Rightarrow> ((ObjectStoreConfig \<Rightarrow> ObjectStoreConfig) \<Rightarrow> MonitorStackSpec \<Rightarrow> MonitorStackSpec)
     \<Rightarrow> CoreService \<Rightarrow> string \<Rightarrow> unit sm" where
  "default_store rd wr minioSvc bucket =
     andthen (gets (\<lambda>s. stack_spec (se_oc s))) (\<lambda>st.
     andthen (from_option ''index out of range'' (setDefaultObjectStoreConfig (mss_Minio st) minioSvc (rd st) bucket)) (\<lambda>store.
     set_stack (wr (\<lambda>_. store))))"

definition syncThanos :: "options \<Rightarrow> api \<Rightarrow> CoreService \<Rightarrow> unit sm" where
  "syncThanos op a minioSvc =
     andthen (gets (\<lambda>s. stack_spec (se_oc s))) (\<lambda>st.
     guarded (\<not> prometheus_disabled (mss_Prometheus st))
       (seq (default_store (\<lambda>st. mths_ObjectStoreConfig (mss_Thanos st)) (\<lambda>f. mss_Thanos_update (mths_ObjectStoreConfig_update f))
               minioSvc MonitorBucketThanos)
       (andthen (gets se_oc) (\<lambda>oc.
        seq (map_err (Wrapped ''enable thanos'') (SyncMonitorThanos a (oc_Spec oc) (mss_Thanos (stack_spec oc))))
       (andthen (map_err (Wrapped ''get thanos-query deployment'') (ask_as (ap_deployment a) (RStackDeployment MonitorThanosQuery))) (\<lambda>deploy.
        set_stack_status (msst_ThanosStatus_update (mthst_MonitorStackComponentStatus_update (\<lambda>c. c\<lparr>mcs_ImageStatus := getImageStatus op deploy\<rparr>)))))))))"

definition validateGrafanaSpec :: "MonitorStackGrafanaSpec \<Rightarrow> goerr option" where
  "validateGrafanaSpec spec =
     (if mgs_AdminUser spec = [] then Some (Errorf ''adminUser is empty'')
      else if mgs_AdminPassword spec = [] then Some (Errorf ''adminPassword is empty'') else None)"

definition statefulset_image :: "options \<Rightarrow> api \<Rightarrow> string \<Rightarrow> string \<Rightarrow> ImageStatus sm" where
  "statefulset_image op a name what =
     andthen (map_err (Wrapped what) (ask_as (ap_containers a) (RStackStatefulSet name))) (first_image op)"

definition syncStack :: "options \<Rightarrow> api \<Rightarrow> OnecloudClusterConfig \<Rightarrow> CoreService \<Rightarrow> unit sm" where
  "syncStack op a config minioSvc =
     andthen (gets (\<lambda>s. stack_spec (se_oc s))) (\<lambda>st0.
     seq (map_err (Wrapped ''validate grafana'') (lift_err (validateGrafanaSpec (mss_Grafana st0))))
    (seq (default_store (\<lambda>st. mls_ObjectStoreConfig (mss_Loki st)) (\<lambda>f. mss_Loki_update (mls_ObjectStoreConfig_update f))
            minioSvc MonitorBucketLoki)
    (seq (default_store (\<lambda>st. tss_ObjectStoreConfig (mps_ThanosSidecarSpec (mss_Prometheus st)))
            (\<lambda>f. mss_Prometheus_update (mps_ThanosSidecarSpec_update (tss_ObjectStoreConfig_update f))) minioSvc MonitorBucketThanos)
    (andthen (gets se_oc) (\<lambda>oc.
     let st = stack_spec oc
     in seq (map_err (Wrapped ''enable monitor stack component'') (SyncMonitorStack a (oc_Spec oc) config))
       (seq (guarded (\<not> mgs_Disable (mss_Grafana st))
               (andthen (map_err (Wrapped ''get grafana deployment'') (ask_as (ap_deployment a) (RStackDeployment MonitorGrafana))) (\<lambda>deploy.
                set_stack_status (msst_GrafanaStatus_update (mgst_MonitorStackComponentStatus_update (\<lambda>c. c\<lparr>mcs_ImageStatus := getImageStatus op deploy\<rparr>))))))
       (seq (guarded (\<not> mls_Disable (mss_Loki st))
               (andthen (statefulset_image op a MonitorLoki ''get loki statefulset'') (\<lambda>img.
                set_stack_status (msst_LokiStatus_update (mlst_MonitorStackComponentStatus_update (\<lambda>c. c\<lparr>mcs_ImageStatus := Some img\<rparr>))))))
            (guarded (\<not> prometheus_disabled (mss_Prometheus st))
               (andthen (statefulset_image op a MonitorPrometheus (''get '' @ MonitorPrometheus @ '' statefulset'')) (\<lambda>img.
                set_stack_status (msst_PrometheusStatus_update (mpst_MonitorStackComponentStatus_update (\<lambda>c. c\<lparr>mcs_ImageStatus := Some img\<rparr>)))))))))))))"

subsection \<open>Buckets\<close>

text \<open>\<open>newMinioClient\<close> talks plain HTTP whatever \<open>Secure\<close> says.\<close>

definition newMinioClient :: "api \<Rightarrow> ObjectStoreConfig \<Rightarrow> unit sm" where
  "newMinioClient a store = map_err (Wrapped ''new minio client'') (lift_err (ap_minio a (store\<lparr>osc_Secure := False\<rparr>)))"

definition aiproxy_store :: "OnecloudCluster \<Rightarrow> CoreService \<Rightarrow> ObjectStoreConfig sm" where
  "aiproxy_store oc minioSvc =
     from_option ''index out of range'' (getMinioAuthConfig (mss_Minio (stack_spec oc)) minioSvc MonitorBucketAiProxy)"

definition aiproxy_disabled :: "OnecloudCluster \<Rightarrow> bool" where
  "aiproxy_disabled oc = ds_Disable (dps_DeploymentSpec (spec_AiProxy (oc_Spec oc)))"

definition ensureAiProxyAPILogBucket :: "api \<Rightarrow> CoreService \<Rightarrow> unit sm" where
  "ensureAiProxyAPILogBucket a minioSvc =
     andthen (gets se_oc) (\<lambda>oc.
     guarded (\<not> aiproxy_disabled oc)
       (andthen (aiproxy_store oc minioSvc) (\<lambda>store.
        seq (map_err (Wrapped ''new minio client'') (newMinioClient a store))
       (andthen (map_err (Wrapped ''check bucket exists'') (ask_as (ap_bucket a) (RBucketExists store MonitorBucketAiProxy))) (\<lambda>exists.
        guarded (\<not> exists) (map_err (Wrapped ''make bucket'') (ask_unit a (RMakeBucket store MonitorBucketAiProxy))))))))"

definition syncAiProxyAPILogBucketLifecycle :: "api \<Rightarrow> CoreService \<Rightarrow> unit sm" where
  "syncAiProxyAPILogBucketLifecycle a minioSvc =
     andthen (gets se_oc) (\<lambda>oc.
     guarded (\<not> aiproxy_disabled oc)
       (andthen (aiproxy_store oc minioSvc) (\<lambda>store.
        seq (map_err (Wrapped ''new minio client'') (newMinioClient a store))
            (map_err (Wrapped ''set lifecycle policy'')
              (ask_unit a (RSetLifecycle store MonitorBucketAiProxy ''Expire aiproxy API logs'' [] MonitorBucketAiProxyRetentionDays))))))"

definition syncBucketPolicy :: "api \<Rightarrow> unit sm" where
  "syncBucketPolicy a =
     andthen (gets (\<lambda>s. mss_Loki (stack_spec (se_oc s)))) (\<lambda>loki.
     let store = mls_ObjectStoreConfig loki; days = (if mls_RetentionDays loki = 0 then 7 else mls_RetentionDays loki)
     in seq (map_err (Wrapped ''for loki'') (newMinioClient a store))
            (map_err (Wrapped ''set lifecycle policy of loki/fake'')
              (ask_unit a (RSetLifecycle store MonitorBucketLoki ''Removing old log chunks'' ''fake/'' days))))"

definition monitorStack_session :: "options \<Rightarrow> api \<Rightarrow> OnecloudClusterConfig \<Rightarrow> unit sm" where
  "monitorStack_session op a config =
     seq (map_err (Wrapped ''sync monitor-stack minio component'') (stack_syncMinio op a))
    (andthen (map_err (Wrapped ''get monitor-minio service'') (ask_as (ap_service a) (RGetService MonitorStackNamespace MonitorMinioName))) (\<lambda>minioSvc.
     seq (map_err (Wrapped ''ensure aiproxy api log bucket'') (ensureAiProxyAPILogBucket a minioSvc))
    (seq (map_err (Wrapped ''sync aiproxy api log bucket lifecycle'') (syncAiProxyAPILogBucketLifecycle a minioSvc))
    (seq (map_err (Wrapped ''sync thanos component'') (syncThanos op a minioSvc))
    (seq (map_err (Wrapped ''sync monitor stack component'') (syncStack op a config minioSvc))
         (map_err (Wrapped ''sync monitor'') (syncBucketPolicy a)))))))"

definition monitorStack_Sync :: "options \<Rightarrow> api \<Rightarrow> unit sm" where
  "monitorStack_Sync op a =
     andthen (gets se_oc) (\<lambda>oc.
     guarded (\<not> monitorStack_IsDisabled oc)
       (andthen (map_err (Wrapped ''get cluster config for grafana'') (ask_as (\<lambda>h q. ap_config a h) RClusterConfig)) (\<lambda>config.
        seq (let g = mss_Grafana (stack_spec oc)
             in guarded (\<not> mgs_Disable g \<and> (mgs_DbEngine g = [] \<or> mgs_DbEngine g = ''mysql''))
                  (map_err (Wrapped ''ensure grafana db config'') (ask_unit a (REnsureMySQLUser (gfc_DB (cfg_Grafana config))))))
            (RunWithSession a (monitorStack_session op a config)))))"

end
