(* ===== verification/Phase_Control.thy ===== *)
theory Phase_Control
  imports Monitor_Stack
begin

text \<open>
  The phase controls (\<open>pkg/controller/onecloud_control.go\<close>, \<open>onecloud_policy.go\<close>, and \<open>yunoinconf.go\<close> of the service
  init tool): once a component runs, it is registered in the service catalogue (\<open>Setup\<close>) and its initial data are
  created (\<open>SystemInit\<close>), both through a session with the cloud's own API.
\<close>

section \<open>Endpoints\<close>

record endpoint =
  ep_Host :: string
  ep_Port :: int
  ep_Path :: string
  ep_Interface :: string

definition newPublicEndpoint :: "string \<Rightarrow> int \<Rightarrow> string \<Rightarrow> endpoint" where
  "newPublicEndpoint host port path = \<lparr>ep_Host = host, ep_Port = port, ep_Path = path, ep_Interface = EndpointTypePublic\<rparr>"

definition newInternalEndpoint :: "string \<Rightarrow> int \<Rightarrow> string \<Rightarrow> endpoint" where
  "newInternalEndpoint host port path = \<lparr>ep_Host = host, ep_Port = port, ep_Path = path, ep_Interface = EndpointTypeInternal\<rparr>"

definition newSlaveEndpoint :: "string \<Rightarrow> int \<Rightarrow> string \<Rightarrow> endpoint" where
  "newSlaveEndpoint host port path = \<lparr>ep_Host = host, ep_Port = port, ep_Path = path, ep_Interface = EndpointTypeSlave\<rparr>"

definition GetProtocolUrl :: "endpoint \<Rightarrow> string \<Rightarrow> string" where
  "GetProtocolUrl e proto =
     (let url = proto @ ''://'' @ FormatHost (ep_Host e) @ '':'' @ show_int (ep_Port e)
      in if ep_Path e \<noteq> [] then url @ ''/'' @ ep_Path e else url)"

definition GetUrl :: "endpoint \<Rightarrow> bool \<Rightarrow> string" where
  "GetUrl e enableSSL = GetProtocolUrl e (if enableSSL then ''https'' else ''http'')"

definition endpoint_urls :: "endpoint list \<Rightarrow> bool \<Rightarrow> (string \<times> string) list" where
  "endpoint_urls eps enableSSL = fold (\<lambda>e. AList.update (ep_Interface e) (GetUrl e enableSSL)) eps []"

definition registerServiceEndpointsBySession :: "api \<Rightarrow> string \<Rightarrow> string \<Rightarrow> endpoint list \<Rightarrow> bool \<Rightarrow> unit sm" where
  "registerServiceEndpointsBySession a serviceName serviceType eps enableSSL =
     andthen (gets se_oc) (\<lambda>oc.
     RegisterServiceEndpoints a (spec_Region (oc_Spec oc)) serviceName serviceType [] (endpoint_urls eps enableSSL))"

definition registerServiceEndpoints :: "api \<Rightarrow> string \<Rightarrow> string \<Rightarrow> endpoint list \<Rightarrow> bool \<Rightarrow> unit sm" where
  "registerServiceEndpoints a serviceName serviceType eps enableSSL =
     RunWithSession a (registerServiceEndpointsBySession a serviceName serviceType eps enableSSL)"

definition service_endpoints :: "OnecloudCluster \<Rightarrow> string \<Rightarrow> int \<Rightarrow> string \<Rightarrow> bool \<Rightarrow> endpoint list" where
  "service_endpoints oc cType port path hasRoEndpoint =
     (let internalAddress = NewClusterComponentName (om_Name (oc_ObjectMeta oc)) cType;
          publicAddress = (if spec_LoadBalancerEndpoint (oc_Spec oc) = [] then internalAddress else spec_LoadBalancerEndpoint (oc_Spec oc))
      in [newPublicEndpoint publicAddress port path, newInternalEndpoint internalAddress port path]
         @ (if hasRoEndpoint then [newSlaveEndpoint (internalAddress @ ''-slave'') port path] else []))"

definition RegisterCloudServiceEndpoint :: "api \<Rightarrow> string \<Rightarrow> string \<Rightarrow> string \<Rightarrow> int \<Rightarrow> string \<Rightarrow> bool \<Rightarrow> bool \<Rightarrow> unit sm" where
  "RegisterCloudServiceEndpoint a cType serviceName serviceType port path enableSsl hasRoEndpoint =
     andthen (gets se_oc) (\<lambda>oc.
     registerServiceEndpoints a serviceName serviceType (service_endpoints oc cType port path hasRoEndpoint) enableSsl)"

definition registerService :: "api \<Rightarrow> string \<Rightarrow> string \<Rightarrow> unit sm" where
  "registerService a serviceName serviceType =
     RunWithSession a (map_err (Wrapped ''onecloud.EnsureService'') (andthen (EnsureService a serviceName serviceType) (\<lambda>_. ret ())))"

definition IsDockerComposeCluster :: "OnecloudCluster \<Rightarrow> bool" where
  "IsDockerComposeCluster oc \<longleftrightarrow> om_Name (oc_ObjectMeta oc) = DockerComposeClusterName"

section \<open>Policies and roles\<close>

definition policy_params :: "SPolicyData \<Rightarrow> jdict" where
  "policy_params p = [(''name'', JStr (spd_Name p)), (''type'', JStr (spd_Name p)), (''description'', JStr (spd_Name p)),
     (''policy'', spd_Policy p), (''scope'', JStr (spd_Scope p)), (''enabled'', JBool True), (''is_system'', JBool True)]"

definition policy_differs :: "api \<Rightarrow> SPolicyData \<Rightarrow> jv \<Rightarrow> bool" where
  "policy_differs a p remote =
     (let name0 = str_at (ap_print a) ''name'' remote;
          name = (if name0 = [] then str_at (ap_print a) ''type'' remote else name0)
      in (case json_Get [''policy''] remote of None \<Rightarrow> True | Some r \<Rightarrow> \<not> ap_equals a (spd_Policy p) r)
         \<or> str_at (ap_print a) ''description'' remote \<noteq> spd_Name p \<or> name \<noteq> spd_Name p
         \<or> \<not> QueryBoolean (ap_print a) ''is_system'' remote)"

definition update_policy :: "api \<Rightarrow> SPolicyData \<Rightarrow> jv \<Rightarrow> unit sm" where
  "update_policy a p remote =
     guarded (policy_differs a p remote)
       (map_err (Wrapped ''Policies.Update'')
         (ask_unit a (RUpdate MPolicies (str_at (ap_print a) ''id'' remote) (policy_params p))))"

definition createOrUpdatePolicy :: "api \<Rightarrow> SPolicyData \<Rightarrow> unit sm" where
  "createOrUpdatePolicy a p =
     andthen (attempt (ask a (RGetByName MPolicies (spd_Name p)))) (\<lambda>r.
     case r of
       Inr remote \<Rightarrow> update_policy a p remote
     | Inl e \<Rightarrow>
         if ErrorCode e \<noteq> 404 then fail (Wrapped ''Policies.GetByName'' e)
         else andthen (attempt (ask a (RGetByName MPolicies (filter (\<lambda>c. c \<noteq> CHR ''-'') (spd_Name p))))) (\<lambda>r2.
              case r2 of
                Inr remote \<Rightarrow> update_policy a p remote
              | Inl e2 \<Rightarrow>
                  if ErrorCode e2 \<noteq> 404 then fail (Wrapped ''Policies.GetByName without dash'' e2)
                  else map_err (Wrapped ''Policies.Create'')
                         (ask_unit a (RCreate MPolicies (policy_params p @ [(''is_public'', JBool True)])))))"

definition add_role_policies :: "api \<Rightarrow> SRoleDefiniton \<Rightarrow> string \<Rightarrow> unit sm" where
  "add_role_policies a role roleId =
     for_each (srd_Policies role) (\<lambda>policy.
       map_err (Wrapped ''RolesV3.PerformAction add-policy'')
         (ask_unit a (RPerform MRoles roleId ''add-policy''
            ((if srd_Project role = [] then [] else [(''project_id'', JStr (srd_Project role))]) @ [(''policy_id'', JStr policy)]))))"

definition createOrUpdateRole :: "api \<Rightarrow> SRoleDefiniton \<Rightarrow> unit sm" where
  "createOrUpdateRole a role =
     andthen
       (andthen (attempt (ask a (RGetByName MRoles (srd_Name role)))) (\<lambda>r.
        case r of
          Inl e \<Rightarrow>
            if ErrorCode e \<noteq> 404 then fail (Wrapped ''RolesV3.GetByName'' e)
            else map_err (Wrapped ''RolesV3.Create'')
                   (ask a (RCreate MRoles [(''name'', JStr (srd_Name role)), (''description'', JStr (srd_Name role)),
                      (''is_public'', JBool (srd_IsPublic role)), (''public_scope'', JStr (if srd_IsPublic role then ''system'' else ''none''))]))
        | Inr roleJson \<Rightarrow>
            if str_at (ap_print a) ''description'' roleJson = srd_Name role then ret roleJson
            else map_err (Wrapped ''RolesV3.Update'')
                   (ask a (RUpdate MRoles (str_at (ap_print a) ''id'' roleJson) [(''description'', JStr (srd_Name role))]))))
     (\<lambda>roleJson. add_role_policies a role (str_at (ap_print a) ''id'' roleJson))"

text \<open>Failures of single policies and roles, and of the quota, are logged and passed over.\<close>

definition tolerated :: "unit sm \<Rightarrow> unit sm" where
  "tolerated m = andthen (attempt m) (\<lambda>_. ret ())"

definition ensureKeystoneVersion36 :: "api \<Rightarrow> unit sm" where
  "ensureKeystoneVersion36 a =
     andthen (map_err (Wrapped ''list policy'') (ask_list a (RList MPolicies []))) (\<lambda>(data1, total).
     if total = 0 then ret ()
     else andthen (from_option ''index out of range'' (case data1 of [] \<Rightarrow> None | p # _ \<Rightarrow> Some p)) (\<lambda>p.
          if json_Contains [''scope''] p then ret ()
          else fail (Wrapped ''not keystone >= 3.6'' (Errorf ''InvalidStatusError''))))"

definition raise_policy_quota :: "api \<Rightarrow> unit sm" where
  "raise_policy_quota a =
     andthen (attempt (ask a (RGetQuota [(''domain'', JStr ''default'')]))) (\<lambda>r.
     case r of
       Inl e \<Rightarrow> ret ()
     | Inr result \<Rightarrow>
         guarded ((case json_Int [''policy''] result of None \<Rightarrow> 0 | Some n \<Rightarrow> n) < 500)
           (tolerated (ask_unit a (RSetQuota [(''domain'', JStr ''default''), (''policy'', JInt 500)]))))"

definition doPolicyRoleInit :: "api \<Rightarrow> unit sm" where
  "doPolicyRoleInit a =
     seq (map_err (Wrapped ''ensureKeystoneVersion36'') (ensureKeystoneVersion36 a))
    (seq (for_each (ap_policies a) (\<lambda>p. tolerated (createOrUpdatePolicy a p)))
    (seq (for_each (ap_roles a) (\<lambda>r. tolerated (createOrUpdateRole a r)))
         (raise_policy_quota a)))"

section \<open>Keystone\<close>

definition etcd_tls :: "OnecloudCluster \<Rightarrow> bool" where
  "etcd_tls oc = (case etcd_EnableTls (spec_Etcd (oc_Spec oc)) of None \<Rightarrow> True | Some b \<Rightarrow> b)"

text \<open>The endpoints of keystone itself are registered under the region of the specification.\<close>

definition identity_endpoints :: "string \<Rightarrow> string \<Rightarrow> string \<Rightarrow> int \<Rightarrow> int \<Rightarrow> endpoint list" where
  "identity_endpoints publicAddress0 keystoneAddress slaveAddress adminPort publicPort =
     (let publicAddress = (if publicAddress0 = [] then keystoneAddress else publicAddress0)
      in [newPublicEndpoint publicAddress publicPort ''v3'', newInternalEndpoint keystoneAddress publicPort ''v3'',
          \<lparr>ep_Host = publicAddress, ep_Port = adminPort, ep_Path = ''v3'', ep_Interface = EndpointTypeAdmin\<rparr>,
          newSlaveEndpoint slaveAddress publicPort ''v3''])"

definition doRegisterIdentity :: "api \<Rightarrow> string \<Rightarrow> string \<Rightarrow> string \<Rightarrow> int \<Rightarrow> int \<Rightarrow> bool \<Rightarrow> unit sm" where
  "doRegisterIdentity a publicAddress keystoneAddress slaveAddress adminPort publicPort enableSSL =
     registerServiceEndpointsBySession a ServiceNameKeystone ServiceTypeIdentity
       (identity_endpoints publicAddress keystoneAddress slaveAddress adminPort publicPort) enableSSL"

definition getWebAccessUrl :: "OnecloudCluster \<Rightarrow> goerr + string" where
  "getWebAccessUrl oc =
     (if spec_LoadBalancerEndpoint (oc_Spec oc) = []
      then Inl (Errorf (''cluster '' @ om_Name (oc_ObjectMeta oc) @ '' LoadBalancerEndpoint is empty''))
      else Inr (''https://'' @ FormatHost (spec_LoadBalancerEndpoint (oc_Spec oc))))"

definition getCommonConfig :: "OnecloudCluster \<Rightarrow> goerr + (string \<times> string) list" where
  "getCommonConfig oc = (case getWebAccessUrl oc of Inl e \<Rightarrow> Inl e | Inr url \<Rightarrow> Inr [(''api_server'', url)])"

definition getEtcdCertificate :: "api \<Rightarrow> jdict sm" where
  "getEtcdCertificate a =
     andthen (ask_as (\<lambda>h q. ap_secret a EtcdClientSecret) (RGetSecret EtcdClientSecret)) (\<lambda>data1.
     let entry = (\<lambda>k. JStr (case map_of data1 k of None \<Rightarrow> [] | Some v \<Rightarrow> v))
     in ret [(''certificate'', entry EtcdClientCertName), (''private_key'', entry EtcdClientKeyName),
             (''ca_certificate'', entry (EtcdClientCACertName @ ''.crt''))])"

definition getEtcdUrl :: "OnecloudCluster \<Rightarrow> string" where
  "getEtcdUrl oc = (if etcd_tls oc then ''https'' else ''http'') @ ''://'' @ om_Name (oc_ObjectMeta oc) @ ''-etcd-client.'' @ om_Namespace (oc_ObjectMeta oc) @ ''.svc:'' @ show_int EtcdClientPort"

definition doDeleteEtcdCertificate :: "api \<Rightarrow> unit sm" where
  "doDeleteEtcdCertificate a =
     seq (DeleteServiceEndpoints a ServiceNameEtcd) (DeleteResource a MServiceCertificates ServiceCertEtcdName)"

definition etcd_endpoints :: "OnecloudCluster \<Rightarrow> endpoint list" where
  "etcd_endpoints oc =
     (let intHost = (if IsDockerComposeCluster oc then EtcdComponentType
                     else om_Name (oc_ObjectMeta oc) @ ''-etcd-client.'' @ om_Namespace (oc_ObjectMeta oc) @ ''.svc'');
          pubHost = (if spec_LoadBalancerEndpoint (oc_Spec oc) = [] then intHost else FormatHost (spec_LoadBalancerEndpoint (oc_Spec oc)));
          nodePort = etcd_ClientNodePort (spec_Etcd (oc_Spec oc))
      in newInternalEndpoint intHost EtcdClientPort [] # (if nodePort = 0 then [] else [newPublicEndpoint pubHost nodePort []]))"

definition doCreateEtcdServiceEndpoint :: "api \<Rightarrow> string \<Rightarrow> string \<Rightarrow> unit sm" where
  "doCreateEtcdServiceEndpoint a regionId certName =
     andthen (gets se_oc) (\<lambda>oc.
     RegisterServiceEndpoints a regionId ServiceNameEtcd ServiceTypeEtcd certName (endpoint_urls (etcd_endpoints oc) (etcd_tls oc)))"

definition keystone_first :: "api \<Rightarrow> string \<Rightarrow> unit sm" where
  "keystone_first a region =
     seq (map_err (Wrapped ''policy role init'') (doPolicyRoleInit a))
    (andthen (map_err (Wrapped ''create region'') (CreateRegion a region [])) (\<lambda>res.
     seq (modify (se_oc_update (oc_Status_update (st_RegionServer_update (rst_RegionId_update (\<lambda>_. str_at (ap_print a) ''id'' res))))))
    (andthen (gets se_oc) (\<lambda>oc.
     let ks = spec_Keystone (oc_Spec oc); name = KeystoneComponentName (om_Name (oc_ObjectMeta oc))
     in map_err (Wrapped ''register identity endpoint'')
          (doRegisterIdentity a (spec_LoadBalancerEndpoint (oc_Spec oc)) name (name @ ''-slave'')
             (sps_NodePort (ss_ServicePortSpec (ks_AdminService ks))) (sps_NodePort (ss_ServicePortSpec (ks_PublicService ks)))
             (\<not> dvs_DisableTLS (ks_DeploymentServiceSpec ks)))))))"

definition sync_etcd_certificate :: "api \<Rightarrow> unit sm" where
  "sync_etcd_certificate a =
     andthen (map_err (Wrapped ''get etcd cert'') (getEtcdCertificate a)) (\<lambda>certConf.
     andthen (gets se_oc) (\<lambda>oc.
     seq (guarded (ecs_CreatedSecrets (etcd_EtcdClusterSpec (spec_Etcd (oc_Spec oc))) = Some False)
            (seq (map_err (Wrapped ''delete etcd certificate'') (doDeleteEtcdCertificate a))
                 (modify (se_oc_update (oc_Spec_update (spec_Etcd_update (etcd_EtcdClusterSpec_update (ecs_CreatedSecrets_update (\<lambda>_. Some True)))))))))
         (map_err (Wrapped ''create etcd certificate'')
           (andthen (EnsureServiceCertificate a ServiceCertEtcdName (Some certConf)) (\<lambda>_. ret ())))))"

definition keystone_second :: "api \<Rightarrow> string \<Rightarrow> unit sm" where
  "keystone_second a region =
     seq (map_err (Wrapped ''create external service'') (andthen (EnsureService a ServiceNameExternal ServiceTypeExternal) (\<lambda>_. ret ())))
    (seq (map_err (Wrapped ''register offlinecloudmeta endpoint'')
            (RegisterServicePublicInternalEndpoint a region ServiceNameOfflineCloudmeta ServiceTypeOfflineCloudmeta [] ServiceURLOfflineCloudmeta))
    (seq (map_err (Wrapped ''create common service'') (andthen (EnsureService a ServiceNameCommon ServiceTypeCommon) (\<lambda>_. ret ())))
    (andthen (gets se_oc) (\<lambda>oc.
     andthen (map_err (Wrapped ''common config'') (sum_result (getCommonConfig oc))) (\<lambda>commonConfig.
     seq (map_err (Wrapped ''sync common configure'') (andthen (SyncServiceConfig a commonConfig ServiceNameCommon) (\<lambda>_. ret ())))
         (guarded (\<not> etcd_Disable (spec_Etcd (oc_Spec oc)))
           (seq (guarded (etcd_tls oc) (sync_etcd_certificate a))
                (map_err (Wrapped ''create etcd endpoint'')
                  (doCreateEtcdServiceEndpoint a region (if etcd_tls oc then ServiceCertEtcdName else []))))))))))"

definition keystone_SystemInit :: "api \<Rightarrow> unit sm" where
  "keystone_SystemInit a =
     andthen (gets se_oc) (\<lambda>oc.
     let st = st_RegionServer (oc_Status oc);
         region = (if rst_RegionId st = [] then spec_Region (oc_Spec oc) else rst_RegionId st)
     in seq (RunWithSession a (keystone_first a region)) (RunWithSession a (keystone_second a region)))"

section \<open>Region\<close>

definition id_of :: "api \<Rightarrow> jv \<Rightarrow> string" where
  "id_of a obj = str_at (ap_print a) ''id'' obj"

definition ensureZone :: "api \<Rightarrow> string \<Rightarrow> string sm" where
  "ensureZone a name =
     andthen (IsZoneExists a name) (\<lambda>r.
     case r of
       Some res \<Rightarrow> ret (id_of a res)
     | None \<Rightarrow> andthen (CreateZone a name) (\<lambda>res. ret (id_of a res)))"

definition ensureWire :: "api \<Rightarrow> string \<Rightarrow> string \<Rightarrow> int \<Rightarrow> string sm" where
  "ensureWire a zone name bw =
     andthen (IsWireExists a name) (\<lambda>r.
     case r of
       Some res \<Rightarrow> ret (id_of a res)
     | None \<Rightarrow> andthen (CreateWire a zone name bw DefaultVPCId) (\<lambda>res. ret (id_of a res)))"

definition ensureRegionZone :: "api \<Rightarrow> string \<Rightarrow> string \<Rightarrow> string sm" where
  "ensureRegionZone a region zone = andthen (CreateRegion a region zone) (\<lambda>res. ret (id_of a res))"

definition region_status :: "session \<Rightarrow> RegionStatus" where
  "region_status s = st_RegionServer (oc_Status (se_oc s))"

definition set_region :: "(RegionStatus \<Rightarrow> RegionStatus) \<Rightarrow> unit sm" where
  "set_region f = modify (se_oc_update (oc_Status_update (st_RegionServer_update f)))"

definition record_id :: "(RegionStatus \<Rightarrow> string) \<Rightarrow> ((string \<Rightarrow> string) \<Rightarrow> RegionStatus \<Rightarrow> RegionStatus) \<Rightarrow> string \<Rightarrow> string sm \<Rightarrow> unit sm" where
  "record_id rd wr what ensure =
     andthen (gets region_status) (\<lambda>st.
     guarded (rd st = []) (andthen (map_err (Wrapped what) ensure) (\<lambda>ident. set_region (wr (\<lambda>_. ident)))))"

definition ensure_custom_zone :: "api \<Rightarrow> string \<Rightarrow> unit sm" where
  "ensure_custom_zone a cZone =
     seq (set_region (rst_CustomZones_update (\<lambda>m. case m of None \<Rightarrow> Some [] | Some kvs \<Rightarrow> Some kvs)))
    (andthen (gets region_status) (\<lambda>st.
     guarded (gomap_get (rst_CustomZones st) cZone = None)
       (andthen (map_err (Wrapped (''create zone '' @ cZone)) (ensureZone a cZone)) (\<lambda>zoneId.
        set_region (rst_CustomZones_update (gomap_set cZone zoneId))))))"

definition registerSchedSameProjectCloudprovider :: "api \<Rightarrow> unit sm" where
  "registerSchedSameProjectCloudprovider a =
     andthen (map_err (Wrapped ''create schedtag same_project'')
        (EnsureSchedtag a ''same_project'' ''prefer'' ''Prefer hosts belongs to same project'')) (\<lambda>obj.
     andthen (EnsureDynamicSchedtag a ''same_cloudprovider_project'' (id_of a obj)
        ''host.cloudprovider.tenant_id == server.owner_tenant_id'') (\<lambda>_. ret ()))"

definition region_session :: "api \<Rightarrow> unit sm" where
  "region_session a =
     andthen (gets se_oc) (\<lambda>oc.
     let region = spec_Region (oc_Spec oc); zone = spec_Zone (oc_Spec oc)
     in seq (record_id rst_RegionZoneId rst_RegionZoneId_update (''create region-zone '' @ region @ ''-'' @ zone)
               (ensureRegionZone a (region @ ''-'' @ zone) []))
       (seq (record_id rst_ZoneId rst_ZoneId_update (''create zone '' @ zone) (ensureZone a zone))
       (seq (for_each (spec_CustomZones (oc_Spec oc)) (ensure_custom_zone a))
       (seq (record_id rst_WireId rst_WireId_update ''create default wire'' (ensureWire a zone DefaultOnecloudWire 1000))
            (map_err (Wrapped ''init sched data'') (registerSchedSameProjectCloudprovider a))))))"

definition region_SystemInit :: "api \<Rightarrow> unit sm" where
  "region_SystemInit a = RunWithSession a (region_session a)"

section \<open>Time series database, devtool, container platform, proxy\<close>

text \<open>Registering the database for the first time deletes the running deployment of region, which is created again.\<close>

definition tsdb_Setup :: "api \<Rightarrow> string \<Rightarrow> string \<Rightarrow> string \<Rightarrow> int \<Rightarrow> string \<Rightarrow> unit sm" where
  "tsdb_Setup a cType serviceName serviceType port path =
     seq (map_err (Wrapped ''get mcclient session'') (getSession a))
    (andthen (map_err (Wrapped ''check service exists'') (IsServiceExists a serviceName)) (\<lambda>exists.
     seq (map_err (Wrapped ''RegisterCloudServiceEndpoint'')
            (RegisterCloudServiceEndpoint a cType serviceName serviceType port path True False))
         (guarded (exists = None \<and> ap_controller a)
           (andthen (gets se_oc) (\<lambda>oc.
            let regionName = NewClusterComponentName (om_Name (oc_ObjectMeta oc)) RegionComponentType
            in andthen (attempt (ask_as (\<lambda>h q. ap_ready a h regionName) (RGetDeployment regionName))) (\<lambda>r.
               case r of
                 Inl e \<Rightarrow> ret ()
               | Inr ready \<Rightarrow> guarded (ready \<noteq> 0) (tolerated (ask_unit a (RDeleteDeployment regionName)))))))))"

definition rpmPackageUrl :: "string \<Rightarrow> string" where
  "rpmPackageUrl pkgName = ''https://iso.yunion.cn/yumrepo-2.13'' @ ''/rpms/packages/'' @ pkgName"

definition ensureTemplatePing :: "api \<Rightarrow> unit sm" where
  "ensureTemplatePing a = RunWithSession a
     (andthen (EnsureDevtoolTemplate a ''ping-host'' [''HOSTNAME ansible_become=yes''] [''ping''] [(''conf'', [])] 86400) (\<lambda>_. ret ()))"

definition ensureTemplateNginx :: "api \<Rightarrow> unit sm" where
  "ensureTemplateNginx a = RunWithSession a
     (andthen (EnsureDevtoolTemplate a ''install-nginx-on-centos'' [''HOSTNAME ansible_become=yes'']
        [''yum name=epel-release state=present'', ''yum name=nginx state=installed'', ''systemd name=nginx enabled=yes state=started'']
        [(''conf'', [])] 86400) (\<lambda>_. ret ()))"

definition ensureTemplateTelegraf :: "api \<Rightarrow> unit sm" where
  "ensureTemplateTelegraf a = RunWithSession a
     (let pkgName = ''telegraf-1.5.18-1.x86_64.rpm''
      in andthen (EnsureDevtoolTemplate a ''install-telegraf-on-centos'' [''HOSTNAME ansible_become=yes influxdb=INFLUXDB'']
           [''file path=/etc/telegraf state=directory mode=0755'', ''template src=conf dest=/etc/telegraf/telegraf.conf mode=0644'',
            ''get_url url='' @ rpmPackageUrl pkgName @ '' dest=/tmp/'' @ pkgName, ''yum name=/tmp/'' @ pkgName @ '' state=installed'',
            ''systemd name=telegraf enabled=yes state=started'']
           [(''conf'', ap_telegrafConf a)] 86400) (\<lambda>_. ret ()))"

definition devtool_SystemInit :: "api \<Rightarrow> unit sm" where
  "devtool_SystemInit a =
     seq (ensureTemplatePing a) (seq (ensureTemplateTelegraf a) (seq (ensureTemplateNginx a)
       (RunWithSession a (EnsureAgentAnsiblePlaybookRef a))))"

definition kubeserver_SystemInit :: "api \<Rightarrow> unit sm" where
  "kubeserver_SystemInit a =
     andthen (gets se_oc) (\<lambda>oc.
     guarded (minio_Enable (spec_Minio (oc_Spec oc)))
       (andthen (ready_masters a) (\<lambda>masters.
        case minio_mode masters (minio_Mode (spec_Minio (oc_Spec oc))) of
          Inl e \<Rightarrow> fail e
        | Inr mode \<Rightarrow>
            seq (modify (se_oc_update (oc_Spec_update (spec_Minio_update (minio_Mode_update (\<lambda>_. mode))))))
                (RunWithSession a (andthen (gets se_oc) (\<lambda>oc'.
                   map_err (Wrapped ''Enable minio'') (SyncMinio a mode (oc_Spec oc'))))))))"

definition getOrCreateProxyAgent :: "api \<Rightarrow> string sm" where
  "getOrCreateProxyAgent a =
     andthen (attempt (ask a (RGet MProxyAgents ''proxyagent0''))) (\<lambda>r.
     andthen (case r of Inr obj \<Rightarrow> ret obj | Inl e \<Rightarrow> ask a (RCreate MProxyAgents [(''name'', JStr ''proxyagent0'')])) (\<lambda>obj.
     case json_GetString (ap_print a) [''id''] obj of None \<Rightarrow> fail (Errorf ''Get'') | Some ident \<Rightarrow> ret ident))"

definition cloudproxy_SystemInit :: "options \<Rightarrow> api \<Rightarrow> unit sm" where
  "cloudproxy_SystemInit op a = RunWithSession a
     (guarded (\<not> op_StopServices op) (map_err (Wrapped ''getOrCreateProxyAgent'') (andthen (getOrCreateProxyAgent a) (\<lambda>_. ret ()))))"

definition echarts_Setup :: "api \<Rightarrow> unit sm" where
  "echarts_Setup a = RunWithSession a
     (andthen (gets se_oc) (\<lambda>oc.
      RegisterServiceEndpointByInterfaces a (spec_Region (oc_Spec oc)) ServiceNameEChartsSSR ServiceTypeEChartsSSR
        (''http://'' @ om_Name (oc_ObjectMeta oc) @ ''-'' @ EChartsSSRComponentType @ ''.'' @ om_Namespace (oc_ObjectMeta oc) @ ''.svc:'' @ show_int EChartsSSRPort) []
        [EndpointTypeInternal]))"

section \<open>Monitor: the system alerts\<close>

definition utf8 :: "nat list \<Rightarrow> string" where
  "utf8 bs = map char_of bs"

definition genORFilter :: "string \<Rightarrow> string list \<Rightarrow> MetricQueryTag list" where
  "genORFilter key vals = map (\<lambda>v. \<lparr>mqt_Key = key, mqt_Operator = ''='', mqt_Value = v, mqt_Condition = ''OR''\<rparr>) vals"

text \<open>Descriptions are written with the bytes of their UTF-8 encoding.\<close>

definition cpuTem :: CommonAlertTem where
  "cpuTem =
     \<lparr>cat_Database = ''telegraf'', cat_Measurement = ''cpu'', cat_Field = [''usage_active''], cat_FieldFunc = [], cat_Description = utf8 [231, 155, 145, 230, 181, 139, 229, 174, 191, 228, 184, 187, 230, 156, 186] @ ''CPU'' @ utf8 [228, 189, 191, 231, 148, 168, 231, 142, 135], cat_Reduce = ''avg'',
      cat_Comparator = ''>='', cat_Threshold = 90, cat_Filters = [], cat_FieldOpt = [], cat_GetPointStr = False, cat_Name = ''cpu.usage_active'',
      cat_ConditionType = [], cat_From = [], cat_Interval = [], cat_GroupBy = [], cat_Level = [], cat_NoDataState = []\<rparr>"

definition memTem :: CommonAlertTem where
  "memTem =
     \<lparr>cat_Database = ''telegraf'', cat_Measurement = ''mem'', cat_Field = [''available''], cat_FieldFunc = [], cat_Description = utf8 [231, 155, 145, 230, 181, 139, 229, 174, 191, 228, 184, 187, 230, 156, 186, 229, 143, 175, 231, 148, 168, 229, 134, 133, 229, 173, 152], cat_Reduce = ''avg'',
      cat_Comparator = ''<='', cat_Threshold = 524288000, cat_Filters = [], cat_FieldOpt = [], cat_GetPointStr = False, cat_Name = ''mem.available'',
      cat_ConditionType = [], cat_From = [], cat_Interval = [], cat_GroupBy = [], cat_Level = [], cat_NoDataState = []\<rparr>"

definition diskAvaTem :: CommonAlertTem where
  "diskAvaTem =
     \<lparr>cat_Database = ''telegraf'', cat_Measurement = ''disk'', cat_Field = [''used_percent''], cat_FieldFunc = ''last'', cat_Description = utf8 [231, 155, 145, 230, 181, 139, 229, 174, 191, 228, 184, 187, 230, 156, 186, 231, 163, 129, 231, 155, 152, 229, 174, 185, 233, 135, 143, 228, 189, 191, 231, 148, 168, 231, 142, 135] @ ''>=80%'', cat_Reduce = ''last'',
      cat_Comparator = ''>='', cat_Threshold = 80, cat_Filters = genORFilter ''path'' [''/'', ''/opt''], cat_FieldOpt = [], cat_GetPointStr = False, cat_Name = ''disk.used_percent>=80%'',
      cat_ConditionType = [], cat_From = ''5m'', cat_Interval = [], cat_GroupBy = [], cat_Level = ''important'', cat_NoDataState = []\<rparr>"

definition diskNodeAvaTem :: CommonAlertTem where
  "diskNodeAvaTem =
     \<lparr>cat_Database = ''telegraf'', cat_Measurement = ''disk'', cat_Field = [''inodes_used_percent''], cat_FieldFunc = ''last'', cat_Description = utf8 [231, 155, 145, 230, 181, 139, 229, 174, 191, 228, 184, 187, 230, 156, 186, 231, 163, 129, 231, 155, 152] @ ''inodes'' @ utf8 [228, 189, 191, 231, 148, 168, 231, 142, 135] @ ''>=80%'', cat_Reduce = ''last'',
      cat_Comparator = ''>='', cat_Threshold = 80, cat_Filters = genORFilter ''path'' [''/'', ''/opt''], cat_FieldOpt = [], cat_GetPointStr = False, cat_Name = ''disk.inodes_used_percent>=80%'',
      cat_ConditionType = [], cat_From = ''5m'', cat_Interval = [], cat_GroupBy = [], cat_Level = ''important'', cat_NoDataState = []\<rparr>"

definition cloudaccountTem :: CommonAlertTem where
  "cloudaccountTem =
     \<lparr>cat_Database = ''meter_db'', cat_Measurement = ''cloudaccount_balance'', cat_Field = [''balance''], cat_FieldFunc = [], cat_Description = utf8 [231, 155, 145, 230, 181, 139, 228, 186, 145, 232, 180, 166, 229, 143, 183, 228, 189, 153, 233, 162, 157], cat_Reduce = ''last'',
      cat_Comparator = ''<='', cat_Threshold = 100, cat_Filters = genORFilter ''brand'' [''Aliyun'', ''Qcloud'', ''VolcEngine'', ''Baidu'', ''Huawei''], cat_FieldOpt = [], cat_GetPointStr = False, cat_Name = ''cloudaccount_balance.balance'',
      cat_ConditionType = [], cat_From = [], cat_Interval = [], cat_GroupBy = [], cat_Level = ''important'', cat_NoDataState = []\<rparr>"

definition smartDevTem :: CommonAlertTem where
  "smartDevTem =
     \<lparr>cat_Database = ''telegraf'', cat_Measurement = ''smart_device'', cat_Field = [''health_ok''], cat_FieldFunc = ''last'', cat_Description = utf8 [231, 155, 145, 230, 181, 139, 231, 163, 129, 231, 155, 152, 229, 129, 165, 229, 186, 183, 231, 138, 182, 230, 128, 129], cat_Reduce = ''last'',
      cat_Comparator = ''=='', cat_Threshold = 0, cat_Filters = [], cat_FieldOpt = [], cat_GetPointStr = False, cat_Name = ''smart_device.exit_status'',
      cat_ConditionType = [], cat_From = [], cat_Interval = [], cat_GroupBy = [], cat_Level = [], cat_NoDataState = []\<rparr>"

definition hostRaidTem :: CommonAlertTem where
  "hostRaidTem =
     \<lparr>cat_Database = ''telegraf'', cat_Measurement = ''host_raid'', cat_Field = [''adapter'', ''slot''], cat_FieldFunc = ''last'', cat_Description = utf8 [230, 163, 128, 230, 159, 165, 229, 174, 191, 228, 184, 187, 230, 156, 186] @ ''raid'' @ utf8 [230, 142, 167, 229, 136, 182, 229, 153, 168, 231, 138, 182, 230, 128, 129], cat_Reduce = ''last'',
      cat_Comparator = ''>='', cat_Threshold = 0, cat_Filters = genORFilter ''status'' [''offline'', ''failed'', ''degraded'', ''out of sync''], cat_FieldOpt = [], cat_GetPointStr = True, cat_Name = ''host_raid.adapter'',
      cat_ConditionType = [], cat_From = ''5m'', cat_Interval = [], cat_GroupBy = [], cat_Level = [], cat_NoDataState = ''ok''\<rparr>"

definition bondSlaveTem :: CommonAlertTem where
  "bondSlaveTem =
     \<lparr>cat_Database = ''telegraf'', cat_Measurement = ''bond_slave'', cat_Field = [''status''], cat_FieldFunc = ''last'', cat_Description = utf8 [230, 163, 128, 230, 159, 165, 229, 174, 191, 228, 184, 187, 230, 156, 186] @ ''bond slave'' @ utf8 [231, 189, 145, 229, 141, 161, 231, 138, 182, 230, 128, 129], cat_Reduce = ''last'',
      cat_Comparator = ''=='', cat_Threshold = 0, cat_Filters = [], cat_FieldOpt = [], cat_GetPointStr = False, cat_Name = ''bond_slave.status'',
      cat_ConditionType = [], cat_From = [], cat_Interval = [], cat_GroupBy = ''host_id,interface,bond'', cat_Level = ''important'', cat_NoDataState = []\<rparr>"

definition noDataTem :: CommonAlertTem where
  "noDataTem =
     \<lparr>cat_Database = ''telegraf'', cat_Measurement = ''system'', cat_Field = [''uptime''], cat_FieldFunc = ''last'', cat_Description = utf8 [231, 155, 145, 230, 181, 139, 232, 138, 130, 231, 130, 185, 229, 144, 175, 229, 138, 168, 230, 151, 182, 233, 151, 180], cat_Reduce = ''last'',
      cat_Comparator = ''=='', cat_Threshold = 0, cat_Filters = [], cat_FieldOpt = [], cat_GetPointStr = False, cat_Name = ''system.uptime'',
      cat_ConditionType = ''nodata_query'', cat_From = ''10m'', cat_Interval = ''1m'', cat_GroupBy = [], cat_Level = ''important'', cat_NoDataState = []\<rparr>"

definition defunctProcessTem :: CommonAlertTem where
  "defunctProcessTem =
     \<lparr>cat_Database = ''telegraf'', cat_Measurement = ''processes'', cat_Field = [''zombies''], cat_FieldFunc = ''last'', cat_Description = utf8 [231, 155, 145, 230, 181, 139, 232, 138, 130, 231, 130, 185, 229, 131, 181, 229, 176, 184, 232, 191, 155, 231, 168, 139, 230, 149, 176], cat_Reduce = ''last'',
      cat_Comparator = ''>='', cat_Threshold = 10, cat_Filters = [], cat_FieldOpt = [], cat_GetPointStr = False, cat_Name = ''process.zombies'',
      cat_ConditionType = [], cat_From = ''5m'', cat_Interval = [], cat_GroupBy = ''host_id'', cat_Level = [], cat_NoDataState = []\<rparr>"

definition totalProcessTem :: CommonAlertTem where
  "totalProcessTem =
     \<lparr>cat_Database = ''telegraf'', cat_Measurement = ''processes'', cat_Field = [''total''], cat_FieldFunc = ''last'', cat_Description = utf8 [231, 155, 145, 230, 181, 139, 232, 138, 130, 231, 130, 185, 230, 128, 187, 232, 191, 155, 231, 168, 139, 230, 149, 176], cat_Reduce = ''last'',
      cat_Comparator = ''>='', cat_Threshold = 20000, cat_Filters = [], cat_FieldOpt = [], cat_GetPointStr = False, cat_Name = ''process.total'',
      cat_ConditionType = [], cat_From = ''5m'', cat_Interval = [], cat_GroupBy = ''host_id'', cat_Level = [], cat_NoDataState = []\<rparr>"

definition systemLoad1Pcore :: CommonAlertTem where
  "systemLoad1Pcore =
     \<lparr>cat_Database = ''telegraf'', cat_Measurement = ''system'', cat_Field = [''load1_pcore''], cat_FieldFunc = ''last'', cat_Description = utf8 [231, 155, 145, 230, 181, 139, 232, 138, 130, 231, 130, 185] @ ''load'', cat_Reduce = ''last'',
      cat_Comparator = ''>='', cat_Threshold = 2, cat_Filters = [], cat_FieldOpt = [], cat_GetPointStr = False, cat_Name = ''system.load1_pcore'',
      cat_ConditionType = [], cat_From = ''5m'', cat_Interval = [], cat_GroupBy = ''host_id'', cat_Level = ''important'', cat_NoDataState = []\<rparr>"

definition hostRebootTem :: CommonAlertTem where
  "hostRebootTem =
     \<lparr>cat_Database = ''telegraf'', cat_Measurement = ''system'', cat_Field = [''uptime''], cat_FieldFunc = [], cat_Description = utf8 [231, 155, 145, 230, 181, 139, 229, 174, 191, 228, 184, 187, 230, 156, 186, 233, 135, 141, 229, 144, 175, 239, 188, 136, 233, 128, 154, 232, 191, 135] @ ''uptime'' @ utf8 [229, 183, 174, 229, 128, 188, 230, 163, 128, 230, 181, 139, 239, 188, 137], cat_Reduce = ''delta'',
      cat_Comparator = ''<'', cat_Threshold = 0, cat_Filters = genORFilter ''brand'' [''OneCloud''], cat_FieldOpt = [], cat_GetPointStr = False, cat_Name = ''system.host_reboot'',
      cat_ConditionType = [], cat_From = ''30m'', cat_Interval = [], cat_GroupBy = ''host_id'', cat_Level = ''important'', cat_NoDataState = []\<rparr>"

definition getInitInfo :: "(string \<times> CommonAlertTem) list" where
  "getInitInfo = map (\<lambda>t. (cat_Name t, t))
     [cpuTem, memTem, diskAvaTem, diskNodeAvaTem, cloudaccountTem, smartDevTem, hostRaidTem, bondSlaveTem, noDataTem,
      defunctProcessTem, totalProcessTem, systemLoad1Pcore, hostRebootTem]"

text \<open>
  \<open>matchFromRtnAlerts\<close>: the first alert with the name of a metric, or with that name in its metadata, and the other
  alerts; an alert without metadata before it is an error.
\<close>

fun matchFromRtnAlerts :: "api \<Rightarrow> string \<Rightarrow> jv list \<Rightarrow> goerr + (jv option \<times> jv list)" where
  "matchFromRtnAlerts a metric [] = Inr (None, [])"
| "matchFromRtnAlerts a metric (alert # rest) =
     (case json_Get [''metadata''] alert of
        None \<Rightarrow> Inl (Wrapped ''cannot get metadata'' (Errorf ''Get''))
      | Some md \<Rightarrow>
          if metric = str_at (ap_print a) ''name'' alert \<or> metric = str_at (ap_print a) ''meta_name'' md then Inr (Some alert, rest)
          else (case matchFromRtnAlerts a metric rest of
                  Inl e \<Rightarrow> Inl e
                | Inr (m, others) \<Rightarrow> Inr (m, alert # others)))"

fun sync_alerts :: "api \<Rightarrow> (string \<times> CommonAlertTem) list \<Rightarrow> jv list \<Rightarrow> jv list sm" where
  "sync_alerts a [] left = ret left"
| "sync_alerts a ((metric, tem) # tems) left =
     (case matchFromRtnAlerts a metric left of
        Inl e \<Rightarrow> fail e
      | Inr (Some alert, others) \<Rightarrow>
          seq (tolerated (UpdateCommonAlert a tem (str_at (ap_print a) ''id'' alert) alert)) (sync_alerts a tems others)
      | Inr (None, others) \<Rightarrow>
          seq (tolerated (andthen (CreateCommonAlert a tem) (\<lambda>_. ret ()))) (sync_alerts a tems others))"

definition monitor_session :: "api \<Rightarrow> unit sm" where
  "monitor_session a =
     andthen (map_err (Wrapped ''monitorComponent GetCommonAlertOfSys'') (GetCommonAlertOfSys a)) (\<lambda>rtnAlert.
     andthen (sync_alerts a (range_map (ap_order a) getInitInfo) rtnAlert) (\<lambda>left.
     guarded (left \<noteq> []) (DeleteCommonAlert a (map (str_at (ap_print a) ''id'') left))))"

definition monitor_SystemInit :: "api \<Rightarrow> unit sm" where
  "monitor_SystemInit a = RunWithSession a (monitor_session a)"

end
