(* ===== verification/Global_Settings.thy ===== *)
theory Global_Settings
  imports Phase_Control "HOL-Library.List_Lexorder" "HOL-Library.Char_ord"
begin

text \<open>
  The global settings of the front end, a parameter of yunionconf that says which features are switched on
  (\<open>pkg/service-init/component/yunoinconf.go\<close>), and the phase controls put together: what \<open>Setup\<close> and \<open>SystemInit\<close> do
  for each kind of component.
\<close>

section \<open>Features\<close>

record GlobalSettingsValue =
  gsv_Dictionary :: "jv option"
  gsv_SetupKeys :: "string list"
  gsv_SetupKeysVersion :: string
  gsv_SetupOneStackInitialized :: bool
  gsv_ProductVersion :: string
  gsv_UserDefinedKeys :: "(string \<times> bool) list"

definition FEAT_VOLCENGINE :: string where
  "FEAT_VOLCENGINE = ''volcengine''"

definition FEAT_ORACLE_CLOUD :: string where
  "FEAT_ORACLE_CLOUD = ''oraclecloud''"

definition FEAT_KSYUN :: string where
  "FEAT_KSYUN = ''ksyun''"

definition FEAT_VMWARE :: string where
  "FEAT_VMWARE = ''vmware''"

definition FEAT_PROXMOX :: string where
  "FEAT_PROXMOX = ''proxmox''"

definition FEAT_POD :: string where
  "FEAT_POD = ''pod''"

definition FEAT_AI :: string where
  "FEAT_AI = ''ai''"

lemmas feature_defs = FEAT_VOLCENGINE_def FEAT_ORACLE_CLOUD_def FEAT_KSYUN_def FEAT_VMWARE_def FEAT_PROXMOX_def FEAT_POD_def FEAT_AI_def

definition switch :: "bool \<Rightarrow> string list \<Rightarrow> (string \<times> bool) list \<Rightarrow> (string \<times> bool) list" where
  "switch on ks m = fold (\<lambda>k. AList.update k on) ks m"

definition NewGlobalSettingsValue :: "string list \<Rightarrow> bool \<Rightarrow> string \<Rightarrow> GlobalSettingsValue" where
  "NewGlobalSettingsValue setupKeys oneStackInited productVersion =
     \<lparr>gsv_Dictionary = None, gsv_SetupKeys = setupKeys, gsv_SetupKeysVersion = ''3.0'',
      gsv_SetupOneStackInitialized = oneStackInited, gsv_ProductVersion = productVersion,
      gsv_UserDefinedKeys = switch True setupKeys []\<rparr>"

definition gsv_Equal :: "GlobalSettingsValue \<Rightarrow> GlobalSettingsValue \<Rightarrow> bool" where
  "gsv_Equal v u \<longleftrightarrow>
     set (gsv_SetupKeys v) = set (gsv_SetupKeys u) \<and> gsv_SetupKeysVersion v = gsv_SetupKeysVersion u
     \<and> gsv_SetupOneStackInitialized v = gsv_SetupOneStackInitialized u \<and> gsv_ProductVersion v = gsv_ProductVersion u"

text \<open>The features that an upgrade from settings without user defined keys switches on.\<close>

definition new_features :: "string \<Rightarrow> string list" where
  "new_features version =
     (if version = ProductVersionCMP \<or> version = ProductVersionFullStack then [FEAT_KSYUN, FEAT_ORACLE_CLOUD, FEAT_VOLCENGINE]
      else if version = ProductVersionEdge then [FEAT_PROXMOX, FEAT_VMWARE] else [])"

definition upgraded_keys :: "GlobalSettingsValue \<Rightarrow> GlobalSettingsValue \<Rightarrow> (string \<times> bool) list \<Rightarrow> (string \<times> bool) list" where
  "upgraded_keys v old keys =
     (if gsv_UserDefinedKeys old = []
      then switch True (new_features (gsv_ProductVersion v))
             (switch False (filter (\<lambda>k. k \<notin> set (gsv_SetupKeys old)) (gsv_SetupKeys v)) keys)
      else keys)"

definition CalculateSetupKeys :: "GlobalSettingsValue \<Rightarrow> GlobalSettingsValue \<Rightarrow> GlobalSettingsValue" where
  "CalculateSetupKeys v old =
     (let keys1 = switch True (gsv_SetupKeys old) (gsv_UserDefinedKeys v);
          keys2 = upgraded_keys v old keys1;
          keys3 = fold (\<lambda>(k, on). AList.update k on) (gsv_UserDefinedKeys old) keys2
      in v\<lparr>gsv_Dictionary := gsv_Dictionary old, gsv_UserDefinedKeys := keys3,
           gsv_SetupKeys := sort (map fst (filter snd keys3))\<rparr>)"

definition setupKeysCmp :: "string list" where
  "setupKeysCmp = [''public'', ''private'', ''storage'', ''aliyun'', ''aws'', ''azure'', ''ctyun'', ''google'', ''huawei'', ''qcloud'',
     FEAT_VOLCENGINE, FEAT_VMWARE, ''openstack'', ''cloudpods'', ''nutanix'', ''s3'', ''ceph'', ''xsky'', FEAT_PROXMOX, FEAT_ORACLE_CLOUD, FEAT_KSYUN]"

definition setupKeysEdge :: "string list" where
  "setupKeysEdge = [''onecloud'', ''onestack'', ''baremetal'', ''lb'', FEAT_VMWARE, FEAT_PROXMOX]"

definition version_keys :: "string \<Rightarrow> string list" where
  "version_keys version =
     (if version = ProductVersionCMP then setupKeysCmp
      else if version = ProductVersionEdge then setupKeysEdge
      else if version = ProductVersionLightEdge then [''onecloud'', ''onestack'']
      else if version = ProductVersionBaremetal then [''onecloud'', ''baremetal'']
      else if version = ProductVersionAI then [''onecloud'', ''onestack'', FEAT_POD, FEAT_AI]
      else setupKeysCmp @ setupKeysEdge)"

definition setup_keys :: "bool \<Rightarrow> string \<Rightarrow> string list" where
  "setup_keys isEE version =
     version_keys version @ [''monitor'', ''auth'']
     @ (if isEE
        then (if version = ProductVersionEdge \<or> version = ProductVersionLightEdge then []
              else [''ucloud'', ''ecloud'', ''jdcloud'', ''zstack'', ''hcso'', ''bingocloud'', ''incloudsphere''])
             @ (if version \<noteq> ProductVersionLightEdge then [''k8s'', ''bill''] else [])
        else [])
     @ [''default'']"

definition wanted_settings :: "OnecloudCluster \<Rightarrow> GlobalSettingsValue" where
  "wanted_settings oc =
     (let version = spec_ProductVersion (oc_Spec oc)
      in NewGlobalSettingsValue (setup_keys (IsEnterpriseEdition oc) version) (version = ProductVersionCMP) version)"

text \<open>
  The request that creates or updates the parameter, with the value before it is marshalled. Decoding the stored
  parameter (its identifier and its value) is an argument.
\<close>

datatype setting_request = CreateSettings GlobalSettingsValue | UpdateSettings int GlobalSettingsValue

definition settings_request :: "OnecloudCluster \<Rightarrow> (int \<times> GlobalSettingsValue) option \<Rightarrow> setting_request option" where
  "settings_request oc current =
     (case current of
        None \<Rightarrow> Some (CreateSettings (wanted_settings oc))
      | Some (ident, cur) \<Rightarrow>
          (let input = CalculateSetupKeys (wanted_settings oc) cur
           in if gsv_Equal cur input then None else Some (UpdateSettings ident input)))"

record settings_codec =
  sc_decode :: "jv \<Rightarrow> goerr + GlobalSettingsValue"
  sc_encode :: "GlobalSettingsValue \<Rightarrow> jv"

definition settings_params :: "settings_codec \<Rightarrow> GlobalSettingsValue \<Rightarrow> jdict" where
  "settings_params codec v =
     [(''name'', JStr ''global-settings''), (''service_id'', JStr ServiceNameYunionAgent), (''value'', sc_encode codec v)]"

definition current_settings :: "settings_codec \<Rightarrow> jv list \<Rightarrow> goerr + (int \<times> GlobalSettingsValue) option" where
  "current_settings codec items =
     (case items of
        [] \<Rightarrow> Inr None
      | cur # _ \<Rightarrow>
          (case json_Int [''id''] cur of
             None \<Rightarrow> Inl (Wrapped ''get id'' (Errorf ''Int''))
           | Some ident \<Rightarrow>
               (case json_Get [''value''] cur of
                  None \<Rightarrow> Inl (Wrapped ''unmarshal GlobalSettingsValue'' (Errorf ''Get''))
                | Some v \<Rightarrow> (case sc_decode codec v of
                      Inl e \<Rightarrow> Inl (Wrapped ''unmarshal GlobalSettingsValue'' e)
                    | Inr cv \<Rightarrow> Inr (Some (ident, cv))))))"

definition yunionconf_session :: "settings_codec \<Rightarrow> api \<Rightarrow> unit sm" where
  "yunionconf_session codec a =
     andthen (map_err (Wrapped ''search global-settings'')
        (ask_list a (RList MParameters [(''name'', JStr ''global-settings''), (''scope'', JStr ''system'')]))) (\<lambda>(items, total).
     andthen (sum_result (current_settings codec items)) (\<lambda>current.
     andthen (gets se_oc) (\<lambda>oc.
     case settings_request oc current of
       None \<Rightarrow> ret ()
     | Some (CreateSettings v) \<Rightarrow>
         map_err (Wrapped ''create global-settings'') (ask_unit a (RCreate MParameters (settings_params codec v)))
     | Some (UpdateSettings ident v) \<Rightarrow>
         map_err (Wrapped ''update global-settings'') (ask_unit a (RUpdate MParameters (show_int ident) (settings_params codec v))))))"

definition yunionconf_SystemInit :: "settings_codec \<Rightarrow> api \<Rightarrow> unit sm" where
  "yunionconf_SystemInit codec a = map_err (Wrapped ''pc.man.RunWithSession'') (RunWithSession a (yunionconf_session codec a))"

definition yunionagent_Setup :: "api \<Rightarrow> unit sm" where
  "yunionagent_Setup a =
     andthen (gets se_oc) (\<lambda>oc.
     RegisterCloudServiceEndpoint a YunionagentComponentType ServiceNameYunionAgent ServiceTypeYunionAgent
       (sps_NodePort (ss_ServicePortSpec (yas_Service (spec_Yunionagent (oc_Spec oc))))) [] True False)"

text \<open>
  The set-up of yunionconf registers the agent too unless it is registered; an error of that look-up counts as
  \<open>not registered\<close>.
\<close>

definition yunionconf_Setup :: "api \<Rightarrow> unit sm" where
  "yunionconf_Setup a =
     andthen (gets se_oc) (\<lambda>oc.
     seq (map_err (Wrapped ''endpoint for yunionconfSvc setup'')
            (RegisterCloudServiceEndpoint a YunionconfComponentType ServiceNameYunionConf ServiceTypeYunionConf
               (sps_NodePort (ss_ServicePortSpec (dps_Service (spec_Yunionconf (oc_Spec oc))))) [] True True))
    (seq (map_err (Wrapped ''check if yunionagent service exists'') (RunWithSession a (ret ())))
    (andthen (attempt (IsServiceExists a ServiceNameYunionAgent)) (\<lambda>r.
     case r of
       Inr (Some _) \<Rightarrow> ret ()
     | _ \<Rightarrow> map_err (Wrapped ''setup yunionagent for yunionconfSvc'') (yunionagent_Setup a)))))"

section \<open>The phase controls\<close>

definition node_port_of :: "ServiceSpec \<Rightarrow> int" where
  "node_port_of svc = sps_NodePort (ss_ServicePortSpec svc)"

fun phase_Setup :: "api \<Rightarrow> phase \<Rightarrow> unit sm" where
  "phase_Setup a (RegisterEndpoint cType sname stype port path ssl) = RegisterCloudServiceEndpoint a cType sname stype port path ssl True"
| "phase_Setup a (RegisterService sname stype) = registerService a sname stype"
| "phase_Setup a (TSDBEndpoint cType sname stype port path) = tsdb_Setup a cType sname stype port path"
| "phase_Setup a (ItsmEndpoint cType sname stype port path) = RegisterCloudServiceEndpoint a cType sname stype port path True False"
| "phase_Setup a KeystonePhase = ret ()"
| "phase_Setup a KubeServerPhase = andthen (gets se_oc) (\<lambda>oc.
     RegisterCloudServiceEndpoint a KubeServerComponentType ServiceNameKubeServer ServiceTypeKubeServer
       (node_port_of (dps_Service (spec_KubeServer (oc_Spec oc)))) ''api'' True True)"
| "phase_Setup a RegionPhase = andthen (gets se_oc) (\<lambda>oc.
     RegisterCloudServiceEndpoint a RegionComponentType ServiceNameRegionV2 ServiceTypeComputeV2
       (node_port_of (dps_Service (rs_DeploymentServicePortSpec (spec_RegionServer (oc_Spec oc))))) [] True True)"
| "phase_Setup a GlancePhase = andthen (gets se_oc) (\<lambda>oc.
     RegisterCloudServiceEndpoint a GlanceComponentType ServiceNameGlance ServiceTypeGlance
       (node_port_of (gs_Service (spec_Glance (oc_Spec oc)))) ''v1'' True True)"
| "phase_Setup a YunionAgentPhase = yunionagent_Setup a"
| "phase_Setup a DevtoolPhase = andthen (gets se_oc) (\<lambda>oc.
     RegisterCloudServiceEndpoint a DevtoolComponentType ServiceNameDevtool ServiceTypeDevtool
       (node_port_of (dps_Service (spec_Devtool (oc_Spec oc)))) [] True False)"
| "phase_Setup a MonitorPhase = andthen (gets se_oc) (\<lambda>oc.
     RegisterCloudServiceEndpoint a MonitorComponentType ServiceNameMonitor ServiceTypeMonitor
       (node_port_of (dps_Service (spec_Monitor (oc_Spec oc)))) [] True False)"
| "phase_Setup a CloudproxyPhase = andthen (gets se_oc) (\<lambda>oc.
     RegisterCloudServiceEndpoint a CloudproxyComponentType ServiceNameCloudproxy ServiceTypeCloudproxy
       (node_port_of (dps_Service (spec_Cloudproxy (oc_Spec oc)))) [] True False)"
| "phase_Setup a EChartsSSRPhase = echarts_Setup a"
| "phase_Setup a ApigatewayPhase = andthen (gets se_oc) (\<lambda>oc.
     RegisterCloudServiceEndpoint a APIGatewayComponentType ServiceNameAPIGateway ServiceTypeAPIGateway
       (node_port_of (ags_APIService (spec_APIGateway (oc_Spec oc)))) [] True False)"
| "phase_Setup a LLMPhase = andthen (gets se_oc) (\<lambda>oc.
     RegisterCloudServiceEndpoint a LLMComponentType ServiceNameLLM ServiceTypeLLM
       (node_port_of (dps_Service (spec_LLM (oc_Spec oc)))) [] True False)"
| "phase_Setup a YunionconfPhase = yunionconf_Setup a"

fun phase_SystemInit :: "options \<Rightarrow> settings_codec \<Rightarrow> api \<Rightarrow> phase \<Rightarrow> unit sm" where
  "phase_SystemInit op codec a KeystonePhase = keystone_SystemInit a"
| "phase_SystemInit op codec a KubeServerPhase = kubeserver_SystemInit a"
| "phase_SystemInit op codec a RegionPhase = region_SystemInit a"
| "phase_SystemInit op codec a DevtoolPhase = devtool_SystemInit a"
| "phase_SystemInit op codec a MonitorPhase = monitor_SystemInit a"
| "phase_SystemInit op codec a CloudproxyPhase = cloudproxy_SystemInit op a"
| "phase_SystemInit op codec a YunionconfPhase = yunionconf_SystemInit codec a"
| "phase_SystemInit op codec a p = ret ()"

fun service_sync_run :: "api \<Rightarrow> service_sync \<Rightarrow> unit sm" where
  "service_sync_run a (EnsureDisable name) = EnsureDisableService a name"
| "service_sync_run a (EnsureEnable name enableRO) = EnsureEnableService a name enableRO"

text \<open>
  What \<open>syncPhase\<close> does with the cloud's API for a component whose phase is due: set up, initialise, then bring the
  service catalogue in line, whose failure is logged only.
\<close>

definition run_phase :: "options \<Rightarrow> settings_codec \<Rightarrow> api \<Rightarrow> phase \<Rightarrow> service_sync option \<Rightarrow> unit sm" where
  "run_phase op codec a p sync =
     seq (phase_Setup a p)
    (seq (phase_SystemInit op codec a p)
         (case sync of None \<Rightarrow> ret () | Some ss \<Rightarrow> tolerated (RunWithSession a (service_sync_run a ss))))"

end
