(* ===== verification/Managers.thy ===== *)
theory Managers
  imports Service_Options
begin

text \<open>
  The managers of the services that run as one deployment behind one port
  (\<open>pkg/manager/component/*.go\<close>), each as the factory it hands to \<open>syncComponent\<close>, with the options the
  operator writes for the service (\<open>GetConfig\<close> in \<open>pkg/service-init/component\<close>, or \<open>getConfigMap\<close> where the
  manager makes them itself). A manager inherits what it does not define from \<open>base_factory\<close>.
\<close>

section \<open>What the managers share\<close>

definition AllVersions :: "string list" where
  "AllVersions = [ProductVersionFullStack, ProductVersionCMP, ProductVersionEdge, ProductVersionLightEdge, ProductVersionAI]"

definition in_versions :: "string list \<Rightarrow> OnecloudCluster \<Rightarrow> bool" where
  "in_versions versions oc = in_strings (spec_ProductVersion (oc_Spec oc)) versions"

definition sco_Port :: "ServiceCommonOptions \<Rightarrow> int" where
  "sco_Port o1 = sbc_Port (sco_ServiceBaseConfig o1)"

definition sdo_Port :: "ServiceDBCommonOptions \<Rightarrow> int" where
  "sdo_Port o1 = sco_Port (sdo_ServiceCommonOptions o1)"

definition sdo_CloudUser :: "ServiceDBCommonOptions \<Rightarrow> CloudUser" where
  "sdo_CloudUser o1 = sco_CloudUser (sdo_ServiceCommonOptions o1)"

text \<open>The pointers \<open>&oc.Spec.X.DeploymentSpec\<close> and \<open>&oc.Status.X\<close>, and the annotations behind the former.\<close>

definition port_ref ::
  "(OnecloudClusterSpec \<Rightarrow> DeploymentServicePortSpec)
     \<Rightarrow> ((DeploymentServicePortSpec \<Rightarrow> DeploymentServicePortSpec) \<Rightarrow> OnecloudClusterSpec \<Rightarrow> OnecloudClusterSpec) \<Rightarrow> DeploymentSpec ref_oc" where
  "port_ref rd wr = (\<lambda>oc. dps_DeploymentSpec (rd (oc_Spec oc)), \<lambda>f. oc_Spec_update (wr (dps_DeploymentSpec_update f)))"

definition stateful_ref ::
  "(OnecloudClusterSpec \<Rightarrow> 'a) \<Rightarrow> (('a \<Rightarrow> 'a) \<Rightarrow> OnecloudClusterSpec \<Rightarrow> OnecloudClusterSpec)
     \<Rightarrow> ('a \<Rightarrow> StatefulDeploymentSpec) \<Rightarrow> ((StatefulDeploymentSpec \<Rightarrow> StatefulDeploymentSpec) \<Rightarrow> 'a \<Rightarrow> 'a) \<Rightarrow> DeploymentSpec ref_oc" where
  "stateful_ref rd wr rd' wr' =
     (\<lambda>oc. sds_DeploymentSpec (rd' (rd (oc_Spec oc))), \<lambda>f. oc_Spec_update (wr (wr' (sds_DeploymentSpec_update f))))"

definition status_ptr ::
  "((DeploymentStatus \<Rightarrow> DeploymentStatus) \<Rightarrow> OnecloudClusterStatus \<Rightarrow> OnecloudClusterStatus)
     \<Rightarrow> ((DeploymentStatus \<Rightarrow> DeploymentStatus) \<Rightarrow> OnecloudCluster \<Rightarrow> OnecloudCluster) option" where
  "status_ptr wr = Some (\<lambda>f. oc_Status_update (wr f))"

definition share_annotations :: "DeploymentSpec ref_oc \<Rightarrow> string \<Rightarrow> (gomap \<Rightarrow> gomap) \<Rightarrow> OnecloudCluster \<Rightarrow> OnecloudCluster" where
  "share_annotations ref zone f = snd ref (ds_Annotations_update f)"

definition some_ret :: "'a km \<Rightarrow> 'a option km" where
  "some_ret p = andthen p (\<lambda>x. ret (Some x))"

text \<open>
  The synchronisation with the service catalogue: disabled services are switched off there, others on,
  with their read-only endpoint when there are read-only replicas.
\<close>

definition catalogue_sync :: "string \<Rightarrow> bool \<Rightarrow> bool \<Rightarrow> service_sync option" where
  "catalogue_sync name disabled enableRO = Some (if disabled then EnsureDisable name else EnsureEnable name enableRO)"

definition service_ports :: "string \<Rightarrow> OnecloudCluster \<Rightarrow> ServiceSpec \<Rightarrow> int \<Rightarrow> bool \<Rightarrow> CoreService list" where
  "service_ports cType oc svc target slaves =
     newSinglePortService cType oc (sps_InternalOnly (ss_ServicePortSpec svc)) (int32 (sps_NodePort (ss_ServicePortSpec svc))) (int32 target) slaves"

definition service_map ::
  "options \<Rightarrow> string \<Rightarrow> string \<Rightarrow> string \<Rightarrow> svc_options km \<Rightarrow> (ConfigMap option \<times> bool) km" where
  "service_map op cType zone serviceType getConfig =
     andthen getConfig (\<lambda>opt. andthen (newServiceConfigMap op cType zone serviceType opt) (\<lambda>cm. ret (Some cm, False)))"

text \<open>
  A config map written before the database was configured is rewritten: \<open>strings.Contains\<close> on its text.
\<close>

definition synced_map ::
  "options \<Rightarrow> kube_env \<Rightarrow> string \<Rightarrow> string \<Rightarrow> svc_options km \<Rightarrow> (ConfigMap option \<times> bool) km" where
  "synced_map op env cType serviceType getConfig =
     andthen getConfig (\<lambda>opt.
     andthen (shouldSyncConfigmap op env cType serviceType opt (Some (\<lambda>optStr. \<not> contains_str optStr ''sql_connection''))) (\<lambda>(cm, b).
     ret (Some cm, b)))"

definition ssl_files :: svc_options where
  "ssl_files = [(''SslCertfile'', OStr (path_Join [CertDir, ServiceCertName])), (''SslKeyfile'', OStr (path_Join [CertDir, ServiceKeyName]))]"

definition server_container :: "string \<Rightarrow> string \<Rightarrow> string \<Rightarrow> string \<Rightarrow> VolumeMount list \<Rightarrow> Container" where
  "server_container name img policy cmd volMounts =
     zero_Container\<lparr>ct_Name := name, ct_Image := img, ct_ImagePullPolicy := policy,
       ct_Command := [''/opt/yunion/bin/'' @ cmd, ''--config'', ''/etc/yunion/'' @ cmd @ ''.conf''], ct_VolumeMounts := volMounts\<rparr>"

definition config_helper :: "OnecloudCluster \<Rightarrow> string \<Rightarrow> VolumeHelper" where
  "config_helper oc cType = NewVolumeHelper oc (ComponentConfigMapName oc cType) cType"

definition server_deployment ::
  "options \<Rightarrow> kube_env \<Rightarrow> string \<Rightarrow> DeploymentSpec ref_oc \<Rightarrow> string \<Rightarrow> string \<Rightarrow> Deployment km" where
  "server_deployment op env cType ref name cmd =
     andthen (gets kw_oc) (\<lambda>oc.
     andthen (deref ref) (\<lambda>spec.
     newDefaultDeploymentNoInit op env cType [] (config_helper oc cType) ref
       (Some (\<lambda>volMounts. [server_container name (cs_Image (ds_ContainerSpec spec)) (cs_ImagePullPolicy (ds_ContainerSpec spec)) cmd volMounts]))))"

definition with_service_account :: "Deployment \<Rightarrow> Deployment" where
  "with_service_account =
     dep_Spec_update (dsp_Template_update (pt_Spec_update (ps_ServiceAccountName_update (\<lambda>_. ServiceAccountOnecloudOperator))))"

definition GetDefaultProxyAgentName :: string where
  "GetDefaultProxyAgentName = ''proxyagent0''"

definition SetAiProxyAPILogS3Options :: "OnecloudCluster \<Rightarrow> svc_options" where
  "SetAiProxyAPILogS3Options oc =
     (let ms = spec_MonitorStack (oc_Spec oc)
      in if mss_Disable ms then []
         else [(''APILogS3Endpoint'', OStr (''http://'' @ MonitorMinioName @ ''.'' @ MonitorStackNamespace @ ''.svc:9000'')),
               (''APILogS3AccessKey'', OStr (msm_AccessKey (mss_Minio ms))), (''APILogS3SecretKey'', OStr (msm_SecretKey (mss_Minio ms)))])"

text \<open>The container of cloudevent takes its pull policy from the specification of cloudnet.\<close>

definition cloudevent_deployment :: "options \<Rightarrow> kube_env \<Rightarrow> DeploymentSpec ref_oc \<Rightarrow> Deployment km" where
  "cloudevent_deployment op env ref =
     andthen (gets kw_oc) (\<lambda>oc.
     andthen (deref ref) (\<lambda>spec.
     newDefaultDeploymentNoInit op env CloudeventComponentType [] (config_helper oc CloudeventComponentType) ref
       (Some (\<lambda>volMounts. [server_container ''server'' (cs_Image (ds_ContainerSpec spec))
          (cs_ImagePullPolicy (ds_ContainerSpec (dps_DeploymentSpec (spec_Cloudnet (oc_Spec oc))))) ''cloudevent'' volMounts]))))"

text \<open>The service and the ingress of aiproxy.\<close>

definition with_traefik_scheme :: "CoreService \<Rightarrow> CoreService" where
  "with_traefik_scheme svc = svc\<lparr>svc_meta := om_Annotations_update (gomap_set ''traefik.ingress.kubernetes.io/service.serversscheme'' ''https'') (svc_meta svc)\<rparr>"

text \<open>The specification of an ingress with one path, a nested map, by its JSON text.\<close>

definition jstr :: "string \<Rightarrow> string" where
  "jstr s = [CHR 34] @ s @ [CHR 34]"

definition ingress_spec :: "string \<Rightarrow> string \<Rightarrow> string \<Rightarrow> int \<Rightarrow> raw" where
  "ingress_spec secretName pth svcName port =
     ''{'' @ jstr ''rules'' @ '':[{'' @ jstr ''http'' @ '':{'' @ jstr ''paths'' @ '':[{'' @ jstr ''backend'' @ '':{''
     @ jstr ''service'' @ '':{'' @ jstr ''name'' @ '':'' @ jstr svcName @ '','' @ jstr ''port'' @ '':{'' @ jstr ''number'' @ '':'' @ show_int port @ ''}},''
     @ jstr ''serviceName'' @ '':'' @ jstr svcName @ '','' @ jstr ''servicePort'' @ '':'' @ show_int port @ ''},''
     @ jstr ''path'' @ '':'' @ jstr pth @ '','' @ jstr ''pathType'' @ '':'' @ jstr ''Prefix'' @ ''}]}}],''
     @ jstr ''tls'' @ '':[{'' @ jstr ''secretName'' @ '':'' @ jstr secretName @ ''}]}''"

definition aiproxy_Ingress :: "OnecloudCluster \<Rightarrow> string \<Rightarrow> Unstructured option" where
  "aiproxy_Ingress oc zone =
     (if ds_Disable (dps_DeploymentSpec (spec_AiProxy (oc_Spec oc))) then None
      else let svcName = NewClusterComponentName (om_Name (oc_ObjectMeta oc)) AiProxyComponentType;
               meta = getObjectMeta oc svcName (getComponentLabel oc AiProxyComponentType False)
           in Some \<lparr>un_meta = meta\<lparr>om_Annotations := Some [(''nginx.ingress.kubernetes.io/backend-protocol'', ''HTTPS''),
                      (''nginx.ingress.kubernetes.io/proxy-ssl-verify'', ''off''), (''nginx.ingress.kubernetes.io/proxy-read-timeout'', ''600''),
                      (''nginx.ingress.kubernetes.io/proxy-buffering'', ''off'')]\<rparr>,
                    un_Spec = Inr (Some (ingress_spec (ClustercertSecretName oc) ''/ai/'' svcName AiProxyPort))\<rparr>)"

section \<open>The managers\<close>

text \<open>
  \<open>UpdateCheckIntervalHours\<close> of autoupdate is the float 1.0.
\<close>

definition scheduler_GetConfig :: "options \<Rightarrow> OnecloudClusterConfig \<Rightarrow> svc_options km" where
  "scheduler_GetConfig op cfg =
     andthen (gets kw_oc) (\<lambda>oc.
     seq (SetOptionsDefault op ServiceTypeScheduler)
    (let config = rc_ServiceDBCommonOptions (cfg_RegionServer cfg) in ret
       (db_options oc (dps_DbEngine (spec_Scheduler (oc_Spec oc))) (sdo_DB config)
        @ SetOptionsServiceTLS False
        @ SetServiceCommonOptions oc (sdo_ServiceCommonOptions config) (cfg_CommonConfig cfg)
        @ [(''SchedulerPort'', OInt SchedulerPort)])))"

definition schedulerManager :: "options \<Rightarrow> kube_env \<Rightarrow> factory" where
  "schedulerManager op env =
     (let versions = AllVersions; ref = port_ref spec_Scheduler spec_Scheduler_update;
          disabled = (\<lambda>oc. ds_Disable (dps_DeploymentSpec (spec_Scheduler (oc_Spec oc))) \<or> \<not> in_versions versions oc)
      in (base_factory SchedulerComponentType versions)
        \<lparr>fc_IsDisabled := disabled,
         fc_PhaseControl := \<lambda>oc zone. Some (RegisterEndpoint SchedulerComponentType ServiceNameScheduler ServiceTypeScheduler (sps_NodePort (ss_ServicePortSpec (dps_Service (spec_Scheduler (oc_Spec oc))))) [] True),
         fc_ConfigMap := \<lambda>cfg zone. service_map op SchedulerComponentType [] ServiceTypeScheduler (map_err (Wrapped ''scheduler: SetOptionsDefault'') (scheduler_GetConfig op cfg)),
         fc_Service := \<lambda>oc cfg zone. service_ports SchedulerComponentType oc (dps_Service (spec_Scheduler (oc_Spec oc))) (SchedulerPort) (0 < ds_SlaveReplicas (dps_DeploymentSpec (spec_Scheduler (oc_Spec oc)))),
         fc_Deployment := \<lambda>cfg zone. some_ret (newCloudServiceSinglePortDeployment op env SchedulerComponentType [] ref SchedulerPort False False),
         fc_DeploymentStatus := \<lambda>zone. status_ptr st_Scheduler_update,
         fc_McclientSync := \<lambda>oc. catalogue_sync ServiceNameScheduler (disabled oc) (False \<and> 0 < ds_SlaveReplicas (dps_DeploymentSpec (spec_Scheduler (oc_Spec oc)))),
         fc_share := share_annotations ref\<rparr>)"

definition scheduledtask_GetConfig :: "options \<Rightarrow> OnecloudClusterConfig \<Rightarrow> svc_options km" where
  "scheduledtask_GetConfig op cfg =
     andthen (gets kw_oc) (\<lambda>oc.
     seq (SetOptionsDefault op ServiceTypeScheduledtask)
    (let config = rc_ServiceDBCommonOptions (cfg_RegionServer cfg) in ret
       (db_options oc (dps_DbEngine (spec_Scheduledtask (oc_Spec oc))) (sdo_DB config)
        @ SetClickhouseOptions (spec_Clickhouse (oc_Spec oc)) (sdo_ClickhouseConf config)
        @ SetOptionsServiceTLS False
        @ SetServiceCommonOptions oc (sdo_ServiceCommonOptions config) (cfg_CommonConfig cfg)
        @ [(''AutoSyncTable'', OBool True)]
        @ ssl_files
        @ [(''Port'', OInt ScheduledtaskPort)])))"

definition scheduledtaskManager :: "options \<Rightarrow> kube_env \<Rightarrow> factory" where
  "scheduledtaskManager op env =
     (let versions = [ProductVersionFullStack, ProductVersionCMP, ProductVersionEdge, ProductVersionAI]; ref = port_ref spec_Scheduledtask spec_Scheduledtask_update;
          disabled = (\<lambda>oc. ds_Disable (dps_DeploymentSpec (spec_Scheduledtask (oc_Spec oc))) \<or> \<not> in_versions versions oc)
      in (base_factory ScheduledtaskComponentType versions)
        \<lparr>fc_IsDisabled := disabled,
         fc_PhaseControl := \<lambda>oc zone. Some (RegisterEndpoint ScheduledtaskComponentType ServiceNameScheduledtask ServiceTypeScheduledtask (sps_NodePort (ss_ServicePortSpec (dps_Service (spec_Scheduledtask (oc_Spec oc))))) [] True),
         fc_ConfigMap := \<lambda>cfg zone. service_map op ScheduledtaskComponentType [] ServiceTypeScheduledtask (scheduledtask_GetConfig op cfg),
         fc_Service := \<lambda>oc cfg zone. service_ports ScheduledtaskComponentType oc (dps_Service (spec_Scheduledtask (oc_Spec oc))) (ScheduledtaskPort) (0 < ds_SlaveReplicas (dps_DeploymentSpec (spec_Scheduledtask (oc_Spec oc)))),
         fc_Deployment := \<lambda>cfg zone. some_ret (newCloudServiceSinglePortDeployment op env ScheduledtaskComponentType [] ref ScheduledtaskPort True False),
         fc_DeploymentStatus := \<lambda>zone. status_ptr st_Scheduledtask_update,
         fc_McclientSync := \<lambda>oc. catalogue_sync ServiceNameScheduledtask (disabled oc) (False \<and> 0 < ds_SlaveReplicas (dps_DeploymentSpec (spec_Scheduledtask (oc_Spec oc)))),
         fc_share := share_annotations ref\<rparr>)"

definition s3gateway_GetConfig :: "options \<Rightarrow> OnecloudClusterConfig \<Rightarrow> svc_options km" where
  "s3gateway_GetConfig op cfg =
     andthen (gets kw_oc) (\<lambda>oc.
     seq (SetOptionsDefault op ServiceTypeS3gateway)
    (ret
       (SetOptionsServiceTLS False
        @ SetServiceCommonOptions oc (cfg_S3gateway cfg) (cfg_CommonConfig cfg))))"

definition s3gatewayManager :: "options \<Rightarrow> kube_env \<Rightarrow> factory" where
  "s3gatewayManager op env =
     (let versions = [ProductVersionFullStack, ProductVersionCMP]; ref = port_ref spec_S3gateway spec_S3gateway_update;
          disabled = (\<lambda>oc. ds_Disable (dps_DeploymentSpec (spec_S3gateway (oc_Spec oc))) \<or> \<not> spec_EnableS3Gateway (oc_Spec oc) \<or> \<not> in_versions versions oc)
      in (base_factory S3gatewayComponentType versions)
        \<lparr>fc_IsDisabled := disabled,
         fc_CloudUser := \<lambda>cfg. Some (sco_CloudUser (cfg_S3gateway cfg)),
         fc_PhaseControl := \<lambda>oc zone. Some (RegisterEndpoint S3gatewayComponentType ServiceNameS3gateway ServiceTypeS3gateway (sps_NodePort (ss_ServicePortSpec (dps_Service (spec_S3gateway (oc_Spec oc))))) [] True),
         fc_ConfigMap := \<lambda>cfg zone. service_map op S3gatewayComponentType [] ServiceTypeS3gateway (s3gateway_GetConfig op cfg),
         fc_Service := \<lambda>oc cfg zone. service_ports S3gatewayComponentType oc (dps_Service (spec_S3gateway (oc_Spec oc))) (sco_Port (cfg_S3gateway cfg)) (0 < ds_SlaveReplicas (dps_DeploymentSpec (spec_S3gateway (oc_Spec oc)))),
         fc_Deployment := \<lambda>cfg zone. some_ret (newCloudServiceSinglePortDeployment op env S3gatewayComponentType [] ref (int32 (sco_Port (cfg_S3gateway cfg))) False False),
         fc_DeploymentStatus := \<lambda>zone. status_ptr st_S3gateway_update,
         fc_McclientSync := \<lambda>oc. catalogue_sync ServiceNameS3gateway (disabled oc) (False \<and> 0 < ds_SlaveReplicas (dps_DeploymentSpec (spec_S3gateway (oc_Spec oc)))),
         fc_share := share_annotations ref\<rparr>)"

definition mcpServer_GetConfig :: "options \<Rightarrow> OnecloudClusterConfig \<Rightarrow> svc_options km" where
  "mcpServer_GetConfig op cfg =
     andthen (gets kw_oc) (\<lambda>oc.
     seq (SetOptionsDefault op ServiceTypeMcpServer)
    (let config = cfg_McpServer cfg in ret
       (SetServiceCommonOptions oc (sdo_ServiceCommonOptions config) (cfg_CommonConfig cfg)
        @ [(''Port'', OInt (sdo_Port config))])))"

definition mcpServerManager :: "options \<Rightarrow> kube_env \<Rightarrow> factory" where
  "mcpServerManager op env =
     (let versions = [ProductVersionFullStack, ProductVersionCMP, ProductVersionEdge, ProductVersionAI]; ref = port_ref spec_McpServer spec_McpServer_update;
          disabled = (\<lambda>oc. ds_Disable (dps_DeploymentSpec (spec_McpServer (oc_Spec oc))))
      in (base_factory McpServerComponentType versions)
        \<lparr>fc_IsDisabled := disabled,
         fc_CloudUser := \<lambda>cfg. Some (sdo_CloudUser (cfg_McpServer cfg)),
         fc_PhaseControl := \<lambda>oc zone. Some (RegisterEndpoint McpServerComponentType ServiceNameMcpServer ServiceTypeMcpServer (sps_NodePort (ss_ServicePortSpec (dps_Service (spec_McpServer (oc_Spec oc))))) [] False),
         fc_ConfigMap := \<lambda>cfg zone. service_map op McpServerComponentType zone ServiceTypeMcpServer (mcpServer_GetConfig op cfg),
         fc_Service := \<lambda>oc cfg zone. service_ports McpServerComponentType oc (dps_Service (spec_McpServer (oc_Spec oc))) (McpServerPort) (0 < ds_SlaveReplicas (dps_DeploymentSpec (spec_McpServer (oc_Spec oc)))),
         fc_Deployment := \<lambda>cfg zone. some_ret (newCloudServiceSinglePortDeployment op env McpServerComponentType [] ref McpServerPort False False),
         fc_DeploymentStatus := \<lambda>zone. status_ptr st_McpServer_update,
         fc_McclientSync := \<lambda>oc. catalogue_sync ServiceNameMcpServer (disabled oc) (False \<and> 0 < ds_SlaveReplicas (dps_DeploymentSpec (spec_McpServer (oc_Spec oc)))),
         fc_share := share_annotations ref\<rparr>)"

definition yunionconf_GetConfig :: "options \<Rightarrow> OnecloudClusterConfig \<Rightarrow> svc_options km" where
  "yunionconf_GetConfig op cfg =
     andthen (gets kw_oc) (\<lambda>oc.
     seq (SetOptionsDefault op ServiceTypeYunionConf)
    (let config = cfg_Yunionconf cfg in ret
       (db_options oc (dps_DbEngine (spec_Yunionconf (oc_Spec oc))) (sdo_DB config)
        @ SetOptionsServiceTLS False
        @ SetServiceCommonOptions oc (sdo_ServiceCommonOptions config) (cfg_CommonConfig cfg)
        @ [(''AutoSyncTable'', OBool True)]
        @ [(''Port'', OInt (sdo_Port config))])))"

definition yunoinconfManager :: "options \<Rightarrow> kube_env \<Rightarrow> factory" where
  "yunoinconfManager op env =
     (let versions = AllVersions; ref = port_ref spec_Yunionconf spec_Yunionconf_update;
          disabled = (\<lambda>oc. ds_Disable (dps_DeploymentSpec (spec_Yunionconf (oc_Spec oc))) \<or> \<not> in_versions versions oc)
      in (base_factory YunionconfComponentType versions)
        \<lparr>fc_IsDisabled := disabled,
         fc_DBConfig := \<lambda>cfg. Some (sdo_DB (cfg_Yunionconf cfg)),
         fc_DBEngine := \<lambda>oc. GetDbEngine (oc_Spec oc) (dps_DbEngine (spec_Yunionconf (oc_Spec oc))),
         fc_CloudUser := \<lambda>cfg. Some (sdo_CloudUser (cfg_Yunionconf cfg)),
         fc_PhaseControl := \<lambda>oc zone. Some YunionconfPhase,
         fc_ConfigMap := \<lambda>cfg zone. service_map op YunionconfComponentType [] ServiceTypeYunionConf (yunionconf_GetConfig op cfg),
         fc_Service := \<lambda>oc cfg zone. service_ports YunionconfComponentType oc (dps_Service (spec_Yunionconf (oc_Spec oc))) ((sdo_Port (cfg_Yunionconf cfg))) (0 < ds_SlaveReplicas (dps_DeploymentSpec (spec_Yunionconf (oc_Spec oc)))),
         fc_Deployment := \<lambda>cfg zone. some_ret (newCloudServiceSinglePortDeployment op env YunionconfComponentType [] ref (int32 (sdo_Port (cfg_Yunionconf cfg))) False False),
         fc_DeploymentStatus := \<lambda>zone. status_ptr st_Yunionconf_update,
         fc_McclientSync := \<lambda>oc. catalogue_sync ServiceNameYunionConf (disabled oc) (False \<and> 0 < ds_SlaveReplicas (dps_DeploymentSpec (spec_Yunionconf (oc_Spec oc)))),
         fc_share := share_annotations ref\<rparr>)"

definition logger_GetConfig :: "options \<Rightarrow> OnecloudClusterConfig \<Rightarrow> svc_options km" where
  "logger_GetConfig op cfg =
     andthen (gets kw_oc) (\<lambda>oc.
     seq (SetOptionsDefault op ServiceTypeLogger)
    (let config = cfg_Logger cfg in ret
       (db_options oc (dps_DbEngine (spec_Logger (oc_Spec oc))) (sdo_DB config)
        @ SetClickhouseOptions (spec_Clickhouse (oc_Spec oc)) (sdo_ClickhouseConf config)
        @ SetOptionsServiceTLS False
        @ SetServiceCommonOptions oc (sdo_ServiceCommonOptions config) (cfg_CommonConfig cfg)
        @ [(''Port'', OInt (sdo_Port config))])))"

definition loggerManager :: "options \<Rightarrow> kube_env \<Rightarrow> factory" where
  "loggerManager op env =
     (let versions = AllVersions; ref = port_ref spec_Logger spec_Logger_update;
          disabled = (\<lambda>oc. ds_Disable (dps_DeploymentSpec (spec_Logger (oc_Spec oc))) \<or> \<not> in_versions versions oc)
      in (base_factory LoggerComponentType versions)
        \<lparr>fc_IsDisabled := disabled,
         fc_DBConfig := \<lambda>cfg. Some (sdo_DB (cfg_Logger cfg)),
         fc_DBEngine := \<lambda>oc. GetDbEngine (oc_Spec oc) (dps_DbEngine (spec_Logger (oc_Spec oc))),
         fc_ClickhouseConfig := \<lambda>cfg. Some (sdo_ClickhouseConf (cfg_Logger cfg)),
         fc_CloudUser := \<lambda>cfg. Some (sdo_CloudUser (cfg_Logger cfg)),
         fc_PhaseControl := \<lambda>oc zone. Some (RegisterEndpoint LoggerComponentType ServiceNameLogger ServiceTypeLogger (sps_NodePort (ss_ServicePortSpec (dps_Service (spec_Logger (oc_Spec oc))))) [] True),
         fc_ConfigMap := \<lambda>cfg zone. service_map op LoggerComponentType zone ServiceTypeLogger (logger_GetConfig op cfg),
         fc_Service := \<lambda>oc cfg zone. service_ports LoggerComponentType oc (dps_Service (spec_Logger (oc_Spec oc))) ((sdo_Port (cfg_Logger cfg))) (0 < ds_SlaveReplicas (dps_DeploymentSpec (spec_Logger (oc_Spec oc)))),
         fc_Deployment := \<lambda>cfg zone. some_ret (newCloudServiceSinglePortDeployment op env LoggerComponentType [] ref LoggerPort True False),
         fc_DeploymentStatus := \<lambda>zone. status_ptr st_Logger_update,
         fc_McclientSync := \<lambda>oc. catalogue_sync ServiceNameLogger (disabled oc) (False \<and> 0 < ds_SlaveReplicas (dps_DeploymentSpec (spec_Logger (oc_Spec oc)))),
         fc_share := share_annotations ref\<rparr>)"

definition apimap_GetConfig :: "options \<Rightarrow> OnecloudClusterConfig \<Rightarrow> svc_options km" where
  "apimap_GetConfig op cfg =
     andthen (gets kw_oc) (\<lambda>oc.
     seq (SetOptionsDefault op ServiceTypeApiMap)
    (ret
       (SetOptionsServiceTLS False
        @ SetServiceCommonOptions oc (amc_ServiceCommonOptions (cfg_ApiMap cfg)) (cfg_CommonConfig cfg)
        @ ssl_files
        @ [(''Port'', OInt ApiMapPort)])))"

definition apiMapManager :: "options \<Rightarrow> kube_env \<Rightarrow> factory" where
  "apiMapManager op env =
     (let versions = [ProductVersionFullStack, ProductVersionEdge, ProductVersionLightEdge, ProductVersionAI]; ref = port_ref spec_ApiMap spec_ApiMap_update;
          disabled = (\<lambda>oc. ds_Disable (dps_DeploymentSpec (spec_ApiMap (oc_Spec oc))) \<or> \<not> in_versions versions oc)
      in (base_factory ApiMapComponentType versions)
        \<lparr>fc_IsDisabled := disabled,
         fc_CloudUser := \<lambda>cfg. Some (sco_CloudUser (amc_ServiceCommonOptions (cfg_ApiMap cfg))),
         fc_PhaseControl := \<lambda>oc zone. Some (RegisterEndpoint ApiMapComponentType ServiceNameApiMap ServiceTypeApiMap (sps_NodePort (ss_ServicePortSpec (dps_Service (spec_ApiMap (oc_Spec oc))))) [] True),
         fc_ConfigMap := \<lambda>cfg zone. service_map op ApiMapComponentType [] ServiceTypeApiMap (apimap_GetConfig op cfg),
         fc_Service := \<lambda>oc cfg zone. service_ports ApiMapComponentType oc (dps_Service (spec_ApiMap (oc_Spec oc))) (ApiMapPort) (0 < ds_SlaveReplicas (dps_DeploymentSpec (spec_ApiMap (oc_Spec oc)))),
         fc_Deployment := \<lambda>cfg zone. some_ret (newCloudServiceSinglePortDeployment op env ApiMapComponentType [] ref ApiMapPort False False),
         fc_DeploymentStatus := \<lambda>zone. status_ptr st_APIMap_update,
         fc_McclientSync := \<lambda>oc. catalogue_sync ServiceNameApiMap (disabled oc) (False \<and> 0 < ds_SlaveReplicas (dps_DeploymentSpec (spec_ApiMap (oc_Spec oc)))),
         fc_share := share_annotations ref\<rparr>)"

definition notify_GetConfig :: "options \<Rightarrow> OnecloudClusterConfig \<Rightarrow> svc_options km" where
  "notify_GetConfig op cfg =
     andthen (gets kw_oc) (\<lambda>oc.
     seq (map_err (Wrapped ''set notify option'') (SetOptionsDefault op ServiceTypeNotify))
    (let config = cfg_Notify cfg in ret
       (db_options oc (ns_DbEngine (spec_Notify (oc_Spec oc))) (sdo_DB config)
        @ SetClickhouseOptions (spec_Clickhouse (oc_Spec oc)) (sdo_ClickhouseConf config)
        @ SetOptionsServiceTLS False
        @ SetServiceCommonOptions oc (sdo_ServiceCommonOptions config) (cfg_CommonConfig cfg)
        @ [(''Port'', OInt (sdo_Port config))])))"

definition notifyManager :: "options \<Rightarrow> kube_env \<Rightarrow> factory" where
  "notifyManager op env =
     (let versions = AllVersions; ref = stateful_ref spec_Notify spec_Notify_update ns_StatefulDeploymentSpec ns_StatefulDeploymentSpec_update;
          disabled = (\<lambda>oc. ds_Disable (sds_DeploymentSpec (ns_StatefulDeploymentSpec (spec_Notify (oc_Spec oc)))) \<or> \<not> in_versions versions oc)
      in (base_factory NotifyComponentType versions)
        \<lparr>fc_IsDisabled := disabled,
         fc_DBConfig := \<lambda>cfg. Some (sdo_DB (cfg_Notify cfg)),
         fc_DBEngine := \<lambda>oc. GetDbEngine (oc_Spec oc) (ns_DbEngine (spec_Notify (oc_Spec oc))),
         fc_ClickhouseConfig := \<lambda>cfg. Some (sdo_ClickhouseConf (cfg_Notify cfg)),
         fc_CloudUser := \<lambda>cfg. Some (sdo_CloudUser (cfg_Notify cfg)),
         fc_PhaseControl := \<lambda>oc zone. Some (RegisterEndpoint NotifyComponentType ServiceNameNotify ServiceTypeNotify (sps_NodePort (ss_ServicePortSpec (ns_Service (spec_Notify (oc_Spec oc))))) [] True),
         fc_ConfigMap := \<lambda>cfg zone. service_map op NotifyComponentType [] ServiceTypeNotify (map_err (Wrapped ''set notify option'') (notify_GetConfig op cfg)),
         fc_Service := \<lambda>oc cfg zone. service_ports NotifyComponentType oc (ns_Service (spec_Notify (oc_Spec oc))) ((sdo_Port (cfg_Notify cfg))) (0 < ds_SlaveReplicas (sds_DeploymentSpec (ns_StatefulDeploymentSpec (spec_Notify (oc_Spec oc))))),
         fc_Deployment := \<lambda>cfg zone. some_ret (newCloudServiceSinglePortDeployment op env NotifyComponentType [] ref (int32 (sdo_Port (cfg_Notify cfg))) True True),
         fc_DeploymentStatus := \<lambda>zone. status_ptr st_Notify_update,
         fc_McclientSync := \<lambda>oc. catalogue_sync ServiceNameNotify (disabled oc) (False \<and> 0 < ds_SlaveReplicas (sds_DeploymentSpec (ns_StatefulDeploymentSpec (spec_Notify (oc_Spec oc))))),
         fc_share := share_annotations ref\<rparr>)"

definition cloudid_GetConfig :: "options \<Rightarrow> OnecloudClusterConfig \<Rightarrow> svc_options km" where
  "cloudid_GetConfig op cfg =
     andthen (gets kw_oc) (\<lambda>oc.
     seq (SetOptionsDefault op ServiceTypeCloudId)
    (let config = cfg_CloudId cfg in ret
       (db_options oc (dps_DbEngine (spec_CloudId (oc_Spec oc))) (sdo_DB config)
        @ SetOptionsServiceTLS False
        @ SetServiceCommonOptions oc (sdo_ServiceCommonOptions config) (cfg_CommonConfig cfg)
        @ [(''AutoSyncTable'', OBool True)]
        @ ssl_files
        @ [(''Port'', OInt (sdo_Port config))])))"

definition cloudidManager :: "options \<Rightarrow> kube_env \<Rightarrow> factory" where
  "cloudidManager op env =
     (let versions = [ProductVersionFullStack, ProductVersionCMP]; ref = port_ref spec_CloudId spec_CloudId_update;
          disabled = (\<lambda>oc. ds_Disable (dps_DeploymentSpec (spec_CloudId (oc_Spec oc))) \<or> \<not> in_versions versions oc)
      in (base_factory CloudIdComponentType versions)
        \<lparr>fc_IsDisabled := disabled,
         fc_DBConfig := \<lambda>cfg. Some (sdo_DB (cfg_CloudId cfg)),
         fc_DBEngine := \<lambda>oc. GetDbEngine (oc_Spec oc) (dps_DbEngine (spec_CloudId (oc_Spec oc))),
         fc_CloudUser := \<lambda>cfg. Some (sdo_CloudUser (cfg_CloudId cfg)),
         fc_PhaseControl := \<lambda>oc zone. Some (RegisterEndpoint CloudIdComponentType ServiceNameCloudId ServiceNameCloudId (sps_NodePort (ss_ServicePortSpec (dps_Service (spec_CloudId (oc_Spec oc))))) [] True),
         fc_ConfigMap := \<lambda>cfg zone. service_map op CloudIdComponentType [] ServiceTypeCloudId (cloudid_GetConfig op cfg),
         fc_Service := \<lambda>oc cfg zone. service_ports CloudIdComponentType oc (dps_Service (spec_CloudId (oc_Spec oc))) ((sdo_Port (cfg_CloudId cfg))) (0 < ds_SlaveReplicas (dps_DeploymentSpec (spec_CloudId (oc_Spec oc)))),
         fc_Deployment := \<lambda>cfg zone. some_ret (server_deployment op env CloudIdComponentType ref ''server'' ''cloudid''),
         fc_DeploymentStatus := \<lambda>zone. status_ptr st_CloudId_update,
         fc_McclientSync := \<lambda>oc. catalogue_sync ServiceNameCloudId (disabled oc) (False \<and> 0 < ds_SlaveReplicas (dps_DeploymentSpec (spec_CloudId (oc_Spec oc)))),
         fc_share := share_annotations ref\<rparr>)"

definition kubeserver_GetConfig :: "options \<Rightarrow> OnecloudClusterConfig \<Rightarrow> svc_options km" where
  "kubeserver_GetConfig op cfg =
     andthen (gets kw_oc) (\<lambda>oc.
     seq (SetOptionsDefault op ServiceTypeKubeServer)
    (let config = cfg_KubeServer cfg in ret
       (db_options oc (dps_DbEngine (spec_KubeServer (oc_Spec oc))) (sdo_DB config)
        @ SetClickhouseOptions (spec_Clickhouse (oc_Spec oc)) (sdo_ClickhouseConf config)
        @ SetOptionsServiceTLS False
        @ SetServiceCommonOptions oc (sdo_ServiceCommonOptions config) (cfg_CommonConfig cfg)
        @ [(''AutoSyncTable'', OBool True)]
        @ [(''TlsCertFile'', OStr (path_Join [CertDir, ServiceCertName])), (''TlsPrivateKeyFile'', OStr (path_Join [CertDir, ServiceKeyName])), (''HttpsPort'', OInt (sdo_Port config))])))"

definition kubeManager :: "options \<Rightarrow> kube_env \<Rightarrow> factory" where
  "kubeManager op env =
     (let versions = AllVersions; ref = port_ref spec_KubeServer spec_KubeServer_update;
          disabled = (\<lambda>oc. ds_Disable (dps_DeploymentSpec (spec_KubeServer (oc_Spec oc))) \<or> \<not> in_versions versions oc)
      in (base_factory KubeServerComponentType versions)
        \<lparr>fc_IsDisabled := disabled,
         fc_DBConfig := \<lambda>cfg. Some (sdo_DB (cfg_KubeServer cfg)),
         fc_DBEngine := \<lambda>oc. GetDbEngine (oc_Spec oc) (dps_DbEngine (spec_KubeServer (oc_Spec oc))),
         fc_ClickhouseConfig := \<lambda>cfg. Some (sdo_ClickhouseConf (cfg_KubeServer cfg)),
         fc_CloudUser := \<lambda>cfg. Some (sdo_CloudUser (cfg_KubeServer cfg)),
         fc_PhaseControl := \<lambda>oc zone. Some KubeServerPhase,
         fc_ConfigMap := \<lambda>cfg zone. service_map op KubeServerComponentType [] ServiceTypeKubeServer (kubeserver_GetConfig op cfg),
         fc_Service := \<lambda>oc cfg zone. service_ports KubeServerComponentType oc (dps_Service (spec_KubeServer (oc_Spec oc))) ((sdo_Port (cfg_KubeServer cfg))) (0 < ds_SlaveReplicas (dps_DeploymentSpec (spec_KubeServer (oc_Spec oc)))),
         fc_Deployment := \<lambda>cfg zone. some_ret (andthen (newCloudServiceSinglePortDeployment op env KubeServerComponentType [] ref (int32 (sdo_Port (cfg_KubeServer cfg))) True True) (\<lambda>deploy. ret (with_service_account deploy))),
         fc_DeploymentStatus := \<lambda>zone. status_ptr st_KubeServer_update,
         fc_McclientSync := \<lambda>oc. catalogue_sync ServiceNameKubeServer (disabled oc) (False \<and> 0 < ds_SlaveReplicas (dps_DeploymentSpec (spec_KubeServer (oc_Spec oc)))),
         fc_share := share_annotations ref\<rparr>)"

definition ansibleserver_GetConfig :: "options \<Rightarrow> OnecloudClusterConfig \<Rightarrow> svc_options km" where
  "ansibleserver_GetConfig op cfg =
     andthen (gets kw_oc) (\<lambda>oc.
     seq (SetOptionsDefault op ServiceTypeAnsibleServer)
    (let config = cfg_AnsibleServer cfg in ret
       (db_options oc (dps_DbEngine (spec_AnsibleServer (oc_Spec oc))) (sdo_DB config)
        @ SetOptionsServiceTLS False
        @ SetServiceCommonOptions oc (sdo_ServiceCommonOptions config) (cfg_CommonConfig cfg)
        @ [(''AutoSyncTable'', OBool True)]
        @ ssl_files)))"

definition ansibleManager :: "options \<Rightarrow> kube_env \<Rightarrow> factory" where
  "ansibleManager op env =
     (let versions = [ProductVersionFullStack, ProductVersionCMP, ProductVersionEdge, ProductVersionAI]; ref = port_ref spec_AnsibleServer spec_AnsibleServer_update;
          disabled = (\<lambda>oc. ds_Disable (dps_DeploymentSpec (spec_AnsibleServer (oc_Spec oc))) \<or> \<not> in_versions versions oc)
      in (base_factory AnsibleServerComponentType versions)
        \<lparr>fc_IsDisabled := disabled,
         fc_DBConfig := \<lambda>cfg. Some (sdo_DB (cfg_AnsibleServer cfg)),
         fc_DBEngine := \<lambda>oc. GetDbEngine (oc_Spec oc) (dps_DbEngine (spec_AnsibleServer (oc_Spec oc))),
         fc_CloudUser := \<lambda>cfg. Some (sdo_CloudUser (cfg_AnsibleServer cfg)),
         fc_PhaseControl := \<lambda>oc zone. Some (RegisterEndpoint AnsibleServerComponentType ServiceNameAnsibleServer ServiceTypeAnsibleServer (sps_NodePort (ss_ServicePortSpec (dps_Service (spec_AnsibleServer (oc_Spec oc))))) [] True),
         fc_ConfigMap := \<lambda>cfg zone. service_map op AnsibleServerComponentType [] ServiceTypeAnsibleServer (ansibleserver_GetConfig op cfg),
         fc_Service := \<lambda>oc cfg zone. service_ports AnsibleServerComponentType oc (dps_Service (spec_AnsibleServer (oc_Spec oc))) ((sdo_Port (cfg_AnsibleServer cfg))) (0 < ds_SlaveReplicas (dps_DeploymentSpec (spec_AnsibleServer (oc_Spec oc)))),
         fc_Deployment := \<lambda>cfg zone. some_ret (server_deployment op env AnsibleServerComponentType ref ''server'' ''ansibleserver''),
         fc_DeploymentStatus := \<lambda>zone. status_ptr st_AnsibleServer_update,
         fc_supportsReadOnlyService := True,
         fc_ReadonlyDeployment := \<lambda>oc cfg zone deploy. Some (genReadonlyDeployment AnsibleServerComponentType oc deploy (dps_DeploymentSpec (spec_AnsibleServer (oc_Spec oc)))),
         fc_McclientSync := \<lambda>oc. catalogue_sync ServiceNameAnsibleServer (disabled oc) (True \<and> 0 < ds_SlaveReplicas (dps_DeploymentSpec (spec_AnsibleServer (oc_Spec oc)))),
         fc_share := share_annotations ref\<rparr>)"

definition monitor_GetConfig :: "options \<Rightarrow> OnecloudClusterConfig \<Rightarrow> svc_options km" where
  "monitor_GetConfig op cfg =
     andthen (gets kw_oc) (\<lambda>oc.
     seq (SetOptionsDefault op ServiceTypeMonitor)
    (let config = cfg_Monitor cfg in ret
       (db_options oc (dps_DbEngine (spec_Monitor (oc_Spec oc))) (sdo_DB config)
        @ SetClickhouseOptions (spec_Clickhouse (oc_Spec oc)) (sdo_ClickhouseConf config)
        @ SetOptionsServiceTLS False
        @ SetServiceCommonOptions oc (sdo_ServiceCommonOptions config) (cfg_CommonConfig cfg)
        @ [(''AutoSyncTable'', OBool True)]
        @ ssl_files
        @ [(''Port'', OInt (sdo_Port config))])))"

definition monitorManager :: "options \<Rightarrow> kube_env \<Rightarrow> factory" where
  "monitorManager op env =
     (let versions = AllVersions; ref = port_ref spec_Monitor spec_Monitor_update;
          disabled = (\<lambda>oc. ds_Disable (dps_DeploymentSpec (spec_Monitor (oc_Spec oc))) \<or> \<not> in_versions versions oc)
      in (base_factory MonitorComponentType versions)
        \<lparr>fc_IsDisabled := disabled,
         fc_DBConfig := \<lambda>cfg. Some (sdo_DB (cfg_Monitor cfg)),
         fc_DBEngine := \<lambda>oc. GetDbEngine (oc_Spec oc) (dps_DbEngine (spec_Monitor (oc_Spec oc))),
         fc_ClickhouseConfig := \<lambda>cfg. Some (sdo_ClickhouseConf (cfg_Monitor cfg)),
         fc_CloudUser := \<lambda>cfg. Some (sdo_CloudUser (cfg_Monitor cfg)),
         fc_PhaseControl := \<lambda>oc zone. Some MonitorPhase,
         fc_ConfigMap := \<lambda>cfg zone. service_map op MonitorComponentType [] ServiceTypeMonitor (monitor_GetConfig op cfg),
         fc_Service := \<lambda>oc cfg zone. service_ports MonitorComponentType oc (dps_Service (spec_Monitor (oc_Spec oc))) ((sdo_Port (cfg_Monitor cfg))) (0 < ds_SlaveReplicas (dps_DeploymentSpec (spec_Monitor (oc_Spec oc)))),
         fc_Deployment := \<lambda>cfg zone. some_ret (server_deployment op env MonitorComponentType ref ''monitor'' ''monitor''),
         fc_DeploymentStatus := \<lambda>zone. status_ptr st_Monitor_update,
         fc_McclientSync := \<lambda>oc. catalogue_sync ServiceNameMonitor (disabled oc) (False \<and> 0 < ds_SlaveReplicas (dps_DeploymentSpec (spec_Monitor (oc_Spec oc)))),
         fc_share := share_annotations ref\<rparr>)"

definition devtool_GetConfig :: "options \<Rightarrow> OnecloudClusterConfig \<Rightarrow> svc_options km" where
  "devtool_GetConfig op cfg =
     andthen (gets kw_oc) (\<lambda>oc.
     seq (SetOptionsDefault op ServiceTypeDevtool)
    (let config = cfg_Devtool cfg in ret
       (db_options oc (dps_DbEngine (spec_Devtool (oc_Spec oc))) (sdo_DB config)
        @ SetOptionsServiceTLS False
        @ SetServiceCommonOptions oc (sdo_ServiceCommonOptions config) (cfg_CommonConfig cfg)
        @ [(''Port'', OInt (sdo_Port config))]
        @ [(''AutoSyncTable'', OBool True)])))"

definition devtoolManager :: "options \<Rightarrow> kube_env \<Rightarrow> factory" where
  "devtoolManager op env =
     (let versions = [ProductVersionFullStack, ProductVersionCMP, ProductVersionEdge, ProductVersionAI]; ref = port_ref spec_Devtool spec_Devtool_update;
          disabled = (\<lambda>oc. ds_Disable (dps_DeploymentSpec (spec_Devtool (oc_Spec oc))) \<or> \<not> in_versions versions oc)
      in (base_factory DevtoolComponentType versions)
        \<lparr>fc_IsDisabled := disabled,
         fc_DBConfig := \<lambda>cfg. Some (sdo_DB (cfg_Devtool cfg)),
         fc_DBEngine := \<lambda>oc. GetDbEngine (oc_Spec oc) (dps_DbEngine (spec_Devtool (oc_Spec oc))),
         fc_CloudUser := \<lambda>cfg. Some (sdo_CloudUser (cfg_Devtool cfg)),
         fc_PhaseControl := \<lambda>oc zone. Some DevtoolPhase,
         fc_ConfigMap := \<lambda>cfg zone. service_map op DevtoolComponentType [] ServiceTypeDevtool (devtool_GetConfig op cfg),
         fc_Service := \<lambda>oc cfg zone. service_ports DevtoolComponentType oc (dps_Service (spec_Devtool (oc_Spec oc))) ((sdo_Port (cfg_Devtool cfg))) (0 < ds_SlaveReplicas (dps_DeploymentSpec (spec_Devtool (oc_Spec oc)))),
         fc_Deployment := \<lambda>cfg zone. some_ret (newCloudServiceSinglePortDeployment op env DevtoolComponentType [] ref (int32 (sdo_Port (cfg_Devtool cfg))) False False),
         fc_DeploymentStatus := \<lambda>zone. status_ptr st_Devtool_update,
         fc_McclientSync := \<lambda>oc. catalogue_sync ServiceNameDevtool (disabled oc) (False \<and> 0 < ds_SlaveReplicas (dps_DeploymentSpec (spec_Devtool (oc_Spec oc)))),
         fc_share := share_annotations ref\<rparr>)"

definition llm_GetConfig :: "options \<Rightarrow> OnecloudClusterConfig \<Rightarrow> svc_options km" where
  "llm_GetConfig op cfg =
     andthen (gets kw_oc) (\<lambda>oc.
     seq (SetOptionsDefault op ServiceTypeLLM)
    (let config = cfg_LLM cfg in ret
       (db_options oc (dps_DbEngine (spec_LLM (oc_Spec oc))) (sdo_DB config)
        @ SetOptionsServiceTLS False
        @ SetServiceCommonOptions oc (sdo_ServiceCommonOptions config) (cfg_CommonConfig cfg)
        @ [(''Port'', OInt (sdo_Port config))]
        @ [(''AutoSyncTable'', OBool True)])))"

definition llmManager :: "options \<Rightarrow> kube_env \<Rightarrow> factory" where
  "llmManager op env =
     (let versions = [ProductVersionFullStack, ProductVersionCMP, ProductVersionEdge, ProductVersionAI]; ref = port_ref spec_LLM spec_LLM_update;
          disabled = (\<lambda>oc. ds_Disable (dps_DeploymentSpec (spec_LLM (oc_Spec oc))))
      in (base_factory LLMComponentType versions)
        \<lparr>fc_IsDisabled := disabled,
         fc_DBConfig := \<lambda>cfg. Some (sdo_DB (cfg_LLM cfg)),
         fc_DBEngine := \<lambda>oc. GetDbEngine (oc_Spec oc) (dps_DbEngine (spec_LLM (oc_Spec oc))),
         fc_CloudUser := \<lambda>cfg. Some (sdo_CloudUser (cfg_LLM cfg)),
         fc_PhaseControl := \<lambda>oc zone. Some LLMPhase,
         fc_ConfigMap := \<lambda>cfg zone. service_map op LLMComponentType [] ServiceTypeLLM (llm_GetConfig op cfg),
         fc_Service := \<lambda>oc cfg zone. service_ports LLMComponentType oc (dps_Service (spec_LLM (oc_Spec oc))) ((sdo_Port (cfg_LLM cfg))) (0 < ds_SlaveReplicas (dps_DeploymentSpec (spec_LLM (oc_Spec oc)))),
         fc_Deployment := \<lambda>cfg zone. some_ret (newCloudServiceSinglePortDeployment op env LLMComponentType [] ref (int32 (sdo_Port (cfg_LLM cfg))) False False),
         fc_DeploymentStatus := \<lambda>zone. status_ptr st_LLM_update,
         fc_McclientSync := \<lambda>oc. catalogue_sync ServiceNameLLM (disabled oc) (False \<and> 0 < ds_SlaveReplicas (dps_DeploymentSpec (spec_LLM (oc_Spec oc)))),
         fc_share := share_annotations ref\<rparr>)"

definition bastionhost_GetConfig :: "options \<Rightarrow> OnecloudClusterConfig \<Rightarrow> svc_options km" where
  "bastionhost_GetConfig op cfg =
     andthen (gets kw_oc) (\<lambda>oc.
     seq (SetOptionsDefault op ServiceTypeBastionHost)
    (let config = cfg_BastionHost cfg in ret
       (db_options oc (dps_DbEngine (spec_BastionHost (oc_Spec oc))) (sdo_DB config)
        @ SetOptionsServiceTLS False
        @ SetServiceCommonOptions oc (sdo_ServiceCommonOptions config) (cfg_CommonConfig cfg)
        @ ssl_files
        @ [(''Port'', OInt (sdo_Port config))])))"

definition bastionHostManager :: "options \<Rightarrow> kube_env \<Rightarrow> factory" where
  "bastionHostManager op env =
     (let versions = [ProductVersionFullStack, ProductVersionCMP, ProductVersionEdge]; ref = port_ref spec_BastionHost spec_BastionHost_update;
          disabled = (\<lambda>oc. ds_Disable (dps_DeploymentSpec (spec_BastionHost (oc_Spec oc))) \<or> \<not> IsEnterpriseEdition oc \<or> \<not> in_versions versions oc)
      in (base_factory BastionHostComponentType versions)
        \<lparr>fc_IsDisabled := disabled,
         fc_DBConfig := \<lambda>cfg. Some (sdo_DB (cfg_BastionHost cfg)),
         fc_DBEngine := \<lambda>oc. GetDbEngine (oc_Spec oc) (dps_DbEngine (spec_BastionHost (oc_Spec oc))),
         fc_CloudUser := \<lambda>cfg. Some (sdo_CloudUser (cfg_BastionHost cfg)),
         fc_PhaseControl := \<lambda>oc zone. Some (RegisterEndpoint BastionHostComponentType ServiceNameBastionHost ServiceTypeBastionHost (sps_NodePort (ss_ServicePortSpec (dps_Service (spec_BastionHost (oc_Spec oc))))) [] True),
         fc_ConfigMap := \<lambda>cfg zone. service_map op BastionHostComponentType [] ServiceTypeBastionHost (bastionhost_GetConfig op cfg),
         fc_Service := \<lambda>oc cfg zone. service_ports BastionHostComponentType oc (dps_Service (spec_BastionHost (oc_Spec oc))) ((sdo_Port (cfg_BastionHost cfg))) (0 < ds_SlaveReplicas (dps_DeploymentSpec (spec_BastionHost (oc_Spec oc)))),
         fc_Deployment := \<lambda>cfg zone. some_ret (newCloudServiceSinglePortDeployment op env BastionHostComponentType [] ref (int32 (sdo_Port (cfg_BastionHost cfg))) True False),
         fc_DeploymentStatus := \<lambda>zone. status_ptr st_BastionHost_update,
         fc_McclientSync := \<lambda>oc. catalogue_sync ServiceNameBastionHost (disabled oc) (False \<and> 0 < ds_SlaveReplicas (dps_DeploymentSpec (spec_BastionHost (oc_Spec oc)))),
         fc_share := share_annotations ref\<rparr>)"

definition suggestion_GetConfig :: "options \<Rightarrow> OnecloudClusterConfig \<Rightarrow> svc_options km" where
  "suggestion_GetConfig op cfg =
     andthen (gets kw_oc) (\<lambda>oc.
     seq (SetOptionsDefault op ServiceTypeSuggestion)
    (let config = cfg_Suggestion cfg in ret
       (db_options oc (dps_DbEngine (spec_Suggestion (oc_Spec oc))) (sdo_DB config)
        @ SetOptionsServiceTLS False
        @ SetServiceCommonOptions oc (sdo_ServiceCommonOptions config) (cfg_CommonConfig cfg)
        @ [(''AutoSyncTable'', OBool True)]
        @ ssl_files
        @ [(''Port'', OInt SuggestionPort)])))"

definition suggestionManager :: "options \<Rightarrow> kube_env \<Rightarrow> factory" where
  "suggestionManager op env =
     (let versions = [ProductVersionFullStack, ProductVersionCMP, ProductVersionEdge, ProductVersionAI]; ref = port_ref spec_Suggestion spec_Suggestion_update;
          disabled = (\<lambda>oc. ds_Disable (dps_DeploymentSpec (spec_Suggestion (oc_Spec oc))) \<or> \<not> IsEnterpriseEdition oc \<or> \<not> in_versions versions oc)
      in (base_factory SuggestionComponentType versions)
        \<lparr>fc_IsDisabled := disabled,
         fc_DBConfig := \<lambda>cfg. Some (sdo_DB (cfg_Suggestion cfg)),
         fc_DBEngine := \<lambda>oc. GetDbEngine (oc_Spec oc) (dps_DbEngine (spec_Suggestion (oc_Spec oc))),
         fc_CloudUser := \<lambda>cfg. Some (sdo_CloudUser (cfg_Suggestion cfg)),
         fc_PhaseControl := \<lambda>oc zone. Some (RegisterEndpoint SuggestionComponentType ServiceNameSuggestion ServiceTypeSuggestion (sps_NodePort (ss_ServicePortSpec (dps_Service (spec_Suggestion (oc_Spec oc))))) [] True),
         fc_ConfigMap := \<lambda>cfg zone. service_map op SuggestionComponentType [] ServiceTypeSuggestion (suggestion_GetConfig op cfg),
         fc_Service := \<lambda>oc cfg zone. service_ports SuggestionComponentType oc (dps_Service (spec_Suggestion (oc_Spec oc))) (SuggestionPort) (0 < ds_SlaveReplicas (dps_DeploymentSpec (spec_Suggestion (oc_Spec oc)))),
         fc_Deployment := \<lambda>cfg zone. some_ret (server_deployment op env SuggestionComponentType ref ''suggestion'' ''suggestion''),
         fc_McclientSync := \<lambda>oc. catalogue_sync ServiceNameSuggestion (disabled oc) (False \<and> 0 < ds_SlaveReplicas (dps_DeploymentSpec (spec_Suggestion (oc_Spec oc)))),
         fc_share := share_annotations ref\<rparr>)"

definition cloudnet_GetConfig :: "options \<Rightarrow> OnecloudClusterConfig \<Rightarrow> svc_options km" where
  "cloudnet_GetConfig op cfg =
     andthen (gets kw_oc) (\<lambda>oc.
     seq (SetOptionsDefault op ServiceTypeCloudnet)
    (let config = cfg_Cloudnet cfg in ret
       (db_options oc (dps_DbEngine (spec_Cloudnet (oc_Spec oc))) (sdo_DB config)
        @ SetOptionsServiceTLS False
        @ SetServiceCommonOptions oc (sdo_ServiceCommonOptions config) (cfg_CommonConfig cfg)
        @ [(''AutoSyncTable'', OBool True)]
        @ ssl_files
        @ [(''Port'', OInt (sdo_Port config))])))"

definition cloudnetManager :: "options \<Rightarrow> kube_env \<Rightarrow> factory" where
  "cloudnetManager op env =
     (let versions = [ProductVersionFullStack]; ref = port_ref spec_Cloudnet spec_Cloudnet_update;
          disabled = (\<lambda>oc. ds_Disable (dps_DeploymentSpec (spec_Cloudnet (oc_Spec oc))) \<or> \<not> spec_EnableCloudNet (oc_Spec oc) \<or> \<not> in_versions versions oc)
      in (base_factory CloudnetComponentType versions)
        \<lparr>fc_IsDisabled := disabled,
         fc_DBConfig := \<lambda>cfg. Some (sdo_DB (cfg_Cloudnet cfg)),
         fc_DBEngine := \<lambda>oc. GetDbEngine (oc_Spec oc) (dps_DbEngine (spec_Cloudnet (oc_Spec oc))),
         fc_CloudUser := \<lambda>cfg. Some (sdo_CloudUser (cfg_Cloudnet cfg)),
         fc_PhaseControl := \<lambda>oc zone. Some (RegisterEndpoint CloudnetComponentType ServiceNameCloudnet ServiceTypeCloudnet (sps_NodePort (ss_ServicePortSpec (dps_Service (spec_Cloudnet (oc_Spec oc))))) [] True),
         fc_ConfigMap := \<lambda>cfg zone. service_map op CloudnetComponentType [] ServiceTypeCloudnet (cloudnet_GetConfig op cfg),
         fc_Service := \<lambda>oc cfg zone. service_ports CloudnetComponentType oc (dps_Service (spec_Cloudnet (oc_Spec oc))) ((sdo_Port (cfg_Cloudnet cfg))) (0 < ds_SlaveReplicas (dps_DeploymentSpec (spec_Cloudnet (oc_Spec oc)))),
         fc_Deployment := \<lambda>cfg zone. some_ret (server_deployment op env CloudnetComponentType ref ''server'' ''cloudnet''),
         fc_DeploymentStatus := \<lambda>zone. status_ptr st_Cloudnet_update,
         fc_share := share_annotations ref\<rparr>)"

definition vpcagent_GetConfig :: "options \<Rightarrow> OnecloudClusterConfig \<Rightarrow> svc_options km" where
  "vpcagent_GetConfig op cfg =
     andthen (gets kw_oc) (\<lambda>oc.
     seq (SetOptionsDefault op ServiceTypeVpcagent)
    (ret
       ([(''OvnNorthDatabase'', OStr (''tcp:'' @ NewClusterComponentName (om_Name (oc_ObjectMeta oc)) OvnNorthComponentType @ '':'' @ show_int OvnNorthDbPort))]
        @ SetOptionsServiceTLS False
        @ SetServiceCommonOptions oc (vc_ServiceCommonOptions (cfg_VpcAgent cfg)) (cfg_CommonConfig cfg)
        @ ssl_files
        @ [(''Port'', OInt VpcAgentPort)])))"

definition vpcAgentManager :: "options \<Rightarrow> kube_env \<Rightarrow> factory" where
  "vpcAgentManager op env =
     (let versions = [ProductVersionFullStack, ProductVersionEdge, ProductVersionLightEdge, ProductVersionAI]; ref = port_ref spec_VpcAgent spec_VpcAgent_update;
          disabled = (\<lambda>oc. ds_Disable (dps_DeploymentSpec (spec_VpcAgent (oc_Spec oc))) \<or> spec_DisableLocalVpc (oc_Spec oc) \<or> \<not> in_versions versions oc)
      in (base_factory VpcAgentComponentType versions)
        \<lparr>fc_IsDisabled := disabled,
         fc_CloudUser := \<lambda>cfg. Some (sco_CloudUser (vc_ServiceCommonOptions (cfg_VpcAgent cfg))),
         fc_PhaseControl := \<lambda>oc zone. Some (RegisterEndpoint VpcAgentComponentType ServiceNameVpcagent ServiceTypeVpcagent (sps_NodePort (ss_ServicePortSpec (dps_Service (spec_VpcAgent (oc_Spec oc))))) [] True),
         fc_ConfigMap := \<lambda>cfg zone. service_map op VpcAgentComponentType [] ServiceTypeVpcagent (vpcagent_GetConfig op cfg),
         fc_Service := \<lambda>oc cfg zone. service_ports VpcAgentComponentType oc (dps_Service (spec_VpcAgent (oc_Spec oc))) (sco_Port (vc_ServiceCommonOptions (cfg_VpcAgent cfg))) (0 < ds_SlaveReplicas (dps_DeploymentSpec (spec_VpcAgent (oc_Spec oc)))),
         fc_Deployment := \<lambda>cfg zone. some_ret (newCloudServiceSinglePortDeployment op env VpcAgentComponentType [] ref (int32 (sco_Port (vc_ServiceCommonOptions (cfg_VpcAgent cfg)))) False False),
         fc_DeploymentStatus := \<lambda>zone. status_ptr st_VpcAgent_update,
         fc_McclientSync := \<lambda>oc. catalogue_sync ServiceNameVpcagent (disabled oc) (False \<and> 0 < ds_SlaveReplicas (dps_DeploymentSpec (spec_VpcAgent (oc_Spec oc)))),
         fc_share := share_annotations ref\<rparr>)"

definition billing_GetConfig :: "options \<Rightarrow> OnecloudClusterConfig \<Rightarrow> svc_options km" where
  "billing_GetConfig op cfg =
     andthen (gets kw_oc) (\<lambda>oc.
     seq (SetOptionsDefault op ServiceTypeBilling)
    (let config = cfg_Billing cfg in ret
       (db_options oc (dps_DbEngine (spec_Billing (oc_Spec oc))) (sdo_DB config)
        @ SetClickhouseOptions (spec_Clickhouse (oc_Spec oc)) (sdo_ClickhouseConf config)
        @ SetOptionsServiceTLS False
        @ SetServiceCommonOptions oc (sdo_ServiceCommonOptions config) (cfg_CommonConfig cfg)
        @ [(''Port'', OInt (sdo_Port config))])))"

definition billingManager :: "options \<Rightarrow> kube_env \<Rightarrow> factory" where
  "billingManager op env =
     (let versions = [ProductVersionFullStack, ProductVersionCMP, ProductVersionEdge]; ref = port_ref spec_Billing spec_Billing_update;
          disabled = (\<lambda>oc. ds_Disable (dps_DeploymentSpec (spec_Billing (oc_Spec oc))) \<or> \<not> IsEnterpriseEdition oc \<or> \<not> in_versions versions oc)
      in (base_factory BillingComponentType versions)
        \<lparr>fc_IsDisabled := disabled,
         fc_DBConfig := \<lambda>cfg. Some (sdo_DB (cfg_Billing cfg)),
         fc_DBEngine := \<lambda>oc. GetDbEngine (oc_Spec oc) (dps_DbEngine (spec_Billing (oc_Spec oc))),
         fc_ClickhouseConfig := \<lambda>cfg. Some (sdo_ClickhouseConf (cfg_Billing cfg)),
         fc_CloudUser := \<lambda>cfg. Some (sdo_CloudUser (cfg_Billing cfg)),
         fc_PhaseControl := \<lambda>oc zone. Some (RegisterEndpoint BillingComponentType ServiceNameBilling ServiceTypeBilling (sps_NodePort (ss_ServicePortSpec (dps_Service (spec_Billing (oc_Spec oc))))) [] True),
         fc_ConfigMap := \<lambda>cfg zone. service_map op BillingComponentType [] ServiceTypeBilling (billing_GetConfig op cfg),
         fc_Service := \<lambda>oc cfg zone. service_ports BillingComponentType oc (dps_Service (spec_Billing (oc_Spec oc))) ((sdo_Port (cfg_Billing cfg))) (0 < ds_SlaveReplicas (dps_DeploymentSpec (spec_Billing (oc_Spec oc)))),
         fc_Deployment := \<lambda>cfg zone. some_ret (newCloudServiceSinglePortDeployment op env BillingComponentType [] ref (int32 (sdo_Port (cfg_Billing cfg))) True False),
         fc_DeploymentStatus := \<lambda>zone. status_ptr st_BillingStatus_update,
         fc_supportsReadOnlyService := True,
         fc_ReadonlyDeployment := \<lambda>oc cfg zone deploy. Some (genReadonlyDeployment BillingComponentType oc deploy (dps_DeploymentSpec (spec_Billing (oc_Spec oc)))),
         fc_McclientSync := \<lambda>oc. catalogue_sync ServiceNameBilling (disabled oc) (True \<and> 0 < ds_SlaveReplicas (dps_DeploymentSpec (spec_Billing (oc_Spec oc)))),
         fc_share := share_annotations ref\<rparr>)"

definition cloudproxy_GetConfig :: "options \<Rightarrow> OnecloudClusterConfig \<Rightarrow> svc_options km" where
  "cloudproxy_GetConfig op cfg =
     andthen (gets kw_oc) (\<lambda>oc.
     seq (SetOptionsDefault op ServiceTypeCloudproxy)
    (let config = cfg_Cloudproxy cfg in ret
       (db_options oc (dps_DbEngine (spec_Cloudproxy (oc_Spec oc))) (sdo_DB config)
        @ SetOptionsServiceTLS False
        @ SetServiceCommonOptions oc (sdo_ServiceCommonOptions config) (cfg_CommonConfig cfg)
        @ [(''AutoSyncTable'', OBool True)]
        @ ssl_files
        @ [(''EnableProxyAgent'', OBool True), (''ProxyAgentId'', OStr GetDefaultProxyAgentName)]
        @ [(''Port'', OInt (sdo_Port config))])))"

definition cloudproxyManager :: "options \<Rightarrow> kube_env \<Rightarrow> factory" where
  "cloudproxyManager op env =
     (let versions = [ProductVersionFullStack, ProductVersionCMP, ProductVersionEdge]; ref = port_ref spec_Cloudproxy spec_Cloudproxy_update;
          disabled = (\<lambda>oc. ds_Disable (dps_DeploymentSpec (spec_Cloudproxy (oc_Spec oc))) \<or> \<not> in_versions versions oc)
      in (base_factory CloudproxyComponentType versions)
        \<lparr>fc_IsDisabled := disabled,
         fc_DBConfig := \<lambda>cfg. Some (sdo_DB (cfg_Cloudproxy cfg)),
         fc_DBEngine := \<lambda>oc. GetDbEngine (oc_Spec oc) (dps_DbEngine (spec_Cloudproxy (oc_Spec oc))),
         fc_CloudUser := \<lambda>cfg. Some (sdo_CloudUser (cfg_Cloudproxy cfg)),
         fc_PhaseControl := \<lambda>oc zone. Some CloudproxyPhase,
         fc_ConfigMap := \<lambda>cfg zone. service_map op CloudproxyComponentType [] ServiceTypeCloudproxy (cloudproxy_GetConfig op cfg),
         fc_Service := \<lambda>oc cfg zone. service_ports CloudproxyComponentType oc (dps_Service (spec_Cloudproxy (oc_Spec oc))) ((sdo_Port (cfg_Cloudproxy cfg))) (0 < ds_SlaveReplicas (dps_DeploymentSpec (spec_Cloudproxy (oc_Spec oc)))),
         fc_Deployment := \<lambda>cfg zone. some_ret (server_deployment op env CloudproxyComponentType ref ''server'' ''cloudproxy''),
         fc_DeploymentStatus := \<lambda>zone. status_ptr st_Cloudproxy_update,
         fc_McclientSync := \<lambda>oc. catalogue_sync ServiceNameCloudproxy (disabled oc) (False \<and> 0 < ds_SlaveReplicas (dps_DeploymentSpec (spec_Cloudproxy (oc_Spec oc)))),
         fc_share := share_annotations ref\<rparr>)"

definition cloudevent_GetConfig :: "options \<Rightarrow> OnecloudClusterConfig \<Rightarrow> svc_options km" where
  "cloudevent_GetConfig op cfg =
     andthen (gets kw_oc) (\<lambda>oc.
     seq (SetOptionsDefault op ServiceTypeCloudevent)
    (let config = cfg_Cloudevent cfg in ret
       (db_options oc (dps_DbEngine (spec_Cloudevent (oc_Spec oc))) (sdo_DB config)
        @ SetClickhouseOptions (spec_Clickhouse (oc_Spec oc)) (sdo_ClickhouseConf config)
        @ SetOptionsServiceTLS False
        @ SetServiceCommonOptions oc (sdo_ServiceCommonOptions config) (cfg_CommonConfig cfg)
        @ [(''AutoSyncTable'', OBool True)]
        @ ssl_files
        @ [(''Port'', OInt (sdo_Port config))])))"

definition cloudeventManager :: "options \<Rightarrow> kube_env \<Rightarrow> factory" where
  "cloudeventManager op env =
     (let versions = [ProductVersionFullStack, ProductVersionCMP]; ref = port_ref spec_Cloudevent spec_Cloudevent_update;
          disabled = (\<lambda>oc. ds_Disable (dps_DeploymentSpec (spec_Cloudevent (oc_Spec oc))) \<or> \<not> in_versions versions oc)
      in (base_factory CloudeventComponentType versions)
        \<lparr>fc_IsDisabled := disabled,
         fc_DBConfig := \<lambda>cfg. Some (sdo_DB (cfg_Cloudevent cfg)),
         fc_DBEngine := \<lambda>oc. GetDbEngine (oc_Spec oc) (dps_DbEngine (spec_Cloudevent (oc_Spec oc))),
         fc_ClickhouseConfig := \<lambda>cfg. Some (sdo_ClickhouseConf (cfg_Cloudevent cfg)),
         fc_CloudUser := \<lambda>cfg. Some (sdo_CloudUser (cfg_Cloudevent cfg)),
         fc_PhaseControl := \<lambda>oc zone. Some (RegisterEndpoint CloudeventComponentType ServiceNameCloudevent ServiceTypeCloudevent (sps_NodePort (ss_ServicePortSpec (dps_Service (spec_Cloudevent (oc_Spec oc))))) [] True),
         fc_ConfigMap := \<lambda>cfg zone. service_map op CloudeventComponentType [] ServiceTypeCloudevent (cloudevent_GetConfig op cfg),
         fc_Service := \<lambda>oc cfg zone. service_ports CloudeventComponentType oc (dps_Service (spec_Cloudevent (oc_Spec oc))) ((sdo_Port (cfg_Cloudevent cfg))) (0 < ds_SlaveReplicas (dps_DeploymentSpec (spec_Cloudevent (oc_Spec oc)))),
         fc_Deployment := \<lambda>cfg zone. some_ret (cloudevent_deployment op env ref),
         fc_DeploymentStatus := \<lambda>zone. status_ptr st_Cloudevent_update,
         fc_McclientSync := \<lambda>oc. catalogue_sync ServiceNameCloudevent (disabled oc) (False \<and> 0 < ds_SlaveReplicas (dps_DeploymentSpec (spec_Cloudevent (oc_Spec oc)))),
         fc_share := share_annotations ref\<rparr>)"

definition extdb_GetConfig :: "options \<Rightarrow> OnecloudClusterConfig \<Rightarrow> svc_options km" where
  "extdb_GetConfig op cfg =
     andthen (gets kw_oc) (\<lambda>oc.
     seq (SetOptionsDefault op ServiceTypeExtdb)
    (let config = cfg_Extdb cfg in ret
       (db_options oc (dps_DbEngine (spec_Extdb (oc_Spec oc))) (sdo_DB config)
        @ SetClickhouseOptions (spec_Clickhouse (oc_Spec oc)) (sdo_ClickhouseConf config)
        @ SetOptionsServiceTLS False
        @ SetServiceCommonOptions oc (sdo_ServiceCommonOptions config) (cfg_CommonConfig cfg)
        @ [(''AutoSyncTable'', OBool True)]
        @ [(''Port'', OInt (sdo_Port config))])))"

definition extdbManager :: "options \<Rightarrow> kube_env \<Rightarrow> factory" where
  "extdbManager op env =
     (let versions = [ProductVersionFullStack, ProductVersionCMP, ProductVersionEdge]; ref = port_ref spec_Extdb spec_Extdb_update;
          disabled = (\<lambda>oc. ds_Disable (dps_DeploymentSpec (spec_Extdb (oc_Spec oc))) \<or> \<not> IsEnterpriseEdition oc \<or> \<not> in_versions versions oc)
      in (base_factory ExtdbComponentType versions)
        \<lparr>fc_IsDisabled := disabled,
         fc_DBConfig := \<lambda>cfg. Some (sdo_DB (cfg_Extdb cfg)),
         fc_DBEngine := \<lambda>oc. GetDbEngine (oc_Spec oc) (dps_DbEngine (spec_Extdb (oc_Spec oc))),
         fc_ClickhouseConfig := \<lambda>cfg. Some (sdo_ClickhouseConf (cfg_Extdb cfg)),
         fc_CloudUser := \<lambda>cfg. Some (sdo_CloudUser (cfg_Extdb cfg)),
         fc_PhaseControl := \<lambda>oc zone. Some (RegisterEndpoint ExtdbComponentType ServiceNameExtdb ServiceTypeExtdb (sps_NodePort (ss_ServicePortSpec (dps_Service (spec_Extdb (oc_Spec oc))))) [] True),
         fc_ConfigMap := \<lambda>cfg zone. service_map op ExtdbComponentType [] ServiceTypeExtdb (extdb_GetConfig op cfg),
         fc_Service := \<lambda>oc cfg zone. service_ports ExtdbComponentType oc (dps_Service (spec_Extdb (oc_Spec oc))) ((sdo_Port (cfg_Extdb cfg))) (0 < ds_SlaveReplicas (dps_DeploymentSpec (spec_Extdb (oc_Spec oc)))),
         fc_Deployment := \<lambda>cfg zone. some_ret (server_deployment op env ExtdbComponentType ref ''extdb'' ''extdb''),
         fc_DeploymentStatus := \<lambda>zone. status_ptr st_Extdb_update,
         fc_McclientSync := \<lambda>oc. catalogue_sync ServiceNameExtdb (disabled oc) (False \<and> 0 < ds_SlaveReplicas (dps_DeploymentSpec (spec_Extdb (oc_Spec oc)))),
         fc_share := share_annotations ref\<rparr>)"

definition report_GetConfig :: "options \<Rightarrow> OnecloudClusterConfig \<Rightarrow> svc_options km" where
  "report_GetConfig op cfg =
     andthen (gets kw_oc) (\<lambda>oc.
     seq (SetOptionsDefault op ServiceTypeReport)
    (let config = cfg_Report cfg in ret
       (db_options oc (dps_DbEngine (spec_Report (oc_Spec oc))) (sdo_DB config)
        @ SetClickhouseOptions (spec_Clickhouse (oc_Spec oc)) (sdo_ClickhouseConf config)
        @ SetOptionsServiceTLS False
        @ SetServiceCommonOptions oc (sdo_ServiceCommonOptions config) (cfg_CommonConfig cfg)
        @ [(''AutoSyncTable'', OBool True)]
        @ [(''Port'', OInt (sdo_Port config))])))"

definition reportManager :: "options \<Rightarrow> kube_env \<Rightarrow> factory" where
  "reportManager op env =
     (let versions = [ProductVersionFullStack, ProductVersionCMP, ProductVersionEdge, ProductVersionAI]; ref = port_ref spec_Report spec_Report_update;
          disabled = (\<lambda>oc. ds_Disable (dps_DeploymentSpec (spec_Report (oc_Spec oc))) \<or> \<not> IsEnterpriseEdition oc \<or> \<not> in_versions versions oc)
      in (base_factory ReportComponentType versions)
        \<lparr>fc_IsDisabled := disabled,
         fc_DBConfig := \<lambda>cfg. Some (sdo_DB (cfg_Report cfg)),
         fc_DBEngine := \<lambda>oc. GetDbEngine (oc_Spec oc) (dps_DbEngine (spec_Report (oc_Spec oc))),
         fc_ClickhouseConfig := \<lambda>cfg. Some (sdo_ClickhouseConf (cfg_Report cfg)),
         fc_CloudUser := \<lambda>cfg. Some (sdo_CloudUser (cfg_Report cfg)),
         fc_PhaseControl := \<lambda>oc zone. Some (RegisterEndpoint ReportComponentType ServiceNameReport ServiceTypeReport (sps_NodePort (ss_ServicePortSpec (dps_Service (spec_Report (oc_Spec oc))))) [] True),
         fc_ConfigMap := \<lambda>cfg zone. service_map op ReportComponentType [] ServiceTypeReport (report_GetConfig op cfg),
         fc_Service := \<lambda>oc cfg zone. service_ports ReportComponentType oc (dps_Service (spec_Report (oc_Spec oc))) ((sdo_Port (cfg_Report cfg))) (0 < ds_SlaveReplicas (dps_DeploymentSpec (spec_Report (oc_Spec oc)))),
         fc_Deployment := \<lambda>cfg zone. some_ret (server_deployment op env ReportComponentType ref ''report'' ''report''),
         fc_DeploymentStatus := \<lambda>zone. status_ptr st_Report_update,
         fc_McclientSync := \<lambda>oc. catalogue_sync ServiceNameReport (disabled oc) (False \<and> 0 < ds_SlaveReplicas (dps_DeploymentSpec (spec_Report (oc_Spec oc)))),
         fc_share := share_annotations ref\<rparr>)"

definition autoupdate_GetConfig :: "options \<Rightarrow> OnecloudClusterConfig \<Rightarrow> svc_options km" where
  "autoupdate_GetConfig op cfg =
     andthen (gets kw_oc) (\<lambda>oc.
     seq (SetOptionsDefault op ServiceTypeAutoUpdate)
    (let config = cfg_AutoUpdate cfg in ret
       (db_options oc (dps_DbEngine (spec_AutoUpdate (oc_Spec oc))) (sdo_DB config)
        @ SetClickhouseOptions (spec_Clickhouse (oc_Spec oc)) (sdo_ClickhouseConf config)
        @ SetOptionsServiceTLS False
        @ SetServiceCommonOptions oc (sdo_ServiceCommonOptions config) (cfg_CommonConfig cfg)
        @ [(''Port'', OInt (sdo_Port config))]
        @ [(''UpdateServer'', OStr ''https://iso.yunion.cn''), (''UpdateCheckIntervalHours'', OInt 1), (''HostUpdateStartHour'', OInt 2),
       (''HostUpdateStopHour'', OInt 4), (''HostUpdateTimeZone'', OStr ''Asia/Shanghai''), (''KubernetesMode'', OBool True), (''Channel'', OStr ''stable'')])))"

definition autoUpdateManager :: "options \<Rightarrow> kube_env \<Rightarrow> factory" where
  "autoUpdateManager op env =
     (let versions = AllVersions; ref = port_ref spec_AutoUpdate spec_AutoUpdate_update;
          disabled = (\<lambda>oc. ds_Disable (dps_DeploymentSpec (spec_AutoUpdate (oc_Spec oc))) \<or> \<not> IsEnterpriseEdition oc \<or> \<not> in_versions versions oc)
      in (base_factory AutoUpdateComponentType versions)
        \<lparr>fc_IsDisabled := disabled,
         fc_DBConfig := \<lambda>cfg. Some (sdo_DB (cfg_AutoUpdate cfg)),
         fc_DBEngine := \<lambda>oc. GetDbEngine (oc_Spec oc) (dps_DbEngine (spec_AutoUpdate (oc_Spec oc))),
         fc_ClickhouseConfig := \<lambda>cfg. Some (sdo_ClickhouseConf (cfg_AutoUpdate cfg)),
         fc_CloudUser := \<lambda>cfg. Some (sdo_CloudUser (cfg_AutoUpdate cfg)),
         fc_PhaseControl := \<lambda>oc zone. Some (RegisterEndpoint AutoUpdateComponentType ServiceNameAutoUpdate ServiceTypeAutoUpdate (sps_NodePort (ss_ServicePortSpec (dps_Service (spec_AutoUpdate (oc_Spec oc))))) [] True),
         fc_ConfigMap := \<lambda>cfg zone. synced_map op env AutoUpdateComponentType ServiceTypeAutoUpdate (autoupdate_GetConfig op cfg),
         fc_Service := \<lambda>oc cfg zone. service_ports AutoUpdateComponentType oc (dps_Service (spec_AutoUpdate (oc_Spec oc))) ((sdo_Port (cfg_AutoUpdate cfg))) (0 < ds_SlaveReplicas (dps_DeploymentSpec (spec_AutoUpdate (oc_Spec oc)))),
         fc_Deployment := \<lambda>cfg zone. some_ret (andthen (newCloudServiceSinglePortDeployment op env AutoUpdateComponentType [] ref (int32 (sdo_Port (cfg_AutoUpdate cfg))) True False) (\<lambda>deploy. ret (with_service_account deploy))),
         fc_DeploymentStatus := \<lambda>zone. status_ptr st_AutoUpdate_update,
         fc_McclientSync := \<lambda>oc. catalogue_sync ServiceNameAutoUpdate (disabled oc) (False \<and> 0 < ds_SlaveReplicas (dps_DeploymentSpec (spec_AutoUpdate (oc_Spec oc)))),
         fc_share := share_annotations ref\<rparr>)"

definition aiproxy_GetConfig :: "options \<Rightarrow> OnecloudClusterConfig \<Rightarrow> svc_options km" where
  "aiproxy_GetConfig op cfg =
     andthen (gets kw_oc) (\<lambda>oc.
     seq (map_err (Wrapped ''set aiproxy option'') (SetOptionsDefault op ServiceTypeAiProxy))
    (let config = cfg_AiProxy cfg in ret
       (db_options oc (dps_DbEngine (spec_AiProxy (oc_Spec oc))) (sdo_DB config)
        @ SetOptionsServiceTLS False
        @ SetServiceCommonOptions oc (sdo_ServiceCommonOptions config) (cfg_CommonConfig cfg)
        @ [(''Port'', OInt (sdo_Port config))]
        @ [(''AutoSyncTable'', OBool True)]
        @ SetAiProxyAPILogS3Options oc)))"

definition aiProxyManager :: "options \<Rightarrow> kube_env \<Rightarrow> factory" where
  "aiProxyManager op env =
     (let versions = [ProductVersionFullStack, ProductVersionCMP, ProductVersionEdge, ProductVersionAI]; ref = port_ref spec_AiProxy spec_AiProxy_update;
          disabled = (\<lambda>oc. ds_Disable (dps_DeploymentSpec (spec_AiProxy (oc_Spec oc))))
      in (base_factory AiProxyComponentType versions)
        \<lparr>fc_IsDisabled := disabled,
         fc_DBConfig := \<lambda>cfg. Some (sdo_DB (cfg_AiProxy cfg)),
         fc_DBEngine := \<lambda>oc. GetDbEngine (oc_Spec oc) (dps_DbEngine (spec_AiProxy (oc_Spec oc))),
         fc_CloudUser := \<lambda>cfg. Some (sdo_CloudUser (cfg_AiProxy cfg)),
         fc_PhaseControl := \<lambda>oc zone. Some (RegisterEndpoint AiProxyComponentType ServiceNameAiProxy ServiceTypeAiProxy (sps_NodePort (ss_ServicePortSpec (dps_Service (spec_AiProxy (oc_Spec oc))))) [] True),
         fc_ConfigMap := \<lambda>cfg zone. service_map op AiProxyComponentType zone ServiceTypeAiProxy (aiproxy_GetConfig op cfg),
         fc_Service := \<lambda>oc cfg zone. map with_traefik_scheme (service_ports AiProxyComponentType oc (dps_Service (spec_AiProxy (oc_Spec oc))) ((sdo_Port (cfg_AiProxy cfg))) (0 < ds_SlaveReplicas (dps_DeploymentSpec (spec_AiProxy (oc_Spec oc))))),
         fc_Ingress := aiproxy_Ingress,
         fc_updateIngress := \<lambda>oc _. aiproxy_Ingress oc [],
         fc_Deployment := \<lambda>cfg zone. some_ret (newCloudServiceSinglePortDeployment op env AiProxyComponentType [] ref (int32 (sdo_Port (cfg_AiProxy cfg))) False False),
         fc_DeploymentStatus := \<lambda>zone. status_ptr st_AiProxy_update,
         fc_McclientSync := \<lambda>oc. catalogue_sync ServiceNameAiProxy (disabled oc) (False \<and> 0 < ds_SlaveReplicas (dps_DeploymentSpec (spec_AiProxy (oc_Spec oc)))),
         fc_share := share_annotations ref\<rparr>)"

section \<open>Passes that do more than synchronise the component\<close>

definition cloudnet_Sync :: "options \<Rightarrow> kube_env \<Rightarrow> unit km" where
  "cloudnet_Sync op env =
     andthen (gets kw_oc) (\<lambda>oc.
     if \<not> spec_EnableCloudNet (oc_Spec oc) \<and> \<not> op_StopServices op then ret ()
     else syncComponent op env (cloudnetManager op env) [])"

text \<open>A change of the edition clears the name of the image, which is then defaulted for the new edition.\<close>

definition mcpServer_Sync :: "options \<Rightarrow> kube_env \<Rightarrow> unit km" where
  "mcpServer_Sync op env =
     andthen (gets kw_oc) (\<lambda>oc.
     let isEE = IsEnterpriseEdition oc;
         ref = port_ref spec_McpServer spec_McpServer_update;
         imageName = cs_ImageName (ds_ContainerSpec (fst ref oc))
     in seq (guarded (imageName = McpServerCEImageName \<and> isEE \<or> imageName = McpServerEEImageName \<and> \<not> isEE)
               (write_ref ref (ds_ContainerSpec_update (cs_ImageName_update (\<lambda>_. [])))))
            (syncComponent op env (mcpServerManager op env) []))"

end
