(* ===== verification/Managers_More.thy ===== *)
theory Managers_More
  imports Managers
begin

text \<open>
  The managers whose deployment or configuration differs from the plain service: keystone, region,
  meter, webconsole, API gateway, cloudmon, climc, cloudmux, the chart renderer, OVN north and the time
  series databases (\<open>pkg/manager/component/*.go\<close>). A text made by
  \<open>text/template\<close> is \<open>op_template\<close> on the name of the template constant and the fields of its struct.
\<close>

section \<open>Pointers and pieces\<close>

definition deploy_ref ::
  "(OnecloudClusterSpec \<Rightarrow> 'a) \<Rightarrow> (('a \<Rightarrow> 'a) \<Rightarrow> OnecloudClusterSpec \<Rightarrow> OnecloudClusterSpec)
     \<Rightarrow> ('a \<Rightarrow> DeploymentSpec) \<Rightarrow> ((DeploymentSpec \<Rightarrow> DeploymentSpec) \<Rightarrow> 'a \<Rightarrow> 'a) \<Rightarrow> DeploymentSpec ref_oc" where
  "deploy_ref rd wr rd' wr' = (\<lambda>oc. rd' (rd (oc_Spec oc)), \<lambda>f. oc_Spec_update (wr (wr' f)))"

definition add_pod_volume :: "Volume \<Rightarrow> Deployment \<Rightarrow> Deployment" where
  "add_pod_volume v = dep_Spec_update (dsp_Template_update (pt_Spec_update (ps_Volumes_update (\<lambda>vs. vs @ [v]))))"

definition pvc_volume :: "string \<Rightarrow> string \<Rightarrow> Volume" where
  "pvc_volume name claim = \<lparr>vol_Name = name, vol_Source = VolPVC claim False\<rparr>"

definition empty_dir :: "string \<Rightarrow> Volume" where
  "empty_dir name = \<lparr>vol_Name = name, vol_Source = VolEmptyDir []\<rparr>"

definition recreate :: "Deployment \<Rightarrow> Deployment" where
  "recreate = dep_Spec_update (dsp_Strategy_update (\<lambda>_. ''Recreate''))"

definition node_port :: "string \<Rightarrow> ServiceSpec \<Rightarrow> int \<Rightarrow> ServicePort" where
  "node_port name svc target =
     NewServiceNodePort name (sps_InternalOnly (ss_ServicePortSpec svc)) (int32 (sps_NodePort (ss_ServicePortSpec svc))) target"

definition cluster_port :: "string \<Rightarrow> int \<Rightarrow> ServicePort" where
  "cluster_port name port = \<lparr>sp_Name = name, sp_Protocol = ''TCP'', sp_Port = port, sp_TargetPort = port, sp_NodePort = 0\<rparr>"

definition tcp_port :: "string \<Rightarrow> int \<Rightarrow> ContainerPort" where
  "tcp_port name port = \<lparr>cp_Name = name, cp_ContainerPort = port, cp_Protocol = ''TCP''\<rparr>"

definition template_map ::
  "options \<Rightarrow> string \<Rightarrow> string \<Rightarrow> svc_options \<Rightarrow> (ConfigMap option \<times> bool) km" where
  "template_map op cType template vals =
     andthen (of_sum (op_template op template vals)) (\<lambda>content.
     gets (\<lambda>w. (Some (newConfigMap cType [] (kw_oc w) content), False)))"

section \<open>Keystone\<close>

definition keystone_GetConfig :: "options \<Rightarrow> OnecloudClusterConfig \<Rightarrow> svc_options km" where
  "keystone_GetConfig op cfg =
     andthen (gets kw_oc) (\<lambda>oc.
     seq (SetOptionsDefault op ServiceTypeIdentity)
    (let config = cfg_Keystone cfg; spec = spec_Keystone (oc_Spec oc) in ret
       (db_options oc (ks_DbEngine spec) (kc_DB config)
        @ SetClickhouseOptions (spec_Clickhouse (oc_Spec oc)) (kc_ClickhouseConf config)
        @ SetOptionsServiceTLS (dvs_DisableTLS (ks_DeploymentServiceSpec spec))
        @ SetServiceBaseOptions (GetRegion oc) (kc_ServiceBaseConfig config) (cfg_CommonConfig cfg)
        @ [(''BootstrapAdminUserPassword'', OStr (ks_BootstrapPassword spec)), (''ResetAdminUserPassword'', OBool True),
           (''AdminPort'', OInt KeystoneAdminPort)])))"

definition keystone_ref :: "DeploymentSpec ref_oc" where
  "keystone_ref = deploy_ref spec_Keystone spec_Keystone_update
     (\<lambda>k. dvs_DeploymentSpec (ks_DeploymentServiceSpec k)) (\<lambda>f. ks_DeploymentServiceSpec_update (dvs_DeploymentSpec_update f))"

definition keystone_containers :: "ContainerSpec \<Rightarrow> containers_factory" where
  "keystone_containers cs = (\<lambda>volMounts.
     [(server_container KeystoneComponentType (cs_Image cs) (cs_ImagePullPolicy cs) ''keystone'' volMounts)
        \<lparr>ct_Ports := [tcp_port ''public'' KeystonePublicPort, tcp_port ''admin'' KeystoneAdminPort],
         ct_ReadinessProbe := Some (generateReadinessProbe ''/ping'' KeystonePublicPort)\<rparr>])"

definition keystone_deployment :: "options \<Rightarrow> kube_env \<Rightarrow> Deployment km" where
  "keystone_deployment op env =
     andthen (gets kw_oc) (\<lambda>oc.
     andthen (deref keystone_ref) (\<lambda>spec.
     newDefaultDeployment op env KeystoneComponentType KeystoneComponentType (config_helper oc KeystoneComponentType) keystone_ref
       (Some (service_init KeystoneComponentType (ds_ContainerSpec spec)))
       (Some (keystone_containers (ds_ContainerSpec spec)))))"

definition keystoneManager :: "options \<Rightarrow> kube_env \<Rightarrow> factory" where
  "keystoneManager op env =
     (let ref = keystone_ref; slaves = (\<lambda>oc. 0 < ds_SlaveReplicas (fst ref oc));
          disabled = (\<lambda>oc. ds_Disable (fst ref oc) \<or> \<not> in_versions AllVersions oc)
      in (base_factory KeystoneComponentType AllVersions)
        \<lparr>fc_IsDisabled := disabled,
         fc_DBConfig := \<lambda>cfg. Some (kc_DB (cfg_Keystone cfg)),
         fc_DBEngine := \<lambda>oc. GetDbEngine (oc_Spec oc) (ks_DbEngine (spec_Keystone (oc_Spec oc))),
         fc_ClickhouseConfig := \<lambda>cfg. Some (kc_ClickhouseConf (cfg_Keystone cfg)),
         fc_PhaseControl := \<lambda>oc zone. Some KeystonePhase,
         fc_DeploymentStatus := \<lambda>zone. status_ptr (\<lambda>f. st_Keystone_update (kst_DeploymentStatus_update f)),
         fc_Service := \<lambda>oc cfg zone. let spec = spec_Keystone (oc_Spec oc)
            in newNodePortService KeystoneComponentType oc (sps_InternalOnly (ss_ServicePortSpec (ks_AdminService spec)))
                 [node_port ''public'' (ks_PublicService spec) (int32 (sbc_Port (kc_ServiceBaseConfig (cfg_Keystone cfg)))),
                  node_port ''admin'' (ks_AdminService spec) KeystoneAdminPort] (slaves oc),
         fc_ConfigMap := \<lambda>cfg zone. service_map op KeystoneComponentType [] ServiceTypeIdentity (keystone_GetConfig op cfg),
         fc_Deployment := \<lambda>cfg zone. some_ret (keystone_deployment op env),
         fc_supportsReadOnlyService := True,
         fc_ReadonlyDeployment := \<lambda>oc cfg zone deploy. Some (genReadonlyDeployment KeystoneComponentType oc deploy (fst ref oc)),
         fc_McclientSync := \<lambda>oc. catalogue_sync ServiceNameKeystone (disabled oc) (slaves oc),
         fc_share := share_annotations ref\<rparr>)"

section \<open>Region\<close>

text \<open>The address of the DNS server is written into the specification when it has none.\<close>

definition region_GetConfig :: "options \<Rightarrow> OnecloudClusterConfig \<Rightarrow> svc_options km" where
  "region_GetConfig op cfg =
     andthen (gets kw_oc) (\<lambda>oc.
     seq (SetOptionsDefault op ServiceTypeComputeV2)
    (let config = rc_ServiceDBCommonOptions (cfg_RegionServer cfg); spec = spec_RegionServer (oc_Spec oc);
         dns = (if rs_DNSServer spec = [] then spec_LoadBalancerEndpoint (oc_Spec oc) else rs_DNSServer spec)
     in seq (modify (kw_oc_update (oc_Spec_update (spec_RegionServer_update (rs_DNSServer_update (\<lambda>_. dns))))))
       (ret (db_options oc (dps_DbEngine (rs_DeploymentServicePortSpec spec)) (sdo_DB config)
        @ SetClickhouseOptions (spec_Clickhouse (oc_Spec oc)) (sdo_ClickhouseConf config)
        @ SetOptionsServiceTLS False
        @ SetServiceCommonOptions oc (sdo_ServiceCommonOptions config) (cfg_CommonConfig cfg)
        @ [(''AutoSyncTable'', OBool True), (''DNSDomain'', OStr (rs_DNSDomain spec)), (''DNSServer'', OStr dns),
           (''PortV2'', OInt (sdo_Port config))]))))"

definition region_ref :: "DeploymentSpec ref_oc" where
  "region_ref = deploy_ref spec_RegionServer spec_RegionServer_update
     (\<lambda>r. dps_DeploymentSpec (rs_DeploymentServicePortSpec r)) (\<lambda>f. rs_DeploymentServicePortSpec_update (dps_DeploymentSpec_update f))"

definition regionManager :: "options \<Rightarrow> kube_env \<Rightarrow> factory" where
  "regionManager op env =
     (let ref = region_ref; slaves = (\<lambda>oc. 0 < ds_SlaveReplicas (fst ref oc));
          config = (\<lambda>cfg. rc_ServiceDBCommonOptions (cfg_RegionServer cfg));
          disabled = (\<lambda>oc. ds_Disable (fst ref oc) \<or> \<not> in_versions AllVersions oc)
      in (base_factory RegionComponentType AllVersions)
        \<lparr>fc_IsDisabled := disabled,
         fc_DBConfig := \<lambda>cfg. Some (sdo_DB (config cfg)),
         fc_DBEngine := \<lambda>oc. GetDbEngine (oc_Spec oc) (dps_DbEngine (rs_DeploymentServicePortSpec (spec_RegionServer (oc_Spec oc)))),
         fc_ClickhouseConfig := \<lambda>cfg. Some (sdo_ClickhouseConf (config cfg)),
         fc_CloudUser := \<lambda>cfg. Some (sdo_CloudUser (config cfg)),
         fc_PhaseControl := \<lambda>oc zone. Some RegionPhase,
         fc_DeploymentStatus := \<lambda>zone. status_ptr (\<lambda>f. st_RegionServer_update (rst_DeploymentStatus_update f)),
         fc_Service := \<lambda>oc cfg zone. let svc = dps_Service (rs_DeploymentServicePortSpec (spec_RegionServer (oc_Spec oc)))
            in newNodePortService RegionComponentType oc (sps_InternalOnly (ss_ServicePortSpec svc))
                 [node_port ''api'' svc (int32 (sdo_Port (config cfg)))] (slaves oc),
         fc_ConfigMap := \<lambda>cfg zone. service_map op RegionComponentType [] ServiceTypeComputeV2 (region_GetConfig op cfg),
         fc_Deployment := \<lambda>cfg zone. some_ret (andthen
            (newCloudServiceSinglePortDeploymentWithReadinessProbePath op env RegionComponentType [] ref (int32 (sdo_Port (config cfg)))
               True True ''/ping'') (\<lambda>deploy. ret (with_service_account deploy))),
         fc_supportsReadOnlyService := True,
         fc_ReadonlyDeployment := \<lambda>oc cfg zone deploy. Some (genReadonlyDeployment RegionComponentType oc deploy (fst ref oc)),
         fc_McclientSync := \<lambda>oc. catalogue_sync ServiceNameRegionV2 (disabled oc) (slaves oc),
         fc_share := share_annotations ref\<rparr>)"

section \<open>Meter\<close>

text \<open>The database account is always made in MySQL, the URL follows the engine of the specification.\<close>

definition MeterMonthlyBill :: bool where
  "MeterMonthlyBill \<longleftrightarrow> True"

definition meter_GetConfig :: "options \<Rightarrow> OnecloudClusterConfig \<Rightarrow> svc_options km" where
  "meter_GetConfig op cfg =
     andthen (gets kw_oc) (\<lambda>oc.
     seq (SetOptionsDefault op ServiceTypeMeter)
    (let config = mc_ServiceDBCommonOptions (cfg_Meter cfg) in ret
       (db_options oc (mts_DbEngine (spec_Meter (oc_Spec oc))) (sdo_DB config)
        @ SetClickhouseOptions (spec_Clickhouse (oc_Spec oc)) (sdo_ClickhouseConf config)
        @ SetOptionsServiceTLS False
        @ SetServiceCommonOptions oc (sdo_ServiceCommonOptions config) (cfg_CommonConfig cfg)
        @ [(''BillingFileDirectory'', OStr (path_Join [MeterDataStore, MeterBillingDataDir])),
           (''CloudratesFileDirectory'', OStr (path_Join [MeterDataStore, MeterRatesDataDir])),
           (''AwsRiPlanIdHandle'', OStr MeterAwsRiPlanIdHandle), (''InfluxdbMeterName'', OStr MeterInfluxDB),
           (''MonthlyBill'', OBool MeterMonthlyBill), (''AutoSyncTable'', OBool True), (''Port'', OInt (sdo_Port config))])))"

definition meter_ref :: "DeploymentSpec ref_oc" where
  "meter_ref = stateful_ref spec_Meter spec_Meter_update mts_StatefulDeploymentSpec mts_StatefulDeploymentSpec_update"

definition meterManager :: "options \<Rightarrow> kube_env \<Rightarrow> factory" where
  "meterManager op env =
     (let ref = meter_ref; slaves = (\<lambda>oc. 0 < ds_SlaveReplicas (fst ref oc)); versions = [ProductVersionFullStack, ProductVersionCMP, ProductVersionEdge];
          config = (\<lambda>cfg. mc_ServiceDBCommonOptions (cfg_Meter cfg)); svc = (\<lambda>oc. mts_Service (spec_Meter (oc_Spec oc)));
          disabled = (\<lambda>oc. ds_Disable (fst ref oc) \<or> \<not> IsEnterpriseEdition oc \<or> \<not> in_versions versions oc)
      in (base_factory MeterComponentType versions)
        \<lparr>fc_IsDisabled := disabled,
         fc_DBConfig := \<lambda>cfg. Some (sdo_DB (config cfg)),
         fc_DBEngine := \<lambda>oc. DBEngineMySQL,
         fc_ClickhouseConfig := \<lambda>cfg. Some (sdo_ClickhouseConf (config cfg)),
         fc_CloudUser := \<lambda>cfg. Some (sdo_CloudUser (config cfg)),
         fc_PhaseControl := \<lambda>oc zone. Some (RegisterEndpoint MeterComponentType ServiceNameMeter ServiceTypeMeter
            (sps_NodePort (ss_ServicePortSpec (svc oc))) [] True),
         fc_DeploymentStatus := \<lambda>zone. status_ptr (\<lambda>f. st_Meter_update (mtst_DeploymentStatus_update f)),
         fc_Service := \<lambda>oc cfg zone. service_ports MeterComponentType oc (svc oc) (sdo_Port (config cfg)) (slaves oc),
         fc_ConfigMap := \<lambda>cfg zone. service_map op MeterComponentType [] ServiceTypeMeter (meter_GetConfig op cfg),
         fc_Deployment := \<lambda>cfg zone. some_ret (map_err (Wrapped ''newCloudServiceSinglePortDeploymentWithReadinessProbePath'')
            (newCloudServiceSinglePortDeploymentWithReadinessProbePath op env MeterComponentType [] ref MeterPort True False ''/ping'')),
         fc_supportsReadOnlyService := True,
         fc_ReadonlyDeployment := \<lambda>oc cfg zone deploy. Some (genReadonlyDeployment MeterComponentType oc deploy (fst ref oc)),
         fc_McclientSync := \<lambda>oc. catalogue_sync ServiceNameMeter (disabled oc) (slaves oc),
         fc_share := share_annotations ref\<rparr>)"

section \<open>Webconsole\<close>

definition webconsole_GetConfig :: "options \<Rightarrow> OnecloudClusterConfig \<Rightarrow> svc_options km" where
  "webconsole_GetConfig op cfg =
     andthen (gets kw_oc) (\<lambda>oc.
     seq (SetOptionsDefault op ServiceTypeWebconsole)
    (let config = cfg_Webconsole cfg in ret
       (db_options oc (dps_DbEngine (wcs_DeploymentServicePortSpec (spec_Webconsole (oc_Spec oc)))) (sdo_DB config)
        @ SetClickhouseOptions (spec_Clickhouse (oc_Spec oc)) (sdo_ClickhouseConf config)
        @ [(''AutoSyncTable'', OBool True)]
        @ SetOptionsServiceTLS False
        @ SetServiceCommonOptions oc (sdo_ServiceCommonOptions config) (cfg_CommonConfig cfg)
        @ [(''IpmitoolPath'', OStr ''/usr/sbin/ipmitool''), (''EnableAutoLogin'', OBool True), (''Port'', OInt WebconsolePort),
           (''ApiServer'', OStr (''https://'' @ FormatHost (spec_LoadBalancerEndpoint (oc_Spec oc))))])))"

definition webconsole_ref :: "DeploymentSpec ref_oc" where
  "webconsole_ref = deploy_ref spec_Webconsole spec_Webconsole_update
     (\<lambda>r. dps_DeploymentSpec (wcs_DeploymentServicePortSpec r)) (\<lambda>f. wcs_DeploymentServicePortSpec_update (dps_DeploymentSpec_update f))"

definition webconsole_containers :: "WebconsoleSpec \<Rightarrow> containers_factory" where
  "webconsole_containers wc = (\<lambda>volMounts.
     let driveMount = rw_mount ''rdp-drive'' ''/opt/cloudpods'';
         cs = ds_ContainerSpec (dps_DeploymentSpec (wcs_DeploymentServicePortSpec wc))
     in [server_container WebComponentType (cs_Image cs) (cs_ImagePullPolicy cs) ''webconsole'' (volMounts @ [driveMount]),
         zero_Container\<lparr>ct_Name := GuacdComponentType, ct_Image := cs_Image (wcs_Guacd wc),
           ct_ImagePullPolicy := cs_ImagePullPolicy (wcs_Guacd wc), ct_VolumeMounts := [driveMount]\<rparr>])"

definition webconsole_deployment :: "options \<Rightarrow> kube_env \<Rightarrow> Deployment km" where
  "webconsole_deployment op env =
     andthen (gets kw_oc) (\<lambda>oc.
     andthen (newDefaultDeploymentNoInit op env WebconsoleComponentType [] (config_helper oc WebconsoleComponentType) webconsole_ref
                (Some (webconsole_containers (spec_Webconsole (oc_Spec oc))))) (\<lambda>deploy.
     ret (add_pod_volume (empty_dir ''rdp-drive'') deploy)))"

definition webconsoleManager :: "options \<Rightarrow> kube_env \<Rightarrow> factory" where
  "webconsoleManager op env =
     (let ref = webconsole_ref; slaves = (\<lambda>oc. 0 < ds_SlaveReplicas (fst ref oc)); config = cfg_Webconsole;
          spec = (\<lambda>oc. wcs_DeploymentServicePortSpec (spec_Webconsole (oc_Spec oc)));
          disabled = (\<lambda>oc. ds_Disable (fst ref oc) \<or> \<not> in_versions AllVersions oc)
      in (base_factory WebconsoleComponentType AllVersions)
        \<lparr>fc_IsDisabled := disabled,
         fc_DBConfig := \<lambda>cfg. Some (sdo_DB (config cfg)),
         fc_DBEngine := \<lambda>oc. GetDbEngine (oc_Spec oc) (dps_DbEngine (spec oc)),
         fc_ClickhouseConfig := \<lambda>cfg. Some (sdo_ClickhouseConf (config cfg)),
         fc_CloudUser := \<lambda>cfg. Some (sdo_CloudUser (config cfg)),
         fc_PhaseControl := \<lambda>oc zone. Some (RegisterEndpoint WebconsoleComponentType ServiceNameWebconsole ServiceTypeWebconsole
            (sps_NodePort (ss_ServicePortSpec (dps_Service (spec oc)))) [] True),
         fc_DeploymentStatus := \<lambda>zone. status_ptr st_Webconsole_update,
         fc_Service := \<lambda>oc cfg zone. service_ports WebconsoleComponentType oc (dps_Service (spec oc)) (sdo_Port (config cfg)) (slaves oc),
         fc_ConfigMap := \<lambda>cfg zone. synced_map op env WebconsoleComponentType ServiceTypeWebconsole (webconsole_GetConfig op cfg),
         fc_Deployment := \<lambda>cfg zone. some_ret (webconsole_deployment op env),
         fc_McclientSync := \<lambda>oc. catalogue_sync ServiceNameWebconsole (disabled oc) False,
         fc_share := share_annotations ref\<rparr>)"

section \<open>API gateway\<close>

definition apigateway_GetConfig :: "options \<Rightarrow> OnecloudClusterConfig \<Rightarrow> svc_options km" where
  "apigateway_GetConfig op cfg =
     andthen (gets kw_oc) (\<lambda>oc.
     seq (SetOptionsDefault op ''apigateway'')
         (ret (SetOptionsServiceTLS False @ SetServiceCommonOptions oc (cfg_APIGateway cfg) (cfg_CommonConfig cfg)
            @ [(''Port'', OInt (sco_Port (cfg_APIGateway cfg))), (''WsPort'', OInt APIWebsocketPort),
               (''CorsHosts'', OStrs (ags_CorsHosts (spec_APIGateway (oc_Spec oc))))])))"

definition apigateway_ref :: "DeploymentSpec ref_oc" where
  "apigateway_ref = deploy_ref spec_APIGateway spec_APIGateway_update ags_DeploymentSpec ags_DeploymentSpec_update"

definition apigateway_containers :: "OnecloudCluster \<Rightarrow> int \<Rightarrow> containers_factory" where
  "apigateway_containers oc port = (\<lambda>volMounts.
     let isEE = IsEEOrESEEdition oc; cs = ds_ContainerSpec (ags_DeploymentSpec (spec_APIGateway (oc_Spec oc)));
         c = (\<lambda>name cmd. zero_Container\<lparr>ct_Name := name, ct_Image := cs_Image cs, ct_ImagePullPolicy := cs_ImagePullPolicy cs,
                ct_Command := [cmd, ''--config'', ''/etc/yunion/apigateway.conf''], ct_VolumeMounts := volMounts\<rparr>)
     in (c ''api'' (if isEE then ''/opt/yunion/bin/yunionapi'' else ''/opt/yunion/bin/apigateway''))
           \<lparr>ct_ReadinessProbe := Some (generateReadinessProbe ''/ping'' port)\<rparr>
        # (if isEE then [c ''ws'' ''/opt/yunion/bin/ws''] else []))"

text \<open>The data volume is mounted in the first container and, in the editions with one, in the second.\<close>

definition apigateway_deployment :: "options \<Rightarrow> kube_env \<Rightarrow> OnecloudClusterConfig \<Rightarrow> Deployment km" where
  "apigateway_deployment op env cfg =
     andthen (gets kw_oc) (\<lambda>oc.
     andthen (newDefaultDeploymentNoInit op env APIGatewayComponentType [] (config_helper oc APIGatewayComponentType) apigateway_ref
                (Some (apigateway_containers oc (int32 (sco_Port (cfg_APIGateway cfg)))))) (\<lambda>deploy.
     ret (dep_Spec_update (dsp_Template_update (pt_Spec_update (ps_Containers_update (map
            (ct_VolumeMounts_update (\<lambda>ms. ms @ [rw_mount ''data'' ''/etc/yunion/data/'']))))))
          (add_pod_volume (empty_dir ''data'') deploy))))"

definition apiGatewayManager :: "options \<Rightarrow> kube_env \<Rightarrow> factory" where
  "apiGatewayManager op env =
     (let ref = apigateway_ref; spec = (\<lambda>oc. spec_APIGateway (oc_Spec oc)); port = (\<lambda>cfg. sco_Port (cfg_APIGateway cfg));
          disabled = (\<lambda>oc. ds_Disable (fst ref oc) \<or> \<not> in_versions AllVersions oc)
      in (base_factory APIGatewayComponentType AllVersions)
        \<lparr>fc_IsDisabled := disabled,
         fc_CloudUser := \<lambda>cfg. Some (sco_CloudUser (cfg_APIGateway cfg)),
         fc_PhaseControl := \<lambda>oc zone. Some ApigatewayPhase,
         fc_DeploymentStatus := \<lambda>zone. status_ptr st_APIGateway_update,
         fc_Service := \<lambda>oc cfg zone. newNodePortService APIGatewayComponentType oc
            (sps_InternalOnly (ss_ServicePortSpec (ags_APIService (spec oc))))
            [node_port ''api'' (ags_APIService (spec oc)) (int32 (port cfg)), node_port ''ws'' (ags_WSService (spec oc)) APIWebsocketPort]
            (0 < ds_SlaveReplicas (fst ref oc)),
         fc_ConfigMap := \<lambda>cfg zone. service_map op APIGatewayComponentType [] ''apigateway'' (apigateway_GetConfig op cfg),
         fc_Deployment := \<lambda>cfg zone. some_ret (apigateway_deployment op env cfg),
         fc_McclientSync := \<lambda>oc. catalogue_sync ServiceNameAPIGateway (disabled oc) False,
         fc_share := share_annotations ref\<rparr>)"

definition apiGateway_Sync :: "options \<Rightarrow> kube_env \<Rightarrow> unit km" where
  "apiGateway_Sync op env =
     andthen (gets kw_oc) (\<lambda>oc.
     let isEE = IsEEOrESEEdition oc; imageName = cs_ImageName (ds_ContainerSpec (fst apigateway_ref oc))
     in seq (guarded (imageName = APIGatewayCEImageName \<and> isEE \<or> imageName = APIGatewayEEImageName \<and> \<not> isEE)
               (write_ref apigateway_ref (ds_ContainerSpec_update (cs_ImageName_update (\<lambda>_. [])))))
            (syncComponent op env (apiGatewayManager op env) []))"

section \<open>Cloudmon\<close>

definition cloudmon_GetConfig :: "options \<Rightarrow> OnecloudClusterConfig \<Rightarrow> svc_options km" where
  "cloudmon_GetConfig op cfg =
     andthen (gets kw_oc) (\<lambda>oc.
     seq (SetOptionsDefault op ServiceTypeCloudmon)
         (ret (SetOptionsServiceTLS False @ SetServiceCommonOptions oc (cfg_Cloudmon cfg) (cfg_CommonConfig cfg)
            @ ssl_files @ [(''Port'', OInt (sco_Port (cfg_Cloudmon cfg)))])))"

text \<open>
  The builder works on a copy of the specification and assigns it back: the same as working through
  the pointer, since nothing reads the original in between.
\<close>

definition cloudmon_ref :: "DeploymentSpec ref_oc" where
  "cloudmon_ref = deploy_ref spec_Cloudmon spec_Cloudmon_update cms_DeploymentSpec cms_DeploymentSpec_update"

definition cloudmonManager :: "options \<Rightarrow> kube_env \<Rightarrow> factory" where
  "cloudmonManager op env =
     (let ref = cloudmon_ref; svc = (\<lambda>oc. cms_Service (spec_Cloudmon (oc_Spec oc)));
          versions = [ProductVersionFullStack, ProductVersionCMP, ProductVersionEdge]
      in (base_factory CloudmonComponentType versions)
        \<lparr>fc_IsDisabled := \<lambda>oc. ds_Disable (fst ref oc) \<or> \<not> in_versions versions oc,
         fc_CloudUser := \<lambda>cfg. Some (sco_CloudUser (cfg_Cloudmon cfg)),
         fc_PhaseControl := \<lambda>oc zone. Some (RegisterEndpoint CloudmonComponentType ServiceNameCloudmon ServiceTypeCloudmon
            (sps_NodePort (ss_ServicePortSpec (svc oc))) [] True),
         fc_DeploymentStatus := \<lambda>zone. status_ptr st_Cloudmon_update,
         fc_Service := \<lambda>oc cfg zone. service_ports CloudmonComponentType oc (svc oc) (sco_Port (cfg_Cloudmon cfg)) (0 < ds_SlaveReplicas (fst ref oc)),
         fc_ConfigMap := \<lambda>cfg zone. service_map op CloudmonComponentType [] ServiceTypeCloudmon (cloudmon_GetConfig op cfg),
         fc_Deployment := \<lambda>cfg zone. some_ret (server_deployment op env CloudmonComponentType ref CloudmonComponentType ''cloudmon''),
         fc_share := share_annotations ref\<rparr>)"

text \<open>The cron jobs of earlier versions are deleted first.\<close>

definition delete_old_cronjob :: "kube_env \<Rightarrow> string \<Rightarrow> unit km" where
  "delete_old_cronjob env componentType =
     andthen (gets (\<lambda>w. NewClusterComponentName (om_Name (oc_ObjectMeta (kw_oc w))) componentType)) (\<lambda>name.
     andthen (attempt (kcall (KGet CronJobKind name) (\<lambda>h. ke_getCronJob env h name))) (\<lambda>r. case r of
       Inl e \<Rightarrow> (if is_not_found e then ret () else fail e)
     | Inr _ \<Rightarrow> andthen (attempt (DeleteCronJob env name)) (\<lambda>d. case d of
          Inl e \<Rightarrow> (if is_not_found e then ret () else fail e)
        | Inr _ \<Rightarrow> ret ())))"

definition ensureOldCronjobsDeleted :: "kube_env \<Rightarrow> unit km" where
  "ensureOldCronjobsDeleted env =
     for_each [CloudmonPingComponentType, CloudmonReportHostComponentType, CloudmonReportServerComponentType, CloudmonReportUsageComponentType]
       (delete_old_cronjob env)"

definition cloudmon_Sync :: "options \<Rightarrow> kube_env \<Rightarrow> unit km" where
  "cloudmon_Sync op env = seq (ensureOldCronjobsDeleted env) (syncComponent op env (cloudmonManager op env) [])"

section \<open>Climc\<close>

definition GetRCAdminEnv :: "OnecloudCluster \<Rightarrow> bool \<Rightarrow> (string \<times> string) list" where
  "GetRCAdminEnv oc withPasswd =
     [(''OS_USERNAME'', SysAdminUsername), (''OS_REGION_NAME'', GetRegion oc), (''OS_AUTH_URL'', GetAuthURL oc),
      (''OS_PROJECT_NAME'', SysAdminProject), (''YUNION_INSECURE'', ''true''), (''EDITOR'', ''vim'')]
     @ (if withPasswd then [(''OS_PASSWORD'', ks_BootstrapPassword (spec_Keystone (oc_Spec oc)))] else [])"

definition GetRCAdminContent :: "OnecloudCluster \<Rightarrow> bool \<Rightarrow> string" where
  "GetRCAdminContent oc withPasswd =
     concat (map (\<lambda>(n, v). ''export '' @ n @ ''='' @ v @ [CHR 10]) (GetRCAdminEnv oc withPasswd))"

definition climc_ref :: "DeploymentSpec ref_oc" where
  "climc_ref = deploy_ref spec_Climc spec_Climc_update (\<lambda>d. d) (\<lambda>f. f)"

definition climc_containers :: "OnecloudCluster \<Rightarrow> containers_factory" where
  "climc_containers oc = (\<lambda>volMounts.
     let cs = ds_ContainerSpec (spec_Climc (oc_Spec oc))
     in [zero_Container\<lparr>ct_Name := ''climc'', ct_Image := cs_Image cs, ct_ImagePullPolicy := cs_ImagePullPolicy cs,
           ct_Command := [''bash'', ''/opt/climc-entrypoint.sh''], ct_Env := map (\<lambda>(k, v). EnvValue k v) (GetRCAdminEnv oc True),
           ct_VolumeMounts := volMounts @ [ro_mount ''rcadmin'' ''/etc/yunion'']\<rparr>])"

definition climcManager :: "options \<Rightarrow> kube_env \<Rightarrow> factory" where
  "climcManager op env =
     (base_factory ClimcComponentType AllVersions)
        \<lparr>fc_IsDisabled := \<lambda>oc. ds_Disable (fst climc_ref oc) \<or> \<not> in_versions AllVersions oc,
         fc_ConfigMap := \<lambda>cfg zone. gets (\<lambda>w. (Some (newConfigMap ClimcComponentType [] (kw_oc w) (GetRCAdminContent (kw_oc w) False)), False)),
         fc_Deployment := \<lambda>cfg zone. some_ret (andthen (gets kw_oc) (\<lambda>oc.
            andthen (newDefaultDeploymentNoInit op env ClimcComponentType [] (NewVolumeHelper oc [] ClimcComponentType) climc_ref
                       (Some (climc_containers oc))) (\<lambda>deploy.
            ret (add_pod_volume \<lparr>vol_Name = ''rcadmin'', vol_Source = VolConfigMap (ComponentConfigMapName oc ClimcComponentType)
                    [(VolumeConfigName, ''rcadmin'')]\<rparr> deploy)))),
         fc_share := share_annotations climc_ref\<rparr>"

section \<open>Cloudmux and the chart renderer\<close>

text \<open>
  Their specifications are turned into a deployment specification and filled back in from it; a nil
  \<open>Disable\<close> is a nil dereference. \<open>IsDisabled\<close> of cloudmux dereferences it too; defaulting sets it, and
  \<open>True\<close> stands for the panic here.
\<close>

definition copied_ref ::
  "(OnecloudClusterSpec \<Rightarrow> 'a) \<Rightarrow> (('a \<Rightarrow> 'a) \<Rightarrow> OnecloudClusterSpec \<Rightarrow> OnecloudClusterSpec)
     \<Rightarrow> ('a \<Rightarrow> DeploymentSpec option) \<Rightarrow> (DeploymentSpec \<Rightarrow> 'a \<Rightarrow> 'a) \<Rightarrow> DeploymentSpec ref_oc" where
  "copied_ref rd wr toSpec fill =
     (let get = (\<lambda>s. case toSpec s of Some d \<Rightarrow> d | None \<Rightarrow> zero_DeploymentSpec)
      in (\<lambda>oc. get (rd (oc_Spec oc)), \<lambda>f. oc_Spec_update (wr (\<lambda>s. fill (f (get s)) s))))"

definition cloudmux_ref :: "DeploymentSpec ref_oc" where
  "cloudmux_ref = copied_ref spec_Cloudmux spec_Cloudmux_update Cloudmux_ToDeploymentSpec Cloudmux_FillBySpec"

definition cloudmux_containers :: "ContainerSpec \<Rightarrow> containers_factory" where
  "cloudmux_containers cs = (\<lambda>volMounts.
     [zero_Container\<lparr>ct_Name := ''cloudmux'', ct_Image := cs_Image cs, ct_ImagePullPolicy := cs_ImagePullPolicy cs,
        ct_Command := [''tail'', ''-f'', ''/dev/null''], ct_VolumeMounts := volMounts\<rparr>])"

definition cloudmuxManager :: "options \<Rightarrow> kube_env \<Rightarrow> factory" where
  "cloudmuxManager op env =
     (let ref = cloudmux_ref; versions = [ProductVersionFullStack, ProductVersionCMP, ProductVersionEdge]
      in (base_factory CloudmuxComponentType versions)
        \<lparr>fc_IsDisabled := \<lambda>oc. cmx_Disable (spec_Cloudmux (oc_Spec oc)) \<noteq> Some False \<or> \<not> in_versions versions oc,
         fc_Deployment := \<lambda>cfg zone. some_ret (andthen (gets kw_oc) (\<lambda>oc.
            if Cloudmux_ToDeploymentSpec (spec_Cloudmux (oc_Spec oc)) = None then go_panic ''nil dereference''
            else newDefaultDeploymentNoInit op env CloudmuxComponentType [] (NewVolumeHelper oc [] CloudmuxComponentType) ref
                   (Some (cloudmux_containers (cmx_ContainerSpec (spec_Cloudmux (oc_Spec oc))))))),
         fc_share := share_annotations ref\<rparr>)"

definition echarts_ref :: "DeploymentSpec ref_oc" where
  "echarts_ref = copied_ref spec_EChartsSSR spec_EChartsSSR_update EChartsSSR_ToDeploymentSpec EChartsSSR_FillBySpec"

definition echarts_containers :: "ContainerSpec \<Rightarrow> containers_factory" where
  "echarts_containers cs = (\<lambda>volMounts.
     [zero_Container\<lparr>ct_Name := EChartsSSRComponentType, ct_Image := cs_Image cs, ct_ImagePullPolicy := cs_ImagePullPolicy cs,
        ct_Ports := [tcp_port ''server'' EChartsSSRPort], ct_VolumeMounts := volMounts\<rparr>])"

definition echartsSSRManager :: "options \<Rightarrow> kube_env \<Rightarrow> factory" where
  "echartsSSRManager op env =
     (let ref = echarts_ref; versions = [ProductVersionFullStack, ProductVersionCMP, ProductVersionEdge];
          disabled = (\<lambda>oc. ecs_ssr_Disable (spec_EChartsSSR (oc_Spec oc)) = Some True \<or> \<not> IsEnterpriseEdition oc \<or> \<not> in_versions versions oc)
      in (base_factory EChartsSSRComponentType versions)
        \<lparr>fc_IsDisabled := disabled,
         fc_PhaseControl := \<lambda>oc zone. Some EChartsSSRPhase,
         fc_DeploymentStatus := \<lambda>zone. status_ptr st_ECharts_update,
         fc_Service := \<lambda>oc cfg zone. [newService EChartsSSRComponentType oc ''ClusterIP'' [cluster_port ''server'' EChartsSSRPort] False],
         fc_Deployment := \<lambda>cfg zone. some_ret (andthen (gets kw_oc) (\<lambda>oc.
            if EChartsSSR_ToDeploymentSpec (spec_EChartsSSR (oc_Spec oc)) = None then go_panic ''nil dereference''
            else newDefaultDeploymentNoInit op env EChartsSSRComponentType [] (NewVolumeHelper oc [] EChartsSSRComponentType) ref
                   (Some (echarts_containers (ecs_ssr_ContainerSpec (spec_EChartsSSR (oc_Spec oc))))))),
         fc_McclientSync := \<lambda>oc. catalogue_sync ServiceNameEChartsSSR (disabled oc) False,
         fc_share := share_annotations ref\<rparr>)"

section \<open>OVN north\<close>

definition ovnnorth_ref :: "DeploymentSpec ref_oc" where
  "ovnnorth_ref = deploy_ref spec_OvnNorth spec_OvnNorth_update (\<lambda>d. d) (\<lambda>f. f)"

definition ovnnorth_containers :: "OnecloudCluster \<Rightarrow> containers_factory" where
  "ovnnorth_containers oc = (\<lambda>volMounts.
     let cs = ds_ContainerSpec (spec_OvnNorth (oc_Spec oc))
     in [zero_Container\<lparr>ct_Name := OvnNorthComponentType, ct_Image := cs_Image cs, ct_ImagePullPolicy := cs_ImagePullPolicy cs,
           ct_Command := [''/start.sh'', ''north''] @ (if spec_IPv6Cluster (oc_Spec oc) then [''ipv6''] else []),
           ct_SecurityContext := Some \<lparr>sc_Privileged = None, sc_AddCapabilities = [''SYS_NICE'']\<rparr>\<rparr>])"

definition ovnNorthManager :: "options \<Rightarrow> kube_env \<Rightarrow> factory" where
  "ovnNorthManager op env =
     (let ref = ovnnorth_ref; versions = [ProductVersionFullStack, ProductVersionEdge, ProductVersionLightEdge, ProductVersionAI]
      in (base_factory OvnNorthComponentType versions)
        \<lparr>fc_IsDisabled := \<lambda>oc. ds_Disable (fst ref oc) \<or> \<not> in_versions versions oc \<or> spec_DisableLocalVpc (oc_Spec oc),
         fc_DeploymentStatus := \<lambda>zone. status_ptr st_OvnNorth_update,
         fc_Service := \<lambda>oc cfg zone. newNodePortService OvnNorthComponentType oc False
            [(NewServiceNodePort ''north-db'' False OvnNorthDbPort OvnNorthDbPort)\<lparr>sp_TargetPort := 6641\<rparr>,
             (NewServiceNodePort ''south-db'' False OvnSouthDbPort OvnSouthDbPort)\<lparr>sp_TargetPort := 6642\<rparr>] False,
         fc_Deployment := \<lambda>cfg zone. some_ret (andthen (gets kw_oc) (\<lambda>oc.
            newDefaultDeploymentNoInit op env OvnNorthComponentType [] (NewVolumeHelper oc [] OvnNorthComponentType) ref (Some (ovnnorth_containers oc)))),
         fc_share := share_annotations ref\<rparr>)"

section \<open>Time series databases\<close>

definition influxdb_ref :: "DeploymentSpec ref_oc" where
  "influxdb_ref = stateful_ref spec_Influxdb spec_Influxdb_update ixs_StatefulDeploymentSpec ixs_StatefulDeploymentSpec_update"

definition influxdb_containers :: "ContainerSpec \<Rightarrow> containers_factory" where
  "influxdb_containers cs = (\<lambda>volMounts.
     [zero_Container\<lparr>ct_Name := InfluxdbComponentType, ct_Image := cs_Image cs, ct_ImagePullPolicy := cs_ImagePullPolicy cs,
        ct_Command := [''influxd'', ''-config'', ''/etc/yunion/influxdb.conf''],
        ct_VolumeMounts := volMounts @ [rw_mount ''data'' InfluxdbDataStore]\<rparr>])"

text \<open>
  A claim of the local path class binds the pod to a node, so the affinity is dropped; one of another
  class can be attached to one pod at a time, so the pods are replaced, not rolled.
\<close>

definition stateful_deployment :: "string \<Rightarrow> string \<Rightarrow> string \<Rightarrow> string \<Rightarrow> Deployment \<Rightarrow> Deployment" where
  "stateful_deployment cType ocName storageClass volName deploy =
     (let d1 = (if storageClass = DefaultStorageClass then removeDeploymentAffinity deploy else deploy);
          d2 = add_pod_volume (pvc_volume volName (newPvcName ocName storageClass cType)) d1
      in if storageClass \<noteq> DefaultStorageClass then recreate d2 else d2)"

definition influxdb_deployment :: "options \<Rightarrow> kube_env \<Rightarrow> Deployment km" where
  "influxdb_deployment op env =
     andthen (gets kw_oc) (\<lambda>oc.
     andthen (deref influxdb_ref) (\<lambda>spec.
     andthen (newDefaultDeploymentNoInit op env InfluxdbComponentType [] (config_helper oc InfluxdbComponentType) influxdb_ref
                (Some (influxdb_containers (ds_ContainerSpec spec)))) (\<lambda>deploy.
     ret (stateful_deployment InfluxdbComponentType (om_Name (oc_ObjectMeta oc))
            (sds_StorageClassName (ixs_StatefulDeploymentSpec (spec_Influxdb (oc_Spec oc)))) ''data'' deploy))))"

text \<open>A claim that cannot be built is an error, a missing request for storage a nil dereference.\<close>

definition some_claim :: "(goerr + PersistentVolumeClaim) option \<Rightarrow> (goerr + PersistentVolumeClaim option) option" where
  "some_claim r = map_option (\<lambda>x. case x of Inl e \<Rightarrow> Inl e | Inr pvc \<Rightarrow> Inr (Some pvc)) r"

definition influxdbManager :: "options \<Rightarrow> kube_env \<Rightarrow> factory" where
  "influxdbManager op env =
     (let ref = influxdb_ref; spec = (\<lambda>oc. spec_Influxdb (oc_Spec oc)); versions = [ProductVersionFullStack, ProductVersionCMP, ProductVersionEdge];
          disabled = (\<lambda>oc. ds_Disable (fst ref oc) \<or> \<not> in_versions versions oc)
      in (base_factory InfluxdbComponentType versions)
        \<lparr>fc_IsDisabled := disabled,
         fc_PhaseControl := \<lambda>oc zone. Some (TSDBEndpoint InfluxdbComponentType ServiceNameInfluxdb ServiceTypeInfluxdb InfluxdbPort []),
         fc_DeploymentStatus := \<lambda>zone. status_ptr st_Influxdb_update,
         fc_Service := \<lambda>oc cfg zone. service_ports InfluxdbComponentType oc (ixs_Service (spec oc)) InfluxdbPort (0 < ds_SlaveReplicas (fst ref oc)),
         fc_PVC := \<lambda>oc zone. some_claim (newPVC op InfluxdbComponentType oc (ixs_StatefulDeploymentSpec (spec oc))),
         fc_ConfigMap := \<lambda>cfg zone. template_map op InfluxdbComponentType ''InfluxDBConfigTemplate''
            [(''Port'', OInt InfluxdbPort), (''CertPath'', OStr (path_Join [CertDir, ServiceCertName])),
             (''KeyPath'', OStr (path_Join [CertDir, ServiceKeyName]))],
         fc_Deployment := \<lambda>cfg zone. some_ret (influxdb_deployment op env),
         fc_McclientSync := \<lambda>oc. catalogue_sync ServiceNameInfluxdb (disabled oc) False,
         fc_share := share_annotations ref\<rparr>)"

definition getInfluxDBInternalURL :: "OnecloudCluster \<Rightarrow> string" where
  "getInfluxDBInternalURL oc =
     (let useVM = ds_Disable (fst influxdb_ref oc) \<and> \<not> ds_Disable (sds_DeploymentSpec (vms_StatefulDeploymentSpec (spec_VictoriaMetrics (oc_Spec oc))));
          cType = (if useVM then VictoriaMetricsComponentType else InfluxdbComponentType);
          port = (if useVM then VictoriaMetricsPort else InfluxdbPort)
      in ''https://'' @ NewClusterComponentName (om_Name (oc_ObjectMeta oc)) cType @ '':'' @ show_int port)"

definition vm_ref :: "DeploymentSpec ref_oc" where
  "vm_ref = stateful_ref spec_VictoriaMetrics spec_VictoriaMetrics_update vms_StatefulDeploymentSpec vms_StatefulDeploymentSpec_update"

definition vm_args :: "OnecloudCluster \<Rightarrow> string list" where
  "vm_args oc =
     (let days = vms_RententionPeriodDays (spec_VictoriaMetrics (oc_Spec oc)); rd = (if days = 0 then 90 else days)
      in [''--httpListenAddr=:'' @ show_int VictoriaMetricsPort, ''--tls'',
          ''--tlsCipherSuites=TLS_ECDHE_RSA_WITH_AES_128_GCM_SHA256,TLS_ECDHE_ECDSA_WITH_AES_128_GCM_SHA256,TLS_ECDHE_RSA_WITH_AES_256_GCM_SHA384,TLS_ECDHE_ECDSA_WITH_AES_256_GCM_SHA384,TLS_ECDHE_RSA_WITH_CHACHA20_POLY1305_SHA256,TLS_ECDHE_ECDSA_WITH_CHACHA20_POLY1305_SHA256,TLS_AES_128_GCM_SHA256,TLS_AES_256_GCM_SHA384,TLS_CHACHA20_POLY1305_SHA256'',
          ''--tlsMinVersion=TLS12'', ''--tlsCertFile='' @ path_Join [CertDir, ServiceCertName],
          ''--tlsKeyFile='' @ path_Join [CertDir, ServiceKeyName], ''--retentionPeriod='' @ show_int rd @ ''d'',
          ''--storageDataPath='' @ VictoriaMetricsDataStore, ''--envflag.enable=true'', ''--envflag.prefix=VM_'', ''--loggerFormat=json'',
          ''--dedup.minScrapeInterval=10s'', ''--influx.databaseNames=telegraf,meter_db,monitor,system,mysql_metrics'',
          ''--maxLabelsPerTimeseries=60'', ''--pprofAuthKey=pprof@AuthKey'']
         @ (if spec_IPv6Cluster (oc_Spec oc) then [''-enableTCP6''] else []))"

definition health_probe :: "int \<Rightarrow> int \<Rightarrow> int \<Rightarrow> Probe" where
  "health_probe failures delay period = \<lparr>pr_Handler = ProbeHTTPGet ''/health'' VictoriaMetricsPort ''HTTPS'', pr_InitialDelaySeconds = delay,
     pr_TimeoutSeconds = 5, pr_PeriodSeconds = period, pr_SuccessThreshold = 1, pr_FailureThreshold = failures\<rparr>"

definition vm_containers :: "OnecloudCluster \<Rightarrow> containers_factory" where
  "vm_containers oc = (\<lambda>volMounts.
     let cs = ds_ContainerSpec (fst vm_ref oc)
     in [zero_Container\<lparr>ct_Name := VictoriaMetricsComponentType, ct_Image := cs_Image cs, ct_ImagePullPolicy := cs_ImagePullPolicy cs,
           ct_Args := vm_args oc, ct_VolumeMounts := volMounts @ [rw_mount ''server-volume'' VictoriaMetricsDataStore],
           ct_Ports := [tcp_port ''http'' VictoriaMetricsPort], ct_ReadinessProbe := Some (health_probe 3 5 15),
           ct_LivenessProbe := Some (health_probe 10 30 30)\<rparr>])"

definition vm_deployment :: "options \<Rightarrow> kube_env \<Rightarrow> Deployment km" where
  "vm_deployment op env =
     andthen (gets kw_oc) (\<lambda>oc.
     andthen (newDefaultDeploymentNoInit op env VictoriaMetricsComponentType [] (NewVolumeHelper oc [] VictoriaMetricsComponentType) vm_ref
                (Some (vm_containers oc))) (\<lambda>deploy.
     ret (recreate (dep_Spec_update (dsp_Template_update (pt_Spec_update (ps_AutomountServiceAccountToken_update (\<lambda>_. Some True))))
            (stateful_deployment VictoriaMetricsComponentType (om_Name (oc_ObjectMeta oc))
               (sds_StorageClassName (vms_StatefulDeploymentSpec (spec_VictoriaMetrics (oc_Spec oc)))) ''server-volume'' deploy)))))"

definition vmManager :: "options \<Rightarrow> kube_env \<Rightarrow> factory" where
  "vmManager op env =
     (let ref = vm_ref; spec = (\<lambda>oc. spec_VictoriaMetrics (oc_Spec oc));
          disabled = (\<lambda>oc. ds_Disable (fst ref oc) \<or> \<not> in_versions AllVersions oc)
      in (base_factory VictoriaMetricsComponentType AllVersions)
        \<lparr>fc_IsDisabled := disabled,
         fc_PhaseControl := \<lambda>oc zone. Some (TSDBEndpoint VictoriaMetricsComponentType ServiceNameVictoriaMetrics ServiceTypeVictoriaMetrics VictoriaMetricsPort []),
         fc_DeploymentStatus := \<lambda>zone. status_ptr st_VictoriaMetrics_update,
         fc_Service := \<lambda>oc cfg zone. service_ports VictoriaMetricsComponentType oc (vms_Service (spec oc)) VictoriaMetricsPort (0 < ds_SlaveReplicas (fst ref oc)),
         fc_PVC := \<lambda>oc zone. some_claim (newPVC op VictoriaMetricsComponentType oc (vms_StatefulDeploymentSpec (spec oc))),
         fc_Deployment := \<lambda>cfg zone. some_ret (vm_deployment op env),
         fc_McclientSync := \<lambda>oc. catalogue_sync ServiceNameVictoriaMetrics (disabled oc) False,
         fc_share := share_annotations ref\<rparr>)"

end
