(* ===== verification/Managers_Agents.thy ===== *)
theory Managers_Agents
  imports Managers_More
begin

text \<open>
  The managers of glance, of the agents that run once per zone (esxi, baremetal) and of the service
  operator (\<open>pkg/manager/component/*.go\<close>). Labels that a manager adds to the
  map of a deployment it has just built appear in the object, its selector and its template, which share
  the map; a node selector taken from the specification is the map of the specification.
\<close>

section \<open>Changes to an object just built\<close>

definition with_label :: "string \<Rightarrow> string \<Rightarrow> Deployment \<Rightarrow> Deployment" where
  "with_label k v d = d\<lparr>dep_meta := om_Labels_update (gomap_set k v) (dep_meta d),
     dep_Spec := (dep_Spec d)\<lparr>dsp_Selector := map_option (gomap_set k v) (dsp_Selector (dep_Spec d)),
       dsp_Template := pt_Labels_update (gomap_set k v) (dsp_Template (dep_Spec d))\<rparr>\<rparr>"

definition pod_update :: "(PodSpec \<Rightarrow> PodSpec) \<Rightarrow> Deployment \<Rightarrow> Deployment" where
  "pod_update f = dep_Spec_update (dsp_Template_update (pt_Spec_update f))"

definition first_container :: "(Container \<Rightarrow> Container) \<Rightarrow> PodSpec \<Rightarrow> PodSpec" where
  "first_container f = ps_Containers_update (\<lambda>cs. case cs of [] \<Rightarrow> [] | c # rest \<Rightarrow> f c # rest)"

definition privileged :: "SecurityContext option" where
  "privileged = Some \<lparr>sc_Privileged = Some True, sc_AddCapabilities = []\<rparr>"

definition add_first_volumes :: "(Volume \<times> VolumeMount) list \<Rightarrow> Deployment \<Rightarrow> Deployment" where
  "add_first_volumes vms = pod_update (\<lambda>pod.
     first_container (ct_VolumeMounts_update (\<lambda>ms. ms @ map snd vms)) (ps_Volumes_update (\<lambda>vs. vs @ map fst vms) pod))"

definition opt_cloud :: "Volume \<times> VolumeMount" where
  "opt_cloud = (host_volume ''opt-cloud'' ''/opt/cloud'' HostPathDirectoryOrCreate, shared_mount ''opt-cloud'' ''/opt/cloud'')"

definition host_dir :: "string \<Rightarrow> string \<Rightarrow> Volume \<times> VolumeMount" where
  "host_dir name pth = (host_volume name pth HostPathDirectory, rw_mount name pth)"

definition pod_node_selector :: "DeploymentSpec ref_oc \<Rightarrow> string \<Rightarrow> string \<Rightarrow> Deployment \<Rightarrow> Deployment km" where
  "pod_node_selector ref k v d =
     seq (guarded (ps_NodeSelector (pt_Spec (dsp_Template (dep_Spec d))) \<noteq> None) (write_ref ref (ds_NodeSelector_update (gomap_set k v))))
         (ret (pod_update (ps_NodeSelector_update (gomap_set k v)) d))"

text \<open>The last mount and the last volume are those of the configuration file.\<close>

fun map_last :: "('a \<Rightarrow> 'a) \<Rightarrow> 'a list \<Rightarrow> 'a list" where
  "map_last f [] = []"
| "map_last f [x] = [f x]"
| "map_last f (x # y # zs) = x # map_last f (y # zs)"

fun set_item_path :: "string \<Rightarrow> VolumeSource \<Rightarrow> VolumeSource" where
  "set_item_path p (VolConfigMap n ((k, _) # items)) = VolConfigMap n ((k, p) # items)"
| "set_item_path p v = v"

definition config_file_name :: "string \<Rightarrow> Deployment \<Rightarrow> Deployment" where
  "config_file_name p = pod_update (ps_Volumes_update (map_last (vol_Source_update (set_item_path p))))"

section \<open>Rewriting old configuration files\<close>

text \<open>
  \<open>customConfig\<close> of glance and esxi: an old file whose value for the socket of the deploy server (and, for
  glance, whose remote executor) is outdated is written again with the values corrected; any other old
  file is kept.
\<close>

definition opt_str :: "svc_options \<Rightarrow> string \<Rightarrow> string option" where
  "opt_str d k = (case map_of d k of Some (OStr s) \<Rightarrow> Some s | _ \<Rightarrow> None)"

definition correct_socket :: "options \<Rightarrow> svc_options \<Rightarrow> svc_options \<times> bool" where
  "correct_socket op d =
     (case opt_str d ''deploy_server_socket_path'' of
        None \<Rightarrow> (d, False)
      | Some p \<Rightarrow> (if p \<noteq> op_DeployServerSocketPath op
                   then (AList.update ''deploy_server_socket_path'' (OStr (op_DeployServerSocketPath op)) d, True) else (d, False)))"

definition correct_executor :: "OnecloudCluster \<Rightarrow> svc_options \<Rightarrow> svc_options \<times> bool" where
  "correct_executor oc d =
     (if map_of d ''enable_remote_executor'' = Some (OBool True) \<and> spec_ProductVersion (oc_Spec oc) = ProductVersionCMP
      then (AList.update ''enable_remote_executor'' (OBool False) d, True) else (d, False))"

definition customConfig ::
  "options \<Rightarrow> kube_env \<Rightarrow> string \<Rightarrow> string \<Rightarrow> (svc_options \<Rightarrow> svc_options \<times> bool) \<Rightarrow> ConfigMap \<Rightarrow> (ConfigMap option \<times> bool) km" where
  "customConfig op env cType zone correct newCfg =
     andthen (gets kw_oc) (\<lambda>oc.
     let name = ComponentConfigMapName oc (getZoneComponent cType zone)
     in andthen (attempt (kcall (KLister ConfigMapKind name) (\<lambda>h. ke_listConfigMap env h name))) (\<lambda>r. case r of
          Inl e \<Rightarrow> (if is_not_found e then ret (Some newCfg, False) else fail e)
        | Inr old \<Rightarrow> (case gomap_get (cm_Data old) ''config'' of
             None \<Rightarrow> ret (Some newCfg, False)
           | Some oldConfigStr \<Rightarrow>
               andthen (of_sum (op_parseYAML op oldConfigStr)) (\<lambda>d. case correct d of
                 (d', True) \<Rightarrow> ret (Some (newConfigMap cType zone oc (op_YAMLString op d')), True)
               | (_, False) \<Rightarrow> ret (Some newCfg, False)))))"

section \<open>Glance\<close>

definition GlanceFileStoreDir :: string where
  "GlanceFileStoreDir = path_Join [GlanceDataStore, ''images'']"

definition glance_GetConfig :: "options \<Rightarrow> OnecloudClusterConfig \<Rightarrow> svc_options km" where
  "glance_GetConfig op cfg =
     andthen (gets kw_oc) (\<lambda>oc.
     seq (SetOptionsDefault op ServiceTypeGlance)
    (let config = gc_ServiceDBCommonOptions (cfg_Glance cfg); pv = spec_ProductVersion (oc_Spec oc) in ret
       (db_options oc (gs_DbEngine (spec_Glance (oc_Spec oc))) (sdo_DB config)
        @ SetClickhouseOptions (spec_Clickhouse (oc_Spec oc)) (sdo_ClickhouseConf config)
        @ SetOptionsServiceTLS False
        @ SetServiceCommonOptions oc (sdo_ServiceCommonOptions config) (cfg_CommonConfig cfg)
        @ [(''FilesystemStoreDatadir'', OStr GlanceFileStoreDir), (''EnableTorrentService'', OBool False),
           (''AutoSyncTable'', OBool True), (''Port'', OInt (sdo_Port config))]
        @ (if pv = ProductVersionCMP then [(''EnableRemoteExecutor'', OBool False), (''TargetImageFormats'', OStrs [''qcow2'', ''vmdk''])]
           else if pv = ProductVersionBaremetal then [(''EnableRemoteExecutor'', OBool False)]
           else [(''EnableRemoteExecutor'', OBool True)]))))"

definition glance_ref :: "DeploymentSpec ref_oc" where
  "glance_ref = stateful_ref spec_Glance spec_Glance_update gs_StatefulDeploymentSpec gs_StatefulDeploymentSpec_update"

definition glance_ConfigMap :: "options \<Rightarrow> kube_env \<Rightarrow> OnecloudClusterConfig \<Rightarrow> (ConfigMap option \<times> bool) km" where
  "glance_ConfigMap op env cfg =
     andthen (glance_GetConfig op cfg) (\<lambda>opt.
     andthen (gets kw_oc) (\<lambda>oc.
     let s3 = gs_SwitchToS3 (spec_Glance (oc_Spec oc))
     in seq (guarded s3 (map_err (Wrapped ''setS3Config'') (kcallE KGlanceS3 (ke_glanceS3 env))))
       (andthen (newServiceConfigMap op GlanceComponentType [] ServiceTypeGlance
                   (opt @ (if s3 then [(''StorageDriver'', OStr ''s3'')] else []))) (\<lambda>newCfg.
        customConfig op env GlanceComponentType []
          (\<lambda>d. let (d1, b1) = correct_socket op d; (d2, b2) = correct_executor oc d1 in (d2, b1 \<or> b2)) newCfg))))"

definition glance_PVC :: "options \<Rightarrow> OnecloudCluster \<Rightarrow> (goerr + PersistentVolumeClaim option) option" where
  "glance_PVC op oc =
     some_claim (map_option (\<lambda>r. case r of Inl e \<Rightarrow> Inl e | Inr pvc \<Rightarrow>
         Inr (pvc\<lparr>pvc_meta := om_Annotations_update (gomap_set SpecifiedPresistentVolumePath GlanceDataStore) (pvc_meta pvc)\<rparr>))
       (newPVC op GlanceComponentType oc (gs_StatefulDeploymentSpec (spec_Glance (oc_Spec oc)))))"

definition glance_deployment :: "options \<Rightarrow> kube_env \<Rightarrow> Deployment km" where
  "glance_deployment op env =
     andthen (newCloudServiceSinglePortDeploymentWithReadinessProbePath op env GlanceComponentType [] glance_ref GlanceAPIPort True False ''/ping'') (\<lambda>deploy.
     andthen (gets kw_oc) (\<lambda>oc.
     let spec = spec_Glance (oc_Spec oc); storageClass = sds_StorageClassName (gs_StatefulDeploymentSpec spec);
         pvc = \<not> gs_SwitchToS3 spec;
         d1 = pod_update (first_container (ct_SecurityContext_update (\<lambda>_. privileged))) deploy;
         d2 = (if storageClass \<noteq> DefaultStorageClass then recreate d1 else d1);
         d3 = (if pvc \<and> storageClass = DefaultStorageClass then removeDeploymentAffinity d2 else d2);
         vols = [opt_cloud]
           @ (if pvc then [(pvc_volume ''data'' (newPvcName (om_Name (oc_ObjectMeta oc)) storageClass GlanceComponentType), rw_mount ''data'' ''/data'')] else [])
           @ [host_dir ''run'' ''/var/run'', host_dir ''dev'' ''/dev'']
     in ret (with_label OnecloudHostDeployerLabelKey [] (add_first_volumes vols d3))))"

definition glanceManager :: "options \<Rightarrow> kube_env \<Rightarrow> factory" where
  "glanceManager op env =
     (let ref = glance_ref; slaves = (\<lambda>oc. 0 < ds_SlaveReplicas (fst ref oc)); config = (\<lambda>cfg. gc_ServiceDBCommonOptions (cfg_Glance cfg));
          disabled = (\<lambda>oc. ds_Disable (fst ref oc) \<or> \<not> in_versions AllVersions oc)
      in (base_factory GlanceComponentType AllVersions)
        \<lparr>fc_IsDisabled := disabled,
         fc_DBConfig := \<lambda>cfg. Some (sdo_DB (config cfg)),
         fc_DBEngine := \<lambda>oc. GetDbEngine (oc_Spec oc) (gs_DbEngine (spec_Glance (oc_Spec oc))),
         fc_ClickhouseConfig := \<lambda>cfg. Some (sdo_ClickhouseConf (config cfg)),
         fc_CloudUser := \<lambda>cfg. Some (sdo_CloudUser (config cfg)),
         fc_PhaseControl := \<lambda>oc zone. Some GlancePhase,
         fc_DeploymentStatus := \<lambda>zone. status_ptr (\<lambda>f. st_Glance_update (gst_DeploymentStatus_update f)),
         fc_Service := \<lambda>oc cfg zone. service_ports GlanceComponentType oc (gs_Service (spec_Glance (oc_Spec oc))) (sdo_Port (config cfg)) (slaves oc),
         fc_PVC := \<lambda>oc zone. glance_PVC op oc,
         fc_ConfigMap := \<lambda>cfg zone. glance_ConfigMap op env cfg,
         fc_Deployment := \<lambda>cfg zone. some_ret (glance_deployment op env),
         fc_supportsReadOnlyService := True,
         fc_ReadonlyDeployment := \<lambda>oc cfg zone deploy. Some (genReadonlyDeployment GlanceComponentType oc deploy (fst ref oc)),
         fc_McclientSync := \<lambda>oc. catalogue_sync ServiceNameGlance (disabled oc) (slaves oc),
         fc_share := share_annotations ref\<rparr>)"

section \<open>Agents that run once per zone\<close>

definition zone_ref ::
  "(OnecloudClusterSpec \<Rightarrow> ZoneStatefulDeploymentSpec)
     \<Rightarrow> ((ZoneStatefulDeploymentSpec \<Rightarrow> ZoneStatefulDeploymentSpec) \<Rightarrow> OnecloudClusterSpec \<Rightarrow> OnecloudClusterSpec) \<Rightarrow> DeploymentSpec ref_oc" where
  "zone_ref rd wr = stateful_ref rd wr zds_StatefulDeploymentSpec zds_StatefulDeploymentSpec_update"

text \<open>
  The status of the agent of another zone is kept in a map from the name of the zone, with an entry made
  at the first access.
\<close>

definition zone_status :: "string \<Rightarrow> (DeploymentStatus \<Rightarrow> DeploymentStatus) \<Rightarrow> (string \<times> DeploymentStatus) list \<Rightarrow> (string \<times> DeploymentStatus) list" where
  "zone_status zone f m =
     AList.update zone (f (case map_of m zone of Some st \<Rightarrow> st | None \<Rightarrow> zero_DeploymentStatus)) m"

definition esxi_GetConfig :: "options \<Rightarrow> OnecloudClusterConfig \<Rightarrow> svc_options km" where
  "esxi_GetConfig op cfg =
     andthen (gets kw_oc) (\<lambda>oc.
     seq (SetOptionsDefault op [])
         (ret ([(''Zone'', OStr (GetZone oc [])), (''ListenInterface'', OStr ''eth0'')] @ SetOptionsServiceTLS False
            @ SetServiceCommonOptions oc (ec_ServiceCommonOptions (cfg_EsxiAgent cfg)) (cfg_CommonConfig cfg)
            @ [(''Port'', OInt EsxiAgentPort)])))"

definition esxi_ref :: "DeploymentSpec ref_oc" where
  "esxi_ref = zone_ref spec_EsxiAgent spec_EsxiAgent_update"

definition esxi_ConfigMap :: "options \<Rightarrow> kube_env \<Rightarrow> OnecloudClusterConfig \<Rightarrow> string \<Rightarrow> (ConfigMap option \<times> bool) km" where
  "esxi_ConfigMap op env cfg zone =
     andthen (esxi_GetConfig op cfg) (\<lambda>opt.
     andthen (gets kw_oc) (\<lambda>oc.
     andthen (newServiceConfigMap op EsxiAgentComponentType zone [] (opt @ [(''Zone'', OStr (GetZone oc zone))])) (\<lambda>newCfg.
     customConfig op env EsxiAgentComponentType zone (correct_socket op) newCfg)))"

text \<open>\<open>kubernetes.io/arch\<close> is the stable label of the architecture.\<close>

definition LabelArchStable :: string where
  "LabelArchStable = ''kubernetes.io/arch''"

definition esxi_deployment :: "options \<Rightarrow> kube_env \<Rightarrow> string \<Rightarrow> Deployment km" where
  "esxi_deployment op env zone =
     andthen (newCloudServiceSinglePortDeployment op env EsxiAgentComponentType (getZoneComponent EsxiAgentComponentType zone) esxi_ref
                EsxiAgentPort False False) (\<lambda>dm.
     andthen (gets kw_oc) (\<lambda>oc.
     let d1 = pod_update (first_container (ct_SecurityContext_update (\<lambda>_. privileged))) dm;
         d2 = (if sds_StorageClassName (zds_StatefulDeploymentSpec (spec_EsxiAgent (oc_Spec oc))) \<noteq> DefaultStorageClass then recreate d1 else d1);
         d3 = add_first_volumes [opt_cloud, host_dir ''run'' ''/var/run''] d2
     in andthen (pod_node_selector esxi_ref LabelArchStable ''amd64'' d3) (\<lambda>d4.
        setSelfAntiAffnity esxi_ref EsxiAgentComponentType (with_label OnecloudHostDeployerLabelKey [] d4))))"

definition esxiManager :: "options \<Rightarrow> kube_env \<Rightarrow> factory" where
  "esxiManager op env =
     (let versions = [ProductVersionFullStack, ProductVersionCMP, ProductVersionEdge]
      in (base_factory EsxiAgentComponentType versions)
        \<lparr>fc_IsDisabled := \<lambda>oc. ds_Disable (fst esxi_ref oc) \<or> \<not> in_versions versions oc,
         fc_CloudUser := \<lambda>cfg. Some (sco_CloudUser (ec_ServiceCommonOptions (cfg_EsxiAgent cfg))),
         fc_DeploymentStatus := \<lambda>zone. Some (\<lambda>f. oc_Status_update (st_EsxiAgent_update
            (if zone = [] then eas_DeploymentStatus_update f else eas_ZoneEsxiAgent_update (zone_status zone f)))),
         fc_ConfigMap := \<lambda>cfg zone. esxi_ConfigMap op env cfg zone,
         fc_Deployment := \<lambda>cfg zone. some_ret (esxi_deployment op env zone),
         fc_share := share_annotations esxi_ref\<rparr>)"

definition esxi_Sync :: "options \<Rightarrow> kube_env \<Rightarrow> unit km" where
  "esxi_Sync op env =
     andthen (gets (\<lambda>w. zds_Zones (spec_EsxiAgent (oc_Spec (kw_oc w))))) (\<lambda>zones. multiZoneSync op env zones (esxiManager op env))"

definition baremetal_GetConfig :: "options \<Rightarrow> OnecloudClusterConfig \<Rightarrow> svc_options km" where
  "baremetal_GetConfig op cfg =
     andthen (gets kw_oc) (\<lambda>oc.
     seq (SetOptionsDefault op [])
         (ret ([(''Zone'', OStr (GetZone oc []))] @ SetOptionsServiceTLS False
            @ SetServiceCommonOptions oc (bc_ServiceCommonOptions (cfg_BaremetalAgent cfg)) (cfg_CommonConfig cfg)
            @ [(''Port'', OInt BaremetalPort), (''AutoRegisterBaremetal'', OBool False), (''LinuxDefaultRootUser'', OBool True),
               (''DefaultIpmiPassword'', OStr ''YunionDev@123'')]
            @ (if spec_ProductVersion (oc_Spec oc) = ProductVersionBaremetal then [(''ListenInterface'', OStr ''eth0'')] else []))))"

definition baremetal_ref :: "DeploymentSpec ref_oc" where
  "baremetal_ref = zone_ref spec_BaremetalAgent spec_BaremetalAgent_update"

definition newBaremetalVolHelper :: "OnecloudCluster \<Rightarrow> string \<Rightarrow> string \<Rightarrow> VolumeHelper" where
  "newBaremetalVolHelper oc optCfgMap component =
     add_volumes [pvc_volume ''opt'' (newPvcName (om_Name (oc_ObjectMeta oc))
                    (sds_StorageClassName (zds_StatefulDeploymentSpec (spec_BaremetalAgent (oc_Spec oc)))) component)]
       [rw_mount ''opt'' BaremetalDataStore] (NewVolumeHelper oc optCfgMap BaremetalAgentComponentType)"

text \<open>Without a node labelled for bare metal there is nothing to run: the replicas in the specification become zero.\<close>

definition updateBaremetalSpecByNodeInfo :: "kube_env \<Rightarrow> unit km" where
  "updateBaremetalSpecByNodeInfo env =
     andthen (kcall KNode (ke_listBaremetalNodes env)) (\<lambda>nodes.
     guarded (nodes = []) (write_ref baremetal_ref (ds_Replicas_update (\<lambda>_. 0))))"

definition baremetal_deployment :: "options \<Rightarrow> kube_env \<Rightarrow> string \<Rightarrow> Deployment km" where
  "baremetal_deployment op env zone =
     seq (updateBaremetalSpecByNodeInfo env)
    (andthen (gets kw_oc) (\<lambda>oc.
     let cType = BaremetalAgentComponentType; zct = getZoneComponent cType zone;
         spec = zds_StatefulDeploymentSpec (spec_BaremetalAgent (oc_Spec oc)); cs = ds_ContainerSpec (sds_DeploymentSpec spec)
     in andthen (newDefaultDeploymentNoInitWithoutCloudAffinity op env cType zct
                   (newBaremetalVolHelper oc (ComponentConfigMapName oc zct) zct) baremetal_ref True
                   (Some (\<lambda>volMounts. [(server_container cType (cs_Image cs) (cs_ImagePullPolicy cs) cType volMounts)
                            \<lparr>ct_SecurityContext := privileged\<rparr>]))) (\<lambda>dm.
        andthen (pod_node_selector baremetal_ref OnecloudEanbleBaremetalLabelKey ''enable''
                   (if sds_StorageClassName spec \<noteq> DefaultStorageClass then recreate dm else dm)) (\<lambda>dm'.
        setSelfAntiAffnity baremetal_ref cType dm'))))"

definition baremetalManager :: "options \<Rightarrow> kube_env \<Rightarrow> factory" where
  "baremetalManager op env =
     (let versions = [ProductVersionFullStack, ProductVersionEdge, ProductVersionBaremetal]
      in (base_factory BaremetalAgentComponentType versions)
        \<lparr>fc_IsDisabled := \<lambda>oc. ds_Disable (fst baremetal_ref oc) \<or> \<not> in_versions versions oc,
         fc_CloudUser := \<lambda>cfg. Some (sco_CloudUser (bc_ServiceCommonOptions (cfg_BaremetalAgent cfg))),
         fc_PhaseControl := \<lambda>oc zone. Some (RegisterService ServiceNameBaremetal ServiceTypeBaremetal),
         fc_DeploymentStatus := \<lambda>zone. Some (\<lambda>f. oc_Status_update (st_BaremetalAgent_update
            (if zone = [] then bas_DeploymentStatus_update f else bas_ZoneBaremetalAgent_update (zone_status zone f)))),
         fc_PVC := \<lambda>oc zone. some_claim (newPVC op (getZoneComponent BaremetalAgentComponentType zone) oc
            (zds_StatefulDeploymentSpec (spec_BaremetalAgent (oc_Spec oc)))),
         fc_ConfigMap := \<lambda>cfg zone. andthen (gets kw_oc) (\<lambda>oc.
            service_map op BaremetalAgentComponentType zone []
              (andthen (baremetal_GetConfig op cfg) (\<lambda>opt. ret (opt @ [(''Zone'', OStr (GetZone oc zone))])))),
         fc_Deployment := \<lambda>cfg zone. some_ret (baremetal_deployment op env zone),
         fc_share := share_annotations baremetal_ref\<rparr>)"

definition baremetal_Sync :: "options \<Rightarrow> kube_env \<Rightarrow> unit km" where
  "baremetal_Sync op env =
     andthen (gets (\<lambda>w. zds_Zones (spec_BaremetalAgent (oc_Spec (kw_oc w))))) (\<lambda>zones. multiZoneSync op env zones (baremetalManager op env))"

section \<open>Service operator\<close>

definition serviceOperator_labels :: "OnecloudCluster \<Rightarrow> strmap" where
  "serviceOperator_labels oc = AList.update ''control-plane'' ''controller-manager'' (getComponentLabel oc ServiceOperatorAdminUser False)"

definition serviceOperator_pod :: "options \<Rightarrow> OnecloudCluster \<Rightarrow> PodSpec" where
  "serviceOperator_pod op oc =
     (let spec = dps_DeploymentSpec (spec_ServiceOperator (oc_Spec oc)); cs = ds_ContainerSpec spec;
          c = zero_Container\<lparr>ct_Image := cs_Image cs, ct_ImagePullPolicy := cs_ImagePullPolicy cs\<rparr>
      in zero_PodSpec\<lparr>ps_NodeSelector := ds_NodeSelector spec, ps_RestartPolicy := ''Always'', ps_Tolerations := ds_Tolerations spec,
           ps_Volumes := [config_volume (ComponentConfigMapName oc ServiceOperatorComponentType) ''oro.conf''],
           ps_ServiceAccountName := ''onecloud-operator'',
           ps_Containers := [c\<lparr>ct_Name := ''manager'', ct_Command := [''/manager'', ''--config'', ConfigDir @ ''/oro.conf''],
                               ct_VolumeMounts := [ro_mount VolumeConfigName ConfigDir]\<rparr>],
           ps_InitContainers := [c\<lparr>ct_Name := ''init'', ct_Command := [''kubectl'', ''apply'', ''-f'', ''/etc/crds/'']\<rparr>],
           ps_Affinity := (if op_DisableNodeSelectorController op then None
                           else Some (empty_Affinity\<lparr>aff_NodeAffinity := Some (empty_NodeAffinity\<lparr>na_Required := Some controller_selector\<rparr>)\<rparr>))\<rparr>)"

definition serviceOperator_deployment :: "options \<Rightarrow> OnecloudCluster \<Rightarrow> Deployment" where
  "serviceOperator_deployment op oc =
     (let labels = serviceOperator_labels oc
      in \<lparr>dep_meta = getObjectMeta oc (NewClusterComponentName (om_Name (oc_ObjectMeta oc)) ServiceOperatorComponentType) labels,
          dep_Spec = \<lparr>dsp_Replicas = Some (ds_Replicas (dps_DeploymentSpec (spec_ServiceOperator (oc_Spec oc)))),
             dsp_Selector = Some (Some labels),
             dsp_Template = \<lparr>pt_Labels = Some labels, pt_Annotations = None, pt_Spec = serviceOperator_pod op oc\<rparr>, dsp_Strategy = []\<rparr>,
          dep_Status = zero_DeploymentStatus_apps\<rparr>)"

definition serviceOperator_service :: "CoreService \<Rightarrow> CoreService" where
  "serviceOperator_service svc =
     (let add = gomap_set ''control-plane'' ''controller-manager''
      in svc\<lparr>svc_meta := om_Labels_update add (svc_meta svc), svc_Spec := css_Selector_update add (svc_Spec svc)\<rparr>)"

definition serviceOperatorManager :: "options \<Rightarrow> kube_env \<Rightarrow> factory" where
  "serviceOperatorManager op env =
     (let versions = [ProductVersionFullStack, ProductVersionCMP, ProductVersionEdge]; spec = (\<lambda>oc. spec_ServiceOperator (oc_Spec oc));
          user = (\<lambda>cfg. sco_CloudUser (cfg_ServiceOperator cfg))
      in (base_factory ServiceOperatorComponentType versions)
        \<lparr>fc_IsDisabled := \<lambda>oc. ds_Disable (dps_DeploymentSpec (spec oc)) \<or> \<not> in_versions versions oc,
         fc_CloudUser := \<lambda>cfg. Some (user cfg),
         fc_Service := \<lambda>oc cfg zone. map serviceOperator_service (service_ports ServiceOperatorComponentType oc (dps_Service (spec oc))
            (sco_Port (cfg_ServiceOperator cfg)) (0 < ds_SlaveReplicas (dps_DeploymentSpec (spec oc)))),
         fc_ConfigMap := \<lambda>cfg zone. andthen (gets kw_oc) (\<lambda>oc. service_map op ServiceOperatorComponentType [] [] (ret
            [(''EnableWebhooks'', OBool False), (''APDense'', OBool True), (''SyncPeriod'', OInt 15), (''AuthURL'', OStr (GetAuthURL oc)),
             (''AdminUsername'', OStr (cu_Username (user cfg))), (''AdminPassword'', OStr (cu_Password (user cfg))),
             (''AdminProject'', OStr SysAdminProject), (''AdminDomain'', OStr DefaultDomain)])),
         fc_Deployment := \<lambda>cfg zone. gets (\<lambda>w. Some (serviceOperator_deployment op (kw_oc w)))\<rparr>)"

end
