(* ===== verification/Managers_Web.thy ===== *)
theory Managers_Web
  imports Managers_Agents
begin

text \<open>
  The managers of the web front end and of itsm (\<open>pkg/manager/component/web.go\<close>, \<open>itsm.go\<close>, and \<open>GetConfig\<close> of
  \<open>pkg/service-init/component/web.go\<close>). Both write the text of a template, named by its constant; the value \<open>EditionConfig\<close> is
  the constant of the part of the front end's configuration that depends on the edition.
\<close>

section \<open>The web front end\<close>

definition web_ref :: "DeploymentSpec ref_oc" where
  "web_ref = (\<lambda>oc. ws_DeploymentSpec (spec_Web (oc_Spec oc)), \<lambda>f. oc_Spec_update (spec_Web_update (ws_DeploymentSpec_update f)))"

definition component_url :: "OnecloudCluster \<Rightarrow> string \<Rightarrow> int \<Rightarrow> string" where
  "component_url oc ct port = ''https://'' @ NewClusterComponentName (om_Name (oc_ObjectMeta oc)) ct @ '':'' @ show_int port"

definition web_config :: "OnecloudCluster \<Rightarrow> svc_options" where
  "web_config oc =
     [(''EditionConfig'', OStr (if IsEEOrESEEdition oc then ''EEConfig'' else ''CEConfig'')),
      (''WebconsoleURL'', OStr (component_url oc WebconsoleComponentType WebconsolePort)),
      (''APIGatewayWsURL'', OStr (component_url oc APIGatewayComponentType APIWebsocketPort)),
      (''APIGatewayURL'', OStr (component_url oc APIGatewayComponentType APIGatewayPort)),
      (''GlanceURL'', OStr (component_url oc GlanceComponentType GlanceAPIPort)),
      (''AiProxyURL'', OStr (component_url oc AiProxyComponentType AiProxyPort)),
      (''UseHTTP'', OBool (ws_UseHTTP (spec_Web (oc_Spec oc)))), (''EnableIPv6'', OBool (spec_IPv6Cluster (oc_Spec oc)))]"

definition web_Service :: "OnecloudCluster \<Rightarrow> CoreService list" where
  "web_Service oc =
     [newService WebComponentType oc ''ClusterIP''
        [cluster_port ''http'' 80, cluster_port ''https'' 443, cluster_port ''overview'' 8080, cluster_port ''docs'' 8081] False]"

definition web_Ingress :: "OnecloudCluster \<Rightarrow> Unstructured" where
  "web_Ingress oc =
     (let svcName = NewClusterComponentName (om_Name (oc_ObjectMeta oc)) WebComponentType;
          useHTTP = ws_UseHTTP (spec_Web (oc_Spec oc));
          meta = getObjectMeta oc svcName (getComponentLabel oc WebComponentType False)
      in \<lparr>un_meta = om_Annotations_update (gomap_set ''nginx.ingress.kubernetes.io/backend-protocol'' (if useHTTP then ''HTTP'' else ''HTTPS'')) meta,
          un_Spec = Inr (Some (ingress_spec (ClustercertSecretName oc) ''/'' svcName (if useHTTP then 80 else 443)))\<rparr>)"

text \<open>The last mount, that of the configuration, moves to the directory of nginx.\<close>

definition web_containers :: "OnecloudCluster \<Rightarrow> containers_factory" where
  "web_containers oc = (\<lambda>mounts.
     let volMounts = map_last (vm_MountPath_update (\<lambda>_. ''/etc/nginx/conf.d'')) mounts; spec = spec_Web (oc_Spec oc);
         container = (\<lambda>name cs port. zero_Container\<lparr>ct_Name := name, ct_Image := cs_Image cs, ct_ImagePullPolicy := cs_ImagePullPolicy cs,
           ct_Ports := [tcp_port name port], ct_VolumeMounts := volMounts\<rparr>)
     in (container ''web'' (ds_ContainerSpec (ws_DeploymentSpec spec)) 80)\<lparr>ct_Command := [''nginx'', ''-g'', ''daemon off;'']\<rparr>
        # (if IsEnterpriseEdition oc then [container ''overview'' (ws_Overview spec) 8080, container ''docs'' (ws_Docs spec) 8081] else []))"

definition web_deployment :: "options \<Rightarrow> kube_env \<Rightarrow> Deployment km" where
  "web_deployment op env =
     andthen (gets kw_oc) (\<lambda>oc.
     andthen (newDefaultDeploymentNoInit op env WebComponentType [] (config_helper oc WebComponentType) web_ref (Some (web_containers oc))) (\<lambda>deploy.
     ret (config_file_name ''default.conf'' deploy)))"

text \<open>
  \<open>updateIngress\<close> looks for paths that \<open>addIngressPaths\<close> no longer adds: the ingress comes back as it was. A path without a
  text, on which the code panics, is not modelled.
\<close>

definition webManager :: "options \<Rightarrow> kube_env \<Rightarrow> factory" where
  "webManager op env =
     (base_factory WebComponentType AllVersions)
       \<lparr>fc_IsDisabled := \<lambda>oc. ds_Disable (fst web_ref oc) \<or> \<not> in_versions AllVersions oc,
        fc_DeploymentStatus := \<lambda>zone. status_ptr st_Web_update,
        fc_Service := \<lambda>oc cfg zone. web_Service oc,
        fc_Ingress := \<lambda>oc zone. Some (web_Ingress oc),
        fc_updateIngress := \<lambda>oc ing. Some ing,
        fc_ConfigMap := \<lambda>cfg zone. andthen (gets kw_oc) (\<lambda>oc. template_map op WebComponentType ''WebNginxConfigTemplate'' (web_config oc)),
        fc_Deployment := \<lambda>cfg zone. some_ret (web_deployment op env),
        fc_share := share_annotations web_ref\<rparr>"

definition web_Sync :: "options \<Rightarrow> kube_env \<Rightarrow> unit km" where
  "web_Sync op env =
     andthen (gets kw_oc) (\<lambda>oc.
     seq (guarded (cs_ImageName (ds_ContainerSpec (fst web_ref oc)) = [])
           (write_ref web_ref (ds_ContainerSpec_update (cs_ImageName_update (\<lambda>_. if IsEEOrESEEdition oc then WebEEImageName else WebCEImageName)))))
         (syncComponent op env (webManager op env) []))"

section \<open>Itsm\<close>

definition NewJavaBaseConfig :: "OnecloudCluster \<Rightarrow> int \<Rightarrow> string \<Rightarrow> string \<Rightarrow> svc_options" where
  "NewJavaBaseConfig oc port user passwd =
     [(''AuthURL'', OStr (GetAuthURL oc)), (''AuthProject'', OStr SysAdminProject), (''AuthDomain'', OStr DefaultDomain),
      (''AuthUsername'', OStr user), (''AuthPassword'', OStr passwd), (''Region'', OStr (spec_Region (oc_Spec oc))), (''Port'', OInt port)]"

definition NewJavaDBConfig :: "OnecloudCluster \<Rightarrow> ServiceDBCommonOptions \<Rightarrow> svc_options" where
  "NewJavaDBConfig oc config =
     (let my = spec_Mysql (oc_Spec oc); user = sdo_CloudUser config; db = sdo_DB config
      in NewJavaBaseConfig oc (sdo_Port config) (cu_Username user) (cu_Password user)
         @ [(''DBHost'', OStr (FormatHost (my_Host my))), (''DBPort'', OInt (my_Port my)), (''DB'', OStr (dbc_Database db)),
            (''DBUser'', OStr (dbc_Username db)), (''DBPassowrd'', OStr (dbc_Password db))])"

definition itsm_ConfigMap :: "options \<Rightarrow> OnecloudClusterConfig \<Rightarrow> (ConfigMap option \<times> bool) km" where
  "itsm_ConfigMap op cfg =
     andthen (gets kw_oc) (\<lambda>oc.
     let config = cfg_Itsm cfg
     in template_map op ItsmComponentType ''ItsmTemplate''
          (NewJavaDBConfig oc (ic_ServiceDBCommonOptions config)
           @ [(''DB2nd'', OStr (ic_SecondDatabase config)), (''EncryptionKey'', OStr (ic_EncryptionKey config))]))"

definition itsm_ref :: "DeploymentSpec ref_oc" where
  "itsm_ref = port_ref spec_Itsm spec_Itsm_update"

definition SetJavaConfigVolumeMounts :: "VolumeMount list \<Rightarrow> VolumeMount list" where
  "SetJavaConfigVolumeMounts volMounts = map_last (vm_MountPath_update (\<lambda>_. ''/deployments/config'')) volMounts"

definition itsm_containers :: "OnecloudCluster \<Rightarrow> containers_factory" where
  "itsm_containers oc = (\<lambda>volMounts.
     let cs = ds_ContainerSpec (dps_DeploymentSpec (spec_Itsm (oc_Spec oc)))
     in [zero_Container\<lparr>ct_Name := ''itsm'', ct_Image := cs_Image cs, ct_ImagePullPolicy := cs_ImagePullPolicy cs,
           ct_Env := [EnvValue ''JAVA_APP_JAR'' ''itsm.jar'', EnvValue ''JAVA_OPTIONS'' ''-Xms1024M -Xmx1024M''],
           ct_VolumeMounts := SetJavaConfigVolumeMounts volMounts\<rparr>])"

definition itsm_deployment :: "options \<Rightarrow> kube_env \<Rightarrow> Deployment km" where
  "itsm_deployment op env =
     andthen (gets kw_oc) (\<lambda>oc.
     andthen (newDefaultDeploymentNoInit op env ItsmComponentType [] (config_helper oc ItsmComponentType) itsm_ref (Some (itsm_containers oc))) (\<lambda>deploy.
     ret (config_file_name ''application.properties'' deploy)))"

text \<open>The database that is ensured is the second one: the first is made by the connection URL.\<close>

definition itsmManager :: "options \<Rightarrow> kube_env \<Rightarrow> factory" where
  "itsmManager op env =
     (let versions = [ProductVersionFullStack, ProductVersionCMP, ProductVersionEdge];
          config = (\<lambda>cfg. ic_ServiceDBCommonOptions (cfg_Itsm cfg)); spec = (\<lambda>oc. spec_Itsm (oc_Spec oc));
          disabled = (\<lambda>oc. ds_Disable (fst itsm_ref oc) \<or> \<not> IsEnterpriseEdition oc \<or> \<not> in_versions versions oc)
      in (base_factory ItsmComponentType versions)
        \<lparr>fc_IsDisabled := disabled,
         fc_DBConfig := \<lambda>cfg. Some ((sdo_DB (config cfg))\<lparr>dbc_Database := ic_SecondDatabase (cfg_Itsm cfg)\<rparr>),
         fc_DBEngine := \<lambda>oc. DBEngineMySQL,
         fc_CloudUser := \<lambda>cfg. Some (sdo_CloudUser (config cfg)),
         fc_PhaseControl := \<lambda>oc zone. Some (ItsmEndpoint ItsmComponentType ServiceNameItsm ServiceTypeItsm
            (sps_NodePort (ss_ServicePortSpec (dps_Service (spec oc)))) []),
         fc_DeploymentStatus := \<lambda>zone. status_ptr st_Itsm_update,
         fc_Service := \<lambda>oc cfg zone. service_ports ItsmComponentType oc (dps_Service (spec oc)) (sdo_Port (config cfg))
            (0 < ds_SlaveReplicas (fst itsm_ref oc)),
         fc_ConfigMap := \<lambda>cfg zone. itsm_ConfigMap op cfg,
         fc_Deployment := \<lambda>cfg zone. some_ret (itsm_deployment op env),
         fc_McclientSync := \<lambda>oc. catalogue_sync ServiceNameItsm (disabled oc) False,
         fc_share := share_annotations itsm_ref\<rparr>)"

end
