(* ===== verification/Manager_Laws.thy ===== *)
theory Manager_Laws
  imports Global_Settings Managers_Agents Managers_Web Workload_Laws
begin

text \<open>
  What holds of every manager: the endpoints that a component registers in the service catalogue are addresses of the
  services that its manager makes, and the configuration file names the accounts, the database engine and the port that the
  operator has set up for it.
\<close>

named_theorems manager_simps \<open>evaluation of the managers\<close>

lemmas [manager_simps] = Let_def base_factory_def catalogue_sync_def node_port_of_def

section \<open>Registered endpoints\<close>

text \<open>
  The endpoints of its own service that the set-up of a phase registers. Keystone, the time series databases, ECharts and
  the agents on the nodes register in other ways.
\<close>

fun phase_endpoints :: "OnecloudCluster \<Rightarrow> phase \<Rightarrow> endpoint list" where
  "phase_endpoints oc (RegisterEndpoint cType sname stype port path ssl) = service_endpoints oc cType port path True"
| "phase_endpoints oc (ItsmEndpoint cType sname stype port path) = service_endpoints oc cType port path False"
| "phase_endpoints oc KubeServerPhase = service_endpoints oc KubeServerComponentType (node_port_of (dps_Service (spec_KubeServer (oc_Spec oc)))) ''api'' True"
| "phase_endpoints oc RegionPhase =
     service_endpoints oc RegionComponentType (node_port_of (dps_Service (rs_DeploymentServicePortSpec (spec_RegionServer (oc_Spec oc))))) [] True"
| "phase_endpoints oc GlancePhase = service_endpoints oc GlanceComponentType (node_port_of (gs_Service (spec_Glance (oc_Spec oc)))) ''v1'' True"
| "phase_endpoints oc DevtoolPhase = service_endpoints oc DevtoolComponentType (node_port_of (dps_Service (spec_Devtool (oc_Spec oc)))) [] False"
| "phase_endpoints oc MonitorPhase = service_endpoints oc MonitorComponentType (node_port_of (dps_Service (spec_Monitor (oc_Spec oc)))) [] False"
| "phase_endpoints oc CloudproxyPhase = service_endpoints oc CloudproxyComponentType (node_port_of (dps_Service (spec_Cloudproxy (oc_Spec oc)))) [] False"
| "phase_endpoints oc ApigatewayPhase = service_endpoints oc APIGatewayComponentType (node_port_of (ags_APIService (spec_APIGateway (oc_Spec oc)))) [] False"
| "phase_endpoints oc LLMPhase = service_endpoints oc LLMComponentType (node_port_of (dps_Service (spec_LLM (oc_Spec oc)))) [] False"
| "phase_endpoints oc YunionconfPhase = service_endpoints oc YunionconfComponentType (node_port_of (dps_Service (spec_Yunionconf (oc_Spec oc)))) [] True"
| "phase_endpoints oc p = []"

lemma service_endpoints_not_Nil [simp]: "service_endpoints oc cType port path ro \<noteq> []"
  by (simp add: service_endpoints_def Let_def)

text \<open>
  The set-up hands these endpoints to the catalogue; only that of yunionconf goes on after it, with the agent's.
\<close>

lemma phase_Setup_registers:
  assumes "phase_endpoints oc p \<noteq> []"
  shows "\<exists>sname stype ssl. (\<forall>a s. se_oc s = oc \<longrightarrow> p \<noteq> YunionconfPhase \<longrightarrow>
        phase_Setup a p s = registerServiceEndpoints a sname stype (phase_endpoints oc p) ssl s)
    \<and> (\<forall>a s e w. se_oc s = oc \<longrightarrow> registerServiceEndpoints a sname stype (phase_endpoints oc p) ssl s = (Fail e, w) \<longrightarrow>
        (\<exists>e'. phase_Setup a p s = (Fail e', w)))
    \<and> (\<forall>a s. se_oc s = oc \<longrightarrow> fst (phase_Setup a p s) = Ret () \<longrightarrow>
        (\<exists>w. registerServiceEndpoints a sname stype (phase_endpoints oc p) ssl s = (Ret (), w)))"
proof (cases "p = YunionconfPhase")
  case True
  show ?thesis
    by (rule exI [of _ ServiceNameYunionConf], rule exI [of _ ServiceTypeYunionConf], rule exI [of _ True])
      (auto simp: True yunionconf_Setup_def RegisterCloudServiceEndpoint_def node_port_of_def seq_def andthen_def gets_def map_err_def
        split: prod.splits res.splits)
next
  case False
  then have "\<exists>sname stype ssl. \<forall>a s. se_oc s = oc \<longrightarrow> phase_Setup a p s = registerServiceEndpoints a sname stype (phase_endpoints oc p) ssl s"
    using assms by (cases p) (auto simp: RegisterCloudServiceEndpoint_def go_simps)
  then obtain sname stype ssl where eq:
    "\<forall>a s. se_oc s = oc \<longrightarrow> phase_Setup a p s = registerServiceEndpoints a sname stype (phase_endpoints oc p) ssl s" by blast
  show ?thesis by (rule exI [of _ sname], rule exI [of _ stype], rule exI [of _ ssl]) (auto simp: eq prod_eq_iff)
qed

definition internal_only :: "ServiceSpec \<Rightarrow> bool" where
  "internal_only svc = sps_InternalOnly (ss_ServicePortSpec svc)"

text \<open>
  A service of this name and port that selects the pods of the component, or of its read-only replicas; and one
  of the component that leads there from a port of every node.
\<close>

definition serves :: "OnecloudCluster \<Rightarrow> string \<Rightarrow> bool \<Rightarrow> string \<Rightarrow> int \<Rightarrow> CoreService list \<Rightarrow> bool" where
  "serves oc cType ro host port svcs \<longleftrightarrow>
     (\<exists>svc\<in>set svcs. om_Name (svc_meta svc) = host \<and> port \<in> sp_Port ` set (css_Ports (svc_Spec svc))
        \<and> css_Selector (svc_Spec svc) = Some (getComponentLabel oc cType ro))"

definition serves_on_nodes :: "OnecloudCluster \<Rightarrow> string \<Rightarrow> int \<Rightarrow> CoreService list \<Rightarrow> bool" where
  "serves_on_nodes oc cType port svcs \<longleftrightarrow>
     (\<exists>svc\<in>set svcs. css_Type (svc_Spec svc) = ''NodePort'' \<and> port \<in> sp_NodePort ` set (css_Ports (svc_Spec svc))
        \<and> css_Selector (svc_Spec svc) = Some (getComponentLabel oc cType False))"

text \<open>
  The contract of a manager with the service catalogue, for the service of the specification that it is made from: its phase
  registers this service's own name and port, the primary service exists under them, for the outside too unless the
  specification keeps it inside, and the replicas' service exists whenever the catalogue is told to enable their endpoint.
\<close>

locale cloud_service =
  fixes m :: factory and svc :: "OnecloudCluster \<Rightarrow> ServiceSpec"
  assumes phase: "\<exists>p path ro. fc_PhaseControl m oc zone = Some p
      \<and> phase_endpoints oc p = service_endpoints oc (fc_ComponentType m) (node_port_of (svc oc)) path ro"
    and primary: "serves oc (fc_ComponentType m) False (NewClusterComponentName (om_Name (oc_ObjectMeta oc)) (fc_ComponentType m))
      (int32 (node_port_of (svc oc))) (fc_Service m oc cfg zone)"
    and outside: "if internal_only (svc oc) then \<forall>s\<in>set (fc_Service m oc cfg zone). css_Type (svc_Spec s) = ''ClusterIP''
      else serves_on_nodes oc (fc_ComponentType m) (int32 (node_port_of (svc oc))) (fc_Service m oc cfg zone)"
    and replicas: "fc_McclientSync m oc = Some (EnsureEnable name True) \<Longrightarrow>
      serves oc (fc_ComponentType m) True (NewClusterComponentName (om_Name (oc_ObjectMeta oc)) (fc_ComponentType m) @ ''-slave'')
        (int32 (node_port_of (svc oc))) (fc_Service m oc cfg zone)"
begin

lemma reached:
  assumes "- 2147483648 \<le> node_port_of (svc oc)" "node_port_of (svc oc) < 2147483648"
    and "ep \<in> set (service_endpoints oc (fc_ComponentType m) (node_port_of (svc oc)) path ro)"
  shows "(ep_Interface ep = EndpointTypeInternal \<longrightarrow> serves oc (fc_ComponentType m) False (ep_Host ep) (ep_Port ep) (fc_Service m oc cfg zone))
    \<and> (ep_Interface ep = EndpointTypeSlave \<and> fc_McclientSync m oc = Some (EnsureEnable name True) \<longrightarrow>
         serves oc (fc_ComponentType m) True (ep_Host ep) (ep_Port ep) (fc_Service m oc cfg zone))
    \<and> (ep_Interface ep = EndpointTypePublic \<longrightarrow>
         (if spec_LoadBalancerEndpoint (oc_Spec oc) = []
          then serves oc (fc_ComponentType m) False (ep_Host ep) (ep_Port ep) (fc_Service m oc cfg zone)
          else ep_Host ep = spec_LoadBalancerEndpoint (oc_Spec oc)
            \<and> (if internal_only (svc oc) then \<forall>s\<in>set (fc_Service m oc cfg zone). css_Type (svc_Spec s) = ''ClusterIP''
               else serves_on_nodes oc (fc_ComponentType m) (ep_Port ep) (fc_Service m oc cfg zone))))"
  using assms(3) primary [of oc cfg zone] outside [of oc cfg zone] replicas [of oc name cfg zone]
  unfolding int32_id [OF assms(1,2)]
  by (auto simp: service_endpoints_def newPublicEndpoint_def newInternalEndpoint_def newSlaveEndpoint_def Let_def
      EndpointTypeInternal_def EndpointTypeSlave_def EndpointTypePublic_def split: if_splits)

end

lemma serves_node_port:
  "port \<in> sp_Port ` set ports \<Longrightarrow> serves oc cType False (NewClusterComponentName (om_Name (oc_ObjectMeta oc)) cType) port
     (newNodePortService cType oc internalOnly ports ro)"
  "port \<in> sp_Port ` set ports \<Longrightarrow> serves oc cType True (NewClusterComponentName (om_Name (oc_ObjectMeta oc)) cType @ ''-slave'') port
     (newNodePortService cType oc internalOnly ports True)"
  "port \<in> sp_NodePort ` set ports \<Longrightarrow> serves_on_nodes oc cType port (newNodePortService cType oc False ports ro)"
  "s \<in> set (newNodePortService cType oc True ports ro) \<Longrightarrow> css_Type (svc_Spec s) = ''ClusterIP''"
  by (auto simp: serves_def serves_on_nodes_def newNodePortService_def newService_def newServiceWithClusterIp_def getObjectMeta_def
      Let_def image_iff split: if_splits)

lemma serves_service_ports:
  "serves oc cType False (NewClusterComponentName (om_Name (oc_ObjectMeta oc)) cType) (int32 (node_port_of svc)) (service_ports cType oc svc target ro)"
  "serves oc cType True (NewClusterComponentName (om_Name (oc_ObjectMeta oc)) cType @ ''-slave'') (int32 (node_port_of svc)) (service_ports cType oc svc target True)"
  "if internal_only svc then \<forall>s\<in>set (service_ports cType oc svc target ro). css_Type (svc_Spec s) = ''ClusterIP''
   else serves_on_nodes oc cType (int32 (node_port_of svc)) (service_ports cType oc svc target ro)"
  unfolding service_ports_def newSinglePortService_def node_port_of_def
    by (rule serves_node_port, simp add: NewServiceNodePort_def)+
      (auto simp: internal_only_def NewServiceNodePort_def dest: serves_node_port(4) intro: serves_node_port(3))

lemma serves_traefik:
  "serves oc cType ro host port (map with_traefik_scheme svcs) = serves oc cType ro host port svcs"
  "serves_on_nodes oc cType port (map with_traefik_scheme svcs) = serves_on_nodes oc cType port svcs"
  "css_Type (svc_Spec (with_traefik_scheme s)) = css_Type (svc_Spec s)"
  by (auto simp: serves_def serves_on_nodes_def with_traefik_scheme_def)

lemma single_port_service:
  assumes "\<And>oc cfg zone. fc_Service m oc cfg zone = service_ports (fc_ComponentType m) oc (svc oc) (target cfg) (slaves oc)"
    and "\<And>oc zone. \<exists>p path ro. fc_PhaseControl m oc zone = Some p
           \<and> phase_endpoints oc p = service_endpoints oc (fc_ComponentType m) (node_port_of (svc oc)) path ro"
    and "\<And>oc name. fc_McclientSync m oc = Some (EnsureEnable name True) \<Longrightarrow> slaves oc"
  shows "cloud_service m svc"
proof
  show "\<exists>p path ro. fc_PhaseControl m oc zone = Some p
      \<and> phase_endpoints oc p = service_endpoints oc (fc_ComponentType m) (node_port_of (svc oc)) path ro" for oc zone
    by (rule assms(2))
  show "if internal_only (svc oc) then \<forall>s\<in>set (fc_Service m oc cfg zone). css_Type (svc_Spec s) = ''ClusterIP''
      else serves_on_nodes oc (fc_ComponentType m) (int32 (node_port_of (svc oc))) (fc_Service m oc cfg zone)" for oc cfg zone
    unfolding assms(1) by (rule serves_service_ports)
qed (use assms(3) in \<open>simp_all add: assms(1) serves_service_ports\<close>)

lemmas single_port_defs =
  schedulerManager_def scheduledtaskManager_def s3gatewayManager_def mcpServerManager_def yunoinconfManager_def loggerManager_def apiMapManager_def
  notifyManager_def cloudidManager_def kubeManager_def ansibleManager_def monitorManager_def devtoolManager_def llmManager_def bastionHostManager_def
  suggestionManager_def cloudnetManager_def vpcAgentManager_def billingManager_def cloudproxyManager_def cloudeventManager_def extdbManager_def
  reportManager_def autoUpdateManager_def

lemma single_port_managers:
  "cloud_service (schedulerManager op env) (\<lambda>oc. dps_Service (spec_Scheduler (oc_Spec oc)))"
  "cloud_service (scheduledtaskManager op env) (\<lambda>oc. dps_Service (spec_Scheduledtask (oc_Spec oc)))"
  "cloud_service (s3gatewayManager op env) (\<lambda>oc. dps_Service (spec_S3gateway (oc_Spec oc)))"
  "cloud_service (mcpServerManager op env) (\<lambda>oc. dps_Service (spec_McpServer (oc_Spec oc)))"
  "cloud_service (yunoinconfManager op env) (\<lambda>oc. dps_Service (spec_Yunionconf (oc_Spec oc)))"
  "cloud_service (loggerManager op env) (\<lambda>oc. dps_Service (spec_Logger (oc_Spec oc)))"
  "cloud_service (apiMapManager op env) (\<lambda>oc. dps_Service (spec_ApiMap (oc_Spec oc)))"
  "cloud_service (notifyManager op env) (\<lambda>oc. ns_Service (spec_Notify (oc_Spec oc)))"
  "cloud_service (cloudidManager op env) (\<lambda>oc. dps_Service (spec_CloudId (oc_Spec oc)))"
  "cloud_service (kubeManager op env) (\<lambda>oc. dps_Service (spec_KubeServer (oc_Spec oc)))"
  "cloud_service (ansibleManager op env) (\<lambda>oc. dps_Service (spec_AnsibleServer (oc_Spec oc)))"
  "cloud_service (monitorManager op env) (\<lambda>oc. dps_Service (spec_Monitor (oc_Spec oc)))"
  "cloud_service (devtoolManager op env) (\<lambda>oc. dps_Service (spec_Devtool (oc_Spec oc)))"
  "cloud_service (llmManager op env) (\<lambda>oc. dps_Service (spec_LLM (oc_Spec oc)))"
  "cloud_service (bastionHostManager op env) (\<lambda>oc. dps_Service (spec_BastionHost (oc_Spec oc)))"
  "cloud_service (suggestionManager op env) (\<lambda>oc. dps_Service (spec_Suggestion (oc_Spec oc)))"
  "cloud_service (cloudnetManager op env) (\<lambda>oc. dps_Service (spec_Cloudnet (oc_Spec oc)))"
  "cloud_service (vpcAgentManager op env) (\<lambda>oc. dps_Service (spec_VpcAgent (oc_Spec oc)))"
  "cloud_service (billingManager op env) (\<lambda>oc. dps_Service (spec_Billing (oc_Spec oc)))"
  "cloud_service (cloudproxyManager op env) (\<lambda>oc. dps_Service (spec_Cloudproxy (oc_Spec oc)))"
  "cloud_service (cloudeventManager op env) (\<lambda>oc. dps_Service (spec_Cloudevent (oc_Spec oc)))"
  "cloud_service (extdbManager op env) (\<lambda>oc. dps_Service (spec_Extdb (oc_Spec oc)))"
  "cloud_service (reportManager op env) (\<lambda>oc. dps_Service (spec_Report (oc_Spec oc)))"
  "cloud_service (autoUpdateManager op env) (\<lambda>oc. dps_Service (spec_AutoUpdate (oc_Spec oc)))"
  by (rule single_port_service, (simp add: single_port_defs manager_simps; fail), (simp add: single_port_defs manager_simps, blast),
      (auto simp: single_port_defs manager_simps split: if_splits; fail))+

lemmas more_port_defs = glanceManager_def meterManager_def webconsoleManager_def cloudmonManager_def itsmManager_def

lemma more_port_managers:
  "cloud_service (glanceManager op env) (\<lambda>oc. gs_Service (spec_Glance (oc_Spec oc)))"
  "cloud_service (meterManager op env) (\<lambda>oc. mts_Service (spec_Meter (oc_Spec oc)))"
  "cloud_service (webconsoleManager op env) (\<lambda>oc. dps_Service (wcs_DeploymentServicePortSpec (spec_Webconsole (oc_Spec oc))))"
  "cloud_service (cloudmonManager op env) (\<lambda>oc. cms_Service (spec_Cloudmon (oc_Spec oc)))"
  "cloud_service (itsmManager op env) (\<lambda>oc. dps_Service (spec_Itsm (oc_Spec oc)))"
  by (rule single_port_service, (simp add: more_port_defs manager_simps; fail), (simp add: more_port_defs manager_simps, blast),
      (auto simp: more_port_defs manager_simps split: if_splits; fail))+

text \<open>The service of aiproxy carries an annotation more, region and the API gateway list their ports themselves.\<close>

interpretation aiproxy: cloud_service "aiProxyManager op env" "\<lambda>oc. dps_Service (spec_AiProxy (oc_Spec oc))" for op env
proof
  fix oc :: OnecloudCluster and zone cfg
  let ?svc = "dps_Service (spec_AiProxy (oc_Spec oc))"
  show "\<exists>p path ro. fc_PhaseControl (aiProxyManager op env) oc zone = Some p
      \<and> phase_endpoints oc p = service_endpoints oc (fc_ComponentType (aiProxyManager op env)) (node_port_of ?svc) path ro"
    by (simp add: aiProxyManager_def manager_simps) blast
  show "if internal_only ?svc then \<forall>s\<in>set (fc_Service (aiProxyManager op env) oc cfg zone). css_Type (svc_Spec s) = ''ClusterIP''
      else serves_on_nodes oc (fc_ComponentType (aiProxyManager op env)) (int32 (node_port_of ?svc)) (fc_Service (aiProxyManager op env) oc cfg zone)"
    using serves_service_ports(3) [of ?svc AiProxyComponentType oc]
    by (simp add: aiProxyManager_def Let_def base_factory_def serves_traefik split: if_splits)
qed (auto simp: aiProxyManager_def Let_def base_factory_def catalogue_sync_def serves_traefik serves_service_ports split: if_splits)

interpretation region_server: cloud_service "regionManager op env"
    "\<lambda>oc. dps_Service (rs_DeploymentServicePortSpec (spec_RegionServer (oc_Spec oc)))" for op env
proof
  show "\<exists>p path ro. fc_PhaseControl (regionManager op env) oc zone = Some p
      \<and> phase_endpoints oc p = service_endpoints oc (fc_ComponentType (regionManager op env))
          (node_port_of (dps_Service (rs_DeploymentServicePortSpec (spec_RegionServer (oc_Spec oc))))) path ro" for oc zone
    by (simp add: regionManager_def Let_def base_factory_def) blast
qed (auto simp: regionManager_def Let_def base_factory_def catalogue_sync_def node_port_def NewServiceNodePort_def node_port_of_def
      internal_only_def dest: serves_node_port(4) intro!: serves_node_port(1,2,3) split: if_splits)

interpretation api_gateway: cloud_service "apiGatewayManager op env" "\<lambda>oc. ags_APIService (spec_APIGateway (oc_Spec oc))" for op env
proof
  show "\<exists>p path ro. fc_PhaseControl (apiGatewayManager op env) oc zone = Some p
      \<and> phase_endpoints oc p = service_endpoints oc (fc_ComponentType (apiGatewayManager op env))
          (node_port_of (ags_APIService (spec_APIGateway (oc_Spec oc)))) path ro" for oc zone
    by (simp add: apiGatewayManager_def Let_def base_factory_def) blast
qed (auto simp: apiGatewayManager_def Let_def base_factory_def catalogue_sync_def node_port_def NewServiceNodePort_def node_port_of_def
      internal_only_def dest: serves_node_port(4) intro!: serves_node_port(1,2,3) split: if_splits)

text \<open>The managers of the components that register one service of their own, with the service of the specification it is made from.\<close>

definition service_managers :: "options \<Rightarrow> kube_env \<Rightarrow> (factory \<times> (OnecloudCluster \<Rightarrow> ServiceSpec)) list" where
  "service_managers op env =
    [(schedulerManager op env, \<lambda>oc. dps_Service (spec_Scheduler (oc_Spec oc))),
     (scheduledtaskManager op env, \<lambda>oc. dps_Service (spec_Scheduledtask (oc_Spec oc))),
     (s3gatewayManager op env, \<lambda>oc. dps_Service (spec_S3gateway (oc_Spec oc))),
     (mcpServerManager op env, \<lambda>oc. dps_Service (spec_McpServer (oc_Spec oc))),
     (yunoinconfManager op env, \<lambda>oc. dps_Service (spec_Yunionconf (oc_Spec oc))),
     (loggerManager op env, \<lambda>oc. dps_Service (spec_Logger (oc_Spec oc))),
     (apiMapManager op env, \<lambda>oc. dps_Service (spec_ApiMap (oc_Spec oc))),
     (notifyManager op env, \<lambda>oc. ns_Service (spec_Notify (oc_Spec oc))),
     (cloudidManager op env, \<lambda>oc. dps_Service (spec_CloudId (oc_Spec oc))),
     (kubeManager op env, \<lambda>oc. dps_Service (spec_KubeServer (oc_Spec oc))),
     (ansibleManager op env, \<lambda>oc. dps_Service (spec_AnsibleServer (oc_Spec oc))),
     (monitorManager op env, \<lambda>oc. dps_Service (spec_Monitor (oc_Spec oc))),
     (devtoolManager op env, \<lambda>oc. dps_Service (spec_Devtool (oc_Spec oc))),
     (llmManager op env, \<lambda>oc. dps_Service (spec_LLM (oc_Spec oc))),
     (bastionHostManager op env, \<lambda>oc. dps_Service (spec_BastionHost (oc_Spec oc))),
     (suggestionManager op env, \<lambda>oc. dps_Service (spec_Suggestion (oc_Spec oc))),
     (cloudnetManager op env, \<lambda>oc. dps_Service (spec_Cloudnet (oc_Spec oc))),
     (vpcAgentManager op env, \<lambda>oc. dps_Service (spec_VpcAgent (oc_Spec oc))),
     (billingManager op env, \<lambda>oc. dps_Service (spec_Billing (oc_Spec oc))),
     (cloudproxyManager op env, \<lambda>oc. dps_Service (spec_Cloudproxy (oc_Spec oc))),
     (cloudeventManager op env, \<lambda>oc. dps_Service (spec_Cloudevent (oc_Spec oc))),
     (extdbManager op env, \<lambda>oc. dps_Service (spec_Extdb (oc_Spec oc))),
     (reportManager op env, \<lambda>oc. dps_Service (spec_Report (oc_Spec oc))),
     (autoUpdateManager op env, \<lambda>oc. dps_Service (spec_AutoUpdate (oc_Spec oc))),
     (glanceManager op env, \<lambda>oc. gs_Service (spec_Glance (oc_Spec oc))),
     (meterManager op env, \<lambda>oc. mts_Service (spec_Meter (oc_Spec oc))),
     (webconsoleManager op env, \<lambda>oc. dps_Service (wcs_DeploymentServicePortSpec (spec_Webconsole (oc_Spec oc)))),
     (cloudmonManager op env, \<lambda>oc. cms_Service (spec_Cloudmon (oc_Spec oc))),
     (itsmManager op env, \<lambda>oc. dps_Service (spec_Itsm (oc_Spec oc))),
     (aiProxyManager op env, \<lambda>oc. dps_Service (spec_AiProxy (oc_Spec oc))),
     (regionManager op env, \<lambda>oc. dps_Service (rs_DeploymentServicePortSpec (spec_RegionServer (oc_Spec oc)))),
     (apiGatewayManager op env, \<lambda>oc. ags_APIService (spec_APIGateway (oc_Spec oc)))]"

lemma service_managers_cloud: "(m, svc) \<in> set (service_managers op env) \<Longrightarrow> cloud_service m svc"
  unfolding service_managers_def
  by (simp, elim disjE; (clarify, blast intro: single_port_managers more_port_managers aiproxy.cloud_service_axioms
        region_server.cloud_service_axioms api_gateway.cloud_service_axioms))

text \<open>
  C9: The set-up of each of the thirty-two listed components hands the catalogue a public and an internal endpoint of the component,
  and one of read-only replicas where its phase has it, under the node port of the component's service; all but that of yunionconf do
  nothing else, and that of yunionconf does this first. Every internal endpoint, and the one of the replicas whenever the catalogue is told to
  enable it, is the name and a port of a service that the component's manager makes, and that service selects the pods of this
  component (of its replicas). So is the public one while the cluster has no load balancer; with one it names the load balancer and a
  port that the manager's service opens on every node, unless the specification keeps the service inside: then it is registered
  all the same, though every service made has an address inside the cluster only. Ports are those that fit an \<open>int32\<close>. Not
  listed are keystone, the time series databases, ECharts and the agents on the nodes, which register in other ways.
\<close>

theorem endpoints_served:
  assumes "(m, svc) \<in> set (service_managers op env)"
    and "- 2147483648 \<le> node_port_of (svc oc)" "node_port_of (svc oc) < 2147483648"
  shows "\<exists>p path ro. fc_PhaseControl m oc zone = Some p
    \<and> phase_endpoints oc p = service_endpoints oc (fc_ComponentType m) (node_port_of (svc oc)) path ro
    \<and> (\<exists>sname stype ssl. (\<forall>a s. se_oc s = oc \<longrightarrow> p \<noteq> YunionconfPhase \<longrightarrow>
          phase_Setup a p s = registerServiceEndpoints a sname stype (phase_endpoints oc p) ssl s)
      \<and> (\<forall>a s e w. se_oc s = oc \<longrightarrow> registerServiceEndpoints a sname stype (phase_endpoints oc p) ssl s = (Fail e, w) \<longrightarrow>
          (\<exists>e'. phase_Setup a p s = (Fail e', w)))
      \<and> (\<forall>a s. se_oc s = oc \<longrightarrow> fst (phase_Setup a p s) = Ret () \<longrightarrow>
          (\<exists>w. registerServiceEndpoints a sname stype (phase_endpoints oc p) ssl s = (Ret (), w))))
    \<and> (\<forall>ep\<in>set (phase_endpoints oc p).
        (ep_Interface ep = EndpointTypeInternal \<longrightarrow> serves oc (fc_ComponentType m) False (ep_Host ep) (ep_Port ep) (fc_Service m oc cfg zone))
      \<and> (ep_Interface ep = EndpointTypeSlave \<and> fc_McclientSync m oc = Some (EnsureEnable name True) \<longrightarrow>
           serves oc (fc_ComponentType m) True (ep_Host ep) (ep_Port ep) (fc_Service m oc cfg zone))
      \<and> (ep_Interface ep = EndpointTypePublic \<longrightarrow>
           (if spec_LoadBalancerEndpoint (oc_Spec oc) = []
            then serves oc (fc_ComponentType m) False (ep_Host ep) (ep_Port ep) (fc_Service m oc cfg zone)
            else ep_Host ep = spec_LoadBalancerEndpoint (oc_Spec oc)
              \<and> (if internal_only (svc oc) then \<forall>s\<in>set (fc_Service m oc cfg zone). css_Type (svc_Spec s) = ''ClusterIP''
                 else serves_on_nodes oc (fc_ComponentType m) (ep_Port ep) (fc_Service m oc cfg zone)))))"
proof -
  note law = service_managers_cloud [OF assms(1)]
  obtain p path ro where p: "fc_PhaseControl m oc zone = Some p"
    "phase_endpoints oc p = service_endpoints oc (fc_ComponentType m) (node_port_of (svc oc)) path ro"
    using cloud_service.phase [OF law] by blast
  have "phase_endpoints oc p \<noteq> []" by (simp add: p(2))
  note reg = phase_Setup_registers [OF this]
  have served: "\<forall>ep\<in>set (phase_endpoints oc p).
        (ep_Interface ep = EndpointTypeInternal \<longrightarrow> serves oc (fc_ComponentType m) False (ep_Host ep) (ep_Port ep) (fc_Service m oc cfg zone))
      \<and> (ep_Interface ep = EndpointTypeSlave \<and> fc_McclientSync m oc = Some (EnsureEnable name True) \<longrightarrow>
           serves oc (fc_ComponentType m) True (ep_Host ep) (ep_Port ep) (fc_Service m oc cfg zone))
      \<and> (ep_Interface ep = EndpointTypePublic \<longrightarrow>
           (if spec_LoadBalancerEndpoint (oc_Spec oc) = []
            then serves oc (fc_ComponentType m) False (ep_Host ep) (ep_Port ep) (fc_Service m oc cfg zone)
            else ep_Host ep = spec_LoadBalancerEndpoint (oc_Spec oc)
              \<and> (if internal_only (svc oc) then \<forall>s\<in>set (fc_Service m oc cfg zone). css_Type (svc_Spec s) = ''ClusterIP''
                 else serves_on_nodes oc (fc_ComponentType m) (ep_Port ep) (fc_Service m oc cfg zone))))"
    unfolding p(2) using cloud_service.reached [OF law assms(2,3)] by blast
  show ?thesis
    by (rule exI [of _ p], rule exI [of _ path], rule exI [of _ ro]) (intro conjI p reg served)
qed

section \<open>Configuration files\<close>

text \<open>The URL of a database account in an engine, and what a file has to say: the last assignment of an option counts.\<close>

definition sql_url :: "OnecloudCluster \<Rightarrow> string \<Rightarrow> DBConfig \<Rightarrow> optval" where
  "sql_url oc engine db = snd (hd (if engine = DBEngineDameng then SetDamengOptions (spec_Dameng (oc_Spec oc)) db
     else SetMysqlOptions (spec_Mysql (oc_Spec oc)) db))"

definition option_value :: "svc_options \<Rightarrow> string \<Rightarrow> optval option" where
  "option_value opt key = map_of (rev opt) key"

text \<open>
  The engine of the URL in the file: the one the account is made in, except for meter, whose URL follows the specification while
  its account is always made in MySQL.
\<close>

definition file_engine :: "factory \<Rightarrow> OnecloudCluster \<Rightarrow> string" where
  "file_engine m oc = (if fc_ComponentType m = MeterComponentType then GetDbEngine (oc_Spec oc) (mts_DbEngine (spec_Meter (oc_Spec oc)))
     else fc_DBEngine m oc)"

definition names_accounts :: "factory \<Rightarrow> (OnecloudClusterConfig \<Rightarrow> svc_options km) \<Rightarrow> bool" where
  "names_accounts m getConfig \<longleftrightarrow> (\<forall>cfg w opt w'. getConfig cfg w = (Ret opt, w') \<longrightarrow>
     (\<forall>db. fc_DBConfig m cfg = Some db \<longrightarrow> option_value opt ''SqlConnection'' = Some (sql_url (kw_oc w) (file_engine m (kw_oc w)) db))
     \<and> (\<forall>u. fc_CloudUser m cfg = Some u \<longrightarrow> option_value opt ''AdminUser'' = Some (OStr (cu_Username u))
          \<and> option_value opt ''AdminPassword'' = Some (OStr (cu_Password u))))"

lemma option_value_simps [manager_simps]:
  "option_value [] k = None"
  "option_value (xs @ ys) k = (case option_value ys k of Some v \<Rightarrow> Some v | None \<Rightarrow> option_value xs k)"
  "option_value ((j, x) # zs) k = (case option_value zs k of Some v \<Rightarrow> Some v | None \<Rightarrow> if j = k then Some x else None)"
  by (auto simp: option_value_def map_add_def split: option.split)

lemma common_options [manager_simps]:
  "option_value (SetServiceCommonOptions oc i common) ''AdminUser'' = Some (OStr (cu_Username (sco_CloudUser i)))"
  "option_value (SetServiceCommonOptions oc i common) ''AdminPassword'' = Some (OStr (cu_Password (sco_CloudUser i)))"
  "option_value (SetServiceCommonOptions oc i common) ''SqlConnection'' = None"
  "option_value (SetServiceBaseOptions r b common) ''SqlConnection'' = None"
  by (simp_all add: SetServiceCommonOptions_def SetServiceBaseOptions_def option_value_simps)

lemma other_options [manager_simps]:
  "k \<in> {''SqlConnection'', ''AdminUser'', ''AdminPassword''} \<Longrightarrow> option_value (SetOptionsServiceTLS b) k = None"
  "k \<in> {''SqlConnection'', ''AdminUser'', ''AdminPassword''} \<Longrightarrow> option_value (SetClickhouseOptions ch c) k = None"
  "k \<in> {''SqlConnection'', ''AdminUser'', ''AdminPassword''} \<Longrightarrow> option_value ssl_files k = None"
  "k \<in> {''SqlConnection'', ''AdminUser'', ''AdminPassword''} \<Longrightarrow> option_value (SetAiProxyAPILogS3Options oc) k = None"
  by (auto simp: SetOptionsServiceTLS_def SetClickhouseOptions_def ssl_files_def SetAiProxyAPILogS3Options_def Let_def option_value_simps)

lemma db_option [manager_simps]:
  "option_value (db_options oc e db) ''SqlConnection'' = Some (sql_url oc (GetDbEngine (oc_Spec oc) e) db)"
  "k \<noteq> ''SqlConnection'' \<Longrightarrow> option_value (db_options oc e db) k = None"
  by (auto simp: db_options_def SetDamengOptions_def SetMysqlOptions_def sql_url_def option_value_simps)

lemma names_accountsI:
  assumes "\<And>cfg w opt w' db. getConfig cfg w = (Ret opt, w') \<Longrightarrow> fc_DBConfig m cfg = Some db \<Longrightarrow>
      option_value opt ''SqlConnection'' = Some (sql_url (kw_oc w) (file_engine m (kw_oc w)) db)"
    and "\<And>cfg w opt w' u. getConfig cfg w = (Ret opt, w') \<Longrightarrow> fc_CloudUser m cfg = Some u \<Longrightarrow>
      option_value opt ''AdminUser'' = Some (OStr (cu_Username u)) \<and> option_value opt ''AdminPassword'' = Some (OStr (cu_Password u))"
  shows "names_accounts m getConfig"
  using assms unfolding names_accounts_def by blast

lemma config_Ret:
  "(andthen (gets kw_oc) f w = (Ret opt, w')) = (f (kw_oc w) w = (Ret opt, w'))"
  "(seq (SetOptionsDefault op t) n w = (Ret opt, w')) = (op_optionsDefault op t = None \<and> n w = (Ret opt, w'))"
  "(seq (map_err g (SetOptionsDefault op t)) n w = (Ret opt, w')) = (op_optionsDefault op t = None \<and> n w = (Ret opt, w'))"
  "(seq (modify h) n w = (Ret opt, w')) = (n (h w) = (Ret opt, w'))"
  "(ret x w = (Ret opt, w')) = (x = opt \<and> w = w')"
  by (auto simp: SetOptionsDefault_def lift_err_def go_simps map_err_def split: option.split)

lemmas configured_defs =
  yunoinconfManager_def loggerManager_def notifyManager_def cloudidManager_def kubeManager_def ansibleManager_def monitorManager_def
  devtoolManager_def llmManager_def bastionHostManager_def suggestionManager_def cloudnetManager_def billingManager_def cloudproxyManager_def
  cloudeventManager_def extdbManager_def reportManager_def autoUpdateManager_def aiProxyManager_def keystoneManager_def regionManager_def
  webconsoleManager_def schedulerManager_def scheduledtaskManager_def s3gatewayManager_def mcpServerManager_def apiMapManager_def
  vpcAgentManager_def meterManager_def apiGatewayManager_def cloudmonManager_def

lemmas config_defs = configured_defs
  aiproxy_GetConfig_def ansibleserver_GetConfig_def autoupdate_GetConfig_def bastionhost_GetConfig_def billing_GetConfig_def cloudevent_GetConfig_def
  cloudid_GetConfig_def cloudnet_GetConfig_def cloudproxy_GetConfig_def devtool_GetConfig_def extdb_GetConfig_def keystone_GetConfig_def
  kubeserver_GetConfig_def llm_GetConfig_def logger_GetConfig_def monitor_GetConfig_def notify_GetConfig_def region_GetConfig_def
  report_GetConfig_def suggestion_GetConfig_def webconsole_GetConfig_def yunionconf_GetConfig_def
  scheduler_GetConfig_def scheduledtask_GetConfig_def s3gateway_GetConfig_def mcpServer_GetConfig_def apimap_GetConfig_def
  vpcagent_GetConfig_def meter_GetConfig_def apigateway_GetConfig_def cloudmon_GetConfig_def

text \<open>The components with an exception are told apart from all others by their types.\<close>

lemmas component_types = YunionconfComponentType_def LoggerComponentType_def NotifyComponentType_def CloudIdComponentType_def
  KubeServerComponentType_def AnsibleServerComponentType_def MonitorComponentType_def DevtoolComponentType_def
  LLMComponentType_def BastionHostComponentType_def SuggestionComponentType_def CloudnetComponentType_def
  BillingComponentType_def CloudproxyComponentType_def CloudeventComponentType_def ExtdbComponentType_def
  ReportComponentType_def AutoUpdateComponentType_def AiProxyComponentType_def KeystoneComponentType_def
  RegionComponentType_def WebconsoleComponentType_def SchedulerComponentType_def ScheduledtaskComponentType_def
  S3gatewayComponentType_def McpServerComponentType_def ApiMapComponentType_def VpcAgentComponentType_def
  MeterComponentType_def APIGatewayComponentType_def CloudmonComponentType_def

lemma account_managers:
  "names_accounts (yunoinconfManager op env) (\<lambda>cfg. yunionconf_GetConfig op cfg)"
  "names_accounts (loggerManager op env) (\<lambda>cfg. logger_GetConfig op cfg)"
  "names_accounts (notifyManager op env) (\<lambda>cfg. map_err (Wrapped ''set notify option'') (notify_GetConfig op cfg))"
  "names_accounts (cloudidManager op env) (\<lambda>cfg. cloudid_GetConfig op cfg)"
  "names_accounts (kubeManager op env) (\<lambda>cfg. kubeserver_GetConfig op cfg)"
  "names_accounts (ansibleManager op env) (\<lambda>cfg. ansibleserver_GetConfig op cfg)"
  "names_accounts (monitorManager op env) (\<lambda>cfg. monitor_GetConfig op cfg)"
  "names_accounts (devtoolManager op env) (\<lambda>cfg. devtool_GetConfig op cfg)"
  "names_accounts (llmManager op env) (\<lambda>cfg. llm_GetConfig op cfg)"
  "names_accounts (bastionHostManager op env) (\<lambda>cfg. bastionhost_GetConfig op cfg)"
  "names_accounts (suggestionManager op env) (\<lambda>cfg. suggestion_GetConfig op cfg)"
  "names_accounts (cloudnetManager op env) (\<lambda>cfg. cloudnet_GetConfig op cfg)"
  "names_accounts (billingManager op env) (\<lambda>cfg. billing_GetConfig op cfg)"
  "names_accounts (cloudproxyManager op env) (\<lambda>cfg. cloudproxy_GetConfig op cfg)"
  "names_accounts (cloudeventManager op env) (\<lambda>cfg. cloudevent_GetConfig op cfg)"
  "names_accounts (extdbManager op env) (\<lambda>cfg. extdb_GetConfig op cfg)"
  "names_accounts (reportManager op env) (\<lambda>cfg. report_GetConfig op cfg)"
  "names_accounts (autoUpdateManager op env) (\<lambda>cfg. autoupdate_GetConfig op cfg)"
  "names_accounts (aiProxyManager op env) (\<lambda>cfg. aiproxy_GetConfig op cfg)"
  "names_accounts (keystoneManager op env) (\<lambda>cfg. keystone_GetConfig op cfg)"
  "names_accounts (regionManager op env) (\<lambda>cfg. region_GetConfig op cfg)"
  "names_accounts (webconsoleManager op env) (\<lambda>cfg. webconsole_GetConfig op cfg)"
  "names_accounts (schedulerManager op env) (\<lambda>cfg. map_err (Wrapped ''scheduler: SetOptionsDefault'') (scheduler_GetConfig op cfg))"
  "names_accounts (scheduledtaskManager op env) (\<lambda>cfg. scheduledtask_GetConfig op cfg)"
  "names_accounts (s3gatewayManager op env) (\<lambda>cfg. s3gateway_GetConfig op cfg)"
  "names_accounts (mcpServerManager op env) (\<lambda>cfg. mcpServer_GetConfig op cfg)"
  "names_accounts (apiMapManager op env) (\<lambda>cfg. apimap_GetConfig op cfg)"
  "names_accounts (vpcAgentManager op env) (\<lambda>cfg. vpcagent_GetConfig op cfg)"
  "names_accounts (meterManager op env) (\<lambda>cfg. meter_GetConfig op cfg)"
  "names_accounts (apiGatewayManager op env) (\<lambda>cfg. apigateway_GetConfig op cfg)"
  "names_accounts (cloudmonManager op env) (\<lambda>cfg. cloudmon_GetConfig op cfg)"
  by (rule names_accountsI, (auto simp: config_defs config_Ret map_err_Ret_iff sdo_CloudUser_def manager_simps file_engine_def component_types; fail),
      (auto simp: config_defs config_Ret map_err_Ret_iff sdo_CloudUser_def manager_simps; fail))+

text \<open>
  The option with the port the process listens on, and how it is related to the port that the services lead to: they are one, except
  for the console and the VPC agent, whose file has a constant, and the MCP server, whose service has one.
\<close>

definition listen_option :: "factory \<Rightarrow> string" where
  "listen_option m = (if fc_ComponentType m = SchedulerComponentType then ''SchedulerPort'' else ''Port'')"

definition ports_agree :: "factory \<Rightarrow> OnecloudClusterConfig \<Rightarrow> int \<Rightarrow> int \<Rightarrow> bool" where
  "ports_agree m cfg q t \<longleftrightarrow>
     (if fc_ComponentType m = WebconsoleComponentType then q = WebconsolePort \<and> t = sdo_Port (cfg_Webconsole cfg)
      else if fc_ComponentType m = VpcAgentComponentType then q = VpcAgentPort \<and> t = sco_Port (vc_ServiceCommonOptions (cfg_VpcAgent cfg))
      else if fc_ComponentType m = McpServerComponentType then q = sdo_Port (cfg_McpServer cfg) \<and> t = McpServerPort
      else q = t)"

definition listens :: "factory \<Rightarrow> (OnecloudClusterConfig \<Rightarrow> svc_options km) \<Rightarrow> bool" where
  "listens m getConfig \<longleftrightarrow> (\<forall>cfg w opt w' oc zone svc. getConfig cfg w = (Ret opt, w') \<longrightarrow> svc \<in> set (fc_Service m oc cfg zone) \<longrightarrow>
     (\<exists>q t. option_value opt (listen_option m) = Some (OInt q) \<and> int32 t \<in> sp_TargetPort ` set (css_Ports (svc_Spec svc))
        \<and> ports_agree m cfg q t))"

lemma port_options [manager_simps]:
  "option_value (SetServiceCommonOptions oc i common) ''Port'' = Some (OInt (sco_Port i))"
  "option_value (SetServiceBaseOptions r b common) ''Port'' = Some (OInt (sbc_Port b))"
  "option_value (SetOptionsServiceTLS x) ''Port'' = None"
  "option_value (SetClickhouseOptions ch c) ''Port'' = None"
  "option_value ssl_files ''Port'' = None" "option_value (SetAiProxyAPILogS3Options oc) ''Port'' = None"
  by (simp_all add: SetServiceCommonOptions_def SetServiceBaseOptions_def SetOptionsServiceTLS_def SetClickhouseOptions_def ssl_files_def
        SetAiProxyAPILogS3Options_def Let_def sco_Port_def option_value_simps)

lemma target_port:
  "svc \<in> set (newNodePortService cType oc i ports ro) \<Longrightarrow> sp_TargetPort ` set (css_Ports (svc_Spec svc)) = sp_TargetPort ` set ports"
  by (auto simp: newNodePortService_def newService_def newServiceWithClusterIp_def Let_def image_image split: if_splits)

lemma target_port_single:
  "svc \<in> set (service_ports cType oc s target ro) \<Longrightarrow> sp_TargetPort ` set (css_Ports (svc_Spec svc)) = {int32 target}"
  unfolding service_ports_def newSinglePortService_def by (drule target_port) (simp add: NewServiceNodePort_def)

lemma listensI:
  assumes "\<And>cfg w opt w' oc zone svc. getConfig cfg w = (Ret opt, w') \<Longrightarrow> svc \<in> set (fc_Service m oc cfg zone) \<Longrightarrow>
     \<exists>q t. option_value opt (listen_option m) = Some (OInt q) \<and> int32 t \<in> sp_TargetPort ` set (css_Ports (svc_Spec svc)) \<and> ports_agree m cfg q t"
  shows "listens m getConfig"
  using assms unfolding listens_def by blast

lemma port_managers:
  "listens (yunoinconfManager op env) (\<lambda>cfg. yunionconf_GetConfig op cfg)"
  "listens (loggerManager op env) (\<lambda>cfg. logger_GetConfig op cfg)"
  "listens (notifyManager op env) (\<lambda>cfg. map_err (Wrapped ''set notify option'') (notify_GetConfig op cfg))"
  "listens (cloudidManager op env) (\<lambda>cfg. cloudid_GetConfig op cfg)"
  "listens (kubeManager op env) (\<lambda>cfg. kubeserver_GetConfig op cfg)"
  "listens (ansibleManager op env) (\<lambda>cfg. ansibleserver_GetConfig op cfg)"
  "listens (monitorManager op env) (\<lambda>cfg. monitor_GetConfig op cfg)"
  "listens (devtoolManager op env) (\<lambda>cfg. devtool_GetConfig op cfg)"
  "listens (llmManager op env) (\<lambda>cfg. llm_GetConfig op cfg)"
  "listens (bastionHostManager op env) (\<lambda>cfg. bastionhost_GetConfig op cfg)"
  "listens (suggestionManager op env) (\<lambda>cfg. suggestion_GetConfig op cfg)"
  "listens (cloudnetManager op env) (\<lambda>cfg. cloudnet_GetConfig op cfg)"
  "listens (billingManager op env) (\<lambda>cfg. billing_GetConfig op cfg)"
  "listens (cloudproxyManager op env) (\<lambda>cfg. cloudproxy_GetConfig op cfg)"
  "listens (cloudeventManager op env) (\<lambda>cfg. cloudevent_GetConfig op cfg)"
  "listens (extdbManager op env) (\<lambda>cfg. extdb_GetConfig op cfg)"
  "listens (reportManager op env) (\<lambda>cfg. report_GetConfig op cfg)"
  "listens (autoUpdateManager op env) (\<lambda>cfg. autoupdate_GetConfig op cfg)"
  "listens (aiProxyManager op env) (\<lambda>cfg. aiproxy_GetConfig op cfg)"
  "listens (keystoneManager op env) (\<lambda>cfg. keystone_GetConfig op cfg)"
  "listens (regionManager op env) (\<lambda>cfg. region_GetConfig op cfg)"
  "listens (webconsoleManager op env) (\<lambda>cfg. webconsole_GetConfig op cfg)"
  "listens (schedulerManager op env) (\<lambda>cfg. map_err (Wrapped ''scheduler: SetOptionsDefault'') (scheduler_GetConfig op cfg))"
  "listens (scheduledtaskManager op env) (\<lambda>cfg. scheduledtask_GetConfig op cfg)"
  "listens (s3gatewayManager op env) (\<lambda>cfg. s3gateway_GetConfig op cfg)"
  "listens (mcpServerManager op env) (\<lambda>cfg. mcpServer_GetConfig op cfg)"
  "listens (apiMapManager op env) (\<lambda>cfg. apimap_GetConfig op cfg)"
  "listens (vpcAgentManager op env) (\<lambda>cfg. vpcagent_GetConfig op cfg)"
  "listens (meterManager op env) (\<lambda>cfg. meter_GetConfig op cfg)"
  "listens (apiGatewayManager op env) (\<lambda>cfg. apigateway_GetConfig op cfg)"
  "listens (cloudmonManager op env) (\<lambda>cfg. cloudmon_GetConfig op cfg)"
  by (rule listensI, (auto simp: config_defs config_Ret map_err_Ret_iff sdo_Port_def manager_simps with_traefik_scheme_def node_port_def
        NewServiceNodePort_def listen_option_def ports_agree_def component_types dest!: target_port target_port_single; fail))+

definition configured_managers :: "options \<Rightarrow> kube_env \<Rightarrow> (factory \<times> (OnecloudClusterConfig \<Rightarrow> svc_options km)) list" where
  "configured_managers op env =
    [(yunoinconfManager op env, \<lambda>cfg. yunionconf_GetConfig op cfg),
     (loggerManager op env, \<lambda>cfg. logger_GetConfig op cfg),
     (notifyManager op env, \<lambda>cfg. map_err (Wrapped ''set notify option'') (notify_GetConfig op cfg)),
     (cloudidManager op env, \<lambda>cfg. cloudid_GetConfig op cfg),
     (kubeManager op env, \<lambda>cfg. kubeserver_GetConfig op cfg),
     (ansibleManager op env, \<lambda>cfg. ansibleserver_GetConfig op cfg),
     (monitorManager op env, \<lambda>cfg. monitor_GetConfig op cfg),
     (devtoolManager op env, \<lambda>cfg. devtool_GetConfig op cfg), (llmManager op env, \<lambda>cfg. llm_GetConfig op cfg),
     (bastionHostManager op env, \<lambda>cfg. bastionhost_GetConfig op cfg),
     (suggestionManager op env, \<lambda>cfg. suggestion_GetConfig op cfg),
     (cloudnetManager op env, \<lambda>cfg. cloudnet_GetConfig op cfg),
     (billingManager op env, \<lambda>cfg. billing_GetConfig op cfg),
     (cloudproxyManager op env, \<lambda>cfg. cloudproxy_GetConfig op cfg),
     (cloudeventManager op env, \<lambda>cfg. cloudevent_GetConfig op cfg),
     (extdbManager op env, \<lambda>cfg. extdb_GetConfig op cfg), (reportManager op env, \<lambda>cfg. report_GetConfig op cfg),
     (autoUpdateManager op env, \<lambda>cfg. autoupdate_GetConfig op cfg),
     (aiProxyManager op env, \<lambda>cfg. aiproxy_GetConfig op cfg),
     (keystoneManager op env, \<lambda>cfg. keystone_GetConfig op cfg),
     (regionManager op env, \<lambda>cfg. region_GetConfig op cfg),
     (webconsoleManager op env, \<lambda>cfg. webconsole_GetConfig op cfg),
     (schedulerManager op env, \<lambda>cfg. map_err (Wrapped ''scheduler: SetOptionsDefault'') (scheduler_GetConfig op cfg)),
     (scheduledtaskManager op env, \<lambda>cfg. scheduledtask_GetConfig op cfg),
     (s3gatewayManager op env, \<lambda>cfg. s3gateway_GetConfig op cfg),
     (mcpServerManager op env, \<lambda>cfg. mcpServer_GetConfig op cfg),
     (apiMapManager op env, \<lambda>cfg. apimap_GetConfig op cfg),
     (vpcAgentManager op env, \<lambda>cfg. vpcagent_GetConfig op cfg),
     (meterManager op env, \<lambda>cfg. meter_GetConfig op cfg),
     (apiGatewayManager op env, \<lambda>cfg. apigateway_GetConfig op cfg),
     (cloudmonManager op env, \<lambda>cfg. cloudmon_GetConfig op cfg)]"

text \<open>The file is made of these options; the account of meter is made in MySQL.\<close>

definition written :: "options \<Rightarrow> kube_env \<Rightarrow> factory \<Rightarrow> (OnecloudClusterConfig \<Rightarrow> svc_options km) \<Rightarrow> bool" where
  "written op env m getConfig \<longleftrightarrow>
     (\<forall>cfg zone. \<exists>cType z sType. fc_ConfigMap m cfg zone = service_map op cType z sType (getConfig cfg)
        \<or> fc_ConfigMap m cfg zone = synced_map op env cType sType (getConfig cfg))
     \<and> (fc_ComponentType m = MeterComponentType \<longrightarrow> (\<forall>oc. fc_DBEngine m oc = DBEngineMySQL))"

lemma file_managers:
  "written op env (yunoinconfManager op env) (\<lambda>cfg. yunionconf_GetConfig op cfg)"
  "written op env (loggerManager op env) (\<lambda>cfg. logger_GetConfig op cfg)"
  "written op env (notifyManager op env) (\<lambda>cfg. map_err (Wrapped ''set notify option'') (notify_GetConfig op cfg))"
  "written op env (cloudidManager op env) (\<lambda>cfg. cloudid_GetConfig op cfg)"
  "written op env (kubeManager op env) (\<lambda>cfg. kubeserver_GetConfig op cfg)"
  "written op env (ansibleManager op env) (\<lambda>cfg. ansibleserver_GetConfig op cfg)"
  "written op env (monitorManager op env) (\<lambda>cfg. monitor_GetConfig op cfg)"
  "written op env (devtoolManager op env) (\<lambda>cfg. devtool_GetConfig op cfg)"
  "written op env (llmManager op env) (\<lambda>cfg. llm_GetConfig op cfg)"
  "written op env (bastionHostManager op env) (\<lambda>cfg. bastionhost_GetConfig op cfg)"
  "written op env (suggestionManager op env) (\<lambda>cfg. suggestion_GetConfig op cfg)"
  "written op env (cloudnetManager op env) (\<lambda>cfg. cloudnet_GetConfig op cfg)"
  "written op env (billingManager op env) (\<lambda>cfg. billing_GetConfig op cfg)"
  "written op env (cloudproxyManager op env) (\<lambda>cfg. cloudproxy_GetConfig op cfg)"
  "written op env (cloudeventManager op env) (\<lambda>cfg. cloudevent_GetConfig op cfg)"
  "written op env (extdbManager op env) (\<lambda>cfg. extdb_GetConfig op cfg)"
  "written op env (reportManager op env) (\<lambda>cfg. report_GetConfig op cfg)"
  "written op env (autoUpdateManager op env) (\<lambda>cfg. autoupdate_GetConfig op cfg)"
  "written op env (aiProxyManager op env) (\<lambda>cfg. aiproxy_GetConfig op cfg)"
  "written op env (keystoneManager op env) (\<lambda>cfg. keystone_GetConfig op cfg)"
  "written op env (regionManager op env) (\<lambda>cfg. region_GetConfig op cfg)"
  "written op env (webconsoleManager op env) (\<lambda>cfg. webconsole_GetConfig op cfg)"
  "written op env (schedulerManager op env) (\<lambda>cfg. map_err (Wrapped ''scheduler: SetOptionsDefault'') (scheduler_GetConfig op cfg))"
  "written op env (scheduledtaskManager op env) (\<lambda>cfg. scheduledtask_GetConfig op cfg)"
  "written op env (s3gatewayManager op env) (\<lambda>cfg. s3gateway_GetConfig op cfg)"
  "written op env (mcpServerManager op env) (\<lambda>cfg. mcpServer_GetConfig op cfg)"
  "written op env (apiMapManager op env) (\<lambda>cfg. apimap_GetConfig op cfg)"
  "written op env (vpcAgentManager op env) (\<lambda>cfg. vpcagent_GetConfig op cfg)"
  "written op env (meterManager op env) (\<lambda>cfg. meter_GetConfig op cfg)"
  "written op env (apiGatewayManager op env) (\<lambda>cfg. apigateway_GetConfig op cfg)"
  "written op env (cloudmonManager op env) (\<lambda>cfg. cloudmon_GetConfig op cfg)"
  unfolding written_def
  by (simp add: configured_defs component_types Let_def base_factory_def, blast)+

lemma configured_managers_laws:
  assumes "(m, getConfig) \<in> set (configured_managers op env)"
  shows "names_accounts m getConfig" "listens m getConfig" "written op env m getConfig"
proof -
  have "list_all (\<lambda>(m, getConfig). names_accounts m getConfig \<and> listens m getConfig \<and> written op env m getConfig) (configured_managers op env)"
    by (simp add: configured_managers_def account_managers port_managers file_managers)
  with assms show "names_accounts m getConfig" "listens m getConfig" "written op env m getConfig"
    by (auto simp: list_all_iff)
qed

text \<open>
  C10: The configuration files of thirty-one components, all those whose manager writes the options of the component's service as they
  are and serves it behind a port (the files of glance, itsm, the service operator and of the agents are made otherwise), agree with the
  rest of what the operator does for the component. The database URL is that of the account which is created, in the engine
  in which it is created, except that the URL of meter follows the engine of the specification while its account is always made in
  MySQL. The administrator is the account which is created in the identity service. The port the process listens on (for
  the scheduler an option of its own) is the one that every service of the component leads to, except that the files of the console
  and of the VPC agent have a constant where their services have the configured port, and the other way round for the MCP
  server. A component without an account of its own, like the scheduler, has nothing to agree with.
\<close>

theorem configuration_consistent:
  assumes "(m, getConfig) \<in> set (configured_managers op env)" "getConfig cfg w = (Ret opt, w')"
  shows "(\<exists>cType z sType. fc_ConfigMap m cfg zone = service_map op cType z sType (getConfig cfg)
           \<or> fc_ConfigMap m cfg zone = synced_map op env cType sType (getConfig cfg))
    \<and> (\<forall>db. fc_DBConfig m cfg = Some db \<longrightarrow> option_value opt ''SqlConnection'' =
          Some (sql_url (kw_oc w) (if fc_ComponentType m = MeterComponentType then GetDbEngine (oc_Spec (kw_oc w)) (mts_DbEngine (spec_Meter (oc_Spec (kw_oc w))))
             else fc_DBEngine m (kw_oc w)) db))
    \<and> (fc_ComponentType m = MeterComponentType \<longrightarrow> fc_DBEngine m (kw_oc w) = DBEngineMySQL)
    \<and> (\<forall>u. fc_CloudUser m cfg = Some u \<longrightarrow> option_value opt ''AdminUser'' = Some (OStr (cu_Username u))
          \<and> option_value opt ''AdminPassword'' = Some (OStr (cu_Password u)))
    \<and> (\<forall>oc. \<forall>svc\<in>set (fc_Service m oc cfg zone).
          \<exists>q t. option_value opt (listen_option m) = Some (OInt q) \<and> int32 t \<in> sp_TargetPort ` set (css_Ports (svc_Spec svc))
            \<and> ports_agree m cfg q t)"
  using configured_managers_laws [OF assms(1)] assms(2)
  unfolding names_accounts_def listens_def file_engine_def written_def by blast

theorem configuration_consistent_witness:
  "\<forall>j. \<exists>opt w'. yunionconf_GetConfig (plain_op j) zero_OnecloudClusterConfig sample_world = (Ret opt, w')
     \<and> option_value opt ''SqlConnection'' = Some (sql_url (kw_oc sample_world) DBEngineMySQL (sdo_DB (cfg_Yunionconf zero_OnecloudClusterConfig)))
     \<and> option_value opt ''AdminUser'' = Some (OStr (cu_Username (sdo_CloudUser (cfg_Yunionconf zero_OnecloudClusterConfig))))"
proof
  fix j
  let ?g = "\<lambda>cfg. yunionconf_GetConfig (plain_op j) cfg" and ?m = "yunoinconfManager (plain_op j) node_env"
  have mem: "(?m, ?g) \<in> set (configured_managers (plain_op j) node_env)" by (simp add: configured_managers_def)
  obtain opt w' where run: "?g zero_OnecloudClusterConfig sample_world = (Ret opt, w')"
    by (simp add: yunionconf_GetConfig_def SetOptionsDefault_def plain_op_def go_simps Let_def)
  have "fc_DBConfig ?m zero_OnecloudClusterConfig = Some (sdo_DB (cfg_Yunionconf zero_OnecloudClusterConfig))"
    "fc_CloudUser ?m zero_OnecloudClusterConfig = Some (sdo_CloudUser (cfg_Yunionconf zero_OnecloudClusterConfig))"
    "fc_DBEngine ?m (kw_oc sample_world) = DBEngineMySQL" "fc_ComponentType ?m \<noteq> MeterComponentType"
    by (simp_all add: yunoinconfManager_def manager_simps YunionconfComponentType_def MeterComponentType_def sample_world_def zero_OnecloudCluster_def GetDbEngine_def zero_defs)
  then show "\<exists>opt w'. ?g zero_OnecloudClusterConfig sample_world = (Ret opt, w')
     \<and> option_value opt ''SqlConnection'' = Some (sql_url (kw_oc sample_world) DBEngineMySQL (sdo_DB (cfg_Yunionconf zero_OnecloudClusterConfig)))
     \<and> option_value opt ''AdminUser'' = Some (OStr (cu_Username (sdo_CloudUser (cfg_Yunionconf zero_OnecloudClusterConfig))))"
    using configuration_consistent[OF mem run, of "[]"] run by auto
qed

theorem endpoints_served_witness:
  "\<forall>j. ''demo-region'' \<in> (\<lambda>svc. om_Name (svc_meta svc)) ` set (fc_Service (regionManager (plain_op j) node_env) (kw_oc sample_world) zero_OnecloudClusterConfig [])"
proof
  fix j
  let ?m = "regionManager (plain_op j) node_env" and ?oc = "kw_oc sample_world"
  let ?svc = "\<lambda>oc. dps_Service (rs_DeploymentServicePortSpec (spec_RegionServer (oc_Spec oc)))"
  have mem: "(?m, ?svc) \<in> set (service_managers (plain_op j) node_env)" by (simp add: service_managers_def)
  have port: "- 2147483648 \<le> node_port_of (?svc ?oc)" "node_port_of (?svc ?oc) < 2147483648"
    by (simp_all add: node_port_of_def sample_world_def zero_defs)
  have ty: "fc_ComponentType ?m = RegionComponentType" by (simp add: regionManager_def base_factory_def Let_def)
  have host: "NewClusterComponentName (om_Name (oc_ObjectMeta ?oc)) RegionComponentType = ''demo-region''"
    by (simp add: sample_world_def NewClusterComponentName_def RegionComponentType_def new_meta_def IsDockerComposeClusterName_def DockerComposeClusterName_def)
  obtain p path ro where p: "phase_endpoints ?oc p = service_endpoints ?oc (fc_ComponentType ?m) (node_port_of (?svc ?oc)) path ro"
    and served: "\<And>ep. ep \<in> set (phase_endpoints ?oc p) \<Longrightarrow> ep_Interface ep = EndpointTypeInternal \<Longrightarrow>
      serves ?oc (fc_ComponentType ?m) False (ep_Host ep) (ep_Port ep) (fc_Service ?m ?oc zero_OnecloudClusterConfig [])"
    using endpoints_served [OF mem port, of "[]" zero_OnecloudClusterConfig "[]"]
    by (elim exE conjE) (rule that, assumption, blast)
  have "newInternalEndpoint ''demo-region'' (node_port_of (?svc ?oc)) path \<in> set (phase_endpoints ?oc p)"
    by (simp add: p ty service_endpoints_def Let_def host)
  from served [OF this] show "''demo-region'' \<in> (\<lambda>svc. om_Name (svc_meta svc)) ` set (fc_Service ?m ?oc zero_OnecloudClusterConfig [])"
    by (force simp: newInternalEndpoint_def serves_def image_iff)
qed

end
