(* ===== verification/Catalogue_Laws.thy ===== *)
theory Catalogue_Laws
  imports Global_Settings
begin

text \<open>
  What the registration of services leaves behind. The identity service is described by a store of rows per kind of
  resource and by the predicate \<open>serves_store\<close>: it answers every request from the store that the requests before it have
  led to. The operations of \<open>Onecloud_Api\<close> are refined to functions on that store.
\<close>

section \<open>A store of resources\<close>

type_synonym store = "cmod \<Rightarrow> jdict list"

definition has_id :: "string \<Rightarrow> jdict \<Rightarrow> bool" where
  "has_id i r \<longleftrightarrow> map_of r ''id'' = Some (JStr i)"

definition override :: "jdict \<Rightarrow> jdict \<Rightarrow> jdict" where
  "override r d = fold (\<lambda>(k, v). AList.update k v) d r"

definition new_row :: "(jdict list \<Rightarrow> string) \<Rightarrow> jdict list \<Rightarrow> jdict \<Rightarrow> jdict" where
  "new_row fresh rows d = (if map_of d ''id'' = None then (''id'', JStr (fresh rows)) # d else d)"

definition change_row :: "string \<Rightarrow> jdict \<Rightarrow> jdict \<Rightarrow> jdict" where
  "change_row i d r = (if has_id i r then override r d else r)"

fun apply_request :: "(jdict list \<Rightarrow> string) \<Rightarrow> request \<Rightarrow> store \<Rightarrow> store" where
  "apply_request fresh (RCreate m d) st = st(m := st m @ [new_row fresh (st m) d])"
| "apply_request fresh (RUpdate m i d) st = st(m := map (change_row i d) (st m))"
| "apply_request fresh (RPatch m i d) st = st(m := map (change_row i d) (st m))"
| "apply_request fresh (RDelete m i) st = st(m := filter (\<lambda>r. \<not> has_id i r) (st m))"
| "apply_request fresh q st = st"

definition lookup_row :: "string \<Rightarrow> jdict list \<Rightarrow> jdict option" where
  "lookup_row n rows = find (\<lambda>r. has_id n r \<or> map_of r ''name'' = Some (JStr n)) rows"

definition matches :: "jdict \<Rightarrow> jdict \<Rightarrow> bool" where
  "matches params r \<longleftrightarrow> list_all (\<lambda>(k, v). k = ''limit'' \<or> map_of r k = Some v) params"

definition serves_store :: "api \<Rightarrow> (jdict list \<Rightarrow> string) \<Rightarrow> store \<Rightarrow> bool" where
  "serves_store a fresh st0 \<longleftrightarrow>
     (\<forall>h. let st = fold (apply_request fresh) h st0
          in (\<forall>m n. ap_object a h (RGet m n) =
                (case lookup_row n (st m) of None \<Rightarrow> Inl (JSONClientError 404 []) | Some r \<Rightarrow> Inr (JDict r)))
           \<and> (\<forall>m d. ap_object a h (RCreate m d) = Inr (JDict (new_row fresh (st m) d)))
           \<and> (\<forall>m i d. \<exists>v. ap_object a h (RUpdate m i d) = Inr v)
           \<and> (\<forall>m i d. \<exists>v. ap_object a h (RPatch m i d) = Inr v)
           \<and> (\<forall>m params. \<exists>total. ap_list a h (RList m params) = Inr (map JDict (filter (matches params) (st m)), total)))"

definition now :: "(jdict list \<Rightarrow> string) \<Rightarrow> store \<Rightarrow> session \<Rightarrow> store" where
  "now fresh st0 s = fold (apply_request fresh) (se_calls s) st0"

lemma now_logged [simp]: "now fresh st0 (request_logged q s) = apply_request fresh q (now fresh st0 s)"
  by (simp add: now_def request_logged_def)

lemma request_logged_oc [simp]: "se_oc (request_logged q s) = se_oc s"
  by (simp add: request_logged_def)

lemma ask_Inr: "ap_object a (se_calls s) q = Inr v \<Longrightarrow> ask a q s = (Ret v, request_logged q s)"
  by (simp add: ask_def ask_as_def)

lemma ask_Inl: "ap_object a (se_calls s) q = Inl e \<Longrightarrow> ask a q s = (Fail e, request_logged q s)"
  by (simp add: ask_def ask_as_def)

lemma ask_list_Inr: "ap_list a (se_calls s) q = Inr v \<Longrightarrow> ask_list a q s = (Ret v, request_logged q s)"
  by (simp add: ask_list_def ask_as_def)

lemma serves_get:
  assumes "serves_store a fresh st0"
  shows "IsResourceExists a m n s = (Ret (map_option JDict (lookup_row n (now fresh st0 s m))), request_logged (RGet m n) s)"
proof -
  have *: "ap_object a (se_calls s) (RGet m n) =
      (case lookup_row n (now fresh st0 s m) of None \<Rightarrow> Inl (JSONClientError 404 []) | Some r \<Rightarrow> Inr (JDict r))"
    using assms by (simp add: serves_store_def now_def Let_def)
  show ?thesis
  proof (cases "lookup_row n (now fresh st0 s m)")
    case None
    then show ?thesis using * by (simp add: IsResourceExists_def ask_Inl go_simps)
  next
    case (Some r)
    then show ?thesis using * by (simp add: IsResourceExists_def ask_Inr go_simps)
  qed
qed

lemma serves_create:
  assumes "serves_store a fresh st0"
  shows "ask a (RCreate m d) s = (Ret (JDict (new_row fresh (now fresh st0 s m) d)), request_logged (RCreate m d) s)"
  using assms by (intro ask_Inr) (simp add: serves_store_def now_def Let_def)

lemma serves_update:
  assumes "serves_store a fresh st0"
  obtains v where "ask a (RUpdate m i d) s = (Ret v, request_logged (RUpdate m i d) s)"
  using assms unfolding serves_store_def Let_def by (meson ask_Inr)

lemma serves_patch:
  assumes "serves_store a fresh st0"
  shows "ask_unit a (RPatch m i d) s = (Ret (), request_logged (RPatch m i d) s)"
proof -
  obtain v where "ask a (RPatch m i d) s = (Ret v, request_logged (RPatch m i d) s)"
    using assms unfolding serves_store_def Let_def by (meson ask_Inr)
  then show ?thesis by (simp add: ask_unit_def go_simps)
qed

lemma serves_list:
  assumes "serves_store a fresh st0"
  obtains total where "ask_list a (RList m params) s =
    (Ret (map JDict (filter (matches params) (now fresh st0 s m)), total), request_logged (RList m params) s)"
  using assms unfolding serves_store_def Let_def now_def by (meson ask_list_Inr)

section \<open>Rows\<close>

lemma map_of_override [simp]: "map_of (override r d) k = (case map_of (rev d) k of None \<Rightarrow> map_of r k | Some v \<Rightarrow> Some v)"
  unfolding override_def
  by (induction d arbitrary: r) (auto simp: map_of_append update_conv' map_add_def split: option.splits)

text \<open>A row as the service stores it: identified by a string.\<close>

definition rows_ok :: "jdict list \<Rightarrow> bool" where
  "rows_ok rows \<longleftrightarrow> (\<forall>r\<in>set rows. \<exists>i. has_id i r) \<and> distinct (map (\<lambda>r. map_of r ''id'') rows)"

definition fresh_ok :: "(jdict list \<Rightarrow> string) \<Rightarrow> bool" where
  "fresh_ok fresh \<longleftrightarrow> (\<forall>rows. \<not> (\<exists>r\<in>set rows. has_id (fresh rows) r))"

lemma rows_ok_new:
  assumes "rows_ok rows" "fresh_ok fresh" "map_of d ''id'' = None"
  shows "rows_ok (rows @ [new_row fresh rows d])"
proof -
  have "Some (JStr (fresh rows)) \<noteq> map_of r ''id''" if "r \<in> set rows" for r
    using assms(2) that by (metis fresh_ok_def has_id_def)
  then show ?thesis using assms by (auto simp: rows_ok_def new_row_def has_id_def)
qed

lemma rows_ok_change:
  assumes "rows_ok rows" "map_of d ''id'' = None"
  shows "rows_ok (map (change_row i d) rows)"
proof -
  have "map_of (rev d) ''id'' = None" using assms(2) by (simp add: map_of_eq_None_iff)
  then have *: "map_of (change_row i d r) ''id'' = map_of r ''id''" for r
    by (simp add: change_row_def)
  show ?thesis using assms(1) by (simp add: rows_ok_def has_id_def * o_def)
qed

lemma rows_ok_unique:
  assumes "rows_ok rows" "r \<in> set rows" "r' \<in> set rows" "has_id i r" "has_id i r'"
  shows "r = r'"
proof -
  have "inj_on (\<lambda>r. map_of r ''id'') (set rows)" using assms(1) by (simp add: rows_ok_def distinct_map)
  then show ?thesis using assms(2-5) by (auto simp: has_id_def inj_on_def)
qed

section \<open>Registering an endpoint\<close>

definition ep_params :: "string \<Rightarrow> string \<Rightarrow> string \<Rightarrow> jdict" where
  "ep_params svc region ifc = [(''service_id'', JStr svc), (''region_id'', JStr region), (''interface'', JStr ifc)]"

definition endpoints_of :: "string \<Rightarrow> string \<Rightarrow> string \<Rightarrow> jdict list \<Rightarrow> jdict list" where
  "endpoints_of svc region ifc rows = filter (matches (ep_params svc region ifc)) rows"

definition ep_row :: "string \<Rightarrow> string \<Rightarrow> string \<Rightarrow> string \<Rightarrow> string \<Rightarrow> jdict" where
  "ep_row svc region ifc url cert =
     [(''service_id'', JStr svc), (''region_id'', JStr region), (''interface'', JStr ifc),
      (''enabled'', JBool (ifc \<noteq> EndpointTypeSlave)), (''url'', JStr url)] @ certificate_param cert"

text \<open>The specification: the first endpoint of the interface gets the URL, or a new one is added, the read-only one disabled.\<close>

definition put_endpoint ::
  "(jdict list \<Rightarrow> string) \<Rightarrow> (jv \<Rightarrow> string) \<Rightarrow> string \<Rightarrow> string \<Rightarrow> string \<Rightarrow> string \<Rightarrow> string \<Rightarrow> jdict list \<Rightarrow> jdict list" where
  "put_endpoint fresh print svc region cert ifc url rows =
     (case endpoints_of svc region ifc rows of
        [] \<Rightarrow> rows @ [new_row fresh rows (ep_row svc region ifc url cert)]
      | r # _ \<Rightarrow>
          if str_at print ''url'' (JDict r) = url then rows
          else map (change_row (str_at print ''id'' (JDict r)) ((''url'', JStr url) # certificate_param cert)) rows)"

definition has_url :: "(jv \<Rightarrow> string) \<Rightarrow> string \<Rightarrow> string \<Rightarrow> string \<Rightarrow> string \<Rightarrow> jdict list \<Rightarrow> bool" where
  "has_url print svc region ifc url rows \<longleftrightarrow>
     (\<exists>r rs. endpoints_of svc region ifc rows = r # rs \<and> str_at print ''url'' (JDict r) = url)"

lemma str_at_id: "has_id i r \<Longrightarrow> json_GetString print [''id''] (JDict r) = Some i" "has_id i r \<Longrightarrow> str_at print ''id'' (JDict r) = i"
  by (simp_all add: has_id_def str_at_def json_GetString_def)

lemma row_id_ex: "rows_ok rows \<Longrightarrow> r \<in> set rows \<Longrightarrow> \<exists>i. has_id i r"
  by (simp add: rows_ok_def)

lemma endpoints_of_first:
  assumes "endpoints_of svc region ifc rows = r # rs"
  shows "r \<in> set rows" "matches (ep_params svc region ifc) r"
proof -
  have "r \<in> set (endpoints_of svc region ifc rows)" using assms by simp
  then show "r \<in> set rows" "matches (ep_params svc region ifc) r" by (simp_all add: endpoints_of_def)
qed

lemma ensureEndpoint_refines:
  assumes a: "serves_store a fresh st0" and ok: "rows_ok (now fresh st0 s MEndpoints)"
  shows "\<exists>v s'. ensureEndpoint a svc region ifc url cert s = (Ret v, s') \<and> se_oc s' = se_oc s \<and>
    now fresh st0 s' = (now fresh st0 s)(MEndpoints := put_endpoint fresh (ap_print a) svc region cert ifc url (now fresh st0 s MEndpoints))"
proof -
  let ?rows = "now fresh st0 s MEndpoints" and ?q = "RList MEndpoints (ep_params svc region ifc)"
  let ?s1 = "request_logged ?q s"
  obtain total where list: "ask_list a ?q s = (Ret (map JDict (endpoints_of svc region ifc ?rows), total), ?s1)"
    using serves_list[OF a] unfolding endpoints_of_def by blast
  show ?thesis
  proof (cases "endpoints_of svc region ifc ?rows")
    case Nil
    then show ?thesis using list serves_create[OF a, where s = ?s1]
      by (simp add: ensureEndpoint_def isEndpointExists_def put_endpoint_def ep_row_def go_simps flip: ep_params_def)
  next
    case (Cons r rs)
    then obtain i where i: "has_id i r" using row_id_ex[OF ok] endpoints_of_first(1) by blast
    obtain v where up: "ask a (RUpdate MEndpoints i ((''url'', JStr url) # certificate_param cert)) ?s1 =
        (Ret v, request_logged (RUpdate MEndpoints i ((''url'', JStr url) # certificate_param cert)) ?s1)"
      using serves_update[OF a] .
    show ?thesis using list Cons up
      by (simp add: ensureEndpoint_def isEndpointExists_def put_endpoint_def str_at_id[OF i] go_simps flip: ep_params_def)
  qed
qed

abbreviation url_change :: "string \<Rightarrow> string \<Rightarrow> jdict" where
  "url_change url cert \<equiv> (''url'', JStr url) # certificate_param cert"

lemma url_change_keys:
  "map_of (url_change url cert) ''id'' = None"
  "map_of (rev (url_change url cert)) ''url'' = Some (JStr url)"
  "k \<in> {''id'', ''service_id'', ''region_id'', ''interface'', ''enabled''} \<Longrightarrow> map_of (rev (url_change url cert)) k = None"
  by (auto simp: certificate_param_def)

lemma ep_row_id: "map_of (ep_row svc region ifc url cert) ''id'' = None"
  by (simp add: ep_row_def certificate_param_def)

lemma matches_change [simp]:
  "matches (ep_params svc region ifc) (change_row i (url_change url cert) r) = matches (ep_params svc region ifc) r"
  by (simp add: matches_def ep_params_def change_row_def url_change_keys del: rev.simps)

lemma matches_ep_row [simp]:
  "matches (ep_params svc' region' ifc') (new_row fresh rows (ep_row svc region ifc url cert)) \<longleftrightarrow>
     svc' = svc \<and> region' = region \<and> ifc' = ifc"
  by (auto simp: matches_def ep_params_def new_row_def ep_row_def certificate_param_def)

lemma endpoints_of_change:
  "endpoints_of svc region ifc (map (change_row i (url_change url cert)) rows) =
     map (change_row i (url_change url cert)) (endpoints_of svc region ifc rows)"
  by (simp add: endpoints_of_def filter_map o_def)

lemma rows_ok_put:
  assumes "rows_ok rows" "fresh_ok fresh"
  shows "rows_ok (put_endpoint fresh print svc region cert ifc url rows)"
  using assms rows_ok_new[OF assms ep_row_id] rows_ok_change[OF assms(1) url_change_keys(1)]
  by (simp add: put_endpoint_def split: list.split)

lemma put_endpoint_url:
  assumes ok: "rows_ok rows"
  shows "has_url print svc region ifc url (put_endpoint fresh print svc region cert ifc url rows)"
proof (cases "endpoints_of svc region ifc rows")
  case Nil
  have "endpoints_of svc region ifc (rows @ [new_row fresh rows (ep_row svc region ifc url cert)])
      = [new_row fresh rows (ep_row svc region ifc url cert)]"
    using Nil by (simp add: endpoints_of_def)
  with Nil show ?thesis
    by (simp add: has_url_def put_endpoint_def str_at_def json_GetString_def new_row_def ep_row_def)
next
  case (Cons r rs)
  then obtain i where i: "has_id i r" using row_id_ex[OF ok] endpoints_of_first(1) by blast
  show ?thesis
  proof (cases "str_at print ''url'' (JDict r) = url")
    case True
    with Cons show ?thesis by (simp add: has_url_def put_endpoint_def)
  next
    case False
    then have "put_endpoint fresh print svc region cert ifc url rows = map (change_row i (url_change url cert)) rows"
      using Cons by (simp add: put_endpoint_def str_at_id[OF i])
    moreover have "str_at print ''url'' (JDict (change_row i (url_change url cert) r)) = url"
      by (simp add: change_row_def i str_at_def json_GetString_def url_change_keys del: rev.simps)
    ultimately show ?thesis using Cons by (simp add: has_url_def endpoints_of_change)
  qed
qed

lemma put_endpoint_others:
  assumes ok: "rows_ok rows" and other: "(svc', region', ifc') \<noteq> (svc, region, ifc)"
  shows "endpoints_of svc' region' ifc' (put_endpoint fresh print svc region cert ifc url rows) = endpoints_of svc' region' ifc' rows"
proof (cases "endpoints_of svc region ifc rows")
  case Nil
  with other show ?thesis by (simp add: put_endpoint_def endpoints_of_def)
next
  case (Cons r rs)
  note first = endpoints_of_first[OF Cons]
  obtain i where i: "has_id i r" using row_id_ex[OF ok first(1)] by blast
  have "change_row i d x = x" if "x \<in> set (endpoints_of svc' region' ifc' rows)" for x d
  proof -
    have x: "x \<in> set rows" "matches (ep_params svc' region' ifc') x" using that by (simp_all add: endpoints_of_def)
    have "\<not> has_id i x"
    proof
      assume "has_id i x"
      then have "x = r" using rows_ok_unique[OF ok x(1) first(1)] i by blast
      with x(2) first(2) other show False by (simp add: matches_def ep_params_def)
    qed
    then show ?thesis by (simp add: change_row_def)
  qed
  then show ?thesis using Cons
    by (simp add: put_endpoint_def str_at_id[OF i] endpoints_of_change map_idI)
qed

lemma put_endpoint_settled:
  "has_url print svc region ifc url rows \<Longrightarrow> put_endpoint fresh print svc region cert ifc url rows = rows"
  by (auto simp: has_url_def put_endpoint_def)

section \<open>Registering a service\<close>

definition put_endpoints ::
  "(jdict list \<Rightarrow> string) \<Rightarrow> (jv \<Rightarrow> string) \<Rightarrow> string \<Rightarrow> string \<Rightarrow> string \<Rightarrow> (string \<times> string) list \<Rightarrow> jdict list \<Rightarrow> jdict list" where
  "put_endpoints fresh print svc region cert urls = fold (\<lambda>(ifc, url). put_endpoint fresh print svc region cert ifc url) urls"

lemma rows_ok_puts:
  assumes "rows_ok rows" "fresh_ok fresh"
  shows "rows_ok (put_endpoints fresh print svc region cert urls rows)"
  using assms(1) unfolding put_endpoints_def
  by (induction urls arbitrary: rows) (auto intro: rows_ok_put[OF _ assms(2)])

lemma put_endpoints_others:
  assumes "rows_ok rows" "fresh_ok fresh" "\<not> (svc' = svc \<and> region' = region \<and> ifc' \<in> fst ` set urls)"
  shows "endpoints_of svc' region' ifc' (put_endpoints fresh print svc region cert urls rows) = endpoints_of svc' region' ifc' rows"
  using assms(1,3) unfolding put_endpoints_def
proof (induction urls arbitrary: rows)
  case (Cons x urls)
  obtain ifc url where x: "x = (ifc, url)" by (cases x)
  let ?rows = "put_endpoint fresh print svc region cert ifc url rows"
  have "rows_ok ?rows" by (rule rows_ok_put[OF Cons.prems(1) assms(2)])
  moreover have "\<not> (svc' = svc \<and> region' = region \<and> ifc' \<in> fst ` set urls)" using Cons.prems(2) by auto
  ultimately have "endpoints_of svc' region' ifc' (fold (\<lambda>(ifc, url). put_endpoint fresh print svc region cert ifc url) urls ?rows)
      = endpoints_of svc' region' ifc' ?rows"
    by (rule Cons.IH)
  also have "\<dots> = endpoints_of svc' region' ifc' rows"
    using Cons.prems x by (intro put_endpoint_others) auto
  finally show ?case using x by simp
qed simp

lemma put_endpoints_urls:
  assumes "rows_ok rows" "fresh_ok fresh" "distinct (map fst urls)" "(ifc, url) \<in> set urls"
  shows "has_url print svc region ifc url (put_endpoints fresh print svc region cert urls rows)"
  using assms(1,3,4) 
proof (induction urls arbitrary: rows)
  case (Cons x urls)
  obtain ifc1 url1 where x: "x = (ifc1, url1)" by (cases x)
  let ?rows = "put_endpoint fresh print svc region cert ifc1 url1 rows"
  have ok: "rows_ok ?rows" by (rule rows_ok_put[OF Cons.prems(1) assms(2)])
  have step: "put_endpoints fresh print svc region cert (x # urls) rows = put_endpoints fresh print svc region cert urls ?rows"
    by (simp add: put_endpoints_def x)
  show ?case
  proof (cases "(ifc, url) = x")
    case True
    then have "ifc \<notin> fst ` set urls" using Cons.prems(2) by (auto simp: image_iff)
    then have "endpoints_of svc region ifc (put_endpoints fresh print svc region cert urls ?rows) = endpoints_of svc region ifc ?rows"
      using put_endpoints_others[OF ok assms(2)] by blast
    then show ?thesis using put_endpoint_url[OF Cons.prems(1)] True x unfolding step has_url_def by simp
  next
    case False
    then show ?thesis using Cons.IH[OF ok] Cons.prems unfolding step by simp
  qed
qed simp

definition service_row :: "string \<Rightarrow> string \<Rightarrow> jdict" where
  "service_row name stype = [(''type'', JStr stype), (''name'', JStr name), (''enabled'', JBool True)]"

definition put_service :: "(jdict list \<Rightarrow> string) \<Rightarrow> string \<Rightarrow> string \<Rightarrow> jdict list \<Rightarrow> jdict list" where
  "put_service fresh name stype rows =
     (if lookup_row name rows = None then rows @ [new_row fresh rows (service_row name stype)] else rows)"

lemma lookup_put_service: "\<exists>r. lookup_row name (put_service fresh name stype rows) = Some r"
proof (cases "lookup_row name rows")
  case None
  then show ?thesis
    by (auto simp: put_service_def lookup_row_def find_None_iff find_Some_iff new_row_def service_row_def nth_append
             intro!: exI[of _ "new_row fresh rows (service_row name stype)"] exI[of _ "length rows"])
qed (simp add: put_service_def)

lemma rows_ok_put_service: "rows_ok rows \<Longrightarrow> fresh_ok fresh \<Longrightarrow> rows_ok (put_service fresh name stype rows)"
  by (simp add: put_service_def rows_ok_new service_row_def)

lemma lookup_row_in: "lookup_row n rows = Some r \<Longrightarrow> r \<in> set rows"
  by (auto simp: lookup_row_def find_Some_iff)

lemma EnsureService_refines:
  assumes a: "serves_store a fresh st0"
  shows "\<exists>s' r. EnsureService a name stype s = (Ret (JDict r), s') \<and> se_oc s' = se_oc s
    \<and> now fresh st0 s' = (now fresh st0 s)(MServices := put_service fresh name stype (now fresh st0 s MServices))
    \<and> lookup_row name (put_service fresh name stype (now fresh st0 s MServices)) = Some r"
proof (cases "lookup_row name (now fresh st0 s MServices)")
  case None
  let ?rows = "now fresh st0 s MServices"
  have "find P (xs @ [x]) = Some x" if "find P xs = None" "P x" for P x and xs :: "jdict list"
    using that by (induction xs) (auto split: if_splits)
  then have "lookup_row name (?rows @ [new_row fresh ?rows (service_row name stype)]) = Some (new_row fresh ?rows (service_row name stype))"
    using None by (simp add: lookup_row_def new_row_def service_row_def)
  with None show ?thesis using serves_get[OF a] serves_create[OF a]
    by (simp add: EnsureService_def EnsureResource_def cloud_CreateService_def put_service_def go_simps flip: service_row_def)
next
  case (Some r)
  then show ?thesis using serves_get[OF a]
    by (simp add: EnsureService_def EnsureResource_def put_service_def go_simps)
qed

lemma endpoint_loop_refines:
  assumes a: "serves_store a fresh st0" and f: "fresh_ok fresh" and ok: "rows_ok (now fresh st0 s MEndpoints)"
  shows "\<exists>s'. for_each urls (\<lambda>(ifc, url). andthen (ensureEndpoint a svc region ifc url cert) (\<lambda>_. ret ())) s = (Ret (), s')
    \<and> se_oc s' = se_oc s
    \<and> now fresh st0 s' = (now fresh st0 s)(MEndpoints := put_endpoints fresh (ap_print a) svc region cert urls (now fresh st0 s MEndpoints))"
  using ok
proof (induction urls arbitrary: s)
  case Nil
  then show ?case by (simp add: put_endpoints_def go_simps)
next
  case (Cons x urls)
  obtain ifc url where x: "x = (ifc, url)" by (cases x)
  let ?rows = "put_endpoint fresh (ap_print a) svc region cert ifc url (now fresh st0 s MEndpoints)"
  obtain v s1 where one: "ensureEndpoint a svc region ifc url cert s = (Ret v, s1)" "se_oc s1 = se_oc s"
      "now fresh st0 s1 = (now fresh st0 s)(MEndpoints := ?rows)"
    using ensureEndpoint_refines[OF a Cons.prems] by blast
  then have "rows_ok (now fresh st0 s1 MEndpoints)" using rows_ok_put[OF Cons.prems f] by simp
  then obtain s' where rest: "for_each urls (\<lambda>(ifc, url). andthen (ensureEndpoint a svc region ifc url cert) (\<lambda>_. ret ())) s1 = (Ret (), s')"
      "se_oc s' = se_oc s1"
      "now fresh st0 s' = (now fresh st0 s1)(MEndpoints := put_endpoints fresh (ap_print a) svc region cert urls (now fresh st0 s1 MEndpoints))"
    using Cons.IH by blast
  have "andthen (ensureEndpoint a svc region ifc url cert) (\<lambda>_. ret ()) s = (Ret (), s1)"
    using one(1) by (simp add: andthen_def ret_def)
  then have "for_each (x # urls) (\<lambda>(ifc, url). andthen (ensureEndpoint a svc region ifc url cert) (\<lambda>_. ret ())) s = (Ret (), s')"
    using rest(1) by (simp add: x seq_eval)
  moreover have "now fresh st0 s' = (now fresh st0 s)(MEndpoints :=
      put_endpoints fresh (ap_print a) svc region cert (x # urls) (now fresh st0 s MEndpoints))"
    using rest(3) one(3) by (simp add: put_endpoints_def x)
  ultimately show ?case using rest(2) one(2) by (intro exI[of _ s']) simp
qed

lemma RegisterServiceEndpoints_refines:
  assumes a: "serves_store a fresh st0" and f: "fresh_ok fresh"
    and ok: "rows_ok (now fresh st0 s MServices)" "rows_ok (now fresh st0 s MEndpoints)"
  obtains s' r svc where "RegisterServiceEndpoints a region name stype cert urls s = (Ret (), s')" "se_oc s' = se_oc s"
    "lookup_row name (now fresh st0 s' MServices) = Some r" "has_id svc r"
    "now fresh st0 s' = (now fresh st0 s)(MServices := put_service fresh name stype (now fresh st0 s MServices),
       MEndpoints := put_endpoints fresh (ap_print a) svc region cert (range_map (ap_order a) urls) (now fresh st0 s MEndpoints))"
proof -
  obtain s1 r where one: "EnsureService a name stype s = (Ret (JDict r), s1)" "se_oc s1 = se_oc s"
      "now fresh st0 s1 = (now fresh st0 s)(MServices := put_service fresh name stype (now fresh st0 s MServices))"
      "lookup_row name (put_service fresh name stype (now fresh st0 s MServices)) = Some r"
    using EnsureService_refines[OF a] by blast
  obtain svc where svc: "has_id svc r"
    using row_id_ex[OF rows_ok_put_service[OF ok(1) f] lookup_row_in[OF one(4)]] by blast
  have "rows_ok (now fresh st0 s1 MEndpoints)" using one(3) ok(2) by simp
  from endpoint_loop_refines[OF a f this] obtain s' where two:
      "for_each (range_map (ap_order a) urls) (\<lambda>(ifc, url). andthen (ensureEndpoint a svc region ifc url cert) (\<lambda>_. ret ())) s1 = (Ret (), s')"
      "se_oc s' = se_oc s1"
      "now fresh st0 s' = (now fresh st0 s1)(MEndpoints := put_endpoints fresh (ap_print a) svc region cert (range_map (ap_order a) urls) (now fresh st0 s1 MEndpoints))"
    by blast
  have "RegisterServiceEndpoints a region name stype cert urls s = (Ret (), s')"
    using one(1) two(1) by (simp add: RegisterServiceEndpoints_def str_at_id[OF svc] go_simps)
  then show thesis using one two svc that by simp
qed

lemma put_endpoints_settled:
  assumes "\<forall>(ifc, url)\<in>set urls. has_url print svc region ifc url rows"
  shows "put_endpoints fresh print svc region cert urls rows = rows"
  using assms unfolding put_endpoints_def by (induction urls) (auto simp: put_endpoint_settled)

text \<open>
  C8: Registering the endpoints of a service in a catalogue that serves its store succeeds, in whatever order the map of
  interfaces is ranged over: the service is there afterwards, the first endpoint of every given interface has the given
  URL, the endpoints of other services, regions and interfaces are as before, and registering the same endpoints again
  changes nothing.
\<close>

theorem RegisterServiceEndpoints_registers:
  assumes a: "serves_store a fresh st0" and f: "fresh_ok fresh"
    and ok: "rows_ok (now fresh st0 s MServices)" "rows_ok (now fresh st0 s MEndpoints)" and d: "distinct (map fst urls)"
  shows "\<exists>s' r svc. RegisterServiceEndpoints a region name stype cert urls s = (Ret (), s')
    \<and> lookup_row name (now fresh st0 s' MServices) = Some r \<and> has_id svc r
    \<and> (\<forall>(ifc, url)\<in>set urls. has_url (ap_print a) svc region ifc url (now fresh st0 s' MEndpoints))
    \<and> (\<forall>svc' region' ifc'. \<not> (svc' = svc \<and> region' = region \<and> ifc' \<in> fst ` set urls) \<longrightarrow>
         endpoints_of svc' region' ifc' (now fresh st0 s' MEndpoints) = endpoints_of svc' region' ifc' (now fresh st0 s MEndpoints))
    \<and> (\<exists>s''. RegisterServiceEndpoints a region name stype cert urls s' = (Ret (), s'') \<and> now fresh st0 s'' = now fresh st0 s')"
proof -
  let ?urls = "range_map (ap_order a) urls" and ?p = "ap_print a"
  obtain s' r svc where s': "RegisterServiceEndpoints a region name stype cert urls s = (Ret (), s')"
      "lookup_row name (now fresh st0 s' MServices) = Some r" "has_id svc r"
      "now fresh st0 s' = (now fresh st0 s)(MServices := put_service fresh name stype (now fresh st0 s MServices),
         MEndpoints := put_endpoints fresh ?p svc region cert ?urls (now fresh st0 s MEndpoints))"
    using RegisterServiceEndpoints_refines[OF a f ok] by metis
  have urls: "\<forall>(ifc, url)\<in>set ?urls. has_url ?p svc region ifc url (now fresh st0 s' MEndpoints)"
    using s'(4) put_endpoints_urls[OF ok(2) f, of ?urls] d by auto
  have ok': "rows_ok (now fresh st0 s' MServices)" "rows_ok (now fresh st0 s' MEndpoints)"
    using s'(4) ok f by (simp_all add: rows_ok_put_service rows_ok_puts)
  obtain s'' r2 svc2 where s'': "RegisterServiceEndpoints a region name stype cert urls s' = (Ret (), s'')"
      "lookup_row name (now fresh st0 s'' MServices) = Some r2" "has_id svc2 r2"
      "now fresh st0 s'' = (now fresh st0 s')(MServices := put_service fresh name stype (now fresh st0 s' MServices),
         MEndpoints := put_endpoints fresh ?p svc2 region cert ?urls (now fresh st0 s' MEndpoints))"
    using RegisterServiceEndpoints_refines[OF a f ok'] by metis
  have "put_service fresh name stype (now fresh st0 s' MServices) = now fresh st0 s' MServices"
    using s'(2) by (simp add: put_service_def)
  moreover from this have "r2 = r" using s''(2,4) s'(2) by simp
  then have "svc2 = svc" using s''(3) s'(3) by (simp add: has_id_def)
  ultimately have "now fresh st0 s'' = now fresh st0 s'"
    using s''(4) put_endpoints_settled[OF urls] by simp
  then show ?thesis using s'(1-3) s''(1) urls put_endpoints_others[OF ok(2) f] s'(4)
    by (intro exI[of _ s'] exI[of _ r] exI[of _ svc]) auto
qed

section \<open>Enabling a service\<close>

definition wanted_enabled :: "(jv \<Rightarrow> string) \<Rightarrow> bool \<Rightarrow> jdict \<Rightarrow> bool" where
  "wanted_enabled print enableRO r \<longleftrightarrow> str_at print ''interface'' (JDict r) \<noteq> EndpointTypeSlave \<or> enableRO"

definition of_service :: "string \<Rightarrow> jdict \<Rightarrow> bool" where
  "of_service svc r \<longleftrightarrow> map_of r ''service_id'' = Some (JStr svc)"

definition enable_row :: "(jv \<Rightarrow> string) \<Rightarrow> bool \<Rightarrow> string \<Rightarrow> jdict \<Rightarrow> jdict" where
  "enable_row print enableRO svc r =
     (if of_service svc r \<and> bool_at ''enabled'' (JDict r) \<noteq> wanted_enabled print enableRO r
      then override r [(''enabled'', JBool (wanted_enabled print enableRO r))] else r)"

lemma str_at_override [simp]:
  "k \<noteq> ''enabled'' \<Longrightarrow> str_at print k (JDict (override r [(''enabled'', v)])) = str_at print k (JDict r)"
  by (simp add: str_at_def json_GetString_def)

lemma bool_at_override [simp]: "bool_at ''enabled'' (JDict (override r [(''enabled'', JBool b)])) = b"
  by (cases b) (simp_all add: bool_at_def json_Bool_def)

lemma enable_row_id [simp]: "has_id i (enable_row print ro svc r) = has_id i r"
  by (simp add: enable_row_def has_id_def)

lemma enable_row_service [simp]: "of_service svc' (enable_row print ro svc r) = of_service svc' r"
  by (simp add: enable_row_def of_service_def)

lemma enable_row_enabled:
  assumes "of_service svc r"
  shows "bool_at ''enabled'' (JDict (enable_row print ro svc r)) = wanted_enabled print ro (enable_row print ro svc r)"
  using assms by (simp add: enable_row_def wanted_enabled_def)

lemma enable_row_twice: "enable_row print ro svc (enable_row print ro svc r) = enable_row print ro svc r"
  using enable_row_enabled[of svc r print ro] by (cases "of_service svc r") (simp_all add: enable_row_def)

lemma enable_step_eval:
  assumes a: "serves_store a fresh st0" and i: "has_id i r" and svc: "of_service svc r"
  obtains s' where "enable_endpoint_step a ro (JDict r) s = (Ret (), s')" "se_oc s' = se_oc s"
    "now fresh st0 s' = (now fresh st0 s)(MEndpoints := map (\<lambda>x. if has_id i x \<and> enable_row (ap_print a) ro svc r \<noteq> r
       then override x [(''enabled'', JBool (wanted_enabled (ap_print a) ro r))] else x) (now fresh st0 s MEndpoints))"
proof -
  let ?w = "wanted_enabled (ap_print a) ro r" and ?e = "bool_at ''enabled'' (JDict r)"
  show thesis
  proof (cases "?e = ?w")
    case True
    then have "enable_endpoint_step a ro (JDict r) s = (Ret (), s)"
      by (auto simp: enable_endpoint_step_def wanted_enabled_def Let_def go_simps)
    moreover have "enable_row (ap_print a) ro svc r = r" using True by (simp add: enable_row_def)
    ultimately show thesis by (intro that[of s]) simp_all
  next
    case False
    then have changed: "enable_row (ap_print a) ro svc r \<noteq> r"
      using svc enable_row_enabled[OF svc, of "ap_print a" ro] by (metis)
    have step: "enable_endpoint_step a ro (JDict r) s =
        (Ret (), request_logged (RPatch MEndpoints i [(''enabled'', JBool ?w)]) s)"
      using False serves_patch[OF a] str_at_id(2)[OF i, of "ap_print a"]
      by (cases ?w) (auto simp: enable_endpoint_step_def wanted_enabled_def enableEndpoint_def disableEndpoint_def Let_def map_err_def)
    show thesis
      by (rule that[OF step]) (auto simp: changed change_row_def fun_eq_iff)
  qed
qed

lemma enable_loop_refines:
  assumes a: "serves_store a fresh st0"
  shows "now fresh st0 s MEndpoints = map (enable_row (ap_print a) ro svc) done @ todo \<Longrightarrow> rows_ok (done @ todo) \<Longrightarrow>
    \<exists>s'. for_each (map JDict (filter (of_service svc) todo)) (enable_endpoint_step a ro) s = (Ret (), s') \<and> se_oc s' = se_oc s
      \<and> now fresh st0 s' = (now fresh st0 s)(MEndpoints := map (enable_row (ap_print a) ro svc) (done @ todo))"
proof (induction todo arbitrary: s "done")
  case Nil
  then show ?case by (auto simp: go_simps fun_eq_iff)
next
  case (Cons r todo)
  let ?en = "enable_row (ap_print a) ro svc"
  show ?case
  proof (cases "of_service svc r")
    case False
    then have "?en r = r" by (simp add: enable_row_def)
    then show ?thesis using Cons.IH[of s "done @ [r]"] Cons.prems False by simp
  next
    case True
    obtain i where i: "has_id i r" using Cons.prems(2) row_id_ex by (metis in_set_conv_decomp)
    obtain s1 where s1: "enable_endpoint_step a ro (JDict r) s = (Ret (), s1)" "se_oc s1 = se_oc s"
        "now fresh st0 s1 = (now fresh st0 s)(MEndpoints := map (\<lambda>x. if has_id i x \<and> ?en r \<noteq> r
           then override x [(''enabled'', JBool (wanted_enabled (ap_print a) ro r))] else x) (now fresh st0 s MEndpoints))"
      using enable_step_eval[OF a i True] by blast
    have other: "\<not> has_id i x" if "x \<in> set done \<union> set todo" for x
    proof
      assume "has_id i x"
      then have "map_of x ''id'' = map_of r ''id''" using i by (simp add: has_id_def)
      moreover have "distinct (map (\<lambda>r. map_of r ''id'') (done @ r # todo))" using Cons.prems(2) by (simp add: rows_ok_def)
      ultimately show False using that by (auto simp: image_iff)
    qed
    have here: "(if ?en r \<noteq> r then override r [(''enabled'', JBool (wanted_enabled (ap_print a) ro r))] else r) = ?en r"
      by (simp add: enable_row_def)
    have rows1: "now fresh st0 s1 MEndpoints = map ?en (done @ [r]) @ todo"
      using s1(3) Cons.prems(1) other i here by (auto intro!: map_cong map_idI)
    have "rows_ok ((done @ [r]) @ todo)" using Cons.prems(2) by simp
    from Cons.IH[OF rows1 this]
    obtain s' where s': "for_each (map JDict (filter (of_service svc) todo)) (enable_endpoint_step a ro) s1 = (Ret (), s')"
        "se_oc s' = se_oc s1" "now fresh st0 s' = (now fresh st0 s1)(MEndpoints := map ?en ((done @ [r]) @ todo))"
      by blast
    have "for_each (map JDict (filter (of_service svc) (r # todo))) (enable_endpoint_step a ro) s = (Ret (), s')"
      using s1(1) s'(1) True by (simp add: seq_eval)
    then show ?thesis using s'(2,3) s1(2,3) by (intro exI[of _ s']) (simp add: fun_eq_iff)
  qed
qed

lemma matches_service: "matches [(''service_id'', JStr svc), (''limit'', v)] = of_service svc"
  by (simp add: fun_eq_iff matches_def of_service_def)

lemma getEndpointsByService_eval:
  assumes a: "serves_store a fresh st0" and r: "lookup_row name (now fresh st0 s MServices) = Some r" "has_id svc r"
  obtains s' where "getEndpointsByService a name None s = (Ret (map JDict (filter (of_service svc) (now fresh st0 s MEndpoints))), s')"
    "se_oc s' = se_oc s" "now fresh st0 s' = now fresh st0 s"
proof -
  let ?s1 = "request_logged (RGet MServices name) s" and ?q = "RList MEndpoints [(''service_id'', JStr svc), (''limit'', JInt 0)]"
  have "ap_object a (se_calls s) (RGet MServices name) = Inr (JDict r)"
    using a r(1) by (simp add: serves_store_def now_def Let_def)
  then have get: "ask a (RGet MServices name) s = (Ret (JDict r), ?s1)" by (rule ask_Inr)
  obtain total where list: "ask_list a ?q ?s1 =
      (Ret (map JDict (filter (of_service svc) (now fresh st0 s MEndpoints)), total), request_logged ?q ?s1)"
    using serves_list[OF a, of MEndpoints "[(''service_id'', JStr svc), (''limit'', JInt 0)]" ?s1] by (auto simp: matches_service)
  have "getEndpointsByService a name None s =
      (Ret (map JDict (filter (of_service svc) (now fresh st0 s MEndpoints))), request_logged ?q ?s1)"
    using get list by (simp add: getEndpointsByService_def str_at_id[OF r(2)] go_simps)
  then show thesis by (rule that) simp_all
qed

definition enabled_service :: "string \<Rightarrow> jdict \<Rightarrow> jdict list \<Rightarrow> jdict list" where
  "enabled_service svc r rows = (if bool_at ''enabled'' (JDict r) then rows else map (change_row svc [(''enabled'', JBool True)]) rows)"

lemma lookup_enabled_service:
  assumes "lookup_row name rows = Some r" "has_id svc r"
  obtains r' where "lookup_row name (enabled_service svc r rows) = Some r'" "has_id svc r'" "bool_at ''enabled'' (JDict r')"
proof (cases "bool_at ''enabled'' (JDict r)")
  case False
  let ?f = "change_row svc [(''enabled'', JBool True)]"
  have keys: "has_id n (?f x) = has_id n x" "map_of (?f x) ''name'' = map_of x ''name''" for n x
    by (simp_all add: change_row_def has_id_def)
  have "find P (map ?f xs) = map_option ?f (find (P \<circ> ?f) xs)" for P xs
    by (induction xs) simp_all
  then have "lookup_row name (map ?f rows) = Some (?f r)"
    using assms(1) by (simp add: lookup_row_def o_def keys)
  moreover have "has_id svc (?f r)" using assms(2) by (simp add: keys)
  moreover have "bool_at ''enabled'' (JDict (?f r))" using assms(2) by (simp add: change_row_def)
  ultimately show thesis using that[of "?f r"] False by (simp add: enabled_service_def)
qed (use assms that in \<open>simp add: enabled_service_def\<close>)

lemma EnsureEnableService_refines:
  assumes a: "serves_store a fresh st0" and r: "lookup_row name (now fresh st0 s MServices) = Some r" "has_id svc r"
    and ok: "rows_ok (now fresh st0 s MEndpoints)"
  obtains s' where "EnsureEnableService a name ro s = (Ret (), s')" "se_oc s' = se_oc s"
    "now fresh st0 s' = (now fresh st0 s)(MServices := enabled_service svc r (now fresh st0 s MServices),
       MEndpoints := map (enable_row (ap_print a) ro svc) (now fresh st0 s MEndpoints))"
proof -
  let ?s1 = "request_logged (RGet MServices name) s"
  have get: "IsServiceExists a name s = (Ret (Some (JDict r)), ?s1)"
    using serves_get[OF a, of MServices name s] r(1) by (simp add: IsServiceExists_def)
  have r1: "lookup_row name (now fresh st0 ?s1 MServices) = Some r" using r(1) by simp
  obtain s2 where s2: "getEndpointsByService a name None ?s1 = (Ret (map JDict (filter (of_service svc) (now fresh st0 s MEndpoints))), s2)"
      "se_oc s2 = se_oc s" "now fresh st0 s2 = now fresh st0 s"
    using getEndpointsByService_eval[OF a r1 r(2)] by auto
  obtain s3 where s3: "for_each (map JDict (filter (of_service svc) (now fresh st0 s MEndpoints))) (enable_endpoint_step a ro) s2 = (Ret (), s3)"
      "se_oc s3 = se_oc s" "now fresh st0 s3 = (now fresh st0 s)(MEndpoints := map (enable_row (ap_print a) ro svc) (now fresh st0 s MEndpoints))"
    using enable_loop_refines[OF a, of s2 ro svc "[]" "now fresh st0 s MEndpoints"] s2 ok by auto
  let ?q = "RPatch MServices svc [(''enabled'', JBool True)]"
  let ?s4 = "if bool_at ''enabled'' (JDict r) then s3 else request_logged ?q s3"
  have "EnsureEnableService a name ro s = (Ret (), ?s4)"
    using get s2(1) s3(1) serves_patch[OF a, of MServices svc "[(''enabled'', JBool True)]" s3]
    by (simp add: EnsureEnableService_def str_at_id[OF r(2)] go_simps)
  moreover have "se_oc ?s4 = se_oc s" using s3(2) by simp
  moreover have "now fresh st0 ?s4 = (now fresh st0 s)(MServices := enabled_service svc r (now fresh st0 s MServices),
       MEndpoints := map (enable_row (ap_print a) ro svc) (now fresh st0 s MEndpoints))"
    using s3(3) by (simp add: enabled_service_def fun_eq_iff)
  ultimately show thesis by (rule that)
qed

text \<open>
  C17: Enabling a registered service in a catalogue that serves its store succeeds: afterwards the service is enabled, an
  endpoint of it is enabled exactly when it is not the read-only one or read-only access is asked for, the endpoints of
  other services are as before, and doing it again changes nothing.
\<close>

theorem EnsureEnableService_enables:
  assumes a: "serves_store a fresh st0" and r: "lookup_row name (now fresh st0 s MServices) = Some r" "has_id svc r"
    and ok: "rows_ok (now fresh st0 s MEndpoints)"
  shows "\<exists>s' r'. EnsureEnableService a name ro s = (Ret (), s')
    \<and> lookup_row name (now fresh st0 s' MServices) = Some r' \<and> bool_at ''enabled'' (JDict r')
    \<and> (\<forall>e\<in>set (now fresh st0 s' MEndpoints). of_service svc e \<longrightarrow>
         bool_at ''enabled'' (JDict e) = (str_at (ap_print a) ''interface'' (JDict e) \<noteq> EndpointTypeSlave \<or> ro))
    \<and> filter (\<lambda>e. \<not> of_service svc e) (now fresh st0 s' MEndpoints) = filter (\<lambda>e. \<not> of_service svc e) (now fresh st0 s MEndpoints)
    \<and> (\<exists>s''. EnsureEnableService a name ro s' = (Ret (), s'') \<and> now fresh st0 s'' = now fresh st0 s')"
proof -
  let ?en = "enable_row (ap_print a) ro svc" and ?rows = "now fresh st0 s MEndpoints"
  obtain s' where s': "EnsureEnableService a name ro s = (Ret (), s')"
      "now fresh st0 s' = (now fresh st0 s)(MServices := enabled_service svc r (now fresh st0 s MServices), MEndpoints := map ?en ?rows)"
    using EnsureEnableService_refines[OF a r ok] by metis
  obtain r' where r': "lookup_row name (now fresh st0 s' MServices) = Some r'" "has_id svc r'" "bool_at ''enabled'' (JDict r')"
    using lookup_enabled_service[OF r] s'(2) by auto
  have rows: "now fresh st0 s' MEndpoints = map ?en ?rows" using s'(2) by simp
  have "map_of (?en x) ''id'' = map_of x ''id''" for x by (simp add: enable_row_def)
  then have ok': "rows_ok (now fresh st0 s' MEndpoints)" using ok by (simp add: rows rows_ok_def o_def has_id_def)
  have enabled: "bool_at ''enabled'' (JDict e) = wanted_enabled (ap_print a) ro e"
    if "e \<in> set (now fresh st0 s' MEndpoints)" "of_service svc e" for e
    using that enable_row_enabled[of svc _ "ap_print a" ro] by (auto simp: rows)
  obtain s'' where s'': "EnsureEnableService a name ro s' = (Ret (), s'')"
      "now fresh st0 s'' = (now fresh st0 s')(MServices := enabled_service svc r' (now fresh st0 s' MServices), MEndpoints := map ?en (now fresh st0 s' MEndpoints))"
    using EnsureEnableService_refines[OF a r'(1,2) ok'] by metis
  have "now fresh st0 s'' = now fresh st0 s'"
    using s''(2) r'(3) by (simp add: enabled_service_def rows o_def enable_row_twice) (simp flip: rows)
  moreover have "filter (\<lambda>e. \<not> of_service svc e) (map ?en ?rows) = filter (\<lambda>e. \<not> of_service svc e) ?rows"
    by (simp add: filter_map o_def) (rule map_idI, simp add: enable_row_def)
  ultimately show ?thesis using s'(1) r' s''(1) enabled rows
    by (intro exI[of _ s'] exI[of _ r']) (auto simp: wanted_enabled_def)
qed

section \<open>A concrete catalogue\<close>

definition id_length :: "jdict \<Rightarrow> nat" where
  "id_length r = (case map_of r ''id'' of Some (JStr i) \<Rightarrow> length i | _ \<Rightarrow> 0)"

definition longer_id :: "jdict list \<Rightarrow> string" where
  "longer_id rows = replicate (Suc (sum_list (map id_length rows))) CHR ''n''"

lemma fresh_longer_id: "fresh_ok longer_id"
proof -
  have "\<not> has_id (longer_id rows) r" if "r \<in> set rows" for r rows
  proof
    assume "has_id (longer_id rows) r"
    then have "id_length r = Suc (sum_list (map id_length rows))" by (simp add: has_id_def id_length_def longer_id_def)
    moreover have "id_length r \<le> sum_list (map id_length rows)" using that by (simp add: member_le_sum_list)
    ultimately show False by simp
  qed
  then show ?thesis by (auto simp: fresh_ok_def)
qed

definition store_api :: "store \<Rightarrow> api" where
  "store_api st0 =
     \<lparr>ap_object = (\<lambda>h q. case q of
        RGet m n \<Rightarrow> (case lookup_row n (fold (apply_request longer_id) h st0 m) of
            None \<Rightarrow> Inl (JSONClientError 404 []) | Some r \<Rightarrow> Inr (JDict r))
      | RCreate m d \<Rightarrow> Inr (JDict (new_row longer_id (fold (apply_request longer_id) h st0 m) d))
      | _ \<Rightarrow> Inr (JDict [])),
      ap_list = (\<lambda>h q. case q of
        RList m params \<Rightarrow> Inr (map JDict (filter (matches params) (fold (apply_request longer_id) h st0 m)),
           int (length (filter (matches params) (fold (apply_request longer_id) h st0 m))))
      | _ \<Rightarrow> Inr ([], 0)),
      ap_secret = (\<lambda>_. Inr []), ap_ready = (\<lambda>h n. Inr 0), ap_err = (\<lambda>_. []), ap_print = (\<lambda>_. []), ap_order = length,
      ap_equals = (=), ap_policies = [], ap_roles = [], ap_controller = True, ap_telegrafConf = [], ap_authed = (\<lambda>_. True),
      ap_hostLine = (\<lambda>l. Inr (JStr l)), ap_moduleLine = (\<lambda>l. Inr (JStr l)), ap_settings = (\<lambda>_. Inr []), ap_details = (\<lambda>_. Inr []),
      ap_sameSelects = (=), ap_components = (\<lambda>_. Inl (Errorf [])), ap_nodes = (\<lambda>_. Inr []), ap_config = (\<lambda>_. Inl (Errorf [])),
      ap_service = (\<lambda>h q. Inl (Errorf [])), ap_deployment = (\<lambda>h q. Inl (Errorf [])), ap_containers = (\<lambda>h q. Inr []),
      ap_minio = (\<lambda>_. None), ap_bucket = (\<lambda>h q. Inr True), ap_sameTags = (=)\<rparr>"

lemma store_api_serves: "serves_store (store_api st0) longer_id st0"
  by (simp add: serves_store_def store_api_def Let_def)

lemma store_api_sel: "ap_print (store_api st0) = (\<lambda>_. [])" "ap_authed (store_api st0) = (\<lambda>_. True)"
  by (simp_all add: store_api_def)

definition start_session :: "OnecloudCluster \<Rightarrow> session" where
  "start_session oc = \<lparr>se_calls = [], se_oc = oc\<rparr>"

lemma now_start [simp]: "now fresh st0 (start_session oc) = st0"
  by (simp add: now_def start_session_def)

text \<open>A catalogue with one service that is switched off and its two endpoints, one of them of another address.\<close>

definition demo_store :: store where
  "demo_store m =
     (case m of
        MServices \<Rightarrow> [[(''id'', JStr ''s1''), (''name'', JStr ''glance''), (''type'', JStr ''image''), (''enabled'', JBool False)]]
      | MEndpoints \<Rightarrow>
          [[(''id'', JStr ''e1''), (''service_id'', JStr ''s1''), (''region_id'', JStr ''r''), (''interface'', JStr ''internal''),
            (''enabled'', JBool False), (''url'', JStr ''https://old:1'')],
           [(''id'', JStr ''e2''), (''service_id'', JStr ''s1''), (''region_id'', JStr ''r''), (''interface'', JStr ''slave''),
            (''enabled'', JBool True), (''url'', JStr ''https://ro:1'')]]
      | _ \<Rightarrow> [])"

lemma demo_rows_ok: "rows_ok (demo_store MServices)" "rows_ok (demo_store MEndpoints)"
  by (auto simp: rows_ok_def demo_store_def has_id_def)

theorem RegisterServiceEndpoints_registers_witness:
  "distinct (map fst [(''internal'', ''https://new:1''), (''public'', ''https://pub:1'')]) \<and>
   (\<exists>s' r svc. RegisterServiceEndpoints (store_api demo_store) ''r'' ''glance'' ''image'' [] [(''internal'', ''https://new:1''), (''public'', ''https://pub:1'')]
       (start_session zero_OnecloudCluster) = (Ret (), s')
    \<and> lookup_row ''glance'' (now longer_id demo_store s' MServices) = Some r \<and> has_id svc r
    \<and> has_url (\<lambda>_. []) svc ''r'' ''internal'' ''https://new:1'' (now longer_id demo_store s' MEndpoints)
    \<and> has_url (\<lambda>_. []) svc ''r'' ''public'' ''https://pub:1'' (now longer_id demo_store s' MEndpoints)
    \<and> endpoints_of svc ''r'' ''slave'' (now longer_id demo_store s' MEndpoints) = endpoints_of svc ''r'' ''slave'' (demo_store MEndpoints))"
proof -
  have urls: "distinct (map fst [(''internal'', ''https://new:1''), (''public'', ''https://pub:1'')])" by simp
  have "rows_ok (now longer_id demo_store (start_session zero_OnecloudCluster) MServices)"
    "rows_ok (now longer_id demo_store (start_session zero_OnecloudCluster) MEndpoints)"
    using demo_rows_ok by simp_all
  from RegisterServiceEndpoints_registers[OF store_api_serves fresh_longer_id this urls, of "''r''" "''glance''" "''image''" "[]"]
  show ?thesis using urls by (auto simp: store_api_sel)
qed

theorem EnsureEnableService_enables_witness:
  "lookup_row ''glance'' (demo_store MServices) \<noteq> None \<and>
   (\<exists>s' r'. EnsureEnableService (store_api demo_store) ''glance'' False (start_session zero_OnecloudCluster) = (Ret (), s')
    \<and> lookup_row ''glance'' (now longer_id demo_store s' MServices) = Some r' \<and> bool_at ''enabled'' (JDict r'))"
proof -
  let ?s = "start_session zero_OnecloudCluster"
  have r: "lookup_row ''glance'' (demo_store MServices) = Some (hd (demo_store MServices))" "has_id ''s1'' (hd (demo_store MServices))"
    by (simp_all add: lookup_row_def demo_store_def has_id_def)
  then have lk: "lookup_row ''glance'' (now longer_id demo_store ?s MServices) = Some (hd (demo_store MServices))" by simp
  have rk: "rows_ok (now longer_id demo_store ?s MEndpoints)" using demo_rows_ok by simp
  from EnsureEnableService_enables[OF store_api_serves lk r(2) rk, where ro = False] show ?thesis using r(1) by auto
qed

end
