(* ===== verification/Phase_Laws.thy ===== *)
theory Phase_Laws
  imports Catalogue_Laws
begin

text \<open>
  What the phase controls do: the global settings reach a fixed point that keeps the user's switches, the system alerts
  are matched one to one with their templates, and an alert with a second condition makes the comparison panic.
\<close>

section \<open>Global settings\<close>

lemma map_of_switch: "map_of (switch on ks m) k = (if k \<in> set ks then Some on else map_of m k)"
  unfolding switch_def by (induction ks arbitrary: m) (auto simp: update_conv')

lemma map_of_override_switches:
  "distinct (map fst new) \<Longrightarrow>
   map_of (fold (\<lambda>(k, on). AList.update k on) new m) k = (case map_of new k of None \<Rightarrow> map_of m k | Some on \<Rightarrow> Some on)"
proof (induction new arbitrary: m)
  case (Cons x new)
  obtain a b where x: "x = (a, b)" by (cases x)
  have "map_of new a = None" using Cons.prems by (simp add: x map_of_eq_None_iff)
  then show ?case using Cons.IH[of "AList.update a b m"] Cons.prems
    by (cases "k = a") (simp_all add: x map_of_update split: option.split)
qed simp

lemma distinct_switch: "distinct (map fst m) \<Longrightarrow> distinct (map fst (switch on ks m))"
  unfolding switch_def by (induction ks arbitrary: m) (simp_all add: distinct_update)

lemma distinct_override_switches:
  "distinct (map fst m) \<Longrightarrow> distinct (map fst (fold (\<lambda>(k, on). AList.update k on) new m))"
  by (induction new arbitrary: m) (auto simp: distinct_update)

lemma keys_on:
  assumes "distinct (map fst m)"
  shows "k \<in> set (map fst (filter snd m)) \<longleftrightarrow> map_of m k = Some True"
proof -
  have "map_of m k = Some True \<longleftrightarrow> (k, True) \<in> set m" by (simp add: assms)
  then show ?thesis by (auto simp: image_iff)
qed

text \<open>The switches after a calculation, as a function of the key.\<close>

lemma calculated_keys:
  assumes old: "distinct (map fst (gsv_UserDefinedKeys old))" and new: "distinct (map fst (gsv_UserDefinedKeys v))"
  defines "c \<equiv> CalculateSetupKeys v old"
  shows "distinct (map fst (gsv_UserDefinedKeys c))"
    "map_of (gsv_UserDefinedKeys c) k = (case map_of (gsv_UserDefinedKeys old) k of Some on \<Rightarrow> Some on
       | None \<Rightarrow> map_of (upgraded_keys v old (switch True (gsv_SetupKeys old) (gsv_UserDefinedKeys v))) k)"
    "k \<in> set (gsv_SetupKeys c) \<longleftrightarrow> map_of (gsv_UserDefinedKeys c) k = Some True"
proof -
  let ?k1 = "switch True (gsv_SetupKeys old) (gsv_UserDefinedKeys v)"
  have k1: "distinct (map fst ?k1)" using new by (simp add: distinct_switch)
  then have k2: "distinct (map fst (upgraded_keys v old ?k1))" by (simp add: upgraded_keys_def distinct_switch)
  show d: "distinct (map fst (gsv_UserDefinedKeys c))"
    by (simp add: c_def CalculateSetupKeys_def Let_def distinct_override_switches[OF k2])
  show "map_of (gsv_UserDefinedKeys c) k = (case map_of (gsv_UserDefinedKeys old) k of Some on \<Rightarrow> Some on
       | None \<Rightarrow> map_of (upgraded_keys v old ?k1) k)"
    by (simp add: c_def CalculateSetupKeys_def Let_def map_of_override_switches[OF old] split: option.split)
  show "k \<in> set (gsv_SetupKeys c) \<longleftrightarrow> map_of (gsv_UserDefinedKeys c) k = Some True"
    using keys_on[OF d, of k] by (simp add: c_def CalculateSetupKeys_def Let_def)
qed

lemma wanted_settings_keys:
  "distinct (map fst (gsv_UserDefinedKeys (wanted_settings oc)))"
  "map_of (gsv_UserDefinedKeys (wanted_settings oc)) k = (if k \<in> set (gsv_SetupKeys (wanted_settings oc)) then Some True else None)"
  "''default'' \<in> set (gsv_SetupKeys (wanted_settings oc))"
  by (simp_all add: wanted_settings_def NewGlobalSettingsValue_def Let_def map_of_switch distinct_switch setup_keys_def)

text \<open>
  C21: The settings that the operator writes, on creation or on an update, are a fixed point: reading them back, the next
  pass writes nothing. An update keeps the dictionary, and a feature that the stored settings switch explicitly stays
  switched that way.
\<close>

theorem settings_settle:
  assumes d: "distinct (map fst (gsv_UserDefinedKeys cur))"
  shows "settings_request oc (Some (i, wanted_settings oc)) = None
    \<and> (let v = CalculateSetupKeys (wanted_settings oc) cur
       in settings_request oc (Some (i, v)) = None \<and> gsv_Dictionary v = gsv_Dictionary cur
        \<and> (\<forall>k on. map_of (gsv_UserDefinedKeys cur) k = Some on \<longrightarrow> (k \<in> set (gsv_SetupKeys v) \<longleftrightarrow> on)))"
proof -
  let ?w = "wanted_settings oc"
  have settled: "settings_request oc (Some (i, v)) = None"
    if dv: "distinct (map fst (gsv_UserDefinedKeys v))"
      and on: "\<And>k. k \<in> set (gsv_SetupKeys v) \<longleftrightarrow> map_of (gsv_UserDefinedKeys v) k = Some True"
      and covers: "\<And>k. k \<in> set (gsv_SetupKeys ?w) \<Longrightarrow> map_of (gsv_UserDefinedKeys v) k \<noteq> None"
      and same: "gsv_SetupKeysVersion v = gsv_SetupKeysVersion ?w" "gsv_SetupOneStackInitialized v = gsv_SetupOneStackInitialized ?w"
        "gsv_ProductVersion v = gsv_ProductVersion ?w" for v
  proof -
    let ?c = "CalculateSetupKeys ?w v"
    note c = calculated_keys[OF dv wanted_settings_keys(1)]
    have "gsv_UserDefinedKeys v \<noteq> []" using covers[OF wanted_settings_keys(3)] by auto
    then have "upgraded_keys ?w v ks = ks" for ks by (simp add: upgraded_keys_def)
    then have "map_of (gsv_UserDefinedKeys ?c) k = map_of (gsv_UserDefinedKeys v) k" for k
      using c(2)[where k = k] covers[of k] on[of k]
      by (auto simp: map_of_switch wanted_settings_keys(2) split: option.splits if_splits)
    then have "set (gsv_SetupKeys ?c) = set (gsv_SetupKeys v)" using c(3) on by auto
    then show ?thesis using same by (simp add: settings_request_def Let_def gsv_Equal_def CalculateSetupKeys_def)
  qed
  have "settings_request oc (Some (i, ?w)) = None"
    by (rule settled) (auto simp: wanted_settings_keys split: if_splits)
  moreover have "settings_request oc (Some (i, CalculateSetupKeys ?w cur)) = None"
  proof (rule settled)
    note c = calculated_keys[OF d wanted_settings_keys(1)]
    show "distinct (map fst (gsv_UserDefinedKeys (CalculateSetupKeys ?w cur)))" by (rule c(1))
    show "k \<in> set (gsv_SetupKeys (CalculateSetupKeys ?w cur)) \<longleftrightarrow> map_of (gsv_UserDefinedKeys (CalculateSetupKeys ?w cur)) k = Some True" for k
      by (rule c(3))
    show "map_of (gsv_UserDefinedKeys (CalculateSetupKeys ?w cur)) k \<noteq> None" if "k \<in> set (gsv_SetupKeys ?w)" for k
      using that by (auto simp: c(2) upgraded_keys_def map_of_switch wanted_settings_keys(2) split: option.splits)
  qed (simp_all add: CalculateSetupKeys_def Let_def)
  moreover have "k \<in> set (gsv_SetupKeys (CalculateSetupKeys ?w cur)) \<longleftrightarrow> on"
    if "map_of (gsv_UserDefinedKeys cur) k = Some on" for k on
    using that calculated_keys(2,3)[OF d wanted_settings_keys(1), where k = k and oc1 = oc] by simp
  ultimately show ?thesis by (simp add: Let_def CalculateSetupKeys_def)
qed

definition stored_settings :: GlobalSettingsValue where
  "stored_settings = \<lparr>gsv_Dictionary = Some (JStr ''d''), gsv_SetupKeys = [''aws''], gsv_SetupKeysVersion = ''3.0'',
     gsv_SetupOneStackInitialized = False, gsv_ProductVersion = ''CMP'', gsv_UserDefinedKeys = [(''aws'', True), (''azure'', False)]\<rparr>"

theorem settings_settle_witness:
  "distinct (map fst (gsv_UserDefinedKeys stored_settings))
   \<and> settings_request zero_OnecloudCluster (Some (7, CalculateSetupKeys (wanted_settings zero_OnecloudCluster) stored_settings)) = None
   \<and> ''azure'' \<notin> set (gsv_SetupKeys (CalculateSetupKeys (wanted_settings zero_OnecloudCluster) stored_settings))"
proof -
  have d: "distinct (map fst (gsv_UserDefinedKeys stored_settings))" by (simp add: stored_settings_def)
  have "map_of (gsv_UserDefinedKeys stored_settings) ''azure'' = Some False" by (simp add: stored_settings_def)
  then show ?thesis using d settings_settle[OF d, of zero_OnecloudCluster 7] by (simp add: Let_def)
qed

section \<open>Requests of programs\<close>

abbreviation requests :: "(request \<Rightarrow> bool) \<Rightarrow> 'a sm \<Rightarrow> session \<Rightarrow> bool" where
  "requests P m s \<equiv> emits_on se_calls P m s"

lemma requests_ask [emits_intros]: "P q \<Longrightarrow> requests P (ask_as f q) s" "P q \<Longrightarrow> requests P (ask a q) s" "P q \<Longrightarrow> requests P (ask_list a q) s"
  by (auto simp: emits_on_def ask_as_def ask_def ask_list_def request_logged_def)

lemma requests_ask_unit [emits_intros]: "P q \<Longrightarrow> requests P (ask_unit a q) s"
  unfolding ask_unit_def by (auto intro!: emits_intros)

lemma requests_sum [emits_intros]: "requests P (sum_result r) s"
  by (cases r) (auto simp: sum_result_def intro: emits_intros)

lemma requests_tolerated [emits_intros]: "requests P m s \<Longrightarrow> requests P (tolerated m) s"
  unfolding tolerated_def by (auto intro!: emits_intros)

section \<open>System alerts\<close>

definition alert_named :: "api \<Rightarrow> string \<Rightarrow> jv \<Rightarrow> bool" where
  "alert_named a metric alert \<longleftrightarrow>
     metric = str_at (ap_print a) ''name'' alert \<or>
     (\<exists>md. json_Get [''metadata''] alert = Some md \<and> metric = str_at (ap_print a) ''meta_name'' md)"

lemma matchFromRtnAlerts_cases:
  "matchFromRtnAlerts a metric alerts = Inr (Some x, others) \<Longrightarrow> alert_named a metric x \<and> mset alerts = mset others + {#x#}"
  "matchFromRtnAlerts a metric alerts = Inr (None, others) \<Longrightarrow> others = alerts \<and> (\<forall>y\<in>set alerts. \<not> alert_named a metric y)"
proof (induction alerts arbitrary: others)
  case (Cons y alerts)
  { case 1 then show ?case using Cons.IH(1) by (fastforce simp: alert_named_def split: option.splits if_splits sum.splits prod.splits) }
  { case 2 then show ?case using Cons.IH(2) by (fastforce simp: alert_named_def split: option.splits if_splits sum.splits prod.splits) }
qed simp_all

fun creates_alert :: "request \<Rightarrow> bool" where
  "creates_alert (RCreateAlert i) = True"
| "creates_alert q = False"

lemma update_alert_requests: "requests (\<lambda>q. \<exists>i t. q = RUpdateAlert i t) (UpdateCommonAlert a tem ident alert) s"
proof -
  have conds: "requests P (conditions_differ a cs ds qs) t" for P cs ds qs t
    by (induction a cs ds qs rule: conditions_differ.induct) (auto intro: emits_intros)
  show ?thesis
    unfolding UpdateCommonAlert_def containDiffsWithRtnAlert_def
    by (auto intro!: emits_intros conds split: option.split)
qed

lemma seq_Ret_obtain:
  assumes "seq m n s = (Ret x, s')"
  obtains t where "m s = (Ret (), t)" "n t = (Ret x, s')"
  using assms by (cases m s rule: go_cases) (auto simp: go_simps)

lemma sync_alerts_matches:
  "sync_alerts a tems alerts s = (Ret left, s') \<Longrightarrow> distinct (map fst tems) \<Longrightarrow>
   \<exists>kept new. mset alerts = mset left + mset (map snd kept) \<and> distinct (map fst kept)
     \<and> (\<forall>(m, x)\<in>set kept. m \<in> fst ` set tems \<and> alert_named a m x)
     \<and> (\<forall>m\<in>fst ` set tems - fst ` set kept. \<forall>x\<in>set left. \<not> alert_named a m x)
     \<and> se_calls s' = se_calls s @ new
     \<and> filter creates_alert new = map (\<lambda>(m, t). RCreateAlert (common_alert_input t)) (filter (\<lambda>(m, t). m \<notin> fst ` set kept) tems)
     \<and> list_all (\<lambda>q. creates_alert q \<or> (\<exists>i t. q = RUpdateAlert i t)) new"
proof (induction a tems alerts arbitrary: s rule: sync_alerts.induct)
  case (1 a alerts)
  then show ?case by (auto simp: go_simps intro!: exI[of _ "[]"])
next
  case (2 a metric tem tems alerts)
  have fresh: "metric \<notin> fst ` set tems" "distinct (map fst tems)" using "2.prems"(2) by auto
  obtain m others where match: "matchFromRtnAlerts a metric alerts = Inr (m, others)"
    using "2.prems"(1) by (auto simp: go_simps split: sum.splits)
  show ?case
  proof (cases m)
    case None
    have un: "others = alerts" "\<forall>y\<in>set alerts. \<not> alert_named a metric y"
      using matchFromRtnAlerts_cases(2)[OF match[unfolded None]] by auto
    from "2.prems"(1) match None
    have "seq (tolerated (andthen (CreateCommonAlert a tem) (\<lambda>_. ret ()))) (sync_alerts a tems others) s = (Ret left, s')" by simp
    then obtain t where t: "tolerated (andthen (CreateCommonAlert a tem) (\<lambda>_. ret ())) s = (Ret (), t)"
        "sync_alerts a tems others t = (Ret left, s')" by (rule seq_Ret_obtain)
    have call: "se_calls t = se_calls s @ [RCreateAlert (common_alert_input tem)]"
      using t(1) by (auto simp: tolerated_def CreateCommonAlert_def ask_def ask_as_def request_logged_def andthen_def attempt_def ret_def split: sum.splits)
    from "2.IH"(1)[OF match refl None t(2) fresh(2)] obtain kept new where k: "mset others = mset left + mset (map snd kept)" "distinct (map fst kept)"
        "\<forall>(m, x)\<in>set kept. m \<in> fst ` set tems \<and> alert_named a m x"
        "\<forall>m\<in>fst ` set tems - fst ` set kept. \<forall>x\<in>set left. \<not> alert_named a m x" "se_calls s' = se_calls t @ new"
        "filter creates_alert new = map (\<lambda>(m, t). RCreateAlert (common_alert_input t)) (filter (\<lambda>(m, t). m \<notin> fst ` set kept) tems)"
        "list_all (\<lambda>q. creates_alert q \<or> (\<exists>i t. q = RUpdateAlert i t)) new" by blast
    have "metric \<notin> fst ` set kept" using k(3) fresh(1) by force
    moreover have "set left \<subseteq> set alerts" using k(1) un(1) by (metis mset_subset_eq_add_left set_mset_mono set_mset_mset)
    moreover have "\<forall>m\<in>fst ` set ((metric, tem) # tems) - fst ` set kept. \<forall>x\<in>set left. \<not> alert_named a m x"
      using k(4) un(2) calculation(2) by auto
    moreover have "\<forall>(m, x)\<in>set kept. m \<in> fst ` set ((metric, tem) # tems) \<and> alert_named a m x" using k(3) by auto
    ultimately show ?thesis using k(1,2,5,6,7) un(1) call
      by (intro exI[of _ kept] exI[of _ "RCreateAlert (common_alert_input tem) # new"] conjI) simp_all
  next
    case (Some x)
    have hit: "alert_named a metric x" "mset alerts = mset others + {#x#}"
      using matchFromRtnAlerts_cases(1)[OF match[unfolded Some]] by auto
    let ?up = "tolerated (UpdateCommonAlert a tem (str_at (ap_print a) ''id'' x) x)"
    from "2.prems"(1) match Some have "seq ?up (sync_alerts a tems others) s = (Ret left, s')" by simp
    then obtain t where t: "?up s = (Ret (), t)" "sync_alerts a tems others t = (Ret left, s')" by (rule seq_Ret_obtain)
    have "requests (\<lambda>q. \<exists>i t. q = RUpdateAlert i t) ?up s" by (rule requests_tolerated[OF update_alert_requests])
    then obtain ups where ups: "se_calls t = se_calls s @ ups" "list_all (\<lambda>q. \<exists>i t. q = RUpdateAlert i t) ups"
      unfolding emits_on_def t(1) by auto
    have "filter creates_alert ups = []" using ups(2) by (auto simp: filter_empty_conv list_all_iff)
    from "2.IH"(2)[OF match refl Some t(2) fresh(2)] obtain kept new where k: "mset others = mset left + mset (map snd kept)" "distinct (map fst kept)"
        "\<forall>(m, x)\<in>set kept. m \<in> fst ` set tems \<and> alert_named a m x"
        "\<forall>m\<in>fst ` set tems - fst ` set kept. \<forall>x\<in>set left. \<not> alert_named a m x" "se_calls s' = se_calls t @ new"
        "filter creates_alert new = map (\<lambda>(m, t). RCreateAlert (common_alert_input t)) (filter (\<lambda>(m, t). m \<notin> fst ` set kept) tems)"
        "list_all (\<lambda>q. creates_alert q \<or> (\<exists>i t. q = RUpdateAlert i t)) new" by blast
    have "metric \<notin> fst ` set kept" using k(3) fresh(1) by force
    moreover have "filter (\<lambda>(m, t). m \<noteq> metric \<and> m \<notin> fst ` set kept) tems = filter (\<lambda>(m, t). m \<notin> fst ` set kept) tems"
      using fresh(1) by (intro filter_cong) force+
    moreover have "\<forall>m\<in>fst ` set ((metric, tem) # tems) - fst ` set ((metric, x) # kept). \<forall>x\<in>set left. \<not> alert_named a m x"
      using k(4) by auto
    moreover have "\<forall>(m, x)\<in>set ((metric, x) # kept). m \<in> fst ` set ((metric, tem) # tems) \<and> alert_named a m x"
      using k(3) hit(1) by auto
    moreover have "list_all (\<lambda>q. creates_alert q \<or> (\<exists>i t. q = RUpdateAlert i t)) (ups @ new)"
      using k(7) ups(2) by (auto simp: list_all_iff)
    ultimately show ?thesis using k(1,2,5,6) hit(2) ups(1) \<open>filter creates_alert ups = []\<close>
      by (intro exI[of _ "(metric, x) # kept"] exI[of _ "ups @ new"] conjI) simp_all
  qed
qed

definition alert_list :: request where
  "alert_list = RList MCommonAlerts [(''details'', JBool True), (''alert_type'', JStr ''system''), (''scope'', JStr ''system'')]"

lemma init_info_distinct: "distinct (map fst getInitInfo)"
  by (simp add: getInitInfo_def cpuTem_def memTem_def diskAvaTem_def diskNodeAvaTem_def cloudaccountTem_def smartDevTem_def
        hostRaidTem_def bondSlaveTem_def noDataTem_def defunctProcessTem_def totalProcessTem_def systemLoad1Pcore_def hostRebootTem_def)

lemma delete_alert_calls: "se_calls (snd (DeleteCommonAlert a ids s)) = se_calls s @ [RBatchDelete MCommonAlerts ids]"
  by (simp add: DeleteCommonAlert_def ask_def ask_as_def request_logged_def andthen_def attempt_def ret_def split: sum.split)

lemma delete_alert_Ret: "\<exists>t. DeleteCommonAlert a ids s = (Ret (), t)"
  by (simp add: DeleteCommonAlert_def ask_def ask_as_def andthen_def attempt_def ret_def split: sum.split)

lemma monitor_session_Ret:
  assumes run: "monitor_session a s = (Ret (), s')" and alerts: "ap_list a (se_calls s) alert_list = Inr (alerts, cnt)"
  obtains left t where "sync_alerts a (range_map (ap_order a) getInitInfo) alerts (request_logged alert_list s) = (Ret left, t)"
    "se_calls s' = se_calls t @ (if left = [] then [] else [RBatchDelete MCommonAlerts (map (str_at (ap_print a) ''id'') left)])"
proof -
  let ?s1 = "request_logged alert_list s" and ?T = "range_map (ap_order a) getInitInfo"
  have "GetCommonAlertOfSys a s = (Ret alerts, ?s1)"
    using ask_list_Inr[OF alerts] by (simp add: GetCommonAlertOfSys_def alert_list_def go_simps)
  then have step: "andthen (sync_alerts a ?T alerts) (\<lambda>left. guarded (left \<noteq> []) (DeleteCommonAlert a (map (str_at (ap_print a) ''id'') left))) ?s1 = (Ret (), s')"
    using run by (simp add: monitor_session_def go_simps)
  show thesis
  proof (cases "sync_alerts a ?T alerts" ?s1 rule: go_cases)
    case (Ret left t)
    with step have fin: "guarded (left \<noteq> []) (DeleteCommonAlert a (map (str_at (ap_print a) ''id'') left)) t = (Ret (), s')"
      by (simp add: go_simps)
    show thesis
    proof (rule that[OF Ret])
      show "se_calls s' = se_calls t @ (if left = [] then [] else [RBatchDelete MCommonAlerts (map (str_at (ap_print a) ''id'') left)])"
        using fin delete_alert_calls[of a "map (str_at (ap_print a) ''id'') left" t] by (auto simp: guarded_def ret_def)
    qed
  qed (use step in \<open>simp_all add: go_simps\<close>)
qed

text \<open>
  C23: When the initialisation of the monitor service succeeds, the system alerts it found are split into those kept, one
  for each of some templates and each named after its template, and the rest, which is deleted in one request; an alert
  that is deleted is named after no template without a kept alert, and exactly the templates without a kept alert get a
  new one. Nothing else is created or deleted.
\<close>

theorem monitor_alerts_matched:
  assumes run: "monitor_session a s = (Ret (), s')" and alerts: "ap_list a (se_calls s) alert_list = Inr (alerts, cnt)"
  shows "\<exists>kept left new. mset alerts = mset left + mset (map snd kept) \<and> distinct (map fst kept)
     \<and> (\<forall>(m, x)\<in>set kept. m \<in> fst ` set getInitInfo \<and> alert_named a m x)
     \<and> (\<forall>m\<in>fst ` set getInitInfo - fst ` set kept. \<forall>x\<in>set left. \<not> alert_named a m x)
     \<and> se_calls s' = se_calls s @ [alert_list] @ new
         @ (if left = [] then [] else [RBatchDelete MCommonAlerts (map (str_at (ap_print a) ''id'') left)])
     \<and> set (filter creates_alert new) = {RCreateAlert (common_alert_input t) | m t. (m, t) \<in> set getInitInfo \<and> m \<notin> fst ` set kept}
     \<and> list_all (\<lambda>q. creates_alert q \<or> (\<exists>i t. q = RUpdateAlert i t)) new"
proof -
  let ?T = "range_map (ap_order a) getInitInfo"
  obtain left t where t: "sync_alerts a ?T alerts (request_logged alert_list s) = (Ret left, t)"
      "se_calls s' = se_calls t @ (if left = [] then [] else [RBatchDelete MCommonAlerts (map (str_at (ap_print a) ''id'') left)])"
    using monitor_session_Ret[OF run alerts] .
  have "distinct (map fst ?T)" using init_info_distinct by simp
  from sync_alerts_matches[OF t(1) this] obtain kept new where k: "mset alerts = mset left + mset (map snd kept)" "distinct (map fst kept)"
      "\<forall>(m, x)\<in>set kept. m \<in> fst ` set getInitInfo \<and> alert_named a m x"
      "\<forall>m\<in>fst ` set getInitInfo - fst ` set kept. \<forall>x\<in>set left. \<not> alert_named a m x"
      "se_calls t = se_calls (request_logged alert_list s) @ new"
      "filter creates_alert new = map (\<lambda>(m, t). RCreateAlert (common_alert_input t)) (filter (\<lambda>(m, t). m \<notin> fst ` set kept) ?T)"
      "list_all (\<lambda>q. creates_alert q \<or> (\<exists>i t. q = RUpdateAlert i t)) new" by auto
  have "set (filter creates_alert new) = {RCreateAlert (common_alert_input t) | m t. (m, t) \<in> set getInitInfo \<and> m \<notin> fst ` set kept}"
    unfolding k(6) by (force simp: image_iff)
  then show ?thesis using k t(2)
    by (intro exI[of _ kept] exI[of _ left] exI[of _ new] conjI) (simp_all add: request_logged_def)
qed

lemma sync_alerts_none:
  assumes "\<And>h i. \<exists>v. ap_object a h (RCreateAlert i) = Inr v"
  shows "\<exists>t. sync_alerts a tems [] s = (Ret [], t)"
proof (induction tems arbitrary: s)
  case (Cons x tems)
  obtain m tem where x: "x = (m, tem)" by (cases x)
  have "\<exists>t. tolerated (andthen (CreateCommonAlert a tem) (\<lambda>_. ret ())) s = (Ret (), t)"
    by (simp add: tolerated_def CreateCommonAlert_def ask_def ask_as_def andthen_def attempt_def ret_def split: sum.split)
  then obtain t where t: "tolerated (andthen (CreateCommonAlert a tem) (\<lambda>_. ret ())) s = (Ret (), t)" by blast
  obtain u where "sync_alerts a tems [] t = (Ret [], u)" using Cons.IH by blast
  with t show ?case by (simp add: x seq_eval)
qed (simp add: go_simps)

theorem monitor_alerts_matched_witness:
  "\<exists>s' new. monitor_session (store_api demo_store) (start_session zero_OnecloudCluster) = (Ret (), s')
     \<and> se_calls s' = alert_list # new
     \<and> set (filter creates_alert new) = {RCreateAlert (common_alert_input t) | m t. (m, t) \<in> set getInitInfo}"
proof -
  let ?a = "store_api demo_store" and ?s = "start_session zero_OnecloudCluster"
  let ?s1 = "request_logged alert_list ?s"
  have list: "ap_list ?a (se_calls ?s) alert_list = Inr ([], 0)"
    by (simp add: store_api_def alert_list_def start_session_def demo_store_def)
  have "\<exists>v. ap_object ?a h (RCreateAlert i) = Inr v" for h i by (simp add: store_api_def)
  then obtain t where t: "sync_alerts ?a (range_map (ap_order ?a) getInitInfo) [] ?s1 = (Ret [], t)"
    using sync_alerts_none by blast
  have "GetCommonAlertOfSys ?a ?s = (Ret [], ?s1)"
    using ask_list_Inr[OF list] by (simp add: GetCommonAlertOfSys_def alert_list_def go_simps)
  then have run: "monitor_session ?a ?s = (Ret (), t)" using t by (simp add: monitor_session_def go_simps)
  from monitor_alerts_matched[OF run list] run show ?thesis by (auto simp: start_session_def)
qed

text \<open>
  C40: A system alert that the user has given a second condition crashes the operator: when level, no-data state and first
  condition still agree with the template, the comparison indexes the template's single query out of range, because the
  test of the lengths lets a list pass that agrees with either of the two others.
\<close>

theorem alert_second_condition_panics:
  assumes "json_Get [''settings''] alert = Some st" "ap_settings a st = Inr [c1, c2]"
    "json_Get [''common_alert_metric_details''] alert = Some dt" "ap_details a dt = Inr [d1, d2]"
    "str_at (ap_print a) ''level'' alert = alert_level tem" "str_at (ap_print a) ''no_data_state'' alert = cat_NoDataState tem"
    "ad_Comparator d1 = cat_Comparator tem" "ac_From c1 = caq_From (newCommonalertQuery tem)"
    "ap_sameSelects a (ac_Selects c1) (caq_Selects (newCommonalertQuery tem))" "ap_sameTags a (ad_Filters d1) (cat_Filters tem)"
  shows "UpdateCommonAlert a tem ident alert s = (Panic ''index out of range'', s)"
  using assms
  by (simp add: UpdateCommonAlert_def containDiffsWithRtnAlert_def common_alert_update_def common_alert_input_def sum_result_def
        newCommonalertQuery_def go_simps)

definition edited_alert :: jv where
  "edited_alert = JDict [(''level'', JStr ''fatal''), (''no_data_state'', JStr []), (''settings'', JNull), (''common_alert_metric_details'', JNull)]"

definition edited_condition :: alert_condition where
  "edited_condition = \<lparr>ac_From = ''60m'', ac_Selects = caq_Selects (newCommonalertQuery cpuTem)\<rparr>"

definition edited_api :: api where
  "edited_api = (store_api demo_store)\<lparr>ap_settings := \<lambda>_. Inr [edited_condition, edited_condition],
     ap_details := \<lambda>_. Inr [\<lparr>ad_Comparator = ''>='', ad_Filters = []\<rparr>, \<lparr>ad_Comparator = ''>='', ad_Filters = []\<rparr>]\<rparr>"

theorem alert_second_condition_panics_witness:
  "json_Get [''settings''] edited_alert = Some JNull \<and>
   UpdateCommonAlert edited_api cpuTem ''1'' edited_alert (start_session zero_OnecloudCluster)
     = (Panic ''index out of range'', start_session zero_OnecloudCluster)"
proof (rule conjI)
  let ?d = "\<lparr>ad_Comparator = ''>='', ad_Filters = []\<rparr>"
  show "UpdateCommonAlert edited_api cpuTem ''1'' edited_alert (start_session zero_OnecloudCluster)
     = (Panic ''index out of range'', start_session zero_OnecloudCluster)"
    by (rule alert_second_condition_panics[where st = JNull and dt = JNull and ?c1.0 = edited_condition and ?c2.0 = edited_condition
          and ?d1.0 = ?d and ?d2.0 = ?d])
      (simp_all add: edited_alert_def edited_api_def store_api_def edited_condition_def cpuTem_def alert_level_def newCommonalertQuery_def
        str_at_def json_GetString_def)
qed (simp add: edited_alert_def)

end
