(* ===== verification/Session_Laws.thy ===== *)
theory Session_Laws
  imports Phase_Laws
begin

text \<open>
  Sessions against the services of the cloud: relations between the states before and after a program, the retry of
  \<open>RunWithSession\<close>, and the initialisation of region, which creates nothing it has recorded.
\<close>

section \<open>Relations that programs respect\<close>

text \<open>\<open>moves R m s\<close>: however \<open>m\<close> ends when started in \<open>s\<close>, its last state is related to \<open>s\<close>.\<close>

definition moves :: "('s \<Rightarrow> 's \<Rightarrow> bool) \<Rightarrow> ('s, 'a) go \<Rightarrow> 's \<Rightarrow> bool" where
  "moves R m s \<longleftrightarrow> R s (snd (m s))"

text \<open>A relation that holds of no progress and of progress in two parts is respected by a program when its parts respect it.\<close>

locale progress =
  fixes R :: "'s \<Rightarrow> 's \<Rightarrow> bool"
  assumes none: "R s s"
    and join: "R s t \<Longrightarrow> R t u \<Longrightarrow> R s u"
begin

lemma pure: "moves R (ret x) s" "moves R (fail e) s" "moves R (go_panic p) s" "moves R (gets h) s"
  by (simp_all add: moves_def go_simps none)

lemma change: "R s (g s) \<Longrightarrow> moves R (modify g) s"
  by (simp add: moves_def go_simps)

lemma both:
  assumes "moves R m s" "\<And>x t. m s = (Ret x, t) \<Longrightarrow> moves R (f x) t"
  shows "moves R (andthen m f) s"
proof (cases m s rule: go_cases)
  case (Ret x t)
  then show ?thesis using assms(1) assms(2)[OF Ret] by (auto simp: moves_def go_simps intro: join)
qed (use assms(1) in \<open>simp_all add: moves_def go_simps\<close>)

lemma then_do: "moves R m s \<Longrightarrow> (\<And>t. m s = (Ret (), t) \<Longrightarrow> moves R n t) \<Longrightarrow> moves R (seq m n) s"
  unfolding seq_def by (rule both) auto

lemma seen: "moves R m s \<Longrightarrow> moves R (attempt m) s"
  by (cases m s rule: go_cases) (simp_all add: moves_def go_simps)

lemma renamed: "moves R m s \<Longrightarrow> moves R (map_err g m) s"
  by (cases m s rule: go_cases) (simp_all add: moves_def go_simps)

lemma guard: "(b \<Longrightarrow> moves R m s) \<Longrightarrow> moves R (guarded b m) s"
  by (auto simp: guarded_def pure)

lemma loop: "(\<And>x t. x \<in> set xs \<Longrightarrow> moves R (f x) t) \<Longrightarrow> moves R (for_each xs f) s"
  by (induction xs arbitrary: s) (auto intro!: pure then_do)

lemmas intros = pure both then_do seen renamed guard loop

end

section \<open>What region has recorded\<close>

text \<open>
  \<open>asks_zone z\<close>, \<open>asks_wire\<close>, \<open>asks_region\<close>: a request that looks up or creates the zone \<open>z\<close>, a wire, a region.
\<close>

fun asks_zone :: "string \<Rightarrow> request \<Rightarrow> bool" where
  "asks_zone z (RGet MZones n) = (n = z)"
| "asks_zone z (RCreate MZones d) = (map_of d ''name'' = Some (JStr z))"
| "asks_zone z q = False"

fun asks_wire :: "request \<Rightarrow> bool" where
  "asks_wire (RGet MWires n) = True"
| "asks_wire (RCreateIn MWires d m i) = True"
| "asks_wire q = False"

fun asks_region :: "request \<Rightarrow> bool" where
  "asks_region (RGet MRegions n) = True"
| "asks_region (RCreate MRegions d) = True"
| "asks_region q = False"

definition zone_settled :: "session \<Rightarrow> string \<Rightarrow> bool" where
  "zone_settled s z \<longleftrightarrow>
     (gomap_get (rst_CustomZones (region_status s)) z \<noteq> None \<or> z \<notin> set (spec_CustomZones (oc_Spec (se_oc s))))
     \<and> (rst_ZoneId (region_status s) \<noteq> [] \<or> z \<noteq> spec_Zone (oc_Spec (se_oc s)))"

text \<open>A request that is not about something recorded.\<close>

definition open_request :: "session \<Rightarrow> request \<Rightarrow> bool" where
  "open_request s q \<longleftrightarrow>
     (\<forall>z. asks_zone z q \<longrightarrow> \<not> zone_settled s z)
     \<and> (asks_wire q \<longrightarrow> rst_WireId (region_status s) = [])
     \<and> (asks_region q \<longrightarrow> rst_RegionZoneId (region_status s) = [])"

definition keeps_id :: "string \<Rightarrow> string \<Rightarrow> bool" where
  "keeps_id x y \<longleftrightarrow> x = [] \<or> y = x"

definition keeps_ids :: "session \<Rightarrow> session \<Rightarrow> bool" where
  "keeps_ids s t \<longleftrightarrow>
     keeps_id (rst_RegionZoneId (region_status s)) (rst_RegionZoneId (region_status t))
     \<and> keeps_id (rst_ZoneId (region_status s)) (rst_ZoneId (region_status t))
     \<and> keeps_id (rst_WireId (region_status s)) (rst_WireId (region_status t))
     \<and> (\<forall>z i. gomap_get (rst_CustomZones (region_status s)) z = Some i \<longrightarrow> gomap_get (rst_CustomZones (region_status t)) z = Some i)"

definition region_grows :: "session \<Rightarrow> session \<Rightarrow> bool" where
  "region_grows s t \<longleftrightarrow>
     oc_Spec (se_oc t) = oc_Spec (se_oc s) \<and> keeps_ids s t
     \<and> (\<exists>new. se_calls t = se_calls s @ new \<and> list_all (open_request s) new)"

lemma open_request_back:
  "open_request t q \<Longrightarrow> keeps_ids s t \<Longrightarrow> oc_Spec (se_oc t) = oc_Spec (se_oc s) \<Longrightarrow> open_request s q"
proof -
  assume "open_request t q" and k: "keeps_ids s t" and sp: "oc_Spec (se_oc t) = oc_Spec (se_oc s)"
  moreover have "zone_settled s z \<Longrightarrow> zone_settled t z" for z
    using k sp unfolding zone_settled_def keeps_ids_def keeps_id_def by (metis not_None_eq)
  moreover have "rst_WireId (region_status t) = [] \<Longrightarrow> rst_WireId (region_status s) = []"
    "rst_RegionZoneId (region_status t) = [] \<Longrightarrow> rst_RegionZoneId (region_status s) = []"
    using k by (auto simp: keeps_ids_def keeps_id_def)
  ultimately show ?thesis unfolding open_request_def by blast
qed

interpretation region: progress region_grows
proof
  show "region_grows s s" for s by (simp add: region_grows_def keeps_ids_def keeps_id_def)
  show "region_grows s u" if "region_grows s t" "region_grows t u" for s t u
  proof -
    obtain n1 n2 where n: "se_calls t = se_calls s @ n1" "list_all (open_request s) n1"
        "se_calls u = se_calls t @ n2" "list_all (open_request t) n2"
      using \<open>region_grows s t\<close> \<open>region_grows t u\<close> by (auto simp: region_grows_def)
    have "list_all (open_request s) n2"
      using n(4) that(1) by (auto simp: list_all_iff region_grows_def dest: open_request_back)
    moreover have "keeps_ids s u" using that unfolding region_grows_def keeps_ids_def keeps_id_def by metis
    ultimately show ?thesis using that n by (auto simp: region_grows_def)
  qed
qed

lemma region_grows_ask: "open_request s q \<Longrightarrow> moves region_grows (ask a q) s"
  by (simp add: moves_def region_grows_def ask_def ask_as_def request_logged_def keeps_ids_def keeps_id_def region_status_def)

lemma keeps_ask [keeps_intros]: "(\<And>s. I s \<Longrightarrow> I (request_logged q s)) \<Longrightarrow> keeps I (ask a q)"
  by (auto simp: keeps_def ask_def ask_as_def)

text \<open>The programs that look something up and create it when it is missing leave the cluster object alone.\<close>

abbreviation same_cluster :: "OnecloudCluster \<Rightarrow> session \<Rightarrow> bool" where
  "same_cluster oc s \<equiv> se_oc s = oc"

lemma lookup_cluster [keeps_intros]: "keeps (same_cluster oc) (IsResourceExists a man name)"
  unfolding IsResourceExists_def
  by (auto intro!: keeps_intros simp: request_logged_def split: sum.split)

lemma ensure_cluster [keeps_intros]:
  "keeps (same_cluster oc) (ensureZone a z)" "keeps (same_cluster oc) (ensureWire a z w bw)"
  "keeps (same_cluster oc) (ensureRegionZone a r [])"
  unfolding ensureZone_def ensureWire_def ensureRegionZone_def IsZoneExists_def CreateZone_def IsWireExists_def CreateWire_def
    CreateRegion_def EnsureResource_def
  by (auto intro!: keeps_intros simp: request_logged_def Let_def split: option.split)

lemma open_request_oc: "se_oc t = se_oc s \<Longrightarrow> open_request t q = open_request s q"
  by (simp add: open_request_def zone_settled_def region_status_def)

lemma region_grows_lookup:
  "open_request s (RGet man name) \<Longrightarrow> moves region_grows (IsResourceExists a man name) s"
  unfolding IsResourceExists_def
  by (auto intro!: region.intros region_grows_ask split: sum.split)

lemma region_grows_ensured:
  assumes "open_request s (RGet man name)" "open_request s q"
  shows "moves region_grows (EnsureResource a man name (ask a q)) s"
  unfolding EnsureResource_def
proof (rule region.both[OF region_grows_lookup[OF assms(1)]])
  fix r t assume "IsResourceExists a man name s = (Ret r, t)"
  then have "se_oc t = se_oc s" using keepsD_eq[OF lookup_cluster] by blast
  then show "moves region_grows (case r of Some obj \<Rightarrow> ret obj | None \<Rightarrow> ask a q) t"
    using assms(2) by (auto intro!: region.intros region_grows_ask simp: open_request_oc[of t s] split: option.split)
qed

lemma ensure_as_resource:
  "ensureZone a z = andthen (EnsureResource a MZones z (CreateZone a z)) (\<lambda>r. ret (id_of a r))"
  "ensureWire a z w bw = andthen (EnsureResource a MWires w (CreateWire a z w bw DefaultVPCId)) (\<lambda>r. ret (id_of a r))"
  by (auto simp: ensureZone_def ensureWire_def EnsureResource_def IsZoneExists_def IsWireExists_def andthen_def fun_eq_iff go_simps
        split: prod.split res.split option.split)

lemma region_grows_ensure:
  "\<not> zone_settled s z \<Longrightarrow> moves region_grows (ensureZone a z) s"
  "rst_WireId (region_status s) = [] \<Longrightarrow> moves region_grows (ensureWire a z w bw) s"
  "rst_RegionZoneId (region_status s) = [] \<Longrightarrow> moves region_grows (ensureRegionZone a r []) s"
  unfolding ensure_as_resource ensureRegionZone_def CreateRegion_def CreateZone_def CreateWire_def Let_def
  by (auto intro!: region.intros region_grows_ensured simp: open_request_def)

lemma region_grows_schedtags: "moves region_grows (registerSchedSameProjectCloudprovider a) s"
  unfolding registerSchedSameProjectCloudprovider_def EnsureSchedtag_def EnsureDynamicSchedtag_def CreateSchedtag_def CreateDynamicSchedtag_def
  by (auto intro!: region.intros region_grows_ensured simp: open_request_def)

text \<open>An identifier is written only where there is none.\<close>

lemma region_grows_record:
  assumes "rd (region_status s) = [] \<Longrightarrow> moves region_grows ensure s" "keeps (same_cluster (se_oc s)) ensure"
    and "\<And>t i. rd (region_status t) = [] \<Longrightarrow> region_grows t (snd (set_region (wr (\<lambda>_. i)) t))"
  shows "moves region_grows (record_id rd wr what ensure) s"
  unfolding record_id_def
proof (rule region.both[OF region.pure(4)], clarsimp simp: go_simps, rule region.guard, rule region.both)
  assume rd: "rd (region_status s) = []"
  show "moves region_grows (map_err (Wrapped what) ensure) s" by (rule region.renamed) (rule assms(1)[OF rd])
  fix i t assume "map_err (Wrapped what) ensure s = (Ret i, t)"
  then have "se_oc t = se_oc s" using keepsD_eq[OF keeps_map_err[OF assms(2)]] by blast
  then have "rd (region_status t) = []" using rd by (simp add: region_status_def)
  then show "moves region_grows (set_region (wr (\<lambda>_. i))) t" unfolding moves_def by (rule assms(3))
qed

lemma set_region_id:
  "rst_RegionZoneId (region_status t) = [] \<Longrightarrow> region_grows t (snd (set_region (rst_RegionZoneId_update (\<lambda>_. i)) t))"
  "rst_ZoneId (region_status t) = [] \<Longrightarrow> region_grows t (snd (set_region (rst_ZoneId_update (\<lambda>_. i)) t))"
  "rst_WireId (region_status t) = [] \<Longrightarrow> region_grows t (snd (set_region (rst_WireId_update (\<lambda>_. i)) t))"
  by (simp_all add: set_region_def go_simps region_grows_def keeps_ids_def keeps_id_def region_status_def)

lemma set_region_zones:
  "(\<And>z i. gomap_get (rst_CustomZones (region_status t)) z = Some i \<Longrightarrow> gomap_get (g (rst_CustomZones (region_status t))) z = Some i) \<Longrightarrow>
   region_grows t (snd (set_region (rst_CustomZones_update g) t))"
  by (simp add: set_region_def go_simps region_grows_def keeps_ids_def keeps_id_def region_status_def)

lemma region_grows_missing_zone:
  assumes t: "z \<in> set (spec_CustomZones (oc_Spec (se_oc t)))"
  shows "moves region_grows (andthen (gets region_status) (\<lambda>st. guarded (gomap_get (rst_CustomZones st) z = None)
       (andthen (map_err (Wrapped what) (ensureZone a z)) (\<lambda>zoneId. set_region (rst_CustomZones_update (gomap_set z zoneId)))))) t"
proof (rule region.both[OF region.pure(4)], clarsimp simp: go_simps, rule region.guard, rule region.both)
  assume no: "gomap_get (rst_CustomZones (region_status t)) z = None"
  then show "moves region_grows (map_err (Wrapped what) (ensureZone a z)) t"
    using t by (auto intro!: region.renamed region_grows_ensure simp: zone_settled_def)
  fix i u assume "map_err (Wrapped what) (ensureZone a z) t = (Ret i, u)"
  then have "se_oc u = se_oc t" using keepsD_eq[OF keeps_map_err[OF ensure_cluster(1)]] by blast
  then have "gomap_get (rst_CustomZones (region_status u)) z = None" using no by (simp add: region_status_def)
  then show "moves region_grows (set_region (rst_CustomZones_update (gomap_set z i))) u"
    unfolding moves_def by (intro set_region_zones) auto
qed

lemma region_grows_custom_zone:
  assumes "z \<in> set (spec_CustomZones (oc_Spec (se_oc s)))"
  shows "moves region_grows (ensure_custom_zone a z) s"
  unfolding ensure_custom_zone_def
proof (rule region.then_do)
  let ?init = "set_region (rst_CustomZones_update (\<lambda>m. case m of None \<Rightarrow> Some [] | Some kvs \<Rightarrow> Some kvs))"
  show "moves region_grows ?init s"
    unfolding moves_def by (rule set_region_zones) (auto simp: gomap_get_def split: option.splits)
  fix t assume "?init s = (Ret (), t)"
  then have "z \<in> set (spec_CustomZones (oc_Spec (se_oc t)))" using assms by (auto simp: set_region_def go_simps)
  then show "moves region_grows (andthen (gets region_status) (\<lambda>st. guarded (gomap_get (rst_CustomZones st) z = None)
       (andthen (map_err (Wrapped (''create zone '' @ z)) (ensureZone a z)) (\<lambda>zoneId.
        set_region (rst_CustomZones_update (gomap_set z zoneId)))))) t"
    by (rule region_grows_missing_zone)
qed

lemma movesD: "moves R m s \<Longrightarrow> m s = (r, t) \<Longrightarrow> R s t"
  by (simp add: moves_def)

lemma region_grows_spec: "region_grows s t \<Longrightarrow> oc_Spec (se_oc t) = oc_Spec (se_oc s)"
  by (simp add: region_grows_def)

lemma region_grows_custom_zones:
  "set zs \<subseteq> set (spec_CustomZones (oc_Spec (se_oc s))) \<Longrightarrow> moves region_grows (for_each zs (ensure_custom_zone a)) s"
proof (induction zs arbitrary: s)
  case (Cons z zs)
  have first: "moves region_grows (ensure_custom_zone a z) s" using Cons.prems by (intro region_grows_custom_zone) simp
  have "moves region_grows (for_each zs (ensure_custom_zone a)) t" if "ensure_custom_zone a z s = (Ret (), t)" for t
    using region_grows_spec[OF movesD[OF first that]] Cons by simp
  then show ?case using first by (simp add: region.then_do)
qed (simp add: region.pure)

lemma region_grows_step:
  assumes "region_grows s t" "moves region_grows m t" "\<And>u. region_grows s u \<Longrightarrow> moves region_grows n u"
  shows "moves region_grows (seq m n) t"
proof (rule region.then_do[OF assms(2)])
  show "moves region_grows n u" if "m t = (Ret (), u)" for u
    by (rule assms(3), rule region.join[OF assms(1)], rule movesD[OF assms(2) that])
qed

lemma region_grows_zone: "z = spec_Zone (oc_Spec (se_oc s)) \<Longrightarrow> moves region_grows (record_id rst_ZoneId rst_ZoneId_update w (ensureZone a z)) s"
  by (intro region_grows_record region_grows_ensure set_region_id keeps_intros) (simp_all add: zone_settled_def)

lemma region_grows_region: "moves region_grows (record_id rst_RegionZoneId rst_RegionZoneId_update w (ensureRegionZone a r [])) s"
  by (intro region_grows_record region_grows_ensure set_region_id keeps_intros)

lemma region_grows_wire: "moves region_grows (record_id rst_WireId rst_WireId_update w (ensureWire a z x bw)) s"
  by (intro region_grows_record region_grows_ensure set_region_id keeps_intros)

lemma region_session_grows: "moves region_grows (region_session a) s"
  unfolding region_session_def Let_def
proof (rule region.both[OF region.pure(4)], unfold go_eval prod.inject res.inject, elim conjE, hypsubst)
  fix t oc
  show "moves region_grows
     (seq (record_id rst_RegionZoneId rst_RegionZoneId_update (''create region-zone '' @ spec_Region (oc_Spec (se_oc t)) @ ''-'' @ spec_Zone (oc_Spec (se_oc t)))
        (ensureRegionZone a (spec_Region (oc_Spec (se_oc t)) @ ''-'' @ spec_Zone (oc_Spec (se_oc t))) []))
       (seq (record_id rst_ZoneId rst_ZoneId_update (''create zone '' @ spec_Zone (oc_Spec (se_oc t))) (ensureZone a (spec_Zone (oc_Spec (se_oc t)))))
       (seq (for_each (spec_CustomZones (oc_Spec (se_oc t))) (ensure_custom_zone a))
       (seq (record_id rst_WireId rst_WireId_update ''create default wire'' (ensureWire a (spec_Zone (oc_Spec (se_oc t))) DefaultOnecloudWire 1000))
            (map_err (Wrapped ''init sched data'') (registerSchedSameProjectCloudprovider a)))))) t"
  proof (intro region_grows_step[of t] region.none)
    show "moves region_grows (record_id rst_RegionZoneId rst_RegionZoneId_update w (ensureRegionZone a r [])) t" for w r
      by (rule region_grows_region)
    fix u assume u: "region_grows t u"
    from u show "region_grows t u" "region_grows t u" "region_grows t u" by assumption+
    show "moves region_grows (record_id rst_ZoneId rst_ZoneId_update w (ensureZone a (spec_Zone (oc_Spec (se_oc t))))) u" for w
      by (rule region_grows_zone) (simp add: region_grows_spec[OF u])
    show "moves region_grows (for_each (spec_CustomZones (oc_Spec (se_oc t))) (ensure_custom_zone a)) u"
      by (rule region_grows_custom_zones) (simp add: region_grows_spec[OF u])
    show "moves region_grows (record_id rst_WireId rst_WireId_update w (ensureWire a z x bw)) u" for w z x bw
      by (rule region_grows_wire)
    show "moves region_grows (map_err (Wrapped w) (registerSchedSameProjectCloudprovider a)) u" for w
      by (intro region.renamed region_grows_schedtags)
  qed
qed

section \<open>The initialisation of region\<close>

lemma ask_unit_grows: "open_request s q \<Longrightarrow> moves region_grows (ask_unit a q) s"
  unfolding ask_unit_def by (intro region.intros region_grows_ask)

lemma open_auth [simp]: "open_request s (RAuthenticate u n)" "open_request s (RAuthInit u n)"
  by (simp_all add: open_request_def)

lemma auth_grows: "moves region_grows (getSession a) s" "moves region_grows (initAuth a) s"
    "moves region_grows (getAuthBackgroudSession a refresh) s"
proof -
  show i: "moves region_grows (initAuth a) s" for s
    unfolding initAuth_def Let_def by (intro region.intros region_grows_ask open_auth) (auto intro: region.intros split: sum.split)
  show "moves region_grows (getSession a) s"
    unfolding getSession_def Let_def by (intro region.intros ask_unit_grows open_auth)
  show "moves region_grows (getAuthBackgroudSession a refresh) s"
    unfolding getAuthBackgroudSession_def by (intro region.intros i)
qed

lemma with_session_grows:
  assumes "\<And>s. moves region_grows f s"
  shows "moves region_grows (RunWithSession a f) s"
  unfolding RunWithSession_def
  by (intro region.both region.pure region.then_do region.seen assms)
     (auto intro!: region.then_do region.renamed region.pure auth_grows assms split: sum.split)

text \<open>A success of \<open>RunWithSession\<close> is a success of the last run of its function.\<close>

lemma with_session_Ret:
  "RunWithSession a f s = (Ret (), s') \<Longrightarrow> \<exists>t. f t = (Ret (), s')"
  unfolding RunWithSession_def
  by (cases "ap_authed a (se_calls s)") (auto simp: andthen_Ret_iff[of "gets _"] seq_Ret_iff andthen_attempt_Ret map_err_Ret_iff go_simps)

lemma custom_zone_recorded:
  assumes "ensure_custom_zone a z s = (Ret (), t)"
  shows "gomap_get (rst_CustomZones (region_status t)) z \<noteq> None"
  using assms unfolding ensure_custom_zone_def
  by (auto simp: seq_Ret_iff andthen_Ret_iff guarded_def set_region_def go_simps region_status_def split: if_splits)

lemma custom_zones_recorded:
  assumes "for_each zs (ensure_custom_zone a) s = (Ret (), t)" "set zs \<subseteq> set (spec_CustomZones (oc_Spec (se_oc s)))" "z \<in> set zs"
  shows "gomap_get (rst_CustomZones (region_status t)) z \<noteq> None"
  using assms
proof (induction zs arbitrary: s)
  case (Cons y zs)
  from Cons.prems(1) obtain u where u: "ensure_custom_zone a y s = (Ret (), u)" "for_each zs (ensure_custom_zone a) u = (Ret (), t)"
    by (auto simp: seq_Ret_iff)
  have "oc_Spec (se_oc u) = oc_Spec (se_oc s)"
    using Cons.prems(2) by (intro region_grows_spec movesD[OF region_grows_custom_zone u(1)]) simp
  then have zs: "set zs \<subseteq> set (spec_CustomZones (oc_Spec (se_oc u)))" using Cons.prems(2) by simp
  show ?case
  proof (cases "z \<in> set zs")
    case False
    then have "gomap_get (rst_CustomZones (region_status u)) z \<noteq> None" using custom_zone_recorded[OF u(1)] Cons.prems(3) by simp
    moreover have "region_grows u t" by (rule movesD[OF region_grows_custom_zones[OF zs] u(2)])
    ultimately show ?thesis unfolding region_grows_def keeps_ids_def by (metis not_None_eq)
  qed (rule Cons.IH[OF u(2) zs])
qed simp

lemma region_session_zones:
  assumes "region_session a s = (Ret (), t)" "z \<in> set (spec_CustomZones (oc_Spec (se_oc s)))"
  shows "gomap_get (rst_CustomZones (region_status t)) z \<noteq> None"
proof -
  let ?sp = "oc_Spec (se_oc s)"
  let ?rz = "spec_Region ?sp @ ''-'' @ spec_Zone ?sp"
  from assms(1) obtain u v w where u: "record_id rst_RegionZoneId rst_RegionZoneId_update (''create region-zone '' @ ?rz) (ensureRegionZone a ?rz []) s = (Ret (), u)"
      and v: "record_id rst_ZoneId rst_ZoneId_update (''create zone '' @ spec_Zone ?sp) (ensureZone a (spec_Zone ?sp)) u = (Ret (), v)"
      and w: "for_each (spec_CustomZones ?sp) (ensure_custom_zone a) v = (Ret (), w)"
      and rest: "seq (record_id rst_WireId rst_WireId_update ''create default wire'' (ensureWire a (spec_Zone ?sp) DefaultOnecloudWire 1000))
            (map_err (Wrapped ''init sched data'') (registerSchedSameProjectCloudprovider a)) w = (Ret (), t)"
    unfolding region_session_def Let_def andthen_Ret_iff go_eval by (auto simp only: seq_Ret_iff prod.inject res.inject)
  note su = region_grows_spec[OF movesD[OF region_grows_region u]]
  have "region_grows u v" by (rule movesD[OF region_grows_zone v]) (simp add: su)
  then have sp: "oc_Spec (se_oc v) = ?sp" using su by (simp add: region_grows_spec)
  have "gomap_get (rst_CustomZones (region_status w)) z \<noteq> None"
    by (rule custom_zones_recorded[OF w]) (simp_all add: sp assms(2))
  moreover have "region_grows w t"
    using region.then_do[OF region_grows_wire region.renamed[OF region_grows_schedtags]] rest by (rule movesD)
  ultimately show ?thesis unfolding region_grows_def keeps_ids_def by (metis not_None_eq)
qed

text \<open>
  C18: The initialisation of region, however it ends and although a failing session is run a second time, changes no
  identifier it has recorded in the status, looks up and creates no zone, wire or region of which it has recorded the
  identifier, and leaves the specification alone; when it succeeds, every custom zone of the specification is recorded.
\<close>

theorem region_init_keeps_recorded:
  assumes run: "region_SystemInit a s = (r, s')"
  shows "oc_Spec (se_oc s') = oc_Spec (se_oc s) \<and> keeps_ids s s'
    \<and> (\<exists>new. se_calls s' = se_calls s @ new \<and> list_all (open_request s) new)
    \<and> (r = Ret () \<longrightarrow> (\<forall>z\<in>set (spec_CustomZones (oc_Spec (se_oc s))). gomap_get (rst_CustomZones (region_status s')) z \<noteq> None))"
proof -
  have grows: "region_grows s s'"
    using run unfolding region_SystemInit_def by (rule movesD[OF with_session_grows[OF region_session_grows]])
  have "gomap_get (rst_CustomZones (region_status s')) z \<noteq> None" if "r = Ret ()" "z \<in> set (spec_CustomZones (oc_Spec (se_oc s)))" for z
  proof -
    from run that(1) obtain t where t: "region_session a t = (Ret (), s')"
      unfolding region_SystemInit_def using with_session_Ret by blast
    have "oc_Spec (se_oc t) = oc_Spec (se_oc s')" using region_grows_spec[OF movesD[OF region_session_grows t]] by simp
    then show ?thesis using region_session_zones[OF t] that(2) region_grows_spec[OF grows] by simp
  qed
  then show ?thesis using grows by (auto simp: region_grows_def)
qed

definition recorded_session :: session where
  "recorded_session = start_session (zero_OnecloudCluster
     \<lparr>oc_Spec := (oc_Spec zero_OnecloudCluster)\<lparr>spec_Zone := ''z0'', spec_CustomZones := [''z1'']\<rparr>,
      oc_Status := (oc_Status zero_OnecloudCluster)\<lparr>st_RegionServer := (st_RegionServer (oc_Status zero_OnecloudCluster))
        \<lparr>rst_RegionZoneId := ''r'', rst_ZoneId := ''i0'', rst_WireId := ''w''\<rparr>\<rparr>\<rparr>)"

lemma store_ensures:
  "\<exists>x t. EnsureResource (store_api st) man name (ask (store_api st) (RCreate man d)) s = (Ret x, t) \<and> se_oc t = se_oc s"
  by (cases "lookup_row name (fold (apply_request longer_id) (se_calls s) st man)")
     (simp_all add: EnsureResource_def IsResourceExists_def ask_def ask_as_def store_api_def go_simps request_logged_def)

lemma store_zone: "\<exists>i t. ensureZone (store_api st) z s = (Ret i, t) \<and> se_oc t = se_oc s"
  using store_ensures[of st MZones z "[(''name'', JStr z)]" s]
  by (auto simp: ensure_as_resource CreateZone_def go_simps)

lemma store_schedtags: "\<exists>t. registerSchedSameProjectCloudprovider (store_api st) s = (Ret (), t)"
proof -
  obtain x t where t: "EnsureSchedtag (store_api st) ''same_project'' ''prefer'' ''Prefer hosts belongs to same project'' s = (Ret x, t)"
    using store_ensures unfolding EnsureSchedtag_def CreateSchedtag_def by blast
  obtain y u where "EnsureDynamicSchedtag (store_api st) ''same_cloudprovider_project'' (id_of (store_api st) x)
      ''host.cloudprovider.tenant_id == server.owner_tenant_id'' t = (Ret y, u)"
    using store_ensures unfolding EnsureDynamicSchedtag_def CreateDynamicSchedtag_def by blast
  with t show ?thesis by (simp add: registerSchedSameProjectCloudprovider_def go_simps)
qed

lemma recorded_session_runs: "\<exists>s'. region_SystemInit (store_api demo_store) recorded_session = (Ret (), s')"
proof -
  let ?a = "store_api demo_store" and ?s = recorded_session
  let ?s1 = "snd (set_region (rst_CustomZones_update (\<lambda>m. case m of None \<Rightarrow> Some [] | Some kvs \<Rightarrow> Some kvs)) ?s)"
  obtain i t where t: "ensureZone ?a ''z1'' ?s1 = (Ret i, t)" "se_oc t = se_oc ?s1" using store_zone by blast
  let ?t = "snd (set_region (rst_CustomZones_update (gomap_set ''z1'' i)) t)"
  obtain u where u: "registerSchedSameProjectCloudprovider ?a ?t = (Ret (), u)" using store_schedtags by blast
  have ids: "rst_RegionZoneId (region_status ?s) = ''r''" "rst_ZoneId (region_status ?s) = ''i0''" "rst_WireId (region_status ?t) = ''w''"
    "gomap_get (rst_CustomZones (region_status ?s1)) ''z1'' = None" "spec_CustomZones (oc_Spec (se_oc ?s)) = [''z1'']"
    using t(2) by (simp_all add: recorded_session_def start_session_def region_status_def set_region_def go_simps gomap_get_def
        zero_OnecloudCluster_def zero_OnecloudClusterStatus_def zero_RegionStatus_def)
  have "ensure_custom_zone ?a ''z1'' ?s = (Ret (), ?t)"
    using t(1) ids(4)
    by (simp add: ensure_custom_zone_def seq_def andthen_def map_err_def gets_def guarded_def set_region_def modify_def)
  then have "region_session ?a ?s = (Ret (), u)"
    using u by (simp add: region_session_def record_id_def go_simps ids Let_def guarded_def)
  then show ?thesis
    by (simp add: region_SystemInit_def RunWithSession_def getAuthBackgroudSession_def go_simps store_api_sel guarded_def)
qed

theorem region_init_keeps_recorded_witness:
  "\<exists>s'. region_SystemInit (store_api demo_store) recorded_session = (Ret (), s')
     \<and> rst_ZoneId (region_status s') = ''i0'' \<and> gomap_get (rst_CustomZones (region_status s')) ''z1'' \<noteq> None"
proof -
  obtain s' where run: "region_SystemInit (store_api demo_store) recorded_session = (Ret (), s')" using recorded_session_runs by blast
  have "rst_ZoneId (region_status recorded_session) = ''i0''" "spec_CustomZones (oc_Spec (se_oc recorded_session)) = [''z1'']"
    by (simp_all add: recorded_session_def start_session_def region_status_def)
  then show ?thesis using run region_init_keeps_recorded[OF run] by (auto simp: keeps_ids_def keeps_id_def)
qed

end
