(* ===== verification/Databases.thy ===== *)
theory Databases
  imports Onecloud_Api
begin

text \<open>
  The databases behind the services: the connections to MySQL, Dameng and ClickHouse
  (\<open>pkg/util/mysql/mysql.go\<close>, \<open>pkg/util/dameng/dameng.go\<close>, \<open>pkg/util/clickhouse/clickhouse.go\<close>) and what the operator does with
  them before it starts a service (\<open>pkg/service-init/component/dbutil.go\<close>). The server is an argument: it answers the text of
  a statement, and may take the statements before it into account. A state is the list of the statements sent.
\<close>

section \<open>Statements and rows\<close>

datatype stmt =
    SOpen string string
  | SExec string
  | SQuery string "string list"
  | SClose

text \<open>
  The rows of an answer: the names of the columns, the values (\<open>None\<close> is NULL) in their text form, and the error that ends the
  iteration early, if any.
\<close>

record sql_rows =
  rw_columns :: "string list"
  rw_rows :: "string option list list"
  rw_err :: "goerr option"

record sql_server =
  sq_open :: "string \<Rightarrow> string \<Rightarrow> goerr option"
  sq_exec :: "stmt list \<Rightarrow> string \<Rightarrow> goerr option"
  sq_query :: "stmt list \<Rightarrow> string \<Rightarrow> string list \<Rightarrow> goerr + sql_rows"
  sq_sha256 :: "string \<Rightarrow> string"

type_synonym 'a db = "(stmt list, 'a) go"

definition sql_Open :: "sql_server \<Rightarrow> string \<Rightarrow> string \<Rightarrow> unit db" where
  "sql_Open srv driver dsn = seq (modify (\<lambda>log. log @ [SOpen driver dsn])) (lift_err (sq_open srv driver dsn))"

definition sql_Exec :: "sql_server \<Rightarrow> string \<Rightarrow> unit db" where
  "sql_Exec srv q = andthen (gets (\<lambda>log. sq_exec srv log q)) (\<lambda>r. seq (modify (\<lambda>log. log @ [SExec q])) (lift_err r))"

definition sql_Query :: "sql_server \<Rightarrow> string \<Rightarrow> string list \<Rightarrow> sql_rows db" where
  "sql_Query srv q args =
     andthen (gets (\<lambda>log. sq_query srv log q args)) (\<lambda>r.
     seq (modify (\<lambda>log. log @ [SQuery q args])) (case r of Inl e \<Rightarrow> fail e | Inr rows \<Rightarrow> ret rows))"

text \<open>\<open>Scan\<close> into one string: a NULL and a row of another width are errors.\<close>

definition scan_string :: "string option list \<Rightarrow> goerr + string" where
  "scan_string row =
     (case row of
        [Some v] \<Rightarrow> Inr v
      | [None] \<Rightarrow> Inl (Errorf ''converting NULL to string is unsupported'')
      | _ \<Rightarrow> Inl (Errorf ''expected 1 destination arguments in Scan''))"

definition scan_int :: "string option list \<Rightarrow> goerr + int" where
  "scan_int row =
     (case scan_string row of
        Inl e \<Rightarrow> Inl e
      | Inr s \<Rightarrow> (case ParseInt s of None \<Rightarrow> Inl (Errorf ''converting driver.Value type to a int'') | Some n \<Rightarrow> Inr n))"

text \<open>\<open>QueryRow(...).Scan\<close>: the first row; no row at all is \<open>sql.ErrNoRows\<close>, here \<open>None\<close>.\<close>

definition query_row :: "sql_server \<Rightarrow> string \<Rightarrow> string list \<Rightarrow> (string option list \<Rightarrow> goerr + 'a) \<Rightarrow> 'a option db" where
  "query_row srv q args scan =
     andthen (sql_Query srv q args) (\<lambda>rows.
     case rw_rows rows of
       [] \<Rightarrow> (case rw_err rows of Some e \<Rightarrow> fail e | None \<Rightarrow> ret None)
     | row # _ \<Rightarrow> (case scan row of Inl e \<Rightarrow> fail e | Inr v \<Rightarrow> ret (Some v)))"

text \<open>Where \<open>sql.ErrNoRows\<close> is an error like the others.\<close>

definition query_one :: "sql_server \<Rightarrow> string \<Rightarrow> string list \<Rightarrow> (string option list \<Rightarrow> goerr + 'a) \<Rightarrow> 'a db" where
  "query_one srv q args scan =
     andthen (query_row srv q args scan) (\<lambda>r. case r of None \<Rightarrow> fail (Errorf ''sql: no rows in result set'') | Some v \<Rightarrow> ret v)"

text \<open>The interface \<open>IConnection\<close> (\<open>pkg/util/dbutil/db.go\<close>): the methods of a connection to one of the servers.\<close>

record IConnection =
  ic_IsDatabaseExists :: "string \<Rightarrow> bool db"
  ic_IsUserExists :: "string \<Rightarrow> bool db"
  ic_CreateUser :: "string \<Rightarrow> string \<Rightarrow> string \<Rightarrow> unit db"
  ic_UpdateUser :: "string \<Rightarrow> string \<Rightarrow> string \<Rightarrow> unit db"
  ic_CreateDatabase :: "string \<Rightarrow> unit db"

section \<open>MySQL\<close>

definition allHosts :: "string list" where
  "allHosts = [''%'', ''127.0.0.1'', ''::1'']"

definition mysql_dsn :: "Mysql \<Rightarrow> string" where
  "mysql_dsn info = my_Username info @ '':'' @ my_Password info @ ''@tcp('' @ FormatHost (my_Host info) @ '':'' @ show_int (my_Port info) @ '')/''"

definition CheckHealth :: "sql_server \<Rightarrow> unit db" where
  "CheckHealth srv = sql_Exec srv ''SHOW MASTER STATUS''"

text \<open>The first row as a map without the NULL columns; no row is a nil map.\<close>

definition scanMap :: "sql_rows \<Rightarrow> goerr + gomap" where
  "scanMap rows =
     (case rw_rows rows of
        [] \<Rightarrow> (case rw_err rows of Some e \<Rightarrow> Inl e | None \<Rightarrow> Inr None)
      | row # _ \<Rightarrow>
          if length row \<noteq> length (rw_columns rows) then Inl (Errorf ''expected destination arguments in Scan'')
          else Inr (Some (fold (\<lambda>(c, v) m. case v of None \<Rightarrow> m | Some s \<Rightarrow> AList.update c s m) (zip (rw_columns rows) row) [])))"

definition ShowSlaveStatus :: "sql_server \<Rightarrow> gomap db" where
  "ShowSlaveStatus srv =
     andthen (map_err (Wrapped ''show slave status'') (sql_Query srv ''SHOW SLAVE STATUS'' [])) (\<lambda>rows.
     case scanMap rows of Inl e \<Rightarrow> fail e | Inr m \<Rightarrow> ret m)"

definition schema_query :: string where
  "schema_query = ''SELECT `SCHEMA_NAME` AS `database` FROM INFORMATION_SCHEMA.SCHEMATA WHERE SCHEMA_NAME = ?''"

definition mysql_IsDatabaseExists :: "sql_server \<Rightarrow> string \<Rightarrow> bool db" where
  "mysql_IsDatabaseExists srv db =
     andthen (map_err (Wrapped ''do query'') (query_row srv schema_query [db] scan_string)) (\<lambda>r.
     ret (r = Some db))"

definition show_grants :: "string \<Rightarrow> string \<Rightarrow> string" where
  "show_grants username host =
     ''SHOW GRANTS FOR '' @ [CHR 0x27] @ username @ [CHR 0x27]
       @ (if host = [] then [] else ''@'' @ [CHR 0x27] @ host @ [CHR 0x27])"

text \<open>Any failure of the statement counts as a missing user.\<close>

definition isUserExists :: "sql_server \<Rightarrow> string \<Rightarrow> string \<Rightarrow> bool db" where
  "isUserExists srv username host =
     andthen (attempt (sql_Exec srv (show_grants username host))) (\<lambda>r. ret (case r of Inl e \<Rightarrow> False | Inr _ \<Rightarrow> True))"

definition mysql_IsUserExists :: "sql_server \<Rightarrow> string \<Rightarrow> bool db" where
  "mysql_IsUserExists srv username = isUserExists srv username ''%''"

definition drop_statement :: "string \<Rightarrow> string \<Rightarrow> string" where
  "drop_statement username address =
     ''DROP USER '' @ [CHR 0x27] @ username @ [CHR 0x27]
       @ (if address = [] then [] else ''@'' @ [CHR 0x27] @ address @ [CHR 0x27])"

text \<open>A failed drop is only logged.\<close>

definition dropUserByHost :: "sql_server \<Rightarrow> string \<Rightarrow> string \<Rightarrow> unit db" where
  "dropUserByHost srv username address =
     andthen (map_err (Wrapped ''drop user check exists'') (isUserExists srv username address)) (\<lambda>exists.
     guarded exists (andthen (attempt (sql_Exec srv (drop_statement username address))) (\<lambda>_. ret ())))"

definition dropUserByHosts :: "sql_server \<Rightarrow> string \<Rightarrow> string list \<Rightarrow> unit db" where
  "dropUserByHosts srv username hosts =
     for_each hosts (\<lambda>host. map_err (Wrapped ''drop user'') (dropUserByHost srv username host))"

fun scan_hosts :: "string option list list \<Rightarrow> goerr + string list" where
  "scan_hosts [] = Inr []"
| "scan_hosts (row # rows) =
     (case scan_string row of
        Inl e \<Rightarrow> Inl (Wrapped ''fetch user hosts'' e)
      | Inr h \<Rightarrow> (case scan_hosts rows of Inl e \<Rightarrow> Inl e | Inr hs \<Rightarrow> Inr (h # hs)))"

definition hosts_query :: string where
  "hosts_query = ''SELECT host FROM mysql.user WHERE user = ?''"

text \<open>The error that ended the iteration is not looked at.\<close>

definition dropUser :: "sql_server \<Rightarrow> string \<Rightarrow> unit db" where
  "dropUser srv username =
     andthen (map_err (Wrapped ''drop user'') (sql_Query srv hosts_query [username])) (\<lambda>rows.
     case scan_hosts (rw_rows rows) of
       Inl e \<Rightarrow> fail e
     | Inr hosts \<Rightarrow> guarded (hosts \<noteq> []) (dropUserByHosts srv username hosts))"

definition create_user_statement :: "string \<Rightarrow> string \<Rightarrow> string \<Rightarrow> string" where
  "create_user_statement username address password =
     ''CREATE USER '' @ [CHR 0x27] @ username @ [CHR 0x27] @ ''@'' @ [CHR 0x27] @ address @ [CHR 0x27]
       @ '' IDENTIFIED BY '' @ [CHR 0x27] @ password @ [CHR 0x27]"

definition grant_statement :: "string \<Rightarrow> string \<Rightarrow> string \<Rightarrow> string" where
  "grant_statement database username address =
     ''GRANT ALL PRIVILEGES ON '' @ database @ ''.* TO '' @ [CHR 0x27] @ username @ [CHR 0x27] @ ''@'' @ [CHR 0x27] @ address @ [CHR 0x27]"

definition mysql_grant :: "sql_server \<Rightarrow> string \<Rightarrow> string \<Rightarrow> string \<Rightarrow> string \<Rightarrow> unit db" where
  "mysql_grant srv username password database addr =
     (let address = (if addr = [] then ''%'' else addr);
          base = (if database = [] then ''*'' else database);
          create = create_user_statement username address password;
          grant = grant_statement base username address
      in seq (map_err (Wrapped create) (sql_Exec srv create))
        (seq (map_err (Wrapped grant) (sql_Exec srv grant))
             (andthen (attempt (sql_Exec srv ''FLUSH PRIVILEGES'')) (\<lambda>_. ret ()))))"

definition mysql_UpdateUser :: "sql_server \<Rightarrow> string \<Rightarrow> string \<Rightarrow> string \<Rightarrow> unit db" where
  "mysql_UpdateUser srv username password database =
     (let base = (if database = [] then ''*'' else database)
      in seq (map_err (Wrapped ''Delete user'') (dropUser srv username))
             (for_each allHosts (\<lambda>addr. map_err (Wrapped ''Grant user'') (mysql_grant srv username password base addr))))"

definition mysql_CreateUser :: "sql_server \<Rightarrow> string \<Rightarrow> string \<Rightarrow> string \<Rightarrow> unit db" where
  "mysql_CreateUser srv username password database = mysql_UpdateUser srv username password database"

definition create_database_statement :: "string \<Rightarrow> string" where
  "create_database_statement db = ''CREATE DATABASE IF NOT EXISTS `'' @ db @ ''`''"

definition mysql_CreateDatabase :: "sql_server \<Rightarrow> string \<Rightarrow> unit db" where
  "mysql_CreateDatabase srv db = sql_Exec srv (create_database_statement db)"

definition DropDatabase :: "sql_server \<Rightarrow> string \<Rightarrow> unit db" where
  "DropDatabase srv db = sql_Exec srv (''DROP DATABASE IF EXISTS `'' @ db @ ''`'')"

definition ShowGrants :: "sql_server \<Rightarrow> string \<Rightarrow> string \<Rightarrow> string db" where
  "ShowGrants srv user host =
     map_err (Wrapped ''show grants'') (query_one srv (show_grants user (if host = [] then ''%'' else host)) [] scan_string)"

definition IsGrantPrivUser :: "sql_server \<Rightarrow> string \<Rightarrow> string \<Rightarrow> bool db" where
  "IsGrantPrivUser srv user host =
     andthen (ShowGrants srv user host) (\<lambda>grant. ret (contains_str grant ''WITH GRANT OPTION''))"

definition mysql_connection :: "sql_server \<Rightarrow> IConnection" where
  "mysql_connection srv =
     \<lparr>ic_IsDatabaseExists = mysql_IsDatabaseExists srv, ic_IsUserExists = mysql_IsUserExists srv,
      ic_CreateUser = mysql_CreateUser srv, ic_UpdateUser = mysql_UpdateUser srv,
      ic_CreateDatabase = mysql_CreateDatabase srv\<rparr>"

definition mysql_NewConnection :: "sql_server \<Rightarrow> Mysql \<Rightarrow> IConnection db" where
  "mysql_NewConnection srv info =
     seq (map_err (Wrapped ''Connect to database'') (sql_Open srv ''mysql'' (mysql_dsn info)))
         (ret (mysql_connection srv))"

section \<open>Dameng\<close>

definition dameng_dsn :: "Dameng \<Rightarrow> string" where
  "dameng_dsn info = ''dm://'' @ my_Username info @ '':'' @ my_Password info @ ''@'' @ FormatHost (my_Host info) @ '':''
     @ show_int (my_Port info) @ ''/SYS''"

definition quote_sql :: "string \<Rightarrow> string" where
  "quote_sql s = [CHR 0x27] @ s @ [CHR 0x27]"

definition dameng_IsDatabaseExists :: "sql_server \<Rightarrow> string \<Rightarrow> bool db" where
  "dameng_IsDatabaseExists srv db =
     (let query = ''SELECT DISTINCT object_name FROM all_objects WHERE object_type='' @ quote_sql ''SCH''
                    @ '' AND object_name = '' @ quote_sql db @ '';''
      in andthen (map_err (Wrapped (''do query '' @ query)) (query_row srv query [] scan_string)) (\<lambda>r.
         ret (r = Some db)))"

definition dameng_IsUserExists :: "sql_server \<Rightarrow> string \<Rightarrow> bool db" where
  "dameng_IsUserExists srv username =
     andthen (map_err (Wrapped ''check user exists'')
       (query_one srv (''SELECT COUNT(*) FROM dba_users WHERE username = '' @ quote_sql username) [] scan_int)) (\<lambda>count.
     ret (count > 0))"

definition isSchemaOwnerUser :: "sql_server \<Rightarrow> string \<Rightarrow> string \<Rightarrow> bool db" where
  "isSchemaOwnerUser srv db username =
     andthen (map_err (Wrapped ''isSchemaOwnerUser'')
       (query_one srv (''SELECT COUNT(*) FROM SYSOBJECTS A, DBA_USERS B WHERE A.PID=B.USER_ID AND A.TYPE$='' @ quote_sql ''SCH''
          @ '' AND B.USERNAME='' @ quote_sql username @ '' AND A.NAME='' @ quote_sql db @ '';'') [] scan_int)) (\<lambda>count.
     ret (count > 0))"

text \<open>A statement whose error is wrapped in its own text.\<close>

definition exec_wrapped :: "sql_server \<Rightarrow> string \<Rightarrow> unit db" where
  "exec_wrapped srv q = map_err (Wrapped (''exec '' @ q)) (sql_Exec srv q)"

definition alterUserPassword :: "sql_server \<Rightarrow> string \<Rightarrow> string \<Rightarrow> unit db" where
  "alterUserPassword srv username password = exec_wrapped srv (''ALTER USER '' @ username @ '' IDENTIFIED BY '' @ password)"

definition createUserPassword :: "sql_server \<Rightarrow> string \<Rightarrow> string \<Rightarrow> unit db" where
  "createUserPassword srv username password = exec_wrapped srv (''CREATE USER '' @ username @ '' IDENTIFIED BY '' @ password)"

definition ensureUserRoles :: "sql_server \<Rightarrow> string \<Rightarrow> unit db" where
  "ensureUserRoles srv username = exec_wrapped srv (''GRANT resource,public,soi TO '' @ username)"

definition createSchemaForUser :: "sql_server \<Rightarrow> string \<Rightarrow> string \<Rightarrow> unit db" where
  "createSchemaForUser srv db username = exec_wrapped srv (''CREATE SCHEMA '' @ db @ '' AUTHORIZATION '' @ username)"

definition ensureUserRoleSchema :: "sql_server \<Rightarrow> string \<Rightarrow> string \<Rightarrow> unit db" where
  "ensureUserRoleSchema srv username database =
     seq (map_err (Wrapped ''ensureUserRoles'') (ensureUserRoles srv username))
     (andthen (map_err (Wrapped ''IsDatabaseExists'') (dameng_IsDatabaseExists srv database)) (\<lambda>exist.
      if \<not> exist then map_err (Wrapped ''ensureUserRoles'') (createSchemaForUser srv database username)
      else andthen (map_err (Wrapped ''isSchemaOwnerUser'') (isSchemaOwnerUser srv database username)) (\<lambda>owns.
           if owns then ret ()
           else fail (Wrapped (''schema '' @ database @ '' not belong to user '' @ username) (Errorf ''ConflictError'')))))"

definition dameng_UpdateUser :: "sql_server \<Rightarrow> string \<Rightarrow> string \<Rightarrow> string \<Rightarrow> unit db" where
  "dameng_UpdateUser srv username password database =
     seq (map_err (Wrapped ''alterUserPassword'') (alterUserPassword srv username password))
         (map_err (Wrapped ''ensureUserRoleSchema'') (ensureUserRoleSchema srv username database))"

text \<open>\<open>CreateUser\<close> repeats the body of \<open>ensureUserRoleSchema\<close>.\<close>

definition dameng_CreateUser :: "sql_server \<Rightarrow> string \<Rightarrow> string \<Rightarrow> string \<Rightarrow> unit db" where
  "dameng_CreateUser srv username password database =
     seq (map_err (Wrapped ''createUserPassword'') (createUserPassword srv username password))
         (ensureUserRoleSchema srv username database)"

definition dameng_CreateDatabase :: "string \<Rightarrow> unit db" where
  "dameng_CreateDatabase db = ret ()"

definition dameng_connection :: "sql_server \<Rightarrow> IConnection" where
  "dameng_connection srv =
     \<lparr>ic_IsDatabaseExists = dameng_IsDatabaseExists srv, ic_IsUserExists = dameng_IsUserExists srv,
      ic_CreateUser = dameng_CreateUser srv, ic_UpdateUser = dameng_UpdateUser srv,
      ic_CreateDatabase = dameng_CreateDatabase\<rparr>"

definition dameng_NewConnection :: "sql_server \<Rightarrow> Dameng \<Rightarrow> IConnection db" where
  "dameng_NewConnection srv info =
     seq (map_err (Wrapped ''Connect to database'') (sql_Open srv ''dm'' (dameng_dsn info)))
         (ret (dameng_connection srv))"

section \<open>ClickHouse\<close>

definition clickhouse_dsn :: "Clickhouse \<Rightarrow> string" where
  "clickhouse_dsn info = ''tcp://'' @ FormatHost (my_Host info) @ '':'' @ show_int (my_Port info)
     @ ''?read_timeout=10&write_timeout=20&username='' @ my_Username info @ ''&password='' @ my_Password info"

definition clickhouse_IsDatabaseExists :: "string \<Rightarrow> bool db" where
  "clickhouse_IsDatabaseExists db = ret False"

definition checkCount :: "sql_server \<Rightarrow> string \<Rightarrow> int db" where
  "checkCount srv q = map_err (Wrapped q) (query_one srv q [] scan_int)"

definition checkMySQLGrant :: "sql_server \<Rightarrow> string \<Rightarrow> bool db" where
  "checkMySQLGrant srv username =
     andthen (map_err (Wrapped ''check user exist'')
       (checkCount srv (''SELECT COUNT(*) FROM system.grants WHERE user_name = '' @ quote_sql username @ '' AND access_type = '' @ quote_sql ''MYSQL''))) (\<lambda>count.
     ret (count > 0))"

text \<open>A user without the right to read from MySQL counts as missing, so that it is made anew.\<close>

definition clickhouse_IsUserExists :: "sql_server \<Rightarrow> string \<Rightarrow> bool db" where
  "clickhouse_IsUserExists srv username =
     andthen (map_err (Wrapped ''check user exist'')
       (checkCount srv (''SELECT COUNT(*) FROM system.users WHERE name = '' @ quote_sql username))) (\<lambda>count.
     if count > 0 then checkMySQLGrant srv username else ret False)"

definition clickhouse_dropUser :: "sql_server \<Rightarrow> string \<Rightarrow> unit db" where
  "clickhouse_dropUser srv username = sql_Exec srv (''DROP USER IF EXISTS `'' @ username @ ''`'')"

text \<open>The statements that \<open>CreateUser\<close> and \<open>UpdateUser\<close> share, up to the first word.\<close>

definition clickhouse_user_statements :: "sql_server \<Rightarrow> string \<Rightarrow> string \<Rightarrow> string \<Rightarrow> string \<Rightarrow> string list" where
  "clickhouse_user_statements srv verb username password database =
     [verb @ '' USER '' @ username @ '' IDENTIFIED WITH sha256_hash BY '' @ quote_sql (sq_sha256 srv password) @ '' HOST ANY'',
      ''GRANT ALL ON '' @ database @ ''.* TO '' @ username,
      ''GRANT MYSQL ON *.* TO '' @ username]"

definition clickhouse_CreateUser :: "sql_server \<Rightarrow> string \<Rightarrow> string \<Rightarrow> string \<Rightarrow> unit db" where
  "clickhouse_CreateUser srv username password database =
     seq (map_err (Wrapped ''Delete user'') (clickhouse_dropUser srv username))
         (for_each (clickhouse_user_statements srv ''CREATE'' username password database) (exec_wrapped srv))"

definition clickhouse_UpdateUser :: "sql_server \<Rightarrow> string \<Rightarrow> string \<Rightarrow> string \<Rightarrow> unit db" where
  "clickhouse_UpdateUser srv username password database =
     for_each (clickhouse_user_statements srv ''ALTER'' username password database) (exec_wrapped srv)"

definition clickhouse_CreateDatabase :: "sql_server \<Rightarrow> string \<Rightarrow> unit db" where
  "clickhouse_CreateDatabase srv db = sql_Exec srv (create_database_statement db)"

definition clickhouse_connection :: "sql_server \<Rightarrow> IConnection" where
  "clickhouse_connection srv =
     \<lparr>ic_IsDatabaseExists = clickhouse_IsDatabaseExists, ic_IsUserExists = clickhouse_IsUserExists srv,
      ic_CreateUser = clickhouse_CreateUser srv, ic_UpdateUser = clickhouse_UpdateUser srv,
      ic_CreateDatabase = clickhouse_CreateDatabase srv\<rparr>"

definition clickhouse_NewConnection :: "sql_server \<Rightarrow> Clickhouse \<Rightarrow> IConnection db" where
  "clickhouse_NewConnection srv info =
     seq (map_err (Wrapped ''Connect to database'') (sql_Open srv ''clickhouse'' (clickhouse_dsn info)))
         (ret (clickhouse_connection srv))"

section \<open>The account of a service\<close>

text \<open>\<open>syncUser\<close> is the flag \<open>controller.SyncUser\<close> of the operator.\<close>

definition EnsureDBUser :: "bool \<Rightarrow> IConnection \<Rightarrow> string \<Rightarrow> string \<Rightarrow> string \<Rightarrow> unit db" where
  "EnsureDBUser syncUser conn dbName username password =
     andthen (map_err (Wrapped ''check db exists'') (ic_IsDatabaseExists conn dbName)) (\<lambda>dbExists.
     seq (guarded (\<not> dbExists) (map_err (Wrapped ''create database'') (ic_CreateDatabase conn dbName)))
    (andthen (map_err (Wrapped ''check user exists'') (ic_IsUserExists conn username)) (\<lambda>userExists.
     if \<not> userExists then map_err (Wrapped ''create user for database'') (ic_CreateUser conn username password dbName)
     else guarded syncUser (map_err (Wrapped ''create user for database'') (ic_UpdateUser conn username password dbName)))))"

definition connection_of :: "sql_server \<Rightarrow> OnecloudCluster \<Rightarrow> string \<Rightarrow> IConnection db" where
  "connection_of srv oc driver =
     (if driver = DBEngineMySQL then mysql_NewConnection srv (spec_Mysql (oc_Spec oc))
      else if driver = DBEngineClickhouse then clickhouse_NewConnection srv (spec_Clickhouse (oc_Spec oc))
      else if driver = DBEngineDameng then dameng_NewConnection srv (spec_Dameng (oc_Spec oc))
      else fail (Errorf (''unknown db driver '' @ driver)))"

definition ensureClusterDBUser :: "sql_server \<Rightarrow> bool \<Rightarrow> OnecloudCluster \<Rightarrow> DBConfig \<Rightarrow> string \<Rightarrow> unit db" where
  "ensureClusterDBUser srv syncUser oc dbConfig driver =
     andthen (connection_of srv oc driver) (\<lambda>conn.
     deferring (EnsureDBUser syncUser conn (dbc_Database dbConfig) (dbc_Username dbConfig) (dbc_Password dbConfig))
               (\<lambda>log. log @ [SClose]))"

definition EnsureClusterMySQLUser :: "sql_server \<Rightarrow> bool \<Rightarrow> OnecloudCluster \<Rightarrow> DBConfig \<Rightarrow> unit db" where
  "EnsureClusterMySQLUser srv syncUser oc dbConfig = ensureClusterDBUser srv syncUser oc dbConfig DBEngineMySQL"

definition EnsureClusterDamengUser :: "sql_server \<Rightarrow> bool \<Rightarrow> OnecloudCluster \<Rightarrow> DBConfig \<Rightarrow> unit db" where
  "EnsureClusterDamengUser srv syncUser oc dbConfig = ensureClusterDBUser srv syncUser oc dbConfig DBEngineDameng"

definition EnsureClusterClickhouseUser :: "sql_server \<Rightarrow> bool \<Rightarrow> OnecloudCluster \<Rightarrow> DBConfig \<Rightarrow> unit db" where
  "EnsureClusterClickhouseUser srv syncUser oc dbConfig = ensureClusterDBUser srv syncUser oc dbConfig DBEngineClickhouse"

section \<open>The cloud account of a service\<close>

text \<open>
  \<open>pkg/service-init/component/cloudutil.go\<close>: the user of the identity service that a component signs in with. A user that
  is in no project is added to the system project; its password is changed only when users are synchronised and signing in
  with the configured password fails.
\<close>

definition LoginByServiceAccount :: "api \<Rightarrow> CloudUser \<Rightarrow> unit sm" where
  "LoginByServiceAccount a account = ask_unit a (RLogin (cu_Username account) (cu_Password account))"

definition EnsureServiceAccount :: "api \<Rightarrow> bool \<Rightarrow> CloudUser \<Rightarrow> unit sm" where
  "EnsureServiceAccount a syncUser account =
     (let username = cu_Username account; password = cu_Password account
      in andthen (IsUserExists a username) (\<lambda>r.
         case r of
           Some obj \<Rightarrow>
             (let ident = str_at (ap_print a) ''id'' obj
              in seq (guarded (json_Int [''project_count''] obj = Some 0)
                       (map_err (Wrapped ''add exists user to system project'') (ProjectAddUser a SysAdminProject ident RoleAdmin)))
                     (if \<not> syncUser then ret ()
                      else andthen (attempt (LoginByServiceAccount a account)) (\<lambda>login.
                           case login of
                             Inr _ \<Rightarrow> ret ()
                           | Inl e \<Rightarrow> andthen (map_err (Wrapped ''user already exists, update password'') (ChangeUserPassword a ident password)) (\<lambda>_. ret ()))))
         | None \<Rightarrow>
             andthen (map_err (Wrapped ''create user'') (CreateUser a username password)) (\<lambda>obj.
             ProjectAddUser a SysAdminProject (str_at (ap_print a) ''id'' obj) RoleAdmin)))"

end
