(* ===== verification/Database_Laws.thy ===== *)
theory Database_Laws
  imports Databases Phase_Laws
begin

text \<open>
  What the operator does to the accounts of the databases: an account that exists is left alone unless users are
  synchronised, for every kind of server, and on a MySQL server that keeps its accounts as documented the
  account of a service ends up at the three hosts with the password of the configuration.
\<close>

section \<open>Statements that concern accounts\<close>

definition has_prefix :: "string \<Rightarrow> string \<Rightarrow> bool" where
  "has_prefix s p \<longleftrightarrow> take (length p) s = p"

fun touches_account :: "stmt \<Rightarrow> bool" where
  "touches_account (SExec q) \<longleftrightarrow> has_prefix q ''CREATE USER'' \<or> has_prefix q ''DROP USER'' \<or> has_prefix q ''ALTER USER'' \<or> has_prefix q ''GRANT''"
| "touches_account q \<longleftrightarrow> False"

abbreviation quiet_on :: "'a db \<Rightarrow> stmt list \<Rightarrow> bool" where
  "quiet_on m s \<equiv> emits_on (\<lambda>log. log) (\<lambda>q. \<not> touches_account q) m s"

lemma sql_eval:
  "sql_Exec srv q s = (case sq_exec srv s q of None \<Rightarrow> Ret () | Some e \<Rightarrow> Fail e, s @ [SExec q])"
  "sql_Query srv q args s = (case sq_query srv s q args of Inl e \<Rightarrow> Fail e | Inr rows \<Rightarrow> Ret rows, s @ [SQuery q args])"
  "sql_Open srv driver dsn s = (case sq_open srv driver dsn of None \<Rightarrow> Ret () | Some e \<Rightarrow> Fail e, s @ [SOpen driver dsn])"
  by (auto simp: sql_Exec_def sql_Query_def sql_Open_def go_simps split: option.splits sum.splits)

lemma emits_sql [emits_intros]:
  "P (SExec q) \<Longrightarrow> emits_on (\<lambda>log. log) P (sql_Exec srv q) s"
  "P (SQuery q args) \<Longrightarrow> emits_on (\<lambda>log. log) P (sql_Query srv q args) s"
  by (simp_all add: emits_on_def sql_eval)

lemma emits_query [emits_intros]:
  "P (SQuery q args) \<Longrightarrow> emits_on (\<lambda>log. log) P (query_row srv q args scan) s"
  "P (SQuery q args) \<Longrightarrow> emits_on (\<lambda>log. log) P (query_one srv q args scan) s"
proof -
  show r: "emits_on (\<lambda>log. log) P (query_row srv q args scan) s" if "P (SQuery q args)" for s
    unfolding query_row_def using that by (auto intro!: emits_intros split: list.splits option.splits sum.splits)
  show "emits_on (\<lambda>log. log) P (query_one srv q args scan) s" if "P (SQuery q args)"
    unfolding query_one_def using that by (auto intro!: emits_intros r split: option.splits)
qed

section \<open>The interface of a connection\<close>

text \<open>What \<open>EnsureDBUser\<close> relies on: looking for a database or a user and making a database do not touch
  accounts, and making or updating a user only adds statements to the log.\<close>

locale db_connection =
  fixes conn :: IConnection
  assumes looks_for_database: "quiet_on (ic_IsDatabaseExists conn d) s"
    and looks_for_user: "quiet_on (ic_IsUserExists conn u) s"
    and makes_database: "quiet_on (ic_CreateDatabase conn d) s"
    and makes_user: "emits_on (\<lambda>log. log) (\<lambda>q. True) (ic_CreateUser conn u p d) s"
    and updates_user: "emits_on (\<lambda>log. log) (\<lambda>q. True) (ic_UpdateUser conn u p d) s"
begin

lemma ensure_extends: "\<exists>new. snd (EnsureDBUser b conn d u p s) = s @ new"
proof -
  have quiet: "emits_on (\<lambda>log. log) (\<lambda>q. True) m t" if "quiet_on m t" for m :: "'a db" and t
    using that by (rule emits_mono) simp
  have "emits_on (\<lambda>log. log) (\<lambda>q. True) (EnsureDBUser b conn d u p) s"
    unfolding EnsureDBUser_def
    by (intro emits_andthen emits_seq emits_guarded emits_map_err quiet [OF looks_for_database] quiet [OF makes_database] quiet [OF looks_for_user]) 
       (auto intro!: emits_intros makes_user updates_user)
  then show ?thesis by (auto simp: emits_on_def)
qed

lemma touched_after_check:
  assumes run: "EnsureDBUser False conn d u p s = (r, s @ new)"
  shows "list_all (\<lambda>q. \<not> touches_account q) new
    \<or> (\<exists>a c rest. new = a @ c @ rest \<and> list_all (\<lambda>q. \<not> touches_account q) (a @ c) \<and> ic_IsUserExists conn u (s @ a) = (Ret False, s @ a @ c))"
proof -
  let ?db = "map_err (Wrapped ''check db exists'') (ic_IsDatabaseExists conn d)"
  let ?mk = "\<lambda>b. guarded (\<not> b) (map_err (Wrapped ''create database'') (ic_CreateDatabase conn d))"
  let ?look = "map_err (Wrapped ''check user exists'') (ic_IsUserExists conn u)"
  let ?rest = "\<lambda>x. if \<not> x then map_err (Wrapped ''create user for database'') (ic_CreateUser conn u p d)
     else guarded False (map_err (Wrapped ''create user for database'') (ic_UpdateUser conn u p d))"
  let ?pre = "andthen ?db (\<lambda>b. seq (?mk b) ?look)"
  have quiet: "quiet_on ?pre s"
    by (intro emits_intros looks_for_database makes_database looks_for_user)
  have ens: "EnsureDBUser False conn d u p = andthen ?pre ?rest"
    by (rule ext) (simp add: EnsureDBUser_def andthen_def seq_def split: prod.split res.split)
  show ?thesis
  proof (cases ?pre s rule: go_cases)
    case (Ret x t)
    then obtain ac where ac: "t = s @ ac" "list_all (\<lambda>q. \<not> touches_account q) ac" using quiet by (auto simp: emits_on_def)
    from Ret obtain b t1 t2 where steps: "?db s = (Ret b, t1)" "?mk b t1 = (Ret (), t2)" "ic_IsUserExists conn u t2 = (Ret x, t)"
      by (auto simp: andthen_Ret_iff seq_Ret_iff map_err_Ret_iff)
    have "quiet_on (andthen ?db ?mk) s" by (intro emits_intros looks_for_database makes_database)
    then obtain a where a: "t2 = s @ a" using steps by (auto simp: emits_on_def go_simps)
    obtain c where c: "t = t2 @ c" using looks_for_user [of u t2] steps(3) by (auto simp: emits_on_def)
    show ?thesis
    proof (cases x)
      case True
      then show ?thesis using run Ret ac by (simp add: ens go_simps)
    next
      case False
      have "s @ new = snd (?rest x t)" using run Ret by (simp add: ens go_simps)
      moreover have "ac = a @ c" using a c ac(1) by simp
      moreover obtain rest where "snd (map_err (Wrapped ''create user for database'') (ic_CreateUser conn u p d) t) = t @ rest"
        using emits_map_err [OF makes_user [of u p d t]] by (auto simp: emits_on_def)
      ultimately have "new = a @ c @ rest" using False ac(1) by simp
      then show ?thesis using False steps(3) a c ac \<open>ac = a @ c\<close> by fastforce
    qed
  qed (use run quiet in \<open>auto simp: ens emits_on_def go_simps\<close>)
qed

end

lemma has_prefix_simps [simp]: "has_prefix (c # s) (d # p) \<longleftrightarrow> c = d \<and> has_prefix s p" "has_prefix s []"
  by (auto simp: has_prefix_def)

interpretation mysql_db: db_connection "mysql_connection srv" for srv
  by unfold_locales
    (auto simp: mysql_connection_def mysql_IsDatabaseExists_def mysql_IsUserExists_def isUserExists_def show_grants_def
      mysql_CreateDatabase_def create_database_statement_def mysql_CreateUser_def mysql_UpdateUser_def dropUser_def dropUserByHosts_def
      dropUserByHost_def mysql_grant_def Let_def intro!: emits_intros emits_for_each split: sum.split)

interpretation dameng_db: db_connection "dameng_connection srv" for srv
  by unfold_locales
    (auto simp: dameng_connection_def dameng_IsDatabaseExists_def dameng_IsUserExists_def dameng_CreateDatabase_def Let_def
      dameng_CreateUser_def dameng_UpdateUser_def alterUserPassword_def createUserPassword_def ensureUserRoleSchema_def ensureUserRoles_def
      createSchemaForUser_def isSchemaOwnerUser_def exec_wrapped_def intro!: emits_intros)

interpretation clickhouse_db: db_connection "clickhouse_connection srv" for srv
  by unfold_locales
    (auto simp: clickhouse_connection_def clickhouse_IsDatabaseExists_def clickhouse_IsUserExists_def checkMySQLGrant_def
      checkCount_def clickhouse_CreateDatabase_def create_database_statement_def clickhouse_CreateUser_def clickhouse_UpdateUser_def
      clickhouse_dropUser_def exec_wrapped_def intro!: emits_intros emits_for_each)

lemma after_quiet:
  assumes "pre @ q # post = xs @ ys" "list_all (\<lambda>q. \<not> touches_account q) xs" "touches_account q"
  shows "\<exists>rest. pre = xs @ rest"
  using assms by (auto simp: append_eq_append_conv2 append_eq_Cons_conv Cons_eq_append_conv)

definition user_check :: "sql_server \<Rightarrow> string \<Rightarrow> string \<Rightarrow> bool db" where
  "user_check srv driver =
     (if driver = DBEngineMySQL then mysql_IsUserExists srv
      else if driver = DBEngineClickhouse then clickhouse_IsUserExists srv
      else dameng_IsUserExists srv)"

lemma connection_of_cases:
  assumes "connection_of srv oc driver s = (r, t)"
  obtains (Open) dsn conn where "r = Ret conn" "t = s @ [dsn]" "\<not> touches_account dsn" "db_connection conn"
      "ic_IsUserExists conn = user_check srv driver"
    | (Failed) e dsn where "r = Fail e" "t = s @ [dsn]" "\<not> touches_account dsn"
    | (Unknown) e where "r = Fail e" "t = s"
  using assms mysql_db.db_connection_axioms [of srv] dameng_db.db_connection_axioms [of srv] clickhouse_db.db_connection_axioms [of srv]
  unfolding connection_of_def mysql_NewConnection_def dameng_NewConnection_def clickhouse_NewConnection_def user_check_def
  by (fastforce simp: ctypes go_simps map_err_def seq_def andthen_def sql_eval mysql_connection_def dameng_connection_def clickhouse_connection_def
      split: if_splits option.splits)

text \<open>
  C13: An account that exists is left alone. When the operator does not synchronise users, every statement
  that creates, drops, alters or grants anything to a user (\<open>touches_account\<close>) comes after the check for that user in the same run: the
  statements of the run before it contain those of the check, the check answered at that point of the run that the user is missing, and
  up to the end of the check no account was touched. This holds for the three kinds of server and however the server answers;
  for ClickHouse a user who may not read from MySQL counts as missing.
\<close>

theorem existing_account_untouched:
  assumes run: "ensureClusterDBUser srv False oc dbConfig driver s = (r, s @ pre @ q # post)"
    and touched: "touches_account q"
  shows "\<exists>a c rest. pre = a @ c @ rest \<and> list_all (\<lambda>q. \<not> touches_account q) (a @ c)
           \<and> user_check srv driver (dbc_Username dbConfig) (s @ a) = (Ret False, s @ a @ c)"
proof -
  obtain r' t where conn: "connection_of srv oc driver s = (r', t)" by (meson surj_pair)
  from conn show ?thesis
  proof (cases rule: connection_of_cases)
    case (Open dsn conn)
    let ?ensure = "EnsureDBUser False conn (dbc_Database dbConfig) (dbc_Username dbConfig) (dbc_Password dbConfig)"
    have closed: "s @ pre @ q # post = snd (?ensure t) @ [SClose]"
      using run conn Open(1) by (auto simp: ensureClusterDBUser_def go_simps)
    obtain new where new: "snd (?ensure t) = t @ new"
      using db_connection.ensure_extends [OF Open(4)] by blast
    have log: "pre @ q # post = dsn # new @ [SClose]" using closed new Open(2) by simp
    have "\<not> list_all (\<lambda>q. \<not> touches_account q) new"
      using log touched Open(3) by (metis (no_types, lifting) in_set_conv_decomp list_all_iff set_ConsD Un_iff set_append empty_iff empty_set touches_account.simps)
    with db_connection.touched_after_check [OF Open(4), of "dbc_Database dbConfig" "dbc_Username dbConfig" "dbc_Password dbConfig" t "fst (?ensure t)" new] new
    obtain a c rest where ac: "new = a @ c @ rest" "list_all (\<lambda>q. \<not> touches_account q) (a @ c)"
      "ic_IsUserExists conn (dbc_Username dbConfig) (t @ a) = (Ret False, t @ a @ c)"
      by (metis prod.collapse)
    have quiet: "list_all (\<lambda>q. \<not> touches_account q) (dsn # a @ c)" using ac(2) Open(3) by simp
    have "pre @ q # post = (dsn # a @ c) @ rest @ [SClose]" using log ac(1) by simp
    then obtain rest' where "pre = (dsn # a @ c) @ rest'"
      using after_quiet [OF _ quiet touched] by blast
    then show ?thesis using ac(3) quiet Open(2,5) by (intro exI [of _ "dsn # a"] exI [of _ c] exI [of _ rest']) simp
  qed (use run touched conn in \<open>auto simp: ensureClusterDBUser_def go_simps append_eq_Cons_conv Cons_eq_append_conv\<close>)
qed

text \<open>A server that holds nothing and refuses every statement.\<close>

definition refusing_server :: sql_server where
  "refusing_server =
     \<lparr>sq_open = \<lambda>_ _. None, sq_exec = \<lambda>_ _. Some (Errorf ''access denied''),
      sq_query = \<lambda>_ q _. Inr \<lparr>rw_columns = [''host''], rw_rows = (if q = schema_query then [[Some ''db'']] else []), rw_err = None\<rparr>,
      sq_sha256 = (\<lambda>s. s)\<rparr>"

lemma refusing_simps:
  "sql_Open refusing_server driver dsn s = (Ret (), s @ [SOpen driver dsn])"
  "sql_Exec refusing_server q s = (Fail (Errorf ''access denied''), s @ [SExec q])"
  "mysql_IsDatabaseExists refusing_server ''db'' s = (Ret True, s @ [SQuery schema_query [''db'']])"
  "dropUser refusing_server u s = (Ret (), s @ [SQuery hosts_query [u]])"
proof -
  have "hosts_query \<noteq> schema_query" by (simp add: hosts_query_def schema_query_def)
  then show "dropUser refusing_server u s = (Ret (), s @ [SQuery hosts_query [u]])"
    by (simp add: dropUser_def go_simps sql_eval refusing_server_def)
qed (simp_all add: mysql_IsDatabaseExists_def query_row_def scan_string_def go_simps sql_eval refusing_server_def)

lemma refusing_account:
  "mysql_IsUserExists refusing_server u s = (Ret False, s @ [SExec (show_grants u ''%'')])"
  "\<exists>e. mysql_CreateUser refusing_server u p ''db'' s = (Fail e, s @ [SQuery hosts_query [u], SExec (create_user_statement u ''%'' p)])"
  by (simp_all add: mysql_IsUserExists_def isUserExists_def mysql_CreateUser_def mysql_UpdateUser_def mysql_grant_def allHosts_def
    Let_def go_simps refusing_simps)

lemmas bool_simps =
  andthen_eval(1) [where x = True] andthen_eval(1) [where x = False] map_err_eval(1) [where x = True] map_err_eval(1) [where x = False]

theorem existing_account_untouched_witness:
  "\<exists>a c. user_check refusing_server DBEngineMySQL ''u'' a = (Ret False, a @ c) \<and> list_all (\<lambda>q. \<not> touches_account q) (a @ c)"
proof -
  let ?cfg = "\<lparr>dbc_Database = ''db'', dbc_Username = ''u'', dbc_Password = ''p''\<rparr>"
  let ?create = "SExec (create_user_statement ''u'' ''%'' ''p'')"
  let ?log = "[SOpen ''mysql'' (mysql_dsn (spec_Mysql (oc_Spec zero_OnecloudCluster))), SQuery schema_query [''db''], SExec (show_grants ''u'' ''%'')]"
  obtain r where run: "ensureClusterDBUser refusing_server False zero_OnecloudCluster ?cfg DBEngineMySQL []
      = (r, [] @ (?log @ [SQuery hosts_query [''u'']]) @ ?create # [SClose])"
    using refusing_account(2) [of "''u''" "''p''" ?log]
    by (auto simp: ensureClusterDBUser_def connection_of_def mysql_NewConnection_def mysql_connection_def EnsureDBUser_def
      go_simps bool_simps refusing_simps(1,3) refusing_account(1))
  from existing_account_untouched [OF run] show ?thesis by (auto simp: create_user_statement_def)
qed

section \<open>Accounts on a MySQL server\<close>

text \<open>
  A MySQL server as documented, as far as the account of one user and one database are concerned. \<open>acct\<close> says what the
  statements so far have led to: the password of the user at each host, and whether the database exists. \<open>hs\<close> are the hosts
  the server has accounts for.
\<close>

definition serves_mysql :: "sql_server \<Rightarrow> (stmt list \<Rightarrow> (string \<Rightarrow> string option) \<times> bool) \<Rightarrow> DBConfig \<Rightarrow> string list \<Rightarrow> bool" where
  "serves_mysql srv acct cfg hs \<longleftrightarrow>
     (\<forall>log h. h \<in> set hs \<longrightarrow>
        (let u = dbc_Username cfg; p = dbc_Password cfg; (acc, has) = acct log
         in (sq_exec srv log (show_grants u h) = None \<longleftrightarrow> acc h \<noteq> None)
          \<and> acct (log @ [SExec (show_grants u h)]) = (acc, has)
          \<and> (acc h \<noteq> None \<longrightarrow> sq_exec srv log (drop_statement u h) = None
               \<and> acct (log @ [SExec (drop_statement u h)]) = (acc(h := None), has))
          \<and> (acc h = None \<longrightarrow> sq_exec srv log (create_user_statement u h p) = None
               \<and> acct (log @ [SExec (create_user_statement u h p)]) = (acc(h \<mapsto> p), has))
          \<and> (acc h \<noteq> None \<longrightarrow> sq_exec srv log (grant_statement (dbc_Database cfg) u h) = None)
          \<and> acct (log @ [SExec (grant_statement (dbc_Database cfg) u h)]) = (acc, has)))
   \<and> (\<forall>log. let db = dbc_Database cfg; (acc, has) = acct log
         in (\<exists>cs hosts. sq_query srv log hosts_query [dbc_Username cfg] = Inr \<lparr>rw_columns = cs, rw_rows = map (\<lambda>h. [Some h]) hosts, rw_err = None\<rparr>
               \<and> set hosts = dom acc \<and> set hosts \<subseteq> set hs)
          \<and> (\<exists>cs. sq_query srv log schema_query [db] = Inr \<lparr>rw_columns = cs, rw_rows = (if has then [[Some db]] else []), rw_err = None\<rparr>)
          \<and> sq_exec srv log (create_database_statement db) = None
          \<and> acct (log @ [SExec (create_database_statement db)]) = (acc, True)
          \<and> acct (log @ [SExec ''FLUSH PRIVILEGES'']) = (acc, has)
          \<and> (\<forall>q args. acct (log @ [SQuery q args]) = (acc, has))
          \<and> (\<forall>driver dsn. acct (log @ [SOpen driver dsn]) = (acc, has))
          \<and> acct (log @ [SClose]) = (acc, has))
   \<and> (\<forall>dsn. sq_open srv ''mysql'' dsn = None)"

text \<open>\<open>ends_in acct m log x st\<close>: the program returns \<open>x\<close> and leaves the accounts and the database as in \<open>st\<close>.\<close>

definition ends_in :: "(stmt list \<Rightarrow> 'st) \<Rightarrow> 'a db \<Rightarrow> stmt list \<Rightarrow> 'a \<Rightarrow> 'st \<Rightarrow> bool" where
  "ends_in acct m log x st \<longleftrightarrow> (\<exists>t. m log = (Ret x, t) \<and> acct t = st)"

named_theorems ends_intros \<open>composition of runs on a server\<close>

lemma ends_ret [ends_intros]: "acct log = st \<Longrightarrow> ends_in acct (ret x) log x st"
  by (simp add: ends_in_def go_simps)

lemma ends_andthen:
  "ends_in acct m log x st \<Longrightarrow> (\<And>t. acct t = st \<Longrightarrow> ends_in acct (f x) t y st') \<Longrightarrow> ends_in acct (andthen m f) log y st'"
  by (auto simp: ends_in_def go_simps)

lemma ends_seq:
  "ends_in acct m log () st \<Longrightarrow> (\<And>t. acct t = st \<Longrightarrow> ends_in acct n t y st') \<Longrightarrow> ends_in acct (seq m n) log y st'"
  unfolding seq_def by (rule ends_andthen)

lemma andthen_seq_assoc: "andthen m (\<lambda>x. seq (f x) n) = seq (andthen m f) n"
  by (auto simp: fun_eq_iff andthen_def seq_def split: prod.splits res.splits)

lemma ends_map_err [ends_intros]: "ends_in acct m log x st \<Longrightarrow> ends_in acct (map_err g m) log x st"
  by (auto simp: ends_in_def go_simps)

lemma ends_guarded [ends_intros]:
  "b \<Longrightarrow> ends_in acct m log () st \<Longrightarrow> ends_in acct (guarded b m) log () st"
  "\<not> b \<Longrightarrow> acct log = st \<Longrightarrow> ends_in acct (guarded b m) log () st"
  by (auto simp: ends_in_def go_simps guarded_def)

lemma ends_exec:
  assumes "sq_exec srv log q = None" "acct (log @ [SExec q]) = st"
  shows "ends_in acct (sql_Exec srv q) log () st"
  using assms by (simp add: ends_in_def sql_eval)

lemma ends_attempt_exec:
  assumes "acct (log @ [SExec q]) = st"
  shows "ends_in acct (andthen (attempt (sql_Exec srv q)) (\<lambda>_. ret ())) log () st"
  using assms by (cases "sq_exec srv log q") (auto simp: ends_in_def sql_eval go_simps)

text \<open>What the server does, read off \<open>serves_mysql\<close>.\<close>

lemma serves_mysql_host:
  assumes "serves_mysql srv acct cfg hs" "acct log = (acc, has)" "h \<in> set hs"
  shows "(sq_exec srv log (show_grants (dbc_Username cfg) h) = None \<longleftrightarrow> acc h \<noteq> None)
          \<and> acct (log @ [SExec (show_grants (dbc_Username cfg) h)]) = (acc, has)
          \<and> (acc h \<noteq> None \<longrightarrow> acct (log @ [SExec (drop_statement (dbc_Username cfg) h)]) = (acc(h := None), has))
          \<and> (acc h = None \<longrightarrow> sq_exec srv log (create_user_statement (dbc_Username cfg) h (dbc_Password cfg)) = None
               \<and> acct (log @ [SExec (create_user_statement (dbc_Username cfg) h (dbc_Password cfg))]) = (acc(h \<mapsto> dbc_Password cfg), has))
          \<and> (acc h \<noteq> None \<longrightarrow> sq_exec srv log (grant_statement (dbc_Database cfg) (dbc_Username cfg) h) = None)
          \<and> acct (log @ [SExec (grant_statement (dbc_Database cfg) (dbc_Username cfg) h)]) = (acc, has)"
  using assms(1) [unfolded serves_mysql_def Let_def, THEN conjunct1, rule_format, OF assms(3), of log] assms(2) by auto

lemma serves_mysqlD:
  assumes "serves_mysql srv acct cfg hs" "acct log = (acc, has)"
  shows "h \<in> set hs \<Longrightarrow> sq_exec srv log (show_grants (dbc_Username cfg) h) = None \<longleftrightarrow> acc h \<noteq> None"
    and "h \<in> set hs \<Longrightarrow> acct (log @ [SExec (show_grants (dbc_Username cfg) h)]) = (acc, has)"
    and "h \<in> set hs \<Longrightarrow> acc h \<noteq> None \<Longrightarrow> acct (log @ [SExec (drop_statement (dbc_Username cfg) h)]) = (acc(h := None), has)"
    and "h \<in> set hs \<Longrightarrow> acc h = None \<Longrightarrow> sq_exec srv log (create_user_statement (dbc_Username cfg) h (dbc_Password cfg)) = None"
    and "h \<in> set hs \<Longrightarrow> acc h = None \<Longrightarrow>
           acct (log @ [SExec (create_user_statement (dbc_Username cfg) h (dbc_Password cfg))]) = (acc(h \<mapsto> dbc_Password cfg), has)"
    and "h \<in> set hs \<Longrightarrow> acc h \<noteq> None \<Longrightarrow> sq_exec srv log (grant_statement (dbc_Database cfg) (dbc_Username cfg) h) = None"
    and "h \<in> set hs \<Longrightarrow> acct (log @ [SExec (grant_statement (dbc_Database cfg) (dbc_Username cfg) h)]) = (acc, has)"
  using serves_mysql_host [OF assms] by blast+

lemma serves_databaseD:
  assumes "serves_mysql srv acct cfg hs" "acct log = (acc, has)"
  shows "\<exists>cs hosts. sq_query srv log hosts_query [dbc_Username cfg] = Inr \<lparr>rw_columns = cs, rw_rows = map (\<lambda>h. [Some h]) hosts, rw_err = None\<rparr>
           \<and> set hosts = dom acc \<and> set hosts \<subseteq> set hs"
    and "\<exists>cs. sq_query srv log schema_query [dbc_Database cfg]
           = Inr \<lparr>rw_columns = cs, rw_rows = (if has then [[Some (dbc_Database cfg)]] else []), rw_err = None\<rparr>"
    and "sq_exec srv log (create_database_statement (dbc_Database cfg)) = None"
    and "acct (log @ [SExec (create_database_statement (dbc_Database cfg))]) = (acc, True)"
    and "acct (log @ [SExec ''FLUSH PRIVILEGES'']) = (acc, has)"
    and "acct (log @ [SQuery q args]) = (acc, has)"
    and "acct (log @ [SOpen driver dsn]) = (acc, has)"
    and "acct (log @ [SClose]) = (acc, has)"
    and "sq_open srv ''mysql'' dsn = None"
  using assms(1) [unfolded serves_mysql_def Let_def, THEN conjunct2, THEN conjunct1, rule_format, of log]
    assms(1) [unfolded serves_mysql_def Let_def, THEN conjunct2, THEN conjunct2] assms(2) by simp_all

lemma isUserExists_ends:
  assumes "serves_mysql srv acct cfg hs" "acct log = (acc, has)" "h \<in> set hs"
  shows "ends_in acct (isUserExists srv (dbc_Username cfg) h) log (acc h \<noteq> None) (acc, has)"
  using serves_mysqlD(1,2) [OF assms]
  by (cases "sq_exec srv log (show_grants (dbc_Username cfg) h)") (auto simp: ends_in_def isUserExists_def go_simps sql_eval)

lemma dropUserByHost_ends:
  assumes "serves_mysql srv acct cfg hs" "acct log = (acc, has)" "h \<in> set hs"
  shows "ends_in acct (dropUserByHost srv (dbc_Username cfg) h) log () (acc(h := None), has)"
  unfolding dropUserByHost_def
proof (rule ends_andthen)
  show "ends_in acct (map_err (Wrapped ''drop user check exists'') (isUserExists srv (dbc_Username cfg) h)) log (acc h \<noteq> None) (acc, has)"
    by (rule ends_map_err, rule isUserExists_ends) (fact assms)+
  fix t assume t: "acct t = (acc, has)"
  show "ends_in acct (guarded (acc h \<noteq> None) (andthen (attempt (sql_Exec srv (drop_statement (dbc_Username cfg) h))) (\<lambda>_. ret ()))) t ()
    (acc(h := None), has)"
  proof (cases "acc h")
    case None
    then show ?thesis using t by (intro ends_intros) (auto simp: fun_upd_idem)
  next
    case (Some y)
    then show ?thesis using serves_mysqlD(3) [OF assms(1) t assms(3)] by (intro ends_intros ends_attempt_exec) auto
  qed
qed

lemma dropUserByHosts_ends:
  assumes "serves_mysql srv acct cfg hs" "set hosts \<subseteq> set hs" "acct log = (acc, has)"
  shows "ends_in acct (dropUserByHosts srv (dbc_Username cfg) hosts) log () (acc |` (- set hosts), has)"
  using assms(2,3)
proof (induction hosts arbitrary: log acc)
  case Nil
  then show ?case by (simp add: dropUserByHosts_def ends_intros restrict_map_def)
next
  case (Cons h hosts)
  have "ends_in acct (dropUserByHosts srv (dbc_Username cfg) hosts) t () (acc(h := None) |` (- set hosts), has)"
    if "acct t = (acc(h := None), has)" for t
    by (rule Cons.IH [OF _ that]) (use Cons.prems in simp)
  moreover have "acc(h := None) |` (- set hosts) = acc |` (- set (h # hosts))" by (auto simp: restrict_map_def)
  ultimately show ?case using dropUserByHost_ends [OF assms(1) Cons.prems(2), of h] Cons.prems(1)
    unfolding dropUserByHosts_def for_each.simps by (intro ends_seq [OF ends_map_err]) auto
qed

lemma scan_hosts_map: "scan_hosts (map (\<lambda>h. [Some h]) hosts) = Inr hosts"
  by (induction hosts) (simp_all add: scan_string_def)

lemma dropUser_ends:
  assumes "serves_mysql srv acct cfg hs" "acct log = (acc, has)"
  shows "ends_in acct (dropUser srv (dbc_Username cfg)) log () (Map.empty, has)"
proof -
  obtain cs hosts where q: "sq_query srv log hosts_query [dbc_Username cfg] = Inr \<lparr>rw_columns = cs, rw_rows = map (\<lambda>h. [Some h]) hosts, rw_err = None\<rparr>"
    and d: "set hosts = dom acc" "set hosts \<subseteq> set hs"
    using serves_databaseD(1) [OF assms] by blast
  let ?t = "log @ [SQuery hosts_query [dbc_Username cfg]]"
  have e: "acc |` (- set hosts) = Map.empty" using d(1) by (auto simp: restrict_map_def fun_eq_iff)
  have t: "acct ?t = (acc, has)" by (rule serves_databaseD [OF assms])
  have "ends_in acct (guarded (hosts \<noteq> []) (dropUserByHosts srv (dbc_Username cfg) hosts)) ?t () (Map.empty, has)"
  proof (cases "hosts = []")
    case True
    with d(1) have "acc = Map.empty" by (metis dom_eq_empty_conv empty_set)
    with True t show ?thesis by (simp add: ends_in_def go_simps)
  next
    case False
    then show ?thesis using dropUserByHosts_ends [OF assms(1) d(2) t] e by (simp add: go_simps)
  qed
  with q show ?thesis by (auto simp: dropUser_def ends_in_def go_simps sql_eval scan_hosts_map)
qed

lemma mysql_grant_ends:
  assumes "serves_mysql srv acct cfg hs" "acct log = (acc, has)" "h \<in> set hs" "acc h = None" "h \<noteq> []" "dbc_Database cfg \<noteq> []"
  shows "ends_in acct (mysql_grant srv (dbc_Username cfg) (dbc_Password cfg) (dbc_Database cfg) h) log () (acc(h \<mapsto> dbc_Password cfg), has)"
  using assms(5,6) unfolding mysql_grant_def Let_def
  by (auto intro!: ends_seq ends_intros ends_exec ends_attempt_exec serves_mysqlD(4-7) [OF assms(1)] serves_databaseD(5) [OF assms(1)] assms(2-4))

lemma grants_end:
  assumes "serves_mysql srv acct cfg hs" "set hosts \<subseteq> set hs" "distinct hosts" "[] \<notin> set hosts" "dbc_Database cfg \<noteq> []"
    and "acct log = (acc, has)" "\<forall>h \<in> set hosts. acc h = None"
  shows "ends_in acct (for_each hosts (\<lambda>addr. map_err (Wrapped ''Grant user'')
             (mysql_grant srv (dbc_Username cfg) (dbc_Password cfg) (dbc_Database cfg) addr))) log ()
           (\<lambda>h. if h \<in> set hosts then Some (dbc_Password cfg) else acc h, has)"
  using assms(2-4,6,7)
proof (induction hosts arbitrary: log acc)
  case Nil
  then show ?case by (simp add: ends_in_def go_simps)
next
  case (Cons h hosts)
  have g: "ends_in acct (mysql_grant srv (dbc_Username cfg) (dbc_Password cfg) (dbc_Database cfg) h) log () (acc(h \<mapsto> dbc_Password cfg), has)"
    using Cons.prems assms(1,5) by (intro mysql_grant_ends) auto
  have e: "(\<lambda>k. if k \<in> set hosts then Some (dbc_Password cfg) else (acc(h \<mapsto> dbc_Password cfg)) k)
      = (\<lambda>k. if k \<in> set (h # hosts) then Some (dbc_Password cfg) else acc k)" by auto
  show ?case unfolding for_each.simps e [symmetric]
    by (rule ends_seq [OF ends_map_err [OF g]], rule Cons.IH) (use Cons.prems in auto)
qed

abbreviation service_accounts :: "DBConfig \<Rightarrow> string \<Rightarrow> string option" where
  "service_accounts cfg \<equiv> (\<lambda>h. if h \<in> set allHosts then Some (dbc_Password cfg) else None)"

lemma mysql_UpdateUser_ends:
  assumes "serves_mysql srv acct cfg hs" "acct log = (acc, has)" "set allHosts \<subseteq> set hs" "dbc_Database cfg \<noteq> []"
  shows "ends_in acct (mysql_UpdateUser srv (dbc_Username cfg) (dbc_Password cfg) (dbc_Database cfg)) log () (service_accounts cfg, has)"
proof -
  have "ends_in acct (for_each allHosts (\<lambda>addr. map_err (Wrapped ''Grant user'')
             (mysql_grant srv (dbc_Username cfg) (dbc_Password cfg) (dbc_Database cfg) addr))) t () (service_accounts cfg, has)"
    if "acct t = (Map.empty, has)" for t
    by (rule grants_end [OF assms(1,3) _ _ assms(4) that]) (simp_all add: allHosts_def)
  from ends_seq [OF ends_map_err [OF dropUser_ends [OF assms(1,2)]] this] show ?thesis
    using assms(4) by (simp add: mysql_UpdateUser_def)
qed

lemma mysql_database_ends:
  assumes "serves_mysql srv acct cfg hs" "acct log = (acc, has)"
  shows "ends_in acct (andthen (map_err (Wrapped ''check db exists'') (mysql_IsDatabaseExists srv (dbc_Database cfg)))
           (\<lambda>dbExists. guarded (\<not> dbExists) (map_err (Wrapped ''create database'') (mysql_CreateDatabase srv (dbc_Database cfg)))))
         log () (acc, True)"
proof -
  let ?t = "log @ [SQuery schema_query [dbc_Database cfg]]"
  have t: "acct ?t = (acc, has)" by (rule serves_databaseD [OF assms])
  have "mysql_IsDatabaseExists srv (dbc_Database cfg) log = (Ret has, ?t)"
    using serves_databaseD(2) [OF assms]
    by (cases has) (auto simp: mysql_IsDatabaseExists_def query_row_def go_simps sql_eval scan_string_def)
  with t serves_databaseD(3,4) [OF assms(1) t] show ?thesis
    by (cases has) (auto simp: ends_in_def go_simps mysql_CreateDatabase_def sql_eval)
qed

lemma EnsureDBUser_ends:
  assumes "ends_in acct (andthen (map_err (Wrapped ''check db exists'') (ic_IsDatabaseExists conn d))
        (\<lambda>b. guarded (\<not> b) (map_err (Wrapped ''create database'') (ic_CreateDatabase conn d)))) log () st"
    and "\<And>t. acct t = st \<Longrightarrow> ends_in acct (ic_IsUserExists conn u) t ex st"
    and "\<And>t. acct t = st \<Longrightarrow> ends_in acct (if \<not> ex then map_err (Wrapped ''create user for database'') (ic_CreateUser conn u p d)
        else guarded syncUser (map_err (Wrapped ''create user for database'') (ic_UpdateUser conn u p d))) t () st'"
  shows "ends_in acct (EnsureDBUser syncUser conn d u p) log () st'"
  unfolding EnsureDBUser_def andthen_seq_assoc
  apply (rule ends_seq [OF assms(1)])
  apply (rule ends_andthen)
   apply (rule ends_map_err)
   apply (erule assms(2))
  apply (erule assms(3))
  done

text \<open>
  C12: The account of a service on MySQL. Against a server that keeps accounts as documented the call always succeeds, and
  afterwards the database exists. Where the user has an account at the host \<open>%\<close> and users are not synchronised, the
  accounts are as they were, whatever their password; otherwise the user has exactly the accounts at \<open>%\<close>, \<open>127.0.0.1\<close> and
  \<open>::1\<close>, all with the password of the configuration, and none of the accounts it had at other hosts.
\<close>

theorem mysql_account_established:
  assumes serves: "serves_mysql srv acct cfg hs"
    and known: "set allHosts \<subseteq> set hs" "dbc_Database cfg \<noteq> []"
    and before: "acct log = (acc, has)"
  shows "\<exists>log'. EnsureClusterMySQLUser srv syncUser oc cfg log = (Ret (), log')
           \<and> acct log' = (if acc ''%'' \<noteq> None \<and> \<not> syncUser then acc else service_accounts cfg, True)"
proof -
  let ?t = "log @ [SOpen ''mysql'' (mysql_dsn (spec_Mysql (oc_Spec oc)))]"
  let ?e = "EnsureDBUser syncUser (mysql_connection srv) (dbc_Database cfg) (dbc_Username cfg) (dbc_Password cfg)"
  let ?goal = "(if acc ''%'' \<noteq> None \<and> \<not> syncUser then acc else service_accounts cfg, True)"
  have t: "acct ?t = (acc, has)" by (rule serves_databaseD [OF serves before])
  have user: "ends_in acct (ic_IsUserExists (mysql_connection srv) (dbc_Username cfg)) t
      (acc ''%'' \<noteq> None) (acc, True)" if "acct t = (acc, True)" for t
    using isUserExists_ends [OF serves that, of "''%''"] known(1)
    by (auto simp: mysql_connection_def mysql_IsUserExists_def allHosts_def)
  have update: "ends_in acct (map_err (Wrapped ''create user for database'')
      (mysql_UpdateUser srv (dbc_Username cfg) (dbc_Password cfg) (dbc_Database cfg))) t () (service_accounts cfg, True)"
    if "acct t = (acc, True)" for t by (rule ends_map_err, rule mysql_UpdateUser_ends [OF serves that known])
  have last_step: "ends_in acct (if \<not> (acc ''%'' \<noteq> None) then map_err (Wrapped ''create user for database'')
          (ic_CreateUser (mysql_connection srv) (dbc_Username cfg) (dbc_Password cfg) (dbc_Database cfg))
        else guarded syncUser (map_err (Wrapped ''create user for database'')
          (ic_UpdateUser (mysql_connection srv) (dbc_Username cfg) (dbc_Password cfg) (dbc_Database cfg)))) v () ?goal"
    if "acct v = (acc, True)" for v
    using update [OF that] that by (auto simp: mysql_connection_def mysql_CreateUser_def ends_ret guarded_def)
  have "ends_in acct (andthen (map_err (Wrapped ''check db exists'') (ic_IsDatabaseExists (mysql_connection srv) (dbc_Database cfg)))
        (\<lambda>b. guarded (\<not> b) (map_err (Wrapped ''create database'') (ic_CreateDatabase (mysql_connection srv) (dbc_Database cfg))))) ?t () (acc, True)"
    using mysql_database_ends [OF serves t] by (simp add: mysql_connection_def)
  from this user last_step have "ends_in acct ?e ?t () ?goal" by (rule EnsureDBUser_ends)
  then obtain t' where "?e ?t = (Ret (), t')" "acct t' = ?goal" by (auto simp: ends_in_def)
  moreover have "EnsureClusterMySQLUser srv syncUser oc cfg log = (Ret (), t' @ [SClose])"
    using calculation(1) serves_databaseD(9) [OF serves before]
    by (simp add: EnsureClusterMySQLUser_def ensureClusterDBUser_def connection_of_def mysql_NewConnection_def go_simps sql_eval)
  ultimately show ?thesis using serves_databaseD(8) [OF serves] by (metis surj_pair)
qed

text \<open>A server for one user and the hosts of an account, which starts with an account at another host.\<close>

definition sample_db :: DBConfig where
  "sample_db = \<lparr>dbc_Database = ''yunioncloud'', dbc_Username = ''region'', dbc_Password = ''secret''\<rparr>"

definition sample_hosts :: "string list" where
  "sample_hosts = [''%'', ''127.0.0.1'', ''::1'', ''10.0.0.5'']"

fun sample_step :: "(string \<Rightarrow> string option) \<times> bool \<Rightarrow> stmt \<Rightarrow> (string \<Rightarrow> string option) \<times> bool" where
  "sample_step (acc, has) (SExec q) =
     (case find (\<lambda>h. q = drop_statement ''region'' h) sample_hosts of
        Some h \<Rightarrow> (acc(h := None), has)
      | None \<Rightarrow>
          (case find (\<lambda>h. q = create_user_statement ''region'' h ''secret'') sample_hosts of
             Some h \<Rightarrow> (acc(h \<mapsto> ''secret''), has)
           | None \<Rightarrow> (acc, has \<or> q = create_database_statement ''yunioncloud'')))"
| "sample_step (acc, has) q = (acc, has)"

definition sample_acct :: "stmt list \<Rightarrow> (string \<Rightarrow> string option) \<times> bool" where
  "sample_acct log = foldl sample_step ([''10.0.0.5'' \<mapsto> ''old''], False) log"

definition sample_server :: sql_server where
  "sample_server =
     \<lparr>sq_open = \<lambda>_ _. None,
      sq_exec = \<lambda>log q. if \<exists>h \<in> set sample_hosts. q = show_grants ''region'' h \<and> fst (sample_acct log) h = None
                       then Some (Errorf ''no such grant'') else None,
      sq_query = \<lambda>log q args. Inr \<lparr>rw_columns = [''host''],
        rw_rows = (if q = hosts_query then map (\<lambda>h. [Some h]) (filter (\<lambda>h. fst (sample_acct log) h \<noteq> None) sample_hosts)
                   else if snd (sample_acct log) then [[Some ''yunioncloud'']] else []),
        rw_err = None\<rparr>,
      sq_sha256 = (\<lambda>s. s)\<rparr>"

lemma sample_acct_snoc [simp]: "sample_acct (log @ [q]) = sample_step (sample_acct log) q"
  by (simp add: sample_acct_def)

lemmas statement_defs = show_grants_def drop_statement_def create_user_statement_def grant_statement_def create_database_statement_def

lemma sample_domain: "fst (sample_acct log) x \<noteq> None \<Longrightarrow> x \<in> set sample_hosts"
proof (induction log rule: rev_induct)
  case Nil
  then show ?case by (auto simp: sample_acct_def sample_hosts_def split: if_splits)
next
  case (snoc q log)
  obtain acc has where "sample_acct log = (acc, has)" by (meson surj_pair)
  with snoc show ?case by (cases q) (auto simp: find_Some_iff split: option.splits if_splits)
qed

lemma sample_serves: "serves_mysql sample_server sample_acct sample_db sample_hosts"
  unfolding serves_mysql_def Let_def
proof (intro conjI allI impI)
  fix log h assume h: "h \<in> set sample_hosts"
  obtain acc has where a: "sample_acct log = (acc, has)" by (meson surj_pair)
  show "case sample_acct log of (acc, has) \<Rightarrow>
     (sq_exec sample_server log (show_grants (dbc_Username sample_db) h) = None \<longleftrightarrow> acc h \<noteq> None)
   \<and> sample_acct (log @ [SExec (show_grants (dbc_Username sample_db) h)]) = (acc, has)
   \<and> (acc h \<noteq> None \<longrightarrow> sq_exec sample_server log (drop_statement (dbc_Username sample_db) h) = None
        \<and> sample_acct (log @ [SExec (drop_statement (dbc_Username sample_db) h)]) = (acc(h := None), has))
   \<and> (acc h = None \<longrightarrow> sq_exec sample_server log (create_user_statement (dbc_Username sample_db) h (dbc_Password sample_db)) = None
        \<and> sample_acct (log @ [SExec (create_user_statement (dbc_Username sample_db) h (dbc_Password sample_db))]) = (acc(h \<mapsto> dbc_Password sample_db), has))
   \<and> (acc h \<noteq> None \<longrightarrow> sq_exec sample_server log (grant_statement (dbc_Database sample_db) (dbc_Username sample_db) h) = None)
   \<and> sample_acct (log @ [SExec (grant_statement (dbc_Database sample_db) (dbc_Username sample_db) h)]) = (acc, has)"
    using h a by (auto simp: sample_hosts_def sample_db_def sample_server_def statement_defs)
next
  fix log
  obtain acc has where a: "sample_acct log = (acc, has)" by (meson surj_pair)
  let ?hosts = "filter (\<lambda>h. acc h \<noteq> None) sample_hosts"
  have "set ?hosts = dom acc" using sample_domain [of log] a by force
  then have hosts: "\<exists>hosts'. map (\<lambda>h. [Some h]) ?hosts = map (\<lambda>h. [Some h]) hosts' \<and> set hosts' = dom acc \<and> set hosts' \<subseteq> set sample_hosts"
    by (intro exI [of _ ?hosts]) auto
  show "case sample_acct log of (acc, has) \<Rightarrow>
     (\<exists>cs hosts. sq_query sample_server log hosts_query [dbc_Username sample_db] = Inr \<lparr>rw_columns = cs, rw_rows = map (\<lambda>h. [Some h]) hosts, rw_err = None\<rparr>
        \<and> set hosts = dom acc \<and> set hosts \<subseteq> set sample_hosts)
   \<and> (\<exists>cs. sq_query sample_server log schema_query [dbc_Database sample_db]
        = Inr \<lparr>rw_columns = cs, rw_rows = (if has then [[Some (dbc_Database sample_db)]] else []), rw_err = None\<rparr>)
   \<and> sq_exec sample_server log (create_database_statement (dbc_Database sample_db)) = None
   \<and> sample_acct (log @ [SExec (create_database_statement (dbc_Database sample_db))]) = (acc, True)
   \<and> sample_acct (log @ [SExec ''FLUSH PRIVILEGES'']) = (acc, has)
   \<and> (\<forall>q args. sample_acct (log @ [SQuery q args]) = (acc, has))
   \<and> (\<forall>driver dsn. sample_acct (log @ [SOpen driver dsn]) = (acc, has))
   \<and> sample_acct (log @ [SClose]) = (acc, has)"
    using a hosts by (simp add: sample_server_def sample_db_def statement_defs hosts_query_def schema_query_def sample_hosts_def)
qed (simp add: sample_server_def)

theorem mysql_account_established_witness:
  "\<exists>log'. EnsureClusterMySQLUser sample_server False zero_OnecloudCluster sample_db [] = (Ret (), log')
     \<and> sample_acct log' = (service_accounts sample_db, True)"
  using mysql_account_established [of sample_server sample_acct sample_db sample_hosts "[]" "[''10.0.0.5'' \<mapsto> ''old'']" False
      False zero_OnecloudCluster] sample_serves
  by (simp add: sample_acct_def sample_hosts_def allHosts_def sample_db_def)

section \<open>The cloud account\<close>

fun changes_user :: "request \<Rightarrow> bool" where
  "changes_user (RUpdate MUsers ident d) = True"
| "changes_user q = False"

text \<open>
  Where the configured password is accepted, a pass never changes the password, so that passes leave no trail of
  password records behind.
\<close>

lemma EnsureServiceAccount_keeps_password:
  assumes "\<And>h. \<exists>v. ap_object a h (RLogin (cu_Username account) (cu_Password account)) = Inr v"
  shows "requests (\<lambda>q. \<not> changes_user q) (EnsureServiceAccount a syncUser account) s"
proof -
  have login: "attempt (LoginByServiceAccount a account) t = (Ret (Inr ()), request_logged (RLogin (cu_Username account) (cu_Password account)) t)" for t
    using assms [of "se_calls t"] by (auto simp: LoginByServiceAccount_def ask_unit_def ask_def ask_as_def go_simps)
  have "requests (\<lambda>q. \<not> changes_user q) (LoginByServiceAccount a account) t" for t
    by (auto simp: LoginByServiceAccount_def intro!: emits_intros)
  then show ?thesis
    unfolding EnsureServiceAccount_def IsUserExists_def IsResourceExists_def ProjectAddUser_def CreateUser_def Let_def
    by (auto simp: login intro!: emits_intros split: option.splits sum.splits)
qed

end
