(* ===== verification/Managers_Nodes.thy ===== *)
theory Managers_Nodes
  imports Managers_Agents
begin

text \<open>
  The managers of the daemon sets that run on the nodes (\<open>pkg/manager/component/host*.go\<close>, \<open>lbagent.go\<close>, \<open>telegraf.go\<close>,
  \<open>yunionagent.go\<close>, \<open>regiondns.go\<close>): the agents of the hosts with Open vSwitch and OVN, the deployer, the load balancer agent,
  the collector of metrics, and the agents on the controller nodes. A daemon set takes its node selector and its affinity from the
  specification; a map or a pointer that is set there is the one the manager writes to.
\<close>

section \<open>Changes to the specification and to a daemon set\<close>

definition share_daemonset :: "DaemonSetSpec ref_oc \<Rightarrow> string \<Rightarrow> (gomap \<Rightarrow> gomap) \<Rightarrow> OnecloudCluster \<Rightarrow> OnecloudCluster" where
  "share_daemonset ref zone f = snd ref (dms_Annotations_update f)"

text \<open>A copy of the specification with one more label in its node selector; a map that is there is shared with the original.\<close>

definition enable_on :: "DaemonSetSpec ref_oc \<Rightarrow> string \<Rightarrow> DaemonSetSpec km" where
  "enable_on ref k =
     andthen (deref ref) (\<lambda>spec.
     let add = dms_NodeSelector_update (gomap_set k ''enable'')
     in seq (guarded (dms_NodeSelector spec \<noteq> None) (write_ref ref add)) (ret (add spec)))"

definition enable_requirement :: "string \<Rightarrow> NodeSelectorRequirement list" where
  "enable_requirement k = [\<lparr>nsr_Key = k, nsr_Operator = ''In'', nsr_Values = [''enable'']\<rparr>]"

definition require_nodes :: "NodeSelectorRequirement list list \<Rightarrow> Affinity \<Rightarrow> Affinity" where
  "require_nodes terms a =
     a\<lparr>aff_NodeAffinity := Some ((case aff_NodeAffinity a of None \<Rightarrow> empty_NodeAffinity | Some n \<Rightarrow> n)\<lparr>na_Required := Some terms\<rparr>)\<rparr>"

text \<open>
  The choice of nodes of a host service: one label goes into the node selector, several into the required node affinity, any
  of them enough. An affinity that is there is the one of the specification.
\<close>

definition choose_nodes :: "DaemonSetSpec ref_oc \<Rightarrow> string list \<Rightarrow> DaemonSetSpec km" where
  "choose_nodes ref keys =
     (case keys of
        [] \<Rightarrow> deref ref
      | [k] \<Rightarrow> enable_on ref k
      | _ \<Rightarrow>
          andthen (deref ref) (\<lambda>spec.
          let require = require_nodes (map enable_requirement keys)
          in seq (guarded (dms_Affinity spec \<noteq> None) (write_ref ref (dms_Affinity_update (map_option require))))
                 (ret (spec\<lparr>dms_Affinity := Some (require (aff_or_new (dms_Affinity spec)))\<rparr>))))"

definition ds_pod :: "(PodSpec \<Rightarrow> PodSpec) \<Rightarrow> DaemonSet \<Rightarrow> DaemonSet" where
  "ds_pod f = dmn_Spec_update (dss_Template_update (pt_Spec_update f))"

definition max_unavailable :: "int \<Rightarrow> DaemonSet \<Rightarrow> DaemonSet" where
  "max_unavailable n = dmn_Spec_update (dss_UpdateStrategy_update (dus_MaxUnavailable_update (\<lambda>_. Some (int32 n))))"

definition anti_eviction :: "kube_env \<Rightarrow> DaemonSet \<Rightarrow> DaemonSet" where
  "anti_eviction env ds = (case applyHostComponentAntiEviction env (Some ds) of None \<Rightarrow> ds | Some ds' \<Rightarrow> ds')"

text \<open>The labels of the object, of its selector and of its template are one map.\<close>

definition with_ds_label :: "string \<Rightarrow> string \<Rightarrow> DaemonSet \<Rightarrow> DaemonSet" where
  "with_ds_label k v d = d\<lparr>dmn_meta := om_Labels_update (gomap_set k v) (dmn_meta d),
     dmn_Spec := (dmn_Spec d)\<lparr>dss_Selector := map_option (gomap_set k v) (dss_Selector (dmn_Spec d)),
       dss_Template := pt_Labels_update (gomap_set k v) (dss_Template (dmn_Spec d))\<rparr>\<rparr>"

definition agent_container :: "string \<Rightarrow> ContainerSpec \<Rightarrow> string list \<Rightarrow> VolumeMount list \<Rightarrow> Container" where
  "agent_container name cs cmd volMounts =
     zero_Container\<lparr>ct_Name := name, ct_Image := cs_Image cs, ct_ImagePullPolicy := cs_ImagePullPolicy cs, ct_Command := cmd,
       ct_VolumeMounts := volMounts, ct_SecurityContext := privileged\<rparr>"

definition common_config :: "string list" where
  "common_config = [''--common-config-file'', ''/etc/yunion/common/common.conf'']"

section \<open>Services of the hosts\<close>

record hostBasedService =
  hb_ComponentType :: string
  hb_isDisabled :: "OnecloudCluster \<Rightarrow> bool"
  hb_getContainers :: "OnecloudCluster \<Rightarrow> containers_factory"
  hb_getVolumeHelper :: "string \<Rightarrow> OnecloudCluster \<Rightarrow> string \<Rightarrow> VolumeHelper"
  hb_shouldSync :: "bool km"
  hb_getNodeSelector :: "OnecloudCluster \<Rightarrow> string list"

definition hostBasedVersions :: "string list" where
  "hostBasedVersions = [ProductVersionFullStack, ProductVersionEdge, ProductVersionLightEdge, ProductVersionAI]"

definition host_ref :: "DaemonSetSpec ref_oc" where
  "host_ref = (\<lambda>oc. has_DaemonSetSpec (spec_HostAgent (oc_Spec oc)), \<lambda>f. oc_Spec_update (spec_HostAgent_update (has_DaemonSetSpec_update f)))"

definition hostBased_newDaemonSet :: "options \<Rightarrow> kube_env \<Rightarrow> hostBasedService \<Rightarrow> DaemonSet km" where
  "hostBased_newDaemonSet op env svc =
     andthen (gets kw_oc) (\<lambda>oc.
     let cType = hb_ComponentType svc
     in andthen (choose_nodes host_ref (hb_getNodeSelector svc oc)) (\<lambda>spec.
        andthen (newDaemonSet op env cType (hb_getVolumeHelper svc cType oc (ComponentConfigMapName oc HostComponentType)) spec [] []
                   (hb_getContainers svc oc)) (\<lambda>ds.
        ret (max_unavailable 3 (anti_eviction env ds)))))"

definition hostBased_getDaemonSet :: "options \<Rightarrow> kube_env \<Rightarrow> hostBasedService \<Rightarrow> DaemonSet option km" where
  "hostBased_getDaemonSet op env svc =
     andthen (hb_shouldSync svc) (\<lambda>b. if \<not> b then ret None else some_ret (hostBased_newDaemonSet op env svc))"

definition hostBasedDsManager :: "options \<Rightarrow> kube_env \<Rightarrow> hostBasedService \<Rightarrow> factory" where
  "hostBasedDsManager op env svc =
     (base_factory (hb_ComponentType svc) hostBasedVersions)
       \<lparr>fc_IsDisabled := \<lambda>oc. hb_isDisabled svc oc \<or> \<not> in_versions hostBasedVersions oc,
        fc_DaemonSet := \<lambda>cfg zone. hostBased_getDaemonSet op env svc,
        fc_share := share_daemonset host_ref\<rparr>"

text \<open>A daemon set is ready when its image is the expected one and every scheduled pod is updated, ready and available.\<close>

definition isDsReady :: "kube_env \<Rightarrow> string \<Rightarrow> string \<Rightarrow> bool km" where
  "isDsReady env componentType expectImage =
     andthen (gets kw_oc) (\<lambda>oc.
     let dsName = NewClusterComponentName (om_Name (oc_ObjectMeta oc)) componentType
     in andthen (attempt (kcall (KLister DaemonSetKind dsName) (\<lambda>h. ke_listDaemonSet env h dsName))) (\<lambda>r.
        case r of
          Inl e \<Rightarrow> ret False
        | Inr ds \<Rightarrow>
            (case ps_Containers (pt_Spec (dss_Template (dmn_Spec ds))) of
               [] \<Rightarrow> go_panic ''index out of range''
             | c # _ \<Rightarrow>
                 let st = dmn_Status ds; desired = dnst_DesiredNumberScheduled st
                 in ret (ct_Image c = expectImage \<and> dnst_NumberAvailable st = desired \<and> dnst_NumberReady st = desired
                       \<and> desired = dnst_UpdatedNumberScheduled st \<and> om_Generation (dmn_meta ds) = dnst_ObservedGeneration st))))"

definition ovn_image :: "OnecloudCluster \<Rightarrow> ContainerSpec" where
  "ovn_image oc =
     (let cs = has_OvnController (spec_HostAgent (oc_Spec oc))
      in if cs_Image cs = [] then lbs_OvnController (spec_Lbagent (oc_Spec oc)) else cs)"

definition host_or_lbagent :: "OnecloudCluster \<Rightarrow> string list" where
  "host_or_lbagent oc =
     OnecloudEnableHostLabelKey # (if spec_DisableLocalVpc (oc_Spec oc) then [] else [OnecloudEnableLbagentLabelKey])"

definition ovs_container :: "string \<Rightarrow> string \<Rightarrow> string list \<Rightarrow> OnecloudCluster \<Rightarrow> containers_factory" where
  "ovs_container name arg caps oc = (\<lambda>volMounts.
     [(agent_container name (ovn_image oc) [''/start.sh'', arg] volMounts)
        \<lparr>ct_SecurityContext := Some \<lparr>sc_Privileged = Some True, sc_AddCapabilities = caps\<rparr>\<rparr>])"

definition host_disabled :: "OnecloudCluster \<Rightarrow> bool" where
  "host_disabled oc = dms_Disable (has_DaemonSetSpec (spec_HostAgent (oc_Spec oc)))"

definition after_ready :: "kube_env \<Rightarrow> string \<Rightarrow> bool km" where
  "after_ready env cType =
     andthen (gets kw_oc) (\<lambda>oc. isDsReady env cType (cs_Image (has_OvnController (spec_HostAgent (oc_Spec oc)))))"

definition hostOvsdbServer :: "kube_env \<Rightarrow> hostBasedService" where
  "hostOvsdbServer env =
     \<lparr>hb_ComponentType = HostOvsdbServerComponentType, hb_isDisabled = host_disabled,
      hb_getContainers = ovs_container ''ovsdb-server'' ''ovsdb'' [''SYS_NICE''],
      hb_getVolumeHelper = NewOvsVolumeHelper, hb_shouldSync = ret True, hb_getNodeSelector = host_or_lbagent\<rparr>"

definition hostOvsVswitchd :: "kube_env \<Rightarrow> hostBasedService" where
  "hostOvsVswitchd env =
     \<lparr>hb_ComponentType = HostOvsVswitchdComponentType, hb_isDisabled = host_disabled,
      hb_getContainers = ovs_container ''ovs-vswitchd'' ''vswitchd'' [''NET_ADMIN'', ''SYS_MODULE'', ''SYS_NICE''],
      hb_getVolumeHelper = NewOvsVolumeHelper, hb_shouldSync = after_ready env HostOvsdbServerComponentType,
      hb_getNodeSelector = host_or_lbagent\<rparr>"

definition hostOvnController :: "kube_env \<Rightarrow> hostBasedService" where
  "hostOvnController env =
     \<lparr>hb_ComponentType = HostOvnControllerComponentType,
      hb_isDisabled = \<lambda>oc. host_disabled oc \<or> spec_DisableLocalVpc (oc_Spec oc),
      hb_getContainers = ovs_container ''ovn-controller'' ''controller'' [''SYS_NICE''],
      hb_getVolumeHelper = NewOvsVolumeHelper, hb_shouldSync = after_ready env HostOvsVswitchdComponentType,
      hb_getNodeSelector = host_or_lbagent\<rparr>"

definition hostSdnagent :: "kube_env \<Rightarrow> hostBasedService" where
  "hostSdnagent env =
     \<lparr>hb_ComponentType = HostSdnagentComponentType, hb_isDisabled = host_disabled,
      hb_getContainers = \<lambda>oc volMounts. [agent_container ''sdnagent'' (has_SdnAgent (spec_HostAgent (oc_Spec oc)))
        (''/opt/yunion/bin/sdnagent'' # common_config) volMounts],
      hb_getVolumeHelper = NewHostVolume, hb_shouldSync = ret True, hb_getNodeSelector = \<lambda>_. [OnecloudEnableHostLabelKey]\<rparr>"

definition hostHealth :: "kube_env \<Rightarrow> hostBasedService" where
  "hostHealth env =
     \<lparr>hb_ComponentType = HostHealthComponentType, hb_isDisabled = host_disabled,
      hb_getContainers = \<lambda>oc volMounts. [agent_container ''host-health'' (has_HostHealth (spec_HostAgent (oc_Spec oc)))
        (''/opt/yunion/bin/host-health'' # common_config) volMounts],
      hb_getVolumeHelper = NewHostVolume, hb_shouldSync = ret True, hb_getNodeSelector = \<lambda>_. [OnecloudEnableHostLabelKey]\<rparr>"

definition hostImage :: "kube_env \<Rightarrow> hostBasedService" where
  "hostImage env =
     \<lparr>hb_ComponentType = HostImageComponentType, hb_isDisabled = \<lambda>oc. dms_Disable (spec_HostImage (oc_Spec oc)),
      hb_getContainers = \<lambda>oc volMounts. [agent_container ''host-image'' (dms_ContainerSpec (spec_HostImage (oc_Spec oc)))
        (''/opt/yunion/bin/host-image'' # common_config @ [''--config'', ''/etc/yunion/host.conf'']) volMounts],
      hb_getVolumeHelper = NewHostImageVolumeHelper, hb_shouldSync = ret True, hb_getNodeSelector = \<lambda>_. [OnecloudEnableHostLabelKey]\<rparr>"

section \<open>The host agent\<close>

text \<open>
  \<open>setS3Config\<close>: the settings of the object store, from its secret and its service; nothing is set before all of them are known.
\<close>

definition setS3Config :: "kube_env \<Rightarrow> svc_options km" where
  "setS3Config env =
     andthen (gets kw_oc) (\<lambda>oc.
     if \<not> minio_Enable (spec_Minio (oc_Spec oc)) then ret []
     else andthen (map_err (\<lambda>e. if is_not_found e then Errorf (''namespace '' @ OnecloudMinioNamespace @ '' not found'') else e)
                     (kcall (KMinio OnecloudMinioSecret) (ke_minioSecret env))) (\<lambda>sec.
          andthen (map_err (\<lambda>e. if is_not_found e then Errorf (''service '' @ OnecloudMinioSvc @ '' not found'') else e)
                     (kcall (KMinio OnecloudMinioSvc) (ke_minioService env))) (\<lambda>svc.
          case css_Ports (svc_Spec svc) of
            [] \<Rightarrow> go_panic ''index out of range''
          | p # _ \<Rightarrow>
              (let endpoint = om_Name (svc_meta svc) @ ''.'' @ om_Namespace (svc_meta svc) @ '':'' @ show_int (sp_Port p)
               in case map_of sec ''accesskey'' of
                    None \<Rightarrow> fail (Errorf ''s3 access key not found'')
                  | Some ak \<Rightarrow>
                      (case map_of sec ''secretkey'' of
                         None \<Rightarrow> fail (Errorf ''s3 secret key not found'')
                       | Some sk \<Rightarrow> ret [(''s3_endpoint'', OStr endpoint), (''s3_use_ssl'', OBool False),
                                         (''s3_access_key'', OStr ak), (''s3_secret_key'', OStr sk)])))))"

definition host_options :: "OnecloudCluster \<Rightarrow> OnecloudClusterConfig \<Rightarrow> svc_options" where
  "host_options oc cfg =
     (let spec = spec_HostAgent (oc_Spec oc)
      in SetOptionsServiceTLS False
         @ SetServiceCommonOptions oc (hc_ServiceCommonOptions (cfg_HostAgent cfg)) (cfg_CommonConfig cfg)
         @ [(''Port'', OInt HostPort), (''EnableRemoteExecutor'', OBool True),
            (''DisableSecurityGroup'', OBool (has_DisableSecurityGroup spec)),
            (''ManageNtpConfiguration'', OBool (has_ManageNtpConfiguration spec)),
            (''HostCpuPassthrough'', OBool (case has_HostCpuPassthrough spec of None \<Rightarrow> True | Some b \<Rightarrow> b)),
            (''DefaultQemuVersion'', OStr (has_DefaultQemuVersion spec)),
            (''DisableLocalVpc'', OBool (spec_DisableLocalVpc (oc_Spec oc)))])"

definition required_host_keys :: "string list" where
  "required_host_keys = [''enable_remote_executor'', ''disable_security_group'', ''manage_ntp_configuration'',
     ''host_cpu_passthrough'', ''default_qemu_version'']"

text \<open>
  The config map of the host agent: written again when a key is missing in the text of the old one, or when the object store is
  missing in it. The client returns an empty object together with an error, so a map that cannot be read counts as one without
  contents.
\<close>

definition host_ConfigMap :: "options \<Rightarrow> kube_env \<Rightarrow> OnecloudClusterConfig \<Rightarrow> (ConfigMap option \<times> bool) km" where
  "host_ConfigMap op env cfg =
     seq (SetOptionsDefault op [])
    (andthen (gets kw_oc) (\<lambda>oc.
     andthen (attempt (setS3Config env)) (\<lambda>s3.
     let opt = host_options oc cfg @ (case s3 of Inl e \<Rightarrow> [] | Inr o1 \<Rightarrow> o1); cType = HostComponentType
     in andthen (shouldSyncConfigmap op env cType [] opt (Some (\<lambda>old. \<not> list_all (contains_str old) required_host_keys))) (\<lambda>(cm, syncConf).
        if syncConf then ret (Some cm, True)
        else let name = ComponentConfigMapName oc cType
             in andthen (attempt (kcall (KGet ConfigMapKind name) (\<lambda>h. ke_getConfigMap env h name))) (\<lambda>r.
                case (case r of Inl e \<Rightarrow> None | Inr old \<Rightarrow> gomap_get (cm_Data old) ''config'') of
                  None \<Rightarrow> andthen (newServiceConfigMap op cType [] [] opt) (\<lambda>new. ret (Some new, True))
                | Some optStr \<Rightarrow>
                    (case op_parseYAML op optStr of
                       Inl e \<Rightarrow> ret (Some cm, False)
                     | Inr oldCfg \<Rightarrow>
                         if map_of oldCfg ''s3_endpoint'' \<noteq> None then ret (Some cm, False)
                         else andthen (attempt (setS3Config env)) (\<lambda>again.
                              case again of
                                Inl e \<Rightarrow> ret (Some cm, False)
                              | Inr o2 \<Rightarrow> ret (Some (newConfigMap cType [] oc
                                  (op_YAMLString op (fold (\<lambda>(k, v). AList.update k v) o2 oldCfg))), True))))))))"

definition telegraf_dir :: "OnecloudCluster \<Rightarrow> string" where
  "telegraf_dir oc =
     (let dir = tgs_TelegrafConfigDir (spec_Telegraf (oc_Spec oc)) in if dir \<noteq> [] then dir else ''/etc/telegraf'')"

definition ovn_south_database :: "OnecloudCluster \<Rightarrow> string" where
  "ovn_south_database oc =
     ''tcp:'' @ NewClusterComponentName (om_Name (oc_ObjectMeta oc)) OvnNorthComponentType @ '':'' @ show_int OvnSouthDbPort"

definition host_containers :: "OnecloudCluster \<Rightarrow> containers_factory" where
  "host_containers oc = (\<lambda>volMounts.
     let spec = spec_HostAgent (oc_Spec oc)
     in [(agent_container HostComponentType (dms_ContainerSpec (has_DaemonSetSpec spec)) ((''/opt/yunion/bin/'' @ HostComponentType) # common_config) volMounts)
          \<lparr>ct_Env := [EnvValue ''HOST_OVN_ENCAP_IP_DETECTION_METHOD'' (has_OvnEncapIpDetectionMethod spec),
                      EnvValue ''HOST_OVN_SOUTH_DATABASE'' (ovn_south_database oc),
                      EnvValue ''HOST_SYSTEM_SERVICES_OFF'' (if tgs_TelegrafConfigDir (spec_Telegraf (oc_Spec oc)) \<noteq> []
                         then ''host-deployer,host_sdnagent'' else ''host-deployer,host_sdnagent,telegraf''),
                      EnvValue ''OVN_CONTAINER_IMAGE_TAG'' DefaultOvnImageTag,
                      EnvValue ''HOST_TELEGRAF_CONFIG_DIR'' (telegraf_dir oc)],
           ct_WorkingDir := ''/opt/cloud'',
           ct_StartupProbe := Some \<lparr>pr_Handler = ProbeHTTPGetHost ''localhost'' ''/ping'' 8885 ''HTTPS'', pr_InitialDelaySeconds = 0,
              pr_TimeoutSeconds = 0, pr_PeriodSeconds = 10, pr_SuccessThreshold = 0, pr_FailureThreshold = 300\<rparr>,
           ct_ReadinessProbe := Some (generateReadinessProbe ''/ping'' 8885)\<rparr>])"

definition host_DaemonSet :: "options \<Rightarrow> kube_env \<Rightarrow> DaemonSet km" where
  "host_DaemonSet op env =
     andthen (gets kw_oc) (\<lambda>oc.
     andthen (enable_on host_ref OnecloudEnableHostLabelKey) (\<lambda>spec.
     andthen (newDaemonSet op env HostComponentType (NewHostVolume HostComponentType oc (ComponentConfigMapName oc HostComponentType)) spec
                (dms_UpdateStrategy spec) [] (host_containers oc)) (\<lambda>ds.
     ret (with_ds_label OnecloudHostDeployerLabelKey []
       (max_unavailable (has_MaxUnavailableCount (spec_HostAgent (oc_Spec oc)))
         (ds_pod (ps_TerminationGracePeriodSeconds_update (\<lambda>_. Some 300)) (anti_eviction env ds)))))))"

definition hostManager :: "options \<Rightarrow> kube_env \<Rightarrow> factory" where
  "hostManager op env =
     (base_factory HostComponentType hostBasedVersions)
       \<lparr>fc_IsDisabled := \<lambda>oc. host_disabled oc \<or> \<not> in_versions hostBasedVersions oc,
        fc_CloudUser := \<lambda>cfg. Some (sco_CloudUser (hc_ServiceCommonOptions (cfg_HostAgent cfg))),
        fc_PhaseControl := \<lambda>oc zone. Some (RegisterService ServiceNameHost ServiceTypeHost),
        fc_ConfigMap := \<lambda>cfg zone. host_ConfigMap op env cfg,
        fc_DaemonSet := \<lambda>cfg zone. some_ret (host_DaemonSet op env),
        fc_share := share_daemonset host_ref\<rparr>"

section \<open>The deployer\<close>

definition deployer_ref :: "DaemonSetSpec ref_oc" where
  "deployer_ref = (\<lambda>oc. spec_HostDeployer (oc_Spec oc), \<lambda>f. oc_Spec_update (spec_HostDeployer_update f))"

definition deployer_affinity :: "Affinity \<Rightarrow> Affinity" where
  "deployer_affinity a =
     require_nodes [enable_requirement OnecloudEnableHostLabelKey, enable_requirement OnecloudControllerLabelKey]
       (a\<lparr>aff_PodAffinity := Some \<lparr>pa_Required = [\<lparr>pat_MatchLabels = [(OnecloudHostDeployerLabelKey, [])], pat_TopologyKey = ''kubernetes.io/hostname''\<rparr>],
          pa_Preferred = (case aff_PodAffinity a of None \<Rightarrow> [] | Some p \<Rightarrow> pa_Preferred p)\<rparr>\<rparr>)"

definition deployer_DaemonSet :: "options \<Rightarrow> kube_env \<Rightarrow> DaemonSet km" where
  "deployer_DaemonSet op env =
     andthen (gets kw_oc) (\<lambda>oc.
     andthen (deref deployer_ref) (\<lambda>spec.
     let cType = HostDeployerComponentType
     in andthen (newDaemonSet op env cType (NewHostDeployerVolume cType oc (ComponentConfigMapName oc HostComponentType)) spec [] []
                   (\<lambda>volMounts. [agent_container cType (dms_ContainerSpec spec)
                      ((''/opt/yunion/bin/'' @ cType) # common_config @ [''--config'', ''/etc/yunion/host.conf'']) volMounts])) (\<lambda>ds.
        seq (guarded (dms_Affinity spec \<noteq> None) (write_ref deployer_ref (dms_Affinity_update (map_option deployer_affinity))))
            (ret (ds_pod (ps_HostNetwork_update (\<lambda>_. True)) (max_unavailable 999
               (ds_pod (ps_Affinity_update (\<lambda>a. Some (deployer_affinity (aff_or_new a)))) (anti_eviction env ds))))))))"

definition hostDeployerManager :: "options \<Rightarrow> kube_env \<Rightarrow> factory" where
  "hostDeployerManager op env =
     (base_factory HostDeployerComponentType AllVersions)
       \<lparr>fc_IsDisabled := \<lambda>oc. dms_Disable (spec_HostDeployer (oc_Spec oc)) \<or> \<not> in_versions AllVersions oc,
        fc_CloudUser := \<lambda>cfg. Some (sco_CloudUser (hc_ServiceCommonOptions (cfg_HostAgent cfg))),
        fc_ConfigMap := \<lambda>cfg zone. andthen (gets kw_oc) (\<lambda>oc.
           if spec_ProductVersion (oc_Spec oc) = ProductVersionCMP then host_ConfigMap op env cfg else ret (None, False)),
        fc_DaemonSet := \<lambda>cfg zone. some_ret (deployer_DaemonSet op env),
        fc_share := share_daemonset deployer_ref\<rparr>"

section \<open>The agent of the load balancers\<close>

definition lbagent_ref :: "DaemonSetSpec ref_oc" where
  "lbagent_ref = (\<lambda>oc. lbs_DaemonSetSpec (spec_Lbagent (oc_Spec oc)), \<lambda>f. oc_Spec_update (spec_Lbagent_update (lbs_DaemonSetSpec_update f)))"

definition lbagent_ConfigMap :: "options \<Rightarrow> kube_env \<Rightarrow> OnecloudClusterConfig \<Rightarrow> (ConfigMap option \<times> bool) km" where
  "lbagent_ConfigMap op env cfg =
     seq (SetOptionsDefault op [])
    (andthen (gets kw_oc) (\<lambda>oc.
     andthen (shouldSyncConfigmap op env LbagentComponentType []
       (SetOptionsServiceTLS False
        @ SetServiceCommonOptions oc (lc_ServiceCommonOptions (cfg_Lbagent cfg)) (cfg_CommonConfig cfg)
        @ [(''Port'', OInt LbagentPort), (''BaseDataDir'', OStr ''/opt/cloud/workspace/lbagent''), (''EnableRemoteExecutor'', OBool True),
           (''DisableLocalVpc'', OBool (spec_DisableLocalVpc (oc_Spec oc)))]) (Some (\<lambda>_. True))) (\<lambda>(cm, b).
     ret (Some cm, b))))"

definition lbagent_containers :: "OnecloudCluster \<Rightarrow> containers_factory" where
  "lbagent_containers oc = (\<lambda>volMounts.
     [(agent_container LbagentComponentType (dms_ContainerSpec (lbs_DaemonSetSpec (spec_Lbagent (oc_Spec oc))))
         ([''/opt/yunion/bin/'' @ LbagentComponentType, ''--config'', ''/etc/yunion/lbagent.conf''] @ common_config) volMounts)
        \<lparr>ct_Env := [EnvValue ''HOST_OVN_ENCAP_IP_DETECTION_METHOD'' (has_OvnEncapIpDetectionMethod (spec_HostAgent (oc_Spec oc))),
                    EnvValue ''HOST_OVN_SOUTH_DATABASE'' (ovn_south_database oc),
                    EnvValue ''OVN_CONTAINER_IMAGE_TAG'' DefaultOvnImageTag],
         ct_WorkingDir := ''/opt/cloud''\<rparr>])"

definition lbagent_DaemonSet :: "options \<Rightarrow> kube_env \<Rightarrow> DaemonSet km" where
  "lbagent_DaemonSet op env =
     andthen (gets kw_oc) (\<lambda>oc.
     andthen (enable_on lbagent_ref OnecloudEnableLbagentLabelKey) (\<lambda>spec.
     andthen (map_err (Wrapped ''newDaemonSet'') (newDaemonSet op env LbagentComponentType
                (NewHostVolume LbagentComponentType oc (ComponentConfigMapName oc LbagentComponentType)) spec [] [] (lbagent_containers oc))) (\<lambda>ds.
     ret (max_unavailable (lbs_MaxUnavailableCount (spec_Lbagent (oc_Spec oc)))
       (ds_pod (ps_TerminationGracePeriodSeconds_update (\<lambda>_. Some 300)) ds)))))"

definition lbagentManager :: "options \<Rightarrow> kube_env \<Rightarrow> factory" where
  "lbagentManager op env =
     (let versions = [ProductVersionFullStack, ProductVersionEdge, ProductVersionAI]
      in (base_factory LbagentComponentType versions)
        \<lparr>fc_IsDisabled := \<lambda>oc. dms_Disable (fst lbagent_ref oc) \<or> \<not> in_versions versions oc,
         fc_CloudUser := \<lambda>cfg. Some (sco_CloudUser (lc_ServiceCommonOptions (cfg_Lbagent cfg))),
         fc_PhaseControl := \<lambda>oc zone. Some (RegisterService ServiceNameLbagent ServiceTypeLbagent),
         fc_ConfigMap := \<lambda>cfg zone. lbagent_ConfigMap op env cfg,
         fc_DaemonSet := \<lambda>cfg zone. some_ret (lbagent_DaemonSet op env),
         fc_share := share_daemonset lbagent_ref\<rparr>)"

section \<open>Telegraf\<close>

definition telegraf_ref :: "DaemonSetSpec ref_oc" where
  "telegraf_ref = (\<lambda>oc. tgs_DaemonSetSpec (spec_Telegraf (oc_Spec oc)), \<lambda>f. oc_Spec_update (spec_Telegraf_update (tgs_DaemonSetSpec_update f)))"

definition hostRoot :: string where
  "hostRoot = ''/hostfs''"

definition NewTelegrafVolume :: "string \<Rightarrow> OnecloudCluster \<Rightarrow> string \<Rightarrow> VolumeHelper" where
  "NewTelegrafVolume cType oc telegrafConfigDir =
     add_volumes
       [host_volume ''etc-telegraf'' telegrafConfigDir HostPathDirectoryOrCreate, host_volume ''root'' ''/'' HostPathDirectory]
       [rw_mount ''etc-telegraf'' ''/etc/telegraf'', ro_mount ''root'' hostRoot]
       (empty_helper oc [] cType)"

definition telegraf_containers :: "OnecloudCluster \<Rightarrow> containers_factory" where
  "telegraf_containers oc = (\<lambda>volMounts.
     let spec = spec_Telegraf (oc_Spec oc)
     in [(agent_container TelegrafComponentType (dms_ContainerSpec (tgs_DaemonSetSpec spec)) [] volMounts)
           \<lparr>ct_Env := map (\<lambda>(n, d). EnvValue n (path_Join [hostRoot, d]))
                        [(''HOST_ETC'', ''/etc''), (''HOST_PROC'', ''/proc''), (''HOST_SYS'', ''/sys''), (''HOST_VAR'', ''/var''), (''HOST_RUN'', ''/run'')]
                      @ [EnvValue ''HOST_MOUNT_PREFIX'' hostRoot],
            ct_Args := [''/usr/bin/telegraf'', ''-config'', ''/etc/telegraf/telegraf.conf'', ''-config-directory'', ''/etc/telegraf/telegraf.d'']\<rparr>]
        @ (if tgs_EnableRaidPlugin spec
           then [(agent_container ''telegraf-raid-plugin'' (tgs_TelegrafRaid spec) [''/opt/yunion/bin/telegraf-raid-plugin''] volMounts)
                   \<lparr>ct_Env := [EnvFieldRef ''NODENAME'' ''spec.nodeName'']\<rparr>]
           else []))"

definition telegraf_init :: "OnecloudCluster \<Rightarrow> Container list" where
  "telegraf_init oc =
     (let spec = spec_Telegraf (oc_Spec oc)
      in [zero_Container\<lparr>ct_Name := TelegrafComponentType @ ''-init'', ct_Image := tgs_InitContainerImage spec,
            ct_ImagePullPolicy := cs_ImagePullPolicy (dms_ContainerSpec (tgs_DaemonSetSpec spec)), ct_Command := [''/bin/telegraf-init''],
            ct_VolumeMounts := [rw_mount ''etc-telegraf'' ''/etc/telegraf''],
            ct_Env := [EnvFieldRef ''NODENAME'' ''spec.nodeName'', EnvValue ''INFLUXDB_URL'' (getInfluxDBInternalURL oc)]\<rparr>])"

definition telegraf_DaemonSet :: "options \<Rightarrow> kube_env \<Rightarrow> DaemonSet km" where
  "telegraf_DaemonSet op env =
     andthen (gets kw_oc) (\<lambda>oc.
     andthen (map_err (Wrapped ''new daemonset'') (newDaemonSet op env TelegrafComponentType
                (NewTelegrafVolume TelegrafComponentType oc (telegraf_dir oc)) (fst telegraf_ref oc) [] (telegraf_init oc) (telegraf_containers oc))) (\<lambda>ds.
     ret (max_unavailable 20 (ds_pod (ps_ServiceAccountName_update (\<lambda>_. ServiceAccountOnecloudOperator) \<circ> ps_HostPID_update (\<lambda>_. False)) ds))))"

definition telegrafManager :: "options \<Rightarrow> kube_env \<Rightarrow> factory" where
  "telegrafManager op env =
     (base_factory TelegrafComponentType hostBasedVersions)
       \<lparr>fc_IsDisabled := \<lambda>oc. dms_Disable (fst telegraf_ref oc) \<or> \<not> in_versions hostBasedVersions oc,
        fc_DaemonSet := \<lambda>cfg zone. some_ret (telegraf_DaemonSet op env),
        fc_share := share_daemonset telegraf_ref\<rparr>"

section \<open>Agents on the controller nodes\<close>

definition headless_service :: "string \<Rightarrow> OnecloudCluster \<Rightarrow> CoreService" where
  "headless_service cType oc =
     (let appLabel = getComponentLabel oc cType False
      in \<lparr>svc_meta = getObjectMeta oc (NewClusterComponentName (om_Name (oc_ObjectMeta oc)) cType) appLabel,
          svc_Spec = \<lparr>css_Type = [], css_Selector = Some appLabel, css_Ports = [], css_ClusterIP = ''None'',
                      css_PublishNotReadyAddresses = False\<rparr>\<rparr>)"

definition yunionagent_ref :: "DaemonSetSpec ref_oc" where
  "yunionagent_ref = (\<lambda>oc. yas_DaemonSetSpec (spec_Yunionagent (oc_Spec oc)), \<lambda>f. oc_Spec_update (spec_Yunionagent_update (yas_DaemonSetSpec_update f)))"

definition yunionagent_GetConfig :: "options \<Rightarrow> OnecloudClusterConfig \<Rightarrow> svc_options km" where
  "yunionagent_GetConfig op cfg =
     andthen (gets kw_oc) (\<lambda>oc.
     seq (SetOptionsDefault op ServiceTypeYunionAgent)
    (let config = cfg_Yunionagent cfg; spec = spec_Yunionagent (oc_Spec oc) in ret
       (db_options oc (yas_DbEngine spec) (sdo_DB config) @ SetOptionsServiceTLS False
        @ SetServiceCommonOptions oc (sdo_ServiceCommonOptions config) (cfg_CommonConfig cfg)
        @ [(''AutoSyncTable'', OBool True), (''Port'', OInt (sps_NodePort (ss_ServicePortSpec (yas_Service spec))))])))"

definition yunionagent_DaemonSet :: "options \<Rightarrow> kube_env \<Rightarrow> DaemonSet km" where
  "yunionagent_DaemonSet op env =
     andthen (gets kw_oc) (\<lambda>oc.
     let cType = YunionagentComponentType; edition = GetEdition oc;
         command = service_command cType @ (if edition = OnecloudEnterpriseSupportEdition then [''--edition'', edition] else [])
     in andthen (if op_DisableNodeSelectorController op then
                   andthen (deref yunionagent_ref) (\<lambda>spec.
                   ret (dms_NodeSelector_update (\<lambda>m. case m of None \<Rightarrow> Some [] | Some x \<Rightarrow> Some x) spec))
                 else enable_on yunionagent_ref OnecloudControllerLabelKey) (\<lambda>spec.
        andthen (newDaemonSet op env cType (config_helper oc cType) spec [] []
                   (\<lambda>volMounts. [(agent_container cType (dms_ContainerSpec spec) command volMounts)\<lparr>ct_SecurityContext := None\<rparr>])) (\<lambda>ds.
        ret (ds_pod (ps_ServiceAccountName_update (\<lambda>_. ServiceAccountOnecloudOperator)) ds))))"

definition yunionagentManager :: "options \<Rightarrow> kube_env \<Rightarrow> factory" where
  "yunionagentManager op env =
     (let disabled = (\<lambda>oc. dms_Disable (fst yunionagent_ref oc) \<or> \<not> IsEEOrESEEdition oc \<or> \<not> in_versions AllVersions oc)
      in (base_factory YunionagentComponentType AllVersions)
        \<lparr>fc_IsDisabled := disabled,
         fc_DBConfig := \<lambda>cfg. Some (sdo_DB (cfg_Yunionagent cfg)),
         fc_DBEngine := \<lambda>oc. GetDbEngine (oc_Spec oc) (yas_DbEngine (spec_Yunionagent (oc_Spec oc))),
         fc_CloudUser := \<lambda>cfg. Some (sdo_CloudUser (cfg_Yunionagent cfg)),
         fc_PhaseControl := \<lambda>oc zone. Some YunionAgentPhase,
         fc_Service := \<lambda>oc cfg zone. [headless_service YunionagentComponentType oc],
         fc_ConfigMap := \<lambda>cfg zone. service_map op YunionagentComponentType [] ServiceTypeYunionAgent (yunionagent_GetConfig op cfg),
         fc_DaemonSet := \<lambda>cfg zone. some_ret (yunionagent_DaemonSet op env),
         fc_McclientSync := \<lambda>oc. catalogue_sync ServiceNameYunionAgent (disabled oc) False,
         fc_share := share_daemonset yunionagent_ref\<rparr>)"

definition defaultDNSTo :: "string list" where
  "defaultDNSTo = [''114.114.114.114'', ''223.5.5.5'']"

definition complete_proxy :: "RegionDNSProxy \<Rightarrow> RegionDNSProxy" where
  "complete_proxy p = p\<lparr>rdp_From := (if rdp_From p = [] then ''.'' else rdp_From p), rdp_To := (if rdp_To p = [] then defaultDNSTo else rdp_To p)\<rparr>"

text \<open>
  The configuration of the DNS service. The proxies are completed in the slice of the specification, the other defaults in a copy
  that replaces the specification once the text is made. The pairs of a proxy follow one another in the values of the template.
\<close>

definition regionDNS_ConfigMap :: "options \<Rightarrow> OnecloudClusterConfig \<Rightarrow> (ConfigMap option \<times> bool) km" where
  "regionDNS_ConfigMap op cfg =
     andthen (gets kw_oc) (\<lambda>oc.
     let spec = spec_RegionDNS (oc_Spec oc); region = spec_RegionServer (oc_Spec oc);
         proxies = (if rds_Proxies spec = [] then [\<lparr>rdp_From = ''.'', rdp_To = defaultDNSTo\<rparr>] else map complete_proxy (rds_Proxies spec));
         spec' = spec\<lparr>rds_CacheTtl := (if rds_CacheTtl spec = 0 then 300 else rds_CacheTtl spec), rds_Proxies := proxies\<rparr>;
         config = rc_ServiceDBCommonOptions (cfg_RegionServer cfg);
         vals = [(''CacheTtl'', OInt (rds_CacheTtl spec'))] @ db_options oc (dps_DbEngine (rs_DeploymentServicePortSpec region)) (sdo_DB config)
           @ [(''DNSDomain'', OStr (rs_DNSDomain region)),
              (''Proxies'', OStrs (concat (map (\<lambda>p. [rdp_From p, join_with '' '' (rdp_To p)]) proxies))),
              (''InCloudOnly'', OBool (rds_InCloudOnly spec))]
           @ SetServiceCommonOptions oc (sdo_ServiceCommonOptions config) (cfg_CommonConfig cfg)
           @ [(''AdminProjectDomain'', OStr DefaultDomain)]
     in seq (modify (kw_oc_update (oc_Spec_update (spec_RegionDNS_update (rds_Proxies_update (map complete_proxy))))))
       (andthen (of_sum (op_template op ''RegionDNSConfigTemplate'' vals)) (\<lambda>content.
        seq (modify (kw_oc_update (oc_Spec_update (spec_RegionDNS_update (\<lambda>_. spec')))))
            (gets (\<lambda>w. (Some (newConfigMap RegionDNSComponentType [] (kw_oc w) content), True))))))"

definition regionDNS_ref :: "DaemonSetSpec ref_oc" where
  "regionDNS_ref = (\<lambda>oc. rds_DaemonSetSpec (spec_RegionDNS (oc_Spec oc)), \<lambda>f. oc_Spec_update (spec_RegionDNS_update (rds_DaemonSetSpec_update f)))"

definition regionDNS_DaemonSet :: "options \<Rightarrow> kube_env \<Rightarrow> DaemonSet km" where
  "regionDNS_DaemonSet op env =
     seq (write_ref regionDNS_ref (dms_NodeSelector_update (\<lambda>m.
            let m' = (case m of None \<Rightarrow> Some [] | Some x \<Rightarrow> Some x)
            in if op_DisableNodeSelectorController op then m' else gomap_set OnecloudControllerLabelKey ''enable'' m')))
    (andthen (gets kw_oc) (\<lambda>oc.
     let cType = RegionDNSComponentType
     in newDaemonSetWithLimits op env cType (config_helper oc cType) regionDNS_ref [] []
          (\<lambda>volMounts. [(agent_container cType (dms_ContainerSpec (fst regionDNS_ref oc))
             [''/opt/yunion/bin/region-dns'', ''-conf'', ''/etc/yunion/region-dns.conf''] volMounts)\<lparr>ct_SecurityContext := None\<rparr>]) True))"

definition regionDNSManager :: "options \<Rightarrow> kube_env \<Rightarrow> factory" where
  "regionDNSManager op env =
     (base_factory RegionDNSComponentType AllVersions)
       \<lparr>fc_IsDisabled := \<lambda>oc. dms_Disable (fst regionDNS_ref oc) \<or> \<not> in_versions AllVersions oc,
        fc_Service := \<lambda>oc cfg zone. [headless_service RegionDNSComponentType oc],
        fc_ConfigMap := \<lambda>cfg zone. regionDNS_ConfigMap op cfg,
        fc_DaemonSet := \<lambda>cfg zone. some_ret (regionDNS_DaemonSet op env),
        fc_share := share_daemonset regionDNS_ref\<rparr>"

end
