(* ===== verification/Node_Laws.thy ===== *)
theory Node_Laws
  imports Managers_Nodes Workload_Laws
begin

text \<open>
  Where the agents of the nodes run: the pods of their daemon sets are accepted only by nodes that carry the label of the agent, all
  but those of telegraf, they mount volumes that exist, and the daemon set selects them.
\<close>

section \<open>Nodes that accept a pod\<close>

text \<open>
  The scheduler's rule: every entry of the node selector is a label of the node, and one of the required terms of the node affinity
  holds, all of its expressions. An expression with an operator other than \<open>In\<close> is taken to hold.
\<close>

definition requirement_holds :: "strmap \<Rightarrow> NodeSelectorRequirement \<Rightarrow> bool" where
  "requirement_holds labels r \<longleftrightarrow> nsr_Operator r = ''In'' \<longrightarrow> (\<exists>v \<in> set (nsr_Values r). map_of labels (nsr_Key r) = Some v)"

definition required_terms :: "PodSpec \<Rightarrow> NodeSelectorRequirement list list option" where
  "required_terms p = Option.bind (ps_Affinity p) (\<lambda>a. Option.bind (aff_NodeAffinity a) na_Required)"

definition node_accepts :: "PodSpec \<Rightarrow> strmap \<Rightarrow> bool" where
  "node_accepts p labels \<longleftrightarrow>
     (\<forall>k v. gomap_get (ps_NodeSelector p) k = Some v \<longrightarrow> map_of labels k = Some v)
     \<and> (case required_terms p of None \<Rightarrow> True | Some terms \<Rightarrow> \<exists>t \<in> set terms. t \<noteq> [] \<and> list_all (requirement_holds labels) t)"

definition placed :: "PodSpec \<Rightarrow> string list \<Rightarrow> bool" where
  "placed p keys \<longleftrightarrow> (\<forall>labels. node_accepts p labels \<longrightarrow> (\<exists>k \<in> set keys. map_of labels k = Some ''enable''))"

lemma placed_selector: "gomap_get (ps_NodeSelector p) k = Some ''enable'' \<Longrightarrow> placed p [k]"
  by (auto simp: placed_def node_accepts_def)

lemma placed_terms: "required_terms p = Some (map enable_requirement keys) \<Longrightarrow> placed p keys"
  by (auto simp: placed_def node_accepts_def enable_requirement_def requirement_holds_def)

lemma required_terms_require: "ps_Affinity p = Some (require_nodes terms a) \<Longrightarrow> required_terms p = Some terms"
  by (simp add: required_terms_def require_nodes_def)

abbreviation agent_pod :: "DaemonSet \<Rightarrow> PodSpec" where
  "agent_pod ds \<equiv> pt_Spec (dss_Template (dmn_Spec ds))"

definition agent_wired :: "DaemonSet \<Rightarrow> bool" where
  "agent_wired ds \<longleftrightarrow> pod_ok (agent_pod ds)
     \<and> (\<exists>l. dss_Selector (dmn_Spec ds) = Some (Some l) \<and> pt_Labels (dss_Template (dmn_Spec ds)) = Some l \<and> distinct (map fst l))"

definition is_privileged :: "Container \<Rightarrow> bool" where
  "is_privileged c \<longleftrightarrow> Option.bind (ct_SecurityContext c) sc_Privileged = Some True"

lemma is_privileged_agent [simp]:
  "is_privileged (agent_container n cs cmd ms)" "\<not> is_privileged (c\<lparr>ct_SecurityContext := None\<rparr>)"
  "is_privileged (c\<lparr>ct_SecurityContext := Some \<lparr>sc_Privileged = Some True, sc_AddCapabilities = caps\<rparr>\<rparr>)"
  by (simp_all add: is_privileged_def agent_container_def privileged_def)

definition agent_ok :: "DaemonSet \<Rightarrow> string list \<Rightarrow> bool \<Rightarrow> bool" where
  "agent_ok ds keys pr \<longleftrightarrow> agent_wired ds \<and> placed (agent_pod ds) keys \<and> (\<forall>c\<in>set (ps_Containers (agent_pod ds)). is_privileged c = pr)"

lemma agent_wired_selector: "agent_wired ds \<Longrightarrow> selectorMatchesLabels (dss_Selector (dmn_Spec ds)) (pt_Labels (dss_Template (dmn_Spec ds)))"
  by (auto simp: agent_wired_def selectorMatchesLabels_def gomap_get_def list_all_iff)

section \<open>Building\<close>

lemma newDaemonSet_eval:
  "newDaemonSet op env c h spec us ini con w = (Ret (daemonset_of c (kw_oc w) spec us (daemonset_pod h spec ini con)), w)"
  by (simp add: newDaemonSet_def newDaemonSetWithLimits_def deref_def go_simps Let_def)

lemma enable_on_ends:
  obtains w' where "enable_on ref k w = (Ret ((fst ref (kw_oc w))\<lparr>dms_NodeSelector := gomap_set k ''enable'' (dms_NodeSelector (fst ref (kw_oc w)))\<rparr>), w')"
  by (cases "dms_NodeSelector (fst ref (kw_oc w)) = None") (auto simp: enable_on_def deref_def write_ref_def go_simps Let_def that)

lemma choose_nodes_ends:
  assumes "keys \<noteq> []"
  obtains spec w' where "choose_nodes ref keys w = (Ret spec, w')"
    "\<And>p. ps_NodeSelector p = dms_NodeSelector spec \<Longrightarrow> ps_Affinity p = dms_Affinity spec \<Longrightarrow> placed p keys"
proof (cases "tl keys = []")
  case True
  with assms obtain k where k: "keys = [k]" by (cases keys) auto
  obtain w' where "enable_on ref k w = (Ret ((fst ref (kw_oc w))\<lparr>dms_NodeSelector := gomap_set k ''enable'' (dms_NodeSelector (fst ref (kw_oc w)))\<rparr>), w')"
    by (rule enable_on_ends)
  with k show ?thesis by (intro that) (auto simp: choose_nodes_def intro: placed_selector)
next
  case False
  with assms obtain a b ks where k: "keys = a # b # ks" by (cases keys; cases "tl keys") auto
  define spec where "spec = (fst ref (kw_oc w))\<lparr>dms_Affinity := Some (require_nodes (map enable_requirement keys) (aff_or_new (dms_Affinity (fst ref (kw_oc w)))))\<rparr>"
  have "\<exists>w'. choose_nodes ref keys w = (Ret spec, w')"
    by (cases "dms_Affinity (fst ref (kw_oc w)) = None") (auto simp: k choose_nodes_def deref_def write_ref_def go_simps Let_def spec_def)
  then obtain w' where "choose_nodes ref keys w = (Ret spec, w')" ..
  then show ?thesis by (rule that) (rule placed_terms, rule required_terms_require, simp add: spec_def)
qed

lemma agent_wired_built:
  assumes "helper_ok h" "mounts_given con" "con (vh_volumeMounts h) \<noteq> []"
  shows "agent_wired (daemonset_of c oc spec us (daemonset_pod h spec [] con))"
proof -
  have "pod_ok (daemonset_pod h spec [] con)"
    using assms by (auto simp: pod_ok_def daemonset_pod_def zero_PodSpec_def helper_ok_def list_all_iff mounts_given_def mounts_ok_def)
  moreover have "distinct (map fst (getComponentLabel oc c False))"
    by (simp add: getComponentLabel_def component_selector_keys [unfolded component_selector_def])
  ultimately show ?thesis by (simp add: agent_wired_def daemonset_of_def Let_def)
qed

lemma agent_ok_built:
  assumes "helper_ok h" "mounts_given con" "con (vh_volumeMounts h) \<noteq> []"
    and "\<And>p. ps_NodeSelector p = dms_NodeSelector spec \<Longrightarrow> ps_Affinity p = dms_Affinity spec \<Longrightarrow> placed p keys"
    and "\<And>ms x. x \<in> set (con ms) \<Longrightarrow> is_privileged x = pr"
  shows "agent_ok (daemonset_of c oc spec us (daemonset_pod h spec [] con)) keys pr"
proof -
  have "placed (daemonset_pod h spec [] con) keys" by (rule assms(4)) (simp_all add: daemonset_pod_def zero_PodSpec_def)
  with agent_wired_built [OF assms(1-3)] assms(5) show ?thesis
    by (simp add: agent_ok_def) (simp add: daemonset_of_def daemonset_pod_def Let_def)
qed

lemma agent_wired_changes [simp]:
  "agent_wired (max_unavailable n ds) \<longleftrightarrow> agent_wired ds"
  "agent_wired (anti_eviction env ds) \<longleftrightarrow> agent_wired ds"
  "agent_wired (ds_pod (ps_TerminationGracePeriodSeconds_update f) ds) \<longleftrightarrow> agent_wired ds"
  "agent_wired (ds_pod (ps_ServiceAccountName_update g) ds) \<longleftrightarrow> agent_wired ds"
  "agent_wired (ds_pod (ps_HostNetwork_update b) ds) \<longleftrightarrow> agent_wired ds"
  "agent_wired (ds_pod (ps_Affinity_update a) ds) \<longleftrightarrow> agent_wired ds"
  by (simp_all add: agent_wired_def max_unavailable_def anti_eviction_def applyHostComponentAntiEviction_def ds_pod_def pod_ok_def)

lemma agent_ok_changes [simp]:
  "agent_ok (max_unavailable n ds) keys pr \<longleftrightarrow> agent_ok ds keys pr"
  "agent_ok (anti_eviction env ds) keys pr \<longleftrightarrow> agent_ok ds keys pr"
  "agent_ok (ds_pod (ps_TerminationGracePeriodSeconds_update f) ds) keys pr \<longleftrightarrow> agent_ok ds keys pr"
  "agent_ok (ds_pod (ps_ServiceAccountName_update g) ds) keys pr \<longleftrightarrow> agent_ok ds keys pr"
  "agent_ok (ds_pod (ps_HostNetwork_update b) ds) keys pr \<longleftrightarrow> agent_ok ds keys pr"
  by (simp_all add: agent_ok_def)
     (simp_all add: max_unavailable_def anti_eviction_def applyHostComponentAntiEviction_def ds_pod_def placed_def node_accepts_def required_terms_def)

lemma agent_ok_label [intro]: "agent_ok ds keys pr \<Longrightarrow> agent_ok (with_ds_label k v ds) keys pr"
  by (auto simp: agent_ok_def agent_wired_def with_ds_label_def gomap_set_def distinct_update)

section \<open>The services of the hosts\<close>

text \<open>What \<open>hostBasedDsManager\<close> relies on in a service of the hosts.\<close>

locale host_service =
  fixes svc :: hostBasedService
  assumes mounts: "mounts_given (hb_getContainers svc oc)" "hb_getContainers svc oc ms \<noteq> []"
    and helper: "helper_ok (hb_getVolumeHelper svc c oc cm)"
    and trusted: "x \<in> set (hb_getContainers svc oc ms) \<Longrightarrow> is_privileged x"
    and nodes: "hb_getNodeSelector svc oc \<noteq> []"
    and looks: "hb_shouldSync svc w = (Ret b, w') \<Longrightarrow> kw_oc w' = kw_oc w"
begin

lemma built: "\<exists>ds w'. hostBased_newDaemonSet op env svc w = (Ret ds, w') \<and> agent_ok ds (hb_getNodeSelector svc (kw_oc w)) True"
proof -
  obtain spec w1 where c: "choose_nodes host_ref (hb_getNodeSelector svc (kw_oc w)) w = (Ret spec, w1)"
    and p: "\<And>p. ps_NodeSelector p = dms_NodeSelector spec \<Longrightarrow> ps_Affinity p = dms_Affinity spec \<Longrightarrow> placed p (hb_getNodeSelector svc (kw_oc w))"
    by (rule choose_nodes_ends [OF nodes [of "kw_oc w"], of host_ref w]) blast
  show ?thesis
    using agent_ok_built [OF helper mounts p, where pr = True] trusted by (auto simp: hostBased_newDaemonSet_def go_simps Let_def c newDaemonSet_eval)
qed

lemma placed_agent:
  assumes "fc_DaemonSet (hostBasedDsManager op env svc) cfg zone w = (Ret (Some ds), w')"
  shows "agent_ok ds (hb_getNodeSelector svc (kw_oc w)) True"
proof -
  obtain w1 where "hb_shouldSync svc w = (Ret True, w1)" "some_ret (hostBased_newDaemonSet op env svc) w1 = (Ret (Some ds), w')"
    using assms by (auto simp: hostBasedDsManager_def hostBased_getDaemonSet_def andthen_Ret_iff go_simps split: if_splits)
  with built [of op env w1] looks show ?thesis by (auto simp: some_ret_def andthen_Ret_iff go_simps)
qed

end

lemma isDsReady_keeps: "isDsReady env c img w = (Ret b, w') \<Longrightarrow> kw_oc w' = kw_oc w"
  by (cases "ke_listDaemonSet env (kw_calls w) (NewClusterComponentName (om_Name (oc_ObjectMeta (kw_oc w))) c)")
     (auto simp: isDsReady_def go_simps Let_def kcall_def split: list.splits)

lemmas host_service_defs = hostOvsdbServer_def hostOvsVswitchd_def hostOvnController_def hostSdnagent_def hostHealth_def hostImage_def
  ovs_container_def agent_container_def host_or_lbagent_def mounts_given_def helpers_ok after_ready_def is_privileged_def privileged_def

interpretation ovsdb: host_service "hostOvsdbServer env" for env
  by unfold_locales (auto simp: host_service_defs go_simps)

interpretation vswitchd: host_service "hostOvsVswitchd env" for env
  by unfold_locales (auto simp: host_service_defs go_simps dest: isDsReady_keeps)

interpretation ovn: host_service "hostOvnController env" for env
  by unfold_locales (auto simp: host_service_defs go_simps dest: isDsReady_keeps)

interpretation sdnagent: host_service "hostSdnagent env" for env
  by unfold_locales (auto simp: host_service_defs go_simps)

interpretation health: host_service "hostHealth env" for env
  by unfold_locales (auto simp: host_service_defs go_simps)

interpretation host_image: host_service "hostImage env" for env
  by unfold_locales (auto simp: host_service_defs go_simps)

section \<open>All agents of the nodes\<close>

text \<open>
  The managers of the agents, with the labels of the nodes they are meant for and whether their containers are privileged.
\<close>

definition node_managers :: "options \<Rightarrow> kube_env \<Rightarrow> OnecloudCluster \<Rightarrow> (factory \<times> string list \<times> bool) list" where
  "node_managers op env oc =
     (let host = OnecloudEnableHostLabelKey; controller = OnecloudControllerLabelKey; lb = OnecloudEnableLbagentLabelKey;
          switch = (if spec_DisableLocalVpc (oc_Spec oc) then [host] else [host, lb])
      in [(hostBasedDsManager op env (hostOvsdbServer env), switch, True),
          (hostBasedDsManager op env (hostOvsVswitchd env), switch, True),
          (hostBasedDsManager op env (hostOvnController env), switch, True),
          (hostBasedDsManager op env (hostSdnagent env), [host], True),
          (hostBasedDsManager op env (hostHealth env), [host], True),
          (hostBasedDsManager op env (hostImage env), [host], True),
          (hostManager op env, [host], True),
          (hostDeployerManager op env, [host, controller], True),
          (lbagentManager op env, [lb], True)]
         @ (if op_DisableNodeSelectorController op then []
            else [(yunionagentManager op env, [controller], False), (regionDNSManager op env, [controller], False)]))"

lemma enable_on_spec: "enable_on ref k w = (Ret spec, w') \<Longrightarrow> gomap_get (dms_NodeSelector spec) k = Some ''enable''"
  by (rule enable_on_ends [of ref k w]) auto

lemma enable_on_agent:
  assumes "enable_on ref k w = (Ret spec, w')" "helper_ok h" "mounts_given con" "con (vh_volumeMounts h) \<noteq> []"
    and "\<And>ms x. x \<in> set (con ms) \<Longrightarrow> is_privileged x = pr"
  shows "agent_ok (daemonset_of c oc spec us (daemonset_pod h spec [] con)) [k] pr"
proof (rule agent_ok_built [OF assms(2-4) _ assms(5)])
  fix p :: PodSpec assume "ps_NodeSelector p = dms_NodeSelector spec"
  then show "placed p [k]" using enable_on_spec [OF assms(1)] by (intro placed_selector) simp
qed

lemma host_agent: "fst (host_DaemonSet op env w) = Ret ds \<Longrightarrow> agent_ok ds [OnecloudEnableHostLabelKey] True"
proof -
  assume r: "fst (host_DaemonSet op env w) = Ret ds"
  obtain spec w1 where e: "enable_on host_ref OnecloudEnableHostLabelKey w = (Ret spec, w1)" using enable_on_ends by blast
  show ?thesis using r enable_on_agent [OF e helpers_ok(3), of "host_containers (kw_oc w)", where pr = True]
    by (auto simp: host_DaemonSet_def go_simps e newDaemonSet_eval host_containers_def mounts_given_def agent_container_def Let_def
        is_privileged_def privileged_def)
qed

lemma lbagent_agent: "fst (lbagent_DaemonSet op env w) = Ret ds \<Longrightarrow> agent_ok ds [OnecloudEnableLbagentLabelKey] True"
proof -
  assume r: "fst (lbagent_DaemonSet op env w) = Ret ds"
  obtain spec w1 where e: "enable_on lbagent_ref OnecloudEnableLbagentLabelKey w = (Ret spec, w1)" using enable_on_ends by blast
  show ?thesis using r enable_on_agent [OF e helpers_ok(3), of "lbagent_containers (kw_oc w)", where pr = True]
    by (auto simp: lbagent_DaemonSet_def go_simps e newDaemonSet_eval lbagent_containers_def mounts_given_def agent_container_def
        is_privileged_def privileged_def)
qed

lemma yunionagent_agent:
  assumes "\<not> op_DisableNodeSelectorController op" "fst (yunionagent_DaemonSet op env w) = Ret ds"
  shows "agent_ok ds [OnecloudControllerLabelKey] False"
proof -
  obtain spec w1 where e: "enable_on yunionagent_ref OnecloudControllerLabelKey w = (Ret spec, w1)" using enable_on_ends by blast
  have "agent_ok (daemonset_of c oc spec us (daemonset_pod (NewVolumeHelper oc' cm c') spec []
      (\<lambda>ms. [(agent_container n cs cmd ms)\<lparr>ct_SecurityContext := None\<rparr>]))) [OnecloudControllerLabelKey] False"
    for c oc us oc' cm c' n cs cmd
    by (rule enable_on_agent [OF e helpers_ok(1)]) (auto simp: mounts_given_def is_privileged_def agent_container_def)
  with assms show ?thesis
    by (auto simp: yunionagent_DaemonSet_def go_simps e newDaemonSet_eval Let_def config_helper_def)
qed

lemma built_containers:
  "ps_Containers (agent_pod (daemonset_of c oc spec us p)) = ps_Containers p"
  "ps_Containers (daemonset_pod h spec ini con) = con (vh_volumeMounts h)"
  "ps_Containers (agent_pod (anti_eviction env ds)) = ps_Containers (agent_pod ds)"
  by (simp_all add: daemonset_of_def daemonset_pod_def anti_eviction_def applyHostComponentAntiEviction_def Let_def)

lemma deployer_agent: "fst (deployer_DaemonSet op env w) = Ret ds \<Longrightarrow> agent_ok ds [OnecloudEnableHostLabelKey, OnecloudControllerLabelKey] True"
proof -
  assume r: "fst (deployer_DaemonSet op env w) = Ret ds"
  let ?keys = "[OnecloudEnableHostLabelKey, OnecloudControllerLabelKey]"
  have place: "agent_ok (ds_pod (ps_Affinity_update (\<lambda>a. Some (deployer_affinity (aff_or_new a)))) d) ?keys True"
    if "agent_wired d" "\<forall>x\<in>set (ps_Containers (agent_pod d)). is_privileged x" for d
  proof -
    have "placed (ps_Affinity_update (\<lambda>a. Some (deployer_affinity (aff_or_new a))) (agent_pod d)) ?keys"
      by (rule placed_terms, rule required_terms_require) (simp add: deployer_affinity_def)
    with that show ?thesis by (simp add: agent_ok_def) (simp add: ds_pod_def)
  qed
  have "agent_wired (daemonset_of c oc spec us (daemonset_pod (NewHostDeployerVolume c' oc' cm) spec [] (\<lambda>ms. [agent_container n cs cmd ms])))"
    for c oc spec us c' oc' cm n cs cmd
    by (rule agent_wired_built) (auto simp: helpers_ok mounts_given_def agent_container_def)
  then show ?thesis using r place
    by (cases "dms_Affinity (fst deployer_ref (kw_oc w)) = None")
       (auto simp: deployer_DaemonSet_def deref_def write_ref_def go_simps newDaemonSet_eval Let_def built_containers)
qed

lemma agent_ok_resources:
  assumes "same_but_resources p q" "agent_ok (daemonset_of c oc spec us p) keys pr"
  shows "agent_ok (daemonset_of c oc spec us q) keys pr"
proof -
  from assms(1) have "p = q\<lparr>ps_Containers := ps_Containers p\<rparr>" by (simp add: same_but_resources_def)
  then have "ps_NodeSelector p = ps_NodeSelector q" by (metis PodSpec.ext_inject PodSpec.surjective PodSpec.update_convs(4))
  moreover have m: "map (ct_Resources_update (\<lambda>_. no_resources)) (ps_Containers q) = map (ct_Resources_update (\<lambda>_. no_resources)) (ps_Containers p)"
    using assms(1) by (simp add: same_but_resources_def)
  have "is_privileged \<circ> ct_Resources_update (\<lambda>_. no_resources) = is_privileged"
    by (simp add: is_privileged_def fun_eq_iff)
  then have "map is_privileged (ps_Containers q) = map is_privileged (ps_Containers p)"
    using arg_cong [OF m, of "map is_privileged"] by simp
  then have "is_privileged ` set (ps_Containers q) = is_privileged ` set (ps_Containers p)" by (metis set_map)
  then have "(\<forall>x\<in>set (ps_Containers q). is_privileged x = pr) \<longleftrightarrow> (\<forall>x\<in>set (ps_Containers p). is_privileged x = pr)" by blast
  ultimately show ?thesis using assms
    by (simp add: agent_ok_def agent_wired_def daemonset_of_def Let_def pod_ok_resources placed_def node_accepts_def required_terms_def same_but_resources_fields(3))
qed

lemma regionDNS_agent:
  assumes "\<not> op_DisableNodeSelectorController op" "fst (regionDNS_DaemonSet op env w) = Ret ds"
  shows "agent_ok ds [OnecloudControllerLabelKey] False"
proof -
  define sel :: "DaemonSetSpec \<Rightarrow> DaemonSetSpec" where "sel = dms_NodeSelector_update (\<lambda>m. gomap_set OnecloudControllerLabelKey ''enable'' (case m of None \<Rightarrow> Some [] | Some x \<Rightarrow> Some x))"
  define w1 where "w1 = kw_oc_update (snd regionDNS_ref sel) w"
  let ?oc = "kw_oc w1" let ?spec = "fst regionDNS_ref (kw_oc w1)"
  let ?con = "\<lambda>volMounts. [(agent_container RegionDNSComponentType (dms_ContainerSpec ?spec)
     [''/opt/yunion/bin/region-dns'', ''-conf'', ''/etc/yunion/region-dns.conf''] volMounts)\<lparr>ct_SecurityContext := None\<rparr>]"
  let ?p = "daemonset_pod (config_helper ?oc RegionDNSComponentType) ?spec [] ?con"
  have s: "gomap_get (dms_NodeSelector ?spec) OnecloudControllerLabelKey = Some ''enable''"
    by (simp add: w1_def regionDNS_ref_def sel_def)
  obtain err cs' q w2 where r: "setContainerResources op env (spec_DisableResourceManagement (oc_Spec ?oc)) (dms_ContainerSpec ?spec) ?p w1 = (Ret (err, cs', q), w2)"
    and q: "same_but_resources ?p q" by (rule setContainerResources_ends)
  have "agent_ok (daemonset_of RegionDNSComponentType ?oc ?spec [] ?p) [OnecloudControllerLabelKey] False"
    by (rule agent_ok_built) (auto simp: config_helper_def helpers_ok mounts_given_def agent_container_def s intro: placed_selector)
  moreover have "ds = daemonset_of RegionDNSComponentType ?oc ?spec [] q"
    using assms r by (simp add: regionDNS_DaemonSet_def newDaemonSetWithLimits_def deref_def write_ref_def go_simps Let_def flip: sel_def w1_def)
  ultimately show ?thesis using agent_ok_resources [OF q] by simp
qed

lemma node_daemonsets:
  "fc_DaemonSet (hostManager op env) cfg zone = some_ret (host_DaemonSet op env)"
  "fc_DaemonSet (hostDeployerManager op env) cfg zone = some_ret (deployer_DaemonSet op env)"
  "fc_DaemonSet (lbagentManager op env) cfg zone = some_ret (lbagent_DaemonSet op env)"
  "fc_DaemonSet (yunionagentManager op env) cfg zone = some_ret (yunionagent_DaemonSet op env)"
  "fc_DaemonSet (regionDNSManager op env) cfg zone = some_ret (regionDNS_DaemonSet op env)"
  by (simp_all add: hostManager_def hostDeployerManager_def lbagentManager_def yunionagentManager_def regionDNSManager_def Let_def)

text \<open>
  Telegraf: privileged, with the file system of the node mounted, and on the nodes of the specification only.
\<close>

lemma telegraf_anywhere:
  assumes "fc_DaemonSet (telegrafManager op env) cfg zone w = (Ret (Some ds), w')"
  shows "pod_ok (agent_pod ds)
    \<and> selectorMatchesLabels (dss_Selector (dmn_Spec ds)) (pt_Labels (dss_Template (dmn_Spec ds)))
    \<and> (\<forall>c\<in>set (ps_Containers (agent_pod ds)). is_privileged c)
    \<and> host_volume ''root'' ''/'' HostPathDirectory \<in> set (ps_Volumes (agent_pod ds))
    \<and> ps_NodeSelector (agent_pod ds) = dms_NodeSelector (tgs_DaemonSetSpec (spec_Telegraf (oc_Spec (kw_oc w))))
    \<and> ps_Affinity (agent_pod ds) = dms_Affinity (tgs_DaemonSetSpec (spec_Telegraf (oc_Spec (kw_oc w))))"
proof -
  let ?oc = "kw_oc w" let ?spec = "fst telegraf_ref (kw_oc w)"
  let ?p = "daemonset_pod (NewTelegrafVolume TelegrafComponentType ?oc (telegraf_dir ?oc)) ?spec (telegraf_init ?oc) (telegraf_containers ?oc)"
  have ds: "agent_pod ds = ps_ServiceAccountName_update (\<lambda>_. ServiceAccountOnecloudOperator) (ps_HostPID_update (\<lambda>_. False) ?p)"
    "dss_Selector (dmn_Spec ds) = Some (Some (getComponentLabel ?oc TelegrafComponentType False))"
    "pt_Labels (dss_Template (dmn_Spec ds)) = Some (getComponentLabel ?oc TelegrafComponentType False)"
    using assms by (auto simp: telegrafManager_def some_ret_def telegraf_DaemonSet_def newDaemonSet_eval max_unavailable_def ds_pod_def
        daemonset_of_def andthen_Ret_iff map_err_Ret_iff go_simps Let_def)
  have "distinct (map fst (getComponentLabel ?oc TelegrafComponentType False))"
    by (simp add: getComponentLabel_def component_selector_keys [unfolded component_selector_def])
  then show ?thesis unfolding ds
    by (auto simp: selectorMatchesLabels_def gomap_get_def list_all_iff pod_ok_def daemonset_pod_def zero_PodSpec_def telegraf_init_def
        telegraf_containers_def NewTelegrafVolume_def add_volumes_def empty_helper_def mounts_ok_def host_volume_def rw_mount_def ro_mount_def
        is_privileged_def agent_container_def privileged_def telegraf_ref_def hostRoot_def Let_def)
qed

text \<open>
  C26: The agents of the nodes stay on their nodes, all but one. When the manager of an agent returns a daemon set, a node accepts its
  pods only when the node carries one of the labels the agent is meant for: the host label for the host agent, the SDN agent, the
  health checker and the image service; for Open vSwitch and OVN also the load balancer label, unless local VPCs are switched off;
  for the deployer also the controller label; the load balancer label for the load balancer agent; and the controller label for
  yunionagent and region-dns, unless node selectors for controllers are switched off. The containers of all but these last
  two are privileged, those of the last two are not. The exception is telegraf: its containers are privileged and its pod mounts the
  root of the node's file system, and yet the operator puts no label on it: with no node selector and no affinity in the specification
  every node accepts it. For all of them the volumes that the containers mount are volumes of the pod, and the selector of the
  daemon set matches its pods.
\<close>

theorem node_agents_placed:
  assumes "(f, keys, pr) \<in> set (node_managers op env (kw_oc w))"
    and "fc_DaemonSet f cfg zone w = (Ret (Some ds), w')"
  shows "pod_ok (pt_Spec (dss_Template (dmn_Spec ds)))
    \<and> selectorMatchesLabels (dss_Selector (dmn_Spec ds)) (pt_Labels (dss_Template (dmn_Spec ds)))
    \<and> (\<forall>c\<in>set (ps_Containers (pt_Spec (dss_Template (dmn_Spec ds)))). is_privileged c = pr)
    \<and> (\<forall>labels. node_accepts (pt_Spec (dss_Template (dmn_Spec ds))) labels \<longrightarrow> (\<exists>k \<in> set keys. map_of labels k = Some ''enable''))
    \<and> (\<forall>tel w2. fc_DaemonSet (telegrafManager op env) cfg zone w = (Ret (Some tel), w2) \<longrightarrow>
         pod_ok (pt_Spec (dss_Template (dmn_Spec tel)))
       \<and> selectorMatchesLabels (dss_Selector (dmn_Spec tel)) (pt_Labels (dss_Template (dmn_Spec tel)))
       \<and> (\<forall>c\<in>set (ps_Containers (pt_Spec (dss_Template (dmn_Spec tel)))). is_privileged c)
       \<and> host_volume ''root'' ''/'' HostPathDirectory \<in> set (ps_Volumes (pt_Spec (dss_Template (dmn_Spec tel))))
       \<and> (dms_NodeSelector (tgs_DaemonSetSpec (spec_Telegraf (oc_Spec (kw_oc w)))) = None
            \<and> dms_Affinity (tgs_DaemonSetSpec (spec_Telegraf (oc_Spec (kw_oc w)))) = None \<longrightarrow>
          (\<forall>labels. node_accepts (pt_Spec (dss_Template (dmn_Spec tel))) labels)))"
proof -
  have some: "fst (p w) = Ret ds" if "some_ret p w = (Ret (Some ds), w')" for p :: "DaemonSet km"
    using that by (auto simp: some_ret_def andthen_Ret_iff go_simps)
  have "agent_ok ds keys pr"
    using assms
    by (auto simp: node_managers_def node_daemonsets Let_def split: if_splits
        dest!: some ovsdb.placed_agent vswitchd.placed_agent ovn.placed_agent sdnagent.placed_agent health.placed_agent host_image.placed_agent
        intro: host_agent deployer_agent lbagent_agent yunionagent_agent regionDNS_agent)
      (simp_all add: host_service_defs)
  moreover have "node_accepts (agent_pod tel) labels"
    if "ps_NodeSelector (agent_pod tel) = None" "ps_Affinity (agent_pod tel) = None" for tel labels
    using that by (simp add: node_accepts_def required_terms_def gomap_get_def)
  ultimately show ?thesis using agent_wired_selector telegraf_anywhere [of op env cfg zone w]
    by (simp add: agent_ok_def placed_def agent_wired_def)
qed

theorem node_agents_placed_witness:
  "\<forall>j. \<exists>ds w'. fc_DaemonSet (hostManager (plain_op j) node_env) zero_OnecloudClusterConfig [] sample_world = (Ret (Some ds), w')
     \<and> node_accepts (pt_Spec (dss_Template (dmn_Spec ds))) [(OnecloudEnableHostLabelKey, ''enable'')]
     \<and> (\<exists>k \<in> set [OnecloudEnableHostLabelKey]. map_of [(OnecloudEnableHostLabelKey, ''enable'')] k = Some ''enable'')"
proof
  fix j
  obtain spec w1 where e: "enable_on host_ref OnecloudEnableHostLabelKey sample_world = (Ret spec, w1)"
    "spec = zero_DaemonSetSpec\<lparr>dms_NodeSelector := Some [(OnecloudEnableHostLabelKey, ''enable'')]\<rparr>"
    by (simp add: enable_on_def host_ref_def deref_def sample_world_def go_simps Let_def zero_defs gomap_set_def)
  obtain ds w' where run: "fc_DaemonSet (hostManager (plain_op j) node_env) zero_OnecloudClusterConfig [] sample_world = (Ret (Some ds), w')"
    and ds: "ps_NodeSelector (agent_pod ds) = Some [(OnecloudEnableHostLabelKey, ''enable'')]" "ps_Affinity (agent_pod ds) = None"
    by (simp add: node_daemonsets some_ret_def host_DaemonSet_def go_simps e newDaemonSet_eval daemonset_of_def daemonset_pod_def zero_PodSpec_def
      with_ds_label_def max_unavailable_def ds_pod_def anti_eviction_def applyHostComponentAntiEviction_def zero_defs Let_def)
  have a: "node_accepts (agent_pod ds) [(OnecloudEnableHostLabelKey, ''enable'')]"
    using ds by (simp add: node_accepts_def required_terms_def gomap_get_def)
  have "(hostManager (plain_op j) node_env, [OnecloudEnableHostLabelKey], True) \<in> set (node_managers (plain_op j) node_env (kw_oc sample_world))"
    by (simp add: node_managers_def Let_def)
  from node_agents_placed [OF this run] run a
  show "\<exists>ds w'. fc_DaemonSet (hostManager (plain_op j) node_env) zero_OnecloudClusterConfig [] sample_world = (Ret (Some ds), w')
     \<and> node_accepts (pt_Spec (dss_Template (dmn_Spec ds))) [(OnecloudEnableHostLabelKey, ''enable'')]
     \<and> (\<exists>k \<in> set [OnecloudEnableHostLabelKey]. map_of [(OnecloudEnableHostLabelKey, ''enable'')] k = Some ''enable'')" by blast
qed

end
