(* ===== verification/Web_Laws.thy ===== *)
theory Web_Laws
  imports Managers_Web
begin

text \<open>
  What the front end forwards requests to: the addresses in the configuration of nginx against the services of the components.
\<close>

definition served_at :: "OnecloudCluster \<Rightarrow> CoreService list \<Rightarrow> string \<Rightarrow> int \<Rightarrow> bool" where
  "served_at oc services ct port \<longleftrightarrow>
     (\<exists>svc \<in> set services. om_Name (svc_meta svc) = NewClusterComponentName (om_Name (oc_ObjectMeta oc)) ct \<and> port \<in> sp_Port ` set (css_Ports (svc_Spec svc)))"

text \<open>The upstreams of nginx with the managers of the components behind them and the services in the specification that decide their ports.\<close>

definition web_upstreams :: "options \<Rightarrow> kube_env \<Rightarrow> (string \<times> factory \<times> (OnecloudClusterSpec \<Rightarrow> ServiceSpec) \<times> string \<times> int) list" where
  "web_upstreams op env =
     [(''WebconsoleURL'', webconsoleManager op env, \<lambda>s. dps_Service (wcs_DeploymentServicePortSpec (spec_Webconsole s)), WebconsoleComponentType, WebconsolePort),
      (''APIGatewayURL'', apiGatewayManager op env, \<lambda>s. ags_APIService (spec_APIGateway s), APIGatewayComponentType, APIGatewayPort),
      (''APIGatewayWsURL'', apiGatewayManager op env, \<lambda>s. ags_WSService (spec_APIGateway s), APIGatewayComponentType, APIWebsocketPort),
      (''GlanceURL'', glanceManager op env, \<lambda>s. gs_Service (spec_Glance s), GlanceComponentType, GlanceAPIPort)]"

lemma meta_name [simp]: "om_Name (getObjectMeta oc n l) = n"
  by (simp add: getObjectMeta_def new_meta_def)

lemma served_node_ports:
  "served_at oc (newNodePortService ct oc b ports ro) ct port \<longleftrightarrow> port \<in> sp_Port ` set ports"
  by (auto simp: served_at_def newNodePortService_def newService_def newServiceWithClusterIp_def Let_def)

text \<open>
  C11: The front end reaches the services behind it only on their default ports. The configuration of nginx names every component
  at the port that is a constant of the operator, while the service of the component listens on the node port of the
  specification: the console and the image service are served at the address in the configuration exactly when that node port is
  the default one, and the two ports of the gateway when one of its two node ports is.
\<close>

theorem web_upstreams_served:
  "list_all (\<lambda>(key, manager, service, ct, port).
       opt_str (web_config oc) key = Some (''https://'' @ NewClusterComponentName (om_Name (oc_ObjectMeta oc)) ct @ '':'' @ show_int port)
       \<and> (served_at oc (fc_Service manager oc cfg zone) ct port \<longleftrightarrow>
            list_ex (\<lambda>(_, _, service', ct', _). ct' = ct \<and> int32 (sps_NodePort (ss_ServicePortSpec (service' (oc_Spec oc)))) = port)
              (web_upstreams op env)))
     (web_upstreams op env)"
  by (auto simp: web_upstreams_def web_config_def opt_str_def component_url_def webconsoleManager_def apiGatewayManager_def glanceManager_def Let_def
      service_ports_def newSinglePortService_def served_node_ports NewServiceNodePort_def node_port_def ctypes)

end
