(* ===== verification/Cluster_Pass.thy ===== *)
theory Cluster_Pass
  imports Cluster_Laws Sync_Laws Managers_Nodes Managers_Web
begin

text \<open>
  The control loop with the managers of the components in their places: the accessors of
  \<open>ComponentManager\<close> (\<open>pkg/manager/component/component.go\<close>) and \<open>Sync\<close> of every manager, as the control loop of
  \<open>pkg/controller/cluster/onecloud_cluster_control.go\<close> calls them. The loop names a manager by its component type; every name
  in it belongs to one manager, which reports that type.
\<close>

section \<open>The managers\<close>

definition etcd_factory :: factory where
  "etcd_factory =
     (let versions = [ProductVersionFullStack, ProductVersionCMP, ProductVersionEdge, ProductVersionLightEdge, ProductVersionBaremetal, ProductVersionAI]
      in (base_factory EtcdComponentType versions)\<lparr>fc_IsDisabled := \<lambda>oc. etcd_Disable (spec_Etcd (oc_Spec oc)) \<or> \<not> in_versions versions oc\<rparr>)"

text \<open>The accessors \<open>Keystone()\<close>, \<open>Logger()\<close> and so on, in the order of the source.\<close>

definition component_managers :: "options \<Rightarrow> kube_env \<Rightarrow> (string \<times> factory) list" where
  "component_managers op env =
     [(KeystoneComponentType, keystoneManager op env),
      (LoggerComponentType, loggerManager op env),
      (RegionComponentType, regionManager op env),
      (RegionDNSComponentType, regionDNSManager op env),
      (ClimcComponentType, climcManager op env),
      (CloudmuxComponentType, cloudmuxManager op env),
      (GlanceComponentType, glanceManager op env),
      (WebconsoleComponentType, webconsoleManager op env),
      (SchedulerComponentType, schedulerManager op env),
      (ApiMapComponentType, apiMapManager op env),
      (InfluxdbComponentType, influxdbManager op env),
      (VictoriaMetricsComponentType, vmManager op env),
      (YunionagentComponentType, yunionagentManager op env),
      (YunionconfComponentType, yunoinconfManager op env),
      (KubeServerComponentType, kubeManager op env),
      (AnsibleServerComponentType, ansibleManager op env),
      (CloudnetComponentType, cloudnetManager op env),
      (CloudproxyComponentType, cloudproxyManager op env),
      (APIGatewayComponentType, apiGatewayManager op env),
      (WebComponentType, webManager op env),
      (NotifyComponentType, notifyManager op env),
      (BaremetalAgentComponentType, baremetalManager op env),
      (OvnNorthComponentType, ovnNorthManager op env),
      (VpcAgentComponentType, vpcAgentManager op env),
      (HostComponentType, hostManager op env),
      (LbagentComponentType, lbagentManager op env),
      (HostDeployerComponentType, hostDeployerManager op env),
      (HostImageComponentType, hostBasedDsManager op env (hostImage env)),
      (CloudeventComponentType, cloudeventManager op env),
      (S3gatewayComponentType, s3gatewayManager op env),
      (DevtoolComponentType, devtoolManager op env),
      (MeterComponentType, meterManager op env),
      (BillingComponentType, billingManager op env),
      (AutoUpdateComponentType, autoUpdateManager op env),
      (EsxiAgentComponentType, esxiManager op env),
      (MonitorComponentType, monitorManager op env),
      (ServiceOperatorComponentType, serviceOperatorManager op env),
      (ItsmComponentType, itsmManager op env),
      (TelegrafComponentType, telegrafManager op env),
      (CloudIdComponentType, cloudidManager op env),
      (CloudmonComponentType, cloudmonManager op env),
      (SuggestionComponentType, suggestionManager op env),
      (ScheduledtaskComponentType, scheduledtaskManager op env),
      (ReportComponentType, reportManager op env),
      (EChartsSSRComponentType, echartsSSRManager op env),
      (HostHealthComponentType, hostBasedDsManager op env (hostHealth env)),
      (HostSdnagentComponentType, hostBasedDsManager op env (hostSdnagent env)),
      (HostOvnControllerComponentType, hostBasedDsManager op env (hostOvnController env)),
      (HostOvsdbServerComponentType, hostBasedDsManager op env (hostOvsdbServer env)),
      (HostOvsVswitchdComponentType, hostBasedDsManager op env (hostOvsVswitchd env)),
      (BastionHostComponentType, bastionHostManager op env),
      (ExtdbComponentType, extdbManager op env),
      (LLMComponentType, llmManager op env),
      (McpServerComponentType, mcpServerManager op env),
      (AiProxyComponentType, aiProxyManager op env)]"

text \<open>The managers whose \<open>Sync\<close> does more than synchronise the component.\<close>

definition special_Sync :: "options \<Rightarrow> kube_env \<Rightarrow> (string \<times> unit km) list" where
  "special_Sync op env =
     [(APIGatewayComponentType, apiGateway_Sync op env), (BaremetalAgentComponentType, baremetal_Sync op env),
      (CloudmonComponentType, cloudmon_Sync op env), (CloudnetComponentType, cloudnet_Sync op env),
      (EsxiAgentComponentType, esxi_Sync op env), (McpServerComponentType, mcpServer_Sync op env),
      (WebComponentType, web_Sync op env)]"

text \<open>
  \<open>Sync\<close> of the manager of a component. What etcd's manager does after the synchronisation and what the monitor stack does
  run on states of their own (\<open>etcd_Sync\<close>, \<open>monitorStack_Sync\<close>) and are arguments here.
\<close>

definition component_Sync :: "options \<Rightarrow> kube_env \<Rightarrow> unit km \<Rightarrow> unit km \<Rightarrow> string \<Rightarrow> unit km" where
  "component_Sync op env etcd stack c =
     (if c = EtcdComponentType then seq (syncComponent op env etcd_factory []) etcd
      else if c = MonitorStackComponentType then stack
      else case map_of (special_Sync op env) c of
        Some s \<Rightarrow> s
      | None \<Rightarrow> (case map_of (component_managers op env) c of
          None \<Rightarrow> go_panic ''nil dereference''
        | Some f \<Rightarrow> syncComponent op env f []))"

lemmas manager_defs = keystoneManager_def loggerManager_def regionManager_def regionDNSManager_def climcManager_def cloudmuxManager_def
  glanceManager_def webconsoleManager_def schedulerManager_def apiMapManager_def influxdbManager_def vmManager_def yunionagentManager_def
  yunoinconfManager_def kubeManager_def ansibleManager_def cloudnetManager_def cloudproxyManager_def apiGatewayManager_def webManager_def
  notifyManager_def baremetalManager_def ovnNorthManager_def vpcAgentManager_def hostManager_def lbagentManager_def hostDeployerManager_def
  hostBasedDsManager_def hostImage_def cloudeventManager_def s3gatewayManager_def devtoolManager_def meterManager_def billingManager_def
  autoUpdateManager_def esxiManager_def monitorManager_def serviceOperatorManager_def itsmManager_def telegrafManager_def cloudidManager_def
  cloudmonManager_def suggestionManager_def scheduledtaskManager_def reportManager_def echartsSSRManager_def hostHealth_def hostSdnagent_def
  hostOvnController_def hostOvsdbServer_def hostOvsVswitchd_def bastionHostManager_def extdbManager_def llmManager_def mcpServerManager_def
  aiProxyManager_def

lemma managers_named: "list_all (\<lambda>(c, f). fc_ComponentType f = c) (component_managers op env)"
  by (simp add: component_managers_def manager_defs Let_def base_factory_def)

lemma managers_distinct: "distinct (map fst (component_managers op env))"
  by (simp add: component_managers_def ctypes)

lemma managers_complete: "set (core_components @ dependComponents) \<subseteq> fst ` set (component_managers op env)"
  by (simp add: component_managers_def core_components_def dependComponents_def)

section \<open>Keystone comes first\<close>

lemma keystone_runs: "component_Sync op env etcd stack KeystoneComponentType = syncComponent op env (keystoneManager op env) []"
  by (simp add: component_Sync_def special_Sync_def component_managers_def ctypes)

lemma keystone_map_quiet:
  "kemits P (fc_ConfigMap (keystoneManager op env) cfg zone) v" "keeps I (fc_ConfigMap (keystoneManager op env) cfg zone)"
  unfolding keystoneManager_def service_map_def keystone_GetConfig_def SetOptionsDefault_def newServiceConfigMap_def Let_def
  by (auto intro!: emits_intros keeps_intros)

abbreviation keystone_flags :: "kworld \<Rightarrow> bool \<times> string" where
  "keystone_flags v \<equiv> (ds_Disable (fst keystone_ref (kw_oc v)), spec_ProductVersion (oc_Spec (kw_oc v)))"

lemma resources_quiet:
  "P KNode \<Longrightarrow> kemits P (setContainerResources op env b cs pod) v"
  "log_free I \<Longrightarrow> keeps I (setContainerResources op env b cs pod)"
  unfolding setContainerResources_def getDefaultResourceLimits_def GetReadyMasterNodes_def Let_def
  by (auto intro!: emits_intros keeps_intros log_free.keeps_kcall log_free.keeps_of_sum split: list.split sum.split prod.split)

lemma keystone_deployment_quiet:
  "P KNode \<Longrightarrow> kemits P (keystone_deployment op env) v" "keeps (\<lambda>v. keystone_flags v = x) (keystone_deployment op env)"
proof -
  show "P KNode \<Longrightarrow> kemits P (keystone_deployment op env) v"
    unfolding keystone_deployment_def newDefaultDeployment_def newDefaultDeploymentWithCloudAffinity_def newDeployment_def write_ref_def deref_def Let_def
    by (auto intro!: emits_intros resources_quiet split: prod.split)
  show "keeps (\<lambda>v. keystone_flags v = x) (keystone_deployment op env)"
    unfolding keystone_deployment_def newDefaultDeployment_def newDefaultDeploymentWithCloudAffinity_def newDeployment_def write_ref_def deref_def Let_def
    by (auto intro!: keeps_intros resources_quiet simp: log_free_def keystone_ref_def deploy_ref_def cloud_affinity_def Let_def split: prod.split)
qed

lemma keystone_waits:
  assumes none: "\<And>h n. ke_listDeployment env h n = Inl (ApiErr NotFound)" and on: "\<not> op_StopServices op" "\<not> ds_Disable (fst keystone_ref (kw_oc v))"
  shows "fst (syncComponent op env (keystoneManager op env) [] v) \<noteq> Ret ()
    \<and> kemits (\<lambda>c. \<not> late c) (syncComponent op env (keystoneManager op env) []) v"
proof (cases "isValidProductVersion (kw_oc v)")
  case None
  let ?f = "keystoneManager op env"
  have deploy: "fc_Deployment ?f cfg zone = some_ret (keystone_deployment op env)" for cfg zone
    by (simp add: keystoneManager_def Let_def)
  have "\<not> stop_deployment op ?f (kw_oc t)" if "keystone_flags t = keystone_flags v" for t
    using that on None
    by (simp add: stop_deployment_def isInProductVersion_def keystoneManager_def base_factory_def AllVersions_def in_versions_def
        isValidProductVersion_def Let_def split: if_splits)
  moreover have "keystone_flags t = keystone_flags v" if "kw_oc u = kw_oc v" "keystone_deployment op env u = (r, t)" for u t r
    using keepsD_eq [OF keystone_deployment_quiet(2) that(2), of "keystone_flags u"] that(1) by simp
  ultimately have effect: "(\<exists>d. x = Some d) \<and> \<not> stop_deployment op ?f (kw_oc t)"
    if "kw_oc u = kw_oc v" "fc_Deployment ?f cfg zone u = (Ret x, t)" for u t x cfg zone
    using that by (auto simp: deploy some_ret_def andthen_Ret_iff go_simps)
  show ?thesis
    by (rule syncComponent_waits)
       (auto simp: deploy some_ret_def intro!: none keystone_map_quiet emits_intros keystone_deployment_quiet dest: effect)
next
  case (Some e)
  then show ?thesis by (auto simp: syncComponent_def Let_def go_simps intro!: emits_quiet)
qed

lemma pass_from_start:
  assumes "pass_start op env sync w = (Ret (), v)" "updateOnecloudCluster op env co sync t w = (r, w')"
    and "sync KeystoneComponentType v = (k, v')" "k \<noteq> Ret ()" "\<not> op_StopServices op"
  shows "(\<forall>x. r \<noteq> Ret x) \<and> w' = v'"
proof -
  obtain u1 u2 cm where u: "config_CreateOrUpdate op env w = (Ret cm, u1)" "certs_CreateOrUpdate env u1 = (Ret (), u2)" "sync EtcdComponentType u2 = (Ret (), v)"
    using assms(1) by (auto simp: pass_start_def seq_Ret_iff map_err_Ret_iff andthen_Ret_iff go_simps)
  have core: "core_components = KeystoneComponentType # tl core_components" by (simp add: core_components_def)
  have "(\<forall>x. fst (sync_core False sync core_components v) \<noteq> Ret x) \<and> snd (sync_core False sync core_components v) = v'"
    using assms(3,4) by (subst core, subst core) (cases k; simp add: go_simps reconcileComponent_def)
  then show ?thesis
    using assms(2,5) u by (cases "sync_core False sync core_components v" rule: prod.exhaust; cases "fst (sync_core False sync core_components v)")
      (auto simp: updateOnecloudCluster_def go_simps)
qed

lemma core_split: "core_components = KeystoneComponentType # tl core_components"
  by (simp add: core_components_def)

text \<open>
  C7: The identity service comes first. Take a cluster that has no deployments yet and in which keystone is not disabled, the managers
  of the operator, and a pass in which the configuration, the certificates and etcd have succeeded. Unless the operator runs with
  \<open>--stop-services\<close> the pass ends at keystone: it does not succeed, and from there on it only works on keystone's configuration,
  database and deployment; no service, daemon set, cron job, ingress or phase of any component is touched. With
  \<open>--stop-services\<close> the error of keystone is dropped and the other core components run from the state keystone has left.
\<close>

theorem keystone_first:
  assumes "\<And>h n. ke_listDeployment env h n = Inl (ApiErr NotFound)" "\<not> ds_Disable (fst keystone_ref (kw_oc v))"
    and "pass_start op env (component_Sync op env etcd stack) w = (Ret (), v)"
    and "updateOnecloudCluster op env co (component_Sync op env etcd stack) t w = (r, w')"
  shows "if op_StopServices op
    then \<forall>e v'. component_Sync op env etcd stack KeystoneComponentType v = (Fail e, v') \<longrightarrow>
           sync_core True (component_Sync op env etcd stack) core_components v
             = sync_core True (component_Sync op env etcd stack) (tl core_components) v'
    else (\<forall>x. r \<noteq> Ret x) \<and> (\<exists>calls. kw_calls w' = kw_calls v @ calls \<and> list_all (\<lambda>c. \<not> late c) calls)"
proof (cases "op_StopServices op")
  case True
  have "sync_core True s core_components v = sync_core True s (tl core_components) v'" if "s KeystoneComponentType v = (Fail e, v')" for s v' and e :: goerr
    using that by (subst core_split) (simp add: go_simps reconcileComponent_def)
  then show ?thesis unfolding if_P [OF True] by blast
next
  case False
  let ?k = "syncComponent op env (keystoneManager op env) [] v"
  have "fst ?k \<noteq> Ret ()" "kemits (\<lambda>c. \<not> late c) (syncComponent op env (keystoneManager op env) []) v"
    using keystone_waits [OF assms(1) False assms(2)] by blast+
  moreover from pass_from_start [OF assms(3,4) _ _ False, of "fst ?k" "snd ?k"] \<open>fst ?k \<noteq> Ret ()\<close>
  have "(\<forall>x. r \<noteq> Ret x) \<and> w' = snd ?k" by (simp add: keystone_runs)
  ultimately show ?thesis using False by (auto simp: emits_on_def)
qed

definition fresh_op :: options where
  "fresh_op = demo_op\<lparr>op_decodeConfig := \<lambda>_. Inr zero_OnecloudClusterConfig\<rparr>"

definition fresh_env :: kube_env where
  "fresh_env = quiet_env\<lparr>ke_listConfigMap := \<lambda>_ _. Inr (demo_cm\<lparr>cm_Data := Some [(OnecloudClusterConfigConfigMapKey, [])]\<rparr>)\<rparr>"

definition fresh_start :: "unit res \<times> kworld" where
  "fresh_start = pass_start fresh_op fresh_env (\<lambda>_. seq (syncComponent fresh_op fresh_env etcd_factory []) (ret ())) demo_cluster_world"

lemma fresh_start_run: "pass_start fresh_op fresh_env (component_Sync fresh_op fresh_env (ret ()) (ret ())) demo_cluster_world = fresh_start"
  by (simp add: fresh_start_def pass_start_def component_Sync_def)

lemma fresh_start_ok: "fst fresh_start = Ret ()"
  by code_simp

lemma fresh_keystone: "\<not> ds_Disable (fst keystone_ref (kw_oc (snd fresh_start)))"
  by code_simp

theorem keystone_first_witness:
  "\<forall>co. let (r, w') = updateOnecloudCluster fresh_op fresh_env co (component_Sync fresh_op fresh_env (ret ()) (ret ())) 0 demo_cluster_world
     in (\<forall>x. r \<noteq> Ret x) \<and> (\<exists>calls. kw_calls w' = kw_calls (snd fresh_start) @ calls \<and> list_all (\<lambda>c. \<not> late c) calls)"
proof
  fix co
  have none: "ke_listDeployment fresh_env h n = Inl (ApiErr NotFound)" for h n by (simp add: fresh_env_def quiet_env_def)
  have "\<not> op_StopServices fresh_op" by (simp add: fresh_op_def demo_op_def)
  moreover have "pass_start fresh_op fresh_env (component_Sync fresh_op fresh_env (ret ()) (ret ())) demo_cluster_world = (Ret (), snd fresh_start)"
    using fresh_start_ok by (simp add: fresh_start_run prod_eq_iff)
  ultimately show "let (r, w') = updateOnecloudCluster fresh_op fresh_env co (component_Sync fresh_op fresh_env (ret ()) (ret ())) 0 demo_cluster_world
     in (\<forall>x. r \<noteq> Ret x) \<and> (\<exists>calls. kw_calls w' = kw_calls (snd fresh_start) @ calls \<and> list_all (\<lambda>c. \<not> late c) calls)"
    using keystone_first [OF none fresh_keystone, of fresh_op "ret ()" "ret ()" demo_cluster_world co 0] by (simp split: prod.split)
qed

end
