(* ===== verification/Glance_S3.thy ===== *)
theory Glance_S3
  imports Onecloud_Api
begin

text \<open>
  The switch of glance to the object store (\<open>setS3Config\<close> in \<open>pkg/manager/component/glance.go\<close>): the settings of the store
  are written into the configuration that the identity service keeps for glance, once. Its outcome is what
  \<open>ke_glanceS3\<close> answers to the manager of glance.
\<close>

text \<open>The variable \<open>s3ConfigSynced\<close> of the process is the argument, and its new value the result; on an error it stays.\<close>

definition s3_settings :: "string \<Rightarrow> string \<Rightarrow> string \<Rightarrow> jdict" where
  "s3_settings endpoint ak sk =
     [(''storage_driver'', JStr ''s3''), (''s3_endpoint'', JStr endpoint), (''s3_use_ssl'', JBool False),
      (''s3_access_key'', JStr ak), (''s3_secret_key'', JStr sk)]"

definition set_all :: "jdict \<Rightarrow> jdict \<Rightarrow> jdict" where
  "set_all new d = fold (\<lambda>(k, v). AList.update k v) new d"

text \<open>
  The keys and the address of the store: its secret and its service in the name space \<open>OnecloudMinioNamespace\<close>. \<open>None\<close>
  when there is no access key and glance is not to be switched.
\<close>

definition minio_access :: "api \<Rightarrow> OnecloudCluster \<Rightarrow> (string \<times> string \<times> string) option sm" where
  "minio_access a oc =
     andthen (map_err (\<lambda>e. if is_not_found e then Errorf (''namespace '' @ OnecloudMinioNamespace @ '' not found'') else e)
                (ask_as (\<lambda>h q. ap_secret a OnecloudMinioSecret) (RGetSecret OnecloudMinioSecret))) (\<lambda>sec.
     andthen (map_err (\<lambda>e. if is_not_found e then Errorf (''service '' @ OnecloudMinioSvc @ '' not found'') else e)
                (ask_as (ap_service a) (RGetService OnecloudMinioNamespace OnecloudMinioSvc))) (\<lambda>svc.
     case css_Ports (svc_Spec svc) of
       [] \<Rightarrow> go_panic ''index out of range''
     | p # _ \<Rightarrow>
         (let endpoint = om_Name (svc_meta svc) @ ''.'' @ om_Namespace (svc_meta svc) @ '':'' @ show_int (sp_Port p)
          in case map_of sec ''accesskey'' of
               None \<Rightarrow> (if gs_SwitchToS3 (spec_Glance (oc_Spec oc)) then fail (Errorf ''s3 access key not found'') else ret None)
             | Some ak \<Rightarrow> (case map_of sec ''secretkey'' of
                   None \<Rightarrow> fail (Errorf ''s3 secret key not found'')
                 | Some sk \<Rightarrow> ret (Some (endpoint, ak, sk))))))"

definition glance_setS3Config :: "api \<Rightarrow> bool \<Rightarrow> bool sm" where
  "glance_setS3Config a s3ConfigSynced =
     (if s3ConfigSynced then ret True
      else andthen (attempt (ask a (RGetSpecific MServices ''glance'' ''config''))) (\<lambda>r. case r of
        Inl e \<Rightarrow> (if contains_str (ap_err a e) ''not found'' then ret False else fail (Wrapped ''get glance service config'' e))
      | Inr conf \<Rightarrow>
          (case json_Get [''config'', ''default''] conf of
             None \<Rightarrow> ret False
           | Some confJson \<Rightarrow>
               if json_Contains [''s3_endpoint''] confJson then ret True
               else andthen (gets se_oc) (\<lambda>oc.
                    andthen (minio_access a oc) (\<lambda>access. case access of
                      None \<Rightarrow> ret False
                    | Some (endpoint, ak, sk) \<Rightarrow>
                        (case confJson of
                           JDict confDict \<Rightarrow>
                             seq (ask_unit a (RPerform MServices ''glance'' ''config''
                                    (json_Add (JDict (set_all (s3_settings endpoint ak sk) confDict)) [''config'', ''default''] [])))
                                 (ret True)
                         | _ \<Rightarrow> go_panic ''interface conversion''))))))"

section \<open>What is written\<close>

lemma map_of_set_all:
  "distinct (map fst new) \<Longrightarrow> map_of (set_all new d) k = (case map_of new k of Some v \<Rightarrow> Some v | None \<Rightarrow> map_of d k)"
  unfolding set_all_def
proof (induction new arbitrary: d)
  case (Cons kv new)
  obtain k' v where kv: "kv = (k', v)" by force
  have "map_of new k' = None" using Cons.prems by (simp add: kv map_of_eq_None_iff)
  with Cons.IH [of "AList.update k' v d"] Cons.prems show ?case by (auto simp: kv update_conv' split: option.split)
qed simp

lemma minio_access_asks: "\<exists>new. se_calls (snd (minio_access a oc s)) = se_calls s @ new \<and> set new \<subseteq> {RGetSecret OnecloudMinioSecret, RGetService OnecloudMinioNamespace OnecloudMinioSvc}"
  by (auto simp: minio_access_def andthen_def map_err_def ask_as_def request_logged_def ret_def fail_def go_panic_def Let_def
      split: sum.split list.split option.split prod.split)

text \<open>
  The settings of the store are written at most once and never over others: a request that writes them follows an answer with
  a configuration without an endpoint, contains the five settings of the store, and keeps every other setting.
\<close>

lemma s3_written_once:
  assumes "glance_setS3Config a synced s = (r, s')" "se_calls s' = se_calls s @ calls" "RPerform MServices ''glance'' ''config'' params \<in> set calls"
  shows "\<not> synced \<and> (\<exists>conf d endpoint ak sk d'.
      ap_object a (se_calls s) (RGetSpecific MServices ''glance'' ''config'') = Inr conf
    \<and> json_Get [''config'', ''default''] conf = Some (JDict d) \<and> map_of d ''s3_endpoint'' = None
    \<and> json_Get [''config'', ''default''] (JDict params) = Some (JDict d')
    \<and> (\<forall>k. map_of d' k = (case map_of (s3_settings endpoint ak sk) k of Some v \<Rightarrow> Some v | None \<Rightarrow> map_of d k)))"
proof -
  let ?q = "RGetSpecific MServices ''glance'' ''config''" and ?w = "\<lambda>p. RPerform MServices ''glance'' ''config'' p"
  let ?t = "request_logged ?q s"
  have off: "\<not> synced" using assms by (auto simp: glance_setS3Config_def go_simps)
  have quiet: False if "se_calls s' = se_calls s @ [?q]" using that assms(2,3) by simp
  obtain conf where conf: "ap_object a (se_calls s) ?q = Inr conf"
    using assms(1) off quiet by (cases "ap_object a (se_calls s) ?q")
      (auto simp: glance_setS3Config_def ask_def ask_as_def go_simps request_logged_def split: if_splits)
  obtain cj where cj: "json_Get [''config'', ''default''] conf = Some cj" "\<not> json_Contains [''s3_endpoint''] cj"
    using assms(1) off quiet conf by (cases "json_Get [''config'', ''default''] conf")
      (auto simp: glance_setS3Config_def ask_def ask_as_def go_simps request_logged_def split: if_splits)
  obtain m t' where m: "minio_access a (se_oc ?t) ?t = (m, t')" by force
  obtain new where new: "se_calls t' = se_calls s @ ?q # new" "\<And>p. ?w p \<notin> set new"
    using minio_access_asks [of a "se_oc ?t" ?t] m by (auto simp: request_logged_def)
  have quiet': False if "s' = t'" using that assms(2,3) new by auto
  have run: "glance_setS3Config a synced s = andthen (minio_access a (se_oc ?t)) (\<lambda>access. case access of None \<Rightarrow> ret False
      | Some (endpoint, ak, sk) \<Rightarrow> (case cj of JDict confDict \<Rightarrow>
          seq (ask_unit a (?w (json_Add (JDict (set_all (s3_settings endpoint ak sk) confDict)) [''config'', ''default''] []))) (ret True)
        | _ \<Rightarrow> go_panic ''interface conversion'')) ?t"
    using off conf cj by (simp add: glance_setS3Config_def ask_def ask_as_def go_simps)
  obtain endpoint ak sk d where d: "m = Ret (Some (endpoint, ak, sk))" "cj = JDict d"
    using assms(1) run m quiet' by (cases m; cases cj) (auto simp: go_simps split: option.splits)
  let ?d = "set_all (s3_settings endpoint ak sk) d"
  have "se_calls s' = se_calls t' @ [?w (json_Add (JDict ?d) [''config'', ''default''] [])]"
    using assms(1) run m d by (auto simp: go_simps ask_unit_def ask_def ask_as_def request_logged_def seq_def andthen_def split: sum.splits)
  then have "params = json_Add (JDict ?d) [''config'', ''default''] []" using assms(2,3) new by auto
  moreover have "distinct (map fst (s3_settings endpoint ak sk))" by (simp add: s3_settings_def)
  ultimately show ?thesis
    using off conf cj d map_of_set_all [of "s3_settings endpoint ak sk" d] by (fastforce simp: json_Contains_def)
qed

lemma s3_synced_quiet: "glance_setS3Config a True s = (Ret True, s)"
  by (simp add: glance_setS3Config_def go_simps)

end
