(* ===== verification/Spec2Isabelle.thy ===== *)
theory Spec2Isabelle
  imports OC_Defaults_Laws OC_Names Etcd_Laws Sync_Laws Certs Cluster_Laws Workload_Laws Manager_Laws Session_Laws Database_Laws Node_Laws Web_Laws Cluster_Pass Glance_S3
begin

text \<open>
  \<^bold>\<open>Verification of the cloudpods operator.\<close> The operator is a Kubernetes controller. It watches objects of kind
  \<open>OnecloudCluster\<close>, completes their specification with defaults, and brings the objects in the API server (deployments,
  daemon sets, cron jobs, services, ingresses, config maps, volume claims, secrets, the pods of etcd) and the services of the
  cloud behind them (accounts, databases, the service catalogue, policies, alerts, settings) in line with it. This development
  translates the Go code under \<open>src/pkg\<close> into HOL functions, one per Go function, and proves what makes them correct.

  \<^bold>\<open>How a pass runs.\<close> Events put the key of a cluster into the work queue; a worker takes it and calls
  \<open>controller_sync\<close>: the cluster is read, defaulted, written back, and \<open>UpdateOnecloudCluster\<close> runs the configuration manager,
  the certificates, etcd, the core components in their order, the dependent components in parallel and the monitor stack.
  The pass of one component is \<open>syncComponent\<close>, which asks the manager of the component, its factory, for the objects and makes
  the API server agree through the controls, and then runs the phase of the component in a session against the cloud. What a pass
  does is recorded in the status.

  \<^bold>\<open>The language of the model.\<close> \<open>OC_Base\<close> is the prelude. A Go call is a function from a state to a result and a state
  (\<open>go\<close>), and a result is a value, an error or a panic (\<open>Ret\<close>, \<open>Fail\<close>, \<open>Panic\<close>), so that early returns,
  \<open>errors.Wrap\<close>, deferred calls and nil dereferences are branches of the definitions. Errors are a datatype (\<open>goerr\<close>) with
  their causes. Iteration over a map takes the order as an argument, and nil maps are told from empty ones. Integers
  are \<open>int\<close> with conversions (\<open>int32\<close>) written out, or words where widths matter (\<open>HOL-Library.Word\<close>). A pointer into the
  specification that several builders share is a reference to it (\<open>ref_oc\<close>), and a write through it is seen by the builders that
  follow. \<open>go_simps\<close> evaluates programs of this kind.

  \<^bold>\<open>The theories.\<close>
  \<^item> \<open>K8s_Types\<close>, \<open>OC_Types\<close>, \<open>OC_Constants\<close>: the API types (\<open>pkg/apis/onecloud/v1alpha1/types.go\<close>) as records, and the constants
    (\<open>pkg/apis/constants\<close>).
  \<^item> \<open>OC_Defaults\<close>, \<open>Config_Defaults\<close> and \<open>OC_Defaults_Laws\<close>: the defaulting of the specification and of the configuration
    (\<open>v1alpha1/defaults.go\<close>). Defaulting twice is defaulting once, and the drawn passwords stay.
  \<^item> \<open>OC_Names\<close>, \<open>Net_IP\<close>: names of objects, labels, owner references, image references (\<open>pkg/label\<close>, \<open>pkg/controller/utils.go\<close>,
    \<open>pkg/util/image\<close>); IP addresses.
  \<^item> \<open>Etcd_Member\<close>, \<open>Etcd_Pod\<close>, \<open>Etcd_Manager\<close>, \<open>Etcd_Laws\<close>: member sets, the pod of a member and the manager of the etcd
    cluster (\<open>pkg/util/etcdutil\<close>, \<open>pkg/util/k8sutil\<close>, \<open>pkg/manager/component/etcd.go\<close>), whose state is the record
    \<open>etcdManager\<close>. No member is removed below a quorum, resizing makes progress, reconciliation stands still in the desired
    state and panics only when the API server answers the upgrade of a member with a pod that has no container or no annotations. \<open>member_sets\<close> is the interface of the member sets.
  \<^item> \<open>Kube_Api\<close>, \<open>Kube_Laws\<close>: the API server as the environment \<open>kube_env\<close> that answers from the calls made so far, the
    state \<open>kworld\<close> of a pass (the cluster, the calls), and the controls of \<open>pkg/controller/*_control.go\<close> with their
    retries on conflicts.
  \<^item> \<open>Last_Applied\<close>, \<open>Sync_Objects\<close>, \<open>Sync_Laws\<close>: the annotation with the last applied specification, \<open>syncComponent\<close> and all it
    synchronises (\<open>component.go\<close>, \<open>sync.go\<close>). \<open>factory\<close> is the interface \<open>cloudComponentFactory\<close>. A pass refines an abstract
    specification of create, update or delete, and a second pass on an unchanged cluster writes nothing.
  \<^item> \<open>Volumes\<close>, \<open>Workloads\<close>, \<open>Workload_Laws\<close>: the builders of workloads (\<open>component.go\<close>, \<open>utils.go\<close>): selectors match pods, services
    reach them, mounted volumes exist, default resources settle.
  \<^item> \<open>Service_Options\<close>, \<open>Managers\<close>, \<open>Managers_More\<close>, \<open>Managers_Agents\<close>, \<open>Managers_Nodes\<close>, \<open>Managers_Web\<close>: the managers of the
    components (\<open>pkg/manager/component/*.go\<close>) with the options of their services (\<open>pkg/service-init/component/*.go\<close>,
    \<open>pkg/util/option\<close>). \<open>Manager_Laws\<close>: registered endpoints are addresses of services (\<open>cloud_service\<close> is the
    contract of a manager with the catalogue), configuration files agree with the accounts, engines and ports set up, with the exceptions
    it names. \<open>Node_Laws\<close>: the agents stay on the nodes labelled for them, all but telegraf (\<open>host_service\<close> is
    the interface \<open>hostBasedService\<close>, interpreted for its six implementations). \<open>Web_Laws\<close>: what the front end forwards to.
  \<^item> \<open>Config_Manager\<close>, \<open>Certs\<close>: the configuration in its config map (\<open>pkg/manager/config\<close>), the certificates in their secrets
    (\<open>pkg/manager/certs\<close>, \<open>onecloud_cert.go\<close>, \<open>onecloud_etcd_cert.go\<close>): the addresses that etcd's members use are certified, and the
    members, their probes and the operator's client find their files in the secrets.
  \<^item> \<open>Work_Queue\<close>, \<open>Cluster_Control\<close>, \<open>Cluster_Laws\<close>: client-go's queue with the workers as a step relation
    (\<open>control_step\<close>), the event handlers and the pass (\<open>pkg/controller/cluster\<close>). Two workers never share a cluster, no event is
    lost, the checksum is recorded after every component has succeeded in that pass, but for a run that stops services. \<open>Cluster_Pass\<close> puts the managers into the loop
    (\<open>component_Sync\<close>): every name of the loop belongs to one manager, and keystone comes first.
  \<^item> \<open>Onecloud_Api\<close>, \<open>Monitor_Stack\<close>, \<open>Phase_Control\<close>, \<open>Global_Settings\<close>: the client of the cloud (\<open>pkg/util/onecloud\<close>) and the
    phases (\<open>onecloud_control.go\<close>, \<open>onecloud_policy.go\<close>, \<open>monitor_stack.go\<close>, \<open>yunoinconf.go\<close>). A session logs its requests,
    and the services are a function \<open>api\<close> of that log. \<open>Catalogue_Laws\<close>, \<open>Phase_Laws\<close>, \<open>Session_Laws\<close>: registration leaves
    the catalogue as wanted on every identity service that keeps a store (\<open>serves_store\<close>), alerts and settings reach a fixed
    point, the initialisation of region creates nothing it has recorded. \<open>Glance_S3\<close>: the switch of glance to the object store
    overwrites no setting but the five of the store.
  \<^item> \<open>Databases\<close>, \<open>Database_Laws\<close>: the connections to MySQL, Dameng and ClickHouse (\<open>pkg/util/mysql\<close>, \<open>dameng\<close>, \<open>clickhouse\<close>,
    \<open>dbutil\<close>) and the accounts made for services. \<open>db_connection\<close> is the interface \<open>IConnection\<close>, interpreted for the three
    servers.

  \<^bold>\<open>Parameters.\<close> Code that is not part of the repository is an argument: the API server and the etcd RPCs (\<open>kube_env\<close>,
  \<open>etcd_env\<close>), the services of the cloud and the SQL servers (\<open>api\<close>, \<open>sql_server\<close>), JSON and YAML codecs, hashing, templates,
  quantities, the image reference parser (\<open>options\<close>, \<open>json\<close>, \<open>settings_codec\<close>), key generation, signing and PEM (\<open>crypto\<close>),
  clocks and random draws. What a theorem needs of them is a hypothesis, and its witness gives a concrete function for them.

  \<^bold>\<open>Bounds and interleaving.\<close> The loop of etcd's background run has no end in the code: \<open>run_loop n\<close> is its first \<open>n\<close>
  passes, for every \<open>n\<close>. \<open>reportFailedStatus\<close> takes the bound of the code, the largest \<open>int64\<close>. A retry on conflict takes the
  steps of the back-off it is given. The goroutines of the error group run one after the other in an arbitrary order, since
  they work on different objects, and the components of a pass are an argument (\<open>sync\<close>) of the control loop, so that
  its theorems hold for any of them; \<open>component_Sync\<close> is the instance of the operator. Delays of the rate limiter are arbitrary: a delayed key may become due at any step.
  Sessions are serialised by a lock in the code and follow one another in the model.

  \<^bold>\<open>Not modelled.\<close> The generated clients, informers, listers and deep copies: an object is a value here, and the sharing that
  matters is modelled by references. The entry points, flags, leader election and the start of informers, the registration of the
  custom resource and waiting for the API server: calls of client libraries with no logic of their own. The docker-compose tool
  around \<open>pkg/service-init\<close>, which writes files, and \<open>telegraf-init\<close>. The polling waiter and the images of the language models.
  The text of the nginx, java and DNS templates: a template is a function of its name and fields. Helpers for certificates on disk,
  which the operator does not call.
\<close>

section \<open>The replication of MySQL, with the connection\<close>

text \<open>
  The check of the replication (\<open>Cluster_Control\<close>) takes the status of a server as the parameter \<open>co_slaveStatus\<close>. In the operator it is
  \<open>ShowSlaveStatus\<close> on a new connection to the host (\<open>Databases\<close>): a server without a row of status gives the nil map that the check
  panics on, a server with one gives a map.
\<close>

definition mysql_control :: "(kcall list \<Rightarrow> string \<Rightarrow> sql_server) \<Rightarrow> control_env \<Rightarrow> control_env" where
  "mysql_control server co = co\<lparr>co_slaveStatus := \<lambda>h host.
     case fst (ShowSlaveStatus (server h host) []) of Ret m \<Rightarrow> Inr m | Fail e \<Rightarrow> Inl e | Panic why \<Rightarrow> Inl (Errorf why)\<rparr>"

lemma mysql_control_status:
  assumes "sq_query (server h host) [] ''SHOW SLAVE STATUS'' [] = Inr rows" "rw_err rows = None"
    and "list_all (\<lambda>row. length row = length (rw_columns rows)) (rw_rows rows)"
  shows "\<exists>m. co_slaveStatus (mysql_control server co) h host = Inr m \<and> (m = None \<longleftrightarrow> rw_rows rows = [])"
  using assms by (cases "rw_rows rows")
    (auto simp: mysql_control_def ShowSlaveStatus_def sql_Query_def scanMap_def go_simps)

end
